(* ===== verification/Prelude.thy ===== *)
theory Prelude
  imports Main "HOL-Library.Multiset" "HOL-Library.Char_ord" "HOL-Library.List_Lexorder"
begin

text \<open>
  Shared material of the development: the collections the component theories add their
  facts to, the result type of operations that may raise, Python truthiness of optional
  strings, and the generic facts on lists, association lists and sorting that more than
  one component needs.

  Strings are compared as Python compares them, by code point from the left; this is the
  order of \<open>List_Lexorder\<close> over \<open>Char_ord\<close>. \<open>sorted(xs, key=f)\<close> is \<open>sort_key f xs\<close>, which is
  stable in the same way.
\<close>

named_theorems enum_simps "characteristic facts of enumerations and their values"
named_theorems gate_simps "facts that evaluate the steps of the cash gate"
named_theorems funding_simps "facts that evaluate the funding projection"
named_theorems cns_simps "facts that evaluate the net-settlement classification"
named_theorems log_simps "facts on append-only registers"

subsection \<open>Operations that may raise\<close>

type_synonym ('e, 'a) result = "'e + 'a"

definition require :: "bool \<Rightarrow> 'e \<Rightarrow> ('e, 'a) result \<Rightarrow> ('e, 'a) result" where
  "require c e k = (if c then k else Inl e)"

text \<open>
  \<open>require c e k\<close> is \<open>if not c: raise e\<close> followed by \<open>k\<close>: the guards of a constructor are a
  chain of such steps in the order the source has them.
\<close>

lemma require_eq_Inr_iff [simp]: "require c e k = Inr v \<longleftrightarrow> c \<and> k = Inr v"
  by (simp add: require_def)

lemma require_True [simp]: "require True e k = k"
  and require_False [simp]: "require False e k = Inl e"
  by (simp_all add: require_def)

subsection \<open>Truthiness\<close>

fun truthy :: "string option \<Rightarrow> bool" where
  "truthy None = False"
| "truthy (Some s) = (s \<noteq> [])"

lemma truthy_iff: "truthy x \<longleftrightarrow> (\<exists>s. x = Some s \<and> s \<noteq> [])"
  by (cases x) auto

subsection \<open>Stripping\<close>

text \<open>\<open>str.strip()\<close> on the characters below 256.\<close>

definition py_space :: "char \<Rightarrow> bool" where
  "py_space c \<longleftrightarrow> (let n = of_char c :: nat in
     (9 \<le> n \<and> n \<le> 13) \<or> (28 \<le> n \<and> n \<le> 32) \<or> n = 133 \<or> n = 160)"

definition py_strip :: "string \<Rightarrow> string" where
  "py_strip s = rev (dropWhile py_space (rev (dropWhile py_space s)))"

subsection \<open>Numbers as text\<close>

text \<open>\<open>str(n)\<close>.\<close>

fun nat_text :: "nat \<Rightarrow> string" where
  "nat_text n = (if n < 10 then [char_of (48 + n)] else nat_text (n div 10) @ [char_of (48 + n mod 10)])"

declare nat_text.simps [simp del]

definition int_text :: "int \<Rightarrow> string" where
  "int_text n = (if n < 0 then CHR ''-'' # nat_text (nat (- n)) else nat_text (nat n))"

subsection \<open>Lists and association lists\<close>

lemma find_unique:
  assumes "x \<in> set xs" and "P x" and "\<And>y. y \<in> set xs \<Longrightarrow> P y \<Longrightarrow> y = x"
  shows "find P xs = Some x"
  using assms
proof (induction xs)
  case (Cons y ys)
  show ?case
  proof (cases "P y")
    case True
    then have "y = x" by (intro Cons.prems(3)) auto
    with True show ?thesis by simp
  next
    case False
    with Cons.prems(1,2) have "x \<in> set ys" by auto
    then have "find P ys = Some x"
      by (rule Cons.IH) (rule Cons.prems(2), rule Cons.prems(3), auto)
    with False show ?thesis by simp
  qed
qed simp

lemma find_SomeD: "find P xs = Some x \<Longrightarrow> x \<in> set xs \<and> P x"
  by (auto simp: find_Some_iff)

lemma map_of_mset_cong:
  assumes "distinct (map fst xs)" and "mset xs = mset ys"
  shows "map_of xs = map_of ys"
proof -
  have "mset (map fst xs) = mset (map fst ys)" using assms(2) by (simp only: mset_map)
  then have "distinct (map fst ys)"
    using assms(1) mset_eq_imp_distinct_iff [of "map fst xs" "map fst ys"] by simp
  moreover have "set xs = set ys" using assms(2) by (rule mset_eq_setD)
  ultimately show ?thesis using assms(1) by (simp add: map_of_inject_set)
qed

lemma filter_unique_mset:
  assumes "mset xs = mset ys" and "\<And>x y. x \<in> set xs \<Longrightarrow> y \<in> set xs \<Longrightarrow> P x \<Longrightarrow> P y \<Longrightarrow> x = y"
  shows "filter P xs = filter P ys"
proof -
  have m: "mset (filter P xs) = mset (filter P ys)" using assms(1) by (simp add: mset_filter)
  have "\<exists>n a. filter P xs = replicate n a"
  proof (cases "filter P xs")
    case Nil
    then show ?thesis by (metis replicate_0)
  next
    case (Cons a as)
    then have "a \<in> set (filter P xs)" by simp
    then have a: "a \<in> set xs" "P a" by simp_all
    have "\<forall>b \<in> set (filter P xs). b = a" using assms(2) a by auto
    then show ?thesis by (metis replicate_length_same)
  qed
  then obtain n a where r: "filter P xs = replicate n a" by blast
  with m have "set (filter P ys) \<subseteq> {a}" "length (filter P ys) = n"
    by (metis mset_eq_setD set_replicate_conv_if empty_subsetI order_refl)
      (metis m mset_eq_length r length_replicate)
  then have "filter P ys = replicate n a" by (metis replicate_eqI singletonD subsetD)
  with r show ?thesis by simp
qed

lemma sort_key_mset_cong:
  assumes "mset xs = mset ys" and "inj_on f (set xs)"
  shows "sort_key f xs = sort_key f ys"
proof (rule properties_for_sort_key)
  show "mset (sort_key f ys) = mset xs" using assms(1) by simp
  show "sorted (map f (sort_key f ys))" by simp
  fix k assume "k \<in> set (sort_key f ys)"
  have "filter (\<lambda>x. f k = f x) (sort_key f ys) = filter (\<lambda>x. f k = f x) ys"
    using sort_key_stable [of f "f k" ys] by (simp add: eq_commute)
  also have "\<dots> = filter (\<lambda>x. f k = f x) xs"
    using assms(2) by (intro filter_unique_mset [OF assms(1) [symmetric]])
      (metis assms(1) inj_onD set_mset_mset)
  finally show "filter (\<lambda>x. f k = f x) (sort_key f ys) = filter (\<lambda>x. f k = f x) xs" .
qed

lemma set_mset_cong: "mset xs = mset ys \<Longrightarrow> set xs = set ys"
  by (metis set_mset_mset)

lemma sum_list_mset_cong: "mset xs = mset ys \<Longrightarrow> sum_list xs = sum_list (ys :: 'a :: comm_monoid_add list)"
  by (simp flip: sum_mset_sum_list)

lemma sum_map_mset_cong:
  "mset xs = mset ys \<Longrightarrow> sum_list (map f xs) = sum_list (map (f :: _ \<Rightarrow> 'a :: comm_monoid_add) ys)"
  by (rule sum_list_mset_cong) simp

lemma sort_key_Nil_iff [simp]: "sort_key f xs = [] \<longleftrightarrow> xs = []"
  by (metis length_0_conv length_sort)

lemma sort_key_map: "sort_key f (map g xs) = map g (sort_key (\<lambda>x. f (g x)) xs)"
proof (induction xs)
  case (Cons x xs)
  have "insort_key f (g x) (map g ys) = map g (insort_key (\<lambda>x. f (g x)) x ys)" for ys
    by (induction ys) simp_all
  with Cons show ?case by simp
qed simp

text \<open>Summing a list group by group.\<close>

lemma sum_list_by_key:
  fixes g :: "'a \<Rightarrow> 'b :: comm_monoid_add"
  assumes "finite A" and "f ` set xs \<subseteq> A"
  shows "(\<Sum>x\<leftarrow>xs. g x) = (\<Sum>a \<in> A. \<Sum>x\<leftarrow>filter (\<lambda>x. f x = a) xs. g x)"
  using assms(2)
proof (induction xs)
  case (Cons x xs)
  have "(\<Sum>a \<in> A. \<Sum>y\<leftarrow>filter (\<lambda>y. f y = a) (x # xs). g y) =
      (\<Sum>a \<in> A. (if f x = a then g x else 0) + (\<Sum>y\<leftarrow>filter (\<lambda>y. f y = a) xs. g y))"
    by (rule sum.cong) auto
  with Cons assms(1) show ?case by (simp add: sum.distrib)
qed simp

lemma sum_list_by_distinct_keys:
  fixes g :: "'a \<Rightarrow> 'b :: comm_monoid_add"
  assumes "distinct ks" and "f ` set xs \<subseteq> set ks"
  shows "(\<Sum>k\<leftarrow>ks. \<Sum>x\<leftarrow>filter (\<lambda>x. f x = k) xs. g x) = (\<Sum>x\<leftarrow>xs. g x)"
  using sum_list_by_key [of "set ks" f xs g] assms by (simp add: sum_list_distinct_conv_sum_set)

text \<open>Running fallible steps over a list, as a comprehension of constructors does.\<close>

fun collect :: "('e, 'a) result list \<Rightarrow> ('e, 'a list) result" where
  "collect [] = Inr []"
| "collect (r # rs) =
     (case r of Inl e \<Rightarrow> Inl e
      | Inr x \<Rightarrow> (case collect rs of Inl e \<Rightarrow> Inl e | Inr xs \<Rightarrow> Inr (x # xs)))"

lemma collect_Inr [simp]: "collect (map (\<lambda>x. Inr (f x)) xs) = Inr (map f xs)"
  by (induction xs) simp_all

lemma collect_map: "(\<And>x. x \<in> set xs \<Longrightarrow> g x = Inr (f x)) \<Longrightarrow> collect (map g xs) = Inr (map f xs)"
  by (induction xs) simp_all

end
