(* ===== verification/Decimal_Context.thy ===== *)
theory Decimal_Context
  imports Prelude Complex_Main
begin

text \<open>
  Python's \<open>decimal.Decimal\<close> as the source uses it: finite values only, under the default
  context (28 significant digits, \<open>ROUND_HALF_EVEN\<close>) or, in \<open>net_positions\<close>, under a local
  context of 80 digits. A finite Decimal is modelled by the rational it denotes, which is what
  Python's comparisons and \<open>==\<close> compare; the written exponent (\<open>1.0\<close> against \<open>1.00\<close>) is not kept,
  as no modelled decision reads it. Every arithmetic operation rounds its exact result:
  \<open>dround p\<close> is that rounding to \<open>p\<close> significant digits, so \<open>a + b\<close> of the source is
  \<open>dround 28 (a + b)\<close>. Unary minus and \<open>abs\<close> round in the same way. Exponents beyond the
  context's \<open>Emin\<close> and \<open>Emax\<close> (one million decimal places) are out of the model.

  The locale \<open>decimal_rounding\<close> is the interface the clients rely on: what a rounding keeps of
  order, sign and zero. It is interpreted for both contexts. The last part is the float that
  carries the stress reading, with the comparison rules of NaN and the infinities.
\<close>

subsection \<open>Rounding to significant digits\<close>

definition half_even :: "rat \<Rightarrow> int" where
  "half_even x =
     (let f = \<lfloor>x\<rfloor>; d = x - of_int f
      in if d < 1 / 2 then f else if d > 1 / 2 then f + 1
         else if even f then f else f + 1)"

fun ndigits :: "nat \<Rightarrow> nat" where
  "ndigits n = (if n < 10 then 1 else Suc (ndigits (n div 10)))"

declare ndigits.simps [simp del]

definition dec_mag :: "rat \<Rightarrow> int" where
  "dec_mag x =
     (if 1 \<le> \<bar>x\<bar> then int (ndigits (nat \<lfloor>\<bar>x\<bar>\<rfloor>)) - 1
      else - int (ndigits (nat (\<lceil>1 / \<bar>x\<bar>\<rceil> - 1))))"

definition dround :: "nat \<Rightarrow> rat \<Rightarrow> rat" where
  "dround p x =
     (if x = 0 then 0
      else let u = 10 powi (dec_mag x - (int p - 1)) in of_int (half_even (x / u)) * u)"

lemma half_even_of_int [simp]: "half_even (of_int n) = n"
  by (simp add: half_even_def)

lemma half_even_mono: "x \<le> y \<Longrightarrow> half_even x \<le> half_even y"
proof -
  assume xy: "x \<le> y"
  then have f: "\<lfloor>x\<rfloor> \<le> \<lfloor>y\<rfloor>" by (rule floor_mono)
  show ?thesis
  proof (cases "\<lfloor>x\<rfloor> = \<lfloor>y\<rfloor>")
    case True
    with xy show ?thesis by (auto simp: half_even_def Let_def)
  next
    case False
    with f have "\<lfloor>x\<rfloor> + 1 \<le> \<lfloor>y\<rfloor>" by simp
    then show ?thesis by (auto simp: half_even_def Let_def)
  qed
qed

lemma half_even_minus: "half_even (- x) = - half_even x"
proof (cases "x = of_int \<lfloor>x\<rfloor>")
  case True
  then obtain n where n: "x = of_int n" by blast
  then have "half_even (- x) = half_even (of_int (- n))" by simp
  then show ?thesis by (simp only: half_even_of_int n)
next
  case False
  then have c: "\<lceil>x\<rceil> = \<lfloor>x\<rfloor> + 1" by linarith
  then have "\<lfloor>- x\<rfloor> = - \<lfloor>x\<rfloor> - 1" by (simp add: floor_minus)
  then show ?thesis by (auto simp: half_even_def Let_def)
qed

lemma ndigits_pos [simp]: "0 < ndigits n"
  by (subst ndigits.simps) auto

lemma ndigits_bounds: "0 < n \<Longrightarrow> 10 ^ (ndigits n - 1) \<le> n \<and> n < 10 ^ ndigits n"
proof (induction n rule: ndigits.induct)
  case (1 n)
  show ?case
  proof (cases "n < 10")
    case True
    with 1 show ?thesis by (simp add: ndigits.simps [of n])
  next
    case False
    then have pos: "0 < n div 10" by simp
    with 1 False have IH: "10 ^ (ndigits (n div 10) - 1) \<le> n div 10" "n div 10 < 10 ^ ndigits (n div 10)"
      by simp_all
    obtain d where d: "ndigits (n div 10) = Suc d"
      using ndigits_pos [of "n div 10"] gr0_implies_Suc by blast
    have "10 * 10 ^ d \<le> n" using IH(1) d by simp
    moreover have "n < 10 * (10 * 10 ^ d)" using IH(2) d by simp
    ultimately show ?thesis using False d by (simp add: ndigits.simps [of n])
  qed
qed


lemma p10_pos [simp]: "0 < (10 :: rat) powi k"
  by (simp add: zero_less_power_int)

lemma p10_neq0 [simp]: "(10 :: rat) powi k \<noteq> 0"
  by (metis p10_pos less_irrefl)

lemma p10_add: "(10 :: rat) powi (i + j) = 10 powi i * 10 powi j"
  by (simp add: power_int_add)

lemma p10_mono: "i \<le> j \<Longrightarrow> (10 :: rat) powi i \<le> 10 powi j"
proof -
  assume "i \<le> j"
  then obtain n where "j = i + int n" by (metis zle_iff_zadd)
  then show ?thesis by (simp add: p10_add power_int_of_nat)
qed

lemma p10_strict_mono: "i < j \<Longrightarrow> (10 :: rat) powi i < 10 powi j"
proof -
  assume "i < j"
  then have "(10 :: rat) powi (i + 1) \<le> 10 powi j" by (intro p10_mono) simp
  moreover have "(10 :: rat) powi (i + 1) = 10 * 10 powi i" by (simp add: p10_add)
  ultimately show ?thesis using p10_pos [of i] by linarith
qed

lemma p10_less_iff: "(10 :: rat) powi i < 10 powi j \<longleftrightarrow> i < j"
  by (metis p10_mono p10_strict_mono linorder_not_less)

lemma dec_mag_bounds:
  assumes "x \<noteq> 0"
  shows "10 powi dec_mag x \<le> \<bar>x\<bar>" and "\<bar>x\<bar> < 10 powi (dec_mag x + 1)"
proof -
  have "10 powi dec_mag x \<le> \<bar>x\<bar> \<and> \<bar>x\<bar> < 10 powi (dec_mag x + 1)"
  proof (cases "1 \<le> \<bar>x\<bar>")
    case True
    define n where "n = nat \<lfloor>\<bar>x\<bar>\<rfloor>"
    with True have n: "0 < n" "of_nat n \<le> \<bar>x\<bar>" "\<bar>x\<bar> < of_nat (n + 1)"
      by (simp_all, linarith+)
    have m: "dec_mag x = int (ndigits n - 1)"
      using True by (simp add: dec_mag_def n_def int_ops(6) Suc_leI)
    have "of_nat (10 ^ (ndigits n - 1)) \<le> (of_nat n :: rat)"
      using ndigits_bounds [OF n(1)] by (simp only: of_nat_le_iff)
    moreover have "of_nat (n + 1) \<le> (of_nat (10 ^ ndigits n) :: rat)"
      using ndigits_bounds [OF n(1)] by (simp only: of_nat_le_iff Suc_eq_plus1 [symmetric] Suc_le_eq)
    moreover have "dec_mag x + 1 = int (ndigits n)"
      using ndigits_pos [of n] by (cases "ndigits n") (simp_all add: m del: ndigits_pos)
    then have "10 powi (dec_mag x + 1) = (of_nat (10 ^ ndigits n) :: rat)"
      by (simp only: power_int_of_nat) simp
    moreover have "10 powi dec_mag x = (of_nat (10 ^ (ndigits n - 1)) :: rat)"
      by (simp only: m power_int_of_nat) simp
    ultimately show ?thesis using n by linarith
  next
    case False
    define n where "n = nat (\<lceil>1 / \<bar>x\<bar>\<rceil> - 1)"
    have gt: "1 < 1 / \<bar>x\<bar>" using False assms by simp
    then have "1 < \<lceil>1 / \<bar>x\<bar>\<rceil>" by linarith
    then have n: "0 < n" "of_nat n < 1 / \<bar>x\<bar>" "1 / \<bar>x\<bar> \<le> of_nat (n + 1)"
      by (simp_all add: n_def, linarith+)
    have m: "dec_mag x = - int (ndigits n)"
      using False by (simp add: dec_mag_def n_def)
    then have m1: "dec_mag x + 1 = - int (ndigits n - 1)"
      using ndigits_pos [of n] by (cases "ndigits n") (simp_all del: ndigits_pos)
    have "of_nat (n + 1) \<le> (of_nat (10 ^ ndigits n) :: rat)"
      using ndigits_bounds [OF n(1)] by (simp only: of_nat_le_iff Suc_eq_plus1 [symmetric] Suc_le_eq)
    with n(3) have "1 / \<bar>x\<bar> \<le> 10 ^ ndigits n" by simp
    then have "1 / 10 ^ ndigits n \<le> \<bar>x\<bar>" using assms by (simp add: field_simps)
    moreover have "of_nat (10 ^ (ndigits n - 1)) \<le> (of_nat n :: rat)"
      using ndigits_bounds [OF n(1)] by (simp only: of_nat_le_iff)
    with n(2) have "of_nat (10 ^ (ndigits n - 1)) < 1 / \<bar>x\<bar>" by (rule le_less_trans [rotated])
    then have "10 ^ (ndigits n - 1) < 1 / \<bar>x\<bar>" by simp
    then have "\<bar>x\<bar> < 1 / 10 ^ (ndigits n - 1)" using assms by (simp add: field_simps)
    moreover have "10 powi dec_mag x = (1 / 10 ^ ndigits n :: rat)"
      by (simp only: m power_int_minus_divide power_int_of_nat)
    moreover have "10 powi (dec_mag x + 1) = (1 / 10 ^ (ndigits n - 1) :: rat)"
      by (simp only: m1 power_int_minus_divide power_int_of_nat)
    ultimately show ?thesis by simp
  qed
  then show "10 powi dec_mag x \<le> \<bar>x\<bar>" and "\<bar>x\<bar> < 10 powi (dec_mag x + 1)" by auto
qed

lemma dec_mag_minus [simp]: "dec_mag (- x) = dec_mag x"
  by (simp add: dec_mag_def)

lemma dec_mag_mono: "x \<noteq> 0 \<Longrightarrow> \<bar>x\<bar> \<le> \<bar>y\<bar> \<Longrightarrow> dec_mag x \<le> dec_mag y"
proof -
  assume "x \<noteq> 0" "\<bar>x\<bar> \<le> \<bar>y\<bar>"
  then have "10 powi dec_mag x < (10 :: rat) powi (dec_mag y + 1)"
    using dec_mag_bounds(1) [of x] dec_mag_bounds(2) [of y] by fastforce
  then show ?thesis by (simp add: p10_less_iff)
qed

lemma dround_0 [simp]: "dround p 0 = 0"
  by (simp add: dround_def)

lemma dround_minus: "dround p (- x) = - dround p x"
  by (simp add: dround_def Let_def half_even_minus)

definition ulp :: "nat \<Rightarrow> rat \<Rightarrow> rat" where
  "ulp p x = 10 powi (dec_mag x - (int p - 1))"

lemma ulp_pos [simp]: "0 < ulp p x"
  by (simp add: ulp_def)

lemma dround_ulp: "x \<noteq> 0 \<Longrightarrow> dround p x = of_int (half_even (x / ulp p x)) * ulp p x"
  by (simp add: dround_def Let_def ulp_def)

lemma dround_pos_bounds:
  assumes "0 < x" and "1 \<le> p"
  shows "10 powi dec_mag x \<le> dround p x" and "dround p x \<le> 10 powi (dec_mag x + 1)"
proof -
  have lo: "10 powi dec_mag x = 10 ^ (p - 1) * ulp p x"
    and hi: "10 powi (dec_mag x + 1) = 10 ^ p * ulp p x"
    using assms(2) by (simp_all add: ulp_def of_nat_diff flip: p10_add power_int_of_nat)
  have "of_int (10 ^ (p - 1)) \<le> x / ulp p x"
    using dec_mag_bounds(1) [of x] assms(1) by (simp add: lo pos_le_divide_eq)
  then have "10 ^ (p - 1) \<le> half_even (x / ulp p x)"
    by (metis half_even_mono half_even_of_int)
  then have "of_int (10 ^ (p - 1)) \<le> (of_int (half_even (x / ulp p x)) :: rat)"
    by (simp only: of_int_le_iff)
  then show "10 powi dec_mag x \<le> dround p x"
    using assms(1) by (simp add: lo dround_ulp)
  have "x / ulp p x \<le> of_int (10 ^ p)"
    using dec_mag_bounds(2) [of x] assms(1) by (simp add: hi pos_divide_le_eq)
  then have "half_even (x / ulp p x) \<le> 10 ^ p"
    by (metis half_even_mono half_even_of_int)
  then have "(of_int (half_even (x / ulp p x)) :: rat) \<le> of_int (10 ^ p)"
    by (simp only: of_int_le_iff)
  then show "dround p x \<le> 10 powi (dec_mag x + 1)"
    using assms(1) by (simp add: hi dround_ulp)
qed

lemma dround_pos: "0 < x \<Longrightarrow> 1 \<le> p \<Longrightarrow> 0 < dround p x"
  using dround_pos_bounds(1) [of x p] p10_pos [of "dec_mag x"] by linarith

lemma dround_mono_pos:
  assumes "0 < x" and "x \<le> y" and "1 \<le> p"
  shows "dround p x \<le> dround p y"
proof (cases "dec_mag x = dec_mag y")
  case True
  then have u: "ulp p y = ulp p x" by (simp add: ulp_def)
  have "half_even (x / ulp p x) \<le> half_even (y / ulp p x)"
    using assms by (intro half_even_mono divide_right_mono) (simp_all add: less_imp_le)
  then show ?thesis using assms by (simp add: dround_ulp u)
next
  case False
  with dec_mag_mono [of x y] assms have "dec_mag x + 1 \<le> dec_mag y" by simp
  then have "(10 :: rat) powi (dec_mag x + 1) \<le> 10 powi dec_mag y" by (rule p10_mono)
  then show ?thesis
    using dround_pos_bounds(2) [of x p] dround_pos_bounds(1) [of y p] assms by linarith
qed

lemma dround_mono:
  assumes "1 \<le> p" and "x \<le> y"
  shows "dround p x \<le> dround p y"
proof -
  consider "0 < x" | "y < 0" | "x \<le> 0" "0 \<le> y" by linarith
  then show ?thesis
  proof cases
    case 1
    with assms show ?thesis by (intro dround_mono_pos)
  next
    case 2
    with assms have "dround p (- y) \<le> dround p (- x)" by (intro dround_mono_pos) simp_all
    then show ?thesis by (simp add: dround_minus)
  next
    case 3
    have "dround p x \<le> 0"
      using 3 dround_pos [of "- x" p] assms(1) by (cases "x = 0") (auto simp: dround_minus)
    moreover have "0 \<le> dround p y"
      using 3 dround_pos [of y p] assms(1) by (cases "y = 0") auto
    ultimately show ?thesis by simp
  qed
qed

definition representable :: "nat \<Rightarrow> rat \<Rightarrow> bool" where
  "representable p x \<longleftrightarrow> (\<exists>n k. x = of_int n * 10 powi k \<and> \<bar>n\<bar> \<le> 10 ^ p)"

lemma dround_multiple:
  assumes "x \<noteq> 0" and "x = of_int n * ulp p x"
  shows "dround p x = x"
proof -
  have "ulp p x \<noteq> 0" by (simp add: ulp_def)
  then have "x / ulp p x = of_int n" using assms(2) by (metis nonzero_mult_div_cancel_right)
  then show ?thesis using assms by (simp add: dround_ulp)
qed

lemma dround_exact:
  assumes "1 \<le> p" and "representable p x"
  shows "dround p x = x"
proof (cases "x = 0")
  case False
  from assms(2) obtain n k where x: "x = of_int n * 10 powi k" and n: "\<bar>n\<bar> \<le> 10 ^ p"
    by (auto simp: representable_def)
  show ?thesis
  proof (cases "\<bar>n\<bar> = 10 ^ p")
    case True
    then have "\<bar>x\<bar> = 10 powi (k + int p)"
      by (simp add: x abs_mult p10_add power_int_of_nat flip: of_int_abs)
    then have "(10 :: rat) powi (k + int p) < 10 powi (dec_mag x + 1)"
      using dec_mag_bounds(2) [OF False] by simp
    then have le: "k + int p \<le> dec_mag x" by (simp add: p10_less_iff)
    have "10 powi dec_mag x \<le> (10 :: rat) powi (k + int p)"
      using dec_mag_bounds(1) [OF False] \<open>\<bar>x\<bar> = 10 powi (k + int p)\<close> by simp
    then have "dec_mag x = k + int p" using le p10_strict_mono [of "k + int p" "dec_mag x"] by force
    then have "ulp p x = 10 powi (k + 1)" by (simp add: ulp_def)
    moreover have "n = sgn n * 10 ^ (p - 1) * 10"
      using True assms(1) by (metis abs_mult_sgn mult.commute mult.assoc power_minus_mult less_le_trans zero_less_one)
    then have "of_int n = (of_int (sgn n * 10 ^ (p - 1)) :: rat) * 10" by (metis of_int_mult of_int_numeral)
    ultimately have "x = of_int (sgn n * 10 ^ (p - 1)) * ulp p x" by (simp add: x p10_add)
    with False show ?thesis by (rule dround_multiple)
  next
    case neq: False
    with n have "\<bar>n\<bar> < 10 ^ p" by simp
    then have "\<bar>x\<bar> < 10 powi (k + int p)"
      by (simp add: x abs_mult p10_add power_int_of_nat flip: of_int_abs)
    then have "(10 :: rat) powi dec_mag x < 10 powi (k + int p)"
      using dec_mag_bounds(1) [OF False] by linarith
    then have "dec_mag x - (int p - 1) \<le> k" by (simp add: p10_less_iff)
    then obtain j where "k = dec_mag x - (int p - 1) + int j" by (metis zle_iff_zadd)
    then have "10 powi k = (10 :: rat) ^ j * ulp p x"
      unfolding ulp_def by (metis p10_add power_int_of_nat mult.commute)
    then have "x = of_int (n * 10 ^ j) * ulp p x" by (subst x) simp
    with False show ?thesis by (rule dround_multiple)
  qed
qed simp

lemma representable_dround:
  assumes "1 \<le> p"
  shows "representable p (dround p x)"
proof (cases "x = 0")
  case True
  have "\<bar>0 :: int\<bar> \<le> 10 ^ p" by simp
  with True show ?thesis unfolding representable_def by (intro exI [of _ 0]) simp
next
  case False
  define m where "m = half_even (\<bar>x\<bar> / ulp p x)"
  have ax: "dround p \<bar>x\<bar> = of_int m * ulp p x" 
    using False dround_ulp [of "\<bar>x\<bar>" p] by (simp add: m_def ulp_def abs_if)
  have "10 powi (dec_mag x + 1) = 10 ^ p * ulp p x"
    using assms by (simp add: ulp_def flip: p10_add power_int_of_nat)
  moreover have "dround p \<bar>x\<bar> \<le> 10 powi (dec_mag \<bar>x\<bar> + 1)" "0 < dround p \<bar>x\<bar>"
    using dround_pos_bounds(2) [of "\<bar>x\<bar>" p] dround_pos [of "\<bar>x\<bar>" p] False assms by auto
  moreover have "dec_mag \<bar>x\<bar> = dec_mag x" by (simp add: abs_if)
  ultimately have "of_int m * ulp p x \<le> 10 ^ p * ulp p x" "0 < of_int m * ulp p x"
    by (simp_all add: ax)
  then have "of_int m \<le> (of_int (10 ^ p) :: rat)" "0 < m"
    using ulp_pos [of p x] by (simp_all add: zero_less_mult_iff)
  then have m: "\<bar>m\<bar> \<le> 10 ^ p" by (simp only: of_int_le_iff)
  have "dround p x = of_int (if x < 0 then - m else m) * 10 powi (dec_mag x - (int p - 1))"
    using ax by (auto simp: ulp_def abs_if dround_minus split: if_splits)
  moreover have "\<bar>if x < 0 then - m else m\<bar> \<le> 10 ^ p" using m by simp
  ultimately show ?thesis unfolding representable_def by blast
qed

lemma dround_idem: "1 \<le> p \<Longrightarrow> dround p (dround p x) = dround p x"
  by (simp add: dround_exact representable_dround)

subsection \<open>The interface clients rely on\<close>

locale decimal_rounding =
  fixes rnd :: "rat \<Rightarrow> rat"
  assumes rnd_mono: "x \<le> y \<Longrightarrow> rnd x \<le> rnd y"
    and rnd_minus: "rnd (- x) = - rnd x"
    and rnd_idem: "rnd (rnd x) = rnd x"
    and rnd_pos: "0 < x \<Longrightarrow> 0 < rnd x"
begin

lemma rnd_0 [simp]: "rnd 0 = 0"
  using rnd_minus [of 0] by simp

lemma rnd_neg: "x < 0 \<Longrightarrow> rnd x < 0"
  using rnd_pos [of "- x"] by (simp add: rnd_minus)

lemma rnd_pos_iff [simp]: "0 < rnd x \<longleftrightarrow> 0 < x"
  using rnd_neg [of x] rnd_pos [of x] by (cases x "0 :: rat" rule: linorder_cases) auto

lemma rnd_neg_iff [simp]: "rnd x < 0 \<longleftrightarrow> x < 0"
  using rnd_pos_iff [of "- x"] by (simp add: rnd_minus)

lemma rnd_eq_0_iff [simp]: "rnd x = 0 \<longleftrightarrow> x = 0"
  using rnd_neg [of x] rnd_pos [of x]
  by (cases x "0 :: rat" rule: linorder_cases) (simp_all add: less_le)

lemma rnd_nonneg_iff [simp]: "0 \<le> rnd x \<longleftrightarrow> 0 \<le> x"
  by (simp flip: linorder_not_less)

lemma rnd_nonpos_iff [simp]: "rnd x \<le> 0 \<longleftrightarrow> x \<le> 0"
  by (simp flip: linorder_not_less)

text \<open>A rounded difference is zero, positive or negative exactly when the exact one is.\<close>

lemma rnd_diff_eq_0 [simp]: "rnd (x - y) = 0 \<longleftrightarrow> x = y"
  by simp

lemma max_rnd_eq_0: "max 0 (rnd (x - y)) = 0 \<longleftrightarrow> x \<le> y"
  by (simp add: max_def)

lemma rnd_abs: "rnd \<bar>x\<bar> = \<bar>rnd x\<bar>"
  by (cases "0 \<le> x") (simp_all add: abs_if rnd_minus)

end

interpretation ctx: decimal_rounding "dround 28"
  by unfold_locales (simp_all add: dround_mono dround_minus dround_idem dround_pos)

interpretation wide: decimal_rounding "dround 80"
  by unfold_locales (simp_all add: dround_mono dround_minus dround_idem dround_pos)

abbreviation rnd28 :: "rat \<Rightarrow> rat" where
  "rnd28 \<equiv> dround 28"

subsection \<open>Amounts on a grid add exactly\<close>

text \<open>
  Amounts that are whole multiples of \<open>10 powi k\<close> (cents, for \<open>k = -2\<close>) and whose absolute sum
  stays within 28 digits of that unit are added without rounding.
\<close>

definition on_grid :: "int \<Rightarrow> rat \<Rightarrow> bool" where
  "on_grid k x \<longleftrightarrow> (\<exists>n. x = of_int n * 10 powi k)"

lemma on_gridI: "x = of_int n * 10 powi k \<Longrightarrow> on_grid k x"
  by (auto simp: on_grid_def)

lemma on_grid_0 [simp]: "on_grid k 0"
  by (rule on_gridI [of _ 0]) simp

lemma on_grid_add [intro]: "on_grid k x \<Longrightarrow> on_grid k y \<Longrightarrow> on_grid k (x + y)"
  unfolding on_grid_def by (metis distrib_right of_int_add)

lemma on_grid_minus [intro]: "on_grid k x \<Longrightarrow> on_grid k (- x)"
  unfolding on_grid_def by (metis minus_mult_left of_int_minus)

lemma on_grid_diff [intro]: "on_grid k x \<Longrightarrow> on_grid k y \<Longrightarrow> on_grid k (x - y)"
  using on_grid_add [of k x "- y"] on_grid_minus [of k y] by simp

lemma on_grid_of_int: "k \<le> 0 \<Longrightarrow> on_grid k (of_int n)"
proof (rule on_gridI)
  assume "k \<le> 0"
  then have "k = - int (nat (- k))" by simp
  then have "(10 :: rat) ^ nat (- k) * 10 powi k = 1"
    by (metis p10_neq0 power_int_minus power_int_of_nat right_inverse)
  then show "of_int n = of_int (n * 10 ^ nat (- k)) * (10 :: rat) powi k" by simp
qed

lemma dround_on_grid:
  assumes "on_grid k x" and "\<bar>x\<bar> \<le> 10 powi (k + int p)" and "1 \<le> p"
  shows "dround p x = x"
proof -
  from assms(1) obtain n where x: "x = of_int n * 10 powi k" by (auto simp: on_grid_def)
  have "of_int \<bar>n\<bar> * 10 powi k \<le> (10 :: rat) ^ p * 10 powi k"
    using assms(2) by (simp add: x abs_mult p10_add power_int_of_nat mult.commute)
  then have "of_int \<bar>n\<bar> \<le> (of_int (10 ^ p) :: rat)" by simp
  then have "\<bar>n\<bar> \<le> 10 ^ p" by (simp only: of_int_le_iff)
  with x have "representable p x" by (auto simp: representable_def)
  with assms(3) show ?thesis by (rule dround_exact)
qed

lemma dround_of_int:
  assumes "\<bar>n\<bar> \<le> 10 ^ p" and "1 \<le> p"
  shows "dround p (of_int n) = of_int n"
proof (rule dround_on_grid [of 0])
  show "on_grid 0 (of_int n)" by (rule on_gridI [of _ n]) simp
  have "of_int \<bar>n\<bar> \<le> (of_int (10 ^ p) :: rat)" using assms(1) by (simp only: of_int_le_iff)
  then show "\<bar>of_int n\<bar> \<le> (10 :: rat) powi (0 + int p)" by (simp add: power_int_of_nat)
qed (rule assms)

lemma rnd28_1 [simp]: "rnd28 1 = 1"
  and rnd28_numeral [simp]: "numeral m \<le> (10 :: int) ^ 28 \<Longrightarrow> rnd28 (numeral m) = numeral m"
  and rnd28_neg_numeral [simp]:
    "numeral m \<le> (10 :: int) ^ 28 \<Longrightarrow> rnd28 (- numeral m) = - numeral m"
  using dround_of_int [of 1 28] dround_of_int [of "numeral m" 28]
  by (simp_all add: dround_minus)

definition dsum_from :: "nat \<Rightarrow> rat \<Rightarrow> rat list \<Rightarrow> rat" where
  "dsum_from p s xs = foldl (\<lambda>a x. dround p (a + x)) s xs"

lemma dsum_from_Nil [simp]: "dsum_from p s [] = s"
  and dsum_from_Cons [simp]: "dsum_from p s (x # xs) = dsum_from p (dround p (s + x)) xs"
  and dsum_from_snoc: "dsum_from p s (xs @ [x]) = dround p (dsum_from p s xs + x)"
  by (simp_all add: dsum_from_def)

lemma dsum_from_exact:
  assumes "\<forall>x \<in> set xs. on_grid k x" and "on_grid k s" and "1 \<le> p"
    and "\<bar>s\<bar> + (\<Sum>x\<leftarrow>xs. \<bar>x\<bar>) \<le> 10 powi (k + int p)"
  shows "dsum_from p s xs = s + sum_list xs"
  using assms
proof (induction xs arbitrary: s)
  case (Cons x xs)
  have nn: "0 \<le> (\<Sum>x\<leftarrow>xs. \<bar>x\<bar>)" by (rule sum_list_nonneg) auto
  have "dround p (s + x) = s + x"
    using Cons.prems nn by (intro dround_on_grid [of k]) auto
  moreover have "dsum_from p (s + x) xs = s + x + sum_list xs"
    using Cons.prems by (intro Cons.IH) auto
  ultimately show ?case by simp
qed simp

lemma dround_nonneg: "0 \<le> x \<Longrightarrow> 1 \<le> p \<Longrightarrow> 0 \<le> dround p x"
  using dround_pos [of x p] by (cases "x = 0") auto

lemma dsum_mono:
  assumes "list_all2 (\<le>) xs ys" and "s \<le> s'" and "1 \<le> p"
  shows "dsum_from p s xs \<le> dsum_from p s' ys"
  using assms
proof (induction xs ys arbitrary: s s' rule: list_all2_induct)
  case (Cons x xs y ys)
  have "dround p (s + x) \<le> dround p (s' + y)" using Cons by (intro dround_mono add_mono) simp_all
  with Cons show ?case by simp
qed simp

lemma dsum_filter_exact:
  assumes "\<forall>x \<in> set xs. on_grid k (f x)" and "(\<Sum>x\<leftarrow>xs. \<bar>f x\<bar>) \<le> 10 powi (k + 28)"
  shows "dsum_from 28 0 (map f (filter P xs)) = (\<Sum>x\<leftarrow>filter P xs. f x)"
proof -
  have "(\<Sum>x\<leftarrow>filter P xs. \<bar>f x\<bar>) \<le> (\<Sum>x\<leftarrow>xs. \<bar>f x\<bar>)" by (induction xs) (auto simp: add_increasing)
  with assms show ?thesis using dsum_from_exact [of "map f (filter P xs)" k 0 28] by (simp add: o_def)
qed

subsection \<open>Floats\<close>

datatype pyfloat = Finite rat | Pos_Inf | Neg_Inf | NaN

text \<open>\<open>math.isfinite\<close>, and \<open>>\<close> and \<open>>=\<close> against a finite constant; NaN compares False.\<close>

fun isfinite :: "pyfloat \<Rightarrow> bool" where
  "isfinite (Finite _) = True"
| "isfinite _ = False"

fun float_gt :: "pyfloat \<Rightarrow> rat \<Rightarrow> bool" where
  "float_gt (Finite x) c = (x > c)"
| "float_gt Pos_Inf c = True"
| "float_gt Neg_Inf c = False"
| "float_gt NaN c = False"

fun float_ge :: "pyfloat \<Rightarrow> rat \<Rightarrow> bool" where
  "float_ge (Finite x) c = (x \<ge> c)"
| "float_ge Pos_Inf c = True"
| "float_ge Neg_Inf c = False"
| "float_ge NaN c = False"

lemma isfinite_iff: "isfinite x \<longleftrightarrow> (\<exists>q. x = Finite q)"
  by (cases x) auto

subsection \<open>What a Decimal argument may hold\<close>

text \<open>
  A value annotated \<open>Decimal\<close> may in Python be a finite Decimal, a non-finite one, an integer,
  a boolean (an integer subclass) or any other object.
\<close>

datatype decimal_arg = Dec rat | Dec_Nonfinite | Py_Int int | Py_Bool bool | Not_Decimal

fun is_finite_decimal :: "decimal_arg \<Rightarrow> bool" where
  "is_finite_decimal (Dec _) = True"
| "is_finite_decimal _ = False"

lemma is_finite_decimal_iff: "is_finite_decimal x \<longleftrightarrow> (\<exists>r. x = Dec r)"
  by (cases x) simp_all

end
