(* ===== verification/Decimal_Text.thy ===== *)
theory Decimal_Text
  imports Decimal_Context
begin

text \<open>
  Decimals as Python stores and writes them: a sign, a coefficient and an exponent, the text
  \<open>format(d, 'f')\<close> writes and the text \<open>Decimal(s)\<close> reads. Text is of characters below 256, so the
  only digits \<open>Decimal\<close> reads are \<open>0\<close> to \<open>9\<close>; exponents beyond the limits of the module are out of
  the model.
\<close>

subsection \<open>Values\<close>

datatype py_decimal = Num bool nat int | Infinite bool | Quiet_NaN | Signal_NaN

fun num_value :: "py_decimal \<Rightarrow> rat" where
  "num_value (Num s c e) = (if s then - of_nat c else of_nat c) * 10 powi e"
| "num_value _ = 0"

fun finite_num :: "py_decimal \<Rightarrow> bool" where
  "finite_num (Num s c e) = True"
| "finite_num _ = False"

text \<open>\<open>a != b\<close>: a signalling NaN raises.\<close>

definition num_ne :: "py_decimal \<Rightarrow> py_decimal \<Rightarrow> (unit, bool) result" where
  "num_ne a b =
     (if a = Signal_NaN \<or> b = Signal_NaN then Inl ()
      else if a = Quiet_NaN \<or> b = Quiet_NaN then Inr True
      else if finite_num a \<and> finite_num b then Inr (num_value a \<noteq> num_value b)
      else Inr (a \<noteq> b))"

subsection \<open>Digits\<close>

definition digit_char :: "nat \<Rightarrow> char" where
  "digit_char n = char_of (48 + n)"

definition is_digit :: "char \<Rightarrow> bool" where
  "is_digit c \<longleftrightarrow> 48 \<le> (of_char c :: nat) \<and> (of_char c :: nat) \<le> 57"

definition digit_value :: "char \<Rightarrow> nat" where
  "digit_value c = of_char c - 48"

definition digits_value :: "string \<Rightarrow> nat" where
  "digits_value s = foldl (\<lambda>n c. 10 * n + digit_value c) 0 s"

subsection \<open>Writing\<close>

definition fixed_digits :: "nat \<Rightarrow> int \<Rightarrow> string" where
  "fixed_digits c e =
     (if e \<ge> 0 then (if c = 0 then ''0'' else nat_text c @ replicate (nat e) (CHR ''0''))
      else let k = nat (- e); d = nat_text c;
               p = (if length d \<le> k then replicate (k + 1 - length d) (CHR ''0'') @ d else d) in
           take (length p - k) p @ CHR ''.'' # drop (length p - k) p)"

definition format_f :: "py_decimal \<Rightarrow> string" where
  "format_f d = (case d of
     Num s c e \<Rightarrow> (if s then [CHR ''-''] else []) @ fixed_digits c e
   | Infinite s \<Rightarrow> (if s then ''-Infinity'' else ''Infinity'')
   | Quiet_NaN \<Rightarrow> ''NaN'' | Signal_NaN \<Rightarrow> ''sNaN'')"

subsection \<open>Reading\<close>

definition lower_char :: "char \<Rightarrow> char" where
  "lower_char c = (if 65 \<le> (of_char c :: nat) \<and> (of_char c :: nat) \<le> 90 then char_of (of_char c + 32 :: nat) else c)"

definition read_exponent :: "string \<Rightarrow> int option" where
  "read_exponent s =
     (case s of [] \<Rightarrow> Some 0
      | c # r \<Rightarrow>
          (if lower_char c \<noteq> CHR ''e'' then None
           else let sg = (r \<noteq> [] \<and> hd r \<in> {CHR ''+'', CHR ''-''});
                    ds = (if sg then tl r else r) in
                if ds = [] \<or> \<not> list_all is_digit ds then None
                else Some ((if sg \<and> hd r = CHR ''-'' then - 1 else 1) * int (digits_value ds))))"

definition read_number :: "bool \<Rightarrow> string \<Rightarrow> py_decimal option" where
  "read_number s t =
     (let whole = takeWhile is_digit t; r = dropWhile is_digit t;
          frac = (if r \<noteq> [] \<and> hd r = CHR ''.'' then takeWhile is_digit (tl r) else []);
          r' = (if r \<noteq> [] \<and> hd r = CHR ''.'' then dropWhile is_digit (tl r) else r) in
      if whole @ frac = [] then None
      else case read_exponent r' of None \<Rightarrow> None
           | Some x \<Rightarrow> Some (Num s (digits_value (whole @ frac)) (x - int (length frac))))"

definition read_unsigned :: "bool \<Rightarrow> string \<Rightarrow> py_decimal option" where
  "read_unsigned s t =
     (let l = map lower_char t in
      if l = ''inf'' \<or> l = ''infinity'' then Some (Infinite s)
      else if take 3 l = ''nan'' \<and> list_all is_digit (drop 3 l) then Some Quiet_NaN
      else if take 4 l = ''snan'' \<and> list_all is_digit (drop 4 l) then Some Signal_NaN
      else read_number s t)"

definition read_decimal :: "string \<Rightarrow> py_decimal option" where
  "read_decimal s =
     (let t = filter (\<lambda>c. c \<noteq> CHR ''_'') (py_strip s) in
      if t \<noteq> [] \<and> hd t \<in> {CHR ''+'', CHR ''-''} then read_unsigned (hd t = CHR ''-'') (tl t)
      else read_unsigned False t)"

subsection \<open>What was written reads back\<close>

lemma is_digit_char: "n < 10 \<Longrightarrow> is_digit (char_of (48 + n :: nat))"
  by (simp add: is_digit_def)

lemma digit_value_char: "n < 10 \<Longrightarrow> digit_value (char_of (48 + n :: nat)) = n"
  by (simp add: digit_value_def)

lemma nat_text_small: "n < 10 \<Longrightarrow> nat_text n = [char_of (48 + n)]"
  by (simp add: nat_text.simps)

lemma nat_text_big: "\<not> n < 10 \<Longrightarrow> nat_text n = nat_text (n div 10) @ [char_of (48 + n mod 10)]"
  by (subst nat_text.simps) simp

lemma nat_text_digits: "nat_text n \<noteq> [] \<and> list_all is_digit (nat_text n)"
proof (induction n rule: nat_text.induct)
  case (1 n)
  show ?case
    by (cases "n < 10") (use 1 in \<open>auto simp: nat_text_small nat_text_big is_digit_char\<close>)
qed

lemma digits_value_Nil [simp]: "digits_value [] = 0"
  by (simp add: digits_value_def)

lemma digits_value_snoc [simp]: "digits_value (s @ [c]) = 10 * digits_value s + digit_value c"
  by (simp add: digits_value_def)

lemma digits_value_nat_text [simp]: "digits_value (nat_text n) = n"
proof (induction n rule: nat_text.induct)
  case (1 n)
  show ?case
  proof (cases "n < 10")
    case True
    then have "digits_value ([] @ [char_of (48 + n)]) = n" by (simp only: digits_value_snoc) (simp add: digit_value_char)
    with True show ?thesis by (simp add: nat_text_small)
  next
    case False
    with 1 show ?thesis by (simp add: nat_text_big digit_value_char)
  qed
qed

lemma zero_digit [simp]: "digit_value (CHR ''0'') = 0" "is_digit (CHR ''0'')"
  by (simp_all add: digit_value_def is_digit_def)

lemma digits_value_zeros: "digits_value (s @ replicate k (CHR ''0'')) = digits_value s * 10 ^ k"
proof (induction k)
  case (Suc k)
  have "s @ replicate (Suc k) (CHR ''0'') = (s @ replicate k (CHR ''0'')) @ [CHR ''0'']"
    by (simp add: replicate_append_same)
  then show ?case using Suc by (simp del: replicate_Suc append_assoc)
qed simp

lemma digits_value_pad: "digits_value (replicate k (CHR ''0'') @ s) = digits_value s"
proof -
  have "foldl (\<lambda>n c. 10 * n + digit_value c) 0 (replicate k (CHR ''0'')) = 0" by (induction k) simp_all
  then show ?thesis by (simp add: digits_value_def)
qed

text \<open>What is read as it stands: no space at either end and no underscore.\<close>

lemma digit_not_space: "is_digit c \<Longrightarrow> \<not> py_space c \<and> c \<noteq> CHR ''_'' \<and> lower_char c = c"
  by (auto simp: is_digit_def py_space_def lower_char_def Let_def)

lemma py_strip_id:
  assumes "s \<noteq> []" "\<not> py_space (hd s)" "\<not> py_space (last s)"
  shows "py_strip s = s"
proof -
  have "dropWhile py_space s = s" using assms(1,2) by (cases s) auto
  moreover have "dropWhile py_space (rev s) = rev s"
    using assms(1,3) by (cases "rev s") (auto simp: last_rev hd_rev[symmetric] dest: arg_cong [where f = hd])
  ultimately show ?thesis by (simp add: py_strip_def)
qed

lemma read_digits:
  assumes "list_all is_digit w" "w \<noteq> []" "list_all is_digit v"
  shows "read_number s w = Some (Num s (digits_value w) 0)"
    and "read_number s (w @ CHR ''.'' # v) = Some (Num s (digits_value (w @ v)) (- int (length v)))"
proof -
  have t: "takeWhile is_digit w = w" "dropWhile is_digit w = []" "takeWhile is_digit v = v" "dropWhile is_digit v = []"
    using assms by (auto simp: list_all_iff takeWhile_eq_all_conv dropWhile_eq_Nil_conv)
  show "read_number s w = Some (Num s (digits_value w) 0)"
    using assms(2) by (simp add: read_number_def t read_exponent_def)
  have nd: "\<not> is_digit (CHR ''.'')" by (simp add: is_digit_def)
  have "takeWhile is_digit (w @ CHR ''.'' # v) = w" "dropWhile is_digit (w @ CHR ''.'' # v) = CHR ''.'' # v"
    using assms(1) nd by (auto simp: list_all_iff takeWhile_append2 dropWhile_append2)
  then show "read_number s (w @ CHR ''.'' # v) = Some (Num s (digits_value (w @ v)) (- int (length v)))"
    using assms(2) by (simp add: read_number_def t read_exponent_def)
qed

lemma read_digit_first:
  assumes "t \<noteq> []" "is_digit (hd t)"
  shows "read_unsigned s t = read_number s t"
proof -
  obtain c r where t: "t = c # r" using assms(1) by (cases t) auto
  have c: "is_digit c" using assms(2) t by simp
  have "lower_char c \<notin> {CHR ''i'', CHR ''n'', CHR ''s''}"
    using c digit_not_space [OF c] by (auto simp: is_digit_def)
  then show ?thesis by (auto simp: read_unsigned_def Let_def t)
qed

lemma fixed_digits_nonneg:
  assumes "e \<ge> 0"
  shows "\<exists>w. fixed_digits c e = w \<and> w \<noteq> [] \<and> list_all is_digit w \<and> rat_of_nat (digits_value w) = of_nat c * 10 powi e"
proof (cases "c = 0")
  case True
  have "digits_value ([] @ ''0'') = 0" by (simp only: digits_value_snoc) simp
  with True assms show ?thesis by (simp add: fixed_digits_def)
next
  case False
  with assms nat_text_digits [of c] show ?thesis
    by (auto simp: fixed_digits_def digits_value_zeros list_all_iff power_int_def)
qed

lemma fixed_digits_neg:
  assumes "e < 0"
  shows "\<exists>w v. fixed_digits c e = w @ CHR ''.'' # v \<and> w \<noteq> [] \<and> list_all is_digit w \<and> list_all is_digit v \<and>
    int (length v) = - e \<and> digits_value (w @ v) = c"
proof -
  define k where "k = nat (- e)"
  define p where "p = (if length (nat_text c) \<le> k then replicate (k + 1 - length (nat_text c)) (CHR ''0'') @ nat_text c else nat_text c)"
  have p: "list_all is_digit p" "k < length p" "digits_value p = c"
    using nat_text_digits [of c] by (auto simp: p_def digits_value_pad list_all_iff)
  let ?w = "take (length p - k) p" and ?v = "drop (length p - k) p"
  have "fixed_digits c e = ?w @ CHR ''.'' # ?v"
    using assms by (simp add: fixed_digits_def k_def p_def Let_def)
  moreover have "?w \<noteq> []" using p(2) by auto
  moreover have "list_all is_digit ?w" "list_all is_digit ?v"
    using p(1) by (auto simp: list_all_iff dest: in_set_takeD in_set_dropD)
  moreover have "int (length ?v) = - e" using p(2) assms by (simp add: k_def)
  moreover have "digits_value (?w @ ?v) = c" using p(3) by simp
  ultimately show ?thesis by blast
qed

lemma read_fixed_digits:
  "\<exists>d. read_unsigned s (fixed_digits c e) = Some d \<and> finite_num d \<and> num_value d = num_value (Num s c e)"
proof (cases "e \<ge> 0")
  case True
  then obtain w where w: "fixed_digits c e = w" "w \<noteq> []" "list_all is_digit w" "rat_of_nat (digits_value w) = of_nat c * 10 powi e"
    using fixed_digits_nonneg by blast
  have "read_unsigned s w = Some (Num s (digits_value w) 0)"
    using read_digit_first [of w s] read_digits(1) [OF w(3,2), of "[]" s] w(2,3) by (cases w) auto
  then show ?thesis using w(1,4) by simp
next
  case False
  then obtain w v where w: "fixed_digits c e = w @ CHR ''.'' # v" "w \<noteq> []" "list_all is_digit w" "list_all is_digit v"
      "int (length v) = - e" "digits_value (w @ v) = c"
    using fixed_digits_neg [of e c] by auto
  have "read_unsigned s (w @ CHR ''.'' # v) = Some (Num s c e)"
    using read_digit_first [of "w @ CHR ''.'' # v" s] read_digits(2) [OF w(3,2,4), of s] w(2,3,5,6) by (cases w) auto
  then show ?thesis using w(1) by simp
qed

lemma fixed_digits_plain:
  "fixed_digits c e \<noteq> [] \<and> is_digit (hd (fixed_digits c e)) \<and> \<not> py_space (last (fixed_digits c e)) \<and>
   filter (\<lambda>x. x \<noteq> CHR ''_'') (fixed_digits c e) = fixed_digits c e"
proof (cases "e \<ge> 0")
  case True
  then obtain w where w: "fixed_digits c e = w" "w \<noteq> []" "list_all is_digit w" using fixed_digits_nonneg by blast
  then have "is_digit (hd w)" "is_digit (last w)" "filter (\<lambda>x. x \<noteq> CHR ''_'') w = w"
    by (auto simp: list_all_iff filter_id_conv dest: digit_not_space)
  with w digit_not_space show ?thesis by auto
next
  case False
  then obtain w v where w: "fixed_digits c e = w @ CHR ''.'' # v" "w \<noteq> []" "list_all is_digit w" "list_all is_digit v"
      "int (length v) = - e"
    using fixed_digits_neg [of e c] by auto
  have v: "v \<noteq> []" using w(5) False by auto
  have "is_digit (hd w)" "is_digit (last v)" "filter (\<lambda>x. x \<noteq> CHR ''_'') w = w" "filter (\<lambda>x. x \<noteq> CHR ''_'') v = v"
    using w(2-4) v by (auto simp: list_all_iff filter_id_conv dest: digit_not_space)
  with w v digit_not_space show ?thesis by auto
qed

lemma sign_not_digit: "\<not> is_digit (CHR ''+'')" "\<not> is_digit (CHR ''-'')" "\<not> py_space (CHR ''-'')"
  by (simp_all add: is_digit_def py_space_def Let_def)

theorem written_decimal_reads_back:
  "\<exists>d. read_decimal (format_f (Num s c e)) = Some d \<and> finite_num d \<and> num_value d = num_value (Num s c e)"
proof -
  let ?t = "fixed_digits c e"
  have plain: "?t \<noteq> []" "is_digit (hd ?t)" "\<not> py_space (last ?t)" "filter (\<lambda>x. x \<noteq> CHR ''_'') ?t = ?t"
    using fixed_digits_plain [of c e] by auto
  have hd: "\<not> py_space (hd ?t)" using digit_not_space [OF plain(2)] by simp
  have "hd ?t \<notin> {CHR ''+'', CHR ''-''}" using plain(2) sign_not_digit by auto
  then have "read_decimal (format_f (Num s c e)) = read_unsigned s ?t"
    using plain hd py_strip_id [of ?t] py_strip_id [of "CHR ''-'' # ?t"] sign_not_digit(3)
    by (cases s) (simp_all add: read_decimal_def format_f_def)
  then show ?thesis using read_fixed_digits [of s c e] by simp
qed

end
