(* ===== verification/Market_Calendar.thy ===== *)
theory Market_Calendar
  imports Prelude
begin

text \<open>
  \<open>atreides/deadlines/calendar.py\<close>: the dated market calendars the deadline engines and the
  settlement rail count business days with. A date is its proleptic Gregorian ordinal (1 is
  1 January of year 1), as \<open>date.toordinal\<close> numbers it; the year and the weekday are computed
  from the ordinal as the standard library computes them, and moving past 31 December 9999
  raises. The loops end because the ordinals are bounded.
\<close>

type_synonym date = int

definition MAX_ORDINAL :: date where
  "MAX_ORDINAL = 3652059"

definition date_year :: "date \<Rightarrow> int" where
  "date_year d =
     (let n = d - 1;
          n400 = n div 146097; n = n mod 146097;
          n100 = n div 36524; n = n mod 36524;
          n4 = n div 1461; n = n mod 1461;
          n1 = n div 365;
          year = 400 * n400 + 100 * n100 + 4 * n4 + n1 + 1
      in if n1 = 4 \<or> n100 = 4 then year - 1 else year)"

definition weekday :: "date \<Rightarrow> int" where
  "weekday d = (d + 6) mod 7"

datatype Market = US_GOVERNMENT_SECURITIES | US_EQUITIES

datatype calendar_error =
    Calendar_Indeterminate Market int   \<comment> \<open>the requested year is not loaded\<close>
  | Negative_Days | Date_Overflow
  | Empty_Text string | Holiday_Outside_Year int | Year_Source_Without_Data int

record CalendarSource =
  cs_name :: string
  cs_url :: string
  cs_license_class :: string

record CalendarFile =
  cf_schema_version :: string
  cf_market :: Market
  cf_source :: string
  cf_source_url :: string
  cf_confidence :: string
  cf_holidays :: "(int \<times> date list) list"
  cf_year_sources :: "(int \<times> CalendarSource list) list"

definition mk_CalendarSource :: "CalendarSource \<Rightarrow> (calendar_error, CalendarSource) result" where
  "mk_CalendarSource s =
     require (cs_name s \<noteq> []) (Empty_Text ''name'')
    (require (cs_url s \<noteq> []) (Empty_Text ''url'')
    (require (cs_license_class s \<noteq> []) (Empty_Text ''license_class'') (Inr s)))"

text \<open>Field validation, then \<open>_dates_match_years\<close>.\<close>

definition mk_CalendarFile :: "CalendarFile \<Rightarrow> (calendar_error, CalendarFile) result" where
  "mk_CalendarFile f =
     require (cf_source f \<noteq> []) (Empty_Text ''source'')
    (require (cf_source_url f \<noteq> []) (Empty_Text ''source_url'')
    (require (cf_confidence f \<noteq> []) (Empty_Text ''confidence'')
    (case find (\<lambda>(y, ds). list_ex (\<lambda>d. date_year d \<noteq> y) ds) (cf_holidays f) of
       Some (y, ds) \<Rightarrow> Inl (Holiday_Outside_Year y)
     | None \<Rightarrow>
         (case find (\<lambda>(y, ss). map_of (cf_holidays f) y = None) (cf_year_sources f) of
            Some (y, ss) \<Rightarrow> Inl (Year_Source_Without_Data y)
          | None \<Rightarrow> Inr f))))"

record MarketCalendar =
  mc_market :: Market
  mc_source :: string
  mc_source_url :: string
  mc_confidence :: string
  mc_holidays :: "(int \<times> date list) list"
  mc_year_sources :: "(int \<times> CalendarSource list) list"

definition mk_MarketCalendar :: "CalendarFile \<Rightarrow> MarketCalendar" where
  "mk_MarketCalendar f =
     \<lparr>mc_market = cf_market f, mc_source = cf_source f, mc_source_url = cf_source_url f,
      mc_confidence = cf_confidence f, mc_holidays = cf_holidays f,
      mc_year_sources = cf_year_sources f\<rparr>"

definition loaded_years :: "MarketCalendar \<Rightarrow> int list" where
  "loaded_years c = sort (remdups (map fst (mc_holidays c)))"

definition is_business_day :: "MarketCalendar \<Rightarrow> date \<Rightarrow> (calendar_error, bool) result" where
  "is_business_day c d =
     (case map_of (mc_holidays c) (date_year d) of
        None \<Rightarrow> Inl (Calendar_Indeterminate (mc_market c) (date_year d))
      | Some hs \<Rightarrow> Inr (weekday d < 5 \<and> d \<notin> set hs))"

definition next_day :: "date \<Rightarrow> (calendar_error, date) result" where
  "next_day d = (if d + 1 \<le> MAX_ORDINAL then Inr (d + 1) else Inl Date_Overflow)"

text \<open>The body of the loop of \<open>add_business_days\<close>: \<open>remaining\<close> days are still to be counted.\<close>

function add_loop :: "MarketCalendar \<Rightarrow> date \<Rightarrow> nat \<Rightarrow> (calendar_error, date) result" where
  "add_loop c cursor remaining =
     (if remaining = 0 then Inr cursor
      else case next_day cursor of
             Inl e \<Rightarrow> Inl e
           | Inr d \<Rightarrow>
               (case is_business_day c d of
                  Inl e \<Rightarrow> Inl e
                | Inr b \<Rightarrow> add_loop c d (if b then remaining - 1 else remaining)))"
  by pat_completeness auto
termination
  by (relation "measure (\<lambda>(c, cursor, remaining). nat (MAX_ORDINAL - cursor))")
    (auto simp: next_day_def split: if_splits)

declare add_loop.simps [simp del]

definition add_business_days :: "MarketCalendar \<Rightarrow> date \<Rightarrow> int \<Rightarrow> (calendar_error, date) result" where
  "add_business_days c start days =
     (if days < 0 then Inl Negative_Days else add_loop c start (nat days))"

definition add_settlement_days :: "MarketCalendar \<Rightarrow> date \<Rightarrow> int \<Rightarrow> (calendar_error, date) result" where
  "add_settlement_days = add_business_days"

function count_loop :: "MarketCalendar \<Rightarrow> date \<Rightarrow> date \<Rightarrow> int \<Rightarrow> (calendar_error, int) result" where
  "count_loop c cursor close n =
     (if cursor < close then
        case next_day cursor of
          Inl e \<Rightarrow> Inl e
        | Inr d \<Rightarrow>
            (case is_business_day c d of
               Inl e \<Rightarrow> Inl e
             | Inr b \<Rightarrow> count_loop c d close (if b then n + 1 else n))
      else Inr n)"
  by pat_completeness auto
termination
  by (relation "measure (\<lambda>(c, cursor, close, n). nat (MAX_ORDINAL - cursor))")
    (auto simp: next_day_def split: if_splits)

declare count_loop.simps [simp del]

definition business_days_after :: "MarketCalendar \<Rightarrow> date \<Rightarrow> date \<Rightarrow> (calendar_error, int) result" where
  "business_days_after c start close =
     (if close \<le> start then Inr 0 else count_loop c start close 0)"

subsection \<open>The two loops are one walk over the days after the start\<close>

definition business :: "MarketCalendar \<Rightarrow> date \<Rightarrow> bool" where
  "business c d \<longleftrightarrow> is_business_day c d = Inr True"

definition decided :: "MarketCalendar \<Rightarrow> date \<Rightarrow> bool" where
  "decided c d \<longleftrightarrow> d \<le> MAX_ORDINAL \<and> date_year d \<in> set (map fst (mc_holidays c))"

lemma is_business_day_decided:
  "d \<le> MAX_ORDINAL \<Longrightarrow> is_business_day c d =
     (if decided c d then Inr (business c d) else Inl (Calendar_Indeterminate (mc_market c) (date_year d)))"
  by (auto simp: decided_def business_def is_business_day_def map_of_eq_None_iff split: option.splits)
    (metis map_of_eq_None_iff option.distinct(1) list.set_map)+

lemma business_decided: "d \<le> MAX_ORDINAL \<Longrightarrow> business c d \<Longrightarrow> decided c d"
  using is_business_day_decided [of d c] by (auto simp: business_def split: if_splits)

text \<open>The business days in the half-open interval after \<open>s\<close>, up to and including \<open>e\<close>.\<close>

definition days_between :: "MarketCalendar \<Rightarrow> date \<Rightarrow> date \<Rightarrow> date set" where
  "days_between c s e = {d. s < d \<and> d \<le> e \<and> business c d}"

lemma finite_days_between [simp]: "finite (days_between c s e)"
  by (rule finite_subset [of _ "{s..e}"]) (auto simp: days_between_def)

lemma days_between_empty [simp]: "e \<le> s \<Longrightarrow> days_between c s e = {}"
  by (auto simp: days_between_def)

lemma days_between_step:
  "s < e \<Longrightarrow> card (days_between c s e) =
     (if business c (s + 1) then 1 else 0) + card (days_between c (s + 1) e)"
proof -
  assume "s < e"
  then have "days_between c s e =
      (if business c (s + 1) then insert (s + 1) (days_between c (s + 1) e)
       else days_between c (s + 1) e)"
    by (auto simp: days_between_def) (smt (verit))+
  moreover have "s + 1 \<notin> days_between c (s + 1) e" by (simp add: days_between_def)
  ultimately show ?thesis by simp
qed

lemma days_between_split:
  "s \<le> m \<Longrightarrow> m \<le> e \<Longrightarrow> card (days_between c s e) = card (days_between c s m) + card (days_between c m e)"
proof -
  assume "s \<le> m" "m \<le> e"
  then have "days_between c s e = days_between c s m \<union> days_between c m e"
    and "days_between c s m \<inter> days_between c m e = {}"
    by (auto simp: days_between_def)
  then show ?thesis by (simp add: card_Un_disjoint)
qed

lemma greater_step: "s < e \<Longrightarrow> {s<..e} = insert (s + 1) {s + 1<..e :: int}"
  by auto

lemma count_loop_eq:
  "count_loop c s e t = Inr k \<longleftrightarrow>
     (\<forall>d \<in> {s<..e}. decided c d) \<and> k = t + int (card (days_between c s e))"
proof (induction c s e t rule: count_loop.induct)
  case (1 c s e t)
  show ?case
  proof (cases "s < e")
    case True
    note step = greater_step [OF True] days_between_step [OF True, of c]
    show ?thesis
    proof (cases "s + 1 \<le> MAX_ORDINAL \<and> decided c (s + 1)")
      case ok: True
      then have b: "next_day s = Inr (s + 1)" "is_business_day c (s + 1) = Inr (business c (s + 1))"
        by (simp_all add: next_day_def is_business_day_decided)
      have "count_loop c s e t = count_loop c (s + 1) e (if business c (s + 1) then t + 1 else t)"
        using True b by (subst count_loop.simps) simp
      also have "\<dots> = Inr k \<longleftrightarrow> (\<forall>d \<in> {s + 1<..e}. decided c d) \<and>
          k = (if business c (s + 1) then t + 1 else t) + int (card (days_between c (s + 1) e))"
        by (rule 1 [OF True b])
      finally show ?thesis using ok unfolding step by auto
    next
      case False
      then have "\<not> (\<forall>d \<in> {s<..e}. decided c d)" using True by (auto simp: decided_def)
      moreover have "count_loop c s e t \<noteq> Inr k"
        using True False
        by (subst count_loop.simps) (auto simp: next_day_def is_business_day_decided)
      ultimately show ?thesis by blast
    qed
  next
    case False
    then show ?thesis by (subst count_loop.simps) auto
  qed
qed

lemma add_loop_eq:
  "add_loop c s n = Inr e \<longleftrightarrow>
     s \<le> e \<and> (\<forall>d \<in> {s<..e}. decided c d) \<and> card (days_between c s e) = n \<and>
     (if n = 0 then e = s else business c e)"
proof (induction c s n rule: add_loop.induct)
  case (1 c s n)
  show ?case
  proof (cases "n = 0")
    case True
    then show ?thesis by (subst add_loop.simps) auto
  next
    case n: False
    show ?thesis
    proof (cases "s + 1 \<le> MAX_ORDINAL \<and> decided c (s + 1)")
      case ok: True
      let ?m = "if business c (s + 1) then n - 1 else n"
      from ok have b: "next_day s = Inr (s + 1)" "is_business_day c (s + 1) = Inr (business c (s + 1))"
        by (simp_all add: next_day_def is_business_day_decided)
      have l: "add_loop c s n = add_loop c (s + 1) ?m"
        using n b by (subst add_loop.simps) simp
      have ih: "add_loop c (s + 1) ?m = Inr e \<longleftrightarrow> s + 1 \<le> e \<and> (\<forall>d \<in> {s + 1<..e}. decided c d) \<and>
          card (days_between c (s + 1) e) = ?m \<and> (if ?m = 0 then e = s + 1 else business c e)"
        by (rule 1 [OF n b])
      show ?thesis
      proof (cases "s < e")
        case True
        note step = greater_step [OF True] days_between_step [OF True, of c]
        have "(if ?m = 0 then e = s + 1 else business c e) \<longleftrightarrow> business c e"
          if "card (days_between c (s + 1) e) = ?m"
        proof (cases "?m = 0")
          case True
          then have bs: "business c (s + 1)" using n by (auto split: if_splits)
          have "days_between c (s + 1) e = {}" using that True by simp
          then have "\<not> business c e \<or> e \<le> s + 1" by (auto simp: days_between_def)
          with bs \<open>s < e\<close> True show ?thesis by auto
        qed simp
        with ih l ok n True show ?thesis unfolding step by auto
      next
        case False
        with ih l n show ?thesis by auto
      qed
    next
      case False
      then have "\<not> (s < e \<and> (\<forall>d \<in> {s<..e}. decided c d))" by (auto simp: decided_def)
      moreover have "add_loop c s n \<noteq> Inr e"
        using n False by (subst add_loop.simps) (auto simp: next_day_def is_business_day_decided)
      ultimately show ?thesis using n by auto
    qed
  qed
qed

lemma add_loop_add:
  "add_loop c s (a + b) = (case add_loop c s a of Inl e \<Rightarrow> Inl e | Inr m \<Rightarrow> add_loop c m b)"
proof (induction c s a rule: add_loop.induct)
  case (1 c s a)
  show ?case
  proof (cases "a = 0")
    case True
    then show ?thesis by (simp add: add_loop.simps [of c s 0])
  next
    case False
    note l = add_loop.simps [of c s "a + b"] add_loop.simps [of c s a]
    show ?thesis
    proof (cases "next_day s")
      case (Inl e)
      with False show ?thesis by (simp add: l)
    next
      case next_d: (Inr d)
      show ?thesis
      proof (cases "is_business_day c d")
        case (Inl e)
        with False next_d show ?thesis by (simp add: l)
      next
        case (Inr bd)
        note 1 [OF False next_d Inr]
        moreover have "(if bd then a + b - 1 else a + b) = (if bd then a - 1 else a) + b"
          using False by simp
        ultimately show ?thesis using False next_d Inr by (simp add: l)
      qed
    qed
  qed
qed

subsection \<open>The contract the deadline engines rely on\<close>

text \<open>
  \<open>DeadlineCalendar\<close>: an engine asks for the date \<open>n\<close> business days after a start and relies on
  zero days being the start itself, on counting in two legs being counting at once, and on a
  positive count moving forward.
\<close>

locale deadline_calendar =
  fixes add :: "date \<Rightarrow> int \<Rightarrow> ('e, date) result"
  assumes add_zero: "add s 0 = Inr s"
    and add_legs: "0 \<le> a \<Longrightarrow> 0 \<le> b \<Longrightarrow>
      add s (a + b) = (case add s a of Inl e \<Rightarrow> Inl e | Inr m \<Rightarrow> add m b)"
    and add_forward: "0 < n \<Longrightarrow> add s n = Inr e \<Longrightarrow> s < e"
begin

lemma add_prefix:
  assumes "0 \<le> a" and "a \<le> b" and "add s b = Inr e"
  obtains m where "add s a = Inr m" "add m (b - a) = Inr e"
  using add_legs [of a "b - a" s] assms by (cases "add s a") auto

lemma add_strict_mono:
  assumes "0 \<le> a" and "a < b" and "add s a = Inr d" and "add s b = Inr e"
  shows "d < e"
proof -
  obtain m where "add s a = Inr m" "add m (b - a) = Inr e"
    using assms by (elim add_prefix [of a b s e]) simp_all
  then show ?thesis using assms add_forward [of "b - a" d e] by simp
qed

lemma add_inj:
  assumes "0 \<le> a" and "0 \<le> b" and "add s a = Inr d" and "add s b = Inr d"
  shows "a = b"
  using assms add_strict_mono [of a b s d d] add_strict_mono [of b a s d d]
  by (cases a b rule: linorder_cases) auto

lemma add_not_before: "0 \<le> n \<Longrightarrow> add s n = Inr e \<Longrightarrow> s \<le> e"
  using add_forward [of n s e] add_zero [of s] by (cases "n = 0") auto

end

lemma add_business_days_loop: "0 \<le> n \<Longrightarrow> add_business_days c s n = add_loop c s (nat n)"
  by (simp add: add_business_days_def)

interpretation market_calendar: deadline_calendar "add_business_days c" for c
proof
  show "add_business_days c s 0 = Inr s" for s
    by (simp add: add_business_days_def add_loop.simps [of c s 0])
  show "add_business_days c s (a + b) =
      (case add_business_days c s a of Inl e \<Rightarrow> Inl e | Inr m \<Rightarrow> add_business_days c m b)"
    if "0 \<le> a" "0 \<le> b" for s a b
    using that
    by (cases "add_loop c s (nat a)")
      (simp_all add: add_business_days_loop nat_add_distrib add_loop_add)
  show "s < e" if "0 < n" "add_business_days c s n = Inr e" for n s e
    using that by (auto simp: add_business_days_def add_loop_eq less_le)
qed

subsection \<open>Properties\<close>

text \<open>
  adding \<open>n\<close> business days returns the date reached exactly when the count is not negative,
  every day walked over is in a loaded year, the days walked over hold exactly \<open>n\<close> business
  days and the walk stops on a business day (on the start itself for zero days). Where a year
  is not loaded the calendar raises; it never guesses.
\<close>

theorem add_business_days_iff:
  "add_business_days c s n = Inr e \<longleftrightarrow>
     0 \<le> n \<and> s \<le> e \<and> (\<forall>d \<in> {s<..e}. d \<le> MAX_ORDINAL \<and> date_year d \<in> set (map fst (mc_holidays c))) \<and>
     int (card {d. s < d \<and> d \<le> e \<and> is_business_day c d = Inr True}) = n \<and>
     (if n = 0 then e = s else is_business_day c e = Inr True)"
  unfolding decided_def [symmetric] business_def [symmetric] days_between_def [symmetric]
  by (cases "n < 0") (auto simp: add_business_days_def add_loop_eq)

text \<open>
  counting business days up to the date reached by adding \<open>n\<close> business days gives \<open>n\<close> back,
  and no earlier date counts as many.
\<close>

theorem business_days_roundtrip:
  assumes "add_business_days c s n = Inr e"
  shows "business_days_after c s e = Inr n \<and>
    (\<forall>d. d < e \<longrightarrow> 0 < n \<longrightarrow> (\<exists>k. business_days_after c s d = Inr k \<and> k < n))"
proof -
  from assms have l: "0 \<le> n" "add_loop c s (nat n) = Inr e"
    by (auto simp: add_business_days_def split: if_splits)
  then have e: "s \<le> e" "\<forall>d \<in> {s<..e}. decided c d" "card (days_between c s e) = nat n"
    "if n = 0 then e = s else business c e"
    by (auto simp: add_loop_eq)
  have "business_days_after c s e = Inr n"
    using e l(1) by (cases "e = s") (auto simp: business_days_after_def count_loop_eq split: if_splits)
  moreover have "\<exists>k. business_days_after c s d = Inr k \<and> k < n" if d: "d < e" "0 < n" for d
  proof (cases "d \<le> s")
    case False
    have "card (days_between c d e) > 0"
      using d e by (simp only: card_gt_0_iff finite_days_between) (auto simp: days_between_def)
    then have "int (card (days_between c s d)) < n"
      using days_between_split [of s d e c] False d e l(1) by simp
    then show ?thesis
      using False d e by (auto simp: business_days_after_def count_loop_eq)
  qed (use d in \<open>simp add: business_days_after_def\<close>)
  ultimately show ?thesis by blast
qed

text \<open>
  business-day arithmetic is additive and strictly monotone: counting \<open>a\<close> then \<open>b\<close> days is
  counting \<open>a + b\<close> days, raising where it raises, and a longer count from one start is a later
  date.
\<close>

theorem business_days_additive:
  assumes "0 \<le> a" and "0 < b"
  shows "add_business_days c s (a + b) =
      (case add_business_days c s a of Inl e \<Rightarrow> Inl e | Inr m \<Rightarrow> add_business_days c m b) \<and>
    (\<forall>d e. add_business_days c s a = Inr d \<and> add_business_days c s (a + b) = Inr e \<longrightarrow> d < e)"
  using assms market_calendar.add_legs [of a b c s]
    market_calendar.add_strict_mono [of a "a + b" c s] by force

subsection \<open>Witnesses\<close>

text \<open>A calendar with the year 2026 loaded and Friday 3 July 2026 (ordinal 739800) a holiday.\<close>

definition w_calendar :: MarketCalendar where
  "w_calendar = \<lparr>mc_market = US_EQUITIES, mc_source = ''s'', mc_source_url = ''u'',
     mc_confidence = ''c'', mc_holidays = [(2026, [739800])], mc_year_sources = []\<rparr>"

text \<open>One business day after Thursday 2 July 2026 is Monday 6 July.\<close>

lemma w_calendar_add: "add_business_days w_calendar 739799 1 = Inr 739803"
  by (simp add: add_business_days_def add_loop.simps next_day_def MAX_ORDINAL_def is_business_day_def
      w_calendar_def date_year_def weekday_def Let_def)

theorem add_business_days_iff_witness:
  "is_business_day w_calendar 739803 = Inr True \<and>
   card {d. 739799 < d \<and> d \<le> 739803 \<and> is_business_day w_calendar d = Inr True} = 1"
  using w_calendar_add [unfolded add_business_days_iff] by simp

theorem business_days_roundtrip_witness:
  "business_days_after w_calendar 739799 739803 = Inr 1"
  using business_days_roundtrip [OF w_calendar_add] by simp

theorem business_days_additive_witness:
  "add_business_days w_calendar 739799 (1 + 1) = add_business_days w_calendar 739803 1"
  using business_days_additive [of 1 1 w_calendar 739799] by (simp add: w_calendar_add)

end
