(* ===== verification/Deadline_Time.thy ===== *)
theory Deadline_Time
  imports Market_Calendar
begin

text \<open>
  The parts of \<open>datetime\<close> the deadline engines compute with: a date split into year, month and
  day, months added to a date (\<open>_add_months\<close> of \<open>deadlines/rule_17a_13.py\<close>), instants with a time
  zone, \<open>datetime.combine\<close> and the comparison of instants.

  A date is its ordinal, as in \<open>Market_Calendar\<close>. An aware datetime is its wall-clock reading in
  microseconds since ordinal 0 and its time zone; what a named zone's offset is at a wall-clock
  reading is not part of the program and is the parameter \<open>zones\<close> (a \<open>fold\<close> is not modelled).
  As in Python, two datetimes of one zone compare by their wall clocks, others by the instants.
\<close>

subsection \<open>Years and months\<close>

definition leap_year :: "int \<Rightarrow> bool" where
  "leap_year y \<longleftrightarrow> y mod 4 = 0 \<and> (y mod 100 \<noteq> 0 \<or> y mod 400 = 0)"

definition days_before_year :: "int \<Rightarrow> int" where
  "days_before_year y = (let n = y - 1 in n * 365 + n div 4 - n div 100 + n div 400)"

definition month_length :: "int \<Rightarrow> int \<Rightarrow> int" where
  "month_length y m =
     (if m = 2 then (if leap_year y then 29 else 28)
      else if m \<in> {4, 6, 9, 11} then 30 else 31)"

definition days_before_month :: "int \<Rightarrow> int \<Rightarrow> int" where
  "days_before_month y m = (\<Sum>k\<leftarrow>[1..m - 1]. month_length y k)"

definition ymd_ordinal :: "int \<Rightarrow> int \<Rightarrow> int \<Rightarrow> date" where
  "ymd_ordinal y m d = days_before_year y + days_before_month y m + d"

definition year_day :: "date \<Rightarrow> int" where
  "year_day d = d - days_before_year (date_year d)"

definition date_month :: "date \<Rightarrow> int" where
  "date_month d =
     (case find (\<lambda>m. year_day d \<le> days_before_month (date_year d) (m + 1)) [1..12] of
        Some m \<Rightarrow> m | None \<Rightarrow> 12)"

definition date_day :: "date \<Rightarrow> int" where
  "date_day d = year_day d - days_before_month (date_year d) (date_month d)"

text \<open>\<open>date(year, month, day)\<close> raises outside the years 1 to 9999.\<close>

definition mk_date :: "int \<Rightarrow> int \<Rightarrow> int \<Rightarrow> (calendar_error, date) result" where
  "mk_date y m d = require (1 \<le> y \<and> y \<le> 9999) Date_Overflow (Inr (ymd_ordinal y m d))"

definition month_index :: "date \<Rightarrow> int" where
  "month_index d = date_year d * 12 + date_month d - 1"

definition add_months :: "date \<Rightarrow> int \<Rightarrow> (calendar_error, date) result" where
  "add_months start months =
     (let i = date_month start - 1 + months;
          year = date_year start + i div 12;
          month = i mod 12 + 1
      in mk_date year month (min (date_day start) (month_length year month)))"

lemma days_before_month_step:
  "1 \<le> m \<Longrightarrow> days_before_month y (m + 1) = days_before_month y m + month_length y m"
  by (simp add: days_before_month_def upto_rec2)

lemma days_before_month_simps [simp]:
  "days_before_month y 1 = 0" "days_before_month y 2 = 31"
  "days_before_month y 3 = 31 + month_length y 2" "days_before_month y 4 = 62 + month_length y 2"
  "days_before_month y 5 = 92 + month_length y 2" "days_before_month y 6 = 123 + month_length y 2"
  "days_before_month y 7 = 153 + month_length y 2" "days_before_month y 8 = 184 + month_length y 2"
  "days_before_month y 9 = 215 + month_length y 2" "days_before_month y 10 = 245 + month_length y 2"
  "days_before_month y 11 = 276 + month_length y 2" "days_before_month y 12 = 306 + month_length y 2"
  "days_before_month y 13 = 337 + month_length y 2"
proof -
  have s: "days_before_month y k = days_before_month y (k - 1) + month_length y (k - 1)" if "2 \<le> k" for k
    using days_before_month_step [of "k - 1" y] that by simp
  show 1: "days_before_month y 1 = 0" by (simp add: days_before_month_def)
  show 2: "days_before_month y 2 = 31" using s [of 2] 1 by (simp add: month_length_def)
  show 3: "days_before_month y 3 = 31 + month_length y 2" using s [of 3] 2 by simp
  show 4: "days_before_month y 4 = 62 + month_length y 2" using s [of 4] 3 by (simp add: month_length_def)
  show 5: "days_before_month y 5 = 92 + month_length y 2" using s [of 5] 4 by (simp add: month_length_def)
  show 6: "days_before_month y 6 = 123 + month_length y 2" using s [of 6] 5 by (simp add: month_length_def)
  show 7: "days_before_month y 7 = 153 + month_length y 2" using s [of 7] 6 by (simp add: month_length_def)
  show 8: "days_before_month y 8 = 184 + month_length y 2" using s [of 8] 7 by (simp add: month_length_def)
  show 9: "days_before_month y 9 = 215 + month_length y 2" using s [of 9] 8 by (simp add: month_length_def)
  show 10: "days_before_month y 10 = 245 + month_length y 2" using s [of 10] 9 by (simp add: month_length_def)
  show 11: "days_before_month y 11 = 276 + month_length y 2" using s [of 11] 10 by (simp add: month_length_def)
  show 12: "days_before_month y 12 = 306 + month_length y 2" using s [of 12] 11 by (simp add: month_length_def)
  show "days_before_month y 13 = 337 + month_length y 2" using s [of 13] 12 by (simp add: month_length_def)
qed

lemma month_length_pos: "28 \<le> month_length y m" "month_length y m \<le> 31"
  by (simp_all add: month_length_def)

lemma february: "month_length y 2 = (if leap_year y then 29 else 28)"
  by (simp add: month_length_def)

lemma month_cases:
  fixes m :: int
  assumes "1 \<le> m" and "m \<le> 12"
  shows "m = 1 \<or> m = 2 \<or> m = 3 \<or> m = 4 \<or> m = 5 \<or> m = 6 \<or> m = 7 \<or> m = 8 \<or> m = 9 \<or> m = 10 \<or> m = 11 \<or> m = 12"
  using assms by presburger

lemma div_step:
  assumes "0 < (k :: int)"
  shows "y div k = (y - 1) div k + (if k dvd y then 1 else 0)"
proof (cases "k dvd y")
  case True
  then obtain q where q: "y = k * q" by (auto simp: dvd_def)
  then have "y - 1 = k * (q - 1) + (k - 1)" by (simp add: algebra_simps)
  then have "(y - 1) div k = q - 1" by (rule int_div_pos_eq) (use assms in auto)
  then show ?thesis using q assms True by simp
next
  case False
  then have "y mod k \<noteq> 0" by (simp add: dvd_eq_mod_eq_0)
  moreover have "0 \<le> y mod k" "y mod k < k" using assms by simp_all
  ultimately have r: "0 \<le> y mod k - 1" "y mod k - 1 < k" by linarith+
  have "y - 1 = k * (y div k) + (y mod k - 1)" by simp
  then have "(y - 1) div k = y div k" by (rule int_div_pos_eq) (fact r)+
  then show ?thesis using False by simp
qed

lemma div_mod_unique:
  fixes x k q r :: int
  assumes "x = k * q + r" and "0 \<le> r" and "r < k"
  shows "x div k = q" and "x mod k = r"
  using int_div_pos_eq [OF assms] int_mod_pos_eq [OF assms] by simp_all

lemma mod_0_iff_top:
  fixes x n :: int
  assumes "0 < x" and "x \<le> n"
  shows "x mod n = 0 \<longleftrightarrow> x = n"
  using assms by (cases "x = n") auto

lemma nested_of_bool:
  "(r \<Longrightarrow> q) \<Longrightarrow> (q \<Longrightarrow> p) \<Longrightarrow>
   of_bool p - of_bool q + of_bool r = (of_bool (p \<and> (\<not> q \<or> r)) :: int)"
  by (cases p; cases q; cases r) simp_all

lemma days_before_year_step:
  "days_before_year (y + 1) = days_before_year y + (if leap_year y then 366 else 365)"
proof -
  have "400 dvd y \<Longrightarrow> 100 dvd y" "100 dvd y \<Longrightarrow> 4 dvd y"
    using dvd_trans [of "100 :: int" 400 y] dvd_trans [of "4 :: int" 100 y] by simp_all
  then have l: "of_bool (4 dvd y) - of_bool (100 dvd y) + of_bool (400 dvd y) = (of_bool (leap_year y) :: int)"
    unfolding leap_year_def mod_eq_0_iff_dvd by (rule nested_of_bool)
  define A where "A = (y - 1) div 4"
  define B where "B = (y - 1) div 100"
  define C where "C = (y - 1) div 400"
  have s: "y div 4 = A + of_bool (4 dvd y)" "y div 100 = B + of_bool (100 dvd y)"
    "y div 400 = C + of_bool (400 dvd y)"
    unfolding A_def B_def C_def of_bool_def by (rule div_step; simp)+
  have "days_before_year (y + 1) =
      y * 365 + (A + of_bool (4 dvd y)) - (B + of_bool (100 dvd y)) + (C + of_bool (400 dvd y))"
    by (simp only: days_before_year_def Let_def s add_diff_cancel_right')
  moreover have "days_before_year y = (y - 1) * 365 + A - B + C"
    by (simp only: days_before_year_def Let_def A_def B_def C_def)
  ultimately have "days_before_year (y + 1) = days_before_year y + 365 + of_bool (leap_year y)"
    unfolding l [symmetric] by (simp only: algebra_simps)
  then show ?thesis by simp
qed

text \<open>A year as its place in its cycles of 400, 100 and 4 years.\<close>

lemma year_split:
  fixes y :: int
  obtains a b c e where "y - 1 = 400 * a + 100 * b + 4 * c + e"
    "0 \<le> b" "b \<le> 3" "0 \<le> c" "c \<le> 24" "0 \<le> e" "e \<le> 3"
proof -
  let ?r = "(y - 1) mod 400"
  let ?s = "?r mod 100"
  have "y - 1 = 400 * ((y - 1) div 400) + ?r" "?r = 100 * (?r div 100) + ?s" "?s = 4 * (?s div 4) + ?s mod 4"
    by simp_all
  then have e: "y - 1 = 400 * ((y - 1) div 400) + 100 * (?r div 100) + 4 * (?s div 4) + ?s mod 4"
    by linarith
  have "0 \<le> ?r" "?r < 400" "0 \<le> ?s" "?s < 100" by simp_all
  then have "0 \<le> ?r div 100" "?r div 100 \<le> 3" "0 \<le> ?s div 4" "?s div 4 \<le> 24" by linarith+
  moreover have "0 \<le> ?s mod 4" "?s mod 4 \<le> 3" by simp_all
  ultimately show ?thesis using that [OF e] by blast
qed

lemma cycle_days:
  assumes "y - 1 = 400 * a + 100 * b + 4 * c + e"
    and "0 \<le> b" "b \<le> 3" "0 \<le> c" "c \<le> 24" "0 \<le> e" "e \<le> (3 :: int)"
  shows "days_before_year y = 146097 * a + 36524 * b + 1461 * c + 365 * e"
    and "leap_year y \<longleftrightarrow> e = 3 \<and> (c \<noteq> 24 \<or> b = 3)"
proof -
  have d: "(y - 1) div 4 = 100 * a + 25 * b + c" "(y - 1) div 100 = 4 * a + b" "(y - 1) div 400 = a"
    using assms by (intro int_div_pos_eq [where r = e] int_div_pos_eq [where r = "4 * c + e"]
        int_div_pos_eq [where r = "100 * b + 4 * c + e"]; simp)+
  have "days_before_year y = (y - 1) * 365 + (100 * a + 25 * b + c) - (4 * a + b) + a"
    by (simp only: days_before_year_def Let_def d)
  also have "\<dots> = 146097 * a + 36524 * b + 1461 * c + 365 * e" unfolding assms(1) by simp
  finally show "days_before_year y = 146097 * a + 36524 * b + 1461 * c + 365 * e" .
  have y: "y = 400 * a + 100 * b + 4 * c + e + 1" using assms(1) by simp
  have y4: "y = e + 1 + (100 * a + 25 * b + c) * 4" and y100: "y = 4 * c + e + 1 + (4 * a + b) * 100"
    and y400: "y = 100 * b + 4 * c + e + 1 + a * 400"
    using y by simp_all
  have "y mod 4 = (e + 1) mod 4" "y mod 100 = (4 * c + e + 1) mod 100"
    "y mod 400 = (100 * b + 4 * c + e + 1) mod 400"
    by (subst y4, rule mod_mult_self1) (subst y100, rule mod_mult_self1, subst y400, rule mod_mult_self1)
  then have "y mod 4 = 0 \<longleftrightarrow> e + 1 = 4" "y mod 100 = 0 \<longleftrightarrow> 4 * c + e + 1 = 100"
    "y mod 400 = 0 \<longleftrightarrow> 100 * b + 4 * c + e + 1 = 400"
    using assms(2-7) mod_0_iff_top [of "e + 1" 4] mod_0_iff_top [of "4 * c + e + 1" 100]
      mod_0_iff_top [of "100 * b + 4 * c + e + 1" 400] by simp_all
  then show "leap_year y \<longleftrightarrow> e = 3 \<and> (c \<noteq> 24 \<or> b = 3)"
    unfolding leap_year_def using assms(2-7) by auto
qed

text \<open>The year the standard library reads back from an ordinal.\<close>

lemma date_year_eq:
  assumes "days_before_year y < d" and "d \<le> days_before_year (y + 1)"
  shows "date_year d = y"
proof -
  obtain a b c e where y: "y - 1 = 400 * a + 100 * b + 4 * c + e"
    and r: "0 \<le> b" "b \<le> 3" "0 \<le> c" "c \<le> 24" "0 \<le> e" "e \<le> 3"
    by (rule year_split)
  note days = cycle_days [OF y r]
  define j where "j = d - 1 - days_before_year y"
  have j0: "0 \<le> j" using assms(1) by (simp add: j_def)
  have j: "j \<le> 365" "\<not> leap_year y \<Longrightarrow> j \<le> 364"
    using assms(2) by (auto simp: j_def days_before_year_step split: if_splits)
  have d: "d - 1 = 146097 * a + (36524 * b + (1461 * c + (365 * e + j)))"
    by (simp add: j_def days(1))
  have last: "j = 365 \<Longrightarrow> e = 3 \<and> (c \<noteq> 24 \<or> b = 3)" using j(2) days(2) by auto
  have n400: "(d - 1) div 146097 = a" "(d - 1) mod 146097 = 36524 * b + (1461 * c + (365 * e + j))"
    using div_mod_unique [OF d] r j0 j(1) by simp_all
  show ?thesis
  proof (cases "c = 24 \<and> j = 365")
    case True
    with last have *: "e = 3" "b = 3" by auto
    have "(36524 * b + (1461 * c + (365 * e + j))) div 36524 = 4"
      "(36524 * b + (1461 * c + (365 * e + j))) mod 36524 = 0"
      using True * by simp_all
    then show ?thesis using y True * by (simp add: date_year_def Let_def n400)
  next
    case False
    have j': "j = 365 \<Longrightarrow> e = 3" using last by simp
    have small: "1461 * c + (365 * e + j) < 36524"
      using False r j(1) j' by (cases "j = 365"; cases "c = 24") linarith+
    have n100: "(36524 * b + (1461 * c + (365 * e + j))) div 36524 = b"
      "(36524 * b + (1461 * c + (365 * e + j))) mod 36524 = 1461 * c + (365 * e + j)"
      using div_mod_unique [of "36524 * b + (1461 * c + (365 * e + j))" 36524 b] r j0 small by simp_all
    have n4: "(1461 * c + (365 * e + j)) div 1461 = c" "(1461 * c + (365 * e + j)) mod 1461 = 365 * e + j"
      using div_mod_unique [of "1461 * c + (365 * e + j)" 1461 c] r j0 j(1) by simp_all
    have n1: "(365 * e + j) div 365 = (if j = 365 then 4 else e)"
      using div_mod_unique [of "365 * e + j" 365 e j] j0 j(1) j' by (cases "j = 365") auto
    show ?thesis
      unfolding date_year_def Let_def n400 n100 n4 n1 using y r j' by auto
  qed
qed

lemma year_days_positive: "365 * int n \<le> days_before_year (1 + int n)"
proof (induction n)
  case (Suc n)
  then show ?case using days_before_year_step [of "1 + int n"] by (simp split: if_splits)
qed (simp add: days_before_year_def)

text \<open>Every ordinal of \<open>datetime.date\<close> lies in the year read back from it.\<close>

lemma date_year_bounds:
  assumes "1 \<le> d"
  shows "days_before_year (date_year d) < d" and "d \<le> days_before_year (date_year d + 1)"
proof -
  have "d \<le> days_before_year (1 + int (nat d))" using year_days_positive [of "nat d"] assms by simp
  moreover have "\<not> d \<le> days_before_year (1 + int 0)" using assms by (simp add: days_before_year_def)
  ultimately obtain n where n: "\<not> d \<le> days_before_year (1 + int n)" "d \<le> days_before_year (1 + int (Suc n))"
    using ex_least_nat_less [of "\<lambda>n. d \<le> days_before_year (1 + int n)" "nat d"]
    by (metis le_refl less_Suc_eq_le)
  then have "date_year d = 1 + int n" by (intro date_year_eq) (simp_all add: add.commute add.left_commute)
  then show "days_before_year (date_year d) < d" "d \<le> days_before_year (date_year d + 1)"
    using n by (simp_all add: add.commute add.left_commute)
qed

subsection \<open>Months\<close>

lemma days_before_month_mono:
  assumes "1 \<le> m" and "m \<le> n"
  shows "days_before_month y m \<le> days_before_month y n"
  using assms(2)
proof (induction rule: int_ge_induct)
  case (step n)
  then show ?case
    using days_before_month_step [of n y] month_length_pos [of y n] assms(1) by simp
qed simp

lemma days_of_year: "days_before_month y 13 = (if leap_year y then 366 else 365)"
  by (simp add: month_length_def)

definition real_day :: "int \<Rightarrow> int \<Rightarrow> int \<Rightarrow> bool" where
  "real_day y m d \<longleftrightarrow> 1 \<le> m \<and> m \<le> 12 \<and> 1 \<le> d \<and> d \<le> month_length y m"

lemma real_day_in_year:
  assumes "real_day y m d"
  shows "1 \<le> days_before_month y m + d"
    and "days_before_month y m + d \<le> days_before_month y (m + 1)"
    and "days_before_month y m + d \<le> (if leap_year y then 366 else 365)"
  using assms days_before_month_step [of m y] days_before_month_mono [of 1 m y]
    days_before_month_mono [of "m + 1" 13 y] days_of_year [of y]
  by (auto simp: real_day_def)

lemma find_append: "find P (xs @ ys) = (case find P xs of None \<Rightarrow> find P ys | Some x \<Rightarrow> Some x)"
  by (induction xs) simp_all

text \<open>Searching a range of numbers finds the least one.\<close>

lemma find_upto:
  "find P [i..k] = Some m \<longleftrightarrow> i \<le> m \<and> m \<le> k \<and> P m \<and> (\<forall>n. i \<le> n \<and> n < m \<longrightarrow> \<not> P n)" for m :: int
proof
  assume f: "find P [i..k] = Some m"
  then have m: "i \<le> m" "m \<le> k" "P m" by (auto dest!: find_SomeD)
  have "\<not> P n" if n: "i \<le> n" "n < m" for n
  proof
    assume "P n"
    have "[i..k] = [i..n - 1] @ n # [n + 1..k]"
      using n m upto_split1 [of i n k] upto.simps [of n k] by simp
    with f \<open>P n\<close> have "find P [i..n - 1] = Some m \<or> m = n" by (auto simp: find_append split: option.splits)
    then show False using n by (auto dest!: find_SomeD)
  qed
  with m show "i \<le> m \<and> m \<le> k \<and> P m \<and> (\<forall>n. i \<le> n \<and> n < m \<longrightarrow> \<not> P n)" by blast
next
  assume m: "i \<le> m \<and> m \<le> k \<and> P m \<and> (\<forall>n. i \<le> n \<and> n < m \<longrightarrow> \<not> P n)"
  then have "[i..k] = [i..m - 1] @ m # [m + 1..k]"
    using upto_split1 [of i m k] upto.simps [of m k] by simp
  moreover have "find P [i..m - 1] = None" using m by (auto simp: find_None_iff)
  ultimately show "find P [i..k] = Some m" using m by (simp add: find_append)
qed

lemma ymd_roundtrip:
  assumes "real_day y m d"
  shows "date_year (ymd_ordinal y m d) = y" and "date_month (ymd_ordinal y m d) = m"
    and "date_day (ymd_ordinal y m d) = d"
proof -
  note r = real_day_in_year [OF assms]
  show y: "date_year (ymd_ordinal y m d) = y"
    by (rule date_year_eq) (use r in \<open>simp_all add: ymd_ordinal_def days_before_year_step\<close>)
  then have yd: "year_day (ymd_ordinal y m d) = days_before_month y m + d"
    by (simp add: year_day_def ymd_ordinal_def)
  have "\<not> days_before_month y m + d \<le> days_before_month y (n + 1)" if "1 \<le> n" "n < m" for n
    using days_before_month_mono [of "n + 1" m y] that assms by (simp add: real_day_def)
  then have "find (\<lambda>n. days_before_month y m + d \<le> days_before_month y (n + 1)) [1..12] = Some m"
    using r(2) assms by (auto simp: find_upto real_day_def)
  then show m: "date_month (ymd_ordinal y m d) = m" by (simp add: date_month_def yd y)
  show "date_day (ymd_ordinal y m d) = d" by (simp add: date_day_def m y yd)
qed

lemma date_month_range: "1 \<le> date_month d" "date_month d \<le> 12"
  by (simp_all add: date_month_def find_upto split: option.splits)

lemma date_day_range:
  assumes "1 \<le> d"
  shows "real_day (date_year d) (date_month d) (date_day d)"
proof -
  let ?y = "date_year d"
  have yd: "1 \<le> year_day d" "year_day d \<le> days_before_month ?y 13"
    using date_year_bounds [OF assms] days_of_year [of ?y]
    by (auto simp: year_day_def days_before_year_step simp del: days_before_month_simps)
  let ?P = "\<lambda>m. year_day d \<le> days_before_month ?y (m + 1)"
  have "find ?P [1..12] \<noteq> None" using yd by (auto simp: find_None_iff intro!: bexI [of _ 12])
  then obtain m where f: "find ?P [1..12] = Some m" by blast
  then have m: "?P m" "1 \<le> m" "m \<le> 12" "\<And>n. 1 \<le> n \<Longrightarrow> n < m \<Longrightarrow> \<not> ?P n"
    by (simp_all only: find_upto) blast
  have "days_before_month ?y m < year_day d"
    using m(2) m(4) [of "m - 1"] yd(1) by (cases "m = 1") simp_all
  then show ?thesis
    using m days_before_month_step [of m ?y] by (simp add: real_day_def date_day_def date_month_def f)
qed

lemma ymd_ordinal_date: "ymd_ordinal (date_year d) (date_month d) (date_day d) = d"
  by (simp add: ymd_ordinal_def date_day_def year_day_def)

text \<open>Adding months: the month wanted, on the same day or the last day there is.\<close>

lemma add_months_Inr:
  assumes "1 \<le> s" and "add_months s k = Inr e"
  shows "month_index e = month_index s + k"
    and "date_day e = min (date_day s) (month_length (date_year e) (date_month e))"
    and "1 \<le> date_year e" "date_year e \<le> 9999"
proof -
  define i where "i = date_month s - 1 + k"
  define y where "y = date_year s + i div 12"
  define m where "m = i mod 12 + 1"
  define d where "d = min (date_day s) (month_length y m)"
  have e: "1 \<le> y" "y \<le> 9999" "e = ymd_ordinal y m d"
    using assms(2) by (simp_all add: add_months_def mk_date_def Let_def i_def y_def m_def d_def)
  have "real_day y m d"
    using date_day_range [OF assms(1)] month_length_pos [of y m] by (auto simp: real_day_def d_def m_def)
  note ymd = ymd_roundtrip [OF this, folded e(3)]
  show "month_index e = month_index s + k"
    by (simp add: month_index_def ymd m_def y_def) (simp add: i_def)
  show "date_day e = min (date_day s) (month_length (date_year e) (date_month e))"
    by (simp add: ymd d_def)
  show "1 \<le> date_year e" "date_year e \<le> 9999" using e(1,2) by (simp_all add: ymd)
qed

lemma div_range: "(1 \<le> n div 12 \<and> n div 12 \<le> 9999) \<longleftrightarrow> 12 \<le> n \<and> n < 120000" for n :: int
  by auto

lemma add_months_fails:
  "add_months s k = Inl x \<longleftrightarrow> x = Date_Overflow \<and> (month_index s + k < 12 \<or> 120000 \<le> month_index s + k)"
proof -
  have "date_year s + (date_month s - 1 + k) div 12 = (month_index s + k) div 12"
    by (simp add: month_index_def)
  moreover have "(1 \<le> (month_index s + k) div 12 \<and> (month_index s + k) div 12 \<le> 9999) \<longleftrightarrow>
      12 \<le> month_index s + k \<and> month_index s + k < 120000"
    using div_range [of "month_index s + k"] .
  ultimately show ?thesis by (simp add: add_months_def mk_date_def Let_def require_def not_le not_less) blast
qed

subsection \<open>Instants\<close>

datatype tzinfo = Zone string | Fixed_Offset int

record datetime =
  wall :: int
  tz :: tzinfo

record clock_time =
  time_of_day :: int
  clock_tz :: "tzinfo option"

type_synonym zones = "string \<Rightarrow> int \<Rightarrow> int"

definition DAY :: int where
  "DAY = 86400000000"

definition HOUR :: int where
  "HOUR = 3600000000"

definition utc_offset :: "zones \<Rightarrow> tzinfo \<Rightarrow> int \<Rightarrow> int" where
  "utc_offset zones z w = (case z of Zone n \<Rightarrow> zones n w | Fixed_Offset off \<Rightarrow> off)"

definition instant :: "zones \<Rightarrow> datetime \<Rightarrow> int" where
  "instant zones d = wall d - utc_offset zones (tz d) (wall d)"

definition later :: "zones \<Rightarrow> datetime \<Rightarrow> datetime \<Rightarrow> bool" where
  "later zones a b = (if tz a = tz b then wall a > wall b else instant zones a > instant zones b)"

definition date_of :: "datetime \<Rightarrow> date" where
  "date_of d = wall d div DAY"

definition combine :: "date \<Rightarrow> int \<Rightarrow> tzinfo \<Rightarrow> datetime" where
  "combine d tod z = \<lparr>wall = d * DAY + tod, tz = z\<rparr>"

definition in_range :: "date \<Rightarrow> bool" where
  "in_range d \<longleftrightarrow> 1 \<le> d \<and> d \<le> MAX_ORDINAL"

definition add_hours :: "datetime \<Rightarrow> int \<Rightarrow> (calendar_error, datetime) result" where
  "add_hours d h =
     (let e = d\<lparr>wall := wall d + h * HOUR\<rparr> in require (in_range (date_of e)) Date_Overflow (Inr e))"

definition add_days :: "date \<Rightarrow> int \<Rightarrow> (calendar_error, date) result" where
  "add_days d n = require (in_range (d + n)) Date_Overflow (Inr (d + n))"

text \<open>A zone of one offset, where comparing by wall clocks is comparing instants.\<close>

lemma later_fixed:
  assumes "tz a = Fixed_Offset x"
  shows "later zones a b \<longleftrightarrow> instant zones a > instant zones b"
  using assms by (auto simp: later_def instant_def utc_offset_def split: tzinfo.splits)

lemma later_trans_fixed:
  assumes "tz a = Fixed_Offset x" and "tz b = Fixed_Offset y"
    and "later zones a d" and "instant zones a \<le> instant zones b"
  shows "later zones b d"
  using assms by (simp add: later_fixed)

lemma date_of_combine [simp]: "0 \<le> tod \<Longrightarrow> tod < DAY \<Longrightarrow> date_of (combine d tod z) = d"
  by (simp add: date_of_def combine_def div_mod_unique [of _ DAY d tod] mult.commute)

end
