(* ===== verification/Boundary.thy ===== *)
theory Boundary
  imports Prelude
begin

text \<open>
  \<open>atreides/rails/boundary.py\<close>, \<open>finality.py\<close> and \<open>perimeter.py\<close>: what an enum field may hold
  when it arrives from outside, the exact coercion to a member, and the two small
  vocabularies the rails share. The locale \<open>str_enum\<close> is the interface the coercion relies
  on (a \<open>StrEnum\<close> lists all its members and gives them distinct values); every enumeration
  that crosses a boundary interprets it.
\<close>

subsection \<open>Values that reach an enum field\<close>

text \<open>
  A field annotated with an enum may in Python hold a member of it, a member of another enum
  (with that member's value), a plain \<open>str\<close>, or any other object (kept by its \<open>repr\<close>).
\<close>

datatype pyobj = Py_Str string | Py_Obj string

datatype 'e enum_arg = Member 'e | Foreign_Member string | Raw pyobj

fun is_member :: "'e enum_arg \<Rightarrow> bool" where
  "is_member (Member _) = True"
| "is_member _ = False"

fun coerce_member :: "'e list \<Rightarrow> ('e \<Rightarrow> string) \<Rightarrow> 'e enum_arg \<Rightarrow> 'e enum_arg" where
  "coerce_member members val (Raw (Py_Str s)) =
     (case find (\<lambda>m. val m = s) members of Some m \<Rightarrow> Member m | None \<Rightarrow> Raw (Py_Str s))"
| "coerce_member members val x = x"

lemma coerce_is_member [simp]: "is_member x \<Longrightarrow> coerce_member members val x = x"
  by (cases x) simp_all

text \<open>\<open>unrecognised(name=(cls, value), ...)\<close>: the fields with \<open>isinstance(value, cls)\<close>.\<close>

definition unrecognised :: "(string \<times> bool) list \<Rightarrow> string list" where
  "unrecognised fields = map fst (filter (\<lambda>f. \<not> snd f) fields)"

datatype description = Value_Of string | Unrecognised_Value pyobj

fun describe :: "('e \<Rightarrow> string) \<Rightarrow> 'e enum_arg \<Rightarrow> description" where
  "describe val (Member e) = Value_Of (val e)"
| "describe val (Foreign_Member v) = Value_Of v"
| "describe val (Raw x) = Unrecognised_Value x"

text \<open>\<open>EnumCls(value)\<close>: a member stays, a string equal to a value becomes its member (a
  foreign \<open>StrEnum\<close> member is such a string), anything else raises.\<close>

fun enum_call :: "'e list \<Rightarrow> ('e \<Rightarrow> string) \<Rightarrow> 'e enum_arg \<Rightarrow> 'e option" where
  "enum_call members val (Member e) = Some e"
| "enum_call members val (Foreign_Member s) = find (\<lambda>m. val m = s) members"
| "enum_call members val (Raw (Py_Str s)) = find (\<lambda>m. val m = s) members"
| "enum_call members val (Raw (Py_Obj r)) = None"

subsection \<open>The interface of a StrEnum\<close>

locale str_enum =
  fixes members :: "'e list" and val :: "'e \<Rightarrow> string"
  assumes all_members: "e \<in> set members"
    and val_inj: "val a = val b \<Longrightarrow> a = b"
begin

lemma find_val [simp]: "find (\<lambda>m. val m = val e) members = Some e"
  by (rule find_unique) (auto simp: all_members dest: val_inj)

lemma find_val_iff: "find (\<lambda>m. val m = s) members = Some e \<longleftrightarrow> s = val e"
proof
  assume "find (\<lambda>m. val m = s) members = Some e"
  then show "s = val e" by (auto simp: find_Some_iff)
next
  assume "s = val e"
  then show "find (\<lambda>m. val m = s) members = Some e" by (simp only: find_val)
qed

lemma find_val_None: "find (\<lambda>m. val m = s) members = None \<longleftrightarrow> (\<forall>e. s \<noteq> val e)"
proof
  assume "find (\<lambda>m. val m = s) members = None"
  then show "\<forall>e. s \<noteq> val e" by (auto simp: find_None_iff all_members)
next
  assume "\<forall>e. s \<noteq> val e"
  then show "find (\<lambda>m. val m = s) members = None" by (auto simp: find_None_iff)
qed

lemma coerce_value: "coerce_member members val (Raw (Py_Str (val e))) = Member e"
  by simp

lemma coerce_member_iff:
  "coerce_member members val x = Member e \<longleftrightarrow> x = Member e \<or> x = Raw (Py_Str (val e))"
proof (cases x)
  case (Raw r)
  then show ?thesis
    by (cases r) (auto split: option.splits simp: find_val_iff find_val_None dest: val_inj)
qed auto

lemma coerce_unknown:
  "\<forall>e. s \<noteq> val e \<Longrightarrow> coerce_member members val (Raw (Py_Str s)) = Raw (Py_Str s)"
  by (auto split: option.splits simp: find_val_iff)

lemma coerce_idem:
  "coerce_member members val (coerce_member members val x) = coerce_member members val x"
proof (cases x)
  case (Raw r)
  then show ?thesis by (cases r) (auto split: option.splits)
qed auto

lemma describe_coerce:
  "describe val (coerce_member members val x) = Value_Of v \<Longrightarrow>
   (\<exists>e. v = val e) \<or> x = Foreign_Member v"
proof (cases x)
  case (Raw r)
  assume "describe val (coerce_member members val x) = Value_Of v"
  then show ?thesis using Raw by (cases r) (auto split: option.splits)
qed auto

lemma enum_call_value [simp]: "enum_call members val (Raw (Py_Str (val e))) = Some e"
  by simp

lemma sort_key_val_inj: "inj_on val A"
  by (auto intro: inj_onI dest: val_inj)

end

lemma str_enumI:
  assumes "\<And>e. e \<in> set members" and "distinct (map val members)"
  shows "str_enum members val"
  using assms by unfold_locales (auto simp: distinct_map dest: inj_onD)

subsection \<open>Finality classes\<close>

datatype FinalityClass =
    GROSS_FINAL | DEFERRED_NET | LEDGER_FINAL | CORRESPONDENT_DEPENDENT | DETERMINATION_DEPENDENT

fun finality_value :: "FinalityClass \<Rightarrow> string" where
  "finality_value GROSS_FINAL = ''GROSS_FINAL''"
| "finality_value DEFERRED_NET = ''DEFERRED_NET''"
| "finality_value LEDGER_FINAL = ''LEDGER_FINAL''"
| "finality_value CORRESPONDENT_DEPENDENT = ''CORRESPONDENT_DEPENDENT''"
| "finality_value DETERMINATION_DEPENDENT = ''DETERMINATION_DEPENDENT''"

definition finality_members :: "FinalityClass list" where
  "finality_members = [GROSS_FINAL, DEFERRED_NET, LEDGER_FINAL, CORRESPONDENT_DEPENDENT,
     DETERMINATION_DEPENDENT]"

interpretation finality: str_enum finality_members finality_value
proof (rule str_enumI)
  show "e \<in> set finality_members" for e by (cases e) (simp_all add: finality_members_def)
qed (simp add: finality_members_def)

subsection \<open>Settlement perimeter\<close>

datatype SettlementPerimeter = NOT_ASSESSED | ON_US | OFF_US

fun perimeter_value :: "SettlementPerimeter \<Rightarrow> string" where
  "perimeter_value SettlementPerimeter.NOT_ASSESSED = ''NOT_ASSESSED''"
| "perimeter_value ON_US = ''ON_US''"
| "perimeter_value OFF_US = ''OFF_US''"

definition perimeter_members :: "SettlementPerimeter list" where
  "perimeter_members = [SettlementPerimeter.NOT_ASSESSED, ON_US, OFF_US]"

interpretation perimeter: str_enum perimeter_members perimeter_value
proof (rule str_enumI)
  show "e \<in> set perimeter_members" for e by (cases e) (simp_all add: perimeter_members_def)
qed (simp add: perimeter_members_def)

definition continuously_available :: "bool \<Rightarrow> SettlementPerimeter enum_arg \<Rightarrow> bool" where
  "continuously_available is_ledger_final p =
     (if \<not> is_ledger_final then True else p = Member ON_US)"

lemma not_assessed_fails_closed:
  "continuously_available True p \<longleftrightarrow> p = Member ON_US"
  by (simp add: continuously_available_def)

end
