(* ===== verification/Determination.thy ===== *)
theory Determination
  imports Boundary
begin

text \<open>
  \<open>atreides/rails/determination.py\<close>: the venue registry entry for contingent payouts, its
  constructor's checks, the classification of an obligation and the obligation-level finality
  class. Elapsed time is a value (seconds), as in the source.
\<close>

datatype RevocationForm =
    NOT_ASSESSED | NONE_DISCLOSED | LIQUIDATION_AT_ADMINISTERED_PRICE
  | CANCELLATION_AND_RETURN_OF_FUNDS

fun revocation_value :: "RevocationForm \<Rightarrow> string" where
  "revocation_value RevocationForm.NOT_ASSESSED = ''not_assessed''"
| "revocation_value NONE_DISCLOSED = ''none_disclosed''"
| "revocation_value LIQUIDATION_AT_ADMINISTERED_PRICE = ''liquidation_at_administered_price''"
| "revocation_value CANCELLATION_AND_RETURN_OF_FUNDS = ''cancellation_and_return_of_funds''"

definition revocation_members :: "RevocationForm list" where
  "revocation_members = [RevocationForm.NOT_ASSESSED, NONE_DISCLOSED,
     LIQUIDATION_AT_ADMINISTERED_PRICE, CANCELLATION_AND_RETURN_OF_FUNDS]"

interpretation revocation: str_enum revocation_members revocation_value
proof (rule str_enumI)
  show "e \<in> set revocation_members" for e by (cases e) (simp_all add: revocation_members_def)
qed (simp add: revocation_members_def)

datatype DeterminationOutcome =
    NOT_APPLICABLE | AWAITING_DETERMINATION | QUALIFIED_BOUNDED | QUALIFIED_UNBOUNDED
  | QUALIFICATION_UNKNOWN | UNQUALIFIED

fun outcome_value :: "DeterminationOutcome \<Rightarrow> string" where
  "outcome_value NOT_APPLICABLE = ''not_applicable''"
| "outcome_value AWAITING_DETERMINATION = ''awaiting_determination''"
| "outcome_value QUALIFIED_BOUNDED = ''qualified_bounded''"
| "outcome_value QUALIFIED_UNBOUNDED = ''qualified_unbounded''"
| "outcome_value QUALIFICATION_UNKNOWN = ''qualification_unknown''"
| "outcome_value UNQUALIFIED = ''unqualified''"

definition outcome_members :: "DeterminationOutcome list" where
  "outcome_members = [NOT_APPLICABLE, AWAITING_DETERMINATION, QUALIFIED_BOUNDED,
     QUALIFIED_UNBOUNDED, QUALIFICATION_UNKNOWN, UNQUALIFIED]"

interpretation outcome: str_enum outcome_members outcome_value
proof (rule str_enumI)
  show "e \<in> set outcome_members" for e by (cases e) (simp_all add: outcome_members_def)
qed (simp add: outcome_members_def)

record DeterminationProfile =
  venue_id :: string
  revocation_form :: RevocationForm
  qualification_window_seconds :: "int option"
  det_provenance :: "string option"

datatype profile_error =
    Not_A_Revocation_Form | Venue_Id_Required | Provenance_Required
  | Window_On_Unassessed | Window_Not_Positive

text \<open>The constructor with its \<open>__post_init__\<close>: coercion first, then the checks in order.\<close>

definition mk_DeterminationProfile ::
  "string \<Rightarrow> RevocationForm enum_arg \<Rightarrow> int option \<Rightarrow> string option \<Rightarrow>
   (profile_error, DeterminationProfile) result" where
  "mk_DeterminationProfile venue form window prov =
     (case enum_call revocation_members revocation_value form of
        None \<Rightarrow> Inl Not_A_Revocation_Form
      | Some f \<Rightarrow>
          require (venue \<noteq> []) Venue_Id_Required (
          require (f = RevocationForm.NOT_ASSESSED \<or> truthy prov) Provenance_Required (
          require (f \<noteq> RevocationForm.NOT_ASSESSED \<or> window = None) Window_On_Unassessed (
          require (case window of None \<Rightarrow> True | Some w \<Rightarrow> \<not> w \<le> 0) Window_Not_Positive (
          Inr \<lparr>venue_id = venue, revocation_form = f, qualification_window_seconds = window,
               det_provenance = prov\<rparr>)))))"

definition reverses_settlement :: "DeterminationProfile \<Rightarrow> bool" where
  "reverses_settlement p \<longleftrightarrow> revocation_form p = CANCELLATION_AND_RETURN_OF_FUNDS"

definition absent_determination_profile ::
  "string \<Rightarrow> (profile_error, DeterminationProfile) result" where
  "absent_determination_profile venue =
     mk_DeterminationProfile venue (Member RevocationForm.NOT_ASSESSED) None None"

definition classify_determination ::
  "DeterminationProfile \<Rightarrow> bool \<Rightarrow> bool \<Rightarrow> int option \<Rightarrow> DeterminationOutcome" where
  "classify_determination profile instrument_is_contingent determined seconds_since =
     (if \<not> instrument_is_contingent then NOT_APPLICABLE
      else if \<not> determined then AWAITING_DETERMINATION
      else if revocation_form profile = RevocationForm.NOT_ASSESSED then QUALIFICATION_UNKNOWN
      else if \<not> reverses_settlement profile then UNQUALIFIED
      else case qualification_window_seconds profile of
             None \<Rightarrow> QUALIFIED_UNBOUNDED
           | Some window \<Rightarrow>
               (case seconds_since of
                  None \<Rightarrow> QUALIFIED_BOUNDED
                | Some t \<Rightarrow> if t \<ge> window then UNQUALIFIED else QUALIFIED_BOUNDED))"

fun obligation_finality_class :: "DeterminationOutcome \<Rightarrow> FinalityClass option" where
  "obligation_finality_class NOT_APPLICABLE = None"
| "obligation_finality_class UNQUALIFIED = None"
| "obligation_finality_class AWAITING_DETERMINATION = Some DETERMINATION_DEPENDENT"
| "obligation_finality_class QUALIFIED_BOUNDED = Some DETERMINATION_DEPENDENT"
| "obligation_finality_class QUALIFIED_UNBOUNDED = Some DETERMINATION_DEPENDENT"
| "obligation_finality_class QUALIFICATION_UNKNOWN = Some DETERMINATION_DEPENDENT"

subsection \<open>Well-formed profiles\<close>

definition profile_ok :: "DeterminationProfile \<Rightarrow> bool" where
  "profile_ok p \<longleftrightarrow>
     venue_id p \<noteq> [] \<and>
     (revocation_form p = RevocationForm.NOT_ASSESSED \<longrightarrow> qualification_window_seconds p = None) \<and>
     (revocation_form p \<noteq> RevocationForm.NOT_ASSESSED \<longrightarrow> truthy (det_provenance p)) \<and>
     (\<forall>w. qualification_window_seconds p = Some w \<longrightarrow> 0 < w)"

lemma mk_DeterminationProfile_ok:
  "mk_DeterminationProfile v f w pr = Inr p \<Longrightarrow> profile_ok p"
  by (auto simp: mk_DeterminationProfile_def profile_ok_def split: option.splits)

text \<open>An exported profile reads back: the constructor accepts a well-formed profile whose
  form travelled as its value.\<close>

lemma mk_DeterminationProfile_roundtrip:
  assumes "profile_ok p"
  shows "mk_DeterminationProfile (venue_id p) (Raw (Py_Str (revocation_value (revocation_form p))))
           (qualification_window_seconds p) (det_provenance p) = Inr p"
  using assms
  by (auto simp: mk_DeterminationProfile_def profile_ok_def require_def not_le
      split: option.splits)

lemma classify_unqualified_iff:
  "classify_determination p c d t = UNQUALIFIED \<longleftrightarrow>
     c \<and> d \<and> revocation_form p \<noteq> RevocationForm.NOT_ASSESSED \<and>
     (\<not> reverses_settlement p \<or>
      (\<exists>w s. qualification_window_seconds p = Some w \<and> t = Some s \<and> w \<le> s))"
  by (auto simp: classify_determination_def split: option.splits)

lemma obligation_finality_class_values:
  "obligation_finality_class x = None \<or> obligation_finality_class x = Some DETERMINATION_DEPENDENT"
  by (cases x) simp_all

end
