(* ===== verification/Cato_Types.thy ===== *)
theory Cato_Types
  imports Determination Decimal_Context
begin

text \<open>
  The data of \<open>atreides/rails/cato_cash.py\<close>: enumerations, the frozen value objects with the
  checks of their \<open>__post_init__\<close>, and the predicates that live on them. Amounts are Decimals
  (see \<open>Decimal_Context\<close>), ages and cutoffs unbounded integers. The explanatory f-strings are
  kept as constructors that carry the values the source interpolates (\<open>rationale\<close>, \<open>evidence\<close>),
  not as rendered prose.
\<close>

subsection \<open>Enumerations\<close>

datatype GateDecision = PROCEED | HOLD | ESCALATE

fun gate_decision_value :: "GateDecision \<Rightarrow> string" where
  "gate_decision_value PROCEED = ''PROCEED''"
| "gate_decision_value HOLD = ''HOLD''"
| "gate_decision_value ESCALATE = ''ESCALATE''"

definition gate_decision_members :: "GateDecision list" where
  "gate_decision_members = [PROCEED, HOLD, ESCALATE]"

interpretation gate_decision: str_enum gate_decision_members gate_decision_value
proof (rule str_enumI)
  show "e \<in> set gate_decision_members" for e by (cases e) (simp_all add: gate_decision_members_def)
qed (simp add: gate_decision_members_def)

datatype CashRail =
    FEDWIRE | CHIPS | FEDNOW | NSS_DTC_NSCC | FICC_GSD_FUNDS_ONLY | CORRESPONDENT
  | TOKENIZED_DEPOSIT | REGULATED_STABLECOIN | PORTS_WHOLESALE

fun rail_value :: "CashRail \<Rightarrow> string" where
  "rail_value FEDWIRE = ''fedwire''"
| "rail_value CHIPS = ''chips''"
| "rail_value FEDNOW = ''fednow''"
| "rail_value NSS_DTC_NSCC = ''nss_dtc_nscc''"
| "rail_value FICC_GSD_FUNDS_ONLY = ''ficc_gsd_funds_only''"
| "rail_value CORRESPONDENT = ''correspondent''"
| "rail_value TOKENIZED_DEPOSIT = ''tokenized_deposit''"
| "rail_value REGULATED_STABLECOIN = ''regulated_stablecoin''"
| "rail_value PORTS_WHOLESALE = ''ports_wholesale''"

definition rail_members :: "CashRail list" where
  "rail_members = [FEDWIRE, CHIPS, FEDNOW, NSS_DTC_NSCC, FICC_GSD_FUNDS_ONLY, CORRESPONDENT,
     TOKENIZED_DEPOSIT, REGULATED_STABLECOIN, PORTS_WHOLESALE]"

interpretation rail: str_enum rail_members rail_value
proof (rule str_enumI)
  show "e \<in> set rail_members" for e by (cases e) (simp_all add: rail_members_def)
qed (simp add: rail_members_def)

text \<open>\<open>RAIL_FINALITY\<close>: every rail has a class, and none is determination dependent.\<close>

fun RAIL_FINALITY :: "CashRail \<Rightarrow> FinalityClass" where
  "RAIL_FINALITY FEDWIRE = GROSS_FINAL"
| "RAIL_FINALITY FEDNOW = GROSS_FINAL"
| "RAIL_FINALITY CHIPS = DEFERRED_NET"
| "RAIL_FINALITY NSS_DTC_NSCC = DEFERRED_NET"
| "RAIL_FINALITY FICC_GSD_FUNDS_ONLY = DEFERRED_NET"
| "RAIL_FINALITY TOKENIZED_DEPOSIT = LEDGER_FINAL"
| "RAIL_FINALITY REGULATED_STABLECOIN = LEDGER_FINAL"
| "RAIL_FINALITY CORRESPONDENT = CORRESPONDENT_DEPENDENT"
| "RAIL_FINALITY PORTS_WHOLESALE = LEDGER_FINAL"

text \<open>\<open>RAIL_FINALITY.get(key)\<close> where the key may not be a member.\<close>

fun rail_finality_get :: "CashRail enum_arg \<Rightarrow> FinalityClass option" where
  "rail_finality_get (Member r) = Some (RAIL_FINALITY r)"
| "rail_finality_get _ = None"

lemma RAIL_FINALITY_never_determination [simp]: "RAIL_FINALITY r \<noteq> DETERMINATION_DEPENDENT"
  by (cases r) simp_all

datatype ReasonCode =
    SYSTEMIC_STRESS_ESCALATE | MATERIAL_MAGNITUDE_QUORUM_UNAVAILABLE
  | UNFUNDED_AT_SETTLEMENT_INSTANT | RISK_CONTROL_BREACH | BROAD_STRESS_HOLD
  | NO_RAIL_IN_WINDOW | UNRESOLVABLE_FINALITY | DETERMINATION_PENDING
  | UNASSESSED_REVOCATION_AUTHORITY | MARKET_DATA_STALE | SETTLEMENT_PERIMETER_UNASSESSED
  | COUNTERPARTY_UNASSESSED | COUNTERPARTY_NOT_IN_GOOD_STANDING | COUNTERPARTY_UNDER_REVIEW
  | STRESS_READING_UNUSABLE | FUNDING_INDETERMINATE | HALT_ACTIVE | INPUT_UNRECOGNISED
  | CLEARED | GATE_UNAVAILABLE

fun reason_value :: "ReasonCode \<Rightarrow> string" where
  "reason_value SYSTEMIC_STRESS_ESCALATE = ''SYSTEMIC_STRESS_ESCALATE''"
| "reason_value MATERIAL_MAGNITUDE_QUORUM_UNAVAILABLE = ''MATERIAL_MAGNITUDE_QUORUM_UNAVAILABLE''"
| "reason_value UNFUNDED_AT_SETTLEMENT_INSTANT = ''UNFUNDED_AT_SETTLEMENT_INSTANT''"
| "reason_value RISK_CONTROL_BREACH = ''RISK_CONTROL_BREACH''"
| "reason_value BROAD_STRESS_HOLD = ''BROAD_STRESS_HOLD''"
| "reason_value NO_RAIL_IN_WINDOW = ''NO_RAIL_IN_WINDOW''"
| "reason_value UNRESOLVABLE_FINALITY = ''UNRESOLVABLE_FINALITY''"
| "reason_value DETERMINATION_PENDING = ''DETERMINATION_PENDING''"
| "reason_value UNASSESSED_REVOCATION_AUTHORITY = ''UNASSESSED_REVOCATION_AUTHORITY''"
| "reason_value MARKET_DATA_STALE = ''MARKET_DATA_STALE''"
| "reason_value SETTLEMENT_PERIMETER_UNASSESSED = ''SETTLEMENT_PERIMETER_UNASSESSED''"
| "reason_value COUNTERPARTY_UNASSESSED = ''COUNTERPARTY_UNASSESSED''"
| "reason_value COUNTERPARTY_NOT_IN_GOOD_STANDING = ''COUNTERPARTY_NOT_IN_GOOD_STANDING''"
| "reason_value COUNTERPARTY_UNDER_REVIEW = ''COUNTERPARTY_UNDER_REVIEW''"
| "reason_value STRESS_READING_UNUSABLE = ''STRESS_READING_UNUSABLE''"
| "reason_value FUNDING_INDETERMINATE = ''FUNDING_INDETERMINATE''"
| "reason_value HALT_ACTIVE = ''HALT_ACTIVE''"
| "reason_value INPUT_UNRECOGNISED = ''INPUT_UNRECOGNISED''"
| "reason_value CLEARED = ''CLEARED''"
| "reason_value GATE_UNAVAILABLE = ''GATE_UNAVAILABLE''"

definition reason_members :: "ReasonCode list" where
  "reason_members = [SYSTEMIC_STRESS_ESCALATE, MATERIAL_MAGNITUDE_QUORUM_UNAVAILABLE,
     UNFUNDED_AT_SETTLEMENT_INSTANT, RISK_CONTROL_BREACH, BROAD_STRESS_HOLD, NO_RAIL_IN_WINDOW,
     UNRESOLVABLE_FINALITY, DETERMINATION_PENDING, UNASSESSED_REVOCATION_AUTHORITY,
     MARKET_DATA_STALE, SETTLEMENT_PERIMETER_UNASSESSED, COUNTERPARTY_UNASSESSED,
     COUNTERPARTY_NOT_IN_GOOD_STANDING, COUNTERPARTY_UNDER_REVIEW, STRESS_READING_UNUSABLE,
     FUNDING_INDETERMINATE, HALT_ACTIVE, INPUT_UNRECOGNISED, CLEARED, GATE_UNAVAILABLE]"

interpretation reason: str_enum reason_members reason_value
proof (rule str_enumI)
  show "e \<in> set reason_members" for e by (cases e) (simp_all add: reason_members_def)
qed (simp add: reason_members_def)

datatype RailStatus = AVAILABLE | CLOSED | DEGRADED | NOT_YET_ISSUED

fun rail_status_value :: "RailStatus \<Rightarrow> string" where
  "rail_status_value AVAILABLE = ''available''"
| "rail_status_value CLOSED = ''closed''"
| "rail_status_value DEGRADED = ''degraded''"
| "rail_status_value NOT_YET_ISSUED = ''not_yet_issued''"

definition rail_status_members :: "RailStatus list" where
  "rail_status_members = [AVAILABLE, CLOSED, DEGRADED, NOT_YET_ISSUED]"

interpretation rail_status: str_enum rail_status_members rail_status_value
proof (rule str_enumI)
  show "e \<in> set rail_status_members" for e by (cases e) (simp_all add: rail_status_members_def)
qed (simp add: rail_status_members_def)

datatype CounterpartyStanding =
    NOT_ASSESSED | IN_GOOD_STANDING | UNDER_REVIEW | SUSPENDED | DEFAULTED

fun standing_value :: "CounterpartyStanding \<Rightarrow> string" where
  "standing_value CounterpartyStanding.NOT_ASSESSED = ''not_assessed''"
| "standing_value IN_GOOD_STANDING = ''in_good_standing''"
| "standing_value UNDER_REVIEW = ''under_review''"
| "standing_value SUSPENDED = ''suspended''"
| "standing_value DEFAULTED = ''defaulted''"

definition standing_members :: "CounterpartyStanding list" where
  "standing_members = [CounterpartyStanding.NOT_ASSESSED, IN_GOOD_STANDING, UNDER_REVIEW,
     SUSPENDED, DEFAULTED]"

interpretation standing: str_enum standing_members standing_value
proof (rule str_enumI)
  show "e \<in> set standing_members" for e by (cases e) (simp_all add: standing_members_def)
qed (simp add: standing_members_def)

subsection \<open>Rail state and funding state\<close>

record RailState =
  rs_rail :: "CashRail enum_arg"
  status :: "RailStatus enum_arg"
  seconds_to_cutoff :: "int option"
  value_cap :: "rat option"
  observed_age_seconds :: "int option"

definition mk_RailState ::
  "CashRail enum_arg \<Rightarrow> RailStatus enum_arg \<Rightarrow> int option \<Rightarrow> rat option \<Rightarrow> int option \<Rightarrow> RailState" where
  "mk_RailState r st cutoff cap age =
     \<lparr>rs_rail = coerce_member rail_members rail_value r,
      status = coerce_member rail_status_members rail_status_value st,
      seconds_to_cutoff = cutoff, value_cap = cap, observed_age_seconds = age\<rparr>"

definition usable :: "RailState \<Rightarrow> bool" where
  "usable s =
     (if status s \<noteq> Member AVAILABLE then False
      else case seconds_to_cutoff s of None \<Rightarrow> True | Some t \<Rightarrow> t > 0)"

record FundingState =
  projected_funded_position :: rat
  net_obligation :: rat
  net_debit_cap_headroom :: rat
  clearing_fund_sufficient :: bool
  position_is_assertable :: bool

definition is_funded :: "FundingState \<Rightarrow> bool" where
  "is_funded f \<longleftrightarrow> projected_funded_position f \<ge> net_obligation f"

text \<open>A rail dict: keys are members, in insertion order, and pairwise distinct.\<close>

type_synonym rails = "(CashRail \<times> RailState) list"

subsection \<open>Counterparty and freshness\<close>

record Counterparty =
  counterparty_id :: string
  standing :: CounterpartyStanding
  assessed_age_seconds :: "int option"
  cp_provenance :: "string option"

datatype counterparty_error =
    Not_A_Standing | Counterparty_Id_Required | Standing_Provenance_Required
  | Age_On_Unassessed | Age_Negative

definition mk_Counterparty ::
  "string \<Rightarrow> CounterpartyStanding enum_arg \<Rightarrow> int option \<Rightarrow> string option \<Rightarrow>
   (counterparty_error, Counterparty) result" where
  "mk_Counterparty cid st age prov =
     (case enum_call standing_members standing_value st of
        None \<Rightarrow> Inl Not_A_Standing
      | Some s \<Rightarrow>
          require (cid \<noteq> []) Counterparty_Id_Required (
          require (s = CounterpartyStanding.NOT_ASSESSED \<or> truthy prov) Standing_Provenance_Required (
          require (\<not> (s = CounterpartyStanding.NOT_ASSESSED \<and> age \<noteq> None)) Age_On_Unassessed (
          require (case age of None \<Rightarrow> True | Some a \<Rightarrow> \<not> a < 0) Age_Negative (
          Inr \<lparr>counterparty_id = cid, standing = s, assessed_age_seconds = age,
               cp_provenance = prov\<rparr>)))))"

record FreshnessPolicy =
  max_stress_reading_age_seconds :: "int option"
  max_rail_state_age_seconds :: "int option"
  max_counterparty_assessment_age_seconds :: "int option"

definition positive_if_stated :: "int option \<Rightarrow> bool" where
  "positive_if_stated v = (case v of None \<Rightarrow> True | Some x \<Rightarrow> \<not> x \<le> 0)"

text \<open>The constructor; the error names the first field that fails.\<close>

definition mk_FreshnessPolicy ::
  "int option \<Rightarrow> int option \<Rightarrow> int option \<Rightarrow> (string, FreshnessPolicy) result" where
  "mk_FreshnessPolicy stress rail cp =
     require (positive_if_stated stress) ''max_stress_reading_age_seconds'' (
     require (positive_if_stated rail) ''max_rail_state_age_seconds'' (
     require (positive_if_stated cp) ''max_counterparty_assessment_age_seconds'' (
     Inr \<lparr>max_stress_reading_age_seconds = stress, max_rail_state_age_seconds = rail,
          max_counterparty_assessment_age_seconds = cp\<rparr>)))"

definition polices_anything :: "FreshnessPolicy \<Rightarrow> bool" where
  "polices_anything p \<longleftrightarrow>
     (\<exists>v \<in> set [max_stress_reading_age_seconds p, max_rail_state_age_seconds p,
                 max_counterparty_assessment_age_seconds p]. v \<noteq> None)"

datatype staleness =
    Not_Policed | Age_Never_Established | Age_Over int int | Age_Within int int

definition staleness :: "int option \<Rightarrow> int option \<Rightarrow> bool \<times> staleness" where
  "staleness age_seconds maximum =
     (case maximum of
        None \<Rightarrow> (False, Not_Policed)
      | Some m \<Rightarrow>
          (case age_seconds of
             None \<Rightarrow> (True, Age_Never_Established)
           | Some a \<Rightarrow> if a > m then (True, Age_Over a m) else (False, Age_Within a m)))"

lemma staleness_stale_iff:
  "fst (staleness age maximum) \<longleftrightarrow>
     (\<exists>m. maximum = Some m \<and> (age = None \<or> (\<exists>a. age = Some a \<and> m < a)))"
  by (auto simp: staleness_def split: option.splits)

lemma staleness_fresh_iff:
  "\<not> fst (staleness age maximum) \<longleftrightarrow>
     (\<forall>m. maximum = Some m \<longrightarrow> (\<exists>a. age = Some a \<and> a \<le> m))"
  by (cases age) (auto simp: staleness_stale_iff not_less)

subsection \<open>The operation\<close>

record OperationContext =
  notional :: rat
  currency :: string
  is_material :: bool
  is_lvps_material :: bool
  is_fx_leg :: bool
  pvp_available :: bool
  depository_linked_rail :: "CashRail enum_arg option"
  correspondent_finality_resolvable :: bool
  tokenized_deposit_supported :: bool
  within_business_hours :: bool
  determination_outcome :: "DeterminationOutcome enum_arg"
  counterparty :: "Counterparty option"
  settlement_perimeter :: "SettlementPerimeter enum_arg"

text \<open>The coercions of \<open>OperationContext.__post_init__\<close>, applied to the arguments as given.\<close>

definition coerce_operation :: "OperationContext \<Rightarrow> OperationContext" where
  "coerce_operation op =
     op\<lparr>determination_outcome :=
          coerce_member outcome_members outcome_value (determination_outcome op),
        settlement_perimeter :=
          coerce_member perimeter_members perimeter_value (settlement_perimeter op),
        depository_linked_rail :=
          map_option (coerce_member rail_members rail_value) (depository_linked_rail op)\<rparr>"

definition op_unrecognised_fields :: "OperationContext \<Rightarrow> string list" where
  "op_unrecognised_fields op =
     unrecognised
       ([(''determination_outcome'', is_member (determination_outcome op)),
         (''settlement_perimeter'', is_member (settlement_perimeter op))]
        @ (case depository_linked_rail op of
             None \<Rightarrow> []
           | Some r \<Rightarrow> [(''depository_linked_rail'', is_member r)]))"

lemma op_unrecognised_fields_Nil:
  "op_unrecognised_fields op = [] \<longleftrightarrow>
     is_member (determination_outcome op) \<and> is_member (settlement_perimeter op) \<and>
     (\<forall>r. depository_linked_rail op = Some r \<longrightarrow> is_member r)"
  by (auto simp: op_unrecognised_fields_def unrecognised_def split: option.splits)

text \<open>\<open>describe(getattr(operation, name))\<close> for the fields above.\<close>

definition op_describe :: "OperationContext \<Rightarrow> string \<Rightarrow> description" where
  "op_describe op name =
     (if name = ''determination_outcome'' then describe outcome_value (determination_outcome op)
      else if name = ''settlement_perimeter'' then describe perimeter_value (settlement_perimeter op)
      else case depository_linked_rail op of
             Some r \<Rightarrow> describe rail_value r
           | None \<Rightarrow> Unrecognised_Value (Py_Obj ''None''))"

end
