(* ===== verification/Cato_Gate.thy ===== *)
theory Cato_Gate
  imports Cato_Types
begin

text \<open>
  \<open>evaluate\<close> of \<open>atreides/rails/cato_cash.py\<close>: the decision record and its constructor, the
  serviceability predicate, the rail ladder, each numbered check as a function that returns a
  verdict or nothing, and their composition in the order the source fixes.

  The kernel package (\<open>cannae_kernel\<close>) is not part of the repository. What the gate uses of it
  is the parameter \<open>K\<close>: whether a halt context blocks Atreides, the fields of a halt the record
  repeats, and the \<open>ObligationId\<close> constructor (\<open>None\<close> where it raises).
\<close>

record 'h kernel =
  blocks_atreides :: "'h \<Rightarrow> bool"
  halt_id :: "'h \<Rightarrow> string"
  halt_version :: "'h \<Rightarrow> int"
  halt_reason :: "'h \<Rightarrow> string"
  ObligationId :: "string \<Rightarrow> string option"

definition DOCTRINE_VERSION :: string where
  "DOCTRINE_VERSION = ''AUR-CUSTODY-CASH-001-v0.2''"

definition GATE_SET_VERSION :: string where
  "GATE_SET_VERSION = ''cato-cash-gates/0.4''"

definition OFR_ESCALATE_THRESHOLD :: rat where "OFR_ESCALATE_THRESHOLD = 1"
definition OFR_HOLD_THRESHOLD :: rat where "OFR_HOLD_THRESHOLD = 1 / 2"
definition OFR_STRESS_PREFERENCE_THRESHOLD :: rat where
  "OFR_STRESS_PREFERENCE_THRESHOLD = 1 / 4"

subsection \<open>The decision record\<close>

datatype evidence =
    Ev_Bool bool | Ev_Decimal rat | Ev_Float pyfloat | Ev_Text string | Ev_Seconds "int option"
  | Ev_Names "string list" | Ev_Described description
  | Ev_Halt_Active string int | Ev_Halt_Not_Supplied | Ev_Halt_Inactive int

datatype ladder_rule =
    Depository_Linked CashRail | Elevated_Stress pyfloat | LVPS_Material | Off_Hours_FedNow
  | Tokenized_Preferred "SettlementPerimeter enum_arg" | Default_Rail | Sole_Serviceable

datatype blocker =
    Absent_From_Rail_State | Reserved_Placeholder | Not_Usable description "int option"
  | Cap_Below_Notional rat | Not_Continuously_Available "SettlementPerimeter enum_arg"

datatype rationale =
    R_Halt string int string | R_Unrecognised "(string \<times> description) list"
  | R_Stress_Unusable pyfloat | R_Stress_Stale staleness | R_Rail_Stale CashRail staleness
  | R_Counterparty_Stale string staleness | R_Systemic_Stress pyfloat | R_Material
  | R_Counterparty_Unassessed string | R_Counterparty_Under_Review string
  | R_Counterparty_Bad string CounterpartyStanding | R_Funding_Indeterminate
  | R_Unfunded rat rat | R_Risk_Control | R_Broad_Stress pyfloat
  | R_Perimeter_Unassessed rat | R_No_Rail rat | R_Unresolvable_Finality
  | R_Determination_Pending | R_Unassessed_Revocation
  | R_Ladder_Empty rat "(CashRail \<times> blocker option) option"
  | R_Cleared ladder_rule "bool option" bool
  | R_Absent_Gate string

record CatoCashDecision =
  decision :: "GateDecision enum_arg"
  reason_code :: "ReasonCode enum_arg"
  recommended_rail :: "CashRail option"
  finality_class :: "FinalityClass option"
  rationale :: rationale
  checks_evaluated :: "(string \<times> evidence) list"
  funding_state_snapshot :: "(string \<times> evidence) list"
  evaluated_notional :: "rat option"
  evaluated_currency :: "string option"
  doctrine_version :: string
  dsor_lineage_uri :: "string option"
  obligation_finality :: "FinalityClass option"
  decided_perimeter :: "SettlementPerimeter enum_arg"
  obligation_id :: "string option"
  obligation_digest :: "string option"
  gate_set_version :: string

datatype decision_error =
    Unrecognised_Decision | Unrecognised_Reason | Proceed_Without_Checks
  | Obligation_Half_Bound | Bad_Obligation_Id | Bad_Obligation_Digest | No_Gate_Set_Version

text \<open>
  \<open>_DIGEST.match\<close>: the prefix, exactly 64 lower-case hex digits, then the end of the string;
  Python's \<open>$\<close> also matches before one final newline.
\<close>

definition lower_hex :: "char \<Rightarrow> bool" where
  "lower_hex c \<longleftrightarrow> c \<in> set ''0123456789abcdef''"

definition digest_match :: "string \<Rightarrow> bool" where
  "digest_match s \<longleftrightarrow>
     take 7 s = ''sha256:'' \<and> length (take 64 (drop 7 s)) = 64 \<and>
     list_all lower_hex (take 64 (drop 7 s)) \<and> (drop 71 s = [] \<or> drop 71 s = [CHR 0x0A])"

text \<open>\<open>CatoCashDecision.__post_init__\<close> on the fields as given.\<close>

definition decision_post_init ::
  "'h kernel \<Rightarrow> CatoCashDecision \<Rightarrow> (decision_error, CatoCashDecision) result" where
  "decision_post_init K d =
     (let dec = coerce_member gate_decision_members gate_decision_value (decision d);
          rc = coerce_member reason_members reason_value (reason_code d);
          oid = obligation_id d;
          oid' = (case oid of None \<Rightarrow> None | Some s \<Rightarrow> ObligationId K s) in
      require (is_member dec) Unrecognised_Decision (
      require (is_member rc) Unrecognised_Reason (
      require (\<not> (dec = Member PROCEED \<and> checks_evaluated d = [])) Proceed_Without_Checks (
      require ((oid = None) = (obligation_digest d = None)) Obligation_Half_Bound (
      require (oid \<noteq> None \<longrightarrow> oid' \<noteq> None) Bad_Obligation_Id (
      require (case obligation_digest d of None \<Rightarrow> True | Some g \<Rightarrow> digest_match g)
        Bad_Obligation_Digest (
      require (gate_set_version d \<noteq> []) No_Gate_Set_Version (
      Inr (d\<lparr>decision := dec, reason_code := rc, obligation_id := oid'\<rparr>)))))))))"

definition proceeds :: "CatoCashDecision \<Rightarrow> bool" where
  "proceeds d \<longleftrightarrow> decision d = Member PROCEED"

definition bound :: "CatoCashDecision \<Rightarrow> bool" where
  "bound d \<longleftrightarrow> obligation_id d \<noteq> None"

definition snapshot_funding :: "FundingState \<Rightarrow> (string \<times> evidence) list" where
  "snapshot_funding f =
     [(''projected_funded_position'', Ev_Decimal (projected_funded_position f)),
      (''net_obligation'', Ev_Decimal (net_obligation f)),
      (''net_debit_cap_headroom'', Ev_Decimal (net_debit_cap_headroom f)),
      (''clearing_fund_sufficient'', Ev_Bool (clearing_fund_sufficient f)),
      (''is_funded'', Ev_Bool (is_funded f))]"

subsection \<open>Serviceability\<close>

definition within_cap :: "RailState \<Rightarrow> OperationContext \<Rightarrow> bool" where
  "within_cap s op = (case value_cap s of None \<Rightarrow> True | Some c \<Rightarrow> \<not> notional op > c)"

definition serviceable :: "RailState \<Rightarrow> OperationContext \<Rightarrow> bool" where
  "serviceable s op =
     (if \<not> usable s then False
      else if \<not> within_cap s op then False
      else if \<not> within_business_hours op then
        continuously_available (rail_finality_get (rs_rail s) = Some LEDGER_FINAL)
          (settlement_perimeter op)
      else True)"

definition linked_rail_blocker ::
  "CashRail \<Rightarrow> rails \<Rightarrow> OperationContext \<Rightarrow> blocker option" where
  "linked_rail_blocker linked rails op =
     (case map_of rails linked of
        None \<Rightarrow> Some Absent_From_Rail_State
      | Some s \<Rightarrow>
          if linked = PORTS_WHOLESALE then Some Reserved_Placeholder
          else if serviceable s op then None
          else if \<not> usable s then
            Some (Not_Usable (describe rail_status_value (status s)) (seconds_to_cutoff s))
          else case value_cap s of
                 Some c \<Rightarrow> if notional op > c then Some (Cap_Below_Notional c)
                           else Some (Not_Continuously_Available (settlement_perimeter op))
               | None \<Rightarrow> Some (Not_Continuously_Available (settlement_perimeter op)))"

subsection \<open>The rail ladder\<close>

definition usable_rails :: "rails \<Rightarrow> rails" where
  "usable_rails rails = filter (\<lambda>(r, s). usable s) rails"

definition ladder_prefer :: "OperationContext \<Rightarrow> rails \<Rightarrow> CashRail list \<Rightarrow> CashRail option" where
  "ladder_prefer op rails candidates =
     find (\<lambda>r. case map_of (usable_rails rails) r of None \<Rightarrow> False | Some s \<Rightarrow> within_cap s op)
       candidates"

definition by_rail_value :: "rails \<Rightarrow> rails" where
  "by_rail_value rails = sort_key (\<lambda>(r, s). rail_value r) rails"

definition sole_serviceable :: "OperationContext \<Rightarrow> rails \<Rightarrow> CashRail option" where
  "sole_serviceable op rails =
     map_option fst
       (find (\<lambda>(r, s). r \<noteq> PORTS_WHOLESALE \<and> serviceable s op) (by_rail_value (usable_rails rails)))"

definition recommend_rail ::
  "OperationContext \<Rightarrow> rails \<Rightarrow> pyfloat \<Rightarrow> (CashRail \<times> ladder_rule) option" where
  "recommend_rail op rails ofr =
     (case depository_linked_rail op of
        Some (Member linked) \<Rightarrow>
          if linked_rail_blocker linked rails op \<noteq> None then None
          else Some (linked, Depository_Linked linked)
      | Some _ \<Rightarrow> None
      | None \<Rightarrow>
     (let gross = ladder_prefer op rails [FEDWIRE, FEDNOW];
          tokenized = ladder_prefer op rails [TOKENIZED_DEPOSIT];
          fedwire = ladder_prefer op rails [FEDWIRE] in
      if float_ge ofr OFR_STRESS_PREFERENCE_THRESHOLD \<and> gross \<noteq> None
      then Some (the gross, Elevated_Stress ofr)
      else if is_lvps_material op \<and> gross \<noteq> None then Some (the gross, LVPS_Material)
      else if \<not> within_business_hours op \<and> ladder_prefer op rails [FEDNOW] \<noteq> None
      then Some (FEDNOW, Off_Hours_FedNow)
      else if tokenized_deposit_supported op \<and> tokenized \<noteq> None
      then Some (the tokenized, Tokenized_Preferred (settlement_perimeter op))
      else if fedwire \<noteq> None then Some (the fedwire, Default_Rail)
      else map_option (\<lambda>r. (r, Sole_Serviceable)) (sole_serviceable op rails)))"

subsection \<open>The checks, in the order of the source\<close>

type_synonym verdict = "GateDecision \<times> ReasonCode \<times> rationale \<times> CashRail option"

definition check_stress_reading :: "pyfloat \<Rightarrow> verdict option" where
  "check_stress_reading ofr =
     (if \<not> isfinite ofr then Some (HOLD, STRESS_READING_UNUSABLE, R_Stress_Unusable ofr, None)
      else None)"

definition check_freshness ::
  "OperationContext \<Rightarrow> rails \<Rightarrow> int option \<Rightarrow> FreshnessPolicy option \<Rightarrow> verdict option" where
  "check_freshness op rails stress_age policy =
     (case policy of None \<Rightarrow> None
      | Some p \<Rightarrow>
        if \<not> polices_anything p then None
        else if fst (staleness stress_age (max_stress_reading_age_seconds p)) then
          Some (HOLD, MARKET_DATA_STALE,
            R_Stress_Stale (snd (staleness stress_age (max_stress_reading_age_seconds p))), None)
        else
          let rail_stale = (\<lambda>s. staleness (observed_age_seconds s) (max_rail_state_age_seconds p)) in
          case find (\<lambda>(r, s). fst (rail_stale s)) (by_rail_value rails) of
            Some (r, s) \<Rightarrow>
              Some (HOLD, MARKET_DATA_STALE, R_Rail_Stale r (snd (rail_stale s)), None)
          | None \<Rightarrow>
              (case counterparty op of None \<Rightarrow> None
               | Some cp \<Rightarrow>
                 let cp_stale = staleness (assessed_age_seconds cp)
                                  (max_counterparty_assessment_age_seconds p) in
                 if fst cp_stale then
                   Some (HOLD, MARKET_DATA_STALE,
                     R_Counterparty_Stale (counterparty_id cp) (snd cp_stale), None)
                 else None))"

definition check_systemic_stress :: "pyfloat \<Rightarrow> verdict option" where
  "check_systemic_stress ofr =
     (if float_gt ofr OFR_ESCALATE_THRESHOLD
      then Some (ESCALATE, SYSTEMIC_STRESS_ESCALATE, R_Systemic_Stress ofr, None) else None)"

definition check_material :: "OperationContext \<Rightarrow> verdict option" where
  "check_material op =
     (if is_material op
      then Some (HOLD, MATERIAL_MAGNITUDE_QUORUM_UNAVAILABLE, R_Material, None) else None)"

definition check_counterparty :: "OperationContext \<Rightarrow> verdict option" where
  "check_counterparty op =
     (case counterparty op of None \<Rightarrow> None
      | Some cp \<Rightarrow>
        if standing cp = CounterpartyStanding.NOT_ASSESSED then
          Some (HOLD, COUNTERPARTY_UNASSESSED, R_Counterparty_Unassessed (counterparty_id cp), None)
        else if standing cp = UNDER_REVIEW then
          Some (ESCALATE, COUNTERPARTY_UNDER_REVIEW,
            R_Counterparty_Under_Review (counterparty_id cp), None)
        else if standing cp \<in> {SUSPENDED, DEFAULTED} then
          Some (HOLD, COUNTERPARTY_NOT_IN_GOOD_STANDING,
            R_Counterparty_Bad (counterparty_id cp) (standing cp), None)
        else None)"

definition check_assertable :: "FundingState \<Rightarrow> verdict option" where
  "check_assertable f =
     (if \<not> position_is_assertable f
      then Some (HOLD, FUNDING_INDETERMINATE, R_Funding_Indeterminate, None) else None)"

definition check_funded :: "FundingState \<Rightarrow> verdict option" where
  "check_funded f =
     (if \<not> is_funded f
      then Some (HOLD, UNFUNDED_AT_SETTLEMENT_INSTANT,
             R_Unfunded (projected_funded_position f) (net_obligation f), None) else None)"

definition check_risk_controls :: "FundingState \<Rightarrow> verdict option" where
  "check_risk_controls f =
     (if net_debit_cap_headroom f < 0 \<or> \<not> clearing_fund_sufficient f
      then Some (HOLD, RISK_CONTROL_BREACH, R_Risk_Control, None) else None)"

definition check_broad_stress :: "pyfloat \<Rightarrow> verdict option" where
  "check_broad_stress ofr =
     (if float_gt ofr OFR_HOLD_THRESHOLD
      then Some (HOLD, BROAD_STRESS_HOLD, R_Broad_Stress ofr, None) else None)"

definition check_window :: "OperationContext \<Rightarrow> rails \<Rightarrow> verdict option" where
  "check_window op rails =
     (if depository_linked_rail op = None \<and>
         \<not> list_ex (\<lambda>(r, s). r \<noteq> PORTS_WHOLESALE \<and> serviceable s op) rails
      then if settlement_perimeter op = Member SettlementPerimeter.NOT_ASSESSED \<and>
              \<not> within_business_hours op \<and>
              list_ex (\<lambda>(r, s). r \<noteq> PORTS_WHOLESALE \<and> RAIL_FINALITY r = LEDGER_FINAL \<and>
                          usable s \<and> within_cap s op) rails
           then Some (HOLD, SETTLEMENT_PERIMETER_UNASSESSED, R_Perimeter_Unassessed (notional op), None)
           else Some (HOLD, NO_RAIL_IN_WINDOW, R_No_Rail (notional op), None)
      else None)"

definition check_correspondent :: "OperationContext \<Rightarrow> verdict option" where
  "check_correspondent op =
     (if \<not> correspondent_finality_resolvable op
      then Some (HOLD, UNRESOLVABLE_FINALITY, R_Unresolvable_Finality, None) else None)"

definition check_determination_pending :: "OperationContext \<Rightarrow> verdict option" where
  "check_determination_pending op =
     (if determination_outcome op = Member AWAITING_DETERMINATION
      then Some (HOLD, DETERMINATION_PENDING, R_Determination_Pending, None) else None)"

definition check_revocation_assessed :: "OperationContext \<Rightarrow> verdict option" where
  "check_revocation_assessed op =
     (if determination_outcome op = Member QUALIFICATION_UNKNOWN
      then Some (HOLD, UNASSESSED_REVOCATION_AUTHORITY, R_Unassessed_Revocation, None) else None)"

text \<open>Check 10: the ladder, its empty case, and the two notes on a cleared rationale.\<close>

definition clear_operation :: "OperationContext \<Rightarrow> rails \<Rightarrow> pyfloat \<Rightarrow> verdict" where
  "clear_operation op rails ofr =
     (case recommend_rail op rails ofr of
        None \<Rightarrow>
          (HOLD, NO_RAIL_IN_WINDOW,
           R_Ladder_Empty (notional op)
             (case depository_linked_rail op of
                Some (Member linked) \<Rightarrow> Some (linked, linked_rail_blocker linked rails op)
              | _ \<Rightarrow> None), None)
      | Some (rail, rule) \<Rightarrow>
          (PROCEED, CLEARED,
           R_Cleared rule
             (if determination_outcome op \<in> {Member QUALIFIED_BOUNDED, Member QUALIFIED_UNBOUNDED}
              then Some (determination_outcome op = Member QUALIFIED_BOUNDED) else None)
             (is_fx_leg op \<and> \<not> pvp_available op),
           Some rail))"

fun first_verdict :: "verdict option list \<Rightarrow> verdict \<Rightarrow> verdict" where
  "first_verdict [] v = v"
| "first_verdict (None # cs) v = first_verdict cs v"
| "first_verdict (Some w # cs) v = w"

definition gate_check_list ::
  "OperationContext \<Rightarrow> FundingState \<Rightarrow> rails \<Rightarrow> pyfloat \<Rightarrow> int option \<Rightarrow> FreshnessPolicy option \<Rightarrow>
   verdict option list" where
  "gate_check_list op f rails ofr stress_age policy =
     [check_stress_reading ofr, check_freshness op rails stress_age policy,
      check_systemic_stress ofr, check_material op, check_counterparty op,
      check_assertable f, check_funded f, check_risk_controls f, check_broad_stress ofr,
      check_window op rails, check_correspondent op, check_determination_pending op,
      check_revocation_assessed op]"

definition gate_verdict ::
  "OperationContext \<Rightarrow> FundingState \<Rightarrow> rails \<Rightarrow> pyfloat \<Rightarrow> int option \<Rightarrow> FreshnessPolicy option \<Rightarrow>
   verdict" where
  "gate_verdict op f rails ofr stress_age policy =
     first_verdict (gate_check_list op f rails ofr stress_age policy) (clear_operation op rails ofr)"

subsection \<open>The recorded checks and the composition\<close>

definition gate_checks ::
  "'h kernel \<Rightarrow> 'h option \<Rightarrow> OperationContext \<Rightarrow> FundingState \<Rightarrow> rails \<Rightarrow> pyfloat \<Rightarrow>
   int option \<Rightarrow> FreshnessPolicy option \<Rightarrow> (string \<times> evidence) list" where
  "gate_checks K halt op f rails ofr stress_age policy =
     [(''halt'', case halt of None \<Rightarrow> Ev_Halt_Not_Supplied | Some h \<Rightarrow> Ev_Halt_Inactive (halt_version K h)),
      (''ofr_stlfsi4'', Ev_Float ofr),
      (''is_material'', Ev_Bool (is_material op)),
      (''is_lvps_material'', Ev_Bool (is_lvps_material op)),
      (''is_funded'', Ev_Bool (is_funded f)),
      (''net_debit_cap_headroom'', Ev_Decimal (net_debit_cap_headroom f)),
      (''clearing_fund_sufficient'', Ev_Bool (clearing_fund_sufficient f)),
      (''usable_rails'', Ev_Names (sort (map (\<lambda>(r, s). rail_value r) (usable_rails rails)))),
      (''correspondent_finality_resolvable'', Ev_Bool (correspondent_finality_resolvable op)),
      (''is_fx_leg'', Ev_Bool (is_fx_leg op)),
      (''pvp_available'', Ev_Bool (pvp_available op)),
      (''determination_outcome'', Ev_Described (describe outcome_value (determination_outcome op))),
      (''position_is_assertable'', Ev_Bool (position_is_assertable f)),
      (''settlement_perimeter'', Ev_Described (describe perimeter_value (settlement_perimeter op))),
      (''within_business_hours'', Ev_Bool (within_business_hours op)),
      (''counterparty_standing'',
         Ev_Text (case counterparty op of None \<Rightarrow> ''not_supplied''
                  | Some cp \<Rightarrow> standing_value (standing cp))),
      (''freshness_policy'',
         Ev_Text (case policy of None \<Rightarrow> ''not_stated''
                  | Some p \<Rightarrow> if polices_anything p then ''stated'' else ''not_stated'')),
      (''stress_reading_age_seconds'', Ev_Seconds stress_age)]"

text \<open>What a call leaves at the dataclass defaults.\<close>

definition decision_defaults :: CatoCashDecision where
  "decision_defaults =
     \<lparr>decision = Member HOLD, reason_code = Member GATE_UNAVAILABLE, recommended_rail = None,
      finality_class = None, rationale = R_Absent_Gate [], checks_evaluated = [],
      funding_state_snapshot = [], evaluated_notional = None, evaluated_currency = None,
      doctrine_version = DOCTRINE_VERSION, dsor_lineage_uri = None, obligation_finality = None,
      decided_perimeter = Member SettlementPerimeter.NOT_ASSESSED, obligation_id = None,
      obligation_digest = None, gate_set_version = GATE_SET_VERSION\<rparr>"

definition halt_decision ::
  "'h kernel \<Rightarrow> 'h \<Rightarrow> OperationContext \<Rightarrow> FundingState \<Rightarrow> string option \<Rightarrow> string option \<Rightarrow>
   string option \<Rightarrow> CatoCashDecision" where
  "halt_decision K h op f uri oid dig =
     decision_defaults\<lparr>
       decision := Member HOLD, reason_code := Member HALT_ACTIVE,
       rationale := R_Halt (halt_id K h) (halt_version K h) (halt_reason K h),
       checks_evaluated := [(''halt'', Ev_Halt_Active (halt_id K h) (halt_version K h))],
       funding_state_snapshot := snapshot_funding f,
       evaluated_notional := Some (notional op), evaluated_currency := Some (currency op),
       dsor_lineage_uri := uri, obligation_id := oid, obligation_digest := dig\<rparr>"

definition unrecognised_decision ::
  "OperationContext \<Rightarrow> FundingState \<Rightarrow> string option \<Rightarrow> string option \<Rightarrow> string option \<Rightarrow>
   CatoCashDecision" where
  "unrecognised_decision op f uri oid dig =
     (let values = map (\<lambda>n. (n, op_describe op n)) (op_unrecognised_fields op) in
      decision_defaults\<lparr>
        decision := Member HOLD, reason_code := Member INPUT_UNRECOGNISED,
        rationale := R_Unrecognised values,
        checks_evaluated := map (\<lambda>(n, v). (''unrecognised:'' @ n, Ev_Described v)) values,
        funding_state_snapshot := snapshot_funding f,
        evaluated_notional := Some (notional op), evaluated_currency := Some (currency op),
        dsor_lineage_uri := uri, obligation_id := oid, obligation_digest := dig\<rparr>)"

definition decide ::
  "(string \<times> evidence) list \<Rightarrow> OperationContext \<Rightarrow> FundingState \<Rightarrow> string option \<Rightarrow> string option \<Rightarrow>
   string option \<Rightarrow> verdict \<Rightarrow> CatoCashDecision" where
  "decide checks op f uri oid dig v =
     (case v of (dec, rc, why, rail) \<Rightarrow>
      decision_defaults\<lparr>
        decision := Member dec, reason_code := Member rc, recommended_rail := rail,
        finality_class := map_option RAIL_FINALITY rail, rationale := why,
        checks_evaluated := checks, funding_state_snapshot := snapshot_funding f,
        evaluated_notional := Some (notional op), evaluated_currency := Some (currency op),
        dsor_lineage_uri := uri,
        obligation_finality :=
          (case determination_outcome op of Member x \<Rightarrow> obligation_finality_class x | _ \<Rightarrow> None),
        decided_perimeter := settlement_perimeter op,
        obligation_id := oid, obligation_digest := dig\<rparr>)"

definition evaluate ::
  "'h kernel \<Rightarrow> OperationContext \<Rightarrow> FundingState \<Rightarrow> rails \<Rightarrow> pyfloat \<Rightarrow> string option \<Rightarrow>
   int option \<Rightarrow> FreshnessPolicy option \<Rightarrow> string option \<Rightarrow> string option \<Rightarrow> 'h option \<Rightarrow>
   (decision_error, CatoCashDecision) result" where
  "evaluate K op f rails ofr uri stress_age policy oid dig halt =
     (if halt \<noteq> None \<and> blocks_atreides K (the halt)
      then decision_post_init K (halt_decision K (the halt) op f uri oid dig)
      else if op_unrecognised_fields op \<noteq> []
      then decision_post_init K (unrecognised_decision op f uri oid dig)
      else decision_post_init K
             (decide (gate_checks K halt op f rails ofr stress_age policy) op f uri oid dig
               (gate_verdict op f rails ofr stress_age policy)))"

definition absent_gate_decision ::
  "'h kernel \<Rightarrow> string \<Rightarrow> (decision_error, CatoCashDecision) result" where
  "absent_gate_decision K why =
     decision_post_init K
       (decision_defaults\<lparr>
          decision := Member HOLD, reason_code := Member GATE_UNAVAILABLE,
          rationale := R_Absent_Gate why,
          checks_evaluated := [(''gate_available'', Ev_Bool False)],
          funding_state_snapshot := []\<rparr>)"

subsection \<open>What each step can return\<close>

text \<open>No check before the last returns PROCEED; each is silent exactly when its condition is not met.\<close>

lemma checks_never_proceed [gate_simps]:
  "check_stress_reading ofr = Some v \<Longrightarrow> fst v \<noteq> PROCEED"
  "check_freshness op rails age policy = Some v \<Longrightarrow> fst v \<noteq> PROCEED"
  "check_systemic_stress ofr = Some v \<Longrightarrow> fst v \<noteq> PROCEED"
  "check_material op = Some v \<Longrightarrow> fst v \<noteq> PROCEED"
  "check_counterparty op = Some v \<Longrightarrow> fst v \<noteq> PROCEED"
  "check_assertable f = Some v \<Longrightarrow> fst v \<noteq> PROCEED"
  "check_funded f = Some v \<Longrightarrow> fst v \<noteq> PROCEED"
  "check_risk_controls f = Some v \<Longrightarrow> fst v \<noteq> PROCEED"
  "check_broad_stress ofr = Some v \<Longrightarrow> fst v \<noteq> PROCEED"
  "check_window op rails = Some v \<Longrightarrow> fst v \<noteq> PROCEED"
  "check_correspondent op = Some v \<Longrightarrow> fst v \<noteq> PROCEED"
  "check_determination_pending op = Some v \<Longrightarrow> fst v \<noteq> PROCEED"
  "check_revocation_assessed op = Some v \<Longrightarrow> fst v \<noteq> PROCEED"
  by (auto simp: check_stress_reading_def check_freshness_def check_systemic_stress_def
      check_material_def check_counterparty_def check_assertable_def check_funded_def
      check_risk_controls_def check_broad_stress_def check_window_def check_correspondent_def
      check_determination_pending_def check_revocation_assessed_def Let_def
      split: option.splits if_splits)

lemma checks_silent [gate_simps]:
  "check_stress_reading ofr = None \<longleftrightarrow> isfinite ofr"
  "check_systemic_stress ofr = None \<longleftrightarrow> \<not> float_gt ofr 1"
  "check_material op = None \<longleftrightarrow> \<not> is_material op"
  "check_assertable f = None \<longleftrightarrow> position_is_assertable f"
  "check_funded f = None \<longleftrightarrow> is_funded f"
  "check_risk_controls f = None \<longleftrightarrow> 0 \<le> net_debit_cap_headroom f \<and> clearing_fund_sufficient f"
  "check_broad_stress ofr = None \<longleftrightarrow> \<not> float_gt ofr (1 / 2)"
  "check_window op rails = None \<longleftrightarrow>
     depository_linked_rail op \<noteq> None \<or>
     (\<exists>(r, s) \<in> set rails. r \<noteq> PORTS_WHOLESALE \<and> serviceable s op)"
  "check_correspondent op = None \<longleftrightarrow> correspondent_finality_resolvable op"
  "check_determination_pending op = None \<longleftrightarrow> determination_outcome op \<noteq> Member AWAITING_DETERMINATION"
  "check_revocation_assessed op = None \<longleftrightarrow> determination_outcome op \<noteq> Member QUALIFICATION_UNKNOWN"
  by (auto simp: check_stress_reading_def check_systemic_stress_def OFR_ESCALATE_THRESHOLD_def
      check_material_def check_assertable_def check_funded_def check_risk_controls_def
      check_broad_stress_def OFR_HOLD_THRESHOLD_def check_window_def check_correspondent_def
      check_determination_pending_def check_revocation_assessed_def list_ex_iff not_less)

lemma check_counterparty_silent [gate_simps]:
  "check_counterparty op = None \<longleftrightarrow>
     (\<forall>cp. counterparty op = Some cp \<longrightarrow> standing cp = IN_GOOD_STANDING)"
proof (cases "counterparty op")
  case (Some cp)
  then show ?thesis by (cases "standing cp") (simp_all add: check_counterparty_def)
qed (simp add: check_counterparty_def)

lemma first_verdict_proceed:
  "\<forall>c \<in> set cs. \<forall>w. c = Some w \<longrightarrow> fst w \<noteq> PROCEED \<Longrightarrow>
   fst (first_verdict cs v) = PROCEED \<longleftrightarrow> (\<forall>c \<in> set cs. c = None) \<and> fst v = PROCEED"
  by (induction cs v rule: first_verdict.induct) auto

lemma first_verdict_silent: "\<forall>c \<in> set cs. c = None \<Longrightarrow> first_verdict cs v = v"
  by (induction cs v rule: first_verdict.induct) auto

lemma clear_operation_proceed:
  "fst (clear_operation op rails ofr) = PROCEED \<longleftrightarrow> recommend_rail op rails ofr \<noteq> None"
  by (auto simp: clear_operation_def split: option.splits)

lemma clear_operation_rail:
  "recommend_rail op rails ofr = Some (r, rule) \<Longrightarrow>
   \<exists>why. clear_operation op rails ofr = (PROCEED, CLEARED, why, Some r)"
  by (simp add: clear_operation_def)

text \<open>The gate's verdict is PROCEED exactly when every check is silent and the ladder finds a rail.\<close>

lemma gate_check_list_never_proceeds:
  "\<forall>c \<in> set (gate_check_list op f rails ofr age policy). \<forall>w. c = Some w \<longrightarrow> fst w \<noteq> PROCEED"
  unfolding gate_check_list_def by (auto dest: checks_never_proceed)

lemma gate_check_list_silent:
  "(\<forall>c \<in> set (gate_check_list op f rails ofr age policy). c = None) \<longleftrightarrow>
     (\<exists>x. ofr = Finite x \<and> x \<le> 1 / 2) \<and> check_freshness op rails age policy = None \<and>
     \<not> is_material op \<and> (\<forall>cp. counterparty op = Some cp \<longrightarrow> standing cp = IN_GOOD_STANDING) \<and>
     position_is_assertable f \<and> is_funded f \<and>
     0 \<le> net_debit_cap_headroom f \<and> clearing_fund_sufficient f \<and>
     (depository_linked_rail op \<noteq> None \<or>
      (\<exists>(r, s) \<in> set rails. r \<noteq> PORTS_WHOLESALE \<and> serviceable s op)) \<and>
     correspondent_finality_resolvable op \<and>
     determination_outcome op \<notin> {Member AWAITING_DETERMINATION, Member QUALIFICATION_UNKNOWN}"
proof -
  have "isfinite ofr \<and> \<not> float_gt ofr 1 \<and> \<not> float_gt ofr (1 / 2) \<longleftrightarrow> (\<exists>x. ofr = Finite x \<and> x \<le> 1 / 2)"
    by (cases ofr) auto
  then show ?thesis
    by (simp only: gate_check_list_def list.set ball_simps insert_iff empty_iff gate_simps
        de_Morgan_disj simp_thms) blast
qed

lemma gate_verdict_proceed_iff:
  "fst (gate_verdict op f rails ofr age policy) = PROCEED \<longleftrightarrow>
     (\<forall>c \<in> set (gate_check_list op f rails ofr age policy). c = None) \<and>
     recommend_rail op rails ofr \<noteq> None"
  unfolding gate_verdict_def
  by (simp only: first_verdict_proceed [OF gate_check_list_never_proceeds] clear_operation_proceed)

lemma gate_verdict_rail:
  assumes "fst (gate_verdict op f rails ofr age policy) = PROCEED"
  shows "gate_verdict op f rails ofr age policy = clear_operation op rails ofr"
  using assms unfolding gate_verdict_def
  by (metis first_verdict_proceed [OF gate_check_list_never_proceeds] first_verdict_silent)

subsection \<open>Construction of the record\<close>

lemma decision_post_init_fields:
  assumes "decision_post_init K d = Inr d'"
  shows "recommended_rail d' = recommended_rail d" "finality_class d' = finality_class d"
    "checks_evaluated d' = checks_evaluated d" "rationale d' = rationale d"
    "obligation_finality d' = obligation_finality d"
    "evaluated_notional d' = evaluated_notional d"
    "obligation_digest d' = obligation_digest d"
    "decision d = Member x \<Longrightarrow> decision d' = Member x"
    "reason_code d = Member y \<Longrightarrow> reason_code d' = Member y"
    "(obligation_id d' = None) = (obligation_id d = None)"
  using assms by (auto simp: decision_post_init_def Let_def split: option.splits)

lemma decide_fields [simp]:
  "decision (decide ch op f u oid dig v) = Member (fst v)"
  "reason_code (decide ch op f u oid dig v) = Member (fst (snd v))"
  "recommended_rail (decide ch op f u oid dig v) = snd (snd (snd v))"
  "finality_class (decide ch op f u oid dig v) = map_option RAIL_FINALITY (snd (snd (snd v)))"
  "checks_evaluated (decide ch op f u oid dig v) = ch"
  "rationale (decide ch op f u oid dig v) = fst (snd (snd v))"
  "obligation_finality (decide ch op f u oid dig v) =
     (case determination_outcome op of Member x \<Rightarrow> obligation_finality_class x | _ \<Rightarrow> None)"
  by (cases v; simp add: decide_def)+

lemma evaluate_cases:
  assumes "evaluate K op f rails ofr uri age policy oid dig halt = Inr d"
  obtains
    (halted) h where "halt = Some h" "blocks_atreides K h"
      "decision d = Member HOLD" "reason_code d = Member HALT_ACTIVE" "recommended_rail d = None"
      "finality_class d = None"
  | (unrecognised) "op_unrecognised_fields op \<noteq> []"
      "decision d = Member HOLD" "reason_code d = Member INPUT_UNRECOGNISED"
      "recommended_rail d = None" "finality_class d = None"
  | (decided) "\<forall>h. halt = Some h \<longrightarrow> \<not> blocks_atreides K h" "op_unrecognised_fields op = []"
      "decision_post_init K (decide (gate_checks K halt op f rails ofr age policy) op f uri oid dig
         (gate_verdict op f rails ofr age policy)) = Inr d"
proof (cases "halt \<noteq> None \<and> blocks_atreides K (the halt)")
  case True
  then obtain h where h: "halt = Some h" "blocks_atreides K h" by auto
  with assms have "decision_post_init K (halt_decision K h op f uri oid dig) = Inr d"
    by (simp add: evaluate_def)
  from decision_post_init_fields [OF this] show ?thesis
    by (intro halted [OF h]) (simp_all add: halt_decision_def decision_defaults_def)
next
  case False
  show ?thesis
  proof (cases "op_unrecognised_fields op = []")
    case True
    with False assms show ?thesis by (intro decided) (auto simp: evaluate_def)
  next
    case unrec: False
    with False assms have "decision_post_init K (unrecognised_decision op f uri oid dig) = Inr d"
      by (auto simp: evaluate_def split: if_splits)
    from decision_post_init_fields [OF this] show ?thesis
      by (intro unrecognised [OF unrec])
        (simp_all add: unrecognised_decision_def decision_defaults_def Let_def)
  qed
qed

lemma evaluate_decision_iff:
  assumes "evaluate K op f rails ofr uri age policy oid dig halt = Inr d"
  shows "proceeds d \<longleftrightarrow>
    (\<forall>h. halt = Some h \<longrightarrow> \<not> blocks_atreides K h) \<and> op_unrecognised_fields op = [] \<and>
    fst (gate_verdict op f rails ofr age policy) = PROCEED"
  using assms
proof (cases rule: evaluate_cases)
  case decided
  then have "decision d = Member (fst (gate_verdict op f rails ofr age policy))"
    by (simp add: decision_post_init_fields)
  with decided show ?thesis by (auto simp: proceeds_def)
qed (auto simp: proceeds_def)

lemma evaluate_proceed_rail:
  assumes "evaluate K op f rails ofr uri age policy oid dig halt = Inr d" and "proceeds d"
  obtains r rule where "recommend_rail op rails ofr = Some (r, rule)"
    "recommended_rail d = Some r" "finality_class d = Some (RAIL_FINALITY r)"
    "reason_code d = Member CLEARED"
  using assms(1)
proof (cases rule: evaluate_cases)
  case decided
  have p: "fst (gate_verdict op f rails ofr age policy) = PROCEED"
    using assms evaluate_decision_iff by blast
  then obtain r rule where rr: "recommend_rail op rails ofr = Some (r, rule)"
    unfolding gate_verdict_proceed_iff by auto
  obtain why where "gate_verdict op f rails ofr age policy = (PROCEED, CLEARED, why, Some r)"
    using clear_operation_rail [OF rr] gate_verdict_rail [OF p] by auto
  with decided(3) have "recommended_rail d = Some r" "finality_class d = Some (RAIL_FINALITY r)"
    "reason_code d = Member CLEARED"
    by (simp_all add: decision_post_init_fields)
  with rr show ?thesis by (rule that)
qed (use assms(2) in \<open>auto simp: proceeds_def\<close>)

subsection \<open>When construction succeeds\<close>

definition binding_ok :: "'h kernel \<Rightarrow> string option \<Rightarrow> string option \<Rightarrow> bool" where
  "binding_ok K oid dig =
     (case (oid, dig) of
        (None, None) \<Rightarrow> True
      | (Some s, Some g) \<Rightarrow> ObligationId K s \<noteq> None \<and> digest_match g
      | _ \<Rightarrow> False)"

lemma decision_post_init_returns:
  assumes "is_member (decision d)" "is_member (reason_code d)" "checks_evaluated d \<noteq> []"
    "gate_set_version d \<noteq> []" "obligation_id d = oid" "obligation_digest d = dig"
  shows "(\<exists>d'. decision_post_init K d = Inr d') \<longleftrightarrow> binding_ok K oid dig"
  using assms
  by (cases oid; cases dig) (auto simp: decision_post_init_def binding_ok_def Let_def require_def)

lemma evaluate_returns:
  "(\<exists>d. evaluate K op f rails ofr uri age policy oid dig halt = Inr d) \<longleftrightarrow> binding_ok K oid dig"
proof (cases "halt \<noteq> None \<and> blocks_atreides K (the halt)")
  case True
  then show ?thesis
    by (simp add: evaluate_def)
      (rule decision_post_init_returns; simp add: halt_decision_def decision_defaults_def GATE_SET_VERSION_def)
next
  case False
  show ?thesis
  proof (cases "op_unrecognised_fields op = []")
    case True
    with False have "evaluate K op f rails ofr uri age policy oid dig halt = decision_post_init K
      (decide (gate_checks K halt op f rails ofr age policy) op f uri oid dig
        (gate_verdict op f rails ofr age policy))"
      by (auto simp: evaluate_def)
    then show ?thesis
      by (simp only:)
        (rule decision_post_init_returns;
          simp add: gate_checks_def decide_def decision_defaults_def GATE_SET_VERSION_def split_beta)
  next
    case unrec: False
    with False have "evaluate K op f rails ofr uri age policy oid dig halt =
      decision_post_init K (unrecognised_decision op f uri oid dig)"
      by (auto simp: evaluate_def)
    then show ?thesis
      by (simp only:)
        (rule decision_post_init_returns;
          simp add: unrecognised_decision_def decision_defaults_def GATE_SET_VERSION_def Let_def unrec)
  qed
qed

lemma evaluate_unbound_returns:
  "\<exists>d. evaluate K op f rails ofr uri age policy None None halt = Inr d"
  by (simp add: evaluate_returns binding_ok_def)

subsection \<open>Escalation\<close>

lemma checks_never_escalate:
  "check_stress_reading ofr = Some v \<Longrightarrow> fst v \<noteq> ESCALATE"
  "check_freshness op rails age policy = Some v \<Longrightarrow> fst v \<noteq> ESCALATE"
  "check_material op = Some v \<Longrightarrow> fst v \<noteq> ESCALATE"
  "check_assertable f = Some v \<Longrightarrow> fst v \<noteq> ESCALATE"
  "check_funded f = Some v \<Longrightarrow> fst v \<noteq> ESCALATE"
  "check_risk_controls f = Some v \<Longrightarrow> fst v \<noteq> ESCALATE"
  "check_broad_stress ofr = Some v \<Longrightarrow> fst v \<noteq> ESCALATE"
  "check_window op rails = Some v \<Longrightarrow> fst v \<noteq> ESCALATE"
  "check_correspondent op = Some v \<Longrightarrow> fst v \<noteq> ESCALATE"
  "check_determination_pending op = Some v \<Longrightarrow> fst v \<noteq> ESCALATE"
  "check_revocation_assessed op = Some v \<Longrightarrow> fst v \<noteq> ESCALATE"
  by (auto simp: check_stress_reading_def check_freshness_def check_material_def
      check_assertable_def check_funded_def check_risk_controls_def check_broad_stress_def
      check_window_def check_correspondent_def check_determination_pending_def
      check_revocation_assessed_def Let_def split: option.splits if_splits)

lemma clear_operation_never_escalates: "fst (clear_operation op rails ofr) \<noteq> ESCALATE"
  by (simp add: clear_operation_def split: option.splits prod.splits)

lemma check_systemic_stress_escalates:
  "check_systemic_stress ofr = Some v \<Longrightarrow> fst v = ESCALATE"
  by (auto simp: check_systemic_stress_def split: if_splits)

lemma check_counterparty_escalates:
  "check_counterparty op = Some v \<Longrightarrow>
   fst v = ESCALATE \<longleftrightarrow> (\<exists>cp. counterparty op = Some cp \<and> standing cp = UNDER_REVIEW)"
  by (auto simp: check_counterparty_def split: option.splits if_splits)

lemma first_verdict_all:
  "\<forall>c \<in> set cs. \<forall>w. c = Some w \<longrightarrow> P w \<Longrightarrow> P v \<Longrightarrow> P (first_verdict cs v)"
  by (induction cs v rule: first_verdict.induct) auto

lemma gate_verdict_escalate_iff:
  "fst (gate_verdict op f rails ofr age policy) = ESCALATE \<longleftrightarrow>
     isfinite ofr \<and> check_freshness op rails age policy = None \<and>
     (float_gt ofr 1 \<or>
      \<not> is_material op \<and> (\<exists>cp. counterparty op = Some cp \<and> standing cp = UNDER_REVIEW))"
proof -
  define rest where "rest = [check_assertable f, check_funded f, check_risk_controls f,
    check_broad_stress ofr, check_window op rails, check_correspondent op,
    check_determination_pending op, check_revocation_assessed op]"
  have rest: "fst (first_verdict rest (clear_operation op rails ofr)) \<noteq> ESCALATE"
    by (rule first_verdict_all [where P = "\<lambda>v. fst v \<noteq> ESCALATE"])
      (auto simp: rest_def clear_operation_never_escalates dest: checks_never_escalate)
  have list: "gate_check_list op f rails ofr age policy =
    check_stress_reading ofr # check_freshness op rails age policy # check_systemic_stress ofr #
    check_material op # check_counterparty op # rest"
    by (simp add: gate_check_list_def rest_def)
  have cp: "check_counterparty op = None \<Longrightarrow>
    \<not> (\<exists>cp. counterparty op = Some cp \<and> standing cp = UNDER_REVIEW)"
    by (auto simp: gate_simps)
  show ?thesis
    using rest cp checks_silent(1) [of ofr] checks_silent(2) [of ofr] checks_silent(3) [of op]
    unfolding gate_verdict_def list
    by (cases "check_stress_reading ofr"; cases "check_freshness op rails age policy";
        cases "check_systemic_stress ofr"; cases "check_material op"; cases "check_counterparty op")
      (auto dest: checks_never_escalate check_systemic_stress_escalates check_counterparty_escalates)
qed

lemma gate_verdict_unusable:
  "\<not> isfinite ofr \<Longrightarrow>
   gate_verdict op f rails ofr age policy = (HOLD, STRESS_READING_UNUSABLE, R_Stress_Unusable ofr, None)"
  by (simp add: gate_verdict_def gate_check_list_def check_stress_reading_def)

text \<open>Only a clearing verdict carries a rail.\<close>

lemma checks_carry_no_rail:
  "check_stress_reading ofr = Some v \<Longrightarrow> snd (snd (snd v)) = None"
  "check_freshness op rails age policy = Some v \<Longrightarrow> snd (snd (snd v)) = None"
  "check_systemic_stress ofr = Some v \<Longrightarrow> snd (snd (snd v)) = None"
  "check_material op = Some v \<Longrightarrow> snd (snd (snd v)) = None"
  "check_counterparty op = Some v \<Longrightarrow> snd (snd (snd v)) = None"
  "check_assertable f = Some v \<Longrightarrow> snd (snd (snd v)) = None"
  "check_funded f = Some v \<Longrightarrow> snd (snd (snd v)) = None"
  "check_risk_controls f = Some v \<Longrightarrow> snd (snd (snd v)) = None"
  "check_broad_stress ofr = Some v \<Longrightarrow> snd (snd (snd v)) = None"
  "check_window op rails = Some v \<Longrightarrow> snd (snd (snd v)) = None"
  "check_correspondent op = Some v \<Longrightarrow> snd (snd (snd v)) = None"
  "check_determination_pending op = Some v \<Longrightarrow> snd (snd (snd v)) = None"
  "check_revocation_assessed op = Some v \<Longrightarrow> snd (snd (snd v)) = None"
  by (auto simp: check_stress_reading_def check_freshness_def check_systemic_stress_def
      check_material_def check_counterparty_def check_assertable_def check_funded_def
      check_risk_controls_def check_broad_stress_def check_window_def check_correspondent_def
      check_determination_pending_def check_revocation_assessed_def Let_def
      split: option.splits if_splits)

lemma gate_verdict_no_rail:
  "fst (gate_verdict op f rails ofr age policy) \<noteq> PROCEED \<Longrightarrow>
   snd (snd (snd (gate_verdict op f rails ofr age policy))) = None"
  unfolding gate_verdict_def
  by (rule first_verdict_all [where P = "\<lambda>v. fst v \<noteq> PROCEED \<longrightarrow> snd (snd (snd v)) = None",
        THEN mp])
    (auto simp: gate_check_list_def clear_operation_def dest: checks_carry_no_rail
      split: option.splits)

lemma evaluate_no_rail:
  assumes "evaluate K op f rails ofr uri age policy oid dig halt = Inr d" and "\<not> proceeds d"
  shows "recommended_rail d = None" and "finality_class d = None"
proof -
  have "recommended_rail d = None \<and> finality_class d = None"
    using assms(1)
  proof (cases rule: evaluate_cases)
    case decided
    then have "fst (gate_verdict op f rails ofr age policy) \<noteq> PROCEED"
      using assms by (simp add: evaluate_decision_iff)
    from gate_verdict_no_rail [OF this] decided(3) show ?thesis
      by (simp add: decision_post_init_fields)
  qed auto
  then show "recommended_rail d = None" and "finality_class d = None" by simp_all
qed

end
