(* ===== verification/Advisory.thy ===== *)
theory Advisory
  imports Prelude
begin

text \<open>
  What the advisory engines share: the kinds of claim (\<open>Provenance\<close>) and the graded outcome
  (\<open>Disposition\<close>) they take from \<open>cannae_kernel\<close>, the one place where findings become a
  disposition (\<open>decide\<close> of \<open>atreides/customer_protection/common.py\<close>), and the text patterns and
  sorted sets their records use.

  The kernel's vocabularies are named by the members the repository uses; any further member of
  \<open>Provenance\<close> is \<open>Other_Provenance\<close>. \<open>coerce_disposition\<close> is only ever applied here to a member,
  which it returns.
\<close>

named_theorems advisory_simps "facts that evaluate the advisory engines"

datatype Provenance =
    FACT_EXTERNAL | FACT_SYNTHETIC | HUMAN_JUDGMENT | POLICY_RESULT | Other_Provenance string

datatype Disposition = PASS | HOLD | INDETERMINATE | BLOCK

definition decide :: "'a list \<Rightarrow> 'b list \<Rightarrow> 'c list \<Rightarrow> Disposition" where
  "decide missing_rules missing_inputs breaches =
     (if missing_rules \<noteq> [] then INDETERMINATE
      else if missing_inputs \<noteq> [] \<or> breaches \<noteq> [] then HOLD
      else PASS)"

lemma decide_simps [advisory_simps]:
  "decide m i b = PASS \<longleftrightarrow> m = [] \<and> i = [] \<and> b = []"
  "decide m i b = INDETERMINATE \<longleftrightarrow> m \<noteq> []"
  "decide m i b = HOLD \<longleftrightarrow> m = [] \<and> (i \<noteq> [] \<or> b \<noteq> [])"
  "decide m i b \<noteq> BLOCK"
  by (simp_all add: decide_def)

subsection \<open>Sorted sets\<close>

definition sorted_set :: "'a :: linorder list \<Rightarrow> 'a list" where
  "sorted_set xs = sort (remdups xs)"

lemma sorted_set_simps [simp]:
  "set (sorted_set xs) = set xs" "distinct (sorted_set xs)" "sorted (sorted_set xs)"
  "sorted_set xs = [] \<longleftrightarrow> xs = []"
  by (simp_all add: sorted_set_def)

lemma sorted_set_cong: "set xs = set ys \<Longrightarrow> sorted_set xs = sorted_set ys"
  by (rule sorted_distinct_set_unique) simp_all

lemma sorted_set_eqI: "sorted ys \<Longrightarrow> distinct ys \<Longrightarrow> set ys = set xs \<Longrightarrow> sorted_set xs = ys"
  by (rule sorted_distinct_set_unique) simp_all

subsection \<open>Text patterns\<close>

text \<open>\<open>^[A-Z]{n}$\<close> and the class \<open>[0-9A-Z*@#]\<close> of a CUSIP.\<close>

definition upper_letter :: "char \<Rightarrow> bool" where
  "upper_letter c \<longleftrightarrow> c \<in> set ''ABCDEFGHIJKLMNOPQRSTUVWXYZ''"

definition digit_char :: "char \<Rightarrow> bool" where
  "digit_char c \<longleftrightarrow> c \<in> set ''0123456789''"

definition currency_pattern :: "string \<Rightarrow> bool" where
  "currency_pattern s \<longleftrightarrow> length s = 3 \<and> list_all upper_letter s"

definition cusip_pattern :: "string \<Rightarrow> bool" where
  "cusip_pattern s \<longleftrightarrow>
     length s = 9 \<and> list_all (\<lambda>c. upper_letter c \<or> digit_char c \<or> c \<in> set ''*@#'') s"

definition alnum_upper :: "char \<Rightarrow> bool" where
  "alnum_upper c \<longleftrightarrow> upper_letter c \<or> digit_char c"

definition lower_letter :: "char \<Rightarrow> bool" where
  "lower_letter c \<longleftrightarrow> c \<in> set ''abcdefghijklmnopqrstuvwxyz''"

text \<open>Upper case of the ASCII letters.\<close>

definition ascii_upper :: "char \<Rightarrow> char" where
  "ascii_upper c = (if lower_letter c then char_of (of_char c - 32 :: nat) else c)"

text \<open>White space among the characters of \<open>char\<close>.\<close>

definition white_char :: "char \<Rightarrow> bool" where
  "white_char c \<longleftrightarrow> of_char c \<in> {9, 10, 11, 12, 13, 32, 133, 160 :: nat}"

text \<open>\<open>^sha256:[0-9a-f]{64}$\<close>.\<close>

definition digest_pattern :: "string \<Rightarrow> bool" where
  "digest_pattern s \<longleftrightarrow>
     take 7 s = ''sha256:'' \<and> length s = 71 \<and>
     list_all (\<lambda>c. digit_char c \<or> c \<in> set ''abcdef'') (drop 7 s)"

end
