(* ===== verification/Messaging.thy ===== *)
theory Messaging
  imports Decimal_Text Deadline_Time Cato_Gate Advisory
begin

text \<open>
  The cash-leg instruction and its message, \<open>atreides/messaging/\<close>: the canonical instruction
  (\<open>canonical.py\<close>), the depository profile (\<open>profile.py\<close>) and the emission of header and document
  (\<open>emit.py\<close>).

  An XML element is its tag in Clark notation, its attributes, its text and its children. How
  \<open>ElementTree\<close> writes and reads bytes is the parameter \<open>X\<close>, with the kernel's digest of bytes; the
  type of bytes is left open. Reading fails with a \<open>ParseError\<close>, or with the \<open>LookupError\<close> or
  \<open>ValueError\<close> of an encoding it does not know or support, which are not parse errors. A timestamp is its wall clock in microseconds from ordinal 0 and its
  offset from UTC, if it has one; \<open>isoformat()\<close> is written out on it.
\<close>

subsection \<open>Institutions\<close>

definition upper_char :: "char \<Rightarrow> bool" where
  "upper_char c \<longleftrightarrow> 65 \<le> (of_char c :: nat) \<and> (of_char c :: nat) \<le> 90"

definition upper_or_digit :: "char \<Rightarrow> bool" where
  "upper_or_digit c \<longleftrightarrow> upper_char c \<or> is_digit c"

text \<open>The end of a pattern, \<open>$\<close>, also matches before one final newline.\<close>

definition at_end :: "string \<Rightarrow> bool" where
  "at_end s \<longleftrightarrow> s = [] \<or> s = [CHR 0x0A]"

definition bicfi_match :: "string \<Rightarrow> bool" where
  "bicfi_match s \<longleftrightarrow>
     length s \<ge> 8 \<and> list_all upper_or_digit (take 4 s) \<and> list_all upper_char (take 2 (drop 4 s)) \<and>
     list_all upper_or_digit (take 2 (drop 6 s)) \<and>
     (at_end (drop 8 s) \<or>
      (length s \<ge> 11 \<and> list_all upper_or_digit (take 3 (drop 8 s)) \<and> at_end (drop 11 s)))"

datatype messaging_error =
    Invalid_BICFI | Institution_Name | Bad_Length string nat | Amount_Not_Finite | Amount_Not_Positive
  | Amount_Facets | Bad_Currency | Naive_Creation | Same_Parties | Control_Character string
  | No_Credit_Transfer CashRail | Preparation_Halted string int string

record FinancialInstitution =
  bicfi :: string
  fi_name :: "string option"

definition mk_FinancialInstitution ::
  "FinancialInstitution \<Rightarrow> (messaging_error, FinancialInstitution) result" where
  "mk_FinancialInstitution f =
     require (bicfi_match (bicfi f)) Invalid_BICFI (
     require (case fi_name f of None \<Rightarrow> True | Some n \<Rightarrow> 1 \<le> length n \<and> length n \<le> 140) Institution_Name (Inr f))"

subsection \<open>The settlement method of a rail\<close>

datatype SettlementMethod = INSTRUCTED_AGENT | INSTRUCTING_AGENT | COVER | CLEARING_SYSTEM

fun settlement_method_value :: "SettlementMethod \<Rightarrow> string" where
  "settlement_method_value INSTRUCTED_AGENT = ''INDA''"
| "settlement_method_value INSTRUCTING_AGENT = ''INGA''"
| "settlement_method_value COVER = ''COVE''"
| "settlement_method_value CLEARING_SYSTEM = ''CLRG''"

definition RAIL_SETTLEMENT_METHOD :: "(CashRail \<times> SettlementMethod) list" where
  "RAIL_SETTLEMENT_METHOD =
     [(FEDWIRE, CLEARING_SYSTEM), (FEDNOW, CLEARING_SYSTEM), (CHIPS, CLEARING_SYSTEM),
      (NSS_DTC_NSCC, CLEARING_SYSTEM), (FICC_GSD_FUNDS_ONLY, CLEARING_SYSTEM), (CORRESPONDENT, COVER)]"

definition settlement_method_for_rail :: "CashRail \<Rightarrow> (messaging_error, SettlementMethod) result" where
  "settlement_method_for_rail r =
     (case map_of RAIL_SETTLEMENT_METHOD r of None \<Rightarrow> Inl (No_Credit_Transfer r) | Some v \<Rightarrow> Inr v)"

subsection \<open>Timestamps\<close>

record stamp =
  wall_clock :: int
  utc_off :: "int option"

definition utc_stamp :: "stamp \<Rightarrow> bool" where
  "utc_stamp t \<longleftrightarrow> utc_off t = Some 0"

definition stamp_instant :: "stamp \<Rightarrow> int" where
  "stamp_instant t = wall_clock t - (case utc_off t of None \<Rightarrow> 0 | Some k \<Rightarrow> k)"

definition padded :: "nat \<Rightarrow> int \<Rightarrow> string" where
  "padded k n = (let d = nat_text (nat n) in replicate (k - length d) (CHR ''0'') @ d)"

definition clock_text :: "int \<Rightarrow> string" where
  "clock_text us =
     (let s = us div 1000000; f = us mod 1000000 in
      padded 2 (s div 3600) @ '':'' @ padded 2 (s div 60 mod 60) @ '':'' @ padded 2 (s mod 60)
      @ (if f = 0 then [] else ''.'' @ padded 6 f))"

definition offset_text :: "int \<Rightarrow> string" where
  "offset_text k =
     (let a = \<bar>k\<bar>; s = a div 1000000; f = a mod 1000000 in
      (if k < 0 then ''-'' else ''+'') @ padded 2 (s div 3600) @ '':'' @ padded 2 (s div 60 mod 60)
      @ (if s mod 60 = 0 \<and> f = 0 then [] else '':'' @ padded 2 (s mod 60))
      @ (if f = 0 then [] else ''.'' @ padded 6 f))"

definition iso_datetime :: "stamp \<Rightarrow> string" where
  "iso_datetime t =
     (let d = wall_clock t div DAY in
      padded 4 (date_year d) @ ''-'' @ padded 2 (date_month d) @ ''-'' @ padded 2 (date_day d) @ ''T''
      @ clock_text (wall_clock t mod DAY) @ (case utc_off t of None \<Rightarrow> [] | Some k \<Rightarrow> offset_text k))"

subsection \<open>The instruction\<close>

record CashLegInstruction =
  message_id :: string
  end_to_end_id :: string
  created_at :: stamp
  amount :: py_decimal
  instr_currency :: string
  debtor :: FinancialInstitution
  creditor :: FinancialInstitution
  settlement_method :: SettlementMethod
  sender :: FinancialInstitution
  receiver :: FinancialInstitution
  instr_lineage_uri :: "string option"

definition max35 :: "string \<Rightarrow> bool" where
  "max35 s \<longleftrightarrow> 1 \<le> length s \<and> length s \<le> 35"

fun amount_facets :: "py_decimal \<Rightarrow> bool" where
  "amount_facets (Num s c e) \<longleftrightarrow> int (ndigits c) + max e 0 \<le> 18 \<and> max (- e) 0 \<le> 5"
| "amount_facets _ = True"

definition currency_match :: "string \<Rightarrow> bool" where
  "currency_match s \<longleftrightarrow> length s \<ge> 3 \<and> list_all upper_char (take 3 s) \<and> at_end (drop 3 s)"

definition no_controls :: "string \<Rightarrow> bool" where
  "no_controls s \<longleftrightarrow> list_all (\<lambda>c. 32 \<le> (of_char c :: nat)) s"

definition mk_CashLegInstruction :: "CashLegInstruction \<Rightarrow> (messaging_error, CashLegInstruction) result" where
  "mk_CashLegInstruction i =
     require (max35 (message_id i)) (Bad_Length ''message_id'' (length (message_id i))) (
     require (max35 (end_to_end_id i)) (Bad_Length ''end_to_end_id'' (length (end_to_end_id i))) (
     require (finite_num (amount i)) Amount_Not_Finite (
     require (num_value (amount i) > 0) Amount_Not_Positive (
     require (amount_facets (amount i)) Amount_Facets (
     require (currency_match (instr_currency i)) Bad_Currency (
     require (utc_off (created_at i) \<noteq> None) Naive_Creation (
     require (bicfi (debtor i) \<noteq> bicfi (creditor i)) Same_Parties (
     require (no_controls (message_id i)) (Control_Character ''message_id'') (
     require (no_controls (end_to_end_id i)) (Control_Character ''end_to_end_id'') (Inr i))))))))))"

subsection \<open>The depository profile\<close>

record DepositoryProfile =
  profile_name :: string
  fi_credit_transfer :: string
  customer_credit_transfer :: string
  payment_status_report :: string
  business_application_header :: string
  business_service :: "string option"
  additional_mandatory_fields :: "string set"
  restricted_code_values :: "string \<Rightarrow> string set option"
  verified_against_published_spec :: bool

definition is_base_standard :: "DepositoryProfile \<Rightarrow> bool" where
  "is_base_standard p \<longleftrightarrow> \<not> verified_against_published_spec p"

definition default_profile :: "string \<Rightarrow> DepositoryProfile" where
  "default_profile n = \<lparr>profile_name = n, fi_credit_transfer = ''pacs.009.001.13'',
     customer_credit_transfer = ''pacs.008.001.14'', payment_status_report = ''pacs.002.001.16'',
     business_application_header = ''head.001.001.04'', business_service = None,
     additional_mandatory_fields = {}, restricted_code_values = Map.empty,
     verified_against_published_spec = False\<rparr>"

definition BASE_ISO_20022 :: DepositoryProfile where
  "BASE_ISO_20022 = (default_profile ''base-iso20022'')\<lparr>verified_against_published_spec := True\<rparr>"

definition DTCC_SETTLEMENT_PENDING :: DepositoryProfile where
  "DTCC_SETTLEMENT_PENDING = default_profile ''dtcc-settlement-UNVERIFIED''"

definition FEDWIRE_PENDING :: DepositoryProfile where
  "FEDWIRE_PENDING = default_profile ''fedwire-UNVERIFIED''"

subsection \<open>XML\<close>

datatype xml = Node (xml_tag: string) (xml_attrs: "(string \<times> string) list") (xml_text: "string option") (xml_children: "xml list")

datatype xml_failure = Not_Parsed | Encoding_Refused

record 'b wire =
  to_bytes :: "xml \<Rightarrow> 'b"
  from_bytes :: "'b \<Rightarrow> (xml_failure, xml) result"
  digest_two :: "'b \<Rightarrow> 'b \<Rightarrow> string"

definition leaf :: "string \<Rightarrow> string \<Rightarrow> xml" where
  "leaf tag t = Node tag [] (Some t) []"

definition branch :: "string \<Rightarrow> xml list \<Rightarrow> xml" where
  "branch tag kids = Node tag [] None kids"

definition clark :: "string \<Rightarrow> string \<Rightarrow> string" where
  "clark ns tag = ''{'' @ ns @ ''}'' @ tag"

definition NS :: "string \<Rightarrow> string" where
  "NS message = ''urn:iso:std:iso:20022:tech:xsd:'' @ message"

definition fi_element :: "string \<Rightarrow> FinancialInstitution \<Rightarrow> xml" where
  "fi_element tag f = branch tag [branch ''FinInstnId''
     (leaf ''BICFI'' (bicfi f) # (case fi_name f of None \<Rightarrow> [] | Some n \<Rightarrow> [leaf ''Nm'' n]))]"

definition header_party :: "string \<Rightarrow> FinancialInstitution \<Rightarrow> xml" where
  "header_party tag f = branch tag [branch ''FIId'' [branch ''FinInstnId'' [leaf ''BICFI'' (bicfi f)]]]"

definition emit_business_application_header :: "CashLegInstruction \<Rightarrow> DepositoryProfile \<Rightarrow> xml" where
  "emit_business_application_header i p =
     branch (clark (NS (business_application_header p)) ''AppHdr'')
       ([header_party ''Fr'' (sender i), header_party ''To'' (receiver i),
         leaf ''BizMsgIdr'' (message_id i), leaf ''MsgDefIdr'' (fi_credit_transfer p)]
        @ (case business_service p of None \<Rightarrow> [] | Some s \<Rightarrow> [leaf ''BizSvc'' s])
        @ [leaf ''CreDt'' (iso_datetime (created_at i))])"

definition emit_fi_credit_transfer :: "CashLegInstruction \<Rightarrow> DepositoryProfile \<Rightarrow> xml" where
  "emit_fi_credit_transfer i p =
     branch (clark (NS (fi_credit_transfer p)) ''Document'')
       [branch ''FICdtTrf''
         [branch ''GrpHdr''
            [leaf ''MsgId'' (message_id i), leaf ''CreDtTm'' (iso_datetime (created_at i)), leaf ''NbOfTxs'' ''1'',
             branch ''SttlmInf'' [leaf ''SttlmMtd'' (settlement_method_value (settlement_method i))]],
          branch ''CdtTrfTxInf''
            [branch ''PmtId'' [leaf ''EndToEndId'' (end_to_end_id i)],
             Node ''IntrBkSttlmAmt'' [(''Ccy'', instr_currency i)] (Some (format_f (amount i))) [],
             fi_element ''Dbtr'' (debtor i), fi_element ''Cdtr'' (creditor i)]]]"

record 'b InstructionArtifact =
  header_xml :: 'b
  document_xml :: 'b
  message_definition :: string
  art_profile_name :: string
  profile_verified :: bool
  art_lineage_uri :: "string option"
  is_submission :: bool

text \<open>\<open>__post_init__\<close> refuses any submission that is not exactly \<open>False\<close>.\<close>

definition mk_InstructionArtifact :: "'b InstructionArtifact \<Rightarrow> (unit, 'b InstructionArtifact) result" where
  "mk_InstructionArtifact a = require (\<not> is_submission a) () (Inr a)"

definition instruction_artifact_digest :: "'b wire \<Rightarrow> 'b InstructionArtifact \<Rightarrow> string" where
  "instruction_artifact_digest X a = digest_two X (header_xml a) (document_xml a)"

definition emit_instruction_artifact ::
  "'h kernel \<Rightarrow> 'b wire \<Rightarrow> CashLegInstruction \<Rightarrow> DepositoryProfile \<Rightarrow> 'h option \<Rightarrow>
   (messaging_error, 'b InstructionArtifact) result" where
  "emit_instruction_artifact K X i p halt =
     require (case halt of None \<Rightarrow> True | Some h \<Rightarrow> \<not> blocks_atreides K h)
       (Preparation_Halted (halt_id K (the halt)) (halt_version K (the halt)) (halt_reason K (the halt))) (
     Inr \<lparr>header_xml = to_bytes X (emit_business_application_header i p),
          document_xml = to_bytes X (emit_fi_credit_transfer i p),
          message_definition = fi_credit_transfer p, art_profile_name = profile_name p,
          profile_verified = verified_against_published_spec p, art_lineage_uri = instr_lineage_uri i,
          is_submission = False\<rparr>)"

end
