(* ===== verification/CP_Rules.thy ===== *)
theory CP_Rules
  imports Advisory Decimal_Context "HOL-Library.State_Monad"
begin

text \<open>
  The rule table every customer protection engine reads (\<open>customer_protection/rules/model.py\<close>, the
  checks of \<open>rules/loader.py\<close>) and the reader that remembers what a computation used and what was
  missing (\<open>RuleReader\<close> of \<open>common.py\<close>). Reading files, hashing and stripping markup stay outside:
  the loader's checks start from the sources it loaded, each with its normalized text, and
  \<open>parse_figure\<close>, a set of regular expressions, is the parameter \<open>parse\<close>.
\<close>

datatype SourceLabel = RULE | GUIDANCE

datatype RuleKind =
    PERCENT | USD | MONTHS | CALENDAR_DAYS | BUSINESS_DAYS | COUNT | EXHIBIT_A_CREDIT
  | EXHIBIT_A_DEBIT | CONTROL_LOCATION | NONCONTROL_LOCATION | PROVISION

definition has_value :: "RuleKind \<Rightarrow> bool" where
  "has_value k \<longleftrightarrow> k \<in> {PERCENT, USD, MONTHS, CALENDAR_DAYS, BUSINESS_DAYS, COUNT}"

fun occurs_in :: "string \<Rightarrow> string \<Rightarrow> bool" where
  "occurs_in p [] = (p = [])"
| "occurs_in p (c # cs) = (take (length p) (c # cs) = p \<or> occurs_in p cs)"

definition hex64_pattern :: "string \<Rightarrow> bool" where
  "hex64_pattern s \<longleftrightarrow> length s = 64 \<and> list_all (\<lambda>c. digit_char c \<or> c \<in> set ''abcdef'') s"

record RuleItemSpec =
  spec_id :: string
  spec_kind :: RuleKind
  spec_citation :: string
  spec_source_id :: string
  spec_sha256 :: string
  spec_quote :: string
  figure :: "string option"
  spec_value :: "rat option"
  compliance_date :: "int option"
  compliance_source_id :: "string option"
  compliance_quote :: "string option"

datatype rule_error =
    Rule_Field string | Figure_And_Value_Needed | No_Figure_Or_Value | Figure_Outside_Quote
  | Compliance_Half_Stated | Not_A_Row | Duplicate_Id | Source_Not_Loaded | Source_Not_Rule
  | Source_Changed | Quote_Not_Found | Figure_Unreadable | Figure_Differs
  | Compliance_Source_Not_Loaded | Compliance_Quote_Not_Found

definition mk_RuleItemSpec :: "RuleItemSpec \<Rightarrow> (rule_error, RuleItemSpec) result" where
  "mk_RuleItemSpec s =
     require (spec_id s \<noteq> []) (Rule_Field ''id'') (
     require (spec_citation s \<noteq> []) (Rule_Field ''citation'') (
     require (spec_source_id s \<noteq> []) (Rule_Field ''source_id'') (
     require (hex64_pattern (spec_sha256 s)) (Rule_Field ''sha256'') (
     require (spec_quote s \<noteq> []) (Rule_Field ''quote'') (
     require (\<not> (has_value (spec_kind s) \<and> (spec_value s = None \<or> figure s = None))) Figure_And_Value_Needed (
     require (\<not> (\<not> has_value (spec_kind s) \<and> (spec_value s \<noteq> None \<or> figure s \<noteq> None))) No_Figure_Or_Value (
     require (case figure s of None \<Rightarrow> True | Some f \<Rightarrow> occurs_in f (spec_quote s)) Figure_Outside_Quote (
     let stated = [compliance_date s \<noteq> None, compliance_source_id s \<noteq> None, compliance_quote s \<noteq> None] in
     require (\<not> (list_ex id stated \<and> list_ex Not stated)) Compliance_Half_Stated (Inr s)))))))))"

record RuleSource =
  rs_source_id :: string
  rs_citation :: string
  rs_label :: SourceLabel
  rs_filename :: string
  rs_url :: string
  rs_sha256 :: string
  rs_retrieval_dtg :: string
  ecfr_up_to_date_as_of :: "int option"
  latest_amendment_date :: "int option"

record RuleItem =
  ri_id :: string
  ri_kind :: RuleKind
  ri_citation :: string
  ri_source_id :: string
  source_file :: string
  source_label :: SourceLabel
  ri_sha256 :: string
  ri_retrieval_dtg :: string
  effective_date :: "int option"
  ri_compliance_date :: "int option"
  ri_quote :: string
  ri_value :: "rat option"

record RejectedItem =
  rej_id :: string
  rej_reason :: rule_error

record RuleVersion =
  rv_source_id :: string
  rv_citation :: string
  rv_sha256 :: string
  rv_retrieval_dtg :: string

record RuleTable =
  table_version :: string
  table_digest :: string
  rule_sources :: "RuleSource list"
  items :: "RuleItem list"
  rejected :: "RejectedItem list"

definition rule_get :: "RuleTable \<Rightarrow> string \<Rightarrow> RuleItem option" where
  "rule_get t rule_id = find (\<lambda>i. ri_id i = rule_id) (items t)"

definition rules_of_kind :: "RuleTable \<Rightarrow> RuleKind \<Rightarrow> RuleItem list" where
  "rules_of_kind t k = filter (\<lambda>i. ri_kind i = k) (items t)"

definition version_of :: "RuleTable \<Rightarrow> string \<Rightarrow> RuleVersion option" where
  "version_of t sid =
     (case find (\<lambda>s. rs_source_id s = sid) (rule_sources t) of None \<Rightarrow> None
      | Some s \<Rightarrow> Some \<lparr>rv_source_id = rs_source_id s, rv_citation = rs_citation s,
          rv_sha256 = rs_sha256 s, rv_retrieval_dtg = rs_retrieval_dtg s\<rparr>)"

subsection \<open>Loading items\<close>

type_synonym loaded_sources = "(string \<times> RuleSource \<times> string) list"

definition check_figure :: "(RuleKind \<Rightarrow> string \<Rightarrow> rat option) \<Rightarrow> RuleItemSpec \<Rightarrow> (rule_error, unit) result" where
  "check_figure parse s =
     (case (figure s, spec_value s) of
        (Some f, Some v) \<Rightarrow>
          (case parse (spec_kind s) f of None \<Rightarrow> Inl Figure_Unreadable
           | Some x \<Rightarrow> require (x = v) Figure_Differs (Inr ()))
      | _ \<Rightarrow> Inr ())"

definition check_compliance :: "loaded_sources \<Rightarrow> RuleItemSpec \<Rightarrow> (rule_error, unit) result" where
  "check_compliance srcs s =
     (case compliance_source_id s of None \<Rightarrow> Inr ()
      | Some sid \<Rightarrow>
          (case map_of srcs sid of None \<Rightarrow> Inl Compliance_Source_Not_Loaded
           | Some (_, text) \<Rightarrow>
               require (case compliance_quote s of None \<Rightarrow> False | Some q \<Rightarrow> occurs_in q text)
                 Compliance_Quote_Not_Found (Inr ())))"

definition check_item ::
  "(RuleKind \<Rightarrow> string \<Rightarrow> rat option) \<Rightarrow> loaded_sources \<Rightarrow> RuleItemSpec \<Rightarrow> (rule_error, RuleItem) result" where
  "check_item parse srcs s =
     (case map_of srcs (spec_source_id s) of None \<Rightarrow> Inl Source_Not_Loaded
      | Some (src, text) \<Rightarrow>
          require (rs_label src = RULE) Source_Not_Rule (
          require (spec_sha256 s = rs_sha256 src) Source_Changed (
          require (occurs_in (spec_quote s) text) Quote_Not_Found (
          case check_figure parse s of Inl e \<Rightarrow> Inl e | Inr _ \<Rightarrow>
          case check_compliance srcs s of Inl e \<Rightarrow> Inl e | Inr _ \<Rightarrow>
            Inr \<lparr>ri_id = spec_id s, ri_kind = spec_kind s, ri_citation = spec_citation s,
                 ri_source_id = spec_source_id s, source_file = rs_filename src,
                 source_label = rs_label src, ri_sha256 = rs_sha256 src,
                 ri_retrieval_dtg = rs_retrieval_dtg src, effective_date = latest_amendment_date src,
                 ri_compliance_date = compliance_date s, ri_quote = spec_quote s,
                 ri_value = spec_value s\<rparr>))))"

text \<open>
  A row is its raw identifier and, where the row has the fields and their types, the specification
  they make. An identifier counts as seen once its specification validates, even when a later
  check refuses the item.
\<close>

fun load_items ::
  "(RuleKind \<Rightarrow> string \<Rightarrow> rat option) \<Rightarrow> loaded_sources \<Rightarrow> string list \<Rightarrow>
   (string \<times> RuleItemSpec option) list \<Rightarrow> RuleItem list \<times> RejectedItem list" where
  "load_items parse srcs seen [] = ([], [])"
| "load_items parse srcs seen ((rid, row) # rows) =
     (let refuse = (\<lambda>seen' e. case load_items parse srcs seen' rows of (is, rs) \<Rightarrow>
            (is, \<lparr>rej_id = rid, rej_reason = e\<rparr> # rs)) in
      case (case row of None \<Rightarrow> Inl Not_A_Row | Some s \<Rightarrow> mk_RuleItemSpec s) of
        Inl e \<Rightarrow> refuse seen e
      | Inr s \<Rightarrow>
          if spec_id s \<in> set seen then refuse seen Duplicate_Id
          else case check_item parse srcs s of
            Inl e \<Rightarrow> refuse (spec_id s # seen) e
          | Inr i \<Rightarrow> (case load_items parse srcs (spec_id s # seen) rows of (is, rs) \<Rightarrow> (i # is, rs)))"

subsection \<open>The rule reader\<close>

record RuleRef =
  rule_id :: string
  rr_citation :: string
  rr_source_id :: string
  rr_sha256 :: string
  rr_value :: "rat option"

text \<open>
  What one computation has recorded: the reader's missing names and used items, and the engine's
  findings. A name that is not a lookup (\<open>flag\<close>) is recorded as the code's text; the messages of
  breaches and reasons are kept as a code and a subject.
\<close>

record worklog =
  missing :: "string list"
  used :: "(string \<times> RuleRef) list"
  missing_inputs :: "string list"
  unrecognised :: "string list"
  breaches :: "(string \<times> string) list"
  reasons :: "string list"

definition empty_log :: worklog where
  "empty_log = \<lparr>missing = [], used = [], missing_inputs = [], unrecognised = [], breaches = [], reasons = []\<rparr>"

type_synonym 'a reading = "(worklog, 'a) state"

definition record_log :: "(worklog \<Rightarrow> worklog) \<Rightarrow> unit reading" where
  "record_log f = State (\<lambda>w. ((), f w))"

definition ref_of :: "RuleItem \<Rightarrow> RuleRef" where
  "ref_of i = \<lparr>rule_id = ri_id i, rr_citation = ri_citation i, rr_source_id = ri_source_id i,
     rr_sha256 = ri_sha256 i, rr_value = ri_value i\<rparr>"

definition read_item :: "RuleTable \<Rightarrow> string \<Rightarrow> RuleRef option reading" where
  "read_item t rid =
     (case rule_get t rid of
        None \<Rightarrow> do { record_log (\<lambda>w. w\<lparr>missing := missing w @ [rid]\<rparr>); State_Monad.return None }
      | Some i \<Rightarrow> do { record_log (\<lambda>w. w\<lparr>used := (rid, ref_of i) # used w\<rparr>); State_Monad.return (Some (ref_of i)) })"

definition read_value :: "RuleTable \<Rightarrow> string \<Rightarrow> rat option reading" where
  "read_value t rid = do { r \<leftarrow> read_item t rid; State_Monad.return (case r of None \<Rightarrow> None | Some x \<Rightarrow> rr_value x) }"

definition read_present :: "RuleTable \<Rightarrow> string \<Rightarrow> bool reading" where
  "read_present t rid = do { r \<leftarrow> read_item t rid; State_Monad.return (r \<noteq> None) }"

definition flag :: "string \<Rightarrow> unit reading" where
  "flag text = record_log (\<lambda>w. w\<lparr>missing := missing w @ [text]\<rparr>)"

definition missing_input :: "string \<Rightarrow> unit reading" where
  "missing_input name = record_log (\<lambda>w. w\<lparr>missing_inputs := missing_inputs w @ [name]\<rparr>)"

definition breach :: "string \<Rightarrow> string \<Rightarrow> unit reading" where
  "breach code subject = record_log (\<lambda>w. w\<lparr>breaches := breaches w @ [(code, subject)]\<rparr>)"

definition reason :: "string \<Rightarrow> unit reading" where
  "reason code = record_log (\<lambda>w. w\<lparr>reasons := reasons w @ [code]\<rparr>)"

definition unrecognise :: "string \<Rightarrow> unit reading" where
  "unrecognise name = record_log (\<lambda>w. w\<lparr>unrecognised := unrecognised w @ [name]\<rparr>)"

fun each :: "('a \<Rightarrow> unit reading) \<Rightarrow> 'a list \<Rightarrow> unit reading" where
  "each f [] = State_Monad.return ()"
| "each f (x # xs) = do { f x; each f xs }"

fun gather :: "('a \<Rightarrow> 'b reading) \<Rightarrow> 'a list \<Rightarrow> 'b list reading" where
  "gather f [] = State_Monad.return []"
| "gather f (x # xs) = do { y \<leftarrow> f x; ys \<leftarrow> gather f xs; State_Monad.return (y # ys) }"

definition on_cond :: "bool \<Rightarrow> unit reading \<Rightarrow> unit reading" where
  "on_cond c m = (if c then m else State_Monad.return ())"

definition missing_rules :: "worklog \<Rightarrow> string list" where
  "missing_rules w = sorted_set (missing w)"

definition rules_used :: "worklog \<Rightarrow> RuleRef list" where
  "rules_used w = map (\<lambda>k. the (map_of (used w) k)) (sorted_set (map fst (used w)))"

end
