(* ===== verification/CP_Control.thy ===== *)
theory CP_Control
  imports CP_Rules
begin

text \<open>
  \<open>atreides/customer_protection/control.py\<close>: the possession-or-control check of a stock record, issue
  by issue. Quantities are added as Python adds them, at 28 digits. A flagged location is recorded
  without the quotes Python's \<open>repr\<close> puts around it; a breach is a code and the issue.
\<close>

definition LIEN_OR_LOAN :: string where "LIEN_OR_LOAN = ''15c3-3.noncontrol.d1''"
definition LIEN_DAYS :: string where "LIEN_DAYS = ''15c3-3.d1.lien_release_days''"
definition LOAN_DAYS :: string where "LOAN_DAYS = ''15c3-3.d1.loan_return_days''"

definition AGED :: "(string \<times> string) list" where
  "AGED = [(''15c3-3.noncontrol.d2'', ''15c3-3.d2.fail_to_receive_age''),
           (''15c3-3.noncontrol.d3'', ''15c3-3.d3.distribution_receivable_age''),
           (''15c3-3.noncontrol.d4'', ''15c3-3.d4.short_allocation_age'')]"

record Holding =
  location :: string
  ho_quantity :: rat
  age_days :: "rat option"
  loaned :: "bool option"

record IssueRequirement =
  issue :: string
  fully_paid :: "rat option"
  excess_margin :: "rat option"
  books_total :: "rat option"
  holdings :: "Holding list"

record ControlInputs =
  ci_as_of :: int
  ci_issues :: "IssueRequirement list"

record ControlAction =
  ca_location :: string
  ca_quantity :: rat
  ca_paragraph :: string
  ca_action :: string
  deadline_business_days :: "rat option"
  age_threshold_days :: "rat option"
  ca_required :: "bool option"

record IssueControl =
  ic_issue :: string
  ic_required :: "rat option"
  in_control :: rat
  in_noncontrol :: rat
  at_unknown_locations :: rat
  ic_books_total :: "rat option"
  conserved :: "bool option"
  ic_shortfall :: "rat option"
  actions :: "ControlAction list"

record ControlResult =
  cr_as_of :: int
  ctl_disposition :: Disposition
  issues :: "IssueControl list"
  ctl_missing_rules :: "string list"
  ctl_missing_inputs :: "string list"
  ctl_breaches :: "(string \<times> string) list"
  ctl_reasons :: "string list"
  ctl_rules_used :: "RuleRef list"

subsection \<open>The action for a noncontrol holding\<close>

definition lien_action :: "RuleTable \<Rightarrow> string \<Rightarrow> Holding \<Rightarrow> ControlAction reading" where
  "lien_action t iss h = do {
     days \<leftarrow> (case loaned h of
       None \<Rightarrow> do { missing_input (''loaned['' @ iss @ '']''); State_Monad.return None }
     | Some l \<Rightarrow> read_value t (if l then LOAN_DAYS else LIEN_DAYS));
     State_Monad.return
       \<lparr>ca_location = location h, ca_quantity = ho_quantity h, ca_paragraph = ''15c3-3(d)(1)'',
        ca_action = ''issue instructions for return or release'', deadline_business_days = days,
        age_threshold_days = None, ca_required = Some True\<rparr> }"

definition aged_action :: "RuleTable \<Rightarrow> string \<Rightarrow> Holding \<Rightarrow> string \<Rightarrow> ControlAction reading" where
  "aged_action t iss h age_rule = do {
     threshold \<leftarrow> read_value t age_rule;
     on_cond (age_days h = None) (missing_input (''age_days['' @ iss @ '', '' @ location h @ '']''));
     State_Monad.return
       \<lparr>ca_location = location h, ca_quantity = ho_quantity h,
        ca_paragraph = ''15c3-3(d)('' @ [last (location h)] @ '')'',
        ca_action = ''take prompt steps to obtain possession or control'',
        deadline_business_days = None, age_threshold_days = threshold,
        ca_required = (case (threshold, age_days h) of (Some x, Some a) \<Rightarrow> Some (a > x) | _ \<Rightarrow> None)\<rparr> }"

definition control_action :: "RuleTable \<Rightarrow> string \<Rightarrow> Holding \<Rightarrow> ControlAction reading" where
  "control_action t iss h =
     (if location h = LIEN_OR_LOAN then lien_action t iss h
      else case map_of AGED (location h) of
        None \<Rightarrow> do {
          flag (''noncontrol location '' @ location h @ '' is loaded but has no modeled action'');
          State_Monad.return
            \<lparr>ca_location = location h, ca_quantity = ho_quantity h, ca_paragraph = ''15c3-3(d)'',
             ca_action = ''not modeled'', deadline_business_days = None, age_threshold_days = None,
             ca_required = None\<rparr> }
      | Some age_rule \<Rightarrow> aged_action t iss h age_rule)"

subsection \<open>One issue\<close>

fun tally ::
  "RuleTable \<Rightarrow> string set \<Rightarrow> string set \<Rightarrow> rat \<times> rat \<times> rat \<Rightarrow> Holding list \<Rightarrow> (rat \<times> rat \<times> rat) reading" where
  "tally t control noncontrol acc [] = State_Monad.return acc"
| "tally t control noncontrol (c, n, u) (h # hs) =
     (if location h \<in> control then do {
        read_present t (location h);
        tally t control noncontrol (rnd28 (c + ho_quantity h), n, u) hs }
      else if location h \<in> noncontrol then do {
        read_present t (location h);
        tally t control noncontrol (c, rnd28 (n + ho_quantity h), u) hs }
      else do {
        flag (''location type '' @ location h @ '' is not a location the loaded text names'');
        tally t control noncontrol (c, n, rnd28 (u + ho_quantity h)) hs })"

definition plus_opt :: "rat option \<Rightarrow> rat option \<Rightarrow> rat option" where
  "plus_opt x y = (case (x, y) of (Some a, Some b) \<Rightarrow> Some (rnd28 (a + b)) | _ \<Rightarrow> None)"

definition issue_shortfall :: "IssueRequirement \<Rightarrow> rat \<Rightarrow> rat option" where
  "issue_shortfall q c =
     map_option (\<lambda>r. max (rnd28 (r - c)) 0) (plus_opt (fully_paid q) (excess_margin q))"

definition issue_conserved :: "IssueRequirement \<Rightarrow> rat \<Rightarrow> rat \<Rightarrow> rat \<Rightarrow> bool option" where
  "issue_conserved q c n u = map_option (\<lambda>b. rnd28 (rnd28 (c + n) + u) = b) (books_total q)"

definition issue_actions :: "RuleTable \<Rightarrow> string set \<Rightarrow> IssueRequirement \<Rightarrow> rat \<Rightarrow> ControlAction list reading" where
  "issue_actions t noncontrol q c =
     (if (case issue_shortfall q c of None \<Rightarrow> False | Some s \<Rightarrow> s > 0) then do {
        breach ''not in possession or control'' (issue q);
        gather (control_action t (issue q)) (filter (\<lambda>h. location h \<in> noncontrol) (holdings q)) }
      else State_Monad.return [])"

definition judge_issue ::
  "RuleTable \<Rightarrow> string set \<Rightarrow> IssueRequirement \<Rightarrow> rat \<Rightarrow> rat \<Rightarrow> rat \<Rightarrow> IssueControl reading" where
  "judge_issue t noncontrol q c n u = do {
     on_cond (issue_conserved q c n u = Some False) (breach ''holdings do not equal the books'' (issue q));
     as \<leftarrow> issue_actions t noncontrol q c;
     State_Monad.return
       \<lparr>ic_issue = issue q, ic_required = plus_opt (fully_paid q) (excess_margin q), in_control = c,
        in_noncontrol = n, at_unknown_locations = u, ic_books_total = books_total q,
        conserved = issue_conserved q c n u, ic_shortfall = issue_shortfall q c, actions = as\<rparr> }"

definition check_issue ::
  "RuleTable \<Rightarrow> string set \<Rightarrow> string set \<Rightarrow> IssueRequirement \<Rightarrow> IssueControl reading" where
  "check_issue t control noncontrol q = do {
     each (\<lambda>(name, v). on_cond (v = None) (missing_input (name @ ''['' @ issue q @ '']'')))
       [(''fully_paid'', fully_paid q), (''excess_margin'', excess_margin q), (''books_total'', books_total q)];
     totals \<leftarrow> tally t control noncontrol (0, 0, 0) (holdings q);
     judge_issue t noncontrol q (fst totals) (fst (snd totals)) (snd (snd totals)) }"

definition control_run :: "RuleTable \<Rightarrow> ControlInputs \<Rightarrow> (worklog \<Rightarrow> ControlResult) reading" where
  "control_run t i = do {
     let control = set (map ri_id (rules_of_kind t CONTROL_LOCATION));
     let noncontrol = set (map ri_id (rules_of_kind t NONCONTROL_LOCATION));
     on_cond (control = {}) (flag ''no Rule 15c3-3(c) control location is loaded'');
     checked \<leftarrow> gather (check_issue t control noncontrol) (ci_issues i);
     on_cond (ci_issues i = []) (do { reason ''no issues were supplied; nothing was checked''; missing_input ''issues'' });
     State_Monad.return (\<lambda>w.
       \<lparr>cr_as_of = ci_as_of i,
        ctl_disposition = decide (missing_rules w) (missing_inputs w) (breaches w), issues = checked,
        ctl_missing_rules = missing_rules w, ctl_missing_inputs = sorted_set (missing_inputs w),
        ctl_breaches = breaches w, ctl_reasons = reasons w, ctl_rules_used = rules_used w\<rparr>) }"

definition check_possession_or_control :: "ControlInputs \<Rightarrow> RuleTable \<Rightarrow> ControlResult" where
  "check_possession_or_control i t = (case run_state (control_run t i) empty_log of (finish, w) \<Rightarrow> finish w)"

end
