(* ===== verification/Acceptance.thy ===== *)
theory Acceptance
  imports Messaging CP_Control
begin

text \<open>
  Acceptance of a settlement obligation and preparation of its instruction, \<open>atreides/acceptance/\<close>:
  the parsed payload (\<open>candidate.py\<close>), the acceptance record (\<open>record.py\<close>), the participant registry
  (\<open>registry.py\<close>), the predicates and the two entry points (\<open>service.py\<close>).

  The kernel \<open>A\<close> names the values of its delivery patterns and finality types, digests an envelope and
  payload bytes, digests a registry, and reads a payload's fields (\<open>None\<close> where they are not of the
  declared types; the constraints on them are checked here). Decimals read from JSON are finite, which
  pydantic ensures. A snapshot of the cash gate is text: a decimal in it reads back as itself, a text
  reads as \<open>Decimal\<close> reads it, anything else is not a decimal. Details are left out, reason codes kept.
\<close>

subsection \<open>The payload\<close>

record SourceReference =
  sr_kind :: string
  sr_identifier :: string
  sr_digest :: string

record Participant =
  participant_id :: string
  account_id :: string
  role :: string

record SecuritiesLeg =
  instrument_id :: "string option"
  sl_quantity :: "rat option"
  delivering_account_id :: "string option"
  sl_receiving_account_id :: "string option"

record CashLeg =
  principal :: "rat option"
  accrued :: "rat option"
  total :: "rat option"
  cl_currency :: "string option"
  value_date :: "string option"
  paying_account_id :: "string option"
  receiving_account_id :: "string option"

record CandidatePathDescriptor =
  cp_path_id :: string
  cp_rail :: string
  securities_route :: string
  cash_route :: string
  cp_delivery_pattern :: "string option"

record ExpectedFinality =
  ef_leg :: string
  ef_type :: string
  ef_rule_set :: string

record Correction =
  correction_id :: string
  supersedes_payload_digest :: string
  co_reason :: string

record ObligationCandidate =
  source_manifest :: "SourceReference list option"
  securities_leg :: "SecuritiesLeg option"
  cash_leg :: "CashLeg option"
  participants :: "Participant list"
  delivery_pattern :: "string option"
  candidate_paths :: "CandidatePathDescriptor list"
  expected_finality :: "ExpectedFinality list"
  corrections :: "Correction list"
  seller_capacity :: "string option"
  account_capacity_digest :: "string option"
  participant_registry_digest :: "string option"

definition SELLER_CAPACITIES :: "string set" where
  "SELLER_CAPACITIES = {''CUSTOMER'', ''PAB'', ''PROPRIETARY''}"

text \<open>Pydantic's patterns end at the end of the text.\<close>

definition sha256_text :: "string \<Rightarrow> bool" where
  "sha256_text s \<longleftrightarrow> length s = 71 \<and> take 7 s = ''sha256:'' \<and> list_all lower_hex (drop 7 s)"

definition iso_date_text :: "string \<Rightarrow> bool" where
  "iso_date_text s \<longleftrightarrow> length s = 10 \<and> s ! 4 = CHR ''-'' \<and> s ! 7 = CHR ''-'' \<and>
     list_all is_digit (take 4 s @ take 2 (drop 5 s) @ drop 8 s)"

definition all_opt :: "('a \<Rightarrow> bool) \<Rightarrow> 'a option \<Rightarrow> bool" where
  "all_opt P x = (case x of None \<Rightarrow> True | Some v \<Rightarrow> P v)"

definition candidate_ok :: "ObligationCandidate \<Rightarrow> bool" where
  "candidate_ok c \<longleftrightarrow>
     all_opt (list_all (\<lambda>r. sr_kind r \<noteq> [] \<and> sr_identifier r \<noteq> [] \<and> sha256_text (sr_digest r))) (source_manifest c) \<and>
     all_opt (\<lambda>l. all_opt iso_date_text (value_date l)) (cash_leg c) \<and>
     list_all (\<lambda>p. participant_id p \<noteq> [] \<and> account_id p \<noteq> [] \<and> role p \<noteq> []) (participants c) \<and>
     list_all (\<lambda>p. cp_path_id p \<noteq> [] \<and> cp_rail p \<noteq> [] \<and> securities_route p \<noteq> [] \<and> cash_route p \<noteq> []) (candidate_paths c) \<and>
     list_all (\<lambda>f. ef_rule_set f \<noteq> []) (expected_finality c) \<and>
     list_all (\<lambda>k. correction_id k \<noteq> [] \<and> sha256_text (supersedes_payload_digest k) \<and> co_reason k \<noteq> []) (corrections c) \<and>
     all_opt sha256_text (account_capacity_digest c) \<and> all_opt sha256_text (participant_registry_digest c)"

subsection \<open>The envelope, the registry and the kernel\<close>

datatype FirmSecuritiesDirection = DELIVER | Not_Delivering string

record SettlementObligationEnvelope =
  env_obligation_id :: string
  payload_digest :: string
  firm_securities_direction :: FirmSecuritiesDirection
  env_business_date :: date

record ParticipantRegistry =
  registry_version :: string
  registry_entries :: "(string \<times> FinancialInstitution) list"

datatype registry_error = No_Registry_Version | Account_Twice | Empty_Account

definition mk_ParticipantRegistry :: "ParticipantRegistry \<Rightarrow> (registry_error, ParticipantRegistry) result" where
  "mk_ParticipantRegistry r =
     require (registry_version r \<noteq> []) No_Registry_Version (
     require (distinct (map fst (registry_entries r))) Account_Twice (
     require (list_all (\<lambda>e. fst e \<noteq> []) (registry_entries r)) Empty_Account (Inr r)))"

definition registry_body :: "ParticipantRegistry \<Rightarrow> string \<times> (string \<times> string \<times> string) list" where
  "registry_body r = (registry_version r,
     map (\<lambda>(a, f). (a, bicfi f, (case fi_name f of None \<Rightarrow> [] | Some n \<Rightarrow> n))) (sort_key fst (registry_entries r)))"

definition institution :: "ParticipantRegistry \<Rightarrow> string option \<Rightarrow> FinancialInstitution option" where
  "institution r a = (case a of None \<Rightarrow> None | Some x \<Rightarrow> map_option snd (find (\<lambda>e. fst e = x) (registry_entries r)))"

record 'b acceptance_kernel =
  delivery_patterns :: "string list"
  PAYMENT_ONLY :: string
  PVP :: string
  FOP :: string
  finality_types :: "string list"
  digest_envelope :: "SettlementObligationEnvelope \<Rightarrow> string"
  digest_payload :: "'b \<Rightarrow> string"
  digest_registry :: "string \<times> (string \<times> string \<times> string) list \<Rightarrow> string"
  payload_fields :: "'b \<Rightarrow> ObligationCandidate option"

definition read_candidate :: "'b acceptance_kernel \<Rightarrow> 'b \<Rightarrow> ObligationCandidate option" where
  "read_candidate A p = (case payload_fields A p of None \<Rightarrow> None | Some c \<Rightarrow> if candidate_ok c then Some c else None)"

definition no_securities_leg :: "'b acceptance_kernel \<Rightarrow> string option \<Rightarrow> bool" where
  "no_securities_leg A p \<longleftrightarrow> p \<in> {Some (PAYMENT_ONLY A), Some (PVP A)}"

definition no_cash_leg :: "'b acceptance_kernel \<Rightarrow> string option \<Rightarrow> bool" where
  "no_cash_leg A p \<longleftrightarrow> p = Some (FOP A)"

subsection \<open>Predicates\<close>

record PredicateResult =
  predicate :: string
  pr_disposition :: Disposition
  reason_codes :: "string list"

definition predicate_result :: "string \<Rightarrow> Disposition \<Rightarrow> string list \<Rightarrow> PredicateResult" where
  "predicate_result n d codes = \<lparr>predicate = n, pr_disposition = d, reason_codes = codes\<rparr>"

definition passed :: "string \<Rightarrow> PredicateResult" where
  "passed n = predicate_result n Advisory.PASS []"

definition named_if :: "bool \<Rightarrow> string \<Rightarrow> string list" where
  "named_if c s = (if c then [s] else [])"

definition missing_securities :: "SecuritiesLeg \<Rightarrow> string list" where
  "missing_securities l =
     named_if (instrument_id l = None) ''securities_leg.instrument_id''
     @ named_if (sl_quantity l = None) ''securities_leg.quantity''
     @ named_if (delivering_account_id l = None) ''securities_leg.delivering_account_id''
     @ named_if (sl_receiving_account_id l = None) ''securities_leg.receiving_account_id''"

definition missing_cash :: "CashLeg \<Rightarrow> string list" where
  "missing_cash l =
     named_if (principal l = None) ''cash_leg.principal'' @ named_if (accrued l = None) ''cash_leg.accrued''
     @ named_if (total l = None) ''cash_leg.total'' @ named_if (cl_currency l = None) ''cash_leg.currency''
     @ named_if (value_date l = None) ''cash_leg.value_date''
     @ named_if (paying_account_id l = None) ''cash_leg.paying_account_id''
     @ named_if (receiving_account_id l = None) ''cash_leg.receiving_account_id''"

definition missing_fields :: "'b acceptance_kernel \<Rightarrow> ObligationCandidate \<Rightarrow> string list" where
  "missing_fields A c =
     named_if (source_manifest c \<in> {None, Some []}) ''source_manifest.references''
     @ named_if (delivery_pattern c = None) ''delivery_pattern''
     @ named_if (participants c = []) ''participants''
     @ named_if (candidate_paths c = []) ''candidate_paths''
     @ (if no_securities_leg A (delivery_pattern c) then []
        else (case securities_leg c of None \<Rightarrow> [''securities_leg''] | Some l \<Rightarrow> missing_securities l)
          @ named_if (\<not> list_ex (\<lambda>f. ef_leg f = ''SECURITIES'') (expected_finality c)) ''expected_finality.securities'')
     @ (if no_cash_leg A (delivery_pattern c) then []
        else (case cash_leg c of None \<Rightarrow> [''cash_leg''] | Some l \<Rightarrow> missing_cash l)
          @ named_if (\<not> list_ex (\<lambda>f. ef_leg f = ''CASH'') (expected_finality c)) ''expected_finality.cash'')"

definition required_fields :: "'b acceptance_kernel \<Rightarrow> ObligationCandidate \<Rightarrow> PredicateResult" where
  "required_fields A c =
     (if missing_fields A c \<noteq> []
      then predicate_result ''required_fields_present'' Advisory.BLOCK (map (\<lambda>m. ''MISSING:'' @ m) (missing_fields A c))
      else passed ''required_fields_present'')"

definition unknown_members :: "'b acceptance_kernel \<Rightarrow> ObligationCandidate \<Rightarrow> string list" where
  "unknown_members A c =
     named_if (\<not> all_opt (\<lambda>p. p \<in> set (delivery_patterns A)) (delivery_pattern c)) ''delivery_pattern''
     @ concat (map (\<lambda>(n, p). named_if (\<not> all_opt (\<lambda>d. d \<in> set (delivery_patterns A)) (cp_delivery_pattern p))
         (''candidate_paths['' @ nat_text n @ ''].delivery_pattern'')) (enumerate 0 (candidate_paths c)))
     @ concat (map (\<lambda>(n, f). named_if (ef_type f \<notin> set (finality_types A))
         (''expected_finality['' @ nat_text n @ ''].finality_type'')) (enumerate 0 (expected_finality c)))"

definition unknown_enums :: "'b acceptance_kernel \<Rightarrow> ObligationCandidate \<Rightarrow> PredicateResult" where
  "unknown_enums A c =
     (if unknown_members A c \<noteq> []
      then predicate_result ''no_unknown_enums'' Advisory.INDETERMINATE (map (\<lambda>m. ''UNKNOWN_ENUM:'' @ m) (unknown_members A c))
      else passed ''no_unknown_enums'')"

definition unlinked :: "string set \<Rightarrow> string option list \<Rightarrow> bool" where
  "unlinked accounts xs = list_ex (\<lambda>x. x \<noteq> None \<and> the x \<notin> accounts) xs"

definition linkage_codes :: "ObligationCandidate \<Rightarrow> string list" where
  "linkage_codes c =
     (let accounts = account_id ` set (participants c) in
      named_if (unlinked accounts (case securities_leg c of None \<Rightarrow> []
          | Some l \<Rightarrow> [delivering_account_id l, sl_receiving_account_id l])) ''LEG_ACCOUNT_MISMATCH:securities_leg''
      @ named_if (unlinked accounts (case cash_leg c of None \<Rightarrow> []
          | Some l \<Rightarrow> [paying_account_id l, receiving_account_id l])) ''LEG_ACCOUNT_MISMATCH:cash_leg''
      @ named_if (list_ex (\<lambda>p. cp_delivery_pattern p \<noteq> None \<and> cp_delivery_pattern p \<noteq> delivery_pattern c) (candidate_paths c))
          ''LEG_DELIVERY_PATTERN_MISMATCH:candidate_path'')"

definition leg_linkage :: "ObligationCandidate \<Rightarrow> PredicateResult" where
  "leg_linkage c =
     (if linkage_codes c \<noteq> [] then predicate_result ''leg_linkage'' Advisory.BLOCK (linkage_codes c) else passed ''leg_linkage'')"

definition halt_predicate :: "'h kernel \<Rightarrow> 'h option \<Rightarrow> PredicateResult" where
  "halt_predicate K h =
     (case h of None \<Rightarrow> passed ''halt_not_active''
      | Some x \<Rightarrow> if blocks_atreides K x then predicate_result ''halt_not_active'' Advisory.HOLD [''HALT_ACTIVE'']
                 else passed ''halt_not_active'')"

datatype acceptance_error = Naive_Evaluation | Not_A_Decimal | Not_Comparable

fun evidence_decimal :: "evidence \<Rightarrow> py_decimal option + rat" where
  "evidence_decimal (Ev_Decimal r) = Inr r"
| "evidence_decimal (Ev_Text s) = Inl (read_decimal s)"
| "evidence_decimal _ = Inl None"

text \<open>\<open>Decimal(snapshot["net_obligation"]) < total\<close>: an unreadable text and a NaN raise.\<close>

definition covers_less :: "evidence \<Rightarrow> rat \<Rightarrow> (acceptance_error, bool) result" where
  "covers_less e t = (case evidence_decimal e of
     Inr r \<Rightarrow> Inr (r < t)
   | Inl None \<Rightarrow> Inl Not_A_Decimal
   | Inl (Some (Num s c x)) \<Rightarrow> Inr (num_value (Num s c x) < t)
   | Inl (Some (Infinite s)) \<Rightarrow> Inr s
   | Inl (Some _) \<Rightarrow> Inl Not_Comparable)"

text \<open>What the gate decision says of the cash leg, in the order of the code; a code is the value of the reason.\<close>

definition decision_text :: "GateDecision enum_arg \<Rightarrow> string" where
  "decision_text d = (case d of Member m \<Rightarrow> gate_decision_value m | _ \<Rightarrow> [])"

definition reason_text :: "ReasonCode enum_arg \<Rightarrow> string" where
  "reason_text d = (case d of Member m \<Rightarrow> reason_value m | _ \<Rightarrow> [])"

definition cash_terms :: "ObligationCandidate \<Rightarrow> (rat \<times> string) option" where
  "cash_terms c = (case cash_leg c of None \<Rightarrow> None | Some l \<Rightarrow>
     (case (total l, cl_currency l) of (Some t, Some y) \<Rightarrow> Some (t, y) | _ \<Rightarrow> None))"

definition funding_terms :: "CatoCashDecision \<Rightarrow> rat \<Rightarrow> string \<Rightarrow> (acceptance_error, Disposition \<times> string list) result" where
  "funding_terms d t y =
     (if evaluated_notional d \<noteq> Some t then Inr (Advisory.INDETERMINATE, [''CASH_GATE_NOTIONAL_MISMATCH''])
      else if evaluated_currency d \<noteq> Some y then Inr (Advisory.INDETERMINATE, [''CASH_GATE_CURRENCY_MISMATCH''])
      else case map_of (rev (funding_state_snapshot d)) ''net_obligation'' of
        None \<Rightarrow> Inr (Advisory.INDETERMINATE, [''CASH_GATE_NET_OBLIGATION_MISSING''])
      | Some e \<Rightarrow> (case covers_less e t of Inl x \<Rightarrow> Inl x
          | Inr b \<Rightarrow> Inr (if b then (Advisory.HOLD, [''CASH_GATE_NET_OBLIGATION_INSUFFICIENT'']) else (Advisory.PASS, []))))"

definition funding_verdict ::
  "'b acceptance_kernel \<Rightarrow> SettlementObligationEnvelope \<Rightarrow> ObligationCandidate \<Rightarrow> CatoCashDecision option \<Rightarrow>
   (acceptance_error, Disposition \<times> string list) result" where
  "funding_verdict A e c gate =
     (if no_cash_leg A (delivery_pattern c) then Inr (Advisory.PASS, [])
      else case gate of None \<Rightarrow> Inr (Advisory.INDETERMINATE, [''CASH_GATE_DECISION_MISSING''])
      | Some d \<Rightarrow>
          if \<not> bound d then Inr (Advisory.INDETERMINATE, [''CASH_GATE_UNBOUND''])
          else if obligation_id d \<noteq> Some (env_obligation_id e) then Inr (Advisory.INDETERMINATE, [''CASH_GATE_OTHER_OBLIGATION''])
          else if obligation_digest d \<noteq> Some (digest_envelope A e) then Inr (Advisory.INDETERMINATE, [''CASH_GATE_STALE_DIGEST''])
          else if decision d \<noteq> Member PROCEED
          then Inr (Advisory.HOLD, [''CASH_GATE_'' @ decision_text (decision d) @ '':'' @ reason_text (reason_code d)])
          else case cash_terms c of
            None \<Rightarrow> Inr (Advisory.INDETERMINATE, [''CASH_GATE_CASH_LEG_MISSING''])
          | Some (t, y) \<Rightarrow> funding_terms d t y)"

definition funding_bound where
  "funding_bound A e c gate =
     map_sum id (\<lambda>(d, codes). predicate_result ''funding_bound'' d codes) (funding_verdict A e c gate)"

definition iso_date :: "date \<Rightarrow> string" where
  "iso_date d = padded 4 (date_year d) @ ''-'' @ padded 2 (date_month d) @ ''-'' @ padded 2 (date_day d)"

definition control_verdict ::
  "SettlementObligationEnvelope \<Rightarrow> ObligationCandidate \<Rightarrow> SecuritiesLeg \<Rightarrow> rat \<Rightarrow> ControlResult option \<Rightarrow> Disposition \<times> string list" where
  "control_verdict e c l delivered control =
     (case control of None \<Rightarrow> (Advisory.HOLD, [''CUSTOMER_CONTROL_EVIDENCE_MISSING''])
      | Some k \<Rightarrow>
          (let settles = iso_date (env_business_date e) in
           if cash_leg c \<noteq> None \<and> value_date (the (cash_leg c)) \<noteq> Some settles then (Advisory.HOLD, [''SETTLEMENT_DATE_CONFLICT''])
           else case (if instrument_id l = None \<or> iso_date (cr_as_of k) \<noteq> settles then None
                      else find (\<lambda>q. Some (ic_issue q) = instrument_id l) (issues k)) of
             None \<Rightarrow> (Advisory.HOLD, [''CUSTOMER_CONTROL_UNBOUND''])
           | Some q \<Rightarrow>
               if ctl_disposition k \<noteq> Advisory.PASS then (Advisory.HOLD, [''CUSTOMER_CONTROL_NOT_ESTABLISHED''])
               else if in_control q < delivered then (Advisory.HOLD, [''CUSTOMER_CONTROL_INSUFFICIENT''])
               else (Advisory.PASS, [])))"

definition sell_verdict ::
  "SettlementObligationEnvelope \<Rightarrow> ObligationCandidate \<Rightarrow> ControlResult option \<Rightarrow> Disposition \<times> string list" where
  "sell_verdict e c control =
     (if firm_securities_direction e \<noteq> DELIVER then (Advisory.PASS, [])
      else case securities_leg c of None \<Rightarrow> (Advisory.PASS, [])
      | Some l \<Rightarrow>
          (case sl_quantity l of None \<Rightarrow> (Advisory.INDETERMINATE, [''DELIVERY_QUANTITY_INVALID''])
           | Some delivered \<Rightarrow>
               if delivered \<le> 0 then (Advisory.INDETERMINATE, [''DELIVERY_QUANTITY_INVALID''])
               else if seller_capacity c = None then (Advisory.HOLD, [''CUSTOMER_SELL_CLASSIFICATION_MISSING''])
               else if the (seller_capacity c) \<notin> SELLER_CAPACITIES then (Advisory.INDETERMINATE, [''SELLER_CAPACITY_UNKNOWN''])
               else if account_capacity_digest c = None then (Advisory.HOLD, [''SELLER_CAPACITY_UNATTESTED''])
               else if seller_capacity c = Some ''PROPRIETARY'' then (Advisory.PASS, [])
               else control_verdict e c l delivered control))"

definition customer_sell_control where
  "customer_sell_control e c control =
     (case sell_verdict e c control of (d, codes) \<Rightarrow> predicate_result ''customer_sell_possession_or_control'' d codes)"

subsection \<open>The acceptance record\<close>

datatype dsor_reference = Recorded_As string | Nothing_Recorded "string list"

record FrozenAcceptanceRecord =
  fr_obligation_id :: string
  fr_obligation_digest :: string
  fr_disposition :: Disposition
  dsor_record :: dsor_reference
  decided_by :: string
  fr_provenance :: Provenance

text \<open>The reasons are joined with semicolons, or read \<open>ACCEPTANCE_NOT_RECORDED\<close> when there are none.\<close>

definition frozen_record where
  "frozen_record A e d aid by codes =
     \<lparr>fr_obligation_id = env_obligation_id e, fr_obligation_digest = digest_envelope A e, fr_disposition = d,
      dsor_record = (if d = Advisory.PASS then Recorded_As (''atreides-acceptance:'' @ aid) else Nothing_Recorded codes),
      decided_by = by, fr_provenance = POLICY_RESULT\<rparr>"

definition SEVERITY :: "Disposition list" where
  "SEVERITY = [Advisory.BLOCK, Advisory.INDETERMINATE, Advisory.HOLD, Advisory.PASS]"

definition worst :: "PredicateResult list \<Rightarrow> Disposition" where
  "worst ps = (case find (\<lambda>s. list_ex (\<lambda>p. pr_disposition p = s) ps) SEVERITY of Some s \<Rightarrow> s | None \<Rightarrow> Advisory.PASS)"

definition predicates where
  "predicates K A e c gate halt control =
     map_sum id (\<lambda>f. [required_fields A c, unknown_enums A c, leg_linkage c, halt_predicate K halt, f,
       customer_sell_control e c control]) (funding_bound A e c gate)"

definition evaluate_candidate ::
  "'h kernel \<Rightarrow> 'b acceptance_kernel \<Rightarrow> SettlementObligationEnvelope \<Rightarrow> 'b \<Rightarrow> string \<Rightarrow> stamp \<Rightarrow> string \<Rightarrow>
   CatoCashDecision option \<Rightarrow> 'h option \<Rightarrow> ControlResult option \<Rightarrow> (acceptance_error, FrozenAcceptanceRecord) result" where
  "evaluate_candidate K A e payload aid at_time by gate halt control =
     require (utc_off at_time \<noteq> None) Naive_Evaluation (
     if digest_payload A payload \<noteq> payload_digest e
     then Inr (frozen_record A e Advisory.BLOCK aid by [''PAYLOAD_DIGEST_MISMATCH''])
     else case read_candidate A payload of
       None \<Rightarrow> Inr (frozen_record A e Advisory.BLOCK aid by [''PAYLOAD_INVALID''])
     | Some c \<Rightarrow> (case predicates K A e c gate halt control of Inl x \<Rightarrow> Inl x
         | Inr ps \<Rightarrow> Inr (frozen_record A e (worst ps) aid by (concat (map reason_codes ps)))))"

subsection \<open>The record of the draft\<close>

datatype AcceptanceOutcome = OUTCOME_ACCEPTED | OUTCOME_HELD | OUTCOME_REJECTED | OUTCOME_INDETERMINATE

fun outcome_for :: "Disposition \<Rightarrow> AcceptanceOutcome" where
  "outcome_for Advisory.PASS = OUTCOME_ACCEPTED"
| "outcome_for Advisory.HOLD = OUTCOME_HELD"
| "outcome_for Advisory.BLOCK = OUTCOME_REJECTED"
| "outcome_for Advisory.INDETERMINATE = OUTCOME_INDETERMINATE"

definition mk_PredicateResult :: "PredicateResult \<Rightarrow> (string, PredicateResult) result" where
  "mk_PredicateResult p =
     require (predicate p \<noteq> []) ''predicate'' (
     require (pr_disposition p = Advisory.PASS \<or> reason_codes p \<noteq> []) ''reason_codes'' (Inr p))"

record ObligationAcceptanceRecord =
  oa_operation_id :: string
  oa_obligation_id :: string
  obligation_version :: "int option"
  oa_lifecycle_id :: "string option"
  oa_obligation_digest :: string
  oa_disposition :: Disposition
  oa_outcome :: AcceptanceOutcome
  evaluated_predicates :: "PredicateResult list"
  oa_rule_version :: string
  data_versions :: "(string \<times> string) list"
  oa_reason_codes :: "string list"
  halt_context_version :: "int option"
  evaluated_at :: stamp
  accepted_at :: "stamp option"

definition mk_ObligationAcceptanceRecord ::
  "ObligationAcceptanceRecord \<Rightarrow> (string, ObligationAcceptanceRecord) result" where
  "mk_ObligationAcceptanceRecord r =
     require (evaluated_predicates r \<noteq> []) ''evaluated_predicates'' (
     require (oa_rule_version r \<noteq> []) ''rule_version'' (
     require (oa_outcome r = outcome_for (oa_disposition r)) ''outcome'' (
     require ((oa_outcome r = OUTCOME_ACCEPTED) = (accepted_at r \<noteq> None)) ''accepted_at'' (
     require (utc_off (evaluated_at r) \<noteq> None) ''evaluated_at'' (Inr r)))))"

definition accepted :: "ObligationAcceptanceRecord \<Rightarrow> bool" where
  "accepted r \<longleftrightarrow> oa_outcome r = OUTCOME_ACCEPTED"

subsection \<open>Preparing the instruction\<close>

datatype preparation_error =
    Prep_Digest_Mismatch | Prep_No_Acceptance | Prep_Not_Pass Disposition | Prep_Other_Obligation | Prep_Stale_Envelope
  | Prep_Payload_Invalid | Prep_No_Cash_Leg | Prep_Amount_Mismatch | Prep_Currency_Mismatch | Prep_No_Registry
  | Prep_Registry_Unnamed | Prep_Registry_Mismatch | Prep_No_Mapping | Prep_Party_Mismatch | Prep_Same_Party
  | Prep_Emission messaging_error | Prep_XML_Invalid | Prep_Encoding_Escapes

fun prep_xml_error :: "xml_failure \<Rightarrow> preparation_error" where
  "prep_xml_error Not_Parsed = Prep_XML_Invalid"
| "prep_xml_error Encoding_Refused = Prep_Encoding_Escapes"

definition prepare_parties ::
  "'b acceptance_kernel \<Rightarrow> ObligationCandidate \<Rightarrow> CashLegInstruction \<Rightarrow> ParticipantRegistry option \<Rightarrow> (preparation_error, unit) result" where
  "prepare_parties A c i registry =
     (case registry of None \<Rightarrow> Inl Prep_No_Registry
      | Some r \<Rightarrow>
          require (participant_registry_digest c \<noteq> None) Prep_Registry_Unnamed (
          require (Some (digest_registry A (registry_body r)) = participant_registry_digest c) Prep_Registry_Mismatch (
          case (institution r (Option.bind (cash_leg c) paying_account_id),
                institution r (Option.bind (cash_leg c) receiving_account_id)) of
            (Some p, Some q) \<Rightarrow>
              require (debtor i = p \<and> creditor i = q) Prep_Party_Mismatch (
              require (bicfi (debtor i) \<noteq> bicfi (creditor i)) Prep_Same_Party (Inr ()))
          | _ \<Rightarrow> Inl Prep_No_Mapping)))"

definition prepare_instruction ::
  "'h kernel \<Rightarrow> 'b acceptance_kernel \<Rightarrow> 'b wire \<Rightarrow> SettlementObligationEnvelope \<Rightarrow> 'b \<Rightarrow> FrozenAcceptanceRecord option \<Rightarrow>
   CashLegInstruction \<Rightarrow> DepositoryProfile \<Rightarrow> 'h option \<Rightarrow> ParticipantRegistry option \<Rightarrow>
   (preparation_error, 'b InstructionArtifact) result" where
  "prepare_instruction K A X e payload acc i profile halt registry =
     require (digest_payload A payload = payload_digest e) Prep_Digest_Mismatch (
     case acc of None \<Rightarrow> Inl Prep_No_Acceptance
     | Some r \<Rightarrow>
       require (fr_disposition r = Advisory.PASS) (Prep_Not_Pass (fr_disposition r)) (
       require (fr_obligation_id r = env_obligation_id e) Prep_Other_Obligation (
       require (fr_obligation_digest r = digest_envelope A e) Prep_Stale_Envelope (
       case read_candidate A payload of None \<Rightarrow> Inl Prep_Payload_Invalid
       | Some c \<Rightarrow>
         (case cash_terms c of None \<Rightarrow> Inl Prep_No_Cash_Leg
          | Some (t, y) \<Rightarrow>
            require (num_value (amount i) = t) Prep_Amount_Mismatch (
            require (instr_currency i = y) Prep_Currency_Mismatch (
            case prepare_parties A c i registry of Inl x \<Rightarrow> Inl x
            | Inr _ \<Rightarrow>
              (case emit_instruction_artifact K X i profile halt of Inl x \<Rightarrow> Inl (Prep_Emission x)
               | Inr a \<Rightarrow>
                   (case from_bytes X (header_xml a) of Inl x \<Rightarrow> Inl (prep_xml_error x)
                    | Inr _ \<Rightarrow> (case from_bytes X (document_xml a) of Inl x \<Rightarrow> Inl (prep_xml_error x)
                       | Inr _ \<Rightarrow> Inr a))))))))))"

end
