(* ===== verification/Cato_Props.thy ===== *)
theory Cato_Props
  imports Cato_Gate
begin

text \<open>
  Properties of the cash gate: when it proceeds, what it recommends, that it fails safe, that
  a decision does not depend on how the caller ordered its rail dict, and where the ladder
  and the serviceability predicate disagree.
\<close>

subsection \<open>The ladder\<close>

lemma map_of_usable:
  "map_of (usable_rails rails) r = Some s \<Longrightarrow> (r, s) \<in> set rails \<and> usable s"
  by (auto simp: usable_rails_def dest!: map_of_SomeD)

lemma ladder_prefer_Some:
  assumes "ladder_prefer op rails cs = Some r"
  shows "r \<in> set cs \<and> (\<exists>s. (r, s) \<in> set rails \<and> usable s \<and> within_cap s op)"
  using find_SomeD [OF assms [unfolded ladder_prefer_def]]
  by (auto split: option.splits dest: map_of_usable)

lemma serviceable_usable: "serviceable s op \<Longrightarrow> usable s \<and> within_cap s op"
  by (auto simp: serviceable_def split: if_splits)

lemma sole_serviceable_Some:
  "sole_serviceable op rails = Some r \<Longrightarrow>
   r \<noteq> PORTS_WHOLESALE \<and> (\<exists>s. (r, s) \<in> set rails \<and> serviceable s op)"
  by (auto simp: sole_serviceable_def by_rail_value_def usable_rails_def dest!: find_SomeD)

lemma sole_serviceable_None:
  "sole_serviceable op rails = None \<longleftrightarrow>
   \<not> (\<exists>(r, s) \<in> set rails. r \<noteq> PORTS_WHOLESALE \<and> serviceable s op)"
  by (auto simp: sole_serviceable_def find_None_iff by_rail_value_def usable_rails_def
      dest: serviceable_usable)

lemma linked_rail_blocker_None:
  "linked_rail_blocker r rails op = None \<longleftrightarrow>
   r \<noteq> PORTS_WHOLESALE \<and> (\<exists>s. map_of rails r = Some s \<and> serviceable s op)"
  by (auto simp: linked_rail_blocker_def split: option.splits)

lemma recommend_rail_linked:
  "depository_linked_rail op = Some l \<Longrightarrow>
   recommend_rail op rails ofr =
     (case l of Member r \<Rightarrow>
        if linked_rail_blocker r rails op = None then Some (r, Depository_Linked r) else None
      | _ \<Rightarrow> None)"
  by (auto simp: recommend_rail_def split: enum_arg.splits)

lemma recommend_rail_free:
  assumes "depository_linked_rail op = None"
  shows "recommend_rail op rails ofr = Some (r, rule) \<Longrightarrow>
    ladder_prefer op rails [FEDWIRE, FEDNOW] = Some r \<or>
    r = FEDNOW \<and> ladder_prefer op rails [FEDNOW] = Some FEDNOW \<or>
    ladder_prefer op rails [TOKENIZED_DEPOSIT] = Some r \<and> tokenized_deposit_supported op \<or>
    ladder_prefer op rails [FEDWIRE] = Some r \<or>
    sole_serviceable op rails = Some r"
  using assms ladder_prefer_Some [of op rails "[FEDNOW]"]
  by (fastforce simp: recommend_rail_def Let_def split: if_splits)

lemma recommend_rail_sound:
  assumes "recommend_rail op rails ofr = Some (r, rule)"
  shows "r \<noteq> PORTS_WHOLESALE \<and> (\<exists>s. (r, s) \<in> set rails \<and> usable s \<and> within_cap s op)"
proof (cases "depository_linked_rail op")
  case None
  from recommend_rail_free [OF None assms] show ?thesis
    by (elim disjE conjE)
      (auto dest!: ladder_prefer_Some sole_serviceable_Some dest: serviceable_usable)
next
  case (Some l)
  with assms show ?thesis
    by (auto simp: recommend_rail_linked linked_rail_blocker_None split: enum_arg.splits if_splits
        dest: map_of_SomeD serviceable_usable)
qed

lemma gross_final_serviceable:
  assumes "usable s" and "within_cap s op" and "rs_rail s = Member r" and "RAIL_FINALITY r \<noteq> LEDGER_FINAL"
  shows "serviceable s op"
  using assms by (simp add: serviceable_def continuously_available_def)

lemma ladder_prefer_gross_serviceable:
  assumes "ladder_prefer op rails cs = Some r" and "set cs \<subseteq> {FEDWIRE, FEDNOW}"
    and "\<forall>(k, s) \<in> set rails. rs_rail s = Member k"
  shows "\<exists>s. (r, s) \<in> set rails \<and> serviceable s op"
proof -
  obtain s where s: "(r, s) \<in> set rails" "usable s" "within_cap s op"
    using ladder_prefer_Some [OF assms(1)] by blast
  moreover have "r = FEDWIRE \<or> r = FEDNOW" using ladder_prefer_Some [OF assms(1)] assms(2) by auto
  ultimately have "serviceable s op"
    using assms(3) by (intro gross_final_serviceable [of s op r]) auto
  with s show ?thesis by blast
qed

lemma recommend_rail_total:
  assumes "depository_linked_rail op = None"
    and "\<exists>(r, s) \<in> set rails. r \<noteq> PORTS_WHOLESALE \<and> serviceable s op"
  shows "recommend_rail op rails ofr \<noteq> None"
  using assms sole_serviceable_None [of op rails] by (auto simp: recommend_rail_def Let_def)

lemma recommend_rail_defined:
  "recommend_rail op rails ofr \<noteq> None \<and>
   (depository_linked_rail op \<noteq> None \<or>
    (\<exists>(r, s) \<in> set rails. r \<noteq> PORTS_WHOLESALE \<and> serviceable s op)) \<longleftrightarrow>
   (case depository_linked_rail op of
      None \<Rightarrow> \<exists>(r, s) \<in> set rails. r \<noteq> PORTS_WHOLESALE \<and> serviceable s op
    | Some l \<Rightarrow> \<exists>r s. l = Member r \<and> r \<noteq> PORTS_WHOLESALE \<and> map_of rails r = Some s \<and> serviceable s op)"
  using recommend_rail_total [of op rails ofr]
  by (auto simp: recommend_rail_linked linked_rail_blocker_None split: option.splits enum_arg.splits)

subsection \<open>When the gate proceeds\<close>

text \<open>
  C1: the gate proceeds exactly when no halt blocks, every enum input is a member, the stress
  reading is a finite number of at most one half, no stated freshness bound fails, the operation
  is not material, a named counterparty is in good standing, the position is assertable, covers
  the obligation and breaches no risk control, the correspondent chain resolves, the
  determination is neither pending nor unread, and a rail can carry the operation: the linked
  rail if there is one, else some rail other than the reserved placeholder.
\<close>

theorem gate_proceeds_iff:
  assumes "evaluate K op f rails ofr uri age policy oid dig halt = Inr d"
  shows "proceeds d \<longleftrightarrow>
    (\<forall>h. halt = Some h \<longrightarrow> \<not> blocks_atreides K h) \<and>
    op_unrecognised_fields op = [] \<and>
    (\<exists>x. ofr = Finite x \<and> x \<le> 1 / 2) \<and> check_freshness op rails age policy = None \<and>
    \<not> is_material op \<and>
    (\<forall>cp. counterparty op = Some cp \<longrightarrow> standing cp = IN_GOOD_STANDING) \<and>
    position_is_assertable f \<and> net_obligation f \<le> projected_funded_position f \<and>
    0 \<le> net_debit_cap_headroom f \<and> clearing_fund_sufficient f \<and>
    correspondent_finality_resolvable op \<and>
    determination_outcome op \<notin> {Member AWAITING_DETERMINATION, Member QUALIFICATION_UNKNOWN} \<and>
    (case depository_linked_rail op of
       None \<Rightarrow> \<exists>(r, s) \<in> set rails. r \<noteq> PORTS_WHOLESALE \<and> serviceable s op
     | Some l \<Rightarrow> \<exists>r s. l = Member r \<and> r \<noteq> PORTS_WHOLESALE \<and> map_of rails r = Some s \<and> serviceable s op)"
  unfolding evaluate_decision_iff [OF assms] gate_verdict_proceed_iff gate_check_list_silent
    is_funded_def recommend_rail_defined [where ofr = ofr, symmetric]
  by blast

definition w_kernel :: "nat kernel" where
  "w_kernel = \<lparr>blocks_atreides = (\<lambda>h. h = 1), halt_id = (\<lambda>_. ''H''), halt_version = int,
     halt_reason = (\<lambda>_. ''drill''), ObligationId = (\<lambda>s. if s = [] then None else Some s)\<rparr>"

definition w_operation :: OperationContext where
  "w_operation = \<lparr>notional = 1000, currency = ''USD'', is_material = False,
     is_lvps_material = False, is_fx_leg = False, pvp_available = True,
     depository_linked_rail = None, correspondent_finality_resolvable = True,
     tokenized_deposit_supported = False, within_business_hours = True,
     determination_outcome = Member NOT_APPLICABLE, counterparty = None,
     settlement_perimeter = Member SettlementPerimeter.NOT_ASSESSED\<rparr>"

definition w_funding :: FundingState where
  "w_funding = \<lparr>projected_funded_position = 5000, net_obligation = 1000,
     net_debit_cap_headroom = 0, clearing_fund_sufficient = True, position_is_assertable = True\<rparr>"

definition w_rail :: "CashRail \<Rightarrow> CashRail \<times> RailState" where
  "w_rail r = (r, mk_RailState (Member r) (Member AVAILABLE) (Some 7200) None None)"

lemmas w_defs = w_kernel_def w_operation_def w_funding_def w_rail_def mk_RailState_def

lemma w_rail_state [simp]:
  "fst (w_rail r) = r" "usable (snd (w_rail r))" "within_cap (snd (w_rail r)) op"
  "rs_rail (snd (w_rail r)) = Member r" "observed_age_seconds (snd (w_rail r)) = None"
  by (simp_all add: w_defs usable_def within_cap_def)

lemma serviceable_gross_in_hours [simp]: "within_business_hours op \<Longrightarrow> serviceable (snd (w_rail r)) op"
  by (simp add: serviceable_def)

lemma w_serviceable: "\<exists>(r, s) \<in> set [w_rail FEDWIRE]. r \<noteq> PORTS_WHOLESALE \<and> serviceable s w_operation"
proof -
  have "serviceable (snd (w_rail FEDWIRE)) w_operation" by (simp add: w_operation_def)
  then show ?thesis by (simp add: split_beta)
qed

lemma w_proceeds:
  assumes "evaluate w_kernel w_operation w_funding [w_rail FEDWIRE] (Finite 0) uri age policy None None None
    = Inr d" and "check_freshness w_operation [w_rail FEDWIRE] age policy = None"
  shows "proceeds d"
proof -
  have "recommend_rail w_operation [w_rail FEDWIRE] (Finite 0) \<noteq> None"
    by (rule recommend_rail_total [OF _ w_serviceable]) (simp add: w_operation_def)
  then show ?thesis
    unfolding evaluate_decision_iff [OF assms(1)] gate_verdict_proceed_iff gate_check_list_silent
    using assms(2) w_serviceable
    by (simp add: op_unrecognised_fields_Nil is_funded_def)
      (simp add: w_operation_def w_funding_def)
qed

lemma w_evaluates:
  obtains d where "evaluate w_kernel op f rails ofr uri age policy None None halt = Inr d"
  using evaluate_unbound_returns by blast

theorem gate_proceeds_iff_witness:
  "\<exists>d. evaluate w_kernel w_operation w_funding [w_rail FEDWIRE] (Finite 0) None None None None None None
         = Inr d \<and> proceeds d"
proof -
  obtain d where d: "evaluate w_kernel w_operation w_funding [w_rail FEDWIRE] (Finite 0) None None
      None None None None = Inr d"
    by (rule w_evaluates)
  have "proceeds d"
    using gate_proceeds_iff [OF d] w_serviceable
    by (simp add: op_unrecognised_fields_Nil check_freshness_def)
      (simp add: w_operation_def w_funding_def)
  with d show ?thesis by blast
qed

text \<open>
  the gate returns a decision for every input whose obligation binding is well formed
  (identifier and digest both absent, or both present and accepted), and raises for no other
  reason: no operation, funding state, rail dict, reading or halt makes it fail to decide.
\<close>

theorem gate_total:
  "(\<exists>d. evaluate K op f rails ofr uri age policy oid dig halt = Inr d) \<longleftrightarrow>
   (case (oid, dig) of
      (None, None) \<Rightarrow> True
    | (Some s, Some g) \<Rightarrow> ObligationId K s \<noteq> None \<and> digest_match g
    | _ \<Rightarrow> False)"
  using evaluate_returns [of K op f rails ofr uri age policy oid dig halt]
  by (simp add: binding_ok_def)

text \<open>
  whatever rail a proceeding decision recommends is in the caller's rail state, is open and
  before its cutoff, has a cap (if any) that carries the notional, is not the reserved
  placeholder, and the recorded finality class is that rail's class, never determination
  dependent.
\<close>

theorem recommended_rail_can_carry:
  assumes "evaluate K op f rails ofr uri age policy oid dig halt = Inr d" and "proceeds d"
  shows "\<exists>r s. recommended_rail d = Some r \<and> (r, s) \<in> set rails \<and> usable s \<and>
    (\<forall>c. value_cap s = Some c \<longrightarrow> notional op \<le> c) \<and> r \<noteq> PORTS_WHOLESALE \<and>
    finality_class d = Some (RAIL_FINALITY r) \<and> finality_class d \<noteq> Some DETERMINATION_DEPENDENT"
proof -
  obtain r rule where r: "recommend_rail op rails ofr = Some (r, rule)"
    "recommended_rail d = Some r" "finality_class d = Some (RAIL_FINALITY r)"
    using evaluate_proceed_rail [OF assms] .
  from recommend_rail_sound [OF r(1)] r(2,3) show ?thesis
    by (fastforce simp: within_cap_def split: option.splits)
qed

theorem recommended_rail_can_carry_witness:
  "\<exists>d r. evaluate w_kernel w_operation w_funding [w_rail FEDWIRE] (Finite 0) None None None None None None
         = Inr d \<and> recommended_rail d = Some r \<and> r \<noteq> PORTS_WHOLESALE"
proof -
  obtain d where d: "evaluate w_kernel w_operation w_funding [w_rail FEDWIRE] (Finite 0) None None
      None None None None = Inr d"
    by (rule w_evaluates)
  have "proceeds d" by (rule w_proceeds [OF d]) (simp add: check_freshness_def)
  from recommended_rail_can_carry [OF d this] d show ?thesis by blast
qed

subsection \<open>Fail safe\<close>

text \<open>
  a stress reading that is not a finite number never clears the gate and never escalates
  it: every decision on it is HOLD with no rail, and where neither a halt nor an unrecognised
  input came first the reason is STRESS_READING_UNUSABLE, never a finding about stress.
\<close>

theorem unusable_reading_holds:
  assumes "evaluate K op f rails ofr uri age policy oid dig halt = Inr d" and "\<not> isfinite ofr"
  shows "decision d = Member HOLD \<and> recommended_rail d = None \<and>
    (reason_code d \<in> {Member HALT_ACTIVE, Member INPUT_UNRECOGNISED, Member STRESS_READING_UNUSABLE})"
  using assms(1)
proof (cases rule: evaluate_cases)
  case decided
  then show ?thesis
    using gate_verdict_unusable [OF assms(2), of op f rails age policy]
    by (auto simp: decision_post_init_fields)
qed auto

theorem unusable_reading_holds_witness:
  "\<exists>d. evaluate w_kernel w_operation w_funding [w_rail FEDWIRE] NaN None None None None None None
         = Inr d \<and> decision d = Member HOLD"
proof -
  obtain d where d: "evaluate w_kernel w_operation w_funding [w_rail FEDWIRE] NaN None None
      None None None None = Inr d"
    by (rule w_evaluates)
  with unusable_reading_holds [OF d] show ?thesis by simp
qed

text \<open>
  C13: the gate escalates exactly when no halt and no unrecognised input came first, the reading
  is finite and fresh, and either it exceeds 1.0 or the (non-material) operation names a
  counterparty that is under review. Nothing else routes to human authority.
\<close>

theorem gate_escalates_iff:
  assumes "evaluate K op f rails ofr uri age policy oid dig halt = Inr d"
  shows "decision d = Member ESCALATE \<longleftrightarrow>
    (\<forall>h. halt = Some h \<longrightarrow> \<not> blocks_atreides K h) \<and> op_unrecognised_fields op = [] \<and>
    isfinite ofr \<and> check_freshness op rails age policy = None \<and>
    (float_gt ofr 1 \<or>
     \<not> is_material op \<and> (\<exists>cp. counterparty op = Some cp \<and> standing cp = UNDER_REVIEW))"
  using assms
proof (cases rule: evaluate_cases)
  case decided
  then have "decision d = Member (fst (gate_verdict op f rails ofr age policy))"
    by (simp add: decision_post_init_fields)
  with decided(1,2) show ?thesis by (simp add: gate_verdict_escalate_iff)
qed auto

theorem gate_escalates_iff_witness:
  "\<exists>d. evaluate w_kernel w_operation w_funding [] (Finite (3 / 2)) None None None None None None
         = Inr d \<and> decision d = Member ESCALATE"
proof -
  obtain d where d: "evaluate w_kernel w_operation w_funding [] (Finite (3 / 2)) None None
      None None None None = Inr d"
    by (rule w_evaluates)
  with gate_escalates_iff [OF d] show ?thesis
    by (simp add: op_unrecognised_fields_Nil w_operation_def check_freshness_def)
qed

text \<open>
  under a stated freshness policy a decision that proceeds rests on no stale evidence: each
  bound that is stated is met by an age that was recorded, for the stress reading, for every
  rail in the dict (not only the one recommended) and for a named counterparty.
\<close>

theorem proceeds_on_fresh_evidence:
  assumes "evaluate K op f rails ofr uri age (Some p) oid dig halt = Inr d" and "proceeds d"
  shows "(\<forall>m. max_stress_reading_age_seconds p = Some m \<longrightarrow> (\<exists>a. age = Some a \<and> a \<le> m)) \<and>
    (\<forall>m. max_rail_state_age_seconds p = Some m \<longrightarrow>
       (\<forall>(r, s) \<in> set rails. \<exists>a. observed_age_seconds s = Some a \<and> a \<le> m)) \<and>
    (\<forall>m cp. max_counterparty_assessment_age_seconds p = Some m \<and> counterparty op = Some cp \<longrightarrow>
       (\<exists>a. assessed_age_seconds cp = Some a \<and> a \<le> m))"
proof -
  have "check_freshness op rails age (Some p) = None"
    using assms(2)
    by (simp add: evaluate_decision_iff [OF assms(1)] gate_verdict_proceed_iff gate_check_list_silent)
  then have fresh: "\<not> polices_anything p \<or>
    \<not> fst (staleness age (max_stress_reading_age_seconds p)) \<and>
    (\<forall>(r, s) \<in> set rails. \<not> fst (staleness (observed_age_seconds s) (max_rail_state_age_seconds p))) \<and>
    (\<forall>cp. counterparty op = Some cp \<longrightarrow>
       \<not> fst (staleness (assessed_age_seconds cp) (max_counterparty_assessment_age_seconds p)))"
    by (auto simp: check_freshness_def Let_def find_None_iff by_rail_value_def
        split: if_splits option.splits)
  show ?thesis
  proof (cases "polices_anything p")
    case True
    with fresh show ?thesis by (auto simp: staleness_fresh_iff)
  next
    case False
    then show ?thesis by (simp add: polices_anything_def)
  qed
qed

definition w_policy :: FreshnessPolicy where
  "w_policy = \<lparr>max_stress_reading_age_seconds = Some 60, max_rail_state_age_seconds = None,
     max_counterparty_assessment_age_seconds = None\<rparr>"

theorem proceeds_on_fresh_evidence_witness:
  "\<exists>d. evaluate w_kernel w_operation w_funding [w_rail FEDWIRE] (Finite 0) None (Some 5) (Some w_policy)
         None None None = Inr d \<and> proceeds d \<and>
    (\<forall>m. max_stress_reading_age_seconds w_policy = Some m \<longrightarrow> (5 :: int) \<le> m)"
proof -
  obtain d where d: "evaluate w_kernel w_operation w_funding [w_rail FEDWIRE] (Finite 0) None
      (Some 5) (Some w_policy) None None None = Inr d"
    by (rule w_evaluates)
  have p: "proceeds d"
    by (rule w_proceeds [OF d])
      (simp add: check_freshness_def w_policy_def staleness_def by_rail_value_def w_operation_def
        split_beta)
  from proceeds_on_fresh_evidence [OF d p] d p show ?thesis by auto
qed

text \<open>
  a decision recommends a rail exactly when it proceeds, and for a depository-linked
  operation the rail it recommends is the linked one: the gate validates it or holds, and
  never replaces it by another rail.
\<close>

theorem linked_rail_is_determined:
  assumes "evaluate K op f rails ofr uri age policy oid dig halt = Inr d"
    and "depository_linked_rail op = Some (Member l)"
  shows "recommended_rail d = (if proceeds d then Some l else None)"
proof (cases "proceeds d")
  case True
  obtain r rule where "recommend_rail op rails ofr = Some (r, rule)" "recommended_rail d = Some r"
    using evaluate_proceed_rail [OF assms(1) True] .
  with assms(2) True show ?thesis by (auto simp: recommend_rail_linked split: if_splits)
next
  case False
  with evaluate_no_rail [OF assms(1)] show ?thesis by simp
qed

theorem linked_rail_is_determined_witness:
  "\<exists>d. evaluate w_kernel (w_operation\<lparr>depository_linked_rail := Some (Member NSS_DTC_NSCC)\<rparr>) w_funding
         [w_rail FEDWIRE, w_rail NSS_DTC_NSCC] (Finite 0) None None None None None None = Inr d \<and>
       recommended_rail d \<noteq> Some FEDWIRE"
proof -
  obtain d where d: "evaluate w_kernel (w_operation\<lparr>depository_linked_rail := Some (Member NSS_DTC_NSCC)\<rparr>)
      w_funding [w_rail FEDWIRE, w_rail NSS_DTC_NSCC] (Finite 0) None None None None None None = Inr d"
    by (rule w_evaluates)
  with linked_rail_is_determined [OF d, of NSS_DTC_NSCC] show ?thesis by auto
qed

subsection \<open>Replay\<close>

lemma by_rail_value_cong:
  assumes "mset rails = mset rails'" and "distinct (map fst rails)"
  shows "by_rail_value rails = by_rail_value rails'"
  unfolding by_rail_value_def
proof (rule sort_key_mset_cong [OF assms(1)])
  show "inj_on (\<lambda>(r, s). rail_value r) (set rails)"
    using assms(2) by (auto simp: inj_on_def dest: rail.val_inj eq_key_imp_eq_value)
qed

lemma usable_rails_cong:
  assumes "mset rails = mset rails'" and "distinct (map fst rails)"
  shows "mset (usable_rails rails) = mset (usable_rails rails')"
    and "distinct (map fst (usable_rails rails))"
  using assms by (simp_all add: usable_rails_def distinct_map_filter)

lemma recommend_rail_cong:
  assumes "mset rails = mset rails'" and "distinct (map fst rails)"
  shows "recommend_rail op rails ofr = recommend_rail op rails' ofr"
proof -
  note u = usable_rails_cong [OF assms]
  have "map_of rails = map_of rails'" using assms(2,1) by (rule map_of_mset_cong)
  moreover have "map_of (usable_rails rails) = map_of (usable_rails rails')"
    using u(2,1) by (rule map_of_mset_cong)
  moreover have "by_rail_value (usable_rails rails) = by_rail_value (usable_rails rails')"
    using u by (rule by_rail_value_cong)
  ultimately have eqs: "ladder_prefer op rails = ladder_prefer op rails'"
    "sole_serviceable op rails = sole_serviceable op rails'"
    "linked_rail_blocker l rails op = linked_rail_blocker l rails' op" for l
    by (simp_all add: ladder_prefer_def sole_serviceable_def linked_rail_blocker_def fun_eq_iff)
  show ?thesis unfolding recommend_rail_def eqs by (rule refl)
qed

lemma linked_rail_blocker_cong:
  assumes "mset rails = mset rails'" and "distinct (map fst rails)"
  shows "linked_rail_blocker l rails op = linked_rail_blocker l rails' op"
  by (simp add: linked_rail_blocker_def map_of_mset_cong [OF assms(2,1)])

lemma clear_operation_cong:
  assumes "mset rails = mset rails'" and "distinct (map fst rails)"
  shows "clear_operation op rails ofr = clear_operation op rails' ofr"
  unfolding clear_operation_def recommend_rail_cong [OF assms] linked_rail_blocker_cong [OF assms]
  by (rule refl)

lemma gate_checks_cong:
  assumes "mset rails = mset rails'" and "distinct (map fst rails)"
  shows "gate_checks K halt op f rails ofr age policy = gate_checks K halt op f rails' ofr age policy"
proof -
  have "sort (map (\<lambda>(r, s). rail_value r) (usable_rails rails)) =
    sort (map (\<lambda>(r, s). rail_value r) (usable_rails rails'))"
    by (rule sort_key_mset_cong) (simp_all add: usable_rails_cong(1) [OF assms])
  then show ?thesis by (simp add: gate_checks_def)
qed

text \<open>
  C17: a decision does not depend on the order in which the caller built the rail dict: two
  dicts with the same entries give the same result, record and all (or the same error).
\<close>

theorem decision_ignores_rail_order:
  assumes "mset rails = mset rails'" and "distinct (map fst rails)"
  shows "evaluate K op f rails ofr uri age policy oid dig halt =
         evaluate K op f rails' ofr uri age policy oid dig halt"
proof -
  have "check_window op rails = check_window op rails'"
    by (simp add: check_window_def list_ex_iff mset_eq_setD [OF assms(1)])
  moreover have "check_freshness op rails age policy = check_freshness op rails' age policy"
    unfolding check_freshness_def by_rail_value_cong [OF assms] by (rule refl)
  ultimately have "gate_verdict op f rails ofr age policy = gate_verdict op f rails' ofr age policy"
    by (simp add: gate_verdict_def gate_check_list_def clear_operation_cong [OF assms])
  then show ?thesis by (simp add: evaluate_def gate_checks_cong [OF assms])
qed

theorem decision_ignores_rail_order_witness:
  "evaluate w_kernel w_operation w_funding [w_rail CHIPS, w_rail FEDNOW] (Finite 0) None None None None None None
   = evaluate w_kernel w_operation w_funding [w_rail FEDNOW, w_rail CHIPS] (Finite 0) None None None None None None"
  by (rule decision_ignores_rail_order) (simp_all add: add_mset_commute)

lemma drop_counterparty_cap [simp]: "within_cap s (op\<lparr>counterparty := c\<rparr>) = within_cap s op"
  by (simp add: within_cap_def split: option.split)

lemma drop_counterparty [simp]:
  "serviceable s (op\<lparr>counterparty := c\<rparr>) = serviceable s op"
  "op_unrecognised_fields (op\<lparr>counterparty := c\<rparr>) = op_unrecognised_fields op"
  by (simp_all add: serviceable_def op_unrecognised_fields_def)

lemma drop_counterparty_ladder [simp]:
  "ladder_prefer (op\<lparr>counterparty := c\<rparr>) rails = ladder_prefer op rails"
  "sole_serviceable (op\<lparr>counterparty := c\<rparr>) rails = sole_serviceable op rails"
  "linked_rail_blocker l rails (op\<lparr>counterparty := c\<rparr>) = linked_rail_blocker l rails op"
  by (simp_all add: linked_rail_blocker_def ladder_prefer_def sole_serviceable_def fun_eq_iff
      cong: option.case_cong if_cong)

lemma drop_counterparty_recommend [simp]:
  "recommend_rail (op\<lparr>counterparty := c\<rparr>) rails ofr = recommend_rail op rails ofr"
proof -
  have fields: "is_lvps_material (op\<lparr>counterparty := c\<rparr>) = is_lvps_material op"
    "within_business_hours (op\<lparr>counterparty := c\<rparr>) = within_business_hours op"
    "tokenized_deposit_supported (op\<lparr>counterparty := c\<rparr>) = tokenized_deposit_supported op"
    "settlement_perimeter (op\<lparr>counterparty := c\<rparr>) = settlement_perimeter op"
    "depository_linked_rail (op\<lparr>counterparty := c\<rparr>) = depository_linked_rail op"
    by simp_all
  show ?thesis unfolding recommend_rail_def drop_counterparty_ladder fields by (rule refl)
qed

lemma drop_counterparty_freshness:
  "check_freshness op rails age policy = None \<Longrightarrow>
   check_freshness (op\<lparr>counterparty := None\<rparr>) rails age policy = None"
  by (auto simp: check_freshness_def Let_def split: option.splits if_splits)

text \<open>
  naming a counterparty only makes the gate stricter. If an operation with a counterparty
  proceeds, the same operation without one proceeds too, on the same rail.
\<close>

theorem counterparty_only_tightens:
  assumes "evaluate K op f rails ofr uri age policy oid dig halt = Inr d" and "proceeds d"
  shows "\<exists>d'. evaluate K (op\<lparr>counterparty := None\<rparr>) f rails ofr uri age policy oid dig halt = Inr d' \<and>
    proceeds d' \<and> recommended_rail d' = recommended_rail d"
proof -
  obtain d' where d': "evaluate K (op\<lparr>counterparty := None\<rparr>) f rails ofr uri age policy oid dig halt = Inr d'"
    using assms(1) by (metis evaluate_returns)
  have p: "proceeds d'"
    using assms(2) drop_counterparty_freshness
    by (auto simp: evaluate_decision_iff [OF assms(1)] evaluate_decision_iff [OF d']
        gate_verdict_proceed_iff gate_check_list_silent)
  obtain r rule where "recommend_rail op rails ofr = Some (r, rule)" "recommended_rail d = Some r"
    using evaluate_proceed_rail [OF assms] .
  moreover obtain r' rule' where "recommend_rail (op\<lparr>counterparty := None\<rparr>) rails ofr = Some (r', rule')"
    "recommended_rail d' = Some r'"
    using evaluate_proceed_rail [OF d' p] .
  ultimately show ?thesis using d' p by simp
qed

theorem counterparty_only_tightens_witness:
  "\<exists>d'. evaluate w_kernel (w_operation\<lparr>counterparty := None\<rparr>) w_funding [w_rail FEDWIRE] (Finite 0)
          None None None None None None = Inr d' \<and> proceeds d'"
proof -
  obtain d where d: "evaluate w_kernel w_operation w_funding [w_rail FEDWIRE] (Finite 0) None None
      None None None None = Inr d"
    by (rule w_evaluates)
  have "proceeds d" by (rule w_proceeds [OF d]) (simp add: check_freshness_def)
  from counterparty_only_tightens [OF d this] show ?thesis by blast
qed

subsection \<open>Where the ladder and the serviceability predicate part\<close>

lemma recommend_rail_serviceable:
  assumes "recommend_rail op rails ofr = Some (r, rule)"
    and keys: "\<forall>(k, s) \<in> set rails. rs_rail s = Member k"
    and hours: "within_business_hours op \<or> \<not> tokenized_deposit_supported op"
  shows "\<exists>s. (r, s) \<in> set rails \<and> serviceable s op"
proof (cases "depository_linked_rail op")
  case None
  note gross = ladder_prefer_gross_serviceable [OF _ _ keys]
  have in_hours: "within_business_hours op \<Longrightarrow> ?thesis"
    using recommend_rail_sound [OF assms(1)] by (auto simp: serviceable_def)
  from recommend_rail_free [OF None assms(1)] hours show ?thesis
    by (elim disjE conjE)
      (auto intro: gross [of op "[FEDWIRE, FEDNOW]"] gross [of op "[FEDNOW]"] gross [of op "[FEDWIRE]"]
        in_hours dest: sole_serviceable_Some)
next
  case (Some l)
  with assms(1) show ?thesis
    by (auto simp: recommend_rail_linked linked_rail_blocker_None split: enum_arg.splits if_splits
        dest: map_of_SomeD)
qed

text \<open>
  if every entry of the rail dict carries the rail it is filed under, and the operation is
  inside business hours or does not support a tokenized deposit, the recommended rail is
  serviceable in the full sense of check 6, perimeter included.
\<close>

theorem recommended_rail_is_serviceable:
  assumes "evaluate K op f rails ofr uri age policy oid dig halt = Inr d" and "proceeds d"
    and "\<forall>(k, s) \<in> set rails. rs_rail s = Member k"
    and "within_business_hours op \<or> \<not> tokenized_deposit_supported op"
  shows "\<exists>r s. recommended_rail d = Some r \<and> (r, s) \<in> set rails \<and> serviceable s op"
proof -
  obtain r rule where "recommend_rail op rails ofr = Some (r, rule)" "recommended_rail d = Some r"
    using evaluate_proceed_rail [OF assms(1,2)] .
  with recommend_rail_serviceable [OF _ assms(3,4)] show ?thesis by blast
qed

theorem recommended_rail_is_serviceable_witness:
  "\<exists>d r. evaluate w_kernel w_operation w_funding [w_rail FEDWIRE] (Finite 0) None None None None None None
         = Inr d \<and> recommended_rail d = Some r \<and> serviceable (snd (w_rail r)) w_operation"
proof -
  obtain d where d: "evaluate w_kernel w_operation w_funding [w_rail FEDWIRE] (Finite 0) None None
      None None None None = Inr d"
    by (rule w_evaluates)
  have p: "proceeds d" by (rule w_proceeds [OF d]) (simp add: check_freshness_def)
  have "\<forall>(k, s) \<in> set [w_rail FEDWIRE]. rs_rail s = Member k" by (simp add: w_defs)
  moreover have "within_business_hours w_operation \<or> \<not> tokenized_deposit_supported w_operation"
    by (simp add: w_operation_def)
  ultimately show ?thesis
    using recommended_rail_is_serviceable [OF d p] d by (fastforce simp: w_rail_def)
qed

definition w_night :: OperationContext where
  "w_night = w_operation\<lparr>within_business_hours := False, tokenized_deposit_supported := True\<rparr>"

lemma w_night_evaluate:
  assumes "evaluate w_kernel w_night w_funding rails (Finite 0) None None None None None None = Inr d"
  shows "proceeds d \<longleftrightarrow> (\<exists>(r, s) \<in> set rails. r \<noteq> PORTS_WHOLESALE \<and> serviceable s w_night)"
proof -
  have "depository_linked_rail w_night = None" by (simp add: w_night_def w_operation_def)
  then show ?thesis
    unfolding evaluate_decision_iff [OF assms] gate_verdict_proceed_iff gate_check_list_silent
    using recommend_rail_total [of w_night rails "Finite 0"]
    by (auto simp: w_night_def w_operation_def w_funding_def op_unrecognised_fields_Nil
        check_freshness_def is_funded_def)
qed

text \<open>
  outside business hours with an unassessed perimeter, a deferred-net rail that is open lets
  the gate past check 6, and the tokenized preference then recommends the tokenized deposit
  although that rail is not serviceable for the operation (its continuous availability is
  exactly what the unassessed perimeter does not support): the gate PROCEEDs on it.
\<close>

theorem tokenized_preference_skips_perimeter:
  "\<exists>d. evaluate w_kernel w_night w_funding [w_rail CHIPS, w_rail TOKENIZED_DEPOSIT] (Finite 0)
          None None None None None None = Inr d \<and>
       proceeds d \<and> recommended_rail d = Some TOKENIZED_DEPOSIT \<and>
       settlement_perimeter w_night = Member SettlementPerimeter.NOT_ASSESSED \<and>
       \<not> serviceable (snd (w_rail TOKENIZED_DEPOSIT)) w_night"
proof -
  let ?rails = "[w_rail CHIPS, w_rail TOKENIZED_DEPOSIT]"
  obtain d where d: "evaluate w_kernel w_night w_funding ?rails (Finite 0) None None
      None None None None = Inr d"
    by (rule w_evaluates)
  have chips: "serviceable (snd (w_rail CHIPS)) w_night"
    by (rule gross_final_serviceable [of _ _ CHIPS]) simp_all
  have p: "proceeds d"
    unfolding w_night_evaluate [OF d] using chips by (auto simp: split_beta)
  have u: "usable_rails ?rails = ?rails" by (simp add: usable_rails_def split_beta)
  have m: "map_of ?rails CHIPS = Some (snd (w_rail CHIPS))"
    "map_of ?rails TOKENIZED_DEPOSIT = Some (snd (w_rail TOKENIZED_DEPOSIT))"
    "map_of ?rails FEDWIRE = None" "map_of ?rails FEDNOW = None"
    by (simp_all add: w_rail_def)
  have "recommend_rail w_night ?rails (Finite 0) =
    Some (TOKENIZED_DEPOSIT, Tokenized_Preferred (settlement_perimeter w_night))"
    by (simp add: recommend_rail_def ladder_prefer_def u m OFR_STRESS_PREFERENCE_THRESHOLD_def
        w_night_def w_operation_def del: map_of.simps)
  then have "recommended_rail d = Some TOKENIZED_DEPOSIT"
    using evaluate_proceed_rail [OF d p] by auto
  moreover have "\<not> serviceable (snd (w_rail TOKENIZED_DEPOSIT)) w_night"
    by (simp add: serviceable_def w_night_def w_operation_def continuously_available_def)
  moreover have "settlement_perimeter w_night = Member SettlementPerimeter.NOT_ASSESSED"
    by (simp add: w_night_def w_operation_def)
  ultimately show ?thesis using d p by blast
qed

definition w_misspelt :: "CashRail \<times> RailState" where
  "w_misspelt = (TOKENIZED_DEPOSIT, mk_RailState (Raw (Py_Str ''Tokenized_Deposit''))
     (Member AVAILABLE) (Some 7200) None None)"

text \<open>
  the perimeter check reads the finality of the rail named inside the rail state, not of the
  key it is filed under, and an unrecognised name there has no finality class: outside business
  hours with an unassessed perimeter the gate holds on a correctly spelt tokenized-deposit
  entry and PROCEEDs on the same entry with a misspelt inner name.
\<close>

theorem misspelt_rail_state_fails_open:
  "(\<forall>d. evaluate w_kernel w_night w_funding [w_rail TOKENIZED_DEPOSIT] (Finite 0)
           None None None None None None = Inr d \<longrightarrow> \<not> proceeds d) \<and>
   (\<exists>d. evaluate w_kernel w_night w_funding [w_misspelt] (Finite 0)
           None None None None None None = Inr d \<and> proceeds d)"
proof (intro conjI allI impI)
  fix d
  assume "evaluate w_kernel w_night w_funding [w_rail TOKENIZED_DEPOSIT] (Finite 0)
           None None None None None None = Inr d"
  then show "\<not> proceeds d"
    by (simp add: w_night_evaluate split_beta serviceable_def)
      (simp add: w_night_def w_operation_def continuously_available_def)
next
  obtain d where d: "evaluate w_kernel w_night w_funding [w_misspelt] (Finite 0) None None
      None None None None = Inr d"
    by (rule w_evaluates)
  have "serviceable (snd w_misspelt) w_night"
    by (simp add: w_misspelt_def mk_RailState_def rail_members_def serviceable_def usable_def
        within_cap_def continuously_available_def)
  moreover have "fst w_misspelt \<noteq> PORTS_WHOLESALE" by (simp add: w_misspelt_def)
  ultimately have "proceeds d" unfolding w_night_evaluate [OF d] by (auto simp: split_beta)
  with d show "\<exists>d. evaluate w_kernel w_night w_funding [w_misspelt] (Finite 0)
           None None None None None None = Inr d \<and> proceeds d" by blast
qed

end
