(* ===== verification/Readback.thy ===== *)
theory Readback
  imports Messaging "HOL-Library.AList"
begin

text \<open>
  The venue's status report read back, \<open>atreides/messaging/readback.py\<close>: the status codes, parsing of
  a \<open>pacs.002\<close> document wherever it sits, reconciliation against the prepared instructions, and the
  default for silence.

  The details of breaks are kept as the case they word. \<open>matched\<close> is a dict: an association list
  updated in place. A parse error becomes the module's own error; the error of a refused encoding
  is not caught and escapes as it is. Instructions are compared by identity, which is their place in \<open>prepared\<close>. A
  comparison with a signalling NaN raises, which is the only error of \<open>reconcile\<close>.
\<close>

subsection \<open>Statuses\<close>

datatype SettlementStatus =
    RECEIVED | IN_PROGRESS | ACCEPTED_NOT_POSTED | STATUS_WITH_CHANGE | SETTLED | STATUS_REJECTED
  | CANCELLED | UNRECOGNIZED

definition RECOGNISED_STATUS_CODES :: "(string \<times> SettlementStatus) list" where
  "RECOGNISED_STATUS_CODES =
     [(''RCVD'', RECEIVED), (''ACTC'', IN_PROGRESS), (''ACCP'', IN_PROGRESS), (''ACSP'', IN_PROGRESS),
      (''PDNG'', IN_PROGRESS), (''ACWP'', ACCEPTED_NOT_POSTED), (''ACWC'', STATUS_WITH_CHANGE),
      (''ACSC'', SETTLED), (''RJCT'', STATUS_REJECTED), (''CANC'', CANCELLED)]"

fun MATCHED_STATUS_ORDER :: "SettlementStatus \<Rightarrow> nat" where
  "MATCHED_STATUS_ORDER UNRECOGNIZED = 0"
| "MATCHED_STATUS_ORDER RECEIVED = 1"
| "MATCHED_STATUS_ORDER IN_PROGRESS = 2"
| "MATCHED_STATUS_ORDER ACCEPTED_NOT_POSTED = 3"
| "MATCHED_STATUS_ORDER _ = 4"

text \<open>\<open>upper()\<close> on ASCII; the other letters it changes lead to no recognised code.\<close>

definition to_upper :: "char \<Rightarrow> char" where
  "to_upper c = (if 97 \<le> (of_char c :: nat) \<and> (of_char c :: nat) \<le> 122 then char_of (of_char c - 32 :: nat) else c)"

definition classify_status_code :: "string \<Rightarrow> SettlementStatus" where
  "classify_status_code code =
     (case map_of RECOGNISED_STATUS_CODES (map to_upper (py_strip code)) of Some s \<Rightarrow> s | None \<Rightarrow> UNRECOGNIZED)"

subsection \<open>Records\<close>

datatype ReadbackBreakCode =
    UNSOLICITED_STATUS | IDENTIFIER_DISAGREEMENT | AMOUNT_MISMATCH | CURRENCY_MISMATCH
  | ACCEPTED_WITH_CHANGE | STATUS_REGRESSION | STATUS_CONFLICT | UNRECOGNIZED_STATUS_CODE | REJECTED
  | MALFORMED_STATUS_ENTRY | NO_READBACK

datatype malformed_reason = No_Status | No_Original_Identifier

datatype readback_detail =
    D_Malformed nat malformed_reason | D_No_End_To_End | D_Unsolicited string
  | D_Disagreement string string "string option" | D_Unrecognized string | D_With_Change string
  | D_Rejected string "string list" | D_Amount py_decimal py_decimal | D_Currency string string
  | D_After_Settled string SettlementStatus | D_Backward string SettlementStatus SettlementStatus
  | D_Conflict string SettlementStatus SettlementStatus | D_Nothing_Established string

record ReadbackBreak =
  rb_code :: ReadbackBreakCode
  rb_detail :: readback_detail
  rb_end_to_end_id :: "string option"
  rb_original_message_id :: "string option"
  rb_status_code :: "string option"

record StatusEntry =
  status_code :: string
  se_status :: SettlementStatus
  se_end_to_end_id :: "string option"
  original_transaction_id :: "string option"
  original_uetr :: "string option"
  se_reason_codes :: "string list"
  echoed_amount :: "py_decimal option"
  echoed_currency :: "string option"
  acceptance_datetime :: "string option"

record MalformedEntry =
  ordinal :: nat
  mf_reason :: malformed_reason
  mf_end_to_end_id :: "string option"
  mf_original_transaction_id :: "string option"
  mf_status_code :: "string option"

record StatusReport =
  report_id :: string
  report_created_at :: string
  namespace :: string
  original_message_id :: "string option"
  original_message_name_id :: "string option"
  group_status_code :: "string option"
  report_entries :: "StatusEntry list"
  malformed :: "MalformedEntry list"

definition entry_count :: "StatusReport \<Rightarrow> nat" where
  "entry_count r = length (report_entries r) + length (malformed r)"

record ReadbackMatch =
  report :: StatusReport
  matched :: "(string \<times> SettlementStatus) list"
  breaks :: "ReadbackBreak list"
  is_absent :: bool

definition clean :: "ReadbackMatch \<Rightarrow> bool" where
  "clean m \<longleftrightarrow> breaks m = [] \<and> \<not> is_absent m"

definition settled_ids :: "ReadbackMatch \<Rightarrow> string list" where
  "settled_ids m = sort (map fst (filter (\<lambda>(k, v). v = SETTLED) (matched m)))"

subsection \<open>Parsing\<close>

definition localname :: "string \<Rightarrow> string" where
  "localname tag = rev (takeWhile (\<lambda>c. c \<noteq> CHR ''}'') (rev tag))"

text \<open>\<open>tag[1:].rsplit("}", 1)[0]\<close>: what stands before the last brace, or all of it.\<close>

definition before_last_brace :: "string \<Rightarrow> string" where
  "before_last_brace s =
     (if CHR ''}'' \<in> set s then rev (tl (dropWhile (\<lambda>c. c \<noteq> CHR ''}'') (rev s))) else s)"

definition namespace_of :: "xml \<Rightarrow> string" where
  "namespace_of x = (case xml_tag x of c # s \<Rightarrow> (if c = CHR ''{'' then before_last_brace s else []) | [] \<Rightarrow> [])"

fun document_order :: "xml \<Rightarrow> xml list" where
  "document_order (Node t a v kids) = Node t a v kids # concat (map document_order kids)"

definition find_payload :: "xml \<Rightarrow> xml option" where
  "find_payload doc = find (\<lambda>x. localname (xml_tag x) = ''FIToFIPmtStsRpt'') (document_order doc)"

definition pacs002_match :: "string \<Rightarrow> bool" where
  "pacs002_match s \<longleftrightarrow>
     (let p = ''urn:iso:std:iso:20022:tech:xsd:pacs.002.''; r = drop (length p) s in
      take (length p) s = p \<and> length r \<ge> 6 \<and> list_all is_digit (take 3 r) \<and> r ! 3 = CHR ''.'' \<and>
      list_all is_digit (take 2 (drop 4 r)) \<and> at_end (drop 6 r))"

definition payload_namespace :: "xml \<Rightarrow> string" where
  "payload_namespace x =
     (if pacs002_match (namespace_of x) then namespace_of x
      else case find pacs002_match (map namespace_of (xml_children x)) of Some n \<Rightarrow> n | None \<Rightarrow> namespace_of x)"

definition find_child :: "xml \<Rightarrow> string \<Rightarrow> xml option" where
  "find_child x name = find (\<lambda>c. localname (xml_tag c) = name) (xml_children x)"

definition find_children :: "xml \<Rightarrow> string \<Rightarrow> xml list" where
  "find_children x name = filter (\<lambda>c. localname (xml_tag c) = name) (xml_children x)"

definition child_text :: "xml option \<Rightarrow> string \<Rightarrow> string option" where
  "child_text x name =
     (case x of None \<Rightarrow> None | Some e \<Rightarrow>
      (case find_child e name of None \<Rightarrow> None | Some c \<Rightarrow>
       (case xml_text c of None \<Rightarrow> None | Some t \<Rightarrow> (if py_strip t = [] then None else Some (py_strip t)))))"

definition reason_codes_of :: "xml \<Rightarrow> string list" where
  "reason_codes_of tx =
     List.map_filter (\<lambda>i. child_text (find_child i ''Rsn'') ''Cd'') (find_children tx ''StsRsnInf'')"

definition echoed_amount_of :: "xml \<Rightarrow> py_decimal option \<times> string option" where
  "echoed_amount_of tx =
     (case Option.bind (find_child tx ''OrgnlTxRef'') (\<lambda>r. find_child r ''IntrBkSttlmAmt'') of
        None \<Rightarrow> (None, None)
      | Some a \<Rightarrow>
          (case Option.bind (xml_text a) (\<lambda>t. read_decimal (py_strip t)) of
             None \<Rightarrow> (None, None)
           | Some d \<Rightarrow> (Some d, map_of (xml_attrs a) ''Ccy'')))"

definition read_entry :: "nat \<Rightarrow> xml \<Rightarrow> MalformedEntry + StatusEntry" where
  "read_entry n tx =
     (let code = child_text (Some tx) ''TxSts''; e2e = child_text (Some tx) ''OrgnlEndToEndId'';
          txid = child_text (Some tx) ''OrgnlTxId''; uetr = child_text (Some tx) ''OrgnlUETR'' in
      case code of
        None \<Rightarrow> Inl \<lparr>ordinal = n, mf_reason = No_Status, mf_end_to_end_id = e2e,
                   mf_original_transaction_id = txid, mf_status_code = None\<rparr>
      | Some c \<Rightarrow>
          if e2e = None \<and> txid = None \<and> uetr = None
          then Inl \<lparr>ordinal = n, mf_reason = No_Original_Identifier, mf_end_to_end_id = None,
                 mf_original_transaction_id = None, mf_status_code = Some c\<rparr>
          else Inr \<lparr>status_code = c, se_status = classify_status_code c, se_end_to_end_id = e2e,
                 original_transaction_id = txid, original_uetr = uetr, se_reason_codes = reason_codes_of tx,
                 echoed_amount = fst (echoed_amount_of tx), echoed_currency = snd (echoed_amount_of tx),
                 acceptance_datetime = child_text (Some tx) ''AccptncDtTm''\<rparr>)"

datatype readback_error =
    Not_Well_Formed | Encoding_Escapes | Not_A_Status_Report | Wrong_Namespace string | No_Group_Header | Signal_Compared

definition read_blocks :: "xml list \<Rightarrow> (MalformedEntry + StatusEntry) list" where
  "read_blocks txs = map (\<lambda>(n, tx). read_entry n tx) (enumerate 0 txs)"

definition parse_status_report :: "'b wire \<Rightarrow> 'b \<Rightarrow> (readback_error, StatusReport) result" where
  "parse_status_report X bytes =
     (case from_bytes X bytes of
        Inl Not_Parsed \<Rightarrow> Inl Not_Well_Formed
      | Inl Encoding_Refused \<Rightarrow> Inl Encoding_Escapes
      | Inr doc \<Rightarrow>
      (case find_payload doc of None \<Rightarrow> Inl Not_A_Status_Report | Some x \<Rightarrow>
       (let ns = payload_namespace x; hdr = find_child x ''GrpHdr''; info = find_child x ''OrgnlGrpInfAndSts'';
            blocks = read_blocks (find_children x ''TxInfAndSts'') in
        require (pacs002_match ns) (Wrong_Namespace ns) (
        require (child_text hdr ''MsgId'' \<noteq> None \<and> child_text hdr ''CreDtTm'' \<noteq> None) No_Group_Header (
        Inr \<lparr>report_id = the (child_text hdr ''MsgId''), report_created_at = the (child_text hdr ''CreDtTm''),
             namespace = ns, original_message_id = child_text info ''OrgnlMsgId'',
             original_message_name_id = child_text info ''OrgnlMsgNmId'',
             group_status_code = child_text info ''GrpSts'',
             report_entries = List.map_filter (case_sum Map.empty Some) blocks,
             malformed = List.map_filter (case_sum Some Map.empty) blocks\<rparr>)))))"

subsection \<open>Reconciliation\<close>

definition mk_break :: "ReadbackBreakCode \<Rightarrow> readback_detail \<Rightarrow> string option \<Rightarrow> string option \<Rightarrow> string option \<Rightarrow> ReadbackBreak" where
  "mk_break code d e2e msg st = \<lparr>rb_code = code, rb_detail = d, rb_end_to_end_id = e2e,
     rb_original_message_id = msg, rb_status_code = st\<rparr>"

definition progression_break :: "StatusEntry \<Rightarrow> string \<Rightarrow> SettlementStatus option \<Rightarrow> ReadbackBreak list" where
  "progression_break x e2e prior =
     (case prior of None \<Rightarrow> [] | Some p \<Rightarrow>
      (if p = se_status x then []
       else if p = SETTLED
       then [mk_break STATUS_REGRESSION (D_After_Settled e2e (se_status x)) (Some e2e) None (Some (status_code x))]
       else if MATCHED_STATUS_ORDER (se_status x) < MATCHED_STATUS_ORDER p
       then [mk_break STATUS_REGRESSION (D_Backward e2e p (se_status x)) (Some e2e) None (Some (status_code x))]
       else if MATCHED_STATUS_ORDER (se_status x) = MATCHED_STATUS_ORDER p
       then [mk_break STATUS_CONFLICT (D_Conflict e2e p (se_status x)) (Some e2e) None (Some (status_code x))]
       else []))"

definition amount_differs :: "StatusEntry \<Rightarrow> CashLegInstruction \<Rightarrow> (readback_error, bool) result" where
  "amount_differs x i =
     (case echoed_amount x of None \<Rightarrow> Inr False | Some a \<Rightarrow>
      (case num_ne a (amount i) of Inl _ \<Rightarrow> Inl Signal_Compared | Inr b \<Rightarrow> Inr b))"

definition currency_differs :: "StatusEntry \<Rightarrow> CashLegInstruction \<Rightarrow> bool" where
  "currency_differs x i \<longleftrightarrow> (case echoed_currency x of None \<Rightarrow> False | Some c \<Rightarrow> c \<noteq> instr_currency i)"

definition break_if :: "bool \<Rightarrow> ReadbackBreak \<Rightarrow> ReadbackBreak list" where
  "break_if c b = (if c then [b] else [])"

definition entry_breaks ::
  "StatusEntry \<Rightarrow> string \<Rightarrow> CashLegInstruction \<Rightarrow> SettlementStatus option \<Rightarrow> (readback_error, ReadbackBreak list) result" where
  "entry_breaks x e2e i prior =
     (let b = (\<lambda>code d. mk_break code d (Some e2e) None (Some (status_code x))) in
      case amount_differs x i of Inl e \<Rightarrow> Inl e | Inr amt \<Rightarrow>
      Inr (break_if (se_status x = UNRECOGNIZED) (b UNRECOGNIZED_STATUS_CODE (D_Unrecognized (status_code x)))
         @ break_if (se_status x = STATUS_WITH_CHANGE) (b ACCEPTED_WITH_CHANGE (D_With_Change e2e))
         @ break_if (se_status x = STATUS_REJECTED) (b REJECTED (D_Rejected e2e (se_reason_codes x)))
         @ break_if amt (b AMOUNT_MISMATCH (D_Amount (the (echoed_amount x)) (amount i)))
         @ break_if (currency_differs x i) (b CURRENCY_MISMATCH (D_Currency (the (echoed_currency x)) (instr_currency i)))
         @ progression_break x e2e prior))"

text \<open>A dict comprehension keeps the last of equal keys.\<close>

definition place_of :: "(CashLegInstruction \<Rightarrow> string) \<Rightarrow> CashLegInstruction list \<Rightarrow> string \<Rightarrow> (nat \<times> CashLegInstruction) option" where
  "place_of f prepared k = find (\<lambda>(n, i). f i = k) (rev (enumerate 0 prepared))"

datatype entry_outcome = Unmatched ReadbackBreak | Matched string "ReadbackBreak list"

definition reconcile_entry ::
  "CashLegInstruction list \<Rightarrow> (string \<Rightarrow> SettlementStatus option) \<Rightarrow> string option \<Rightarrow> StatusEntry \<Rightarrow>
   (readback_error, entry_outcome) result" where
  "reconcile_entry prepared known om x =
     (case se_end_to_end_id x of
        None \<Rightarrow> Inr (Unmatched (mk_break MALFORMED_STATUS_ENTRY D_No_End_To_End None om (Some (status_code x))))
      | Some e \<Rightarrow>
          (case place_of end_to_end_id prepared e of
             None \<Rightarrow> Inr (Unmatched (mk_break UNSOLICITED_STATUS (D_Unsolicited e) (Some e) om (Some (status_code x))))
           | Some (n, i) \<Rightarrow>
               (case Option.bind om (place_of message_id prepared) of
                  Some (n', i') \<Rightarrow>
                    if n' \<noteq> n
                    then Inr (Unmatched (mk_break IDENTIFIER_DISAGREEMENT (D_Disagreement e (message_id i) om)
                           (Some e) om (Some (status_code x))))
                    else map_sum id (Matched e) (entry_breaks x e i (known e))
                | None \<Rightarrow> map_sum id (Matched e) (entry_breaks x e i (known e)))))"

fun reconcile_entries ::
  "CashLegInstruction list \<Rightarrow> (string \<Rightarrow> SettlementStatus option) \<Rightarrow> string option \<Rightarrow>
   (string \<times> SettlementStatus) list \<Rightarrow> ReadbackBreak list \<Rightarrow> StatusEntry list \<Rightarrow>
   (readback_error, (string \<times> SettlementStatus) list \<times> ReadbackBreak list) result" where
  "reconcile_entries prepared known om ms bs [] = Inr (ms, bs)"
| "reconcile_entries prepared known om ms bs (x # xs) =
     (case reconcile_entry prepared known om x of
        Inl e \<Rightarrow> Inl e
      | Inr (Unmatched b) \<Rightarrow> reconcile_entries prepared known om ms (bs @ [b]) xs
      | Inr (Matched e ys) \<Rightarrow> reconcile_entries prepared known om (AList.update e (se_status x) ms) (bs @ ys) xs)"

definition malformed_break :: "string option \<Rightarrow> MalformedEntry \<Rightarrow> ReadbackBreak" where
  "malformed_break om m = mk_break MALFORMED_STATUS_ENTRY (D_Malformed (ordinal m) (mf_reason m))
     (mf_end_to_end_id m) om (mf_status_code m)"

definition reconcile ::
  "StatusReport \<Rightarrow> CashLegInstruction list \<Rightarrow> (string \<Rightarrow> SettlementStatus option) \<Rightarrow>
   (readback_error, ReadbackMatch) result" where
  "reconcile r prepared known =
     (case reconcile_entries prepared known (original_message_id r) []
             (map (malformed_break (original_message_id r)) (malformed r)) (report_entries r) of
        Inl e \<Rightarrow> Inl e
      | Inr (ms, bs) \<Rightarrow> Inr \<lparr>report = r, matched = ms, breaks = bs, is_absent = False\<rparr>)"

definition ingest_readback ::
  "'b wire \<Rightarrow> 'b \<Rightarrow> CashLegInstruction list \<Rightarrow> (string \<Rightarrow> SettlementStatus option) \<Rightarrow>
   (readback_error, ReadbackMatch) result" where
  "ingest_readback X bytes prepared known =
     (case parse_status_report X bytes of Inl e \<Rightarrow> Inl e | Inr r \<Rightarrow> reconcile r prepared known)"

definition absent_readback :: "string \<Rightarrow> ReadbackMatch" where
  "absent_readback why =
     \<lparr>report = \<lparr>report_id = [], report_created_at = [], namespace = [], original_message_id = None,
        original_message_name_id = None, group_status_code = None, report_entries = [], malformed = []\<rparr>,
      matched = [], breaks = [mk_break NO_READBACK (D_Nothing_Established why) None None None], is_absent = True\<rparr>"

end
