(* ===== verification/Settlement_Join.thy ===== *)
theory Settlement_Join
  imports Readback
begin

text \<open>
  What joins an instruction to finality, \<open>atreides/messaging/\<close>: receipts of actions entitled members
  performed outside (\<open>receipt.py\<close>), the reading of a venue's answer as a kernel finality assertion
  (\<open>finality_evidence.py\<close>) and the join of artifact, receipts, readback and finality
  (\<open>settlement_join.py\<close>).

  The kernel \<open>F\<close> says which event identifiers, digests and assertions it accepts; actors,
  conditionality and revocability are their text. Reasons are kept as the case they word.

  An entry is in a report when it is the object at one of its places or equals the entry there. The
  fields are compared in order as the tuples of them, whose elements may be one object; amounts that
  are not are compared as Decimals: a signalling NaN raises, a quiet one equals nothing. An entry is
  therefore given with the places of the report at which it, or its amount, is the very object.
\<close>

subsection \<open>Receipts\<close>

datatype ExternalAction = CLEARING_SUBMISSION | SETTLEMENT_INSTRUCTION

record ExternalActionReceipt =
  entitled_member_id :: string
  receipt_event_id :: string
  external_action :: ExternalAction
  artifact_digest :: string
  receipt_time :: stamp
  receipt_provenance :: Provenance
  receipt_message_id :: string
  receipt_end_to_end_id :: string
  authorizes_action :: bool
  receipt_is_submission :: bool

datatype FinalityType = ASSET_FINAL | CASH_FINAL | Other_Finality string

record FinalityAssertion =
  finality_type :: FinalityType
  governing_rule_set :: string
  authoritative_actor :: string
  authoritative_event_id :: string
  effective_time :: stamp
  observation_time :: stamp
  evidence_reference :: string
  conditionality_status :: string
  revocability_status :: string
  fa_provenance :: Provenance
  fa_confidence :: "string option"

record finality_kernel =
  legal_event :: "string \<Rightarrow> bool"
  legal_digest :: "string \<Rightarrow> bool"
  legal_assertion :: "FinalityAssertion \<Rightarrow> bool"

definition mk_ExternalActionReceipt ::
  "finality_kernel \<Rightarrow> ExternalActionReceipt \<Rightarrow> (string, ExternalActionReceipt) result" where
  "mk_ExternalActionReceipt F r =
     require (entitled_member_id r \<noteq> []) ''entitled_member_id'' (
     require (legal_event F (receipt_event_id r)) ''event_id'' (
     require (legal_digest F (artifact_digest r)) ''artifact_digest'' (
     require (utc_stamp (receipt_time r)) ''observation_time'' (
     require (receipt_provenance r \<in> {FACT_EXTERNAL, FACT_SYNTHETIC}) ''provenance'' (
     require (max35 (receipt_message_id r)) ''message_id'' (
     require (max35 (receipt_end_to_end_id r)) ''end_to_end_id'' (
     require (\<not> authorizes_action r) ''authorizes_action'' (
     require (\<not> receipt_is_submission r) ''is_submission'' (
     require (entitled_member_id r = py_strip (entitled_member_id r)) ''whitespace'' (Inr r))))))))))"

datatype receipt_reason =
    Unreadable_Receipt | No_Usable_Digest | Preparation_Time_Unusable | Other_Artifact | Observed_Before
  | Receipt_Matches | No_Receipt | Receipts_Disagree string | Every_Receipt_Matches

record ReceiptAssessment =
  ra_disposition :: Disposition
  ra_reason :: receipt_reason

definition assessment :: "Disposition \<Rightarrow> receipt_reason \<Rightarrow> ReceiptAssessment" where
  "assessment d r = \<lparr>ra_disposition = d, ra_reason = r\<rparr>"

text \<open>What decodes of a payload, text or mapping, is its fields; any other payload has none.\<close>

definition read_receipt ::
  "finality_kernel \<Rightarrow> ('p \<Rightarrow> ExternalActionReceipt option) \<Rightarrow> 'p \<Rightarrow> ExternalActionReceipt + ReceiptAssessment" where
  "read_receipt F decode payload =
     (case decode payload of
        None \<Rightarrow> Inr (assessment Advisory.INDETERMINATE Unreadable_Receipt)
      | Some r \<Rightarrow> (case mk_ExternalActionReceipt F r of
            Inl e \<Rightarrow> Inr (assessment Advisory.INDETERMINATE Unreadable_Receipt) | Inr x \<Rightarrow> Inl x))"

definition valid_digest :: "finality_kernel \<Rightarrow> string option \<Rightarrow> bool" where
  "valid_digest F d \<longleftrightarrow> (case d of None \<Rightarrow> False | Some s \<Rightarrow> legal_digest F s)"

definition assess_receipt ::
  "finality_kernel \<Rightarrow> ExternalActionReceipt \<Rightarrow> string option \<Rightarrow> stamp option \<Rightarrow> ReceiptAssessment" where
  "assess_receipt F r digest at_time =
     (if \<not> valid_digest F digest then assessment Advisory.INDETERMINATE No_Usable_Digest
      else if \<not> (case at_time of None \<Rightarrow> False | Some t \<Rightarrow> utc_stamp t)
      then assessment Advisory.INDETERMINATE Preparation_Time_Unusable
      else if Some (artifact_digest r) \<noteq> digest then assessment Advisory.HOLD Other_Artifact
      else if stamp_instant (receipt_time r) < stamp_instant (the at_time) then assessment Advisory.HOLD Observed_Before
      else assessment Advisory.PASS Receipt_Matches)"

definition same_action :: "ExternalActionReceipt \<Rightarrow> ExternalActionReceipt \<Rightarrow> bool" where
  "same_action a b \<longleftrightarrow> external_action a = external_action b \<and> artifact_digest a = artifact_digest b \<and>
     entitled_member_id a = entitled_member_id b \<and> receipt_message_id a = receipt_message_id b \<and>
     receipt_end_to_end_id a = receipt_end_to_end_id b"

fun disagree :: "ExternalActionReceipt list \<Rightarrow> bool" where
  "disagree [] = False"
| "disagree (r # rs) = list_ex (\<lambda>x. \<not> same_action x r) rs"

text \<open>The keys of the dict in the order they were first set.\<close>

definition event_order :: "ExternalActionReceipt list \<Rightarrow> string list" where
  "event_order rs = rev (remdups (rev (map receipt_event_id rs)))"

definition assess_receipts ::
  "finality_kernel \<Rightarrow> ExternalActionReceipt list \<Rightarrow> string option \<Rightarrow> stamp option \<Rightarrow> ReceiptAssessment" where
  "assess_receipts F rs digest at_time =
     (if rs = [] then assessment Advisory.INDETERMINATE No_Receipt
      else case find (\<lambda>e. disagree (filter (\<lambda>r. receipt_event_id r = e) rs)) (event_order rs) of
        Some e \<Rightarrow> assessment Advisory.HOLD (Receipts_Disagree e)
      | None \<Rightarrow>
          (let graded = map (\<lambda>r. assess_receipt F r digest at_time) rs in
           case find (\<lambda>a. ra_disposition a = Advisory.HOLD) graded of Some a \<Rightarrow> a
           | None \<Rightarrow>
               (case find (\<lambda>a. ra_disposition a \<noteq> Advisory.PASS) graded of Some a \<Rightarrow> a
                | None \<Rightarrow> assessment Advisory.PASS Every_Receipt_Matches)))"

subsection \<open>Finality evidence\<close>

datatype leg = Asset_Leg | Cash_Leg

fun final_type :: "leg \<Rightarrow> FinalityType" where
  "final_type Asset_Leg = ASSET_FINAL"
| "final_type Cash_Leg = CASH_FINAL"

datatype EvidenceState = EV_UNREAD | EV_MATCHED | EV_ACCEPTED | EV_REFUSED | EV_SETTLED | EV_FINAL

datatype evidence_reason =
    Readback_Absent | Entry_Not_In_Readback | No_Matched_Identity | Status_Differs | Earlier SettlementStatus
  | Break_Attached | Not_A_Fact | Time_Not_UTC | Observed_Before_Effective | No_Governing_Rule
  | No_Evidence_Reference | Not_Legal | Assertion_Emitted

record FinalityEvidence =
  fe_state :: EvidenceState
  fe_disposition :: Disposition
  fe_reason :: evidence_reason
  fe_leg :: leg
  fe_assertion :: "FinalityAssertion option"

datatype join_error =
    Not_Exactly_One | Type_Not_Of_Leg | Confidence_Carried | Amount_Compared | Artifact_Encoding_Escapes

definition assertion_ok :: "leg \<Rightarrow> FinalityAssertion option \<Rightarrow> (join_error, unit) result" where
  "assertion_ok l a =
     (case a of None \<Rightarrow> Inr () | Some x \<Rightarrow>
      require (finality_type x = final_type l) Type_Not_Of_Leg (
      require (fa_confidence x = None) Confidence_Carried (Inr ())))"

definition mk_FinalityEvidence :: "FinalityEvidence \<Rightarrow> (join_error, FinalityEvidence) result" where
  "mk_FinalityEvidence x =
     require ((fe_state x = EV_FINAL) = (fe_assertion x \<noteq> None) \<and>
        (fe_state x = EV_FINAL) = (fe_disposition x = Advisory.PASS)) Not_Exactly_One (
     case assertion_ok (fe_leg x) (fe_assertion x) of Inl e \<Rightarrow> Inl e | Inr _ \<Rightarrow> Inr x)"

definition open_evidence :: "EvidenceState \<Rightarrow> Disposition \<Rightarrow> evidence_reason \<Rightarrow> leg \<Rightarrow> (join_error, FinalityEvidence) result" where
  "open_evidence st d r l = mk_FinalityEvidence
     \<lparr>fe_state = st, fe_disposition = d, fe_reason = r, fe_leg = l, fe_assertion = None\<rparr>"

definition earlier :: "SettlementStatus \<Rightarrow> leg \<Rightarrow> (join_error, FinalityEvidence) result option" where
  "earlier s l = (case s of
     RECEIVED \<Rightarrow> Some (open_evidence EV_MATCHED Advisory.HOLD (Earlier s) l)
   | IN_PROGRESS \<Rightarrow> Some (open_evidence EV_ACCEPTED Advisory.HOLD (Earlier s) l)
   | ACCEPTED_NOT_POSTED \<Rightarrow> Some (open_evidence EV_ACCEPTED Advisory.HOLD (Earlier s) l)
   | STATUS_WITH_CHANGE \<Rightarrow> Some (open_evidence EV_ACCEPTED Advisory.HOLD (Earlier s) l)
   | STATUS_REJECTED \<Rightarrow> Some (open_evidence EV_REFUSED Advisory.HOLD (Earlier s) l)
   | CANCELLED \<Rightarrow> Some (open_evidence EV_REFUSED Advisory.HOLD (Earlier s) l)
   | UNRECOGNIZED \<Rightarrow> Some (open_evidence EV_UNREAD Advisory.INDETERMINATE (Earlier s) l)
   | SETTLED \<Rightarrow> None)"

text \<open>\<open>facts\<close> is the assertion the caller's fields describe; its type is that of the leg and it carries no confidence.\<close>

record finality_facts =
  ff_rule_set :: string
  ff_actor :: string
  ff_event_id :: string
  ff_effective :: stamp
  ff_observed :: stamp
  ff_reference :: string
  ff_conditionality :: string
  ff_revocability :: string
  ff_provenance :: Provenance

definition assertion_of :: "leg \<Rightarrow> finality_facts \<Rightarrow> FinalityAssertion" where
  "assertion_of l f = \<lparr>finality_type = final_type l, governing_rule_set = ff_rule_set f,
     authoritative_actor = ff_actor f, authoritative_event_id = ff_event_id f, effective_time = ff_effective f,
     observation_time = ff_observed f, evidence_reference = ff_reference f,
     conditionality_status = ff_conditionality f, revocability_status = ff_revocability f,
     fa_provenance = ff_provenance f, fa_confidence = None\<rparr>"

definition settled_fields_are_legal ::
  "finality_kernel \<Rightarrow> leg \<Rightarrow> finality_facts \<Rightarrow> (join_error, FinalityEvidence) result + FinalityAssertion" where
  "settled_fields_are_legal F l f =
     (if ff_provenance f \<notin> {FACT_EXTERNAL, FACT_SYNTHETIC}
      then Inl (open_evidence EV_SETTLED Advisory.INDETERMINATE Not_A_Fact l)
      else if \<not> utc_stamp (ff_effective f) \<or> \<not> utc_stamp (ff_observed f)
      then Inl (open_evidence EV_SETTLED Advisory.INDETERMINATE Time_Not_UTC l)
      else if stamp_instant (ff_observed f) < stamp_instant (ff_effective f)
      then Inl (open_evidence EV_SETTLED Advisory.HOLD Observed_Before_Effective l)
      else if ff_rule_set f = [] then Inl (open_evidence EV_SETTLED Advisory.INDETERMINATE No_Governing_Rule l)
      else if ff_reference f = [] then Inl (open_evidence EV_SETTLED Advisory.INDETERMINATE No_Evidence_Reference l)
      else if legal_assertion F (assertion_of l f) then Inr (assertion_of l f)
      else Inl (open_evidence EV_SETTLED Advisory.INDETERMINATE Not_Legal l))"

record presented_entry =
  the_entry :: StatusEntry
  entry_places :: "nat list"
  amount_places :: "nat list"

definition amount_eq :: "bool \<Rightarrow> py_decimal option \<Rightarrow> py_decimal option \<Rightarrow> (join_error, bool) result" where
  "amount_eq one_object a b =
     (if one_object \<and> a = b then Inr True
      else case (a, b) of
        (None, None) \<Rightarrow> Inr True
      | (Some x, Some y) \<Rightarrow> (case num_ne x y of Inl _ \<Rightarrow> Inl Amount_Compared | Inr d \<Rightarrow> Inr (\<not> d))
      | _ \<Rightarrow> Inr False)"

definition entry_eq :: "bool \<Rightarrow> StatusEntry \<Rightarrow> StatusEntry \<Rightarrow> (join_error, bool) result" where
  "entry_eq one_amount y x =
     (if status_code y = status_code x \<and> se_status y = se_status x \<and> se_end_to_end_id y = se_end_to_end_id x \<and>
         original_transaction_id y = original_transaction_id x \<and> original_uetr y = original_uetr x \<and>
         se_reason_codes y = se_reason_codes x
      then (case amount_eq one_amount (echoed_amount y) (echoed_amount x) of Inl e \<Rightarrow> Inl e
            | Inr b \<Rightarrow> Inr (b \<and> echoed_currency y = echoed_currency x \<and> acceptance_datetime y = acceptance_datetime x))
      else Inr False)"

text \<open>\<open>entry in entries\<close>, from place \<open>n\<close> on.\<close>

fun listed :: "presented_entry \<Rightarrow> nat \<Rightarrow> StatusEntry list \<Rightarrow> (join_error, bool) result" where
  "listed x n [] = Inr False"
| "listed x n (y # ys) =
     (if n \<in> set (entry_places x) \<and> y = the_entry x then Inr True
      else case entry_eq (n \<in> set (amount_places x)) y (the_entry x) of
        Inl e \<Rightarrow> Inl e
      | Inr True \<Rightarrow> Inr True
      | Inr False \<Rightarrow> listed x (Suc n) ys)"

definition entry_finality ::
  "finality_kernel \<Rightarrow> ReadbackMatch \<Rightarrow> StatusEntry \<Rightarrow> leg \<Rightarrow> finality_facts \<Rightarrow> (join_error, FinalityEvidence) result" where
  "entry_finality F m x l f =
     (case Option.bind (se_end_to_end_id x) (map_of (matched m)) of
        None \<Rightarrow> open_evidence EV_UNREAD Advisory.INDETERMINATE No_Matched_Identity l
      | Some s \<Rightarrow>
          if s \<noteq> se_status x then open_evidence EV_UNREAD Advisory.INDETERMINATE Status_Differs l
          else case earlier (se_status x) l of
            Some r \<Rightarrow> r
          | None \<Rightarrow>
              if list_ex (\<lambda>b. rb_end_to_end_id b = se_end_to_end_id x) (breaks m)
              then open_evidence EV_SETTLED Advisory.HOLD Break_Attached l
              else case settled_fields_are_legal F l f of
                Inl r \<Rightarrow> r
              | Inr a \<Rightarrow> mk_FinalityEvidence \<lparr>fe_state = EV_FINAL, fe_disposition = Advisory.PASS,
                  fe_reason = Assertion_Emitted, fe_leg = l, fe_assertion = Some a\<rparr>)"

definition finality_from_readback ::
  "finality_kernel \<Rightarrow> ReadbackMatch \<Rightarrow> presented_entry option \<Rightarrow> leg \<Rightarrow> finality_facts \<Rightarrow> (join_error, FinalityEvidence) result" where
  "finality_from_readback F m entry l f =
     (if is_absent m then open_evidence EV_UNREAD Advisory.INDETERMINATE Readback_Absent l
      else case entry of
        None \<Rightarrow> open_evidence EV_UNREAD Advisory.INDETERMINATE Entry_Not_In_Readback l
      | Some x \<Rightarrow>
          (case listed x 0 (report_entries (report m)) of
             Inl e \<Rightarrow> Inl e
           | Inr False \<Rightarrow> open_evidence EV_UNREAD Advisory.INDETERMINATE Entry_Not_In_Readback l
           | Inr True \<Rightarrow> entry_finality F m (the_entry x) l f))"

subsection \<open>The join\<close>

datatype JoinedStage =
    J_UNREAD | J_INSTRUCTED | J_MATCHED | J_ACCEPTED | J_REFUSED | J_SETTLED | J_FINAL

datatype join_reason =
    All_Join | Artifact_Unreadable | Artifact_Other_Identity | Receipt_Other_Instruction
  | Readback_Other_Message | Entry_Other_Identity | No_Settlement_Receipt | Of_Receipt receipt_reason
  | Of_Venue evidence_reason | Not_Joined

record SettlementJoin =
  sj_stage :: JoinedStage
  sj_disposition :: Disposition
  sj_reason :: join_reason
  sj_leg :: leg
  sj_artifact_digest :: string
  receipt_disposition :: Disposition
  venue_state :: EvidenceState
  venue_disposition :: Disposition
  sj_assertion :: "FinalityAssertion option"

definition mk_SettlementJoin :: "SettlementJoin \<Rightarrow> (join_error, SettlementJoin) result" where
  "mk_SettlementJoin x =
     require ((sj_stage x = J_FINAL) = (sj_disposition x = Advisory.PASS) \<and>
        (sj_stage x = J_FINAL) = (sj_assertion x \<noteq> None)) Not_Exactly_One (
     case assertion_ok (sj_leg x) (sj_assertion x) of Inl e \<Rightarrow> Inl e | Inr _ \<Rightarrow> Inr x)"

definition local_texts :: "xml \<Rightarrow> string \<Rightarrow> string list" where
  "local_texts x name = List.map_filter (\<lambda>e. if localname (xml_tag e) = name \<and> xml_text e \<noteq> Some [] then xml_text e else None)
     (document_order x)"

text \<open>Both documents are read first; only a parse error is caught.\<close>

definition read_local_texts :: "'b wire \<Rightarrow> 'b \<Rightarrow> (join_error, (string \<Rightarrow> string list) option) result" where
  "read_local_texts X bytes =
     (case from_bytes X bytes of
        Inl Not_Parsed \<Rightarrow> Inr None
      | Inl Encoding_Refused \<Rightarrow> Inl Artifact_Encoding_Escapes
      | Inr x \<Rightarrow> Inr (Some (local_texts x)))"

definition artifact_problem ::
  "'b wire \<Rightarrow> 'b InstructionArtifact \<Rightarrow> CashLegInstruction \<Rightarrow> (join_error, (Disposition \<times> join_reason) option) result" where
  "artifact_problem X a i =
     (case read_local_texts X (header_xml a) of Inl e \<Rightarrow> Inl e | Inr header \<Rightarrow>
      (case read_local_texts X (document_xml a) of Inl e \<Rightarrow> Inl e | Inr document \<Rightarrow>
       Inr (case (header, document) of
          (Some h, Some d) \<Rightarrow>
            if message_id i \<in> set (h ''BizMsgIdr'') \<and> message_id i \<in> set (d ''MsgId'') \<and>
               end_to_end_id i \<in> set (d ''EndToEndId'')
            then None else Some (Advisory.HOLD, Artifact_Other_Identity)
        | _ \<Rightarrow> Some (Advisory.INDETERMINATE, Artifact_Unreadable))))"

definition receipt_identity :: "ExternalActionReceipt list \<Rightarrow> CashLegInstruction \<Rightarrow> (Disposition \<times> join_reason) option" where
  "receipt_identity rs i =
     (if list_ex (\<lambda>r. receipt_message_id r \<noteq> message_id i \<or> receipt_end_to_end_id r \<noteq> end_to_end_id i) rs
      then Some (Advisory.HOLD, Receipt_Other_Instruction) else None)"

definition readback_identity ::
  "ReadbackMatch \<Rightarrow> presented_entry option \<Rightarrow> CashLegInstruction \<Rightarrow> (Disposition \<times> join_reason) option" where
  "readback_identity m entry i =
     (if original_message_id (report m) \<notin> {None, Some (message_id i)} then Some (Advisory.HOLD, Readback_Other_Message)
      else if entry \<noteq> None \<and> se_end_to_end_id (the_entry (the entry)) \<notin> {None, Some (end_to_end_id i)}
      then Some (Advisory.HOLD, Entry_Other_Identity) else None)"

definition instructed :: "finality_kernel \<Rightarrow> ExternalActionReceipt list \<Rightarrow> CashLegInstruction \<Rightarrow> string \<Rightarrow> bool" where
  "instructed F rs i digest =
     (let st = filter (\<lambda>r. external_action r = SETTLEMENT_INSTRUCTION) rs in
      st \<noteq> [] \<and> ra_disposition (assess_receipts F st (Some digest) (Some (created_at i))) = Advisory.PASS)"

fun stage_of :: "EvidenceState \<Rightarrow> bool \<Rightarrow> bool \<Rightarrow> JoinedStage" where
  "stage_of st ins True = J_FINAL"
| "stage_of EV_UNREAD ins False = (if ins then J_INSTRUCTED else J_UNREAD)"
| "stage_of EV_MATCHED ins False = J_MATCHED"
| "stage_of EV_ACCEPTED ins False = J_ACCEPTED"
| "stage_of EV_REFUSED ins False = J_REFUSED"
| "stage_of st ins False = J_SETTLED"

definition join_disposition ::
  "bool \<Rightarrow> (Disposition \<times> join_reason) list \<Rightarrow> ReceiptAssessment \<Rightarrow> FinalityEvidence \<Rightarrow> Disposition \<times> join_reason" where
  "join_disposition publish problems r v =
     (if publish then (Advisory.PASS, All_Join)
      else let graded = problems @ [(ra_disposition r, Of_Receipt (ra_reason r)), (fe_disposition v, Of_Venue (fe_reason v))];
               holds = filter (\<lambda>(d, w). d = Advisory.HOLD) graded;
               unknowns = filter (\<lambda>(d, w). d \<noteq> Advisory.PASS) graded in
        if holds \<noteq> [] then (Advisory.HOLD, snd (hd holds))
        else if unknowns \<noteq> [] then (Advisory.INDETERMINATE, snd (hd unknowns))
        else if fe_state v = EV_FINAL then (Advisory.INDETERMINATE, Not_Joined)
        else (Advisory.HOLD, Of_Venue (fe_reason v)))"

definition join_problems where
  "join_problems artifact i rs m entry v ins =
     (case artifact of None \<Rightarrow> [] | Some p \<Rightarrow> [p])
     @ (case receipt_identity rs i of None \<Rightarrow> [] | Some p \<Rightarrow> [p])
     @ (case readback_identity m entry i of None \<Rightarrow> [] | Some p \<Rightarrow> [p])
     @ (if fe_state v = EV_FINAL \<and> \<not> ins \<and> \<not> list_ex (\<lambda>r. external_action r = SETTLEMENT_INSTRUCTION) rs
        then [(Advisory.INDETERMINATE, No_Settlement_Receipt)] else [])"

definition join_settlement_evidence ::
  "finality_kernel \<Rightarrow> 'b wire \<Rightarrow> 'b InstructionArtifact \<Rightarrow> CashLegInstruction \<Rightarrow> ExternalActionReceipt list \<Rightarrow>
   ReadbackMatch \<Rightarrow> presented_entry option \<Rightarrow> leg \<Rightarrow> finality_facts \<Rightarrow> (join_error, SettlementJoin) result" where
  "join_settlement_evidence F X a i rs m entry l f =
     (let digest = instruction_artifact_digest X a;
          grade = assess_receipts F rs (Some digest) (Some (created_at i)) in
      case artifact_problem X a i of Inl e \<Rightarrow> Inl e | Inr artifact \<Rightarrow>
      case finality_from_readback F m entry l f of Inl e \<Rightarrow> Inl e | Inr v \<Rightarrow>
      (let ins = (artifact = None \<and> receipt_identity rs i = None \<and> instructed F rs i digest);
           problems = join_problems artifact i rs m entry v ins;
           publish = (ins \<and> problems = [] \<and> ra_disposition grade = Advisory.PASS \<and> fe_state v = EV_FINAL \<and>
                      fe_assertion v \<noteq> None);
           d = join_disposition publish problems grade v in
       mk_SettlementJoin \<lparr>sj_stage = stage_of (fe_state v) ins publish, sj_disposition = fst d, sj_reason = snd d,
         sj_leg = l, sj_artifact_digest = digest, receipt_disposition = ra_disposition grade,
         venue_state = fe_state v, venue_disposition = fe_disposition v,
         sj_assertion = (if publish then fe_assertion v else None)\<rparr>))"

end
