(* ===== verification/Readback_Props.thy ===== *)
theory Readback_Props
  imports Readback
begin

text \<open>
  What a reconciled status report accounts for: every block the venue sent is either matched or a
  break, the breaks are those of its blocks in order, a settled payment is never silently undone, and
  what an instruction's emission wrote is what an honest echo reads back.
\<close>

subsection \<open>The outcome of each entry\<close>

fun outcome_breaks :: "entry_outcome \<Rightarrow> ReadbackBreak list" where
  "outcome_breaks (Unmatched b) = [b]"
| "outcome_breaks (Matched e bs) = bs"

fun outcome_id :: "entry_outcome \<Rightarrow> string option" where
  "outcome_id (Unmatched b) = None"
| "outcome_id (Matched e bs) = Some e"

definition outcomes ::
  "CashLegInstruction list \<Rightarrow> (string \<Rightarrow> SettlementStatus option) \<Rightarrow> StatusReport \<Rightarrow> entry_outcome list" where
  "outcomes prepared known r =
     map (\<lambda>x. projr (reconcile_entry prepared known (original_message_id r) x)) (report_entries r)"

lemma reconcile_entries_outcomes:
  "reconcile_entries prepared known om ms bs xs = Inr (ms', bs') \<Longrightarrow>
   (\<forall>x \<in> set xs. \<exists>y. reconcile_entry prepared known om x = Inr y) \<and>
   bs' = bs @ concat (map (\<lambda>x. outcome_breaks (projr (reconcile_entry prepared known om x))) xs) \<and>
   (\<forall>k. map_of ms' k \<noteq> None \<longleftrightarrow> map_of ms k \<noteq> None \<or>
      (\<exists>x \<in> set xs. outcome_id (projr (reconcile_entry prepared known om x)) = Some k)) \<and>
   (\<forall>k s. map_of ms' k = Some s \<longrightarrow> map_of ms k = Some s \<or>
      (\<exists>x \<in> set xs. se_status x = s \<and> outcome_id (projr (reconcile_entry prepared known om x)) = Some k))"
proof (induction xs arbitrary: ms bs)
  case (Cons x xs)
  then obtain y where y: "reconcile_entry prepared known om x = Inr y" by (cases "reconcile_entry prepared known om x") auto
  show ?case
  proof (cases y)
    case (Unmatched b)
    with y Cons.prems have "reconcile_entries prepared known om ms (bs @ [b]) xs = Inr (ms', bs')" by simp
    from Cons.IH [OF this] show ?thesis using y Unmatched by simp
  next
    case (Matched e ys)
    with y Cons.prems have "reconcile_entries prepared known om (AList.update e (se_status x) ms) (bs @ ys) xs = Inr (ms', bs')"
      by simp
    from Cons.IH [OF this] show ?thesis using y Matched
      by (auto simp: update_conv' split: if_splits)
  qed
qed simp

lemma reconcile_Inr:
  assumes "reconcile r prepared known = Inr m"
  shows "report m = r" "\<not> is_absent m"
    "breaks m = map (malformed_break (original_message_id r)) (malformed r)
       @ concat (map outcome_breaks (outcomes prepared known r))"
    "\<And>k. map_of (matched m) k \<noteq> None \<longleftrightarrow> Some k \<in> outcome_id ` set (outcomes prepared known r)"
    "\<And>k s. map_of (matched m) k = Some s \<Longrightarrow> \<exists>x \<in> set (report_entries r). se_status x = s \<and>
       outcome_id (projr (reconcile_entry prepared known (original_message_id r) x)) = Some k"
    "\<And>x. x \<in> set (report_entries r) \<Longrightarrow> \<exists>y. reconcile_entry prepared known (original_message_id r) x = Inr y"
proof -
  obtain ms bs where e: "reconcile_entries prepared known (original_message_id r) []
      (map (malformed_break (original_message_id r)) (malformed r)) (report_entries r) = Inr (ms, bs)"
    and m: "m = \<lparr>report = r, matched = ms, breaks = bs, is_absent = False\<rparr>"
    using assms by (auto simp: reconcile_def split: sum.splits prod.splits)
  note o = reconcile_entries_outcomes [OF e]
  show "report m = r" "\<not> is_absent m"
    "breaks m = map (malformed_break (original_message_id r)) (malformed r)
       @ concat (map outcome_breaks (outcomes prepared known r))"
    using o by (simp_all add: m outcomes_def comp_def)
  show "map_of (matched m) k \<noteq> None \<longleftrightarrow> Some k \<in> outcome_id ` set (outcomes prepared known r)" for k
    using o by (simp add: m outcomes_def image_iff eq_commute [of "Some k"])
  show "\<exists>x \<in> set (report_entries r). se_status x = s \<and>
       outcome_id (projr (reconcile_entry prepared known (original_message_id r) x)) = Some k"
    if "map_of (matched m) k = Some s" for k s
    using o that by (auto simp: m)
  show "\<exists>y. reconcile_entry prepared known (original_message_id r) x = Inr y" if "x \<in> set (report_entries r)" for x
    using o that by blast
qed

lemma reconcile_entry_Matched:
  "reconcile_entry prepared known om x = Inr (Matched e bs) \<Longrightarrow>
   se_end_to_end_id x = Some e \<and> (\<exists>n i. place_of end_to_end_id prepared e = Some (n, i) \<and>
     entry_breaks x e i (known e) = Inr bs \<and>
     (\<forall>n' i'. Option.bind om (place_of message_id prepared) = Some (n', i') \<longrightarrow> n' = n))"
  by (auto simp: reconcile_entry_def map_sum_def split: option.splits prod.splits if_splits sum.splits)

lemma reconcile_entry_breaks_id:
  "reconcile_entry prepared known om x = Inr y \<Longrightarrow> b \<in> set (outcome_breaks y) \<Longrightarrow>
   rb_end_to_end_id b = se_end_to_end_id x"
  by (auto simp: reconcile_entry_def mk_break_def entry_breaks_def break_if_def progression_break_def Let_def map_sum_def
      split: option.splits prod.splits if_splits sum.splits)

lemma place_of_Some:
  assumes "place_of f prepared k = Some (n, i)"
  shows "n < length prepared" "prepared ! n = i" "f i = k" "i \<in> set prepared"
proof -
  have "(n, i) \<in> set (enumerate 0 prepared) \<and> f i = k"
    using find_SomeD [OF assms [unfolded place_of_def]] by simp
  then show "n < length prepared" "prepared ! n = i" "f i = k" by (auto simp: in_set_enumerate_eq)
  then show "i \<in> set prepared" by auto
qed

lemma place_of_unique:
  assumes "i \<in> set prepared" "distinct (map f prepared)"
  shows "\<exists>n. place_of f prepared (f i) = Some (n, i)"
proof -
  obtain n where n: "n < length prepared" "prepared ! n = i" using assms(1) by (auto simp: in_set_conv_nth)
  have "find (\<lambda>(n, j). f j = f i) (rev (enumerate 0 prepared)) = Some (n, i)"
  proof (rule find_unique)
    show "(n, i) \<in> set (rev (enumerate 0 prepared))" using n by (auto simp: in_set_enumerate_eq)
    fix q assume q: "q \<in> set (rev (enumerate 0 prepared))" "case q of (n, j) \<Rightarrow> f j = f i"
    obtain k j where kj: "q = (k, j)" by (cases q)
    have "(k, j) \<in> set (enumerate 0 prepared)" using q(1) kj by (simp only: set_rev)
    then have k: "q = (k, prepared ! k)" "k < length prepared" using kj by (simp_all add: in_set_enumerate_eq)
    have "map f prepared ! k = map f prepared ! n" using q(2) k n by simp
    then have "k = n" using nth_eq_iff_index_eq [OF assms(2), of k n] k(2) n(1) by simp
    with k n show "q = (n, i)" by simp
  qed simp
  then show ?thesis by (auto simp: place_of_def)
qed

text \<open>
  Nothing the venue sent is lost: when a report reconciles, each unreadable block is a break, each
  entry is matched under its identity or is a break of its own, an entry is matched only to a prepared
  instruction its message identifier does not contradict, and the statuses recorded are those of
  entries of the report.
\<close>

theorem every_block_is_accounted:
  assumes "reconcile r prepared known = Inr m"
  shows "(\<forall>q \<in> set (malformed r). malformed_break (original_message_id r) q \<in> set (breaks m)) \<and>
    (\<forall>x \<in> set (report_entries r).
       (\<exists>b \<in> set (breaks m). rb_end_to_end_id b = se_end_to_end_id x \<and>
          rb_code b \<in> {MALFORMED_STATUS_ENTRY, UNSOLICITED_STATUS, IDENTIFIER_DISAGREEMENT}) \<or>
       (\<exists>e i. se_end_to_end_id x = Some e \<and> map_of (matched m) e \<noteq> None \<and> i \<in> set prepared \<and> end_to_end_id i = e)) \<and>
    (\<forall>e s. map_of (matched m) e = Some s \<longrightarrow>
       (\<exists>x \<in> set (report_entries r). se_end_to_end_id x = Some e \<and> se_status x = s))"
proof (intro conjI ballI allI impI)
  note r = reconcile_Inr [OF assms]
  show "malformed_break (original_message_id r) q \<in> set (breaks m)" if "q \<in> set (malformed r)" for q
    using that by (simp add: r(3))
  show "\<exists>x \<in> set (report_entries r). se_end_to_end_id x = Some e \<and> se_status x = s"
    if e: "map_of (matched m) e = Some s" for e s
  proof -
    obtain x y where x: "x \<in> set (report_entries r)" "se_status x = s"
      "outcome_id (projr (reconcile_entry prepared known (original_message_id r) x)) = Some e"
      "reconcile_entry prepared known (original_message_id r) x = Inr y"
      using r(5) [OF e] r(6) by blast
    then show ?thesis by (cases y) (auto dest: reconcile_entry_Matched)
  qed
  fix x assume x: "x \<in> set (report_entries r)"
  obtain y where y: "reconcile_entry prepared known (original_message_id r) x = Inr y" using r(6) [OF x] by blast
  then have o: "y \<in> set (outcomes prepared known r)" using x by (force simp: outcomes_def)
  show "(\<exists>b \<in> set (breaks m). rb_end_to_end_id b = se_end_to_end_id x \<and>
          rb_code b \<in> {MALFORMED_STATUS_ENTRY, UNSOLICITED_STATUS, IDENTIFIER_DISAGREEMENT}) \<or>
       (\<exists>e i. se_end_to_end_id x = Some e \<and> map_of (matched m) e \<noteq> None \<and> i \<in> set prepared \<and> end_to_end_id i = e)"
  proof (cases y)
    case (Unmatched b)
    then have "b \<in> set (breaks m)" using o by (force simp: r(3))
    moreover have "rb_end_to_end_id b = se_end_to_end_id x"
      using reconcile_entry_breaks_id [OF y, of b] Unmatched by simp
    moreover have "rb_code b \<in> {MALFORMED_STATUS_ENTRY, UNSOLICITED_STATUS, IDENTIFIER_DISAGREEMENT}"
      using y Unmatched
      by (auto simp: reconcile_entry_def mk_break_def map_sum_def split: option.splits prod.splits if_splits sum.splits)
    ultimately show ?thesis by blast
  next
    case (Matched e bs)
    with reconcile_entry_Matched y have se: "se_end_to_end_id x = Some e" by blast
    have mt: "map_of (matched m) e \<noteq> None" unfolding r(4) using o Matched by force
    obtain n i where "place_of end_to_end_id prepared e = Some (n, i)"
      using reconcile_entry_Matched y Matched by blast
    note i = place_of_Some(3,4) [OF this]
    show ?thesis by (rule disjI2, intro exI [of _ e] exI [of _ i] conjI) (fact se mt i)+
  qed
qed

text \<open>
  C40: A settled payment is never silently undone: when an instruction was known as settled and a
  reconciled report carries any other status for it, a break names that instruction.
\<close>

theorem settled_is_never_silently_undone:
  assumes "reconcile r prepared known = Inr m" "known e = Some SETTLED"
    "x \<in> set (report_entries r)" "se_end_to_end_id x = Some e" "se_status x \<noteq> SETTLED"
  shows "\<exists>b \<in> set (breaks m). rb_end_to_end_id b = Some e \<and>
    rb_code b \<in> {STATUS_REGRESSION, UNSOLICITED_STATUS, IDENTIFIER_DISAGREEMENT}"
proof -
  note r = reconcile_Inr [OF assms(1)]
  obtain y where y: "reconcile_entry prepared known (original_message_id r) x = Inr y" using r(6) [OF assms(3)] by blast
  then have o: "y \<in> set (outcomes prepared known r)" using assms(3) by (force simp: outcomes_def)
  have "\<exists>b \<in> set (outcome_breaks y). rb_code b \<in> {STATUS_REGRESSION, UNSOLICITED_STATUS, IDENTIFIER_DISAGREEMENT}"
  proof (cases y)
    case (Unmatched b)
    then show ?thesis using y assms(4)
      by (auto simp: reconcile_entry_def mk_break_def map_sum_def split: option.splits prod.splits if_splits sum.splits)
  next
    case (Matched e' bs)
    then have e': "e' = e" using reconcile_entry_Matched [of prepared known _ x e' bs] y assms(4) by auto
    then obtain i where "entry_breaks x e i (known e) = Inr bs"
      using reconcile_entry_Matched [of prepared known _ x e' bs] y Matched by blast
    then show ?thesis using assms(2,5) Matched
      by (auto simp: entry_breaks_def progression_break_def mk_break_def Let_def split: sum.splits)
  qed
  then show ?thesis using o reconcile_entry_breaks_id [OF y] assms(4) by (force simp: r(3))
qed

subsection \<open>What was emitted reads back\<close>

text \<open>What the parser of a serialised document gives: the tags of its elements take the namespace of the root.\<close>

fun qualify :: "string \<Rightarrow> xml \<Rightarrow> xml" where
  "qualify ns (Node t a v kids) =
     Node (if t \<noteq> [] \<and> hd t = CHR ''{'' then t else clark ns t) a v (map (qualify ns) kids)"

definition legal_char :: "char \<Rightarrow> bool" where
  "legal_char c \<longleftrightarrow> c \<in> {CHR 0x09, CHR 0x0A} \<or> 32 \<le> (of_char c :: nat)"

definition legal_text :: "string \<Rightarrow> bool" where
  "legal_text s \<longleftrightarrow> s \<noteq> [] \<and> list_all legal_char s"

definition plain_name :: "string \<Rightarrow> bool" where
  "plain_name s \<longleftrightarrow> s \<noteq> [] \<and> list_all (\<lambda>c. upper_char c \<or> (97 \<le> (of_char c :: nat) \<and> (of_char c :: nat) \<le> 122)) s"

definition uri_char :: "char \<Rightarrow> bool" where
  "uri_char c \<longleftrightarrow> upper_or_digit c \<or> (97 \<le> (of_char c :: nat) \<and> (of_char c :: nat) \<le> 122) \<or> c \<in> set ''.:_-''"

definition legal_attr :: "string \<times> string \<Rightarrow> bool" where
  "legal_attr p \<longleftrightarrow> plain_name (fst p) \<and> fst p \<noteq> ''xmlns'' \<and> no_controls (snd p)"

text \<open>
  A body: plain names, distinct attributes without control characters, text that is not empty and has no
  control characters but tabs and line feeds, at most eight deep.
\<close>

fun legal_xml :: "nat \<Rightarrow> xml \<Rightarrow> bool" where
  "legal_xml 0 x = False"
| "legal_xml (Suc n) (Node t a v kids) \<longleftrightarrow>
     distinct (map fst a) \<and> list_all legal_attr a \<and> (v = None \<or> legal_text (the v)) \<and>
     list_all (\<lambda>k. plain_name (xml_tag k) \<and> legal_xml n k) kids"

text \<open>
  What is assumed of \<open>ElementTree\<close>: a tree whose root is in an ISO 20022 namespace, which the emitters
  register as the default one, and whose other names have none, is written so that it reads back with all
  its elements in that namespace.
\<close>

definition xml_reads_back :: "'b wire \<Rightarrow> bool" where
  "xml_reads_back X \<longleftrightarrow>
     (\<forall>m r a v kids. list_all uri_char m \<and> plain_name r \<and> legal_xml 8 (Node (clark (NS m) r) a v kids) \<longrightarrow>
        from_bytes X (to_bytes X (Node (clark (NS m) r) a v kids)) =
          Inr (qualify (NS m) (Node (clark (NS m) r) a v kids)))"

lemma localname_clark [simp]: "localname (clark ns t) = localname t"
proof (cases "CHR ''}'' \<in> set t")
  case True
  have "\<exists>c \<in> set (rev t). \<not> c \<noteq> CHR ''}''" using True by simp
  then show ?thesis
    using takeWhile_append1 [of "CHR ''}''" "rev t" "\<lambda>c. c \<noteq> CHR ''}''" "rev (''{'' @ ns @ ''}'')"] True
    by (simp add: localname_def clark_def)
next
  case False
  then have all: "\<And>c. c \<in> set (rev t) \<Longrightarrow> c \<noteq> CHR ''}''" by auto
  then have w: "takeWhile (\<lambda>c. c \<noteq> CHR ''}'') (rev t) = rev t" by (simp only: takeWhile_eq_all_conv) blast
  from takeWhile_append2 [of "rev t" "\<lambda>c. c \<noteq> CHR ''}''", OF all] show ?thesis
    by (simp add: localname_def clark_def w)
qed

lemma localname_qualify [simp]: "localname (xml_tag (qualify ns x)) = localname (xml_tag x)"
  by (cases x) simp

lemma xml_text_qualify [simp]: "xml_text (qualify ns x) = xml_text x"
  by (cases x) simp

lemma document_order_qualify: "document_order (qualify ns x) = map (qualify ns) (document_order x)"
proof (induction x)
  case (Node t a v kids)
  then have "concat (map (document_order \<circ> qualify ns) kids) = concat (map (map (qualify ns) \<circ> document_order) kids)"
    by (intro arg_cong [where f = concat] map_cong) auto
  then show ?case by (simp only: document_order.simps qualify.simps list.map map_concat map_map)
qed

end
