(* ===== verification/Settlement_Props.thy ===== *)
theory Settlement_Props
  imports Settlement_Join Readback_Props
begin

text \<open>
  What joins: exactly when finality is asserted, and when the join raises and passes; that an emitted artifact
  carries the identity and the amount of its instruction; and, end to end, what a venue must have
  answered for a published finality.
\<close>

subsection \<open>The constructors never refuse what the code builds\<close>

lemma open_evidence_eq:
  "st \<noteq> EV_FINAL \<Longrightarrow> d \<noteq> Advisory.PASS \<Longrightarrow> open_evidence st d r l =
     Inr \<lparr>fe_state = st, fe_disposition = d, fe_reason = r, fe_leg = l, fe_assertion = None\<rparr>"
  by (simp add: open_evidence_def mk_FinalityEvidence_def assertion_ok_def require_def)

lemma mk_final_evidence:
  "mk_FinalityEvidence \<lparr>fe_state = EV_FINAL, fe_disposition = Advisory.PASS, fe_reason = w, fe_leg = l,
     fe_assertion = Some (assertion_of l f)\<rparr> =
   Inr \<lparr>fe_state = EV_FINAL, fe_disposition = Advisory.PASS, fe_reason = w, fe_leg = l,
     fe_assertion = Some (assertion_of l f)\<rparr>"
  by (simp add: mk_FinalityEvidence_def assertion_ok_def require_def assertion_of_def)

definition facts_legal :: "finality_kernel \<Rightarrow> leg \<Rightarrow> finality_facts \<Rightarrow> bool" where
  "facts_legal F l f \<longleftrightarrow> ff_provenance f \<in> {FACT_EXTERNAL, FACT_SYNTHETIC} \<and> utc_stamp (ff_effective f) \<and>
     utc_stamp (ff_observed f) \<and> stamp_instant (ff_effective f) \<le> stamp_instant (ff_observed f) \<and>
     ff_rule_set f \<noteq> [] \<and> ff_reference f \<noteq> [] \<and> legal_assertion F (assertion_of l f)"

text \<open>
  A place of the report whose entry differs from the presented one in nothing before the amount, where one
  of the two different amounts is a signalling NaN, with no equal entry before it.
\<close>

definition comparison_signals :: "presented_entry \<Rightarrow> StatusEntry list \<Rightarrow> bool" where
  "comparison_signals x ys \<longleftrightarrow>
     (\<exists>k < length ys. entry_eq (k \<in> set (amount_places x)) (ys ! k) (the_entry x) = Inl Amount_Compared \<and>
        \<not> (k \<in> set (entry_places x) \<and> ys ! k = the_entry x) \<and>
        (\<forall>j < k. \<not> (j \<in> set (entry_places x) \<and> ys ! j = the_entry x) \<and>
           entry_eq (j \<in> set (amount_places x)) (ys ! j) (the_entry x) = Inr False))"

lemma entry_eq_Inl: "entry_eq b y x = Inl e \<Longrightarrow> e = Amount_Compared"
  by (auto simp: entry_eq_def amount_eq_def split: if_splits sum.splits option.splits)

lemma listed_Inl: "listed x n ys = Inl e \<Longrightarrow> e = Amount_Compared"
  by (induction x n ys rule: listed.induct) (auto split: if_splits sum.splits bool.splits dest: entry_eq_Inl)

lemma listed_raises_from:
  "listed x n ys = Inl Amount_Compared \<longleftrightarrow>
   (\<exists>k < length ys. entry_eq (n + k \<in> set (amount_places x)) (ys ! k) (the_entry x) = Inl Amount_Compared \<and>
      \<not> (n + k \<in> set (entry_places x) \<and> ys ! k = the_entry x) \<and>
      (\<forall>j < k. \<not> (n + j \<in> set (entry_places x) \<and> ys ! j = the_entry x) \<and>
         entry_eq (n + j \<in> set (amount_places x)) (ys ! j) (the_entry x) = Inr False))"
proof (induction ys arbitrary: n)
  case (Cons y ys)
  let ?here = "n \<in> set (entry_places x) \<and> y = the_entry x"
  let ?eq = "entry_eq (n \<in> set (amount_places x)) y (the_entry x)"
  have shift: "(\<exists>k < length (y # ys). P k) \<longleftrightarrow> P 0 \<or> (\<exists>k < length ys. P (Suc k))" for P
    by (auto simp: less_Suc_eq_0_disj)
  have all: "(\<forall>j < Suc k. P j) \<longleftrightarrow> P 0 \<and> (\<forall>j < k. P (Suc j))" for P and k :: nat
    by (auto simp: less_Suc_eq_0_disj)
  show ?case
  proof (cases "?here \<or> ?eq \<noteq> Inr False")
    case True
    then show ?thesis unfolding shift all using entry_eq_Inl [of "n \<in> set (amount_places x)" y "the_entry x"]
      by (cases ?here; cases ?eq) (simp_all split: bool.splits)
  next
    case False
    then have "listed x n (y # ys) = listed x (Suc n) ys" by auto
    then show ?thesis unfolding shift all using False Cons.IH [of "Suc n"] by simp
  qed
qed simp

lemma listed_raises: "listed x 0 ys = Inl e \<longleftrightarrow> e = Amount_Compared \<and> comparison_signals x ys"
  using listed_raises_from [of x 0 ys] listed_Inl [of x 0 ys e] by (auto simp: comparison_signals_def)

definition entry_signals :: "ReadbackMatch \<Rightarrow> presented_entry option \<Rightarrow> bool" where
  "entry_signals m entry \<longleftrightarrow> \<not> is_absent m \<and> (\<exists>x. entry = Some x \<and> comparison_signals x (report_entries (report m)))"

definition venue_settled :: "ReadbackMatch \<Rightarrow> presented_entry option \<Rightarrow> bool" where
  "venue_settled m entry \<longleftrightarrow> \<not> is_absent m \<and>
     (\<exists>x e. entry = Some x \<and> listed x 0 (report_entries (report m)) = Inr True \<and>
        se_end_to_end_id (the_entry x) = Some e \<and> map_of (matched m) e = Some SETTLED \<and>
        se_status (the_entry x) = SETTLED \<and> (\<forall>b \<in> set (breaks m). rb_end_to_end_id b \<noteq> Some e))"

definition open_result :: "(join_error, FinalityEvidence) result \<Rightarrow> bool" where
  "open_result r \<longleftrightarrow> (\<exists>v. r = Inr v \<and> fe_state v \<noteq> EV_FINAL \<and> fe_disposition v \<noteq> Advisory.PASS \<and> fe_assertion v = None)"

lemma open_result_open: "st \<noteq> EV_FINAL \<Longrightarrow> d \<noteq> Advisory.PASS \<Longrightarrow> open_result (open_evidence st d r l)"
  by (simp add: open_result_def open_evidence_eq)

lemma earlier_open: "earlier s l = Some r \<Longrightarrow> open_result r"
  by (cases s) (auto simp: earlier_def intro: open_result_open)

lemma earlier_None: "earlier s l = None \<longleftrightarrow> s = SETTLED"
  by (cases s) (simp_all add: earlier_def)

lemma settled_fields_cases:
  "(\<not> facts_legal F l f \<and> (\<exists>r. settled_fields_are_legal F l f = Inl r \<and> open_result r)) \<or>
   (facts_legal F l f \<and> settled_fields_are_legal F l f = Inr (assertion_of l f))"
  by (auto simp: settled_fields_are_legal_def facts_legal_def intro: open_result_open)

definition entry_settled :: "ReadbackMatch \<Rightarrow> StatusEntry \<Rightarrow> bool" where
  "entry_settled m x \<longleftrightarrow> (\<exists>e. se_end_to_end_id x = Some e \<and> map_of (matched m) e = Some SETTLED \<and>
     se_status x = SETTLED \<and> (\<forall>b \<in> set (breaks m). rb_end_to_end_id b \<noteq> Some e))"

lemma entry_finality_cases:
  "(entry_settled m x \<and> facts_legal F l f \<and> entry_finality F m x l f =
      Inr \<lparr>fe_state = EV_FINAL, fe_disposition = Advisory.PASS, fe_reason = Assertion_Emitted, fe_leg = l,
        fe_assertion = Some (assertion_of l f)\<rparr>) \<or>
   (\<not> (entry_settled m x \<and> facts_legal F l f) \<and> open_result (entry_finality F m x l f))"
proof (cases "Option.bind (se_end_to_end_id x) (map_of (matched m)) = Some SETTLED \<and> se_status x = SETTLED")
  case False
  then show ?thesis
    using earlier_open [of "se_status x" l] earlier_None [of "se_status x" l]
    by (auto simp: entry_finality_def entry_settled_def intro: open_result_open split: option.splits)
next
  case True
  then obtain e where e: "se_end_to_end_id x = Some e" "map_of (matched m) e = Some SETTLED" "se_status x = SETTLED"
    by (auto simp: bind_eq_Some_conv)
  have eq: "entry_finality F m x l f =
      (if list_ex (\<lambda>b. rb_end_to_end_id b = Some e) (breaks m) then open_evidence EV_SETTLED Advisory.HOLD Break_Attached l
       else case settled_fields_are_legal F l f of Inl r \<Rightarrow> r
       | Inr a \<Rightarrow> mk_FinalityEvidence \<lparr>fe_state = EV_FINAL, fe_disposition = Advisory.PASS,
           fe_reason = Assertion_Emitted, fe_leg = l, fe_assertion = Some a\<rparr>)"
    using e by (simp add: entry_finality_def earlier_def)
  have vs: "entry_settled m x \<longleftrightarrow> \<not> list_ex (\<lambda>b. rb_end_to_end_id b = Some e) (breaks m)"
    using e by (simp add: entry_settled_def list_ex_iff)
  show ?thesis using settled_fields_cases [of F l f]
    by (auto simp: eq vs mk_final_evidence intro: open_result_open)
qed

lemma venue_settled_iff:
  "venue_settled m entry \<longleftrightarrow> \<not> is_absent m \<and>
     (\<exists>x. entry = Some x \<and> listed x 0 (report_entries (report m)) = Inr True \<and> entry_settled m (the_entry x))"
  by (auto simp: venue_settled_def entry_settled_def)

lemma finality_cases:
  "(entry_signals m entry \<and> finality_from_readback F m entry l f = Inl Amount_Compared) \<or>
   (\<not> entry_signals m entry \<and> venue_settled m entry \<and> facts_legal F l f \<and> finality_from_readback F m entry l f =
      Inr \<lparr>fe_state = EV_FINAL, fe_disposition = Advisory.PASS, fe_reason = Assertion_Emitted, fe_leg = l,
        fe_assertion = Some (assertion_of l f)\<rparr>) \<or>
   (\<not> entry_signals m entry \<and> \<not> (venue_settled m entry \<and> facts_legal F l f) \<and>
      open_result (finality_from_readback F m entry l f))"
proof (cases "is_absent m \<or> entry = None")
  case True
  then show ?thesis
    by (auto simp: finality_from_readback_def venue_settled_def entry_signals_def intro: open_result_open split: option.splits)
next
  case False
  then obtain x where x: "entry = Some x" "\<not> is_absent m" by auto
  show ?thesis
  proof (cases "listed x 0 (report_entries (report m))")
    case (Inl e)
    then show ?thesis using x listed_raises [of x "report_entries (report m)" e]
      by (simp add: finality_from_readback_def entry_signals_def)
  next
    case (Inr b)
    then have none: "\<not> entry_signals m entry"
      using x listed_raises [of x "report_entries (report m)" Amount_Compared] by (simp add: entry_signals_def)
    show ?thesis
    proof (cases b)
      case True
      then show ?thesis using x Inr none entry_finality_cases [of m "the_entry x" F l f]
        by (simp add: finality_from_readback_def venue_settled_iff)
    next
      case False
      then show ?thesis using x Inr none
        by (simp add: finality_from_readback_def venue_settled_iff open_result_open)
    qed
  qed
qed

lemma venue_settled_signals: "venue_settled m entry \<Longrightarrow> \<not> entry_signals m entry"
proof -
  have "\<not> comparison_signals x ys" if "listed x 0 ys = Inr True" for x ys
    using listed_raises [of x ys Amount_Compared] that by simp
  then show "venue_settled m entry \<Longrightarrow> \<not> entry_signals m entry"
    by (auto simp: venue_settled_def entry_signals_def)
qed

text \<open>
  Finality is asserted exactly on an authoritative settled readback: the readback is there, the
  entry is in it, is matched as settled and no break attaches to its identity, and the facts are a
  fact of an external or synthetic source, in order, in UTC, with a rule and a reference, and legal for
  the kernel. Only then does the evidence pass, and it carries that assertion and no other.
\<close>

theorem finality_asserted_iff:
  assumes "finality_from_readback F m entry l f = Inr v"
  shows "(fe_state v = EV_FINAL \<longleftrightarrow> venue_settled m entry \<and> facts_legal F l f) \<and>
    (fe_disposition v = Advisory.PASS \<longleftrightarrow> fe_state v = EV_FINAL) \<and>
    fe_assertion v = (if fe_state v = EV_FINAL then Some (assertion_of l f) else None)"
  using finality_cases [of m entry F l f] assms by (auto simp: open_result_def)

lemma finality_raises:
  "finality_from_readback F m entry l f = Inl e \<longleftrightarrow> e = Amount_Compared \<and> entry_signals m entry"
  using finality_cases [of m entry F l f] by (auto simp: open_result_def)

subsection \<open>Receipts\<close>

lemma assess_receipt_pass:
  "ra_disposition (assess_receipt F r (Some g) (Some t)) = Advisory.PASS \<longleftrightarrow>
   legal_digest F g \<and> utc_stamp t \<and> artifact_digest r = g \<and> stamp_instant t \<le> stamp_instant (receipt_time r)"
  by (auto simp: assess_receipt_def valid_digest_def assessment_def)

definition events_agree :: "ExternalActionReceipt list \<Rightarrow> bool" where
  "events_agree rs \<longleftrightarrow> (\<forall>r \<in> set rs. \<forall>q \<in> set rs. receipt_event_id r = receipt_event_id q \<longrightarrow> same_action r q)"

lemma same_action_sym: "same_action a b \<Longrightarrow> same_action b a"
  and same_action_trans: "same_action a b \<Longrightarrow> same_action b c \<Longrightarrow> same_action a c"
  and same_action_refl: "same_action a a"
  by (auto simp: same_action_def)

lemma disagree_iff: "\<not> disagree rs \<longleftrightarrow> (\<forall>r \<in> set rs. \<forall>q \<in> set rs. same_action r q)"
  by (cases rs) (auto simp: list_ex_iff intro: same_action_sym same_action_trans same_action_refl)

lemma no_event_disagrees:
  "find (\<lambda>e. disagree (filter (\<lambda>r. receipt_event_id r = e) rs)) (event_order rs) = None \<longleftrightarrow> events_agree rs"
  by (auto simp: find_None_iff event_order_def disagree_iff events_agree_def)

lemma assess_receipts_pass:
  "ra_disposition (assess_receipts F rs g t) = Advisory.PASS \<longleftrightarrow>
   rs \<noteq> [] \<and> events_agree rs \<and> (\<forall>r \<in> set rs. ra_disposition (assess_receipt F r g t) = Advisory.PASS)"
proof (cases "rs \<noteq> [] \<and> events_agree rs")
  case False
  then show ?thesis
    using no_event_disagrees [of rs] by (auto simp: assess_receipts_def assessment_def split: option.splits)
next
  case True
  let ?gs = "map (\<lambda>r. assess_receipt F r g t) rs"
  have eq: "assess_receipts F rs g t =
      (case find (\<lambda>a. ra_disposition a = Advisory.HOLD) ?gs of Some a \<Rightarrow> a
       | None \<Rightarrow> (case find (\<lambda>a. ra_disposition a \<noteq> Advisory.PASS) ?gs of Some a \<Rightarrow> a
           | None \<Rightarrow> assessment Advisory.PASS Every_Receipt_Matches))"
    using True no_event_disagrees [of rs] by (simp add: assess_receipts_def Let_def)
  have all: "(\<forall>r \<in> set rs. ra_disposition (assess_receipt F r g t) = Advisory.PASS) \<longleftrightarrow>
      (\<forall>a \<in> set ?gs. ra_disposition a = Advisory.PASS)" by simp
  show ?thesis
  proof (cases "find (\<lambda>a. ra_disposition a = Advisory.HOLD) ?gs")
    case None
    then show ?thesis using True unfolding eq all
      by (auto simp: find_None_iff find_Some_iff assessment_def split: option.splits)
  next
    case (Some a)
    then have "a \<in> set ?gs" "ra_disposition a = Advisory.HOLD" using find_SomeD [OF Some] by blast+
    then show ?thesis unfolding eq all using Some by auto
  qed
qed

subsection \<open>The join\<close>

lemma join_disposition_pass:
  "fst (join_disposition publish problems r v) = Advisory.PASS \<longleftrightarrow> publish"
  by (auto simp: join_disposition_def Let_def)

definition receipts_join :: "finality_kernel \<Rightarrow> ExternalActionReceipt list \<Rightarrow> CashLegInstruction \<Rightarrow> string \<Rightarrow> bool" where
  "receipts_join F rs i g \<longleftrightarrow> events_agree rs \<and> (\<exists>r \<in> set rs. external_action r = SETTLEMENT_INSTRUCTION) \<and>
     (\<forall>r \<in> set rs. receipt_message_id r = message_id i \<and> receipt_end_to_end_id r = end_to_end_id i \<and>
        ra_disposition (assess_receipt F r (Some g) (Some (created_at i))) = Advisory.PASS)"

lemma receipts_join_iff:
  "receipt_identity rs i = None \<and> instructed F rs i g \<and>
   ra_disposition (assess_receipts F rs (Some g) (Some (created_at i))) = Advisory.PASS \<longleftrightarrow> receipts_join F rs i g"
proof -
  have sub: "events_agree (filter P rs)" if "events_agree rs" for P using that by (simp add: events_agree_def)
  show ?thesis
    by (auto simp: receipt_identity_def instructed_def assess_receipts_pass receipts_join_def list_ex_iff
        filter_empty_conv Let_def intro!: sub split: if_splits)
qed

lemma join_problems_Nil:
  "join_problems artifact i rs m entry v ins = [] \<longleftrightarrow> artifact = None \<and> receipt_identity rs i = None \<and>
     readback_identity m entry i = None \<and>
     \<not> (fe_state v = EV_FINAL \<and> \<not> ins \<and> \<not> list_ex (\<lambda>r. external_action r = SETTLEMENT_INSTRUCTION) rs)"
  by (auto simp: join_problems_def split: option.splits)

lemma mk_SettlementJoin_open:
  "st \<noteq> J_FINAL \<Longrightarrow> d \<noteq> Advisory.PASS \<Longrightarrow> mk_SettlementJoin \<lparr>sj_stage = st, sj_disposition = d, sj_reason = w, sj_leg = l,
     sj_artifact_digest = g, receipt_disposition = rd, venue_state = vs, venue_disposition = vd, sj_assertion = None\<rparr> =
   Inr \<lparr>sj_stage = st, sj_disposition = d, sj_reason = w, sj_leg = l,
     sj_artifact_digest = g, receipt_disposition = rd, venue_state = vs, venue_disposition = vd, sj_assertion = None\<rparr>"
  by (simp add: mk_SettlementJoin_def assertion_ok_def require_def)

lemma mk_SettlementJoin_final:
  "mk_SettlementJoin \<lparr>sj_stage = J_FINAL, sj_disposition = Advisory.PASS, sj_reason = w, sj_leg = l,
     sj_artifact_digest = g, receipt_disposition = rd, venue_state = vs, venue_disposition = vd,
     sj_assertion = Some (assertion_of l f)\<rparr> =
   Inr \<lparr>sj_stage = J_FINAL, sj_disposition = Advisory.PASS, sj_reason = w, sj_leg = l,
     sj_artifact_digest = g, receipt_disposition = rd, venue_state = vs, venue_disposition = vd,
     sj_assertion = Some (assertion_of l f)\<rparr>"
  by (simp add: mk_SettlementJoin_def assertion_ok_def require_def assertion_of_def)

lemma stage_of_open: "stage_of st ins False \<noteq> J_FINAL"
  by (cases st) simp_all

definition artifact_carries :: "'b wire \<Rightarrow> 'b InstructionArtifact \<Rightarrow> CashLegInstruction \<Rightarrow> bool" where
  "artifact_carries X a i \<longleftrightarrow>
     (\<exists>h d. from_bytes X (header_xml a) = Inr h \<and> from_bytes X (document_xml a) = Inr d \<and>
        message_id i \<in> set (local_texts h ''BizMsgIdr'') \<and> message_id i \<in> set (local_texts d ''MsgId'') \<and>
        end_to_end_id i \<in> set (local_texts d ''EndToEndId''))"

definition names_no_other :: "ReadbackMatch \<Rightarrow> presented_entry option \<Rightarrow> CashLegInstruction \<Rightarrow> bool" where
  "names_no_other m entry i \<longleftrightarrow>
     (\<forall>o_id. original_message_id (report m) = Some o_id \<longrightarrow> o_id = message_id i) \<and>
     (\<forall>x e. entry = Some x \<longrightarrow> se_end_to_end_id (the_entry x) = Some e \<longrightarrow> e = end_to_end_id i)"

definition joins ::
  "finality_kernel \<Rightarrow> 'b wire \<Rightarrow> 'b InstructionArtifact \<Rightarrow> CashLegInstruction \<Rightarrow> ExternalActionReceipt list \<Rightarrow>
   ReadbackMatch \<Rightarrow> presented_entry option \<Rightarrow> leg \<Rightarrow> finality_facts \<Rightarrow> bool" where
  "joins F X a i rs m entry l f \<longleftrightarrow> artifact_carries X a i \<and>
     receipts_join F rs i (instruction_artifact_digest X a) \<and> names_no_other m entry i \<and>
     venue_settled m entry \<and> facts_legal F l f"

lemma artifact_problem_None: "artifact_problem X a i = Inr None \<longleftrightarrow> artifact_carries X a i"
  by (auto simp: artifact_problem_def read_local_texts_def artifact_carries_def
      split: sum.splits xml_failure.splits option.splits)

lemma readback_identity_None: "readback_identity m entry i = None \<longleftrightarrow> names_no_other m entry i"
  by (cases "original_message_id (report m)"; cases entry; cases "se_end_to_end_id (the_entry (the entry))")
    (auto simp: readback_identity_def names_no_other_def)

lemma joins_code:
  "joins F X a i rs m entry l f \<longleftrightarrow> artifact_problem X a i = Inr None \<and>
     receipts_join F rs i (instruction_artifact_digest X a) \<and> readback_identity m entry i = None \<and>
     venue_settled m entry \<and> facts_legal F l f"
  by (simp add: joins_def artifact_problem_None readback_identity_None)

definition encoding_refused :: "'b wire \<Rightarrow> 'b InstructionArtifact \<Rightarrow> bool" where
  "encoding_refused X a \<longleftrightarrow>
     from_bytes X (header_xml a) = Inl Encoding_Refused \<or> from_bytes X (document_xml a) = Inl Encoding_Refused"

lemma artifact_problem_raises:
  "artifact_problem X a i = Inl e \<longleftrightarrow> e = Artifact_Encoding_Escapes \<and> encoding_refused X a"
proof -
  have r: "read_local_texts X b = Inl x \<longleftrightarrow> x = Artifact_Encoding_Escapes \<and> from_bytes X b = Inl Encoding_Refused" for b x
    by (auto simp: read_local_texts_def split: sum.splits xml_failure.splits)
  show ?thesis
  proof (cases "read_local_texts X (header_xml a)")
    case (Inl x)
    then show ?thesis using r [of "header_xml a" x] by (auto simp: artifact_problem_def encoding_refused_def)
  next
    case h: (Inr v)
    then have hdr: "from_bytes X (header_xml a) \<noteq> Inl Encoding_Refused"
      using r [of "header_xml a" Artifact_Encoding_Escapes] by simp
    show ?thesis
    proof (cases "read_local_texts X (document_xml a)")
      case (Inl x)
      then show ?thesis using h r [of "document_xml a" x] by (auto simp: artifact_problem_def encoding_refused_def)
    next
      case (Inr w)
      then have "from_bytes X (document_xml a) \<noteq> Inl Encoding_Refused"
        using r [of "document_xml a" Artifact_Encoding_Escapes] by simp
      then show ?thesis using h hdr Inr by (simp add: artifact_problem_def encoding_refused_def)
    qed
  qed
qed

lemma join_raises:
  "encoding_refused X a \<Longrightarrow> join_settlement_evidence F X a i rs m entry l f = Inl Artifact_Encoding_Escapes"
  "\<not> encoding_refused X a \<Longrightarrow> entry_signals m entry \<Longrightarrow>
     join_settlement_evidence F X a i rs m entry l f = Inl Amount_Compared"
proof -
  assume "encoding_refused X a"
  then have "artifact_problem X a i = Inl Artifact_Encoding_Escapes" by (simp add: artifact_problem_raises)
  then show "join_settlement_evidence F X a i rs m entry l f = Inl Artifact_Encoding_Escapes"
    by (simp add: join_settlement_evidence_def Let_def)
next
  assume e: "\<not> encoding_refused X a" "entry_signals m entry"
  then obtain p where "artifact_problem X a i = Inr p" using artifact_problem_raises by (meson sum.exhaust)
  moreover have "finality_from_readback F m entry l f = Inl Amount_Compared" using e by (simp add: finality_raises)
  ultimately show "join_settlement_evidence F X a i rs m entry l f = Inl Amount_Compared"
    by (simp add: join_settlement_evidence_def Let_def)
qed

lemma join_answers:
  assumes "\<not> encoding_refused X a" "\<not> entry_signals m entry"
  shows "\<exists>j. join_settlement_evidence F X a i rs m entry l f = Inr j \<and>
    (sj_disposition j = Advisory.PASS \<longleftrightarrow> joins F X a i rs m entry l f) \<and>
    (sj_stage j = J_FINAL \<longleftrightarrow> joins F X a i rs m entry l f) \<and>
    sj_assertion j = (if joins F X a i rs m entry l f then Some (assertion_of l f) else None)"
proof -
  obtain v where v: "finality_from_readback F m entry l f = Inr v" using assms(2) finality_raises by (meson sum.exhaust)
  obtain artifact where p: "artifact_problem X a i = Inr artifact"
    using assms artifact_problem_raises by (meson sum.exhaust)
  note f = finality_asserted_iff [OF v]
  let ?g = "instruction_artifact_digest X a"
  let ?grade = "assess_receipts F rs (Some ?g) (Some (created_at i))"
  let ?ins = "artifact = None \<and> receipt_identity rs i = None \<and> instructed F rs i ?g"
  let ?problems = "join_problems artifact i rs m entry v ?ins"
  let ?publish = "?ins \<and> ?problems = [] \<and> ra_disposition ?grade = Advisory.PASS \<and> fe_state v = EV_FINAL \<and> fe_assertion v \<noteq> None"
  have pub: "?publish \<longleftrightarrow> joins F X a i rs m entry l f"
    using f receipts_join_iff [of rs i F ?g] unfolding join_problems_Nil joins_code p by auto
  have eq: "join_settlement_evidence F X a i rs m entry l f =
      mk_SettlementJoin \<lparr>sj_stage = stage_of (fe_state v) ?ins ?publish,
        sj_disposition = fst (join_disposition ?publish ?problems ?grade v),
        sj_reason = snd (join_disposition ?publish ?problems ?grade v), sj_leg = l, sj_artifact_digest = ?g,
        receipt_disposition = ra_disposition ?grade, venue_state = fe_state v, venue_disposition = fe_disposition v,
        sj_assertion = (if ?publish then fe_assertion v else None)\<rparr>"
    unfolding join_settlement_evidence_def Let_def v p by simp
  show ?thesis
  proof (cases "joins F X a i rs m entry l f")
    case True
    then have "fe_assertion v = Some (assertion_of l f)" using f pub by auto
    then show ?thesis unfolding eq pub using True
      by (simp add: mk_SettlementJoin_final join_disposition_def)
  next
    case False
    then show ?thesis unfolding eq pub
      using mk_SettlementJoin_open [OF stage_of_open] join_disposition_pass [of False ?problems ?grade v]
      by (simp add: stage_of_open)
  qed
qed

text \<open>
  C37: The join raises in two cases and no other: a document of the artifact names an encoding the XML
  parser refuses, or the presented entry meets an entry of the report that differs from it in nothing
  before an amount that is a signalling NaN. Otherwise it answers, and passes exactly when all four
  pieces agree: the artifact carries the identity of the instruction; the receipts name it and that
  artifact, agree per event, were observed after it was prepared, and one of them is a settlement
  instruction; the readback names no other message or payment; and the venue's answer asserts finality.
  Only then is the kernel's assertion published.
\<close>

theorem join_passes_iff:
  "case join_settlement_evidence F X a i rs m entry l f of
     Inl e \<Rightarrow>
       (if encoding_refused X a then e = Artifact_Encoding_Escapes else entry_signals m entry \<and> e = Amount_Compared)
   | Inr j \<Rightarrow> \<not> encoding_refused X a \<and> \<not> entry_signals m entry \<and>
       (sj_disposition j = Advisory.PASS \<longleftrightarrow> joins F X a i rs m entry l f) \<and>
       (sj_stage j = J_FINAL \<longleftrightarrow> joins F X a i rs m entry l f) \<and>
       sj_assertion j = (if joins F X a i rs m entry l f then Some (assertion_of l f) else None)"
  using join_answers [where X = X and a = a and m = m and entry = entry and F = F and i = i and rs = rs and l = l and f = f] join_raises [where X = X and a = a and m = m and entry = entry and F = F and i = i and rs = rs and l = l and f = f]
  by (cases "encoding_refused X a"; cases "entry_signals m entry") auto

lemma join_passed:
  assumes "join_settlement_evidence F X a i rs m entry l f = Inr j"
  shows "(sj_disposition j = Advisory.PASS \<longleftrightarrow> joins F X a i rs m entry l f) \<and>
    sj_assertion j = (if joins F X a i rs m entry l f then Some (assertion_of l f) else None)"
  using join_answers [where X = X and a = a and m = m and entry = entry and F = F and i = i and rs = rs and l = l and f = f] join_raises [where X = X and a = a and m = m and entry = entry and F = F and i = i and rs = rs and l = l and f = f] assms
  by (cases "encoding_refused X a"; cases "entry_signals m entry") auto

subsection \<open>The artifact of an instruction\<close>

lemma local_texts_qualify [simp]: "local_texts (qualify ns x) n = local_texts x n"
  by (simp add: local_texts_def document_order_qualify List.map_filter_def filter_map comp_def)

lemma reads_back_branch:
  assumes "xml_reads_back X" "list_all uri_char m" "plain_name r" "legal_xml 8 (branch (clark (NS m) r) kids)"
  shows "from_bytes X (to_bytes X (branch (clark (NS m) r) kids)) = Inr (qualify (NS m) (branch (clark (NS m) r) kids))"
  using assms by (simp add: xml_reads_back_def branch_def)

lemma artifact_reads_back:
  assumes "xml_reads_back X" "emit_instruction_artifact K X i p halt = Inr a"
    "list_all uri_char (business_application_header p)" "list_all uri_char (fi_credit_transfer p)"
    "legal_xml 8 (emit_business_application_header i p)" "legal_xml 8 (emit_fi_credit_transfer i p)"
  shows "\<exists>h d. from_bytes X (header_xml a) = Inr h \<and> from_bytes X (document_xml a) = Inr d \<and>
    local_texts h = local_texts (emit_business_application_header i p) \<and>
    local_texts d = local_texts (emit_fi_credit_transfer i p)"
proof -
  have r: "plain_name ''AppHdr''" "plain_name ''Document''" by (simp_all add: plain_name_def upper_char_def)
  have a: "header_xml a = to_bytes X (emit_business_application_header i p)"
    "document_xml a = to_bytes X (emit_fi_credit_transfer i p)"
    using assms(2) by (auto simp: emit_instruction_artifact_def)
  have "\<exists>h. from_bytes X (header_xml a) = Inr h \<and> local_texts h = local_texts (emit_business_application_header i p)"
    unfolding a emit_business_application_header_def
    using reads_back_branch [OF assms(1,3) r(1)] assms(5) by (auto simp: emit_business_application_header_def fun_eq_iff)
  moreover have "\<exists>d. from_bytes X (document_xml a) = Inr d \<and> local_texts d = local_texts (emit_fi_credit_transfer i p)"
    unfolding a emit_fi_credit_transfer_def
    using reads_back_branch [OF assms(1,4) r(2)] assms(6) by (auto simp: emit_fi_credit_transfer_def fun_eq_iff)
  ultimately show ?thesis by blast
qed

lemma localname_plain:
  assumes "CHR ''}'' \<notin> set t"
  shows "localname t = t"
proof -
  have "takeWhile (\<lambda>c. c \<noteq> CHR ''}'') (rev t) = rev t"
    using assms by (simp only: takeWhile_eq_all_conv set_rev) blast
  then show ?thesis by (simp only: localname_def rev_rev_ident)
qed

lemma local_texts_Node:
  "local_texts (Node t a v kids) n =
     (if localname t = n \<and> v \<noteq> None \<and> v \<noteq> Some [] then [the v] else []) @ concat (map (\<lambda>k. local_texts k n) kids)"
  by (cases v) (simp_all add: local_texts_def List.map_filter_def filter_concat map_concat comp_def)

lemmas emitted_defs = emit_business_application_header_def emit_fi_credit_transfer_def branch_def leaf_def
  header_party_def fi_element_def

lemma header_texts:
  "local_texts (emit_business_application_header i p) ''BizMsgIdr'' =
     (if message_id i = [] then [] else [message_id i])"
  by (cases "business_service p") (simp_all add: emitted_defs local_texts_Node localname_plain)

lemma document_texts:
  "local_texts (emit_fi_credit_transfer i p) ''MsgId'' = (if message_id i = [] then [] else [message_id i])"
  "local_texts (emit_fi_credit_transfer i p) ''EndToEndId'' = (if end_to_end_id i = [] then [] else [end_to_end_id i])"
  "local_texts (emit_fi_credit_transfer i p) ''IntrBkSttlmAmt'' =
     (if format_f (amount i) = [] then [] else [format_f (amount i)])"
  by (cases "fi_name (debtor i)"; cases "fi_name (creditor i)"; simp add: emitted_defs local_texts_Node localname_plain)+

subsection \<open>What is emitted is legal\<close>

lemma legal_digit: "is_digit c \<Longrightarrow> legal_char c"
  and legal_upper: "upper_char c \<Longrightarrow> legal_char c"
  and legal_upper_or_digit: "upper_or_digit c \<Longrightarrow> legal_char c"
  and legal_marks: "c \<in> set ''-:.T+0'' \<Longrightarrow> legal_char c"
  by (auto simp: is_digit_def upper_char_def upper_or_digit_def legal_char_def)

lemma legal_uppers: "list_all upper_char s \<Longrightarrow> list_all legal_char s"
  and legal_upper_or_digits: "list_all upper_or_digit s \<Longrightarrow> list_all legal_char s"
  using legal_upper legal_upper_or_digit by (auto simp: list_all_iff)

lemma legal_nat_text: "list_all legal_char (nat_text n)"
  using nat_text_digits [of n] legal_digit by (auto simp: list_all_iff)

lemma legal_padded [simp]: "list_all legal_char (padded k n)"
  using legal_nat_text by (auto simp: padded_def Let_def list_all_iff legal_marks)

lemma legal_clock [simp]: "list_all legal_char (clock_text n)" "list_all legal_char (offset_text n)"
  by (simp_all add: clock_text_def offset_text_def Let_def legal_marks)

lemma padded_nonempty: "padded k n \<noteq> []"
  using nat_text_digits [of "nat n"] by (simp add: padded_def Let_def)

lemma legal_iso [simp]: "legal_text (iso_datetime t)"
  by (auto simp: legal_text_def iso_datetime_def Let_def padded_nonempty legal_marks split: option.splits)

lemma legal_fixed: "list_all legal_char (fixed_digits c e)"
proof (cases "e \<ge> 0")
  case True
  then show ?thesis using fixed_digits_nonneg [of e c] legal_digit by (auto simp: list_all_iff)
next
  case False
  then obtain w v where "fixed_digits c e = w @ CHR ''.'' # v" "list_all is_digit w" "list_all is_digit v"
    using fixed_digits_neg [of e c] by auto
  then show ?thesis using legal_digit legal_marks [of "CHR ''.''"] by (auto simp: list_all_iff)
qed

lemma legal_amount: "finite_num d \<Longrightarrow> legal_text (format_f d)"
  using fixed_digits_plain legal_fixed
  by (cases d) (auto simp: format_f_def legal_text_def legal_marks)

lemma legal_end: "at_end s \<Longrightarrow> list_all legal_char s"
  by (auto simp: at_end_def legal_char_def)

lemma list_all_parts: "list_all P (take n s) \<Longrightarrow> list_all P (drop n s) \<Longrightarrow> list_all P s"
  by (metis append_take_drop_id list_all_append)

lemma legal_bicfi: "bicfi_match s \<Longrightarrow> legal_text s"
proof -
  assume m: "bicfi_match s"
  have tail: "list_all legal_char (drop 8 s)"
  proof (cases "at_end (drop 8 s)")
    case False
    then have "list_all upper_or_digit (take 3 (drop 8 s))" "at_end (drop 3 (drop 8 s))"
      using m by (auto simp: bicfi_match_def)
    then have "list_all legal_char (take 3 (drop 8 s))" "list_all legal_char (drop 3 (drop 8 s))"
      by (auto intro: legal_upper_or_digits legal_end)
    then show ?thesis by (rule list_all_parts)
  qed (rule legal_end)
  have "list_all legal_char (take 2 (drop 6 s))" "list_all legal_char (take 2 (drop 4 s))" "list_all legal_char (take 4 s)"
    using m unfolding bicfi_match_def by (auto intro: legal_upper_or_digits legal_uppers)
  then have "list_all legal_char s"
    using list_all_parts [of legal_char 2 "drop 6 s"] list_all_parts [of legal_char 2 "drop 4 s"]
      list_all_parts [of legal_char 4 s] tail by simp
  then show ?thesis using m by (auto simp: legal_text_def bicfi_match_def)
qed

lemma legal_currency:
  assumes "currency_match s"
  shows "legal_text s"
proof -
  have "list_all legal_char (take 3 s)" "list_all legal_char (drop 3 s)"
    using assms unfolding currency_match_def by (auto intro: legal_uppers legal_end)
  then have "list_all legal_char s" by (rule list_all_parts)
  then show ?thesis using assms by (auto simp: legal_text_def currency_match_def)
qed

lemma legal_identifier: "max35 s \<Longrightarrow> no_controls s \<Longrightarrow> legal_text s"
  by (auto simp: legal_text_def max35_def no_controls_def legal_char_def list_all_iff)

text \<open>
  What an instruction and its profile must be for their documents to be XML that reads back: constructed,
  with names and a business service of legal text, a currency of three letters and no more, and message
  definitions that can stand in a namespace.
\<close>

definition legal_party :: "FinancialInstitution \<Rightarrow> bool" where
  "legal_party f \<longleftrightarrow> bicfi_match (bicfi f) \<and> (case fi_name f of None \<Rightarrow> True | Some n \<Rightarrow> legal_text n)"

definition legal_profile :: "DepositoryProfile \<Rightarrow> bool" where
  "legal_profile p \<longleftrightarrow> list_all uri_char (business_application_header p) \<and>
     fi_credit_transfer p \<noteq> [] \<and> list_all uri_char (fi_credit_transfer p) \<and>
     (case business_service p of None \<Rightarrow> True | Some s \<Rightarrow> legal_text s)"

definition emittable :: "CashLegInstruction \<Rightarrow> DepositoryProfile \<Rightarrow> bool" where
  "emittable i p \<longleftrightarrow> mk_CashLegInstruction i = Inr i \<and>
     list_all legal_party [debtor i, creditor i, sender i, receiver i] \<and>
     no_controls (instr_currency i) \<and> legal_profile p"

lemma legal_one: "legal_text ''1''" "legal_text (settlement_method_value v)"
  by (cases v; simp add: legal_text_def legal_char_def)+

lemma legal_uri: "list_all uri_char s \<Longrightarrow> s \<noteq> [] \<Longrightarrow> legal_text s"
proof -
  have "uri_char c \<Longrightarrow> legal_char c" for c
    by (auto simp: uri_char_def legal_char_def upper_or_digit_def upper_char_def is_digit_def)
  then show "list_all uri_char s \<Longrightarrow> s \<noteq> [] \<Longrightarrow> legal_text s" by (auto simp: legal_text_def list_all_iff)
qed

lemma legal_leaf: "legal_xml (Suc n) (leaf tag t) \<longleftrightarrow> legal_text t"
  and legal_branch: "legal_xml (Suc n) (branch tag kids) \<longleftrightarrow> list_all (\<lambda>k. plain_name (xml_tag k) \<and> legal_xml n k) kids"
  and tag_leaf: "xml_tag (leaf tag t) = tag" and tag_branch: "xml_tag (branch tag kids) = tag"
  by (simp_all add: leaf_def branch_def)

lemma eight: "8 = Suc (Suc (Suc (Suc (Suc (Suc (Suc (Suc 0)))))))"
  by simp

lemma emittable_legal:
  assumes "emittable i p"
  shows "legal_xml 8 (emit_business_application_header i p)" "legal_xml 8 (emit_fi_credit_transfer i p)"
proof -
  have t: "legal_text (message_id i)" "legal_text (end_to_end_id i)" "no_controls (instr_currency i)"
      "legal_text (format_f (amount i))" "legal_text (fi_credit_transfer p)"
    using assms
    by (auto simp: emittable_def legal_profile_def mk_CashLegInstruction_def intro: legal_identifier legal_amount legal_uri)
  have q: "legal_text (bicfi (debtor i))" "legal_text (bicfi (creditor i))" "legal_text (bicfi (sender i))"
      "legal_text (bicfi (receiver i))"
    using assms by (auto simp: emittable_def legal_party_def intro: legal_bicfi)
  show "legal_xml 8 (emit_business_application_header i p)"
    using assms t q unfolding eight emit_business_application_header_def header_party_def
    by (simp add: legal_leaf legal_branch tag_leaf tag_branch plain_name_def upper_char_def emittable_def
        legal_profile_def split: option.splits)
  show "legal_xml 8 (emit_fi_credit_transfer i p)"
    using assms t q legal_one unfolding eight emit_fi_credit_transfer_def fi_element_def
    by (simp add: legal_leaf legal_branch tag_leaf tag_branch plain_name_def upper_char_def emittable_def
        legal_party_def legal_attr_def split: option.splits)
qed

text \<open>
  C38: What is emitted reads back as instructed: where \<open>ElementTree\<close> reads back the trees it writes in one
  registered namespace, the artifact of a constructed instruction, whose names and business service are
  legal text, whose currency has no control character and whose profile's message definitions can stand
  in a namespace, carries its message and end-to-end identifiers, so it joins, and the amount on the wire
  is read as a decimal of exactly the instructed value.
\<close>

theorem artifact_reads_back_as_instructed:
  assumes "xml_reads_back X" "emittable i p" "emit_instruction_artifact K X i p halt = Inr a"
  shows "artifact_carries X a i \<and> artifact_problem X a i = Inr None \<and>
    (\<exists>d t n. from_bytes X (document_xml a) = Inr d \<and> local_texts d ''IntrBkSttlmAmt'' = [t] \<and>
       read_decimal t = Some n \<and> num_value n = num_value (amount i) \<and> num_ne n (amount i) = Inr False)"
proof -
  obtain h d where hd: "from_bytes X (header_xml a) = Inr h" "from_bytes X (document_xml a) = Inr d"
      "local_texts h = local_texts (emit_business_application_header i p)"
      "local_texts d = local_texts (emit_fi_credit_transfer i p)"
    using artifact_reads_back [OF assms(1,3) _ _ emittable_legal [OF assms(2)]] assms(2)
    by (auto simp: emittable_def legal_profile_def)
  have i: "message_id i \<noteq> []" "end_to_end_id i \<noteq> []" "finite_num (amount i)"
    using assms(2) by (auto simp: emittable_def mk_CashLegInstruction_def max35_def)
  then obtain s c e where amt: "amount i = Num s c e" by (cases "amount i") auto
  obtain n where n: "read_decimal (format_f (amount i)) = Some n" "finite_num n" "num_value n = num_value (amount i)"
    using written_decimal_reads_back [of s c e] amt by auto
  have "num_ne n (amount i) = Inr False" using n(2,3) amt by (cases n) (simp_all add: num_ne_def)
  moreover have "format_f (amount i) \<noteq> []" using legal_amount [OF i(3)] by (simp add: legal_text_def)
  moreover have "artifact_carries X a i"
    using hd i by (simp add: artifact_carries_def header_texts document_texts)
  ultimately show ?thesis using hd i n by (simp add: artifact_problem_None document_texts)
qed

subsection \<open>From the venue's bytes to published finality\<close>

lemma no_break_matched:
  assumes "reconcile r prepared known = Inr m" "x \<in> set (report_entries r)" "se_end_to_end_id x = Some e"
    "\<forall>b \<in> set (breaks m). rb_end_to_end_id b \<noteq> Some e"
  shows "\<exists>n i. place_of end_to_end_id prepared e = Some (n, i) \<and> entry_breaks x e i (known e) = Inr [] \<and>
    (\<forall>n' i'. Option.bind (original_message_id r) (place_of message_id prepared) = Some (n', i') \<longrightarrow> n' = n)"
proof -
  note r = reconcile_Inr [OF assms(1)]
  obtain y where y: "reconcile_entry prepared known (original_message_id r) x = Inr y" using r(6) [OF assms(2)] by blast
  then have o: "y \<in> set (outcomes prepared known r)" using assms(2) by (force simp: outcomes_def)
  have none: "outcome_breaks y = []"
  proof (cases "outcome_breaks y")
    case (Cons b bs)
    then have "b \<in> set (breaks m)" using o by (force simp: r(3))
    moreover have "rb_end_to_end_id b = Some e" using reconcile_entry_breaks_id [OF y, of b] Cons assms(3) by simp
    ultimately show ?thesis using assms(4) by blast
  qed
  then obtain e' where "y = Matched e' []" by (cases y) auto
  then show ?thesis using reconcile_entry_Matched [of prepared known _ x e' "[]"] y assms(3) by fastforce
qed

lemma entry_breaks_Nil:
  assumes "entry_breaks x e i prior = Inr []"
  shows "se_status x \<notin> {UNRECOGNIZED, STATUS_WITH_CHANGE, STATUS_REJECTED}"
    and "echoed_amount x = Some d \<Longrightarrow> num_ne d (amount i) = Inr False"
    and "echoed_currency x = Some y \<Longrightarrow> y = instr_currency i"
    and "prior = Some p \<Longrightarrow> p = se_status x \<or>
      (p \<noteq> SETTLED \<and> MATCHED_STATUS_ORDER p < MATCHED_STATUS_ORDER (se_status x))"
  using assms
  by (auto simp: entry_breaks_def break_if_def progression_break_def amount_differs_def currency_differs_def Let_def
      split: sum.splits option.splits if_splits)

text \<open>
  C8: End to end: when the join of a prepared instruction passes on a report ingested from the venue's
  bytes, the report carries an entry settled for exactly this payment, whose code reads as settled;
  nothing the report says of the payment is a rejection, a change, an unknown code or a different amount
  or currency; what was known of it before was settled already or on the way; and the message the
  report answers is this one, if it names any.
\<close>

theorem published_finality_was_settled:
  assumes "ingest_readback X bytes prepared known = Inr m"
    "join_settlement_evidence F X a i rs m entry l f = Inr j" "sj_disposition j = Advisory.PASS"
    "i \<in> set prepared" "distinct (map end_to_end_id prepared)"
  shows "(\<exists>x \<in> set (report_entries (report m)). se_end_to_end_id x = Some (end_to_end_id i) \<and> se_status x = SETTLED) \<and>
    (\<forall>x \<in> set (report_entries (report m)). se_end_to_end_id x = Some (end_to_end_id i) \<longrightarrow>
       se_status x \<notin> {UNRECOGNIZED, STATUS_WITH_CHANGE, STATUS_REJECTED} \<and>
       (\<forall>d. echoed_amount x = Some d \<longrightarrow> num_ne d (amount i) = Inr False) \<and>
       (\<forall>c. echoed_currency x = Some c \<longrightarrow> c = instr_currency i) \<and>
       (\<forall>p. known (end_to_end_id i) = Some p \<longrightarrow> p = se_status x \<or>
          (p \<noteq> SETTLED \<and> MATCHED_STATUS_ORDER p < MATCHED_STATUS_ORDER (se_status x)))) \<and>
    original_message_id (report m) \<in> {None, Some (message_id i)} \<and>
    sj_assertion j = Some (assertion_of l f) \<and> ff_provenance f \<in> {FACT_EXTERNAL, FACT_SYNTHETIC}"
proof -
  have joins: "joins F X a i rs m entry l f" and a: "sj_assertion j = Some (assertion_of l f)"
    using join_passed [OF assms(2)] assms(3) by auto
  obtain r where rec: "reconcile r prepared known = Inr m"
    using assms(1) by (auto simp: ingest_readback_def split: sum.splits)
  have r: "report m = r" by (rule reconcile_Inr(1) [OF rec])
  obtain x e where x: "entry = Some x" "se_end_to_end_id (the_entry x) = Some e" "map_of (matched m) e = Some SETTLED"
      "\<forall>b \<in> set (breaks m). rb_end_to_end_id b \<noteq> Some e"
    using joins by (auto simp: joins_code venue_settled_def)
  have e: "e = end_to_end_id i" and om: "original_message_id (report m) \<in> {None, Some (message_id i)}"
    using joins x by (auto simp: joins_code readback_identity_def split: if_splits)
  have settled: "\<exists>x \<in> set (report_entries r). se_end_to_end_id x = Some e \<and> se_status x = SETTLED"
    using every_block_is_accounted [OF rec] x(3) by blast
  obtain n where n: "place_of end_to_end_id prepared e = Some (n, i)"
    using place_of_unique [OF assms(4,5)] e by blast
  have each: "entry_breaks y e i (known e) = Inr []" if "y \<in> set (report_entries r)" "se_end_to_end_id y = Some e" for y
    using no_break_matched [OF rec that x(4)] n by auto
  show ?thesis unfolding r
    using settled entry_breaks_Nil [OF each] om a joins unfolding e r joins_code facts_legal_def by blast
qed

subsection \<open>A concrete join\<close>

definition w_wire :: "xml wire" where
  "w_wire = \<lparr>to_bytes = (\<lambda>t. qualify (namespace_of t) t), from_bytes = Inr, digest_two = (\<lambda>h d. ''sha'')\<rparr>"

definition w_party :: "string \<Rightarrow> FinancialInstitution" where
  "w_party b = \<lparr>bicfi = b, fi_name = None\<rparr>"

definition w_instruction :: CashLegInstruction where
  "w_instruction = \<lparr>message_id = ''M1'', end_to_end_id = ''E1'', created_at = \<lparr>wall_clock = 0, utc_off = Some 0\<rparr>,
     amount = Num False 12550 (- 2), instr_currency = ''USD'', debtor = w_party ''AAAAUS33'', creditor = w_party ''BBBBUS33'',
     settlement_method = CLEARING_SYSTEM, sender = w_party ''AAAAUS33'', receiver = w_party ''FRNYUS33'',
     instr_lineage_uri = None\<rparr>"

definition w_fin_kernel :: finality_kernel where
  "w_fin_kernel = \<lparr>legal_event = (\<lambda>e. e \<noteq> []), legal_digest = (\<lambda>d. d = ''sha''), legal_assertion = (\<lambda>a. True)\<rparr>"

definition w_receipt :: ExternalActionReceipt where
  "w_receipt = \<lparr>entitled_member_id = ''member'', receipt_event_id = ''ev'', external_action = SETTLEMENT_INSTRUCTION,
     artifact_digest = ''sha'', receipt_time = \<lparr>wall_clock = 5, utc_off = Some 0\<rparr>, receipt_provenance = FACT_SYNTHETIC,
     receipt_message_id = ''M1'', receipt_end_to_end_id = ''E1'', authorizes_action = False, receipt_is_submission = False\<rparr>"

definition w_facts :: finality_facts where
  "w_facts = \<lparr>ff_rule_set = ''rule'', ff_actor = ''venue'', ff_event_id = ''ev2'',
     ff_effective = \<lparr>wall_clock = 6, utc_off = Some 0\<rparr>, ff_observed = \<lparr>wall_clock = 7, utc_off = Some 0\<rparr>,
     ff_reference = ''ref'', ff_conditionality = ''UNCONDITIONAL'', ff_revocability = ''IRREVOCABLE'',
     ff_provenance = FACT_SYNTHETIC\<rparr>"

definition w_block :: "string \<Rightarrow> xml" where
  "w_block code = branch ''TxInfAndSts'' [leaf ''OrgnlEndToEndId'' ''E1'', leaf ''TxSts'' code]"

definition w_status_document :: "string list \<Rightarrow> xml" where
  "w_status_document codes = branch (clark ''urn:iso:std:iso:20022:tech:xsd:pacs.002.001.16'' ''FIToFIPmtStsRpt'')
     (branch ''GrpHdr'' [leaf ''MsgId'' ''R1'', leaf ''CreDtTm'' ''2026-01-01T00:00:00Z''] # map w_block codes)"

definition w_entry :: "string \<Rightarrow> SettlementStatus \<Rightarrow> StatusEntry" where
  "w_entry code s = \<lparr>status_code = code, se_status = s, se_end_to_end_id = Some ''E1'', original_transaction_id = None,
     original_uetr = None, se_reason_codes = [], echoed_amount = None, echoed_currency = None, acceptance_datetime = None\<rparr>"

definition w_report :: "StatusEntry list \<Rightarrow> StatusReport" where
  "w_report xs = \<lparr>report_id = ''R1'', report_created_at = ''2026-01-01T00:00:00Z'',
     namespace = ''urn:iso:std:iso:20022:tech:xsd:pacs.002.001.16'', original_message_id = None,
     original_message_name_id = None, group_status_code = None, report_entries = xs, malformed = []\<rparr>"

definition w_match :: "StatusEntry list \<Rightarrow> ReadbackMatch" where
  "w_match xs = \<lparr>report = w_report xs, matched = [(''E1'', SETTLED)], breaks = [], is_absent = False\<rparr>"

definition w_halt_kernel :: "unit kernel" where
  "w_halt_kernel = \<lparr>blocks_atreides = (\<lambda>h. True), halt_id = (\<lambda>h. []), halt_version = (\<lambda>h. 0),
     halt_reason = (\<lambda>h. []), ObligationId = Some\<rparr>"

definition w_artifact :: "xml InstructionArtifact" where
  "w_artifact = projr (emit_instruction_artifact w_halt_kernel w_wire w_instruction BASE_ISO_20022 None)"

lemma namespace_of_clark: "CHR ''}'' \<notin> set r \<Longrightarrow> namespace_of (Node (clark ns r) a v kids) = ns"
proof -
  assume "CHR ''}'' \<notin> set r"
  then have "\<And>c. c \<in> set (rev r) \<Longrightarrow> c \<noteq> CHR ''}''" by auto
  from dropWhile_append2 [of "rev r" "\<lambda>c. c \<noteq> CHR ''}''", OF this]
  show "namespace_of (Node (clark ns r) a v kids) = ns"
    by (simp add: namespace_of_def clark_def before_last_brace_def)
qed

lemma w_reads_back: "xml_reads_back w_wire"
proof -
  have "CHR ''}'' \<notin> set r" if "plain_name r" for r
    using that by (auto simp: plain_name_def list_all_iff upper_char_def)
  then show ?thesis by (simp add: xml_reads_back_def w_wire_def namespace_of_clark del: qualify.simps)
qed

lemma w_emittable: "emittable w_instruction BASE_ISO_20022"
  by (simp add: emittable_def w_instruction_def w_party_def BASE_ISO_20022_def default_profile_def legal_party_def
      mk_CashLegInstruction_def max35_def currency_match_def at_end_def upper_char_def no_controls_def legal_text_def
      legal_char_def bicfi_match_def upper_or_digit_def is_digit_def ndigits.simps legal_profile_def uri_char_def)

lemma w_emitted: "emit_instruction_artifact w_halt_kernel w_wire w_instruction BASE_ISO_20022 None = Inr w_artifact"
  by (simp add: w_artifact_def emit_instruction_artifact_def)

lemma w_parsed: "parse_status_report w_wire (w_status_document [''CANC'', ''ACSC'']) =
    Inr (w_report [w_entry ''CANC'' CANCELLED, w_entry ''ACSC'' SETTLED])"
  "parse_status_report w_wire (w_status_document [''ACSC'']) = Inr (w_report [w_entry ''ACSC'' SETTLED])"
  by (simp_all add: parse_status_report_def w_wire_def w_status_document_def w_block_def w_report_def w_entry_def
      branch_def leaf_def clark_def find_payload_def payload_namespace_def namespace_of_def before_last_brace_def
      localname_def pacs002_match_def is_digit_def at_end_def find_child_def find_children_def child_text_def
      read_blocks_def read_entry_def echoed_amount_of_def reason_codes_of_def classify_status_code_def
      RECOGNISED_STATUS_CODES_def to_upper_def py_strip_def py_space_def Let_def List.map_filter_def)

lemma w_placed: "place_of end_to_end_id [w_instruction] ''E1'' = Some (0, w_instruction)"
  by (simp add: place_of_def w_instruction_def)

lemma w_reconciles:
  "reconcile (w_report [w_entry ''CANC'' CANCELLED, w_entry ''ACSC'' SETTLED]) [w_instruction] (\<lambda>k. None) =
     Inr (w_match [w_entry ''CANC'' CANCELLED, w_entry ''ACSC'' SETTLED])"
  "reconcile (w_report [w_entry ''ACSC'' SETTLED]) [w_instruction] (\<lambda>k. None) = Inr (w_match [w_entry ''ACSC'' SETTLED])"
  by (simp_all add: reconcile_def w_report_def w_entry_def reconcile_entry_def w_placed entry_breaks_def amount_differs_def
      currency_differs_def break_if_def progression_break_def w_match_def Let_def)

lemma w_ingested:
  "ingest_readback w_wire (w_status_document [''CANC'', ''ACSC'']) [w_instruction] (\<lambda>k. None) =
     Inr (w_match [w_entry ''CANC'' CANCELLED, w_entry ''ACSC'' SETTLED])"
  "ingest_readback w_wire (w_status_document [''ACSC'']) [w_instruction] (\<lambda>k. None) = Inr (w_match [w_entry ''ACSC'' SETTLED])"
  by (simp_all add: ingest_readback_def w_parsed w_reconciles)

text \<open>The caller presents the settled entry of the report, the object itself: its last one.\<close>

definition w_presented :: "StatusEntry list \<Rightarrow> presented_entry" where
  "w_presented xs = \<lparr>the_entry = w_entry ''ACSC'' SETTLED, entry_places = [length xs - 1], amount_places = []\<rparr>"

definition w_single :: "StatusEntry list" where
  "w_single = [w_entry ''ACSC'' SETTLED]"

definition w_twice :: "StatusEntry list" where
  "w_twice = [w_entry ''CANC'' CANCELLED, w_entry ''ACSC'' SETTLED]"

lemma w_listed: "xs \<in> {w_single, w_twice} \<Longrightarrow> listed (w_presented xs) 0 xs = Inr True"
  by (auto simp: w_single_def w_twice_def w_presented_def entry_eq_def w_entry_def)

lemma w_entry_status: "se_status (w_entry code s) = s" "se_end_to_end_id (w_entry code s) = Some ''E1''"
  by (simp_all add: w_entry_def)

lemma w_settled: "xs \<in> {w_single, w_twice} \<Longrightarrow> venue_settled (w_match xs) (Some (w_presented xs))"
  using w_listed [of xs]
  by (simp add: venue_settled_def w_match_def w_report_def w_presented_def w_entry_status)

lemma w_legal_facts: "facts_legal w_fin_kernel Cash_Leg w_facts"
  by (simp add: facts_legal_def w_facts_def w_fin_kernel_def utc_stamp_def stamp_instant_def)

lemma w_receipts: "receipts_join w_fin_kernel [w_receipt] w_instruction (instruction_artifact_digest w_wire w_artifact)"
  by (simp add: receipts_join_def events_agree_def same_action_def assess_receipt_pass w_receipt_def w_instruction_def
      w_fin_kernel_def instruction_artifact_digest_def w_wire_def utc_stamp_def stamp_instant_def)

lemma w_identity: "readback_identity (w_match xs) (Some (w_presented xs)) w_instruction = None"
  by (simp add: readback_identity_def w_match_def w_report_def w_presented_def w_entry_def w_instruction_def)

text \<open>What the emitted artifact of the example joins with, on any report that settles it.\<close>

lemma w_carries: "artifact_problem w_wire w_artifact w_instruction = Inr None"
proof -
  have b: "header_xml w_artifact = to_bytes w_wire (emit_business_application_header w_instruction BASE_ISO_20022)"
    "document_xml w_artifact = to_bytes w_wire (emit_fi_credit_transfer w_instruction BASE_ISO_20022)"
    by (simp_all add: w_artifact_def emit_instruction_artifact_def)
  have "local_texts (qualify ns x) = local_texts x" for ns x by (rule ext) simp
  then have r: "read_local_texts w_wire (to_bytes w_wire x) = Inr (Some (local_texts x))" for x
    by (simp add: read_local_texts_def w_wire_def)
  have "message_id w_instruction = ''M1''" "end_to_end_id w_instruction = ''E1''" by (simp_all add: w_instruction_def)
  then show ?thesis by (simp add: artifact_problem_def b r header_texts document_texts)
qed

lemma w_joins:
  assumes "xs \<in> {w_single, w_twice}"
  shows "joins w_fin_kernel w_wire w_artifact w_instruction [w_receipt] (w_match xs) (Some (w_presented xs)) Cash_Leg w_facts"
  using w_carries w_receipts w_identity w_settled [OF assms] w_legal_facts by (simp add: joins_code)

lemma join_passesI:
  assumes "joins F X a i rs m entry l f"
  shows "\<exists>j. join_settlement_evidence F X a i rs m entry l f = Inr j \<and> sj_disposition j = Advisory.PASS"
proof -
  have "\<not> encoding_refused X a" "\<not> entry_signals m entry"
    using assms artifact_problem_raises [of X a i] venue_settled_signals by (auto simp: joins_code)
  then show ?thesis using join_answers [where X = X and a = a and m = m and entry = entry and F = F and i = i and rs = rs and l = l and f = f] assms by auto
qed

subsection \<open>Witnesses\<close>

lemma w_amount: "num_value (amount w_instruction) = 251 / 2"
  by (simp add: w_instruction_def power_int_def power2_eq_square)

theorem artifact_reads_back_as_instructed_witness:
  "\<exists>d t n. from_bytes w_wire (document_xml w_artifact) = Inr d \<and> local_texts d ''IntrBkSttlmAmt'' = [t] \<and>
     read_decimal t = Some n \<and> num_value n = 251 / 2"
  using artifact_reads_back_as_instructed [OF w_reads_back w_emittable w_emitted] by (auto simp: w_amount)

theorem finality_asserted_iff_witness:
  "\<exists>v. finality_from_readback w_fin_kernel (w_match w_single) (Some (w_presented w_single)) Cash_Leg w_facts
     = Inr v \<and> fe_state v = EV_FINAL"
proof -
  have s: "venue_settled (w_match w_single) (Some (w_presented w_single))" using w_settled by simp
  then obtain v where v: "finality_from_readback w_fin_kernel (w_match w_single) (Some (w_presented w_single))
      Cash_Leg w_facts = Inr v"
    using finality_cases [of "w_match w_single" "Some (w_presented w_single)" w_fin_kernel Cash_Leg w_facts] w_legal_facts
    by (auto simp: venue_settled_signals)
  with finality_asserted_iff [OF v] s w_legal_facts show ?thesis by simp
qed

theorem published_finality_was_settled_witness:
  "\<exists>x \<in> set (report_entries (w_report w_single)). se_status x = SETTLED"
proof -
  obtain j where j: "join_settlement_evidence w_fin_kernel w_wire w_artifact w_instruction [w_receipt]
      (w_match w_single) (Some (w_presented w_single)) Cash_Leg w_facts = Inr j"
      "sj_disposition j = Advisory.PASS"
    using join_passesI [OF w_joins [of w_single]] by auto
  from published_finality_was_settled [OF w_ingested(2) [folded w_single_def] j] show ?thesis by (auto simp: w_match_def)
qed

lemma w_cancelled: "\<exists>m. reconcile (w_report [w_entry ''CANC'' CANCELLED]) [w_instruction] (\<lambda>k. Some SETTLED) = Inr m"
  by (simp add: reconcile_def w_report_def w_entry_def reconcile_entry_def w_placed entry_breaks_def amount_differs_def
      currency_differs_def break_if_def progression_break_def mk_break_def Let_def)

theorem settled_is_never_silently_undone_witness:
  "\<exists>m. reconcile (w_report [w_entry ''CANC'' CANCELLED]) [w_instruction] (\<lambda>k. Some SETTLED) = Inr m \<and>
     (\<exists>b \<in> set (breaks m). rb_end_to_end_id b = Some ''E1'')"
proof -
  obtain m where m: "reconcile (w_report [w_entry ''CANC'' CANCELLED]) [w_instruction] (\<lambda>k. Some SETTLED) = Inr m"
    using w_cancelled by blast
  have "\<exists>b \<in> set (breaks m). rb_end_to_end_id b = Some ''E1'' \<and>
      rb_code b \<in> {STATUS_REGRESSION, UNSOLICITED_STATUS, IDENTIFIER_DISAGREEMENT}"
    by (rule settled_is_never_silently_undone [OF m, where x = "w_entry ''CANC'' CANCELLED"])
       (simp_all add: w_report_def w_entry_def)
  with m show ?thesis by blast
qed

subsection \<open>Where the code does less than it says\<close>

text \<open>A report that cancels a payment and settles it leaves no break, and finality is published.\<close>

theorem cancelled_and_settled_is_final:
  "\<exists>m j. ingest_readback w_wire (w_status_document [''CANC'', ''ACSC'']) [w_instruction] (\<lambda>k. None) = Inr m \<and> clean m \<and>
     join_settlement_evidence w_fin_kernel w_wire w_artifact w_instruction [w_receipt] m (Some (w_presented w_twice))
       Cash_Leg w_facts = Inr j \<and> sj_disposition j = Advisory.PASS"
  using w_ingested(1) [folded w_twice_def] join_passesI [OF w_joins [of w_twice]]
  by (auto simp: w_match_def clean_def)

lemma read_snan: "read_decimal ''sNaN'' = Some Signal_NaN"
  by code_simp

text \<open>One echoed amount that is a signalling NaN makes the reconciliation of the whole report raise.\<close>

theorem signalling_amount_loses_the_report:
  "read_decimal ''sNaN'' = Some Signal_NaN \<and>
   reconcile (w_report [w_entry ''ACSC'' SETTLED, (w_entry ''ACSC'' SETTLED)\<lparr>echoed_amount := Some Signal_NaN\<rparr>])
     [w_instruction] (\<lambda>k. None) = Inl Signal_Compared"
  by (simp add: read_snan reconcile_def w_report_def w_entry_def reconcile_entry_def w_placed entry_breaks_def amount_differs_def num_ne_def
      currency_differs_def break_if_def progression_break_def)

text \<open>
  An entry read again from the same bytes is another object: a signalling NaN in its amount makes the test
  whether it is in the readback raise, before anything is said of it.
\<close>

definition w_signal :: StatusEntry where
  "w_signal = (w_entry ''ACSC'' SETTLED)\<lparr>echoed_amount := Some Signal_NaN\<rparr>"

theorem signalling_amount_escapes_the_join:
  "join_settlement_evidence F w_wire w_artifact w_instruction rs (w_match [w_signal])
     (Some \<lparr>the_entry = w_signal, entry_places = [], amount_places = []\<rparr>) l f = Inl Amount_Compared"
proof (rule join_raises(2))
  show "\<not> encoding_refused w_wire w_artifact" by (simp add: encoding_refused_def w_wire_def)
  show "entry_signals (w_match [w_signal]) (Some \<lparr>the_entry = w_signal, entry_places = [], amount_places = []\<rparr>)"
    by (simp add: entry_signals_def w_match_def w_report_def comparison_signals_def entry_eq_def amount_eq_def
        num_ne_def w_signal_def)
qed

text \<open>An artifact whose bytes name an encoding the parser refuses is not held as unreadable: the join raises.\<close>

theorem refused_encoding_escapes_the_join:
  "join_settlement_evidence F (X\<lparr>from_bytes := \<lambda>b. Inl Encoding_Refused\<rparr>) a i rs m entry l f = Inl Artifact_Encoding_Escapes"
  by (rule join_raises(1)) (simp add: encoding_refused_def)

text \<open>A business identifier that ends in a newline is accepted, and written into the document.\<close>

theorem identifier_with_newline_is_accepted:
  "mk_FinancialInstitution (w_party (''AAAAUS33'' @ [CHR 0x0A])) = Inr (w_party (''AAAAUS33'' @ [CHR 0x0A]))"
  by (simp add: mk_FinancialInstitution_def w_party_def bicfi_match_def upper_or_digit_def upper_char_def is_digit_def at_end_def)

end
