(* ===== verification/Acceptance_Props.thy ===== *)
theory Acceptance_Props
  imports Acceptance Cato_Props Settlement_Props
begin

text \<open>
  What an acceptance rests on (\<open>acceptance/service.py\<close>): the conditions under which a candidate is
  accepted, and the chain from the cash gate through the acceptance to a prepared instruction.
\<close>

subsection \<open>The worst disposition, and each predicate\<close>

lemma worst_pass: "worst ps = Advisory.PASS \<longleftrightarrow> (\<forall>p \<in> set ps. pr_disposition p = Advisory.PASS)"
proof -
  have pass: "d = Advisory.PASS \<longleftrightarrow> d \<noteq> Advisory.BLOCK \<and> d \<noteq> Advisory.INDETERMINATE \<and> d \<noteq> Advisory.HOLD" for d
    by (cases d) simp_all
  show ?thesis by (simp add: worst_def SEVERITY_def list_ex_iff pass) blast
qed

lemma predicate_passes:
  "pr_disposition (required_fields A c) = Advisory.PASS \<longleftrightarrow> missing_fields A c = []"
  "pr_disposition (unknown_enums A c) = Advisory.PASS \<longleftrightarrow> unknown_members A c = []"
  "pr_disposition (leg_linkage c) = Advisory.PASS \<longleftrightarrow> linkage_codes c = []"
  "pr_disposition (halt_predicate K halt) = Advisory.PASS \<longleftrightarrow> (\<forall>h. halt = Some h \<longrightarrow> \<not> blocks_atreides K h)"
  "pr_disposition (customer_sell_control e c control) = fst (sell_verdict e c control)"
  by (simp_all add: required_fields_def unknown_enums_def leg_linkage_def halt_predicate_def passed_def
      predicate_result_def customer_sell_control_def split: option.splits prod.splits)

subsection \<open>What is governed, and what is controlled\<close>

text \<open>A gate decision governs the cash leg of a candidate.\<close>

definition gate_governs ::
  "'b acceptance_kernel \<Rightarrow> SettlementObligationEnvelope \<Rightarrow> ObligationCandidate \<Rightarrow> CatoCashDecision \<Rightarrow> bool" where
  "gate_governs A e c d \<longleftrightarrow> proceeds d \<and> obligation_id d = Some (env_obligation_id e) \<and>
     obligation_digest d = Some (digest_envelope A e) \<and>
     (\<exists>t y v. cash_terms c = Some (t, y) \<and> evaluated_notional d = Some t \<and> evaluated_currency d = Some y \<and>
        map_of (rev (funding_state_snapshot d)) ''net_obligation'' = Some v \<and> covers_less v t = Inr False)"

definition cash_governed ::
  "'b acceptance_kernel \<Rightarrow> SettlementObligationEnvelope \<Rightarrow> ObligationCandidate \<Rightarrow> CatoCashDecision option \<Rightarrow> bool" where
  "cash_governed A e c gate \<longleftrightarrow>
     no_cash_leg A (delivery_pattern c) \<or> (\<exists>d. gate = Some d \<and> gate_governs A e c d)"

text \<open>A control result covers the delivery of a quantity on the business date of the envelope.\<close>

definition control_covers ::
  "SettlementObligationEnvelope \<Rightarrow> ObligationCandidate \<Rightarrow> SecuritiesLeg \<Rightarrow> rat \<Rightarrow> ControlResult \<Rightarrow> bool" where
  "control_covers e c l n k \<longleftrightarrow>
     ctl_disposition k = Advisory.PASS \<and> iso_date (cr_as_of k) = iso_date (env_business_date e) \<and>
     (\<forall>g. cash_leg c = Some g \<longrightarrow> value_date g = Some (iso_date (env_business_date e))) \<and>
     (\<exists>q. find (\<lambda>q. Some (ic_issue q) = instrument_id l) (issues k) = Some q \<and> n \<le> in_control q)"

definition delivery_controlled ::
  "SettlementObligationEnvelope \<Rightarrow> ObligationCandidate \<Rightarrow> ControlResult option \<Rightarrow> bool" where
  "delivery_controlled e c control \<longleftrightarrow>
     (\<forall>l. firm_securities_direction e = DELIVER \<and> securities_leg c = Some l \<longrightarrow>
        (\<exists>n s. sl_quantity l = Some n \<and> 0 < n \<and> seller_capacity c = Some s \<and> s \<in> SELLER_CAPACITIES \<and>
           account_capacity_digest c \<noteq> None \<and>
           (s = ''PROPRIETARY'' \<or> (\<exists>k. control = Some k \<and> control_covers e c l n k))))"

lemma funding_terms_passes:
  "(\<exists>codes. funding_terms d t y = Inr (Advisory.PASS, codes)) \<longleftrightarrow>
   evaluated_notional d = Some t \<and> evaluated_currency d = Some y \<and>
   (\<exists>v. map_of (rev (funding_state_snapshot d)) ''net_obligation'' = Some v \<and> covers_less v t = Inr False)"
  by (simp add: funding_terms_def split: option.splits sum.splits)

lemma funding_passes:
  "(\<exists>codes. funding_verdict A e c gate = Inr (Advisory.PASS, codes)) \<longleftrightarrow> cash_governed A e c gate"
proof -
  have "(\<exists>codes. funding_verdict A e c (Some d) = Inr (Advisory.PASS, codes)) \<longleftrightarrow>
      no_cash_leg A (delivery_pattern c) \<or> gate_governs A e c d" for d
  proof (cases "cash_terms c")
    case (Some ty)
    then show ?thesis using funding_terms_passes [of d "fst ty" "snd ty"]
      by (cases ty) (simp add: funding_verdict_def gate_governs_def proceeds_def bound_def)
  qed (simp add: funding_verdict_def gate_governs_def)
  then show ?thesis
    by (cases gate) (auto simp: cash_governed_def funding_verdict_def)
qed

lemma find_issue: "(if instrument_id l = None \<or> z then None else find (\<lambda>q. Some (ic_issue q) = instrument_id l) xs) =
   (if z then None else find (\<lambda>q. Some (ic_issue q) = instrument_id l) xs)"
  by (auto simp: find_None_iff find_None_iff2)

lemma control_passes:
  "fst (control_verdict e c l n control) = Advisory.PASS \<longleftrightarrow> (\<exists>k. control = Some k \<and> control_covers e c l n k)"
  by (cases control; cases "cash_leg c")
    (auto simp: control_verdict_def control_covers_def find_issue Let_def not_less split: option.splits if_splits)

lemma sell_passes:
  "fst (sell_verdict e c control) = Advisory.PASS \<longleftrightarrow> delivery_controlled e c control"
  by (cases "securities_leg c"; cases "seller_capacity c")
    (auto simp: sell_verdict_def delivery_controlled_def control_passes SELLER_CAPACITIES_def not_le split: option.splits)

subsection \<open>When a candidate is accepted\<close>

definition acceptable where
  "acceptable K A e c gate halt control \<longleftrightarrow>
     missing_fields A c = [] \<and> unknown_members A c = [] \<and> linkage_codes c = [] \<and>
     (\<forall>h. halt = Some h \<longrightarrow> \<not> blocks_atreides K h) \<and> cash_governed A e c gate \<and> delivery_controlled e c control"

lemma predicates_pass:
  assumes "predicates K A e c gate halt control = Inr ps"
  shows "worst ps = Advisory.PASS \<longleftrightarrow> acceptable K A e c gate halt control"
proof -
  obtain dd codes where v: "funding_verdict A e c gate = Inr (dd, codes)"
    using assms by (auto simp: predicates_def funding_bound_def map_sum_def split: sum.splits)
  have "dd = Advisory.PASS \<longleftrightarrow> cash_governed A e c gate" using funding_passes [of A e c gate] v by auto
  then show ?thesis using assms v
    by (auto simp: predicates_def funding_bound_def worst_pass predicate_passes sell_passes acceptable_def predicate_result_def)
qed

lemma acceptance_passes:
  assumes "evaluate_candidate K A e payload aid at_time by gate halt control = Inr r"
  shows "fr_disposition r = Advisory.PASS \<longleftrightarrow> digest_payload A payload = payload_digest e \<and>
    (\<exists>c. read_candidate A payload = Some c \<and> acceptable K A e c gate halt control)"
  using assms predicates_pass [of K A e _ gate halt control]
  by (fastforce simp: evaluate_candidate_def require_def frozen_record_def split: option.splits sum.splits if_splits)

text \<open>
  C39: A candidate is accepted exactly when the payload is the attested one and parses, nothing required is
  missing, no enum value is unknown, the legs name the accounts of the participants and no halt blocks; its
  delivery pattern is free of payment, or the cash leg is governed by a proceeding gate decision bound to
  this very envelope and covering its total; and, where the firm delivers securities, the quantity is
  positive, the capacity of the seller is known and attested, and the capacity is proprietary or a control
  result covers the quantity. So a payload that says free of payment needs no gate decision even when it
  carries a cash leg, and a proprietary delivery needs no control result.
\<close>

theorem accepted_iff:
  assumes "evaluate_candidate K A e payload aid at_time by gate halt control = Inr r"
  shows "fr_disposition r = Advisory.PASS \<longleftrightarrow> digest_payload A payload = payload_digest e \<and>
    (\<exists>c. read_candidate A payload = Some c \<and>
       missing_fields A c = [] \<and> unknown_members A c = [] \<and> linkage_codes c = [] \<and>
       (\<forall>h. halt = Some h \<longrightarrow> \<not> blocks_atreides K h) \<and>
       (no_cash_leg A (delivery_pattern c) \<or> (\<exists>d. gate = Some d \<and> gate_governs A e c d)) \<and>
       (\<forall>l. firm_securities_direction e = DELIVER \<and> securities_leg c = Some l \<longrightarrow>
          (\<exists>n s. sl_quantity l = Some n \<and> 0 < n \<and> seller_capacity c = Some s \<and> s \<in> SELLER_CAPACITIES \<and>
             account_capacity_digest c \<noteq> None \<and>
             (s = ''PROPRIETARY'' \<or> (\<exists>k. control = Some k \<and> control_covers e c l n k)))))"
  using acceptance_passes [OF assms] by (simp add: acceptable_def cash_governed_def delivery_controlled_def)

subsection \<open>From the cash gate to the prepared instruction\<close>

definition same_terms :: "OperationContext \<Rightarrow> FundingState \<Rightarrow> string option \<Rightarrow> string option \<Rightarrow> CatoCashDecision \<Rightarrow> bool" where
  "same_terms op f oid dig d \<longleftrightarrow> funding_state_snapshot d = snapshot_funding f \<and> evaluated_notional d = Some (notional op) \<and>
     evaluated_currency d = Some (currency op) \<and> obligation_digest d = dig \<and> obligation_id d = oid"

lemma same_terms_decisions:
  "same_terms op f oid dig (halt_decision K x op f uri oid dig)"
  "same_terms op f oid dig (unrecognised_decision op f uri oid dig)"
  "same_terms op f oid dig (Cato_Gate.decide ch op f uri oid dig v)"
  by (cases v; simp add: same_terms_def halt_decision_def unrecognised_decision_def Cato_Gate.decide_def Let_def)+

lemma same_terms_post_init:
  "same_terms op f oid dig d \<Longrightarrow> decision_post_init K d = Inr d' \<Longrightarrow>
   same_terms op f (Option.bind oid (ObligationId K)) dig d'"
  by (auto simp: decision_post_init_def same_terms_def Let_def require_def split: if_splits option.splits)

lemma evaluate_terms:
  assumes "evaluate K op f rails ofr uri age policy oid dig h = Inr d"
  shows "funding_state_snapshot d = snapshot_funding f" "evaluated_notional d = Some (notional op)"
    "evaluated_currency d = Some (currency op)" "obligation_digest d = dig"
    "obligation_id d = Option.bind oid (ObligationId K)"
proof -
  have "same_terms op f (Option.bind oid (ObligationId K)) dig d"
    using assms unfolding evaluate_def by (auto intro: same_terms_post_init same_terms_decisions split: if_splits)
  then show "funding_state_snapshot d = snapshot_funding f" "evaluated_notional d = Some (notional op)"
    "evaluated_currency d = Some (currency op)" "obligation_digest d = dig"
    "obligation_id d = Option.bind oid (ObligationId K)" by (simp_all add: same_terms_def)
qed

lemma snapshot_obligation: "map_of (rev (snapshot_funding f)) ''net_obligation'' = Some (Ev_Decimal (net_obligation f))"
  by (simp add: snapshot_funding_def)

lemma governed_by_evaluate:
  assumes "evaluate K op f rails ofr uri age policy oid dig h = Inr d"
  shows "gate_governs A e c d \<longleftrightarrow> proceeds d \<and> Option.bind oid (ObligationId K) = Some (env_obligation_id e) \<and>
    dig = Some (digest_envelope A e) \<and> cash_terms c = Some (notional op, currency op) \<and> notional op \<le> net_obligation f"
  by (auto simp: gate_governs_def evaluate_terms [OF assms] snapshot_obligation covers_less_def)

lemma prepared:
  assumes "prepare_instruction K A X e payload (Some r) i profile halt registry = Inr a"
  shows "digest_payload A payload = payload_digest e" "fr_disposition r = Advisory.PASS"
    "\<exists>c. read_candidate A payload = Some c \<and> cash_terms c = Some (num_value (amount i), instr_currency i) \<and>
       prepare_parties A c i registry = Inr ()"
    "emit_instruction_artifact K X i profile halt = Inr a"
  using assms by (auto simp: prepare_instruction_def split: option.splits sum.splits prod.splits)

text \<open>The parties of an instruction are those the pinned registry gives for the accounts of the payload.\<close>

definition parties_of_record ::
  "'b acceptance_kernel \<Rightarrow> ObligationCandidate \<Rightarrow> CashLegInstruction \<Rightarrow> ParticipantRegistry \<Rightarrow> bool" where
  "parties_of_record A c i reg \<longleftrightarrow> participant_registry_digest c = Some (digest_registry A (registry_body reg)) \<and>
     institution reg (Option.bind (cash_leg c) paying_account_id) = Some (debtor i) \<and>
     institution reg (Option.bind (cash_leg c) receiving_account_id) = Some (creditor i) \<and>
     bicfi (debtor i) \<noteq> bicfi (creditor i)"

lemma prepare_parties_iff:
  "prepare_parties A c i registry = Inr u \<longleftrightarrow> (\<exists>reg. registry = Some reg \<and> parties_of_record A c i reg)"
  by (auto simp: prepare_parties_def parties_of_record_def split: option.splits)

text \<open>
  C6: End to end: an instruction prepared on an acceptance is for money the firm has. When the acceptance
  was evaluated on the decision the cash gate returned, and the obligation is not free of payment, the
  instruction carries the gate's notional and currency; the amount is within the net obligation and that
  within the projected funded position; the gate named this obligation and its envelope, saw no halt, a
  finite stress reading of at most one half and fresh evidence; and the parties are those of the registry
  the obligation is pinned to.
\<close>

theorem instructed_money_is_funded:
  assumes "evaluate K' op f rails ofr uri age policy oid dig h = Inr d"
    "evaluate_candidate K A e payload aid at_time by (Some d) halt control = Inr r"
    "prepare_instruction K A X e payload (Some r) i profile halt' registry = Inr a"
    "read_candidate A payload = Some c" "\<not> no_cash_leg A (delivery_pattern c)"
  shows "num_value (amount i) = notional op \<and> instr_currency i = currency op \<and>
    num_value (amount i) \<le> net_obligation f \<and> net_obligation f \<le> projected_funded_position f \<and>
    0 \<le> net_debit_cap_headroom f \<and> clearing_fund_sufficient f \<and> \<not> is_material op \<and>
    Option.bind oid (ObligationId K') = Some (env_obligation_id e) \<and> dig = Some (digest_envelope A e) \<and>
    (\<forall>x. h = Some x \<longrightarrow> \<not> blocks_atreides K' x) \<and> (\<forall>x. halt = Some x \<longrightarrow> \<not> blocks_atreides K x) \<and>
    (\<exists>x. ofr = Finite x \<and> x \<le> 1 / 2) \<and> check_freshness op rails age policy = None \<and>
    (\<exists>reg. registry = Some reg \<and> parties_of_record A c i reg)"
proof -
  note p = prepared [OF assms(3)]
  have i: "cash_terms c = Some (num_value (amount i), instr_currency i)"
    "\<exists>reg. registry = Some reg \<and> parties_of_record A c i reg"
    using p(3) assms(4) by (auto simp: prepare_parties_iff)
  have "acceptable K A e c (Some d) halt control"
    using assms(2,4) p(2) predicates_pass [of K A e c "Some d" halt control]
    by (fastforce simp: evaluate_candidate_def require_def frozen_record_def split: sum.splits if_splits)
  then have halt: "\<forall>x. halt = Some x \<longrightarrow> \<not> blocks_atreides K x" and g: "gate_governs A e c d"
    using assms(5) by (auto simp: acceptable_def cash_governed_def)
  have g: "proceeds d" "Option.bind oid (ObligationId K') = Some (env_obligation_id e)" "dig = Some (digest_envelope A e)"
    "cash_terms c = Some (notional op, currency op)" "notional op \<le> net_obligation f"
    using g unfolding governed_by_evaluate [OF assms(1)] by auto
  have "(\<forall>x. h = Some x \<longrightarrow> \<not> blocks_atreides K' x) \<and> (\<exists>x. ofr = Finite x \<and> x \<le> 1 / 2) \<and>
      check_freshness op rails age policy = None \<and> \<not> is_material op \<and> net_obligation f \<le> projected_funded_position f \<and>
      0 \<le> net_debit_cap_headroom f \<and> clearing_fund_sufficient f"
    using g(1) unfolding evaluate_decision_iff [OF assms(1)] gate_verdict_proceed_iff gate_check_list_silent is_funded_def
    by blast
  then show ?thesis using g i halt by simp
qed

subsection \<open>A concrete obligation\<close>

definition w_sha256 :: string where
  "w_sha256 = ''sha256:'' @ replicate 64 (CHR ''a'')"

definition w_envelope :: SettlementObligationEnvelope where
  "w_envelope = \<lparr>env_obligation_id = ''OB-1'', payload_digest = w_sha256, firm_securities_direction = DELIVER,
     env_business_date = 739617\<rparr>"

definition w_cash_leg :: CashLeg where
  "w_cash_leg = \<lparr>principal = Some (251 / 2), accrued = Some 0, total = Some (251 / 2), cl_currency = Some ''USD'',
     value_date = Some ''2026-01-01'', paying_account_id = Some ''PAYER'', receiving_account_id = Some ''PAYEE''\<rparr>"

definition w_securities_leg :: SecuritiesLeg where
  "w_securities_leg = \<lparr>instrument_id = Some ''ISIN'', sl_quantity = Some 10, delivering_account_id = Some ''PAYEE'',
     sl_receiving_account_id = Some ''PAYER''\<rparr>"

definition w_candidate :: "string \<Rightarrow> ObligationCandidate" where
  "w_candidate pattern = \<lparr>source_manifest = Some [\<lparr>sr_kind = ''trade'', sr_identifier = ''T1'', sr_digest = w_sha256\<rparr>],
     securities_leg = Some w_securities_leg, cash_leg = Some w_cash_leg,
     participants = [\<lparr>participant_id = ''P'', account_id = ''PAYER'', role = ''BUYER''\<rparr>,
       \<lparr>participant_id = ''Q'', account_id = ''PAYEE'', role = ''SELLER''\<rparr>],
     delivery_pattern = Some pattern,
     candidate_paths = [\<lparr>cp_path_id = ''path'', cp_rail = ''FEDWIRE'', securities_route = ''DTC'', cash_route = ''FEDWIRE'',
       cp_delivery_pattern = Some pattern\<rparr>],
     expected_finality = [\<lparr>ef_leg = ''SECURITIES'', ef_type = ''GROSS'', ef_rule_set = ''rule''\<rparr>,
       \<lparr>ef_leg = ''CASH'', ef_type = ''GROSS'', ef_rule_set = ''rule''\<rparr>],
     corrections = [], seller_capacity = Some ''CUSTOMER'', account_capacity_digest = Some w_sha256,
     participant_registry_digest = Some w_sha256\<rparr>"

definition w_control :: ControlResult where
  "w_control = \<lparr>cr_as_of = 739617, ctl_disposition = Advisory.PASS,
     issues = [\<lparr>ic_issue = ''ISIN'', ic_required = Some 10, in_control = 10, in_noncontrol = 0, at_unknown_locations = 0,
       ic_books_total = None, conserved = None, ic_shortfall = Some 0, actions = []\<rparr>],
     ctl_missing_rules = [], ctl_missing_inputs = [], ctl_breaches = [], ctl_reasons = [], ctl_rules_used = []\<rparr>"

lemma w_new_year: "iso_date 739617 = ''2026-01-01''"
proof -
  have "ymd_ordinal 2026 1 1 = 739617"
    by (simp add: ymd_ordinal_def days_before_year_def month_length_def leap_year_def)
  moreover have "real_day 2026 1 1" by (simp add: real_day_def month_length_def)
  ultimately have "date_year 739617 = 2026" "date_month 739617 = 1" "date_day 739617 = 1"
    using ymd_roundtrip [of 2026 1 1] by simp_all
  then show ?thesis by (simp add: iso_date_def padded_def nat_text_small nat_text_big char_of_def bit_iff_odd)
qed

definition w_payload :: xml where
  "w_payload = leaf ''payload'' ''bytes''"

text \<open>A kernel whose payload is the candidate of one delivery pattern.\<close>

definition w_accepts :: "string \<Rightarrow> xml acceptance_kernel" where
  "w_accepts pattern = \<lparr>delivery_patterns = [''DVP'', ''FREE_OF_PAYMENT''], PAYMENT_ONLY = ''PAYMENT_ONLY'', PVP = ''PVP'',
     FOP = ''FREE_OF_PAYMENT'', finality_types = [''GROSS''], digest_envelope = (\<lambda>e. w_sha256),
     digest_payload = (\<lambda>p. w_sha256), digest_registry = (\<lambda>b. w_sha256), payload_fields = (\<lambda>p. Some (w_candidate pattern))\<rparr>"

definition w_registry :: ParticipantRegistry where
  "w_registry = \<lparr>registry_version = ''1'', registry_entries = [(''PAYER'', w_party ''AAAAUS33''), (''PAYEE'', w_party ''BBBBUS33'')]\<rparr>"

lemmas w_acceptance_defs = w_envelope_def w_cash_leg_def w_securities_leg_def w_candidate_def w_accepts_def

lemma w_sha256_ok: "sha256_text w_sha256" "digest_match w_sha256"
  by (simp_all add: sha256_text_def digest_match_def w_sha256_def lower_hex_def list_all_iff)

lemma w_read: "read_candidate (w_accepts pattern) p = Some (w_candidate pattern)"
  by (simp add: read_candidate_def candidate_ok_def w_acceptance_defs all_opt_def w_sha256_ok iso_date_text_def is_digit_def)

lemma w_complete:
  assumes "pattern \<in> {''DVP'', ''FREE_OF_PAYMENT''}"
  shows "missing_fields (w_accepts pattern) (w_candidate pattern) = []"
    "unknown_members (w_accepts pattern) (w_candidate pattern) = []"
    "linkage_codes (w_candidate pattern) = []"
    "delivery_controlled w_envelope (w_candidate pattern) (Some w_control)"
    "cash_terms (w_candidate pattern) = Some (251 / 2, ''USD'')"
  using assms
  by (auto simp: missing_fields_def missing_securities_def missing_cash_def named_if_def unknown_members_def all_opt_def
      linkage_codes_def unlinked_def delivery_controlled_def control_covers_def w_control_def w_new_year SELLER_CAPACITIES_def cash_terms_def no_securities_leg_def
      no_cash_leg_def enumerate_simps w_acceptance_defs)

lemma w_acceptance:
  assumes "pattern \<in> {''DVP'', ''FREE_OF_PAYMENT''}" "cash_governed (w_accepts pattern) w_envelope (w_candidate pattern) gate"
  shows "\<exists>r. evaluate_candidate w_halt_kernel (w_accepts pattern) w_envelope w_payload ''A1'' \<lparr>wall_clock = 0, utc_off = Some 0\<rparr>
      ''lc'' gate None (Some w_control) = Inr r \<and> fr_disposition r = Advisory.PASS \<and> fr_obligation_id r = ''OB-1'' \<and>
      fr_obligation_digest r = w_sha256"
proof -
  have a: "acceptable w_halt_kernel (w_accepts pattern) w_envelope (w_candidate pattern) gate None (Some w_control)"
    using assms w_complete [OF assms(1)] by (simp add: acceptable_def)
  obtain codes where "funding_verdict (w_accepts pattern) w_envelope (w_candidate pattern) gate = Inr (Advisory.PASS, codes)"
    using assms(2) funding_passes by blast
  then obtain ps where ps: "predicates w_halt_kernel (w_accepts pattern) w_envelope (w_candidate pattern) gate None (Some w_control) = Inr ps"
    by (auto simp: predicates_def funding_bound_def)
  with a have "worst ps = Advisory.PASS" using predicates_pass by blast
  then show ?thesis using ps w_read
    by (simp add: evaluate_candidate_def frozen_record_def, simp add: w_envelope_def w_accepts_def)
qed

lemma w_prepared:
  assumes "fr_disposition r = Advisory.PASS" "fr_obligation_id r = ''OB-1''" "fr_obligation_digest r = w_sha256"
    "pattern \<in> {''DVP'', ''FREE_OF_PAYMENT''}"
  shows "prepare_instruction w_halt_kernel (w_accepts pattern) w_wire w_envelope w_payload (Some r) w_instruction
     BASE_ISO_20022 None (Some w_registry) = Inr w_artifact"
proof -
  have "prepare_parties (w_accepts pattern) (w_candidate pattern) w_instruction (Some w_registry) = Inr ()"
    by (simp add: prepare_parties_iff parties_of_record_def institution_def w_registry_def w_acceptance_defs)
       (simp add: w_instruction_def w_party_def)
  moreover have "from_bytes w_wire x = Inr x" for x by (simp add: w_wire_def)
  moreover have "digest_payload (w_accepts pattern) w_payload = payload_digest w_envelope"
    "env_obligation_id w_envelope = ''OB-1''" "digest_envelope (w_accepts pattern) w_envelope = w_sha256"
    by (simp_all add: w_accepts_def w_envelope_def)
  moreover have "instr_currency w_instruction = ''USD''" by (simp add: w_instruction_def)
  ultimately show ?thesis using assms(1-3) w_read w_amount w_complete(5) [OF assms(4)] w_emitted
    by (simp add: prepare_instruction_def)
qed

subsection \<open>Witnesses\<close>

text \<open>The gate of the example, asked about the obligation and its envelope.\<close>

definition w_payment :: OperationContext where
  "w_payment = w_operation\<lparr>notional := 251 / 2\<rparr>"

lemma w_gate:
  obtains d where "evaluate w_kernel w_payment w_funding [w_rail FEDWIRE] (Finite 0) None None None
      (Some ''OB-1'') (Some w_sha256) None = Inr d" "gate_governs (w_accepts ''DVP'') w_envelope (w_candidate ''DVP'') d"
proof -
  have "binding_ok w_kernel (Some ''OB-1'') (Some w_sha256)" by (simp add: binding_ok_def w_kernel_def w_sha256_ok)
  then obtain d where d: "evaluate w_kernel w_payment w_funding [w_rail FEDWIRE] (Finite 0) None None None
      (Some ''OB-1'') (Some w_sha256) None = Inr d" using evaluate_returns by blast
  have s: "serviceable (snd (w_rail FEDWIRE)) w_payment" by (simp add: w_payment_def w_operation_def)
  then have r: "\<exists>(r, s) \<in> set [w_rail FEDWIRE]. r \<noteq> PORTS_WHOLESALE \<and> serviceable s w_payment" by (simp add: split_beta)
  have "recommend_rail w_payment [w_rail FEDWIRE] (Finite 0) \<noteq> None"
    by (rule recommend_rail_total [OF _ r]) (simp add: w_payment_def w_operation_def)
  then have "proceeds d"
    unfolding evaluate_decision_iff [OF d] gate_verdict_proceed_iff gate_check_list_silent
    using r by (simp add: op_unrecognised_fields_Nil is_funded_def check_freshness_def)
      (simp add: w_payment_def w_operation_def w_funding_def)
  then have "gate_governs (w_accepts ''DVP'') w_envelope (w_candidate ''DVP'') d"
    using w_complete(5) [of "''DVP''"] unfolding governed_by_evaluate [OF d]
    by (simp add: w_kernel_def w_envelope_def w_accepts_def w_payment_def w_operation_def w_funding_def)
  with d show ?thesis by (rule that)
qed

lemma w_not_free: "\<not> no_cash_leg (w_accepts ''DVP'') (delivery_pattern (w_candidate ''DVP''))"
  by (simp add: no_cash_leg_def w_accepts_def w_candidate_def)

theorem accepted_iff_witness:
  "\<exists>d r. evaluate_candidate w_halt_kernel (w_accepts ''DVP'') w_envelope w_payload ''A1'' \<lparr>wall_clock = 0, utc_off = Some 0\<rparr>
     ''lc'' (Some d) None (Some w_control) = Inr r \<and> gate_governs (w_accepts ''DVP'') w_envelope (w_candidate ''DVP'') d \<and>
     control_covers w_envelope (w_candidate ''DVP'') w_securities_leg 10 w_control"
proof -
  obtain d where d: "gate_governs (w_accepts ''DVP'') w_envelope (w_candidate ''DVP'') d" by (rule w_gate)
  then have g: "cash_governed (w_accepts ''DVP'') w_envelope (w_candidate ''DVP'') (Some d)" by (simp add: cash_governed_def)
  obtain r where r: "evaluate_candidate w_halt_kernel (w_accepts ''DVP'') w_envelope w_payload ''A1'' \<lparr>wall_clock = 0, utc_off = Some 0\<rparr>
      ''lc'' (Some d) None (Some w_control) = Inr r" "fr_disposition r = Advisory.PASS" using w_acceptance [OF _ g] by auto
  have c: "firm_securities_direction w_envelope = DELIVER" "securities_leg (w_candidate ''DVP'') = Some w_securities_leg"
    "sl_quantity w_securities_leg = Some 10" "seller_capacity (w_candidate ''DVP'') = Some ''CUSTOMER''"
    by (simp_all add: w_acceptance_defs)
  have "control_covers w_envelope (w_candidate ''DVP'') w_securities_leg 10 w_control"
    using accepted_iff [OF r(1)] r(2) w_read c by auto
  with r(1) d show ?thesis by blast
qed

theorem instructed_money_is_funded_witness:
  "num_value (amount w_instruction) \<le> net_obligation w_funding \<and>
   net_obligation w_funding \<le> projected_funded_position w_funding"
proof -
  obtain d where d: "evaluate w_kernel w_payment w_funding [w_rail FEDWIRE] (Finite 0) None None None
      (Some ''OB-1'') (Some w_sha256) None = Inr d" "gate_governs (w_accepts ''DVP'') w_envelope (w_candidate ''DVP'') d"
    by (rule w_gate)
  then have g: "cash_governed (w_accepts ''DVP'') w_envelope (w_candidate ''DVP'') (Some d)" by (simp add: cash_governed_def)
  obtain r where r: "evaluate_candidate w_halt_kernel (w_accepts ''DVP'') w_envelope w_payload ''A1'' \<lparr>wall_clock = 0, utc_off = Some 0\<rparr>
      ''lc'' (Some d) None (Some w_control) = Inr r" "fr_disposition r = Advisory.PASS" "fr_obligation_id r = ''OB-1''"
      "fr_obligation_digest r = w_sha256" using w_acceptance [OF _ g] by auto
  have p: "prepare_instruction w_halt_kernel (w_accepts ''DVP'') w_wire w_envelope w_payload (Some r) w_instruction
      BASE_ISO_20022 None (Some w_registry) = Inr w_artifact" by (rule w_prepared [OF r(2-4)]) simp
  from instructed_money_is_funded [OF d(1) r(1) p w_read w_not_free] show ?thesis by blast
qed

subsection \<open>Where the code does less than it says\<close>

text \<open>
  A payload that says free of payment and carries a cash leg is accepted with no gate decision at all, and
  the instruction of its cash leg is prepared.
\<close>

theorem free_of_payment_cash_is_ungated:
  "\<exists>r. evaluate_candidate w_halt_kernel (w_accepts ''FREE_OF_PAYMENT'') w_envelope w_payload ''A1''
      \<lparr>wall_clock = 0, utc_off = Some 0\<rparr> ''lc'' None None (Some w_control) = Inr r \<and>
    prepare_instruction w_halt_kernel (w_accepts ''FREE_OF_PAYMENT'') w_wire w_envelope w_payload (Some r) w_instruction
      BASE_ISO_20022 None (Some w_registry) = Inr w_artifact"
proof -
  have "cash_governed (w_accepts ''FREE_OF_PAYMENT'') w_envelope (w_candidate ''FREE_OF_PAYMENT'') None"
    by (simp add: cash_governed_def no_cash_leg_def w_accepts_def w_candidate_def)
  from w_acceptance [OF _ this] w_prepared [where pattern = "''FREE_OF_PAYMENT''"] show ?thesis by fastforce
qed

text \<open>
  A snapshot whose net obligation is no number makes the evaluation raise: the handler catches
  \<open>ValueError\<close>, and the reading raises \<open>InvalidOperation\<close>.
\<close>

theorem unreadable_obligation_escapes:
  "read_decimal v = None \<Longrightarrow>
   funding_terms (d\<lparr>evaluated_notional := Some t, evaluated_currency := Some y,
     funding_state_snapshot := [(''net_obligation'', Ev_Text v)]\<rparr>) t y = Inl Not_A_Decimal"
  by (simp add: funding_terms_def covers_less_def)

end
