(* ===== verification/Margin_Profile.thy ===== *)
theory Margin_Profile
  imports Prelude Complex_Main
begin

text \<open>
  Venue margin profiles, \<open>atreides/contracts/margin_profile.py\<close>: the vocabularies, the records with
  their validators in order, and the profile of a venue nobody has read. Decimals are finite rationals.
\<close>

datatype ProfileStatus = UNVERIFIED | POPULATED | SUPERSEDED

datatype DeterminabilityRegime = FULLY_COLLATERALIZED | PUBLISHED_PARAMETER | DISCRETIONARY | UNDISCLOSED

datatype MonitoringModel = MONITORING_NOT_ASSESSED | CONTINUOUS | BOUNDED_WINDOW | NONE_PUBLISHED

datatype CollectionModel =
    TRADITIONAL_HOURS_ONLY | OPTIONAL_WEEKEND_POSTING | REQUIRED_WEEKEND_POSTING | UNKNOWN_COLLECTION

datatype RevocationAuthority =
    REVOCATION_NONE_DISCLOSED | LIQUIDATION_AT_ADMINISTERED_PRICE | CANCELLATION_AND_RETURN_OF_FUNDS

datatype FigureSource = SOURCE_VENUE_PUBLISHED | SOURCE_ENTITLED_DOCUMENT | SOURCE_UNVERIFIED

datatype profile_error =
    Profile_Field string | Haircut_Without_Source | Responsiveness_Without_Source
  | Populated_Without_Provenance | Unverified_Model | Unverified_Determinability
  | Window_Without_Bound | Bound_Without_Window | Unverified_Monitoring

record CollateralEligibility =
  collateral_identifier :: string
  haircut_pct :: "rat option"
  collateral_source :: FigureSource

definition mk_CollateralEligibility ::
  "CollateralEligibility \<Rightarrow> (profile_error, CollateralEligibility) result" where
  "mk_CollateralEligibility c =
     require (collateral_identifier c \<noteq> []) (Profile_Field ''asset_identifier'') (
     require (case haircut_pct c of None \<Rightarrow> True | Some h \<Rightarrow> 0 \<le> h \<and> h \<le> 100) (Profile_Field ''haircut_pct'') (
     require (\<not> (haircut_pct c \<noteq> None \<and> collateral_source c = SOURCE_UNVERIFIED)) Haircut_Without_Source (Inr c)))"

text \<open>The source of an observation is \<open>VENUE_PUBLISHED\<close> or \<open>UNVERIFIED\<close>.\<close>

record ResponsivenessObservation =
  period_label :: string
  margin_rate_of_change :: "rat option"
  market_rate_of_change :: "rat option"
  observation_source :: FigureSource

definition mk_ResponsivenessObservation ::
  "ResponsivenessObservation \<Rightarrow> (profile_error, ResponsivenessObservation) result" where
  "mk_ResponsivenessObservation r =
     require (period_label r \<noteq> []) (Profile_Field ''period_label'') (
     require (observation_source r \<noteq> SOURCE_ENTITLED_DOCUMENT) (Profile_Field ''source'') (
     require (\<not> ((margin_rate_of_change r \<noteq> None \<or> market_rate_of_change r \<noteq> None) \<and>
        observation_source r = SOURCE_UNVERIFIED)) Responsiveness_Without_Source (Inr r)))"

record VenueMarginProfile =
  venue_id :: string
  profile_status :: ProfileStatus
  model_type :: "string option"
  calibration_notes :: "string option"
  addon_logic :: "string option"
  determinability :: DeterminabilityRegime
  collection_model :: CollectionModel
  monitoring_model :: MonitoringModel
  monitoring_window :: "string option"
  revocation_authority :: RevocationAuthority
  eligible_collateral :: "CollateralEligibility list"
  responsiveness :: "ResponsivenessObservation list"
  profile_provenance :: "string option"

definition mk_VenueMarginProfile :: "VenueMarginProfile \<Rightarrow> (profile_error, VenueMarginProfile) result" where
  "mk_VenueMarginProfile p =
     (let unverified = (profile_status p = UNVERIFIED); bounded = (monitoring_model p = BOUNDED_WINDOW) in
      require (venue_id p \<noteq> []) (Profile_Field ''venue_id'') (
      require (\<not> (profile_status p = POPULATED \<and> \<not> truthy (profile_provenance p))) Populated_Without_Provenance (
      require (\<not> (unverified \<and> \<not> (model_type p = None \<and> calibration_notes p = None \<and> addon_logic p = None)))
        Unverified_Model (
      require (\<not> (unverified \<and> determinability p \<noteq> UNDISCLOSED)) Unverified_Determinability (
      require (\<not> (monitoring_window p \<noteq> None \<and> \<not> bounded)) Window_Without_Bound (
      require (\<not> (bounded \<and> \<not> truthy (monitoring_window p))) Bound_Without_Window (
      require (\<not> (unverified \<and> monitoring_model p \<noteq> MONITORING_NOT_ASSESSED)) Unverified_Monitoring
        (Inr p))))))))"

definition figure_may_be_trusted_absolutely :: "VenueMarginProfile \<Rightarrow> bool" where
  "figure_may_be_trusted_absolutely p \<longleftrightarrow>
     profile_status p = POPULATED \<and> determinability p = FULLY_COLLATERALIZED"

definition absent_margin_profile :: "string \<Rightarrow> (profile_error, VenueMarginProfile) result" where
  "absent_margin_profile v = mk_VenueMarginProfile
     \<lparr>venue_id = v, profile_status = UNVERIFIED, model_type = None, calibration_notes = None,
      addon_logic = None, determinability = UNDISCLOSED, collection_model = UNKNOWN_COLLECTION,
      monitoring_model = MONITORING_NOT_ASSESSED, monitoring_window = None,
      revocation_authority = REVOCATION_NONE_DISCLOSED, eligible_collateral = [], responsiveness = [],
      profile_provenance = None\<rparr>"

text \<open>
  no figure without provenance. A constructible profile whose figure may be trusted absolutely
  cites its source; one that is unverified asserts no model, no determinability and no monitoring; a
  profile states a monitoring window exactly when its monitoring is bounded; and the profile of a venue
  nobody has read exists for every named venue, is unverified and is never trusted.
\<close>

theorem profile_asserts_what_it_cites:
  assumes "mk_VenueMarginProfile p = Inr y"
  shows "y = p \<and> (figure_may_be_trusted_absolutely p \<longrightarrow> truthy (profile_provenance p)) \<and>
    (profile_status p = UNVERIFIED \<longrightarrow> model_type p = None \<and> calibration_notes p = None \<and> addon_logic p = None \<and>
       determinability p = UNDISCLOSED \<and> monitoring_model p = MONITORING_NOT_ASSESSED) \<and>
    (monitoring_window p \<noteq> None \<longleftrightarrow> monitoring_model p = BOUNDED_WINDOW) \<and>
    (\<forall>v. v \<noteq> [] \<longrightarrow> (\<exists>z. absent_margin_profile v = Inr z \<and> profile_status z = UNVERIFIED \<and>
       \<not> figure_may_be_trusted_absolutely z))"
  using assms
  by (auto simp: mk_VenueMarginProfile_def Let_def figure_may_be_trusted_absolutely_def absent_margin_profile_def
      truthy_iff)

theorem profile_asserts_what_it_cites_witness:
  "\<exists>p. mk_VenueMarginProfile p = Inr p \<and> figure_may_be_trusted_absolutely p \<and> truthy (profile_provenance p)"
proof -
  let ?p = "\<lparr>venue_id = ''CCP'', profile_status = POPULATED, model_type = None, calibration_notes = None,
      addon_logic = None, determinability = FULLY_COLLATERALIZED, collection_model = TRADITIONAL_HOURS_ONLY,
      monitoring_model = BOUNDED_WINDOW, monitoring_window = Some ''08:00-17:00'',
      revocation_authority = REVOCATION_NONE_DISCLOSED, eligible_collateral = [], responsiveness = [],
      profile_provenance = Some ''Rulebook 4.1''\<rparr>"
  have c: "mk_VenueMarginProfile ?p = Inr ?p" by (simp add: mk_VenueMarginProfile_def)
  have "figure_may_be_trusted_absolutely ?p" by (simp add: figure_may_be_trusted_absolutely_def)
  with profile_asserts_what_it_cites [OF c] c show ?thesis by blast
qed

text \<open>
  The check of an unverified profile reads the model, the determinability and the monitoring only: it
  may still assert how the venue collects and that it can cancel.
\<close>

theorem unverified_profile_can_assert_collection:
  "\<exists>p. mk_VenueMarginProfile p = Inr p \<and> profile_status p = UNVERIFIED \<and>
     collection_model p = REQUIRED_WEEKEND_POSTING \<and> revocation_authority p = CANCELLATION_AND_RETURN_OF_FUNDS"
proof -
  let ?p = "\<lparr>venue_id = ''CCP'', profile_status = UNVERIFIED, model_type = None, calibration_notes = None,
      addon_logic = None, determinability = UNDISCLOSED, collection_model = REQUIRED_WEEKEND_POSTING,
      monitoring_model = MONITORING_NOT_ASSESSED, monitoring_window = None,
      revocation_authority = CANCELLATION_AND_RETURN_OF_FUNDS, eligible_collateral = [], responsiveness = [],
      profile_provenance = None\<rparr>"
  have "mk_VenueMarginProfile ?p = Inr ?p" by (simp add: mk_VenueMarginProfile_def)
  then show ?thesis by (intro exI [of _ ?p]) simp
qed

end
