(* ===== verification/Margin_Impact.thy ===== *)
theory Margin_Impact
  imports Margin_Profile Boundary Decimal_Context
begin

text \<open>
  Margin as an attribute of a break, \<open>atreides/contracts/margin_impact.py\<close>: the assessment with its
  validators in order, the fail-safe default, the priority of a queue, and the two assessments built
  from supplied figures. Decimals are finite; \<open>abs\<close> and \<open>-\<close> round to the 28 digits of the default
  context. What an assessment rests on is kept as a case with the values its wording mentions.
\<close>

subsection \<open>Vocabularies\<close>

datatype MarginDisposition =
    NO_MARGIN_EFFECT | WITHIN_TOLERANCE | UNDER_COLLATERALIZED | OVER_COLLATERALIZED
  | CALL_WINDOW_CLOSED | METHODOLOGY_DEPENDENT | MARGIN_INDETERMINATE

datatype MarginDirection = OWED_TO_VENUE | OWED_TO_FIRM | NEUTRAL | UNKNOWN_DIRECTION

datatype IndeterminacyReason =
    NO_INDETERMINACY | UNSPECIFIED | UNRECONCILED_POSITION | UNREAD_VENUE_PROFILE
  | VENUE_PUBLISHES_NOTHING | OUTSIDE_MONITORING_WINDOW

datatype Observability = OBSERVED | DERIVED | UNOBSERVABLE

datatype impact_error =
    Unread_Schedule | Open_Window_Reopens | Impact_Field string | Amount_Without_Currency
  | Currency_Without_Amount | Exposure_Unobservable | Direction_Contradicts | Window_Missing | Window_Open
  | Threshold_Missing | Above_Threshold | Reason_Off_Disposition | Reason_Missing | Indeterminate_Figure
  | Effect_Contradicted | Monitoring_Not_Bounded string MonitoringModel

record CallWindow =
  cw_collection_model :: CollectionModel
  is_open :: bool
  closes_at_offset_seconds :: "int option"
  reopens_at_offset_seconds :: "int option"

definition mk_CallWindow :: "CallWindow \<Rightarrow> (impact_error, CallWindow) result" where
  "mk_CallWindow w =
     require (\<not> (cw_collection_model w = UNKNOWN_COLLECTION \<and>
        (closes_at_offset_seconds w \<noteq> None \<or> reopens_at_offset_seconds w \<noteq> None))) Unread_Schedule (
     require (\<not> (is_open w \<and> reopens_at_offset_seconds w \<noteq> None)) Open_Window_Reopens (Inr w))"

definition quantified :: "MarginDisposition list" where
  "quantified = [UNDER_COLLATERALIZED, OVER_COLLATERALIZED, CALL_WINDOW_CLOSED]"

subsection \<open>The assessment\<close>

datatype impact_basis =
    Stated string | Not_Assessed string | Fund_Below rat rat string
  | Outside_Window string "string option" string

definition basis_given :: "impact_basis \<Rightarrow> bool" where
  "basis_given b \<longleftrightarrow> (case b of Stated s \<Rightarrow> s \<noteq> [] | _ \<Rightarrow> True)"

record MarginImpact =
  mi_disposition :: MarginDisposition
  direction :: MarginDirection
  observability :: Observability
  collateral_observability :: Observability
  delta_amount :: "rat option"
  delta_currency :: "string option"
  materiality_threshold :: "rat option"
  indeterminacy :: IndeterminacyReason
  mi_venue :: "string option"
  methodology :: "string option"
  collateral_finality_class :: "FinalityClass option"
  mi_obligation_finality_class :: "FinalityClass option"
  call_window :: "CallWindow option"
  assessed_at_offset_seconds :: "int option"
  mi_basis :: impact_basis

text \<open>Pydantic strips the strings of an assessment before it checks them.\<close>

definition strip_basis :: "impact_basis \<Rightarrow> impact_basis" where
  "strip_basis b = (case b of Stated s \<Rightarrow> Stated (py_strip s) | _ \<Rightarrow> b)"

definition stripped :: "MarginImpact \<Rightarrow> MarginImpact" where
  "stripped x = x\<lparr>delta_currency := map_option py_strip (delta_currency x),
     mi_venue := map_option py_strip (mi_venue x), methodology := map_option py_strip (methodology x),
     mi_basis := strip_basis (mi_basis x)\<rparr>"

definition impact_fields :: "MarginImpact \<Rightarrow> (impact_error, unit) result" where
  "impact_fields x =
     require (case delta_currency x of None \<Rightarrow> True | Some c \<Rightarrow> length c = 3) (Impact_Field ''delta_currency'') (
     require (case materiality_threshold x of None \<Rightarrow> True | Some t \<Rightarrow> 0 \<le> t) (Impact_Field ''materiality_threshold'') (
     require (basis_given (mi_basis x)) (Impact_Field ''basis'') (Inr ())))"

fun expected_direction :: "MarginDisposition \<Rightarrow> MarginDirection option" where
  "expected_direction UNDER_COLLATERALIZED = Some OWED_TO_VENUE"
| "expected_direction OVER_COLLATERALIZED = Some OWED_TO_FIRM"
| "expected_direction NO_MARGIN_EFFECT = Some NEUTRAL"
| "expected_direction _ = None"

definition impact_validators :: "MarginImpact \<Rightarrow> (impact_error, MarginImpact) result" where
  "impact_validators x =
     require (\<not> (delta_amount x \<noteq> None \<and> \<not> truthy (delta_currency x))) Amount_Without_Currency (
     require (\<not> (truthy (delta_currency x) \<and> delta_amount x = None)) Currency_Without_Amount (
     require (\<not> (observability x = UNOBSERVABLE \<and> mi_disposition x \<in> set quantified)) Exposure_Unobservable (
     require (case expected_direction (mi_disposition x) of None \<Rightarrow> True | Some d \<Rightarrow> direction x = d)
       Direction_Contradicts (
     require (\<not> (mi_disposition x = CALL_WINDOW_CLOSED \<and> call_window x = None)) Window_Missing (
     require (\<not> (mi_disposition x = CALL_WINDOW_CLOSED \<and>
        (case call_window x of None \<Rightarrow> False | Some w \<Rightarrow> is_open w))) Window_Open (
     require (\<not> (mi_disposition x = WITHIN_TOLERANCE \<and> materiality_threshold x = None)) Threshold_Missing (
     require (\<not> (mi_disposition x = WITHIN_TOLERANCE \<and>
        (case (delta_amount x, materiality_threshold x) of (Some a, Some t) \<Rightarrow> rnd28 \<bar>a\<bar> > t | _ \<Rightarrow> False)))
       Above_Threshold (
     require (\<not> (indeterminacy x \<noteq> NO_INDETERMINACY \<and> mi_disposition x \<noteq> MARGIN_INDETERMINATE))
       Reason_Off_Disposition (
     require (\<not> (mi_disposition x = MARGIN_INDETERMINATE \<and> indeterminacy x = NO_INDETERMINACY)) Reason_Missing (
     require (\<not> (mi_disposition x = MARGIN_INDETERMINATE \<and> delta_amount x \<noteq> None)) Indeterminate_Figure (
     require (\<not> (mi_disposition x = NO_MARGIN_EFFECT \<and> delta_amount x \<notin> {None, Some 0})) Effect_Contradicted
       (Inr x))))))))))))"

definition mk_MarginImpact :: "MarginImpact \<Rightarrow> (impact_error, MarginImpact) result" where
  "mk_MarginImpact x =
     (case impact_fields (stripped x) of Inl e \<Rightarrow> Inl e | Inr _ \<Rightarrow> impact_validators (stripped x))"

definition escalates :: "MarginImpact \<Rightarrow> bool" where
  "escalates x \<longleftrightarrow> mi_disposition x \<notin> {NO_MARGIN_EFFECT, WITHIN_TOLERANCE}"

definition collateral_mismatch :: "MarginImpact \<Rightarrow> bool" where
  "collateral_mismatch x \<longleftrightarrow>
     collateral_finality_class x \<noteq> None \<and> mi_obligation_finality_class x \<noteq> None \<and>
     collateral_finality_class x \<noteq> mi_obligation_finality_class x"

text \<open>The fields a call leaves at their defaults.\<close>

definition impact_defaults :: "MarginDisposition \<Rightarrow> MarginDirection \<Rightarrow> Observability \<Rightarrow> Observability \<Rightarrow>
    impact_basis \<Rightarrow> MarginImpact" where
  "impact_defaults d dir ob cob b =
     \<lparr>mi_disposition = d, direction = dir, observability = ob, collateral_observability = cob,
      delta_amount = None, delta_currency = None, materiality_threshold = None,
      indeterminacy = NO_INDETERMINACY, mi_venue = None, methodology = None,
      collateral_finality_class = None, mi_obligation_finality_class = None, call_window = None,
      assessed_at_offset_seconds = None, mi_basis = b\<rparr>"

definition absent_margin_assessment ::
  "string \<Rightarrow> IndeterminacyReason \<Rightarrow> (impact_error, MarginImpact) result" where
  "absent_margin_assessment why r = mk_MarginImpact
     ((impact_defaults MARGIN_INDETERMINATE UNKNOWN_DIRECTION UNOBSERVABLE UNOBSERVABLE (Not_Assessed why))
      \<lparr>indeterminacy := r\<rparr>)"

subsection \<open>Prioritisation\<close>

fun base_rank :: "MarginDisposition \<Rightarrow> int" where
  "base_rank CALL_WINDOW_CLOSED = 20"
| "base_rank MARGIN_INDETERMINATE = 30"
| "base_rank METHODOLOGY_DEPENDENT = 40"
| "base_rank OVER_COLLATERALIZED = 60"
| "base_rank WITHIN_TOLERANCE = 70"
| "base_rank NO_MARGIN_EFFECT = 80"
| "base_rank UNDER_COLLATERALIZED = 0"

fun indeterminacy_offset :: "IndeterminacyReason \<Rightarrow> int" where
  "indeterminacy_offset UNSPECIFIED = 0"
| "indeterminacy_offset UNRECONCILED_POSITION = 1"
| "indeterminacy_offset UNREAD_VENUE_PROFILE = 2"
| "indeterminacy_offset VENUE_PUBLISHES_NOTHING = 3"
| "indeterminacy_offset OUTSIDE_MONITORING_WINDOW = 4"
| "indeterminacy_offset NO_INDETERMINACY = 0"

definition UNDER_IN_CYCLE :: int where "UNDER_IN_CYCLE = 10"
definition UNDER_OUT_OF_CYCLE :: int where "UNDER_OUT_OF_CYCLE = 50"

text \<open>The table has no row for an under-collateralisation, which is ranked before it is read.\<close>

definition in_cycle :: "MarginImpact \<Rightarrow> bool" where
  "in_cycle x \<longleftrightarrow> (case call_window x of None \<Rightarrow> False | Some w \<Rightarrow> is_open w)"

definition margin_priority_rank :: "MarginImpact \<Rightarrow> int" where
  "margin_priority_rank x =
     (if mi_disposition x = UNDER_COLLATERALIZED
      then (if in_cycle x then UNDER_IN_CYCLE else UNDER_OUT_OF_CYCLE)
      else if mi_disposition x = MARGIN_INDETERMINATE
      then base_rank (mi_disposition x) + indeterminacy_offset (indeterminacy x)
      else base_rank (mi_disposition x))"

definition sort_by_margin_consequence :: "MarginImpact list \<Rightarrow> MarginImpact list" where
  "sort_by_margin_consequence xs = sort_key margin_priority_rank xs"

subsection \<open>Assessments from supplied figures\<close>

definition margin_impact_for_clearing_fund_deficiency ::
  "rat \<Rightarrow> rat \<Rightarrow> string \<Rightarrow> string \<Rightarrow> CallWindow option \<Rightarrow> (impact_error, MarginImpact) result" where
  "margin_impact_for_clearing_fund_deficiency requirement posted cur venue window =
     (let shut = (case window of None \<Rightarrow> False | Some w \<Rightarrow> \<not> is_open w) in
      mk_MarginImpact
        ((impact_defaults (if shut then CALL_WINDOW_CLOSED else UNDER_COLLATERALIZED) OWED_TO_VENUE OBSERVED OBSERVED
            (Fund_Below posted requirement venue))
         \<lparr>delta_amount := Some (rnd28 (requirement - posted)), delta_currency := Some cur,
          mi_venue := Some venue, call_window := window\<rparr>))"

definition margin_impact_outside_monitoring_window ::
  "VenueMarginProfile \<Rightarrow> string \<Rightarrow> (impact_error, MarginImpact) result" where
  "margin_impact_outside_monitoring_window p exposure_note =
     require (monitoring_model p = BOUNDED_WINDOW) (Monitoring_Not_Bounded (venue_id p) (monitoring_model p)) (
     mk_MarginImpact
       ((impact_defaults MARGIN_INDETERMINATE UNKNOWN_DIRECTION UNOBSERVABLE OBSERVED
           (Outside_Window (venue_id p) (monitoring_window p) (py_strip exposure_note)))
        \<lparr>indeterminacy := OUTSIDE_MONITORING_WINDOW, mi_venue := Some (venue_id p), methodology := model_type p\<rparr>))"

definition raises_quorum_question :: "MarginImpact \<Rightarrow> rat \<Rightarrow> bool" where
  "raises_quorum_question x threshold =
     (case delta_amount x of None \<Rightarrow> False | Some a \<Rightarrow> rnd28 \<bar>a\<bar> \<ge> threshold)"

subsection \<open>What an assessment says\<close>

lemma impact_validators_same: "impact_validators x = Inr y \<Longrightarrow> y = x"
  by (simp only: impact_validators_def require_eq_Inr_iff sum.inject)

lemma mk_MarginImpact_stripped:
  assumes "mk_MarginImpact x = Inr y"
  shows "y = stripped x \<and> impact_validators y = Inr y"
proof -
  have v: "impact_validators (stripped x) = Inr y"
    using assms by (simp add: mk_MarginImpact_def split: sum.splits)
  with impact_validators_same [OF v] show ?thesis by simp
qed

text \<open>
  an assessment does not contradict itself. A constructible one carries an amount exactly with a
  currency; asserts a quantified exposure only on an observable basis and with the direction it implies;
  calls a window closed only when it holds a closed window; is within tolerance only of a stated
  threshold, which the amount, if given, does not exceed after rounding; gives a reason exactly when it
  is indeterminate, and then no amount.
\<close>

theorem assessment_is_consistent:
  assumes "mk_MarginImpact x = Inr y"
  shows "(delta_amount y = None \<longleftrightarrow> \<not> truthy (delta_currency y)) \<and>
    (mi_disposition y \<in> {UNDER_COLLATERALIZED, OVER_COLLATERALIZED, CALL_WINDOW_CLOSED} \<longrightarrow>
       observability y \<noteq> UNOBSERVABLE) \<and>
    (\<forall>d. expected_direction (mi_disposition y) = Some d \<longrightarrow> direction y = d) \<and>
    (mi_disposition y = CALL_WINDOW_CLOSED \<longrightarrow> (\<exists>w. call_window y = Some w \<and> \<not> is_open w)) \<and>
    (mi_disposition y = WITHIN_TOLERANCE \<longrightarrow>
       (\<exists>t. materiality_threshold y = Some t \<and> (\<forall>a. delta_amount y = Some a \<longrightarrow> rnd28 \<bar>a\<bar> \<le> t))) \<and>
    (mi_disposition y = MARGIN_INDETERMINATE \<longleftrightarrow> indeterminacy y \<noteq> NO_INDETERMINACY) \<and>
    (mi_disposition y = MARGIN_INDETERMINATE \<longrightarrow> delta_amount y = None)"
proof -
  have v: "impact_validators y = Inr y" using mk_MarginImpact_stripped [OF assms] by blast
  show ?thesis
    using v unfolding impact_validators_def require_eq_Inr_iff
    by (auto simp: quantified_def truthy_iff split: option.splits)
qed

lemma absent_margin_assessment_eq:
  "absent_margin_assessment why r =
     (if r = NO_INDETERMINACY then Inl Reason_Missing else
      Inr ((impact_defaults MARGIN_INDETERMINATE UNKNOWN_DIRECTION UNOBSERVABLE UNOBSERVABLE (Not_Assessed why))
        \<lparr>indeterminacy := r\<rparr>))"
  by (simp add: absent_margin_assessment_def mk_MarginImpact_def impact_fields_def basis_given_def
      impact_validators_def impact_defaults_def stripped_def strip_basis_def quantified_def)

theorem assessment_is_consistent_witness:
  "\<exists>y. absent_margin_assessment [] UNSPECIFIED = Inr y \<and> delta_amount y = None"
proof -
  obtain y where y: "absent_margin_assessment [] UNSPECIFIED = Inr y" "mi_disposition y = MARGIN_INDETERMINATE"
    by (simp add: absent_margin_assessment_eq impact_defaults_def)
  then show ?thesis
    using assessment_is_consistent [OF y(1) [unfolded absent_margin_assessment_def]] by blast
qed

lemma rank_escalates: "escalates x \<longleftrightarrow> margin_priority_rank x < 70"
  by (cases "mi_disposition x"; cases "indeterminacy x")
    (simp_all add: escalates_def margin_priority_rank_def UNDER_IN_CYCLE_def UNDER_OUT_OF_CYCLE_def)

lemma rank_in_cycle: "mi_disposition x = UNDER_COLLATERALIZED \<and> in_cycle x \<longleftrightarrow> margin_priority_rank x \<le> 10"
  by (cases "mi_disposition x"; cases "indeterminacy x")
    (simp_all add: margin_priority_rank_def UNDER_IN_CYCLE_def UNDER_OUT_OF_CYCLE_def)

lemma rank_indeterminate:
  "mi_disposition x = MARGIN_INDETERMINATE \<longleftrightarrow> 30 \<le> margin_priority_rank x \<and> margin_priority_rank x < 40"
  by (cases "mi_disposition x"; cases "indeterminacy x")
    (simp_all add: margin_priority_rank_def UNDER_IN_CYCLE_def UNDER_OUT_OF_CYCLE_def)

text \<open>
  the queue. Sorting by margin consequence rearranges the breaks, keeps the given order among equals,
  puts a call inside its window before everything else, and nothing that leaves the routine queue behind
  anything that stays in it; an unobservable margin state comes before every recoverable
  over-collateralisation, and after every exposure whose window has closed.
\<close>

theorem queue_by_consequence:
  assumes "ys = sort_by_margin_consequence xs"
  shows "mset ys = mset xs \<and>
    (\<forall>k. filter (\<lambda>x. margin_priority_rank x = k) ys = filter (\<lambda>x. margin_priority_rank x = k) xs) \<and>
    (\<forall>i j. i < j \<and> j < length ys \<longrightarrow>
      (escalates (ys ! j) \<longrightarrow> escalates (ys ! i)) \<and>
      (mi_disposition (ys ! j) = UNDER_COLLATERALIZED \<and> in_cycle (ys ! j) \<longrightarrow>
         mi_disposition (ys ! i) = UNDER_COLLATERALIZED \<and> in_cycle (ys ! i)) \<and>
      (mi_disposition (ys ! j) = MARGIN_INDETERMINATE \<longrightarrow> mi_disposition (ys ! i) \<noteq> OVER_COLLATERALIZED) \<and>
      (mi_disposition (ys ! j) = CALL_WINDOW_CLOSED \<longrightarrow> mi_disposition (ys ! i) \<noteq> MARGIN_INDETERMINATE))"
proof -
  have s: "margin_priority_rank (ys ! i) \<le> margin_priority_rank (ys ! j)" if "i < j" "j < length ys" for i j
    using sorted_nth_mono [of "map margin_priority_rank ys" i j] that
    by (simp add: assms sort_by_margin_consequence_def)
  have over: "mi_disposition x = OVER_COLLATERALIZED \<Longrightarrow> margin_priority_rank x = 60"
    "mi_disposition x = CALL_WINDOW_CLOSED \<Longrightarrow> margin_priority_rank x = 20" for x
    by (simp_all add: margin_priority_rank_def)
  have "mset ys = mset xs" by (simp add: assms sort_by_margin_consequence_def)
  moreover have "filter (\<lambda>x. margin_priority_rank x = k) ys = filter (\<lambda>x. margin_priority_rank x = k) xs" for k
    using sort_key_stable [of margin_priority_rank k xs] by (simp add: assms sort_by_margin_consequence_def)
  moreover have "(escalates (ys ! j) \<longrightarrow> escalates (ys ! i)) \<and>
      (mi_disposition (ys ! j) = UNDER_COLLATERALIZED \<and> in_cycle (ys ! j) \<longrightarrow>
         mi_disposition (ys ! i) = UNDER_COLLATERALIZED \<and> in_cycle (ys ! i)) \<and>
      (mi_disposition (ys ! j) = MARGIN_INDETERMINATE \<longrightarrow> mi_disposition (ys ! i) \<noteq> OVER_COLLATERALIZED) \<and>
      (mi_disposition (ys ! j) = CALL_WINDOW_CLOSED \<longrightarrow> mi_disposition (ys ! i) \<noteq> MARGIN_INDETERMINATE)"
    if "i < j" "j < length ys" for i j
    unfolding rank_escalates rank_in_cycle rank_indeterminate
    using s [OF that] over [of "ys ! i"] over [of "ys ! j"] by (auto 0 3)
  ultimately show ?thesis by blast
qed

theorem queue_by_consequence_witness:
  "\<exists>a b. absent_margin_assessment [] UNSPECIFIED = Inr a \<and> \<not> escalates b \<and>
     mset (sort_by_margin_consequence [b, a]) = mset [b, a]"
proof -
  obtain a where a: "absent_margin_assessment [] UNSPECIFIED = Inr a" by (simp add: absent_margin_assessment_eq)
  let ?b = "impact_defaults NO_MARGIN_EFFECT NEUTRAL OBSERVED OBSERVED (Not_Assessed [])"
  have "\<not> escalates ?b" by (simp add: escalates_def impact_defaults_def)
  with a queue_by_consequence [OF refl, of "[?b, a]"] show ?thesis by blast
qed

text \<open>
  what nobody assessed escalates. The fail-safe default exists for every reason but the one that
  says nothing applies; it always leaves the routine queue, carries no amount, and never asks for a
  quorum by its size.
\<close>

theorem unassessed_break_escalates:
  assumes "r \<noteq> NO_INDETERMINACY"
  shows "\<exists>x. absent_margin_assessment why r = Inr x \<and> escalates x \<and> mi_disposition x = MARGIN_INDETERMINATE \<and>
    indeterminacy x = r \<and> (\<forall>t. \<not> raises_quorum_question x t)"
  using assms
  by (simp add: absent_margin_assessment_eq impact_defaults_def escalates_def raises_quorum_question_def)

theorem unassessed_break_escalates_witness:
  "\<exists>x. absent_margin_assessment ''none'' UNREAD_VENUE_PROFILE = Inr x \<and> escalates x"
  using unassessed_break_escalates [of UNREAD_VENUE_PROFILE "''none''"] by auto

text \<open>
  The deficiency assessment does not compare its two figures: a member that has posted more than it owes
  is assessed as owing the venue a negative amount.
\<close>

theorem surplus_reads_as_deficiency:
  "\<exists>x. margin_impact_for_clearing_fund_deficiency 100 150 ''USD'' ''CCP'' None = Inr x \<and>
     mi_disposition x = UNDER_COLLATERALIZED \<and> direction x = OWED_TO_VENUE \<and> delta_amount x = Some (-50)"
proof -
  have "py_strip ''USD'' = ''USD''" by (simp add: py_strip_def py_space_def)
  then show ?thesis
    by (simp add: margin_impact_for_clearing_fund_deficiency_def mk_MarginImpact_def impact_fields_def
        basis_given_def impact_validators_def impact_defaults_def stripped_def strip_basis_def quantified_def)
qed

end
