(* ===== verification/Eligibility.thy ===== *)
theory Eligibility
  imports Advisory
begin

text \<open>
  Eligibility before routing: the evidence models and \<open>verify_eligibility\<close> of
  \<open>agents/tier2/eligibility.py\<close>, and the check and verification records of
  \<open>agents/tier2/outputs.py\<close>. Strings are as pydantic leaves them, stripped. A datetime is naive or an
  instant; comparing one with the other raises \<open>TypeError\<close>. Reasons keep the values they mention.
\<close>

subsection \<open>Evidence\<close>

datatype moment = Naive int | Aware int

datatype eligibility_error =
    Evidence_Field string | Match_Without_List | List_Without_Match | No_Expected_Correspondent
  | Failure_Without_Reason | Reason_Without_Failure | Duplicate_Check | Missing_Checks | Mixed_Datetimes

definition before :: "moment \<Rightarrow> moment \<Rightarrow> (eligibility_error, bool) result" where
  "before a b = (case (a, b) of
     (Naive x, Naive y) \<Rightarrow> Inr (x < y) | (Aware x, Aware y) \<Rightarrow> Inr (x < y) | _ \<Rightarrow> Inl Mixed_Datetimes)"

text \<open>KYC and KYB evidence have the same fields.\<close>

record IdentityEvidence =
  party_id :: string
  reference_id :: string
  ie_verified_at :: moment
  expires_at :: moment

definition mk_IdentityEvidence :: "IdentityEvidence \<Rightarrow> (eligibility_error, IdentityEvidence) result" where
  "mk_IdentityEvidence e =
     require (party_id e \<noteq> []) (Evidence_Field ''party_id'') (
     require (reference_id e \<noteq> []) (Evidence_Field ''reference_id'') (Inr e))"

text \<open>OFAC and other sanctions screenings have the same fields and the same validator.\<close>

record ScreeningEvidence =
  subject_id :: string
  screening_id :: string
  matched :: bool
  matched_list :: "string option"
  screened_at :: moment

definition mk_ScreeningEvidence :: "ScreeningEvidence \<Rightarrow> (eligibility_error, ScreeningEvidence) result" where
  "mk_ScreeningEvidence e =
     require (subject_id e \<noteq> []) (Evidence_Field ''subject_id'') (
     require (screening_id e \<noteq> []) (Evidence_Field ''screening_id'') (
     require (\<not> (matched e \<and> \<not> truthy (matched_list e))) Match_Without_List (
     require (\<not> (\<not> matched e \<and> matched_list e \<noteq> None)) List_Without_Match (Inr e))))"

record CorrespondentBankComplianceEvidence =
  evidence_bic :: string
  attestation_id :: string
  attested_at :: moment
  ce_expires_at :: moment

definition mk_CorrespondentBankComplianceEvidence ::
  "CorrespondentBankComplianceEvidence \<Rightarrow> (eligibility_error, CorrespondentBankComplianceEvidence) result" where
  "mk_CorrespondentBankComplianceEvidence e =
     require (8 \<le> length (evidence_bic e) \<and> length (evidence_bic e) \<le> 11) (Evidence_Field ''correspondent_bic'') (
     require (attestation_id e \<noteq> []) (Evidence_Field ''attestation_id'') (Inr e))"

record EligibilityInputs =
  check_time :: moment
  kyc :: "IdentityEvidence option"
  kyb :: "IdentityEvidence option"
  ofac_screenings :: "ScreeningEvidence list"
  sanctions_screenings :: "ScreeningEvidence list"
  correspondent_compliance :: "CorrespondentBankComplianceEvidence list"
  requires_kyb :: bool
  requires_correspondent_compliance :: bool
  expected_correspondent_bics :: "string list"

definition mk_EligibilityInputs :: "EligibilityInputs \<Rightarrow> (eligibility_error, EligibilityInputs) result" where
  "mk_EligibilityInputs i =
     require (\<not> (requires_correspondent_compliance i \<and> expected_correspondent_bics i = []))
       No_Expected_Correspondent (Inr i)"

subsection \<open>Checks and verifications\<close>

datatype EligibilityCheckKind = KYC | KYB | OFAC | SANCTIONS | CORRESPONDENT_BANK_COMPLIANCE

fun check_kind_value :: "EligibilityCheckKind \<Rightarrow> string" where
  "check_kind_value KYC = ''kyc''"
| "check_kind_value KYB = ''kyb''"
| "check_kind_value OFAC = ''ofac''"
| "check_kind_value SANCTIONS = ''sanctions''"
| "check_kind_value CORRESPONDENT_BANK_COMPLIANCE = ''correspondent_bank_compliance''"

definition check_kinds :: "EligibilityCheckKind list" where
  "check_kinds = [KYC, KYB, OFAC, SANCTIONS, CORRESPONDENT_BANK_COMPLIANCE]"

datatype failure_reason =
    Identity_Missing | Identity_Expired string moment moment | Not_Screened | Screening_Matched string "string option"
  | Attestations_Missing "string list" | Attestations_Expired "string list" moment

record EligibilityCheck =
  check_kind :: EligibilityCheckKind
  passed :: bool
  check_failure :: "failure_reason option"
  check_verified_at :: moment

definition mk_EligibilityCheck :: "EligibilityCheck \<Rightarrow> (eligibility_error, EligibilityCheck) result" where
  "mk_EligibilityCheck c =
     require (\<not> (\<not> passed c \<and> check_failure c = None)) Failure_Without_Reason (
     require (\<not> (passed c \<and> check_failure c \<noteq> None)) Reason_Without_Failure (Inr c))"

record EligibilityVerification =
  checks :: "EligibilityCheck list"

definition all_passed :: "EligibilityVerification \<Rightarrow> bool" where
  "all_passed v \<longleftrightarrow> list_all passed (checks v)"

definition failed_checks :: "EligibilityVerification \<Rightarrow> EligibilityCheck list" where
  "failed_checks v = filter (\<lambda>c. \<not> passed c) (checks v)"

definition mk_EligibilityVerification ::
  "EligibilityCheck list \<Rightarrow> (eligibility_error, EligibilityVerification) result" where
  "mk_EligibilityVerification cs =
     require (distinct (map check_kind cs)) Duplicate_Check (
     require (set check_kinds \<subseteq> set (map check_kind cs)) Missing_Checks (Inr \<lparr>checks = cs\<rparr>))"

subsection \<open>The five checks\<close>

definition check_of :: "EligibilityInputs \<Rightarrow> EligibilityCheckKind \<Rightarrow> failure_reason option \<Rightarrow>
    (eligibility_error, EligibilityCheck) result" where
  "check_of i k why = mk_EligibilityCheck
     \<lparr>check_kind = k, passed = (why = None), check_failure = why, check_verified_at = check_time i\<rparr>"

definition verify_identity :: "EligibilityInputs \<Rightarrow> EligibilityCheckKind \<Rightarrow> IdentityEvidence option \<Rightarrow>
    (eligibility_error, EligibilityCheck) result" where
  "verify_identity i k evidence =
     (case evidence of None \<Rightarrow> check_of i k (Some Identity_Missing)
      | Some e \<Rightarrow> (case before (expires_at e) (check_time i) of Inl err \<Rightarrow> Inl err
          | Inr True \<Rightarrow> check_of i k (Some (Identity_Expired (party_id e) (expires_at e) (check_time i)))
          | Inr False \<Rightarrow> check_of i k None))"

definition verify_kyc :: "EligibilityInputs \<Rightarrow> (eligibility_error, EligibilityCheck) result" where
  "verify_kyc i = verify_identity i KYC (kyc i)"

definition verify_kyb :: "EligibilityInputs \<Rightarrow> (eligibility_error, EligibilityCheck) result" where
  "verify_kyb i = (if \<not> requires_kyb i then check_of i KYB None else verify_identity i KYB (kyb i))"

definition verify_screening :: "EligibilityInputs \<Rightarrow> EligibilityCheckKind \<Rightarrow> ScreeningEvidence list \<Rightarrow>
    (eligibility_error, EligibilityCheck) result" where
  "verify_screening i k screenings =
     (if screenings = [] then check_of i k (Some Not_Screened)
      else case filter matched screenings of
        [] \<Rightarrow> check_of i k None
      | s # _ \<Rightarrow> check_of i k (Some (Screening_Matched (subject_id s) (matched_list s))))"

definition verify_ofac :: "EligibilityInputs \<Rightarrow> (eligibility_error, EligibilityCheck) result" where
  "verify_ofac i = verify_screening i OFAC (ofac_screenings i)"

definition verify_sanctions :: "EligibilityInputs \<Rightarrow> (eligibility_error, EligibilityCheck) result" where
  "verify_sanctions i = verify_screening i SANCTIONS (sanctions_screenings i)"

text \<open>The dict by BIC: the last attestation of a bank is the one that counts.\<close>

definition attestation :: "EligibilityInputs \<Rightarrow> string \<Rightarrow> CorrespondentBankComplianceEvidence option" where
  "attestation i bic = map_of (rev (map (\<lambda>e. (evidence_bic e, e)) (correspondent_compliance i))) bic"

definition missing_bics :: "EligibilityInputs \<Rightarrow> string list" where
  "missing_bics i = filter (\<lambda>b. attestation i b = None) (expected_correspondent_bics i)"

fun expired_bics :: "EligibilityInputs \<Rightarrow> string list \<Rightarrow> (eligibility_error, string list) result" where
  "expired_bics i [] = Inr []"
| "expired_bics i (b # bs) =
     (case attestation i b of None \<Rightarrow> expired_bics i bs
      | Some e \<Rightarrow> (case before (ce_expires_at e) (check_time i) of Inl err \<Rightarrow> Inl err
          | Inr late \<Rightarrow> (case expired_bics i bs of Inl err \<Rightarrow> Inl err
              | Inr rest \<Rightarrow> Inr (if late then b # rest else rest))))"

definition verify_correspondent_bank_compliance ::
  "EligibilityInputs \<Rightarrow> (eligibility_error, EligibilityCheck) result" where
  "verify_correspondent_bank_compliance i =
     (if \<not> requires_correspondent_compliance i then check_of i CORRESPONDENT_BANK_COMPLIANCE None
      else case expired_bics i (expected_correspondent_bics i) of Inl err \<Rightarrow> Inl err
        | Inr expired \<Rightarrow>
            if missing_bics i \<noteq> [] then
              check_of i CORRESPONDENT_BANK_COMPLIANCE (Some (Attestations_Missing (sorted_set (missing_bics i))))
            else if expired \<noteq> [] then
              check_of i CORRESPONDENT_BANK_COMPLIANCE (Some (Attestations_Expired (sorted_set expired) (check_time i)))
            else check_of i CORRESPONDENT_BANK_COMPLIANCE None)"

definition verify_eligibility :: "EligibilityInputs \<Rightarrow> (eligibility_error, EligibilityVerification) result" where
  "verify_eligibility i =
     (case collect [verify_kyc i, verify_kyb i, verify_ofac i, verify_sanctions i,
        verify_correspondent_bank_compliance i] of
        Inl err \<Rightarrow> Inl err | Inr cs \<Rightarrow> mk_EligibilityVerification cs)"

subsection \<open>What a verification says\<close>

definition current_at :: "moment \<Rightarrow> moment \<Rightarrow> bool" where
  "current_at expiry t \<longleftrightarrow> before expiry t = Inr False"

lemma before_result: "before a b = Inl e \<Longrightarrow> e = Mixed_Datetimes"
  by (simp add: before_def split: moment.splits)

lemma check_of_eq: "check_of i k why =
    Inr \<lparr>check_kind = k, passed = (why = None), check_failure = why, check_verified_at = check_time i\<rparr>"
  by (cases why) (simp_all add: check_of_def mk_EligibilityCheck_def)

definition outcome_of :: "EligibilityCheckKind \<Rightarrow> bool \<Rightarrow>
    (eligibility_error, EligibilityCheck) result \<Rightarrow> bool" where
  "outcome_of k ok r \<longleftrightarrow> (case r of Inl e \<Rightarrow> e = Mixed_Datetimes | Inr c \<Rightarrow> check_kind c = k \<and> (passed c \<longleftrightarrow> ok))"

lemma identity_outcome:
  "outcome_of k (\<exists>e. evidence = Some e \<and> current_at (expires_at e) (check_time i)) (verify_identity i k evidence)"
  by (auto simp: outcome_of_def verify_identity_def check_of_eq current_at_def
      split: option.split sum.split bool.split dest: before_result)

lemma screening_outcome:
  "outcome_of k (ss \<noteq> [] \<and> (\<forall>s \<in> set ss. \<not> matched s)) (verify_screening i k ss)"
  by (auto simp: outcome_of_def verify_screening_def check_of_eq filter_empty_conv split: list.split
      dest: filter_eq_ConsD)

lemma expired_bics_outcome:
  "case expired_bics i bs of Inl e \<Rightarrow> e = Mixed_Datetimes
   | Inr xs \<Rightarrow> xs = [] \<longleftrightarrow> (\<forall>b \<in> set bs. \<forall>e. attestation i b = Some e \<longrightarrow> current_at (ce_expires_at e) (check_time i))"
  by (induction bs) (auto simp: current_at_def split: option.split sum.splits if_splits dest: before_result)

definition correspondents_current :: "EligibilityInputs \<Rightarrow> bool" where
  "correspondents_current i \<longleftrightarrow> (\<forall>b \<in> set (expected_correspondent_bics i).
     \<exists>e. attestation i b = Some e \<and> current_at (ce_expires_at e) (check_time i))"

lemma compliance_outcome:
  "outcome_of CORRESPONDENT_BANK_COMPLIANCE (requires_correspondent_compliance i \<longrightarrow> correspondents_current i)
     (verify_correspondent_bank_compliance i)"
proof (cases "requires_correspondent_compliance i")
  case True
  have m: "missing_bics i = [] \<longleftrightarrow> (\<forall>b \<in> set (expected_correspondent_bics i). attestation i b \<noteq> None)"
    by (simp add: missing_bics_def filter_empty_conv)
  show ?thesis
    using expired_bics_outcome [of "expected_correspondent_bics i" i] True m
    by (auto simp: outcome_of_def verify_correspondent_bank_compliance_def check_of_eq
        correspondents_current_def split: sum.splits)
      (metis option.inject)
qed (simp add: outcome_of_def verify_correspondent_bank_compliance_def check_of_eq)

lemma kyb_outcome:
  "outcome_of KYB (requires_kyb i \<longrightarrow> (\<exists>e. kyb i = Some e \<and> current_at (expires_at e) (check_time i))) (verify_kyb i)"
  using identity_outcome [of KYB "kyb i" i]
  by (cases "requires_kyb i") (simp_all add: verify_kyb_def outcome_of_def check_of_eq)

text \<open>The five results in a row: the first that raises, or a verification of all five.\<close>

lemma verification_of_outcomes:
  assumes "outcome_of KYC a1 r1" "outcome_of KYB a2 r2" "outcome_of OFAC a3 r3"
    "outcome_of SANCTIONS a4 r4" "outcome_of CORRESPONDENT_BANK_COMPLIANCE a5 r5"
  shows "case (case collect [r1, r2, r3, r4, r5] of Inl e \<Rightarrow> Inl e | Inr cs \<Rightarrow> mk_EligibilityVerification cs) of
      Inl e \<Rightarrow> e = Mixed_Datetimes
    | Inr v \<Rightarrow> map check_kind (checks v) = check_kinds \<and> map passed (checks v) = [a1, a2, a3, a4, a5]"
  using assms
  by (cases r1; cases r2; cases r3; cases r4; cases r5)
    (simp_all add: outcome_of_def mk_EligibilityVerification_def check_kinds_def)

lemma verification_outcome:
  "case verify_eligibility i of Inl e \<Rightarrow> e = Mixed_Datetimes
   | Inr v \<Rightarrow> map check_kind (checks v) = check_kinds \<and> map passed (checks v) =
     [\<exists>e. kyc i = Some e \<and> current_at (expires_at e) (check_time i),
      requires_kyb i \<longrightarrow> (\<exists>e. kyb i = Some e \<and> current_at (expires_at e) (check_time i)),
      ofac_screenings i \<noteq> [] \<and> (\<forall>s \<in> set (ofac_screenings i). \<not> matched s),
      sanctions_screenings i \<noteq> [] \<and> (\<forall>s \<in> set (sanctions_screenings i). \<not> matched s),
      requires_correspondent_compliance i \<longrightarrow> correspondents_current i]"
  unfolding verify_eligibility_def verify_kyc_def verify_ofac_def verify_sanctions_def
  by (intro verification_of_outcomes identity_outcome kyb_outcome screening_outcome compliance_outcome)

lemma all_passed_map: "all_passed v \<longleftrightarrow> (\<forall>b \<in> set (map passed (checks v)). b)"
  by (simp add: all_passed_def list_all_iff)

lemma verify_eligibility_raises: "verify_eligibility i = Inl e \<Longrightarrow> e = Mixed_Datetimes"
  using verification_outcome [of i] by simp

text \<open>
  eligibility is exactly what the evidence shows. A verification has each of the five checks once,
  in order, and passes as a whole exactly when the client is identified and not expired, the
  counterparty too where that is required, both screenings were made and none matched, and, where
  correspondents are required, the last attestation of every expected bank is there and not expired.
\<close>

theorem eligible_iff:
  assumes "verify_eligibility i = Inr v"
  shows "map check_kind (checks v) = check_kinds \<and>
    (all_passed v \<longleftrightarrow>
      (\<exists>e. kyc i = Some e \<and> current_at (expires_at e) (check_time i)) \<and>
      (requires_kyb i \<longrightarrow> (\<exists>e. kyb i = Some e \<and> current_at (expires_at e) (check_time i))) \<and>
      (ofac_screenings i \<noteq> [] \<and> (\<forall>s \<in> set (ofac_screenings i). \<not> matched s)) \<and>
      (sanctions_screenings i \<noteq> [] \<and> (\<forall>s \<in> set (sanctions_screenings i). \<not> matched s)) \<and>
      (requires_correspondent_compliance i \<longrightarrow> (\<forall>b \<in> set (expected_correspondent_bics i).
         \<exists>e. attestation i b = Some e \<and> current_at (ce_expires_at e) (check_time i))))"
proof -
  have "map check_kind (checks v) = check_kinds \<and> map passed (checks v) =
     [\<exists>e. kyc i = Some e \<and> current_at (expires_at e) (check_time i),
      requires_kyb i \<longrightarrow> (\<exists>e. kyb i = Some e \<and> current_at (expires_at e) (check_time i)),
      ofac_screenings i \<noteq> [] \<and> (\<forall>s \<in> set (ofac_screenings i). \<not> matched s),
      sanctions_screenings i \<noteq> [] \<and> (\<forall>s \<in> set (sanctions_screenings i). \<not> matched s),
      requires_correspondent_compliance i \<longrightarrow> correspondents_current i]"
    using verification_outcome [of i] assms by simp
  then show ?thesis unfolding all_passed_map by (simp only: list.set correspondents_current_def) blast
qed

definition w_evidence :: EligibilityInputs where
  "w_evidence =
     \<lparr>check_time = Aware 100,
      kyc = Some \<lparr>party_id = ''BO'', reference_id = ''K1'', ie_verified_at = Aware 0, expires_at = Aware 200\<rparr>,
      kyb = None,
      ofac_screenings = [\<lparr>subject_id = ''BO'', screening_id = ''S1'', matched = False, matched_list = None,
        screened_at = Aware 90\<rparr>],
      sanctions_screenings = [\<lparr>subject_id = ''BO'', screening_id = ''S2'', matched = False, matched_list = None,
        screened_at = Aware 90\<rparr>],
      correspondent_compliance = [], requires_kyb = False, requires_correspondent_compliance = False,
      expected_correspondent_bics = []\<rparr>"

lemma w_evidence_verify: "\<exists>v. verify_eligibility w_evidence = Inr v"
  by (simp add: verify_eligibility_def verify_kyc_def verify_kyb_def verify_ofac_def verify_sanctions_def
      verify_correspondent_bank_compliance_def verify_identity_def verify_screening_def check_of_eq before_def
      mk_EligibilityVerification_def check_kinds_def w_evidence_def)

theorem eligible_iff_witness: "\<exists>v. verify_eligibility w_evidence = Inr v \<and> all_passed v"
proof -
  obtain v where v: "verify_eligibility w_evidence = Inr v" using w_evidence_verify by blast
  have "all_passed v"
    using eligible_iff [OF v] by (simp add: w_evidence_def current_at_def before_def)
  with v show ?thesis by blast
qed

end
