(* ===== verification/Activation.thy ===== *)
theory Activation
  imports Eligibility
begin

text \<open>
  Agent activation, \<open>atreides/activation/\<close>: the refusal of a handoff at the receiving agent
  (\<open>handoff.py\<close>), what an activated agent may emit (\<open>outputs.py\<close>) and the supervisor that runs every
  agent once per tick (\<open>supervisor.py\<close>).

  \<open>Recorded\<close> and \<open>Absent\<close> are the kernel's; an absence reads as \<open>INDETERMINATE\<close>. A further kind of
  claim is \<open>Other_Provenance\<close>. The kernel \<open>K\<close> says which actors may authorize, which are of the adaptive
  class and which halts block Atreides. \<open>uuid4 n a\<close> is the identifier drawn for the output of agent \<open>a\<close> at
  tick \<open>n\<close>: there is at most one. A runner is what its protocol shows, functions that may raise. The
  wording of details is kept as the case it words.
\<close>

subsection \<open>Handoff\<close>

datatype AbsenceKind = NOTHING_RECORDED | NOT_YET_KNOWN | ABSENCE_NOT_APPLICABLE | Other_Absence string

datatype 'a recorded = Recorded 'a | Absent AbsenceKind string

datatype InputOrigin = OPERATOR_DIRECT | AGENT_LATERAL

type_synonym HandoffBasis = "string recorded"

definition OPERATOR_DIRECT_BASIS :: HandoffBasis where
  "OPERATOR_DIRECT_BASIS = Absent NOTHING_RECORDED ''operator-direct under CAOM-001''"

datatype admission_detail =
    Null_Basis | Direct_With_Identifier | Direct_Admitted AbsenceKind string
  | Lateral_Without_Handoff AbsenceKind string | Lateral_Admitted string

record Admission =
  origin :: InputOrigin
  adm_basis :: HandoffBasis
  adm_disposition :: Disposition
  adm_detail :: admission_detail

definition admitted :: "Admission \<Rightarrow> bool" where
  "admitted d \<longleftrightarrow> adm_disposition d = PASS"

definition admit :: "InputOrigin \<Rightarrow> HandoffBasis option \<Rightarrow> Admission" where
  "admit og basis =
     (case basis of
        None \<Rightarrow> \<lparr>origin = og, adm_basis = Absent NOTHING_RECORDED ''no handoff basis was stated; null is not a record'',
          adm_disposition = BLOCK, adm_detail = Null_Basis\<rparr>
      | Some b \<Rightarrow>
          (case (og, b) of
             (OPERATOR_DIRECT, Recorded i) \<Rightarrow>
               \<lparr>origin = og, adm_basis = b, adm_disposition = BLOCK, adm_detail = Direct_With_Identifier\<rparr>
           | (OPERATOR_DIRECT, Absent k r) \<Rightarrow>
               \<lparr>origin = og, adm_basis = b, adm_disposition = PASS, adm_detail = Direct_Admitted k r\<rparr>
           | (AGENT_LATERAL, Absent k r) \<Rightarrow>
               \<lparr>origin = og, adm_basis = b, adm_disposition = BLOCK, adm_detail = Lateral_Without_Handoff k r\<rparr>
           | (AGENT_LATERAL, Recorded i) \<Rightarrow>
               \<lparr>origin = og, adm_basis = b, adm_disposition = PASS, adm_detail = Lateral_Admitted i\<rparr>))"

definition basis_from_lineage :: "string option \<Rightarrow> HandoffBasis" where
  "basis_from_lineage c2 = (case c2 of None \<Rightarrow> OPERATOR_DIRECT_BASIS | Some i \<Rightarrow> Recorded i)"

definition require_handoff :: "InputOrigin \<Rightarrow> HandoffBasis option \<Rightarrow> (Admission, Admission) result" where
  "require_handoff og basis = (let d = admit og basis in if \<not> admitted d then Inl d else Inr d)"

subsection \<open>What an agent may emit\<close>

definition ADVISORY_PROVENANCE :: "Provenance list" where
  "ADVISORY_PROVENANCE = [Other_Provenance ''RECOMMENDATION'', Other_Provenance ''FORECAST'', POLICY_RESULT]"

datatype AgentTier = TIER_1 | TIER_2

datatype RefusalCode =
    NO_RECORDED_HANDOFF | HANDOFF_BASIS_NULL | LIFECYCLE_TRANSITION_FROM_AGENT | REFUSED_HALT_ACTIVE

record ('a, 'h) activation_kernel =
  authorizing :: "'a \<Rightarrow> bool"
  adaptive :: "'a \<Rightarrow> bool"
  halt_blocks :: "'h \<Rightarrow> bool"
  halt_identifier :: "'h \<Rightarrow> string"
  halt_number :: "'h \<Rightarrow> int"
  halt_why :: "'h \<Rightarrow> string"

datatype 'e activation_error =
    Agent_Field string | May_Authorize | Adaptive_Class | No_Gates | Naive_Observation
  | Provenance_Not_Advisory Provenance | No_Policy_Behind_Result | Absent_Evidence_Passes
  | Basis_Disagrees | Recommendation_On_Refusal | Refusal_Does_Not_Block | Refusal_Not_Policy
  | Two_Agents string | Reason_Required | Unknown_Agent string | Runner_Raised 'e

record 'a AgentIdentity =
  agent_id :: string
  tier :: AgentTier
  actor :: 'a

definition mk_AgentIdentity ::
  "('a, 'h) activation_kernel \<Rightarrow> 'a AgentIdentity \<Rightarrow> ('e activation_error, 'a AgentIdentity) result" where
  "mk_AgentIdentity K i =
     require (agent_id i \<noteq> []) (Agent_Field ''agent_id'') (
     require (\<not> authorizing K (actor i)) May_Authorize (
     require (\<not> adaptive K (actor i)) Adaptive_Class (Inr i)))"

record PolicyExecution =
  pe_policy :: string
  gates :: "string list"
  pe_outcome :: Disposition

definition mk_PolicyExecution :: "PolicyExecution \<Rightarrow> ('e activation_error, PolicyExecution) result" where
  "mk_PolicyExecution p =
     require (pe_policy p \<noteq> []) (Agent_Field ''policy'') (require (gates p \<noteq> []) No_Gates (Inr p))"

datatype summary_text = Summary string | Halt_Summary string | Handoff_Summary | Transition_Summary string

record 'a AgentOutputBase =
  output_id :: string
  out_agent :: "'a AgentIdentity"
  operation_ref :: string
  observed_at :: moment
  out_provenance :: Provenance
  out_disposition :: Disposition
  handoff_basis :: HandoffBasis
  admission :: Admission
  policy_execution :: "PolicyExecution recorded"
  summary :: summary_text

fun absent :: "'a recorded \<Rightarrow> bool" where
  "absent (Recorded x) = False"
| "absent (Absent k r) = True"

definition output_checks :: "'a AgentOutputBase \<Rightarrow> ('e activation_error, unit) result" where
  "output_checks x =
     require (summary x \<noteq> Summary []) (Agent_Field ''summary'') (
     require (case observed_at x of Naive _ \<Rightarrow> False | Aware _ \<Rightarrow> True) Naive_Observation (
     require (out_provenance x \<in> set ADVISORY_PROVENANCE) (Provenance_Not_Advisory (out_provenance x)) (
     require (\<not> (out_provenance x = POLICY_RESULT \<and> absent (policy_execution x))) No_Policy_Behind_Result (
     require (\<not> (absent (policy_execution x) \<and> out_disposition x = PASS)) Absent_Evidence_Passes (
     require (adm_basis (admission x) = handoff_basis x) Basis_Disagrees (Inr ()))))))"

datatype refusal_detail =
    Halt_Detail string int string | Handoff_Detail admission_detail
  | Transition_Detail string string string string

datatype 'a AgentOutput =
    AgentRecommendation "'a AgentOutputBase"
  | AgentRefusal "'a AgentOutputBase" RefusalCode refusal_detail "string option"

definition mk_AgentRecommendation :: "'a AgentOutputBase \<Rightarrow> ('e activation_error, 'a AgentOutput) result" where
  "mk_AgentRecommendation x =
     (case output_checks x of Inl e \<Rightarrow> Inl e | Inr _ \<Rightarrow>
      require (admitted (admission x)) Recommendation_On_Refusal (Inr (AgentRecommendation x)))"

definition mk_AgentRefusal ::
  "'a AgentOutputBase \<Rightarrow> RefusalCode \<Rightarrow> refusal_detail \<Rightarrow> string option \<Rightarrow> ('e activation_error, 'a AgentOutput) result" where
  "mk_AgentRefusal x code detail lifecycle =
     (case output_checks x of Inl e \<Rightarrow> Inl e | Inr _ \<Rightarrow>
      require (out_disposition x = BLOCK) Refusal_Does_Not_Block (
      require (out_provenance x = POLICY_RESULT) Refusal_Not_Policy (Inr (AgentRefusal x code detail lifecycle))))"

fun base_of :: "'a AgentOutput \<Rightarrow> 'a AgentOutputBase" where
  "base_of (AgentRecommendation x) = x"
| "base_of (AgentRefusal x code detail lifecycle) = x"

fun is_refusal :: "'a AgentOutput \<Rightarrow> bool" where
  "is_refusal (AgentRecommendation x) = False"
| "is_refusal (AgentRefusal x code detail lifecycle) = True"

definition blocked_policy :: "string \<Rightarrow> string \<Rightarrow> PolicyExecution recorded" where
  "blocked_policy p g = Recorded \<lparr>pe_policy = p, gates = [g], pe_outcome = BLOCK\<rparr>"

definition refuse_lifecycle_transition ::
  "string \<Rightarrow> 'a AgentIdentity \<Rightarrow> string \<Rightarrow> string \<Rightarrow> string \<Rightarrow> string \<Rightarrow> moment \<Rightarrow> HandoffBasis \<Rightarrow> Admission \<Rightarrow>
   ('e activation_error, 'a AgentOutput) result" where
  "refuse_lifecycle_transition uid agent opid lifecycle s s' t basis adm =
     mk_AgentRefusal
       \<lparr>output_id = uid, out_agent = agent, operation_ref = opid, observed_at = t, out_provenance = POLICY_RESULT,
        out_disposition = BLOCK, handoff_basis = basis, admission = adm,
        policy_execution = blocked_policy ''atreides.activation.lifecycle_transition_boundary''
          ''agent_output_may_not_transition_a_lifecycle_object'',
        summary = Transition_Summary lifecycle\<rparr>
       LIFECYCLE_TRANSITION_FROM_AGENT (Transition_Detail (agent_id agent) lifecycle s s') (Some lifecycle)"

definition no_policy_execution :: "string \<Rightarrow> PolicyExecution recorded" where
  "no_policy_execution why = Absent NOTHING_RECORDED why"

subsection \<open>The supervisor\<close>

record Finding =
  fd_provenance :: Provenance
  fd_disposition :: Disposition
  fd_summary :: string
  fd_policy_execution :: "PolicyExecution recorded"

record WorkUnit =
  unit_operation :: string
  unit_origin :: InputOrigin
  unit_basis :: "HandoffBasis option"

record ('a, 'e) AgentRunner =
  identity :: "'a AgentIdentity"
  expects_refusal :: bool
  next_unit :: "int \<Rightarrow> moment \<Rightarrow> ('e, WorkUnit) result"
  observe :: "WorkUnit \<Rightarrow> int \<Rightarrow> moment \<Rightarrow> ('e, Finding) result"

record ('a, 'e) Slot =
  runner :: "('a, 'e) AgentRunner"
  up :: bool
  stopped_reason :: "string option"
  last_output :: "'a AgentOutput option"
  last_recommendation :: "'a AgentOutput option"
  last_refusal :: "'a AgentOutput option"
  recommendations :: int
  refusals :: int

record ('a, 'e) AgentSupervisor =
  slots :: "(string \<times> ('a, 'e) Slot) list"
  tick_number :: int
  tick_at :: "moment option"

definition new_slot :: "('a, 'e) AgentRunner \<Rightarrow> ('a, 'e) Slot" where
  "new_slot r = \<lparr>runner = r, up = True, stopped_reason = None, last_output = None,
     last_recommendation = None, last_refusal = None, recommendations = 0, refusals = 0\<rparr>"

fun register_all :: "(string \<times> ('a, 'e) Slot) list \<Rightarrow> ('a, 'e) AgentRunner list \<Rightarrow>
    ('e activation_error, (string \<times> ('a, 'e) Slot) list) result" where
  "register_all acc [] = Inr acc"
| "register_all acc (r # rs) =
     require (agent_id (identity r) \<notin> fst ` set acc) (Two_Agents (agent_id (identity r)))
       (register_all (acc @ [(agent_id (identity r), new_slot r)]) rs)"

definition mk_AgentSupervisor ::
  "('a, 'e) AgentRunner list \<Rightarrow> ('e activation_error, ('a, 'e) AgentSupervisor) result" where
  "mk_AgentSupervisor rs =
     (case register_all [] rs of Inl e \<Rightarrow> Inl e
      | Inr sl \<Rightarrow> Inr \<lparr>slots = sl, tick_number = -1, tick_at = None\<rparr>)"

definition set_slot :: "string \<Rightarrow> (('a, 'e) Slot \<Rightarrow> ('a, 'e) Slot) \<Rightarrow> ('a, 'e) AgentSupervisor \<Rightarrow>
    ('a, 'e) AgentSupervisor" where
  "set_slot i f s = s\<lparr>slots := map (\<lambda>(j, sl). if j = i then (j, f sl) else (j, sl)) (slots s)\<rparr>"

definition stop :: "string \<Rightarrow> string \<Rightarrow> ('a, 'e) AgentSupervisor \<Rightarrow>
    ('e activation_error, ('a, 'e) AgentSupervisor) result" where
  "stop i why s =
     require (py_strip why \<noteq> []) Reason_Required (
     require (i \<in> fst ` set (slots s)) (Unknown_Agent i) (
     Inr (set_slot i (\<lambda>sl. sl\<lparr>up := False, stopped_reason := Some why\<rparr>) s)))"

definition start :: "string \<Rightarrow> ('a, 'e) AgentSupervisor \<Rightarrow>
    ('e activation_error, ('a, 'e) AgentSupervisor) result" where
  "start i s =
     require (i \<in> fst ` set (slots s)) (Unknown_Agent i) (
     Inr (set_slot i (\<lambda>sl. sl\<lparr>up := True, stopped_reason := None\<rparr>) s))"

definition halt_refusal where
  "halt_refusal K uid i u d t h = mk_AgentRefusal
     \<lparr>output_id = uid, out_agent = i, operation_ref = unit_operation u, observed_at = t,
      out_provenance = POLICY_RESULT, out_disposition = BLOCK, handoff_basis = adm_basis d, admission = d,
      policy_execution = blocked_policy ''cannae_kernel.halt.gate_under_halt'' ''halt_covers_atreides'',
      summary = Halt_Summary (halt_identifier K h)\<rparr>
     REFUSED_HALT_ACTIVE (Halt_Detail (halt_identifier K h) (halt_number K h) (halt_why K h)) None"

definition handoff_refusal where
  "handoff_refusal uid i u d t = mk_AgentRefusal
     \<lparr>output_id = uid, out_agent = i, operation_ref = unit_operation u, observed_at = t,
      out_provenance = POLICY_RESULT, out_disposition = BLOCK, handoff_basis = adm_basis d, admission = d,
      policy_execution = blocked_policy ''atreides.activation.handoff.admit''
        ''input_carries_a_recorded_handoff_authorization'',
      summary = Handoff_Summary\<rparr>
     (if unit_basis u = None then HANDOFF_BASIS_NULL else NO_RECORDED_HANDOFF) (Handoff_Detail (adm_detail d)) None"

definition mk_Finding :: "Finding \<Rightarrow> ('e activation_error, Finding) result" where
  "mk_Finding f = require (fd_summary f \<noteq> []) (Agent_Field ''summary'') (Inr f)"

definition blocking_halt :: "('a, 'h) activation_kernel \<Rightarrow> 'h option \<Rightarrow> bool" where
  "blocking_halt K h \<longleftrightarrow> (case h of None \<Rightarrow> False | Some x \<Rightarrow> halt_blocks K x)"

definition run_one ::
  "('a, 'h) activation_kernel \<Rightarrow> (int \<Rightarrow> string \<Rightarrow> string) \<Rightarrow> ('a, 'e) Slot \<Rightarrow> int \<Rightarrow> moment \<Rightarrow> 'h option \<Rightarrow>
   ('e activation_error, 'a AgentOutput) result" where
  "run_one K uuid4 sl n t h =
     (let r = runner sl; uid = uuid4 n (agent_id (identity r)) in
      case next_unit r n t of Inl e \<Rightarrow> Inl (Runner_Raised e) | Inr u \<Rightarrow>
      (let d = admit (unit_origin u) (unit_basis u) in
       if blocking_halt K h then halt_refusal K uid (identity r) u d t (the h)
       else if \<not> admitted d then handoff_refusal uid (identity r) u d t
       else case observe r u n t of Inl e \<Rightarrow> Inl (Runner_Raised e) | Inr f \<Rightarrow>
       mk_AgentRecommendation
         \<lparr>output_id = uid, out_agent = identity r, operation_ref = unit_operation u, observed_at = t,
          out_provenance = fd_provenance f, out_disposition = fd_disposition f,
          handoff_basis = adm_basis d, admission = d, policy_execution = fd_policy_execution f,
          summary = Summary (fd_summary f)\<rparr>))"

definition record_output :: "('a, 'e) Slot \<Rightarrow> 'a AgentOutput \<Rightarrow> ('a, 'e) Slot" where
  "record_output sl y =
     (if is_refusal y
      then sl\<lparr>last_output := Some y, last_refusal := Some y, refusals := refusals sl + 1\<rparr>
      else sl\<lparr>last_output := Some y, last_recommendation := Some y, recommendations := recommendations sl + 1\<rparr>)"

text \<open>The pass over the slots: what raises ends it, and the agents before it have run.\<close>

fun run_slots ::
  "('a, 'h) activation_kernel \<Rightarrow> (int \<Rightarrow> string \<Rightarrow> string) \<Rightarrow> int \<Rightarrow> moment \<Rightarrow> 'h option \<Rightarrow>
   (string \<times> ('a, 'e) Slot) list \<Rightarrow> (string \<times> ('a, 'e) Slot) list \<times> 'e activation_error option" where
  "run_slots K uuid4 n t h [] = ([], None)"
| "run_slots K uuid4 n t h ((i, sl) # rest) =
     (if \<not> up sl then (case run_slots K uuid4 n t h rest of (done', err) \<Rightarrow> ((i, sl) # done', err))
      else case run_one K uuid4 sl n t h of
        Inl e \<Rightarrow> ((i, sl) # rest, Some e)
      | Inr y \<Rightarrow> (case run_slots K uuid4 n t h rest of (done', err) \<Rightarrow> ((i, record_output sl y) # done', err)))"

definition tick ::
  "('a, 'h) activation_kernel \<Rightarrow> (int \<Rightarrow> string \<Rightarrow> string) \<Rightarrow> moment \<Rightarrow> 'h option \<Rightarrow> ('a, 'e) AgentSupervisor \<Rightarrow>
   ('a, 'e) AgentSupervisor \<times> 'e activation_error option" where
  "tick K uuid4 t h s =
     (case run_slots K uuid4 (tick_number s + 1) t h (slots s) of
        (sl, err) \<Rightarrow> (\<lparr>slots = sl, tick_number = tick_number s + 1, tick_at = Some t\<rparr>, err))"

subsection \<open>The state\<close>

record ('a, 'e) AgentState =
  as_identity :: "'a AgentIdentity"
  as_up :: bool
  as_expects_refusal :: bool
  as_stopped_reason :: "string option"
  as_last_output :: "'a AgentOutput recorded"
  as_last_recommendation :: "'a AgentOutput recorded"
  as_last_refusal :: "'a AgentOutput recorded"
  as_recommendations :: int
  as_refusals :: int

definition agent_disposition :: "('a, 'e) AgentState \<Rightarrow> Disposition" where
  "agent_disposition s =
     (case as_last_output s of
        Absent k r \<Rightarrow> INDETERMINATE
      | Recorded y \<Rightarrow>
          if as_expects_refusal s then (if is_refusal y then PASS else BLOCK)
          else out_disposition (base_of y))"

record ('a, 'e) ActivationState =
  at_tick :: int
  last_tick_at :: "moment recorded"
  st_halted :: bool
  st_halt_reason :: "string recorded"
  agents :: "('a, 'e) AgentState list"

fun severity :: "Disposition \<Rightarrow> nat" where
  "severity PASS = 0" | "severity HOLD = 1" | "severity INDETERMINATE = 2" | "severity BLOCK = 3"

definition worse :: "('a, 'e) AgentState \<Rightarrow> Disposition \<Rightarrow> Disposition" where
  "worse a w = (if severity (agent_disposition a) > severity w then agent_disposition a else w)"

definition state_disposition :: "('a, 'e) ActivationState \<Rightarrow> Disposition" where
  "state_disposition s = fold worse (agents s) PASS"

definition never_ran :: "'b recorded" where
  "never_ran = Absent NOT_YET_KNOWN ''this agent has not produced an output since activation started''"

definition stopped_absence :: "string \<Rightarrow> 'b recorded" where
  "stopped_absence why = Absent NOTHING_RECORDED (''agent stopped: '' @ why)"

definition state_of :: "('a, 'e) Slot \<Rightarrow> ('a, 'e) AgentState" where
  "state_of sl =
     (let stopped = (\<not> up sl \<and> stopped_reason sl \<noteq> None);
          missing = (if stopped then stopped_absence (the (stopped_reason sl)) else never_ran);
          recorded_or = (\<lambda>v. if stopped \<or> v = None then missing else Recorded (the v)) in
      \<lparr>as_identity = identity (runner sl), as_up = up sl, as_expects_refusal = expects_refusal (runner sl),
       as_stopped_reason = stopped_reason sl, as_last_output = recorded_or (last_output sl),
       as_last_recommendation = recorded_or (last_recommendation sl),
       as_last_refusal = recorded_or (last_refusal sl),
       as_recommendations = recommendations sl, as_refusals = refusals sl\<rparr>)"

definition state :: "('a, 'h) activation_kernel \<Rightarrow> 'h option \<Rightarrow> ('a, 'e) AgentSupervisor \<Rightarrow> ('a, 'e) ActivationState" where
  "state K h s =
     \<lparr>at_tick = tick_number s,
      last_tick_at = (case tick_at s of
          None \<Rightarrow> Absent NOT_YET_KNOWN ''no tick has run since this supervisor was built'' | Some t \<Rightarrow> Recorded t),
      st_halted = blocking_halt K h,
      st_halt_reason = (if blocking_halt K h then Recorded (halt_why K (the h))
        else Absent ABSENCE_NOT_APPLICABLE ''no halt covering Atreides is in effect''),
      agents = map (\<lambda>(i, sl). state_of sl) (slots s)\<rparr>"

end
