(* ===== verification/Activation_Props.thy ===== *)
theory Activation_Props
  imports Activation
begin

text \<open>
  What holds of the activated agents: what admission decides, that every supervisor reachable by the
  calls (a pass that raised included) shows only outputs that rest on what they cite, that a blocking
  halt lets no agent recommend, and when the state passes.
\<close>

subsection \<open>What the constructors accept\<close>

definition stated :: "'a AgentOutputBase \<Rightarrow> bool" where
  "stated x \<longleftrightarrow> summary x \<noteq> Summary [] \<and> (\<exists>i. observed_at x = Aware i) \<and>
     out_provenance x \<in> set ADVISORY_PROVENANCE \<and>
     (absent (policy_execution x) \<longrightarrow> out_provenance x \<noteq> POLICY_RESULT \<and> out_disposition x \<noteq> PASS) \<and>
     adm_basis (admission x) = handoff_basis x"

fun output_ok :: "'a AgentOutput \<Rightarrow> bool" where
  "output_ok (AgentRecommendation x) \<longleftrightarrow> stated x \<and> admitted (admission x)"
| "output_ok (AgentRefusal x code detail lifecycle) \<longleftrightarrow>
     stated x \<and> out_disposition x = BLOCK \<and> out_provenance x = POLICY_RESULT"

lemma output_checks_iff: "output_checks x = Inr () \<longleftrightarrow> stated x"
  by (cases "observed_at x") (auto simp: output_checks_def stated_def require_eq_Inr_iff)

lemma output_checks_refused:
  fixes e :: "'e activation_error"
  assumes "output_checks x = Inl e"
  shows "\<not> stated x"
proof
  assume "stated x"
  then have "output_checks x = (Inr () :: ('e activation_error, unit) result)" by (simp add: output_checks_iff)
  with assms show False by simp
qed

lemma mk_AgentRecommendation_iff:
  "mk_AgentRecommendation x = Inr y \<longleftrightarrow> y = AgentRecommendation x \<and> output_ok y"
  unfolding mk_AgentRecommendation_def
  by (auto simp: require_eq_Inr_iff output_checks_iff dest: output_checks_refused split: sum.splits)

lemma mk_AgentRefusal_iff:
  "mk_AgentRefusal x c d l = Inr y \<longleftrightarrow> y = AgentRefusal x c d l \<and> output_ok y"
  unfolding mk_AgentRefusal_def
  by (auto simp: require_eq_Inr_iff output_checks_iff dest: output_checks_refused split: sum.splits)

lemma admitted_iff:
  "admitted (admit og b) \<longleftrightarrow>
     (og = OPERATOR_DIRECT \<and> (\<exists>k r. b = Some (Absent k r))) \<or> (og = AGENT_LATERAL \<and> (\<exists>i. b = Some (Recorded i)))"
  unfolding admitted_def admit_def by (auto split: option.splits InputOrigin.splits recorded.splits)

lemma halt_refusal_simps:
  "halt_refusal K uid i u d t h = Inr y \<Longrightarrow>
     is_refusal y \<and> output_ok y \<and> out_agent (base_of y) = i \<and> out_disposition (base_of y) = BLOCK"
  unfolding halt_refusal_def by (auto simp: mk_AgentRefusal_iff)

lemma handoff_refusal_simps:
  "handoff_refusal uid i u d t = Inr y \<Longrightarrow>
     is_refusal y \<and> output_ok y \<and> out_agent (base_of y) = i \<and> out_disposition (base_of y) = BLOCK"
  unfolding handoff_refusal_def by (auto simp: mk_AgentRefusal_iff)

lemma run_one_output:
  assumes "run_one K uuid4 sl n t h = Inr y"
  shows "output_ok y \<and> out_agent (base_of y) = identity (runner sl)"
    and "blocking_halt K h \<Longrightarrow> is_refusal y"
proof -
  obtain u where u: "next_unit (runner sl) n t = Inr u"
    using assms by (auto simp: run_one_def Let_def split: sum.splits)
  let ?d = "admit (unit_origin u) (unit_basis u)"
  consider (halt) "blocking_halt K h" | (hand) "\<not> blocking_halt K h" "\<not> admitted ?d"
    | (run) "\<not> blocking_halt K h" "admitted ?d" by blast
  then have "(output_ok y \<and> out_agent (base_of y) = identity (runner sl)) \<and> (blocking_halt K h \<longrightarrow> is_refusal y)"
  proof cases
    case halt
    then show ?thesis using assms halt_refusal_simps by (fastforce simp: run_one_def Let_def u)
  next
    case hand
    then show ?thesis using assms handoff_refusal_simps by (fastforce simp: run_one_def Let_def u)
  next
    case run
    then show ?thesis using assms by (auto simp: run_one_def Let_def u mk_AgentRecommendation_iff split: sum.splits)
  qed
  then show "output_ok y \<and> out_agent (base_of y) = identity (runner sl)"
    and "blocking_halt K h \<Longrightarrow> is_refusal y" by simp_all
qed

subsection \<open>The slots\<close>

definition slot_ok :: "('a, 'e) Slot \<Rightarrow> bool" where
  "slot_ok sl \<longleftrightarrow>
     (up sl \<longleftrightarrow> stopped_reason sl = None) \<and>
     (last_output sl = None \<longleftrightarrow> recommendations sl + refusals sl = 0) \<and>
     (\<forall>y. last_output sl = Some y \<longrightarrow> last_output sl = (if is_refusal y then last_refusal sl else last_recommendation sl)) \<and>
     0 \<le> recommendations sl \<and> 0 \<le> refusals sl \<and>
     (last_recommendation sl = None \<longleftrightarrow> recommendations sl = 0) \<and> (last_refusal sl = None \<longleftrightarrow> refusals sl = 0) \<and>
     (\<forall>y \<in> set_option (last_recommendation sl). output_ok y \<and> \<not> is_refusal y \<and> out_agent (base_of y) = identity (runner sl)) \<and>
     (\<forall>y \<in> set_option (last_refusal sl). output_ok y \<and> is_refusal y \<and> out_agent (base_of y) = identity (runner sl))"

lemma slot_ok_new [simp]: "slot_ok (new_slot r)"
  by (simp add: slot_ok_def new_slot_def)

lemma slot_ok_stop: "slot_ok sl \<Longrightarrow> slot_ok (sl\<lparr>up := False, stopped_reason := Some why\<rparr>)"
  unfolding slot_ok_def by auto

lemma slot_ok_start: "slot_ok sl \<Longrightarrow> slot_ok (sl\<lparr>up := True, stopped_reason := None\<rparr>)"
  unfolding slot_ok_def by auto

lemma runner_record [simp]: "runner (record_output sl y) = runner sl" "up (record_output sl y) = up sl"
  "stopped_reason (record_output sl y) = stopped_reason sl" "last_output (record_output sl y) = Some y"
  by (simp_all add: record_output_def)

lemma slot_ok_record:
  assumes "slot_ok sl" "output_ok y" "out_agent (base_of y) = identity (runner sl)"
  shows "slot_ok (record_output sl y)"
proof (cases "is_refusal y")
  case True
  then show ?thesis using assms unfolding slot_ok_def record_output_def by simp
next
  case False
  then show ?thesis using assms unfolding slot_ok_def record_output_def by simp
qed

text \<open>A pass over the slots, as a relation between each slot before and after it.\<close>

definition stepped ::
  "('a, 'h) activation_kernel \<Rightarrow> (int \<Rightarrow> string \<Rightarrow> string) \<Rightarrow> int \<Rightarrow> moment \<Rightarrow> 'h option \<Rightarrow>
   string \<times> ('a, 'e) Slot \<Rightarrow> string \<times> ('a, 'e) Slot \<Rightarrow> bool" where
  "stepped K uuid4 n t h p q \<longleftrightarrow> fst q = fst p \<and>
     (snd q = snd p \<or> (up (snd p) \<and> (\<exists>y. run_one K uuid4 (snd p) n t h = Inr y \<and> snd q = record_output (snd p) y)))"

lemma stepped_refl [simp]: "stepped K uuid4 n t h p p"
  by (simp add: stepped_def)

lemma stepped_run: "up sl \<Longrightarrow> run_one K uuid4 sl n t h = Inr y \<Longrightarrow>
    stepped K uuid4 n t h (i, sl) (i, record_output sl y)"
  by (auto simp: stepped_def)

lemma run_slots_stepped:
  "list_all2 (stepped K uuid4 n t h) sl (fst (run_slots K uuid4 n t h sl))"
proof (induction K uuid4 n t h sl rule: run_slots.induct)
  case (2 K uuid4 n t h i sl rest)
  have rest: "list_all2 (stepped K uuid4 n t h) rest rest" by (simp add: list_all2_refl)
  show ?case
    by (cases "up sl"; cases "run_one K uuid4 sl n t h")
       (use 2 rest in \<open>auto intro: stepped_run split: prod.splits\<close>)
qed simp

lemma run_slots_complete:
  "snd (run_slots K uuid4 n t h sl) = None \<Longrightarrow>
   list_all2 (\<lambda>p q. up (snd p) \<longrightarrow> (\<exists>y. run_one K uuid4 (snd p) n t h = Inr y \<and> q = (fst p, record_output (snd p) y)))
     sl (fst (run_slots K uuid4 n t h sl))"
proof (induction K uuid4 n t h sl rule: run_slots.induct)
  case (2 K uuid4 n t h i sl rest)
  then show ?case by (cases "up sl") (auto split: sum.splits prod.splits)
qed simp

subsection \<open>Reachable supervisors\<close>

inductive reachable_supervisor ::
  "('a, 'h) activation_kernel \<Rightarrow> ('a, 'e) AgentRunner list \<Rightarrow> ('a, 'e) AgentSupervisor \<Rightarrow> bool" for K rs where
  built: "mk_AgentSupervisor rs = Inr s \<Longrightarrow> reachable_supervisor K rs s"
| stopped: "reachable_supervisor K rs s \<Longrightarrow> stop i why s = Inr s' \<Longrightarrow> reachable_supervisor K rs s'"
| started: "reachable_supervisor K rs s \<Longrightarrow> start i s = Inr s' \<Longrightarrow> reachable_supervisor K rs s'"
| ticked: "reachable_supervisor K rs s \<Longrightarrow> tick K uuid4 t h s = (s', err) \<Longrightarrow> reachable_supervisor K rs s'"

definition supervisor_ok :: "('a, 'e) AgentRunner list \<Rightarrow> ('a, 'e) AgentSupervisor \<Rightarrow> bool" where
  "supervisor_ok rs s \<longleftrightarrow> distinct (map fst (slots s)) \<and>
     map (\<lambda>(i, sl). (i, runner sl)) (slots s) = map (\<lambda>r. (agent_id (identity r), r)) rs \<and>
     (\<forall>(i, sl) \<in> set (slots s). slot_ok sl)"

lemma register_all_slots:
  assumes "register_all acc rs = Inr sl" "distinct (map fst acc)"
  shows "sl = acc @ map (\<lambda>r. (agent_id (identity r), new_slot r)) rs \<and> distinct (map fst sl)"
  using assms
proof (induction rs arbitrary: acc)
  case (Cons r rs)
  then have free: "agent_id (identity r) \<notin> fst ` set acc"
    and rest: "register_all (acc @ [(agent_id (identity r), new_slot r)]) rs = Inr sl"
    by (simp_all add: require_eq_Inr_iff)
  have "distinct (map fst (acc @ [(agent_id (identity r), new_slot r)]))" using Cons.prems(2) free by simp
  from Cons.IH [OF rest this] have sl: "sl = (acc @ [(agent_id (identity r), new_slot r)])
      @ map (\<lambda>r. (agent_id (identity r), new_slot r)) rs" and d: "distinct (map fst sl)" by blast+
  from sl have "sl = acc @ map (\<lambda>r. (agent_id (identity r), new_slot r)) (r # rs)" by simp
  with d show ?case by blast
qed simp

lemma supervisor_ok_built: "mk_AgentSupervisor rs = Inr s \<Longrightarrow> supervisor_ok rs s"
  using register_all_slots [of "[]" rs]
  by (fastforce simp: mk_AgentSupervisor_def supervisor_ok_def new_slot_def slot_ok_def split: sum.splits)

lemma supervisor_ok_slots:
  assumes ok: "supervisor_ok rs s"
    and step: "list_all2 (\<lambda>p q. fst q = fst p \<and> runner (snd q) = runner (snd p) \<and> (slot_ok (snd p) \<longrightarrow> slot_ok (snd q)))
      (slots s) (slots s')"
  shows "supervisor_ok rs s'"
proof -
  have "map fst (slots s') = map fst (slots s)
      \<and> map (\<lambda>(i, sl). (i, runner sl)) (slots s') = map (\<lambda>(i, sl). (i, runner sl)) (slots s)
      \<and> ((\<forall>(i, sl) \<in> set (slots s). slot_ok sl) \<longrightarrow> (\<forall>(i, sl) \<in> set (slots s'). slot_ok sl))"
    using step by (induction rule: list_all2_induct) auto
  then show ?thesis using ok unfolding supervisor_ok_def by simp
qed

lemma supervisor_ok_set_slot:
  assumes "supervisor_ok rs s" "\<And>sl. runner (f sl) = runner sl" "\<And>sl. slot_ok sl \<Longrightarrow> slot_ok (f sl)"
  shows "supervisor_ok rs (set_slot i f s)"
  by (rule supervisor_ok_slots [OF assms(1)])
     (auto simp: set_slot_def list.rel_map assms(2,3) list_all2_same)

lemma slots_tick: "slots (fst (tick K uuid4 t h s)) = fst (run_slots K uuid4 (tick_number s + 1) t h (slots s))"
  "snd (tick K uuid4 t h s) = snd (run_slots K uuid4 (tick_number s + 1) t h (slots s))"
  by (simp_all add: tick_def split: prod.splits)

lemma supervisor_ok_tick:
  assumes "supervisor_ok rs s"
  shows "supervisor_ok rs (fst (tick K uuid4 t h s))"
proof (rule supervisor_ok_slots [OF assms], unfold slots_tick(1), rule list_all2_mono [OF run_slots_stepped])
  fix p q :: "string \<times> ('a, 'b) Slot"
  assume st: "stepped K uuid4 (tick_number s + 1) t h p q"
  then show "fst q = fst p \<and> runner (snd q) = runner (snd p) \<and> (slot_ok (snd p) \<longrightarrow> slot_ok (snd q))"
    using run_one_output(1) slot_ok_record unfolding stepped_def by fastforce
qed

lemma reachable_supervisor_ok: "reachable_supervisor K rs s \<Longrightarrow> supervisor_ok rs s"
proof (induction rule: reachable_supervisor.induct)
  case (stopped s i why s')
  then have s': "s' = set_slot i (\<lambda>sl. sl\<lparr>up := False, stopped_reason := Some why\<rparr>) s"
    by (simp add: stop_def require_eq_Inr_iff)
  show ?case unfolding s' by (rule supervisor_ok_set_slot [OF stopped.IH]) (simp_all add: slot_ok_stop)
next
  case (started s i s')
  then have s': "s' = set_slot i (\<lambda>sl. sl\<lparr>up := True, stopped_reason := None\<rparr>) s"
    by (simp add: start_def require_eq_Inr_iff)
  show ?case unfolding s' by (rule supervisor_ok_set_slot [OF started.IH]) (simp_all add: slot_ok_start)
next
  case (ticked s uuid4 t h s' err)
  then show ?case using supervisor_ok_tick [OF ticked.IH, of K uuid4 t h] by simp
qed (rule supervisor_ok_built)

subsection \<open>The state\<close>

lemma severity_eq_0 [simp]: "severity d = 0 \<longleftrightarrow> d = PASS"
  by (cases d) simp_all

lemma severity_le_3: "severity d \<le> 3"
  by (cases d) simp_all

lemma severity_inj: "severity d = severity e \<longleftrightarrow> d = e"
  by (cases d; cases e) simp_all

lemma severity_worse: "severity (worse a w) = max (severity (agent_disposition a)) (severity w)"
  by (simp add: worse_def)

lemma severity_state_le:
  "severity (state_disposition st) \<le> k \<longleftrightarrow> (\<forall>a \<in> set (agents st). severity (agent_disposition a) \<le> k)"
proof -
  have "severity (fold worse xs w) \<le> k \<longleftrightarrow> severity w \<le> k \<and> (\<forall>a \<in> set xs. severity (agent_disposition a) \<le> k)"
    for xs :: "('a, 'b) AgentState list" and w
    by (induction xs arbitrary: w) (auto simp: severity_worse)
  then show ?thesis by (simp add: state_disposition_def)
qed

lemma state_disposition_pass:
  "state_disposition st = PASS \<longleftrightarrow> (\<forall>a \<in> set (agents st). agent_disposition a = PASS)"
  using severity_state_le [of st 0] by simp

lemma state_disposition_block:
  assumes "a \<in> set (agents st)" "agent_disposition a = BLOCK"
  shows "state_disposition st = BLOCK"
proof -
  have "severity BLOCK \<le> severity (state_disposition st)"
    using severity_state_le [of st "severity (state_disposition st)"] assms by auto
  then have "severity (state_disposition st) = severity BLOCK"
    using severity_le_3 [of "state_disposition st"] by simp
  then show ?thesis by (simp only: severity_inj)
qed

lemma agents_state: "set (agents (state K h s)) = state_of ` snd ` set (slots s)"
  by (force simp: state_def)

lemma agent_disposition_up:
  "up sl \<Longrightarrow> last_output sl = Some y \<Longrightarrow> agent_disposition (state_of sl) =
     (if expects_refusal (runner sl) then (if is_refusal y then PASS else BLOCK) else out_disposition (base_of y))"
  by (simp add: agent_disposition_def state_of_def Let_def)

lemma agent_disposition_missing:
  "(\<not> up sl \<and> stopped_reason sl \<noteq> None) \<or> last_output sl = None \<Longrightarrow> agent_disposition (state_of sl) = INDETERMINATE"
  by (auto simp: agent_disposition_def state_of_def Let_def never_ran_def stopped_absence_def)

lemma slot_ok_last:
  assumes "slot_ok sl" "last_output sl = Some y"
  shows "output_ok y"
  using assms by (cases "is_refusal y") (auto simp: slot_ok_def)

subsection \<open>A concrete supervisor\<close>

definition demo_kernel :: "(nat, string) activation_kernel" where
  "demo_kernel = \<lparr>authorizing = (\<lambda>a. a = 0), adaptive = (\<lambda>a. a = 1), halt_blocks = (\<lambda>h. True),
     halt_identifier = (\<lambda>h. h), halt_number = (\<lambda>h. 1), halt_why = (\<lambda>h. ''drill'')\<rparr>"

definition demo_runner :: "(nat, string) AgentRunner" where
  "demo_runner = \<lparr>identity = \<lparr>agent_id = ''fiat'', tier = TIER_2, actor = 2\<rparr>, expects_refusal = False,
     next_unit = (\<lambda>n t. Inr \<lparr>unit_operation = ''op'', unit_origin = AGENT_LATERAL, unit_basis = Some (Recorded ''ho-1'')\<rparr>),
     observe = (\<lambda>u n t. Inr \<lparr>fd_provenance = POLICY_RESULT, fd_disposition = PASS, fd_summary = ''settled'',
       fd_policy_execution = Recorded \<lparr>pe_policy = ''p'', gates = [''g''], pe_outcome = PASS\<rparr>\<rparr>)\<rparr>"

definition demo_supervisor :: "(nat, string) AgentSupervisor" where
  "demo_supervisor = \<lparr>slots = [(''fiat'', new_slot demo_runner)], tick_number = -1, tick_at = None\<rparr>"

definition demo_id :: "int \<Rightarrow> string \<Rightarrow> string" where
  "demo_id n a = a"

definition demo_ticked :: "string option \<Rightarrow> (nat, string) AgentSupervisor" where
  "demo_ticked h = fst (tick demo_kernel demo_id (Aware 5) h demo_supervisor)"

lemma demo_built: "mk_AgentSupervisor [demo_runner] = Inr demo_supervisor"
  by (simp add: mk_AgentSupervisor_def demo_supervisor_def demo_runner_def require_def)

lemmas demo_defs = tick_def demo_supervisor_def demo_runner_def demo_kernel_def demo_id_def new_slot_def run_one_def
  Let_def blocking_halt_def admit_def admitted_def mk_AgentRecommendation_def output_checks_def require_def
  ADVISORY_PROVENANCE_def record_output_def halt_refusal_def mk_AgentRefusal_def blocked_policy_def

lemma demo_tick: "tick demo_kernel demo_id (Aware 5) h demo_supervisor = (demo_ticked h, None)"
  by (cases h) (simp_all add: demo_ticked_def demo_defs)

lemma demo_reachable: "reachable_supervisor demo_kernel [demo_runner] (demo_ticked h)"
  by (rule reachable_supervisor.ticked [OF reachable_supervisor.built [OF demo_built] demo_tick])

subsection \<open>The properties\<close>

lemma reachable_slot: "reachable_supervisor K rs s \<Longrightarrow> (i, sl) \<in> set (slots s) \<Longrightarrow> slot_ok sl"
  using reachable_supervisor_ok [of K rs s] by (auto simp: supervisor_ok_def)

lemma reachable_ids:
  assumes "reachable_supervisor K rs s"
  shows "map fst (slots s) = map (agent_id \<circ> identity) rs"
proof -
  have "map fst (map (\<lambda>(i, sl). (i, runner sl)) (slots s)) = map fst (map (\<lambda>r. (agent_id (identity r), r)) rs)"
    using reachable_supervisor_ok [OF assms] by (simp add: supervisor_ok_def)
  then show ?thesis by (simp add: comp_def case_prod_unfold)
qed

text \<open>
  C35: On every supervisor the calls can reach, a pass that raised included: the agents are the
  registered ones, no name twice; a slot is up exactly when it has no reason for being stopped; it
  counts a refusal exactly when it shows one; and each recommendation it shows was admitted, has
  advisory provenance, and passes only with a policy execution on record.
\<close>

theorem supervised_agents_stay_advisory:
  assumes "reachable_supervisor K rs s"
  shows "map fst (slots s) = map (agent_id \<circ> identity) rs \<and> distinct (map fst (slots s)) \<and>
    (\<forall>(i, sl) \<in> set (slots s).
      (up sl \<longleftrightarrow> stopped_reason sl = None) \<and>
      (refusals sl > 0 \<longleftrightarrow> last_refusal sl \<noteq> None) \<and> (recommendations sl > 0 \<longleftrightarrow> last_recommendation sl \<noteq> None) \<and>
      (\<forall>y. last_recommendation sl = Some y \<longrightarrow>
        (\<exists>x. y = AgentRecommendation x \<and> out_agent x = identity (runner sl) \<and> admitted (admission x) \<and>
           out_provenance x \<in> set ADVISORY_PROVENANCE \<and>
           (out_disposition x = PASS \<longrightarrow> (\<exists>p. policy_execution x = Recorded p)))))"
proof (intro conjI reachable_ids [OF assms])
  show "distinct (map fst (slots s))" using reachable_supervisor_ok [OF assms] by (simp add: supervisor_ok_def)
  show "\<forall>(i, sl) \<in> set (slots s).
      (up sl \<longleftrightarrow> stopped_reason sl = None) \<and>
      (refusals sl > 0 \<longleftrightarrow> last_refusal sl \<noteq> None) \<and> (recommendations sl > 0 \<longleftrightarrow> last_recommendation sl \<noteq> None) \<and>
      (\<forall>y. last_recommendation sl = Some y \<longrightarrow>
        (\<exists>x. y = AgentRecommendation x \<and> out_agent x = identity (runner sl) \<and> admitted (admission x) \<and>
           out_provenance x \<in> set ADVISORY_PROVENANCE \<and>
           (out_disposition x = PASS \<longrightarrow> (\<exists>p. policy_execution x = Recorded p))))"
  proof clarify
    fix i sl assume "(i, sl) \<in> set (slots s)"
    then have ok: "slot_ok sl" by (rule reachable_slot [OF assms])
    have "\<exists>x. y = AgentRecommendation x \<and> out_agent x = identity (runner sl) \<and> admitted (admission x) \<and>
           out_provenance x \<in> set ADVISORY_PROVENANCE \<and>
           (out_disposition x = PASS \<longrightarrow> (\<exists>p. policy_execution x = Recorded p))"
      if "last_recommendation sl = Some y" for y
    proof -
      from that ok have y: "output_ok y" "\<not> is_refusal y" "out_agent (base_of y) = identity (runner sl)"
        by (simp_all add: slot_ok_def)
      then obtain x where x: "y = AgentRecommendation x" by (cases y) simp_all
      with y show ?thesis by (cases "policy_execution x") (auto simp: stated_def)
    qed
    with ok show "(up sl \<longleftrightarrow> stopped_reason sl = None) \<and>
      (refusals sl > 0 \<longleftrightarrow> last_refusal sl \<noteq> None) \<and> (recommendations sl > 0 \<longleftrightarrow> last_recommendation sl \<noteq> None) \<and>
      (\<forall>y. last_recommendation sl = Some y \<longrightarrow>
        (\<exists>x. y = AgentRecommendation x \<and> out_agent x = identity (runner sl) \<and> admitted (admission x) \<and>
           out_provenance x \<in> set ADVISORY_PROVENANCE \<and>
           (out_disposition x = PASS \<longrightarrow> (\<exists>p. policy_execution x = Recorded p))))"
      unfolding slot_ok_def by auto
  qed
qed

theorem supervised_agents_stay_advisory_witness:
  "map fst (slots (demo_ticked None)) = [''fiat'']"
  using supervised_agents_stay_advisory [OF demo_reachable [of None]] by (simp add: demo_runner_def)

lemma halted_run_refuses:
  assumes "blocking_halt K h" "run_one K uuid4 sl n t h = Inr y"
  shows "is_refusal y \<and> out_disposition (base_of y) = BLOCK"
  using run_one_output(1) [OF assms(2)] run_one_output(2) [OF assms(2,1)] by (cases y) auto

definition halted_step :: "bool \<Rightarrow> string \<times> ('a, 'e) Slot \<Rightarrow> string \<times> ('a, 'e) Slot \<Rightarrow> bool" where
  "halted_step raised p q \<longleftrightarrow> fst q = fst p \<and> runner (snd q) = runner (snd p) \<and> up (snd q) = up (snd p) \<and>
     last_recommendation (snd q) = last_recommendation (snd p) \<and> recommendations (snd q) = recommendations (snd p) \<and>
     (\<not> raised \<and> up (snd p) \<longrightarrow> refusals (snd q) = refusals (snd p) + 1 \<and>
        (\<exists>y. last_output (snd q) = Some y \<and> is_refusal y \<and> out_disposition (base_of y) = BLOCK))"

lemma halted_slots_step:
  assumes halt: "blocking_halt K h"
  shows "list_all2 (halted_step (snd (run_slots K uuid4 n t h sl) \<noteq> None)) sl (fst (run_slots K uuid4 n t h sl))"
proof (cases "snd (run_slots K uuid4 n t h sl) = None")
  case False
  then show ?thesis
    by (intro list_all2_mono [OF run_slots_stepped])
       (auto simp: stepped_def halted_step_def record_output_def dest: halted_run_refuses [OF halt])
next
  case True
  have "list_all2 (\<lambda>p q. stepped K uuid4 n t h p q \<and> (up (snd p) \<longrightarrow> (\<exists>y. run_one K uuid4 (snd p) n t h = Inr y \<and>
      q = (fst p, record_output (snd p) y)))) sl (fst (run_slots K uuid4 n t h sl))"
    using run_slots_stepped [of K uuid4 n t h sl] run_slots_complete [OF True] by (simp add: list_all2_conv_all_nth)
  then show ?thesis
  proof (rule list_all2_mono, elim conjE)
    fix p q
    assume st: "stepped K uuid4 n t h p q"
      and ran: "up (snd p) \<longrightarrow> (\<exists>y. run_one K uuid4 (snd p) n t h = Inr y \<and> q = (fst p, record_output (snd p) y))"
    show "halted_step (snd (run_slots K uuid4 n t h sl) \<noteq> None) p q"
    proof (cases "up (snd p)")
      case True
      with ran obtain y where y: "run_one K uuid4 (snd p) n t h = Inr y"
        and q: "q = (fst p, record_output (snd p) y)" by blast
      from halted_run_refuses [OF halt y] True show ?thesis unfolding q by (simp add: halted_step_def record_output_def)
    next
      case False
      with st show ?thesis by (simp add: stepped_def halted_step_def)
    qed
  qed
qed

lemma halted_tick_step:
  assumes "blocking_halt K h" "tick K uuid4 t h s = (s', err)"
  shows "list_all2 (halted_step (err \<noteq> None)) (slots s) (slots s')"
  using halted_slots_step [OF assms(1), of uuid4 "tick_number s + 1" t "slots s"] slots_tick [of K uuid4 t h s] assms(2)
  by simp

lemma halted_tick_blocks:
  assumes "blocking_halt K h" "tick K uuid4 t h s = (s', None)"
    and sl: "(i, sl) \<in> set (slots s)" "up sl" "\<not> expects_refusal (runner sl)"
  shows "state_disposition (state K h s') = BLOCK"
proof -
  from sl(1) obtain k where k: "k < length (slots s)" "slots s ! k = (i, sl)" by (auto simp: in_set_conv_nth)
  let ?q = "slots s' ! k"
  have q: "halted_step False (i, sl) ?q" "?q \<in> set (slots s')"
    using halted_tick_step [OF assms(1,2)] k by (auto simp: list_all2_conv_all_nth)
  then obtain y where y: "last_output (snd ?q) = Some y" "out_disposition (base_of y) = BLOCK" "up (snd ?q)"
    "runner (snd ?q) = runner sl"
    using sl(2) by (auto simp: halted_step_def)
  have "agent_disposition (state_of (snd ?q)) = BLOCK"
    using agent_disposition_up [OF y(3,1)] y(2,4) sl(3) by simp
  moreover have "state_of (snd ?q) \<in> set (agents (state K h s'))"
    using q(2) by (simp add: agents_state)
  ultimately show ?thesis by (rule state_disposition_block [rotated])
qed

text \<open>
  Under a halt that blocks Atreides a pass lets no agent recommend: every agent's recommendations
  stay what they were; after a pass that did not raise every agent that is up shows a refusal that
  blocks, and the activation is blocked as soon as one of them is not there to refuse.
\<close>

theorem halted_pass_recommends_nothing:
  assumes "blocking_halt K h" "tick K uuid4 t h s = (s', err)"
  shows "list_all2 (halted_step (err \<noteq> None)) (slots s) (slots s') \<and>
    ((\<exists>(i, sl) \<in> set (slots s). up sl \<and> \<not> expects_refusal (runner sl)) \<and> err = None \<longrightarrow>
       state_disposition (state K h s') = BLOCK)"
  using halted_tick_step [OF assms] halted_tick_blocks [OF assms(1)] assms(2) by auto

theorem halted_pass_recommends_nothing_witness:
  "state_disposition (state demo_kernel (Some ''h'') (demo_ticked (Some ''h''))) = BLOCK"
proof -
  have "blocking_halt demo_kernel (Some ''h'')" by (simp add: blocking_halt_def demo_kernel_def)
  from halted_pass_recommends_nothing [OF this demo_tick] show ?thesis
    by (simp add: demo_supervisor_def new_slot_def demo_runner_def)
qed

text \<open>
  C36: The state of a reachable supervisor passes exactly when every agent is up and its last output is
  the one wanted of it: a refusal where refusing is the exercise, otherwise an admitted recommendation
  that passes on a recorded policy execution. A stopped or silent agent never lets it pass.
\<close>

theorem activation_passes_iff:
  assumes "reachable_supervisor K rs s"
  shows "state_disposition (state K h s) = PASS \<longleftrightarrow>
    (\<forall>(i, sl) \<in> set (slots s). up sl \<and>
      (\<exists>y. last_output sl = Some y \<and>
        (if expects_refusal (runner sl) then is_refusal y
         else \<exists>x p. y = AgentRecommendation x \<and> admitted (admission x) \<and> policy_execution x = Recorded p \<and>
                out_disposition x = PASS)))"
proof -
  have one: "agent_disposition (state_of sl) = PASS \<longleftrightarrow> up sl \<and>
      (\<exists>y. last_output sl = Some y \<and>
        (if expects_refusal (runner sl) then is_refusal y
         else \<exists>x p. y = AgentRecommendation x \<and> admitted (admission x) \<and> policy_execution x = Recorded p \<and>
                out_disposition x = PASS))" (is "?l = ?r") if "slot_ok sl" for sl :: "('a, 'c) Slot"
  proof (cases "up sl \<and> last_output sl \<noteq> None")
    case False
    with that have "agent_disposition (state_of sl) = INDETERMINATE"
      by (intro agent_disposition_missing) (auto simp: slot_ok_def)
    with False show ?thesis by auto
  next
    case True
    then obtain y where y: "last_output sl = Some y" "up sl" by auto
    have yok: "output_ok y" by (rule slot_ok_last [OF that y(1)])
    show ?thesis
    proof (cases y)
      case (AgentRecommendation x)
      with y yok show ?thesis by (cases "policy_execution x") (auto simp: agent_disposition_up stated_def)
    next
      case (AgentRefusal x c d l)
      with y yok show ?thesis by (auto simp: agent_disposition_up)
    qed
  qed
  have "state_disposition (state K h s) = PASS \<longleftrightarrow>
      (\<forall>p \<in> set (slots s). agent_disposition (state_of (snd p)) = PASS)"
    unfolding state_disposition_pass agents_state by simp
  also have "\<dots> \<longleftrightarrow> (\<forall>(i, sl) \<in> set (slots s). up sl \<and>
      (\<exists>y. last_output sl = Some y \<and>
        (if expects_refusal (runner sl) then is_refusal y
         else \<exists>x p. y = AgentRecommendation x \<and> admitted (admission x) \<and> policy_execution x = Recorded p \<and>
                out_disposition x = PASS)))"
  proof (rule ball_cong [OF refl])
    fix p assume p: "p \<in> set (slots s)"
    have "slot_ok (snd p)" by (rule reachable_slot [OF assms, of "fst p"]) (simp add: p)
    from one [OF this] show "agent_disposition (state_of (snd p)) = PASS \<longleftrightarrow> (case p of (i, sl) \<Rightarrow> up sl \<and>
      (\<exists>y. last_output sl = Some y \<and>
        (if expects_refusal (runner sl) then is_refusal y
         else \<exists>x p. y = AgentRecommendation x \<and> admitted (admission x) \<and> policy_execution x = Recorded p \<and>
                out_disposition x = PASS)))"
      by (simp only: case_prod_unfold)
  qed
  finally show ?thesis .
qed

theorem activation_passes_iff_witness:
  "state_disposition (state demo_kernel None (demo_ticked None)) = PASS"
  unfolding activation_passes_iff [OF demo_reachable] by (simp add: demo_ticked_def demo_defs)

subsection \<open>Where the text says more\<close>

text \<open>An operator-direct input is admitted on any stated absence, not only on the one for operators.\<close>

theorem any_absence_admits_an_operator:
  "\<exists>b. b \<noteq> OPERATOR_DIRECT_BASIS \<and> admitted (admit OPERATOR_DIRECT (Some b))"
  by (intro exI [of _ "Absent NOT_YET_KNOWN ''pending''"]) (simp add: OPERATOR_DIRECT_BASIS_def admitted_iff)

text \<open>The same ticks over the same inputs differ in the identifiers drawn.\<close>

theorem replay_differs_in_identifiers:
  "\<exists>u u'. fst (tick demo_kernel u (Aware 5) None demo_supervisor) \<noteq> fst (tick demo_kernel u' (Aware 5) None demo_supervisor)"
  by (intro exI [of _ "\<lambda>n a. ''u1''"] exI [of _ "\<lambda>n a. ''u2''"]) (simp add: demo_defs)

end
