(* ===== verification/Funding_State.thy ===== *)
theory Funding_State
  imports Cato_Gate "HOL-Library.Product_Lexorder"
begin

text \<open>
  \<open>atreides/rails/funding_state.py\<close>: the committed and optimistic positions, the intraday
  ladder, the trough the net-debit cap is tested against, the earliest funded offset, and the
  disposition in the check order of the source. Sums are Decimal additions in the order the
  source performs them, each rounded by the context. The rationale strings are constructors
  carrying the interpolated values.
\<close>

datatype FundingDisposition =
    FUNDED | FUNDED_QUALIFIED | WILL_QUEUE | WILL_FAIL | CAP_BREACH | CLEARING_FUND_DEFICIENT
  | INDETERMINATE

record CashFlow =
  offset_seconds :: int
  amount :: rat
  label :: string
  committed :: bool
  offset_is_certain :: bool

record LadderPoint =
  lp_offset_seconds :: int
  lp_position :: rat
  lp_label :: string

record FundingInputs =
  opening_position :: rat
  obligation :: rat
  rail_finality_class :: "FinalityClass enum_arg"
  settlement_offset_seconds :: int
  window_close_offset_seconds :: "int option"
  flows :: "CashFlow list"
  net_debit_cap :: "rat option"
  clearing_fund_requirement :: rat
  clearing_fund_posted :: rat
  inputs_outcome :: "DeterminationOutcome enum_arg"

definition coerce_inputs :: "FundingInputs \<Rightarrow> FundingInputs" where
  "coerce_inputs i =
     i\<lparr>rail_finality_class := coerce_member finality_members finality_value (rail_finality_class i),
       inputs_outcome := coerce_member outcome_members outcome_value (inputs_outcome i)\<rparr>"

definition inputs_unrecognised_fields :: "FundingInputs \<Rightarrow> string list" where
  "inputs_unrecognised_fields i =
     unrecognised [(''finality_class'', is_member (rail_finality_class i)),
                   (''determination_outcome'', is_member (inputs_outcome i))]"

definition inputs_clearing_fund_sufficient :: "FundingInputs \<Rightarrow> bool" where
  "inputs_clearing_fund_sufficient i \<longleftrightarrow> clearing_fund_posted i \<ge> clearing_fund_requirement i"

datatype funding_rationale =
    F_Unrecognised "(string \<times> description) list" | F_Obligation_Class | F_Clearing_Fund rat rat
  | F_Cap_Breach rat rat rat | F_Awaiting | F_Correspondent
  | F_Covered rat "DeterminationOutcome option"
  | F_Covered_At_Finality rat rat "DeterminationOutcome option"
  | F_Short_At_Finality rat | F_Ledger_Short rat | F_Queues rat int | F_Never_Covered rat

record FundingProjection =
  disposition :: FundingDisposition
  projected_position_at_settlement :: rat
  optimistic_position_at_settlement :: rat
  fp_obligation :: rat
  shortfall :: rat
  fp_headroom :: rat
  fp_clearing_fund_sufficient :: bool
  funded_at_offset_seconds :: "int option"
  ladder :: "LadderPoint list"
  fp_rationale :: funding_rationale
  fp_outcome :: "DeterminationOutcome enum_arg"

definition settles :: "FundingProjection \<Rightarrow> bool" where
  "settles p \<longleftrightarrow> disposition p \<in> {FUNDED, FUNDED_QUALIFIED}"

definition fp_qualified :: "FundingProjection \<Rightarrow> bool" where
  "fp_qualified p \<longleftrightarrow> disposition p = FUNDED_QUALIFIED"

definition is_failure :: "FundingProjection \<Rightarrow> bool" where
  "is_failure p \<longleftrightarrow> disposition p \<in> {WILL_FAIL, CAP_BREACH, CLEARING_FUND_DEFICIENT}"

definition to_gate_input :: "FundingProjection \<Rightarrow> FundingState" where
  "to_gate_input p =
     \<lparr>projected_funded_position = projected_position_at_settlement p,
      net_obligation = fp_obligation p, net_debit_cap_headroom = fp_headroom p,
      clearing_fund_sufficient = fp_clearing_fund_sufficient p,
      position_is_assertable = (disposition p \<noteq> INDETERMINATE)\<rparr>"

subsection \<open>Positions, the ladder and the trough\<close>

definition position_at :: "rat \<Rightarrow> CashFlow list \<Rightarrow> int \<Rightarrow> bool \<Rightarrow> rat" where
  "position_at opening fs offset committed_only =
     foldl (\<lambda>total f. if offset_seconds f \<le> offset \<and> (committed f \<or> \<not> committed_only)
                      then rnd28 (total + amount f) else total) opening fs"

definition flow_key :: "CashFlow \<Rightarrow> int \<times> string" where
  "flow_key f = (offset_seconds f, label f)"

fun ladder_points :: "rat \<Rightarrow> CashFlow list \<Rightarrow> LadderPoint list" where
  "ladder_points running [] = []"
| "ladder_points running (f # fs) =
     (if \<not> committed f then ladder_points running fs
      else let running' = rnd28 (running + amount f)
           in \<lparr>lp_offset_seconds = offset_seconds f, lp_position = running', lp_label = label f\<rparr>
              # ladder_points running' fs)"

definition settlement_position :: "FundingInputs \<Rightarrow> rat" where
  "settlement_position i =
     position_at (opening_position i) (flows i) (settlement_offset_seconds i) True"

definition build_ladder :: "FundingInputs \<Rightarrow> LadderPoint list" where
  "build_ladder i =
     sort_key (\<lambda>p. (lp_offset_seconds p, lp_label p))
       (\<lparr>lp_offset_seconds = 0, lp_position = opening_position i, lp_label = ''opening position''\<rparr>
        # ladder_points (opening_position i) (sort_key flow_key (flows i))
        @ [\<lparr>lp_offset_seconds = settlement_offset_seconds i,
            lp_position = rnd28 (settlement_position i - obligation i),
            lp_label = ''post-settlement''\<rparr>])"

text \<open>The flows that can occur inside the window, with the time they count at.\<close>

fun timed_flows :: "int option \<Rightarrow> CashFlow list \<Rightarrow> (int \<times> string \<times> rat) list" where
  "timed_flows close [] = []"
| "timed_flows close (f # fs) =
     (if \<not> committed f then timed_flows close fs
      else case close of
             None \<Rightarrow> (offset_seconds f, label f, amount f) # timed_flows close fs
           | Some c \<Rightarrow>
               if offset_seconds f \<le> c
               then (offset_seconds f, label f, amount f) # timed_flows close fs
               else if \<not> offset_is_certain f \<and> amount f < 0
               then (c, label f, amount f) # timed_flows close fs
               else timed_flows close fs)"

fun trough_from :: "rat \<Rightarrow> rat \<Rightarrow> rat list \<Rightarrow> rat" where
  "trough_from running trough [] = trough"
| "trough_from running trough (a # as) =
     (let running' = rnd28 (running + a) in trough_from running' (min trough running') as)"

definition cap_trough :: "FundingInputs \<Rightarrow> rat \<Rightarrow> rat" where
  "cap_trough i settle_pos =
     (let timed = sort_key (\<lambda>(t, l, a). (t, l))
                    (timed_flows (window_close_offset_seconds i) (flows i));
          trough = trough_from (opening_position i) (opening_position i) (map (\<lambda>(t, l, a). a) timed)
      in min trough (rnd28 (settle_pos - obligation i)))"

fun first_funded :: "FundingInputs \<Rightarrow> int list \<Rightarrow> int option" where
  "first_funded i [] = None"
| "first_funded i (t # ts) =
     (if t < settlement_offset_seconds i then first_funded i ts
      else if window_close_offset_seconds i \<noteq> None \<and> t > the (window_close_offset_seconds i) then None
      else if position_at (opening_position i) (flows i) t True \<ge> obligation i then Some t
      else first_funded i ts)"

definition funding_candidates :: "FundingInputs \<Rightarrow> int list" where
  "funding_candidates i =
     sort (remdups (settlement_offset_seconds i # map offset_seconds (filter committed (flows i))))"

definition first_funded_offset :: "FundingInputs \<Rightarrow> int option" where
  "first_funded_offset i = first_funded i (funding_candidates i)"

subsection \<open>The projection\<close>

definition trough_of :: "FundingInputs \<Rightarrow> rat" where
  "trough_of i = cap_trough i (settlement_position i)"

definition headroom_of :: "FundingInputs \<Rightarrow> rat" where
  "headroom_of i =
     (case net_debit_cap i of None \<Rightarrow> 0 | Some cap \<Rightarrow> rnd28 (cap + min (trough_of i) 0))"

definition shortfall_of :: "FundingInputs \<Rightarrow> rat" where
  "shortfall_of i = max 0 (rnd28 (obligation i - settlement_position i))"

definition position_at_finality :: "FundingInputs \<Rightarrow> rat" where
  "position_at_finality i =
     (case window_close_offset_seconds i of
        None \<Rightarrow> settlement_position i
      | Some close \<Rightarrow> position_at (opening_position i) (flows i) close True)"

definition funded_disposition ::
  "FundingInputs \<Rightarrow> (DeterminationOutcome option \<Rightarrow> funding_rationale) \<Rightarrow>
   FundingDisposition \<times> funding_rationale \<times> int option" where
  "funded_disposition i why =
     (case inputs_outcome i of
        Member oc \<Rightarrow>
          if oc \<notin> {QUALIFIED_BOUNDED, QUALIFIED_UNBOUNDED, QUALIFICATION_UNKNOWN}
          then (FUNDED, why None, None) else (FUNDED_QUALIFIED, why (Some oc), None)
      | _ \<Rightarrow> (FUNDED, why None, None))"

definition short_disposition ::
  "FundingInputs \<Rightarrow> FundingDisposition \<times> funding_rationale \<times> int option" where
  "short_disposition i =
     (if rail_finality_class i = Member DEFERRED_NET then
        if position_at_finality i \<ge> obligation i
        then funded_disposition i (F_Covered_At_Finality (position_at_finality i) (shortfall_of i))
        else (WILL_FAIL, F_Short_At_Finality (position_at_finality i), None)
      else if rail_finality_class i = Member LEDGER_FINAL
      then (WILL_FAIL, F_Ledger_Short (shortfall_of i), None)
      else case first_funded_offset i of
             Some t \<Rightarrow> (WILL_QUEUE, F_Queues (shortfall_of i) t, Some t)
           | None \<Rightarrow> (WILL_FAIL, F_Never_Covered (shortfall_of i), None))"

definition funding_disposition ::
  "FundingInputs \<Rightarrow> FundingDisposition \<times> funding_rationale \<times> int option" where
  "funding_disposition i =
     (if inputs_unrecognised_fields i \<noteq> [] then
        (INDETERMINATE,
         F_Unrecognised (map (\<lambda>n. (n, if n = ''finality_class''
             then describe finality_value (rail_finality_class i)
             else describe outcome_value (inputs_outcome i))) (inputs_unrecognised_fields i)), None)
      else if rail_finality_class i = Member DETERMINATION_DEPENDENT
      then (INDETERMINATE, F_Obligation_Class, None)
      else if \<not> inputs_clearing_fund_sufficient i
      then (CLEARING_FUND_DEFICIENT,
            F_Clearing_Fund (clearing_fund_posted i) (clearing_fund_requirement i), None)
      else if net_debit_cap i \<noteq> None \<and> headroom_of i < 0
      then (CAP_BREACH, F_Cap_Breach (trough_of i) (the (net_debit_cap i)) (headroom_of i), None)
      else if inputs_outcome i = Member AWAITING_DETERMINATION
      then (INDETERMINATE, F_Awaiting, None)
      else if rail_finality_class i = Member CORRESPONDENT_DEPENDENT
      then (INDETERMINATE, F_Correspondent, None)
      else if shortfall_of i = 0 then funded_disposition i (F_Covered (settlement_position i))
      else short_disposition i)"

definition project_funding :: "FundingInputs \<Rightarrow> FundingProjection" where
  "project_funding i =
     (case funding_disposition i of (disp, why, funded_at) \<Rightarrow>
      \<lparr>disposition = disp,
       projected_position_at_settlement = settlement_position i,
       optimistic_position_at_settlement =
         position_at (opening_position i) (flows i) (settlement_offset_seconds i) False,
       fp_obligation = obligation i, shortfall = shortfall_of i, fp_headroom = headroom_of i,
       fp_clearing_fund_sufficient = inputs_clearing_fund_sufficient i,
       funded_at_offset_seconds = funded_at, ladder = build_ladder i, fp_rationale = why,
       fp_outcome = (if ''determination_outcome'' \<in> set (inputs_unrecognised_fields i)
                     then Member QUALIFICATION_UNKNOWN else inputs_outcome i)\<rparr>)"

end
