(* ===== verification/Funding_Props.thy ===== *)
theory Funding_Props
  imports Funding_State
begin

text \<open>
  Properties of the funding projection: when it settles, when an instruction queues and when
  it fails, that hoped-for flows never count, what the net-debit cap is tested against, and
  what the gate makes of the projection.
\<close>

subsection \<open>Positions\<close>

lemma position_at_cong:
  assumes "\<And>f. f \<in> set fs \<Longrightarrow> committed f \<Longrightarrow> offset_seconds f \<le> t \<longleftrightarrow> offset_seconds f \<le> t'"
  shows "position_at opening fs t True = position_at opening fs t' True"
  unfolding position_at_def by (rule foldl_cong) (use assms in auto)

lemma foldl_skip:
  "foldl (\<lambda>a x. if P x then g a x else a) s xs = foldl g s (filter P xs)"
  by (induction xs arbitrary: s) simp_all

lemma position_at_filter:
  "position_at opening fs t True =
   foldl (\<lambda>a f. rnd28 (a + amount f)) opening (filter (\<lambda>f. offset_seconds f \<le> t \<and> committed f) fs)"
  by (simp add: position_at_def foldl_skip)

lemma position_at_committed [simp]:
  "position_at opening (filter committed fs) t True = position_at opening fs t True"
  by (simp add: position_at_filter conj_commute)

subsection \<open>The first funded offset\<close>

lemma first_funded_Some:
  "first_funded i ts = Some t \<Longrightarrow>
   t \<in> set ts \<and> settlement_offset_seconds i \<le> t \<and>
   (case window_close_offset_seconds i of None \<Rightarrow> True | Some c \<Rightarrow> t \<le> c) \<and>
   obligation i \<le> position_at (opening_position i) (flows i) t True"
  by (induction i ts rule: first_funded.induct)
    (auto split: if_splits option.splits simp del: not_None_eq)

definition in_window :: "FundingInputs \<Rightarrow> int \<Rightarrow> bool" where
  "in_window i t \<longleftrightarrow> settlement_offset_seconds i \<le> t \<and>
     (case window_close_offset_seconds i of None \<Rightarrow> True | Some c \<Rightarrow> t \<le> c)"

definition covered_at :: "FundingInputs \<Rightarrow> int \<Rightarrow> bool" where
  "covered_at i t \<longleftrightarrow> obligation i \<le> position_at (opening_position i) (flows i) t True"

lemma first_funded_earliest:
  "sorted ts \<Longrightarrow> u \<in> set ts \<Longrightarrow> in_window i u \<Longrightarrow> covered_at i u \<Longrightarrow>
   \<exists>t. first_funded i ts = Some t \<and> t \<le> u"
proof (induction i ts rule: first_funded.induct)
  case (2 i t ts)
  then have le: "t \<le> u" by auto
  show ?case
  proof (cases "in_window i t \<and> covered_at i t")
    case True
    with le show ?thesis by (auto simp: in_window_def covered_at_def split: option.splits)
  next
    case False
    with 2(4,5,6) have "u \<in> set ts" by auto
    moreover have "\<not> (window_close_offset_seconds i \<noteq> None \<and> the (window_close_offset_seconds i) < t)"
      using 2(5) le by (auto simp: in_window_def)
    ultimately show ?thesis
      using 2 False le by (auto simp: in_window_def covered_at_def split: option.splits)
  qed
qed simp

text \<open>Between two candidates the committed position does not move.\<close>

lemma candidate_before:
  assumes "settlement_offset_seconds i \<le> u"
  obtains t where "t \<in> set (funding_candidates i)" "settlement_offset_seconds i \<le> t" "t \<le> u"
    "position_at (opening_position i) (flows i) t True = position_at (opening_position i) (flows i) u True"
proof -
  define T where "T = {t \<in> set (funding_candidates i). t \<le> u}"
  have fin: "finite T" by (simp add: T_def)
  have s: "settlement_offset_seconds i \<in> T" using assms by (simp add: T_def funding_candidates_def)
  with fin have m: "Max T \<in> T" by (intro Max_in) auto
  have "settlement_offset_seconds i \<le> Max T" using fin s by simp
  moreover have "position_at (opening_position i) (flows i) (Max T) True =
      position_at (opening_position i) (flows i) u True"
  proof (rule position_at_cong)
    fix f assume f: "f \<in> set (flows i)" "committed f"
    show "offset_seconds f \<le> Max T \<longleftrightarrow> offset_seconds f \<le> u"
    proof
      assume "offset_seconds f \<le> u"
      with f have "offset_seconds f \<in> T" by (auto simp: T_def funding_candidates_def)
      with fin show "offset_seconds f \<le> Max T" by simp
    qed (use m in \<open>simp add: T_def\<close>)
  qed
  ultimately show ?thesis using m that [of "Max T"] by (simp add: T_def)
qed

lemma first_funded_offset_Some:
  assumes "first_funded_offset i = Some t"
  shows "in_window i t \<and> covered_at i t \<and> (\<forall>u. in_window i u \<and> covered_at i u \<longrightarrow> t \<le> u)"
proof (intro conjI allI impI)
  show "in_window i t" "covered_at i t"
    using first_funded_Some [OF assms [unfolded first_funded_offset_def]]
    by (simp_all add: in_window_def covered_at_def)
  fix u assume u: "in_window i u \<and> covered_at i u"
  then have "settlement_offset_seconds i \<le> u" by (simp add: in_window_def)
  then obtain v where v: "v \<in> set (funding_candidates i)" "settlement_offset_seconds i \<le> v" "v \<le> u"
    "position_at (opening_position i) (flows i) v True = position_at (opening_position i) (flows i) u True"
    by (rule candidate_before)
  then have "in_window i v" "covered_at i v"
    using u by (auto simp: in_window_def covered_at_def split: option.splits)
  then show "t \<le> u"
    using first_funded_earliest [of "funding_candidates i" v i] v assms
    by (auto simp: first_funded_offset_def funding_candidates_def)
qed

lemma first_funded_offset_None:
  "first_funded_offset i = None \<longleftrightarrow> \<not> (\<exists>u. in_window i u \<and> covered_at i u)"
proof
  assume none: "first_funded_offset i = None"
  show "\<not> (\<exists>u. in_window i u \<and> covered_at i u)"
  proof (intro notI, elim exE conjE)
    fix u assume u: "in_window i u" "covered_at i u"
    then have "settlement_offset_seconds i \<le> u" by (simp add: in_window_def)
    then obtain v where v: "v \<in> set (funding_candidates i)" "settlement_offset_seconds i \<le> v" "v \<le> u"
      "position_at (opening_position i) (flows i) v True = position_at (opening_position i) (flows i) u True"
      by (rule candidate_before)
    then have "in_window i v" "covered_at i v"
      using u by (auto simp: in_window_def covered_at_def split: option.splits)
    with v none show False
      using first_funded_earliest [of "funding_candidates i" v i]
      by (auto simp: first_funded_offset_def funding_candidates_def)
  qed
next
  assume "\<not> (\<exists>u. in_window i u \<and> covered_at i u)"
  then show "first_funded_offset i = None"
    using first_funded_offset_Some [of i] by (cases "first_funded_offset i") auto
qed

subsection \<open>The disposition\<close>

text \<open>What the checks ahead of the position ask.\<close>

definition controls_pass :: "FundingInputs \<Rightarrow> bool" where
  "controls_pass i \<longleftrightarrow>
     inputs_unrecognised_fields i = [] \<and>
     rail_finality_class i \<notin> {Member DETERMINATION_DEPENDENT, Member CORRESPONDENT_DEPENDENT} \<and>
     clearing_fund_requirement i \<le> clearing_fund_posted i \<and>
     (case net_debit_cap i of None \<Rightarrow> True | Some cap \<Rightarrow> 0 \<le> cap + min (trough_of i) 0) \<and>
     inputs_outcome i \<noteq> Member AWAITING_DETERMINATION"

lemma controls_pass_iff:
  "controls_pass i \<longleftrightarrow>
     inputs_unrecognised_fields i = [] \<and> rail_finality_class i \<noteq> Member DETERMINATION_DEPENDENT \<and>
     inputs_clearing_fund_sufficient i \<and> \<not> (net_debit_cap i \<noteq> None \<and> headroom_of i < 0) \<and>
     inputs_outcome i \<noteq> Member AWAITING_DETERMINATION \<and>
     rail_finality_class i \<noteq> Member CORRESPONDENT_DEPENDENT"
  by (cases "net_debit_cap i")
    (auto simp: controls_pass_def inputs_clearing_fund_sufficient_def headroom_of_def not_less)

lemma funding_disposition_pass:
  "controls_pass i \<Longrightarrow> funding_disposition i =
     (if shortfall_of i = 0 then funded_disposition i (F_Covered (settlement_position i))
      else short_disposition i)"
  by (auto simp: controls_pass_iff funding_disposition_def)

lemma funding_disposition_stopped:
  "\<not> controls_pass i \<Longrightarrow>
   fst (funding_disposition i) \<in> {INDETERMINATE, CLEARING_FUND_DEFICIENT, CAP_BREACH}"
  by (auto simp: controls_pass_iff funding_disposition_def)

lemma shortfall_zero_iff: "shortfall_of i = 0 \<longleftrightarrow> obligation i \<le> settlement_position i"
  by (simp add: shortfall_of_def ctx.max_rnd_eq_0)

lemma funded_disposition_fst [simp]:
  "fst (funded_disposition i why) \<in> {FUNDED, FUNDED_QUALIFIED}"
  by (auto simp: funded_disposition_def split: enum_arg.splits)

lemma project_funding_sel [funding_simps]:
  "disposition (project_funding i) = fst (funding_disposition i)"
  "funded_at_offset_seconds (project_funding i) = snd (snd (funding_disposition i))"
  "projected_position_at_settlement (project_funding i) = settlement_position i"
  "fp_obligation (project_funding i) = obligation i"
  "shortfall (project_funding i) = shortfall_of i"
  "fp_headroom (project_funding i) = headroom_of i"
  "ladder (project_funding i) = build_ladder i"
  "fp_clearing_fund_sufficient (project_funding i) = inputs_clearing_fund_sufficient i"
  by (simp_all add: project_funding_def split: prod.splits)

lemma recognised_class:
  "controls_pass i \<Longrightarrow>
   rail_finality_class i \<in> {Member GROSS_FINAL, Member DEFERRED_NET, Member LEDGER_FINAL}"
proof -
  assume "controls_pass i"
  then have "is_member (rail_finality_class i)"
    "rail_finality_class i \<noteq> Member DETERMINATION_DEPENDENT"
    "rail_finality_class i \<noteq> Member CORRESPONDENT_DEPENDENT"
    by (auto simp: controls_pass_def inputs_unrecognised_fields_def unrecognised_def split: if_splits)
  then show ?thesis
    by (cases "rail_finality_class i"; cases "case rail_finality_class i of Member c \<Rightarrow> c | _ \<Rightarrow> GROSS_FINAL")
      auto
qed

lemma settles_pass_iff:
  "settles (project_funding i) \<longleftrightarrow> controls_pass i \<and>
      (obligation i \<le> settlement_position i \<or>
       (rail_finality_class i = Member DEFERRED_NET \<and> obligation i \<le> position_at_finality i))"
proof (cases "controls_pass i")
  case True
  then show ?thesis
    using funded_disposition_fst [of i]
    by (auto simp: settles_def funding_simps funding_disposition_pass shortfall_zero_iff
        short_disposition_def split: option.splits)
next
  case False
  then show ?thesis
    using funding_disposition_stopped by (fastforce simp: settles_def funding_simps)
qed

text \<open>
  the projection says the leg settles exactly when its enum inputs are members, the rail's
  class is one a rail can carry and whose finality the originator can see, the clearing fund
  is posted, the deepest intraday position stays within the net-debit cap, the outcome is
  determined, and the committed position covers the obligation at the settlement instant or,
  on a deferred-net rail, at finality.
\<close>

theorem settles_iff:
  "settles (project_funding i) \<longleftrightarrow>
     inputs_unrecognised_fields i = [] \<and>
     rail_finality_class i \<notin> {Member DETERMINATION_DEPENDENT, Member CORRESPONDENT_DEPENDENT} \<and>
     clearing_fund_requirement i \<le> clearing_fund_posted i \<and>
     (case net_debit_cap i of None \<Rightarrow> True | Some cap \<Rightarrow> 0 \<le> cap + min (trough_of i) 0) \<and>
     inputs_outcome i \<noteq> Member AWAITING_DETERMINATION \<and>
     (obligation i \<le> settlement_position i \<or>
      (rail_finality_class i = Member DEFERRED_NET \<and> obligation i \<le> position_at_finality i))"
  by (simp add: settles_pass_iff controls_pass_def conj_assoc)

lemma short_disposition_cases:
  assumes "controls_pass i" and "settlement_position i < obligation i"
  shows "funding_disposition i = short_disposition i"
  using assms by (simp add: funding_disposition_pass shortfall_zero_iff)

lemma unshort_disposition:
  assumes "\<not> (controls_pass i \<and> settlement_position i < obligation i)"
  shows "fst (funding_disposition i) \<in>
    {INDETERMINATE, CLEARING_FUND_DEFICIENT, CAP_BREACH, FUNDED, FUNDED_QUALIFIED}"
proof (cases "controls_pass i")
  case True
  with assms have "funding_disposition i = funded_disposition i (F_Covered (settlement_position i))"
    by (simp add: funding_disposition_pass shortfall_zero_iff)
  then show ?thesis using funded_disposition_fst [of i "F_Covered (settlement_position i)"] by auto
next
  case False
  then show ?thesis using funding_disposition_stopped [of i] by auto
qed

lemma queue_disposition:
  "fst (funding_disposition i) = WILL_QUEUE \<longleftrightarrow>
     controls_pass i \<and> rail_finality_class i = Member GROSS_FINAL \<and>
     settlement_position i < obligation i \<and> first_funded_offset i \<noteq> None"
proof (cases "controls_pass i \<and> settlement_position i < obligation i")
  case True
  then show ?thesis
    using recognised_class [of i] short_disposition_cases [of i]
      funded_disposition_fst [of i "F_Covered_At_Finality (position_at_finality i) (shortfall_of i)"]
    by (auto simp: short_disposition_def split: option.splits)
next
  case False
  then show ?thesis
    using unshort_disposition [of i] by auto
qed

lemma funded_at_disposition:
  "snd (snd (funding_disposition i)) =
     (if fst (funding_disposition i) = WILL_QUEUE then first_funded_offset i else None)"
  by (auto simp: funding_disposition_def short_disposition_def funded_disposition_def
      split: option.splits enum_arg.splits)

text \<open>
  C2: an instruction queues exactly when it passes the controls, is short on a gross-final rail
  at the settlement instant, and some instant of the window, not earlier than settlement, has
  committed funds that cover it. A queued instruction is never a failure, and it is the only
  disposition that names a funding time.
\<close>

theorem queues_iff:
  "(disposition (project_funding i) = WILL_QUEUE \<longleftrightarrow>
     controls_pass i \<and> rail_finality_class i = Member GROSS_FINAL \<and>
     settlement_position i < obligation i \<and>
     (\<exists>t. settlement_offset_seconds i \<le> t \<and>
          (case window_close_offset_seconds i of None \<Rightarrow> True | Some c \<Rightarrow> t \<le> c) \<and>
          obligation i \<le> position_at (opening_position i) (flows i) t True)) \<and>
   (funded_at_offset_seconds (project_funding i) \<noteq> None \<longleftrightarrow>
     disposition (project_funding i) = WILL_QUEUE) \<and>
   \<not> (disposition (project_funding i) = WILL_QUEUE \<and> is_failure (project_funding i))"
proof -
  have "first_funded_offset i \<noteq> None \<longleftrightarrow> (\<exists>t. in_window i t \<and> covered_at i t)"
    unfolding first_funded_offset_None by simp
  then have q: "fst (funding_disposition i) = WILL_QUEUE \<longleftrightarrow>
      controls_pass i \<and> rail_finality_class i = Member GROSS_FINAL \<and>
      settlement_position i < obligation i \<and> (\<exists>t. in_window i t \<and> covered_at i t)"
    by (simp add: queue_disposition)
  have "snd (snd (funding_disposition i)) \<noteq> None \<longleftrightarrow> fst (funding_disposition i) = WILL_QUEUE"
    using queue_disposition [of i] by (simp add: funded_at_disposition)
  moreover have "\<not> (fst (funding_disposition i) = WILL_QUEUE \<and>
      fst (funding_disposition i) \<in> {WILL_FAIL, CAP_BREACH, CLEARING_FUND_DEFICIENT})"
    by auto
  ultimately show ?thesis
    unfolding funding_simps is_failure_def q in_window_def covered_at_def by (simp only: conj_assoc simp_thms)
qed

text \<open>
  the funding time a queued instruction reports is the earliest instant of the window, of
  all instants and not only those at which a flow falls, at which the committed position covers
  the obligation.
\<close>

theorem queued_until_earliest_cover:
  assumes "funded_at_offset_seconds (project_funding i) = Some t"
  shows "in_window i t \<and> covered_at i t \<and> settlement_offset_seconds i < t \<and>
    (\<forall>u. in_window i u \<and> covered_at i u \<longrightarrow> t \<le> u)"
proof -
  have f: "first_funded_offset i = Some t" and q: "fst (funding_disposition i) = WILL_QUEUE"
    using assms by (auto simp: funding_simps funded_at_disposition split: if_splits)
  note t = first_funded_offset_Some [OF f]
  have "\<not> covered_at i (settlement_offset_seconds i)"
    using q by (simp add: queue_disposition covered_at_def settlement_position_def not_le)
  with t have "settlement_offset_seconds i < t" by (auto simp: in_window_def order_less_le)
  with t show ?thesis by blast
qed

text \<open>
  an instruction fails on the position exactly when it passes the controls and is short, and
  either the rail is ledger-final, or it is deferred-net and still short at finality, or it is
  gross-final and no instant of the window is covered.
\<close>

theorem fails_iff:
  "disposition (project_funding i) = WILL_FAIL \<longleftrightarrow>
     controls_pass i \<and> settlement_position i < obligation i \<and>
     (rail_finality_class i = Member LEDGER_FINAL \<or>
      (rail_finality_class i = Member DEFERRED_NET \<and> position_at_finality i < obligation i) \<or>
      (rail_finality_class i = Member GROSS_FINAL \<and>
       \<not> (\<exists>t. in_window i t \<and> covered_at i t)))"
proof (cases "controls_pass i \<and> settlement_position i < obligation i")
  case True
  then show ?thesis
    using recognised_class [of i] short_disposition_cases [of i] first_funded_offset_None [of i]
      funded_disposition_fst [of i "F_Covered_At_Finality (position_at_finality i) (shortfall_of i)"]
    by (cases "first_funded_offset i") (auto simp: funding_simps short_disposition_def)
next
  case False
  then show ?thesis
    using unshort_disposition [of i] by (auto simp: funding_simps)
qed

subsection \<open>Hoped-for flows\<close>

lemma ladder_points_committed [simp]: "ladder_points r (filter committed fs) = ladder_points r fs"
  by (induction r fs rule: ladder_points.induct) (auto simp: Let_def)

lemma timed_flows_committed [simp]: "timed_flows c (filter committed fs) = timed_flows c fs"
  by (induction fs) (auto split: option.splits)

abbreviation drop_uncommitted :: "FundingInputs \<Rightarrow> FundingInputs" where
  "drop_uncommitted i \<equiv> i\<lparr>flows := filter committed (flows i)\<rparr>"

lemma drop_uncommitted_position [simp]: "settlement_position (drop_uncommitted i) = settlement_position i"
  by (simp add: settlement_position_def)

lemma drop_uncommitted_ladder [simp]: "build_ladder (drop_uncommitted i) = build_ladder i"
proof -
  have "sort_key flow_key (filter committed (flows i)) = filter committed (sort_key flow_key (flows i))"
    by (rule filter_sort [symmetric])
  then show ?thesis by (simp add: build_ladder_def)
qed

lemma drop_uncommitted_trough [simp]: "trough_of (drop_uncommitted i) = trough_of i"
  by (simp add: trough_of_def cap_trough_def)

lemma drop_uncommitted_first_funded [simp]: "first_funded (drop_uncommitted i) ts = first_funded i ts"
  by (induction i ts rule: first_funded.induct) auto

lemma drop_uncommitted_rest [simp]:
  "funding_candidates (drop_uncommitted i) = funding_candidates i"
  "headroom_of (drop_uncommitted i) = headroom_of i"
  "shortfall_of (drop_uncommitted i) = shortfall_of i"
  "position_at_finality (drop_uncommitted i) = position_at_finality i"
  "inputs_unrecognised_fields (drop_uncommitted i) = inputs_unrecognised_fields i"
  "inputs_clearing_fund_sufficient (drop_uncommitted i) = inputs_clearing_fund_sufficient i"
  "first_funded_offset (drop_uncommitted i) = first_funded_offset i"
  by (simp_all add: funding_candidates_def headroom_of_def shortfall_of_def position_at_finality_def
      inputs_unrecognised_fields_def inputs_clearing_fund_sufficient_def first_funded_offset_def
      split: option.splits)

lemma drop_uncommitted_disposition [simp]:
  "funding_disposition (drop_uncommitted i) = funding_disposition i"
  by (simp add: funding_disposition_def short_disposition_def funded_disposition_def
      cong: if_cong option.case_cong)

text \<open>
  a flow that is expected but not committed never counts. Dropping every uncommitted flow
  changes nothing of the projection but the optimistic position that is reported beside it.
\<close>

theorem hoped_for_flows_never_count:
  "project_funding (i\<lparr>flows := filter committed (flows i)\<rparr>) =
   (project_funding i)\<lparr>optimistic_position_at_settlement :=
      position_at (opening_position i) (filter committed (flows i)) (settlement_offset_seconds i) False\<rparr>"
  by (simp add: project_funding_def split: prod.splits)

subsection \<open>The trough\<close>

lemma timed_flows_no_close:
  "timed_flows None fs =
   map (\<lambda>f. (offset_seconds f, label f, amount f)) (filter committed fs)"
  by (induction fs) simp_all

lemma trough_from_Min:
  "trough_from r t (map amount fs) =
   Min (insert t (lp_position ` set (ladder_points r (filter committed fs))))"
  if "\<forall>f \<in> set fs. committed f" for r t fs
  using that
proof (induction fs arbitrary: r t)
  case (Cons f fs)
  then have c: "committed f" "\<forall>f \<in> set fs. committed f" by simp_all
  let ?r = "rnd28 (r + amount f)"
  let ?S = "lp_position ` set (ladder_points ?r (filter committed fs))"
  have "trough_from r t (map amount (f # fs)) = Min (insert (min t ?r) ?S)"
    using Cons.IH [OF c(2), of ?r "min t ?r"] by (simp add: Let_def)
  also have "\<dots> = Min (insert t (insert ?r ?S))"
    by (cases "?S = {}") (simp_all add: min.assoc)
  finally show ?case using c(1) by (simp add: Let_def)
qed simp

text \<open>
  on a rail without a window close the trough the net-debit cap is tested against is exactly
  the lowest point of the ladder reported with the projection.
\<close>

theorem open_ended_trough_is_ladder_low:
  assumes "window_close_offset_seconds i = None"
  shows "trough_of i = Min (lp_position ` set (ladder (project_funding i)))"
proof -
  let ?fs = "sort_key flow_key (filter committed (flows i))"
  let ?post = "rnd28 (settlement_position i - obligation i)"
  let ?S = "lp_position ` set (ladder_points (opening_position i) ?fs)"
  have key: "flow_key = (\<lambda>f. (offset_seconds f, label f))" by (simp add: flow_key_def fun_eq_iff)
  have com: "\<forall>f \<in> set ?fs. committed f" "filter committed ?fs = ?fs"
    by (simp_all add: filter_id_conv)
  have "trough_of i = min (trough_from (opening_position i) (opening_position i) (map amount ?fs)) ?post"
    by (simp add: trough_of_def cap_trough_def assms timed_flows_no_close sort_key_map key
        comp_def Let_def)
  also have "\<dots> = min (Min (insert (opening_position i) ?S)) ?post"
    using trough_from_Min [OF com(1), of "opening_position i" "opening_position i"] com(2) by simp
  also have "\<dots> = Min (insert ?post (insert (opening_position i) ?S))"
    by (simp add: min.commute)
  finally have t: "trough_of i = Min (insert ?post (insert (opening_position i) ?S))" .
  have "?fs = filter committed (sort_key flow_key (flows i))" by (rule filter_sort [symmetric])
  then have "ladder_points (opening_position i) ?fs =
      ladder_points (opening_position i) (sort_key flow_key (flows i))" by simp
  then have "lp_position ` set (build_ladder i) = insert ?post (insert (opening_position i) ?S)"
    unfolding build_ladder_def set_sort by auto
  with t show ?thesis by (simp add: funding_simps)
qed

subsection \<open>Flows beyond the window\<close>

text \<open>A committed flow on a firm date after the close: \<open>later i f\<close>.\<close>

definition later :: "FundingInputs \<Rightarrow> CashFlow \<Rightarrow> bool" where
  "later i f \<longleftrightarrow> offset_is_certain f \<and>
     (case window_close_offset_seconds i of None \<Rightarrow> False
      | Some c \<Rightarrow> settlement_offset_seconds i \<le> c \<and> c < offset_seconds f)"

lemma first_funded_offset_cong:
  assumes "\<And>u. in_window i u \<and> covered_at i u \<longleftrightarrow> in_window j u \<and> covered_at j u"
  shows "first_funded_offset i = first_funded_offset j"
proof (cases "first_funded_offset i")
  case None
  then have "first_funded_offset j = None" by (simp add: first_funded_offset_None assms)
  with None show ?thesis by simp
next
  case (Some t)
  note t = first_funded_offset_Some [OF Some]
  then have "first_funded_offset j \<noteq> None" using assms by (auto simp: first_funded_offset_None)
  then obtain u where u: "first_funded_offset j = Some u" by blast
  have "t = u" using t first_funded_offset_Some [OF u] assms by (intro antisym) blast+
  with Some u show ?thesis by simp
qed

lemma same_flows_disposition:
  assumes "settlement_position (i\<lparr>flows := fs\<rparr>) = settlement_position (i\<lparr>flows := gs\<rparr>)"
    and "trough_of (i\<lparr>flows := fs\<rparr>) = trough_of (i\<lparr>flows := gs\<rparr>)"
    and "position_at_finality (i\<lparr>flows := fs\<rparr>) = position_at_finality (i\<lparr>flows := gs\<rparr>)"
    and "first_funded_offset (i\<lparr>flows := fs\<rparr>) = first_funded_offset (i\<lparr>flows := gs\<rparr>)"
  shows "funding_disposition (i\<lparr>flows := fs\<rparr>) = funding_disposition (i\<lparr>flows := gs\<rparr>)"
  using assms
  by (simp add: funding_disposition_def short_disposition_def funded_disposition_def headroom_of_def
      shortfall_of_def inputs_unrecognised_fields_def inputs_clearing_fund_sufficient_def
      cong: if_cong option.case_cong)

lemma timed_flows_append: "timed_flows c (xs @ ys) = timed_flows c xs @ timed_flows c ys"
  by (induction xs) (auto split: option.splits)

lemma position_at_skip:
  assumes "t < offset_seconds f"
  shows "position_at opening (xs @ f # ys) t True = position_at opening (xs @ ys) t True"
  using assms by (simp add: position_at_filter)

text \<open>
  a committed flow on a firm date after the window closes changes neither the disposition,
  nor the funding time, nor the headroom: tomorrow's outflow does not breach today's cap, and
  tomorrow's inflow does not fund today's obligation.
\<close>

theorem later_flows_do_not_count:
  assumes "later i f"
  shows "disposition (project_funding (i\<lparr>flows := xs @ f # ys\<rparr>)) =
      disposition (project_funding (i\<lparr>flows := xs @ ys\<rparr>)) \<and>
    funded_at_offset_seconds (project_funding (i\<lparr>flows := xs @ f # ys\<rparr>)) =
      funded_at_offset_seconds (project_funding (i\<lparr>flows := xs @ ys\<rparr>)) \<and>
    fp_headroom (project_funding (i\<lparr>flows := xs @ f # ys\<rparr>)) =
      fp_headroom (project_funding (i\<lparr>flows := xs @ ys\<rparr>))"
proof -
  let ?a = "i\<lparr>flows := xs @ f # ys\<rparr>" and ?b = "i\<lparr>flows := xs @ ys\<rparr>"
  obtain c where c: "window_close_offset_seconds i = Some c" "settlement_offset_seconds i \<le> c"
    "c < offset_seconds f" and cert: "offset_is_certain f"
    using assms(1) by (auto simp: later_def split: option.splits)
  have settle: "settlement_position ?a = settlement_position ?b"
    using c by (simp add: settlement_position_def position_at_skip)
  have "timed_flows (Some c) [f] = []" using c cert by simp
  then have "timed_flows (Some c) (xs @ [f] @ ys) = timed_flows (Some c) (xs @ ys)"
    by (simp only: timed_flows_append append_Nil)
  then have trough: "trough_of ?a = trough_of ?b"
    using settle c by (simp add: trough_of_def cap_trough_def)
  then have head: "headroom_of ?a = headroom_of ?b" by (simp add: headroom_of_def split: option.splits)
  have fin: "position_at_finality ?a = position_at_finality ?b"
    using c by (simp add: position_at_finality_def position_at_skip)
  have first: "first_funded_offset ?a = first_funded_offset ?b"
    by (rule first_funded_offset_cong)
      (use c in \<open>auto simp: in_window_def covered_at_def position_at_skip\<close>)
  have "funding_disposition ?a = funding_disposition ?b"
    by (rule same_flows_disposition [OF settle trough fin first])
  then show ?thesis using head by (simp add: funding_simps)
qed

subsection \<open>What the gate makes of a projection\<close>

lemma headroom_nonneg: "controls_pass i \<Longrightarrow> 0 \<le> headroom_of i"
  by (cases "net_debit_cap i") (simp_all add: controls_pass_def headroom_of_def)

lemma asserted_controls_pass:
  assumes "fst (funding_disposition i) \<noteq> INDETERMINATE" and "0 \<le> headroom_of i"
    and "inputs_clearing_fund_sufficient i"
  shows "controls_pass i"
  using assms unfolding controls_pass_iff funding_disposition_def by (auto split: if_splits)

lemma gate_funding_checks_pass:
  "check_assertable (to_gate_input (project_funding i)) = None \<and>
   check_funded (to_gate_input (project_funding i)) = None \<and>
   check_risk_controls (to_gate_input (project_funding i)) = None \<longleftrightarrow>
     settles (project_funding i) \<and> obligation i \<le> settlement_position i"
proof -
  have "check_assertable (to_gate_input (project_funding i)) = None \<and>
      check_funded (to_gate_input (project_funding i)) = None \<and>
      check_risk_controls (to_gate_input (project_funding i)) = None \<longleftrightarrow>
      fst (funding_disposition i) \<noteq> INDETERMINATE \<and> obligation i \<le> settlement_position i \<and>
      0 \<le> headroom_of i \<and> inputs_clearing_fund_sufficient i"
    by (simp add: gate_simps to_gate_input_def funding_simps is_funded_def)
  also have "\<dots> \<longleftrightarrow> controls_pass i \<and> obligation i \<le> settlement_position i"
  proof (intro iffI; elim conjE; intro conjI)
    assume a: "controls_pass i" "obligation i \<le> settlement_position i"
    then show "fst (funding_disposition i) \<noteq> INDETERMINATE"
      using funded_disposition_fst [of i "F_Covered (settlement_position i)"]
      by (auto simp: funding_disposition_pass shortfall_zero_iff)
    show "0 \<le> headroom_of i" using a by (simp add: headroom_nonneg)
    show "inputs_clearing_fund_sufficient i" using a by (simp add: controls_pass_iff)
  qed (simp_all add: asserted_controls_pass)
  finally show ?thesis by (auto simp: settles_pass_iff)
qed

text \<open>
  C18: the funding checks of the gate (assertable, funded, risk controls) all pass on a
  projection exactly when the projection settles and the leg is covered at the settlement
  instant. So nothing the projection refuses, fails or queues is released, and a deferred-net
  leg that only settles at finality is held.
\<close>

theorem gate_funding_checks_iff:
  "check_assertable (to_gate_input (project_funding i)) = None \<and>
   check_funded (to_gate_input (project_funding i)) = None \<and>
   check_risk_controls (to_gate_input (project_funding i)) = None \<longleftrightarrow>
     settles (project_funding i) \<and> obligation i \<le> settlement_position i"
  by (rule gate_funding_checks_pass)

subsection \<open>Witnesses\<close>

text \<open>A gross-final leg of 100 with an empty account and a committed receipt of 150 at half past.\<close>

definition w_inputs :: FundingInputs where
  "w_inputs =
     \<lparr>opening_position = 0, obligation = 100, rail_finality_class = Member GROSS_FINAL,
      settlement_offset_seconds = 0, window_close_offset_seconds = Some 3600,
      flows = [\<lparr>offset_seconds = 1800, amount = 150, label = ''receipt'', committed = True,
                offset_is_certain = True\<rparr>],
      net_debit_cap = None, clearing_fund_requirement = 0, clearing_fund_posted = 0,
      inputs_outcome = Member NOT_APPLICABLE\<rparr>"

definition w_tomorrow :: CashFlow where
  "w_tomorrow = \<lparr>offset_seconds = 86400, amount = - 1000, label = ''tomorrow'', committed = True,
     offset_is_certain = True\<rparr>"

lemma w_inputs_controls: "controls_pass w_inputs"
  by (simp add: controls_pass_def w_inputs_def inputs_unrecognised_fields_def unrecognised_def)

lemma w_inputs_first: "first_funded_offset w_inputs = Some 1800"
  by (simp add: first_funded_offset_def funding_candidates_def w_inputs_def position_at_def)

lemma w_inputs_queues: "funded_at_offset_seconds (project_funding w_inputs) = Some 1800"
proof -
  have "rail_finality_class w_inputs = Member GROSS_FINAL" "settlement_position w_inputs < obligation w_inputs"
    by (simp_all add: w_inputs_def settlement_position_def position_at_def)
  then show ?thesis
    using w_inputs_controls w_inputs_first
    by (simp add: funding_simps funded_at_disposition queue_disposition)
qed

theorem queued_until_earliest_cover_witness:
  "in_window w_inputs 1800 \<and> covered_at w_inputs 1800 \<and> \<not> covered_at w_inputs 1799"
proof -
  have "in_window w_inputs 1799" by (simp add: in_window_def w_inputs_def)
  then show ?thesis using queued_until_earliest_cover [OF w_inputs_queues] by force
qed

theorem open_ended_trough_is_ladder_low_witness:
  "trough_of (w_inputs\<lparr>window_close_offset_seconds := None\<rparr>) =
   Min (lp_position ` set (ladder (project_funding (w_inputs\<lparr>window_close_offset_seconds := None\<rparr>))))"
  by (rule open_ended_trough_is_ladder_low) simp

theorem later_flows_do_not_count_witness:
  "disposition (project_funding (w_inputs\<lparr>flows := flows w_inputs @ [w_tomorrow]\<rparr>)) = WILL_QUEUE"
proof -
  have "later w_inputs w_tomorrow" by (simp add: later_def w_inputs_def w_tomorrow_def)
  from later_flows_do_not_count [OF this, of "flows w_inputs" "[]"]
  have "disposition (project_funding (w_inputs\<lparr>flows := flows w_inputs @ [w_tomorrow]\<rparr>)) =
      disposition (project_funding w_inputs)"
    by simp
  then show ?thesis
    using w_inputs_queues by (simp add: funding_simps funded_at_disposition split: if_splits)
qed

end
