(* ===== verification/CNS_Rail.thy ===== *)
theory CNS_Rail
  imports Market_Calendar Decimal_Context Boundary "HOL-Library.AList"
begin

text \<open>
  \<open>atreides/rails/cns.py\<close>: the continuous net settlement rail. A market profile with the
  checks of its constructor, the netting of novated trades into one position per security
  (an 80-digit context, with the declared limit of 1E+30 tested in the default context), and
  the classification of the outcome of one net position with its residual and its breaks.
  Break details are constructors carrying the interpolated values.
\<close>

definition CNS_FINALITY :: FinalityClass where
  "CNS_FINALITY = DEFERRED_NET"

datatype CloseOutRegime = NOT_ASSESSED | NONE_PUBLISHED | MANDATORY_DEADLINE

fun close_out_value :: "CloseOutRegime \<Rightarrow> string" where
  "close_out_value CloseOutRegime.NOT_ASSESSED = ''not_assessed''"
| "close_out_value NONE_PUBLISHED = ''none_published''"
| "close_out_value MANDATORY_DEADLINE = ''mandatory_deadline''"

definition close_out_members :: "CloseOutRegime list" where
  "close_out_members = [CloseOutRegime.NOT_ASSESSED, NONE_PUBLISHED, MANDATORY_DEADLINE]"

interpretation close_out: str_enum close_out_members close_out_value
proof (rule str_enumI)
  show "e \<in> set close_out_members" for e by (cases e) (simp_all add: close_out_members_def)
qed (simp add: close_out_members_def)

datatype ProcessingDateRule =
    NOT_ASSESSED | FIXED_CYCLE_FROM_TRADE_DATE | SESSION_CLOSURE_MESSAGE

fun processing_rule_value :: "ProcessingDateRule \<Rightarrow> string" where
  "processing_rule_value ProcessingDateRule.NOT_ASSESSED = ''not_assessed''"
| "processing_rule_value FIXED_CYCLE_FROM_TRADE_DATE = ''fixed_cycle_from_trade_date''"
| "processing_rule_value SESSION_CLOSURE_MESSAGE = ''session_closure_message''"

definition processing_rule_members :: "ProcessingDateRule list" where
  "processing_rule_members =
     [ProcessingDateRule.NOT_ASSESSED, FIXED_CYCLE_FROM_TRADE_DATE, SESSION_CLOSURE_MESSAGE]"

interpretation processing_rule: str_enum processing_rule_members processing_rule_value
proof (rule str_enumI)
  show "e \<in> set processing_rule_members" for e by (cases e) (simp_all add: processing_rule_members_def)
qed (simp add: processing_rule_members_def)

record MarketProfile =
  market_id :: string
  settlement_cycle_days :: "int option"
  processing_date_rule :: ProcessingDateRule
  session_closure_message :: "string option"
  close_out_regime :: CloseOutRegime
  close_out_deadline_days :: "int option"
  allocation_rule_published :: bool
  market_provenance :: "string option"

datatype market_profile_error =
    Not_A_Close_Out_Regime | Not_A_Processing_Date_Rule | Market_Id_Required | Provenance_Required
  | Rule_On_Unassessed | Deadline_Missing | Deadline_Without_Regime | Message_Not_Named
  | Message_Without_Rule

text \<open>The constructor with its \<open>__post_init__\<close>.\<close>

definition mk_MarketProfile ::
  "string \<Rightarrow> int option \<Rightarrow> ProcessingDateRule enum_arg \<Rightarrow> string option \<Rightarrow>
   CloseOutRegime enum_arg \<Rightarrow> int option \<Rightarrow> bool \<Rightarrow> string option \<Rightarrow>
   (market_profile_error, MarketProfile) result" where
  "mk_MarketProfile market cycle rule_arg message regime_arg deadline published prov =
     (case enum_call close_out_members close_out_value regime_arg of
        None \<Rightarrow> Inl Not_A_Close_Out_Regime
      | Some regime \<Rightarrow>
     (case enum_call processing_rule_members processing_rule_value rule_arg of
        None \<Rightarrow> Inl Not_A_Processing_Date_Rule
      | Some rule \<Rightarrow>
          require (market \<noteq> []) Market_Id_Required (
          require (regime = CloseOutRegime.NOT_ASSESSED \<or> truthy prov) Provenance_Required (
          require (\<not> (regime = CloseOutRegime.NOT_ASSESSED \<and>
                      (deadline \<noteq> None \<or> cycle \<noteq> None \<or> rule \<noteq> ProcessingDateRule.NOT_ASSESSED)))
            Rule_On_Unassessed (
          require (\<not> (regime = MANDATORY_DEADLINE \<and> deadline = None)) Deadline_Missing (
          require (\<not> (regime \<noteq> MANDATORY_DEADLINE \<and> deadline \<noteq> None)) Deadline_Without_Regime (
          require (\<not> (rule = SESSION_CLOSURE_MESSAGE \<and> \<not> truthy message)) Message_Not_Named (
          require (\<not> (truthy message \<and> rule \<noteq> SESSION_CLOSURE_MESSAGE)) Message_Without_Rule (
          Inr \<lparr>market_id = market, settlement_cycle_days = cycle, processing_date_rule = rule,
               session_closure_message = message, close_out_regime = regime,
               close_out_deadline_days = deadline, allocation_rule_published = published,
               market_provenance = prov\<rparr>)))))))))"

definition settlement_date_follows_from_trade_date :: "MarketProfile \<Rightarrow> bool" where
  "settlement_date_follows_from_trade_date p \<longleftrightarrow>
     processing_date_rule p = FIXED_CYCLE_FROM_TRADE_DATE \<and> settlement_cycle_days p \<noteq> None"

definition absent_market_profile :: "string \<Rightarrow> (market_profile_error, MarketProfile) result" where
  "absent_market_profile market =
     mk_MarketProfile market None (Member ProcessingDateRule.NOT_ASSESSED) None
       (Member CloseOutRegime.NOT_ASSESSED) None False None"

text \<open>The assertion of the source holds for a constructed profile (\<open>market_profile_ok\<close> below).\<close>

definition close_out_deadline :: "MarketProfile \<Rightarrow> int \<Rightarrow> int option" where
  "close_out_deadline p offset =
     (if close_out_regime p \<noteq> MANDATORY_DEADLINE then None
      else map_option (\<lambda>days. offset + days) (close_out_deadline_days p))"

datatype CNSDisposition =
    SETTLED_IN_FULL | PARTIAL_ALLOCATION | FAILED_TO_DELIVER | FAILED_TO_RECEIVE | FLAT
  | NOT_NOVATED | INDETERMINATE

record NetPosition =
  np_security_id :: string
  np_quantity :: rat
  np_settlement_date_offset_days :: int
  np_market_id :: string
  constituent_trade_count :: nat
  assigned_processing_date_offset_days :: "int option"

definition is_receive :: "NetPosition \<Rightarrow> bool" where
  "is_receive p \<longleftrightarrow> np_quantity p > 0"

definition is_deliver :: "NetPosition \<Rightarrow> bool" where
  "is_deliver p \<longleftrightarrow> np_quantity p < 0"

definition processing_date_offset :: "MarketProfile \<Rightarrow> NetPosition \<Rightarrow> int option" where
  "processing_date_offset profile position =
     (case processing_date_rule profile of
        FIXED_CYCLE_FROM_TRADE_DATE \<Rightarrow> Some 0
      | SESSION_CLOSURE_MESSAGE \<Rightarrow> assigned_processing_date_offset_days position
      | ProcessingDateRule.NOT_ASSESSED \<Rightarrow> None)"

record FailPosition =
  fail_security_id :: string
  fail_quantity :: rat
  fail_cash :: rat
  fail_settlement_date :: date
  fail_as_of_date :: date
  aged_business_days :: int
  close_out_deadline_offset_days :: "int option"
  restated_by_corporate_action :: bool

subsection \<open>Record-date balances\<close>

datatype balance_error = Balance_Refused string

definition exact_finite_balance :: "string \<Rightarrow> decimal_arg \<Rightarrow> (balance_error, rat) result" where
  "exact_finite_balance name v =
     (case v of Dec r \<Rightarrow> Inr r | Py_Int n \<Rightarrow> Inr (of_int n) | _ \<Rightarrow> Inl (Balance_Refused name))"

record RecordDatePosition =
  rd_security_id :: string
  eligible_balance :: rat
  settlement_balance :: rat
  pending_delivery_balance :: rat
  pending_receipt_balance :: rat
  obligated_balance :: rat
  uncovered_protect_balance :: rat
  rd_provenance :: "string option"

fun exact_balances :: "(string \<times> decimal_arg) list \<Rightarrow> (balance_error, rat list) result" where
  "exact_balances [] = Inr []"
| "exact_balances ((name, v) # rest) =
     (case exact_finite_balance name v of
        Inl e \<Rightarrow> Inl e
      | Inr r \<Rightarrow> (case exact_balances rest of Inl e \<Rightarrow> Inl e | Inr rs \<Rightarrow> Inr (r # rs)))"

definition mk_RecordDatePosition ::
  "string \<Rightarrow> decimal_arg \<Rightarrow> decimal_arg \<Rightarrow> decimal_arg \<Rightarrow> decimal_arg \<Rightarrow> decimal_arg \<Rightarrow>
   decimal_arg \<Rightarrow> string option \<Rightarrow> (balance_error, RecordDatePosition) result" where
  "mk_RecordDatePosition sid eligible settled delivery receipt obligated uncovered prov =
     (case exact_balances
        [(''eligible_balance'', eligible), (''settlement_balance'', settled),
         (''pending_delivery_balance'', delivery), (''pending_receipt_balance'', receipt),
         (''obligated_balance'', obligated), (''uncovered_protect_balance'', uncovered)] of
        Inl e \<Rightarrow> Inl e
      | Inr rs \<Rightarrow>
          Inr \<lparr>rd_security_id = sid, eligible_balance = rs ! 0, settlement_balance = rs ! 1,
               pending_delivery_balance = rs ! 2, pending_receipt_balance = rs ! 3,
               obligated_balance = rs ! 4, uncovered_protect_balance = rs ! 5,
               rd_provenance = prov\<rparr>)"

definition diverges :: "RecordDatePosition \<Rightarrow> bool" where
  "diverges p \<longleftrightarrow> eligible_balance p \<noteq> settlement_balance p"

definition divergence :: "RecordDatePosition \<Rightarrow> rat" where
  "divergence p = rnd28 (eligible_balance p - settlement_balance p)"

subsection \<open>Breaks and results\<close>

datatype SecuritiesBreakCode =
    FAIL_TO_DELIVER | FAIL_TO_RECEIVE | PARTIAL_WITH_UNEXPLAINED_ALLOCATION
  | CLOSE_OUT_DEADLINE_UNREADABLE | CLOSE_OUT_DEADLINE_PASSED | ELIGIBLE_SETTLED_DIVERGENCE
  | QUANTITY_NOT_RESTATED | PROCESSING_DATE_NOT_ESTABLISHED | ALLOCATION_AGAINST_FLAT_POSITION
  | OUTCOME_NOT_REPORTED | MARKET_PROFILE_MISMATCH | ALLOCATION_NOT_FINITE
  | ALLOCATION_WRONG_SIGN | ALLOCATION_EXCEEDS_POSITION

datatype break_detail =
    B_Processing_Date string string string int | B_Mismatch string string
  | B_Not_Finite string decimal_arg | B_Wrong_Sign | B_Exceeds | B_Not_Reported
  | B_Flat_Allocation rat string nat | B_Unexplained string rat rat | B_Nothing_Allocated string rat
  | B_Unreadable string string | B_Deadline_Passed string "int option"
  | B_Divergence string rat string | B_Not_Restated string

record SecuritiesBreak =
  break_code :: SecuritiesBreakCode
  break_detail :: break_detail
  break_security_id :: "string option"

datatype cns_rationale =
    C_Refused break_detail | C_Silent | C_Flat string nat "rat option" | C_Settled string
  | C_Partial rat rat string | C_Nothing CNSDisposition

record NetSettlementResult =
  cns_disposition :: CNSDisposition
  cns_position :: NetPosition
  res_allocated_quantity :: rat
  res_allocated_cash :: rat
  residual :: "FailPosition option"
  breaks :: "SecuritiesBreak list"
  cns_rationale :: cns_rationale

definition is_fail :: "NetSettlementResult \<Rightarrow> bool" where
  "is_fail r \<longleftrightarrow> cns_disposition r \<in> {FAILED_TO_DELIVER, FAILED_TO_RECEIVE}"

definition completed :: "NetSettlementResult \<Rightarrow> bool" where
  "completed r \<longleftrightarrow>
     \<not> list_ex (\<lambda>b. break_code b = ALLOCATION_AGAINST_FLAT_POSITION) (breaks r) \<and>
     cns_disposition r \<in> {SETTLED_IN_FULL, FLAT}"

subsection \<open>Netting\<close>

datatype netting_error =
    Quantity_Boolean_Refused | Quantity_Not_Finite | Quantity_Exceeds_Declared_Context
  | Net_Position_Exceeds_Declared_Context

definition DECLARED_LIMIT :: rat where
  "DECLARED_LIMIT = 10 ^ 30"   \<comment> \<open>Decimal("1E+30")\<close>

type_synonym netting_state = "(string \<times> rat) list \<times> (string \<times> nat) list"

text \<open>
  One turn of the loop of \<open>net_positions\<close>. The two dicts are association lists in insertion
  order; \<open>abs\<close> of a Decimal rounds to the context in force, which is the default one in both
  limit tests.
\<close>

definition net_step ::
  "netting_state \<Rightarrow> string \<times> decimal_arg \<Rightarrow> (netting_error, netting_state) result" where
  "net_step st trade =
     (case (st, trade) of ((totals, counts), (sid, quantity)) \<Rightarrow>
        (case quantity of
           Py_Bool _ \<Rightarrow> Inl Quantity_Boolean_Refused
         | Dec q \<Rightarrow>
             require (\<not> rnd28 \<bar>q\<bar> > DECLARED_LIMIT) Quantity_Exceeds_Declared_Context (
             let held = (case map_of totals sid of None \<Rightarrow> 0 | Some t \<Rightarrow> t);
                 total = dround 80 (held + q)
             in require (\<not> rnd28 \<bar>total\<bar> > DECLARED_LIMIT) Net_Position_Exceeds_Declared_Context (
                Inr (AList.update sid total totals,
                     AList.update sid
                       ((case map_of counts sid of None \<Rightarrow> 0 | Some n \<Rightarrow> n) + 1) counts)))
         | _ \<Rightarrow> Inl Quantity_Not_Finite))"

fun net_loop ::
  "netting_state \<Rightarrow> (string \<times> decimal_arg) list \<Rightarrow> (netting_error, netting_state) result" where
  "net_loop st [] = Inr st"
| "net_loop st (t # ts) = (case net_step st t of Inl e \<Rightarrow> Inl e | Inr st' \<Rightarrow> net_loop st' ts)"

definition net_positions ::
  "(string \<times> decimal_arg) list \<Rightarrow> string \<Rightarrow> int \<Rightarrow> bool \<Rightarrow> int option \<Rightarrow>
   (netting_error, NetPosition list) result" where
  "net_positions trades market offset novated assigned =
     (if \<not> novated then Inr []
      else case net_loop ([], []) trades of
             Inl e \<Rightarrow> Inl e
           | Inr (totals, counts) \<Rightarrow>
               Inr (map (\<lambda>sid. \<lparr>np_security_id = sid, np_quantity = the (map_of totals sid),
                                np_settlement_date_offset_days = offset, np_market_id = market,
                                constituent_trade_count = the (map_of counts sid),
                                assigned_processing_date_offset_days = assigned\<rparr>)
                      (sort (map fst totals))))"

subsection \<open>The outcome of one net position\<close>

definition processing_date_breaks :: "NetPosition \<Rightarrow> MarketProfile \<Rightarrow> SecuritiesBreak list" where
  "processing_date_breaks position profile =
     (if processing_date_rule profile = SESSION_CLOSURE_MESSAGE \<and>
         assigned_processing_date_offset_days position = None
      then [\<lparr>break_code = PROCESSING_DATE_NOT_ESTABLISHED,
             break_detail = B_Processing_Date (np_security_id position) (market_id profile)
               (if truthy (session_closure_message profile) then the (session_closure_message profile)
                else ''a session-closure message'')
               (np_settlement_date_offset_days position),
             break_security_id = Some (np_security_id position)\<rparr>]
      else [])"

text \<open>The allocations the source refuses to classify, in its order.\<close>

fun not_finite :: "string \<Rightarrow> decimal_arg option \<Rightarrow> (SecuritiesBreakCode \<times> break_detail) option" where
  "not_finite name None = None"
| "not_finite name (Some v) =
     (if is_finite_decimal v then None else Some (ALLOCATION_NOT_FINITE, B_Not_Finite name v))"

definition quantity_refusal ::
  "NetPosition \<Rightarrow> decimal_arg option \<Rightarrow> (SecuritiesBreakCode \<times> break_detail) option" where
  "quantity_refusal position allocated =
     (case allocated of
        Some (Dec a) \<Rightarrow>
          if (np_quantity position > 0 \<and> a < 0) \<or> (np_quantity position < 0 \<and> a > 0)
          then Some (ALLOCATION_WRONG_SIGN, B_Wrong_Sign)
          else if np_quantity position \<noteq> 0 \<and> rnd28 \<bar>a\<bar> > rnd28 \<bar>np_quantity position\<bar>
          then Some (ALLOCATION_EXCEEDS_POSITION, B_Exceeds)
          else None
      | _ \<Rightarrow> None)"

definition allocation_refusal ::
  "NetPosition \<Rightarrow> MarketProfile \<Rightarrow> decimal_arg option \<Rightarrow> decimal_arg option \<Rightarrow>
   (SecuritiesBreakCode \<times> break_detail) option" where
  "allocation_refusal position profile allocated_quantity allocated_cash =
     (if np_market_id position \<noteq> market_id profile
      then Some (MARKET_PROFILE_MISMATCH, B_Mismatch (np_market_id position) (market_id profile))
      else case not_finite ''allocated_quantity'' allocated_quantity of
             Some r \<Rightarrow> Some r
           | None \<Rightarrow>
               (case not_finite ''allocated_cash'' allocated_cash of
                  Some r \<Rightarrow> Some r
                | None \<Rightarrow> quantity_refusal position allocated_quantity))"

definition indeterminate_result ::
  "NetPosition \<Rightarrow> SecuritiesBreak list \<Rightarrow> cns_rationale \<Rightarrow> NetSettlementResult" where
  "indeterminate_result position brs why =
     \<lparr>cns_disposition = INDETERMINATE, cns_position = position, res_allocated_quantity = 0,
      res_allocated_cash = 0, residual = None, breaks = brs, cns_rationale = why\<rparr>"

definition open_fail_breaks ::
  "NetPosition \<Rightarrow> MarketProfile \<Rightarrow> FailPosition \<Rightarrow> bool \<Rightarrow> bool \<Rightarrow> bool \<Rightarrow> SecuritiesBreak list" where
  "open_fail_breaks position profile res spans_record_date ratio_applied quantity_restated =
     (let sid = np_security_id position in
      (if close_out_regime profile = CloseOutRegime.NOT_ASSESSED
       then [\<lparr>break_code = CLOSE_OUT_DEADLINE_UNREADABLE,
              break_detail = B_Unreadable sid (market_id profile), break_security_id = Some sid\<rparr>]
       else if (case close_out_deadline_days profile of None \<Rightarrow> False
                | Some days \<Rightarrow> aged_business_days res > days)
       then [\<lparr>break_code = CLOSE_OUT_DEADLINE_PASSED,
              break_detail = B_Deadline_Passed sid (close_out_deadline_offset_days res),
              break_security_id = Some sid\<rparr>]
       else []) @
      (if spans_record_date
       then [\<lparr>break_code = ELIGIBLE_SETTLED_DIVERGENCE,
              break_detail = B_Divergence sid (fail_quantity res)
                (if is_receive position then ''pending receipt (fail long)''
                 else ''pending delivery (fail short)''),
              break_security_id = Some sid\<rparr>]
       else []) @
      (if ratio_applied \<and> \<not> quantity_restated
       then [\<lparr>break_code = QUANTITY_NOT_RESTATED, break_detail = B_Not_Restated sid,
              break_security_id = Some sid\<rparr>]
       else []))"

record settlement_args =
  signed_cash :: rat
  settlement_date :: date
  as_of_date :: date
  calendar :: MarketCalendar
  spans_record_date :: bool
  corporate_action_ratio_applied :: bool
  quantity_restated :: bool

definition flat_result ::
  "NetPosition \<Rightarrow> SecuritiesBreak list \<Rightarrow> rat \<Rightarrow> rat \<Rightarrow> NetSettlementResult" where
  "flat_result position pre q c =
     (let sid = np_security_id position; n = constituent_trade_count position in
      \<lparr>cns_disposition = FLAT, cns_position = position, res_allocated_quantity = q,
       res_allocated_cash = c, residual = None,
       breaks = pre @
         (if q \<noteq> 0
          then [\<lparr>break_code = ALLOCATION_AGAINST_FLAT_POSITION,
                 break_detail = B_Flat_Allocation q sid n, break_security_id = Some sid\<rparr>]
          else []),
       cns_rationale = C_Flat sid n (if q \<noteq> 0 then Some q else None)\<rparr>)"

text \<open>The tail of \<open>settle_net_position\<close> for an outcome that leaves something open.\<close>

definition open_result ::
  "NetPosition \<Rightarrow> MarketProfile \<Rightarrow> settlement_args \<Rightarrow> SecuritiesBreak list \<Rightarrow> rat \<Rightarrow> rat \<Rightarrow>
   FailPosition \<Rightarrow> NetSettlementResult" where
  "open_result position profile args brs q c res =
     (let sid = np_security_id position; Q = np_quantity position in
      if \<not> (q = 0 \<and> c = 0) then
        \<lparr>cns_disposition = PARTIAL_ALLOCATION, cns_position = position,
         res_allocated_quantity = q, res_allocated_cash = c, residual = Some res,
         breaks = brs @
           (if \<not> allocation_rule_published profile
            then [\<lparr>break_code = PARTIAL_WITH_UNEXPLAINED_ALLOCATION,
                   break_detail = B_Unexplained sid q Q, break_security_id = Some sid\<rparr>]
            else []),
         cns_rationale = C_Partial q Q sid\<rparr>
      else
        (let receives = is_receive position \<or> (Q = 0 \<and> signed_cash args > 0);
             disp = (if receives then FAILED_TO_RECEIVE else FAILED_TO_DELIVER) in
         \<lparr>cns_disposition = disp, cns_position = position, res_allocated_quantity = 0,
          res_allocated_cash = 0, residual = Some res,
          breaks = brs @
            [\<lparr>break_code = (if receives then FAIL_TO_RECEIVE else FAIL_TO_DELIVER),
              break_detail = B_Nothing_Allocated sid Q, break_security_id = Some sid\<rparr>],
          cns_rationale = C_Nothing disp\<rparr>))"

definition settle_reported ::
  "NetPosition \<Rightarrow> MarketProfile \<Rightarrow> settlement_args \<Rightarrow> SecuritiesBreak list \<Rightarrow> rat \<Rightarrow> rat \<Rightarrow>
   (calendar_error, NetSettlementResult) result" where
  "settle_reported position profile args pre q c =
     (if np_quantity position = 0 \<and> signed_cash args = 0 then Inr (flat_result position pre q c)
      else
        let outstanding = rnd28 (np_quantity position - q);
            outstanding_cash = rnd28 (signed_cash args - c) in
        if outstanding = 0 \<and> outstanding_cash = 0 then
          Inr \<lparr>cns_disposition = SETTLED_IN_FULL, cns_position = position,
               res_allocated_quantity = q, res_allocated_cash = c, residual = None, breaks = pre,
               cns_rationale = C_Settled (np_security_id position)\<rparr>
        else
          case business_days_after (calendar args) (settlement_date args) (as_of_date args) of
            Inl e \<Rightarrow> Inl e
          | Inr aged \<Rightarrow>
              let res = \<lparr>fail_security_id = np_security_id position, fail_quantity = outstanding,
                         fail_cash = outstanding_cash, fail_settlement_date = settlement_date args,
                         fail_as_of_date = as_of_date args, aged_business_days = aged,
                         close_out_deadline_offset_days =
                           close_out_deadline profile (np_settlement_date_offset_days position),
                         restated_by_corporate_action = quantity_restated args\<rparr>
              in Inr (open_result position profile args
                   (pre @ open_fail_breaks position profile res (spans_record_date args)
                      (corporate_action_ratio_applied args) (quantity_restated args))
                   q c res))"

definition settle_net_position ::
  "NetPosition \<Rightarrow> MarketProfile \<Rightarrow> decimal_arg option \<Rightarrow> decimal_arg option \<Rightarrow> settlement_args \<Rightarrow>
   (calendar_error, NetSettlementResult) result" where
  "settle_net_position position profile allocated_quantity allocated_cash args =
     (let sid = np_security_id position; pre = processing_date_breaks position profile in
      case allocation_refusal position profile allocated_quantity allocated_cash of
        Some (code, detail) \<Rightarrow>
          Inr (indeterminate_result position
                 (pre @ [\<lparr>break_code = code, break_detail = detail, break_security_id = Some sid\<rparr>])
                 (C_Refused detail))
      | None \<Rightarrow>
          (case (allocated_quantity, allocated_cash) of
             (Some (Dec q), Some (Dec c)) \<Rightarrow> settle_reported position profile args pre q c
           | _ \<Rightarrow>
               Inr (indeterminate_result position
                      (pre @ [\<lparr>break_code = OUTCOME_NOT_REPORTED, break_detail = B_Not_Reported,
                               break_security_id = Some sid\<rparr>])
                      C_Silent)))"

end
