(* ===== verification/CNS_Props.thy ===== *)
theory CNS_Props
  imports CNS_Rail
begin

text \<open>
  Properties of the net settlement rail: what netting conserves and when it does not depend on
  the order of the trades, when a position is settled, what an open residual records, and that
  silence is never settlement.
\<close>

subsection \<open>Netting\<close>

abbreviation trade_args :: "(string \<times> rat) list \<Rightarrow> (string \<times> decimal_arg) list" where
  "trade_args \<equiv> map (\<lambda>(s, q). (s, Dec q))"

definition quantities :: "string \<Rightarrow> (string \<times> rat) list \<Rightarrow> rat list" where
  "quantities sid ts = map snd (filter (\<lambda>t. fst t = sid) ts)"

lemma quantities_simps [simp]:
  "quantities sid [] = []"
  "quantities sid ((s, q) # ts) = (if s = sid then q # quantities sid ts else quantities sid ts)"
  by (simp_all add: quantities_def)

lemma quantities_append [simp]: "quantities sid (xs @ ys) = quantities sid xs @ quantities sid ys"
  by (simp add: quantities_def)

lemma quantities_Nil_iff: "quantities sid ts = [] \<longleftrightarrow> sid \<notin> fst ` set ts"
  by (force simp: quantities_def filter_empty_conv)

text \<open>What the two dicts hold after the trades \<open>ts\<close>.\<close>

definition netted :: "(string \<times> rat) list \<Rightarrow> netting_state \<Rightarrow> bool" where
  "netted ts st \<longleftrightarrow>
     distinct (map fst (fst st)) \<and>
     (\<forall>sid. map_of (fst st) sid =
        (if quantities sid ts = [] then None else Some (dsum_from 80 0 (quantities sid ts)))) \<and>
     (\<forall>sid. map_of (snd st) sid =
        (if quantities sid ts = [] then None else Some (length (quantities sid ts))))"

lemma netted_step:
  assumes "netted ts st" and "net_step st (sid, Dec q) = Inr st'"
  shows "netted (ts @ [(sid, q)]) st'"
proof -
  obtain totals counts where st: "st = (totals, counts)" by (cases st)
  let ?held = "case map_of totals sid of None \<Rightarrow> 0 | Some t \<Rightarrow> t"
  let ?n = "case map_of counts sid of None \<Rightarrow> 0 | Some n \<Rightarrow> n"
  have st': "st' = (AList.update sid (dround 80 (?held + q)) totals, AList.update sid (?n + 1) counts)"
    using assms(2) by (simp add: st net_step_def Let_def)
  have "?held = dsum_from 80 0 (quantities sid ts)" "?n = length (quantities sid ts)"
    using assms(1) by (simp_all add: netted_def st)
  with assms(1) show ?thesis
    by (simp add: netted_def st st' distinct_update update_conv' dsum_from_snoc)
qed

lemma netted_loop:
  "netted ts st \<Longrightarrow> net_loop st (trade_args us) = Inr st' \<Longrightarrow> netted (ts @ us) st'"
proof (induction us arbitrary: ts st)
  case (Cons u us)
  obtain sid q where u: "u = (sid, q)" by (cases u)
  from Cons.prems(2) obtain st1 where s: "net_step st (sid, Dec q) = Inr st1"
    "net_loop st1 (trade_args us) = Inr st'"
    by (auto simp: u split: sum.splits)
  from Cons.IH [OF netted_step [OF Cons.prems(1) s(1)] s(2)] show ?case by (simp add: u)
qed simp

lemma netted_keys: "netted ts st \<Longrightarrow> set (map fst (fst st)) = fst ` set ts"
proof -
  assume n: "netted ts st"
  have "sid \<in> set (map fst (fst st)) \<longleftrightarrow> sid \<in> fst ` set ts" for sid
  proof -
    have "map_of (fst st) sid = None \<longleftrightarrow> sid \<notin> fst ` set ts"
      using n by (simp add: netted_def quantities_Nil_iff)
    then show ?thesis by (simp only: map_of_eq_None_iff set_map) blast
  qed
  then show ?thesis by blast
qed

text \<open>The limits of the source and the grid on which its 80-digit sums are exact.\<close>

definition within_declared :: "(string \<times> rat) list \<Rightarrow> bool" where
  "within_declared ts \<longleftrightarrow>
     (\<forall>t \<in> set ts. on_grid (- 49) (snd t)) \<and> (\<Sum>t\<leftarrow>ts. \<bar>snd t\<bar>) \<le> DECLARED_LIMIT"

lemma quantities_bound: "(\<Sum>q\<leftarrow>quantities sid ts. \<bar>q\<bar>) \<le> (\<Sum>t\<leftarrow>ts. \<bar>snd t\<bar>)"
  by (induction ts) auto

lemma dsum_80_exact:
  assumes "within_declared ts"
  shows "dsum_from 80 0 (quantities sid ts) = sum_list (quantities sid ts)"
proof -
  have "\<forall>q \<in> set (quantities sid ts). on_grid (- 49) q"
    using assms by (auto simp: within_declared_def quantities_def)
  moreover have "(\<Sum>q\<leftarrow>quantities sid ts. \<bar>q\<bar>) \<le> 10 powi (- 49 + int 80)"
  proof -
    have "(\<Sum>q\<leftarrow>quantities sid ts. \<bar>q\<bar>) \<le> DECLARED_LIMIT"
      using assms quantities_bound [of sid ts] by (simp add: within_declared_def)
    also have "\<dots> \<le> (10 :: rat) powi (- 49 + int 80)" by (simp add: DECLARED_LIMIT_def power_int_def)
    finally show ?thesis .
  qed
  ultimately show ?thesis using dsum_from_exact [of "quantities sid ts" "- 49" 0 80] by simp
qed

lemma DECLARED_LIMIT_multiple:
  assumes "\<bar>n\<bar> \<le> 10 ^ p" and "1 \<le> p"
  shows "dround p (of_int n * DECLARED_LIMIT) = of_int n * DECLARED_LIMIT"
proof (rule dround_exact)
  have "of_int n * DECLARED_LIMIT = of_int n * 10 powi 30" by (simp add: DECLARED_LIMIT_def power_int_def)
  with assms(1) show "representable p (of_int n * DECLARED_LIMIT)" unfolding representable_def by blast
qed (rule assms(2))

lemma within_limit: "\<bar>x\<bar> \<le> DECLARED_LIMIT \<Longrightarrow> \<not> rnd28 \<bar>x\<bar> > DECLARED_LIMIT"
proof -
  assume "\<bar>x\<bar> \<le> DECLARED_LIMIT"
  then have "rnd28 \<bar>x\<bar> \<le> rnd28 (DECLARED_LIMIT)" by (rule ctx.rnd_mono)
  also have "rnd28 DECLARED_LIMIT = DECLARED_LIMIT" using DECLARED_LIMIT_multiple [of 1 28] by simp
  finally show ?thesis by simp
qed

lemma sum_list_abs_le: "\<bar>sum_list (xs :: rat list)\<bar> \<le> (\<Sum>x\<leftarrow>xs. \<bar>x\<bar>)"
  by (induction xs) (auto intro: order_trans [OF abs_triangle_ineq])

lemma within_declared_snoc: "within_declared (ts @ us) \<Longrightarrow> within_declared ts"
proof -
  have "0 \<le> (\<Sum>t\<leftarrow>us. \<bar>snd t\<bar>)" by (induction us) auto
  then show "within_declared (ts @ us) \<Longrightarrow> within_declared ts"
    by (auto simp: within_declared_def)
qed

lemma net_step_returns:
  assumes "netted ts st" and "within_declared (ts @ [(sid, q)])"
  shows "\<exists>st'. net_step st (sid, Dec q) = Inr st'"
proof -
  obtain totals counts where st: "st = (totals, counts)" by (cases st)
  let ?held = "case map_of totals sid of None \<Rightarrow> 0 | Some t \<Rightarrow> t"
  have w: "within_declared ts" using assms(2) by (rule within_declared_snoc)
  have "?held = dsum_from 80 0 (quantities sid ts)" using assms(1) by (simp add: netted_def st)
  then have "dround 80 (?held + q) = dsum_from 80 0 (quantities sid (ts @ [(sid, q)]))"
    by (simp add: dsum_from_snoc)
  also have "\<dots> = sum_list (quantities sid (ts @ [(sid, q)]))" by (rule dsum_80_exact [OF assms(2)])
  finally have t: "dround 80 (?held + q) = sum_list (quantities sid (ts @ [(sid, q)]))" .
  have "\<bar>sum_list (quantities sid (ts @ [(sid, q)]))\<bar> \<le> DECLARED_LIMIT"
    using sum_list_abs_le [of "quantities sid (ts @ [(sid, q)])"]
      quantities_bound [of sid "ts @ [(sid, q)]"] assms(2) by (simp add: within_declared_def)
  moreover have "0 \<le> (\<Sum>t\<leftarrow>ts. \<bar>snd t\<bar>)" by (induction ts) auto
  then have "\<bar>q\<bar> \<le> DECLARED_LIMIT" using assms(2) by (simp add: within_declared_def)
  ultimately show ?thesis
    by (simp add: st net_step_def Let_def t within_limit del: not_less)
qed

lemma net_loop_returns:
  "netted ts st \<Longrightarrow> within_declared (ts @ us) \<Longrightarrow> \<exists>st'. net_loop st (trade_args us) = Inr st'"
proof (induction us arbitrary: ts st)
  case (Cons u us)
  obtain sid q where u: "u = (sid, q)" by (cases u)
  have w: "within_declared ((ts @ [(sid, q)]) @ us)" using Cons.prems(2) by (simp add: u)
  then have "within_declared (ts @ [(sid, q)])" by (rule within_declared_snoc)
  then obtain st1 where s: "net_step st (sid, Dec q) = Inr st1"
    using net_step_returns [OF Cons.prems(1)] by blast
  from Cons.IH [OF netted_step [OF Cons.prems(1) s] w] s show ?case by (simp add: u)
qed simp

lemma sort_distinct_set: "distinct xs \<Longrightarrow> sort xs = sorted_list_of_set (set xs)"
  by (simp add: sorted_list_of_set_sort_remdups distinct_remdups_id)

lemma netted_start: "netted [] ([], [])"
  by (simp add: netted_def)

definition net_position_of ::
  "(string \<times> rat) list \<Rightarrow> string \<Rightarrow> int \<Rightarrow> int option \<Rightarrow> string \<Rightarrow> NetPosition" where
  "net_position_of ts market offset assigned sid =
     \<lparr>np_security_id = sid, np_quantity = sum_list (quantities sid ts),
      np_settlement_date_offset_days = offset, np_market_id = market,
      constituent_trade_count = length (quantities sid ts),
      assigned_processing_date_offset_days = assigned\<rparr>"

lemma net_positions_eq:
  assumes "within_declared ts"
  shows "net_positions (trade_args ts) market offset True assigned =
    Inr (map (net_position_of ts market offset assigned) (sorted_list_of_set (fst ` set ts)))"
proof -
  obtain totals counts where l: "net_loop ([], []) (trade_args ts) = Inr (totals, counts)"
    using net_loop_returns [OF netted_start, of ts] assms by auto
  have n: "netted ts (totals, counts)" using netted_loop [OF netted_start l] by simp
  then have keys: "sort (map fst totals) = sorted_list_of_set (fst ` set ts)"
    using netted_keys [OF n] sort_distinct_set [of "map fst totals"] by (simp add: netted_def)
  have "the (map_of totals sid) = sum_list (quantities sid ts)"
    "the (map_of counts sid) = length (quantities sid ts)" if "sid \<in> fst ` set ts" for sid
    using n that dsum_80_exact [OF assms] by (simp_all add: netted_def quantities_Nil_iff)
  then show ?thesis
    by (simp add: net_positions_def l keys net_position_of_def cong: map_cong)
qed

text \<open>
  within the declared limit, netting conserves every security: there is one position per
  security traded, in the order of the identifiers, whose quantity is the exact sum of its
  signed trades and whose count is their number.
\<close>

theorem netting_conserves:
  assumes "within_declared ts"
  shows "\<exists>ps. net_positions (trade_args ts) market offset True assigned = Inr ps \<and>
    map np_security_id ps = sorted_list_of_set (fst ` set ts) \<and>
    (\<forall>p \<in> set ps. np_quantity p = sum_list (quantities (np_security_id p) ts) \<and>
                 constituent_trade_count p = length (quantities (np_security_id p) ts)) \<and>
    sum_list (map np_quantity ps) = sum_list (map snd ts)"
proof -
  have split: "sum_list (map snd us) = (\<Sum>sid\<leftarrow>sids. sum_list (quantities sid us))"
    if "fst ` set us \<subseteq> set sids" "distinct sids" for us :: "(string \<times> rat) list" and sids
    using that
  proof (induction us)
    case (Cons u us)
    have "(\<Sum>sid\<leftarrow>sids. sum_list (quantities sid (u # us))) =
        (\<Sum>sid\<leftarrow>sids. (if fst u = sid then snd u else 0) + sum_list (quantities sid us))"
      by (rule arg_cong [of _ _ sum_list], rule map_cong) (cases u; simp)+
    also have "\<dots> = (\<Sum>sid\<leftarrow>sids. if fst u = sid then snd u else 0) + sum_list (map snd us)"
      using Cons by (simp add: sum_list_addf)
    also have "(\<Sum>sid\<leftarrow>sids. if fst u = sid then snd u else 0) = snd u"
      using Cons.prems by (simp add: sum_list_distinct_conv_sum_set)
    finally show ?case by simp
  qed simp
  let ?sids = "sorted_list_of_set (fst ` set ts)"
  let ?ps = "map (net_position_of ts market offset assigned) ?sids"
  have "net_positions (trade_args ts) market offset True assigned = Inr ?ps"
    by (rule net_positions_eq [OF assms])
  moreover have "map np_security_id ?ps = ?sids" by (simp add: net_position_of_def comp_def)
  moreover have "\<forall>p \<in> set ?ps. np_quantity p = sum_list (quantities (np_security_id p) ts) \<and>
      constituent_trade_count p = length (quantities (np_security_id p) ts)"
    by (simp add: net_position_of_def)
  moreover have "sum_list (map np_quantity ?ps) = sum_list (map snd ts)"
    using split [of ts ?sids] by (simp add: net_position_of_def comp_def)
  ultimately show ?thesis by (intro exI [of _ ?ps] conjI)
qed

text \<open>
  within the declared limit, the same trades in any order produce the same positions, in
  the same order.
\<close>

theorem netting_ignores_trade_order:
  assumes "mset ts = mset us" and "within_declared ts"
  shows "net_positions (trade_args us) market offset novated assigned =
    net_positions (trade_args ts) market offset novated assigned"
proof (cases novated)
  case True
  have s: "set us = set ts" by (rule set_mset_cong [OF assms(1) [symmetric]])
  have "(\<Sum>t\<leftarrow>us. \<bar>snd t\<bar>) = (\<Sum>t\<leftarrow>ts. \<bar>snd t\<bar>)" by (rule sum_map_mset_cong [OF assms(1) [symmetric]])
  then have w: "within_declared us" using assms(2) unfolding within_declared_def s by argo
  have m: "mset (quantities sid us) = mset (quantities sid ts)" for sid
    using assms(1) by (simp add: quantities_def mset_filter)
  have "net_position_of us market offset assigned = net_position_of ts market offset assigned"
    by (simp add: net_position_of_def fun_eq_iff sum_list_mset_cong [OF m] mset_eq_length [OF m])
  with True show ?thesis
    by (simp only: net_positions_eq [OF w] net_positions_eq [OF assms(2)] s)
qed (simp add: net_positions_def)

text \<open>
  beyond the declared limit the order does matter. Three trades of 1E+30 that net to 1E+30
  are netted when the opposite one comes second and refused when it comes last, although the
  function promises the same positions for any order.
\<close>

theorem netting_order_matters_at_limit:
  "net_positions (trade_args [(''A'', DECLARED_LIMIT), (''A'', - DECLARED_LIMIT), (''A'', DECLARED_LIMIT)])
     ''M'' 1 True None = Inr [net_position_of [(''A'', DECLARED_LIMIT)] ''M'' 1 None (''A'')
       \<lparr>constituent_trade_count := 3\<rparr>] \<and>
   net_positions (trade_args [(''A'', DECLARED_LIMIT), (''A'', DECLARED_LIMIT), (''A'', - DECLARED_LIMIT)])
     ''M'' 1 True None = Inl Net_Position_Exceeds_Declared_Context"
proof -
  have r: "rnd28 DECLARED_LIMIT = DECLARED_LIMIT" "dround 80 DECLARED_LIMIT = DECLARED_LIMIT"
    "rnd28 (2 * DECLARED_LIMIT) = 2 * DECLARED_LIMIT" "dround 80 (2 * DECLARED_LIMIT) = 2 * DECLARED_LIMIT"
    using DECLARED_LIMIT_multiple [of 1] DECLARED_LIMIT_multiple [of 2] by simp_all
  have p: "0 < DECLARED_LIMIT" by (simp add: DECLARED_LIMIT_def)
  then have a: "\<bar>DECLARED_LIMIT\<bar> = DECLARED_LIMIT"
    "\<bar>2 * DECLARED_LIMIT\<bar> = 2 * DECLARED_LIMIT" by simp_all
  show ?thesis using p
    by (simp add: net_positions_def net_step_def Let_def r a net_position_of_def)
qed

subsection \<open>The outcome of a position\<close>

lemma allocation_refusal_None:
  "allocation_refusal position profile aq ac = None \<longleftrightarrow>
     np_market_id position = market_id profile \<and>
     (case aq of None \<Rightarrow> True | Some v \<Rightarrow> is_finite_decimal v) \<and>
     (case ac of None \<Rightarrow> True | Some v \<Rightarrow> is_finite_decimal v) \<and>
     quantity_refusal position aq = None"
  by (cases aq; cases ac) (auto simp: allocation_refusal_def)

lemma allocation_refusal_code:
  "allocation_refusal position profile aq ac = Some (code, detail) \<Longrightarrow>
   code \<in> {MARKET_PROFILE_MISMATCH, ALLOCATION_NOT_FINITE, ALLOCATION_WRONG_SIGN, ALLOCATION_EXCEEDS_POSITION}"
  by (cases aq; cases ac)
    (auto simp: allocation_refusal_def quantity_refusal_def split: if_splits decimal_arg.splits)

text \<open>A reported outcome: both allocations are finite Decimals and none is refused.\<close>

definition reported ::
  "NetPosition \<Rightarrow> MarketProfile \<Rightarrow> decimal_arg option \<Rightarrow> decimal_arg option \<Rightarrow> rat \<Rightarrow> rat \<Rightarrow> bool" where
  "reported position profile aq ac q c \<longleftrightarrow>
     aq = Some (Dec q) \<and> ac = Some (Dec c) \<and> np_market_id position = market_id profile \<and>
     quantity_refusal position aq = None"

lemma settle_cases:
  obtains
    (reported) q c where "reported position profile aq ac q c"
      "settle_net_position position profile aq ac args =
       settle_reported position profile args (processing_date_breaks position profile) q c"
  | (unreported) brs why where "\<not> (\<exists>q c. reported position profile aq ac q c)"
      "PROCESSING_DATE_NOT_ESTABLISHED \<notin> break_code ` set brs"
      "settle_net_position position profile aq ac args =
       Inr (indeterminate_result position (processing_date_breaks position profile @ brs) why)"
proof (cases "allocation_refusal position profile aq ac")
  case (Some cd)
  then have "\<not> (\<exists>q c. reported position profile aq ac q c)"
    using allocation_refusal_None [of position profile aq ac] by (auto simp: reported_def)
  moreover have "fst cd \<noteq> PROCESSING_DATE_NOT_ESTABLISHED"
    using Some allocation_refusal_code [of position profile aq ac] by (cases cd) auto
  ultimately show ?thesis
    using Some by (cases cd) (rule unreported, auto simp: settle_net_position_def)
next
  case None
  show ?thesis
  proof (cases "\<exists>q c. aq = Some (Dec q) \<and> ac = Some (Dec c)")
    case True
    then obtain q c where a: "aq = Some (Dec q)" "ac = Some (Dec c)" by blast
    then have "reported position profile aq ac q c"
      using None unfolding allocation_refusal_None reported_def by simp
    moreover have "settle_net_position position profile aq ac args =
        settle_reported position profile args (processing_date_breaks position profile) q c"
      using None a by (simp add: settle_net_position_def)
    ultimately show ?thesis by (rule reported)
  next
    case False
    then have "\<not> (\<exists>q c. reported position profile aq ac q c)" by (auto simp: reported_def)
    moreover have "settle_net_position position profile aq ac args =
       Inr (indeterminate_result position (processing_date_breaks position profile @
         [\<lparr>break_code = OUTCOME_NOT_REPORTED, break_detail = B_Not_Reported,
           break_security_id = Some (np_security_id position)\<rparr>]) C_Silent)"
      using None False
      by (auto simp: settle_net_position_def Let_def split: option.splits decimal_arg.splits)
    ultimately show ?thesis by (intro unreported) simp_all
  qed
qed

lemma settle_reported_disposition:
  assumes "settle_reported position profile args pre q c = Inr r"
  shows "cns_disposition r =
     (if np_quantity position = 0 \<and> signed_cash args = 0 then FLAT
      else if q = np_quantity position \<and> c = signed_cash args then SETTLED_IN_FULL
      else if q \<noteq> 0 \<or> c \<noteq> 0 then PARTIAL_ALLOCATION
      else if np_quantity position > 0 \<or> (np_quantity position = 0 \<and> signed_cash args > 0)
      then FAILED_TO_RECEIVE else FAILED_TO_DELIVER)"
  using assms
  by (auto simp: settle_reported_def flat_result_def open_result_def Let_def is_receive_def
      split: if_splits sum.splits)

text \<open>
  C3: the classification of a position is exactly this. Without a reported outcome (an
  allocation missing, not a finite Decimal, on the wrong side, larger than the position, or for
  another market) it is indeterminate: silence is never settlement. With one it is flat, settled
  in full exactly when quantity and cash both moved in full, partial when something moved, and
  otherwise a fail on the side the position is on.
\<close>

theorem settlement_classification:
  assumes "settle_net_position position profile aq ac args = Inr r"
  shows "cns_disposition r =
     (if \<not> (\<exists>q c. reported position profile aq ac q c) then INDETERMINATE
      else if np_quantity position = 0 \<and> signed_cash args = 0 then FLAT
      else if aq = Some (Dec (np_quantity position)) \<and> ac = Some (Dec (signed_cash args))
      then SETTLED_IN_FULL
      else if aq \<noteq> Some (Dec 0) \<or> ac \<noteq> Some (Dec 0) then PARTIAL_ALLOCATION
      else if np_quantity position > 0 \<or> (np_quantity position = 0 \<and> signed_cash args > 0)
      then FAILED_TO_RECEIVE else FAILED_TO_DELIVER)"
  using settle_cases [of position profile aq ac args]
proof cases
  case (reported q c)
  then have ex: "\<exists>q c. reported position profile aq ac q c" by blast
  from reported(1) have a: "aq = Some (Dec q)" "ac = Some (Dec c)" by (simp_all add: reported_def)
  have "settle_reported position profile args (processing_date_breaks position profile) q c = Inr r"
    using assms reported(2) by simp
  from settle_reported_disposition [OF this] ex show ?thesis by (simp add: a)
next
  case unreported
  with assms show ?thesis by (auto simp: indeterminate_result_def)
qed

lemma settle_reported_residual:
  assumes "settle_reported position profile args pre q c = Inr r"
  shows "residual r \<noteq> None \<longleftrightarrow> cns_disposition r \<in> {PARTIAL_ALLOCATION, FAILED_TO_DELIVER, FAILED_TO_RECEIVE}"
    and "residual r = Some f \<Longrightarrow>
      fail_quantity f = rnd28 (np_quantity position - q) \<and> fail_cash f = rnd28 (signed_cash args - c) \<and>
      res_allocated_quantity r = q \<and> res_allocated_cash r = c \<and>
      business_days_after (calendar args) (settlement_date args) (as_of_date args) = Inr (aged_business_days f) \<and>
      close_out_deadline_offset_days f = close_out_deadline profile (np_settlement_date_offset_days position)"
  using assms
  by (auto simp: settle_reported_def flat_result_def open_result_def Let_def
      split: if_splits sum.splits)

text \<open>
  nothing is dropped. A result carries a residual exactly when it is partial or a fail, and
  then what was allocated and what is still owed add up to the position and to its cash, on
  amounts the default context holds exactly.
\<close>

theorem residual_conserves_position:
  assumes "settle_net_position position profile (Some (Dec q)) (Some (Dec c)) args = Inr r"
    and "representable 28 (np_quantity position - q)" and "representable 28 (signed_cash args - c)"
  shows "(residual r \<noteq> None \<longleftrightarrow>
      cns_disposition r \<in> {PARTIAL_ALLOCATION, FAILED_TO_DELIVER, FAILED_TO_RECEIVE}) \<and>
    (case residual r of None \<Rightarrow> True | Some f \<Rightarrow>
       res_allocated_quantity r + fail_quantity f = np_quantity position \<and>
       res_allocated_cash r + fail_cash f = signed_cash args)"
  using settle_cases [of position profile "Some (Dec q)" "Some (Dec c)" args]
proof cases
  case (reported q' c')
  then have "q' = q" "c' = c" by (simp_all add: reported_def)
  with reported assms(1)
  have r: "settle_reported position profile args (processing_date_breaks position profile) q c = Inr r"
    by simp
  have e: "rnd28 (np_quantity position - q) = np_quantity position - q"
    "rnd28 (signed_cash args - c) = signed_cash args - c"
    using assms(2,3) by (simp_all add: dround_exact)
  show ?thesis
    using settle_reported_residual [OF r]
    by (cases "residual r") (simp_all add: e)
next
  case (unreported brs why)
  with assms(1) have "r = indeterminate_result position (processing_date_breaks position profile @ brs) why"
    by simp
  then show ?thesis by (simp add: indeterminate_result_def)
qed

subsection \<open>What a result records\<close>

definition codes :: "NetSettlementResult \<Rightarrow> SecuritiesBreakCode set" where
  "codes r = break_code ` set (breaks r)"

lemma open_fail_breaks_codes:
  "break_code ` set (open_fail_breaks position profile res a b d) \<subseteq>
     {CLOSE_OUT_DEADLINE_UNREADABLE, CLOSE_OUT_DEADLINE_PASSED, ELIGIBLE_SETTLED_DIVERGENCE,
      QUANTITY_NOT_RESTATED}"
  by (auto simp: open_fail_breaks_def Let_def)

lemma open_result_breaks:
  "\<exists>bs. breaks (open_result position profile args brs q c res) = brs @ bs \<and>
     break_code ` set bs \<subseteq> {PARTIAL_WITH_UNEXPLAINED_ALLOCATION, FAIL_TO_RECEIVE, FAIL_TO_DELIVER}"
  by (auto simp: open_result_def Let_def)

lemma settle_reported_breaks:
  assumes "settle_reported position profile args pre q c = Inr r"
  shows "\<exists>brs. breaks r = pre @ brs \<and> PROCESSING_DATE_NOT_ESTABLISHED \<notin> break_code ` set brs"
proof (cases "(np_quantity position = 0 \<and> signed_cash args = 0) \<or>
    (q = np_quantity position \<and> c = signed_cash args)")
  case True
  with assms show ?thesis
    by (auto simp: settle_reported_def flat_result_def Let_def split: if_splits)
next
  case False
  with assms obtain res where r: "r = open_result position profile args
      (pre @ open_fail_breaks position profile res (spans_record_date args)
         (corporate_action_ratio_applied args) (quantity_restated args)) q c res"
    by (auto simp: settle_reported_def Let_def split: sum.splits if_splits)
  let ?fails = "open_fail_breaks position profile res (spans_record_date args)
    (corporate_action_ratio_applied args) (quantity_restated args)"
  obtain bs where bs: "breaks r = (pre @ ?fails) @ bs"
    "break_code ` set bs \<subseteq> {PARTIAL_WITH_UNEXPLAINED_ALLOCATION, FAIL_TO_RECEIVE, FAIL_TO_DELIVER}"
    using open_result_breaks [of position profile args "pre @ ?fails" q c res] r by blast
  have "PROCESSING_DATE_NOT_ESTABLISHED \<notin> break_code ` set ?fails"
    using open_fail_breaks_codes by blast
  moreover have "PROCESSING_DATE_NOT_ESTABLISHED \<notin> break_code ` set bs" using bs(2) by blast
  ultimately show ?thesis using bs(1) by (intro exI [of _ "?fails @ bs"]) auto
qed

text \<open>
  the missing processing date is recorded whatever the outcome. The break is on the result
  exactly when the market fixes its processing date by a session-closure message and has
  assigned none to the position, full settlements, flat positions and refused allocations
  included.
\<close>

theorem unestablished_date_is_always_recorded:
  assumes "settle_net_position position profile aq ac args = Inr r"
  shows "PROCESSING_DATE_NOT_ESTABLISHED \<in> codes r \<longleftrightarrow>
     processing_date_rule profile = SESSION_CLOSURE_MESSAGE \<and> processing_date_offset profile position = None"
proof -
  have "\<exists>brs. breaks r = processing_date_breaks position profile @ brs \<and>
      PROCESSING_DATE_NOT_ESTABLISHED \<notin> break_code ` set brs"
    using settle_cases [of position profile aq ac args]
  proof cases
    case reported
    with assms show ?thesis using settle_reported_breaks by simp
  next
    case unreported
    with assms show ?thesis by (auto simp: indeterminate_result_def)
  qed
  then show ?thesis
    by (auto simp: codes_def processing_date_breaks_def processing_date_offset_def)
qed

lemma settle_reported_close_out:
  assumes "settle_reported position profile args pre q c = Inr r" and "residual r = Some f"
    and "break_code ` set pre \<subseteq> {PROCESSING_DATE_NOT_ESTABLISHED}"
  shows "(CLOSE_OUT_DEADLINE_UNREADABLE \<in> codes r \<longleftrightarrow>
      close_out_regime profile = CloseOutRegime.NOT_ASSESSED) \<and>
    (CLOSE_OUT_DEADLINE_PASSED \<in> codes r \<longleftrightarrow>
      close_out_regime profile \<noteq> CloseOutRegime.NOT_ASSESSED \<and>
      (case close_out_deadline_days profile of None \<Rightarrow> False | Some days \<Rightarrow> days < aged_business_days f))"
proof -
  let ?fails = "\<lambda>res. open_fail_breaks position profile res (spans_record_date args)
    (corporate_action_ratio_applied args) (quantity_restated args)"
  from assms(1,2) obtain res where r: "r = open_result position profile args (pre @ ?fails res) q c res"
    by (auto simp: settle_reported_def flat_result_def Let_def split: sum.splits if_splits)
  then have f: "res = f" using assms(2) by (auto simp: open_result_def Let_def split: if_splits)
  obtain bs where bs: "breaks r = (pre @ ?fails f) @ bs"
    "break_code ` set bs \<subseteq> {PARTIAL_WITH_UNEXPLAINED_ALLOCATION, FAIL_TO_RECEIVE, FAIL_TO_DELIVER}"
    using open_result_breaks [of position profile args "pre @ ?fails f" q c f] r f by blast
  have "CLOSE_OUT_DEADLINE_UNREADABLE \<in> codes r \<longleftrightarrow> CLOSE_OUT_DEADLINE_UNREADABLE \<in> break_code ` set (?fails f)"
    "CLOSE_OUT_DEADLINE_PASSED \<in> codes r \<longleftrightarrow> CLOSE_OUT_DEADLINE_PASSED \<in> break_code ` set (?fails f)"
    using bs(2) assms(3) by (auto simp: codes_def bs(1) image_Un)
  moreover have "CLOSE_OUT_DEADLINE_UNREADABLE \<in> break_code ` set (?fails f) \<longleftrightarrow>
      close_out_regime profile = CloseOutRegime.NOT_ASSESSED"
    by (auto simp: open_fail_breaks_def Let_def)
  moreover have "CLOSE_OUT_DEADLINE_PASSED \<in> break_code ` set (?fails f) \<longleftrightarrow>
      close_out_regime profile \<noteq> CloseOutRegime.NOT_ASSESSED \<and>
      (case close_out_deadline_days profile of None \<Rightarrow> False | Some days \<Rightarrow> days < aged_business_days f)"
    by (auto simp: open_fail_breaks_def Let_def split: if_splits)
  ultimately show ?thesis by blast
qed

text \<open>
  an open residual is aged in the market's own business days and its close-out is recorded
  from what was read: unreadable exactly when nobody read the market's rules, passed exactly
  when the rules state a deadline that the age exceeds.
\<close>

theorem close_out_is_read_or_unreadable:
  assumes "settle_net_position position profile aq ac args = Inr r" and "residual r = Some f"
  shows "business_days_after (calendar args) (settlement_date args) (as_of_date args) =
      Inr (aged_business_days f) \<and>
    (CLOSE_OUT_DEADLINE_UNREADABLE \<in> codes r \<longleftrightarrow>
      close_out_regime profile = CloseOutRegime.NOT_ASSESSED) \<and>
    (CLOSE_OUT_DEADLINE_PASSED \<in> codes r \<longleftrightarrow>
      close_out_regime profile \<noteq> CloseOutRegime.NOT_ASSESSED \<and>
      (case close_out_deadline_days profile of None \<Rightarrow> False | Some days \<Rightarrow> days < aged_business_days f))"
  using settle_cases [of position profile aq ac args]
proof cases
  case (reported q c)
  with assms(1)
  have r: "settle_reported position profile args (processing_date_breaks position profile) q c = Inr r"
    by simp
  have "break_code ` set (processing_date_breaks position profile) \<subseteq> {PROCESSING_DATE_NOT_ESTABLISHED}"
    by (auto simp: processing_date_breaks_def)
  from settle_reported_close_out [OF r assms(2) this] settle_reported_residual(2) [OF r assms(2)]
  show ?thesis by simp
next
  case unreported
  with assms show ?thesis by (auto simp: indeterminate_result_def)
qed

subsection \<open>Market profiles\<close>

definition market_profile_ok :: "MarketProfile \<Rightarrow> bool" where
  "market_profile_ok p \<longleftrightarrow>
     market_id p \<noteq> [] \<and>
     (if close_out_regime p = CloseOutRegime.NOT_ASSESSED
      then settlement_cycle_days p = None \<and> processing_date_rule p = ProcessingDateRule.NOT_ASSESSED
      else truthy (market_provenance p)) \<and>
     (close_out_deadline_days p \<noteq> None \<longleftrightarrow> close_out_regime p = MANDATORY_DEADLINE) \<and>
     (truthy (session_closure_message p) \<longleftrightarrow> processing_date_rule p = SESSION_CLOSURE_MESSAGE)"

text \<open>
  a market profile can be constructed exactly when it is well formed: it is named, an
  assessed one carries provenance, an unassessed one states no rule, a deadline is stated
  exactly under a mandatory regime, and the closing message is named exactly where it fixes the
  processing date. And what was exported with its enum values as strings reads back as itself.
\<close>

theorem market_profile_roundtrip:
  "mk_MarketProfile (market_id p) (settlement_cycle_days p)
     (Raw (Py_Str (processing_rule_value (processing_date_rule p)))) (session_closure_message p)
     (Raw (Py_Str (close_out_value (close_out_regime p)))) (close_out_deadline_days p)
     (allocation_rule_published p) (market_provenance p) = Inr p \<longleftrightarrow> market_profile_ok p"
proof -
  have e: "enum_call close_out_members close_out_value (Raw (Py_Str (close_out_value (close_out_regime p)))) =
      Some (close_out_regime p)"
    "enum_call processing_rule_members processing_rule_value
      (Raw (Py_Str (processing_rule_value (processing_date_rule p)))) = Some (processing_date_rule p)"
    by (rule close_out.enum_call_value) (rule processing_rule.enum_call_value)
  show ?thesis
    unfolding mk_MarketProfile_def e option.case require_eq_Inr_iff market_profile_ok_def
    by (cases "close_out_regime p"; cases "close_out_deadline_days p") auto
qed

subsection \<open>Two gaps\<close>

definition w_profile :: MarketProfile where
  "w_profile = \<lparr>market_id = ''M'', settlement_cycle_days = Some 1,
     processing_date_rule = FIXED_CYCLE_FROM_TRADE_DATE, session_closure_message = None,
     close_out_regime = MANDATORY_DEADLINE, close_out_deadline_days = Some 2,
     allocation_rule_published = True, market_provenance = Some ''rulebook''\<rparr>"

definition w_position :: "rat \<Rightarrow> NetPosition" where
  "w_position q = \<lparr>np_security_id = ''A'', np_quantity = q, np_settlement_date_offset_days = 1,
     np_market_id = ''M'', constituent_trade_count = 2, assigned_processing_date_offset_days = None\<rparr>"

definition w_args :: "rat \<Rightarrow> settlement_args" where
  "w_args cash = \<lparr>signed_cash = cash, settlement_date = 739799, as_of_date = 739803,
     calendar = w_calendar, spans_record_date = False, corporate_action_ratio_applied = False,
     quantity_restated = False\<rparr>"

lemmas w_cns_defs = w_profile_def w_position_def w_args_def

text \<open>
  on a flat position a reported movement of securities is recorded as a break and the day
  does not read as completed, but a reported movement of cash of any amount is not: the result
  is FLAT, carries no break and is completed.
\<close>

theorem flat_cash_movement_reads_clean:
  "\<exists>r. settle_net_position (w_position 0) w_profile (Some (Dec 0)) (Some (Dec 1000000)) (w_args 0) = Inr r \<and>
     cns_disposition r = FLAT \<and> res_allocated_cash r = 1000000 \<and> breaks r = [] \<and> completed r"
  by (simp add: settle_net_position_def allocation_refusal_def quantity_refusal_def settle_reported_def
      processing_date_breaks_def flat_result_def completed_def w_cns_defs Let_def)

lemma rnd28_29_digits:
  "rnd28 100000000000000000000000000001 = 100000000000000000000000000000"
  "rnd28 100000000000000000000000000002 = 100000000000000000000000000000"
proof -
  have m: "dec_mag 100000000000000000000000000001 = 29" "dec_mag 100000000000000000000000000002 = 29"
    by (simp_all add: dec_mag_def ndigits.simps)
  have f: "\<lfloor>100000000000000000000000000001 / 100 :: rat\<rfloor> = 1000000000000000000000000000"
    "\<lfloor>100000000000000000000000000002 / 100 :: rat\<rfloor> = 1000000000000000000000000000"
    by (rule floor_unique; simp)+
  have "half_even (100000000000000000000000000001 / 100) = 1000000000000000000000000000"
    "half_even (100000000000000000000000000002 / 100) = 1000000000000000000000000000"
    unfolding half_even_def Let_def f by simp_all
  then show "rnd28 100000000000000000000000000001 = 100000000000000000000000000000"
    "rnd28 100000000000000000000000000002 = 100000000000000000000000000000"
    by (simp_all add: dround_def Let_def m)
qed

text \<open>
  netting keeps positions of up to 31 digits exactly, but the over-allocation test compares
  absolute values rounded to 28 digits. An allocation larger than a 30-digit position by one
  unit passes the test and is classified as partial with a residual of the opposite sign.
\<close>

theorem over_allocation_passes_beyond_28_digits:
  "\<exists>r f. settle_net_position (w_position 100000000000000000000000000001) w_profile
       (Some (Dec 100000000000000000000000000002)) (Some (Dec 0)) (w_args 0) = Inr r \<and>
     cns_disposition r = PARTIAL_ALLOCATION \<and> residual r = Some f \<and> fail_quantity f = - 1 \<and>
     ALLOCATION_EXCEEDS_POSITION \<notin> codes r"
proof -
  let ?r = "open_result (w_position 100000000000000000000000000001) w_profile (w_args 0) []
    100000000000000000000000000002 0
    \<lparr>fail_security_id = ''A'', fail_quantity = - 1, fail_cash = 0, fail_settlement_date = 739799,
     fail_as_of_date = 739803, aged_business_days = 1, close_out_deadline_offset_days = Some 3,
     restated_by_corporate_action = False\<rparr>"
  have "business_days_after w_calendar 739799 739803 = Inr 1"
    by (simp add: business_days_after_def count_loop.simps next_day_def MAX_ORDINAL_def
        is_business_day_def w_calendar_def date_year_def weekday_def Let_def)
  moreover have "rnd28 (- 1) = - 1" by (simp add: dround_minus)
  ultimately have "settle_net_position (w_position 100000000000000000000000000001) w_profile
       (Some (Dec 100000000000000000000000000002)) (Some (Dec 0)) (w_args 0) = Inr ?r"
    by (simp add: settle_net_position_def allocation_refusal_def quantity_refusal_def settle_reported_def
        processing_date_breaks_def open_fail_breaks_def close_out_deadline_def w_cns_defs Let_def
        rnd28_29_digits)
  then show ?thesis by (simp add: open_result_def Let_def w_cns_defs codes_def)
qed

subsection \<open>Witnesses\<close>

lemma w_within_declared: "within_declared [(''A'', 3), (''B'', - 1), (''A'', - 1)]"
proof -
  have "on_grid (- 49) 3" "on_grid (- 49) (- 1)"
    using on_grid_of_int [of "- 49" 3] on_grid_of_int [of "- 49" "- 1"] by simp_all
  then show ?thesis by (simp add: within_declared_def DECLARED_LIMIT_def)
qed

theorem netting_conserves_witness:
  "\<exists>ps. net_positions (trade_args [(''A'', 3), (''B'', - 1), (''A'', - 1)]) ''M'' 1 True None = Inr ps \<and>
     (\<forall>p \<in> set ps. np_security_id p = ''A'' \<longrightarrow> np_quantity p = 2) \<and> sum_list (map np_quantity ps) = 1"
proof -
  obtain ps where "net_positions (trade_args [(''A'', 3), (''B'', - 1), (''A'', - 1)]) ''M'' 1 True None = Inr ps"
    "\<forall>p \<in> set ps. np_quantity p = sum_list (quantities (np_security_id p) [(''A'', 3), (''B'', - 1), (''A'', - 1)])"
    "sum_list (map np_quantity ps) = 1"
    using netting_conserves [OF w_within_declared, of "''M''" 1 None] by auto
  then show ?thesis by auto
qed

theorem netting_ignores_trade_order_witness:
  "net_positions (trade_args [(''A'', - 1), (''B'', - 1), (''A'', 3)]) ''M'' 1 True None =
   net_positions (trade_args [(''A'', 3), (''B'', - 1), (''A'', - 1)]) ''M'' 1 True None"
  by (rule netting_ignores_trade_order [OF _ w_within_declared]) simp

text \<open>A net receive of 10 with cash of 100 owed, of which 4 and 40 were allocated.\<close>

lemma w_settles:
  obtains r where "settle_net_position (w_position 10) w_profile (Some (Dec 4)) (Some (Dec 40)) (w_args 100) = Inr r"
    "cns_disposition r = PARTIAL_ALLOCATION" "residual r \<noteq> None"
proof -
  have "business_days_after w_calendar 739799 739803 = Inr 1"
    by (simp add: business_days_after_def count_loop.simps next_day_def MAX_ORDINAL_def
        is_business_day_def w_calendar_def date_year_def weekday_def Let_def)
  then have "\<exists>r. settle_net_position (w_position 10) w_profile (Some (Dec 4)) (Some (Dec 40)) (w_args 100) = Inr r \<and>
      cns_disposition r = PARTIAL_ALLOCATION \<and> residual r \<noteq> None"
    by (simp add: settle_net_position_def allocation_refusal_def quantity_refusal_def settle_reported_def
        processing_date_breaks_def open_result_def w_cns_defs Let_def)
  then show ?thesis using that by blast
qed

theorem settlement_classification_witness:
  "\<exists>r. settle_net_position (w_position 10) w_profile None None (w_args 100) = Inr r \<and>
     cns_disposition r = INDETERMINATE"
proof -
  obtain r where r: "settle_net_position (w_position 10) w_profile None None (w_args 100) = Inr r"
    by (cases rule: settle_cases [of "w_position 10" w_profile None None "w_args 100"])
      (auto simp: reported_def)
  then show ?thesis using settlement_classification [OF r] by (auto simp: reported_def)
qed

theorem residual_conserves_position_witness:
  "\<exists>r f. settle_net_position (w_position 10) w_profile (Some (Dec 4)) (Some (Dec 40)) (w_args 100) = Inr r \<and>
     residual r = Some f \<and> res_allocated_quantity r + fail_quantity f = 10"
proof -
  obtain r where r: "settle_net_position (w_position 10) w_profile (Some (Dec 4)) (Some (Dec 40)) (w_args 100) = Inr r"
    "residual r \<noteq> None"
    by (rule w_settles)
  have "representable 28 (np_quantity (w_position 10) - 4)" "representable 28 (signed_cash (w_args 100) - 40)"
    using representable_dround [of 28 6] representable_dround [of 28 60]
    by (simp_all add: w_cns_defs)
  from residual_conserves_position [OF r(1) this] r(2) r(1) show ?thesis
    by (auto simp: w_position_def)
qed

theorem unestablished_date_is_always_recorded_witness:
  "\<exists>r. settle_net_position (w_position 10) w_profile (Some (Dec 4)) (Some (Dec 40)) (w_args 100) = Inr r \<and>
     PROCESSING_DATE_NOT_ESTABLISHED \<notin> codes r"
proof -
  obtain r where r: "settle_net_position (w_position 10) w_profile (Some (Dec 4)) (Some (Dec 40)) (w_args 100) = Inr r"
    by (rule w_settles)
  with unestablished_date_is_always_recorded [OF r] show ?thesis by (simp add: w_profile_def)
qed

theorem close_out_is_read_or_unreadable_witness:
  "\<exists>r f. settle_net_position (w_position 10) w_profile (Some (Dec 4)) (Some (Dec 40)) (w_args 100) = Inr r \<and>
     residual r = Some f \<and> business_days_after w_calendar 739799 739803 = Inr (aged_business_days f) \<and>
     CLOSE_OUT_DEADLINE_UNREADABLE \<notin> codes r"
proof -
  obtain r where r: "settle_net_position (w_position 10) w_profile (Some (Dec 4)) (Some (Dec 40)) (w_args 100) = Inr r"
    "residual r \<noteq> None"
    by (rule w_settles)
  then obtain f where f: "residual r = Some f" by blast
  from close_out_is_read_or_unreadable [OF r(1) f] r(1) f show ?thesis
    by (auto simp: w_profile_def w_args_def)
qed

end
