(* ===== verification/Append_Log.thy ===== *)
theory Append_Log
  imports Prelude
begin

text \<open>
  The contract of the append-only registers (the escalation register, the equities journal,
  the decision-of-record store). A register has a state, operations that either raise (the
  state is left as it was) or return the next state, and a log read off the state. The
  contract promises that an operation only ever extends the log at its end, and keeps an
  invariant. What every client of such a register may rely on is proved once, for any
  sequence of calls (\<open>run_calls\<close>), raising ones included.
\<close>

definition attempt :: "('s \<Rightarrow> 'op \<Rightarrow> ('err, 's) result) \<Rightarrow> 's \<Rightarrow> 'op \<Rightarrow> 's" where
  "attempt step s x = (case step s x of Inl _ \<Rightarrow> s | Inr s' \<Rightarrow> s')"

definition run_calls :: "('s \<Rightarrow> 'op \<Rightarrow> ('err, 's) result) \<Rightarrow> 's \<Rightarrow> 'op list \<Rightarrow> 's" where
  "run_calls step s xs = foldl (attempt step) s xs"

lemma run_calls_Nil [simp]: "run_calls step s [] = s"
  and run_calls_Cons [simp]: "run_calls step s (x # xs) = run_calls step (attempt step s x) xs"
  and run_calls_append: "run_calls step s (xs @ ys) = run_calls step (run_calls step s xs) ys"
  by (simp_all add: run_calls_def)

locale append_log =
  fixes inv :: "'s \<Rightarrow> bool"
    and step :: "'s \<Rightarrow> 'op \<Rightarrow> ('err, 's) result"
    and log :: "'s \<Rightarrow> 'e list"
  assumes step_appends: "step s x = Inr s' \<Longrightarrow> \<exists>es. log s' = log s @ es"
    and step_inv: "inv s \<Longrightarrow> step s x = Inr s' \<Longrightarrow> inv s'"
begin

lemma after_inv: "inv s \<Longrightarrow> inv (attempt step s x)"
  by (auto simp: attempt_def step_inv split: sum.splits)

lemma after_appends: "\<exists>es. log (attempt step s x) = log s @ es"
  by (auto simp: attempt_def split: sum.splits dest: step_appends)

lemma run_inv: "inv s \<Longrightarrow> inv (run_calls step s xs)"
  by (induction xs arbitrary: s) (simp_all add: after_inv)

lemma run_appends: "\<exists>es. log (run_calls step s xs) = log s @ es"
proof (induction xs arbitrary: s)
  case (Cons x xs)
  obtain es where "log (attempt step s x) = log s @ es" using after_appends by blast
  moreover obtain fs where "log (run_calls step (attempt step s x) xs) = log (attempt step s x) @ fs"
    using Cons.IH by blast
  ultimately show ?case by simp
qed simp

lemma run_keeps_entry: "i < length (log s) \<Longrightarrow> log (run_calls step s xs) ! i = log s ! i"
  using run_appends [of s xs] by (auto simp: nth_append)

lemma run_length: "length (log s) \<le> length (log (run_calls step s xs))"
  using run_appends [of s xs] by auto

lemma run_keeps_member: "e \<in> set (log s) \<Longrightarrow> e \<in> set (log (run_calls step s xs))"
  using run_appends [of s xs] by auto

end

end
