(* ===== verification/Escalation.thy ===== *)
theory Escalation
  imports Append_Log
begin

text \<open>
  \<open>atreides/escalation/register.py\<close>: the register of escalations and acknowledgements. The two
  dicts are association lists in insertion order (a key is inserted once, so insertion is
  appending), beside the list of identifiers in the order raised. The state of an escalation is
  derived, never stored. The register is an append-only log twice over, of escalations and of
  acknowledgements, and interprets \<open>append_log\<close> for both.
\<close>

datatype EscalationState = RAISED | ACKNOWLEDGED | ACKNOWLEDGED_LATE | OVERDUE

record Escalation =
  escalation_id :: string
  operation_id :: string
  raised_at_offset_seconds :: int
  reason :: string
  routed_to :: string
  acknowledge_by_offset_seconds :: "int option"

record Acknowledgement =
  ack_escalation_id :: string
  acknowledged_by :: string
  acknowledged_at_offset_seconds :: int

datatype escalation_error =
    Escalation_Id_Required | Reason_Required | Destination_Required | Deadline_Precedes_Raising
  | Acknowledger_Required
  | Already_Raised string | Not_Found string | Already_Acknowledged string string

definition mk_Escalation ::
  "string \<Rightarrow> string \<Rightarrow> int \<Rightarrow> string \<Rightarrow> string \<Rightarrow> int option \<Rightarrow> (escalation_error, Escalation) result" where
  "mk_Escalation eid op at why to_whom by =
     require (eid \<noteq> []) Escalation_Id_Required (
     require (why \<noteq> []) Reason_Required (
     require (to_whom \<noteq> []) Destination_Required (
     require (case by of None \<Rightarrow> True | Some d \<Rightarrow> \<not> d < at) Deadline_Precedes_Raising (
     Inr \<lparr>escalation_id = eid, operation_id = op, raised_at_offset_seconds = at, reason = why,
          routed_to = to_whom, acknowledge_by_offset_seconds = by\<rparr>))))"

definition has_deadline :: "Escalation \<Rightarrow> bool" where
  "has_deadline e \<longleftrightarrow> acknowledge_by_offset_seconds e \<noteq> None"

definition mk_Acknowledgement :: "string \<Rightarrow> string \<Rightarrow> int \<Rightarrow> (escalation_error, Acknowledgement) result" where
  "mk_Acknowledgement eid by at =
     require (by \<noteq> []) Acknowledger_Required (
     Inr \<lparr>ack_escalation_id = eid, acknowledged_by = by, acknowledged_at_offset_seconds = at\<rparr>)"

record EscalationRegister =
  raised_items :: "(string \<times> Escalation) list"
  acknowledged_items :: "(string \<times> Acknowledgement) list"
  order :: "string list"

definition empty_register :: EscalationRegister where
  "empty_register = \<lparr>raised_items = [], acknowledged_items = [], order = []\<rparr>"

definition raise_escalation ::
  "EscalationRegister \<Rightarrow> Escalation \<Rightarrow> (escalation_error, EscalationRegister) result" where
  "raise_escalation r e =
     (if map_of (raised_items r) (escalation_id e) \<noteq> None then Inl (Already_Raised (escalation_id e))
      else Inr (r\<lparr>raised_items := raised_items r @ [(escalation_id e, e)],
                  order := order r @ [escalation_id e]\<rparr>))"

definition acknowledge ::
  "EscalationRegister \<Rightarrow> string \<Rightarrow> string \<Rightarrow> int \<Rightarrow> (escalation_error, EscalationRegister) result" where
  "acknowledge r eid by at =
     (if map_of (raised_items r) eid = None then Inl (Not_Found eid)
      else case map_of (acknowledged_items r) eid of
             Some existing \<Rightarrow> Inl (Already_Acknowledged eid (acknowledged_by existing))
           | None \<Rightarrow>
               (case mk_Acknowledgement eid by at of
                  Inl e \<Rightarrow> Inl e
                | Inr ack \<Rightarrow> Inr (r\<lparr>acknowledged_items := acknowledged_items r @ [(eid, ack)]\<rparr>)))"

definition state :: "EscalationRegister \<Rightarrow> string \<Rightarrow> int \<Rightarrow> (escalation_error, EscalationState) result" where
  "state r eid as_of =
     (case map_of (raised_items r) eid of
        None \<Rightarrow> Inl (Not_Found eid)
      | Some e \<Rightarrow>
          (case map_of (acknowledged_items r) eid of
             Some ack \<Rightarrow>
               (case acknowledge_by_offset_seconds e of
                  None \<Rightarrow> Inr ACKNOWLEDGED
                | Some deadline \<Rightarrow>
                    if acknowledged_at_offset_seconds ack > deadline then Inr ACKNOWLEDGED_LATE
                    else Inr ACKNOWLEDGED)
           | None \<Rightarrow>
               (case acknowledge_by_offset_seconds e of
                  None \<Rightarrow> Inr RAISED
                | Some deadline \<Rightarrow> if as_of > deadline then Inr OVERDUE else Inr RAISED)))"

definition entry :: "EscalationRegister \<Rightarrow> string \<Rightarrow> Escalation" where
  "entry r eid = the (map_of (raised_items r) eid)"

definition unacknowledged :: "EscalationRegister \<Rightarrow> int \<Rightarrow> Escalation list" where
  "unacknowledged r as_of =
     map (entry r)
       (filter (\<lambda>eid. map_of (acknowledged_items r) eid = None \<and>
                      raised_at_offset_seconds (entry r eid) \<le> as_of) (order r))"

definition overdue :: "EscalationRegister \<Rightarrow> int \<Rightarrow> Escalation list" where
  "overdue r as_of =
     filter (\<lambda>e. case acknowledge_by_offset_seconds e of None \<Rightarrow> False | Some d \<Rightarrow> as_of > d)
       (unacknowledged r as_of)"

definition acknowledgement_for ::
  "EscalationRegister \<Rightarrow> string \<Rightarrow> (escalation_error, Acknowledgement option) result" where
  "acknowledgement_for r eid =
     (if map_of (raised_items r) eid = None then Inl (Not_Found eid)
      else Inr (map_of (acknowledged_items r) eid))"

definition raised :: "EscalationRegister \<Rightarrow> Escalation list" where
  "raised r = map (entry r) (order r)"

definition register_len :: "EscalationRegister \<Rightarrow> nat" where
  "register_len r = length (raised_items r)"

subsection \<open>The invariant and the steps\<close>

definition escalation_ok :: "Escalation \<Rightarrow> bool" where
  "escalation_ok e \<longleftrightarrow> escalation_id e \<noteq> [] \<and> reason e \<noteq> [] \<and> routed_to e \<noteq> [] \<and>
     (case acknowledge_by_offset_seconds e of None \<Rightarrow> True | Some d \<Rightarrow> raised_at_offset_seconds e \<le> d)"

lemma mk_Escalation_ok: "mk_Escalation eid op at why to_whom by = Inr e \<Longrightarrow> escalation_ok e"
  by (auto simp: mk_Escalation_def escalation_ok_def split: option.splits)

definition register_inv :: "EscalationRegister \<Rightarrow> bool" where
  "register_inv r \<longleftrightarrow>
     order r = map fst (raised_items r) \<and> distinct (order r) \<and>
     (\<forall>(k, e) \<in> set (raised_items r). k = escalation_id e \<and> escalation_ok e) \<and>
     distinct (map fst (acknowledged_items r)) \<and>
     (\<forall>(k, a) \<in> set (acknowledged_items r).
        k = ack_escalation_id a \<and> acknowledged_by a \<noteq> [] \<and> k \<in> set (order r))"

text \<open>A call on the register: raising a constructed escalation, or acknowledging.\<close>

datatype register_op =
    Raise string string int string string "int option" | Acknowledge string string int

fun register_step ::
  "EscalationRegister \<Rightarrow> register_op \<Rightarrow> (escalation_error, EscalationRegister) result" where
  "register_step r (Raise eid op at why to_whom by) =
     (case mk_Escalation eid op at why to_whom by of Inl e \<Rightarrow> Inl e | Inr e \<Rightarrow> raise_escalation r e)"
| "register_step r (Acknowledge eid by at) = acknowledge r eid by at"

lemma empty_register_inv [log_simps]: "register_inv empty_register"
  by (simp add: register_inv_def empty_register_def)

lemma register_inv_raised: "register_inv r \<Longrightarrow> raised r = map snd (raised_items r)"
  by (auto simp: raised_def register_inv_def entry_def intro!: map_cong)

lemma raise_escalation_Inr:
  "raise_escalation r e = Inr r' \<longleftrightarrow>
     escalation_id e \<notin> fst ` set (raised_items r) \<and>
     r' = r\<lparr>raised_items := raised_items r @ [(escalation_id e, e)], order := order r @ [escalation_id e]\<rparr>"
  by (auto simp: raise_escalation_def map_of_eq_None_iff simp del: not_None_eq)

lemma acknowledge_Inr:
  "acknowledge r eid by at = Inr r' \<longleftrightarrow>
     eid \<in> fst ` set (raised_items r) \<and> eid \<notin> fst ` set (acknowledged_items r) \<and> by \<noteq> [] \<and>
     r' = r\<lparr>acknowledged_items := acknowledged_items r @ [(eid,
       \<lparr>ack_escalation_id = eid, acknowledged_by = by, acknowledged_at_offset_seconds = at\<rparr>)]\<rparr>"
  using map_of_eq_None_iff [of "raised_items r" eid] map_of_eq_None_iff [of "acknowledged_items r" eid]
  by (cases "map_of (raised_items r) eid"; cases "map_of (acknowledged_items r) eid"; cases "by = []")
    (auto simp: acknowledge_def mk_Acknowledgement_def simp del: map_of_eq_None_iff)

lemma raise_escalation_inv:
  "register_inv r \<Longrightarrow> escalation_ok e \<Longrightarrow> raise_escalation r e = Inr r' \<Longrightarrow> register_inv r'"
  by (auto simp: raise_escalation_Inr register_inv_def)

lemma acknowledge_inv: "register_inv r \<Longrightarrow> acknowledge r eid by at = Inr r' \<Longrightarrow> register_inv r'"
  by (auto simp: acknowledge_Inr register_inv_def)

lemma register_step_inv: "register_inv r \<Longrightarrow> register_step r x = Inr r' \<Longrightarrow> register_inv r'"
  by (cases x)
    (auto split: sum.splits dest: mk_Escalation_ok raise_escalation_inv acknowledge_inv)

lemma register_step_appends:
  assumes "register_step r x = Inr r'"
  shows "\<exists>es. raised_items r' = raised_items r @ es"
    and "\<exists>es. acknowledged_items r' = acknowledged_items r @ es"
  using assms
  by (cases x; auto split: sum.splits simp: raise_escalation_Inr acknowledge_Inr)+

abbreviation run_register :: "EscalationRegister \<Rightarrow> register_op list \<Rightarrow> EscalationRegister" where
  "run_register \<equiv> run_calls register_step"

interpretation escalations: append_log register_inv register_step raised_items
  by unfold_locales (auto intro: register_step_inv dest: register_step_appends)

interpretation acknowledgements: append_log register_inv register_step acknowledged_items
  by unfold_locales (auto intro: register_step_inv dest: register_step_appends)

subsection \<open>Lookups that later calls cannot change\<close>

lemma map_of_appended: "map_of xs k = Some v \<Longrightarrow> map_of (xs @ ys) k = Some v"
  by (simp add: map_add_def)

lemma raised_lookup_kept:
  "map_of (raised_items r) eid = Some e \<Longrightarrow> map_of (raised_items (run_register r xs)) eid = Some e"
  using escalations.run_appends [of r xs] by (auto intro: map_of_appended)

lemma acknowledged_lookup_kept:
  "map_of (acknowledged_items r) eid = Some a \<Longrightarrow>
   map_of (acknowledged_items (run_register r xs)) eid = Some a"
  using acknowledgements.run_appends [of r xs] by (auto intro: map_of_appended)

lemma reachable_inv: "register_inv (run_register empty_register xs)"
  by (rule escalations.run_inv) (rule empty_register_inv)

lemma inv_entry:
  assumes "register_inv r" and "map_of (raised_items r) eid = Some e"
  shows "eid \<in> set (order r) \<and> entry r eid = e \<and> escalation_id e = eid \<and> escalation_ok e"
  using assms map_of_SomeD [OF assms(2)] by (force simp: register_inv_def entry_def)

lemma inv_order:
  assumes "register_inv r" and "eid \<in> set (order r)"
  obtains e where "map_of (raised_items r) eid = Some e"
  using assms by (auto simp: register_inv_def map_of_eq_Some_iff)

subsection \<open>Properties\<close>

text \<open>
  nothing is ever removed or changed. Whatever calls follow, refused ones included, an
  escalation that was raised is read back as it was raised, in its place in the order, and an
  acknowledgement that was recorded stays the acknowledgement of its escalation.
\<close>

theorem register_is_append_only:
  "(\<exists>es. raised (run_register (run_register empty_register xs) ys) =
          raised (run_register empty_register xs) @ es) \<and>
   (\<forall>eid a. acknowledgement_for (run_register empty_register xs) eid = Inr (Some a) \<longrightarrow>
      acknowledgement_for (run_register (run_register empty_register xs) ys) eid = Inr (Some a))"
proof -
  let ?r = "run_register empty_register xs" and ?s = "run_register (run_register empty_register xs) ys"
  have i: "register_inv ?r" by (rule reachable_inv)
  then have "register_inv ?s" by (rule escalations.run_inv)
  with i have "\<exists>es. raised ?s = raised ?r @ es"
    using escalations.run_appends [of ?r ys] by (auto simp: register_inv_raised)
  moreover have "acknowledgement_for ?s eid = Inr (Some a)"
    if "acknowledgement_for ?r eid = Inr (Some a)" for eid a
    using that raised_lookup_kept [of ?r eid _ ys] acknowledged_lookup_kept [of ?r eid a ys]
    by (auto simp: acknowledgement_for_def split: if_splits)
  ultimately show ?thesis by blast
qed

lemma worklists_inv:
  assumes i: "register_inv r"
  shows "(eid \<in> escalation_id ` set (overdue r t) \<longleftrightarrow> state r eid t = Inr OVERDUE) \<and>
    (eid \<in> escalation_id ` set (unacknowledged r t) \<longleftrightarrow>
       (\<exists>e. map_of (raised_items r) eid = Some e \<and> raised_at_offset_seconds e \<le> t) \<and>
       (state r eid t = Inr RAISED \<or> state r eid t = Inr OVERDUE))"
proof -
  have ids: "escalation_id (entry r k) = k" if "k \<in> set (order r)" for k
    using inv_order [OF i that] inv_entry [OF i] by metis
  have un: "eid \<in> escalation_id ` set (filter P (unacknowledged r t)) \<longleftrightarrow>
      (\<exists>e. map_of (raised_items r) eid = Some e \<and> map_of (acknowledged_items r) eid = None \<and>
           raised_at_offset_seconds e \<le> t \<and> P e)" for P
  proof
    assume "eid \<in> escalation_id ` set (filter P (unacknowledged r t))"
    then obtain k where k: "k \<in> set (order r)" "map_of (acknowledged_items r) k = None"
      "raised_at_offset_seconds (entry r k) \<le> t" "P (entry r k)" "eid = escalation_id (entry r k)"
      by (auto simp: unacknowledged_def)
    moreover obtain e where "map_of (raised_items r) k = Some e" by (rule inv_order [OF i k(1)])
    ultimately show "\<exists>e. map_of (raised_items r) eid = Some e \<and> map_of (acknowledged_items r) eid = None \<and>
        raised_at_offset_seconds e \<le> t \<and> P e"
      using ids inv_entry [OF i] by metis
  next
    assume "\<exists>e. map_of (raised_items r) eid = Some e \<and> map_of (acknowledged_items r) eid = None \<and>
        raised_at_offset_seconds e \<le> t \<and> P e"
    then obtain e where e: "map_of (raised_items r) eid = Some e" "map_of (acknowledged_items r) eid = None"
      "raised_at_offset_seconds e \<le> t" "P e" by blast
    from inv_entry [OF i e(1)] e show "eid \<in> escalation_id ` set (filter P (unacknowledged r t))"
      by (auto simp: unacknowledged_def intro!: image_eqI [of _ _ e])
  qed
  have late: "raised_at_offset_seconds e \<le> d"
    if "map_of (raised_items r) eid = Some e" "acknowledge_by_offset_seconds e = Some d" for e d
    using inv_entry [OF i that(1)] that(2) by (simp add: escalation_ok_def)
  show ?thesis
  proof (intro conjI)
    show "eid \<in> escalation_id ` set (overdue r t) \<longleftrightarrow> state r eid t = Inr OVERDUE"
      unfolding overdue_def un state_def using late by (force split: option.splits)
    show "eid \<in> escalation_id ` set (unacknowledged r t) \<longleftrightarrow>
       (\<exists>e. map_of (raised_items r) eid = Some e \<and> raised_at_offset_seconds e \<le> t) \<and>
       (state r eid t = Inr RAISED \<or> state r eid t = Inr OVERDUE)"
      using un [of "\<lambda>_. True"] by (auto simp: state_def split: option.splits)
  qed
qed

text \<open>
  C12: the two worklists are exactly the derived states. On any register the calls can reach, an
  escalation is listed as overdue at an instant exactly when its state at that instant is
  OVERDUE, and as unacknowledged exactly when it was raised by then and is RAISED or OVERDUE.
\<close>

theorem worklists_agree_with_state:
  "(eid \<in> escalation_id ` set (overdue (run_register empty_register xs) t) \<longleftrightarrow>
      state (run_register empty_register xs) eid t = Inr OVERDUE) \<and>
   (eid \<in> escalation_id ` set (unacknowledged (run_register empty_register xs) t) \<longleftrightarrow>
      (\<exists>e. map_of (raised_items (run_register empty_register xs)) eid = Some e \<and>
           raised_at_offset_seconds e \<le> t) \<and>
      (state (run_register empty_register xs) eid t = Inr RAISED \<or>
       state (run_register empty_register xs) eid t = Inr OVERDUE))"
  by (rule worklists_inv [OF reachable_inv])

text \<open>
  an acknowledgement settles the state for good. Once an escalation reads acknowledged, in
  time or late, no later call and no later instant changes that reading; and until it is
  acknowledged an overdue escalation stays overdue.
\<close>

theorem acknowledged_state_is_final:
  assumes "state r eid t = Inr st" and "st \<in> {ACKNOWLEDGED, ACKNOWLEDGED_LATE} \<or> (st = OVERDUE \<and> xs = [] \<and> t \<le> u)"
  shows "state (run_register r xs) eid u = Inr st"
proof -
  obtain e where e: "map_of (raised_items r) eid = Some e"
    using assms(1) by (auto simp: state_def split: option.splits)
  show ?thesis
  proof (cases "map_of (acknowledged_items r) eid")
    case None
    then have "st = OVERDUE" "xs = []" "t \<le> u"
      using assms e by (auto simp: state_def split: option.splits if_splits)
    with assms(1) e None show ?thesis by (auto simp: state_def split: option.splits if_splits)
  next
    case (Some a)
    with assms(1) e raised_lookup_kept [OF e, of xs] acknowledged_lookup_kept [OF Some, of xs]
    show ?thesis by (simp add: state_def)
  qed
qed

text \<open>
  every acknowledgement in a reachable register names a person, is for an escalation that
  was raised, and is the only one for it; every escalation has an identifier, a reason and a
  destination, and is listed once.
\<close>

theorem register_records_are_attributable:
  "distinct (map escalation_id (raised (run_register empty_register xs))) \<and>
   (\<forall>e \<in> set (raised (run_register empty_register xs)).
      reason e \<noteq> [] \<and> routed_to e \<noteq> [] \<and> escalation_id e \<noteq> []) \<and>
   (\<forall>eid a. acknowledgement_for (run_register empty_register xs) eid = Inr (Some a) \<longrightarrow>
      ack_escalation_id a = eid \<and> acknowledged_by a \<noteq> [] \<and>
      eid \<in> escalation_id ` set (raised (run_register empty_register xs)) \<and>
      (\<forall>by t r'. acknowledge (run_register empty_register xs) eid by t \<noteq> Inr r'))"
proof -
  let ?r = "run_register empty_register xs"
  have i: "register_inv ?r" by (rule reachable_inv)
  then have raised: "raised ?r = map snd (raised_items ?r)" by (rule register_inv_raised)
  have "map escalation_id (raised ?r) = order ?r"
    using i unfolding raised by (auto simp: register_inv_def intro!: map_cong)
  moreover have "distinct (order ?r)" using i unfolding register_inv_def by blast
  ultimately have "distinct (map escalation_id (raised ?r))" by simp
  moreover have "\<forall>e \<in> set (raised ?r). reason e \<noteq> [] \<and> routed_to e \<noteq> [] \<and> escalation_id e \<noteq> []"
    using i unfolding raised by (auto simp: register_inv_def escalation_ok_def)
  moreover have "ack_escalation_id a = eid \<and> acknowledged_by a \<noteq> [] \<and>
      eid \<in> escalation_id ` set (raised ?r) \<and> (\<forall>by t r'. acknowledge ?r eid by t \<noteq> Inr r')"
    if "acknowledgement_for ?r eid = Inr (Some a)" for eid a
  proof -
    from that have m: "map_of (raised_items ?r) eid \<noteq> None" "map_of (acknowledged_items ?r) eid = Some a"
      by (auto simp: acknowledgement_for_def split: if_splits)
    then obtain e where e: "map_of (raised_items ?r) eid = Some e" by blast
    have "ack_escalation_id a = eid \<and> acknowledged_by a \<noteq> []"
      using i map_of_SomeD [OF m(2)] by (force simp: register_inv_def)
    moreover have "eid \<in> escalation_id ` set (raised ?r)"
      using inv_entry [OF i e] map_of_SomeD [OF e] unfolding raised by force
    moreover have "acknowledge ?r eid by t \<noteq> Inr r'" for "by" t r'
      using m by (auto simp: acknowledge_def)
    ultimately show ?thesis by blast
  qed
  ultimately show ?thesis by blast
qed

subsection \<open>Replay, and witnesses\<close>

definition w_ops :: "register_op list" where
  "w_ops = [Raise ''E1'' ''op'' 0 ''unfunded'' ''desk'' (Some 10), Acknowledge ''E1'' ''kim'' 100]"

lemma w_register:
  "run_register empty_register w_ops =
     \<lparr>raised_items = [(''E1'', \<lparr>escalation_id = ''E1'', operation_id = ''op'', raised_at_offset_seconds = 0,
        reason = ''unfunded'', routed_to = ''desk'', acknowledge_by_offset_seconds = Some 10\<rparr>)],
      acknowledged_items = [(''E1'', \<lparr>ack_escalation_id = ''E1'', acknowledged_by = ''kim'',
        acknowledged_at_offset_seconds = 100\<rparr>)],
      order = [''E1'']\<rparr>"
  by (simp add: w_ops_def attempt_def empty_register_def mk_Escalation_def
      raise_escalation_def acknowledge_def mk_Acknowledgement_def)

text \<open>
  the register does not replay. An escalation due at 10 and acknowledged at 100 was overdue
  at 50, but a register that has since recorded the acknowledgement answers for 50 that it was
  acknowledged late, and lists nothing overdue: the instant asked about is not compared with the
  instant of the acknowledgement.
\<close>

theorem register_forgets_it_was_overdue:
  "state (run_register empty_register (take 1 w_ops)) ''E1'' 50 = Inr OVERDUE \<and>
   state (run_register empty_register w_ops) ''E1'' 50 = Inr ACKNOWLEDGED_LATE \<and>
   overdue (run_register empty_register w_ops) 50 = []"
proof -
  have "state (run_register empty_register (take 1 w_ops)) ''E1'' 50 = Inr OVERDUE"
    by (simp add: w_ops_def attempt_def empty_register_def mk_Escalation_def
        raise_escalation_def state_def)
  then show ?thesis by (simp add: w_register state_def overdue_def unacknowledged_def)
qed

theorem register_is_append_only_witness:
  "acknowledgement_for (run_register (run_register empty_register w_ops) [Acknowledge ''E1'' ''lee'' 120]) ''E1'' =
   acknowledgement_for (run_register empty_register w_ops) ''E1''"
proof -
  have "acknowledgement_for (run_register empty_register w_ops) ''E1'' =
      Inr (Some \<lparr>ack_escalation_id = ''E1'', acknowledged_by = ''kim'', acknowledged_at_offset_seconds = 100\<rparr>)"
    by (simp add: w_register acknowledgement_for_def)
  with register_is_append_only [of w_ops "[Acknowledge ''E1'' ''lee'' 120]"] show ?thesis by simp
qed

theorem acknowledged_state_is_final_witness:
  "state (run_register (run_register empty_register w_ops) [Acknowledge ''E1'' ''lee'' 5]) ''E1'' 900 =
     Inr ACKNOWLEDGED_LATE"
  by (rule acknowledged_state_is_final [where t = 50]) (simp_all add: w_register state_def)

theorem register_records_are_attributable_witness:
  "\<exists>a. acknowledgement_for (run_register empty_register w_ops) ''E1'' = Inr (Some a) \<and>
     acknowledged_by a \<noteq> [] \<and>
     (\<forall>r'. acknowledge (run_register empty_register w_ops) ''E1'' ''lee'' 120 \<noteq> Inr r')"
proof -
  let ?a = "\<lparr>ack_escalation_id = ''E1'', acknowledged_by = ''kim'', acknowledged_at_offset_seconds = 100\<rparr>"
  have a: "acknowledgement_for (run_register empty_register w_ops) ''E1'' = Inr (Some ?a)"
    by (simp add: w_register acknowledgement_for_def)
  with register_records_are_attributable [of w_ops] show ?thesis by blast
qed

end
