(* ===== verification/Quorum.thy ===== *)
theory Quorum
  imports Prelude
begin

text \<open>
  \<open>atreides/contracts/quorum.py\<close>: the typed substrate of the N-of-M signature ceremony and its
  structural validators, run in the order they are declared. The models strip their strings
  before the length test; stripping is pydantic's, so it is the parameter \<open>strip\<close>. A timestamp is
  an integer and is carried, not compared (temporal independence is not enforced here).
\<close>

datatype IndependenceRequirement = IDENTITY | ORGANIZATIONAL | GEOGRAPHIC | SYSTEM | TEMPORAL

datatype CeremonyStep =
    PACKAGE_ASSEMBLY | CEREMONY_INITIATION | SIGNATURE_COLLECTION | QUORUM_VERIFICATION
  | OPERATION_EXECUTION | POST_OPERATION_RECONCILIATION

datatype CeremonyState = PENDING | IN_PROGRESS | COMPLETED | FAILED | ESCALATED

datatype quorum_error =
    Not_Positive string int | N_Exceeds_M int int | Field_Empty string
  | Pool_Not_M nat int | Duplicate_Authority | Signature_Outside_Pool string | Double_Signing
  | Too_Many_Signatures nat int | Completed_Without_N int nat
  | Shared_Identity | One_Organizational_Unit | One_Jurisdiction | Shared_System

record QuorumThreshold =
  thr_n :: int
  thr_m :: int

definition DEFAULT_THRESHOLD_N :: int where "DEFAULT_THRESHOLD_N = 3"
definition DEFAULT_THRESHOLD_M :: int where "DEFAULT_THRESHOLD_M = 5"

definition mk_QuorumThreshold :: "int \<Rightarrow> int \<Rightarrow> (quorum_error, QuorumThreshold) result" where
  "mk_QuorumThreshold n m =
     require (n \<ge> 1) (Not_Positive ''n'' n) (
     require (m \<ge> 1) (Not_Positive ''m'' m) (
     require (\<not> n > m) (N_Exceeds_M n m) (Inr \<lparr>thr_n = n, thr_m = m\<rparr>)))"

record SigningAuthority =
  sa_authority_id :: string
  sa_identity_id :: string
  sa_organizational_unit :: string
  sa_jurisdiction :: string
  sa_signing_system :: string

definition mk_SigningAuthority ::
  "(string \<Rightarrow> string) \<Rightarrow> string \<Rightarrow> string \<Rightarrow> string \<Rightarrow> string \<Rightarrow> string \<Rightarrow>
   (quorum_error, SigningAuthority) result" where
  "mk_SigningAuthority strip a i ou j s =
     require (strip a \<noteq> []) (Field_Empty ''authority_id'') (
     require (strip i \<noteq> []) (Field_Empty ''identity_id'') (
     require (strip ou \<noteq> []) (Field_Empty ''organizational_unit'') (
     require (strip j \<noteq> []) (Field_Empty ''jurisdiction'') (
     require (strip s \<noteq> []) (Field_Empty ''signing_system'') (
     Inr \<lparr>sa_authority_id = strip a, sa_identity_id = strip i, sa_organizational_unit = strip ou,
          sa_jurisdiction = strip j, sa_signing_system = strip s\<rparr>)))))"

record Signature =
  sig_authority_id :: string
  signed_at :: int
  commentary :: "string option"

definition mk_Signature ::
  "(string \<Rightarrow> string) \<Rightarrow> string \<Rightarrow> int \<Rightarrow> string option \<Rightarrow> (quorum_error, Signature) result" where
  "mk_Signature strip a at c =
     require (strip a \<noteq> []) (Field_Empty ''authority_id'')
       (Inr \<lparr>sig_authority_id = strip a, signed_at = at, commentary = map_option strip c\<rparr>)"

record QuorumAuthority =
  threshold :: QuorumThreshold
  independence_requirements :: "IndependenceRequirement set"
  signing_pool :: "SigningAuthority list"
  collected_signatures :: "Signature list"
  ceremony_step :: CeremonyStep
  ceremony_state :: CeremonyState
  session_id :: "string option"

type_synonym validator = "QuorumAuthority \<Rightarrow> quorum_error option"

definition enforce_pool_matches_m :: validator where
  "enforce_pool_matches_m q =
     (if int (length (signing_pool q)) \<noteq> thr_m (threshold q)
      then Some (Pool_Not_M (length (signing_pool q)) (thr_m (threshold q))) else None)"

definition enforce_unique_authority_ids_in_pool :: validator where
  "enforce_unique_authority_ids_in_pool q =
     (if length (remdups (map sa_authority_id (signing_pool q))) \<noteq>
         length (map sa_authority_id (signing_pool q))
      then Some Duplicate_Authority else None)"

definition enforce_signature_pool_membership :: validator where
  "enforce_signature_pool_membership q =
     (case find (\<lambda>s. sig_authority_id s \<notin> set (map sa_authority_id (signing_pool q)))
             (collected_signatures q) of
        Some s \<Rightarrow> Some (Signature_Outside_Pool (sig_authority_id s)) | None \<Rightarrow> None)"

definition enforce_no_double_signing :: validator where
  "enforce_no_double_signing q =
     (if length (remdups (map sig_authority_id (collected_signatures q))) \<noteq>
         length (map sig_authority_id (collected_signatures q))
      then Some Double_Signing else None)"

definition enforce_signature_count_bounded_by_threshold :: validator where
  "enforce_signature_count_bounded_by_threshold q =
     (if int (length (collected_signatures q)) > thr_n (threshold q)
      then Some (Too_Many_Signatures (length (collected_signatures q)) (thr_n (threshold q)))
      else if ceremony_state q = COMPLETED \<and>
              int (length (collected_signatures q)) \<noteq> thr_n (threshold q)
      then Some (Completed_Without_N (thr_n (threshold q)) (length (collected_signatures q)))
      else None)"

definition enforce_pool_independence :: validator where
  "enforce_pool_independence q =
     (let reqs = independence_requirements q; pool = signing_pool q in
      if IDENTITY \<in> reqs \<and>
         length (remdups (map sa_identity_id pool)) \<noteq> length (map sa_identity_id pool)
      then Some Shared_Identity
      else if ORGANIZATIONAL \<in> reqs \<and> length (remdups (map sa_organizational_unit pool)) < 2
      then Some One_Organizational_Unit
      else if GEOGRAPHIC \<in> reqs \<and> length (remdups (map sa_jurisdiction pool)) < 2
      then Some One_Jurisdiction
      else if SYSTEM \<in> reqs \<and> length (remdups (map sa_signing_system pool)) \<noteq> length pool
      then Some Shared_System
      else None)"

definition quorum_validators :: "validator list" where
  "quorum_validators =
     [enforce_pool_matches_m, enforce_unique_authority_ids_in_pool,
      enforce_signature_pool_membership, enforce_no_double_signing,
      enforce_signature_count_bounded_by_threshold, enforce_pool_independence]"

fun validate :: "validator list \<Rightarrow> QuorumAuthority \<Rightarrow> (quorum_error, QuorumAuthority) result" where
  "validate [] q = Inr q"
| "validate (v # vs) q = (case v q of Some e \<Rightarrow> Inl e | None \<Rightarrow> validate vs q)"

definition mk_QuorumAuthority ::
  "(string \<Rightarrow> string) \<Rightarrow> QuorumThreshold \<Rightarrow> IndependenceRequirement set \<Rightarrow> SigningAuthority list \<Rightarrow>
   Signature list \<Rightarrow> CeremonyStep \<Rightarrow> CeremonyState \<Rightarrow> string option \<Rightarrow>
   (quorum_error, QuorumAuthority) result" where
  "mk_QuorumAuthority strip thr reqs pool sigs stp st session =
     validate quorum_validators
       \<lparr>threshold = thr, independence_requirements = reqs, signing_pool = pool,
        collected_signatures = sigs, ceremony_step = stp, ceremony_state = st,
        session_id = map_option strip session\<rparr>"

subsection \<open>What the validators establish\<close>

lemma length_remdups_distinct: "length (remdups xs) = length xs \<longleftrightarrow> distinct xs"
  by (metis distinct_card distinct_remdups length_remdups_card_conv card_distinct)

lemma validate_iff: "validate vs q = Inr q' \<longleftrightarrow> q' = q \<and> (\<forall>v \<in> set vs. v q = None)"
  by (induction vs) (auto split: option.splits)

definition quorum_ok :: "QuorumAuthority \<Rightarrow> bool" where
  "quorum_ok q \<longleftrightarrow>
     int (length (signing_pool q)) = thr_m (threshold q) \<and>
     distinct (map sa_authority_id (signing_pool q)) \<and>
     set (map sig_authority_id (collected_signatures q)) \<subseteq> set (map sa_authority_id (signing_pool q)) \<and>
     distinct (map sig_authority_id (collected_signatures q)) \<and>
     int (length (collected_signatures q)) \<le> thr_n (threshold q) \<and>
     (if ceremony_state q = COMPLETED
      then int (length (collected_signatures q)) = thr_n (threshold q) else True) \<and>
     (if IDENTITY \<in> independence_requirements q
      then distinct (map sa_identity_id (signing_pool q)) else True) \<and>
     (if ORGANIZATIONAL \<in> independence_requirements q
      then 2 \<le> card (set (map sa_organizational_unit (signing_pool q))) else True) \<and>
     (if GEOGRAPHIC \<in> independence_requirements q
      then 2 \<le> card (set (map sa_jurisdiction (signing_pool q))) else True) \<and>
     (if SYSTEM \<in> independence_requirements q
      then distinct (map sa_signing_system (signing_pool q)) else True)"

lemma validators_ok: "(\<forall>v \<in> set quorum_validators. v q = None) \<longleftrightarrow> quorum_ok q"
proof -
  have "enforce_pool_matches_m q = None \<longleftrightarrow> int (length (signing_pool q)) = thr_m (threshold q)"
    by (simp add: enforce_pool_matches_m_def)
  moreover have "enforce_unique_authority_ids_in_pool q = None \<longleftrightarrow>
      distinct (map sa_authority_id (signing_pool q))"
    unfolding enforce_unique_authority_ids_in_pool_def length_remdups_distinct by simp
  moreover have "enforce_signature_pool_membership q = None \<longleftrightarrow>
      set (map sig_authority_id (collected_signatures q)) \<subseteq> set (map sa_authority_id (signing_pool q))"
    by (auto simp: enforce_signature_pool_membership_def find_None_iff split: option.splits
        dest!: find_SomeD)
  moreover have "enforce_no_double_signing q = None \<longleftrightarrow>
      distinct (map sig_authority_id (collected_signatures q))"
    unfolding enforce_no_double_signing_def length_remdups_distinct by simp
  moreover have "enforce_signature_count_bounded_by_threshold q = None \<longleftrightarrow>
      int (length (collected_signatures q)) \<le> thr_n (threshold q) \<and>
      (if ceremony_state q = COMPLETED
       then int (length (collected_signatures q)) = thr_n (threshold q) else True)"
    by (auto simp: enforce_signature_count_bounded_by_threshold_def)
  moreover have "enforce_pool_independence q = None \<longleftrightarrow>
     (if IDENTITY \<in> independence_requirements q
      then distinct (map sa_identity_id (signing_pool q)) else True) \<and>
     (if ORGANIZATIONAL \<in> independence_requirements q
      then 2 \<le> card (set (map sa_organizational_unit (signing_pool q))) else True) \<and>
     (if GEOGRAPHIC \<in> independence_requirements q
      then 2 \<le> card (set (map sa_jurisdiction (signing_pool q))) else True) \<and>
     (if SYSTEM \<in> independence_requirements q
      then distinct (map sa_signing_system (signing_pool q)) else True)"
  proof -
    let ?ids = "map sa_identity_id (signing_pool q)" and ?units = "map sa_organizational_unit (signing_pool q)"
      and ?places = "map sa_jurisdiction (signing_pool q)" and ?systems = "map sa_signing_system (signing_pool q)"
    have split: "(if a then Some w else if b then Some x else if c then Some y else if d then Some z else None)
        = None \<longleftrightarrow> \<not> a \<and> \<not> b \<and> \<not> c \<and> \<not> d" for a b c d and w x y z :: quorum_error
      by simp
    have "length (remdups ?systems) = length (signing_pool q) \<longleftrightarrow> distinct ?systems"
      using length_remdups_distinct [of ?systems] by (simp only: length_map)
    then show ?thesis
      unfolding enforce_pool_independence_def Let_def split length_remdups_distinct [of ?ids]
        length_remdups_card_conv [of ?units] length_remdups_card_conv [of ?places]
      by (simp only: de_Morgan_conj not_not linorder_not_less if_bool_eq_conj) blast
  qed
  ultimately show ?thesis
    unfolding quorum_validators_def quorum_ok_def by simp
qed

text \<open>
  a ceremony record can be constructed exactly when it is sound: the pool has M members with
  distinct identifiers, every signature is of a member, nobody signed twice, there are at most N
  signatures and exactly N once the ceremony is completed, and each independence requirement in
  force holds of the pool.
\<close>

theorem quorum_constructible_iff:
  "mk_QuorumAuthority strip thr reqs pool sigs stp st session = Inr q \<longleftrightarrow>
     q = \<lparr>threshold = thr, independence_requirements = reqs, signing_pool = pool,
          collected_signatures = sigs, ceremony_step = stp, ceremony_state = st,
          session_id = map_option strip session\<rparr> \<and> quorum_ok q"
  unfolding mk_QuorumAuthority_def validate_iff validators_ok [symmetric] by auto

lemma quorum_built:
  "mk_QuorumAuthority strip thr reqs pool sigs stp st session = Inr q \<Longrightarrow>
   quorum_ok q \<and> threshold q = thr \<and> independence_requirements q = reqs \<and> signing_pool q = pool \<and>
   collected_signatures q = sigs \<and> ceremony_state q = st"
  unfolding mk_QuorumAuthority_def validate_iff validators_ok by auto

text \<open>The members of the pool who signed.\<close>

definition signers :: "QuorumAuthority \<Rightarrow> SigningAuthority set" where
  "signers q = {a \<in> set (signing_pool q). sa_authority_id a \<in> sig_authority_id ` set (collected_signatures q)}"

lemma image_restricted: "f ` {a \<in> A. f a \<in> S} = S \<inter> f ` A"
  by auto

lemma signers_filter:
  "signers q = set (filter (\<lambda>a. sa_authority_id a \<in> set (map sig_authority_id (collected_signatures q)))
     (signing_pool q))"
  by (auto simp: signers_def)

text \<open>
  C11: no person completes a quorum alone. In a completed ceremony under identity independence
  the members who signed are exactly N, and they are N different natural persons of the pool of M.
\<close>

theorem completed_quorum_has_n_persons:
  assumes "mk_QuorumAuthority strip thr reqs pool sigs stp COMPLETED session = Inr q"
    and "IDENTITY \<in> reqs"
  shows "int (card (sa_identity_id ` signers q)) = thr_n thr \<and> thr_n thr \<le> thr_m thr"
proof -
  have q: "quorum_ok q" "threshold q = thr" "independence_requirements q = reqs" "ceremony_state q = COMPLETED"
    using quorum_built [OF assms(1)] by auto
  note q = q(1) [unfolded quorum_ok_def q(2) q(3)] q(4) assms(2)
  have "sig_authority_id ` set (collected_signatures q) \<subseteq> sa_authority_id ` set (signing_pool q)"
    using q by simp
  then have ids: "sa_authority_id ` signers q = sig_authority_id ` set (collected_signatures q)"
    unfolding signers_def image_restricted by (rule Int_absorb2)
  have sub: "signers q \<subseteq> set (signing_pool q)" by (auto simp: signers_def)
  have "inj_on sa_authority_id (set (signing_pool q))" "inj_on sa_identity_id (set (signing_pool q))"
    using q by (simp_all add: distinct_map)
  then have "inj_on sa_authority_id (signers q)" "inj_on sa_identity_id (signers q)"
    using sub by (auto intro: inj_on_subset)
  then have "card (sa_identity_id ` signers q) = card (sa_authority_id ` signers q)"
    by (simp add: card_image)
  also have "\<dots> = length (collected_signatures q)"
    using q distinct_card [of "map sig_authority_id (collected_signatures q)"] unfolding ids by simp
  finally have n: "int (card (sa_identity_id ` signers q)) = thr_n thr" using q by simp
  have "card (sa_identity_id ` signers q) \<le> card (signers q)" by (rule card_image_le) (rule finite_subset [OF sub], simp)
  also have "\<dots> \<le> card (set (signing_pool q))" using sub by (intro card_mono) simp
  also have "\<dots> \<le> length (signing_pool q)" by (rule card_length)
  finally have "thr_n thr \<le> thr_m thr" using n q by simp
  with n show ?thesis by blast
qed

definition w_authority :: "string \<Rightarrow> string \<Rightarrow> SigningAuthority" where
  "w_authority a ou = \<lparr>sa_authority_id = a, sa_identity_id = a, sa_organizational_unit = ou,
     sa_jurisdiction = ''US'', sa_signing_system = a\<rparr>"

definition w_pool :: "SigningAuthority list" where
  "w_pool = [w_authority ''A'' ''risk'', w_authority ''B'' ''risk'', w_authority ''C'' ''audit'']"

definition w_signature :: "string \<Rightarrow> Signature" where
  "w_signature a = \<lparr>sig_authority_id = a, signed_at = 0, commentary = None\<rparr>"

lemma w_quorum:
  "\<exists>q. mk_QuorumAuthority id \<lparr>thr_n = 2, thr_m = 3\<rparr> {IDENTITY, ORGANIZATIONAL, SYSTEM} w_pool
     [w_signature ''A'', w_signature ''B''] OPERATION_EXECUTION COMPLETED None = Inr q \<and> signing_pool q = w_pool"
  by (simp add: mk_QuorumAuthority_def validate_iff validators_ok quorum_ok_def w_pool_def
      w_authority_def w_signature_def)

text \<open>
  organizational independence is not enforced analogously to identity independence, as the
  module description says, but only as two distinct units in the pool: a completed ceremony can
  rest on signatures of a single organizational unit.
\<close>

theorem quorum_of_one_organizational_unit:
  "\<exists>q. mk_QuorumAuthority id \<lparr>thr_n = 2, thr_m = 3\<rparr> {IDENTITY, ORGANIZATIONAL, SYSTEM} w_pool
     [w_signature ''A'', w_signature ''B''] OPERATION_EXECUTION COMPLETED None = Inr q \<and>
     sa_organizational_unit ` signers q = {''risk''}"
proof -
  obtain q where q: "mk_QuorumAuthority id \<lparr>thr_n = 2, thr_m = 3\<rparr> {IDENTITY, ORGANIZATIONAL, SYSTEM} w_pool
     [w_signature ''A'', w_signature ''B''] OPERATION_EXECUTION COMPLETED None = Inr q"
    using w_quorum by blast
  have "signing_pool q = w_pool" "collected_signatures q = [w_signature ''A'', w_signature ''B'']"
    using quorum_built [OF q] by simp_all
  then have "sa_organizational_unit ` signers q = {''risk''}"
    unfolding signers_filter by (simp add: w_pool_def w_authority_def w_signature_def)
  with q show ?thesis by blast
qed

theorem completed_quorum_has_n_persons_witness:
  "\<exists>q. mk_QuorumAuthority id \<lparr>thr_n = 2, thr_m = 3\<rparr> {IDENTITY, ORGANIZATIONAL, SYSTEM} w_pool
     [w_signature ''A'', w_signature ''B''] OPERATION_EXECUTION COMPLETED None = Inr q \<and>
     card (sa_identity_id ` signers q) = 2"
proof -
  obtain q where q: "mk_QuorumAuthority id \<lparr>thr_n = 2, thr_m = 3\<rparr> {IDENTITY, ORGANIZATIONAL, SYSTEM} w_pool
     [w_signature ''A'', w_signature ''B''] OPERATION_EXECUTION COMPLETED None = Inr q"
    using w_quorum by blast
  with completed_quorum_has_n_persons [OF q] show ?thesis by simp
qed

end
