(* ===== verification/Books_Ledger.thy ===== *)
theory Books_Ledger
  imports Append_Log Decimal_Context "HOL-Library.AList"
begin

text \<open>
  \<open>atreides/books/ledger.py\<close> and \<open>atreides/dsor/books.py\<close>: the posting evidence, the journal
  entries with the checks of their constructors, the append-only equities journal and the stock
  record it is verified against. Dicts are association lists in insertion order. The canonical
  bytes of an entry come from the kernel package and are the parameter \<open>canon\<close>; the kernel's
  actor reference and event identifier are opaque strings; a break identifier is the pair its
  string is built from.
\<close>

subsection \<open>Posting evidence\<close>

datatype Provenance = FACT_EXTERNAL | FACT_SYNTHETIC

datatype Disposition = PASS | HOLD | INDETERMINATE

record BooksPosting =
  posted_record_id :: string
  posting_authority :: string
  effective_time :: int
  posting_source_event_id :: string
  provenance :: Provenance

datatype posting_reason = Match_Is_Not_Posting | No_Posting | Other_Source_Event | Posting_Identified

record PostingAssessment =
  pa_disposition :: Disposition
  pa_reason :: posting_reason

datatype ledger_error =
    Posted_Record_Empty | Posted_Record_Whitespace
  | Not_A_Reserve_Source | Price_Not_Positive | Issue_Empty
  | Account_Empty | Bad_Currency | Not_One_Unit | Security_Needs_Side | Money_Needs_Money_Side
  | Entry_Field_Empty string | Bad_Date_Basis string | Too_Few_Lines
  | Other_Source_Event_Evidence | Unbalanced "string list" "string list"
  | Reversal_Unnamed | Not_A_Reversal | Interest_Not_Synthetic | Reserve_Facts_Mismatch
  | Reversed_Entry_Missing | Break_Owner_Empty

definition mk_BooksPosting ::
  "string \<Rightarrow> string \<Rightarrow> int \<Rightarrow> string \<Rightarrow> Provenance \<Rightarrow> (ledger_error, BooksPosting) result" where
  "mk_BooksPosting rid auth t ev prov =
     require (rid \<noteq> []) Posted_Record_Empty (
     require (\<not> rid \<noteq> py_strip rid) Posted_Record_Whitespace (
     Inr \<lparr>posted_record_id = rid, posting_authority = auth, effective_time = t,
          posting_source_event_id = ev, provenance = prov\<rparr>))"

definition assess_posting :: "BooksPosting option \<Rightarrow> bool \<Rightarrow> string option \<Rightarrow> PostingAssessment" where
  "assess_posting posting matched source_event =
     (case posting of
        None \<Rightarrow>
          if matched then \<lparr>pa_disposition = INDETERMINATE, pa_reason = Match_Is_Not_Posting\<rparr>
          else \<lparr>pa_disposition = INDETERMINATE, pa_reason = No_Posting\<rparr>
      | Some p \<Rightarrow>
          if source_event \<noteq> None \<and> posting_source_event_id p \<noteq> the source_event
          then \<lparr>pa_disposition = HOLD, pa_reason = Other_Source_Event\<rparr>
          else \<lparr>pa_disposition = PASS, pa_reason = Posting_Identified\<rparr>)"

subsection \<open>Journal entries\<close>

datatype AccountType =
    CUSTOMER_CASH | CUSTOMER_MARGIN | FIRM_PROPRIETARY | PAB | FAIL_TO_RECEIVE | STOCK_BORROWED
  | DTC | BANK_CONTROL | FAIL_TO_DELIVER | STOCK_LOANED | IN_TRANSFER | CASH
  | RESERVE_BANK_CUSTOMER | RESERVE_BANK_PAB

datatype RecordSide = OWNERSHIP | LOCATION | MONEY

datatype PostingSource =
    TRADE_CAPTURE | ALLOCATION | CNS_SETTLEMENT | CNS_FAIL | CORPORATE_ACTION | CASH_MOVEMENT
  | STOCK_LOAN | MARGIN_INTEREST | REVERSAL

datatype ReserveActivity = CUSTOMER | PAB_ACTIVITY | FIRM

definition reserve_account :: "AccountType \<Rightarrow> bool" where
  "reserve_account a \<longleftrightarrow> a \<in> {FAIL_TO_RECEIVE, STOCK_BORROWED, FAIL_TO_DELIVER}"

record ReserveSourceFact =
  fact_account_type :: AccountType
  fact_issue :: string
  fact_activity :: ReserveActivity
  fact_settlement_date :: int
  fact_contract_price :: rat

definition mk_ReserveSourceFact ::
  "AccountType \<Rightarrow> string \<Rightarrow> ReserveActivity \<Rightarrow> int \<Rightarrow> rat \<Rightarrow> (ledger_error, ReserveSourceFact) result" where
  "mk_ReserveSourceFact acct iss act sd price =
     require (iss \<noteq> []) Issue_Empty (
     require (price > 0) Price_Not_Positive (
     require (reserve_account acct) Not_A_Reserve_Source (
     Inr \<lparr>fact_account_type = acct, fact_issue = iss, fact_activity = act,
          fact_settlement_date = sd, fact_contract_price = price\<rparr>)))"

record LedgerLine =
  account_id :: string
  account_type :: AccountType
  record_side :: RecordSide
  issue :: "string option"
  quantity :: rat
  currency :: "string option"
  money :: rat

text \<open>The pattern \<open>^[A-Z]{3}$\<close>.\<close>

definition currency_code :: "string \<Rightarrow> bool" where
  "currency_code s \<longleftrightarrow> length s = 3 \<and> list_all (\<lambda>c. 65 \<le> (of_char c :: nat) \<and> (of_char c :: nat) \<le> 90) s"

definition is_security :: "LedgerLine \<Rightarrow> bool" where
  "is_security l \<longleftrightarrow> issue l \<noteq> None \<and> quantity l \<noteq> 0 \<and> currency l = None"

definition is_cash :: "LedgerLine \<Rightarrow> bool" where
  "is_cash l \<longleftrightarrow> currency l \<noteq> None \<and> money l \<noteq> 0 \<and> issue l = None"

definition mk_LedgerLine :: "LedgerLine \<Rightarrow> (ledger_error, LedgerLine) result" where
  "mk_LedgerLine l =
     require (account_id l \<noteq> []) Account_Empty (
     require (case currency l of None \<Rightarrow> True | Some c \<Rightarrow> currency_code c) Bad_Currency (
     require (is_security l \<noteq> is_cash l) Not_One_Unit (
     require (\<not> (is_security l \<and> record_side l = MONEY)) Security_Needs_Side (
     require (\<not> (is_cash l \<and> record_side l \<noteq> MONEY)) Money_Needs_Money_Side (Inr l)))))"

record JournalEntry =
  entry_id :: string
  source_event_id :: string
  source :: PostingSource
  effective_date :: int
  effective_date_basis :: string
  authority :: string
  entry_lines :: "LedgerLine list"
  posting :: BooksPosting
  reserve_source_facts :: "ReserveSourceFact list"
  reverses_entry_id :: "string option"
  synthetic :: bool

text \<open>\<open>totals[key] += amount\<close> on a \<open>defaultdict(Decimal)\<close>.\<close>

definition add_to :: "'k \<Rightarrow> rat \<Rightarrow> ('k \<times> rat) list \<Rightarrow> ('k \<times> rat) list" where
  "add_to k a m = AList.update k (rnd28 ((case map_of m k of None \<Rightarrow> 0 | Some v \<Rightarrow> v) + a)) m"

definition issue_totals :: "LedgerLine list \<Rightarrow> (string \<times> rat) list" where
  "issue_totals ls =
     foldl (\<lambda>m l. case issue l of None \<Rightarrow> m | Some i \<Rightarrow> add_to i (quantity l) m) [] ls"

definition money_totals :: "LedgerLine list \<Rightarrow> (string \<times> rat) list" where
  "money_totals ls =
     foldl (\<lambda>m l. case currency l of None \<Rightarrow> m | Some c \<Rightarrow> add_to c (money l) m) [] ls"

definition unbalanced :: "(string \<times> rat) list \<Rightarrow> string list" where
  "unbalanced totals = sort (map fst (filter (\<lambda>(k, v). v \<noteq> 0) totals))"

definition reserve_lines :: "LedgerLine list \<Rightarrow> (AccountType \<times> string option) set" where
  "reserve_lines ls =
     (\<lambda>l. (account_type l, issue l)) ` set (filter (\<lambda>l. reserve_account (account_type l)) ls)"

definition reserve_facts :: "ReserveSourceFact list \<Rightarrow> (AccountType \<times> string option) set" where
  "reserve_facts fs = (\<lambda>f. (fact_account_type f, Some (fact_issue f))) ` set fs"

definition date_bases :: "string list" where
  "date_bases = [''TRADE_DATE'', ''SETTLEMENT_DATE'', ''PAY_DATE'', ''VALUE_DATE'']"

definition mk_JournalEntry :: "JournalEntry \<Rightarrow> (ledger_error, JournalEntry) result" where
  "mk_JournalEntry e =
     require (entry_id e \<noteq> []) (Entry_Field_Empty ''entry_id'') (
     require (source_event_id e \<noteq> []) (Entry_Field_Empty ''source_event_id'') (
     require (effective_date_basis e \<in> set date_bases) (Bad_Date_Basis (effective_date_basis e)) (
     require (authority e \<noteq> []) (Entry_Field_Empty ''authority'') (
     require (2 \<le> length (entry_lines e)) Too_Few_Lines (
     require (\<not> posting_source_event_id (posting e) \<noteq> source_event_id e) Other_Source_Event_Evidence (
     let issues = unbalanced (issue_totals (entry_lines e));
         currencies = unbalanced (money_totals (entry_lines e)) in
     require (\<not> (issues \<noteq> [] \<or> currencies \<noteq> [])) (Unbalanced issues currencies) (
     require (\<not> (source e = REVERSAL \<and> reverses_entry_id e = None)) Reversal_Unnamed (
     require (\<not> (source e \<noteq> REVERSAL \<and> reverses_entry_id e \<noteq> None)) Not_A_Reversal (
     require (\<not> (source e = MARGIN_INTEREST \<and> \<not> synthetic e)) Interest_Not_Synthetic (
     require (\<not> reserve_lines (entry_lines e) \<noteq> reserve_facts (reserve_source_facts e))
       Reserve_Facts_Mismatch (Inr e)))))))))))"

subsection \<open>The journal\<close>

record DuplicatePosting =
  dup_source_event_id :: string
  dup_original_entry_id :: string
  dup_duplicate_entry_id :: string

record StockRecordBreak =
  break_id :: "string \<times> nat"
  break_issue :: string
  ownership_quantity :: rat
  location_quantity :: rat
  difference :: rat
  break_owner :: string
  break_state :: string

record PostingResult =
  posted :: bool
  result_entry :: JournalEntry
  duplicate :: "DuplicatePosting option"
  reused_with_different_economics :: bool   \<comment> \<open>whether \<open>break_reason\<close> is set\<close>

record EquitiesBooks =
  books_break_owner :: string
  entries :: "JournalEntry list"
  by_source :: "(string \<times> JournalEntry) list"
  stock_breaks :: "StockRecordBreak list"

definition new_books :: "string \<Rightarrow> EquitiesBooks" where
  "new_books owner = \<lparr>books_break_owner = owner, entries = [], by_source = [], stock_breaks = []\<rparr>"

definition post ::
  "(JournalEntry \<Rightarrow> 'b) \<Rightarrow> EquitiesBooks \<Rightarrow> JournalEntry \<Rightarrow>
   (ledger_error, EquitiesBooks \<times> PostingResult) result" where
  "post canon b e =
     (case map_of (by_source b) (source_event_id e) of
        Some original \<Rightarrow>
          Inr (b, \<lparr>posted = False, result_entry = original,
                   duplicate = Some \<lparr>dup_source_event_id = source_event_id e,
                                     dup_original_entry_id = entry_id original,
                                     dup_duplicate_entry_id = entry_id e\<rparr>,
                   reused_with_different_economics = (canon original \<noteq> canon e)\<rparr>)
      | None \<Rightarrow>
          require (\<not> (reverses_entry_id e \<noteq> None \<and>
                      \<not> list_ex (\<lambda>p. Some (entry_id p) = reverses_entry_id e) (entries b)))
            Reversed_Entry_Missing (
          Inr (b\<lparr>entries := entries b @ [e],
                 by_source := by_source b @ [(source_event_id e, e)]\<rparr>,
               \<lparr>posted = True, result_entry = e, duplicate = None,
                reused_with_different_economics = False\<rparr>)))"

definition add_side ::
  "(string \<times> (RecordSide \<times> rat) list) list \<Rightarrow> LedgerLine \<Rightarrow> (string \<times> (RecordSide \<times> rat) list) list" where
  "add_side m l =
     (case issue l of
        None \<Rightarrow> m
      | Some i \<Rightarrow>
          AList.update i
            (add_to (record_side l) (quantity l) (case map_of m i of None \<Rightarrow> [] | Some s \<Rightarrow> s)) m)"

definition quantities :: "EquitiesBooks \<Rightarrow> (string \<times> (RecordSide \<times> rat) list) list" where
  "quantities b = foldl add_side [] (concat (map entry_lines (entries b)))"

definition side_of :: "(RecordSide \<times> rat) list \<Rightarrow> RecordSide \<Rightarrow> rat" where
  "side_of sides s = (case map_of sides s of None \<Rightarrow> 0 | Some v \<Rightarrow> v)"

text \<open>Negation rounds as every Decimal operation does; \<open>defaults to 0\<close> is \<open>dict.get\<close>.\<close>

definition location_of ::
  "(string \<times> rat) list option \<Rightarrow> string \<Rightarrow> (RecordSide \<times> rat) list \<Rightarrow> rat" where
  "location_of observed i sides =
     (case observed of
        Some obs \<Rightarrow> (case map_of obs i of None \<Rightarrow> 0 | Some q \<Rightarrow> q)
      | None \<Rightarrow> rnd28 (- side_of sides LOCATION))"

definition mk_StockRecordBreak :: "StockRecordBreak \<Rightarrow> (ledger_error, StockRecordBreak) result" where
  "mk_StockRecordBreak b = require (break_owner b \<noteq> []) Break_Owner_Empty (Inr b)"

text \<open>
  One turn of the loop: the breaks after it, and the error where the break to open is refused; a stale
  break is already removed then.
\<close>

definition verify_issue ::
  "string \<Rightarrow> (string \<times> rat) list option \<Rightarrow> StockRecordBreak list \<Rightarrow>
   string \<times> (RecordSide \<times> rat) list \<Rightarrow> StockRecordBreak list \<times> ledger_error option" where
  "verify_issue owner observed brs item =
     (case item of (i, sides) \<Rightarrow>
        let ownership = side_of sides OWNERSHIP;
            location = location_of observed i sides;
            diff = rnd28 (ownership - location);
            existing = find (\<lambda>b. break_issue b = i \<and> break_state b = ''OPEN'') brs;
            stale = (diff \<noteq> 0 \<and> existing \<noteq> None \<and> difference (the existing) \<noteq> diff);
            brs' = (if stale then remove1 (the existing) brs else brs)
        in if diff \<noteq> 0 \<and> (existing = None \<or> stale)
           then (case mk_StockRecordBreak
                        \<lparr>break_id = (i, length brs' + 1), break_issue = i,
                         ownership_quantity = ownership, location_quantity = location,
                         difference = diff, break_owner = owner, break_state = ''OPEN''\<rparr> of
                   Inl e \<Rightarrow> (brs', Some e) | Inr new \<Rightarrow> (brs' @ [new], None))
           else (brs', None))"

fun verify_issues ::
  "string \<Rightarrow> (string \<times> rat) list option \<Rightarrow> StockRecordBreak list \<Rightarrow>
   (string \<times> (RecordSide \<times> rat) list) list \<Rightarrow> StockRecordBreak list \<times> ledger_error option" where
  "verify_issues owner observed brs [] = (brs, None)"
| "verify_issues owner observed brs (item # items) =
     (case verify_issue owner observed brs item of
        (brs', Some e) \<Rightarrow> (brs', Some e)
      | (brs', None) \<Rightarrow> verify_issues owner observed brs' items)"

definition verify_stock_record ::
  "EquitiesBooks \<Rightarrow> (string \<times> rat) list option \<Rightarrow>
   EquitiesBooks \<times> (ledger_error, StockRecordBreak list) result" where
  "verify_stock_record b observed =
     (case verify_issues (books_break_owner b) observed (stock_breaks b) (quantities b) of
        (brs, Some e) \<Rightarrow> (b\<lparr>stock_breaks := brs\<rparr>, Inl e)
      | (brs, None) \<Rightarrow> (b\<lparr>stock_breaks := brs\<rparr>, Inr brs))"

definition canonical_replay :: "(JournalEntry list \<Rightarrow> 'b) \<Rightarrow> EquitiesBooks \<Rightarrow> 'b" where
  "canonical_replay canon_all b = canon_all (entries b)"

definition books_digest :: "('b \<Rightarrow> string) \<Rightarrow> (JournalEntry list \<Rightarrow> 'b) \<Rightarrow> EquitiesBooks \<Rightarrow> string" where
  "books_digest digest_bytes canon_all b = digest_bytes (canonical_replay canon_all b)"

end
