(* ===== verification/CP_Reserve.thy ===== *)
theory CP_Reserve
  imports CP_Rules
begin

text \<open>
  \<open>atreides/customer_protection/reserve.py\<close>: the customer and PAB reserve formula. Every step reads
  rules and records findings through the reader, in the code's order. Money is added, subtracted
  and multiplied as Python does, at 28 digits. Days are ordinals; \<open>int(days)\<close> truncates.
\<close>

definition EXHIBIT_A_CREDITS :: "string list" where
  "EXHIBIT_A_CREDITS = map (\<lambda>n. ''15c3-3a.item.0'' @ [n]) ''123456789''"

definition EXHIBIT_A_DEBITS :: "string list" where
  "EXHIBIT_A_DEBITS = map (\<lambda>n. ''15c3-3a.item.1'' @ [n]) ''012345''"

definition ITEM_10 :: string where "ITEM_10 = ''15c3-3a.item.10''"

definition NOTE_E3 :: string where "NOTE_E3 = ''15c3-3a.note_e3.debit_reduction''"
definition PAB_NOTE_4 :: string where "PAB_NOTE_4 = ''15c3-3a.pab_note_4.no_note_e3''"
definition WEEKLY_BASIS :: string where "WEEKLY_BASIS = ''15c3-1.a1iiA.weekly_basis''"
definition WEEKLY_REDUCTION :: string where "WEEKLY_REDUCTION = ''15c3-1.a1iiA.weekly_debit_reduction''"
definition DAILY_REDUCTION :: string where "DAILY_REDUCTION = ''15c3-1.a1iiA.daily_debit_reduction''"
definition PAB_MONTHLY :: string where "PAB_MONTHLY = ''15c3-3.e3iii.pab_monthly''"
definition PAB_MONTHLY_RECOVERY :: string where
  "PAB_MONTHLY_RECOVERY = ''15c3-3.e3iii.clean_weekly_computations''"
definition DAILY_THRESHOLD :: string where "DAILY_THRESHOLD = ''15c3-3.e3iB1.daily_threshold''"
definition DAILY_EXIT_NOTICE :: string where "DAILY_EXIT_NOTICE = ''15c3-3.e3iB2.exit_notice''"
definition VOLUNTARY_NOTICE :: string where "VOLUNTARY_NOTICE = ''15c3-3.e3v.voluntary_daily_notice''"
definition MONTHLY_AI_CEILING :: string where "MONTHLY_AI_CEILING = ''15c3-3.e3iC.monthly_ai_ceiling''"
definition MONTHLY_FUNDS_CEILING :: string where
  "MONTHLY_FUNDS_CEILING = ''15c3-3.e3iC.monthly_customer_funds_ceiling''"
definition MONTHLY_FACTOR :: string where "MONTHLY_FACTOR = ''15c3-3.e3iC.monthly_deposit_factor''"
definition PAB_FROM_CUSTOMER :: string where
  "PAB_FROM_CUSTOMER = ''15c3-3.e4.pab_from_customer_excess_debits''"
definition AFFILIATED_EXCLUDED :: string where "AFFILIATED_EXCLUDED = ''15c3-3.e5.affiliated_bank_excluded''"
definition BANK_EQUITY_CAP :: string where "BANK_EQUITY_CAP = ''15c3-3.e5.bank_equity_cap''"

datatype ReserveAccounts = CUSTOMER | PAB

datatype NetCapitalStandard = AGGREGATE_INDEBTEDNESS | ALTERNATIVE

datatype ComputationMode = WEEKLY | DAILY | MONTHLY

record LineBalance =
  lb_rule_id :: string
  lb_amount :: "rat option"

record BankCashDeposit =
  bank :: string
  bd_amount :: rat
  affiliated :: bool
  bank_equity_capital :: "rat option"

record ReserveInputs =
  accounts_kind :: ReserveAccounts
  as_of :: int
  standard :: NetCapitalStandard
  mode :: ComputationMode
  lines :: "LineBalance list"
  average_total_credits :: "rat option"
  daily_requirement_effective_date :: "int option"
  previously_daily_required :: "bool option"
  daily_exit_notice_date :: "int option"
  voluntary_daily_notice_date :: "int option"
  aggregate_indebtedness :: "rat option"
  ri_net_capital :: "rat option"
  aggregate_customer_funds :: "rat option"
  carries_customer_accounts :: "bool option"
  conducts_proprietary_trading_business :: "bool option"
  pab_last_monthly_required_additional_deposit :: "bool option"
  pab_clean_weekly_computations :: "rat option"
  cash_deposits :: "BankCashDeposit list"
  qualified_securities_deposit :: "rat option"
  customer_excess_debits :: "rat option"
  customer_computation_as_of :: "int option"

text \<open>The sign constraints of the fields (\<open>NonNegativeMoney\<close>).\<close>

definition nonneg_opt :: "rat option \<Rightarrow> bool" where
  "nonneg_opt x = (case x of None \<Rightarrow> True | Some r \<Rightarrow> 0 \<le> r)"

definition reserve_inputs_ok :: "ReserveInputs \<Rightarrow> bool" where
  "reserve_inputs_ok i \<longleftrightarrow>
     (\<forall>l \<in> set (lines i). nonneg_opt (lb_amount l)) \<and>
     (\<forall>d \<in> set (cash_deposits i). 0 \<le> bd_amount d \<and> nonneg_opt (bank_equity_capital d)) \<and>
     nonneg_opt (average_total_credits i) \<and> nonneg_opt (aggregate_indebtedness i) \<and>
     nonneg_opt (aggregate_customer_funds i) \<and> nonneg_opt (pab_clean_weekly_computations i) \<and>
     nonneg_opt (qualified_securities_deposit i) \<and> nonneg_opt (customer_excess_debits i)"

definition sum_opt :: "rat option list \<Rightarrow> rat option" where
  "sum_opt vs = (if list_ex (\<lambda>v. v = None) vs then None else Some (dsum_from 28 0 (map the vs)))"

definition day_count :: "rat \<Rightarrow> int" where
  "day_count x = (if 0 \<le> x then \<lfloor>x\<rfloor> else \<lceil>x\<rceil>)"

subsection \<open>Lines\<close>

text \<open>A dict built from the lines: the last line of an identifier wins.\<close>

definition supplied :: "ReserveInputs \<Rightarrow> string \<Rightarrow> rat option option" where
  "supplied i rid = map_of (rev (map (\<lambda>l. (lb_rule_id l, lb_amount l)) (lines i))) rid"

definition supplied_amount :: "ReserveInputs \<Rightarrow> string \<Rightarrow> rat option" where
  "supplied_amount i rid = (case supplied i rid of None \<Rightarrow> None | Some a \<Rightarrow> a)"

definition modeled_lines :: "string set" where
  "modeled_lines = set EXHIBIT_A_CREDITS \<union> set EXHIBIT_A_DEBITS"

definition balance_line :: "RuleTable \<Rightarrow> ReserveInputs \<Rightarrow> string \<Rightarrow> rat option reading" where
  "balance_line t i rid = do {
     loaded \<leftarrow> read_present t rid;
     on_cond (supplied_amount i rid = None) (missing_input rid);
     State_Monad.return (if loaded then supplied_amount i rid else None) }"

definition reserve_lines :: "RuleTable \<Rightarrow> ReserveInputs \<Rightarrow> (rat option \<times> rat option \<times> rat option) reading" where
  "reserve_lines t i = do {
     each (\<lambda>rid. on_cond (rid \<notin> modeled_lines) (flag (rid @ '' (listed in the loaded Exhibit A, not modeled)'')))
       (map ri_id (rules_of_kind t EXHIBIT_A_CREDIT) @ map ri_id (rules_of_kind t EXHIBIT_A_DEBIT));
     each (\<lambda>rid. on_cond (rid \<notin> modeled_lines) (unrecognise (''line '' @ rid @ '' is not an Exhibit A line'')))
       (rev (remdups (rev (map lb_rule_id (lines i)))));
     cs \<leftarrow> gather (balance_line t i) EXHIBIT_A_CREDITS;
     ds \<leftarrow> gather (balance_line t i) EXHIBIT_A_DEBITS;
     State_Monad.return (sum_opt cs, sum_opt ds, supplied_amount i ITEM_10) }"

subsection \<open>Daily computation\<close>

definition check_daily :: "ReserveInputs \<Rightarrow> bool \<Rightarrow> bool option reading" where
  "check_daily i required = do {
     on_cond (required \<and> mode i \<noteq> DAILY) (breach ''daily computation required'' []);
     State_Monad.return (Some required) }"

definition daily_against :: "RuleTable \<Rightarrow> ReserveInputs \<Rightarrow> rat \<Rightarrow> rat \<Rightarrow> bool option reading" where
  "daily_against t i limit average =
     (if average \<ge> limit then
        (case daily_requirement_effective_date i of
           None \<Rightarrow> do { missing_input ''daily_requirement_effective_date''; State_Monad.return None }
         | Some effective \<Rightarrow> do {
             on_cond (\<not> as_of i \<ge> effective) (reason ''daily phase-in not reached'');
             check_daily i (as_of i \<ge> effective) })
      else
        (case previously_daily_required i of
           None \<Rightarrow> do { missing_input ''previously_daily_required''; State_Monad.return None }
         | Some previously \<Rightarrow>
             (case daily_exit_notice_date i of
                None \<Rightarrow> check_daily i previously
              | Some notice \<Rightarrow>
                  if previously then do {
                    days \<leftarrow> read_value t DAILY_EXIT_NOTICE;
                    (case days of None \<Rightarrow> State_Monad.return None
                     | Some n \<Rightarrow> check_daily i (as_of i < notice + day_count n)) }
                  else check_daily i previously)))"

definition daily_required :: "RuleTable \<Rightarrow> ReserveInputs \<Rightarrow> bool option reading" where
  "daily_required t i = do {
     threshold \<leftarrow> read_value t DAILY_THRESHOLD;
     case average_total_credits i of
       None \<Rightarrow> do { missing_input ''average_total_credits''; State_Monad.return None }
     | Some average \<Rightarrow>
       (case threshold of None \<Rightarrow> State_Monad.return None
        | Some limit \<Rightarrow> daily_against t i limit average) }"

definition voluntary_daily_noticed :: "RuleTable \<Rightarrow> ReserveInputs \<Rightarrow> bool reading" where
  "voluntary_daily_noticed t i = do {
     days \<leftarrow> read_value t VOLUNTARY_NOTICE;
     case days of None \<Rightarrow> State_Monad.return False
     | Some n \<Rightarrow>
       (case voluntary_daily_notice_date i of
          None \<Rightarrow> do { reason ''no voluntary daily notice''; State_Monad.return False }
        | Some notice \<Rightarrow>
            if as_of i < notice + day_count n
            then do { reason ''voluntary daily notice too late''; State_Monad.return False }
            else State_Monad.return True) }"

subsection \<open>The debit reduction and the deposit factor\<close>

definition reduction_of :: "RuleTable \<Rightarrow> string \<Rightarrow> rat option \<Rightarrow> (rat option \<times> rat option) reading" where
  "reduction_of t rid base = do {
     rate \<leftarrow> read_value t rid;
     State_Monad.return (rate, case (rate, base) of (Some r, Some b) \<Rightarrow> Some (rnd28 (r * b)) | _ \<Rightarrow> None) }"

definition no_pab_reduction :: "RuleTable \<Rightarrow> (rat option \<times> rat option) reading" where
  "no_pab_reduction t = do {
     loaded \<leftarrow> read_present t PAB_NOTE_4;
     State_Monad.return (if loaded then (Some 0, Some 0) else (None, None)) }"

definition debit_reduction ::
  "RuleTable \<Rightarrow> ReserveInputs \<Rightarrow> rat option \<Rightarrow> rat option \<Rightarrow> bool option \<Rightarrow> (rat option \<times> rat option) reading" where
  "debit_reduction t i debits item_10 required =
     (if standard i = AGGREGATE_INDEBTEDNESS then
        if accounts_kind i \<noteq> CUSTOMER then no_pab_reduction t else reduction_of t NOTE_E3 item_10
      else if accounts_kind i \<noteq> CUSTOMER then no_pab_reduction t
      else do {
        on_cond (mode i = MONTHLY) (do {
          basis \<leftarrow> read_present t WEEKLY_BASIS;
          on_cond basis (breach ''alternative standard computes at least weekly'' []) });
        daily \<leftarrow> (if mode i = DAILY then
                   if required = Some True then State_Monad.return True else voluntary_daily_noticed t i
                 else State_Monad.return False);
        reduction_of t (if daily then DAILY_REDUCTION else WEEKLY_REDUCTION) debits })"

definition pab_monthly :: "RuleTable \<Rightarrow> ReserveInputs \<Rightarrow> rat option reading" where
  "pab_monthly t i = do {
     loaded \<leftarrow> read_present t PAB_MONTHLY;
     if \<not> loaded then State_Monad.return None
     else do {
       each (\<lambda>(name, value). on_cond (value = None) (missing_input name))
         [(''carries_customer_accounts'', carries_customer_accounts i),
          (''conducts_proprietary_trading_business'', conducts_proprietary_trading_business i),
          (''pab_last_monthly_required_additional_deposit'', pab_last_monthly_required_additional_deposit i)];
       on_cond (carries_customer_accounts i = Some True \<or> conducts_proprietary_trading_business i = Some True)
         (breach ''monthly PAB not available'' []);
       on_cond (pab_last_monthly_required_additional_deposit i = Some True) (do {
         needed \<leftarrow> read_value t PAB_MONTHLY_RECOVERY;
         (case pab_clean_weekly_computations i of
            None \<Rightarrow> missing_input ''pab_clean_weekly_computations''
          | Some clean \<Rightarrow>
              on_cond (case needed of None \<Rightarrow> False | Some n \<Rightarrow> clean < n)
                (breach ''monthly PAB recovery not complete'' [])) });
       State_Monad.return (Some 1) } }"

definition over_ceilings :: "ReserveInputs \<Rightarrow> rat option \<Rightarrow> rat option \<Rightarrow> bool" where
  "over_ceilings i ai_ceiling funds_ceiling =
     (case (ai_ceiling, funds_ceiling, aggregate_indebtedness i, ri_net_capital i, aggregate_customer_funds i) of
        (Some c, Some f, Some ai, Some nc, Some funds) \<Rightarrow> ai > rnd28 (c * nc) \<or> funds > f
      | _ \<Rightarrow> False)"

definition deposit_factor :: "RuleTable \<Rightarrow> ReserveInputs \<Rightarrow> rat option reading" where
  "deposit_factor t i =
     (if mode i \<noteq> MONTHLY then State_Monad.return (Some 1)
      else if accounts_kind i = PAB then pab_monthly t i
      else do {
        ai_ceiling \<leftarrow> read_value t MONTHLY_AI_CEILING;
        funds_ceiling \<leftarrow> read_value t MONTHLY_FUNDS_CEILING;
        factor \<leftarrow> read_value t MONTHLY_FACTOR;
        each (\<lambda>(name, value). on_cond (value = None) (missing_input name))
          [(''aggregate_indebtedness'', aggregate_indebtedness i), (''net_capital'', ri_net_capital i),
           (''aggregate_customer_funds'', aggregate_customer_funds i)];
        on_cond (over_ceilings i ai_ceiling funds_ceiling) (breach ''monthly computation not available'' []);
        State_Monad.return factor })"

subsection \<open>Deposits\<close>

definition deposit_counted ::
  "rat option \<Rightarrow> bool \<Rightarrow> BankCashDeposit \<Rightarrow> rat option reading" where
  "deposit_counted cap affiliated_rule d =
     (if affiliated d then State_Monad.return (if affiliated_rule then Some 0 else None)
      else case bank_equity_capital d of
        None \<Rightarrow> do { missing_input (''bank_equity_capital['' @ bank d @ '']''); State_Monad.return None }
      | Some equity \<Rightarrow>
          State_Monad.return (case cap of None \<Rightarrow> None | Some c \<Rightarrow> Some (min (bd_amount d) (rnd28 (c * equity)))))"

definition deposits :: "RuleTable \<Rightarrow> ReserveInputs \<Rightarrow> (rat option \<times> rat option) reading" where
  "deposits t i = do {
     cap \<leftarrow> (if cash_deposits i \<noteq> [] then read_value t BANK_EQUITY_CAP else State_Monad.return (Some 0));
     affiliated_rule \<leftarrow> (if list_ex affiliated (cash_deposits i) then read_present t AFFILIATED_EXCLUDED
                        else State_Monad.return True);
     counted \<leftarrow> gather (deposit_counted cap affiliated_rule) (cash_deposits i);
     on_cond (qualified_securities_deposit i = None) (missing_input ''qualified_securities_deposit'');
     State_Monad.return
       (case (sum_opt counted, qualified_securities_deposit i) of
          (Some cash, Some q) \<Rightarrow>
            (Some (rnd28 (cash + q)),
             Some (rnd28 (dsum_from 28 0 (map bd_amount (cash_deposits i)) - cash)))
        | _ \<Rightarrow> (None, None)) }"

definition customer_excess_applied :: "RuleTable \<Rightarrow> ReserveInputs \<Rightarrow> rat option \<Rightarrow> rat option reading" where
  "customer_excess_applied t i requirement =
     (if accounts_kind i = CUSTOMER \<or> customer_excess_debits i = None then State_Monad.return (Some 0)
      else if customer_computation_as_of i \<noteq> Some (as_of i)
      then do { reason ''customer excess debits from another date''; State_Monad.return (Some 0) }
      else do {
        loaded \<leftarrow> read_present t PAB_FROM_CUSTOMER;
        State_Monad.return
          (case (loaded, requirement, customer_excess_debits i) of
             (True, Some r, Some e) \<Rightarrow> Some (min r e) | _ \<Rightarrow> None) })"

subsection \<open>The computation\<close>

definition minus_opt :: "rat option \<Rightarrow> rat option \<Rightarrow> rat option" where
  "minus_opt x y = (case (x, y) of (Some a, Some b) \<Rightarrow> Some (rnd28 (a - b)) | _ \<Rightarrow> None)"

definition requirement_of :: "rat option \<Rightarrow> rat option \<Rightarrow> rat option" where
  "requirement_of excess factor =
     (case (excess, factor) of (Some e, Some f) \<Rightarrow> Some (rnd28 (max e 0 * f)) | _ \<Rightarrow> None)"

definition shortfall_of :: "rat option \<Rightarrow> rat option \<Rightarrow> rat option" where
  "shortfall_of after eligible = map_option (\<lambda>x. max x 0) (minus_opt after eligible)"

record ReserveResult =
  res_accounts :: ReserveAccounts
  res_as_of :: int
  res_disposition :: Disposition
  total_credits :: "rat option"
  total_debits :: "rat option"
  debit_reduction_rate :: "rat option"
  res_debit_reduction :: "rat option"
  net_debits :: "rat option"
  excess_of_credits :: "rat option"
  res_deposit_factor :: "rat option"
  requirement :: "rat option"
  excess_debits :: "rat option"
  customer_excess_debits_applied :: "rat option"
  requirement_after :: "rat option"
  eligible_deposit :: "rat option"
  excluded_deposit :: "rat option"
  shortfall :: "rat option"
  res_daily_required :: "bool option"
  res_missing_rules :: "string list"
  res_missing_inputs :: "string list"
  res_unrecognised :: "string list"
  res_breaches :: "(string \<times> string) list"
  res_reasons :: "string list"
  res_rules_used :: "RuleRef list"

definition reserve_run :: "RuleTable \<Rightarrow> ReserveInputs \<Rightarrow> (worklog \<Rightarrow> ReserveResult) reading" where
  "reserve_run t i = do {
     (credits, debits, item_10) \<leftarrow> reserve_lines t i;
     required \<leftarrow> daily_required t i;
     (rate, reduction) \<leftarrow> debit_reduction t i debits item_10 required;
     factor \<leftarrow> deposit_factor t i;
     let net = minus_opt debits reduction;
     let excess = minus_opt credits net;
     let req = requirement_of excess factor;
     applied \<leftarrow> customer_excess_applied t i req;
     let after = minus_opt req applied;
     (eligible, excluded) \<leftarrow> deposits t i;
     let short = shortfall_of after eligible;
     on_cond (case short of None \<Rightarrow> False | Some s \<Rightarrow> s > 0) (breach ''reserve deposit short'' []);
     State_Monad.return (\<lambda>w.
       \<lparr>res_accounts = accounts_kind i, res_as_of = as_of i,
        res_disposition = decide (missing_rules w @ unrecognised w) (missing_inputs w) (breaches w),
        total_credits = credits, total_debits = debits, debit_reduction_rate = rate,
        res_debit_reduction = reduction, net_debits = net, excess_of_credits = excess,
        res_deposit_factor = factor, requirement = req,
        excess_debits = map_option (\<lambda>e. max (- e) 0) excess,
        customer_excess_debits_applied = applied, requirement_after = after,
        eligible_deposit = eligible, excluded_deposit = excluded, shortfall = short,
        res_daily_required = required, res_missing_rules = missing_rules w,
        res_missing_inputs = sorted_set (missing_inputs w), res_unrecognised = unrecognised w,
        res_breaches = breaches w, res_reasons = reasons w, res_rules_used = rules_used w\<rparr>) }"

definition compute_reserve :: "ReserveInputs \<Rightarrow> RuleTable \<Rightarrow> ReserveResult" where
  "compute_reserve i t = (case run_state (reserve_run t i) empty_log of (finish, w) \<Rightarrow> finish w)"

definition with_customer_excess_debits :: "ReserveInputs \<Rightarrow> ReserveResult \<Rightarrow> ReserveInputs" where
  "with_customer_excess_debits pab customer =
     pab\<lparr>customer_excess_debits := excess_debits customer,
         customer_computation_as_of := Some (res_as_of customer)\<rparr>"

end
