(* ===== verification/CP_Net_Capital.thy ===== *)
theory CP_Net_Capital
  imports CP_Rules CP_Reserve
begin

text \<open>
  The net capital engine, \<open>customer_protection/net_capital.py\<close>: tentative net capital, the haircuts
  of government and equity positions, the ratio and activity minima, and the early-warning
  indicators of Rule 17a-11. Every figure is a Decimal of the default 28-digit context. Findings
  are recorded through the rule reader of \<open>CP_Rules\<close>; breaches keep a code and a subject. The
  division by a multiple of zero raises.
\<close>

definition AI_CEILING :: string where "AI_CEILING = ''15c3-1.a1i.ai_ceiling''"
definition AI_CEILING_FIRST_YEAR :: string where "AI_CEILING_FIRST_YEAR = ''15c3-1.a1i.ai_ceiling_first_year''"
definition FIRST_YEAR_MONTHS :: string where "FIRST_YEAR_MONTHS = ''15c3-1.a1i.first_year_months''"
definition ALT_FLOOR :: string where "ALT_FLOOR = ''15c3-1.a1ii.alternative_floor''"
definition ALT_PERCENT :: string where "ALT_PERCENT = ''15c3-1.a1ii.alternative_debit_percent''"
definition GOV_OFFSET :: string where "GOV_OFFSET = ''15c3-1.c2viA1.offset_percent''"
definition EQUITY_RATE :: string where "EQUITY_RATE = ''15c3-1.c2viJ.rate''"
definition EQUITY_LESSER_THRESHOLD :: string where "EQUITY_LESSER_THRESHOLD = ''15c3-1.c2viJ.lesser_threshold''"
definition EQUITY_EXCESS_RATE :: string where "EQUITY_EXCESS_RATE = ''15c3-1.c2viJ.excess_rate''"
definition WARN_AI :: string where "WARN_AI = ''17a-11.b1.ai_warning''"
definition WARN_ALT :: string where "WARN_ALT = ''17a-11.b2.alternative_warning''"
definition WARN_MINIMUM :: string where "WARN_MINIMUM = ''17a-11.b3.minimum_warning''"
definition WARN_LEVERAGE :: string where "WARN_LEVERAGE = ''17a-11.b5.leverage_warning''"

definition GOVERNMENT_BANDS :: "(string \<times> string list) list" where
  "GOVERNMENT_BANDS =
     [(''cat1'', [''i'', ''ii'', ''iii'', ''iv'']), (''cat2'', [''i'', ''ii'']), (''cat3'', [''i'', ''ii'']),
      (''cat4'', [''i'', ''ii'', ''iii'', ''iv''])]"

definition LAST_BAND :: "string \<times> string" where
  "LAST_BAND = (''cat4'', ''iv'')"

datatype BrokerDealerCategory =
    CARRYING | K2I_EXEMPT | DEALER | INTRODUCING | INVESTMENT_COMPANY_SHARES | OTHER

fun minimum_rule :: "BrokerDealerCategory \<Rightarrow> string" where
  "minimum_rule CARRYING = ''15c3-1.a2i.minimum.carrying''"
| "minimum_rule K2I_EXEMPT = ''15c3-1.a2ii.minimum.k2i_exempt''"
| "minimum_rule DEALER = ''15c3-1.a2iii.minimum.dealer''"
| "minimum_rule INTRODUCING = ''15c3-1.a2iv.minimum.introducing''"
| "minimum_rule INVESTMENT_COMPANY_SHARES = ''15c3-1.a2v.minimum.investment_company_shares''"
| "minimum_rule OTHER = ''15c3-1.a2vi.minimum.other''"

datatype AssetClass = GOVERNMENT | EQUITY

fun asset_value :: "AssetClass \<Rightarrow> string" where
  "asset_value GOVERNMENT = ''government''"
| "asset_value EQUITY = ''equity''"

datatype GovernmentElection = CATEGORY | SUBCATEGORY

record CapitalAdjustment =
  adj_description :: string
  adj_paragraph :: string
  adj_amount :: "rat option"

record Position =
  pos_issue :: string
  asset_class :: string
  pos_long :: rat
  pos_short :: rat
  months_to_maturity :: "rat option"

record NetCapitalInputs =
  nc_as_of :: int
  nc_standard :: NetCapitalStandard
  category :: BrokerDealerCategory
  net_worth :: "rat option"
  additions :: "CapitalAdjustment list"
  deductions :: "CapitalAdjustment list"
  nc_positions :: "Position list"
  government_election :: GovernmentElection
  elects_a3_cross_category_exclusion :: "bool option"
  elects_a4_futures_deliverable_inclusion :: "bool option"
  qualifies_a5_government_dealer_reduction :: "bool option"
  nc_aggregate_indebtedness :: "rat option"
  months_in_business :: "rat option"
  aggregate_debit_items :: "rat option"
  reports_lending_activity_monthly :: "bool option"
  securities_loaned_and_repo_payable :: "rat option"
  securities_borrowed_and_reverse_repo_value :: "rat option"

text \<open>The field constraints of the inputs (\<open>NonNegativeMoney\<close> and the non-empty texts).\<close>

definition net_capital_inputs_ok :: "NetCapitalInputs \<Rightarrow> bool" where
  "net_capital_inputs_ok i \<longleftrightarrow>
     (\<forall>a \<in> set (additions i @ deductions i). adj_description a \<noteq> [] \<and> adj_paragraph a \<noteq> [] \<and> nonneg_opt (adj_amount a)) \<and>
     (\<forall>p \<in> set (nc_positions i). pos_issue p \<noteq> [] \<and> 0 \<le> pos_long p \<and> 0 \<le> pos_short p \<and>
        nonneg_opt (months_to_maturity p)) \<and>
     nonneg_opt (nc_aggregate_indebtedness i) \<and> nonneg_opt (months_in_business i) \<and>
     nonneg_opt (aggregate_debit_items i) \<and> nonneg_opt (securities_loaned_and_repo_payable i) \<and>
     nonneg_opt (securities_borrowed_and_reverse_repo_value i)"

record HaircutLine =
  hl_asset_class :: AssetClass
  hl_description :: string
  hl_amount :: rat
  hl_paragraph :: string

record EarlyWarning =
  ew_rule_id :: string
  ew_paragraph :: string
  triggered :: "bool option"
  threshold :: "rat option"
  measure :: "rat option"
  cushion :: "rat option"
  ew_note :: string

subsection \<open>Totals\<close>

definition total_of :: "string \<Rightarrow> CapitalAdjustment list \<Rightarrow> rat option reading" where
  "total_of name adjustments = do {
     each (\<lambda>a. on_cond (adj_amount a = None) (missing_input (name @ ''['' @ adj_description a @ '']''))) adjustments;
     State_Monad.return (sum_opt (map adj_amount adjustments)) }"

subsection \<open>Government haircuts\<close>

record band =
  band_category :: string
  band_sub :: string
  band_rate :: "rat option"
  band_upper :: "rat option"

definition band_keys :: "(string \<times> string) list" where
  "band_keys = concat (map (\<lambda>(c, subs). map (Pair c) subs) GOVERNMENT_BANDS)"

definition read_band :: "RuleTable \<Rightarrow> string \<times> string \<Rightarrow> band reading" where
  "read_band t k = do {
     let stem = ''15c3-1.c2viA1.'' @ fst k @ ''.'' @ snd k;
     upper \<leftarrow> (if k = LAST_BAND then State_Monad.return None else read_value t (stem @ ''.upper_months''));
     rate \<leftarrow> read_value t (stem @ ''.rate'');
     State_Monad.return \<lparr>band_category = fst k, band_sub = snd k, band_rate = rate, band_upper = upper\<rparr> }"

definition government_bands :: "RuleTable \<Rightarrow> band list reading" where
  "government_bands t = gather (read_band t) band_keys"

definition provisions :: "NetCapitalInputs \<Rightarrow> (bool option \<times> string) list" where
  "provisions i =
     [(elects_a3_cross_category_exclusion i, ''elects_a3_cross_category_exclusion''),
      (elects_a4_futures_deliverable_inclusion i, ''elects_a4_futures_deliverable_inclusion''),
      (qualifies_a5_government_dealer_reduction i, ''qualifies_a5_government_dealer_reduction'')]"

definition government_provisions_ruled_out :: "NetCapitalInputs \<Rightarrow> bool reading" where
  "government_provisions_ruled_out i = do {
     each (\<lambda>(stated, name).
         case stated of None \<Rightarrow> missing_input name
         | Some applies \<Rightarrow> on_cond applies (flag (name @ '' applies and is not modeled''))) (provisions i);
     State_Monad.return (\<forall>p \<in> set (provisions i). fst p = Some False) }"

definition band_of :: "band list \<Rightarrow> rat \<Rightarrow> string \<times> string" where
  "band_of bands months =
     (case find (\<lambda>b. case band_upper b of None \<Rightarrow> False | Some u \<Rightarrow> months < u) (butlast bands) of
        Some b \<Rightarrow> (band_category b, band_sub b)
      | None \<Rightarrow> (band_category (last bands), band_sub (last bands)))"

text \<open>\<open>net[key] = net.get(key, 0) + long - short\<close>, position by position.\<close>

definition net_of :: "band list \<Rightarrow> Position list \<Rightarrow> string \<times> string \<Rightarrow> rat" where
  "net_of bands ps k =
     foldl (\<lambda>n p. rnd28 (rnd28 (n + pos_long p) - pos_short p)) 0
       (filter (\<lambda>p. band_of bands (the (months_to_maturity p)) = k) ps)"

definition rate_of :: "band list \<Rightarrow> string \<times> string \<Rightarrow> rat" where
  "rate_of bands k = (case find (\<lambda>b. (band_category b, band_sub b) = k) bands of
     Some b \<Rightarrow> the (band_rate b) | None \<Rightarrow> 0)"

definition side_deductions :: "band list \<Rightarrow> Position list \<Rightarrow> string \<Rightarrow> string list \<Rightarrow> rat \<times> rat" where
  "side_deductions bands ps c subs =
     foldl (\<lambda>(l, s) sub.
         let amount = net_of bands ps (c, sub); rate = rate_of bands (c, sub) in
         if amount \<ge> 0 then (rnd28 (l + rnd28 (amount * rate)), s)
         else (l, rnd28 (s + rnd28 (rnd28 (- amount) * rate)))) (0, 0) subs"

definition category_deduction :: "GovernmentElection \<Rightarrow> rat \<Rightarrow> rat \<Rightarrow> rat \<Rightarrow> rat" where
  "category_deduction election offset l s =
     (if election = CATEGORY then rnd28 (\<bar>rnd28 (l - s)\<bar> + rnd28 (offset * min l s)) else rnd28 (l + s))"

definition category_lines ::
  "GovernmentElection \<Rightarrow> rat \<Rightarrow> band list \<Rightarrow> Position list \<Rightarrow> string \<times> string list \<Rightarrow> HaircutLine list" where
  "category_lines election offset bands ps cs =
     (case side_deductions bands ps (fst cs) (snd cs) of (l, s) \<Rightarrow>
        if l = 0 \<and> s = 0 then []
        else [\<lparr>hl_asset_class = GOVERNMENT, hl_description = ''government '' @ fst cs,
               hl_amount = category_deduction election offset l s,
               hl_paragraph = (if election = CATEGORY then ''(c)(2)(vi)(A)(1)'' else ''(c)(2)(vi)(A)(2)'')\<rparr>])"

definition government_haircut ::
  "RuleTable \<Rightarrow> GovernmentElection \<Rightarrow> Position list \<Rightarrow> HaircutLine list option reading" where
  "government_haircut t election ps = do {
     bands \<leftarrow> government_bands t;
     offset \<leftarrow> (if election = CATEGORY then read_value t GOV_OFFSET else State_Monad.return (Some 0));
     (case offset of None \<Rightarrow> State_Monad.return None
      | Some off \<Rightarrow>
          if list_ex (\<lambda>b. band_rate b = None) bands \<or> list_ex (\<lambda>b. band_upper b = None) (butlast bands)
          then State_Monad.return None
          else do {
            each (\<lambda>p. on_cond (months_to_maturity p = None)
                   (missing_input (''months_to_maturity['' @ pos_issue p @ '']''))) ps;
            State_Monad.return
              (if list_ex (\<lambda>p. months_to_maturity p = None) ps then None
               else Some (concat (map (category_lines election off bands ps) GOVERNMENT_BANDS))) }) }"

subsection \<open>Equity haircuts\<close>

definition equity_line :: "rat \<Rightarrow> rat \<Rightarrow> rat \<Rightarrow> Position \<Rightarrow> HaircutLine" where
  "equity_line rate limit excess_rate p =
     (let greater = max (pos_long p) (pos_short p); lesser = min (pos_long p) (pos_short p);
          excess = max (rnd28 (lesser - rnd28 (limit * greater))) 0 in
      \<lparr>hl_asset_class = EQUITY, hl_description = pos_issue p,
       hl_amount = rnd28 (rnd28 (rate * greater) + rnd28 (excess_rate * excess)),
       hl_paragraph = ''(c)(2)(vi)(J)''\<rparr>)"

definition equity_haircut :: "RuleTable \<Rightarrow> Position list \<Rightarrow> HaircutLine list option reading" where
  "equity_haircut t ps = do {
     rate \<leftarrow> read_value t EQUITY_RATE;
     limit \<leftarrow> read_value t EQUITY_LESSER_THRESHOLD;
     excess \<leftarrow> read_value t EQUITY_EXCESS_RATE;
     State_Monad.return
       (case (rate, limit, excess) of (Some r, Some l, Some e) \<Rightarrow> Some (map (equity_line r l e) ps)
        | _ \<Rightarrow> None) }"

subsection \<open>All haircuts\<close>

definition unknown_classes :: "Position list \<Rightarrow> string list" where
  "unknown_classes ps =
     sorted_set (filter (\<lambda>c. c \<notin> {asset_value GOVERNMENT, asset_value EQUITY}) (map asset_class ps))"

definition of_class :: "AssetClass \<Rightarrow> Position list \<Rightarrow> Position list" where
  "of_class c ps = filter (\<lambda>p. asset_class p = asset_value c) ps"

definition government_lines :: "RuleTable \<Rightarrow> NetCapitalInputs \<Rightarrow> HaircutLine list option reading" where
  "government_lines t i =
     (let ps = of_class GOVERNMENT (nc_positions i) in
      if ps = [] then State_Monad.return (Some [])
      else do {
        ruled_out \<leftarrow> government_provisions_ruled_out i;
        ls \<leftarrow> government_haircut t (government_election i) ps;
        State_Monad.return (if ruled_out then ls else None) })"

definition equity_lines :: "RuleTable \<Rightarrow> NetCapitalInputs \<Rightarrow> HaircutLine list option reading" where
  "equity_lines t i =
     (let ps = of_class EQUITY (nc_positions i) in
      if ps = [] then State_Monad.return (Some []) else equity_haircut t ps)"

definition haircuts_of ::
  "RuleTable \<Rightarrow> NetCapitalInputs \<Rightarrow> (rat option \<times> HaircutLine list) reading" where
  "haircuts_of t i = do {
     each (\<lambda>c. flag (''no haircut is loaded for asset class '' @ c)) (unknown_classes (nc_positions i));
     gov \<leftarrow> government_lines t i;
     eq \<leftarrow> equity_lines t i;
     State_Monad.return
       (case (gov, eq) of
          (Some g, Some e) \<Rightarrow>
            (if unknown_classes (nc_positions i) = [] then Some (dsum_from 28 0 (map hl_amount (g @ e))) else None, g @ e)
        | _ \<Rightarrow> (None, (case gov of None \<Rightarrow> [] | Some g \<Rightarrow> g) @ (case eq of None \<Rightarrow> [] | Some e \<Rightarrow> e))) }"

subsection \<open>The ratio requirement\<close>

text \<open>What dividing by a multiple of zero raises in the default context.\<close>

datatype division_error = Division_By_Zero | Division_Undefined

type_synonym ratio = "rat option \<times> bool option \<times> rat option"

definition divided :: "rat \<Rightarrow> rat \<Rightarrow> division_error + ratio" where
  "divided ai multiple =
     (if multiple = 0 then Inl (if ai = 0 then Division_Undefined else Division_By_Zero)
      else Inr (Some (rnd28 (ai / multiple)), Some (rnd28 (ai / multiple) = ai / multiple), Some multiple))"

definition alternative_requirement :: "RuleTable \<Rightarrow> NetCapitalInputs \<Rightarrow> ratio reading" where
  "alternative_requirement t i = do {
     lo \<leftarrow> read_value t ALT_FLOOR;
     percent \<leftarrow> read_value t ALT_PERCENT;
     (case aggregate_debit_items i of
        None \<Rightarrow> do { missing_input ''aggregate_debit_items''; State_Monad.return (None, None, None) }
      | Some debits \<Rightarrow> State_Monad.return
          (case (lo, percent) of
             (Some f, Some p) \<Rightarrow> (Some (max f (rnd28 (p * debits))), Some True, None)
           | _ \<Rightarrow> (None, None, None))) }"

definition indebtedness_requirement :: "RuleTable \<Rightarrow> NetCapitalInputs \<Rightarrow> (division_error + ratio) reading" where
  "indebtedness_requirement t i = do {
     on_cond (nc_aggregate_indebtedness i = None) (missing_input ''aggregate_indebtedness'');
     on_cond (months_in_business i = None) (missing_input ''months_in_business'');
     first \<leftarrow> read_value t FIRST_YEAR_MONTHS;
     (case (months_in_business i, first) of
        (Some months, Some f) \<Rightarrow> do {
          multiple \<leftarrow> read_value t (if months < f then AI_CEILING_FIRST_YEAR else AI_CEILING);
          State_Monad.return
            (case (multiple, nc_aggregate_indebtedness i) of
               (Some m, Some ai) \<Rightarrow> divided ai m
             | _ \<Rightarrow> Inr (None, None, multiple)) }
      | _ \<Rightarrow> State_Monad.return (Inr (None, None, None))) }"

definition ratio_requirement :: "RuleTable \<Rightarrow> NetCapitalInputs \<Rightarrow> (division_error + ratio) reading" where
  "ratio_requirement t i =
     (if nc_standard i = ALTERNATIVE
      then do { r \<leftarrow> alternative_requirement t i; State_Monad.return (Inr r) }
      else indebtedness_requirement t i)"

subsection \<open>Early warnings\<close>

definition warning ::
  "string \<Rightarrow> string \<Rightarrow> rat option \<Rightarrow> rat option \<Rightarrow> bool \<Rightarrow> string \<Rightarrow> EarlyWarning" where
  "warning rid paragraph limit fig is_floor ewnote =
     (case (limit, fig) of
        (Some x, Some m) \<Rightarrow>
          \<lparr>ew_rule_id = rid, ew_paragraph = paragraph,
           triggered = Some (if is_floor then m < x else m > x), threshold = limit, measure = fig,
           cushion = Some (if is_floor then rnd28 (m - x) else rnd28 (x - m)), ew_note = ewnote\<rparr>
      | _ \<Rightarrow>
          \<lparr>ew_rule_id = rid, ew_paragraph = paragraph, triggered = None, threshold = limit, measure = fig,
           cushion = None, ew_note = ewnote\<rparr>)"

definition times_opt :: "rat option \<Rightarrow> rat option \<Rightarrow> rat option" where
  "times_opt a b = (case (a, b) of (Some x, Some y) \<Rightarrow> Some (rnd28 (x * y)) | _ \<Rightarrow> None)"

definition leverage_measures :: "NetCapitalInputs \<Rightarrow> (string \<times> rat option) list" where
  "leverage_measures i =
     [(''securities_loaned_and_repo_payable'', securities_loaned_and_repo_payable i),
      (''securities_borrowed_and_reverse_repo_value'', securities_borrowed_and_reverse_repo_value i)]"

definition leverage_warning :: "rat option \<Rightarrow> string \<times> rat option \<Rightarrow> EarlyWarning reading" where
  "leverage_warning limit m = do {
     on_cond (snd m = None) (missing_input (fst m));
     State_Monad.return (warning WARN_LEVERAGE ''17a-11(b)(5)'' limit (snd m) False
       (fst m @ '' against the loaded multiple of tentative net capital'')) }"

definition leverage_warnings ::
  "RuleTable \<Rightarrow> NetCapitalInputs \<Rightarrow> rat option \<Rightarrow> EarlyWarning list reading" where
  "leverage_warnings t i tentative =
     (if reports_lending_activity_monthly i = Some True
      then do { reason ''Rule 17a-11(b)(5) not assessed: the firm reports this activity monthly''; State_Monad.return [] }
      else do {
        on_cond (reports_lending_activity_monthly i = None) (missing_input ''reports_lending_activity_monthly'');
        multiple \<leftarrow> read_value t WARN_LEVERAGE;
        gather (leverage_warning (times_opt multiple tentative)) (leverage_measures i) })"

definition standard_warning ::
  "RuleTable \<Rightarrow> NetCapitalInputs \<Rightarrow> rat option \<Rightarrow> EarlyWarning reading" where
  "standard_warning t i net =
     (if nc_standard i = AGGREGATE_INDEBTEDNESS
      then do {
        multiple \<leftarrow> read_value t WARN_AI;
        State_Monad.return (warning WARN_AI ''17a-11(b)(1)'' (times_opt multiple net) (nc_aggregate_indebtedness i)
          False ''aggregate indebtedness against the loaded multiple of net capital'') }
      else do {
        percent \<leftarrow> read_value t WARN_ALT;
        State_Monad.return (warning WARN_ALT ''17a-11(b)(2)'' (times_opt percent (aggregate_debit_items i)) net
          True ''net capital against the loaded percentage of aggregate debit items'') })"

definition early_warnings_of ::
  "RuleTable \<Rightarrow> NetCapitalInputs \<Rightarrow> rat option \<Rightarrow> rat option \<Rightarrow> rat option \<Rightarrow> EarlyWarning list reading" where
  "early_warnings_of t i net tentative minimum = do {
     first \<leftarrow> standard_warning t i net;
     multiple \<leftarrow> read_value t WARN_MINIMUM;
     leverage \<leftarrow> leverage_warnings t i tentative;
     State_Monad.return
       (first # warning WARN_MINIMUM ''17a-11(b)(3)'' (times_opt multiple minimum) net True
          ''net capital against the loaded multiple of the minimum requirement'' # leverage) }"

subsection \<open>The computation\<close>

definition plus_opt :: "rat option \<Rightarrow> rat option \<Rightarrow> rat option" where
  "plus_opt a b = (case (a, b) of (Some x, Some y) \<Rightarrow> Some (rnd28 (x + y)) | _ \<Rightarrow> None)"

definition max_opt :: "rat option \<Rightarrow> rat option \<Rightarrow> rat option" where
  "max_opt a b = (case (a, b) of (Some x, Some y) \<Rightarrow> Some (max x y) | _ \<Rightarrow> None)"

definition below :: "rat option \<Rightarrow> rat option \<Rightarrow> bool" where
  "below a b = (case (a, b) of (Some x, Some y) \<Rightarrow> x < y | _ \<Rightarrow> False)"

record NetCapitalResult =
  ncr_as_of :: int
  ncr_standard :: NetCapitalStandard
  ncr_disposition :: Disposition
  ncr_net_worth :: "rat option"
  total_additions :: "rat option"
  total_deductions :: "rat option"
  tentative_net_capital :: "rat option"
  haircuts :: "rat option"
  haircut_lines :: "HaircutLine list"
  net_capital :: "rat option"
  ncr_ratio_requirement :: "rat option"
  ratio_requirement_exact :: "bool option"
  activity_minimum :: "rat option"
  minimum_requirement :: "rat option"
  excess_net_capital :: "rat option"
  early_warnings :: "EarlyWarning list"
  ncr_missing_rules :: "string list"
  ncr_missing_inputs :: "string list"
  ncr_unrecognised :: "string list"
  ncr_breaches :: "(string \<times> string) list"
  ncr_reasons :: "string list"
  ncr_rules_used :: "RuleRef list"

text \<open>The breaches the figures themselves give, before the warnings.\<close>

definition capital_breaches ::
  "NetCapitalInputs \<Rightarrow> rat option \<Rightarrow> rat option \<Rightarrow> rat option \<Rightarrow> rat option \<Rightarrow> unit reading" where
  "capital_breaches i net activity ratio multiple = do {
     on_cond (below net activity) (breach ''net capital is below the activity minimum'' []);
     on_cond (nc_standard i = AGGREGATE_INDEBTEDNESS \<and>
              below (times_opt multiple net) (nc_aggregate_indebtedness i))
       (breach ''aggregate indebtedness exceeds the multiple of net capital'' []);
     on_cond (nc_standard i = ALTERNATIVE \<and> below net ratio)
       (breach ''net capital is below the alternative requirement'' []) }"

definition net_capital_rest ::
  "RuleTable \<Rightarrow> NetCapitalInputs \<Rightarrow> rat option \<Rightarrow> rat option \<Rightarrow> rat option \<Rightarrow> rat option \<times> HaircutLine list \<Rightarrow>
    ratio \<Rightarrow> (worklog \<Rightarrow> NetCapitalResult) reading" where
  "net_capital_rest t i adds deds tentative taken ratio = do {
     let net = minus_opt tentative (fst taken);
     activity \<leftarrow> read_value t (minimum_rule (category i));
     let minimum = max_opt (fst ratio) activity;
     capital_breaches i net activity (fst ratio) (snd (snd ratio));
     ws \<leftarrow> early_warnings_of t i net tentative minimum;
     each (\<lambda>w. on_cond (triggered w = Some True) (breach (ew_paragraph w) (ew_note w))) ws;
     State_Monad.return (\<lambda>w.
       \<lparr>ncr_as_of = nc_as_of i, ncr_standard = nc_standard i,
        ncr_disposition = decide (missing_rules w @ unrecognised w) (missing_inputs w) (breaches w),
        ncr_net_worth = net_worth i, total_additions = adds, total_deductions = deds,
        tentative_net_capital = tentative, haircuts = fst taken, haircut_lines = snd taken, net_capital = net,
        ncr_ratio_requirement = fst ratio, ratio_requirement_exact = fst (snd ratio),
        activity_minimum = activity, minimum_requirement = minimum, excess_net_capital = minus_opt net minimum,
        early_warnings = ws, ncr_missing_rules = missing_rules w,
        ncr_missing_inputs = sorted_set (missing_inputs w), ncr_unrecognised = unrecognised w,
        ncr_breaches = breaches w, ncr_reasons = reasons w, ncr_rules_used = rules_used w\<rparr>) }"

definition net_capital_run ::
  "RuleTable \<Rightarrow> NetCapitalInputs \<Rightarrow> (division_error + (worklog \<Rightarrow> NetCapitalResult)) reading" where
  "net_capital_run t i = do {
     on_cond (net_worth i = None) (missing_input ''net_worth'');
     adds \<leftarrow> total_of ''additions'' (additions i);
     deds \<leftarrow> total_of ''deductions'' (deductions i);
     let tentative = minus_opt (plus_opt (net_worth i) adds) deds;
     taken \<leftarrow> haircuts_of t i;
     r \<leftarrow> ratio_requirement t i;
     (case r of
        Inl e \<Rightarrow> State_Monad.return (Inl e)
      | Inr ratio \<Rightarrow> do {
          finish \<leftarrow> net_capital_rest t i adds deds tentative taken ratio;
          State_Monad.return (Inr finish) }) }"

definition compute_net_capital :: "NetCapitalInputs \<Rightarrow> RuleTable \<Rightarrow> division_error + NetCapitalResult" where
  "compute_net_capital i t =
     (case run_state (net_capital_run t i) empty_log of
        (Inl e, w) \<Rightarrow> Inl e
      | (Inr finish, w) \<Rightarrow> Inr (finish w))"

end
