(* ===== verification/Margin.thy ===== *)
theory Margin
  imports Market_Calendar Decimal_Context Advisory
begin

text \<open>
  Regulation T and FINRA 4210 margin (\<open>atreides/margin/engine.py\<close>): the packaged table is loaded
  anew for every decision and a row counts only while its source file still hashes to the pinned
  digest; then the values, requirements, calls and the advisory liquidation order of an account.
  Amounts are Decimals of the default 28-digit context. Reading and hashing the source files is
  the parameter \<open>files\<close>: the digest of a file's bytes, \<open>None\<close> where it does not exist.
\<close>

record MarginPosition =
  issue :: string
  quantity :: rat
  price :: rat
  new_trade :: bool

record MarginAccount =
  account_id :: string
  cash_balance :: rat
  positions :: "MarginPosition list"

datatype margin_error = Blank_Id string | Price_Not_Positive

definition mk_MarginPosition :: "MarginPosition \<Rightarrow> (margin_error, MarginPosition) result" where
  "mk_MarginPosition p =
     require (issue p \<noteq> []) (Blank_Id ''issue'') (require (0 < price p) Price_Not_Positive (Inr p))"

definition mk_MarginAccount :: "MarginAccount \<Rightarrow> (margin_error, MarginAccount) result" where
  "mk_MarginAccount a = require (account_id a \<noteq> []) (Blank_Id ''account_id'') (Inr a)"

datatype call_kind = REG_T | MAINTENANCE | HOUSE

record MarginCall =
  kind :: call_kind
  call_amount :: rat
  call_due :: "date option"
  authority :: string
  due_period_authority :: "string option"

record LiquidationRecommendation =
  advisory_only :: bool
  order_of_sale :: "string list"
  estimated_proceeds :: rat

record RuleTrace =
  rt_rule_id :: string
  rt_citation :: string
  rt_source_sha256 :: string
  rt_value :: rat

record MarginResult =
  mr_account_id :: string
  mr_disposition :: Disposition
  long_market_value :: rat
  short_market_value :: rat
  debit_balance :: rat
  credit_balance :: rat
  equity :: rat
  reg_t_initial_requirement :: "rat option"
  finra_maintenance_requirement :: "rat option"
  house_requirement :: "rat option"
  excess_or_deficiency :: "rat option"
  calls :: "MarginCall list"
  liquidation :: "LiquidationRecommendation option"
  mr_rules_used :: "RuleTrace list"
  mr_missing_rules :: "string list"

subsection \<open>The packaged table\<close>

record table_row =
  row_rule_id :: string
  row_source_file :: string
  row_source_sha256 :: string
  row_citation :: string
  row_value :: rat

definition pinned :: "(string \<Rightarrow> string option) \<Rightarrow> table_row \<Rightarrow> bool" where
  "pinned files r \<longleftrightarrow> (case files (row_source_file r) of None \<Rightarrow> [] | Some d \<Rightarrow> d) = row_source_sha256 r"

definition load_margin_rules ::
  "(string \<Rightarrow> string option) \<Rightarrow> table_row list \<Rightarrow> (string \<Rightarrow> rat option) \<times> RuleTrace list \<times> string list" where
  "load_margin_rules files rows =
     (let ok = filter (pinned files) rows in
      (map_of (rev (map (\<lambda>r. (row_rule_id r, row_value r)) ok)),
       map (\<lambda>r. \<lparr>rt_rule_id = row_rule_id r, rt_citation = row_citation r,
                 rt_source_sha256 = row_source_sha256 r, rt_value = row_value r\<rparr>) ok,
       map row_rule_id (filter (\<lambda>r. \<not> pinned files r) rows)))"

definition REQUIRED_RULES :: "string list" where
  "REQUIRED_RULES =
     [''reg_t.initial'', ''reg_t.payment_period'', ''finra.long_maintenance'',
      ''finra.short_under_5_percent'', ''finra.short_under_5_per_share'',
      ''finra.short_5_plus_percent'', ''finra.short_5_plus_per_share'']"

definition all_missing :: "(string \<Rightarrow> rat option) \<Rightarrow> string list \<Rightarrow> string list" where
  "all_missing values missing = sorted_set (missing @ filter (\<lambda>r. values r = None) REQUIRED_RULES)"

subsection \<open>Values\<close>

definition long_product :: "MarginPosition \<Rightarrow> rat" where
  "long_product p = rnd28 (quantity p * price p)"

definition short_product :: "MarginPosition \<Rightarrow> rat" where
  "short_product p = rnd28 (rnd28 (- quantity p) * price p)"

definition is_long :: "MarginPosition \<Rightarrow> bool" where "is_long p \<longleftrightarrow> 0 < quantity p"
definition is_short :: "MarginPosition \<Rightarrow> bool" where "is_short p \<longleftrightarrow> quantity p < 0"

definition long_value :: "MarginPosition list \<Rightarrow> rat" where
  "long_value ps = dsum_from 28 0 (map long_product (filter is_long ps))"

definition short_value :: "MarginPosition list \<Rightarrow> rat" where
  "short_value ps = dsum_from 28 0 (map short_product (filter is_short ps))"

definition equity_of :: "MarginAccount \<Rightarrow> rat" where
  "equity_of a =
     rnd28 (rnd28 (rnd28 (long_value (positions a) + max (cash_balance a) 0) - short_value (positions a)) -
            max (rnd28 (- cash_balance a)) 0)"

subsection \<open>Requirements\<close>

definition initial_requirement :: "(string \<Rightarrow> rat) \<Rightarrow> MarginPosition list \<Rightarrow> rat" where
  "initial_requirement v ps =
     (let new = filter new_trade ps in
      rnd28 (rnd28 (long_value new + short_value new) * v ''reg_t.initial''))"

definition short_maintenance :: "(string \<Rightarrow> rat) \<Rightarrow> MarginPosition \<Rightarrow> rat" where
  "short_maintenance v p =
     (let shares = rnd28 (- quantity p); market = rnd28 (shares * price p) in
      if price p < 5
      then max (rnd28 (market * v ''finra.short_under_5_percent''))
               (rnd28 (shares * v ''finra.short_under_5_per_share''))
      else max (rnd28 (market * v ''finra.short_5_plus_percent''))
               (rnd28 (shares * v ''finra.short_5_plus_per_share'')))"

definition maintenance_requirement :: "(string \<Rightarrow> rat) \<Rightarrow> MarginPosition list \<Rightarrow> rat" where
  "maintenance_requirement v ps =
     dsum_from 28 (rnd28 (long_value ps * v ''finra.long_maintenance''))
       (map (short_maintenance v) (filter is_short ps))"

definition house_of :: "rat \<Rightarrow> MarginPosition list \<Rightarrow> rat" where
  "house_of rate ps = rnd28 (rnd28 (long_value ps + short_value ps) * rate)"

text \<open>\<open>int(Decimal)\<close> truncates toward zero.\<close>

definition truncate_day_count :: "rat \<Rightarrow> int" where
  "truncate_day_count x = (if 0 \<le> x then \<lfloor>x\<rfloor> else \<lceil>x\<rceil>)"

subsection \<open>Calls\<close>

definition reg_t_call ::
  "(int \<Rightarrow> (calendar_error, date) result) \<Rightarrow> rat \<Rightarrow> rat \<Rightarrow> rat \<Rightarrow> (calendar_error, MarginCall list) result" where
  "reg_t_call due period initial eq =
     (if initial > max eq 0 then
        (case due (truncate_day_count period) of Inl e \<Rightarrow> Inl e
         | Inr d \<Rightarrow> Inr [\<lparr>kind = REG_T, call_amount = rnd28 (initial - max eq 0), call_due = Some d,
             authority = ''12 CFR Part 220'', due_period_authority = None\<rparr>])
      else Inr [])"

definition maintenance_call ::
  "(int \<Rightarrow> (calendar_error, date) result) \<Rightarrow> int \<Rightarrow> rat \<Rightarrow> rat \<Rightarrow> (calendar_error, MarginCall list) result" where
  "maintenance_call due days maintenance eq =
     (if eq < maintenance then
        (case due days of Inl e \<Rightarrow> Inl e
         | Inr d \<Rightarrow> Inr [\<lparr>kind = MAINTENANCE, call_amount = rnd28 (maintenance - eq), call_due = Some d,
             authority = ''FINRA Rule 4210(c)'', due_period_authority = Some ''INTERNAL_POLICY''\<rparr>])
      else Inr [])"

definition house_call :: "rat \<Rightarrow> rat \<Rightarrow> rat \<Rightarrow> MarginCall list" where
  "house_call maintenance house eq =
     (if house > maintenance \<and> eq < house then
        [\<lparr>kind = HOUSE, call_amount = rnd28 (house - eq), call_due = None,
          authority = ''INTERNAL_POLICY'', due_period_authority = None\<rparr>]
      else [])"

text \<open>
  \<open>sorted(..., key=..., reverse=True)\<close> keeps equal keys in their order: a stable sort by the
  negated key.
\<close>

definition liquidation_order :: "MarginPosition list \<Rightarrow> string list" where
  "liquidation_order ps = map issue (sort_key (\<lambda>p. - \<bar>long_product p\<bar>) ps)"

definition missing_result :: "MarginAccount \<Rightarrow> RuleTrace list \<Rightarrow> string list \<Rightarrow> MarginResult" where
  "missing_result a traces missing =
     \<lparr>mr_account_id = account_id a, mr_disposition = INDETERMINATE,
      long_market_value = long_value (positions a), short_market_value = short_value (positions a),
      debit_balance = max (rnd28 (- cash_balance a)) 0, credit_balance = max (cash_balance a) 0,
      equity = equity_of a, reg_t_initial_requirement = None, finra_maintenance_requirement = None,
      house_requirement = None, excess_or_deficiency = None, calls = [], liquidation = None,
      mr_rules_used = traces, mr_missing_rules = missing\<rparr>"

definition margin_result ::
  "MarginAccount \<Rightarrow> RuleTrace list \<Rightarrow> rat \<Rightarrow> rat \<Rightarrow> rat \<Rightarrow> MarginCall list \<Rightarrow> MarginResult" where
  "margin_result a traces initial maintenance house cs =
     (let eq = equity_of a; governing = max maintenance house; deficiency = rnd28 (governing - eq) in
      \<lparr>mr_account_id = account_id a, mr_disposition = (if deficiency > 0 then HOLD else PASS),
       long_market_value = long_value (positions a), short_market_value = short_value (positions a),
       debit_balance = max (rnd28 (- cash_balance a)) 0, credit_balance = max (cash_balance a) 0,
       equity = eq, reg_t_initial_requirement = Some initial,
       finra_maintenance_requirement = Some maintenance, house_requirement = Some house,
       excess_or_deficiency = Some (rnd28 (eq - governing)), calls = cs,
       liquidation =
         (if deficiency > 0
          then Some \<lparr>advisory_only = True, order_of_sale = liquidation_order (positions a),
                 estimated_proceeds = min (long_value (positions a)) deficiency\<rparr>
          else None),
       mr_rules_used = traces, mr_missing_rules = []\<rparr>)"

definition compute_margin ::
  "(string \<Rightarrow> string option) \<Rightarrow> table_row list \<Rightarrow> MarginAccount \<Rightarrow> date \<Rightarrow>
   (date \<Rightarrow> int \<Rightarrow> (calendar_error, date) result) \<Rightarrow> rat \<Rightarrow> int \<Rightarrow> (calendar_error, MarginResult) result" where
  "compute_margin files rows a trade_date add rate days =
     (case load_margin_rules files rows of (values, traces, missing) \<Rightarrow>
      if all_missing values missing \<noteq> [] then Inr (missing_result a traces (all_missing values missing))
      else
        let v = (\<lambda>r. the (values r));
            initial = initial_requirement v (positions a);
            maintenance = maintenance_requirement v (positions a);
            house = house_of rate (positions a);
            eq = equity_of a in
        case reg_t_call (add trade_date) (v ''reg_t.payment_period'') initial eq of Inl e \<Rightarrow> Inl e | Inr c1 \<Rightarrow>
        case maintenance_call (add trade_date) days maintenance eq of Inl e \<Rightarrow> Inl e | Inr c2 \<Rightarrow>
          Inr (margin_result a traces initial maintenance house (c1 @ c2 @ house_call maintenance house eq)))"

end
