(* ===== verification/Books_Projections.thy ===== *)
theory Books_Projections
  imports Books_Ledger CP_Control CP_Net_Capital Margin
begin

text \<open>
  The projections of the equities journal into the engines that read it (\<open>books/projections.py\<close>):
  customer cash and positions, the Exhibit A lines, the inputs of net capital, of the possession or
  control check and of margin. A dict is an association list in insertion order; \<open>d[k] = d.get(k, 0) + x\<close>
  is \<open>add_to\<close>. The mapping file is the constants it holds. The digest of the journal and the price
  dict are parameters; reasons are kept as cases.
\<close>

datatype projection_error =
    No_Source_Fact | Of_Calendar calendar_error | Not_A_Business_Day | After_The_Computation
  | No_Price string | Bad_Reserve_Inputs | Bad_Capital_Inputs | Bad_Control_Inputs
  | Two_Types string AccountType AccountType | Bad_Position margin_error

subsection \<open>Balances read from the journal\<close>

definition book_lines :: "EquitiesBooks \<Rightarrow> LedgerLine list" where
  "book_lines b = concat (map entry_lines (entries b))"

definition sum_by :: "('k \<times> rat) list \<Rightarrow> ('k \<times> rat) list" where
  "sum_by kas = foldl (\<lambda>m (k, a). add_to k a m) [] kas"

definition entry_or :: "'v \<Rightarrow> ('k \<times> 'v) list \<Rightarrow> 'k \<Rightarrow> 'v" where
  "entry_or d m k = (case map_of m k of None \<Rightarrow> d | Some v \<Rightarrow> v)"

text \<open>\<open>abs(x)\<close> on a Decimal rounds to the context.\<close>

definition magnitude :: "rat \<Rightarrow> rat" where
  "magnitude x = rnd28 \<bar>x\<bar>"

definition customer_account :: "AccountType \<Rightarrow> bool" where
  "customer_account a \<longleftrightarrow> a \<in> {CUSTOMER_CASH, CUSTOMER_MARGIN}"

definition cash_lines :: "LedgerLine list \<Rightarrow> (string \<times> rat) list" where
  "cash_lines ls = map (\<lambda>l. (LedgerLine.account_id l, money l))
     (filter (\<lambda>l. customer_account (account_type l) \<and> currency l = Some ''USD'') ls)"

definition customer_cash :: "EquitiesBooks \<Rightarrow> (string \<times> rat) list" where
  "customer_cash b = sum_by (cash_lines (book_lines b))"

definition owned :: "LedgerLine \<Rightarrow> bool" where
  "owned l \<longleftrightarrow> LedgerLine.issue l \<noteq> None \<and> record_side l = OWNERSHIP"

definition owned_lines :: "LedgerLine list \<Rightarrow> (string \<times> rat) list" where
  "owned_lines ls = map (\<lambda>l. (the (LedgerLine.issue l), LedgerLine.quantity l)) (filter owned ls)"

definition ownership :: "EquitiesBooks \<Rightarrow> (string \<times> rat) list" where
  "ownership b = sum_by (owned_lines (book_lines b))"

definition add_position ::
  "(string \<times> (string \<times> rat) list) list \<Rightarrow> LedgerLine \<Rightarrow> (string \<times> (string \<times> rat) list) list" where
  "add_position m l =
     AList.update (LedgerLine.account_id l)
       (add_to (the (LedgerLine.issue l)) (LedgerLine.quantity l) (entry_or [] m (LedgerLine.account_id l))) m"

definition customer_positions :: "EquitiesBooks \<Rightarrow> (string \<times> (string \<times> rat) list) list" where
  "customer_positions b =
     foldl add_position [] (filter (\<lambda>l. customer_account (account_type l) \<and> owned l) (book_lines b))"

fun location_rule :: "AccountType \<Rightarrow> string" where
  "location_rule DTC = ''15c3-3.control.c1''"
| "location_rule BANK_CONTROL = ''15c3-3.control.c5''"
| "location_rule FAIL_TO_DELIVER = ''15c3-3.noncontrol.d2''"
| "location_rule FAIL_TO_RECEIVE = ''15c3-3.noncontrol.d2''"
| "location_rule STOCK_LOANED = ''15c3-3.noncontrol.d1''"
| "location_rule IN_TRANSFER = ''15c3-3.noncontrol.d4''"
| "location_rule _ = ''UNMAPPED_LOCATION''"

definition located_lines :: "LedgerLine list \<Rightarrow> ((string \<times> string) \<times> rat) list" where
  "located_lines ls = map (\<lambda>l. ((the (LedgerLine.issue l), location_rule (account_type l)), LedgerLine.quantity l))
     (filter (\<lambda>l. LedgerLine.issue l \<noteq> None \<and> record_side l = LOCATION) ls)"

definition location_balances :: "EquitiesBooks \<Rightarrow> ((string \<times> string) \<times> rat) list" where
  "location_balances b = sum_by (located_lines (book_lines b))"

definition holdings_of :: "EquitiesBooks \<Rightarrow> string \<Rightarrow> Holding list" where
  "holdings_of b i =
     map (\<lambda>((_, r), v). \<lparr>location = r, ho_quantity = magnitude v, age_days = None, loaned = None\<rparr>)
       (filter (\<lambda>((j, _), v). j = i \<and> v \<noteq> 0) (location_balances b))"

definition customer_debits :: "EquitiesBooks \<Rightarrow> rat" where
  "customer_debits b = dsum_from 28 0 (map (\<lambda>(_, v). max (rnd28 (- v)) 0) (customer_cash b))"

definition free_credits :: "EquitiesBooks \<Rightarrow> rat" where
  "free_credits b = dsum_from 28 0 (map (\<lambda>(_, v). max v 0) (customer_cash b))"

subsection \<open>The Exhibit A lines\<close>

definition mapping_version :: string where "mapping_version = ''eq1b-exhibit-a/2''"
definition FREE_CREDIT_RULE :: string where "FREE_CREDIT_RULE = ''15c3-3a.item.01''"
definition MARGIN_DEBIT_RULE :: string where "MARGIN_DEBIT_RULE = ''15c3-3a.item.10''"

fun special_rule :: "AccountType \<Rightarrow> string option" where
  "special_rule FAIL_TO_RECEIVE = Some ''15c3-3a.item.04''"
| "special_rule STOCK_BORROWED = Some ''15c3-3a.item.11''"
| "special_rule FAIL_TO_DELIVER = Some ''15c3-3a.item.12''"
| "special_rule _ = None"

datatype exclusion_reason = Older_Than_30_Days | Firm_Activity

record ProjectionExclusion =
  pe_source_event_id :: string
  pe_account_type :: AccountType
  pe_issue :: string
  pe_activity :: ReserveActivity
  pe_reason :: exclusion_reason
  age_calendar_days :: "int option"

type_synonym exhibit = "(string \<times> rat option) list"

definition add_line :: "exhibit \<Rightarrow> string \<Rightarrow> rat \<Rightarrow> exhibit" where
  "add_line t r a = AList.update r (Some (rnd28 ((case entry_or None t r of None \<Rightarrow> 0 | Some x \<Rightarrow> x) + a))) t"

record exhibit_state =
  customer_exhibit :: exhibit
  pab_exhibit :: exhibit
  exclusions :: "ProjectionExclusion list"
  stock_borrowed :: rat

definition empty_exhibit :: exhibit where
  "empty_exhibit = map (\<lambda>r. (r, None)) (EXHIBIT_A_CREDITS @ EXHIBIT_A_DEBITS)"

definition source_fact :: "JournalEntry \<Rightarrow> AccountType \<Rightarrow> string \<Rightarrow> ReserveSourceFact option" where
  "source_fact e a i = find (\<lambda>f. fact_account_type f = a \<and> fact_issue f = i) (rev (reserve_source_facts e))"

definition excluded_line ::
  "JournalEntry \<Rightarrow> AccountType \<Rightarrow> string \<Rightarrow> ReserveSourceFact \<Rightarrow> exclusion_reason \<Rightarrow> int \<Rightarrow> exhibit_state \<Rightarrow> exhibit_state" where
  "excluded_line e a i f why age s = s\<lparr>exclusions := exclusions s @
     [\<lparr>pe_source_event_id = source_event_id e, pe_account_type = a, pe_issue = i, pe_activity = fact_activity f,
       pe_reason = why, age_calendar_days = Some age\<rparr>]\<rparr>"

text \<open>The value of a line: an aged fail to receive is marked up to the market.\<close>

definition line_value ::
  "(string \<Rightarrow> rat option) \<Rightarrow> AccountType \<Rightarrow> string \<Rightarrow> rat \<Rightarrow> rat \<Rightarrow> int \<Rightarrow> (projection_error, rat) result" where
  "line_value prices a i q contract age =
     (if a = FAIL_TO_RECEIVE \<and> age > 30
      then (case prices i of None \<Rightarrow> Inl (No_Price i)
        | Some p \<Rightarrow> Inr (rnd28 (contract + max (rnd28 (rnd28 (magnitude q * p) - contract)) 0)))
      else Inr contract)"

definition charge_line ::
  "(string \<Rightarrow> rat option) \<Rightarrow> JournalEntry \<Rightarrow> AccountType \<Rightarrow> string \<Rightarrow> rat \<Rightarrow> string \<Rightarrow> ReserveSourceFact \<Rightarrow> int \<Rightarrow>
   exhibit_state \<Rightarrow> (projection_error, exhibit_state) result" where
  "charge_line prices e a i q rule f age s =
     (let contract = rnd28 (magnitude q * fact_contract_price f);
          s = (if a = STOCK_BORROWED then s\<lparr>stock_borrowed := rnd28 (stock_borrowed s + contract)\<rparr> else s) in
      if a = FAIL_TO_DELIVER \<and> age > 30 then Inr (excluded_line e a i f Older_Than_30_Days age s)
      else case line_value prices a i q contract age of Inl x \<Rightarrow> Inl x
      | Inr v \<Rightarrow> (case fact_activity f of
            ReserveActivity.CUSTOMER \<Rightarrow> Inr (s\<lparr>customer_exhibit := add_line (customer_exhibit s) rule v\<rparr>)
          | PAB_ACTIVITY \<Rightarrow> Inr (s\<lparr>pab_exhibit := add_line (pab_exhibit s) rule v\<rparr>)
          | FIRM \<Rightarrow> Inr (excluded_line e a i f Firm_Activity age s)))"

definition exhibit_line ::
  "MarketCalendar \<Rightarrow> date \<Rightarrow> (string \<Rightarrow> rat option) \<Rightarrow> JournalEntry \<times> LedgerLine \<Rightarrow> exhibit_state \<Rightarrow>
   (projection_error, exhibit_state) result" where
  "exhibit_line cal today prices el s =
     (case el of (e, l) \<Rightarrow>
      (case (LedgerLine.issue l, special_rule (account_type l)) of
        (Some i, Some rule) \<Rightarrow>
          (case source_fact e (account_type l) i of None \<Rightarrow> Inl No_Source_Fact
           | Some f \<Rightarrow>
             (case is_business_day cal (fact_settlement_date f) of Inl x \<Rightarrow> Inl (Of_Calendar x)
              | Inr open_day \<Rightarrow>
                  require open_day Not_A_Business_Day (
                  require (fact_settlement_date f \<le> today) After_The_Computation (
                  charge_line prices e (account_type l) i (LedgerLine.quantity l) rule f (today - fact_settlement_date f) s))))
      | _ \<Rightarrow> Inr s))"

fun exhibit_fold ::
  "MarketCalendar \<Rightarrow> date \<Rightarrow> (string \<Rightarrow> rat option) \<Rightarrow> (JournalEntry \<times> LedgerLine) list \<Rightarrow> exhibit_state \<Rightarrow>
   (projection_error, exhibit_state) result" where
  "exhibit_fold cal today prices [] s = Inr s"
| "exhibit_fold cal today prices (el # els) s =
     (case exhibit_line cal today prices el s of Inl x \<Rightarrow> Inl x | Inr s' \<Rightarrow> exhibit_fold cal today prices els s')"

definition entry_line_pairs :: "EquitiesBooks \<Rightarrow> (JournalEntry \<times> LedgerLine) list" where
  "entry_line_pairs b = concat (map (\<lambda>e. map (Pair e) (entry_lines e)) (entries b))"

definition project_exhibit ::
  "MarketCalendar \<Rightarrow> date \<Rightarrow> (string \<Rightarrow> rat option) \<Rightarrow> EquitiesBooks \<Rightarrow> (projection_error, exhibit_state) result" where
  "project_exhibit cal today prices b =
     exhibit_fold cal today prices (entry_line_pairs b)
       \<lparr>customer_exhibit = empty_exhibit, pab_exhibit = empty_exhibit, exclusions = [], stock_borrowed = 0\<rparr>"

text \<open>The first price that is missing raises.\<close>

fun priced :: "(string \<Rightarrow> rat option) \<Rightarrow> (string \<times> rat) list \<Rightarrow> (projection_error, (string \<times> rat \<times> rat) list) result" where
  "priced prices [] = Inr []"
| "priced prices ((i, q) # xs) =
     (case prices i of None \<Rightarrow> Inl (No_Price i)
      | Some p \<Rightarrow> map_sum id ((#) (i, q, p)) (priced prices xs))"

definition stock_loaned :: "(string \<Rightarrow> rat option) \<Rightarrow> EquitiesBooks \<Rightarrow> (projection_error, rat) result" where
  "stock_loaned prices b =
     map_sum id (\<lambda>xs. dsum_from 28 0 (map (\<lambda>(_, q, p). rnd28 (magnitude q * p)) xs))
       (priced prices (map (\<lambda>l. (the (LedgerLine.issue l), LedgerLine.quantity l))
          (filter (\<lambda>l. account_type l = STOCK_LOANED \<and> LedgerLine.issue l \<noteq> None) (book_lines b))))"

subsection \<open>The inputs of the engines\<close>

record SyntheticFirmProfile =
  profile_name :: string
  net_capital_standard :: NetCapitalStandard
  broker_dealer_category :: BrokerDealerCategory

definition SYNTHETIC_FIRM_PROFILE :: SyntheticFirmProfile where
  "SYNTHETIC_FIRM_PROFILE = \<lparr>profile_name = ''ATREIDES_EQ1_SYNTHETIC_CARRYING_ALTERNATIVE'',
     net_capital_standard = ALTERNATIVE, broker_dealer_category = CARRYING\<rparr>"

definition reserve_inputs :: "ReserveAccounts \<Rightarrow> date \<Rightarrow> NetCapitalStandard \<Rightarrow> exhibit \<Rightarrow> ReserveInputs" where
  "reserve_inputs who d std ex =
     \<lparr>accounts_kind = who, as_of = d, standard = std, mode = WEEKLY,
      lines = map (\<lambda>(r, v). \<lparr>lb_rule_id = r, lb_amount = v\<rparr>) ex, average_total_credits = None,
      daily_requirement_effective_date = None, previously_daily_required = None, daily_exit_notice_date = None,
      voluntary_daily_notice_date = None, aggregate_indebtedness = None, ri_net_capital = None,
      aggregate_customer_funds = None, carries_customer_accounts = None, conducts_proprietary_trading_business = None,
      pab_last_monthly_required_additional_deposit = None, pab_clean_weekly_computations = None, cash_deposits = [],
      qualified_securities_deposit = None, customer_excess_debits = None, customer_computation_as_of = None\<rparr>"

definition equity_position :: "(string \<Rightarrow> rat option) \<Rightarrow> string \<times> rat \<Rightarrow> (projection_error, Position) result" where
  "equity_position prices iq =
     (case prices (fst iq) of None \<Rightarrow> Inl (No_Price (fst iq))
      | Some p \<Rightarrow>
          (let x = \<lparr>pos_issue = fst iq, asset_class = asset_value EQUITY, pos_long = rnd28 (max (snd iq) 0 * p),
             pos_short = rnd28 (max (rnd28 (- snd iq)) 0 * p), months_to_maturity = None\<rparr> in
           require (pos_issue x \<noteq> [] \<and> 0 \<le> pos_long x \<and> 0 \<le> pos_short x) Bad_Capital_Inputs (Inr x)))"

definition capital_inputs ::
  "SyntheticFirmProfile \<Rightarrow> date \<Rightarrow> rat \<Rightarrow> Position list \<Rightarrow> rat \<Rightarrow> NetCapitalInputs" where
  "capital_inputs prof d worth ps debits =
     \<lparr>nc_as_of = d, nc_standard = net_capital_standard prof, category = broker_dealer_category prof,
      net_worth = Some worth, additions = [], deductions = [], nc_positions = ps, government_election = CATEGORY,
      elects_a3_cross_category_exclusion = None, elects_a4_futures_deliverable_inclusion = None,
      qualifies_a5_government_dealer_reduction = None, nc_aggregate_indebtedness = None, months_in_business = None,
      aggregate_debit_items = Some debits, reports_lending_activity_monthly = None,
      securities_loaned_and_repo_payable = None, securities_borrowed_and_reverse_repo_value = None\<rparr>"

subsection \<open>Fully paid and excess margin securities\<close>

datatype projection_reason =
    Not_Wired | Files_Monthly_Unstated | Repo_Not_Wired | Reverse_Repo_Not_Wired
  | No_Margin_Result string | Excess_Margin_Method | No_Excess_Quantity

datatype reason_subject = Rule_Reason string | Excess_Margin_Of string

record paid_state =
  paid :: "(string \<times> rat) list"
  excess :: "(string \<times> rat option) list"
  excess_reasons :: "(reason_subject \<times> projection_reason) list"

definition not_stated :: "string \<Rightarrow> projection_reason \<Rightarrow> paid_state \<Rightarrow> paid_state" where
  "not_stated i why s = s\<lparr>excess := AList.update i None (excess s),
     excess_reasons := AList.update (Excess_Margin_Of i) why (excess_reasons s)\<rparr>"

text \<open>The same fraction of every long holding, rounded up to whole securities, and no more than the holding.\<close>

definition excess_quantity :: "rat \<Rightarrow> MarginResult \<Rightarrow> rat \<Rightarrow> rat" where
  "excess_quantity pinned_share r q =
     (let value = max (rnd28 (long_market_value r - rnd28 (pinned_share * debit_balance r))) 0;
          share = (if long_market_value r \<le> 0 then 0 else rnd28 (value / long_market_value r)) in
      min q (of_int \<lceil>rnd28 (q * share)\<rceil>))"

definition long_holding ::
  "rat option \<Rightarrow> string \<Rightarrow> MarginResult option \<Rightarrow> string \<times> rat \<Rightarrow> paid_state \<Rightarrow> paid_state" where
  "long_holding pinned_share acct result iq s =
     (case iq of (i, q) \<Rightarrow>
      if q \<le> 0 then s
      else case result of None \<Rightarrow> not_stated i (No_Margin_Result acct) s
      | Some r \<Rightarrow>
          if debit_balance r = 0 then s\<lparr>paid := add_to i q (paid s)\<rparr>
          else (case pinned_share of None \<Rightarrow> not_stated i No_Excess_Quantity s
            | Some t \<Rightarrow>
                s\<lparr>excess := AList.update i (case entry_or (Some 0) (excess s) i of None \<Rightarrow> None
                     | Some x \<Rightarrow> Some (rnd28 (x + excess_quantity t r q))) (excess s),
                  excess_reasons := (if map_of (excess_reasons s) (Excess_Margin_Of i) = None
                     then excess_reasons s @ [(Excess_Margin_Of i, Excess_Margin_Method)] else excess_reasons s)\<rparr>))"

definition margin_result_of :: "MarginResult list \<Rightarrow> string \<Rightarrow> MarginResult option" where
  "margin_result_of rs a = find (\<lambda>r. mr_account_id r = a) (rev rs)"

definition account_holdings ::
  "rat option \<Rightarrow> MarginResult list \<Rightarrow> string \<times> (string \<times> rat) list \<Rightarrow> paid_state \<Rightarrow> paid_state" where
  "account_holdings pinned_share rs acct s =
     fold (long_holding pinned_share (fst acct) (margin_result_of rs (fst acct))) (snd acct) s"

definition paid_and_excess ::
  "rat option \<Rightarrow> MarginResult list \<Rightarrow> (reason_subject \<times> projection_reason) list \<Rightarrow> EquitiesBooks \<Rightarrow> paid_state" where
  "paid_and_excess pinned_share rs whys b =
     fold (account_holdings pinned_share rs) (customer_positions b) \<lparr>paid = [], excess = [], excess_reasons = whys\<rparr>"

definition control_inputs :: "date \<Rightarrow> paid_state \<Rightarrow> EquitiesBooks \<Rightarrow> ControlInputs" where
  "control_inputs d s b =
     \<lparr>ci_as_of = d, ci_issues = map (\<lambda>(i, q).
        \<lparr>IssueRequirement.issue = i, fully_paid = Some (entry_or 0 (paid s) i), excess_margin = entry_or (Some 0) (excess s) i,
         books_total = Some q, holdings = holdings_of b i\<rparr>) (sort_key fst (ownership b))\<rparr>"

definition issue_requirement_ok :: "IssueRequirement \<Rightarrow> bool" where
  "issue_requirement_ok r \<longleftrightarrow> IssueRequirement.issue r \<noteq> [] \<and> nonneg_opt (fully_paid r) \<and> nonneg_opt (excess_margin r) \<and>
     nonneg_opt (books_total r) \<and> (\<forall>h \<in> set (holdings r). 0 \<le> ho_quantity h \<and> nonneg_opt (age_days h))"

subsection \<open>The projection\<close>

record ProjectionAudit =
  pa_mapping_version :: string
  derived :: "string list"
  not_derived :: "string list"
  audit_reasons :: "(reason_subject \<times> projection_reason) list"
  pa_books_digest :: string
  audit_exclusions :: "ProjectionExclusion list"
  stock_loaned_market_value :: rat
  stock_borrowed_contract_value :: rat
  audit_profile :: string

record ProtectionInputs =
  pi_reserve :: ReserveInputs
  pi_pab_reserve :: ReserveInputs
  pi_net_capital :: NetCapitalInputs
  pi_control :: ControlInputs
  pi_audit :: ProjectionAudit
  pi_profile :: SyntheticFirmProfile

definition customer_lines :: "EquitiesBooks \<Rightarrow> exhibit_state \<Rightarrow> exhibit" where
  "customer_lines b s = AList.update MARGIN_DEBIT_RULE (Some (customer_debits b))
     (AList.update FREE_CREDIT_RULE (Some (free_credits b)) (customer_exhibit s))"

definition rules_where :: "(rat option \<Rightarrow> bool) \<Rightarrow> exhibit \<Rightarrow> string list" where
  "rules_where P ex = sort (map fst (filter (\<lambda>(_, v). P v) ex))"

definition base_reasons :: "string list \<Rightarrow> (reason_subject \<times> projection_reason) list" where
  "base_reasons absent = map (\<lambda>r. (Rule_Reason r, Not_Wired)) absent @
     [(Rule_Reason ''17a-11.reports_lending_activity_monthly'', Files_Monthly_Unstated),
      (Rule_Reason ''17a-11.securities_loaned_and_repo_payable'', Repo_Not_Wired),
      (Rule_Reason ''17a-11.securities_borrowed_and_reverse_repo_value'', Reverse_Repo_Not_Wired)]"

text \<open>
  The inputs are built in the order reserve, PAB reserve, net capital with its positions, control, and the
  first that its constructor refuses raises.
\<close>

definition protection_inputs where
  "protection_inputs digest b d rs prof pinned_share s lent ex cust pab cap =
     (let absent = rules_where (\<lambda>v. v = None) ex;
          held = paid_and_excess pinned_share rs (base_reasons absent) b;
          ctl = control_inputs d held b in
      require (list_all issue_requirement_ok (ci_issues ctl)) Bad_Control_Inputs (
      Inr \<lparr>pi_reserve = cust, pi_pab_reserve = pab, pi_net_capital = cap, pi_control = ctl,
           pi_audit = \<lparr>pa_mapping_version = mapping_version, derived = rules_where (\<lambda>v. v \<noteq> None) ex, not_derived = absent,
              audit_reasons = excess_reasons held, pa_books_digest = digest b, audit_exclusions = exclusions s,
              stock_loaned_market_value = lent, stock_borrowed_contract_value = stock_borrowed s,
              audit_profile = profile_name prof\<rparr>,
           pi_profile = prof\<rparr>))"

definition project_customer_protection ::
  "(EquitiesBooks \<Rightarrow> string) \<Rightarrow> EquitiesBooks \<Rightarrow> date \<Rightarrow> (string \<Rightarrow> rat option) \<Rightarrow> rat \<Rightarrow> MarketCalendar \<Rightarrow>
   MarginResult list \<Rightarrow> SyntheticFirmProfile \<Rightarrow> rat option \<Rightarrow> (projection_error, ProtectionInputs) result" where
  "project_customer_protection digest b d prices worth cal rs prof pinned_share =
     (case project_exhibit cal d prices b of Inl x \<Rightarrow> Inl x | Inr s \<Rightarrow>
      case stock_loaned prices b of Inl x \<Rightarrow> Inl x | Inr lent \<Rightarrow>
      let ex = customer_lines b s;
          cust = reserve_inputs ReserveAccounts.CUSTOMER d (net_capital_standard prof) ex;
          pab = reserve_inputs ReserveAccounts.PAB d (net_capital_standard prof) (pab_exhibit s) in
      require (reserve_inputs_ok cust \<and> reserve_inputs_ok pab) Bad_Reserve_Inputs (
      case collect (map (equity_position prices) (sort_key fst (ownership b))) of Inl x \<Rightarrow> Inl x | Inr ps \<Rightarrow>
      let cap = capital_inputs prof d worth ps (customer_debits b) in
      require (net_capital_inputs_ok cap) Bad_Capital_Inputs (
        protection_inputs digest b d rs prof pinned_share s lent ex cust pab cap)))"

subsection \<open>Reserve bank balances, account types and margin accounts\<close>

definition reserve_bank_balances :: "EquitiesBooks \<Rightarrow> date \<Rightarrow> AccountType \<Rightarrow> rat option" where
  "reserve_bank_balances b through a =
     (if a \<in> {RESERVE_BANK_CUSTOMER, RESERVE_BANK_PAB}
      then Some (dsum_from 28 0 (map money (filter (\<lambda>l. account_type l = a \<and> currency l = Some ''USD'')
        (concat (map entry_lines (filter (\<lambda>e. JournalEntry.effective_date e \<le> through) (entries b)))))))
      else None)"

definition OWNERSHIP_ACCOUNT_TYPES :: "AccountType set" where
  "OWNERSHIP_ACCOUNT_TYPES = {CUSTOMER_CASH, CUSTOMER_MARGIN, AccountType.PAB, FIRM_PROPRIETARY}"

fun classify_lines ::
  "LedgerLine list \<Rightarrow> (string \<times> AccountType) list \<Rightarrow> (projection_error, (string \<times> AccountType) list) result" where
  "classify_lines [] m = Inr m"
| "classify_lines (l # ls) m =
     (if account_type l \<notin> OWNERSHIP_ACCOUNT_TYPES then classify_lines ls m
      else case map_of m (LedgerLine.account_id l) of
        None \<Rightarrow> classify_lines ls (m @ [(LedgerLine.account_id l, account_type l)])
      | Some t \<Rightarrow> require (t = account_type l) (Two_Types (LedgerLine.account_id l) t (account_type l)) (classify_lines ls m))"

definition classify_accounts :: "EquitiesBooks \<Rightarrow> (projection_error, (string \<times> AccountType) list) result" where
  "classify_accounts b = classify_lines (book_lines b) []"

definition margin_position ::
  "(string \<Rightarrow> rat option) \<Rightarrow> (string \<times> string) set \<Rightarrow> string \<Rightarrow> string \<times> rat \<Rightarrow> (projection_error, MarginPosition) result" where
  "margin_position prices new a iq =
     (case prices (fst iq) of None \<Rightarrow> Inl (No_Price (fst iq))
      | Some p \<Rightarrow> map_sum Bad_Position id (mk_MarginPosition
          \<lparr>MarginPosition.issue = fst iq, quantity = snd iq, price = p, new_trade = ((a, fst iq) \<in> new)\<rparr>))"

definition margin_account ::
  "EquitiesBooks \<Rightarrow> (string \<Rightarrow> rat option) \<Rightarrow> (string \<times> string) set \<Rightarrow> string \<Rightarrow> (projection_error, MarginAccount) result" where
  "margin_account b prices new a =
     (case collect (map (margin_position prices new a)
         (filter (\<lambda>(_, q). q \<noteq> 0) (sort_key fst (entry_or [] (customer_positions b) a)))) of
        Inl x \<Rightarrow> Inl x
      | Inr ps \<Rightarrow> map_sum Bad_Position id
          (mk_MarginAccount \<lparr>MarginAccount.account_id = a, cash_balance = entry_or 0 (customer_cash b) a, positions = ps\<rparr>))"

definition project_margin_accounts ::
  "EquitiesBooks \<Rightarrow> (string \<Rightarrow> rat option) \<Rightarrow> (string \<times> string) set \<Rightarrow> (projection_error, MarginAccount list) result" where
  "project_margin_accounts b prices new =
     collect (map (margin_account b prices new)
       (sorted_set (map fst (customer_cash b) @ map fst (customer_positions b))))"

end
