(* ===== verification/Ledger_Props.thy ===== *)
theory Ledger_Props
  imports Books_Ledger
begin

text \<open>
  Properties of the equities journal: it is append-only and posts a source event once, every
  entry in it balances, the stock record it implies has no internal break, and what the
  verification against observed locations reports.
\<close>

subsection \<open>Totals\<close>

definition amounts :: "'k \<Rightarrow> ('k \<times> rat) list \<Rightarrow> rat list" where
  "amounts k kas = map snd (filter (\<lambda>p. fst p = k) kas)"

lemma amounts_simps [simp]:
  "amounts k [] = []"
  "amounts k ((k', a) # kas) = (if k' = k then a # amounts k kas else amounts k kas)"
  "amounts k (xs @ ys) = amounts k xs @ amounts k ys"
  by (simp_all add: amounts_def)

lemma add_to_lookup:
  "map_of (add_to k a m) j =
     (if j = k then Some (rnd28 ((case map_of m k of None \<Rightarrow> 0 | Some v \<Rightarrow> v) + a)) else map_of m j)"
  by (simp add: add_to_def update_conv')

lemma totals_lookup:
  "map_of (foldl (\<lambda>m (k, a). add_to k a m) [] kas) k =
     (if amounts k kas = [] then None else Some (dsum_from 28 0 (amounts k kas)))"
proof (induction kas rule: rev_induct)
  case (snoc p kas)
  then show ?case by (cases p) (auto simp: add_to_lookup dsum_from_snoc)
qed simp

definition issue_pairs :: "LedgerLine list \<Rightarrow> (string \<times> rat) list" where
  "issue_pairs ls = map (\<lambda>l. (the (issue l), quantity l)) (filter (\<lambda>l. issue l \<noteq> None) ls)"

lemma issue_totals_eq: "issue_totals ls = foldl (\<lambda>m (k, a). add_to k a m) [] (issue_pairs ls)"
proof -
  have "foldl (\<lambda>m l. case issue l of None \<Rightarrow> m | Some i \<Rightarrow> add_to i (quantity l) m) m ls =
      foldl (\<lambda>m (k, a). add_to k a m) m (issue_pairs ls)" for m
    by (induction ls arbitrary: m) (auto simp: issue_pairs_def)
  then show ?thesis by (simp add: issue_totals_def)
qed

lemma unbalanced_Nil: "distinct (map fst m) \<Longrightarrow> unbalanced m = [] \<longleftrightarrow> (\<forall>k v. map_of m k = Some v \<longrightarrow> v = 0)"
  by (auto simp: unbalanced_def filter_empty_conv map_of_eq_Some_iff)

lemma distinct_add_to: "distinct (map fst m) \<Longrightarrow> distinct (map fst (add_to k a m))"
  by (simp add: add_to_def distinct_update)

lemma distinct_totals: "distinct (map fst (foldl (\<lambda>m (k, a). add_to k a m) [] kas))"
  by (induction kas rule: rev_induct) (auto simp: distinct_add_to split: prod.splits)

text \<open>The security quantities of the lines, of one issue and of one side of it.\<close>

definition held :: "string \<Rightarrow> LedgerLine list \<Rightarrow> rat list" where
  "held i ls = map quantity (filter (\<lambda>l. issue l = Some i) ls)"

definition held_side :: "string \<Rightarrow> RecordSide \<Rightarrow> LedgerLine list \<Rightarrow> rat list" where
  "held_side i s ls = map quantity (filter (\<lambda>l. issue l = Some i \<and> record_side l = s) ls)"

lemma held_simps [simp]:
  "held i [] = []" "held i (xs @ ys) = held i xs @ held i ys"
  "held_side i s [] = []" "held_side i s (xs @ ys) = held_side i s xs @ held_side i s ys"
  "held i (l # ls) = (if issue l = Some i then quantity l # held i ls else held i ls)"
  "held_side i s (l # ls) =
     (if issue l = Some i \<and> record_side l = s then quantity l # held_side i s ls else held_side i s ls)"
  by (simp_all add: held_def held_side_def)

lemma amounts_issue_pairs: "amounts i (issue_pairs ls) = held i ls"
  by (induction ls) (auto simp: issue_pairs_def)

lemma balanced_issues:
  "unbalanced (issue_totals ls) = [] \<longleftrightarrow> (\<forall>i. dsum_from 28 0 (held i ls) = 0)"
  unfolding issue_totals_eq unbalanced_Nil [OF distinct_totals] totals_lookup amounts_issue_pairs
  by (auto; metis dsum_from_Nil)

text \<open>Amounts the default context adds exactly.\<close>

definition fits :: "int \<Rightarrow> LedgerLine list \<Rightarrow> bool" where
  "fits k ls \<longleftrightarrow> (\<forall>l \<in> set ls. on_grid k (quantity l)) \<and> (\<Sum>l\<leftarrow>ls. \<bar>quantity l\<bar>) \<le> 10 powi (k + 28)"

lemma filtered_abs_bound: "(\<Sum>x\<leftarrow>map f (filter P ls). \<bar>x\<bar>) \<le> (\<Sum>l\<leftarrow>ls. \<bar>f l :: rat\<bar>)"
  by (induction ls) auto

lemma fits_sum:
  assumes "fits k ls"
  shows "dsum_from 28 0 (map quantity (filter P ls)) = sum_list (map quantity (filter P ls))"
proof -
  have "(\<Sum>x\<leftarrow>map quantity (filter P ls). \<bar>x\<bar>) \<le> 10 powi (k + int 28)"
    using assms filtered_abs_bound [of quantity P ls] by (simp add: fits_def)
  then show ?thesis
    using dsum_from_exact [of "map quantity (filter P ls)" k 0 28] assms by (auto simp: fits_def)
qed

lemma fits_held: "fits k ls \<Longrightarrow> dsum_from 28 0 (held i ls) = sum_list (held i ls)"
  and fits_held_side: "fits k ls \<Longrightarrow> dsum_from 28 0 (held_side i s ls) = sum_list (held_side i s ls)"
  unfolding held_def held_side_def by (rule fits_sum; assumption)+

lemma fits_append: "fits k (xs @ ys) \<Longrightarrow> fits k xs \<and> fits k ys"
proof -
  have "0 \<le> (\<Sum>l\<leftarrow>zs. \<bar>quantity l\<bar>)" for zs :: "LedgerLine list" by (induction zs) auto
  from this [of xs] this [of ys] show "fits k (xs @ ys) \<Longrightarrow> fits k xs \<and> fits k ys"
    by (auto simp: fits_def)
qed

lemma line_sides: "mk_LedgerLine l = Inr l' \<Longrightarrow> issue l \<noteq> None \<Longrightarrow> record_side l = OWNERSHIP \<or> record_side l = LOCATION"
  by (cases "record_side l") (auto simp: mk_LedgerLine_def is_security_def is_cash_def)

lemma held_split:
  "\<forall>l \<in> set ls. mk_LedgerLine l = Inr l \<Longrightarrow>
   sum_list (held i ls) = sum_list (held_side i OWNERSHIP ls) + sum_list (held_side i LOCATION ls)"
proof (induction ls)
  case (Cons l ls)
  then have "issue l \<noteq> None \<Longrightarrow> record_side l = OWNERSHIP \<or> record_side l = LOCATION"
    using line_sides [of l l] by simp
  with Cons show ?case by auto
qed simp

subsection \<open>The stock record\<close>

lemma side_of_add_to:
  "side_of (add_to s q m) t = (if s = t then rnd28 (side_of m t + q) else side_of m t)"
  by (auto simp: side_of_def add_to_lookup)

lemma side_of_Nil [simp]: "side_of [] s = 0"
  by (simp add: side_of_def)

lemma add_side_lookup:
  "map_of (add_side m l) i =
     (if issue l = Some i
      then Some (add_to (record_side l) (quantity l) (case map_of m i of None \<Rightarrow> [] | Some s \<Rightarrow> s))
      else map_of m i)"
  by (auto simp: add_side_def update_conv' split: option.splits)

lemma quantities_lookup:
  "case map_of (foldl add_side [] ls) i of
     None \<Rightarrow> held i ls = []
   | Some sides \<Rightarrow> \<forall>s. side_of sides s = dsum_from 28 0 (held_side i s ls)"
proof (induction ls rule: rev_induct)
  case (snoc l ls)
  have nil: "held i ls = [] \<Longrightarrow> held_side i s ls = []" for s
    by (auto simp: held_def held_side_def filter_empty_conv)
  show ?case
  proof (cases "issue l = Some i")
    case True
    let ?old = "case map_of (foldl add_side [] ls) i of None \<Rightarrow> [] | Some s \<Rightarrow> s"
    have old: "side_of ?old s = dsum_from 28 0 (held_side i s ls)" for s
      using snoc nil by (cases "map_of (foldl add_side [] ls) i") simp_all
    then have "side_of (add_to (record_side l) (quantity l) ?old) s =
        dsum_from 28 0 (held_side i s (ls @ [l]))" for s
      using True by (simp add: side_of_add_to dsum_from_snoc)
    with True show ?thesis by (simp add: add_side_lookup)
  next
    case False
    with snoc show ?thesis by (simp add: add_side_lookup split: option.splits)
  qed
qed simp

lemma distinct_quantities: "distinct (map fst (foldl add_side [] ls))"
  by (induction ls rule: rev_induct) (auto simp: add_side_def distinct_update split: option.splits)

definition open_for :: "string \<Rightarrow> StockRecordBreak list \<Rightarrow> StockRecordBreak list" where
  "open_for i brs = filter (\<lambda>b. break_issue b = i \<and> break_state b = ''OPEN'') brs"

lemma find_open_for:
  "find (\<lambda>b. break_issue b = i \<and> break_state b = ''OPEN'') brs =
     (case open_for i brs of [] \<Rightarrow> None | b # _ \<Rightarrow> Some b)"
  by (induction brs) (auto simp: open_for_def)

lemma open_for_append: "open_for j (xs @ ys) = open_for j xs @ open_for j ys"
  by (simp add: open_for_def)

lemma open_for_remove1: "open_for j (remove1 b brs) = remove1 b (open_for j brs)"
  by (simp add: open_for_def filter_remove1)

lemma open_for_members: "b \<in> set (open_for i brs) \<Longrightarrow> break_issue b = i \<and> break_state b = ''OPEN''"
  by (simp add: open_for_def)

text \<open>The difference the verification finds on one issue.\<close>

definition issue_difference ::
  "(string \<times> rat) list option \<Rightarrow> string \<Rightarrow> (RecordSide \<times> rat) list \<Rightarrow> rat" where
  "issue_difference observed i sides = rnd28 (side_of sides OWNERSHIP - location_of observed i sides)"

abbreviation checked ::
  "string \<Rightarrow> (string \<times> rat) list option \<Rightarrow> StockRecordBreak list \<Rightarrow>
   string \<times> (RecordSide \<times> rat) list \<Rightarrow> StockRecordBreak list" where
  "checked owner observed brs item \<equiv> fst (verify_issue owner observed brs item)"

lemma verify_issue_balanced:
  "issue_difference observed i sides = 0 \<Longrightarrow> verify_issue owner observed brs (i, sides) = (brs, None)"
  by (simp add: verify_issue_def mk_StockRecordBreak_def issue_difference_def Let_def)

lemma verify_issue_other:
  assumes "j \<noteq> i"
  shows "open_for j (checked owner observed brs (i, sides)) = open_for j brs"
proof -
  have "x \<notin> set (open_for j brs)" if "find (\<lambda>b. break_issue b = i \<and> break_state b = ''OPEN'') brs = Some x" for x
    using find_SomeD [OF that] assms open_for_members by blast
  then show ?thesis
    using assms
    by (cases "find (\<lambda>b. break_issue b = i \<and> break_state b = ''OPEN'') brs")
      (simp_all add: verify_issue_def mk_StockRecordBreak_def require_def Let_def open_for_append open_for_remove1 remove1_idem,
       simp_all add: open_for_def)
qed

lemma verify_issue_same:
  assumes "owner \<noteq> []" and "length (open_for i brs) \<le> 1" and "issue_difference observed i sides \<noteq> 0"
  shows "\<exists>b. open_for i (checked owner observed brs (i, sides)) = [b] \<and>
    difference b = issue_difference observed i sides"
proof (cases "open_for i brs")
  case Nil
  then have "find (\<lambda>b. break_issue b = i \<and> break_state b = ''OPEN'') brs = None"
    by (simp add: find_open_for)
  with assms(1,3) Nil show ?thesis
    by (simp add: verify_issue_def mk_StockRecordBreak_def issue_difference_def Let_def open_for_append) (simp add: open_for_def)
next
  case (Cons x xs)
  with assms(2) have x: "open_for i brs = [x]" by simp
  then have f: "find (\<lambda>b. break_issue b = i \<and> break_state b = ''OPEN'') brs = Some x"
    by (simp add: find_open_for)
  show ?thesis
  proof (cases "difference x = issue_difference observed i sides")
    case True
    with f assms(1,3) x show ?thesis by (simp add: verify_issue_def mk_StockRecordBreak_def issue_difference_def Let_def)
  next
    case False
    with f assms(1,3) x show ?thesis
      by (simp add: verify_issue_def mk_StockRecordBreak_def issue_difference_def Let_def open_for_append open_for_remove1)
        (simp add: open_for_def)
  qed
qed

text \<open>A refused break leaves at most the stale one gone.\<close>

lemma verify_issue_refused:
  "open_for i (checked [] observed brs (i, sides)) = open_for i brs \<or>
   (\<exists>x. open_for i (checked [] observed brs (i, sides)) = remove1 x (open_for i brs))"
  by (auto simp: verify_issue_def mk_StockRecordBreak_def require_def Let_def open_for_remove1)

lemma verify_issue_one_open:
  "\<forall>j. length (open_for j brs) \<le> 1 \<Longrightarrow> length (open_for j (checked owner observed brs (i, sides))) \<le> 1"
proof (cases "j = i \<and> issue_difference observed i sides \<noteq> 0")
  case False
  assume "\<forall>j. length (open_for j brs) \<le> 1"
  with False show ?thesis
    using verify_issue_other [of j i owner observed brs sides] verify_issue_balanced [of observed i sides owner brs]
    by (cases "j = i") simp_all
next
  case True
  assume le: "\<forall>j. length (open_for j brs) \<le> 1"
  show ?thesis
  proof (cases "owner = []")
    case False
    with True show ?thesis using verify_issue_same [OF False, of i brs observed sides] le by auto
  next
    case unowned: True
    have "length (remove1 x (open_for i brs)) \<le> 1" for x
      using le by (simp add: length_remove1 le_diff_conv trans_le_add1)
    then show ?thesis using unowned True le verify_issue_refused [of i observed brs sides] by auto
  qed
qed

lemma verify_issues_one_open:
  "\<forall>j. length (open_for j brs) \<le> 1 \<Longrightarrow>
   \<forall>j. length (open_for j (fst (verify_issues owner observed brs items))) \<le> 1"
proof (induction items arbitrary: brs)
  case (Cons item items)
  have "\<forall>j. length (open_for j (checked owner observed brs item)) \<le> 1"
    using verify_issue_one_open [OF Cons.prems] by (cases item) blast
  with Cons.IH show ?case by (auto split: prod.splits option.splits)
qed simp

text \<open>An owner that is named is never refused, and the loop is a fold.\<close>

lemma verify_issue_owned: "owner \<noteq> [] \<Longrightarrow> snd (verify_issue owner observed brs item) = None"
  by (cases item) (simp add: verify_issue_def mk_StockRecordBreak_def Let_def)

lemma verify_issues_owned:
  "owner \<noteq> [] \<Longrightarrow> verify_issues owner observed brs items = (foldl (checked owner observed) brs items, None)"
proof (induction items arbitrary: brs)
  case (Cons item items)
  then show ?case
    using verify_issue_owned [of owner observed brs item] by (cases "verify_issue owner observed brs item") simp
qed simp

lemma verify_stock_record_owned:
  assumes "books_break_owner b \<noteq> []"
  shows "verify_stock_record b observed =
    (let brs = foldl (checked (books_break_owner b) observed) (stock_breaks b) (quantities b)
     in (b\<lparr>stock_breaks := brs\<rparr>, Inr brs))"
  using verify_issues_owned [OF assms] by (simp add: verify_stock_record_def Let_def)

lemma verify_fold:
  "owner \<noteq> [] \<Longrightarrow> distinct (map fst items) \<Longrightarrow> \<forall>j. length (open_for j brs) \<le> 1 \<Longrightarrow>
   (\<forall>j. length (open_for j (foldl (checked owner observed) brs items)) \<le> 1) \<and>
   (case map_of items i of
      None \<Rightarrow> open_for i (foldl (checked owner observed) brs items) = open_for i brs
    | Some sides \<Rightarrow>
        if issue_difference observed i sides = 0
        then open_for i (foldl (checked owner observed) brs items) = open_for i brs
        else \<exists>b. open_for i (foldl (checked owner observed) brs items) = [b] \<and>
               difference b = issue_difference observed i sides)"
proof (induction items arbitrary: brs)
  case (Cons item items)
  obtain k sides where item: "item = (k, sides)" by (cases item)
  let ?brs = "checked owner observed brs (k, sides)"
  have one: "\<forall>j. length (open_for j ?brs) \<le> 1"
    using verify_issue_one_open [OF Cons.prems(3)] by blast
  have d: "distinct (map fst items)" using Cons.prems(2) by simp
  note ih = Cons.IH [OF Cons.prems(1) d one]
  show ?case
  proof (cases "k = i")
    case True
    then have none: "map_of items i = None" using Cons.prems(2) by (auto simp: item map_of_eq_None_iff)
    show ?thesis
      using ih True none verify_issue_same [of owner i brs observed sides] Cons.prems(1,3)
        verify_issue_balanced [of observed i sides owner brs]
      by (auto simp: item)
  next
    case False
    then have "i \<noteq> k" by simp
    then have o: "open_for i ?brs = open_for i brs" by (rule verify_issue_other)
    have l: "map_of (item # items) i = map_of items i" using \<open>i \<noteq> k\<close> by (simp add: item)
    have f: "foldl (checked owner observed) brs (item # items) = foldl (checked owner observed) ?brs items"
      by (simp add: item)
    show ?thesis unfolding l f by (rule ih [unfolded o])
  qed
qed simp


subsection \<open>Steps and the invariant\<close>

text \<open>An entry is constructed from constructed lines.\<close>

fun mk_lines :: "LedgerLine list \<Rightarrow> (ledger_error, LedgerLine list) result" where
  "mk_lines [] = Inr []"
| "mk_lines (l # ls) =
     (case mk_LedgerLine l of
        Inl e \<Rightarrow> Inl e
      | Inr l' \<Rightarrow> (case mk_lines ls of Inl e \<Rightarrow> Inl e | Inr ls' \<Rightarrow> Inr (l' # ls')))"

definition build_entry :: "JournalEntry \<Rightarrow> (ledger_error, JournalEntry) result" where
  "build_entry e = (case mk_lines (entry_lines e) of Inl err \<Rightarrow> Inl err | Inr _ \<Rightarrow> mk_JournalEntry e)"

lemma mk_LedgerLine_same: "mk_LedgerLine l = Inr l' \<Longrightarrow> l' = l"
  by (simp add: mk_LedgerLine_def)

lemma mk_lines_Inr: "mk_lines ls = Inr ls' \<Longrightarrow> ls' = ls \<and> (\<forall>l \<in> set ls. mk_LedgerLine l = Inr l)"
  by (induction ls arbitrary: ls') (auto split: sum.splits dest: mk_LedgerLine_same)

lemma mk_JournalEntry_same: "mk_JournalEntry e = Inr e' \<Longrightarrow> e' = e"
  by (simp add: mk_JournalEntry_def Let_def)

lemma build_entry_Inr:
  "build_entry e = Inr e' \<Longrightarrow>
   e' = e \<and> mk_JournalEntry e = Inr e \<and> (\<forall>l \<in> set (entry_lines e). mk_LedgerLine l = Inr l)"
  by (auto simp: build_entry_def split: sum.splits dest: mk_lines_Inr mk_JournalEntry_same)

datatype books_op = Post JournalEntry | Verify "(string \<times> rat) list option"

fun books_step ::
  "(JournalEntry \<Rightarrow> 'b) \<Rightarrow> EquitiesBooks \<Rightarrow> books_op \<Rightarrow> (ledger_error, EquitiesBooks) result" where
  "books_step canon b (Post e) =
     (case build_entry e of
        Inl err \<Rightarrow> Inl err
      | Inr e' \<Rightarrow> (case post canon b e' of Inl err \<Rightarrow> Inl err | Inr (b', res) \<Rightarrow> Inr b'))"
| "books_step canon b (Verify observed) = Inr (fst (verify_stock_record b observed))"

definition books_inv :: "EquitiesBooks \<Rightarrow> bool" where
  "books_inv b \<longleftrightarrow>
     by_source b = map (\<lambda>e. (source_event_id e, e)) (entries b) \<and>
     distinct (map source_event_id (entries b)) \<and>
     (\<forall>e \<in> set (entries b). build_entry e = Inr e) \<and>
     (\<forall>i < length (entries b). \<forall>r. reverses_entry_id (entries b ! i) = Some r \<longrightarrow>
        (\<exists>j < i. entry_id (entries b ! j) = r)) \<and>
     (\<forall>i. length (open_for i (stock_breaks b)) \<le> 1)"

lemma post_cases:
  assumes "post canon b e = Inr (b', res)"
  obtains (repeated) original where "map_of (by_source b) (source_event_id e) = Some original" "b' = b"
      "posted res = False" "result_entry res = original"
      "reused_with_different_economics res = (canon original \<noteq> canon e)"
  | (fresh) "map_of (by_source b) (source_event_id e) = None"
      "entries b' = entries b @ [e]" "by_source b' = by_source b @ [(source_event_id e, e)]"
      "stock_breaks b' = stock_breaks b" "posted res = True" "result_entry res = e"
      "\<forall>r. reverses_entry_id e = Some r \<longrightarrow> (\<exists>p \<in> set (entries b). entry_id p = r)"
proof (cases "map_of (by_source b) (source_event_id e)")
  case None
  with assms have "\<forall>r. reverses_entry_id e = Some r \<longrightarrow> (\<exists>p \<in> set (entries b). entry_id p = r)"
    by (auto simp: post_def list_ex_iff)
  with None assms show ?thesis by (intro fresh) (auto simp: post_def)
next
  case (Some original)
  with assms show ?thesis by (intro repeated) (auto simp: post_def)
qed

lemma post_inv:
  assumes "books_inv b" and "build_entry e = Inr e" and "post canon b e = Inr (b', res)"
  shows "books_inv b'"
  using assms(3)
proof (cases rule: post_cases)
  case fresh
  have "source_event_id e \<notin> source_event_id ` set (entries b)"
    using fresh(1) assms(1) by (simp add: books_inv_def map_of_eq_None_iff image_image)
  moreover have "\<exists>j < i. entry_id (entries b' ! j) = r"
    if i: "i < length (entries b')" and r: "reverses_entry_id (entries b' ! i) = Some r" for i r
  proof (cases "i < length (entries b)")
    case True
    with r have "reverses_entry_id (entries b ! i) = Some r" by (simp add: fresh(2) nth_append)
    with assms(1) True obtain j where "j < i" "entry_id (entries b ! j) = r"
      unfolding books_inv_def by blast
    with True show ?thesis by (intro exI [of _ j]) (simp add: fresh(2) nth_append)
  next
    case False
    with i have l: "i = length (entries b)" by (simp add: fresh(2))
    with r have "reverses_entry_id e = Some r" by (simp add: fresh(2))
    then obtain j where "j < length (entries b)" "entry_id (entries b ! j) = r"
      using fresh(7) by (metis in_set_conv_nth)
    with l show ?thesis by (intro exI [of _ j]) (simp add: fresh(2) nth_append)
  qed
  ultimately show ?thesis
    using assms(1,2) fresh(2,3,4) by (simp add: books_inv_def)
qed (use assms(1) in simp)

lemma books_step_inv: "books_inv b \<Longrightarrow> books_step canon b x = Inr b' \<Longrightarrow> books_inv b'"
proof (cases x)
  case (Post e)
  assume "books_inv b" "books_step canon b x = Inr b'"
  then show ?thesis
    using Post build_entry_Inr [of e] by (auto split: sum.splits intro: post_inv)
next
  case (Verify obs)
  assume "books_inv b" "books_step canon b x = Inr b'"
  then show ?thesis
    using Verify verify_issues_one_open [of "stock_breaks b" "books_break_owner b" obs "quantities b"]
    by (auto simp: books_inv_def verify_stock_record_def split: prod.splits option.splits)
qed

lemma books_step_appends: "books_step canon b x = Inr b' \<Longrightarrow> \<exists>es. entries b' = entries b @ es"
  by (cases x)
    (auto simp: verify_stock_record_def split: sum.splits prod.splits option.splits elim!: post_cases)

interpretation journal: append_log books_inv "books_step canon" entries for canon
  by unfold_locales (auto intro: books_step_inv dest: books_step_appends)

abbreviation run_books ::
  "(JournalEntry \<Rightarrow> 'b) \<Rightarrow> EquitiesBooks \<Rightarrow> books_op list \<Rightarrow> EquitiesBooks" where
  "run_books canon \<equiv> run_calls (books_step canon)"

lemma new_books_inv: "books_inv (new_books owner)"
  by (simp add: books_inv_def new_books_def open_for_def)

lemma post_owner: "post canon b e = Inr (b', res) \<Longrightarrow> books_break_owner b' = books_break_owner b"
  by (auto simp: post_def split: option.splits)

lemma books_step_owner: "books_step canon b x = Inr b' \<Longrightarrow> books_break_owner b' = books_break_owner b"
  by (cases x) (auto simp: verify_stock_record_def split: sum.splits prod.splits option.splits dest: post_owner)

lemma journal_owner: "books_break_owner (run_books canon b ops) = books_break_owner b"
proof (induction ops arbitrary: b)
  case (Cons x ops)
  then show ?case by (auto simp: attempt_def split: sum.splits dest: books_step_owner)
qed simp

lemma journal_inv: "books_inv (run_books canon (new_books owner) ops)"
  by (rule journal.run_inv) (rule new_books_inv)

subsection \<open>The journal\<close>

text \<open>
  C9: the journal is append-only and posts an event once. Whatever is posted, refused or
  verified afterwards, what was posted stays in its place; no two entries record the same source
  event; and posting an event that is already recorded changes nothing and returns the entry
  that recorded it, saying whether the economics differ.
\<close>

theorem journal_posts_each_event_once:
  "(\<exists>es. entries (run_books canon (run_books canon (new_books owner) ops) ops') =
          entries (run_books canon (new_books owner) ops) @ es) \<and>
   distinct (map source_event_id (entries (run_books canon (new_books owner) ops))) \<and>
   (\<forall>original \<in> set (entries (run_books canon (new_books owner) ops)). \<forall>e.
      source_event_id e = source_event_id original \<longrightarrow>
      (\<exists>res. post canon (run_books canon (new_books owner) ops) e =
               Inr (run_books canon (new_books owner) ops, res) \<and>
             \<not> posted res \<and> result_entry res = original \<and>
             reused_with_different_economics res = (canon original \<noteq> canon e)))"
proof -
  let ?b = "run_books canon (new_books owner) ops"
  have i: "books_inv ?b" by (rule journal_inv)
  have d: "distinct (map source_event_id (entries ?b))" using i unfolding books_inv_def by blast
  have "\<exists>res. post canon ?b e = Inr (?b, res) \<and> \<not> posted res \<and> result_entry res = original \<and>
      reused_with_different_economics res = (canon original \<noteq> canon e)"
    if o: "original \<in> set (entries ?b)" and e: "source_event_id e = source_event_id original" for original e
  proof -
    have "map_of (map (\<lambda>e. (source_event_id e, e)) (entries ?b)) (source_event_id original) = Some original"
      using d o by (intro map_of_is_SomeI) (auto simp: comp_def)
    then have "map_of (by_source ?b) (source_event_id e) = Some original"
      using i e unfolding books_inv_def by simp
    then show ?thesis by (simp add: post_def)
  qed
  with d journal.run_appends [of canon ?b ops'] show ?thesis by blast
qed

lemma balanced_entry:
  assumes "build_entry e = Inr e" and "fits k (entry_lines e)"
  shows "sum_list (held i (entry_lines e)) = 0"
proof -
  have "unbalanced (issue_totals (entry_lines e)) = []"
    using build_entry_Inr [OF assms(1)] by (simp add: mk_JournalEntry_def Let_def)
  then show ?thesis using balanced_issues fits_held [OF assms(2)] by metis
qed

lemma fits_entry: "fits k (concat (map entry_lines es)) \<Longrightarrow> e \<in> set es \<Longrightarrow> fits k (entry_lines e)"
  by (induction es) (auto dest: fits_append)

lemma held_concat: "held i (concat (map entry_lines es)) = concat (map (\<lambda>e. held i (entry_lines e)) es)"
  by (induction es) simp_all

lemma sum_list_concat_0: "\<forall>e \<in> set es. sum_list (g e) = (0 :: rat) \<Longrightarrow> sum_list (concat (map g es)) = 0"
  by (induction es) simp_all

text \<open>
  every issue balances. In any journal the calls can reach, on amounts the default context
  adds exactly, what all entries record as owned of an issue and what they record as located
  cancel, entry by entry and in total.
\<close>

theorem journal_balances_every_issue:
  assumes "fits k (concat (map entry_lines (entries (run_books canon (new_books owner) ops))))"
  shows "(\<forall>e \<in> set (entries (run_books canon (new_books owner) ops)).
      sum_list (held_side i OWNERSHIP (entry_lines e)) + sum_list (held_side i LOCATION (entry_lines e)) = 0) \<and>
    sum_list (held i (concat (map entry_lines (entries (run_books canon (new_books owner) ops))))) = 0"
proof -
  let ?es = "entries (run_books canon (new_books owner) ops)"
  have b: "\<forall>e \<in> set ?es. build_entry e = Inr e" using journal_inv [of canon owner ops] unfolding books_inv_def by blast
  have z: "sum_list (held i (entry_lines e)) = 0" if "e \<in> set ?es" for e
    using b that balanced_entry fits_entry [OF assms that] by blast
  moreover have "sum_list (held i (entry_lines e)) =
      sum_list (held_side i OWNERSHIP (entry_lines e)) + sum_list (held_side i LOCATION (entry_lines e))"
    if "e \<in> set ?es" for e
    using b that build_entry_Inr held_split by blast
  ultimately show ?thesis
    using z sum_list_concat_0 [of ?es "\<lambda>e. held i (entry_lines e)"] by (auto simp: held_concat)
qed

text \<open>
  the verification of the stock record reports exactly the differences. After it has run on
  any reachable journal, an issue the journal holds and whose owned quantity differs from the
  location has one open break carrying that difference, however often it ran before.
\<close>

theorem stock_record_reports_differences:
  fixes ops :: "books_op list" and i :: string
  assumes "owner \<noteq> []"
  shows "\<exists>brs. snd (verify_stock_record (run_books canon (new_books owner) ops) observed) = Inr brs \<and> (case map_of (quantities (run_books canon (new_books owner) ops)) i of
     None \<Rightarrow> held i (concat (map entry_lines (entries (run_books canon (new_books owner) ops)))) = []
   | Some sides \<Rightarrow>
       issue_difference observed i sides = 0 \<or>
       (\<exists>b. open_for i brs = [b] \<and> difference b = issue_difference observed i sides))"
proof -
  let ?b = "run_books canon (new_books owner) ops"
  have own: "books_break_owner ?b \<noteq> []" using assms by (simp add: journal_owner new_books_def)
  have "\<forall>j. length (open_for j (stock_breaks ?b)) \<le> 1"
    using journal_inv [of canon owner ops] unfolding books_inv_def by blast
  moreover have "distinct (map fst (quantities ?b))" by (simp add: quantities_def distinct_quantities)
  ultimately have fold: "issue_difference observed i sides = 0 \<or>
        (\<exists>b. open_for i (foldl (checked (books_break_owner ?b) observed) (stock_breaks ?b) (quantities ?b)) = [b] \<and>
             difference b = issue_difference observed i sides)"
    if "map_of (quantities ?b) i = Some sides" for sides
    using verify_fold [OF own, where items = "quantities ?b" and brs = "stock_breaks ?b" and observed = observed and i = i]
    unfolding that option.case by (metis (full_types))
  have run: "snd (verify_stock_record ?b observed) =
      Inr (foldl (checked (books_break_owner ?b) observed) (stock_breaks ?b) (quantities ?b))"
    by (simp add: verify_stock_record_owned [OF own] Let_def)
  show ?thesis
  proof (cases "map_of (quantities ?b) i")
    case None
    then show ?thesis
      using run quantities_lookup [where ls = "concat (map entry_lines (entries ?b))" and i = i]
      by (simp add: quantities_def)
  next
    case (Some sides)
    show ?thesis unfolding Some option.case run using fold [OF Some] by blast
  qed
qed

lemma dsum_28_stable: "rnd28 (dsum_from 28 0 xs) = dsum_from 28 0 xs"
  by (cases xs rule: rev_cases) (simp_all add: dsum_from_snoc dround_idem)

lemma verify_issues_fixed:
  "\<forall>item \<in> set items. verify_issue owner observed brs item = (brs, None) \<Longrightarrow>
   verify_issues owner observed brs items = (brs, None)"
  by (induction items) simp_all

text \<open>
  a journal of balanced entries has no internal stock-record break: verified against its own
  location side, on amounts the default context adds exactly, it reports nothing new.
\<close>

theorem internal_stock_record_balances:
  assumes "fits k (concat (map entry_lines (entries (run_books canon (new_books owner) ops))))"
  shows "verify_stock_record (run_books canon (new_books owner) ops) None =
    (run_books canon (new_books owner) ops, Inr (stock_breaks (run_books canon (new_books owner) ops)))"
proof -
  let ?b = "run_books canon (new_books owner) ops"
  let ?ls = "concat (map entry_lines (entries ?b))"
  have ok: "\<forall>e \<in> set (entries ?b). build_entry e = Inr e"
    using journal_inv [of canon owner ops] unfolding books_inv_def by blast
  have "issue_difference None i sides = 0" if "(i, sides) \<in> set (quantities ?b)" for i sides
  proof -
    have "map_of (quantities ?b) i = Some sides"
      using that distinct_quantities by (simp add: quantities_def)
    then have base: "side_of sides s = dsum_from 28 0 (held_side i s ?ls)" for s
      using quantities_lookup [where ls = ?ls and i = i] by (simp add: quantities_def)
    then have stable: "rnd28 (side_of sides s) = side_of sides s" for s
      by (simp add: dsum_28_stable)
    have sides: "side_of sides s = sum_list (held_side i s ?ls)" for s
      using base fits_held_side [OF assms] by simp
    have lines: "\<forall>l \<in> set ?ls. mk_LedgerLine l = Inr l" using ok build_entry_Inr by fastforce
    have "sum_list (held i (entry_lines e)) = 0" if "e \<in> set (entries ?b)" for e
      using ok that balanced_entry fits_entry [OF assms that] by blast
    then have "sum_list (held i ?ls) = 0" unfolding held_concat by (intro sum_list_concat_0) blast
    then have "side_of sides OWNERSHIP + side_of sides LOCATION = 0"
      using held_split [OF lines] by (simp add: sides)
    moreover have "location_of None i sides = - side_of sides LOCATION"
      using stable [of LOCATION] by (simp add: location_of_def dround_minus)
    ultimately show ?thesis by (simp add: issue_difference_def add_eq_0_iff)
  qed
  then have "\<forall>item \<in> set (quantities ?b).
      verify_issue (books_break_owner ?b) None (stock_breaks ?b) item = (stock_breaks ?b, None)"
    using verify_issue_balanced by fast
  then have "verify_issues (books_break_owner ?b) None (stock_breaks ?b) (quantities ?b) = (stock_breaks ?b, None)"
    by (rule verify_issues_fixed)
  then show ?thesis by (simp add: verify_stock_record_def)
qed

subsection \<open>Two gaps of the verification, and witnesses\<close>

text \<open>One settled purchase: 100 of X owned by a customer, held at the depository.\<close>

definition w_line :: "AccountType \<Rightarrow> RecordSide \<Rightarrow> rat \<Rightarrow> LedgerLine" where
  "w_line acct s q = \<lparr>account_id = ''1'', account_type = acct, record_side = s, issue = Some ''X'',
     quantity = q, currency = None, money = 0\<rparr>"

definition w_entry :: JournalEntry where
  "w_entry = \<lparr>entry_id = ''J1'', source_event_id = ''EV1'', source = CNS_SETTLEMENT, effective_date = 739803,
     effective_date_basis = ''SETTLEMENT_DATE'', authority = ''ops'',
     entry_lines = [w_line CUSTOMER_CASH OWNERSHIP 100, w_line DTC LOCATION (- 100)],
     posting = \<lparr>posted_record_id = ''P1'', posting_authority = ''ops'', effective_time = 0,
       posting_source_event_id = ''EV1'', provenance = FACT_EXTERNAL\<rparr>,
     reserve_source_facts = [], reverses_entry_id = None, synthetic = False\<rparr>"

definition w_books :: EquitiesBooks where
  "w_books = run_books entry_id (new_books ''desk'') [Post w_entry]"

lemma w_entry_builds: "build_entry w_entry = Inr w_entry"
  by (simp add: build_entry_def mk_JournalEntry_def mk_LedgerLine_def is_security_def is_cash_def
      w_entry_def w_line_def date_bases_def issue_totals_def money_totals_def add_to_def unbalanced_def
      reserve_lines_def reserve_facts_def reserve_account_def Let_def)

lemma w_books_state:
  "w_books = \<lparr>books_break_owner = ''desk'', entries = [w_entry], by_source = [(''EV1'', w_entry)],
     stock_breaks = []\<rparr>"
proof -
  have "source_event_id w_entry = ''EV1''" "reverses_entry_id w_entry = None" by (simp_all add: w_entry_def)
  then show ?thesis
    by (simp add: w_books_def attempt_def w_entry_builds post_def new_books_def)
qed

lemma w_quantities: "quantities w_books = [(''X'', [(OWNERSHIP, 100), (LOCATION, - 100)])]"
  by (simp add: w_books_state quantities_def add_side_def add_to_def w_entry_def w_line_def)

lemma w_fits: "fits 0 (concat (map entry_lines (entries w_books)))"
  using on_grid_of_int [of 0 100] on_grid_of_int [of 0 "- 100"]
  by (simp add: fits_def w_books_state w_entry_def w_line_def power_int_def)

text \<open>
  a break that heals is never closed. With 100 owned and 90 observed at the depository the
  verification opens a break of 10; when the depository next shows 100 the break is still
  reported open, with its old difference.
\<close>

theorem healed_break_stays_open:
  "\<exists>brs. snd (verify_stock_record w_books (Some [(''X'', 90)])) = Inr brs \<and> map difference brs = [10] \<and>
     snd (verify_stock_record (fst (verify_stock_record w_books (Some [(''X'', 90)]))) (Some [(''X'', 100)])) = Inr brs"
proof -
  have first: "verify_stock_record w_books (Some [(''X'', 90)]) =
      (w_books\<lparr>stock_breaks := [\<lparr>break_id = (''X'', 1), break_issue = ''X'', ownership_quantity = 100,
         location_quantity = 90, difference = 10, break_owner = ''desk'', break_state = ''OPEN''\<rparr>]\<rparr>,
       Inr [\<lparr>break_id = (''X'', 1), break_issue = ''X'', ownership_quantity = 100, location_quantity = 90,
         difference = 10, break_owner = ''desk'', break_state = ''OPEN''\<rparr>])" (is "_ = (?b, Inr ?brs)")
    by (simp add: verify_stock_record_def w_quantities)
      (simp add: w_books_state verify_issue_def mk_StockRecordBreak_def side_of_def location_of_def Let_def)
  have "quantities ?b = quantities w_books" by (simp add: quantities_def)
  then have "verify_stock_record ?b (Some [(''X'', 100)]) = (?b, Inr ?brs)"
    by (simp add: verify_stock_record_def w_quantities verify_issue_def side_of_def location_of_def Let_def)
  with first show ?thesis by simp
qed

text \<open>
  the verification looks only at issues the journal holds. Shares the depository shows of an
  issue that was never posted, here 500 of Y, are not reported as a difference.
\<close>

theorem unposted_issue_is_not_verified:
  "snd (verify_stock_record w_books (Some [(''X'', 100), (''Y'', 500)])) = Inr []"
  by (simp add: verify_stock_record_def w_quantities)
    (simp add: w_books_state verify_issue_def side_of_def location_of_def Let_def)

text \<open>Books without an owner for their breaks are accepted; the first break is what is refused.\<close>

theorem unowned_break_is_refused:
  "snd (verify_stock_record (w_books\<lparr>books_break_owner := []\<rparr>) (Some [(''X'', 90)])) = Inl Break_Owner_Empty"
proof -
  have "quantities (w_books\<lparr>books_break_owner := []\<rparr>) = quantities w_books" by (simp add: quantities_def)
  then show ?thesis
    by (simp add: verify_stock_record_def w_quantities)
      (simp add: w_books_state verify_issue_def mk_StockRecordBreak_def side_of_def location_of_def Let_def)
qed

theorem journal_posts_each_event_once_witness:
  "\<exists>res. post entry_id w_books (w_entry\<lparr>entry_id := ''J2''\<rparr>) = Inr (w_books, res) \<and> \<not> posted res \<and>
     reused_with_different_economics res"
proof -
  have "w_entry \<in> set (entries w_books)" "source_event_id (w_entry\<lparr>entry_id := ''J2''\<rparr>) = source_event_id w_entry"
    by (simp_all add: w_books_state)
  then obtain res where r: "post entry_id w_books (w_entry\<lparr>entry_id := ''J2''\<rparr>) = Inr (w_books, res)"
    "\<not> posted res" "reused_with_different_economics res = (entry_id w_entry \<noteq> entry_id (w_entry\<lparr>entry_id := ''J2''\<rparr>))"
    using journal_posts_each_event_once [of entry_id "''desk''" "[Post w_entry]" "[]"]
    unfolding w_books_def [symmetric] by blast
  moreover have "entry_id w_entry \<noteq> entry_id (w_entry\<lparr>entry_id := ''J2''\<rparr>)" by (simp add: w_entry_def)
  ultimately show ?thesis by blast
qed

theorem journal_balances_every_issue_witness:
  "sum_list (held ''X'' (concat (map entry_lines (entries w_books)))) = 0"
  using journal_balances_every_issue [OF w_fits [unfolded w_books_def]]
  unfolding w_books_def [symmetric] by blast

theorem internal_stock_record_balances_witness:
  "verify_stock_record w_books None = (w_books, Inr [])"
  using internal_stock_record_balances [OF w_fits [unfolded w_books_def]]
  unfolding w_books_def [symmetric] by (simp add: w_books_state)

end
