(* ===== verification/Books_Projections_Props.thy ===== *)
theory Books_Projections_Props
  imports Books_Projections Ledger_Props
begin

text \<open>
  What the projections of the journal keep of it (\<open>books/projections.py\<close>): the type of an account,
  the balances handed to margin, the conservation of the holdings handed to the control check, and
  when the Exhibit A lines can be projected at all.
\<close>

subsection \<open>Dicts of sums\<close>

lemma sum_by_lookup:
  "map_of (sum_by kas) k = (if amounts k kas = [] then None else Some (dsum_from 28 0 (amounts k kas)))"
  unfolding sum_by_def by (rule totals_lookup)

lemma distinct_sum_by: "distinct (map fst (sum_by kas))"
  unfolding sum_by_def by (rule distinct_totals)

lemma amounts_map: "amounts k (map (\<lambda>l. (f l, g l)) (filter Q ls)) = map g (filter (\<lambda>l. Q l \<and> f l = k) ls)"
  by (induction ls) (auto simp: amounts_def)

lemma entry_or_sum_by: "entry_or 0 (sum_by kas) k = dsum_from 28 0 (amounts k kas)"
  by (simp add: entry_or_def sum_by_lookup)

subsection \<open>One type for an account\<close>

definition booked_as :: "LedgerLine list \<Rightarrow> string \<Rightarrow> AccountType \<Rightarrow> bool" where
  "booked_as ls a t \<longleftrightarrow> t \<in> OWNERSHIP_ACCOUNT_TYPES \<and>
     (\<exists>l \<in> set ls. LedgerLine.account_id l = a \<and> account_type l = t)"

lemma classify_lines_spec:
  "case classify_lines ls m of
     Inr m' \<Rightarrow> (\<forall>a t. map_of m' a = Some t \<longleftrightarrow> map_of m a = Some t \<or> map_of m a = None \<and> booked_as ls a t) \<and>
       (\<forall>a t. booked_as ls a t \<longrightarrow> map_of m' a = Some t)
   | Inl e \<Rightarrow> \<exists>a t t'. e = Two_Types a t t' \<and> t \<noteq> t' \<and> booked_as ls a t' \<and> (map_of m a = Some t \<or> booked_as ls a t)"
proof (induction ls m rule: classify_lines.induct)
  case (1 m)
  then show ?case by (simp add: booked_as_def)
next
  case (2 l ls m)
  have step: "booked_as (l # ls) a t \<longleftrightarrow>
      (account_type l \<in> OWNERSHIP_ACCOUNT_TYPES \<and> LedgerLine.account_id l = a \<and> account_type l = t) \<or> booked_as ls a t" for a t
    by (auto simp: booked_as_def)
  show ?case
  proof (cases "account_type l \<in> OWNERSHIP_ACCOUNT_TYPES")
    case False
    then have same: "booked_as (l # ls) a t \<longleftrightarrow> booked_as ls a t" for a t by (auto simp: step)
    have "classify_lines (l # ls) m = classify_lines ls m" using False by simp
    then show ?thesis unfolding same by (simp only: 2(1) [OF False])
  next
    case own: True
    show ?thesis
    proof (cases "map_of m (LedgerLine.account_id l)")
      case None
      let ?a = "LedgerLine.account_id l" and ?m = "m @ [(LedgerLine.account_id l, account_type l)]"
      have c: "classify_lines (l # ls) m = classify_lines ls ?m" using own None by simp
      have new: "map_of ?m a = Some t \<longleftrightarrow> (if a = ?a then t = account_type l else map_of m a = Some t)"
        "map_of ?m a = None \<longleftrightarrow> a \<noteq> ?a \<and> map_of m a = None" for a t
        using None by (auto simp: map_add_Some_iff)
      show ?thesis
      proof (cases "classify_lines ls ?m")
        case (Inl e)
        then show ?thesis using 2(2) own None unfolding c by (auto simp: new step split: if_splits)
      next
        case (Inr m')
        then have ih: "map_of m' a = Some t \<longleftrightarrow> map_of ?m a = Some t \<or> map_of ?m a = None \<and> booked_as ls a t"
          "booked_as ls a t \<Longrightarrow> map_of m' a = Some t" for a t
          using 2(2) own None by simp_all
        have here: "map_of m' ?a = Some t \<longleftrightarrow> t = account_type l" for t unfolding ih(1) new by simp
        then have only: "booked_as ls ?a t \<Longrightarrow> t = account_type l" for t using ih(2) by blast
        have other: "map_of m' a = Some t \<longleftrightarrow> map_of m a = Some t \<or> map_of m a = None \<and> booked_as ls a t" if "a \<noteq> ?a" for a t
          unfolding ih(1) new using that by simp
        have "map_of m' a = Some t \<longleftrightarrow> map_of m a = Some t \<or> map_of m a = None \<and> booked_as (l # ls) a t" for a t
          using here only other None own by (cases "a = ?a") (auto simp: step)
        moreover have "booked_as (l # ls) a t \<Longrightarrow> map_of m' a = Some t" for a t
          using here ih(2) by (auto simp: step)
        ultimately show ?thesis using Inr unfolding c by simp
      qed
    next
      case (Some t)
      then show ?thesis using 2(3) [OF _ Some] own
        by (auto simp: step require_def split: sum.splits)
    qed
  qed
qed

text \<open>
  An account has one type or the journal is refused: the classification gives each account exactly the
  ownership type its lines book it under, and raises exactly when an account is booked under two.
\<close>

theorem account_types_are_unique:
  "case classify_accounts b of
     Inr m \<Rightarrow> \<forall>a t. map_of m a = Some t \<longleftrightarrow> booked_as (book_lines b) a t
   | Inl e \<Rightarrow> \<exists>a t t'. e = Two_Types a t t' \<and> t \<noteq> t' \<and> booked_as (book_lines b) a t \<and> booked_as (book_lines b) a t'"
  using classify_lines_spec [of "book_lines b" "[]"] by (simp add: classify_accounts_def split: sum.splits) blast

subsection \<open>Margin accounts\<close>

definition customer_lines_of :: "EquitiesBooks \<Rightarrow> string \<Rightarrow> LedgerLine list" where
  "customer_lines_of b a = filter (\<lambda>l. customer_account (account_type l) \<and> LedgerLine.account_id l = a) (book_lines b)"

lemma positions_lookup:
  "entry_or [] (foldl add_position [] ls) a =
   sum_by (map (\<lambda>l. (the (LedgerLine.issue l), LedgerLine.quantity l)) (filter (\<lambda>l. LedgerLine.account_id l = a) ls))"
proof (induction ls rule: rev_induct)
  case (snoc l ls)
  then show ?case
    by (auto simp: add_position_def entry_or_def update_conv' sum_by_def)
qed (simp add: entry_or_def sum_by_def)

lemma owned_of_customer:
  "entry_or [] (customer_positions b) a =
   sum_by (map (\<lambda>l. (the (LedgerLine.issue l), LedgerLine.quantity l)) (filter owned (customer_lines_of b a)))"
  unfolding customer_positions_def positions_lookup customer_lines_of_def
  by (simp add: filter_filter conj_commute conj_left_commute)

lemma collect_Inr_map: "collect xs = Inr ys \<longleftrightarrow> xs = map Inr ys"
  by (induction xs arbitrary: ys) (auto simp: Cons_eq_map_conv split: sum.splits)

lemma collect_Inr_iff: "collect xs = Inr ys \<longleftrightarrow> list_all2 (\<lambda>x y. x = Inr y) xs ys"
  by (auto simp: collect_Inr_map list_all2_conv_all_nth list_eq_iff_nth_eq)

lemma list_all2_in1: "list_all2 R xs ys \<Longrightarrow> x \<in> set xs \<Longrightarrow> \<exists>y \<in> set ys. R x y"
  and list_all2_in2: "list_all2 R xs ys \<Longrightarrow> y \<in> set ys \<Longrightarrow> \<exists>x \<in> set xs. R x y"
  by (induction rule: list_all2_induct) auto

lemma margin_account_fields:
  assumes "margin_account b prices new a = Inr x"
  shows "MarginAccount.account_id x = a" "cash_balance x = entry_or 0 (customer_cash b) a"
    "list_all2 (\<lambda>iq p. MarginPosition.issue p = fst iq \<and> quantity p = snd iq \<and> prices (fst iq) = Some (price p))
       (filter (\<lambda>(_, q). q \<noteq> 0) (sort_key fst (entry_or [] (customer_positions b) a))) (positions x)"
  using assms
  by (auto simp: margin_account_def mk_MarginAccount_def require_def collect_Inr_iff list_all2_map1 margin_position_def
      mk_MarginPosition_def elim!: list_all2_mono split: sum.splits option.splits if_splits)

text \<open>
  Margin sees exactly the journal: every projected account carries the sum of its dollar lines and, for
  every security, the sum of its ownership lines, at the price given for it and nowhere if that sum is zero.
\<close>

theorem margin_accounts_hold_the_journal:
  assumes "project_margin_accounts b prices new = Inr accounts" "x \<in> set accounts"
  shows "cash_balance x = dsum_from 28 0 (map money (filter (\<lambda>l. currency l = Some ''USD'')
      (customer_lines_of b (MarginAccount.account_id x)))) \<and>
    (\<forall>i q. (\<exists>p \<in> set (positions x). MarginPosition.issue p = i \<and> quantity p = q) \<longleftrightarrow> q \<noteq> 0 \<and>
       q = dsum_from 28 0 (map LedgerLine.quantity
         (filter (\<lambda>l. LedgerLine.issue l = Some i \<and> record_side l = OWNERSHIP) (customer_lines_of b (MarginAccount.account_id x))))) \<and>
    (\<forall>p \<in> set (positions x). prices (MarginPosition.issue p) = Some (price p))"
proof -
  obtain a where a: "margin_account b prices new a = Inr x"
    using assms by (auto simp: project_margin_accounts_def collect_Inr_iff list_all2_conv_all_nth in_set_conv_nth)
  note f = margin_account_fields [OF a]
  let ?d = "entry_or [] (customer_positions b) a"
  have cash: "cash_balance x = dsum_from 28 0 (map money (filter (\<lambda>l. currency l = Some ''USD'') (customer_lines_of b a)))"
    unfolding f(2) customer_cash_def entry_or_sum_by cash_lines_def amounts_map customer_lines_of_def
    by (simp add: filter_filter conj_commute conj_left_commute conj_assoc)
  have lookup: "map_of ?d i = (if ls = [] then None else Some (dsum_from 28 0 (map LedgerLine.quantity ls)))"
    if "ls = filter (\<lambda>l. LedgerLine.issue l = Some i \<and> record_side l = OWNERSHIP) (customer_lines_of b a)" for i ls
  proof -
    have "filter (\<lambda>l. owned l \<and> the (LedgerLine.issue l) = i) (customer_lines_of b a) = ls"
      unfolding that by (rule filter_cong) (auto simp: owned_def)
    then show ?thesis unfolding owned_of_customer sum_by_lookup amounts_map by simp
  qed
  have "distinct (map fst ?d)" unfolding owned_of_customer by (rule distinct_sum_by)
  then have member: "(i, q) \<in> set ?d \<longleftrightarrow> map_of ?d i = Some q" for i q by (simp add: map_of_eq_Some_iff)
  have "(\<exists>p \<in> set (positions x). MarginPosition.issue p = i \<and> quantity p = q) \<longleftrightarrow> (i, q) \<in> set ?d \<and> q \<noteq> 0" for i q
  proof -
    have "(i, q) \<in> set ?d \<and> q \<noteq> 0 \<longleftrightarrow> (i, q) \<in> set (filter (\<lambda>(_, q). q \<noteq> 0) (sort_key fst ?d))" by auto
    also have "\<dots> \<longleftrightarrow> (\<exists>p \<in> set (positions x). MarginPosition.issue p = i \<and> quantity p = q)"
      using list_all2_in1 [OF f(3), of "(i, q)"] list_all2_in2 [OF f(3)] by fastforce
    finally show ?thesis by blast
  qed
  moreover have "prices (MarginPosition.issue p) = Some (price p)" if "p \<in> set (positions x)" for p
    using list_all2_in2 [OF f(3) that] by auto
  moreover have "(map_of ?d i = Some q \<and> q \<noteq> 0) \<longleftrightarrow> q \<noteq> 0 \<and> q = dsum_from 28 0 (map LedgerLine.quantity
      (filter (\<lambda>l. LedgerLine.issue l = Some i \<and> record_side l = OWNERSHIP) (customer_lines_of b a)))" for i q
    using lookup [OF refl, of i] by auto
  ultimately show ?thesis using cash f(1) unfolding member by simp
qed

subsection \<open>The holdings handed to the control check\<close>

abbreviation located :: "string \<Rightarrow> LedgerLine \<Rightarrow> bool" where
  "located i l \<equiv> LedgerLine.issue l = Some i \<and> record_side l = LOCATION"

abbreviation location_key :: "LedgerLine \<Rightarrow> string \<times> string" where
  "location_key l \<equiv> (the (LedgerLine.issue l), location_rule (account_type l))"

lemma located_amounts:
  "amounts (i, r) (located_lines ls) = map LedgerLine.quantity (filter (\<lambda>l. location_key l = (i, r)) (filter (located i) ls))"
proof -
  have "filter (\<lambda>l. (LedgerLine.issue l \<noteq> None \<and> record_side l = LOCATION) \<and> location_key l = (i, r)) ls =
      filter (\<lambda>l. located i l \<and> location_key l = (i, r)) ls" by (rule filter_cong) auto
  then show ?thesis unfolding located_lines_def amounts_map filter_filter by (simp add: conj_commute)
qed

lemma location_member:
  assumes "fits k (book_lines b)" "((i, r), v) \<in> set (location_balances b)"
  shows "v = sum_list (map LedgerLine.quantity (filter (\<lambda>l. location_key l = (i, r)) (filter (located i) (book_lines b))))"
    and "rnd28 v = v"
proof -
  have "map_of (location_balances b) (i, r) = Some v"
    using assms(2) by (simp add: location_balances_def map_of_is_SomeI [OF distinct_sum_by])
  then have v: "v = dsum_from 28 0 (amounts (i, r) (located_lines (book_lines b)))"
    by (simp add: location_balances_def sum_by_lookup split: if_splits)
  then show "v = sum_list (map LedgerLine.quantity (filter (\<lambda>l. location_key l = (i, r)) (filter (located i) (book_lines b))))"
    unfolding located_amounts filter_filter by (simp add: fits_sum [OF assms(1)])
  show "rnd28 v = v" unfolding v by (rule dsum_28_stable)
qed

lemma location_total:
  assumes "fits k (book_lines b)"
  shows "sum_list (map snd (filter (\<lambda>((j, _), _). j = i) (location_balances b))) = sum_list (held_side i LOCATION (book_lines b))"
proof -
  let ?lb = "filter (\<lambda>((j, _), _). j = i) (location_balances b)" and ?ls = "filter (located i) (book_lines b)"
  let ?of = "\<lambda>key. sum_list (map LedgerLine.quantity (filter (\<lambda>l. location_key l = key) ?ls))"
  have "map snd ?lb = map ?of (map fst ?lb)"
    using location_member(1) [OF assms] by auto
  moreover have "sum_list (map ?of (map fst ?lb)) = sum_list (map LedgerLine.quantity ?ls)"
  proof (rule sum_list_by_distinct_keys)
    show "distinct (map fst ?lb)" using distinct_map_filter [OF distinct_sum_by] by (simp add: location_balances_def)
    show "location_key ` set ?ls \<subseteq> set (map fst ?lb)"
    proof
      fix key assume "key \<in> location_key ` set ?ls"
      then obtain l r where l: "l \<in> set ?ls" "key = location_key l" "key = (i, r)" by auto
      then have "\<exists>l \<in> set ?ls. location_key l = (i, r)" by auto
      then have "filter (\<lambda>l. location_key l = (i, r)) ?ls \<noteq> []" unfolding filter_empty_conv by blast
      then have "amounts (i, r) (located_lines (book_lines b)) \<noteq> []" unfolding located_amounts map_is_Nil_conv .
      then obtain v where "map_of (location_balances b) (i, r) = Some v"
        by (simp add: location_balances_def sum_by_lookup)
      then have "((i, r), v) \<in> set ?lb" by (simp add: map_of_SomeD)
      then show "key \<in> set (map fst ?lb)" using l(3) by force
    qed
  qed
  ultimately show ?thesis by (simp only: held_side_def)
qed

lemma negative_holdings:
  assumes "\<forall>v \<in> set vs. v \<le> 0 \<and> rnd28 v = v"
  shows "sum_list (map magnitude (filter (\<lambda>v. v \<noteq> 0) vs)) = - sum_list vs"
  using assms
proof (induction vs)
  case (Cons v vs)
  then have "magnitude v = - v" by (simp add: magnitude_def dround_minus)
  with Cons show ?case by auto
qed simp

text \<open>
  What control is told is held adds up to what is owned: in every journal the calls reach, on amounts
  the default context adds exactly, if no location of an issue is overdrawn then the holdings projected
  for it add up to exactly its books total.
\<close>

theorem projected_holdings_conserve:
  assumes "b = run_books canon (new_books owner) ops" "fits k (book_lines b)"
    "\<forall>r v. ((i, r), v) \<in> set (location_balances b) \<longrightarrow> v \<le> 0" "map_of (ownership b) i = Some q"
  shows "sum_list (map ho_quantity (holdings_of b i)) = q"
proof -
  let ?lb = "filter (\<lambda>((j, _), _). j = i) (location_balances b)"
  have "holdings_of b i = map (\<lambda>((_, r), v). \<lparr>location = r, ho_quantity = magnitude v, age_days = None, loaned = None\<rparr>)
      (filter (\<lambda>(_, v). v \<noteq> 0) ?lb)"
    by (simp add: holdings_of_def filter_filter case_prod_unfold conj_commute)
  then have "map ho_quantity (holdings_of b i) = map magnitude (filter (\<lambda>v. v \<noteq> 0) (map snd ?lb))"
    by (simp add: case_prod_unfold filter_map comp_def)
  moreover have "\<forall>v \<in> set (map snd ?lb). v \<le> 0 \<and> rnd28 v = v"
    using assms(3) location_member(2) [OF assms(2)] by auto
  ultimately have h: "sum_list (map ho_quantity (holdings_of b i)) = - sum_list (held_side i LOCATION (book_lines b))"
    by (simp only: negative_holdings location_total [OF assms(2)])
  have inv: "books_inv b" unfolding assms(1) by (rule journal_inv)
  then have ok: "\<forall>e \<in> set (entries b). build_entry e = Inr e" unfolding books_inv_def by blast
  have lines: "\<forall>l \<in> set (book_lines b). mk_LedgerLine l = Inr l" using ok build_entry_Inr by (fastforce simp: book_lines_def)
  have "sum_list (held i (entry_lines e)) = 0" if "e \<in> set (entries b)" for e
    using ok that balanced_entry fits_entry assms(2) unfolding book_lines_def by blast
  then have "sum_list (held i (book_lines b)) = 0"
    unfolding book_lines_def held_concat by (intro sum_list_concat_0) blast
  then have z: "sum_list (held_side i OWNERSHIP (book_lines b)) + sum_list (held_side i LOCATION (book_lines b)) = 0"
    using held_split [OF lines] by simp
  have "filter (\<lambda>l. owned l \<and> the (LedgerLine.issue l) = i) (book_lines b) =
      filter (\<lambda>l. LedgerLine.issue l = Some i \<and> record_side l = OWNERSHIP) (book_lines b)"
    by (rule filter_cong) (auto simp: owned_def)
  then have "q = sum_list (held_side i OWNERSHIP (book_lines b))"
    using assms(4) fits_held_side [OF assms(2)]
    by (simp add: ownership_def sum_by_lookup owned_lines_def amounts_map held_side_def split: if_splits)
  with h z show ?thesis by linarith
qed

subsection \<open>When the Exhibit A lines can be projected\<close>

definition line_chargeable :: "MarketCalendar \<Rightarrow> date \<Rightarrow> (string \<Rightarrow> rat option) \<Rightarrow> JournalEntry \<times> LedgerLine \<Rightarrow> bool" where
  "line_chargeable cal today prices el \<longleftrightarrow> (case el of (e, l) \<Rightarrow>
     \<forall>i. LedgerLine.issue l = Some i \<and> reserve_account (account_type l) \<longrightarrow>
       (\<forall>f. source_fact e (account_type l) i = Some f \<longrightarrow>
          is_business_day cal (fact_settlement_date f) = Inr True \<and> fact_settlement_date f \<le> today \<and>
          (account_type l = FAIL_TO_RECEIVE \<and> 30 < today - fact_settlement_date f \<longrightarrow> prices i \<noteq> None)))"

lemma special_rule_iff: "special_rule a \<noteq> None \<longleftrightarrow> reserve_account a"
  by (cases a) (simp_all add: reserve_account_def)

lemma charge_line_returns:
  "(\<exists>s'. charge_line prices e a i q rule f age s = Inr s') \<longleftrightarrow>
   (a = FAIL_TO_RECEIVE \<and> 30 < age \<longrightarrow> prices i \<noteq> None)"
  by (auto simp: charge_line_def line_value_def Let_def split: option.splits ReserveActivity.splits)

lemma exhibit_line_returns:
  assumes "\<And>i. LedgerLine.issue l = Some i \<Longrightarrow> reserve_account (account_type l) \<Longrightarrow> source_fact e (account_type l) i \<noteq> None"
  shows "(\<exists>s'. exhibit_line cal today prices (e, l) s = Inr s') \<longleftrightarrow> line_chargeable cal today prices (e, l)"
proof (cases "LedgerLine.issue l")
  case (Some i)
  show ?thesis
  proof (cases "special_rule (account_type l)")
    case None
    then have "\<not> reserve_account (account_type l)" using special_rule_iff by blast
    with None Some show ?thesis by (simp add: exhibit_line_def line_chargeable_def)
  next
    case rule: (Some rule)
    then have r: "reserve_account (account_type l)" using special_rule_iff by blast
    then obtain f where f: "source_fact e (account_type l) i = Some f" using assms [OF Some] by blast
    show ?thesis using Some rule r f charge_line_returns
      by (cases "is_business_day cal (fact_settlement_date f)")
        (simp_all add: exhibit_line_def line_chargeable_def require_def)
  qed
qed (simp add: exhibit_line_def line_chargeable_def)

lemma exhibit_fold_returns:
  assumes "\<And>el s. el \<in> set els \<Longrightarrow> (\<exists>s'. exhibit_line cal today prices el s = Inr s') \<longleftrightarrow> P el"
  shows "(\<exists>s'. exhibit_fold cal today prices els s = Inr s') \<longleftrightarrow> (\<forall>el \<in> set els. P el)"
  using assms
proof (induction els arbitrary: s)
  case (Cons el els)
  then show ?case
    by (cases "exhibit_line cal today prices el s") (auto, (metis Inl_Inr_False Cons.prems list.set_intros(1))+)
qed simp

lemma entry_has_fact:
  assumes "build_entry e = Inr e" "l \<in> set (entry_lines e)" "LedgerLine.issue l = Some i" "reserve_account (account_type l)"
  shows "source_fact e (account_type l) i \<noteq> None"
proof -
  have "Books_Ledger.reserve_lines (entry_lines e) = reserve_facts (reserve_source_facts e)"
    using build_entry_Inr [OF assms(1)] by (simp add: mk_JournalEntry_def Let_def require_def split: if_splits)
  moreover have "(account_type l, Some i) \<in> Books_Ledger.reserve_lines (entry_lines e)"
    using assms(2-4) by (force simp: Books_Ledger.reserve_lines_def)
  ultimately show ?thesis by (auto simp: reserve_facts_def source_fact_def find_None_iff)
qed

text \<open>
  The Exhibit A lines of a journal can be projected exactly when every fact of a fail or a stock borrow
  has a settlement date on a loaded business day that has come, and a fail to receive older than thirty
  days has a price. No line of a journal the calls reach lacks its fact.
\<close>

theorem exhibit_projects_iff:
  assumes "b = run_books canon (new_books owner) ops"
  shows "(\<exists>s. project_exhibit cal today prices b = Inr s) \<longleftrightarrow>
    (\<forall>el \<in> set (entry_line_pairs b). line_chargeable cal today prices el)"
proof -
  have "books_inv b" unfolding assms by (rule journal_inv)
  then have ok: "\<forall>e \<in> set (entries b). build_entry e = Inr e" unfolding books_inv_def by blast
  show ?thesis unfolding project_exhibit_def
  proof (rule exhibit_fold_returns)
    fix el s assume "el \<in> set (entry_line_pairs b)"
    then obtain e l where el: "el = (e, l)" "e \<in> set (entries b)" "l \<in> set (entry_lines e)"
      by (auto simp: entry_line_pairs_def)
    have "source_fact e (account_type l) i \<noteq> None"
      if "LedgerLine.issue l = Some i" "reserve_account (account_type l)" for i
      using entry_has_fact ok el that by blast
    then show "(\<exists>s'. exhibit_line cal today prices el s = Inr s') \<longleftrightarrow> line_chargeable cal today prices el"
      unfolding el(1) by (rule exhibit_line_returns)
  qed
qed

subsection \<open>Where the code does less than it says\<close>

text \<open>
  The Exhibit A lines take the magnitude of every journal line: the line that reverses a customer's fail or
  stock borrow is charged to the same item a second time, where the location balances are netted first.
\<close>

theorem reversal_doubles_the_item:
  assumes "fact_activity f = ReserveActivity.CUSTOMER" "age \<le> 30" "a \<noteq> STOCK_BORROWED"
    "v = rnd28 (magnitude q * fact_contract_price f)"
    "charge_line prices e a i q rule f age s = Inr s1" "charge_line prices e' a i (- q) rule f age s1 = Inr s2"
  shows "customer_exhibit s2 = add_line (add_line (customer_exhibit s) rule v) rule v"
  using assms by (auto simp: charge_line_def line_value_def magnitude_def Let_def)

end
