(* ===== verification/DSOR_Store.thy ===== *)
theory DSOR_Store
  imports Append_Log
begin

text \<open>
  \<open>atreides/dsor/store.py\<close>, \<open>record.py\<close> and \<open>journal.py\<close>: the append-only record store with the
  two constraints of its SQL schema (the primary key and the partial unique index), replay, and
  the rendering of a lifecycle's records as a hash-chained journal. Identifiers are strings; the
  fresh record identifier and the time stamp (microseconds since the epoch) are arguments. What the record types and the kernel
  package provide is the record \<open>codec\<close>: an output's identifiers and attributes, its JSON text
  and the reader of that text, the payload digest, the sealing digest and the event identifier.
\<close>

datatype dsor_error = Append_Only string | Self_Correction | Record_Not_Found string

text \<open>The output types the journal treats specially, with what it reads off them.\<close>

datatype ('p, 'a) output_class =
    Receipt_Record 'p | Client_Output_Record 'p | Books_Posting_Record 'p | Rail_Status_Record 'p
  | Finality_Record 'p 'a | Halt_Record 'a bool   \<comment> \<open>declarer, and whether it is human\<close>
  | Other_Record

record ('o, 'p, 'a, 'd) codec =
  o_operation_id :: "'o \<Rightarrow> string"
  o_kind :: "'o \<Rightarrow> string"
  o_record_id :: "'o \<Rightarrow> string option"
  o_lifecycle_id :: "'o \<Rightarrow> string option"
  o_attribute :: "'o \<Rightarrow> string \<Rightarrow> string option"
  o_class :: "'o \<Rightarrow> ('p, 'a) output_class"
  dump_json :: "'o \<Rightarrow> string"
  validate_json :: "string \<Rightarrow> 'o option"
  digest_bytes :: "string \<Rightarrow> 'd"
  event_id_of :: "int \<Rightarrow> string \<Rightarrow> string"
  human_judgment :: 'p
  policy_result :: 'p
  dsor_actor :: 'a

record 'o DSORRecord =
  record_id :: string
  dtg :: int
  kind :: string
  rec_output :: 'o
  correction_of :: "string option"

definition assemble :: "('o, 'p, 'a, 'd) codec \<Rightarrow> string \<Rightarrow> 'o \<Rightarrow> int \<Rightarrow> string option \<Rightarrow> 'o DSORRecord" where
  "assemble C rid out t corr =
     \<lparr>record_id = rid, dtg = t, kind = o_kind C out, rec_output = out, correction_of = corr\<rparr>"

record row =
  row_record_id :: string
  row_operation_id :: string
  row_dtg :: int
  row_kind :: string
  row_payload :: string
  row_correction_of :: "string option"

text \<open>
  The \<open>INSERT\<close> under the schema: the primary key, and the unique index on the operation of rows
  with no correction pointer. \<open>None\<close> is SQLite's integrity error.
\<close>

definition insert_row :: "row list \<Rightarrow> row \<Rightarrow> row list option" where
  "insert_row rows r =
     (if row_record_id r \<in> row_record_id ` set rows then None
      else if row_correction_of r = None \<and>
              list_ex (\<lambda>x. row_correction_of x = None \<and> row_operation_id x = row_operation_id r) rows
      then None
      else Some (rows @ [r]))"

definition correction_refusal ::
  "('o, 'p, 'a, 'd) codec \<Rightarrow> row list \<Rightarrow> 'o \<Rightarrow> string option \<Rightarrow> dsor_error option" where
  "correction_refusal C rows out corr =
     (case corr of
        None \<Rightarrow> None
      | Some c \<Rightarrow>
          if \<not> list_ex (\<lambda>r. row_record_id r = c) rows then Some (Record_Not_Found c)
          else if o_record_id C out = Some c then Some Self_Correction
          else None)"

definition append_record ::
  "('o, 'p, 'a, 'd) codec \<Rightarrow> row list \<Rightarrow> string \<Rightarrow> 'o \<Rightarrow> int \<Rightarrow> string option \<Rightarrow>
   (dsor_error, row list \<times> 'o DSORRecord) result" where
  "append_record C rows rid out t corr =
     (case correction_refusal C rows out corr of
        Some e \<Rightarrow> Inl e
      | None \<Rightarrow>
          let r = assemble C rid out t corr in
          (case insert_row rows
             \<lparr>row_record_id = rid, row_operation_id = o_operation_id C out, row_dtg = t,
              row_kind = kind r, row_payload = dump_json C out, row_correction_of = corr\<rparr> of
             None \<Rightarrow> Inl (Append_Only (o_operation_id C out))
           | Some rows' \<Rightarrow> Inr (rows', r)))"

text \<open>Reading. A payload the reader refuses raises (\<open>None\<close>).\<close>

definition record_of_row :: "('o, 'p, 'a, 'd) codec \<Rightarrow> row \<Rightarrow> 'o DSORRecord option" where
  "record_of_row C r =
     map_option (\<lambda>out. \<lparr>record_id = row_record_id r, dtg = row_dtg r, kind = row_kind r, rec_output = out,
                      correction_of = row_correction_of r\<rparr>)
       (validate_json C (row_payload r))"

fun records :: "('o, 'p, 'a, 'd) codec \<Rightarrow> row list \<Rightarrow> 'o DSORRecord list option" where
  "records C [] = Some []"
| "records C (r # rows) =
     (case record_of_row C r of
        None \<Rightarrow> None
      | Some x \<Rightarrow> map_option (\<lambda>xs. x # xs) (records C rows))"

definition select_row :: "row list \<Rightarrow> string \<Rightarrow> row option" where
  "select_row rows rid = find (\<lambda>r. row_record_id r = rid) rows"

definition payload_bytes :: "row list \<Rightarrow> string \<Rightarrow> (dsor_error, string) result" where
  "payload_bytes rows rid =
     (case select_row rows rid of None \<Rightarrow> Inl (Record_Not_Found rid) | Some r \<Rightarrow> Inr (row_payload r))"

definition replay :: "('o, 'p, 'a, 'd) codec \<Rightarrow> row list \<Rightarrow> string \<Rightarrow> (dsor_error, 'o option) result" where
  "replay C rows rid =
     (case select_row rows rid of
        None \<Rightarrow> Inl (Record_Not_Found rid)
      | Some r \<Rightarrow> Inr (validate_json C (row_payload r)))"

subsection \<open>The event journal\<close>

record 'd DSORRecordRef =
  ref_record_id :: string
  ref_kind :: string
  ref_correction_of :: "string option"
  stored_payload_digest :: 'd

record ('p, 'a, 'd) envelope_body =
  ev_event_id :: string
  ev_lifecycle_id :: string
  ev_parent_ids :: "string list"
  ev_event_type :: string
  ev_schema_version :: string
  ev_rule_version :: string
  ev_time :: int
  ev_provenance :: 'p
  ev_actor :: 'a
  ev_idempotency_key :: string
  ev_payload :: "'d DSORRecordRef"
  ev_prior_event_digest :: "'d option"

record ('p, 'a, 'd) envelope =
  env_body :: "('p, 'a, 'd) envelope_body"
  envelope_digest :: 'd

definition JOURNAL_SCHEMA_VERSION :: string where
  "JOURNAL_SCHEMA_VERSION = ''atreides-dsor-journal/0.1-draft''"

definition lifecycle_records :: "('o, 'p, 'a, 'd) codec \<Rightarrow> 'o DSORRecord list \<Rightarrow> string \<Rightarrow> 'o DSORRecord list" where
  "lifecycle_records C rs lifecycle = filter (\<lambda>r. o_lifecycle_id C (rec_output r) = Some lifecycle) rs"

definition event_id :: "('o, 'p, 'a, 'd) codec \<Rightarrow> 'o DSORRecord \<Rightarrow> string" where
  "event_id C r = ''evt_'' @ event_id_of C (dtg r div 1000) (record_id r)"

fun provenance_and_actor :: "('o, 'p, 'a, 'd) codec \<Rightarrow> ('p, 'a) output_class \<Rightarrow> 'p \<times> 'a" where
  "provenance_and_actor C (Receipt_Record p) = (p, dsor_actor C)"
| "provenance_and_actor C (Client_Output_Record p) = (p, dsor_actor C)"
| "provenance_and_actor C (Books_Posting_Record p) = (p, dsor_actor C)"
| "provenance_and_actor C (Rail_Status_Record p) = (p, dsor_actor C)"
| "provenance_and_actor C (Finality_Record p a) = (p, a)"
| "provenance_and_actor C (Halt_Record a human) =
     (if human then human_judgment C else policy_result C, a)"
| "provenance_and_actor C Other_Record = (policy_result C, dsor_actor C)"

definition rule_version :: "('o, 'p, 'a, 'd) codec \<Rightarrow> 'o \<Rightarrow> string" where
  "rule_version C out =
     (case find (\<lambda>a. truthy (o_attribute C out a))
             [''rule_version'', ''gate_set_version'', ''doctrine_version''] of
        Some a \<Rightarrow> the (o_attribute C out a) | None \<Rightarrow> ''unversioned'')"

definition envelope_of ::
  "('o, 'p, 'a, 'd) codec \<Rightarrow> string \<Rightarrow> ('p, 'a, 'd) envelope option \<Rightarrow> 'o DSORRecord \<Rightarrow> string \<Rightarrow>
   ('p, 'a, 'd) envelope_body" where
  "envelope_of C lifecycle prior r bytes =
     \<lparr>ev_event_id = event_id C r, ev_lifecycle_id = lifecycle,
      ev_parent_ids = (case prior of None \<Rightarrow> [] | Some p \<Rightarrow> [ev_event_id (env_body p)]),
      ev_event_type = kind r, ev_schema_version = JOURNAL_SCHEMA_VERSION,
      ev_rule_version = rule_version C (rec_output r), ev_time = dtg r,
      ev_provenance = fst (provenance_and_actor C (o_class C (rec_output r))),
      ev_actor = snd (provenance_and_actor C (o_class C (rec_output r))),
      ev_idempotency_key = ''dsor:'' @ record_id r,
      ev_payload = \<lparr>ref_record_id = record_id r, ref_kind = kind r, ref_correction_of = correction_of r,
                    stored_payload_digest = digest_bytes C bytes\<rparr>,
      ev_prior_event_digest = map_option envelope_digest prior\<rparr>"

text \<open>\<open>seal\<close> is the kernel's: it returns the body with the digest of the body.\<close>

fun render_from ::
  "('o, 'p, 'a, 'd) codec \<Rightarrow> (('p, 'a, 'd) envelope_body \<Rightarrow> 'd) \<Rightarrow> row list \<Rightarrow> string \<Rightarrow>
   ('p, 'a, 'd) envelope option \<Rightarrow> 'o DSORRecord list \<Rightarrow>
   (dsor_error, ('p, 'a, 'd) envelope list) result" where
  "render_from C seal rows lifecycle prior [] = Inr []"
| "render_from C seal rows lifecycle prior (r # rs) =
     (case payload_bytes rows (record_id r) of
        Inl e \<Rightarrow> Inl e
      | Inr bytes \<Rightarrow>
          let body = envelope_of C lifecycle prior r bytes;
              env = \<lparr>env_body = body, envelope_digest = seal body\<rparr> in
          (case render_from C seal rows lifecycle (Some env) rs of
             Inl e \<Rightarrow> Inl e | Inr envs \<Rightarrow> Inr (env # envs)))"

definition render_journal ::
  "('o, 'p, 'a, 'd) codec \<Rightarrow> (('p, 'a, 'd) envelope_body \<Rightarrow> 'd) \<Rightarrow> row list \<Rightarrow> 'o DSORRecord list \<Rightarrow>
   string \<Rightarrow> (dsor_error, ('p, 'a, 'd) envelope list) result" where
  "render_journal C seal rows rs lifecycle = render_from C seal rows lifecycle None rs"

end
