(* ===== verification/DSOR_Props.thy ===== *)
theory DSOR_Props
  imports DSOR_Store "HOL-Library.Countable"
begin

text \<open>
  Properties of the record store and its journal: records are kept and replay as appended, an
  operation has one original, the sealed journal pins every stored byte, and how a correction
  pointer can cross operations.
\<close>

datatype 'o store_op = Append string 'o int "string option"

fun store_step ::
  "('o, 'p, 'a, 'd) codec \<Rightarrow> row list \<Rightarrow> 'o store_op \<Rightarrow> (dsor_error, row list) result" where
  "store_step C rows (Append rid out t corr) =
     (case append_record C rows rid out t corr of Inl e \<Rightarrow> Inl e | Inr (rows', r) \<Rightarrow> Inr rows')"

definition originals :: "row list \<Rightarrow> row list" where
  "originals rows = filter (\<lambda>r. row_correction_of r = None) rows"

definition store_inv :: "row list \<Rightarrow> bool" where
  "store_inv rows \<longleftrightarrow>
     distinct (map row_record_id rows) \<and> distinct (map row_operation_id (originals rows)) \<and>
     (\<forall>i < length rows. \<forall>c. row_correction_of (rows ! i) = Some c \<longrightarrow>
        (\<exists>j < i. row_record_id (rows ! j) = c))"

definition appended_row :: "('o, 'p, 'a, 'd) codec \<Rightarrow> string \<Rightarrow> 'o \<Rightarrow> int \<Rightarrow> string option \<Rightarrow> row" where
  "appended_row C rid out t corr =
     \<lparr>row_record_id = rid, row_operation_id = o_operation_id C out, row_dtg = t,
      row_kind = o_kind C out, row_payload = dump_json C out, row_correction_of = corr\<rparr>"

lemma append_record_Inr:
  assumes "append_record C rows rid out t corr = Inr (rows', r)"
  shows "rows' = rows @ [appended_row C rid out t corr]" and "r = assemble C rid out t corr"
    and "rid \<notin> row_record_id ` set rows"
    and "corr = None \<Longrightarrow> o_operation_id C out \<notin> row_operation_id ` set (originals rows)"
    and "\<And>c. corr = Some c \<Longrightarrow> c \<in> row_record_id ` set rows"
proof -
  have g: "correction_refusal C rows out corr = None"
    using assms by (auto simp: append_record_def split: option.splits)
  have i: "insert_row rows (appended_row C rid out t corr) = Some rows'"
    using assms by (auto simp: append_record_def Let_def assemble_def appended_row_def split: option.splits)
  show "rows' = rows @ [appended_row C rid out t corr]" "rid \<notin> row_record_id ` set rows"
    using i by (auto simp: insert_row_def appended_row_def split: if_splits)
  show "r = assemble C rid out t corr"
    using assms by (auto simp: append_record_def Let_def split: option.splits)
  show "o_operation_id C out \<notin> row_operation_id ` set (originals rows)" if "corr = None"
    using i that by (auto simp: insert_row_def appended_row_def originals_def list_ex_iff split: if_splits)
  show "c \<in> row_record_id ` set rows" if "corr = Some c" for c
    using g that by (auto simp: correction_refusal_def list_ex_iff split: if_splits)
qed

lemma store_step_inv: "store_inv rows \<Longrightarrow> store_step C rows x = Inr rows' \<Longrightarrow> store_inv rows'"
proof (cases x)
  case (Append rid out t corr)
  assume inv: "store_inv rows" and "store_step C rows x = Inr rows'"
  then obtain r where "append_record C rows rid out t corr = Inr (rows', r)"
    using Append by (auto split: sum.splits)
  note a = append_record_Inr [OF this]
  have "distinct (map row_record_id rows')"
    using inv a(3) by (simp add: store_inv_def a(1) appended_row_def)
  moreover have "distinct (map row_operation_id (originals rows'))"
    using inv a(4) by (cases corr) (simp_all add: store_inv_def originals_def a(1) appended_row_def)
  moreover have "\<exists>j < i. row_record_id (rows' ! j) = c"
    if i: "i < length rows'" and c: "row_correction_of (rows' ! i) = Some c" for i c
  proof (cases "i < length rows")
    case True
    with c have "row_correction_of (rows ! i) = Some c" by (simp add: a(1) nth_append)
    with inv True obtain j where "j < i" "row_record_id (rows ! j) = c" unfolding store_inv_def by blast
    with True show ?thesis by (intro exI [of _ j]) (simp add: a(1) nth_append)
  next
    case False
    with i have l: "i = length rows" by (simp add: a(1))
    with c have "corr = Some c" by (simp add: a(1) appended_row_def)
    then have "c \<in> row_record_id ` set rows" by (rule a(5))
    then obtain j where "j < length rows" "row_record_id (rows ! j) = c" by (auto simp: in_set_conv_nth)
    with l show ?thesis by (intro exI [of _ j]) (simp add: a(1) nth_append)
  qed
  ultimately show ?thesis unfolding store_inv_def by blast
qed

lemma store_step_appends: "store_step C rows x = Inr rows' \<Longrightarrow> \<exists>es. rows' = rows @ es"
  by (cases x) (auto split: sum.splits dest: append_record_Inr(1))

interpretation store: append_log store_inv "store_step C" "\<lambda>rows. rows" for C
  by unfold_locales (auto intro: store_step_inv dest: store_step_appends)

abbreviation run_store ::
  "('o, 'p, 'a, 'd) codec \<Rightarrow> row list \<Rightarrow> 'o store_op list \<Rightarrow> row list" where
  "run_store C \<equiv> run_calls (store_step C)"

lemma store_inv_run: "store_inv (run_store C [] ops)"
  by (rule store.run_inv) (simp add: store_inv_def originals_def)

lemma find_append_Some: "find P xs = Some x \<Longrightarrow> find P (xs @ ys) = Some x"
  by (induction xs) auto

lemma find_append_None: "find P xs = None \<Longrightarrow> find P (xs @ ys) = find P ys"
  by (induction xs) (auto split: if_splits)

lemma select_appended:
  assumes "append_record C rows rid out t corr = Inr (rows', r)"
  shows "select_row (run_store C rows' ops) rid = Some (appended_row C rid out t corr)"
proof -
  note a = append_record_Inr [OF assms]
  have "find (\<lambda>r. row_record_id r = rid) rows = None"
    using a(3) by (auto simp: find_None_iff)
  then have "find (\<lambda>r. row_record_id r = rid) rows' = Some (appended_row C rid out t corr)"
    by (simp add: a(1) find_append_None) (simp add: appended_row_def)
  then show ?thesis
    using store.run_appends [of C rows' ops] by (auto simp: select_row_def find_append_Some)
qed

subsection \<open>Properties\<close>

text \<open>
  a record replays as it was appended. Whatever is appended later, refused appends included,
  the bytes stored for a record are the output's JSON text, and replaying it gives back the
  output (where the reader reads the text of an output as that output).
\<close>

theorem record_replays_as_appended:
  assumes "append_record C rows rid out t corr = Inr (rows', r)"
    and "validate_json C (dump_json C out) = Some out"
  shows "record_id r = rid \<and> payload_bytes (run_store C rows' ops) rid = Inr (dump_json C out) \<and>
    replay C (run_store C rows' ops) rid = Inr (Some out)"
  using select_appended [OF assms(1)] assms(2) append_record_Inr(2) [OF assms(1)]
  by (simp add: payload_bytes_def replay_def appended_row_def assemble_def)

lemma select_stored:
  assumes "store_inv rows" "r \<in> set rows"
  shows "select_row rows (row_record_id r) = Some r"
proof -
  obtain i where i: "i < length rows" "rows ! i = r" using assms(2) by (auto simp: in_set_conv_nth)
  have "\<forall>j < i. row_record_id (rows ! j) \<noteq> row_record_id r"
    using assms(1) i nth_eq_iff_index_eq [of "map row_record_id rows" _ i] by (fastforce simp: store_inv_def)
  with i show ?thesis by (auto simp: select_row_def find_Some_iff)
qed

lemma select_later: "store_inv (rows @ es) \<Longrightarrow> r \<in> set rows \<Longrightarrow> select_row (rows @ es) (row_record_id r) = Some r"
  by (rule select_stored) simp_all

lemma records_append:
  "records C (rows @ es) = Some zs \<Longrightarrow>
   records C rows = Some (take (length rows) zs) \<and> map record_id (take (length rows) zs) = map row_record_id rows"
  by (induction rows arbitrary: zs) (auto simp: record_of_row_def split: option.splits)

text \<open>
  C10: immutable lineage. In any store the calls can reach, record identifiers are unique, an
  operation has at most one original record and every correction points to a record appended before
  it. After any further calls the rows are still there, in order, at the front; the payload read back
  and replayed for each of them is the one stored, which for an accepted append is the JSON text of its
  output; and the list of all records read from the store begins with the records read before.
\<close>

theorem store_is_append_only:
  "let now = run_store C [] ops; later = run_store C now ops' in
    distinct (map row_record_id now) \<and> distinct (map row_operation_id (originals now)) \<and>
    (\<forall>i < length now. \<forall>c. row_correction_of (now ! i) = Some c \<longrightarrow> (\<exists>j < i. row_record_id (now ! j) = c)) \<and>
    (\<exists>es. later = now @ es) \<and>
    (\<forall>r \<in> set now. payload_bytes later (row_record_id r) = Inr (row_payload r) \<and>
       replay C later (row_record_id r) = Inr (validate_json C (row_payload r))) \<and>
    (\<forall>rid out t corr rows r. append_record C now rid out t corr = Inr (rows, r) \<longrightarrow>
       payload_bytes (run_store C rows ops') rid = Inr (dump_json C out)) \<and>
    (\<forall>zs. records C later = Some zs \<longrightarrow> records C now = Some (take (length now) zs) \<and>
       map record_id (take (length now) zs) = map row_record_id now)"
proof -
  let ?now = "run_store C [] ops" let ?later = "run_store C ?now ops'"
  have inv: "store_inv ?now" "store_inv ?later" by (rule store_inv_run, rule store.run_inv [OF store_inv_run])
  obtain es where es: "?later = ?now @ es" using store.run_appends [of C ?now ops'] by blast
  have "select_row ?later (row_record_id r) = Some r" if "r \<in> set ?now" for r
    using select_later inv(2) that unfolding es by blast
  then have stored: "\<forall>r \<in> set ?now. payload_bytes ?later (row_record_id r) = Inr (row_payload r) \<and>
      replay C ?later (row_record_id r) = Inr (validate_json C (row_payload r))"
    by (simp add: payload_bytes_def replay_def)
  have fresh: "payload_bytes (run_store C rows ops') rid = Inr (dump_json C out)"
    if "append_record C ?now rid out t corr = Inr (rows, r)" for rid out t corr rows r
    using select_appended [OF that] by (simp add: payload_bytes_def appended_row_def)
  have "\<forall>zs. records C ?later = Some zs \<longrightarrow> records C ?now = Some (take (length ?now) zs) \<and>
      map record_id (take (length ?now) zs) = map row_record_id ?now"
    using records_append unfolding es by blast
  with inv(1) es stored fresh show ?thesis unfolding store_inv_def Let_def by blast
qed

subsection \<open>The sealed journal\<close>

fun chained ::
  "(('p, 'a, 'd) envelope_body \<Rightarrow> 'd) \<Rightarrow> ('p, 'a, 'd) envelope option \<Rightarrow> ('p, 'a, 'd) envelope list \<Rightarrow> bool" where
  "chained seal prior [] = True"
| "chained seal prior (e # es) =
     (envelope_digest e = seal (env_body e) \<and>
      ev_prior_event_digest (env_body e) = map_option envelope_digest prior \<and>
      ev_parent_ids (env_body e) = (case prior of None \<Rightarrow> [] | Some p \<Rightarrow> [ev_event_id (env_body p)]) \<and>
      chained seal (Some e) es)"

definition refers ::
  "('o, 'p, 'a, 'd) codec \<Rightarrow> row list \<Rightarrow> 'o DSORRecord \<Rightarrow> ('p, 'a, 'd) envelope \<Rightarrow> bool" where
  "refers C rows r e \<longleftrightarrow>
     (\<exists>bytes. payload_bytes rows (record_id r) = Inr bytes \<and>
        ev_payload (env_body e) =
          \<lparr>ref_record_id = record_id r, ref_kind = kind r, ref_correction_of = correction_of r,
           stored_payload_digest = digest_bytes C bytes\<rparr>)"

lemma render_from_chained:
  "render_from C seal rows lc prior rs = Inr envs \<Longrightarrow>
   chained seal prior envs \<and> list_all2 (refers C rows) rs envs"
proof (induction C seal rows lc prior rs arbitrary: envs rule: render_from.induct)
  case (2 C seal rows lc prior r rs)
  then obtain bytes where b: "payload_bytes rows (record_id r) = Inr bytes"
    by (auto split: sum.splits)
  let ?body = "envelope_of C lc prior r bytes"
  let ?env = "\<lparr>env_body = ?body, envelope_digest = seal ?body\<rparr>"
  obtain rest where rest: "render_from C seal rows lc (Some ?env) rs = Inr rest" "envs = ?env # rest"
    using 2(2) b by (auto simp: Let_def split: sum.splits)
  from 2(1) [OF b refl refl rest(1)] show ?case
    using b by (simp add: rest(2) refers_def envelope_of_def)
qed simp

lemma chained_snoc:
  "chained seal p (es @ [e]) \<Longrightarrow>
   chained seal p es \<and> envelope_digest e = seal (env_body e) \<and>
   ev_prior_event_digest (env_body e) = map_option envelope_digest (if es = [] then p else Some (last es))"
  by (induction seal p es rule: chained.induct) auto

lemma chained_unique:
  "inj_on seal (env_body ` (set xs \<union> set ys)) \<Longrightarrow> chained seal None xs \<Longrightarrow> chained seal None ys \<Longrightarrow>
    xs \<noteq> [] \<Longrightarrow> ys \<noteq> [] \<Longrightarrow> envelope_digest (last xs) = envelope_digest (last ys) \<Longrightarrow> xs = ys"
proof (induction xs arbitrary: ys rule: rev_induct)
  case (snoc x xs)
  obtain y ys' where ys: "ys = ys' @ [y]" using snoc.prems(5) by (metis rev_exhaust)
  note cx = chained_snoc [OF snoc.prems(2)] and cy = chained_snoc [OF snoc.prems(3) [unfolded ys]]
  have "seal (env_body x) = seal (env_body y)" using snoc.prems(6) cx cy by (simp add: ys)
  then have body: "env_body x = env_body y"
    by (rule inj_onD [OF snoc.prems(1)]) (simp_all add: ys)
  then have xy: "x = y" using snoc.prems(6) by (simp add: ys)
  have prior: "map_option envelope_digest (if xs = [] then None else Some (last xs)) =
      map_option envelope_digest (if ys' = [] then None else Some (last ys'))"
    using cx cy body by simp
  show ?case
  proof (cases "xs = []")
    case True
    with prior have "ys' = []" by (simp split: if_splits)
    with True xy ys show ?thesis by simp
  next
    case False
    with prior have "ys' \<noteq> []" "envelope_digest (last xs) = envelope_digest (last ys')"
      by (auto split: if_splits)
    moreover have "inj_on seal (env_body ` (set xs \<union> set ys'))"
      by (rule inj_on_subset [OF snoc.prems(1)]) (auto simp: ys)
    ultimately show ?thesis using snoc.IH [of ys'] False cx cy xy ys by simp
  qed
qed simp

definition stored_payloads :: "row list \<Rightarrow> 'o DSORRecord list \<Rightarrow> string set" where
  "stored_payloads rows rs = {b. \<exists>r \<in> set rs. payload_bytes rows (record_id r) = Inr b}"

text \<open>
  the digest of the last envelope pins the journal. If no two of the envelopes sealed and no
  two of the payloads hashed collide, two renderings that end in the same digest are the same
  sequence of envelopes, of the same records in the same order, and every stored byte of every
  record is the same in both stores.
\<close>

theorem sealed_journal_pins_every_byte:
  assumes "render_journal C seal rows rs lc = Inr envs" and "render_journal C seal rows' rs' lc' = Inr envs'"
    and "inj_on seal (env_body ` (set envs \<union> set envs'))"
    and "inj_on (digest_bytes C) (stored_payloads rows rs \<union> stored_payloads rows' rs')"
    and "envs \<noteq> []" and "envs' \<noteq> []" and "envelope_digest (last envs) = envelope_digest (last envs')"
  shows "envs = envs' \<and> map record_id rs = map record_id rs' \<and> map kind rs = map kind rs' \<and>
    map (\<lambda>r. payload_bytes rows (record_id r)) rs = map (\<lambda>r. payload_bytes rows' (record_id r)) rs'"
proof -
  note r = render_from_chained [OF assms(1) [unfolded render_journal_def]]
    and r' = render_from_chained [OF assms(2) [unfolded render_journal_def]]
  have e: "envs = envs'"
    by (rule chained_unique [OF assms(3)]) (use r r' assms(5-7) in simp_all)
  have same: "record_id a = record_id c \<and> kind a = kind c \<and>
      payload_bytes rows (record_id a) = payload_bytes rows' (record_id c)"
    if "a \<in> set rs" "c \<in> set rs'" "refers C rows a b" "refers C rows' c b" for a b c
  proof -
    from that(3) obtain p where p: "payload_bytes rows (record_id a) = Inr p"
      "ev_payload (env_body b) = \<lparr>ref_record_id = record_id a, ref_kind = kind a,
         ref_correction_of = correction_of a, stored_payload_digest = digest_bytes C p\<rparr>"
      unfolding refers_def by blast
    from that(4) obtain q where q: "payload_bytes rows' (record_id c) = Inr q"
      "ev_payload (env_body b) = \<lparr>ref_record_id = record_id c, ref_kind = kind c,
         ref_correction_of = correction_of c, stored_payload_digest = digest_bytes C q\<rparr>"
      unfolding refers_def by blast
    from p(2) q(2) have "record_id a = record_id c" "kind a = kind c"
      and d: "digest_bytes C p = digest_bytes C q" by simp_all
    moreover have "p = q"
      by (rule inj_onD [OF assms(4) d]) (use that p(1) q(1) in \<open>auto simp: stored_payloads_def\<close>)
    ultimately show ?thesis using p(1) q(1) by simp
  qed
  have len: "length rs = length envs" "length rs' = length envs"
    using r r' e by (auto dest: list_all2_lengthD)
  have "record_id (rs ! i) = record_id (rs' ! i) \<and> kind (rs ! i) = kind (rs' ! i) \<and>
      payload_bytes rows (record_id (rs ! i)) = payload_bytes rows' (record_id (rs' ! i))"
    if "i < length envs" for i
  proof (rule same)
    show "rs ! i \<in> set rs" "rs' ! i \<in> set rs'" using that len by simp_all
    show "refers C rows (rs ! i) (envs ! i)" "refers C rows' (rs' ! i) (envs ! i)"
      using r r' e that by (simp_all add: list_all2_conv_all_nth)
  qed
  then have "map record_id rs = map record_id rs'" "map kind rs = map kind rs'"
    "map (\<lambda>r. payload_bytes rows (record_id r)) rs = map (\<lambda>r. payload_bytes rows' (record_id r)) rs'"
    using len by (simp_all add: list_eq_iff_nth_eq)
  with e show ?thesis by blast
qed

subsection \<open>Corrections across operations, and witnesses\<close>

text \<open>Outputs that are their own JSON text; the first letter names the operation.\<close>

type_synonym w_body = "(unit, unit, nat) envelope_body"

definition w_codec :: "(string, unit, unit, nat) codec" where
  "w_codec = \<lparr>o_operation_id = take 1, o_kind = (\<lambda>_. ''settlement_telemetry''), o_record_id = (\<lambda>_. None),
     o_lifecycle_id = (\<lambda>_. Some ''L''), o_attribute = (\<lambda>_ _. None), o_class = (\<lambda>_. Other_Record),
     dump_json = id, validate_json = Some, digest_bytes = to_nat, event_id_of = (\<lambda>_ r. r),
     human_judgment = (), policy_result = (), dsor_actor = ()\<rparr>"

definition w_seal :: "w_body \<Rightarrow> nat" where
  "w_seal b = to_nat
     ((ev_event_id b, ev_lifecycle_id b, ev_parent_ids b, ev_event_type b, ev_schema_version b),
      (ev_rule_version b, ev_time b, ev_idempotency_key b, ev_prior_event_digest b),
      (ref_record_id (ev_payload b), ref_kind (ev_payload b), ref_correction_of (ev_payload b),
       stored_payload_digest (ev_payload b)))"

lemma w_seal_inj: "inj w_seal"
proof (rule injI)
  fix a b :: w_body assume "w_seal a = w_seal b"
  then show "a = b"
    by (cases a; cases b; cases "ev_payload a"; cases "ev_payload b") (simp add: w_seal_def)
qed

definition w_store :: "row list" where
  "w_store = run_store w_codec [] [Append ''R1'' ''A1'' 0 None]"

lemma w_store_eq: "w_store = [appended_row w_codec ''R1'' ''A1'' 0 None]"
  by (simp add: w_store_def attempt_def append_record_def correction_refusal_def insert_row_def
      assemble_def appended_row_def w_codec_def Let_def)

text \<open>
  a correction need not correct a record of its own operation. Operation B, which has no
  original record, gets two records that point to a record of operation A and are exempt from the
  uniqueness of originals; the store accepts both.
\<close>

theorem correction_pointer_crosses_operations:
  "let rows = run_store w_codec w_store [Append ''R2'' ''B1'' 1 (Some ''R1''), Append ''R3'' ''B2'' 2 (Some ''R1'')] in
   map (\<lambda>r. (row_operation_id r, row_correction_of r)) rows =
     [(''A'', None), (''B'', Some ''R1''), (''B'', Some ''R1'')]"
  by (simp add: w_store_eq attempt_def append_record_def correction_refusal_def insert_row_def
      assemble_def appended_row_def w_codec_def Let_def)

lemma w_append:
  "append_record w_codec w_store ''R2'' ''B1'' 1 None =
     Inr (w_store @ [appended_row w_codec ''R2'' ''B1'' 1 None], assemble w_codec ''R2'' ''B1'' 1 None)"
  by (simp add: w_store_eq append_record_def correction_refusal_def insert_row_def
      assemble_def appended_row_def w_codec_def Let_def)

theorem record_replays_as_appended_witness:
  "replay w_codec (run_store w_codec (w_store @ [appended_row w_codec ''R2'' ''B1'' 1 None])
     [Append ''R3'' ''B2'' 2 None]) ''R2'' = Inr (Some ''B1'')"
proof -
  have "validate_json w_codec (dump_json w_codec ''B1'') = Some ''B1''" by (simp add: w_codec_def)
  from record_replays_as_appended [OF w_append this] show ?thesis by blast
qed

theorem store_is_append_only_witness:
  "payload_bytes (run_store w_codec w_store [Append ''R2'' ''A2'' 1 (Some ''R1'')]) ''R1'' = Inr ''A1''"
  using store_is_append_only [of w_codec "[Append ''R1'' ''A1'' 0 None]" "[Append ''R2'' ''A2'' 1 (Some ''R1'')]"]
  unfolding Let_def w_store_def [symmetric] by (auto simp: w_store_eq appended_row_def w_codec_def)

lemma w_renders:
  obtains envs where "render_journal w_codec w_seal w_store [assemble w_codec ''R1'' ''A1'' 0 None] ''L'' = Inr envs"
    "envs \<noteq> []"
  by (simp add: render_journal_def payload_bytes_def select_row_def w_store_eq appended_row_def
      assemble_def Let_def)

theorem sealed_journal_pins_every_byte_witness:
  "\<exists>envs. render_journal w_codec w_seal w_store [assemble w_codec ''R1'' ''A1'' 0 None] ''L'' = Inr envs \<and>
     (\<forall>rows. render_journal w_codec w_seal rows [assemble w_codec ''R1'' ''A1'' 0 None] ''L'' = Inr envs \<longrightarrow>
        payload_bytes rows ''R1'' = Inr ''A1'')"
proof -
  obtain envs where r: "render_journal w_codec w_seal w_store [assemble w_codec ''R1'' ''A1'' 0 None] ''L'' = Inr envs"
    "envs \<noteq> []" by (rule w_renders)
  have i: "inj (digest_bytes w_codec)" by (simp add: w_codec_def)
  have b: "payload_bytes w_store ''R1'' = Inr ''A1''"
    by (simp add: payload_bytes_def select_row_def w_store_eq appended_row_def w_codec_def)
  have "payload_bytes rows ''R1'' = Inr ''A1''"
    if "render_journal w_codec w_seal rows [assemble w_codec ''R1'' ''A1'' 0 None] ''L'' = Inr envs" for rows
    using sealed_journal_pins_every_byte [OF r(1) that inj_on_subset [OF w_seal_inj subset_UNIV]
      inj_on_subset [OF i subset_UNIV] r(2) r(2) refl] b
    by (simp add: assemble_def)
  with r(1) show ?thesis by blast
qed

end
