(* ===== verification/CA_Events.thy ===== *)
theory CA_Events
  imports Advisory Decimal_Context
begin

text \<open>
  \<open>atreides/corporate_actions/events.py\<close>: the corporate action event as announced. Dates are day
  ordinals, rates are the exact values of their Decimals, and each pydantic model has a
  constructor that runs its field constraints and then its validators.
\<close>

datatype EventType =
    CASH_DIVIDEND | STOCK_DIVIDEND | SPLIT | REVERSE_SPLIT | MERGER | TENDER_OFFER | RIGHTS
  | REDEMPTION_LOTTERY | INTEREST_PAYMENT | FINAL_MATURITY | PARTIAL_REDEMPTION | FULL_CALL
  | CAPITAL_GAINS_DISTRIBUTION | CAPITAL_DISTRIBUTION | REINVESTMENT

datatype Participation = MANDATORY | VOLUNTARY | MANDATORY_WITH_CHOICE

definition elective :: "Participation \<Rightarrow> bool" where
  "elective p \<longleftrightarrow> p \<noteq> MANDATORY"

record SourceIdentity =
  source_id :: string
  source_reference :: "string option"

record EventDates =
  announcement_date :: int
  record_date :: "int option"
  election_deadline :: "int option"
  protect_deadline :: "int option"
  payable_date :: "int option"

record EventTerms =
  cash_rate_per_share :: "rat option"
  terms_currency :: "string option"
  stock_rate_per_share :: "rat option"
  split_new :: "int option"
  split_old :: "int option"
  interest_amount_per_face :: "rat option"
  redemption_price_per_face :: "rat option"
  reinvestment_price_per_share :: "rat option"

datatype OptionType = OPT_CASH | OPT_SECU | OPT_CASE | OPT_NOAC | OPT_OTHR

record ElectionOption =
  option_id :: string
  option_description :: string
  option_type :: "OptionType option"

record CorporateActionEvent =
  event_id :: string
  security_id :: string
  event_type :: EventType
  participation :: Participation
  dates :: EventDates
  terms :: EventTerms
  event_options :: "ElectionOption list"
  default_option_id :: "string option"
  provenance :: Provenance
  source :: SourceIdentity

datatype event_error =
    Field_Constraint string | Precedes_Announcement string | Protect_Before_Election
  | Payable_Before_Record | Split_Half_Stated | Cash_Rate_Without_Currency | Term_Without_Currency
  | Not_A_Fact | Election_Deadline_Missing | Mandatory_With_Deadline | Protect_Not_Voluntary
  | Mandatory_With_Options | Duplicate_Option | Unknown_Default_Option

definition mk_SourceIdentity :: "string \<Rightarrow> string option \<Rightarrow> (event_error, SourceIdentity) result" where
  "mk_SourceIdentity sid ref =
     require (sid \<noteq> []) (Field_Constraint ''source_id'')
       (Inr \<lparr>source_id = sid, source_reference = ref\<rparr>)"

subsection \<open>Dates\<close>

definition before_opt :: "int option \<Rightarrow> int option \<Rightarrow> bool" where
  "before_opt x y = (case (x, y) of (Some a, Some b) \<Rightarrow> a < b | _ \<Rightarrow> False)"

definition mk_EventDates :: "EventDates \<Rightarrow> (event_error, EventDates) result" where
  "mk_EventDates d =
     (case find (\<lambda>(n, v). before_opt v (Some (announcement_date d)))
             [(''record_date'', record_date d), (''election_deadline'', election_deadline d),
              (''protect_deadline'', protect_deadline d), (''payable_date'', payable_date d)] of
        Some (n, v) \<Rightarrow> Inl (Precedes_Announcement n)
      | None \<Rightarrow>
          require (\<not> before_opt (protect_deadline d) (election_deadline d)) Protect_Before_Election (
          require (\<not> before_opt (payable_date d) (record_date d)) Payable_Before_Record (Inr d)))"

subsection \<open>Terms\<close>

definition non_negative :: "rat option \<Rightarrow> bool" where
  "non_negative x = (case x of None \<Rightarrow> True | Some r \<Rightarrow> 0 \<le> r)"

definition other_cash_terms :: "EventTerms \<Rightarrow> bool" where
  "other_cash_terms t \<longleftrightarrow>
     interest_amount_per_face t \<noteq> None \<or> redemption_price_per_face t \<noteq> None \<or>
     reinvestment_price_per_share t \<noteq> None"

definition mk_EventTerms :: "EventTerms \<Rightarrow> (event_error, EventTerms) result" where
  "mk_EventTerms t =
     require (non_negative (cash_rate_per_share t)) (Field_Constraint ''cash_rate_per_share'') (
     require (case terms_currency t of None \<Rightarrow> True | Some c \<Rightarrow> currency_pattern c)
       (Field_Constraint ''currency'') (
     require (non_negative (stock_rate_per_share t)) (Field_Constraint ''stock_rate_per_share'') (
     require (case split_new t of None \<Rightarrow> True | Some n \<Rightarrow> 0 < n) (Field_Constraint ''split_new'') (
     require (case split_old t of None \<Rightarrow> True | Some n \<Rightarrow> 0 < n) (Field_Constraint ''split_old'') (
     require (non_negative (interest_amount_per_face t)) (Field_Constraint ''interest_amount_per_face'') (
     require (non_negative (redemption_price_per_face t)) (Field_Constraint ''redemption_price_per_face'') (
     require (non_negative (reinvestment_price_per_share t))
       (Field_Constraint ''reinvestment_price_per_share'') (
     require ((split_new t = None) = (split_old t = None)) Split_Half_Stated (
     require (\<not> ((cash_rate_per_share t = None) \<noteq> (terms_currency t = None) \<and> \<not> other_cash_terms t))
       Cash_Rate_Without_Currency (
     require (\<not> (terms_currency t = None \<and> other_cash_terms t)) Term_Without_Currency
       (Inr t)))))))))))"

subsection \<open>Options and the event\<close>

definition mk_ElectionOption :: "ElectionOption \<Rightarrow> (event_error, ElectionOption) result" where
  "mk_ElectionOption opt =
     require (option_id opt \<noteq> []) (Field_Constraint ''option_id'') (
     require (option_description opt \<noteq> []) (Field_Constraint ''description'') (Inr opt))"

definition event_fact :: "Provenance \<Rightarrow> bool" where
  "event_fact p \<longleftrightarrow> p = FACT_EXTERNAL \<or> p = FACT_SYNTHETIC"

definition mk_CorporateActionEvent ::
  "CorporateActionEvent \<Rightarrow> (event_error, CorporateActionEvent) result" where
  "mk_CorporateActionEvent e =
     require (event_id e \<noteq> []) (Field_Constraint ''event_id'') (
     require (security_id e \<noteq> []) (Field_Constraint ''security_id'') (
     require (event_fact (provenance e)) Not_A_Fact (
     require (\<not> (elective (participation e) \<and> election_deadline (dates e) = None))
       Election_Deadline_Missing (
     require (\<not> (\<not> elective (participation e) \<and> election_deadline (dates e) \<noteq> None))
       Mandatory_With_Deadline (
     require (\<not> (protect_deadline (dates e) \<noteq> None \<and> participation e \<noteq> VOLUNTARY))
       Protect_Not_Voluntary (
     require (\<not> (\<not> elective (participation e) \<and>
                  (event_options e \<noteq> [] \<or> truthy (default_option_id e)))) Mandatory_With_Options (
     require (length (remdups (map option_id (event_options e))) = length (map option_id (event_options e)))
       Duplicate_Option (
     require (case default_option_id e of None \<Rightarrow> True
              | Some d \<Rightarrow> d \<in> set (map option_id (event_options e))) Unknown_Default_Option
       (Inr e)))))))))"

definition event_ok :: "CorporateActionEvent \<Rightarrow> bool" where
  "event_ok e \<longleftrightarrow>
     mk_EventDates (dates e) = Inr (dates e) \<and> mk_EventTerms (terms e) = Inr (terms e) \<and>
     (\<forall>opt \<in> set (event_options e). mk_ElectionOption opt = Inr opt) \<and>
     mk_CorporateActionEvent e = Inr e"

lemma event_ok_elective:
  "event_ok e \<Longrightarrow> elective (participation e) \<longleftrightarrow> election_deadline (dates e) \<noteq> None"
  by (auto simp: event_ok_def mk_CorporateActionEvent_def)

lemma event_ok_protect:
  "event_ok e \<Longrightarrow> protect_deadline (dates e) = Some p \<Longrightarrow>
   participation e = VOLUNTARY \<and> (\<exists>d. election_deadline (dates e) = Some d \<and> d \<le> p)"
  by (auto simp: event_ok_def mk_CorporateActionEvent_def mk_EventDates_def before_opt_def elective_def
      split: option.splits if_splits)

lemma event_ok_election:
  "event_ok e \<Longrightarrow> election_deadline (dates e) = Some d \<Longrightarrow> announcement_date (dates e) \<le> d"
  by (auto simp: event_ok_def mk_EventDates_def before_opt_def split: option.splits if_splits)

end
