(* ===== verification/Replayed_Journal.thy ===== *)
theory Replayed_Journal
  imports Append_Log
begin

text \<open>
  The contract of a component that journals every request it is given, applied or refused, and
  can be rebuilt from its journal (the corporate action lifecycle and the election book). A
  request always succeeds: it returns the next state and the entry that was appended. Rebuilding
  replays the requests found in the entries and requires each recomputed entry to be the recorded
  one. It is an append-only log whose calls never raise; what is proved here once is that the
  journal determines the state.
\<close>

definition replies :: "('s \<Rightarrow> 'r \<Rightarrow> 's \<times> 'e) \<Rightarrow> 's \<Rightarrow> 'r \<Rightarrow> (unit, 's) result" where
  "replies submit s r = Inr (fst (submit s r))"

definition run_requests :: "('s \<Rightarrow> 'r \<Rightarrow> 's \<times> 'e) \<Rightarrow> 's \<Rightarrow> 'r list \<Rightarrow> 's" where
  "run_requests submit s rs = foldl (\<lambda>t r. fst (submit t r)) s rs"

lemma run_requests_Nil [simp]: "run_requests submit s [] = s"
  and run_requests_Cons [simp]:
    "run_requests submit s (r # rs) = run_requests submit (fst (submit s r)) rs"
  and run_requests_append:
    "run_requests submit s (rs @ qs) = run_requests submit (run_requests submit s rs) qs"
  by (simp_all add: run_requests_def)

lemma run_calls_replies: "run_calls (replies submit) s rs = run_requests submit s rs"
  by (induction rs arbitrary: s) (simp_all add: replies_def attempt_def)

locale replayed_journal =
  fixes inv :: "'s \<Rightarrow> bool"
    and submit :: "'s \<Rightarrow> 'r \<Rightarrow> 's \<times> 'e"
    and journal_of :: "'s \<Rightarrow> 'e list"
    and request_of :: "'e \<Rightarrow> 'r"
    and well_placed :: "'s \<Rightarrow> 'e \<Rightarrow> bool"
    and replay :: "'s \<Rightarrow> 'e list \<Rightarrow> ('err, 's) result"
  assumes submit_inv: "inv s \<Longrightarrow> inv (fst (submit s r))"
    and submit_appends: "journal_of (fst (submit s r)) = journal_of s @ [snd (submit s r)]"
    and submit_records: "request_of (snd (submit s r)) = r"
    and submit_places: "well_placed s (snd (submit s r))"
    and replay_Nil: "replay s [] = Inr s"
    and replay_Cons: "replay s (e # es) = Inr t \<longleftrightarrow>
      well_placed s e \<and> snd (submit s (request_of e)) = e \<and>
      replay (fst (submit s (request_of e))) es = Inr t"

sublocale replayed_journal \<subseteq> append_log inv "replies submit" journal_of
  by unfold_locales (auto simp: replies_def submit_inv submit_appends)

context replayed_journal begin

lemma run_requests_inv: "inv s \<Longrightarrow> inv (run_requests submit s rs)"
  using run_inv [of s rs] by (simp only: run_calls_replies)

lemma run_requests_appends: "\<exists>es. journal_of (run_requests submit s rs) = journal_of s @ es"
  using run_appends [of s rs] by (simp only: run_calls_replies)

lemma journal_requests:
  "journal_of (run_requests submit s rs) = journal_of s @ es \<Longrightarrow> map request_of es = rs"
proof (induction rs arbitrary: s es)
  case (Cons r rs)
  obtain fs where fs: "journal_of (run_requests submit s (r # rs)) =
      journal_of (fst (submit s r)) @ fs"
    using run_requests_appends [of "fst (submit s r)" rs] by auto
  then have "es = snd (submit s r) # fs" using Cons.prems by (simp add: submit_appends)
  moreover have "map request_of fs = rs" using Cons.IH fs by simp
  ultimately show ?case by (simp add: submit_records)
qed simp

lemma replay_run:
  "replay s es = Inr t \<longleftrightarrow>
     t = run_requests submit s (map request_of es) \<and> journal_of t = journal_of s @ es"
proof (induction es arbitrary: s)
  case Nil
  then show ?case by (auto simp: replay_Nil)
next
  case (Cons e es)
  let ?s = "fst (submit s (request_of e))"
  have "journal_of t = journal_of s @ e # es \<longleftrightarrow>
      snd (submit s (request_of e)) = e \<and> journal_of t = journal_of ?s @ es"
    if "t = run_requests submit ?s (map request_of es)"
    using run_requests_appends [of ?s "map request_of es"] that by (auto simp: submit_appends)
  moreover have "well_placed s e" if "snd (submit s (request_of e)) = e"
    using submit_places [of s "request_of e"] that by simp
  ultimately show ?case
    using Cons.IH [of ?s] by (auto simp: replay_Cons)
qed

text \<open>A journal rebuilds exactly when it is the journal of a run, and then to what that run reached.\<close>

lemma replay_iff:
  assumes "journal_of s = []"
  shows "replay s es = Inr t \<longleftrightarrow> (\<exists>rs. t = run_requests submit s rs) \<and> journal_of t = es"
proof
  assume "replay s es = Inr t"
  then show "(\<exists>rs. t = run_requests submit s rs) \<and> journal_of t = es"
    unfolding replay_run using assms by auto
next
  assume a: "(\<exists>rs. t = run_requests submit s rs) \<and> journal_of t = es"
  then obtain rs where t: "t = run_requests submit s rs" by blast
  have "map request_of es = rs"
    by (rule journal_requests [of s rs]) (use a t assms in simp)
  with a t assms show "replay s es = Inr t" by (simp add: replay_run)
qed

end

end
