(* ===== verification/CA_Lifecycle.thy ===== *)
theory CA_Lifecycle
  imports CA_Events Replayed_Journal
begin

text \<open>
  \<open>atreides/corporate_actions/lifecycle.py\<close>: the milestones of one corporate action, the reason a
  request is refused, the journal of every request, and its replay. The lifecycle is a replayed
  journal; what its reachable states satisfy is proved from one invariant.
\<close>

datatype Milestone = ENTITLEMENT_FIXED | ELECTIONS_CLOSED | PAID | CANCELLED | REVERSED

datatype LifecycleStatus = St_OPEN | St_PAID | St_CANCELLED | St_REVERSED

definition ended :: "LifecycleStatus \<Rightarrow> bool" where
  "ended s \<longleftrightarrow> s \<in> {St_CANCELLED, St_REVERSED}"

datatype RefusalReason =
    ENDED | ALREADY_REACHED | NOT_ELECTIVE | ENTITLEMENT_NOT_FIXED | ELECTIONS_OPEN | NOT_PAID
  | ALREADY_PAID | BEFORE_ANNOUNCEMENT | BEFORE_PREVIOUS_MILESTONE

record LifecycleState =
  status :: LifecycleStatus
  reached :: "Milestone list"
  last_effective_date :: "int option"

definition initial_state :: LifecycleState where
  "initial_state = \<lparr>status = St_OPEN, reached = [], last_effective_date = None\<rparr>"

record TransitionRequest =
  milestone :: Milestone
  effective_date :: int
  request_provenance :: Provenance
  request_source :: SourceIdentity

datatype transition_outcome = Applied | Refused

record TransitionEntry =
  te_event_id :: string
  te_sequence :: nat
  te_request :: TransitionRequest
  te_outcome :: transition_outcome
  te_refusal :: "RefusalReason option"
  state_before :: LifecycleState
  state_after :: LifecycleState

datatype entry_error = Refusal_Unnamed | Refused_Changes_State | Applied_With_Refusal

definition mk_TransitionEntry :: "TransitionEntry \<Rightarrow> (entry_error, TransitionEntry) result" where
  "mk_TransitionEntry e =
     (if te_outcome e = Refused then
        require (te_refusal e \<noteq> None) Refusal_Unnamed (
        require (state_after e = state_before e) Refused_Changes_State (Inr e))
      else require (te_refusal e = None) Applied_With_Refusal (Inr e))"

subsection \<open>One request\<close>

definition refusal_of ::
  "CorporateActionEvent \<Rightarrow> LifecycleState \<Rightarrow> TransitionRequest \<Rightarrow> RefusalReason option" where
  "refusal_of ev st rq =
     (if ended (status st) then Some ENDED
      else if effective_date rq < announcement_date (dates ev) then Some BEFORE_ANNOUNCEMENT
      else if before_opt (Some (effective_date rq)) (last_effective_date st)
      then Some BEFORE_PREVIOUS_MILESTONE
      else if milestone rq = REVERSED then (if status st = St_PAID then None else Some NOT_PAID)
      else if milestone rq = CANCELLED then (if status st = St_PAID then Some ALREADY_PAID else None)
      else if milestone rq \<in> set (reached st) then Some ALREADY_REACHED
      else if milestone rq = ELECTIONS_CLOSED \<and> \<not> elective (participation ev) then Some NOT_ELECTIVE
      else if milestone rq = PAID \<and> ENTITLEMENT_FIXED \<notin> set (reached st)
      then Some ENTITLEMENT_NOT_FIXED
      else if milestone rq = PAID \<and> elective (participation ev) \<and> ELECTIONS_CLOSED \<notin> set (reached st)
      then Some ELECTIONS_OPEN
      else None)"

fun status_after :: "Milestone \<Rightarrow> LifecycleStatus \<Rightarrow> LifecycleStatus" where
  "status_after PAID s = St_PAID"
| "status_after CANCELLED s = St_CANCELLED"
| "status_after REVERSED s = St_REVERSED"
| "status_after _ s = s"

definition lifecycle_step ::
  "CorporateActionEvent \<Rightarrow> LifecycleState \<Rightarrow> nat \<Rightarrow> TransitionRequest \<Rightarrow> TransitionEntry" where
  "lifecycle_step ev st n rq =
     (case refusal_of ev st rq of
        Some why \<Rightarrow>
          \<lparr>te_event_id = event_id ev, te_sequence = n, te_request = rq, te_outcome = Refused,
           te_refusal = Some why, state_before = st, state_after = st\<rparr>
      | None \<Rightarrow>
          \<lparr>te_event_id = event_id ev, te_sequence = n, te_request = rq, te_outcome = Applied,
           te_refusal = None, state_before = st,
           state_after =
             \<lparr>status = status_after (milestone rq) (status st), reached = reached st @ [milestone rq],
              last_effective_date = Some (effective_date rq)\<rparr>\<rparr>)"

subsection \<open>The lifecycle and its replay\<close>

record Lifecycle =
  lc_event :: CorporateActionEvent
  lc_state :: LifecycleState
  lc_journal :: "TransitionEntry list"

definition new_lifecycle :: "CorporateActionEvent \<Rightarrow> Lifecycle" where
  "new_lifecycle ev = \<lparr>lc_event = ev, lc_state = initial_state, lc_journal = []\<rparr>"

definition request :: "Lifecycle \<Rightarrow> TransitionRequest \<Rightarrow> Lifecycle \<times> TransitionEntry" where
  "request lc rq =
     (let e = lifecycle_step (lc_event lc) (lc_state lc) (length (lc_journal lc)) rq in
      (\<lparr>lc_event = lc_event lc, lc_state = state_after e, lc_journal = lc_journal lc @ [e]\<rparr>, e))"

datatype journal_mismatch =
    Entry_Of_Other_Event nat string | Entry_Out_Of_Sequence nat nat | Entry_Not_Recomputed nat

fun rebuild_from ::
  "CorporateActionEvent \<Rightarrow> nat \<Rightarrow> Lifecycle \<Rightarrow> TransitionEntry list \<Rightarrow> (journal_mismatch, Lifecycle) result" where
  "rebuild_from ev n lc [] = Inr lc"
| "rebuild_from ev n lc (recorded # es) =
     require (te_event_id recorded = event_id ev)
       (Entry_Of_Other_Event (te_sequence recorded) (te_event_id recorded)) (
     require (te_sequence recorded = n) (Entry_Out_Of_Sequence (te_sequence recorded) n) (
     case request lc (te_request recorded) of (lc', recomputed) \<Rightarrow>
     require (recomputed = recorded) (Entry_Not_Recomputed (te_sequence recorded)) (
     rebuild_from ev (Suc n) lc' es)))"

definition rebuild ::
  "CorporateActionEvent \<Rightarrow> TransitionEntry list \<Rightarrow> (journal_mismatch, Lifecycle) result" where
  "rebuild ev js = rebuild_from ev 0 (new_lifecycle ev) js"

abbreviation run_lifecycle :: "Lifecycle \<Rightarrow> TransitionRequest list \<Rightarrow> Lifecycle" where
  "run_lifecycle \<equiv> run_requests request"

end
