(* ===== verification/CA_Lifecycle_Props.thy ===== *)
theory CA_Lifecycle_Props
  imports CA_Lifecycle
begin

text \<open>
  What every reachable lifecycle satisfies. The abstract specification is \<open>history\<close>: which
  sequences of milestones belong to which status. The journal's applied entries are that
  sequence, with dates that never go back.
\<close>

subsection \<open>The abstract history\<close>

definition open_history :: "CorporateActionEvent \<Rightarrow> Milestone list \<Rightarrow> bool" where
  "open_history ev xs \<longleftrightarrow>
     distinct xs \<and> set xs \<subseteq> {ENTITLEMENT_FIXED, ELECTIONS_CLOSED} \<and>
     (ELECTIONS_CLOSED \<in> set xs \<longrightarrow> elective (participation ev))"

definition payable_history :: "CorporateActionEvent \<Rightarrow> Milestone list \<Rightarrow> bool" where
  "payable_history ev xs \<longleftrightarrow>
     open_history ev xs \<and> ENTITLEMENT_FIXED \<in> set xs \<and>
     (elective (participation ev) \<longrightarrow> ELECTIONS_CLOSED \<in> set xs)"

fun history :: "CorporateActionEvent \<Rightarrow> LifecycleStatus \<Rightarrow> Milestone list \<Rightarrow> bool" where
  "history ev St_OPEN xs = open_history ev xs"
| "history ev St_PAID xs = (\<exists>ys. xs = ys @ [PAID] \<and> payable_history ev ys)"
| "history ev St_CANCELLED xs = (\<exists>ys. xs = ys @ [CANCELLED] \<and> open_history ev ys)"
| "history ev St_REVERSED xs = (\<exists>ys. xs = ys @ [PAID, REVERSED] \<and> payable_history ev ys)"

definition applied :: "Lifecycle \<Rightarrow> TransitionRequest list" where
  "applied lc = map te_request (filter (\<lambda>e. te_outcome e = Applied) (lc_journal lc))"

definition dated :: "CorporateActionEvent \<Rightarrow> TransitionRequest list \<Rightarrow> bool" where
  "dated ev rqs \<longleftrightarrow> sorted (announcement_date (dates ev) # map effective_date rqs)"

definition last_date :: "TransitionRequest list \<Rightarrow> int option" where
  "last_date rqs = (if rqs = [] then None else Some (effective_date (last rqs)))"

definition lifecycle_inv :: "CorporateActionEvent \<Rightarrow> Lifecycle \<Rightarrow> bool" where
  "lifecycle_inv ev lc \<longleftrightarrow>
     lc_event lc = ev \<and> reached (lc_state lc) = map milestone (applied lc) \<and>
     last_effective_date (lc_state lc) = last_date (applied lc) \<and> dated ev (applied lc) \<and>
     history ev (status (lc_state lc)) (reached (lc_state lc)) \<and>
     (\<forall>e \<in> set (lc_journal lc). mk_TransitionEntry e = Inr e)"

lemma new_lifecycle_inv: "lifecycle_inv ev (new_lifecycle ev)"
  by (simp add: lifecycle_inv_def new_lifecycle_def initial_state_def applied_def dated_def
      last_date_def open_history_def)

subsection \<open>One request\<close>

lemma step_entry_consistent [log_simps]: "mk_TransitionEntry (lifecycle_step ev st n rq) = Inr (lifecycle_step ev st n rq)"
  by (simp add: lifecycle_step_def mk_TransitionEntry_def split: option.splits)

lemma request_simps [log_simps]:
  "lc_event (fst (request lc rq)) = lc_event lc"
  "lc_journal (fst (request lc rq)) = lc_journal lc @ [snd (request lc rq)]"
  "snd (request lc rq) = lifecycle_step (lc_event lc) (lc_state lc) (length (lc_journal lc)) rq"
  "lc_state (fst (request lc rq)) = state_after (snd (request lc rq))"
  by (simp_all add: request_def Let_def)

lemma step_simps [log_simps]:
  "te_event_id (lifecycle_step ev st n rq) = event_id ev"
  "te_sequence (lifecycle_step ev st n rq) = n"
  "te_request (lifecycle_step ev st n rq) = rq"
  "te_outcome (lifecycle_step ev st n rq) = Applied \<longleftrightarrow> refusal_of ev st rq = None"
  by (simp_all add: lifecycle_step_def split: option.splits)

lemma request_refused:
  "refusal_of (lc_event lc) (lc_state lc) rq = Some why \<Longrightarrow>
   lc_state (fst (request lc rq)) = lc_state lc \<and> applied (fst (request lc rq)) = applied lc"
  by (simp add: log_simps applied_def) (simp add: lifecycle_step_def)

lemma request_applied:
  "refusal_of (lc_event lc) (lc_state lc) rq = None \<Longrightarrow>
   lc_state (fst (request lc rq)) =
     \<lparr>status = status_after (milestone rq) (status (lc_state lc)),
      reached = reached (lc_state lc) @ [milestone rq],
      last_effective_date = Some (effective_date rq)\<rparr> \<and>
   applied (fst (request lc rq)) = applied lc @ [rq]"
  by (simp add: log_simps applied_def) (simp add: lifecycle_step_def)

lemma refusal_of_None:
  "refusal_of ev st rq = None \<longleftrightarrow>
     \<not> ended (status st) \<and> announcement_date (dates ev) \<le> effective_date rq \<and>
     (case last_effective_date st of None \<Rightarrow> True | Some d \<Rightarrow> d \<le> effective_date rq) \<and>
     (case milestone rq of
        REVERSED \<Rightarrow> status st = St_PAID
      | CANCELLED \<Rightarrow> status st \<noteq> St_PAID
      | ENTITLEMENT_FIXED \<Rightarrow> ENTITLEMENT_FIXED \<notin> set (reached st)
      | ELECTIONS_CLOSED \<Rightarrow> ELECTIONS_CLOSED \<notin> set (reached st) \<and> elective (participation ev)
      | PAID \<Rightarrow> PAID \<notin> set (reached st) \<and> ENTITLEMENT_FIXED \<in> set (reached st) \<and>
                (elective (participation ev) \<longrightarrow> ELECTIONS_CLOSED \<in> set (reached st)))"
  by (cases "milestone rq"; cases "last_effective_date st")
    (auto simp: refusal_of_def before_opt_def)

lemma dated_snoc:
  "dated ev rqs \<Longrightarrow> announcement_date (dates ev) \<le> effective_date rq \<Longrightarrow>
   (case last_date rqs of None \<Rightarrow> True | Some d \<Rightarrow> d \<le> effective_date rq) \<Longrightarrow> dated ev (rqs @ [rq])"
  by (cases rqs rule: rev_cases) (auto simp: dated_def last_date_def sorted_append)

lemma open_history_snoc:
  "open_history ev xs \<Longrightarrow> m \<in> {ENTITLEMENT_FIXED, ELECTIONS_CLOSED} \<Longrightarrow> m \<notin> set xs \<Longrightarrow>
   (m = ELECTIONS_CLOSED \<longrightarrow> elective (participation ev)) \<Longrightarrow> open_history ev (xs @ [m])"
  by (auto simp: open_history_def)

lemma open_history_no_end: "open_history ev xs \<Longrightarrow> set xs \<inter> {PAID, CANCELLED, REVERSED} = {}"
  by (auto simp: open_history_def)

lemma history_step:
  assumes "history ev (status st) (reached st)" and "refusal_of ev st rq = None"
  shows "history ev (status_after (milestone rq) (status st)) (reached st @ [milestone rq])"
  using assms unfolding refusal_of_None
  by (cases "status st"; cases "milestone rq")
    (auto simp: ended_def payable_history_def open_history_def)

lemma request_inv:
  assumes "lifecycle_inv ev lc"
  shows "lifecycle_inv ev (fst (request lc rq))"
proof (cases "refusal_of (lc_event lc) (lc_state lc) rq")
  case None
  note n = None [unfolded refusal_of_None] and a = request_applied [OF None]
  have "dated ev (applied lc @ [rq])"
    using assms n by (intro dated_snoc) (simp_all add: lifecycle_inv_def)
  with a history_step [of ev "lc_state lc" rq] assms None show ?thesis
    by (auto simp: lifecycle_inv_def log_simps last_date_def)
next
  case (Some why)
  with request_refused [OF Some] assms show ?thesis
    by (auto simp: lifecycle_inv_def log_simps)
qed

subsection \<open>The replayed journal\<close>

fun replay_lifecycle :: "Lifecycle \<Rightarrow> TransitionEntry list \<Rightarrow> (journal_mismatch, Lifecycle) result" where
  "replay_lifecycle lc es = rebuild_from (lc_event lc) (length (lc_journal lc)) lc es"

definition entry_placed :: "Lifecycle \<Rightarrow> TransitionEntry \<Rightarrow> bool" where
  "entry_placed lc e \<longleftrightarrow> te_event_id e = event_id (lc_event lc) \<and> te_sequence e = length (lc_journal lc)"

interpretation lifecycle: replayed_journal "lifecycle_inv ev" request lc_journal te_request
  entry_placed replay_lifecycle for ev
proof unfold_locales
  show "lifecycle_inv ev lc \<Longrightarrow> lifecycle_inv ev (fst (request lc rq))" for lc rq by (rule request_inv)
  show "replay_lifecycle lc (e # es) = Inr t \<longleftrightarrow> entry_placed lc e \<and>
      snd (request lc (te_request e)) = e \<and> replay_lifecycle (fst (request lc (te_request e))) es = Inr t"
    for lc e es t
    by (simp add: entry_placed_def log_simps split: prod.split) (auto simp: request_def Let_def)
qed (simp_all add: log_simps entry_placed_def)

lemma rebuild_replay: "rebuild ev js = replay_lifecycle (new_lifecycle ev) js"
  by (simp add: rebuild_def new_lifecycle_def)

lemma reachable_lifecycle: "lifecycle_inv ev (run_lifecycle (new_lifecycle ev) rqs)"
  by (rule lifecycle.run_requests_inv) (rule new_lifecycle_inv)

subsection \<open>Which histories are reached\<close>

definition ask :: "CorporateActionEvent \<Rightarrow> Milestone \<Rightarrow> TransitionRequest" where
  "ask ev m = \<lparr>milestone = m, effective_date = announcement_date (dates ev),
     request_provenance = FACT_SYNTHETIC, request_source = source ev\<rparr>"

lemma ask_simps [simp]:
  "milestone (ask ev m) = m" "effective_date (ask ev m) = announcement_date (dates ev)"
  by (simp_all add: ask_def)

definition asked :: "CorporateActionEvent \<Rightarrow> Milestone list \<Rightarrow> LifecycleState" where
  "asked ev xs = lc_state (run_lifecycle (new_lifecycle ev) (map (ask ev) xs))"

lemma asked_Nil: "asked ev [] = initial_state"
  by (simp add: asked_def new_lifecycle_def)

lemma asked_snoc:
  "asked ev (xs @ [m]) =
     (if refusal_of ev (asked ev xs) (ask ev m) = None
      then \<lparr>status = status_after m (status (asked ev xs)), reached = reached (asked ev xs) @ [m],
            last_effective_date = Some (announcement_date (dates ev))\<rparr>
      else asked ev xs)"
proof -
  let ?lc = "run_lifecycle (new_lifecycle ev) (map (ask ev) xs)"
  have "lc_event ?lc = ev" using reachable_lifecycle by (simp add: lifecycle_inv_def)
  then show ?thesis
    using request_applied [of ?lc "ask ev m"] request_refused [of ?lc "ask ev m"]
    by (auto simp: asked_def run_requests_append)
qed

definition at_announcement :: "CorporateActionEvent \<Rightarrow> LifecycleState \<Rightarrow> bool" where
  "at_announcement ev st \<longleftrightarrow> last_effective_date st \<in> {None, Some (announcement_date (dates ev))}"

lemma asked_open:
  "open_history ev xs \<Longrightarrow> reached (asked ev xs) = xs \<and> status (asked ev xs) = St_OPEN \<and>
   at_announcement ev (asked ev xs)"
proof (induction xs rule: rev_induct)
  case Nil
  then show ?case by (simp add: asked_Nil initial_state_def at_announcement_def)
next
  case (snoc m xs)
  then have "open_history ev xs" by (auto simp: open_history_def)
  note IH = snoc.IH [OF this]
  have "refusal_of ev (asked ev xs) (ask ev m) = None"
    using IH snoc.prems unfolding refusal_of_None
    by (auto simp: open_history_def ended_def at_announcement_def)
  with IH snoc.prems show ?case
    by (auto simp: asked_snoc at_announcement_def open_history_def)
qed

lemma asked_paid:
  assumes "payable_history ev ys"
  shows "reached (asked ev (ys @ [PAID])) = ys @ [PAID] \<and> status (asked ev (ys @ [PAID])) = St_PAID \<and>
    at_announcement ev (asked ev (ys @ [PAID]))"
proof -
  have o: "open_history ev ys" using assms by (simp add: payable_history_def)
  note a = asked_open [OF o]
  have "refusal_of ev (asked ev ys) (ask ev PAID) = None"
    using a assms open_history_no_end [OF o] unfolding refusal_of_None
    by (auto simp: payable_history_def ended_def at_announcement_def)
  with a show ?thesis by (simp add: asked_snoc at_announcement_def)
qed

lemma asked_history: "history ev s xs \<Longrightarrow> reached (asked ev xs) = xs \<and> status (asked ev xs) = s"
proof (cases s)
  case St_CANCELLED
  moreover assume "history ev s xs"
  ultimately obtain ys where ys: "xs = ys @ [CANCELLED]" "open_history ev ys" by auto
  have "refusal_of ev (asked ev ys) (ask ev CANCELLED) = None"
    using asked_open [OF ys(2)] unfolding refusal_of_None by (auto simp: ended_def at_announcement_def)
  with asked_open [OF ys(2)] show ?thesis by (simp add: ys(1) asked_snoc St_CANCELLED)
next
  case St_REVERSED
  moreover assume "history ev s xs"
  ultimately obtain ys where ys: "xs = (ys @ [PAID]) @ [REVERSED]" "payable_history ev ys" by auto
  have "refusal_of ev (asked ev (ys @ [PAID])) (ask ev REVERSED) = None"
    using asked_paid [OF ys(2)] unfolding refusal_of_None by (auto simp: ended_def at_announcement_def)
  with asked_paid [OF ys(2)] show ?thesis by (simp only: ys(1) asked_snoc) (simp add: St_REVERSED)
qed (use asked_open asked_paid in auto)

subsection \<open>Properties\<close>

text \<open>
  C19: the lifecycle does exactly what its rules promise. The milestones a lifecycle can have
  reached, with the status they leave, are exactly the histories of the specification: nothing but
  the fixed entitlement and, on an elective event, the closed elections (each at most once) before
  payment; payment only after both; a reversal only after payment, a cancellation only before it;
  nothing after either. Every such history can be reached, and no other.
\<close>

theorem lifecycle_reaches_exactly_histories:
  "(\<exists>rqs. reached (lc_state (run_lifecycle (new_lifecycle ev) rqs)) = xs \<and>
          status (lc_state (run_lifecycle (new_lifecycle ev) rqs)) = s) \<longleftrightarrow> history ev s xs"
proof
  assume "\<exists>rqs. reached (lc_state (run_lifecycle (new_lifecycle ev) rqs)) = xs \<and>
    status (lc_state (run_lifecycle (new_lifecycle ev) rqs)) = s"
  then obtain rqs where "reached (lc_state (run_lifecycle (new_lifecycle ev) rqs)) = xs"
    "status (lc_state (run_lifecycle (new_lifecycle ev) rqs)) = s" by blast
  with reachable_lifecycle [of ev rqs] show "history ev s xs" unfolding lifecycle_inv_def by metis
next
  assume "history ev s xs"
  from asked_history [OF this] show "\<exists>rqs. reached (lc_state (run_lifecycle (new_lifecycle ev) rqs)) = xs \<and>
    status (lc_state (run_lifecycle (new_lifecycle ev) rqs)) = s"
    unfolding asked_def by blast
qed

text \<open>
  the journal is the lifecycle. A journal rebuilds exactly when it is the journal of some
  sequence of requests made of this event, and then to the lifecycle those requests reached: an
  entry altered, reordered, dropped before another or taken from another event does not rebuild.
\<close>

theorem lifecycle_journal_rebuilds:
  "rebuild ev js = Inr lc \<longleftrightarrow>
     (\<exists>rqs. lc = run_lifecycle (new_lifecycle ev) rqs) \<and> lc_journal lc = js"
  unfolding rebuild_replay by (rule lifecycle.replay_iff) (simp add: new_lifecycle_def)

text \<open>
  the journal's dates never go back. In any lifecycle the milestones reached are those of the
  applied entries, in order, none dated before the announcement or before the one it follows; a
  refused request names its reason and leaves the state as it was.
\<close>

theorem lifecycle_milestones_are_dated:
  "(let lc = run_lifecycle (new_lifecycle ev) rqs in
    reached (lc_state lc) = map milestone (applied lc) \<and>
    sorted (announcement_date (dates ev) # map effective_date (applied lc)) \<and>
    (\<forall>e \<in> set (lc_journal lc). te_outcome e = Refused \<longrightarrow>
       te_refusal e \<noteq> None \<and> state_after e = state_before e))"
  using reachable_lifecycle [of ev rqs]
  by (auto simp: Let_def lifecycle_inv_def dated_def mk_TransitionEntry_def)

lemma history_length: "history ev s xs \<Longrightarrow> length xs \<le> 4"
proof -
  have o: "length ys \<le> 2" if "open_history ev ys" for ys
    using that card_mono [of "{ENTITLEMENT_FIXED, ELECTIONS_CLOSED}" "set ys"]
    by (auto simp: open_history_def distinct_card card_insert_if)
  assume "history ev s xs"
  then show ?thesis by (cases s) (auto simp: payable_history_def dest!: o)
qed

definition ending_request :: "CorporateActionEvent \<Rightarrow> LifecycleState \<Rightarrow> TransitionRequest" where
  "ending_request ev st =
     (ask ev (if status st = St_PAID then REVERSED else CANCELLED))
       \<lparr>effective_date := (case last_effective_date st of None \<Rightarrow> announcement_date (dates ev) | Some d \<Rightarrow> d)\<rparr>"

lemma ending_request_accepted:
  assumes "lifecycle_inv ev lc" and "\<not> ended (status (lc_state lc))"
  shows "ended (status (lc_state (fst (request lc (ending_request ev (lc_state lc))))))"
proof -
  have "announcement_date (dates ev) \<le> d" if "last_effective_date (lc_state lc) = Some d" for d
    using assms(1) that
    by (cases "applied lc" rule: rev_cases)
      (auto simp: lifecycle_inv_def dated_def last_date_def sorted_append)
  then have "refusal_of ev (lc_state lc) (ending_request ev (lc_state lc)) = None"
    using assms(2) unfolding refusal_of_None
    by (auto simp: ending_request_def split: option.splits)
  moreover have "lc_event lc = ev" using assms(1) by (simp add: lifecycle_inv_def)
  ultimately show ?thesis
    using request_applied [of lc "ending_request ev (lc_state lc)"]
    by (simp add: ending_request_def ended_def split: if_splits)
qed

text \<open>
  C20: no lifecycle is stuck, and none goes on for ever. Whatever has been requested, at most four
  milestones are reached; while the lifecycle has not ended, one further request ends it (a
  cancellation before payment, a reversal after); and once it has ended every request is refused.
\<close>

theorem lifecycle_can_always_end:
  "(let lc = run_lifecycle (new_lifecycle ev) rqs in
    length (reached (lc_state lc)) \<le> 4 \<and>
    (if ended (status (lc_state lc))
     then \<forall>rq. te_refusal (snd (request lc rq)) = Some ENDED \<and> lc_state (fst (request lc rq)) = lc_state lc
     else \<exists>rq. ended (status (lc_state (fst (request lc rq))))))"
proof -
  let ?lc = "run_lifecycle (new_lifecycle ev) rqs"
  have i: "lifecycle_inv ev ?lc" by (rule reachable_lifecycle)
  then have "length (reached (lc_state ?lc)) \<le> 4"
    by (auto simp: lifecycle_inv_def dest: history_length)
  moreover have "te_refusal (snd (request ?lc rq)) = Some ENDED \<and> lc_state (fst (request ?lc rq)) = lc_state ?lc"
    if "ended (status (lc_state ?lc))" for rq
    using that by (simp add: log_simps lifecycle_step_def refusal_of_def)
  ultimately show ?thesis using ending_request_accepted [OF i] by (auto simp: Let_def)
qed

subsection \<open>Witnesses\<close>

definition w_dates :: EventDates where
  "w_dates = \<lparr>announcement_date = 100, record_date = None, election_deadline = Some 120,
     protect_deadline = Some 125, payable_date = None\<rparr>"

definition w_event :: CorporateActionEvent where
  "w_event = \<lparr>event_id = ''E'', security_id = ''S'', event_type = TENDER_OFFER,
     participation = VOLUNTARY, dates = w_dates,
     terms = \<lparr>cash_rate_per_share = None, terms_currency = None, stock_rate_per_share = None,
       split_new = None, split_old = None, interest_amount_per_face = None,
       redemption_price_per_face = None, reinvestment_price_per_share = None\<rparr>,
     event_options = [\<lparr>option_id = ''001'', option_description = ''tender'', option_type = None\<rparr>],
     default_option_id = Some ''001'', provenance = FACT_SYNTHETIC,
     source = \<lparr>source_id = ''dtc'', source_reference = None\<rparr>\<rparr>"

lemma w_event_ok: "event_ok w_event"
  by (simp add: event_ok_def w_event_def w_dates_def mk_EventDates_def mk_EventTerms_def
      mk_ElectionOption_def mk_CorporateActionEvent_def before_opt_def non_negative_def
      other_cash_terms_def event_fact_def elective_def)

text \<open>The elective lifecycle of a tender offer: elections close, the entitlement is fixed, it pays.\<close>

lemma w_history: "history w_event St_PAID [ELECTIONS_CLOSED, ENTITLEMENT_FIXED, PAID]"
  by (auto simp: payable_history_def open_history_def w_event_def elective_def)

theorem lifecycle_reaches_exactly_histories_witness:
  "\<exists>rqs. reached (lc_state (run_lifecycle (new_lifecycle w_event) rqs)) =
      [ELECTIONS_CLOSED, ENTITLEMENT_FIXED, PAID] \<and>
    status (lc_state (run_lifecycle (new_lifecycle w_event) rqs)) = St_PAID"
  using lifecycle_reaches_exactly_histories w_history by blast

theorem lifecycle_milestones_are_dated_witness:
  "reached (lc_state (run_lifecycle (new_lifecycle w_event) [ask w_event PAID])) =
     map milestone (applied (run_lifecycle (new_lifecycle w_event) [ask w_event PAID]))"
  using lifecycle_milestones_are_dated [of w_event "[ask w_event PAID]"] by (simp add: Let_def)

end
