(* ===== verification/CA_Entitlement.thy ===== *)
theory CA_Entitlement
  imports CA_Events CNS_Rail
begin

text \<open>
  \<open>atreides/corporate_actions/entitlement.py\<close>: who is owed what by an event of a computed class,
  exactly, with the holders whose treatment is not stated kept apart. Python's \<open>Fraction\<close> is
  \<open>rat\<close>; a Decimal is a rational with a finite decimal expansion (\<open>is_decimal\<close>). The constructors
  of the result records run their validators, so a call returns only what they accept.
\<close>

definition is_decimal :: "rat \<Rightarrow> bool" where
  "is_decimal x \<longleftrightarrow> (\<exists>k. on_grid k x)"

definition COMPUTED_EVENT_TYPES :: "EventType set" where
  "COMPUTED_EVENT_TYPES =
     {CASH_DIVIDEND, STOCK_DIVIDEND, SPLIT, INTEREST_PAYMENT, FINAL_MATURITY, PARTIAL_REDEMPTION,
      FULL_CALL, REDEMPTION_LOTTERY, CAPITAL_GAINS_DISTRIBUTION, CAPITAL_DISTRIBUTION, REINVESTMENT}"

definition FIXED_INCOME_EVENT_TYPES :: "EventType set" where
  "FIXED_INCOME_EVENT_TYPES =
     {INTEREST_PAYMENT, FINAL_MATURITY, PARTIAL_REDEMPTION, FULL_CALL, REDEMPTION_LOTTERY}"

datatype UnavailableTreatment =
    RECORD_DATE_DIVERGENCE | PENDING_DELIVERY_OR_RECEIPT | FRACTIONAL_SHARES | SHORT_POSITION

fun treatment_value :: "UnavailableTreatment \<Rightarrow> string" where
  "treatment_value RECORD_DATE_DIVERGENCE = ''record_date_divergence''"
| "treatment_value PENDING_DELIVERY_OR_RECEIPT = ''pending_delivery_or_receipt''"
| "treatment_value FRACTIONAL_SHARES = ''fractional_shares''"
| "treatment_value SHORT_POSITION = ''short_position''"

datatype quantity_basis = Units | Face_Amount

record HolderPosition =
  hp_account_id :: string
  position :: RecordDatePosition
  basis :: quantity_basis

datatype entitlement_unit = Cash_Unit | Share_Unit

record HolderEntitlement =
  he_account_id :: string
  he_eligible_balance :: rat
  he_quantity :: "rat option"
  unavailable :: "UnavailableTreatment list"
  treatment_explained :: bool

datatype entitlement_error =
    Account_Unnamed | Account_Twice | Holds_Another_Security string | Needs_Face_Amount
  | Number_And_Reason | Negative_Entitlement | Totals_Half_Stated | Not_Conserved

definition mk_HolderPosition ::
  "string \<Rightarrow> RecordDatePosition \<Rightarrow> quantity_basis \<Rightarrow> (entitlement_error, HolderPosition) result" where
  "mk_HolderPosition account pos b =
     require (account \<noteq> []) Account_Unnamed
       (Inr \<lparr>hp_account_id = account, position = pos, basis = b\<rparr>)"

definition mk_HolderEntitlement ::
  "HolderEntitlement \<Rightarrow> (entitlement_error, HolderEntitlement) result" where
  "mk_HolderEntitlement h =
     require (\<not> ((he_quantity h = None) = (unavailable h = []))) Number_And_Reason (
     require (\<not> (he_quantity h \<noteq> None \<and> the (he_quantity h) < 0)) Negative_Entitlement (Inr h))"

datatype entitlement_gap =
    Class_Not_Computed EventType | Zero_Reinvestment_Price | Not_A_Forward_Split int int
  | Treatment_Gap UnavailableTreatment

record EntitlementResult =
  er_event_id :: string
  er_event_type :: EventType
  unit_of :: "entitlement_unit option"
  er_currency :: "string option"
  er_factor :: "rat option"
  er_disposition :: Disposition
  holders :: "HolderEntitlement list"
  allocated_total :: "rat option"
  er_residual :: "rat option"
  event_total :: "rat option"
  unavailable_rules :: "entitlement_gap list"
  er_missing_inputs :: "string list"

definition mk_EntitlementResult ::
  "EntitlementResult \<Rightarrow> (entitlement_error, EntitlementResult) result" where
  "mk_EntitlementResult r =
     (let totals = [allocated_total r, er_residual r, event_total r] in
      require (list_ex (\<lambda>t. t = None) totals = list_all (\<lambda>t. t = None) totals) Totals_Half_Stated (
      require (\<not> (allocated_total r \<noteq> None \<and> er_residual r \<noteq> None \<and>
                   Some (the (allocated_total r) + the (er_residual r)) \<noteq> event_total r))
        Not_Conserved (Inr r)))"

subsection \<open>Exact decimals\<close>

text \<open>
  The loop \<open>while denominator % p == 0\<close>. The guards on \<open>d\<close> and \<open>p\<close> hold at both calls: a denominator
  is positive, and \<open>p\<close> is 2 or 5.
\<close>

function strip_factor :: "nat \<Rightarrow> nat \<Rightarrow> nat \<Rightarrow> nat \<times> nat" where
  "strip_factor p d c =
     (if 0 < d \<and> 1 < p \<and> d mod p = 0 then strip_factor p (d div p) (Suc c) else (d, c))"
  by pat_completeness auto
termination by (relation "measure (\<lambda>(p, d, c). d)") auto

declare strip_factor.simps [simp del]

definition denominator :: "rat \<Rightarrow> nat" where
  "denominator x = nat (snd (quotient_of x))"

definition numerator :: "rat \<Rightarrow> int" where
  "numerator x = fst (quotient_of x)"

definition exact_decimal :: "rat \<Rightarrow> rat option" where
  "exact_decimal x =
     (let (d2, twos) = strip_factor 2 (denominator x) 0;
          (d5, fives) = strip_factor 5 d2 0 in
      if d5 \<noteq> 1 then None
      else let places = max twos fives in
           Some (of_int (numerator x * 10 ^ places div int (denominator x)) / 10 ^ places))"

subsection \<open>The factor of an event\<close>

type_synonym factor_result = "(rat \<times> entitlement_unit) option \<times> entitlement_gap list \<times> string list"

definition stated ::
  "string \<Rightarrow> rat option \<Rightarrow> entitlement_unit \<Rightarrow> factor_result" where
  "stated name term u =
     (case term of None \<Rightarrow> (None, [], [name]) | Some r \<Rightarrow> (Some (r, u), [], []))"

definition reinvestment_factor :: "EventTerms \<Rightarrow> factor_result" where
  "reinvestment_factor t =
     (case (cash_rate_per_share t, reinvestment_price_per_share t) of
        (None, _) \<Rightarrow> (None, [], [''terms.cash_rate_per_share''])
      | (Some r, None) \<Rightarrow> (None, [], [''terms.reinvestment_price_per_share''])
      | (Some r, Some p) \<Rightarrow>
          if p = 0 then (None, [Zero_Reinvestment_Price], []) else (Some (r / p, Share_Unit), [], []))"

definition split_factor :: "EventTerms \<Rightarrow> factor_result" where
  "split_factor t =
     (case (split_new t, split_old t) of
        (Some n, Some old) \<Rightarrow>
          if n \<le> old then (None, [Not_A_Forward_Split n old], [])
          else (Some (of_int (n - old) / of_int old, Share_Unit), [], [])
      | _ \<Rightarrow> (None, [], [''terms.split_new'', ''terms.split_old'']))"

definition factor_of :: "CorporateActionEvent \<Rightarrow> factor_result" where
  "factor_of ev =
     (let t = terms ev; k = event_type ev in
      if k \<notin> COMPUTED_EVENT_TYPES then (None, [Class_Not_Computed k], [])
      else if k = INTEREST_PAYMENT
      then stated ''terms.interest_amount_per_face'' (interest_amount_per_face t) Cash_Unit
      else if k \<in> {FINAL_MATURITY, PARTIAL_REDEMPTION, FULL_CALL, REDEMPTION_LOTTERY}
      then stated ''terms.redemption_price_per_face'' (redemption_price_per_face t) Cash_Unit
      else if k = REINVESTMENT then reinvestment_factor t
      else if k \<in> {CASH_DIVIDEND, CAPITAL_GAINS_DISTRIBUTION, CAPITAL_DISTRIBUTION}
      then stated ''terms.cash_rate_per_share'' (cash_rate_per_share t) Cash_Unit
      else if k = STOCK_DIVIDEND
      then stated ''terms.stock_rate_per_share'' (stock_rate_per_share t) Share_Unit
      else split_factor t)"

subsection \<open>One holder\<close>

definition holder_reasons :: "RecordDatePosition \<Rightarrow> entitlement_unit \<Rightarrow> rat \<Rightarrow> UnavailableTreatment list" where
  "holder_reasons p u attributable =
     (if eligible_balance p < 0 then [SHORT_POSITION] else []) @
     (if diverges p then [RECORD_DATE_DIVERGENCE] else []) @
     (if pending_delivery_balance p \<noteq> 0 \<or> pending_receipt_balance p \<noteq> 0
      then [PENDING_DELIVERY_OR_RECEIPT] else []) @
     (if u = Share_Unit \<and> denominator attributable \<noteq> 1 then [FRACTIONAL_SHARES] else [])"

definition holder_of ::
  "HolderPosition \<Rightarrow> rat \<Rightarrow> entitlement_unit \<Rightarrow> (entitlement_error, HolderEntitlement \<times> rat) result" where
  "holder_of h f u =
     (let p = position h; attributable = f * eligible_balance p;
          reasons = holder_reasons p u attributable in
      case mk_HolderEntitlement
        \<lparr>he_account_id = hp_account_id h, he_eligible_balance = eligible_balance p,
         he_quantity = (if reasons \<noteq> [] then None else exact_decimal attributable),
         unavailable = reasons,
         treatment_explained =
           (RECORD_DATE_DIVERGENCE \<in> set reasons \<or> PENDING_DELIVERY_OR_RECEIPT \<in> set reasons)\<rparr> of
        Inl e \<Rightarrow> Inl e | Inr he \<Rightarrow> Inr (he, attributable))"

fun holders_of ::
  "HolderPosition list \<Rightarrow> rat \<Rightarrow> entitlement_unit \<Rightarrow>
   (entitlement_error, (HolderEntitlement \<times> rat) list) result" where
  "holders_of [] f u = Inr []"
| "holders_of (h # hs) f u =
     (case holder_of h f u of Inl e \<Rightarrow> Inl e
      | Inr x \<Rightarrow> (case holders_of hs f u of Inl e \<Rightarrow> Inl e | Inr xs \<Rightarrow> Inr (x # xs)))"

subsection \<open>The event\<close>

fun check_holdings ::
  "CorporateActionEvent \<Rightarrow> HolderPosition list \<Rightarrow> entitlement_error option" where
  "check_holdings ev [] = None"
| "check_holdings ev (h # hs) =
     (if rd_security_id (position h) \<noteq> security_id ev then Some (Holds_Another_Security (hp_account_id h))
      else if event_type ev \<in> FIXED_INCOME_EVENT_TYPES \<and> basis h \<noteq> Face_Amount then Some Needs_Face_Amount
      else check_holdings ev hs)"

definition total_where :: "bool \<Rightarrow> (HolderEntitlement \<times> rat) list \<Rightarrow> rat" where
  "total_where got xs = (\<Sum>(h, a)\<leftarrow>xs. if (he_quantity h \<noteq> None) = got then a else 0)"

definition entitlement_gaps :: "HolderEntitlement list \<Rightarrow> string list" where
  "entitlement_gaps hs = sorted_set (map treatment_value (concat (map unavailable hs)))"

definition compute_entitlements ::
  "CorporateActionEvent \<Rightarrow> HolderPosition list \<Rightarrow> (entitlement_error, EntitlementResult) result" where
  "compute_entitlements ev holdings =
     require (length (remdups (map hp_account_id holdings)) = length (map hp_account_id holdings))
       Account_Twice (
     case check_holdings ev holdings of Some e \<Rightarrow> Inl e
     | None \<Rightarrow>
       (case factor_of ev of
          (None, rules, missing) \<Rightarrow>
            mk_EntitlementResult
              \<lparr>er_event_id = event_id ev, er_event_type = event_type ev, unit_of = None,
               er_currency = None, er_factor = None, er_disposition = decide rules missing ([] :: unit list),
               holders = [], allocated_total = None, er_residual = None, event_total = None,
               unavailable_rules = rules, er_missing_inputs = missing\<rparr>
        | (Some (f, u), _, _) \<Rightarrow>
            (case holders_of (sort_key hp_account_id holdings) f u of Inl e \<Rightarrow> Inl e
             | Inr xs \<Rightarrow>
                 let hs = map fst xs; allocated = total_where True xs; rest = total_where False xs in
                 mk_EntitlementResult
                   \<lparr>er_event_id = event_id ev, er_event_type = event_type ev, unit_of = Some u,
                    er_currency = (if u = Cash_Unit then terms_currency (terms ev) else None),
                    er_factor = Some f,
                    er_disposition = decide (entitlement_gaps hs) ([] :: unit list) ([] :: unit list),
                    holders = hs, allocated_total = Some allocated, er_residual = Some rest,
                    event_total = Some (allocated + rest), unavailable_rules = [],
                    er_missing_inputs = []\<rparr>)))"

end
