(* ===== verification/CA_Entitlement_Props.thy ===== *)
theory CA_Entitlement_Props
  imports CA_Entitlement
begin

text \<open>
  What the entitlement computation promises: a number is exact or refused, every holder is
  answered once, nothing of the event's total is lost, and the order of the holdings is irrelevant.
\<close>

subsection \<open>Exact decimals\<close>

lemma strip_factor_spec:
  assumes "strip_factor p d c = (d', c')" and "0 < d" and "1 < p"
  shows "c \<le> c' \<and> d = d' * p ^ (c' - c) \<and> \<not> p dvd d' \<and> 0 < d'"
  using assms
proof (induction p d c rule: strip_factor.induct)
  case (1 p d c)
  show ?case
  proof (cases "d mod p = 0")
    case True
    with 1 have r: "strip_factor p (d div p) (Suc c) = (d', c')" by (simp add: strip_factor.simps [of p d])
    have "0 < d div p" using True 1(3) by (auto simp: div_greater_zero_iff mod_eq_0_iff_dvd dvd_imp_le 1(4))
    with 1(1) [OF _ r] True 1(3,4) have IH: "Suc c \<le> c' \<and> d div p = d' * p ^ (c' - Suc c) \<and> \<not> p dvd d' \<and> 0 < d'"
      by simp
    moreover have "d = (d div p) * p" using True by (auto simp: mod_eq_0_iff_dvd)
    moreover have "p ^ (c' - c) = p ^ (c' - Suc c) * p"
      using IH by (simp add: Suc_diff_le Suc_diff_Suc flip: power_Suc2)
    ultimately show ?thesis by (metis Suc_leD mult.assoc)
  next
    case False
    with 1 show ?thesis by (simp add: strip_factor.simps [of p d] mod_eq_0_iff_dvd)
  qed
qed

lemma coprime_5: "\<not> 5 dvd (d :: nat) \<Longrightarrow> coprime d 5"
proof -
  assume n: "\<not> 5 dvd d"
  have g: "gcd d 5 dvd 5" "gcd d 5 dvd d" by simp_all
  define g where "g = gcd d 5"
  have "g dvd 5" "g dvd d" using g by (simp_all add: g_def)
  moreover from this(1) have "g \<le> 5" by (simp add: dvd_imp_le)
  moreover have "g \<noteq> 0" by (simp add: g_def)
  then have "g = 1 \<or> g = 2 \<or> g = 3 \<or> g = 4 \<or> g = 5" using \<open>g \<le> 5\<close> by linarith
  ultimately have "g = 1" using n by auto
  then have "gcd d 5 = 1" by (simp add: g_def)
  then show ?thesis by (simp add: coprime_iff_gcd_eq_1)
qed

lemma denominator_pos: "0 < denominator x"
  using quotient_of_denom_pos' [of x] by (simp add: denominator_def)

lemma rat_fraction: "x = of_int (numerator x) / of_nat (denominator x)"
proof -
  obtain n d where q: "quotient_of x = (n, d)" by fastforce
  then have "0 < d" by (rule quotient_of_denom_pos)
  with q quotient_of_div [OF q] show ?thesis by (simp add: numerator_def denominator_def)
qed

lemma rat_fraction_coprime: "coprime (numerator x) (int (denominator x))"
proof -
  obtain n d where q: "quotient_of x = (n, d)" by fastforce
  then have "0 < d" by (rule quotient_of_denom_pos)
  with q quotient_of_coprime [OF q] show ?thesis by (simp add: numerator_def denominator_def)
qed

lemma is_decimal_iff: "is_decimal x \<longleftrightarrow> (\<exists>j. denominator x dvd 10 ^ j)"
proof
  assume "is_decimal x"
  then obtain k n where x: "x = of_int n * 10 powi k" by (auto simp: is_decimal_def on_grid_def)
  let ?j = "nat (- k)"
  have p: "(10 :: rat) powi k * 10 ^ ?j = of_int (10 ^ nat k)"
  proof (cases "0 \<le> k")
    case True
    then show ?thesis by (simp add: power_int_def)
  next
    case False
    then show ?thesis by (simp add: power_int_def flip: power_mult_distrib)
  qed
  have "(of_int (numerator x) / of_nat (denominator x) :: rat) * 10 ^ ?j = of_int (n * 10 ^ nat k)"
    unfolding rat_fraction [of x, symmetric] unfolding x mult.assoc p by simp
  moreover have nz: "(of_nat (denominator x) :: rat) \<noteq> 0" using denominator_pos [of x] by simp
  ultimately have "of_int (numerator x) * 10 ^ ?j = of_int (n * 10 ^ nat k) * (of_nat (denominator x) :: rat)"
    by (simp only: times_divide_eq_left nonzero_divide_eq_eq [OF nz])
  then have "(of_int (numerator x * 10 ^ ?j) :: rat) = of_int (n * 10 ^ nat k * int (denominator x))"
    by simp
  then have "numerator x * 10 ^ ?j = n * 10 ^ nat k * int (denominator x)" by (simp only: of_int_eq_iff)
  then have "int (denominator x) dvd numerator x * 10 ^ ?j" by simp
  then have "int (denominator x) dvd 10 ^ ?j"
    using rat_fraction_coprime [of x] by (simp add: coprime_dvd_mult_right_iff coprime_commute)
  then have "denominator x dvd 10 ^ ?j" by (metis int_dvd_int_iff of_nat_numeral of_nat_power)
  then show "\<exists>j. denominator x dvd 10 ^ j" by blast
next
  assume "\<exists>j. denominator x dvd 10 ^ j"
  then obtain j m where m: "10 ^ j = denominator x * m" by (auto elim: dvdE)
  then have "(10 :: rat) ^ j = of_nat (denominator x) * of_nat m" by (metis of_nat_mult of_nat_numeral of_nat_power)
  then have "x * 10 ^ j = of_int (numerator x * int m)"
    using rat_fraction [of x] denominator_pos [of x] by (metis (no_types, lifting) mult.assoc nonzero_eq_divide_eq
        of_int_mult of_int_of_nat_eq of_nat_0_less_iff order_less_irrefl)
  then have "x = of_int (numerator x * int m) * 10 powi (- int j)"
    by (simp add: power_int_minus field_simps)
  then have "on_grid (- int j) x" by (rule on_gridI)
  then show "is_decimal x" by (auto simp: is_decimal_def)
qed

lemma exact_decimal_eq: "exact_decimal x = (if is_decimal x then Some x else None)"
proof -
  obtain d2 a where s2: "strip_factor 2 (denominator x) 0 = (d2, a)" by fastforce
  obtain d5 b where s5: "strip_factor 5 d2 0 = (d5, b)" by fastforce
  from strip_factor_spec [OF s2] denominator_pos [of x]
  have d2: "denominator x = d2 * 2 ^ a" "\<not> 2 dvd d2" "0 < d2" by auto
  from strip_factor_spec [OF s5] d2(3) have d5: "d2 = d5 * 5 ^ b" "\<not> 5 dvd d5" "0 < d5" by auto
  have den: "denominator x = d5 * 5 ^ b * 2 ^ a" using d2 d5 by simp
  have "\<not> 2 dvd d5" using d2(2) d5(1) by auto
  then have "coprime d5 2" by (simp add: coprime_right_2_iff_odd)
  moreover have "coprime d5 5" using d5(2) by (rule coprime_5)
  ultimately have c10: "coprime d5 (2 * 5)" by (simp only: coprime_mult_right_iff)
  have one: "is_decimal x \<longleftrightarrow> d5 = 1"
  proof
    assume "is_decimal x"
    then obtain j where "denominator x dvd 10 ^ j" by (auto simp: is_decimal_iff)
    then have "d5 dvd 10 ^ j" unfolding den by (metis dvd_mult_left mult.assoc)
    moreover have "coprime d5 (10 ^ j)" using c10 by (simp add: coprime_power_right_iff)
    ultimately show "d5 = 1" by (metis coprime_common_divisor_nat dvd_refl)
  next
    assume "d5 = 1"
    then have "denominator x dvd 5 ^ max a b * 2 ^ max a b"
      unfolding den by (intro mult_dvd_mono) (simp_all add: le_imp_power_dvd)
    also have "\<dots> = 10 ^ max a b" by (simp flip: power_mult_distrib)
    finally show "is_decimal x" by (auto simp: is_decimal_iff)
  qed
  have "of_int (numerator x * 10 ^ max a b div int (denominator x)) / 10 ^ max a b = x" if "d5 = 1"
  proof -
    have "denominator x dvd 5 ^ max a b * 2 ^ max a b"
      unfolding den by (intro mult_dvd_mono) (simp_all add: that le_imp_power_dvd)
    then have "denominator x dvd 10 ^ max a b" by (simp flip: power_mult_distrib)
    then have "int (denominator x) dvd 10 ^ max a b" by (metis int_dvd_int_iff of_nat_numeral of_nat_power)
    then obtain m where m: "10 ^ max a b = int (denominator x) * m" by (auto elim: dvdE)
    then have r: "(10 :: rat) ^ max a b = of_nat (denominator x) * of_int m"
      by (metis of_int_mult of_int_numeral of_int_of_nat_eq of_int_power)
    have "numerator x * 10 ^ max a b div int (denominator x) = numerator x * m"
      using denominator_pos [of x] by (simp add: m)
    moreover have "m \<noteq> 0" using m by auto
    ultimately show ?thesis
      using rat_fraction [of x] denominator_pos [of x] by (simp add: r)
  qed
  with one show ?thesis by (simp add: exact_decimal_def s2 s5 Let_def)
qed

lemma is_decimal_mult: "is_decimal x \<Longrightarrow> is_decimal y \<Longrightarrow> is_decimal (x * y)"
proof -
  assume "is_decimal x" "is_decimal y"
  then obtain k l m n where "x = of_int m * 10 powi k" "y = of_int n * 10 powi l"
    by (auto simp: is_decimal_def on_grid_def)
  then have "x * y = of_int (m * n) * 10 powi (k + l)" by (simp add: power_int_add)
  then have "on_grid (k + l) (x * y)" by (rule on_gridI)
  then show ?thesis by (auto simp: is_decimal_def)
qed

lemma whole_is_decimal: "denominator x = 1 \<Longrightarrow> is_decimal x"
  by (auto simp: is_decimal_iff)

subsection \<open>The factor\<close>

text \<open>What every Decimal field satisfies: its value has a finite decimal expansion.\<close>

definition decimal_terms :: "EventTerms \<Rightarrow> bool" where
  "decimal_terms t \<longleftrightarrow>
     (\<forall>x \<in> {cash_rate_per_share t, stock_rate_per_share t, interest_amount_per_face t,
            redemption_price_per_face t, reinvestment_price_per_share t}.
        \<forall>r. x = Some r \<longrightarrow> is_decimal r)"

definition decimal_holdings :: "HolderPosition list \<Rightarrow> bool" where
  "decimal_holdings hs \<longleftrightarrow> (\<forall>h \<in> set hs. is_decimal (eligible_balance (position h)))"

definition good_factor :: "rat \<Rightarrow> entitlement_unit \<Rightarrow> bool" where
  "good_factor f u \<longleftrightarrow> 0 \<le> f \<and> (u = Cash_Unit \<longrightarrow> is_decimal f)"

lemma mk_EventTerms_signs:
  "mk_EventTerms t = Inr t \<Longrightarrow> cash_rate_per_share t = Some a \<Longrightarrow> 0 \<le> a"
  "mk_EventTerms t = Inr t \<Longrightarrow> stock_rate_per_share t = Some a \<Longrightarrow> 0 \<le> a"
  "mk_EventTerms t = Inr t \<Longrightarrow> interest_amount_per_face t = Some a \<Longrightarrow> 0 \<le> a"
  "mk_EventTerms t = Inr t \<Longrightarrow> redemption_price_per_face t = Some a \<Longrightarrow> 0 \<le> a"
  "mk_EventTerms t = Inr t \<Longrightarrow> reinvestment_price_per_share t = Some a \<Longrightarrow> 0 \<le> a"
  "mk_EventTerms t = Inr t \<Longrightarrow> split_old t = Some n \<Longrightarrow> 0 < n"
  by (auto simp: mk_EventTerms_def non_negative_def)

lemma stated_Some: "stated n x u = (Some (f, v), rules, missing) \<longleftrightarrow> x = Some f \<and> v = u \<and> rules = [] \<and> missing = []"
  by (auto simp: stated_def split: option.splits)

lemma factor_of_good:
  assumes "mk_EventTerms (terms ev) = Inr (terms ev)" and "decimal_terms (terms ev)"
    and "factor_of ev = (Some (f, u), rules, missing)"
  shows "good_factor f u"
proof -
  note sg = mk_EventTerms_signs [OF assms(1)]
  show ?thesis
    using assms(2,3)
    by (auto simp: factor_of_def Let_def stated_Some reinvestment_factor_def split_factor_def
        good_factor_def decimal_terms_def sg split: if_splits option.splits intro!: divide_nonneg_nonneg
        dest: sg)
qed

subsection \<open>What a holder is given\<close>

definition entitled :: "rat \<Rightarrow> entitlement_unit \<Rightarrow> HolderPosition \<Rightarrow> HolderEntitlement" where
  "entitled f u h =
     (let p = position h; reasons = holder_reasons p u (f * eligible_balance p) in
      \<lparr>he_account_id = hp_account_id h, he_eligible_balance = eligible_balance p,
       he_quantity = (if reasons \<noteq> [] then None else Some (f * eligible_balance p)),
       unavailable = reasons,
       treatment_explained =
         (RECORD_DATE_DIVERGENCE \<in> set reasons \<or> PENDING_DELIVERY_OR_RECEIPT \<in> set reasons)\<rparr>)"

lemma holder_of_eq:
  assumes "good_factor f u" and "is_decimal (eligible_balance (position h))"
  shows "holder_of h f u = Inr (entitled f u h, f * eligible_balance (position h))"
proof -
  let ?a = "f * eligible_balance (position h)" and ?r = "holder_reasons (position h) u (f * eligible_balance (position h))"
  have "is_decimal ?a \<and> 0 \<le> ?a" if "?r = []"
  proof
    have r: "0 \<le> eligible_balance (position h)" "u = Share_Unit \<longrightarrow> denominator ?a = 1"
      using that by (auto simp: holder_reasons_def split: if_splits)
    then show "0 \<le> ?a" using assms(1) by (simp add: good_factor_def)
    show "is_decimal ?a"
      using r assms is_decimal_mult whole_is_decimal by (cases u) (auto simp: good_factor_def)
  qed
  then have d: "?r = [] \<Longrightarrow> exact_decimal ?a = Some ?a" and n: "?r = [] \<Longrightarrow> \<not> ?a < 0"
    by (simp_all add: exact_decimal_eq)
  show ?thesis
    by (cases "?r = []") (simp_all add: holder_of_def entitled_def Let_def mk_HolderEntitlement_def d n)
qed

lemma holders_of_eq:
  "good_factor f u \<Longrightarrow> decimal_holdings hs \<Longrightarrow>
   holders_of hs f u = Inr (map (\<lambda>h. (entitled f u h, f * eligible_balance (position h))) hs)"
  by (induction hs) (simp_all add: holder_of_eq decimal_holdings_def)

lemma check_holdings_None:
  "check_holdings ev hs = None \<longleftrightarrow>
     (\<forall>h \<in> set hs. rd_security_id (position h) = security_id ev \<and>
        (event_type ev \<in> FIXED_INCOME_EVENT_TYPES \<longrightarrow> basis h = Face_Amount))"
  by (induction hs) auto

definition attributed :: "bool \<Rightarrow> rat \<Rightarrow> entitlement_unit \<Rightarrow> HolderPosition list \<Rightarrow> rat" where
  "attributed got f u hs =
     (\<Sum>h\<leftarrow>hs. if (he_quantity (entitled f u h) \<noteq> None) = got then f * eligible_balance (position h) else 0)"

lemma total_where_eq:
  "total_where got (map (\<lambda>h. (entitled f u h, f * eligible_balance (position h))) hs) = attributed got f u hs"
  by (simp add: total_where_def attributed_def o_def)

lemma attributed_total: "attributed True f u hs + attributed False f u hs = f * (\<Sum>h\<leftarrow>hs. eligible_balance (position h))"
  by (induction hs) (simp_all add: attributed_def distrib_left)

definition request_ok :: "CorporateActionEvent \<Rightarrow> HolderPosition list \<Rightarrow> bool" where
  "request_ok ev hs \<longleftrightarrow>
     distinct (map hp_account_id hs) \<and>
     (\<forall>h \<in> set hs. rd_security_id (position h) = security_id ev \<and>
        (event_type ev \<in> FIXED_INCOME_EVENT_TYPES \<longrightarrow> basis h = Face_Amount))"

lemma remdups_length_distinct:
  "length (remdups (map g xs)) = length xs \<longleftrightarrow> distinct (map g xs)"
  by (metis length_remdups_card_conv distinct_card card_distinct length_map)

lemma compute_unfactored:
  assumes "factor_of ev = (None, rules, missing)"
  shows "(compute_entitlements ev hs = Inr r) \<longleftrightarrow> request_ok ev hs \<and>
    r = \<lparr>er_event_id = event_id ev, er_event_type = event_type ev, unit_of = None,
         er_currency = None, er_factor = None, er_disposition = decide rules missing ([] :: unit list),
         holders = [], allocated_total = None, er_residual = None, event_total = None,
         unavailable_rules = rules, er_missing_inputs = missing\<rparr>"
  by (auto simp: compute_entitlements_def assms request_ok_def remdups_length_distinct
      check_holdings_None [symmetric] mk_EntitlementResult_def split: option.splits)

lemma compute_factored:
  assumes "factor_of ev = (Some (f, u), rules, missing)" and "good_factor f u" and "decimal_holdings hs"
  shows "(compute_entitlements ev hs = Inr r) \<longleftrightarrow> request_ok ev hs \<and>
    r = \<lparr>er_event_id = event_id ev, er_event_type = event_type ev, unit_of = Some u,
         er_currency = (if u = Cash_Unit then terms_currency (terms ev) else None),
         er_factor = Some f,
         er_disposition = decide (entitlement_gaps (map (entitled f u) (sort_key hp_account_id hs)))
           ([] :: unit list) ([] :: unit list),
         holders = map (entitled f u) (sort_key hp_account_id hs),
         allocated_total = Some (attributed True f u (sort_key hp_account_id hs)),
         er_residual = Some (attributed False f u (sort_key hp_account_id hs)),
         event_total = Some (attributed True f u (sort_key hp_account_id hs) +
           attributed False f u (sort_key hp_account_id hs)),
         unavailable_rules = [], er_missing_inputs = []\<rparr>"
proof -
  have "decimal_holdings (sort_key hp_account_id hs)" using assms(3) by (simp add: decimal_holdings_def)
  note h = holders_of_eq [OF assms(2) this]
  show ?thesis
    unfolding compute_entitlements_def assms(1) prod.case option.case h sum.case Let_def total_where_eq
    by (auto simp: request_ok_def remdups_length_distinct check_holdings_None [symmetric]
        mk_EntitlementResult_def o_def split: option.splits)
qed

text \<open>Both cases at once: what a returned result is.\<close>

lemma compute_cases:
  assumes "compute_entitlements ev hs = Inr r" and "mk_EventTerms (terms ev) = Inr (terms ev)"
    and "decimal_terms (terms ev)" and "decimal_holdings hs" and "er_factor r = Some f"
  obtains u where "good_factor f u" "request_ok ev hs"
    "holders r = map (entitled f u) (sort_key hp_account_id hs)"
    "er_disposition r = decide (entitlement_gaps (holders r)) ([] :: unit list) ([] :: unit list)"
    "allocated_total r = Some (attributed True f u (sort_key hp_account_id hs))"
    "er_residual r = Some (attributed False f u (sort_key hp_account_id hs))"
    "event_total r = Some (attributed True f u (sort_key hp_account_id hs) +
       attributed False f u (sort_key hp_account_id hs))"
    "unit_of r = Some u"
proof -
  obtain fu rules missing where f: "factor_of ev = (fu, rules, missing)" by (metis prod_cases3)
  show thesis
  proof (cases fu)
    case None
    from compute_unfactored [OF f [unfolded None]] assms(1,5) show thesis by auto
  next
    case (Some gu)
    then obtain g u where f': "factor_of ev = (Some (g, u), rules, missing)" using f by (cases gu) auto
    note good = factor_of_good [OF assms(2,3) f']
    from assms(1,5) compute_factored [OF f' good assms(4), of r] have "g = f" by auto
    with good assms(1) compute_factored [OF f' good assms(4), of r] show thesis
      by (intro that [of u]) simp_all
  qed
qed

lemma sorted_holdings_total:
  "(\<Sum>h\<leftarrow>sort_key hp_account_id hs. eligible_balance (position h)) = (\<Sum>h\<leftarrow>hs. eligible_balance (position h))"
  by (rule sum_map_mset_cong) simp

lemma attributed_holders:
  "attributed True f u hs = sum_list (map the (filter (\<lambda>q. q \<noteq> None) (map (\<lambda>h. he_quantity (entitled f u h)) hs)))"
  by (induction hs) (auto simp: attributed_def entitled_def Let_def)

definition clear_holding :: "rat \<Rightarrow> entitlement_unit \<Rightarrow> RecordDatePosition \<Rightarrow> bool" where
  "clear_holding f u p \<longleftrightarrow>
     0 \<le> eligible_balance p \<and> eligible_balance p = settlement_balance p \<and>
     pending_delivery_balance p = 0 \<and> pending_receipt_balance p = 0 \<and>
     (u = Share_Unit \<longrightarrow> denominator (f * eligible_balance p) = 1)"

lemma holder_reasons_Nil: "holder_reasons p u (f * eligible_balance p) = [] \<longleftrightarrow> clear_holding f u p"
  by (auto simp: holder_reasons_def clear_holding_def diverges_def)

lemma entitled_simps:
  "he_account_id (entitled f u h) = hp_account_id h"
  "he_quantity (entitled f u h) =
     (if clear_holding f u (position h) then Some (f * eligible_balance (position h)) else None)"
  "unavailable (entitled f u h) = [] \<longleftrightarrow> clear_holding f u (position h)"
  by (simp_all add: entitled_def Let_def holder_reasons_Nil)

lemma denominator_1_iff: "denominator x = 1 \<longleftrightarrow> x \<in> \<int>"
proof
  assume "x \<in> \<int>"
  then obtain z where "x = of_int z" by (auto elim: Ints_cases)
  then show "denominator x = 1" by (simp add: denominator_def)
next
  assume "denominator x = 1"
  with rat_fraction [of x] show "x \<in> \<int>" by (metis Ints_of_int div_by_1 of_nat_1)
qed

subsection \<open>Properties\<close>

text \<open>
  a decimal is exact or refused. The conversion of an exact fraction to a decimal returns the
  fraction itself when it has a finite decimal expansion, and nothing otherwise: no payment is
  ever rounded.
\<close>

theorem exact_decimal_iff:
  "exact_decimal x = (if \<exists>n k. x = of_int n * 10 powi k then Some x else None)"
  using exact_decimal_eq [of x] by (auto simp: is_decimal_def on_grid_def)

text \<open>
  a call fails only for an error in the request. For a well-formed event and holdings, with
  decimal terms and balances, the computation returns exactly when no account appears twice, every
  holding is in the event's security, and a fixed income event is given face amounts: none of
  the result records is ever refused by its own validators.
\<close>

theorem entitlement_fails_only_on_bad_request:
  assumes "mk_EventTerms (terms ev) = Inr (terms ev)" and "decimal_terms (terms ev)" and "decimal_holdings hs"
  shows "(\<exists>r. compute_entitlements ev hs = Inr r) \<longleftrightarrow>
    distinct (map hp_account_id hs) \<and>
    (\<forall>h \<in> set hs. rd_security_id (position h) = security_id ev \<and>
       (event_type ev \<in> FIXED_INCOME_EVENT_TYPES \<longrightarrow> basis h = Face_Amount))"
proof -
  obtain fu rules missing where f: "factor_of ev = (fu, rules, missing)" by (metis prod_cases3)
  have "(\<exists>r. compute_entitlements ev hs = Inr r) \<longleftrightarrow> request_ok ev hs"
  proof (cases fu)
    case None
    from compute_unfactored [OF f [unfolded None]] show ?thesis by blast
  next
    case (Some gu)
    then obtain g u where f': "factor_of ev = (Some (g, u), rules, missing)" using f by (cases gu) auto
    from compute_factored [OF f' factor_of_good [OF assms(1,2) f'] assms(3)] show ?thesis by blast
  qed
  then show ?thesis by (simp add: request_ok_def)
qed

text \<open>
  nothing of an event is lost and nothing is made. The total is the factor times every
  eligible balance; what was allocated and what is kept back add up to it; the allocated part is
  the sum of the quantities given; and every account is answered exactly once, in account order.
\<close>

theorem entitlements_conserve:
  assumes "compute_entitlements ev hs = Inr r" and "mk_EventTerms (terms ev) = Inr (terms ev)"
    and "decimal_terms (terms ev)" and "decimal_holdings hs" and "er_factor r = Some f"
  shows "event_total r = Some (f * (\<Sum>h\<leftarrow>hs. eligible_balance (position h))) \<and>
    (\<exists>a b. allocated_total r = Some a \<and> er_residual r = Some b \<and> event_total r = Some (a + b) \<and>
       a = sum_list (map the (filter (\<lambda>q. q \<noteq> None) (map he_quantity (holders r))))) \<and>
    map he_account_id (holders r) = sorted_set (map hp_account_id hs)"
  using assms
proof (rule compute_cases)
  fix u assume h: "request_ok ev hs" "holders r = map (entitled f u) (sort_key hp_account_id hs)"
    "allocated_total r = Some (attributed True f u (sort_key hp_account_id hs))"
    "er_residual r = Some (attributed False f u (sort_key hp_account_id hs))"
    "event_total r = Some (attributed True f u (sort_key hp_account_id hs) +
       attributed False f u (sort_key hp_account_id hs))"
  have ids: "map he_account_id (holders r) = map hp_account_id (sort_key hp_account_id hs)"
    by (simp add: h(2) entitled_simps)
  have "sorted_set (map hp_account_id hs) = map hp_account_id (sort_key hp_account_id hs)"
  proof (rule sorted_set_eqI)
    have "mset (map hp_account_id (sort_key hp_account_id hs)) = mset (map hp_account_id hs)" by simp
    then show "distinct (map hp_account_id (sort_key hp_account_id hs))"
      using h(1) unfolding request_ok_def by (metis mset_eq_imp_distinct_iff)
  qed simp_all
  with ids have a: "map he_account_id (holders r) = sorted_set (map hp_account_id hs)" by simp
  have q: "map he_quantity (holders r) = map (\<lambda>x. he_quantity (entitled f u x)) (sort_key hp_account_id hs)"
    by (simp add: h(2))
  show ?thesis
    using a h(3-5) q attributed_holders [of f u] attributed_total [of f u] sorted_holdings_total [of hs]
    by simp
qed

text \<open>
  a number or a reason, and the number is the exact one. A holder gets the factor times the
  eligible balance unless it is short, its balances diverge across the record date, a delivery or
  receipt is pending, or the shares are not a whole number; then it gets the reasons that apply.
  The event passes exactly when every holder got a number.
\<close>

theorem entitlement_is_exact_or_refused:
  assumes "compute_entitlements ev hs = Inr r" and "mk_EventTerms (terms ev) = Inr (terms ev)"
    and "decimal_terms (terms ev)" and "decimal_holdings hs" and "er_factor r = Some f"
  shows "(\<forall>h \<in> set hs. \<exists>e \<in> set (holders r). he_account_id e = hp_account_id h \<and>
      (if 0 \<le> eligible_balance (position h) \<and>
          eligible_balance (position h) = settlement_balance (position h) \<and>
          pending_delivery_balance (position h) = 0 \<and> pending_receipt_balance (position h) = 0 \<and>
          (unit_of r = Some Share_Unit \<longrightarrow> f * eligible_balance (position h) \<in> \<int>)
       then he_quantity e = Some (f * eligible_balance (position h)) \<and> unavailable e = []
       else he_quantity e = None \<and> unavailable e \<noteq> [])) \<and>
    (er_disposition r = Disposition.PASS \<longleftrightarrow> (\<forall>e \<in> set (holders r). he_quantity e \<noteq> None))"
  using assms
proof (rule compute_cases)
  fix u assume h: "holders r = map (entitled f u) (sort_key hp_account_id hs)" "unit_of r = Some u"
    "er_disposition r = decide (entitlement_gaps (holders r)) ([] :: unit list) ([] :: unit list)"
  have cond: "0 \<le> eligible_balance (position x) \<and>
      eligible_balance (position x) = settlement_balance (position x) \<and>
      pending_delivery_balance (position x) = 0 \<and> pending_receipt_balance (position x) = 0 \<and>
      (unit_of r = Some Share_Unit \<longrightarrow> f * eligible_balance (position x) \<in> \<int>) \<longleftrightarrow>
      clear_holding f u (position x)" for x
    by (auto simp: clear_holding_def denominator_1_iff [simplified] h(2))
  have "\<exists>e \<in> set (holders r). he_account_id e = hp_account_id x \<and>
      (if clear_holding f u (position x)
       then he_quantity e = Some (f * eligible_balance (position x)) \<and> unavailable e = []
       else he_quantity e = None \<and> unavailable e \<noteq> [])" if "x \<in> set hs" for x
    using that by (intro bexI [of _ "entitled f u x"]) (simp_all add: entitled_simps h(1))
  note 1 = this
  have "unavailable e = [] \<longleftrightarrow> he_quantity e \<noteq> None" if "e \<in> set (holders r)" for e
    using that by (auto simp: h(1) entitled_simps split: if_splits)
  then have "entitlement_gaps (holders r) = [] \<longleftrightarrow> (\<forall>e \<in> set (holders r). he_quantity e \<noteq> None)"
    by (auto simp: entitlement_gaps_def concat_eq_Nil_conv simp del: not_None_eq)
  then have "er_disposition r = Disposition.PASS \<longleftrightarrow> (\<forall>e \<in> set (holders r). he_quantity e \<noteq> None)"
    by (simp add: h(3) advisory_simps)
  with 1 show ?thesis unfolding cond by blast
qed

text \<open>
  the result does not depend on the order of the holdings.
\<close>

theorem entitlements_ignore_order:
  assumes "compute_entitlements ev hs = Inr r" and "mset hs = mset hs'"
  shows "compute_entitlements ev hs' = Inr r"
proof -
  have d: "distinct (map hp_account_id hs)" and c: "check_holdings ev hs = None"
    using assms(1) by (auto simp: compute_entitlements_def remdups_length_distinct split: option.splits)
  have s: "set hs = set hs'" using assms(2) by (rule set_mset_cong)
  have "mset (map hp_account_id hs) = mset (map hp_account_id hs')" using assms(2) by simp
  then have d': "distinct (map hp_account_id hs')" using d mset_eq_imp_distinct_iff by blast
  have "check_holdings ev hs' = None" using c s by (simp add: check_holdings_None)
  moreover have "sort_key hp_account_id hs = sort_key hp_account_id hs'"
    by (rule sort_key_mset_cong [OF assms(2)]) (use d in \<open>simp add: distinct_map\<close>)
  ultimately have "compute_entitlements ev hs' = compute_entitlements ev hs"
    unfolding compute_entitlements_def c by (simp only: option.case) (simp add: remdups_length_distinct d d')
  with assms(1) show ?thesis by simp
qed

subsection \<open>Witnesses\<close>

definition w_dividend :: CorporateActionEvent where
  "w_dividend = \<lparr>event_id = ''D'', security_id = ''S'', event_type = CASH_DIVIDEND,
     participation = MANDATORY,
     dates = \<lparr>announcement_date = 100, record_date = Some 110, election_deadline = None,
       protect_deadline = None, payable_date = Some 115\<rparr>,
     terms = \<lparr>cash_rate_per_share = Some (1 / 2), terms_currency = Some ''USD'',
       stock_rate_per_share = None, split_new = None, split_old = None,
       interest_amount_per_face = None, redemption_price_per_face = None,
       reinvestment_price_per_share = None\<rparr>,
     event_options = [], default_option_id = None, provenance = FACT_SYNTHETIC,
     source = \<lparr>source_id = ''dtc'', source_reference = None\<rparr>\<rparr>"

definition w_holding :: "string \<Rightarrow> rat \<Rightarrow> rat \<Rightarrow> HolderPosition" where
  "w_holding a e d = \<lparr>hp_account_id = a,
     position = \<lparr>rd_security_id = ''S'', eligible_balance = e, settlement_balance = e,
       pending_delivery_balance = d, pending_receipt_balance = 0, obligated_balance = 0,
       uncovered_protect_balance = 0, rd_provenance = None\<rparr>, basis = Units\<rparr>"

definition w_holdings :: "HolderPosition list" where
  "w_holdings = [w_holding ''B'' 30 0, w_holding ''A'' 10 5]"

lemma w_terms: "mk_EventTerms (terms w_dividend) = Inr (terms w_dividend)"
  by (simp add: w_dividend_def mk_EventTerms_def non_negative_def other_cash_terms_def
      currency_pattern_def upper_letter_def)

lemma w_half: "is_decimal (1 / 2)"
proof -
  have "on_grid (- 1) (1 / 2)" by (rule on_gridI [of _ 5]) (simp add: power_int_def)
  then show ?thesis by (auto simp: is_decimal_def)
qed

lemma w_whole: "is_decimal (of_int n)"
  by (rule whole_is_decimal) (simp add: denominator_def)

lemma w_decimal: "decimal_terms (terms w_dividend)" "decimal_holdings w_holdings"
proof -
  have "is_decimal r" if "r * 2 = 1" for r :: rat
  proof -
    have "r = 1 / 2" using that by simp
    then show ?thesis using w_half by (simp only:)
  qed
  then show "decimal_terms (terms w_dividend)" by (simp add: decimal_terms_def w_dividend_def)
  show "decimal_holdings w_holdings"
    using w_whole [of 30] w_whole [of 10] by (simp add: decimal_holdings_def w_holdings_def w_holding_def)
qed

lemma w_factor: "factor_of w_dividend = (Some (1 / 2, Cash_Unit), [], [])"
  by (simp add: factor_of_def w_dividend_def COMPUTED_EVENT_TYPES_def stated_def)

lemma w_request: "request_ok w_dividend w_holdings"
  by (simp add: request_ok_def w_holdings_def w_holding_def w_dividend_def FIXED_INCOME_EVENT_TYPES_def)

lemma w_computed: obtains r where "compute_entitlements w_dividend w_holdings = Inr r" "er_factor r = Some (1 / 2)"
  using compute_factored [OF w_factor _ w_decimal(2)] w_request w_half
  by (simp add: good_factor_def)

theorem entitlement_fails_only_on_bad_request_witness:
  "\<exists>r. compute_entitlements w_dividend w_holdings = Inr r"
  using entitlement_fails_only_on_bad_request [OF w_terms w_decimal] w_request
  unfolding request_ok_def by blast

theorem entitlements_conserve_witness:
  "\<exists>r. compute_entitlements w_dividend w_holdings = Inr r \<and> event_total r = Some 20 \<and>
     map he_account_id (holders r) = [''A'', ''B'']"
proof -
  obtain r where r: "compute_entitlements w_dividend w_holdings = Inr r" "er_factor r = Some (1 / 2)"
    by (rule w_computed)
  have "sorted_set [''B'', ''A''] = [''A'', ''B'']" by (simp add: sorted_set_def)
  with entitlements_conserve [OF r(1) w_terms w_decimal r(2)] r(1) show ?thesis
    by (simp add: w_holdings_def w_holding_def)
qed

theorem entitlement_is_exact_or_refused_witness:
  "\<exists>r. compute_entitlements w_dividend w_holdings = Inr r \<and>
     (\<exists>e \<in> set (holders r). he_account_id e = ''B'' \<and> he_quantity e = Some 15) \<and>
     er_disposition r \<noteq> Disposition.PASS"
proof -
  obtain r where r: "compute_entitlements w_dividend w_holdings = Inr r" "er_factor r = Some (1 / 2)"
    by (rule w_computed)
  note p = entitlement_is_exact_or_refused [OF r(1) w_terms w_decimal r(2)]
  have b: "w_holding ''B'' 30 0 \<in> set w_holdings" and a: "w_holding ''A'' 10 5 \<in> set w_holdings"
    by (simp_all add: w_holdings_def)
  have u: "unit_of r = Some Cash_Unit"
    using r(1) compute_factored [OF w_factor _ w_decimal(2), of r] w_half by (simp add: good_factor_def)
  have "\<exists>e \<in> set (holders r). he_account_id e = ''B'' \<and> he_quantity e = Some 15"
    using conjunct1 [OF p, rule_format, OF b] u by (auto simp: w_holding_def)
  moreover have "\<exists>e \<in> set (holders r). he_quantity e = None"
    using conjunct1 [OF p, rule_format, OF a] by (auto simp: w_holding_def)
  ultimately show ?thesis using r(1) conjunct2 [OF p] by auto
qed

theorem entitlements_ignore_order_witness:
  "\<exists>r. compute_entitlements w_dividend w_holdings = Inr r \<and> compute_entitlements w_dividend (rev w_holdings) = Inr r"
proof -
  obtain r where r: "compute_entitlements w_dividend w_holdings = Inr r" by (rule w_computed)
  have "mset w_holdings = mset (rev w_holdings)" by simp
  from entitlements_ignore_order [OF r this] r show ?thesis by blast
qed

end
