(* ===== verification/CA_Election.thy ===== *)
theory CA_Election
  imports CA_Lifecycle CA_Entitlement
begin

text \<open>
  \<open>atreides/corporate_actions/election.py\<close>: the election book of one event. Every submission is
  journaled as accepted, refused or a duplicate; a cover delivers against a protected instruction;
  after the firm's deadline the default option is assigned to what was not elected. Sums of
  quantities are rounded to the 28 digits of the decimal context, as Python adds them. Day ordinals
  are unbounded here: the error Python raises for a deadline before the year 1 is not modelled.
\<close>

definition mk_ElectionPolicy :: "int \<Rightarrow> (event_error, int) result" where
  "mk_ElectionPolicy firm_lead_days =
     require (1 \<le> firm_lead_days) (Field_Constraint ''firm_lead_days'') (Inr firm_lead_days)"

definition firm_deadline :: "CorporateActionEvent \<Rightarrow> int \<Rightarrow> int option" where
  "firm_deadline ev firm_lead_days =
     map_option (\<lambda>depository. depository - firm_lead_days) (election_deadline (dates ev))"

record ElectionInstruction =
  ei_instruction_id :: string
  ei_account_id :: string
  ei_option_id :: string
  ei_quantity :: rat
  ei_basis :: quantity_basis
  ei_received_date :: int
  protect :: bool
  ei_provenance :: Provenance
  ei_source :: SourceIdentity

record ProtectCover =
  cover_id :: string
  pc_instruction_id :: string
  pc_account_id :: string
  pc_quantity :: rat
  pc_received_date :: int
  pc_provenance :: Provenance
  pc_source :: SourceIdentity

datatype submission = Instruction ElectionInstruction | Cover ProtectCover

definition mk_ElectionInstruction :: "ElectionInstruction \<Rightarrow> (event_error, ElectionInstruction) result" where
  "mk_ElectionInstruction i =
     require (ei_instruction_id i \<noteq> []) (Field_Constraint ''instruction_id'') (
     require (ei_account_id i \<noteq> []) (Field_Constraint ''account_id'') (
     require (ei_option_id i \<noteq> []) (Field_Constraint ''option_id'') (
     require (0 < ei_quantity i) (Field_Constraint ''quantity'') (Inr i))))"

definition mk_ProtectCover :: "ProtectCover \<Rightarrow> (event_error, ProtectCover) result" where
  "mk_ProtectCover c =
     require (cover_id c \<noteq> []) (Field_Constraint ''cover_id'') (
     require (pc_instruction_id c \<noteq> []) (Field_Constraint ''instruction_id'') (
     require (pc_account_id c \<noteq> []) (Field_Constraint ''account_id'') (
     require (0 < pc_quantity c) (Field_Constraint ''quantity'') (Inr c))))"

fun submission_id :: "submission \<Rightarrow> string" where
  "submission_id (Instruction i) = ei_instruction_id i"
| "submission_id (Cover c) = cover_id c"

fun received_date :: "submission \<Rightarrow> int" where
  "received_date (Instruction i) = ei_received_date i"
| "received_date (Cover c) = pc_received_date c"

datatype ElectionRefusal =
    ER_NOT_ELECTIVE | LATE | ER_BEFORE_ANNOUNCEMENT | OPTIONS_NOT_STATED | UNKNOWN_OPTION
  | PROTECT_NOT_OFFERED | CONFLICTING_DUPLICATE | UNKNOWN_PROTECT | LATE_COVER | OVER_COVER

datatype election_outcome = Accepted | Refused_Submission | Duplicate

record ElectionEntry =
  ee_event_id :: string
  ee_sequence :: nat
  ee_submission :: submission
  ee_outcome :: election_outcome
  ee_refusal :: "ElectionRefusal option"
  duplicate_of :: "nat option"

datatype election_entry_error = Refusal_Reason_Mismatch | Duplicate_Mismatch

definition mk_ElectionEntry :: "ElectionEntry \<Rightarrow> (election_entry_error, ElectionEntry) result" where
  "mk_ElectionEntry e =
     require ((ee_outcome e = Refused_Submission) = (ee_refusal e \<noteq> None)) Refusal_Reason_Mismatch (
     require ((ee_outcome e = Duplicate) = (duplicate_of e \<noteq> None)) Duplicate_Mismatch (Inr e))"

record ElectionBook =
  eb_event :: CorporateActionEvent
  eb_lead_days :: int
  eb_journal :: "ElectionEntry list"

definition new_book :: "CorporateActionEvent \<Rightarrow> int \<Rightarrow> ElectionBook" where
  "new_book ev lead = \<lparr>eb_event = ev, eb_lead_days = lead, eb_journal = []\<rparr>"

subsection \<open>What the journal says\<close>

definition first_entry :: "ElectionBook \<Rightarrow> string \<Rightarrow> ElectionEntry option" where
  "first_entry b sid =
     find (\<lambda>e. ee_outcome e \<noteq> Duplicate \<and> submission_id (ee_submission e) = sid) (eb_journal b)"

fun instructions_in :: "ElectionEntry list \<Rightarrow> ElectionInstruction list" where
  "instructions_in [] = []"
| "instructions_in (e # es) =
     (case ee_submission e of
        Instruction i \<Rightarrow> if ee_outcome e = Accepted then i # instructions_in es else instructions_in es
      | Cover c \<Rightarrow> instructions_in es)"

fun covers_in :: "ElectionEntry list \<Rightarrow> ProtectCover list" where
  "covers_in [] = []"
| "covers_in (e # es) =
     (case ee_submission e of
        Cover c \<Rightarrow> if ee_outcome e = Accepted then c # covers_in es else covers_in es
      | Instruction i \<Rightarrow> covers_in es)"

definition accepted_instructions :: "ElectionBook \<Rightarrow> ElectionInstruction list" where
  "accepted_instructions b = instructions_in (eb_journal b)"

definition accepted_covers :: "ElectionBook \<Rightarrow> ProtectCover list" where
  "accepted_covers b = covers_in (eb_journal b)"

definition elected_quantity :: "ElectionBook \<Rightarrow> string \<Rightarrow> rat" where
  "elected_quantity b account =
     dsum_from 28 0 (map ei_quantity (filter (\<lambda>i. ei_account_id i = account) (accepted_instructions b)))"

definition covered_of :: "ElectionBook \<Rightarrow> string \<Rightarrow> rat" where
  "covered_of b iid =
     dsum_from 28 0 (map pc_quantity (filter (\<lambda>c. pc_instruction_id c = iid) (accepted_covers b)))"

definition uncovered :: "ElectionBook \<Rightarrow> ElectionInstruction \<Rightarrow> rat" where
  "uncovered b i = rnd28 (ei_quantity i - covered_of b (ei_instruction_id i))"

definition uncovered_protect_total :: "ElectionBook \<Rightarrow> string \<Rightarrow> rat" where
  "uncovered_protect_total b account =
     dsum_from 28 0 (map (uncovered b)
       (filter (\<lambda>i. protect i \<and> ei_account_id i = account) (accepted_instructions b)))"

subsection \<open>Submissions\<close>

definition protect_of :: "ElectionBook \<Rightarrow> ProtectCover \<Rightarrow> ElectionInstruction option" where
  "protect_of b c =
     find (\<lambda>i. ei_instruction_id i = pc_instruction_id c \<and> protect i \<and> ei_account_id i = pc_account_id c)
       (accepted_instructions b)"

definition after_opt :: "int \<Rightarrow> int option \<Rightarrow> bool" where
  "after_opt d deadline = (case deadline of None \<Rightarrow> False | Some x \<Rightarrow> d > x)"

definition election_refusal :: "ElectionBook \<Rightarrow> submission \<Rightarrow> ElectionRefusal option" where
  "election_refusal b s =
     (let ev = eb_event b in
      if \<not> elective (participation ev) then Some ER_NOT_ELECTIVE
      else if received_date s < announcement_date (dates ev) then Some ER_BEFORE_ANNOUNCEMENT
      else case s of
        Cover c \<Rightarrow>
          (case protect_of b c of
             None \<Rightarrow> Some UNKNOWN_PROTECT
           | Some i \<Rightarrow>
               if after_opt (pc_received_date c) (protect_deadline (dates ev)) then Some LATE_COVER
               else if pc_quantity c > uncovered b i then Some OVER_COVER
               else None)
      | Instruction i \<Rightarrow>
          if after_opt (ei_received_date i) (firm_deadline ev (eb_lead_days b)) then Some LATE
          else if event_options ev = [] then Some OPTIONS_NOT_STATED
          else if ei_option_id i \<notin> set (map option_id (event_options ev)) then Some UNKNOWN_OPTION
          else if protect i \<and> (participation ev \<noteq> VOLUNTARY \<or> protect_deadline (dates ev) = None)
          then Some PROTECT_NOT_OFFERED
          else None)"

definition entry_for :: "ElectionBook \<Rightarrow> submission \<Rightarrow> ElectionEntry" where
  "entry_for b s =
     (let base = \<lparr>ee_event_id = event_id (eb_event b), ee_sequence = length (eb_journal b),
                  ee_submission = s, ee_outcome = Accepted, ee_refusal = None, duplicate_of = None\<rparr> in
      case first_entry b (submission_id s) of
        Some first \<Rightarrow>
          if ee_submission first = s
          then base\<lparr>ee_outcome := Duplicate, duplicate_of := Some (ee_sequence first)\<rparr>
          else base\<lparr>ee_outcome := Refused_Submission, ee_refusal := Some CONFLICTING_DUPLICATE\<rparr>
      | None \<Rightarrow>
          (case election_refusal b s of
             None \<Rightarrow> base
           | Some why \<Rightarrow> base\<lparr>ee_outcome := Refused_Submission, ee_refusal := Some why\<rparr>))"

definition submit :: "ElectionBook \<Rightarrow> submission \<Rightarrow> ElectionBook \<times> ElectionEntry" where
  "submit b s = (b\<lparr>eb_journal := eb_journal b @ [entry_for b s]\<rparr>, entry_for b s)"

datatype election_mismatch = Not_Entry nat nat | Submission_Not_Recomputed nat

fun rebuild_elections_from ::
  "CorporateActionEvent \<Rightarrow> nat \<Rightarrow> ElectionBook \<Rightarrow> ElectionEntry list \<Rightarrow>
   (election_mismatch, ElectionBook) result" where
  "rebuild_elections_from ev n b [] = Inr b"
| "rebuild_elections_from ev n b (recorded # es) =
     require (\<not> (ee_event_id recorded \<noteq> event_id ev \<or> ee_sequence recorded \<noteq> n))
       (Not_Entry (ee_sequence recorded) n) (
     case submit b (ee_submission recorded) of (b', recomputed) \<Rightarrow>
     require (recomputed = recorded) (Submission_Not_Recomputed (ee_sequence recorded)) (
     rebuild_elections_from ev (Suc n) b' es))"

definition rebuild_elections ::
  "CorporateActionEvent \<Rightarrow> int \<Rightarrow> ElectionEntry list \<Rightarrow> (election_mismatch, ElectionBook) result" where
  "rebuild_elections ev lead js = rebuild_elections_from ev 0 (new_book ev lead) js"

abbreviation run_elections :: "ElectionBook \<Rightarrow> submission list \<Rightarrow> ElectionBook" where
  "run_elections \<equiv> run_requests submit"

subsection \<open>Defaults\<close>

datatype DefaultRefusal =
    DR_NOT_ELECTIVE | DEADLINE_NOT_PASSED | DEFAULT_NOT_STATED | OVER_INSTRUCTED
  | INSTRUCTED_WITHOUT_POSITION

record AccountDefault =
  ad_account_id :: string
  ad_eligible_balance :: "rat option"
  ad_elected_quantity :: rat
  default_quantity :: "rat option"
  ad_refusal :: "DefaultRefusal option"

record DefaultAssignment =
  da_event_id :: string
  da_as_of :: int
  da_firm_deadline :: "int option"
  da_option_id :: "string option"
  da_refusal :: "DefaultRefusal option"
  da_accounts :: "AccountDefault list"

datatype default_error = Holding_Account_Twice

definition account_default :: "ElectionBook \<Rightarrow> HolderPosition list \<Rightarrow> string \<Rightarrow> AccountDefault" where
  "account_default b hs account =
     (let elected = elected_quantity b account in
      case map_of (map (\<lambda>h. (hp_account_id h, eligible_balance (position h))) hs) account of
        None \<Rightarrow>
          \<lparr>ad_account_id = account, ad_eligible_balance = None, ad_elected_quantity = elected,
           default_quantity = None, ad_refusal = Some INSTRUCTED_WITHOUT_POSITION\<rparr>
      | Some balance \<Rightarrow>
          if elected > balance then
            \<lparr>ad_account_id = account, ad_eligible_balance = Some balance, ad_elected_quantity = elected,
             default_quantity = None, ad_refusal = Some OVER_INSTRUCTED\<rparr>
          else
            \<lparr>ad_account_id = account, ad_eligible_balance = Some balance, ad_elected_quantity = elected,
             default_quantity = Some (rnd28 (balance - elected)), ad_refusal = None\<rparr>)"

definition default_refused :: "ElectionBook \<Rightarrow> int \<Rightarrow> DefaultRefusal \<Rightarrow> DefaultAssignment" where
  "default_refused b as_of why =
     \<lparr>da_event_id = event_id (eb_event b), da_as_of = as_of,
      da_firm_deadline = firm_deadline (eb_event b) (eb_lead_days b), da_option_id = None,
      da_refusal = Some why, da_accounts = []\<rparr>"

definition assign_defaults ::
  "ElectionBook \<Rightarrow> HolderPosition list \<Rightarrow> int \<Rightarrow> (default_error, DefaultAssignment) result" where
  "assign_defaults b hs as_of =
     (case firm_deadline (eb_event b) (eb_lead_days b) of
        None \<Rightarrow> Inr (default_refused b as_of DR_NOT_ELECTIVE)
      | Some deadline \<Rightarrow>
          if as_of \<le> deadline then Inr (default_refused b as_of DEADLINE_NOT_PASSED)
          else case default_option_id (eb_event b) of
            None \<Rightarrow> Inr (default_refused b as_of DEFAULT_NOT_STATED)
          | Some opt \<Rightarrow>
              require (length (remdups (map hp_account_id hs)) = length hs) Holding_Account_Twice (
              Inr \<lparr>da_event_id = event_id (eb_event b), da_as_of = as_of,
                   da_firm_deadline = Some deadline, da_option_id = Some opt, da_refusal = None,
                   da_accounts = map (account_default b hs)
                     (sorted_set (map hp_account_id hs @ map ei_account_id (accepted_instructions b)))\<rparr>))"

end
