(* ===== verification/CA_Election_Props.thy ===== *)
theory CA_Election_Props
  imports CA_Election CA_Lifecycle_Props
begin

text \<open>
  What every election book that submissions can reach satisfies: it is its journal, a retry changes
  nothing, an identifier is accepted once, covers never exceed what they cover, and defaults take
  exactly what was not elected, for good.
\<close>

subsection \<open>The replayed journal\<close>

lemma entry_for_simps [log_simps]:
  "ee_submission (entry_for b s) = s"
  "ee_event_id (entry_for b s) = event_id (eb_event b)"
  "ee_sequence (entry_for b s) = length (eb_journal b)"
  "mk_ElectionEntry (entry_for b s) = Inr (entry_for b s)"
  by (simp_all add: entry_for_def Let_def mk_ElectionEntry_def split: option.splits)

lemma submit_simps [log_simps]:
  "eb_event (fst (submit b s)) = eb_event b"
  "eb_lead_days (fst (submit b s)) = eb_lead_days b"
  "eb_journal (fst (submit b s)) = eb_journal b @ [entry_for b s]"
  "snd (submit b s) = entry_for b s"
  by (simp_all add: submit_def)

definition has_id :: "string \<Rightarrow> ElectionEntry \<Rightarrow> bool" where
  "has_id sid e \<longleftrightarrow> submission_id (ee_submission e) = sid"

text \<open>The invariant: entries are consistent, and the first entry of an identifier is no duplicate.\<close>

definition book_inv :: "CorporateActionEvent \<Rightarrow> int \<Rightarrow> ElectionBook \<Rightarrow> bool" where
  "book_inv ev lead b \<longleftrightarrow>
     eb_event b = ev \<and> eb_lead_days b = lead \<and>
     (\<forall>sid. first_entry b sid = find (has_id sid) (eb_journal b)) \<and>
     (\<forall>e \<in> set (eb_journal b). mk_ElectionEntry e = Inr e)"

lemma new_book_inv: "book_inv ev lead (new_book ev lead)"
  by (simp add: book_inv_def new_book_def first_entry_def)

lemma find_snoc: "find P (xs @ [x]) = (case find P xs of Some y \<Rightarrow> Some y | None \<Rightarrow> if P x then Some x else None)"
  by (induction xs) auto

lemma entry_for_duplicate:
  "ee_outcome (entry_for b s) = Duplicate \<longleftrightarrow>
     (\<exists>e. first_entry b (submission_id s) = Some e \<and> ee_submission e = s)"
  by (simp add: entry_for_def Let_def split: option.splits)

lemma first_entry_submit:
  "first_entry (fst (submit b s)) sid =
     (case first_entry b sid of Some e \<Rightarrow> Some e
      | None \<Rightarrow> if submission_id s = sid then Some (entry_for b s) else None)"
proof -
  have "ee_outcome (entry_for b s) \<noteq> Duplicate" if "first_entry b (submission_id s) = None"
    using that by (simp add: entry_for_duplicate)
  then show ?thesis
    by (auto simp: first_entry_def log_simps find_snoc split: option.split)
qed

lemma submit_book_inv: "book_inv ev lead b \<Longrightarrow> book_inv ev lead (fst (submit b s))"
  by (auto simp: book_inv_def log_simps first_entry_submit find_snoc has_id_def split: option.splits)

fun replay_elections :: "ElectionBook \<Rightarrow> ElectionEntry list \<Rightarrow> (election_mismatch, ElectionBook) result" where
  "replay_elections b es = rebuild_elections_from (eb_event b) (length (eb_journal b)) b es"

definition election_placed :: "ElectionBook \<Rightarrow> ElectionEntry \<Rightarrow> bool" where
  "election_placed b e \<longleftrightarrow> ee_event_id e = event_id (eb_event b) \<and> ee_sequence e = length (eb_journal b)"

interpretation elections: replayed_journal "book_inv ev lead" submit eb_journal ee_submission
  election_placed replay_elections for ev lead
proof unfold_locales
  show "book_inv ev lead b \<Longrightarrow> book_inv ev lead (fst (submit b s))" for b s by (rule submit_book_inv)
  show "replay_elections b (e # es) = Inr t \<longleftrightarrow> election_placed b e \<and>
      snd (submit b (ee_submission e)) = e \<and> replay_elections (fst (submit b (ee_submission e))) es = Inr t"
    for b e es t
    by (auto simp: election_placed_def log_simps submit_def)
qed (simp_all add: log_simps election_placed_def)

lemma reachable_book: "book_inv ev lead (run_elections (new_book ev lead) ss)"
  by (rule elections.run_requests_inv) (rule new_book_inv)

lemma journal_submissions: "map ee_submission (eb_journal (run_elections b ss)) = map ee_submission (eb_journal b) @ ss"
  by (induction ss arbitrary: b) (simp_all add: log_simps)

lemma find_map_eq: "find P (map f xs) = map_option f (find (\<lambda>x. P (f x)) xs)"
  by (induction xs) auto

lemma first_entry_reachable:
  "map_option ee_submission (first_entry (run_elections (new_book ev lead) ss) sid) =
     find (\<lambda>s. submission_id s = sid) ss"
proof -
  let ?b = "run_elections (new_book ev lead) ss"
  have "map ee_submission (eb_journal ?b) = ss"
    using journal_submissions [of "new_book ev lead" ss] by (simp add: new_book_def)
  then have "find (\<lambda>s. submission_id s = sid) ss = map_option ee_submission (find (has_id sid) (eb_journal ?b))"
    using find_map_eq [of "\<lambda>s. submission_id s = sid" ee_submission "eb_journal ?b"]
    by (simp add: has_id_def [abs_def])
  then show ?thesis using reachable_book [of ev lead ss] by (simp add: book_inv_def)
qed

subsection \<open>What a submission adds to the accepted ones\<close>

lemma instructions_in_append [simp]: "instructions_in (xs @ ys) = instructions_in xs @ instructions_in ys"
  by (induction xs) (auto split: submission.split)

lemma covers_in_append [simp]: "covers_in (xs @ ys) = covers_in xs @ covers_in ys"
  by (induction xs) (auto split: submission.split)

definition takes :: "ElectionBook \<Rightarrow> submission \<Rightarrow> bool" where
  "takes b s \<longleftrightarrow> first_entry b (submission_id s) = None \<and> election_refusal b s = None"

lemma entry_for_accepted: "ee_outcome (entry_for b s) = Accepted \<longleftrightarrow> takes b s"
  by (simp add: entry_for_def Let_def takes_def split: option.splits)

lemma accepted_submit:
  "accepted_instructions (fst (submit b s)) =
     accepted_instructions b @ (case s of Instruction i \<Rightarrow> if takes b s then [i] else [] | Cover c \<Rightarrow> [])"
  "accepted_covers (fst (submit b s)) =
     accepted_covers b @ (case s of Cover c \<Rightarrow> if takes b s then [c] else [] | Instruction i \<Rightarrow> [])"
  by (simp_all add: accepted_instructions_def accepted_covers_def log_simps entry_for_accepted
      split: submission.split)

lemma accepted_ids:
  "i \<in> set (accepted_instructions b) \<Longrightarrow> first_entry b (ei_instruction_id i) \<noteq> None"
  "c \<in> set (accepted_covers b) \<Longrightarrow> first_entry b (cover_id c) \<noteq> None"
proof -
  have found: "find P es \<noteq> None \<longleftrightarrow> (\<exists>e \<in> set es. P e)" for P and es :: "ElectionEntry list"
    by (induction es) auto
  have ins: "i \<in> set (instructions_in es) \<Longrightarrow>
      \<exists>e \<in> set es. ee_outcome e = Accepted \<and> ee_submission e = Instruction i" for es
    by (induction es) (auto split: submission.splits if_splits)
  have cov: "c \<in> set (covers_in es) \<Longrightarrow> \<exists>e \<in> set es. ee_outcome e = Accepted \<and> ee_submission e = Cover c" for es
    by (induction es) (auto split: submission.splits if_splits)
  show "i \<in> set (accepted_instructions b) \<Longrightarrow> first_entry b (ei_instruction_id i) \<noteq> None"
    unfolding first_entry_def found accepted_instructions_def by (drule ins) force
  show "c \<in> set (accepted_covers b) \<Longrightarrow> first_entry b (cover_id c) \<noteq> None"
    unfolding first_entry_def found accepted_covers_def by (drule cov) force
qed

definition accepted_identifiers :: "ElectionBook \<Rightarrow> string list" where
  "accepted_identifiers b =
     map ei_instruction_id (accepted_instructions b) @ map cover_id (accepted_covers b)"

lemma accepted_identifiers_distinct: "distinct (accepted_identifiers (run_elections (new_book ev lead) ss))"
proof (induction ss rule: rev_induct)
  case Nil
  then show ?case
    by (simp add: accepted_identifiers_def accepted_instructions_def accepted_covers_def new_book_def)
next
  case (snoc s ss)
  let ?b = "run_elections (new_book ev lead) ss"
  have new: "submission_id s \<notin> set (accepted_identifiers ?b)" if "takes ?b s"
    using that accepted_ids [of _ ?b] by (fastforce simp: takes_def accepted_identifiers_def)
  show ?case
    using snoc.IH new
    by (cases s) (auto simp: run_requests_append accepted_submit accepted_identifiers_def)
qed

subsection \<open>Quantities\<close>

fun amount_of :: "submission \<Rightarrow> rat" where
  "amount_of (Instruction i) = ei_quantity i"
| "amount_of (Cover c) = pc_quantity c"

text \<open>Positive quantities on a grid the decimal context represents exactly, in sum.\<close>

definition exact_submissions :: "int \<Rightarrow> submission list \<Rightarrow> bool" where
  "exact_submissions k ss \<longleftrightarrow>
     (\<forall>s \<in> set ss. on_grid k (amount_of s) \<and> 0 < amount_of s) \<and>
     (\<Sum>s\<leftarrow>ss. amount_of s) \<le> 10 powi (k + 28)"

lemma accepted_amounts:
  assumes "\<forall>e \<in> set es. on_grid k (amount_of (ee_submission e)) \<and> 0 < amount_of (ee_submission e)"
  shows "\<forall>i \<in> set (instructions_in es). on_grid k (ei_quantity i) \<and> 0 < ei_quantity i"
    and "\<forall>c \<in> set (covers_in es). on_grid k (pc_quantity c) \<and> 0 < pc_quantity c"
    and "(\<Sum>i\<leftarrow>instructions_in es. ei_quantity i) + (\<Sum>c\<leftarrow>covers_in es. pc_quantity c)
           \<le> (\<Sum>e\<leftarrow>es. amount_of (ee_submission e))"
  using assms by (induction es) (auto split: submission.splits)

lemma positive_sum: "\<forall>x \<in> set xs. 0 < f x \<Longrightarrow> 0 \<le> (\<Sum>x\<leftarrow>xs. f x :: rat)"
  by (rule sum_list_nonneg) auto

lemma filter_sum_le: "\<forall>x \<in> set xs. 0 < f x \<Longrightarrow> (\<Sum>x\<leftarrow>filter P xs. f x) \<le> (\<Sum>x\<leftarrow>xs. f x :: rat)"
  by (induction xs) (auto simp: add_increasing)

lemma filtered_dsum:
  assumes "\<forall>x \<in> set xs. on_grid k (f x) \<and> 0 < f x" and "(\<Sum>x\<leftarrow>xs. f x) \<le> 10 powi (k + 28)"
  shows "dsum_from 28 0 (map f (filter P xs)) = (\<Sum>x\<leftarrow>filter P xs. f x)"
proof -
  have "(\<Sum>y\<leftarrow>map f (filter P xs). \<bar>y\<bar>) = (\<Sum>x\<leftarrow>filter P xs. f x)"
    using assms(1) by (induction xs) auto
  also have "\<dots> \<le> 10 powi (k + 28)" using filter_sum_le [of xs f P] assms by force
  finally show ?thesis
    using dsum_from_exact [of "map f (filter P xs)" k 0 28] assms(1) by simp
qed

lemma exact_book:
  assumes "exact_submissions k ss" and "b = run_elections (new_book ev lead) ss"
  shows "\<forall>i \<in> set (accepted_instructions b). on_grid k (ei_quantity i) \<and> 0 < ei_quantity i"
    and "\<forall>c \<in> set (accepted_covers b). on_grid k (pc_quantity c) \<and> 0 < pc_quantity c"
    and "(\<Sum>i\<leftarrow>accepted_instructions b. ei_quantity i) + (\<Sum>c\<leftarrow>accepted_covers b. pc_quantity c) \<le> 10 powi (k + 28)"
proof -
  have m: "map ee_submission (eb_journal b) = ss"
    using journal_submissions [of "new_book ev lead" ss] by (simp add: assms(2) new_book_def)
  have s: "\<forall>e \<in> set (eb_journal b). on_grid k (amount_of (ee_submission e)) \<and> 0 < amount_of (ee_submission e)"
    "(\<Sum>e\<leftarrow>eb_journal b. amount_of (ee_submission e)) \<le> 10 powi (k + 28)"
    using assms(1) unfolding exact_submissions_def m [symmetric] by (auto simp: o_def)
  note a = accepted_amounts [OF s(1)]
  show "\<forall>i \<in> set (accepted_instructions b). on_grid k (ei_quantity i) \<and> 0 < ei_quantity i"
    "\<forall>c \<in> set (accepted_covers b). on_grid k (pc_quantity c) \<and> 0 < pc_quantity c"
    using a(1,2) by (simp_all add: accepted_instructions_def accepted_covers_def)
  show "(\<Sum>i\<leftarrow>accepted_instructions b. ei_quantity i) + (\<Sum>c\<leftarrow>accepted_covers b. pc_quantity c) \<le> 10 powi (k + 28)"
    using a(3) s(2) by (simp add: accepted_instructions_def accepted_covers_def)
qed

definition elected_sum :: "ElectionBook \<Rightarrow> string \<Rightarrow> rat" where
  "elected_sum b account = (\<Sum>i\<leftarrow>filter (\<lambda>i. ei_account_id i = account) (accepted_instructions b). ei_quantity i)"

definition covered_sum :: "ElectionBook \<Rightarrow> string \<Rightarrow> rat" where
  "covered_sum b iid = (\<Sum>c\<leftarrow>filter (\<lambda>c. pc_instruction_id c = iid) (accepted_covers b). pc_quantity c)"

lemma exact_sums:
  assumes "exact_submissions k ss" and "b = run_elections (new_book ev lead) ss"
  shows "elected_quantity b account = elected_sum b account"
    and "0 \<le> elected_sum b account" and "elected_sum b account \<le> 10 powi (k + 28)"
    and "on_grid k (elected_sum b account)"
    and "covered_of b iid = covered_sum b iid" and "0 \<le> covered_sum b iid"
    and "i \<in> set (accepted_instructions b) \<Longrightarrow> uncovered b i = ei_quantity i - covered_sum b (ei_instruction_id i)"
proof -
  note e = exact_book [OF assms]
  have nn: "0 \<le> (\<Sum>i\<leftarrow>accepted_instructions b. ei_quantity i)" "0 \<le> (\<Sum>c\<leftarrow>accepted_covers b. pc_quantity c)"
    using e(1,2) by (auto intro!: positive_sum)
  show eq: "elected_quantity b account = elected_sum b account"
    unfolding elected_quantity_def elected_sum_def by (rule filtered_dsum [of _ k]) (use e nn in auto)
  have cov: "covered_of b iid = covered_sum b iid" for iid
    unfolding covered_of_def covered_sum_def by (rule filtered_dsum [of _ k]) (use e nn in auto)
  then show "covered_of b iid = covered_sum b iid" .
  have grid: "(\<forall>x \<in> set xs. on_grid k (f x)) \<Longrightarrow> on_grid k (\<Sum>x\<leftarrow>xs. f x)" for f :: "'a \<Rightarrow> rat" and xs
    by (induction xs) auto
  show "on_grid k (elected_sum b account)" unfolding elected_sum_def by (rule grid) (use e(1) in auto)
  show "0 \<le> elected_sum b account" unfolding elected_sum_def by (rule positive_sum) (use e(1) in auto)
  have c0: "0 \<le> covered_sum b iid" for iid
    unfolding covered_sum_def by (rule positive_sum) (use e(2) in auto)
  then show "0 \<le> covered_sum b iid" .
  have "elected_sum b account \<le> (\<Sum>i\<leftarrow>accepted_instructions b. ei_quantity i)"
    unfolding elected_sum_def by (rule filter_sum_le) (use e(1) in auto)
  with nn e(3) show "elected_sum b account \<le> 10 powi (k + 28)" by linarith
  show "uncovered b i = ei_quantity i - covered_sum b (ei_instruction_id i)" if i: "i \<in> set (accepted_instructions b)"
  proof -
    let ?c = "covered_sum b (ei_instruction_id i)"
    have q: "0 < ei_quantity i" using e(1) i by blast
    have "?c \<le> (\<Sum>c\<leftarrow>accepted_covers b. pc_quantity c)"
      unfolding covered_sum_def by (rule filter_sum_le) (use e(2) in auto)
    moreover have "ei_quantity i \<le> (\<Sum>i\<leftarrow>accepted_instructions b. ei_quantity i)"
      by (rule member_le_sum_list) (use i e(1) in auto)
    ultimately have "\<bar>ei_quantity i - ?c\<bar> \<le> 10 powi (k + 28)"
      using e(3) q c0 [of "ei_instruction_id i"] nn by linarith
    moreover have "on_grid k ?c" unfolding covered_sum_def by (rule grid) (use e(2) in auto)
    then have "on_grid k (ei_quantity i - ?c)" using e(1) i by auto
    ultimately show ?thesis by (simp add: uncovered_def cov dround_on_grid)
  qed
qed

subsection \<open>Covers\<close>

definition covers_ok :: "ElectionBook \<Rightarrow> bool" where
  "covers_ok b \<longleftrightarrow>
     (\<forall>c \<in> set (accepted_covers b). \<exists>i \<in> set (accepted_instructions b).
        ei_instruction_id i = pc_instruction_id c \<and> protect i \<and> ei_account_id i = pc_account_id c) \<and>
     (\<forall>i \<in> set (accepted_instructions b). covered_sum b (ei_instruction_id i) \<le> ei_quantity i)"

lemma same_id_same_instruction:
  "distinct (accepted_identifiers b) \<Longrightarrow> i \<in> set (accepted_instructions b) \<Longrightarrow>
   j \<in> set (accepted_instructions b) \<Longrightarrow> ei_instruction_id i = ei_instruction_id j \<Longrightarrow> i = j"
  by (auto simp: accepted_identifiers_def distinct_map dest: inj_onD)

lemma covered_sum_submit:
  "covered_sum (fst (submit b s)) iid = covered_sum b iid +
     (case s of Cover c \<Rightarrow> if takes b s \<and> pc_instruction_id c = iid then pc_quantity c else 0
      | Instruction i \<Rightarrow> 0)"
  by (simp add: covered_sum_def accepted_submit split: submission.split)

lemma covered_none:
  "covers_ok b \<Longrightarrow> \<forall>i \<in> set (accepted_instructions b). ei_instruction_id i \<noteq> iid \<Longrightarrow> covered_sum b iid = 0"
proof -
  assume "covers_ok b" and "\<forall>i \<in> set (accepted_instructions b). ei_instruction_id i \<noteq> iid"
  then have "filter (\<lambda>c. pc_instruction_id c = iid) (accepted_covers b) = []"
    by (fastforce simp: covers_ok_def filter_empty_conv)
  then show "covered_sum b iid = 0" by (simp add: covered_sum_def)
qed

lemma taken_cover:
  assumes "takes b (Cover c)"
  obtains i where "i \<in> set (accepted_instructions b)" and "ei_instruction_id i = pc_instruction_id c"
    and "protect i" and "ei_account_id i = pc_account_id c" and "pc_quantity c \<le> uncovered b i"
  using assms
  by (auto simp: takes_def election_refusal_def protect_of_def Let_def split: if_splits option.splits
      dest!: find_SomeD)

lemma covers_ok_step:
  assumes ok: "covers_ok b" and d: "distinct (accepted_identifiers b)"
    and pos: "0 < amount_of s"
    and exact: "\<And>i. i \<in> set (accepted_instructions b) \<Longrightarrow>
      uncovered b i = ei_quantity i - covered_sum b (ei_instruction_id i)"
  shows "covers_ok (fst (submit b s))"
proof (cases s)
  case (Instruction i)
  have "covered_sum b (ei_instruction_id i) = 0" if "takes b s"
    using that accepted_ids(1) [of _ b] by (intro covered_none [OF ok]) (fastforce simp: takes_def Instruction)
  with ok pos show ?thesis
    by (auto simp: covers_ok_def accepted_submit covered_sum_submit Instruction)
next
  case (Cover c)
  show ?thesis
  proof (cases "takes b s")
    case True
    then obtain i where i: "i \<in> set (accepted_instructions b)" "ei_instruction_id i = pc_instruction_id c"
      "protect i" "ei_account_id i = pc_account_id c" "pc_quantity c \<le> uncovered b i"
      using taken_cover Cover by blast
    have "covered_sum b (ei_instruction_id j) + (if pc_instruction_id c = ei_instruction_id j then pc_quantity c else 0)
        \<le> ei_quantity j" if j: "j \<in> set (accepted_instructions b)" for j
      using same_id_same_instruction [OF d j i(1)] i exact [OF i(1)] ok j by (auto simp: covers_ok_def)
    with ok True i show ?thesis
      by (auto simp: covers_ok_def accepted_submit covered_sum_submit Cover)
  next
    case False
    with ok show ?thesis by (simp add: covers_ok_def accepted_submit covered_sum_submit Cover)
  qed
qed

lemma exact_submissions_prefix: "exact_submissions k (ss @ [s]) \<Longrightarrow> exact_submissions k ss \<and> 0 < amount_of s"
  by (auto simp: exact_submissions_def)

lemma reachable_covers_ok:
  "exact_submissions k ss \<Longrightarrow> covers_ok (run_elections (new_book ev lead) ss)"
proof (induction ss rule: rev_induct)
  case Nil
  show ?case by (simp add: covers_ok_def accepted_covers_def accepted_instructions_def new_book_def)
next
  case (snoc s ss)
  have p: "exact_submissions k ss" "0 < amount_of s" using exact_submissions_prefix [OF snoc.prems] by auto
  show ?case
    unfolding run_requests_append run_requests_Cons run_requests_Nil
    by (rule covers_ok_step [OF snoc.IH [OF p(1)] accepted_identifiers_distinct p(2)])
       (rule exact_sums(7) [OF p(1) refl])
qed

subsection \<open>Defaults\<close>

lemma late_submission:
  assumes "firm_deadline (eb_event b) (eb_lead_days b) = Some d" and "d < received_date s"
  shows "accepted_instructions (fst (submit b s)) = accepted_instructions b"
proof (cases s)
  case (Instruction i)
  have "\<not> takes b s"
    using assms by (auto simp: takes_def election_refusal_def after_opt_def Instruction Let_def)
  then show ?thesis by (simp add: accepted_submit Instruction)
qed (simp add: accepted_submit)

lemma run_keeps_event:
  "eb_event (run_elections b ss) = eb_event b" "eb_lead_days (run_elections b ss) = eb_lead_days b"
  by (induction ss arbitrary: b) (simp_all add: log_simps)

lemma late_submissions:
  assumes "firm_deadline (eb_event b) (eb_lead_days b) = Some d" and "\<forall>s \<in> set ss. d < received_date s"
  shows "accepted_instructions (run_elections b ss) = accepted_instructions b"
  using assms by (induction ss arbitrary: b) (simp_all add: log_simps late_submission)

lemma account_default_cong:
  "accepted_instructions b = accepted_instructions b' \<Longrightarrow> account_default b hs = account_default b' hs"
  by (rule ext) (simp add: account_default_def elected_quantity_def)

lemma map_of_holding:
  "map_of (map (\<lambda>h. (hp_account_id h, f h)) hs) a = Some v \<Longrightarrow> \<exists>h \<in> set hs. hp_account_id h = a \<and> f h = v"
  by (induction hs) (auto split: if_splits)

lemma account_default_exact:
  assumes "exact_submissions k ss" and "b = run_elections (new_book ev lead) ss"
    and "\<forall>h \<in> set hs. on_grid k (eligible_balance (position h)) \<and>
      \<bar>eligible_balance (position h)\<bar> \<le> 10 powi (k + 28)"
    and "default_quantity (account_default b hs account) = Some q"
  shows "0 \<le> q \<and> (\<exists>h \<in> set hs. hp_account_id h = account \<and>
           elected_sum b account + q = eligible_balance (position h))"
proof -
  note ex = exact_sums [OF assms(1,2)]
  obtain balance where m: "map_of (map (\<lambda>h. (hp_account_id h, eligible_balance (position h))) hs) account = Some balance"
    and le: "elected_sum b account \<le> balance" and q: "q = rnd28 (balance - elected_sum b account)"
    using assms(4) by (auto simp: account_default_def Let_def ex(1) split: option.splits if_splits)
  obtain h where h: "h \<in> set hs" "hp_account_id h = account" "eligible_balance (position h) = balance"
    using map_of_holding [OF m] by auto
  have g: "on_grid k balance" "\<bar>balance\<bar> \<le> 10 powi (k + 28)" using assms(3) h by auto
  have "\<bar>balance - elected_sum b account\<bar> \<le> 10 powi (k + 28)"
    using g(2) le ex(2) [of account] by linarith
  then have "q = balance - elected_sum b account"
    using q g(1) ex(4) [of account] dround_on_grid [of k _ 28] by auto
  with h le show ?thesis by auto
qed

subsection \<open>What the election book promises\<close>

text \<open>
  C21: A journal of elections rebuilds into a book exactly when that book is one that some
  sequence of submissions reaches from the empty book and the journal is that book's journal:
  replay accepts every real journal, returns the very book, and refuses any journal that was
  changed, reordered or truncated in the middle.\<close>

theorem elections_journal_rebuilds:
  "rebuild_elections ev lead es = Inr b \<longleftrightarrow>
     (\<exists>ss. b = run_elections (new_book ev lead) ss) \<and> eb_journal b = es"
proof -
  have "replay_elections (new_book ev lead) es = rebuild_elections ev lead es"
    by (simp add: rebuild_elections_def new_book_def)
  then show ?thesis using elections.replay_iff [of "new_book ev lead" es b] by (simp add: new_book_def)
qed

text \<open>
  A retry is safe. A submission is recognised as a duplicate exactly when the first
  submission that used its identifier had the same content; whatever is not accepted leaves the
  accepted instructions and covers as they were; and over any sequence of submissions no identifier
  is accepted twice.\<close>

theorem election_retry_is_safe:
  "let b = run_elections (new_book ev lead) ss; b' = fst (submit b s); e = snd (submit b s) in
     (ee_outcome e = Duplicate) = (find (\<lambda>t. submission_id t = submission_id s) ss = Some s) \<and>
     (ee_outcome e \<noteq> Accepted \<longrightarrow>
        accepted_instructions b' = accepted_instructions b \<and> accepted_covers b' = accepted_covers b) \<and>
     distinct (accepted_identifiers b')"
proof -
  let ?b = "run_elections (new_book ev lead) ss"
  have "ee_outcome (entry_for ?b s) = Duplicate \<longleftrightarrow>
      map_option ee_submission (first_entry ?b (submission_id s)) = Some s"
    by (auto simp: entry_for_duplicate)
  moreover have "distinct (accepted_identifiers (fst (submit ?b s)))"
    using accepted_identifiers_distinct [of ev lead "ss @ [s]"] by (simp add: run_requests_append)
  ultimately show ?thesis
    using entry_for_accepted [of ?b s]
    by (simp add: Let_def log_simps first_entry_reachable accepted_submit split: submission.split)
qed

text \<open>
  Covers never exceed what they cover. When every quantity submitted is positive and their
  total is within the exact range of the decimal context, every accepted cover names an accepted
  protect instruction of the same account, and the uncovered balance of every accepted instruction
  is the exact difference between its quantity and its accepted covers, never negative.\<close>

theorem covers_never_exceed_protect:
  assumes "exact_submissions k ss" and "b = run_elections (new_book ev lead) ss"
  shows "(\<forall>c \<in> set (accepted_covers b). \<exists>i \<in> set (accepted_instructions b).
            ei_instruction_id i = pc_instruction_id c \<and> protect i \<and> ei_account_id i = pc_account_id c) \<and>
         (\<forall>i \<in> set (accepted_instructions b).
            uncovered b i = ei_quantity i - covered_sum b (ei_instruction_id i) \<and> 0 \<le> uncovered b i)"
  using reachable_covers_ok [OF assms(1), of ev lead] exact_sums(7) [OF assms]
  by (simp add: covers_ok_def assms(2))

text \<open>
  Once a default assignment names a day, it is final: submissions received on or after that
  day do not change it, whatever they are, since an instruction received after the firm's deadline
  is refused and a cover elects nothing.\<close>

theorem default_assignment_is_final:
  assumes "\<forall>s \<in> set later. as_of \<le> received_date s"
  shows "assign_defaults (run_elections b later) hs as_of = assign_defaults b hs as_of"
proof (cases "firm_deadline (eb_event b) (eb_lead_days b)")
  case None
  then show ?thesis by (simp add: assign_defaults_def default_refused_def run_keeps_event)
next
  case (Some d)
  show ?thesis
  proof (cases "as_of \<le> d")
    case True
    with Some show ?thesis by (simp add: assign_defaults_def default_refused_def run_keeps_event)
  next
    case False
    with assms Some have "accepted_instructions (run_elections b later) = accepted_instructions b"
      by (intro late_submissions [of _ d]) auto
    with account_default_cong [OF this] show ?thesis
      by (simp add: assign_defaults_def default_refused_def run_keeps_event split: option.split)
  qed
qed

text \<open>
  A default takes exactly what was not elected. In an assignment that was not refused every
  account that holds or elected appears once, in order, and an account given a default quantity has
  it non-negative and, added to everything the account elected, equal to its eligible balance.\<close>

theorem defaults_complete_the_elections:
  assumes "exact_submissions k ss" and "b = run_elections (new_book ev lead) ss"
    and "\<forall>h \<in> set hs. on_grid k (eligible_balance (position h)) \<and>
      \<bar>eligible_balance (position h)\<bar> \<le> 10 powi (k + 28)"
    and "assign_defaults b hs as_of = Inr r" and "da_refusal r = None"
  shows "map ad_account_id (da_accounts r) =
           sorted_set (map hp_account_id hs @ map ei_account_id (accepted_instructions b)) \<and>
         (\<forall>a \<in> set (da_accounts r). \<forall>q. default_quantity a = Some q \<longrightarrow>
            0 \<le> q \<and> (\<exists>h \<in> set hs. hp_account_id h = ad_account_id a \<and>
              elected_sum b (ad_account_id a) + q = eligible_balance (position h)))"
proof -
  have acct: "ad_account_id (account_default b hs account) = account" for account
    by (simp add: account_default_def Let_def split: option.split)
  have "da_accounts r = map (account_default b hs)
      (sorted_set (map hp_account_id hs @ map ei_account_id (accepted_instructions b)))"
    using assms(4,5) by (auto simp: assign_defaults_def default_refused_def split: option.splits if_splits)
  then show ?thesis
    using account_default_exact [OF assms(1-3)] by (auto simp: acct o_def)
qed

subsection \<open>Witnesses\<close>

definition w_instruction :: ElectionInstruction where
  "w_instruction = \<lparr>ei_instruction_id = ''I1'', ei_account_id = ''A'', ei_option_id = ''001'',
     ei_quantity = 100, ei_basis = Units, ei_received_date = 110, protect = True,
     ei_provenance = FACT_EXTERNAL, ei_source = source w_event\<rparr>"

definition w_cover :: ProtectCover where
  "w_cover = \<lparr>cover_id = ''C1'', pc_instruction_id = ''I1'', pc_account_id = ''A'', pc_quantity = 60,
     pc_received_date = 122, pc_provenance = FACT_EXTERNAL, pc_source = source w_event\<rparr>"

abbreviation (input) w_book :: ElectionBook where
  "w_book \<equiv> run_elections (new_book w_event 1) [Instruction w_instruction, Cover w_cover]"

lemmas w_elections =
  submit_def entry_for_def first_entry_def new_book_def accepted_instructions_def accepted_covers_def
  election_refusal_def protect_of_def after_opt_def firm_deadline_def elective_def uncovered_def
  covered_of_def w_instruction_def w_cover_def w_event_def w_dates_def

lemma w_exact: "exact_submissions 0 [Instruction w_instruction, Cover w_cover]"
  using on_grid_of_int [of 0 100] on_grid_of_int [of 0 60]
  by (simp add: exact_submissions_def w_instruction_def w_cover_def)

lemma w_round: "rnd28 100 = 100" "rnd28 40 = 40"
  using dround_of_int [of 100 28] dround_of_int [of 40 28] by simp_all

lemma w_book_accepted: "accepted_instructions w_book = [w_instruction]" "accepted_covers w_book = [w_cover]"
  by (simp_all add: w_elections Let_def w_round)

definition w_elector :: HolderPosition where
  "w_elector = \<lparr>hp_account_id = ''A'', position =
     \<lparr>rd_security_id = ''S'', eligible_balance = 140, settlement_balance = 140,
      pending_delivery_balance = 0, pending_receipt_balance = 0, obligated_balance = 0,
      uncovered_protect_balance = 0, rd_provenance = None\<rparr>, basis = Units\<rparr>"

text \<open>A retried, protected election of 100 and a cover of 60.\<close>

theorem election_retry_is_safe_witness:
  "ee_outcome (snd (submit w_book (Instruction w_instruction))) = Duplicate \<and>
   accepted_instructions (fst (submit w_book (Instruction w_instruction))) = accepted_instructions w_book"
  using election_retry_is_safe [of w_event 1 "[Instruction w_instruction, Cover w_cover]" "Instruction w_instruction"]
  by (simp only: Let_def) simp

theorem covers_never_exceed_protect_witness:
  "uncovered w_book w_instruction = 40 \<and>
     (\<exists>i \<in> set (accepted_instructions w_book). ei_instruction_id i = pc_instruction_id w_cover \<and> protect i)"
  using covers_never_exceed_protect [OF w_exact refl, of w_event 1]
  by (simp only: w_book_accepted covered_sum_def)
     (simp add: w_instruction_def w_cover_def)

theorem default_assignment_is_final_witness:
  "assign_defaults (run_elections w_book [Instruction (w_instruction\<lparr>ei_instruction_id := ''I2'',
       ei_received_date := 130\<rparr>)]) [w_elector] 120 = assign_defaults w_book [w_elector] 120"
  by (rule default_assignment_is_final) (simp add: w_instruction_def)

lemma w_account_default:
  "account_default w_book [w_elector] ''A'' = \<lparr>ad_account_id = ''A'', ad_eligible_balance = Some 140,
     ad_elected_quantity = 100, default_quantity = Some 40, ad_refusal = None\<rparr>"
  by (simp only: account_default_def elected_quantity_def w_book_accepted)
     (simp add: w_elector_def w_instruction_def Let_def w_round)

lemma w_defaults:
  "assign_defaults w_book [w_elector] 120 = Inr
     \<lparr>da_event_id = ''E'', da_as_of = 120, da_firm_deadline = Some 119, da_option_id = Some ''001'',
      da_refusal = None, da_accounts = [account_default w_book [w_elector] ''A'']\<rparr>"
proof -
  have "sorted_set (map hp_account_id [w_elector] @ map ei_account_id [w_instruction]) = [''A'']"
    by (rule sorted_set_eqI) (simp_all add: w_elector_def w_instruction_def)
  then show ?thesis
    by (simp only: assign_defaults_def w_book_accepted run_keeps_event)
       (simp add: firm_deadline_def new_book_def w_event_def w_dates_def)
qed

theorem defaults_complete_the_elections_witness:
  "0 \<le> (40 :: rat) \<and> (\<exists>h \<in> set [w_elector]. hp_account_id h = ''A'' \<and>
     elected_sum w_book ''A'' + 40 = eligible_balance (position h))"
proof -
  have "\<forall>h \<in> set [w_elector]. on_grid 0 (eligible_balance (position h)) \<and>
      \<bar>eligible_balance (position h)\<bar> \<le> 10 powi (0 + 28)"
    using on_grid_of_int [of 0 140] by (simp add: w_elector_def)
  from defaults_complete_the_elections [OF w_exact refl this w_defaults]
  show ?thesis unfolding w_account_default by simp
qed

end
