(* ===== verification/CA_Reconciliation.thy ===== *)
theory CA_Reconciliation
  imports CA_Entitlement
begin

text \<open>
  \<open>atreides/corporate_actions/movement.py\<close> and \<open>reconciliation.py\<close>: what the depository confirmed it
  moved, one report per account and option, and the reconciliation of a computed entitlement
  against those confirmations. Break codes are the strings the code sorts. An \<open>ActorRef\<close> of the
  kernel is its identifier and its authentication flag, the two things the code reads; times are
  opaque integers. Confirmed quantities are added as Python adds them, at 28 digits.
\<close>

subsection \<open>Movement reports\<close>

text \<open>\<open>^[A-Z]{2}[A-Z0-9]{9}[0-9]$\<close>.\<close>

definition isin_pattern :: "string \<Rightarrow> bool" where
  "isin_pattern s \<longleftrightarrow>
     length s = 12 \<and> list_all upper_letter (take 2 s) \<and>
     list_all alnum_upper (take 9 (drop 2 s)) \<and> list_all digit_char (drop 11 s)"

definition scheme_char :: "char \<Rightarrow> bool" where
  "scheme_char c \<longleftrightarrow> lower_letter c \<or> digit_char c \<or> c \<in> set ''+.-''"

text \<open>\<open>^[a-z][a-z0-9+.-]*://[^\s]+$\<close>: no scheme character is a colon, so the greedy scheme is the only one.\<close>

definition uri_pattern :: "string \<Rightarrow> bool" where
  "uri_pattern s \<longleftrightarrow>
     (let scheme = takeWhile scheme_char s; rest = dropWhile scheme_char s in
      scheme \<noteq> [] \<and> lower_letter (hd scheme) \<and> take 3 rest = ''://'' \<and> drop 3 rest \<noteq> [] \<and>
      list_all (\<lambda>c. \<not> white_char c) (drop 3 rest))"

definition option_number :: "string \<Rightarrow> bool" where
  "option_number s \<longleftrightarrow> length s = 3 \<and> list_all digit_char s"

record MovementBalances =
  mb_eligible_balance :: "rat option"
  confirmed_balance :: "rat option"
  mb_pending_delivery :: "rat option"
  mb_pending_receipt :: "rat option"
  settlement_position_balance :: "rat option"

datatype movement = CashMovement rat string | SecuritiesMovement string rat

datatype movement_error =
    Movement_Field string | Actor_Not_Authenticated | Report_Not_A_Fact | Governs_Another_Event
  | Advice_Half_Stated | Confirmation_Overstates | Confirmed_Balance_Missing | Advice_Confirmed

definition mk_Movement :: "movement \<Rightarrow> (movement_error, movement) result" where
  "mk_Movement m =
     (case m of
        CashMovement amount currency \<Rightarrow>
          require (0 \<le> amount) (Movement_Field ''amount'') (
          require (currency_pattern currency) (Movement_Field ''currency'') (Inr m))
      | SecuritiesMovement security quantity \<Rightarrow>
          require (isin_pattern security) (Movement_Field ''security_id'') (
          require (0 \<le> quantity) (Movement_Field ''quantity'') (Inr m)))"

record ActorRef =
  actor_id :: string
  authenticated :: bool

record MovementAuthorityReference =
  governed_event_id :: string
  authorizing_actor :: ActorRef
  authority_record_uri :: string
  ma_provenance :: Provenance

definition mk_MovementAuthorityReference ::
  "MovementAuthorityReference \<Rightarrow> (movement_error, MovementAuthorityReference) result" where
  "mk_MovementAuthorityReference a =
     require (governed_event_id a \<noteq> []) (Movement_Field ''governed_event_id'') (
     require (uri_pattern (authority_record_uri a)) (Movement_Field ''authority_record_uri'') (
     require (authenticated (authorizing_actor a)) Actor_Not_Authenticated (Inr a)))"

datatype movement_stage = Preliminary_Advice | Confirmation

datatype movement_direction = Credit | Debit

record MovementReport =
  stage :: movement_stage
  mr_event_id :: string
  mr_event_type :: EventType
  mr_participation :: "Participation option"
  mr_security_id :: string
  mr_account_id :: string
  mr_option_id :: string
  mr_option_type :: OptionType
  default_option :: "bool option"
  balances :: MovementBalances
  movement :: movement
  direction :: movement_direction
  movement_date :: int
  mr_provenance :: Provenance
  mr_source :: SourceIdentity
  authority :: MovementAuthorityReference

definition mk_MovementReport :: "MovementReport \<Rightarrow> (movement_error, MovementReport) result" where
  "mk_MovementReport r =
     (let advice = (stage r = Preliminary_Advice) in
      require (mr_event_id r \<noteq> []) (Movement_Field ''event_id'') (
      require (isin_pattern (mr_security_id r)) (Movement_Field ''security_id'') (
      require (mr_account_id r \<noteq> []) (Movement_Field ''account_id'') (
      require (option_number (mr_option_id r)) (Movement_Field ''option_id'') (
      require (event_fact (mr_provenance r)) Report_Not_A_Fact (
      require (governed_event_id (authority r) = mr_event_id r) Governs_Another_Event (
      require (\<not> (advice \<and> (mr_participation r = None \<or> default_option r = None))) Advice_Half_Stated (
      require (\<not> (\<not> advice \<and> (mr_participation r \<noteq> None \<or> default_option r \<noteq> None)))
        Confirmation_Overstates (
      require (\<not> (\<not> advice \<and> confirmed_balance (balances r) = None)) Confirmed_Balance_Missing (
      require (\<not> (advice \<and> confirmed_balance (balances r) \<noteq> None)) Advice_Confirmed
        (Inr r)))))))))))"

definition moved :: "MovementReport \<Rightarrow> rat" where
  "moved r = (case movement r of CashMovement amount c \<Rightarrow> amount | SecuritiesMovement s q \<Rightarrow> q)"

subsection \<open>Break codes\<close>

datatype CorporateActionBreakCode =
    MISSING_CONFIRMATION | UNEXPECTED_MOVEMENT | WRONG_MOVEMENT_TYPE | CURRENCY_MISMATCH
  | SECURITY_MISMATCH | DEBIT_NOT_CREDIT | CONFIRMED_AGAINST_OTHER_BALANCE | ELECTIVE_EVENT
  | ENTITLEMENT_NOT_COMPUTED | UNCLASSIFIABLE

fun break_value :: "CorporateActionBreakCode \<Rightarrow> string" where
  "break_value MISSING_CONFIRMATION = ''missing_confirmation''"
| "break_value UNEXPECTED_MOVEMENT = ''unexpected_movement''"
| "break_value WRONG_MOVEMENT_TYPE = ''wrong_movement_type''"
| "break_value CURRENCY_MISMATCH = ''currency_mismatch''"
| "break_value SECURITY_MISMATCH = ''security_mismatch''"
| "break_value DEBIT_NOT_CREDIT = ''debit_not_credit''"
| "break_value CONFIRMED_AGAINST_OTHER_BALANCE = ''confirmed_against_other_balance''"
| "break_value ELECTIVE_EVENT = ''elective_event''"
| "break_value ENTITLEMENT_NOT_COMPUTED = ''entitlement_not_computed''"
| "break_value UNCLASSIFIABLE = ''unclassifiable''"

text \<open>The values of the three codes reused from the equities rail.\<close>

fun rail_break_value :: "SecuritiesBreakCode \<Rightarrow> string" where
  "rail_break_value FAIL_TO_DELIVER = ''fail_to_deliver''"
| "rail_break_value FAIL_TO_RECEIVE = ''fail_to_receive''"
| "rail_break_value ELIGIBLE_SETTLED_DIVERGENCE = ''eligible_settled_divergence''"
| "rail_break_value _ = []"

definition INDETERMINATE_CODES :: "string list" where
  "INDETERMINATE_CODES =
     [break_value ELECTIVE_EVENT, break_value ENTITLEMENT_NOT_COMPUTED, break_value UNCLASSIFIABLE]"

definition truthy_amount :: "rat option \<Rightarrow> bool" where
  "truthy_amount x = (case x of None \<Rightarrow> False | Some q \<Rightarrow> q \<noteq> 0)"

definition depository_conditions :: "MovementReport \<Rightarrow> string list" where
  "depository_conditions r =
     (let b = balances r in
      (if truthy_amount (mb_pending_delivery b) then [rail_break_value FAIL_TO_DELIVER] else []) @
      (if truthy_amount (mb_pending_receipt b) then [rail_break_value FAIL_TO_RECEIVE] else []) @
      (if mb_eligible_balance b \<noteq> None \<and> settlement_position_balance b \<noteq> None \<and>
          mb_eligible_balance b \<noteq> settlement_position_balance b
       then [rail_break_value ELIGIBLE_SETTLED_DIVERGENCE] else []))"

definition movement_conditions ::
  "CorporateActionEvent \<Rightarrow> EntitlementResult \<Rightarrow> MovementReport \<Rightarrow> string list" where
  "movement_conditions ev ent r =
     (if direction r \<noteq> Credit then [break_value DEBIT_NOT_CREDIT] else []) @
     (if unit_of ent = Some Cash_Unit then
        (case movement r of
           SecuritiesMovement s q \<Rightarrow> [break_value WRONG_MOVEMENT_TYPE]
         | CashMovement amount currency \<Rightarrow>
             if Some currency \<noteq> er_currency ent then [break_value CURRENCY_MISMATCH] else [])
      else
        (case movement r of
           CashMovement amount currency \<Rightarrow> [break_value WRONG_MOVEMENT_TYPE]
         | SecuritiesMovement s q \<Rightarrow>
             if s \<noteq> security_id ev then [break_value SECURITY_MISMATCH] else []))"

subsection \<open>One account\<close>

record AccountReconciliation =
  ar_account_id :: string
  expected :: "rat option"
  confirmed :: "rat option"
  ar_difference :: "rat option"
  confirmations :: nat
  ar_matched :: bool
  break_codes :: "string list"

datatype reconciliation_error =
    Matched_With_Breaks | Entitlement_Of_Another_Event | Confirmation_Of_Another_Event string
  | Advice_Not_Confirmation | Factor_Assertion

definition mk_AccountReconciliation ::
  "AccountReconciliation \<Rightarrow> (reconciliation_error, AccountReconciliation) result" where
  "mk_AccountReconciliation a =
     require (\<not> (ar_matched a = (break_codes a \<noteq> []))) Matched_With_Breaks (Inr a)"

definition confirmed_sum :: "MovementReport list \<Rightarrow> rat option" where
  "confirmed_sum rs = (if rs = [] then None else Some (dsum_from 28 0 (map moved rs)))"

text \<open>
  Why a quantity differs: the balance the depository confirmed against, where every report names
  the same one. The code asserts that the entitlement has a factor.
\<close>

definition quantity_break ::
  "EntitlementResult \<Rightarrow> HolderEntitlement \<Rightarrow> MovementReport list \<Rightarrow> (reconciliation_error, string) result" where
  "quantity_break ent holder rs =
     (case er_factor ent of None \<Rightarrow> Inl Factor_Assertion
      | Some f \<Rightarrow>
          let stated = remdups (map (\<lambda>r. confirmed_balance (balances r)) rs);
              other = (if length stated = 1 then hd stated else None) in
          Inr (break_value
            (case other of None \<Rightarrow> UNCLASSIFIABLE
             | Some bal \<Rightarrow>
                 if bal \<noteq> he_eligible_balance holder \<and>
                    (case confirmed_sum rs of None \<Rightarrow> 0 | Some c \<Rightarrow> c) = f * bal
                 then CONFIRMED_AGAINST_OTHER_BALANCE else UNCLASSIFIABLE)))"

definition account_codes ::
  "CorporateActionEvent \<Rightarrow> EntitlementResult \<Rightarrow> HolderEntitlement option \<Rightarrow> MovementReport list \<Rightarrow>
   (reconciliation_error, string list) result" where
  "account_codes ev ent holder rs =
     (case holder of None \<Rightarrow> Inr [break_value UNEXPECTED_MOVEMENT]
      | Some h \<Rightarrow>
          if he_quantity h = None then Inr [break_value ENTITLEMENT_NOT_COMPUTED]
          else if rs = [] then
            Inr (if truthy_amount (he_quantity h) then [break_value MISSING_CONFIRMATION] else [])
          else
            let structural = sorted_set (concat (map (movement_conditions ev ent) rs));
                reported = sorted_set (concat (map depository_conditions rs)) in
            if structural = [] \<and> confirmed_sum rs \<noteq> he_quantity h
            then (case quantity_break ent h rs of Inl e \<Rightarrow> Inl e
                  | Inr code \<Rightarrow> Inr (structural @ reported @ [code]))
            else Inr (structural @ reported))"

definition reconcile_account ::
  "CorporateActionEvent \<Rightarrow> EntitlementResult \<Rightarrow> string \<Rightarrow> MovementReport list \<Rightarrow>
   (reconciliation_error, AccountReconciliation) result" where
  "reconcile_account ev ent account rs =
     (let holder = find (\<lambda>h. he_account_id h = account) (holders ent);
          got = confirmed_sum rs;
          want = (case holder of None \<Rightarrow> None | Some h \<Rightarrow> he_quantity h) in
      case account_codes ev ent holder rs of Inl e \<Rightarrow> Inl e
      | Inr codes \<Rightarrow>
          mk_AccountReconciliation
            \<lparr>ar_account_id = account, expected = want, confirmed = got,
             ar_difference = (case (got, want) of (Some c, Some x) \<Rightarrow> Some (rnd28 (c - x)) | _ \<Rightarrow> None),
             confirmations = length rs, ar_matched = (codes = []), break_codes = codes\<rparr>)"

subsection \<open>The event\<close>

record CorporateActionReconciliation =
  cr_event_id :: string
  cr_disposition :: Disposition
  cr_matched :: bool
  cr_break_codes :: "string list"
  cr_unavailable :: "CorporateActionBreakCode list"
  accounts :: "AccountReconciliation list"
  reconciled_at :: int

definition mk_CorporateActionReconciliation ::
  "CorporateActionReconciliation \<Rightarrow> (reconciliation_error, CorporateActionReconciliation) result" where
  "mk_CorporateActionReconciliation r =
     require (\<not> (cr_matched r = (cr_break_codes r \<noteq> []))) Matched_With_Breaks (Inr r)"

fun reconcile_accounts ::
  "CorporateActionEvent \<Rightarrow> EntitlementResult \<Rightarrow> MovementReport list \<Rightarrow> string list \<Rightarrow>
   (reconciliation_error, AccountReconciliation list) result" where
  "reconcile_accounts ev ent rs [] = Inr []"
| "reconcile_accounts ev ent rs (a # as) =
     (case reconcile_account ev ent a (filter (\<lambda>r. mr_account_id r = a) rs) of Inl e \<Rightarrow> Inl e
      | Inr x \<Rightarrow> (case reconcile_accounts ev ent rs as of Inl e \<Rightarrow> Inl e | Inr xs \<Rightarrow> Inr (x # xs)))"

fun check_confirmations ::
  "CorporateActionEvent \<Rightarrow> MovementReport list \<Rightarrow> reconciliation_error option" where
  "check_confirmations ev [] = None"
| "check_confirmations ev (r # rs) =
     (if mr_event_id r \<noteq> event_id ev then Some (Confirmation_Of_Another_Event (mr_account_id r))
      else if stage r \<noteq> Confirmation then Some Advice_Not_Confirmation
      else check_confirmations ev rs)"

definition stopped_by :: "CorporateActionEvent \<Rightarrow> EntitlementResult \<Rightarrow> CorporateActionBreakCode list" where
  "stopped_by ev ent =
     (if elective (participation ev) then [ELECTIVE_EVENT] else []) @
     (if er_factor ent = None then [ENTITLEMENT_NOT_COMPUTED] else [])"

definition reconcile ::
  "CorporateActionEvent \<Rightarrow> EntitlementResult \<Rightarrow> MovementReport list \<Rightarrow> int \<Rightarrow>
   (reconciliation_error, CorporateActionReconciliation) result" where
  "reconcile ev ent rs now =
     require (er_event_id ent = event_id ev) Entitlement_Of_Another_Event (
     case check_confirmations ev rs of Some e \<Rightarrow> Inl e
     | None \<Rightarrow>
       if stopped_by ev ent \<noteq> [] then
         mk_CorporateActionReconciliation
           \<lparr>cr_event_id = event_id ev,
            cr_disposition = decide (stopped_by ev ent) ([] :: unit list) ([] :: unit list),
            cr_matched = False, cr_break_codes = sort (map break_value (stopped_by ev ent)),
            cr_unavailable = stopped_by ev ent, accounts = [], reconciled_at = now\<rparr>
       else
         (case reconcile_accounts ev ent rs
                 (sorted_set (map he_account_id (holders ent) @ map mr_account_id rs)) of
            Inl e \<Rightarrow> Inl e
          | Inr as \<Rightarrow>
              let codes = sorted_set (concat (map break_codes as)) in
              mk_CorporateActionReconciliation
                \<lparr>cr_event_id = event_id ev,
                 cr_disposition = decide (filter (\<lambda>c. c \<in> set INDETERMINATE_CODES) codes) ([] :: unit list)
                   (filter (\<lambda>c. c \<notin> set INDETERMINATE_CODES) codes),
                 cr_matched = (codes = []), cr_break_codes = codes, cr_unavailable = [],
                 accounts = as, reconciled_at = now\<rparr>))"

end
