(* ===== verification/CA_Reconciliation_Props.thy ===== *)
theory CA_Reconciliation_Props
  imports CA_Reconciliation CA_Entitlement_Props
begin

text \<open>
  What a reconciliation promises: it fails only for a bad request, PASS means every account was
  matched, the order of the confirmations is irrelevant, and a PASS over a computed entitlement
  means that exactly what the event owed was moved.
\<close>

definition reports_of :: "string \<Rightarrow> MovementReport list \<Rightarrow> MovementReport list" where
  "reports_of a rs = filter (\<lambda>r. mr_account_id r = a) rs"

definition holder_for :: "EntitlementResult \<Rightarrow> string \<Rightarrow> HolderEntitlement option" where
  "holder_for ent a = find (\<lambda>h. he_account_id h = a) (holders ent)"

definition all_accounts :: "EntitlementResult \<Rightarrow> MovementReport list \<Rightarrow> string set" where
  "all_accounts ent rs = he_account_id ` set (holders ent) \<union> mr_account_id ` set rs"

subsection \<open>No validator refuses a result\<close>

lemma quantity_break_total: "er_factor ent \<noteq> None \<Longrightarrow> \<exists>c. quantity_break ent h rs = Inr (break_value c)"
  by (auto simp: quantity_break_def Let_def)

lemma account_codes_total: "er_factor ent \<noteq> None \<Longrightarrow> \<exists>cs. account_codes ev ent h rs = Inr cs"
proof (cases h)
  case (Some x)
  assume "er_factor ent \<noteq> None"
  then obtain c where "quantity_break ent x rs = Inr c" using quantity_break_total by blast
  with Some show ?thesis by (simp add: account_codes_def Let_def)
qed (simp add: account_codes_def)

definition codes_of :: "CorporateActionEvent \<Rightarrow> EntitlementResult \<Rightarrow> MovementReport list \<Rightarrow> string \<Rightarrow> string list" where
  "codes_of ev ent rs a =
     (case account_codes ev ent (holder_for ent a) (reports_of a rs) of Inl e \<Rightarrow> [] | Inr cs \<Rightarrow> cs)"

lemma codes_of_eq:
  "er_factor ent \<noteq> None \<Longrightarrow>
   account_codes ev ent (holder_for ent a) (reports_of a rs) = Inr (codes_of ev ent rs a)"
  using account_codes_total [of ent ev "holder_for ent a" "reports_of a rs"] by (auto simp: codes_of_def)

lemma reconcile_account_total:
  assumes "er_factor ent \<noteq> None"
  shows "\<exists>x. reconcile_account ev ent a (reports_of a rs) = Inr x \<and> break_codes x = codes_of ev ent rs a"
  using codes_of_eq [OF assms, of ev a rs]
  by (simp add: reconcile_account_def mk_AccountReconciliation_def Let_def holder_for_def)

lemma reconcile_accounts_total:
  assumes "er_factor ent \<noteq> None"
  shows "\<exists>xs. reconcile_accounts ev ent rs as = Inr xs \<and> map break_codes xs = map (codes_of ev ent rs) as"
proof (induction as)
  case (Cons a as)
  with reconcile_account_total [OF assms, of ev a rs] show ?case by (auto simp: reports_of_def)
qed simp

lemma check_confirmations_None:
  "check_confirmations ev rs = None \<longleftrightarrow> (\<forall>r \<in> set rs. mr_event_id r = event_id ev \<and> stage r = Confirmation)"
  by (induction rs) auto

lemma stopped_by_Nil: "stopped_by ev ent = [] \<longleftrightarrow> \<not> elective (participation ev) \<and> er_factor ent \<noteq> None"
  by (simp add: stopped_by_def)

definition all_codes :: "CorporateActionEvent \<Rightarrow> EntitlementResult \<Rightarrow> MovementReport list \<Rightarrow> string list" where
  "all_codes ev ent rs = sorted_set (concat (map (codes_of ev ent rs)
     (sorted_set (map he_account_id (holders ent) @ map mr_account_id rs))))"

definition request_fits :: "CorporateActionEvent \<Rightarrow> EntitlementResult \<Rightarrow> MovementReport list \<Rightarrow> bool" where
  "request_fits ev ent rs \<longleftrightarrow> er_event_id ent = event_id ev \<and>
     (\<forall>r \<in> set rs. mr_event_id r = event_id ev \<and> stage r = Confirmation)"

lemma reconcile_refused: "\<not> request_fits ev ent rs \<Longrightarrow> \<exists>e. reconcile ev ent rs now = Inl e"
  by (cases "er_event_id ent = event_id ev"; cases "check_confirmations ev rs")
     (auto simp: reconcile_def request_fits_def check_confirmations_None)

lemma reconcile_stopped:
  "request_fits ev ent rs \<Longrightarrow> stopped_by ev ent \<noteq> [] \<Longrightarrow>
   \<exists>r. reconcile ev ent rs now = Inr r \<and> cr_disposition r = Disposition.INDETERMINATE"
  by (auto simp: reconcile_def request_fits_def mk_CorporateActionReconciliation_def advisory_simps
      simp flip: check_confirmations_None)

lemma reconcile_open:
  assumes "request_fits ev ent rs" and "stopped_by ev ent = []"
  shows "\<exists>r. reconcile ev ent rs now = Inr r \<and> cr_break_codes r = all_codes ev ent rs \<and>
    (cr_disposition r = Disposition.PASS \<longleftrightarrow> all_codes ev ent rs = [])"
proof -
  have f: "er_factor ent \<noteq> None" using assms(2) by (simp add: stopped_by_Nil)
  obtain xs where xs: "reconcile_accounts ev ent rs (sorted_set (map he_account_id (holders ent) @ map mr_account_id rs)) = Inr xs"
    "map break_codes xs = map (codes_of ev ent rs) (sorted_set (map he_account_id (holders ent) @ map mr_account_id rs))"
    using reconcile_accounts_total [OF f] by blast
  have c: "check_confirmations ev rs = None" using assms(1) by (simp add: check_confirmations_None request_fits_def)
  have codes: "sorted_set (concat (map break_codes xs)) = all_codes ev ent rs" by (simp only: xs(2) all_codes_def)
  have split: "filter P ys = [] \<and> filter (\<lambda>y. \<not> P y) ys = [] \<longleftrightarrow> ys = []" for P and ys :: "string list"
    by (induction ys) auto
  show ?thesis
    using assms split [of "\<lambda>c. c \<in> set INDETERMINATE_CODES" "all_codes ev ent rs"]
    by (simp add: reconcile_def c xs(1) codes request_fits_def Let_def mk_CorporateActionReconciliation_def
        advisory_simps)
qed

subsection \<open>A matched account\<close>

definition report_clean :: "CorporateActionEvent \<Rightarrow> EntitlementResult \<Rightarrow> MovementReport \<Rightarrow> bool" where
  "report_clean ev ent r \<longleftrightarrow>
     direction r = Credit \<and>
     (if unit_of ent = Some Cash_Unit
      then \<exists>amount currency. movement r = CashMovement amount currency \<and> er_currency ent = Some currency
      else \<exists>q. movement r = SecuritiesMovement (security_id ev) q) \<and>
     mb_pending_delivery (balances r) \<in> {None, Some 0} \<and>
     mb_pending_receipt (balances r) \<in> {None, Some 0} \<and>
     (mb_eligible_balance (balances r) = None \<or> settlement_position_balance (balances r) = None \<or>
      mb_eligible_balance (balances r) = settlement_position_balance (balances r))"

definition account_matched ::
  "CorporateActionEvent \<Rightarrow> EntitlementResult \<Rightarrow> MovementReport list \<Rightarrow> string \<Rightarrow> bool" where
  "account_matched ev ent rs a \<longleftrightarrow>
     (\<exists>h q. holder_for ent a = Some h \<and> he_quantity h = Some q \<and>
        dsum_from 28 0 (map moved (reports_of a rs)) = q \<and>
        (\<forall>r \<in> set (reports_of a rs). report_clean ev ent r))"

lemma report_clean_iff:
  "report_clean ev ent r \<longleftrightarrow> movement_conditions ev ent r = [] \<and> depository_conditions r = []"
  by (cases "movement r")
     (auto simp: report_clean_def movement_conditions_def depository_conditions_def truthy_amount_def
       Let_def split: option.splits)

lemma codes_of_Nil:
  assumes "er_factor ent \<noteq> None"
  shows "codes_of ev ent rs a = [] \<longleftrightarrow> account_matched ev ent rs a"
proof (cases "holder_for ent a")
  case None
  then show ?thesis by (simp add: codes_of_def account_codes_def account_matched_def)
next
  case (Some h)
  show ?thesis
  proof (cases "he_quantity h = None \<or> reports_of a rs = []")
    case True
    then show ?thesis
      using Some by (auto simp: codes_of_def account_codes_def account_matched_def truthy_amount_def)
  next
    case False
    then obtain q where q: "he_quantity h = Some q" by auto
    let ?rs = "reports_of a rs"
    have clean: "(\<forall>r \<in> set ?rs. report_clean ev ent r) \<longleftrightarrow>
        concat (map (movement_conditions ev ent) ?rs) = [] \<and> concat (map depository_conditions ?rs) = []"
      by (auto simp: report_clean_iff)
    obtain c where c: "quantity_break ent h ?rs = Inr c" using quantity_break_total [OF assms] by blast
    from False Some q c show ?thesis
      by (auto simp: codes_of_def account_codes_def account_matched_def confirmed_sum_def clean Let_def
          simp del: concat_eq_Nil_conv)
  qed
qed

lemma all_codes_Nil:
  "er_factor ent \<noteq> None \<Longrightarrow>
   all_codes ev ent rs = [] \<longleftrightarrow> (\<forall>a \<in> all_accounts ent rs. account_matched ev ent rs a)"
  by (auto simp: all_codes_def codes_of_Nil all_accounts_def)

lemma reconcile_pass:
  "reconcile ev ent rs now = Inr r \<Longrightarrow>
   cr_disposition r = Disposition.PASS \<longleftrightarrow>
     \<not> elective (participation ev) \<and> er_factor ent \<noteq> None \<and>
     (\<forall>a \<in> all_accounts ent rs. account_matched ev ent rs a)"
proof -
  assume r: "reconcile ev ent rs now = Inr r"
  then have fits: "request_fits ev ent rs" using reconcile_refused [of ev ent rs now] by (cases "request_fits ev ent rs") auto
  show ?thesis
  proof (cases "stopped_by ev ent = []")
    case True
    then have "er_factor ent \<noteq> None" by (simp add: stopped_by_Nil)
    then show ?thesis
      using reconcile_open [OF fits True, of now] r True by (auto simp: stopped_by_Nil all_codes_Nil)
  next
    case False
    then show ?thesis
      using reconcile_stopped [OF fits False, of now] r by (auto simp: stopped_by_Nil)
  qed
qed

subsection \<open>Exact sums of what was moved\<close>

definition exact_reports :: "int \<Rightarrow> MovementReport list \<Rightarrow> bool" where
  "exact_reports k rs \<longleftrightarrow>
     (\<forall>r \<in> set rs. on_grid k (moved r) \<and> 0 \<le> moved r) \<and> (\<Sum>r\<leftarrow>rs. moved r) \<le> 10 powi (k + 28)"

lemma exact_reports_sum:
  assumes "exact_reports k rs"
  shows "dsum_from 28 0 (map moved (reports_of a rs)) = (\<Sum>r\<leftarrow>reports_of a rs. moved r)"
proof -
  have nn: "\<forall>r \<in> set rs. 0 \<le> moved r" using assms by (simp add: exact_reports_def)
  have "(\<Sum>y\<leftarrow>map moved (reports_of a rs). \<bar>y\<bar>) = (\<Sum>r\<leftarrow>reports_of a rs. moved r)"
    using nn by (induction rs) (auto simp: reports_of_def)
  also have "\<dots> \<le> (\<Sum>r\<leftarrow>rs. moved r)"
    using nn by (induction rs) (auto simp: reports_of_def add_increasing)
  also have "\<dots> \<le> 10 powi (k + 28)" using assms by (simp add: exact_reports_def)
  finally show ?thesis
    using dsum_from_exact [of "map moved (reports_of a rs)" k 0 28] assms
    by (simp add: exact_reports_def reports_of_def)
qed

lemma exact_reports_perm: "mset rs = mset rs' \<Longrightarrow> exact_reports k rs = exact_reports k rs'"
proof -
  assume m: "mset rs = mset rs'"
  then have "(\<Sum>r\<leftarrow>rs. moved r) = (\<Sum>r\<leftarrow>rs'. moved r)" by (rule sum_map_mset_cong)
  with set_mset_cong [OF m] show ?thesis by (simp add: exact_reports_def)
qed

subsection \<open>The order of the confirmations\<close>

lemma confirmed_sum_perm:
  assumes "exact_reports k rs" and "mset rs = mset rs'"
  shows "confirmed_sum (reports_of a rs) = confirmed_sum (reports_of a rs')"
proof -
  have m: "mset (reports_of a rs) = mset (reports_of a rs')" using assms(2) by (simp add: reports_of_def)
  then have "(\<Sum>r\<leftarrow>reports_of a rs. moved r) = (\<Sum>r\<leftarrow>reports_of a rs'. moved r)" by (rule sum_map_mset_cong)
  moreover have "reports_of a rs = [] \<longleftrightarrow> reports_of a rs' = []" using m by (metis mset_zero_iff)
  ultimately show ?thesis
    using exact_reports_sum [OF assms(1)] exact_reports_perm [OF assms(2)] assms(1) exact_reports_sum [of k rs']
    by (simp add: confirmed_sum_def)
qed

lemma remdups_single: "set xs = set ys \<Longrightarrow>
  (if length (remdups xs) = 1 then hd (remdups xs) else z) = (if length (remdups ys) = 1 then hd (remdups ys) else z)"
proof -
  assume s: "set xs = set ys"
  then have l: "length (remdups xs) = length (remdups ys)" by (simp add: length_remdups_card_conv)
  show ?thesis
  proof (cases "length (remdups xs) = 1")
    case True
    then obtain x y where "remdups xs = [x]" "remdups ys = [y]" using l by (auto simp: length_Suc_conv)
    moreover from this have "set xs = {x}" "set ys = {y}" by (metis list.set set_remdups)+
    ultimately show ?thesis using s by simp
  qed (use l in simp)
qed

lemma quantity_break_cong:
  assumes "set rs = set rs'" and "confirmed_sum rs = confirmed_sum rs'"
  shows "quantity_break ent h rs = quantity_break ent h rs'"
proof -
  have "set (map (\<lambda>r. confirmed_balance (balances r)) rs) = set (map (\<lambda>r. confirmed_balance (balances r)) rs')"
    using assms(1) by simp
  from remdups_single [OF this, of None] assms(2) show ?thesis by (simp only: quantity_break_def Let_def)
qed

lemma account_codes_cong:
  assumes "set rs = set rs'" and "confirmed_sum rs = confirmed_sum rs'"
  shows "account_codes ev ent h rs = account_codes ev ent h rs'"
proof -
  have "sorted_set (concat (map f rs)) = sorted_set (concat (map f rs'))" for f :: "MovementReport \<Rightarrow> string list"
    by (rule sorted_set_cong) (simp add: assms(1))
  moreover have "rs = [] \<longleftrightarrow> rs' = []" using assms(1) by auto
  ultimately show ?thesis
    using quantity_break_cong [OF assms] assms(2) by (simp only: account_codes_def)
qed

lemma reconcile_accounts_cong:
  assumes "exact_reports k rs" and "mset rs = mset rs'"
  shows "reconcile_accounts ev ent rs as = reconcile_accounts ev ent rs' as"
proof -
  have "reconcile_account ev ent a (reports_of a rs) = reconcile_account ev ent a (reports_of a rs')" for a
  proof -
    have m: "mset (reports_of a rs) = mset (reports_of a rs')" using assms(2) by (simp add: reports_of_def)
    note sets = set_mset_cong [OF m, simplified] and sums = confirmed_sum_perm [OF assms, of a]
    from account_codes_cong [OF _ sums] sets sums mset_eq_length [OF m] show ?thesis
      by (simp only: reconcile_account_def)
  qed
  then show ?thesis by (induction as) (simp_all add: reports_of_def split: sum.split)
qed

subsection \<open>A computed entitlement that reconciles\<close>

lemma account_matched_entitled:
  assumes "holders ent = map (entitled f u) (sort_key hp_account_id hs)" and "distinct (map hp_account_id hs)"
    and "h \<in> set hs" and "exact_reports k rs" and "account_matched ev ent rs (hp_account_id h)"
  shows "(\<Sum>r\<leftarrow>reports_of (hp_account_id h) rs. moved r) = f * eligible_balance (position h)"
proof -
  obtain e q where e: "holder_for ent (hp_account_id h) = Some e" "he_quantity e = Some q"
    and q: "(\<Sum>r\<leftarrow>reports_of (hp_account_id h) rs. moved r) = q"
    using assms(5) exact_reports_sum [OF assms(4)] by (auto simp: account_matched_def)
  have "e \<in> set (holders ent) \<and> he_account_id e = hp_account_id h"
    using e(1) by (auto simp: holder_for_def find_Some_iff)
  then obtain h' where "h' \<in> set hs" "e = entitled f u h'" "hp_account_id h' = hp_account_id h"
    by (auto simp: assms(1) entitled_simps)
  moreover from this have "h' = h" using assms(2,3) by (auto simp: distinct_map dest: inj_onD)
  ultimately show ?thesis using e(2) q by (simp add: entitled_simps split: if_splits)
qed

lemma holder_accounts:
  "holders ent = map (entitled f u) (sort_key hp_account_id hs) \<Longrightarrow>
   he_account_id ` set (holders ent) = hp_account_id ` set hs"
  by (simp add: image_image entitled_simps)

lemma reports_held:
  assumes "holders ent = map (entitled f u) (sort_key hp_account_id hs)"
    and "\<forall>a \<in> all_accounts ent rs. account_matched ev ent rs a"
  shows "mr_account_id ` set rs \<subseteq> hp_account_id ` set hs"
proof -
  have "a \<in> hp_account_id ` set hs" if "account_matched ev ent rs a" for a
    using that holder_accounts [OF assms(1)] by (auto simp: account_matched_def holder_for_def find_Some_iff)
  then show ?thesis using assms(2) by (auto simp: all_accounts_def)
qed

lemma matched_total:
  assumes "holders ent = map (entitled f u) (sort_key hp_account_id hs)" and "distinct (map hp_account_id hs)"
    and "exact_reports k rs" and m: "\<forall>a \<in> all_accounts ent rs. account_matched ev ent rs a"
  shows "(\<Sum>r\<leftarrow>rs. moved r) = f * (\<Sum>h\<leftarrow>hs. eligible_balance (position h))"
proof -
  have "mr_account_id ` set rs \<subseteq> hp_account_id ` set hs" by (rule reports_held [OF assms(1) m])
  then have "(\<Sum>r\<leftarrow>rs. moved r) = (\<Sum>a \<in> hp_account_id ` set hs. \<Sum>r\<leftarrow>reports_of a rs. moved r)"
    using sum_list_by_key [of "hp_account_id ` set hs" mr_account_id rs moved] by (simp add: reports_of_def)
  also have "\<dots> = (\<Sum>h \<in> set hs. \<Sum>r\<leftarrow>reports_of (hp_account_id h) rs. moved r)"
    using assms(2) by (simp add: sum.reindex distinct_map)
  also have "\<dots> = (\<Sum>h \<in> set hs. f * eligible_balance (position h))"
    using m holder_accounts [OF assms(1)] account_matched_entitled [OF assms(1,2) _ assms(3)]
    by (intro sum.cong) (auto simp: all_accounts_def)
  also have "\<dots> = (\<Sum>h\<leftarrow>hs. f * eligible_balance (position h))"
    using assms(2) by (simp add: sum_list_distinct_conv_sum_set distinct_map)
  finally show ?thesis by (simp add: sum_list_const_mult)
qed

subsection \<open>What a reconciliation promises\<close>

text \<open>
  A reconciliation fails only for an error in the request. It returns exactly when the
  entitlement and every report belong to the event and every report is a confirmation; the
  assertion that a compared entitlement has a factor, and the validators that tie \<open>matched\<close> to the
  absence of breaks, never fail.\<close>

theorem reconcile_fails_only_on_bad_request:
  "(\<exists>r. reconcile ev ent rs now = Inr r) \<longleftrightarrow>
     er_event_id ent = event_id ev \<and> {(mr_event_id r, stage r) |r. r \<in> set rs} \<subseteq> {(event_id ev, Confirmation)}"
proof -
  have "request_fits ev ent rs \<longleftrightarrow>
      er_event_id ent = event_id ev \<and> {(mr_event_id r, stage r) |r. r \<in> set rs} \<subseteq> {(event_id ev, Confirmation)}"
    by (auto simp: request_fits_def)
  moreover have "(\<exists>r. reconcile ev ent rs now = Inr r) \<longleftrightarrow> request_fits ev ent rs"
    using reconcile_refused [of ev ent rs now] reconcile_stopped [of ev ent rs now] reconcile_open [of ev ent rs now]
    by (cases "request_fits ev ent rs"; cases "stopped_by ev ent = []") auto
  ultimately show ?thesis by blast
qed

text \<open>
  C22: PASS means that every account matched. A reconciliation passes exactly when the event is
  mandatory, its factor was computed, and every account, whether entitled or reported, has an
  entitlement that was not refused, equal to the sum of its confirmed movements, each of them a
  credit of the owed currency or of the event's security with no open fail and no divergence
  between the eligible and the settled balance.\<close>

theorem reconcile_passes_iff_every_account_matches:
  assumes "reconcile ev ent rs now = Inr r"
  shows "cr_disposition r = Disposition.PASS \<longleftrightarrow>
     \<not> elective (participation ev) \<and> er_factor ent \<noteq> None \<and>
     (\<forall>a \<in> all_accounts ent rs. account_matched ev ent rs a)"
  using assms by (rule reconcile_pass)

text \<open>
  The order of the confirmations is irrelevant: two lists of the same reports, with
  quantities that are non-negative and within the exact range of the decimal context in sum, give
  the same reconciliation or are both refused.\<close>

theorem reconcile_ignores_order:
  assumes "reconcile ev ent rs now = Inr r" and "mset rs = mset rs'" and "exact_reports k rs"
  shows "reconcile ev ent rs' now = Inr r"
proof -
  have s: "set rs = set rs'" using assms(2) by (rule set_mset_cong)
  have "check_confirmations ev rs = None"
    using assms(1) by (auto simp: reconcile_def split: option.splits)
  then have c: "check_confirmations ev rs' = None" "check_confirmations ev rs = None"
    by (simp_all add: check_confirmations_None s)
  have "sorted_set (map he_account_id (holders ent) @ map mr_account_id rs) =
      sorted_set (map he_account_id (holders ent) @ map mr_account_id rs')"
    by (rule sorted_set_cong) (simp add: s)
  with reconcile_accounts_cong [OF assms(3,2)] assms(1) c show ?thesis by (simp only: reconcile_def)
qed

text \<open>
  C23: What was owed is what was moved, account by account. When a reconciliation over a computed
  entitlement passes, every report is for an account of the holdings, the confirmed quantities of each
  account add up to the event's factor times its eligible balance, and so those of all the reports add
  up to the factor times all the balances: across the entitlement computation, the depository's reports
  and the comparison, nothing is lost, misdirected or paid twice.\<close>

theorem passed_reconciliation_moved_what_was_owed:
  assumes "compute_entitlements ev hs = Inr ent" and "mk_EventTerms (terms ev) = Inr (terms ev)"
    and "decimal_terms (terms ev)" and "decimal_holdings hs" and "exact_reports k rs"
    and "reconcile ev ent rs now = Inr r" and "cr_disposition r = Disposition.PASS"
  shows "\<exists>f. er_factor ent = Some f \<and> mr_account_id ` set rs \<subseteq> hp_account_id ` set hs \<and>
    (\<forall>h \<in> set hs. (\<Sum>r\<leftarrow>filter (\<lambda>r. mr_account_id r = hp_account_id h) rs. moved r) = f * eligible_balance (position h)) \<and>
    (\<Sum>r\<leftarrow>rs. moved r) = f * (\<Sum>h\<leftarrow>hs. eligible_balance (position h))"
proof -
  have m: "\<forall>a \<in> all_accounts ent rs. account_matched ev ent rs a" and n: "er_factor ent \<noteq> None"
    using reconcile_pass [OF assms(6)] assms(7) by auto
  from n obtain f where f: "er_factor ent = Some f" by auto
  obtain u where u: "request_ok ev hs" "holders ent = map (entitled f u) (sort_key hp_account_id hs)"
    using compute_cases [OF assms(1-4) f] by metis
  have d: "distinct (map hp_account_id hs)" using u(1) by (simp add: request_ok_def)
  have accts: "hp_account_id ` set hs \<subseteq> all_accounts ent rs" unfolding all_accounts_def holder_accounts [OF u(2)] by blast
  have "(\<Sum>r\<leftarrow>reports_of (hp_account_id h) rs. moved r) = f * eligible_balance (position h)" if "h \<in> set hs" for h
    using account_matched_entitled [OF u(2) d that assms(5)] m accts that by blast
  with matched_total [OF u(2) d assms(5) m] reports_held [OF u(2) m] f show ?thesis unfolding reports_of_def by blast
qed

subsection \<open>Witnesses\<close>

text \<open>A dividend of 0.50 on 30 shares, confirmed in two credits of 10 and 5.\<close>

definition w_owed :: EntitlementResult where
  "w_owed = \<lparr>er_event_id = ''D'', er_event_type = CASH_DIVIDEND, unit_of = Some Cash_Unit,
     er_currency = Some ''USD'', er_factor = Some (1 / 2), er_disposition = Disposition.PASS,
     holders = [\<lparr>he_account_id = ''B'', he_eligible_balance = 30, he_quantity = Some 15,
       unavailable = [], treatment_explained = False\<rparr>],
     allocated_total = Some 15, er_residual = Some 0, event_total = Some 15,
     unavailable_rules = [], er_missing_inputs = []\<rparr>"

definition w_credit :: "rat \<Rightarrow> MovementReport" where
  "w_credit q = \<lparr>stage = Confirmation, mr_event_id = ''D'', mr_event_type = CASH_DIVIDEND,
     mr_participation = None, mr_security_id = ''US0378331005'', mr_account_id = ''B'',
     mr_option_id = ''001'', mr_option_type = OPT_CASH, default_option = None,
     balances = \<lparr>mb_eligible_balance = Some 30, confirmed_balance = Some 30, mb_pending_delivery = None,
       mb_pending_receipt = None, settlement_position_balance = Some 30\<rparr>,
     movement = CashMovement q ''USD'', direction = Credit, movement_date = 115,
     mr_provenance = FACT_SYNTHETIC, mr_source = source w_dividend,
     authority = \<lparr>governed_event_id = ''D'', authorizing_actor = \<lparr>actor_id = ''op'', authenticated = True\<rparr>,
       authority_record_uri = ''dsor://1'', ma_provenance = FACT_SYNTHETIC\<rparr>\<rparr>"

definition w_credits :: "MovementReport list" where
  "w_credits = [w_credit 10, w_credit 5]"

lemma w_report_ok: "mk_MovementReport (w_credit q) = Inr (w_credit q)"
  by (simp add: mk_MovementReport_def w_credit_def isin_pattern_def upper_letter_def alnum_upper_def
      digit_char_def option_number_def event_fact_def Let_def)

lemma w_exact_reports: "exact_reports 0 w_credits" "exact_reports 0 (rev w_credits)"
  using on_grid_of_int [of 0 10] on_grid_of_int [of 0 5]
  by (simp_all add: exact_reports_def w_credits_def w_credit_def moved_def)

lemma w_sum: "rnd28 10 = 10" "rnd28 15 = 15"
  using dround_of_int [of 10 28] dround_of_int [of 15 28] by simp_all

lemma w_owed_computed: "compute_entitlements w_dividend [w_holding ''B'' 30 0] = Inr w_owed"
proof -
  have d: "decimal_holdings [w_holding ''B'' 30 0]" using w_decimal(2) by (simp add: decimal_holdings_def w_holdings_def)
  have q: "request_ok w_dividend [w_holding ''B'' 30 0]" using w_request by (simp add: request_ok_def w_holdings_def)
  have "good_factor (1 / 2) Cash_Unit" using w_half by (simp add: good_factor_def)
  note c = compute_factored [OF w_factor this d]
  show ?thesis
    by (rule iffD2 [OF c], rule conjI [OF q])
       (simp add: w_owed_def w_dividend_def w_holding_def entitled_def holder_reasons_def diverges_def
        attributed_def entitlement_gaps_def Let_def decide_def sorted_set_def)
qed

lemma w_matched: "account_matched w_dividend w_owed w_credits ''B''"
  by (simp add: account_matched_def holder_for_def w_owed_def w_credits_def w_credit_def reports_of_def
      moved_def report_clean_def w_sum)

lemma w_reconciled:
  obtains r where "reconcile w_dividend w_owed w_credits 7 = Inr r" "cr_disposition r = Disposition.PASS"
proof -
  have "request_fits w_dividend w_owed w_credits"
    by (simp add: request_fits_def w_owed_def w_dividend_def w_credits_def w_credit_def)
  moreover have s: "stopped_by w_dividend w_owed = []"
    by (simp add: stopped_by_def w_owed_def w_dividend_def elective_def)
  moreover have "all_codes w_dividend w_owed w_credits = []"
    using w_matched s by (simp add: all_codes_Nil stopped_by_Nil all_accounts_def w_owed_def w_credits_def w_credit_def)
  ultimately show thesis using that reconcile_open [of w_dividend w_owed w_credits 7] by auto
qed

theorem reconcile_passes_iff_every_account_matches_witness:
  "\<exists>r. reconcile w_dividend w_owed w_credits 7 = Inr r \<and> cr_disposition r = Disposition.PASS \<and>
     (\<forall>a \<in> all_accounts w_owed w_credits. account_matched w_dividend w_owed w_credits a)"
proof -
  obtain r where "reconcile w_dividend w_owed w_credits 7 = Inr r" "cr_disposition r = Disposition.PASS"
    by (rule w_reconciled)
  with reconcile_passes_iff_every_account_matches [OF this(1)] show ?thesis by blast
qed

theorem reconcile_ignores_order_witness:
  "\<exists>r. reconcile w_dividend w_owed w_credits 7 = Inr r \<and> reconcile w_dividend w_owed (rev w_credits) 7 = Inr r"
proof -
  obtain r where r: "reconcile w_dividend w_owed w_credits 7 = Inr r" by (rule w_reconciled)
  have "mset w_credits = mset (rev w_credits)" by simp
  from reconcile_ignores_order [OF r this w_exact_reports(1)] r show ?thesis by blast
qed

theorem passed_reconciliation_moved_what_was_owed_witness:
  "er_factor w_owed = Some (1 / 2) \<and> (\<Sum>r\<leftarrow>w_credits. moved r) = 15"
proof -
  obtain r where r: "reconcile w_dividend w_owed w_credits 7 = Inr r" "cr_disposition r = Disposition.PASS"
    by (rule w_reconciled)
  have "decimal_holdings [w_holding ''B'' 30 0]" using w_decimal(2) by (simp add: decimal_holdings_def w_holdings_def)
  from passed_reconciliation_moved_what_was_owed [OF w_owed_computed w_terms w_decimal(1) this w_exact_reports(1) r]
  obtain f where "er_factor w_owed = Some f" "(\<Sum>r\<leftarrow>w_credits. moved r) = f * 30"
    by (auto simp: w_holding_def)
  moreover from this(1) have "f = 1 / 2" by (simp add: w_owed_def)
  ultimately show ?thesis by simp
qed

end
