(* ===== verification/Clearing_Access.thy ===== *)
theory Clearing_Access
  imports Advisory
begin

text \<open>
  \<open>atreides/clearing/access.py\<close>: who acts through whose membership or agency at FICC's Government
  Securities Division. Each model has a constructor that runs its field constraints and then its
  validator on the strings pydantic has already stripped.
\<close>

datatype AccessPath = FICC_DIRECT | FICC_SPONSORED | FICC_AGENT

fun path_value :: "AccessPath \<Rightarrow> string" where
  "path_value FICC_DIRECT = ''FICC_DIRECT''"
| "path_value FICC_SPONSORED = ''FICC_SPONSORED''"
| "path_value FICC_AGENT = ''FICC_AGENT''"

datatype PartyRole =
    DIRECT_NETTING_MEMBER | SPONSORED_MEMBER | SPONSORING_MEMBER | EXECUTING_FIRM_CUSTOMER
  | AGENT_CLEARING_MEMBER | CENTRAL_COUNTERPARTY

datatype AccessStatus = Access_ESTABLISHED | Access_INDETERMINATE

datatype access_error =
    Access_Field string | Not_Central_Counterparty | Wrong_Acting_Role AccessPath
  | Direct_Not_Clearing_Member | Direct_With_Intermediary | Wrong_Intermediary AccessPath
  | Intermediary_Not_Clearing_Member AccessPath | Authority_Missing "string list"
  | Established_Needs_Arrangement | Indeterminate_Needs_Reason

record PartyRef =
  party_id :: string
  role :: PartyRole

definition mk_PartyRef :: "string \<Rightarrow> PartyRole \<Rightarrow> (access_error, PartyRef) result" where
  "mk_PartyRef pid r =
     require (pid \<noteq> []) (Access_Field ''party_id'') (Inr \<lparr>party_id = pid, role = r\<rparr>)"

record AuthorityEvidence =
  ae_evidence_id :: string
  principal_party_id :: string
  authority_id :: string
  ae_source :: string
  ae_digest :: string

definition mk_AuthorityEvidence :: "AuthorityEvidence \<Rightarrow> (access_error, AuthorityEvidence) result" where
  "mk_AuthorityEvidence e =
     require (ae_evidence_id e \<noteq> []) (Access_Field ''evidence_id'') (
     require (principal_party_id e \<noteq> []) (Access_Field ''principal_party_id'') (
     require (authority_id e \<noteq> []) (Access_Field ''authority_id'') (
     require (ae_source e \<noteq> []) (Access_Field ''source'') (
     require (digest_pattern (ae_digest e)) (Access_Field ''digest'') (Inr e)))))"

record NovationEvidence =
  event_name :: string
  rule_reference :: string
  ne_evidence_id :: string

definition mk_NovationEvidence :: "NovationEvidence \<Rightarrow> (access_error, NovationEvidence) result" where
  "mk_NovationEvidence e =
     require (event_name e \<noteq> []) (Access_Field ''event_name'') (
     require (rule_reference e \<noteq> []) (Access_Field ''rule_reference'') (
     require (ne_evidence_id e \<noteq> []) (Access_Field ''evidence_id'') (Inr e)))"

record AccessArrangement =
  path :: AccessPath
  acting_party :: PartyRef
  clearing_member :: PartyRef
  intermediary :: "PartyRef option"
  ficc :: PartyRef
  authority_evidence :: "AuthorityEvidence list"
  novation_evidence :: NovationEvidence
  rule_set_version :: string
  processing_calendar_id :: string

subsection \<open>The roles each path requires\<close>

fun acting_role :: "AccessPath \<Rightarrow> PartyRole" where
  "acting_role FICC_DIRECT = DIRECT_NETTING_MEMBER"
| "acting_role FICC_SPONSORED = SPONSORED_MEMBER"
| "acting_role FICC_AGENT = EXECUTING_FIRM_CUSTOMER"

fun intermediary_role :: "AccessPath \<Rightarrow> PartyRole option" where
  "intermediary_role FICC_DIRECT = None"
| "intermediary_role FICC_SPONSORED = Some SPONSORING_MEMBER"
| "intermediary_role FICC_AGENT = Some AGENT_CLEARING_MEMBER"

definition required_principals :: "AccessArrangement \<Rightarrow> string list" where
  "required_principals a =
     (case path a of
        FICC_DIRECT \<Rightarrow> [party_id (acting_party a)]
      | _ \<Rightarrow> party_id (acting_party a) # (case intermediary a of None \<Rightarrow> [] | Some i \<Rightarrow> [party_id i]))"

definition path_roles :: "AccessArrangement \<Rightarrow> (access_error, unit) result" where
  "path_roles a =
     require (role (acting_party a) = acting_role (path a)) (Wrong_Acting_Role (path a)) (
     case path a of
       FICC_DIRECT \<Rightarrow>
         require (clearing_member a = acting_party a) Direct_Not_Clearing_Member (
         require (intermediary a = None) Direct_With_Intermediary (Inr ()))
     | p \<Rightarrow>
         (case intermediary a of
            None \<Rightarrow> Inl (Wrong_Intermediary p)
          | Some i \<Rightarrow>
              require (Some (role i) = intermediary_role p) (Wrong_Intermediary p) (
              require (clearing_member a = i) (Intermediary_Not_Clearing_Member p) (Inr ()))))"

definition mk_AccessArrangement :: "AccessArrangement \<Rightarrow> (access_error, AccessArrangement) result" where
  "mk_AccessArrangement a =
     require (authority_evidence a \<noteq> []) (Access_Field ''authority_evidence'') (
     require (rule_set_version a \<noteq> []) (Access_Field ''rule_set_version'') (
     require (processing_calendar_id a \<noteq> []) (Access_Field ''processing_calendar_id'') (
     require (role (ficc a) = CENTRAL_COUNTERPARTY) Not_Central_Counterparty (
     case path_roles a of Inl e \<Rightarrow> Inl e
     | Inr _ \<Rightarrow>
         (let evidenced = map principal_party_id (authority_evidence a);
              missing = filter (\<lambda>p. p \<notin> set evidenced) (required_principals a) in
          require (missing = []) (Authority_Missing (sorted_set missing)) (Inr a))))))"

record AccessDetermination =
  ad_status :: AccessStatus
  arrangement :: "AccessArrangement option"
  ad_reason :: "string option"

definition mk_AccessDetermination ::
  "AccessDetermination \<Rightarrow> (access_error, AccessDetermination) result" where
  "mk_AccessDetermination d =
     (if ad_status d = Access_ESTABLISHED then
        require (\<not> (arrangement d = None \<or> ad_reason d \<noteq> None)) Established_Needs_Arrangement (Inr d)
      else
        require (\<not> (arrangement d \<noteq> None \<or> \<not> truthy (ad_reason d))) Indeterminate_Needs_Reason (Inr d))"

definition indeterminate_access :: "string \<Rightarrow> (access_error, AccessDetermination) result" where
  "indeterminate_access reason =
     mk_AccessDetermination \<lparr>ad_status = Access_INDETERMINATE, arrangement = None, ad_reason = Some reason\<rparr>"

text \<open>An arrangement all of whose parts, too, passed their constructors.\<close>

definition arrangement_ok :: "AccessArrangement \<Rightarrow> bool" where
  "arrangement_ok a \<longleftrightarrow>
     (\<forall>p \<in> {acting_party a, clearing_member a, ficc a}. mk_PartyRef (party_id p) (role p) = Inr p) \<and>
     (\<forall>e \<in> set (authority_evidence a). mk_AuthorityEvidence e = Inr e) \<and>
     mk_NovationEvidence (novation_evidence a) = Inr (novation_evidence a) \<and>
     mk_AccessArrangement a = Inr a"

definition access_ok :: "AccessDetermination \<Rightarrow> bool" where
  "access_ok d \<longleftrightarrow>
     mk_AccessDetermination d = Inr d \<and> (\<forall>a. arrangement d = Some a \<longrightarrow> arrangement_ok a)"

end
