(* ===== verification/Clearing_FICC.thy ===== *)
theory Clearing_FICC
  imports Clearing_Access Decimal_Context "HOL-Library.Product_Lexorder"
begin

text \<open>
  \<open>atreides/clearing/ficc.py\<close>: novation and netting of Treasury obligations from one member's seat,
  published as an attested document. Canonical bytes and their digest are \<open>cannae_kernel\<close>'s: they
  are the parameters \<open>canonical\<close> and \<open>digest\<close>. Quantities and amounts are added as Python adds
  them, at 28 digits; strings are as pydantic stripped them; days are ordinals.
\<close>

datatype ClearingAgency = FICC_GSD | CME_SECURITIES_CLEARING

datatype ClearingStatus = ESTABLISHED | CS_INDETERMINATE

datatype EvidenceStage =
    CLEARING_ACCEPTANCE | NOVATION | NETTING | SETTLEMENT_INSTRUCTION | SETTLEMENT_FINALITY

fun stage_value :: "EvidenceStage \<Rightarrow> string" where
  "stage_value CLEARING_ACCEPTANCE = ''CLEARING_ACCEPTANCE''"
| "stage_value NOVATION = ''NOVATION''"
| "stage_value NETTING = ''NETTING''"
| "stage_value SETTLEMENT_INSTRUCTION = ''SETTLEMENT_INSTRUCTION''"
| "stage_value SETTLEMENT_FINALITY = ''SETTLEMENT_FINALITY''"

definition EVIDENCE_STAGES :: "EvidenceStage list" where
  "EVIDENCE_STAGES =
     [CLEARING_ACCEPTANCE, NOVATION, NETTING, SETTLEMENT_INSTRUCTION, SETTLEMENT_FINALITY]"

datatype FactStatus = RECORDED | NOT_RECORDED

datatype clearing_error =
    Clearing_Field string | Recorded_Without_Evidence | Absent_Without_Reason
  | Zero_Quantity | Zero_Settlement | Same_Signs | Repeated_Trade
  | Repeated_Obligation | Finality_Without_Instruction
  | Established_Incomplete | Indeterminate_Overstated

record EvidenceFact =
  ef_stage :: EvidenceStage
  ef_status :: FactStatus
  evidence_id :: "string option"
  ef_reason :: "string option"

definition mk_EvidenceFact :: "EvidenceFact \<Rightarrow> (clearing_error, EvidenceFact) result" where
  "mk_EvidenceFact f =
     (if ef_status f = RECORDED then
        require (\<not> (\<not> truthy (evidence_id f) \<or> ef_reason f \<noteq> None)) Recorded_Without_Evidence (Inr f)
      else
        require (\<not> (evidence_id f \<noteq> None \<or> \<not> truthy (ef_reason f))) Absent_Without_Reason (Inr f))"

record NovatedObligation =
  obligation_id :: string
  trade_ids :: "string list"
  member_id :: string
  cusip :: string
  settlement_date :: int
  signed_quantity :: rat
  signed_settlement_amount :: rat
  settlement_currency :: string
  novation_evidence_id :: string

text \<open>The sign test is on the product Python computes; rounding keeps its sign.\<close>

definition mk_NovatedObligation :: "NovatedObligation \<Rightarrow> (clearing_error, NovatedObligation) result" where
  "mk_NovatedObligation n =
     require (obligation_id n \<noteq> []) (Clearing_Field ''obligation_id'') (
     require (trade_ids n \<noteq> []) (Clearing_Field ''trade_ids'') (
     require (member_id n \<noteq> []) (Clearing_Field ''member_id'') (
     require (cusip_pattern (cusip n)) (Clearing_Field ''cusip'') (
     require (currency_pattern (settlement_currency n)) (Clearing_Field ''settlement_currency'') (
     require (novation_evidence_id n \<noteq> []) (Clearing_Field ''novation_evidence_id'') (
     require (signed_quantity n \<noteq> 0) Zero_Quantity (
     require (signed_settlement_amount n \<noteq> 0) Zero_Settlement (
     require (\<not> rnd28 (signed_quantity n * signed_settlement_amount n) > 0) Same_Signs (
     require (length (remdups (trade_ids n)) = length (trade_ids n)) Repeated_Trade (Inr n))))))))))"

record NetSettlementObligation =
  ns_member_id :: string
  ns_cusip :: string
  ns_settlement_date :: int
  net_quantity :: rat
  net_settlement_amount :: rat
  ns_currency :: string
  source_obligation_ids :: "string list"
  source_trade_ids :: "string list"

definition mk_NetSettlementObligation ::
  "NetSettlementObligation \<Rightarrow> (clearing_error, NetSettlementObligation) result" where
  "mk_NetSettlementObligation n =
     require (currency_pattern (ns_currency n)) (Clearing_Field ''settlement_currency'') (
     require (source_obligation_ids n \<noteq> []) (Clearing_Field ''source_obligation_ids'') (
     require (source_trade_ids n \<noteq> []) (Clearing_Field ''source_trade_ids'') (Inr n)))"

record FiccGsdNettingRequest =
  clearing_agency :: ClearingAgency
  access :: AccessDetermination
  obligations :: "NovatedObligation list"
  clearing_acceptance_evidence_id :: string
  netting_evidence_id :: string
  settlement_instruction_evidence_id :: "string option"
  settlement_finality_evidence_id :: "string option"

definition mk_FiccGsdNettingRequest ::
  "FiccGsdNettingRequest \<Rightarrow> (clearing_error, FiccGsdNettingRequest) result" where
  "mk_FiccGsdNettingRequest r =
     require (obligations r \<noteq> []) (Clearing_Field ''obligations'') (
     require (clearing_acceptance_evidence_id r \<noteq> []) (Clearing_Field ''clearing_acceptance_evidence_id'') (
     require (netting_evidence_id r \<noteq> []) (Clearing_Field ''netting_evidence_id'') (
     require (length (remdups (map obligation_id (obligations r))) = length (map obligation_id (obligations r)))
       Repeated_Obligation (
     require (\<not> (truthy (settlement_finality_evidence_id r) \<and> \<not> truthy (settlement_instruction_evidence_id r)))
       Finality_Without_Instruction (Inr r)))))"

record FiccGsdNettingDocument =
  fd_schema_version :: string
  fd_clearing_agency :: ClearingAgency
  fd_clearing_method :: string
  fd_observation_seat :: string
  fd_observed_member_id :: string
  fd_access_path :: string
  fd_rule_set_version :: string
  fd_processing_calendar_id :: string
  facts :: "EvidenceFact list"
  novated_obligations :: "NovatedObligation list"
  net_settlement_obligations :: "NetSettlementObligation list"

definition mk_FiccGsdNettingDocument ::
  "FiccGsdNettingDocument \<Rightarrow> (clearing_error, FiccGsdNettingDocument) result" where
  "mk_FiccGsdNettingDocument d =
     require (fd_observed_member_id d \<noteq> []) (Clearing_Field ''observed_member_id'') (
     require (length (facts d) = 5) (Clearing_Field ''facts'') (Inr d))"

record FiccGsdResultHeader =
  fh_schema_version :: string
  payload_digest :: string
  fh_clearing_agency :: ClearingAgency
  fh_clearing_method :: string

datatype clearing_reason =
    Agency_Not_Built | Access_Unestablished "string option" | Access_Absent
  | Not_The_Member_Seat string "string list" | Mixed_Currencies

record FiccGsdResult =
  fr_status :: ClearingStatus
  fr_reason :: "clearing_reason option"
  fr_header :: "FiccGsdResultHeader option"
  fr_payload :: "string option"

definition mk_FiccGsdResult :: "FiccGsdResult \<Rightarrow> (clearing_error, FiccGsdResult) result" where
  "mk_FiccGsdResult r =
     (if fr_status r = ESTABLISHED then
        require (\<not> (fr_reason r \<noteq> None \<or> fr_header r = None \<or> fr_payload r = None))
          Established_Incomplete (Inr r)
      else
        require (\<not> (fr_reason r = None \<or> fr_header r \<noteq> None \<or> fr_payload r \<noteq> None))
          Indeterminate_Overstated (Inr r))"

definition indeterminate_result :: "clearing_reason \<Rightarrow> (clearing_error, FiccGsdResult) result" where
  "indeterminate_result why =
     mk_FiccGsdResult \<lparr>fr_status = CS_INDETERMINATE, fr_reason = Some why, fr_header = None, fr_payload = None\<rparr>"

subsection \<open>Facts and netting\<close>

definition evidence_fact ::
  "EvidenceStage \<Rightarrow> string option \<Rightarrow> string \<Rightarrow> (clearing_error, EvidenceFact) result" where
  "evidence_fact stage ev absent =
     (if ev \<noteq> None
      then mk_EvidenceFact \<lparr>ef_stage = stage, ef_status = RECORDED, evidence_id = ev, ef_reason = None\<rparr>
      else mk_EvidenceFact
        \<lparr>ef_stage = stage, ef_status = NOT_RECORDED, evidence_id = None, ef_reason = Some absent\<rparr>)"

type_synonym position_key = "string \<times> string \<times> int"

definition position_of :: "NovatedObligation \<Rightarrow> position_key" where
  "position_of n = (member_id n, cusip n, settlement_date n)"

definition net_position ::
  "NovatedObligation list \<Rightarrow> position_key \<Rightarrow> (clearing_error, NetSettlementObligation) result" where
  "net_position obs k =
     (let members = filter (\<lambda>n. position_of n = k) obs in
      mk_NetSettlementObligation
        \<lparr>ns_member_id = fst k, ns_cusip = fst (snd k), ns_settlement_date = snd (snd k),
         net_quantity = dsum_from 28 0 (map signed_quantity members),
         net_settlement_amount = dsum_from 28 0 (map signed_settlement_amount members),
         ns_currency = settlement_currency (hd members),
         source_obligation_ids = sort (map obligation_id members),
         source_trade_ids = sort (concat (map trade_ids members))\<rparr>)"

definition net :: "NovatedObligation list \<Rightarrow> (clearing_error, NetSettlementObligation list) result" where
  "net obs = collect (map (net_position obs) (sorted_set (map position_of obs)))"

definition mixed_currencies :: "NovatedObligation list \<Rightarrow> bool" where
  "mixed_currencies obs =
     list_ex (\<lambda>k. length (remdups (map settlement_currency (filter (\<lambda>n. position_of n = k) obs))) \<noteq> 1)
       (remdups (map position_of obs))"

fun comma_join :: "string list \<Rightarrow> string" where
  "comma_join [] = []"
| "comma_join [s] = s"
| "comma_join (s # ss) = s @ '','' @ comma_join ss"

definition request_facts :: "FiccGsdNettingRequest \<Rightarrow> (clearing_error, EvidenceFact list) result" where
  "request_facts r =
     collect
       [evidence_fact CLEARING_ACCEPTANCE (Some (clearing_acceptance_evidence_id r))
          ''clearing acceptance was not recorded'',
        evidence_fact NOVATION (Some (comma_join (sorted_set (map novation_evidence_id (obligations r)))))
          ''novation was not recorded'',
        evidence_fact NETTING (Some (netting_evidence_id r)) ''netting was not recorded'',
        evidence_fact SETTLEMENT_INSTRUCTION (settlement_instruction_evidence_id r)
          ''settlement instruction was not recorded'',
        evidence_fact SETTLEMENT_FINALITY (settlement_finality_evidence_id r)
          ''settlement finality was not recorded'']"

definition netting_document ::
  "FiccGsdNettingRequest \<Rightarrow> AccessArrangement \<Rightarrow> (clearing_error, FiccGsdNettingDocument) result" where
  "netting_document r a =
     (case request_facts r of Inl e \<Rightarrow> Inl e
      | Inr fs \<Rightarrow> (case net (obligations r) of Inl e \<Rightarrow> Inl e
      | Inr ns \<Rightarrow>
          mk_FiccGsdNettingDocument
            \<lparr>fd_schema_version = ''atreides.ficc_gsd_netting/2'', fd_clearing_agency = clearing_agency r,
             fd_clearing_method = ''FICC_GSD_NOVATED_NETTED'', fd_observation_seat = ''FICC_MEMBER'',
             fd_observed_member_id = party_id (clearing_member a), fd_access_path = path_value (path a),
             fd_rule_set_version = rule_set_version a,
             fd_processing_calendar_id = processing_calendar_id a, facts = fs,
             novated_obligations = obligations r, net_settlement_obligations = ns\<rparr>))"

definition produce_ficc_gsd_result ::
  "(FiccGsdNettingDocument \<Rightarrow> string) \<Rightarrow> (string \<Rightarrow> string) \<Rightarrow> FiccGsdNettingRequest \<Rightarrow>
   (clearing_error, FiccGsdResult) result" where
  "produce_ficc_gsd_result canonical digest r =
     (if clearing_agency r = CME_SECURITIES_CLEARING then indeterminate_result Agency_Not_Built
      else if ad_status (access r) = Access_INDETERMINATE
      then indeterminate_result (Access_Unestablished (ad_reason (access r)))
      else case arrangement (access r) of None \<Rightarrow> indeterminate_result Access_Absent
      | Some a \<Rightarrow>
          let observed = party_id (clearing_member a); members = map member_id (obligations r) in
          if set members \<noteq> {observed}
          then indeterminate_result (Not_The_Member_Seat observed (sorted_set members))
          else if mixed_currencies (obligations r) then indeterminate_result Mixed_Currencies
          else case netting_document r a of Inl e \<Rightarrow> Inl e
          | Inr document \<Rightarrow>
              mk_FiccGsdResult
                \<lparr>fr_status = ESTABLISHED, fr_reason = None,
                 fr_header = Some
                   \<lparr>fh_schema_version = ''atreides.ficc_gsd_netting_header/2'',
                    payload_digest = digest (canonical document),
                    fh_clearing_agency = clearing_agency r,
                    fh_clearing_method = ''FICC_GSD_NOVATED_NETTED''\<rparr>,
                 fr_payload = Some (canonical document)\<rparr>)"

end
