(* ===== verification/Clearing_Repo.thy ===== *)
theory Clearing_Repo
  imports Clearing_FICC Market_Calendar
begin

text \<open>
  \<open>atreides/clearing/repo.py\<close>: DVP and GCF repo from the member seat, and the legs of a DVP repo as
  obligations for netting. The government securities calendar is the parameter \<open>cal\<close> (the module
  loads one from data), canonical bytes, their digest and the JSON reader are \<open>canonical\<close>, \<open>digest\<close>
  and \<open>parse\<close>. Money is computed at 28 digits and rounded half up to the cent, with the error
  \<open>quantize\<close> raises when the result would need more digits.
\<close>

datatype RepoService = DVP | GCF

datatype RepoTerm = OVERNIGHT | TERM_REPO | OPEN

datatype RepoLeg = START | CLOSE

datatype SponsoredExecution = DONE_WITH | DONE_AWAY

datatype repo_error =
    Repo_Field string | Repo_Calendar calendar_error | Start_Not_Business_Day | Open_With_Close
  | Close_Not_Later | Close_Not_Business_Day | Overnight_Not_One_Day | Term_Too_Short
  | DVP_Incomplete | GCF_Incomplete | Quantize_Overflow | Leg_Invalid clearing_error
  | Document_Unreadable | Undated_Legs

record RepoTrade =
  rt_trade_id :: string
  rt_member_id :: string
  service :: RepoService
  rt_term :: RepoTerm
  start_date :: int
  close_date :: "int option"
  collateral_par :: rat
  start_money :: rat
  rt_currency :: string
  repo_rate_percent :: rat
  day_count_basis :: int
  rt_cusip :: "string option"
  collateral_class :: "string option"
  clearing_bank :: "string option"
  haircut_percent :: rat
  member_margin_approximation :: rat
  sponsored_execution :: "SponsoredExecution option"

definition repo_fields :: "RepoTrade \<Rightarrow> (repo_error, unit) result" where
  "repo_fields t =
     require (rt_trade_id t \<noteq> []) (Repo_Field ''trade_id'') (
     require (rt_member_id t \<noteq> []) (Repo_Field ''member_id'') (
     require (0 < collateral_par t) (Repo_Field ''collateral_par'') (
     require (0 < start_money t) (Repo_Field ''start_money'') (
     require (currency_pattern (rt_currency t)) (Repo_Field ''currency'') (
     require (0 \<le> repo_rate_percent t) (Repo_Field ''repo_rate_percent'') (
     require (0 < day_count_basis t) (Repo_Field ''day_count_basis'') (
     require (case rt_cusip t of None \<Rightarrow> True | Some c \<Rightarrow> cusip_pattern c) (Repo_Field ''cusip'') (
     require (0 \<le> haircut_percent t) (Repo_Field ''haircut_percent'') (
     require (0 \<le> member_margin_approximation t) (Repo_Field ''member_margin_approximation'')
       (Inr ()))))))))))"

definition business_day :: "MarketCalendar \<Rightarrow> int \<Rightarrow> repo_error \<Rightarrow> (repo_error, unit) result" where
  "business_day cal d e =
     (case is_business_day cal d of Inl x \<Rightarrow> Inl (Repo_Calendar x) | Inr yes \<Rightarrow> require yes e (Inr ()))"

definition repo_term :: "MarketCalendar \<Rightarrow> RepoTrade \<Rightarrow> (repo_error, unit) result" where
  "repo_term cal t =
     (case business_day cal (start_date t) Start_Not_Business_Day of Inl e \<Rightarrow> Inl e
      | Inr _ \<Rightarrow>
        require (\<not> (rt_term t = OPEN \<and> close_date t \<noteq> None)) Open_With_Close (
        require (\<not> (rt_term t \<noteq> OPEN \<and> (case close_date t of None \<Rightarrow> True | Some c \<Rightarrow> c \<le> start_date t)))
          Close_Not_Later (
        case close_date t of None \<Rightarrow> Inr ()
        | Some c \<Rightarrow>
            (case business_day cal c Close_Not_Business_Day of Inl e \<Rightarrow> Inl e
             | Inr _ \<Rightarrow>
               (case business_days_after cal (start_date t) c of Inl x \<Rightarrow> Inl (Repo_Calendar x)
                | Inr days \<Rightarrow>
                    require (\<not> (rt_term t = OVERNIGHT \<and> days \<noteq> 1)) Overnight_Not_One_Day (
                    require (\<not> (rt_term t = TERM_REPO \<and> days \<le> 1)) Term_Too_Short (Inr ())))))))"

definition mk_RepoTrade :: "MarketCalendar \<Rightarrow> RepoTrade \<Rightarrow> (repo_error, RepoTrade) result" where
  "mk_RepoTrade cal t =
     (case repo_fields t of Inl e \<Rightarrow> Inl e | Inr _ \<Rightarrow>
      case repo_term cal t of Inl e \<Rightarrow> Inl e | Inr _ \<Rightarrow>
      require (\<not> (service t = DVP \<and>
                   (rt_cusip t = None \<or> collateral_class t \<noteq> None \<or> clearing_bank t \<noteq> None)))
        DVP_Incomplete (
      require (\<not> (service t = GCF \<and>
                   (rt_cusip t \<noteq> None \<or> \<not> truthy (collateral_class t) \<or> \<not> truthy (clearing_bank t))))
        GCF_Incomplete (Inr t)))"

subsection \<open>Money\<close>

definition half_up :: "rat \<Rightarrow> int" where
  "half_up x = (if 0 \<le> x then \<lfloor>x + 1 / 2\<rfloor> else - \<lfloor>- x + 1 / 2\<rfloor>)"

text \<open>\<open>x.quantize(Decimal("0.01"), rounding=ROUND_HALF_UP)\<close>.\<close>

definition quantize_cent :: "rat \<Rightarrow> (repo_error, rat) result" where
  "quantize_cent x =
     require (\<bar>half_up (x * 100)\<bar> < 10 ^ 28) Quantize_Overflow (Inr (of_int (half_up (x * 100)) / 100))"

definition accrued_money :: "RepoTrade \<Rightarrow> int \<Rightarrow> rat" where
  "accrued_money t close =
     rnd28 (start_money t +
       rnd28 (rnd28 (rnd28 (rnd28 (start_money t * repo_rate_percent t) / 100) * of_int (close - start_date t))
         / of_int (day_count_basis t)))"

definition close_money :: "RepoTrade \<Rightarrow> (repo_error, rat option) result" where
  "close_money t =
     (case close_date t of None \<Rightarrow> Inr None
      | Some c \<Rightarrow>
          (case quantize_cent (accrued_money t c) of Inl e \<Rightarrow> Inl e | Inr m \<Rightarrow> Inr (Some m)))"

definition unrounded_close_money :: "RepoTrade \<Rightarrow> rat option" where
  "unrounded_close_money t = map_option (accrued_money t) (close_date t)"

subsection \<open>Legs\<close>

record RepoLegObligation =
  rl_obligation_id :: string
  rl_trade_id :: string
  leg :: RepoLeg
  rl_settlement_date :: "int option"
  signed_par :: rat
  signed_money :: "rat option"
  unrounded_signed_money :: "rat option"
  rl_currency :: string
  rl_cusip :: "string option"
  rl_collateral_class :: "string option"
  settlement_path :: string
  rl_facts :: "EvidenceFact list"

record GcfAllocation =
  ga_trade_id :: string
  ga_collateral_class :: string
  ga_clearing_bank :: string
  allocated_par :: rat
  returned_par :: "rat option"

record RepoDocument =
  rd_schema_version :: string
  rd_clearing_agency :: ClearingAgency
  rd_clearing_method :: RepoService
  rd_observation_seat :: string
  rd_observed_member_id :: string
  rd_access_path :: string
  rd_sponsored_execution :: "SponsoredExecution option"
  rd_repo_rate_percent :: rat
  rd_day_count_basis :: int
  rd_term :: RepoTerm
  rd_haircut_percent :: rat
  rd_member_margin_approximation :: rat
  rd_member_margin_method :: string
  rd_cash_rounding_convention :: string
  legs :: "RepoLegObligation list"
  gcf_allocation :: "GcfAllocation option"

datatype repo_reason =
    Repo_Agency_Not_Built | Repo_Access_Unestablished "string option" | Repo_Not_The_Member_Seat
  | Sponsored_Execution_Missing

record RepoResult =
  rr_status :: ClearingStatus
  rr_reason :: "repo_reason option"
  rr_payload_digest :: "string option"
  rr_payload :: "string option"

definition leg_fact :: "string \<Rightarrow> bool \<Rightarrow> EvidenceStage \<Rightarrow> (clearing_error, EvidenceFact) result" where
  "leg_fact prefix finality stage =
     (let recorded = (stage \<noteq> SETTLEMENT_FINALITY \<or> finality) in
      mk_EvidenceFact
        \<lparr>ef_stage = stage, ef_status = (if recorded then RECORDED else NOT_RECORDED),
         evidence_id = (if recorded then Some (prefix @ '':'' @ stage_value stage) else None),
         ef_reason = (if recorded then None else Some ''settlement finality was not recorded'')\<rparr>)"

definition leg_facts :: "string \<Rightarrow> bool \<Rightarrow> (clearing_error, EvidenceFact list) result" where
  "leg_facts prefix finality = collect (map (leg_fact prefix finality) EVIDENCE_STAGES)"

fun leg_value :: "RepoLeg \<Rightarrow> string" where
  "leg_value START = ''START''"
| "leg_value CLOSE = ''CLOSE''"

definition repo_leg ::
  "RepoTrade \<Rightarrow> RepoLeg \<Rightarrow> int \<Rightarrow> rat \<Rightarrow> rat \<Rightarrow> rat \<Rightarrow> bool \<Rightarrow> (repo_error, RepoLegObligation) result" where
  "repo_leg t l settles par money unrounded settled =
     (let oid = rt_trade_id t @ '':'' @ leg_value l in
      case leg_facts oid settled of Inl e \<Rightarrow> Inl (Leg_Invalid e)
      | Inr fs \<Rightarrow> Inr
          \<lparr>rl_obligation_id = oid, rl_trade_id = rt_trade_id t, leg = l, rl_settlement_date = Some settles,
           signed_par = par, signed_money = Some money, unrounded_signed_money = Some unrounded,
           rl_currency = rt_currency t, rl_cusip = rt_cusip t, rl_collateral_class = collateral_class t,
           settlement_path = (if service t = DVP then ''DVP_NETTING'' else ''GCF_TRIPARTY''),
           rl_facts = fs\<rparr>)"

definition repo_legs :: "RepoTrade \<Rightarrow> RepoLeg list \<Rightarrow> rat option \<Rightarrow> (repo_error, RepoLegObligation list) result" where
  "repo_legs t settled money =
     (case repo_leg t START (start_date t) (collateral_par t) (rnd28 (- start_money t)) (rnd28 (- start_money t))
             (START \<in> set settled) of Inl e \<Rightarrow> Inl e
      | Inr first \<Rightarrow>
          (case (money, close_date t) of
             (Some m, Some c) \<Rightarrow>
               (case repo_leg t CLOSE c (rnd28 (- collateral_par t)) m (accrued_money t c) (CLOSE \<in> set settled) of
                  Inl e \<Rightarrow> Inl e | Inr second \<Rightarrow> Inr [first, second])
           | _ \<Rightarrow> Inr [first]))"

definition gcf_allocation_of :: "RepoTrade \<Rightarrow> rat option \<Rightarrow> GcfAllocation option" where
  "gcf_allocation_of t money =
     (if service t = GCF then
        Some \<lparr>ga_trade_id = rt_trade_id t,
              ga_collateral_class = (case collateral_class t of None \<Rightarrow> [] | Some c \<Rightarrow> c),
              ga_clearing_bank = (case clearing_bank t of None \<Rightarrow> [] | Some b \<Rightarrow> b),
              allocated_par = collateral_par t,
              returned_par = (if money \<noteq> None then Some (collateral_par t) else None)\<rparr>
      else None)"

definition repo_document ::
  "RepoTrade \<Rightarrow> AccessArrangement \<Rightarrow> ClearingAgency \<Rightarrow> RepoLeg list \<Rightarrow> (repo_error, RepoDocument) result" where
  "repo_document t a agency settled =
     (case close_money t of Inl e \<Rightarrow> Inl e
      | Inr money \<Rightarrow>
          (case repo_legs t settled money of Inl e \<Rightarrow> Inl e
           | Inr ls \<Rightarrow> Inr
               \<lparr>rd_schema_version = ''atreides.ficc_repo/1'', rd_clearing_agency = agency,
                rd_clearing_method = service t, rd_observation_seat = ''FICC_MEMBER'',
                rd_observed_member_id = party_id (clearing_member a), rd_access_path = path_value (path a),
                rd_sponsored_execution = sponsored_execution t, rd_repo_rate_percent = repo_rate_percent t,
                rd_day_count_basis = day_count_basis t, rd_term = rt_term t,
                rd_haircut_percent = haircut_percent t,
                rd_member_margin_approximation = member_margin_approximation t,
                rd_member_margin_method = ''SYNTHETIC_APPROXIMATION_NOT_FICC_VAR'',
                rd_cash_rounding_convention = ''ROUND_HALF_UP_TO_CENT'',
                legs = ls, gcf_allocation = gcf_allocation_of t money\<rparr>))"

definition repo_indeterminate :: "repo_reason \<Rightarrow> RepoResult" where
  "repo_indeterminate why =
     \<lparr>rr_status = CS_INDETERMINATE, rr_reason = Some why, rr_payload_digest = None, rr_payload = None\<rparr>"

definition produce_repo_result ::
  "(RepoDocument \<Rightarrow> string) \<Rightarrow> (string \<Rightarrow> string) \<Rightarrow> RepoTrade \<Rightarrow> AccessDetermination \<Rightarrow>
   ClearingAgency \<Rightarrow> RepoLeg list \<Rightarrow> (repo_error, RepoResult) result" where
  "produce_repo_result canonical digest t access_d agency settled =
     (if agency = CME_SECURITIES_CLEARING then Inr (repo_indeterminate Repo_Agency_Not_Built)
      else if ad_status access_d = Access_INDETERMINATE \<or> arrangement access_d = None
      then Inr (repo_indeterminate (Repo_Access_Unestablished (ad_reason access_d)))
      else
        let a = the (arrangement access_d) in
        if party_id (clearing_member a) \<noteq> rt_member_id t
        then Inr (repo_indeterminate Repo_Not_The_Member_Seat)
        else if path a = FICC_SPONSORED \<and> sponsored_execution t = None
        then Inr (repo_indeterminate Sponsored_Execution_Missing)
        else case repo_document t a agency settled of Inl e \<Rightarrow> Inl e
        | Inr document \<Rightarrow> Inr
            \<lparr>rr_status = ESTABLISHED, rr_reason = None,
             rr_payload_digest = Some (digest (canonical document)),
             rr_payload = Some (canonical document)\<rparr>)"

subsection \<open>The legs of a DVP repo, for netting\<close>

definition leg_for_netting :: "RepoDocument \<Rightarrow> RepoLegObligation \<Rightarrow> (clearing_error, NovatedObligation) result" where
  "leg_for_netting d l =
     mk_NovatedObligation
       \<lparr>obligation_id = rl_obligation_id l, trade_ids = [rl_trade_id l],
        member_id = rd_observed_member_id d,
        cusip = (case rl_cusip l of None \<Rightarrow> [] | Some c \<Rightarrow> c),
        settlement_date = the (rl_settlement_date l), signed_quantity = signed_par l,
        signed_settlement_amount = the (signed_money l), settlement_currency = rl_currency l,
        novation_evidence_id = rl_obligation_id l @ '':NOVATION''\<rparr>"

definition dvp_legs_for_netting ::
  "(string \<Rightarrow> RepoDocument option) \<Rightarrow> RepoResult \<Rightarrow> (repo_error, NovatedObligation list) result" where
  "dvp_legs_for_netting parse r =
     (if rr_status r \<noteq> ESTABLISHED \<or> rr_payload r = None then Inr []
      else case parse (the (rr_payload r)) of None \<Rightarrow> Inl Document_Unreadable
      | Some d \<Rightarrow>
          if rd_clearing_method d \<noteq> DVP then Inr []
          else if list_ex (\<lambda>l. rl_settlement_date l = None \<or> signed_money l = None) (legs d)
          then Inl Undated_Legs
          else case collect (map (leg_for_netting d) (legs d)) of
            Inl e \<Rightarrow> Inl (Leg_Invalid e) | Inr ns \<Rightarrow> Inr ns)"

end
