(* ===== verification/Clearing_Props.thy ===== *)
theory Clearing_Props
  imports Clearing_Repo
begin

text \<open>
  What clearing promises: access rests on evidence for every principal, a published result covers
  exactly the observed member's obligations, netting loses nothing and does not depend on order,
  and a repo's money and legs are what netting receives.
\<close>

subsection \<open>Access\<close>

lemma path_roles_iff:
  "path_roles a = Inr u \<longleftrightarrow>
     role (acting_party a) = acting_role (path a) \<and>
     (if path a = FICC_DIRECT then clearing_member a = acting_party a \<and> intermediary a = None
      else intermediary a = Some (clearing_member a) \<and>
        Some (role (clearing_member a)) = intermediary_role (path a))"
  by (cases "path a"; cases "intermediary a") (auto simp: path_roles_def)

lemma mk_AccessArrangement_iff:
  "mk_AccessArrangement a = Inr b \<longleftrightarrow>
     b = a \<and> authority_evidence a \<noteq> [] \<and> rule_set_version a \<noteq> [] \<and> processing_calendar_id a \<noteq> [] \<and>
     role (ficc a) = CENTRAL_COUNTERPARTY \<and> path_roles a = Inr () \<and>
     set (required_principals a) \<subseteq> principal_party_id ` set (authority_evidence a)"
  by (auto simp: mk_AccessArrangement_def Let_def filter_empty_conv split: sum.splits)

lemma access_ok_established:
  "access_ok d \<Longrightarrow> ad_status d \<noteq> Access_INDETERMINATE \<Longrightarrow> \<exists>a. arrangement d = Some a \<and> arrangement_ok a"
  by (cases "ad_status d") (auto simp: access_ok_def mk_AccessDetermination_def)

lemma arrangement_ok_member: "arrangement_ok a \<Longrightarrow> party_id (clearing_member a) \<noteq> []"
  by (auto simp: arrangement_ok_def mk_PartyRef_def)

subsection \<open>Netting\<close>

definition members_of :: "NovatedObligation list \<Rightarrow> position_key \<Rightarrow> NovatedObligation list" where
  "members_of obs k = filter (\<lambda>n. position_of n = k) obs"

definition net_record :: "NovatedObligation list \<Rightarrow> position_key \<Rightarrow> NetSettlementObligation" where
  "net_record obs k =
     \<lparr>ns_member_id = fst k, ns_cusip = fst (snd k), ns_settlement_date = snd (snd k),
      net_quantity = dsum_from 28 0 (map signed_quantity (members_of obs k)),
      net_settlement_amount = dsum_from 28 0 (map signed_settlement_amount (members_of obs k)),
      ns_currency = settlement_currency (hd (members_of obs k)),
      source_obligation_ids = sort (map obligation_id (members_of obs k)),
      source_trade_ids = sort (concat (map trade_ids (members_of obs k)))\<rparr>"

definition valid_obligations :: "NovatedObligation list \<Rightarrow> bool" where
  "valid_obligations obs \<longleftrightarrow> (\<forall>n \<in> set obs. mk_NovatedObligation n = Inr n)"

lemma valid_obligation:
  "mk_NovatedObligation n = Inr n \<Longrightarrow>
     trade_ids n \<noteq> [] \<and> currency_pattern (settlement_currency n) \<and> member_id n \<noteq> [] \<and> novation_evidence_id n \<noteq> []"
  by (simp add: mk_NovatedObligation_def)

lemma sort_Nil_iff [simp]: "sort xs = [] \<longleftrightarrow> xs = []"
  by (metis set_empty set_sort)

lemma net_position_valid:
  assumes "valid_obligations obs" and "k \<in> position_of ` set obs"
  shows "net_position obs k = Inr (net_record obs k)"
proof -
  obtain n ns where ns: "members_of obs k = n # ns"
    using assms(2) by (cases "members_of obs k") (auto simp: members_of_def filter_empty_conv)
  then have "n \<in> set (members_of obs k)" by simp
  then have "n \<in> set obs" by (simp add: members_of_def)
  then have "mk_NovatedObligation n = Inr n" using assms(1) by (auto simp: valid_obligations_def)
  note valid_obligation [OF this]
  then show ?thesis
    by (simp add: net_position_def net_record_def mk_NetSettlementObligation_def Let_def ns flip: members_of_def)
qed

lemma net_valid:
  "valid_obligations obs \<Longrightarrow> net obs = Inr (map (net_record obs) (sorted_set (map position_of obs)))"
  unfolding net_def by (rule collect_map) (simp add: net_position_valid)

definition net_key :: "NetSettlementObligation \<Rightarrow> position_key" where
  "net_key n = (ns_member_id n, ns_cusip n, ns_settlement_date n)"

lemma net_key_record [simp]: "net_key (net_record obs k) = k"
  by (simp add: net_key_def net_record_def)

lemma members_partition:
  fixes g :: "NovatedObligation \<Rightarrow> 'b :: comm_monoid_add"
  shows "(\<Sum>k\<leftarrow>sorted_set (map position_of obs). \<Sum>n\<leftarrow>members_of obs k. g n) = (\<Sum>n\<leftarrow>obs. g n)"
  unfolding members_of_def by (rule sum_list_by_distinct_keys) simp_all

lemma mset_concat_map: "mset (concat (map f xs)) = (\<Sum>x\<leftarrow>xs. mset (f x))"
  by (induction xs) simp_all

lemma mset_map_sum: "mset (map f xs) = (\<Sum>x\<leftarrow>xs. {#f x#})"
  by (induction xs) simp_all

definition exact_obligations :: "int \<Rightarrow> NovatedObligation list \<Rightarrow> bool" where
  "exact_obligations k obs \<longleftrightarrow>
     (\<forall>n \<in> set obs. on_grid k (signed_quantity n) \<and> on_grid k (signed_settlement_amount n)) \<and>
     (\<Sum>n\<leftarrow>obs. \<bar>signed_quantity n\<bar>) \<le> 10 powi (k + 28) \<and>
     (\<Sum>n\<leftarrow>obs. \<bar>signed_settlement_amount n\<bar>) \<le> 10 powi (k + 28)"

lemma net_record_exact:
  assumes "exact_obligations g obs"
  shows "net_quantity (net_record obs k) = (\<Sum>n\<leftarrow>members_of obs k. signed_quantity n)"
    and "net_settlement_amount (net_record obs k) = (\<Sum>n\<leftarrow>members_of obs k. signed_settlement_amount n)"
  using assms
  by (simp_all add: net_record_def members_of_def exact_obligations_def dsum_filter_exact [of _ g])

lemma exact_obligations_perm: "mset obs = mset obs' \<Longrightarrow> exact_obligations k obs = exact_obligations k obs'"
proof -
  assume m: "mset obs = mset obs'"
  then have "(\<Sum>n\<leftarrow>obs. \<bar>signed_quantity n\<bar>) = (\<Sum>n\<leftarrow>obs'. \<bar>signed_quantity n\<bar>)"
    "(\<Sum>n\<leftarrow>obs. \<bar>signed_settlement_amount n\<bar>) = (\<Sum>n\<leftarrow>obs'. \<bar>signed_settlement_amount n\<bar>)"
    by (rule sum_map_mset_cong)+
  with set_mset_cong [OF m] show ?thesis by (simp add: exact_obligations_def)
qed

lemma members_mset: "mset obs = mset obs' \<Longrightarrow> mset (members_of obs k) = mset (members_of obs' k)"
  by (simp add: members_of_def)

lemma one_currency:
  assumes "\<not> mixed_currencies obs" and "n \<in> set (members_of obs k)" and "n' \<in> set (members_of obs k)"
  shows "settlement_currency n = settlement_currency n'"
proof -
  have "k \<in> set (remdups (map position_of obs))" using assms(2) by (auto simp: members_of_def)
  then have "length (remdups (map settlement_currency (members_of obs k))) = 1"
    using assms(1) by (auto simp: mixed_currencies_def list_ex_iff members_of_def)
  then obtain c where "remdups (map settlement_currency (members_of obs k)) = [c]"
    by (auto simp: length_Suc_conv)
  then have "set (map settlement_currency (members_of obs k)) = {c}" by (metis list.set set_remdups)
  with assms(2,3) have "settlement_currency n \<in> {c}" "settlement_currency n' \<in> {c}" by fastforce+
  then show ?thesis by simp
qed

lemma net_record_perm:
  assumes "exact_obligations g obs" and "mset obs = mset obs'" and "\<not> mixed_currencies obs"
    and "k \<in> position_of ` set obs"
  shows "net_record obs k = net_record obs' k"
proof -
  note m = members_mset [OF assms(2), of k]
  have e': "exact_obligations g obs'" using assms(1) exact_obligations_perm [OF assms(2)] by simp
  have "net_quantity (net_record obs k) = net_quantity (net_record obs' k)"
    "net_settlement_amount (net_record obs k) = net_settlement_amount (net_record obs' k)"
    unfolding net_record_exact [OF assms(1)] net_record_exact [OF e'] using m by (rule sum_map_mset_cong)+
  moreover have "mset (map obligation_id (members_of obs k)) = mset (map obligation_id (members_of obs' k))"
    "mset (concat (map trade_ids (members_of obs k))) = mset (concat (map trade_ids (members_of obs' k)))"
    using m unfolding mset_concat_map by (simp, rule sum_map_mset_cong)
  then have "sort (map obligation_id (members_of obs k)) = sort (map obligation_id (members_of obs' k))"
    "sort (concat (map trade_ids (members_of obs k))) = sort (concat (map trade_ids (members_of obs' k)))"
    by (simp_all add: properties_for_sort)
  moreover have "settlement_currency (hd (members_of obs k)) = settlement_currency (hd (members_of obs' k))"
  proof (rule one_currency [OF assms(3), of _ k])
    have ne: "members_of obs k \<noteq> []" using assms(4) by (auto simp: members_of_def filter_empty_conv)
    then show "hd (members_of obs k) \<in> set (members_of obs k)" by simp
    have "members_of obs' k \<noteq> []" using ne m by (metis mset_zero_iff)
    then show "hd (members_of obs' k) \<in> set (members_of obs k)" using m by (metis hd_in_set mset_eq_setD)
  qed
  ultimately show ?thesis by (simp add: net_record_def)
qed

subsection \<open>The published document\<close>

definition request_valid :: "FiccGsdNettingRequest \<Rightarrow> bool" where
  "request_valid r \<longleftrightarrow>
     mk_FiccGsdNettingRequest r = Inr r \<and> valid_obligations (obligations r) \<and> access_ok (access r)"

definition empty_evidence :: "FiccGsdNettingRequest \<Rightarrow> bool" where
  "empty_evidence r \<longleftrightarrow>
     settlement_instruction_evidence_id r = Some [] \<or> settlement_finality_evidence_id r = Some []"

definition publishable :: "FiccGsdNettingRequest \<Rightarrow> bool" where
  "publishable r \<longleftrightarrow> clearing_agency r = FICC_GSD \<and>
     (\<exists>a. ad_status (access r) = Access_ESTABLISHED \<and> arrangement (access r) = Some a \<and>
        (\<forall>n \<in> set (obligations r). member_id n = party_id (clearing_member a))) \<and>
     \<not> mixed_currencies (obligations r)"

definition fact_record :: "EvidenceStage \<Rightarrow> string option \<Rightarrow> string \<Rightarrow> EvidenceFact" where
  "fact_record stage ev absent =
     \<lparr>ef_stage = stage, ef_status = (if ev = None then NOT_RECORDED else RECORDED), evidence_id = ev,
      ef_reason = (if ev = None then Some absent else None)\<rparr>"

lemma evidence_fact_eq:
  "absent \<noteq> [] \<Longrightarrow> evidence_fact stage ev absent =
     (if ev = Some [] then Inl Recorded_Without_Evidence else Inr (fact_record stage ev absent))"
  by (cases ev) (auto simp: evidence_fact_def fact_record_def mk_EvidenceFact_def)

lemma comma_join_Nil: "comma_join ss = [] \<longleftrightarrow> ss = [] \<or> ss = [[]]"
  by (cases ss rule: comma_join.cases) auto

lemma novation_ids_join:
  "valid_obligations obs \<Longrightarrow> obs \<noteq> [] \<Longrightarrow> comma_join (sorted_set (map novation_evidence_id obs)) \<noteq> []"
proof
  assume v: "valid_obligations obs" "obs \<noteq> []" and "comma_join (sorted_set (map novation_evidence_id obs)) = []"
  then have "sorted_set (map novation_evidence_id obs) = [[]]" by (simp add: comma_join_Nil)
  then have "set (sorted_set (map novation_evidence_id obs)) = {[]}" by simp
  then have "[] \<in> novation_evidence_id ` set obs" by simp
  with v(1) show False using valid_obligation by (fastforce simp: valid_obligations_def)
qed

definition facts_of :: "FiccGsdNettingRequest \<Rightarrow> EvidenceFact list" where
  "facts_of r =
     [fact_record CLEARING_ACCEPTANCE (Some (clearing_acceptance_evidence_id r)) ''clearing acceptance was not recorded'',
      fact_record NOVATION (Some (comma_join (sorted_set (map novation_evidence_id (obligations r)))))
        ''novation was not recorded'',
      fact_record NETTING (Some (netting_evidence_id r)) ''netting was not recorded'',
      fact_record SETTLEMENT_INSTRUCTION (settlement_instruction_evidence_id r)
        ''settlement instruction was not recorded'',
      fact_record SETTLEMENT_FINALITY (settlement_finality_evidence_id r)
        ''settlement finality was not recorded'']"

lemma request_facts_eq:
  assumes "request_valid r"
  shows "request_facts r = (if empty_evidence r then Inl Recorded_Without_Evidence else Inr (facts_of r))"
proof -
  have "clearing_acceptance_evidence_id r \<noteq> []" "netting_evidence_id r \<noteq> []"
    "comma_join (sorted_set (map novation_evidence_id (obligations r))) \<noteq> []"
    using assms novation_ids_join [of "obligations r"]
    by (auto simp: request_valid_def mk_FiccGsdNettingRequest_def)
  then show ?thesis by (simp add: request_facts_def evidence_fact_eq empty_evidence_def facts_of_def)
qed

definition document_of :: "FiccGsdNettingRequest \<Rightarrow> AccessArrangement \<Rightarrow> FiccGsdNettingDocument" where
  "document_of r a =
     \<lparr>fd_schema_version = ''atreides.ficc_gsd_netting/2'', fd_clearing_agency = clearing_agency r,
      fd_clearing_method = ''FICC_GSD_NOVATED_NETTED'', fd_observation_seat = ''FICC_MEMBER'',
      fd_observed_member_id = party_id (clearing_member a), fd_access_path = path_value (path a),
      fd_rule_set_version = rule_set_version a, fd_processing_calendar_id = processing_calendar_id a,
      facts = facts_of r, novated_obligations = obligations r,
      net_settlement_obligations =
        map (net_record (obligations r)) (sorted_set (map position_of (obligations r)))\<rparr>"

lemma netting_document_eq:
  assumes "request_valid r" and "arrangement (access r) = Some a"
  shows "netting_document r a = (if empty_evidence r then Inl Recorded_Without_Evidence else Inr (document_of r a))"
proof -
  have "valid_obligations (obligations r)" "arrangement_ok a"
    using assms by (auto simp: request_valid_def access_ok_def)
  note net_valid [OF this(1)] arrangement_ok_member [OF this(2)]
  then show ?thesis
    by (simp add: netting_document_def request_facts_eq [OF assms(1)] mk_FiccGsdNettingDocument_def
        document_of_def facts_of_def)
qed

definition established_result ::
  "(FiccGsdNettingDocument \<Rightarrow> string) \<Rightarrow> (string \<Rightarrow> string) \<Rightarrow> FiccGsdNettingDocument \<Rightarrow> FiccGsdResult" where
  "established_result canonical digest d =
     \<lparr>fr_status = ESTABLISHED, fr_reason = None,
      fr_header = Some \<lparr>fh_schema_version = ''atreides.ficc_gsd_netting_header/2'',
        payload_digest = digest (canonical d), fh_clearing_agency = fd_clearing_agency d,
        fh_clearing_method = ''FICC_GSD_NOVATED_NETTED''\<rparr>,
      fr_payload = Some (canonical d)\<rparr>"

lemma indeterminate_result_status: "indeterminate_result why = Inr res \<Longrightarrow> fr_status res = CS_INDETERMINATE"
  and indeterminate_result_ok: "indeterminate_result why \<noteq> Inl e"
  by (auto simp: indeterminate_result_def mk_FiccGsdResult_def)

lemma produce_publishable:
  assumes "request_valid r" and "publishable r"
  shows "\<exists>a. arrangement (access r) = Some a \<and> produce_ficc_gsd_result canonical digest r =
    (if empty_evidence r then Inl Recorded_Without_Evidence
     else Inr (established_result canonical digest (document_of r a)))"
proof -
  obtain a where a: "arrangement (access r) = Some a" "ad_status (access r) = Access_ESTABLISHED"
    "\<forall>n \<in> set (obligations r). member_id n = party_id (clearing_member a)"
    using assms(2) by (auto simp: publishable_def)
  have "obligations r \<noteq> []" using assms(1) by (simp add: request_valid_def mk_FiccGsdNettingRequest_def)
  with a(3) have "member_id ` set (obligations r) = {party_id (clearing_member a)}"
    by (cases "obligations r") auto
  with a assms(2) show ?thesis
    by (simp add: produce_ficc_gsd_result_def netting_document_eq [OF assms(1) a(1)] publishable_def
        mk_FiccGsdResult_def established_result_def document_of_def Let_def)
qed

lemma produce_unpublishable:
  assumes "\<not> publishable r"
  shows "\<exists>why. produce_ficc_gsd_result canonical digest r = indeterminate_result why"
proof (rule ccontr)
  assume "\<not> ?thesis"
  then have n: "produce_ficc_gsd_result canonical digest r \<noteq> indeterminate_result why" for why by blast
  have agency: "clearing_agency r \<noteq> CME_SECURITIES_CLEARING"
    using n [of Agency_Not_Built] by (auto simp: produce_ficc_gsd_result_def)
  with n [of "Access_Unestablished (ad_reason (access r))"] have status: "ad_status (access r) \<noteq> Access_INDETERMINATE"
    by (auto simp: produce_ficc_gsd_result_def)
  with n [of Access_Absent] agency obtain a where a: "arrangement (access r) = Some a"
    by (auto simp: produce_ficc_gsd_result_def split: option.splits)
  have seat: "set (map member_id (obligations r)) = {party_id (clearing_member a)}"
    using n [of "Not_The_Member_Seat (party_id (clearing_member a)) (sorted_set (map member_id (obligations r)))"]
      agency status by (simp add: produce_ficc_gsd_result_def a Let_def split: if_splits)
  have "\<not> mixed_currencies (obligations r)"
    using n [of Mixed_Currencies] agency status seat
    by (simp add: produce_ficc_gsd_result_def a Let_def split: if_splits)
  with agency status a seat assms show False
    by (cases "clearing_agency r"; cases "ad_status (access r)") (auto simp: publishable_def)
qed

subsection \<open>Repo money\<close>

lemma half_up_bounds: "0 \<le> x \<Longrightarrow> x - 1 / 2 < of_int (half_up x) \<and> of_int (half_up x) \<le> x + 1 / 2"
  unfolding half_up_def by (simp, linarith)

lemma half_up_mono: "0 \<le> x \<Longrightarrow> x \<le> y \<Longrightarrow> half_up x \<le> half_up y"
  by (simp add: half_up_def floor_mono)

lemma half_up_of_int [simp]: "half_up (of_int n) = n"
  by (simp add: half_up_def) linarith

lemma accrued_money_bounds:
  assumes "repo_fields t = Inr u" and "start_date t \<le> close"
  shows "rnd28 (start_money t) \<le> accrued_money t close" and "0 < accrued_money t close"
proof -
  have p: "0 < start_money t" "0 \<le> repo_rate_percent t" "0 < day_count_basis t"
    using assms(1) by (simp_all add: repo_fields_def)
  have "0 \<le> rnd28 (rnd28 (rnd28 (rnd28 (start_money t * repo_rate_percent t) / 100) * of_int (close - start_date t))
      / of_int (day_count_basis t))"
    using p assms(2) by (intro dround_nonneg divide_nonneg_nonneg mult_nonneg_nonneg) simp_all
  then show "rnd28 (start_money t) \<le> accrued_money t close"
    unfolding accrued_money_def by (intro dround_mono) simp_all
  then show "0 < accrued_money t close" by (rule less_le_trans [rotated]) (simp add: dround_pos p(1))
qed

lemma p10_cent: "(10 :: rat) powi (- 2) = 1 / 100"
  by (simp add: power_int_def power2_eq_square)

definition cents :: "rat \<Rightarrow> bool" where
  "cents x \<longleftrightarrow> on_grid (- 2) x"

lemma quantize_cent_spec:
  assumes "quantize_cent x = Inr m" and "0 \<le> x"
  shows "cents m \<and> x - 1 / 200 < m \<and> m \<le> x + 1 / 200"
proof -
  have m: "m = of_int (half_up (x * 100)) / 100" using assms(1) by (simp add: quantize_cent_def)
  have "cents m" unfolding cents_def m by (rule on_gridI [of _ "half_up (x * 100)"]) (simp add: p10_cent)
  moreover have "x - 1 / 200 < m \<and> m \<le> x + 1 / 200"
    using half_up_bounds [of "x * 100"] assms(2) by (simp add: m field_simps)
  ultimately show ?thesis by simp
qed

lemma quantize_cent_ge:
  assumes "quantize_cent x = Inr m" and "cents y" and "0 \<le> y" and "y \<le> x"
  shows "y \<le> m"
proof -
  obtain n where y: "y = of_int n * 10 powi (- 2)" using assms(2) by (auto simp: cents_def on_grid_def)
  then have n: "y * 100 = of_int n" by (simp add: p10_cent)
  have "half_up (y * 100) \<le> half_up (x * 100)" using assms(3,4) by (intro half_up_mono) simp_all
  then have "n \<le> half_up (x * 100)" by (simp only: n half_up_of_int)
  then have "of_int n \<le> (of_int (half_up (x * 100)) :: rat)" by (simp only: of_int_le_iff)
  then show ?thesis using assms(1) n by (simp add: quantize_cent_def field_simps)
qed

subsection \<open>Repo legs\<close>

lemma leg_facts_total: "prefix \<noteq> [] \<Longrightarrow> \<exists>fs. leg_facts prefix finality = Inr fs \<and> map ef_stage fs = EVIDENCE_STAGES"
  by (cases finality) (simp_all add: leg_facts_def EVIDENCE_STAGES_def leg_fact_def mk_EvidenceFact_def Let_def)

lemma repo_leg_total:
  "\<exists>fs. map ef_stage fs = EVIDENCE_STAGES \<and> repo_leg t l d par m un settled = Inr
     \<lparr>rl_obligation_id = rt_trade_id t @ '':'' @ leg_value l, rl_trade_id = rt_trade_id t, leg = l,
      rl_settlement_date = Some d, signed_par = par, signed_money = Some m, unrounded_signed_money = Some un,
      rl_currency = rt_currency t, rl_cusip = rt_cusip t, rl_collateral_class = collateral_class t,
      settlement_path = (if service t = DVP then ''DVP_NETTING'' else ''GCF_TRIPARTY''), rl_facts = fs\<rparr>"
  using leg_facts_total [of "rt_trade_id t @ '':'' @ leg_value l" settled]
  by (auto simp: repo_leg_def Let_def)

definition novated_leg :: "RepoTrade \<Rightarrow> RepoLeg \<Rightarrow> int \<Rightarrow> rat \<Rightarrow> rat \<Rightarrow> NovatedObligation" where
  "novated_leg t l d par m =
     \<lparr>obligation_id = rt_trade_id t @ '':'' @ leg_value l, trade_ids = [rt_trade_id t],
      member_id = rt_member_id t, cusip = the (rt_cusip t), settlement_date = d, signed_quantity = par,
      signed_settlement_amount = m, settlement_currency = rt_currency t,
      novation_evidence_id = (rt_trade_id t @ '':'' @ leg_value l) @ '':NOVATION''\<rparr>"

lemma rounded_product_sign: "0 < x \<Longrightarrow> y < 0 \<Longrightarrow> \<not> rnd28 (x * y) > 0" "x < 0 \<Longrightarrow> 0 < y \<Longrightarrow> \<not> rnd28 (x * y) > 0"
proof -
  have "\<not> rnd28 z > 0" if "z < 0" for z
    using dround_pos [of "- z" 28] that by (simp add: dround_minus)
  then show "0 < x \<Longrightarrow> y < 0 \<Longrightarrow> \<not> rnd28 (x * y) > 0" "x < 0 \<Longrightarrow> 0 < y \<Longrightarrow> \<not> rnd28 (x * y) > 0"
    by (simp_all add: not_less mult_le_0_iff)
qed

lemma mk_RepoTrade_fields:
  assumes "mk_RepoTrade cal t = Inr t"
  shows "repo_fields t = Inr ()" and "repo_term cal t = Inr ()"
    and "service t = DVP \<Longrightarrow> \<exists>c. rt_cusip t = Some c \<and> cusip_pattern c"
    and "close_date t = Some c \<Longrightarrow> start_date t < c"
proof -
  show f: "repo_fields t = Inr ()" and r: "repo_term cal t = Inr ()"
    using assms by (auto simp: mk_RepoTrade_def split: sum.splits)
  show "service t = DVP \<Longrightarrow> \<exists>c. rt_cusip t = Some c \<and> cusip_pattern c"
    using assms f by (auto simp: mk_RepoTrade_def repo_fields_def split: sum.splits)
  show "close_date t = Some c \<Longrightarrow> start_date t < c"
    using r by (cases "rt_term t") (auto simp: repo_term_def split: sum.splits)
qed

lemma leg_for_netting_valid:
  assumes "repo_fields t = Inr ()" and "rt_cusip t = Some c" and "cusip_pattern c"
    and "(0 < par \<and> m < 0) \<or> (par < 0 \<and> 0 < m)"
    and "rl_obligation_id l = rt_trade_id t @ '':'' @ leg_value (leg l)" and "rl_trade_id l = rt_trade_id t"
    and "rl_settlement_date l = Some d" and "signed_par l = par" and "signed_money l = Some m"
    and "rl_currency l = rt_currency t" and "rl_cusip l = rt_cusip t"
    and "rd_observed_member_id doc = rt_member_id t"
  shows "leg_for_netting doc l = Inr (novated_leg t (leg l) d par m)"
  using assms rounded_product_sign [of par m]
  by (auto simp: leg_for_netting_def novated_leg_def mk_NovatedObligation_def repo_fields_def)

definition whole_cents :: "RepoTrade \<Rightarrow> bool" where
  "whole_cents t \<longleftrightarrow> cents (start_money t) \<and> start_money t \<le> 10 ^ 26"

lemma whole_cents_exact:
  assumes "mk_RepoTrade cal t = Inr t" and "whole_cents t"
  shows "rnd28 (start_money t) = start_money t"
proof -
  have "0 < start_money t" using mk_RepoTrade_fields(1) [OF assms(1)] by (simp add: repo_fields_def)
  then have "\<bar>start_money t\<bar> \<le> 10 powi (- 2 + int 28)" using assms(2) by (simp add: whole_cents_def)
  then show ?thesis
    using assms(2) dround_on_grid [of "- 2" "start_money t" 28] by (simp add: whole_cents_def cents_def)
qed

lemma close_money_spec:
  assumes "mk_RepoTrade cal t = Inr t" and "close_date t = Some c" and "close_money t = Inr (Some m)"
  shows "cents m \<and> accrued_money t c - 1 / 200 < m \<and> m \<le> accrued_money t c + 1 / 200 \<and>
    rnd28 (start_money t) \<le> accrued_money t c \<and> (whole_cents t \<longrightarrow> start_money t \<le> m)"
proof -
  note f = mk_RepoTrade_fields [OF assms(1)]
  have p: "0 < start_money t" using f(1) by (simp add: repo_fields_def)
  have le: "rnd28 (start_money t) \<le> accrued_money t c" and pos: "0 < accrued_money t c"
    using accrued_money_bounds [OF f(1), of c] f(4) [OF assms(2)] by simp_all
  have q: "quantize_cent (accrued_money t c) = Inr m"
    using assms(2,3) by (simp add: close_money_def split: sum.splits)
  have "start_money t \<le> m" if "whole_cents t"
    using quantize_cent_ge [OF q, of "start_money t"] whole_cents_exact [OF assms(1) that] that le p
    by (simp add: whole_cents_def)
  then show ?thesis using quantize_cent_spec [OF q] le pos by simp
qed

definition arrangement_evidenced :: "AccessArrangement \<Rightarrow> bool" where
  "arrangement_evidenced a \<longleftrightarrow> role (ficc a) = CENTRAL_COUNTERPARTY \<and> role (acting_party a) = acting_role (path a) \<and>
    (if path a = FICC_DIRECT then clearing_member a = acting_party a \<and> intermediary a = None
     else intermediary a = Some (clearing_member a) \<and>
       Some (role (clearing_member a)) = intermediary_role (path a)) \<and>
    {party_id (acting_party a), party_id (clearing_member a)} \<subseteq>
      principal_party_id ` set (authority_evidence a)"

lemma arrangement_rests_on_evidence:
  assumes "mk_AccessArrangement a = Inr b"
  shows "arrangement_evidenced a"
proof -
  have "path_roles a = Inr ()" and
    s: "set (required_principals a) \<subseteq> principal_party_id ` set (authority_evidence a)" and rest: "b = a" "role (ficc a) = CENTRAL_COUNTERPARTY"
    using assms by (simp_all add: mk_AccessArrangement_iff)
  note roles = this(1) [unfolded path_roles_iff]
  have "set (required_principals a) = {party_id (acting_party a), party_id (clearing_member a)}"
    using roles by (cases "path a") (auto simp: required_principals_def)
  with s rest roles show ?thesis by (simp add: arrangement_evidenced_def)
qed

subsection \<open>What clearing promises\<close>

text \<open>
  C24: Access rests on evidence. A determination is constructible as established only with an
  arrangement and without a reason, and as indeterminate only with a reason and without an arrangement;
  and the arrangement of a determination all of whose parts were constructed is accepted only with FICC as the central
  counterparty, the acting party in the role its path names, and, off the direct path, an
  intermediary in the role of that path that is the relied-on clearing member; and there is authority
  evidence for the acting party and for the clearing member.\<close>

theorem access_rests_on_evidence:
  assumes "access_ok d"
  shows "(ad_status d = Access_INDETERMINATE \<longrightarrow> arrangement d = None \<and> ad_reason d \<notin> {None, Some []}) \<and>
    (ad_status d = Access_ESTABLISHED \<longrightarrow> ad_reason d = None \<and> (\<exists>a. arrangement d = Some a \<and>
      role (ficc a) = CENTRAL_COUNTERPARTY \<and> role (acting_party a) = acting_role (path a) \<and>
      (if path a = FICC_DIRECT then clearing_member a = acting_party a \<and> intermediary a = None
       else intermediary a = Some (clearing_member a) \<and>
         Some (role (clearing_member a)) = intermediary_role (path a)) \<and>
      {party_id (acting_party a), party_id (clearing_member a)} \<subseteq>
        principal_party_id ` set (authority_evidence a)))"
proof -
  have d: "mk_AccessDetermination d = Inr d" using assms by (simp add: access_ok_def)
  have "\<exists>a. arrangement d = Some a \<and> arrangement_evidenced a" if "ad_status d = Access_ESTABLISHED"
    using d that assms arrangement_rests_on_evidence by (auto simp: mk_AccessDetermination_def access_ok_def arrangement_ok_def)
  with d show ?thesis
    by (cases "ad_status d"; cases "ad_reason d") (auto simp: mk_AccessDetermination_def arrangement_evidenced_def)
qed

text \<open>
  When a netting request raises. For a valid request the only error is the record of a piece
  of evidence given as an empty text: it is raised exactly when the request is publishable (declared
  for FICC, access established, every obligation the observed member's, one currency per position)
  and the instruction or the finality evidence is present but empty, which the request's own
  validator lets through.\<close>

theorem netting_raises_only_for_empty_evidence:
  assumes "request_valid r"
  shows "produce_ficc_gsd_result canonical digest r = Inl e \<longleftrightarrow>
    publishable r \<and> empty_evidence r \<and> e = Recorded_Without_Evidence"
proof (cases "publishable r")
  case True
  then show ?thesis using produce_publishable [OF assms True, of canonical digest]
    by (cases "empty_evidence r") auto
next
  case False
  then obtain why where "produce_ficc_gsd_result canonical digest r = indeterminate_result why"
    using produce_unpublishable by blast
  with False show ?thesis by (simp add: indeterminate_result_ok)
qed

text \<open>
  What is published is the netting of exactly the observed member's obligations. A result is
  established exactly when the request is publishable; its payload is then the canonical bytes of a
  document that holds the request's obligations and their netting, under the digest of those very
  bytes, with the five facts in their order, and settlement finality is recorded only where a
  settlement instruction is.\<close>

theorem published_result_is_the_netting:
  assumes "request_valid r" and "produce_ficc_gsd_result canonical digest r = Inr res"
  shows "(fr_status res = ESTABLISHED \<longleftrightarrow> publishable r) \<and>
    (fr_status res = ESTABLISHED \<longrightarrow>
      (\<exists>d h. fr_payload res = Some (canonical d) \<and> fr_header res = Some h \<and>
         payload_digest h = digest (canonical d) \<and> novated_obligations d = obligations r \<and>
         net (obligations r) = Inr (net_settlement_obligations d) \<and>
         map ef_stage (facts d) = EVIDENCE_STAGES \<and>
         (ef_status (facts d ! 4) = RECORDED \<longrightarrow> ef_status (facts d ! 3) = RECORDED)))"
proof (cases "publishable r")
  case True
  obtain a where a: "arrangement (access r) = Some a"
    "res = established_result canonical digest (document_of r a)" and n: "\<not> empty_evidence r"
    using produce_publishable [OF assms(1) True, of canonical digest] assms(2) by (auto split: if_splits)
  have "valid_obligations (obligations r)" using assms(1) by (simp add: request_valid_def)
  note net_valid [OF this]
  moreover have "settlement_finality_evidence_id r \<noteq> None \<longrightarrow> settlement_instruction_evidence_id r \<noteq> None"
    using assms(1) n by (auto simp: request_valid_def mk_FiccGsdNettingRequest_def empty_evidence_def truthy_iff)
  ultimately have d: "novated_obligations (document_of r a) = obligations r"
    "net (obligations r) = Inr (net_settlement_obligations (document_of r a))"
    "map ef_stage (facts (document_of r a)) = EVIDENCE_STAGES"
    "ef_status (facts (document_of r a) ! 4) = RECORDED \<longrightarrow> ef_status (facts (document_of r a) ! 3) = RECORDED"
    by (simp_all add: document_of_def facts_of_def fact_record_def EVIDENCE_STAGES_def)
  have "fr_payload res = Some (canonical (document_of r a))" "fr_status res = ESTABLISHED"
    "\<exists>h. fr_header res = Some h \<and> payload_digest h = digest (canonical (document_of r a))"
    by (simp_all add: a(2) established_result_def)
  with True d show ?thesis by blast
next
  case False
  then show ?thesis
    using produce_unpublishable [of r canonical digest] assms(2) indeterminate_result_status by fastforce
qed

text \<open>
  Netting loses nothing. Netting valid obligations succeeds, gives one net obligation per
  member, security and settlement date, in order, and accounts for every obligation and every trade
  exactly once. Where the quantities and amounts are exact in the decimal context, the net quantities
  add up to all the obligations' quantities, and the net amounts to all their amounts.\<close>

theorem netting_partitions_the_obligations:
  assumes "valid_obligations obs"
  shows "\<exists>ns. net obs = Inr ns \<and> map net_key ns = sorted_set (map position_of obs) \<and>
    mset (concat (map source_obligation_ids ns)) = mset (map obligation_id obs) \<and>
    mset (concat (map source_trade_ids ns)) = mset (concat (map trade_ids obs)) \<and>
    (exact_obligations g obs \<longrightarrow>
       (\<Sum>n\<leftarrow>ns. net_quantity n) = (\<Sum>n\<leftarrow>obs. signed_quantity n) \<and>
       (\<Sum>n\<leftarrow>ns. net_settlement_amount n) = (\<Sum>n\<leftarrow>obs. signed_settlement_amount n))"
proof -
  let ?ks = "sorted_set (map position_of obs)" and ?ns = "map (net_record obs) (sorted_set (map position_of obs))"
  have k: "map net_key ?ns = ?ks" by (simp add: o_def)
  have o: "mset (concat (map source_obligation_ids ?ns)) = mset (map obligation_id obs)"
    using members_partition [of "\<lambda>n. {#obligation_id n#}" obs]
    by (simp add: mset_concat_map o_def net_record_def mset_map_sum)
  have t: "mset (concat (map source_trade_ids ?ns)) = mset (concat (map trade_ids obs))"
    using members_partition [of "\<lambda>n. mset (trade_ids n)" obs]
    by (simp add: mset_concat_map o_def net_record_def)
  have s: "(\<Sum>n\<leftarrow>?ns. net_quantity n) = (\<Sum>n\<leftarrow>obs. signed_quantity n) \<and>
      (\<Sum>n\<leftarrow>?ns. net_settlement_amount n) = (\<Sum>n\<leftarrow>obs. signed_settlement_amount n)"
    if "exact_obligations g obs"
    using members_partition [of signed_quantity obs] members_partition [of signed_settlement_amount obs]
    by (simp add: o_def net_record_exact [OF that])
  show ?thesis using net_valid [OF assms] k o t s by blast
qed

text \<open>
  Netting does not depend on the order of the obligations: for valid obligations that are
  exact in the decimal context and use one currency per position, a permutation nets to the same
  list.\<close>

theorem netting_ignores_order:
  assumes "valid_obligations obs" and "exact_obligations g obs" and "\<not> mixed_currencies obs"
    and "mset obs = mset obs'"
  shows "net obs' = net obs"
proof -
  have s: "set obs = set obs'" using assms(4) by (rule set_mset_cong)
  then have "valid_obligations obs'" using assms(1) by (simp add: valid_obligations_def)
  note n = net_valid [OF this] net_valid [OF assms(1)]
  have ks: "sorted_set (map position_of obs') = sorted_set (map position_of obs)"
    by (rule sorted_set_cong) (simp add: s)
  have "map (net_record obs') (sorted_set (map position_of obs)) = map (net_record obs) (sorted_set (map position_of obs))"
    by (rule map_cong [OF refl]) (use net_record_perm [OF assms(2,4,3)] in simp)
  then show ?thesis by (simp add: n ks)
qed

text \<open>
  C25: What a repo pays back. For a valid trade the closing money that is computed is in whole cents,
  within half a cent of the interest formula, and no more than half a cent below the starting money as
  the context rounds it; and when the starting money is in whole cents, of at most twenty-eight digits,
  it is at least what was lent.\<close>

theorem repo_repays_what_was_lent:
  assumes "mk_RepoTrade cal t = Inr t" and "close_date t = Some c" and "close_money t = Inr (Some m)"
  shows "cents m \<and> \<bar>m - accrued_money t c\<bar> \<le> 1 / 200 \<and> rnd28 (start_money t) - 1 / 200 < m \<and>
    (whole_cents t \<longrightarrow> start_money t \<le> m)"
proof -
  note m = close_money_spec [OF assms]
  then have "\<bar>m - accrued_money t c\<bar> \<le> 1 / 200" "rnd28 (start_money t) - 1 / 200 < m" by linarith+
  with m show ?thesis by blast
qed

text \<open>
  C26: A cleared DVP repo whose starting money is in whole cents, of at most twenty-eight digits, reaches
  netting as the legs it was traded with. Its published result, read back, gives the start leg and, when
  the repo has a closing date, the close leg, each on its date, in the observed member's name, and never
  an undated leg or an invalid obligation; the money of the two legs leaves the non-negative interest, and
  their securities cancel when the context holds the par exactly (the close leg carries the rounded par).\<close>

theorem repo_reaches_netting:
  assumes "mk_RepoTrade cal t = Inr t" and "service t = DVP" and "whole_cents t"
    and "produce_repo_result canonical digest t acc agency settled = Inr res" and "rr_status res = ESTABLISHED"
    and "repo_document t (the (arrangement acc)) agency settled = Inr d" and "parse (canonical d) = Some d"
  shows "\<exists>ns m. dvp_legs_for_netting parse res = Inr ns \<and> close_money t = Inr m \<and>
    (case (close_date t, m) of
       (Some c, Some x) \<Rightarrow>
         ns = [novated_leg t START (start_date t) (collateral_par t) (- start_money t),
               novated_leg t CLOSE c (rnd28 (- collateral_par t)) x] \<and>
         (rnd28 (collateral_par t) = collateral_par t \<longrightarrow> (\<Sum>n\<leftarrow>ns. signed_quantity n) = 0) \<and>
         (\<Sum>n\<leftarrow>ns. signed_settlement_amount n) \<ge> 0
     | _ \<Rightarrow> ns = [novated_leg t START (start_date t) (collateral_par t) (- start_money t)] \<and> close_date t = None)"
proof -
  note f = mk_RepoTrade_fields [OF assms(1)]
  obtain cu where cu: "rt_cusip t = Some cu" "cusip_pattern cu" using f(3) assms(2) by auto
  have p: "0 < start_money t" "0 < collateral_par t" using f(1) by (simp_all add: repo_fields_def)
  have neg: "rnd28 (- start_money t) = - start_money t"
    using whole_cents_exact [OF assms(1,3)] by (simp add: dround_minus)
  have par: "rnd28 (- collateral_par t) < 0" using dround_pos [OF p(2), of 28] by (simp add: dround_minus)
  obtain m where m: "close_money t = Inr m" using assms(6) by (auto simp: repo_document_def split: sum.splits)
  obtain ls where ls: "repo_legs t settled m = Inr ls" using assms(6) m by (auto simp: repo_document_def split: sum.splits)
  have d: "rd_clearing_method d = DVP" "legs d = ls" "rd_observed_member_id d = party_id (clearing_member (the (arrangement acc)))"
    using assms(2,6) m ls by (auto simp: repo_document_def)
  have payload: "rr_payload res = Some (canonical d)" and seat: "rd_observed_member_id d = rt_member_id t"
    using assms(4-6) d(3) by (auto simp: produce_repo_result_def repo_indeterminate_def Let_def split: if_splits)
  obtain first where first: "repo_leg t START (start_date t) (collateral_par t) (- start_money t) (- start_money t)
      (START \<in> set settled) = Inr first"
    "leg_for_netting d first = Inr (novated_leg t START (start_date t) (collateral_par t) (- start_money t))"
    "rl_settlement_date first = Some (start_date t)" "signed_money first = Some (- start_money t)"
    using repo_leg_total [of t START "start_date t" "collateral_par t" "- start_money t" "- start_money t" "START \<in> set settled"]
      leg_for_netting_valid [OF f(1) cu, of "collateral_par t" "- start_money t"] p seat by fastforce
  show ?thesis
  proof (cases "close_date t")
    case None
    then have "m = None" using m by (simp add: close_money_def)
    then have "ls = [first]" using ls first(1) by (simp add: repo_legs_def neg)
    with None m d payload assms(5,7) first show ?thesis
      by (auto simp: dvp_legs_for_netting_def)
  next
    case (Some c)
    then obtain x where x: "m = Some x" using m by (auto simp: close_money_def split: sum.splits)
    have ge: "start_money t \<le> x" using close_money_spec [OF assms(1) Some] m x assms(3) by simp
    obtain second where second: "repo_leg t CLOSE c (rnd28 (- collateral_par t)) x (accrued_money t c) (CLOSE \<in> set settled) = Inr second"
      "leg_for_netting d second = Inr (novated_leg t CLOSE c (rnd28 (- collateral_par t)) x)"
      "rl_settlement_date second = Some c" "signed_money second = Some x"
      using repo_leg_total [of t CLOSE c "rnd28 (- collateral_par t)" x "accrued_money t c" "CLOSE \<in> set settled"]
        leg_for_netting_valid [OF f(1) cu, of "rnd28 (- collateral_par t)" x] p par ge seat by fastforce
    have "ls = [first, second]" using ls first(1) second(1) Some x by (simp add: repo_legs_def neg)
    with Some x m d payload assms(5,7) first second ge show ?thesis
      by (auto simp: dvp_legs_for_netting_def novated_leg_def dround_minus)
  qed
qed

subsection \<open>Witnesses\<close>

definition w_arrangement :: AccessArrangement where
  "w_arrangement =
     (let member = \<lparr>party_id = ''M'', role = DIRECT_NETTING_MEMBER\<rparr> in
      \<lparr>path = FICC_DIRECT, acting_party = member, clearing_member = member, intermediary = None,
       ficc = \<lparr>party_id = ''FICC'', role = CENTRAL_COUNTERPARTY\<rparr>,
       authority_evidence = [\<lparr>ae_evidence_id = ''A1'', principal_party_id = ''M'', authority_id = ''GSD'',
         ae_source = ''rulebook'', ae_digest = ''sha256:'' @ replicate 64 CHR ''0''\<rparr>],
       novation_evidence = \<lparr>event_name = ''novation'', rule_reference = ''R'', ne_evidence_id = ''N''\<rparr>,
       rule_set_version = ''2026'', processing_calendar_id = ''sifma''\<rparr>)"

definition w_access :: AccessDetermination where
  "w_access = \<lparr>ad_status = Access_ESTABLISHED, arrangement = Some w_arrangement, ad_reason = None\<rparr>"

definition w_obligation :: "string \<Rightarrow> rat \<Rightarrow> NovatedObligation" where
  "w_obligation i q = \<lparr>obligation_id = i, trade_ids = [i], member_id = ''M'', cusip = ''91282CAA0'',
     settlement_date = 739797, signed_quantity = q, signed_settlement_amount = - q,
     settlement_currency = ''USD'', novation_evidence_id = ''N''\<rparr>"

definition w_obligations :: "NovatedObligation list" where
  "w_obligations = [w_obligation ''O1'' 100, w_obligation ''O2'' (- 40)]"

definition w_request :: "string option \<Rightarrow> FiccGsdNettingRequest" where
  "w_request finality = \<lparr>clearing_agency = FICC_GSD, access = w_access, obligations = w_obligations,
     clearing_acceptance_evidence_id = ''CA'', netting_evidence_id = ''NE'',
     settlement_instruction_evidence_id = Some ''SI'', settlement_finality_evidence_id = finality\<rparr>"

lemma w_arrangement_ok: "mk_AccessArrangement w_arrangement = Inr w_arrangement" "access_ok w_access"
proof -
  show m: "mk_AccessArrangement w_arrangement = Inr w_arrangement"
    by (simp add: mk_AccessArrangement_iff path_roles_iff required_principals_def w_arrangement_def Let_def)
  have "list_all (\<lambda>c. digit_char c \<or> c \<in> set ''abcdef'') (replicate 64 CHR ''0'')"
    by (simp add: list_all_iff digit_char_def)
  then have "digest_pattern (''sha256:'' @ replicate 64 CHR ''0'')"
    by (simp add: digest_pattern_def)
  with m show "access_ok w_access"
    by (simp add: access_ok_def arrangement_ok_def w_access_def mk_AccessDetermination_def)
       (simp add: w_arrangement_def mk_PartyRef_def mk_AuthorityEvidence_def mk_NovationEvidence_def Let_def)
qed

lemma w_obligations_valid: "valid_obligations w_obligations"
  using rounded_product_sign [of 100 "- 100"] rounded_product_sign [of "- 40" 40]
  by (simp add: valid_obligations_def w_obligations_def w_obligation_def mk_NovatedObligation_def
      cusip_pattern_def currency_pattern_def upper_letter_def digit_char_def)

lemma w_obligations_exact: "exact_obligations 0 w_obligations"
  using on_grid_of_int [of 0 100] on_grid_of_int [of 0 "- 100"] on_grid_of_int [of 0 40] on_grid_of_int [of 0 "- 40"]
  by (simp add: exact_obligations_def w_obligations_def w_obligation_def)

lemma w_one_currency: "\<not> mixed_currencies w_obligations"
  by (simp add: mixed_currencies_def w_obligations_def w_obligation_def position_of_def)

lemma w_request_valid: "request_valid (w_request finality)"
  using w_obligations_valid w_arrangement_ok(2)
  by (simp add: request_valid_def w_request_def mk_FiccGsdNettingRequest_def w_obligations_def w_obligation_def)

lemma w_publishable: "publishable (w_request finality)"
  using w_one_currency
  by (simp add: publishable_def w_request_def w_access_def)
     (simp add: w_obligations_def w_obligation_def w_arrangement_def Let_def)

theorem access_rests_on_evidence_witness:
  "{party_id (acting_party w_arrangement), party_id (clearing_member w_arrangement)} \<subseteq>
     principal_party_id ` set (authority_evidence w_arrangement)"
  using access_rests_on_evidence [OF w_arrangement_ok(2)] by (simp add: w_access_def)

theorem netting_raises_only_for_empty_evidence_witness:
  "produce_ficc_gsd_result (\<lambda>d. fd_observed_member_id d) id (w_request (Some [])) = Inl Recorded_Without_Evidence"
  using netting_raises_only_for_empty_evidence [OF w_request_valid, of "\<lambda>d. fd_observed_member_id d" id "Some []"
      Recorded_Without_Evidence] w_publishable [of "Some []"]
  by (simp add: empty_evidence_def w_request_def)

theorem published_result_is_the_netting_witness:
  "\<exists>res. produce_ficc_gsd_result (\<lambda>d. fd_observed_member_id d) id (w_request None) = Inr res \<and>
     fr_status res = ESTABLISHED"
proof -
  let ?p = "produce_ficc_gsd_result (\<lambda>d. fd_observed_member_id d) id (w_request None)"
  obtain a where "?p = (if empty_evidence (w_request None) then Inl Recorded_Without_Evidence
      else Inr (established_result (\<lambda>d. fd_observed_member_id d) id (document_of (w_request None) a)))"
    using produce_publishable [OF w_request_valid w_publishable] by blast
  then obtain res where "?p = Inr res" by (simp add: empty_evidence_def w_request_def)
  with published_result_is_the_netting [OF w_request_valid this] w_publishable [of None] show ?thesis by blast
qed

theorem netting_partitions_the_obligations_witness:
  "\<exists>ns. net w_obligations = Inr ns \<and> (\<Sum>n\<leftarrow>ns. net_quantity n) = 60"
proof -
  obtain ns where "net w_obligations = Inr ns"
    "(\<Sum>n\<leftarrow>ns. net_quantity n) = (\<Sum>n\<leftarrow>w_obligations. signed_quantity n)"
    using netting_partitions_the_obligations [OF w_obligations_valid, of 0] w_obligations_exact by auto
  then show ?thesis by (simp add: w_obligations_def w_obligation_def)
qed

theorem netting_ignores_order_witness: "net (rev w_obligations) = net w_obligations"
  by (rule netting_ignores_order [OF w_obligations_valid w_obligations_exact w_one_currency]) simp

text \<open>A DVP repo of 1,000.00 overnight at 36 percent on a 360 day basis.\<close>

definition w_repo :: RepoTrade where
  "w_repo = \<lparr>rt_trade_id = ''T'', rt_member_id = ''M'', service = DVP, rt_term = OVERNIGHT,
     start_date = 739797, close_date = Some 739798, collateral_par = 1000, start_money = 1000,
     rt_currency = ''USD'', repo_rate_percent = 36, day_count_basis = 360, rt_cusip = Some ''91282CAA0'',
     collateral_class = None, clearing_bank = None, haircut_percent = 2, member_margin_approximation = 0,
     sponsored_execution = None\<rparr>"

lemma w_repo_valid: "mk_RepoTrade w_calendar w_repo = Inr w_repo"
proof -
  have b: "is_business_day w_calendar 739797 = Inr True" "is_business_day w_calendar 739798 = Inr True"
    by (simp_all add: is_business_day_def w_calendar_def date_year_def weekday_def Let_def)
  have "business_days_after w_calendar 739797 739798 = Inr 1"
    using b by (simp add: business_days_after_def count_loop.simps next_day_def MAX_ORDINAL_def)
  with b show ?thesis
    by (simp add: mk_RepoTrade_def repo_fields_def repo_term_def business_day_def w_repo_def
        currency_pattern_def cusip_pattern_def upper_letter_def digit_char_def)
qed

lemma w_repo_money: "whole_cents w_repo" "close_money w_repo = Inr (Some 1001)"
proof -
  have r: "rnd28 36000 = 36000" "rnd28 360 = 360" "rnd28 1001 = 1001"
    using dround_of_int [of 36000 28] dround_of_int [of 360 28] dround_of_int [of 1001 28] by simp_all
  have "half_up 100100 = 100100" using half_up_of_int [of 100100] by simp
  then show "close_money w_repo = Inr (Some 1001)"
    by (simp add: close_money_def accrued_money_def w_repo_def r quantize_cent_def)
  show "whole_cents w_repo"
    using on_grid_of_int [of "- 2" 1000] by (simp add: whole_cents_def cents_def w_repo_def)
qed

theorem repo_repays_what_was_lent_witness: "start_money w_repo \<le> 1001"
  using repo_repays_what_was_lent [OF w_repo_valid _ w_repo_money(2)] w_repo_money(1) by (simp add: w_repo_def)

theorem repo_reaches_netting_witness:
  "\<exists>d res. produce_repo_result (\<lambda>_. ''doc'') id w_repo w_access FICC_GSD [START] = Inr res \<and>
     dvp_legs_for_netting (\<lambda>s. if s = ''doc'' then Some d else None) res = Inr
       [novated_leg w_repo START 739797 1000 (- 1000), novated_leg w_repo CLOSE 739798 (- 1000) 1001]"
proof -
  obtain first where first: "repo_leg w_repo START (start_date w_repo) (collateral_par w_repo) (- start_money w_repo)
      (- start_money w_repo) True = Inr first"
    using repo_leg_total [of w_repo START "start_date w_repo"] by blast
  obtain second where second: "repo_leg w_repo CLOSE 739798 (- collateral_par w_repo) 1001
      (accrued_money w_repo 739798) False = Inr second"
    using repo_leg_total [of w_repo CLOSE 739798] by blast
  have r: "rnd28 (- start_money w_repo) = - start_money w_repo" "rnd28 (- collateral_par w_repo) = - collateral_par w_repo"
    using dround_of_int [of "- 1000" 28] by (simp_all add: w_repo_def)
  have ls: "repo_legs w_repo [START] (Some 1001) = Inr [first, second]"
    using first second r by (simp add: repo_legs_def w_repo_def)
  obtain d where d: "repo_document w_repo (the (arrangement w_access)) FICC_GSD [START] = Inr d"
    using ls w_repo_money(2) by (simp add: repo_document_def)
  have "party_id (clearing_member w_arrangement) = rt_member_id w_repo" "path w_arrangement = FICC_DIRECT"
    by (simp_all add: w_arrangement_def w_repo_def Let_def)
  then obtain res where res: "produce_repo_result (\<lambda>_. ''doc'') id w_repo w_access FICC_GSD [START] = Inr res"
    "rr_status res = ESTABLISHED"
    using d by (simp add: produce_repo_result_def w_access_def Let_def)
  have dvp: "service w_repo = DVP" and dates: "close_date w_repo = Some 739798" "start_date w_repo = 739797"
    "collateral_par w_repo = 1000" "start_money w_repo = 1000" by (simp_all add: w_repo_def)
  from repo_reaches_netting [where parse = "\<lambda>s. if s = ''doc'' then Some d else None", OF w_repo_valid dvp
      w_repo_money(1) res d] w_repo_money(2) dates res(1)
  show ?thesis by auto
qed

text \<open>Money lent to the tenth of a cent, at no interest, is paid back short: rounding to the cent is all there is.\<close>

theorem subcent_repo_is_repaid_short:
  "\<exists>t m. mk_RepoTrade w_calendar t = Inr t \<and> close_money t = Inr (Some m) \<and> m < start_money t"
proof -
  let ?t = "w_repo\<lparr>start_money := 25001 / 250, repo_rate_percent := 0\<rparr>"
  have "rt_term ?t = rt_term w_repo" "close_date ?t = close_date w_repo" "start_date ?t = start_date w_repo" by simp_all
  then have "repo_term w_calendar ?t = repo_term w_calendar w_repo" by (simp only: repo_term_def)
  then have rt: "repo_term w_calendar ?t = Inr ()" using mk_RepoTrade_fields(2) [OF w_repo_valid] by simp
  have valid: "mk_RepoTrade w_calendar ?t = Inr ?t"
    unfolding mk_RepoTrade_def rt by (simp add: repo_fields_def w_repo_def currency_pattern_def cusip_pattern_def
        upper_letter_def digit_char_def)
  have r: "rnd28 (25001 / 250) = 25001 / 250"
    by (rule dround_on_grid [where k = "- 3"]) (auto intro!: on_gridI [of _ 100004] simp: power_int_def power3_eq_cube)
  have "close_money ?t = Inr (Some 100)"
    by (simp add: r close_money_def accrued_money_def quantize_cent_def half_up_def w_repo_def floor_eq_iff)
  with valid show ?thesis by (intro exI [of _ ?t] exI [of _ 100]) simp
qed

end
