(* ===== verification/CP_Reader.thy ===== *)
theory CP_Reader
  imports CP_Rules
begin

text \<open>
  A calculus for computations over the rule reader. \<open>yields m P\<close>: the value of \<open>m\<close> satisfies \<open>P\<close>
  whatever was recorded before. \<open>ensures s m P\<close>: if the log is clean after \<open>m\<close>, it was clean before,
  and the value satisfies \<open>P\<close>. A clean log has no missing rule and no unrecognised input; with \<open>s\<close>
  it has no missing input and no breach either. An engine's PASS is a clean log, so what \<open>ensures\<close>
  collects is what a PASS means.
\<close>

named_theorems ensuring "rules that propagate clean logs"

definition clean :: "bool \<Rightarrow> worklog \<Rightarrow> bool" where
  "clean s w \<longleftrightarrow> missing w = [] \<and> unrecognised w = [] \<and> (s \<longrightarrow> missing_inputs w = [] \<and> breaches w = [])"

definition ensures :: "bool \<Rightarrow> 'a reading \<Rightarrow> ('a \<Rightarrow> bool) \<Rightarrow> bool" where
  "ensures s m P \<longleftrightarrow>
     (\<forall>w. clean s (snd (run_state m w)) \<longrightarrow> clean s w \<and> P (fst (run_state m w)))"

definition yields :: "'a reading \<Rightarrow> ('a \<Rightarrow> bool) \<Rightarrow> bool" where
  "yields m P \<longleftrightarrow> (\<forall>w. P (fst (run_state m w)))"

definition given :: "'a option \<Rightarrow> bool" where
  "given x \<longleftrightarrow> x \<noteq> None"

lemma given_simps [simp]: "given (Some x)" "\<not> given None"
  by (simp_all add: given_def)

lemma givenE: "given x \<Longrightarrow> (\<And>v. x = Some v \<Longrightarrow> P) \<Longrightarrow> P"
  by (cases x) simp_all

lemma empty_log_clean [simp]: "clean s empty_log"
  by (simp add: clean_def empty_log_def)

lemma ensures_weaken: "ensures s m P \<Longrightarrow> (\<And>v. P v \<Longrightarrow> Q v) \<Longrightarrow> ensures s m Q"
  by (auto simp: ensures_def)

lemma ensures_conj: "ensures s m P \<Longrightarrow> yields m Q \<Longrightarrow> ensures s m (\<lambda>v. P v \<and> Q v)"
  by (auto simp: ensures_def yields_def)

lemma ensures_return: "P v \<Longrightarrow> ensures s (State_Monad.return v) P"
  by (simp add: ensures_def)

lemma ensures_bind:
  assumes "ensures s m P" and "\<And>v. ensures s (f v) (\<lambda>r. P v \<longrightarrow> Q r)"
  shows "ensures s (State_Monad.bind m f) Q"
  unfolding ensures_def
proof (intro allI impI)
  fix w
  let ?w = "snd (run_state m w)" and ?v = "fst (run_state m w)"
  assume "clean s (snd (run_state (State_Monad.bind m f) w))"
  then have c: "clean s (snd (run_state (f ?v) ?w))" by (simp add: case_prod_beta)
  then have w: "clean s ?w" and r: "P ?v \<longrightarrow> Q (fst (run_state (f ?v) ?w))"
    using assms(2) [of ?v] unfolding ensures_def by blast+
  with assms(1) have "clean s w \<and> P ?v" unfolding ensures_def by blast
  with r show "clean s w \<and> Q (fst (run_state (State_Monad.bind m f) w))" by (simp add: case_prod_beta)
qed

lemma ensures_if:
  "(c \<Longrightarrow> ensures s m P) \<Longrightarrow> (\<not> c \<Longrightarrow> ensures s n P) \<Longrightarrow> ensures s (if c then m else n) P"
  by simp

lemma ensures_record:
  "(\<And>w. clean s (g w) \<Longrightarrow> clean s w \<and> P ()) \<Longrightarrow> ensures s (record_log g) P"
  by (simp add: ensures_def record_log_def)

lemma ensures_findings [ensuring]:
  "ensures s (flag text) (\<lambda>_. False)"
  "ensures s (unrecognise name) (\<lambda>_. False)"
  "ensures s (missing_input name) (\<lambda>_. \<not> s)"
  "ensures s (breach code subject) (\<lambda>_. \<not> s)"
  "ensures s (reason code) (\<lambda>_. True)"
  by (auto simp: flag_def unrecognise_def missing_input_def breach_def reason_def clean_def intro!: ensures_record)

lemma ensures_on_cond: "ensures s m P \<Longrightarrow> ensures s (on_cond c m) (\<lambda>v. c \<longrightarrow> P v)"
  by (auto simp: on_cond_def ensures_def)

lemma ensures_each:
  "(\<And>x. ensures s (f x) (\<lambda>_. P x)) \<Longrightarrow> ensures s (each f xs) (\<lambda>_. \<forall>x \<in> set xs. P x)"
proof (induction xs)
  case Nil
  then show ?case by (auto intro: ensures_return)
next
  case (Cons x xs)
  show ?case
    unfolding each.simps
    by (rule ensures_bind [OF Cons.prems], rule ensures_weaken [OF Cons.IH [OF Cons.prems]]) auto
qed

lemma ensures_gather:
  "(\<And>x. ensures s (f x) (P x)) \<Longrightarrow> ensures s (gather f xs) (\<lambda>ys. list_all2 P xs ys)"
proof (induction xs)
  case Nil
  then show ?case by (auto intro: ensures_return)
next
  case (Cons x xs)
  show ?case
    unfolding gather.simps
    by (rule ensures_bind [OF Cons.prems], rule ensures_bind [OF Cons.IH [OF Cons.prems]])
       (auto intro: ensures_return)
qed

lemma ensures_read_item:
  "ensures s (read_item t rid) (\<lambda>r. \<exists>i. rule_get t rid = Some i \<and> r = Some (ref_of i))"
  by (cases "rule_get t rid")
     (auto simp: read_item_def record_log_def ensures_def clean_def)

lemma ensures_read_value [ensuring]:
  "ensures s (read_value t rid) (\<lambda>v. \<exists>i. rule_get t rid = Some i \<and> v = ri_value i)"
  unfolding read_value_def
  by (rule ensures_bind [OF ensures_read_item]) (auto intro!: ensures_return simp: ref_of_def)

lemma ensures_read_present [ensuring]:
  "ensures s (read_present t rid) (\<lambda>v. v \<and> rule_get t rid \<noteq> None)"
  unfolding read_present_def
  by (rule ensures_bind [OF ensures_read_item]) (auto intro!: ensures_return)

lemma ensures_pass: "ensures s m P \<Longrightarrow> run_state m empty_log = (v, w) \<Longrightarrow> clean s w \<Longrightarrow> P v"
  by (auto simp: ensures_def dest: spec [of _ empty_log])

subsection \<open>Steps that only have to be passed through\<close>

abbreviation keeps :: "bool \<Rightarrow> 'a reading \<Rightarrow> bool" where
  "keeps s m \<equiv> ensures s m (\<lambda>_. True)"

named_theorems keeping "rules for steps that only have to be passed through"

lemma keeps_bind [keeping]:
  "keeps s m \<Longrightarrow> (\<And>v. keeps s (f v)) \<Longrightarrow> keeps s (State_Monad.bind m f)"
  by (rule ensures_bind) simp_all

lemma keeps_simple [keeping]:
  "keeps s (State_Monad.return v)" "keeps s (flag text)" "keeps s (unrecognise name)"
  "keeps s (missing_input name)" "keeps s (breach code subject)" "keeps s (reason code)"
  "keeps s (read_value t rid)" "keeps s (read_present t rid)"
  by (rule ensures_return; simp)
     (rule ensures_weaken, rule ensures_findings ensures_read_value ensures_read_present, simp)+

lemma keeps_on_cond [keeping]: "keeps s m \<Longrightarrow> keeps s (on_cond c m)"
  by (rule ensures_weaken [OF ensures_on_cond]) simp_all

lemma keeps_each [keeping]: "(\<And>x. keeps s (f x)) \<Longrightarrow> keeps s (each f xs)"
  by (rule ensures_weaken [OF ensures_each]) simp_all

lemma ensures_after: "keeps s m \<Longrightarrow> (\<And>v. ensures s (f v) Q) \<Longrightarrow> ensures s (State_Monad.bind m f) Q"
  by (rule ensures_bind [where P = "\<lambda>_. True"]) simp_all

subsection \<open>Values alone\<close>

lemma yields_return: "P v \<Longrightarrow> yields (State_Monad.return v) P"
  by (simp add: yields_def)

lemma yields_bind:
  "yields m P \<Longrightarrow> (\<And>v. P v \<Longrightarrow> yields (f v) Q) \<Longrightarrow> yields (State_Monad.bind m f) Q"
  by (simp add: yields_def case_prod_beta)

lemma yields_weaken: "yields m P \<Longrightarrow> (\<And>v. P v \<Longrightarrow> Q v) \<Longrightarrow> yields m Q"
  by (simp add: yields_def)

lemma yields_any: "yields m (\<lambda>_. True)"
  by (simp add: yields_def)

lemma yields_run: "yields m P \<Longrightarrow> run_state m w = (v, w') \<Longrightarrow> P v"
  by (auto simp: yields_def dest: spec [of _ w])

lemma yields_gather:
  "(\<And>x. yields (f x) (P x)) \<Longrightarrow> yields (gather f xs) (\<lambda>ys. list_all2 P xs ys)"
proof (induction xs)
  case Nil
  then show ?case by (auto intro: yields_return)
next
  case (Cons x xs)
  show ?case
    unfolding gather.simps
    by (rule yields_bind [OF Cons.prems], rule yields_bind [OF Cons.IH [OF Cons.prems]])
       (auto intro: yields_return)
qed

lemma decide_clean:
  "decide (missing_rules w @ unrecognised w) (missing_inputs w) (breaches w) = Disposition.PASS \<longleftrightarrow> clean True w"
  "decide (missing_rules w @ unrecognised w) (missing_inputs w) (breaches w) \<noteq> Disposition.INDETERMINATE \<longleftrightarrow> clean False w"
  by (auto simp: advisory_simps clean_def missing_rules_def)

subsection \<open>Steps that recognise every input\<close>

definition quiet :: "'a reading \<Rightarrow> bool" where
  "quiet m \<longleftrightarrow> (\<forall>w. unrecognised (snd (run_state m w)) = unrecognised w)"

named_theorems quieting "rules for steps that never find an unrecognised input"

lemma quiet_bind [quieting]: "quiet m \<Longrightarrow> (\<And>v. quiet (f v)) \<Longrightarrow> quiet (State_Monad.bind m f)"
  by (simp add: quiet_def case_prod_beta)

lemma quiet_simple [quieting]:
  "quiet (State_Monad.return v)" "quiet (flag text)" "quiet (missing_input name)"
  "quiet (breach code subject)" "quiet (reason code)" "quiet (read_value t rid)" "quiet (read_present t rid)"
  by (auto simp: quiet_def flag_def missing_input_def breach_def reason_def record_log_def read_value_def
      read_present_def read_item_def case_prod_beta split: option.split)

lemma quiet_on_cond [quieting]: "quiet m \<Longrightarrow> quiet (on_cond c m)"
  by (simp add: on_cond_def quiet_simple)

lemma quiet_each [quieting]: "(\<And>x. quiet (f x)) \<Longrightarrow> quiet (each f xs)"
  by (induction xs) (auto intro: quieting)

lemma quiet_gather [quieting]: "(\<And>x. quiet (f x)) \<Longrightarrow> quiet (gather f xs)"
  by (induction xs) (auto intro!: quieting)

lemma quiet_run: "quiet m \<Longrightarrow> run_state m empty_log = (v, w) \<Longrightarrow> unrecognised w = []"
  by (auto simp: quiet_def empty_log_def dest: spec [of _ empty_log])

subsection \<open>Steps that succeed\<close>

text \<open>\<open>succeeds m v\<close>: \<open>m\<close> returns \<open>v\<close> and records no finding. It shows that a concrete computation passes.\<close>

definition findings :: "worklog \<Rightarrow> string list \<times> string list \<times> string list \<times> (string \<times> string) list" where
  "findings w = (missing w, unrecognised w, missing_inputs w, breaches w)"

definition succeeds :: "'a reading \<Rightarrow> 'a \<Rightarrow> bool" where
  "succeeds m v \<longleftrightarrow> (\<forall>w. fst (run_state m w) = v \<and> findings (snd (run_state m w)) = findings w)"

lemma succeeds_return: "succeeds (State_Monad.return v) v"
  by (simp add: succeeds_def)

lemma succeeds_bind: "succeeds m v \<Longrightarrow> succeeds (f v) r \<Longrightarrow> succeeds (State_Monad.bind m f) r"
  by (auto simp: succeeds_def case_prod_beta)

lemma succeeds_read_value: "rule_get t rid = Some i \<Longrightarrow> succeeds (read_value t rid) (ri_value i)"
  by (simp add: succeeds_def read_value_def read_item_def record_log_def findings_def ref_of_def)

lemma succeeds_read_present: "rule_get t rid = Some i \<Longrightarrow> succeeds (read_present t rid) True"
  by (simp add: succeeds_def read_present_def read_item_def record_log_def findings_def)

lemma succeeds_on_cond: "\<not> c \<Longrightarrow> succeeds (on_cond c m) ()"
  by (simp add: on_cond_def succeeds_return)

lemma succeeds_reason: "succeeds (reason code) ()"
  by (simp add: succeeds_def reason_def record_log_def findings_def)

lemma succeeds_each: "(\<And>x. x \<in> set xs \<Longrightarrow> succeeds (f x) ()) \<Longrightarrow> succeeds (each f xs) ()"
  by (induction xs) (auto intro: succeeds_return succeeds_bind)

lemma succeeds_gather: "(\<And>x. x \<in> set xs \<Longrightarrow> succeeds (f x) (g x)) \<Longrightarrow> succeeds (gather f xs) (map g xs)"
proof (induction xs)
  case (Cons x xs)
  then show ?case by (auto intro!: succeeds_bind [of "f x" "g x"] succeeds_bind [of "gather f xs"] succeeds_return)
qed (simp add: succeeds_return)

lemma succeeds_clean: "succeeds m v \<Longrightarrow> run_state m empty_log = (r, w) \<Longrightarrow> r = v \<and> clean s w"
  by (auto simp: succeeds_def findings_def clean_def empty_log_def dest: spec [of _ empty_log])

end
