(* ===== verification/CP_Rules_Props.thy ===== *)
theory CP_Rules_Props
  imports CP_Reader
begin

text \<open>What the loader lets into a rule table.\<close>

definition item_grounded :: "(RuleKind \<Rightarrow> string \<Rightarrow> rat option) \<Rightarrow> loaded_sources \<Rightarrow> RuleItem \<Rightarrow> bool" where
  "item_grounded parse srcs i \<longleftrightarrow>
     (\<exists>src text. map_of srcs (ri_source_id i) = Some (src, text) \<and> rs_label src = RULE \<and>
        ri_sha256 i = rs_sha256 src \<and> occurs_in (ri_quote i) text) \<and>
     (case ri_value i of
        None \<Rightarrow> \<not> has_value (ri_kind i)
      | Some v \<Rightarrow> has_value (ri_kind i) \<and> (\<exists>f. occurs_in f (ri_quote i) \<and> parse (ri_kind i) f = Some v))"

lemma mk_RuleItemSpec_same: "mk_RuleItemSpec x = Inr s \<Longrightarrow> mk_RuleItemSpec s = Inr s"
proof -
  assume h: "mk_RuleItemSpec x = Inr s"
  then have "x = s" by (simp add: mk_RuleItemSpec_def Let_def)
  with h show ?thesis by simp
qed

lemma check_item_grounded:
  assumes "mk_RuleItemSpec s = Inr s" and "check_item parse srcs s = Inr i"
  shows "item_grounded parse srcs i \<and> ri_id i = spec_id s"
proof -
  obtain src body where src: "map_of srcs (spec_source_id s) = Some (src, body)" "rs_label src = RULE"
    "spec_sha256 s = rs_sha256 src" "occurs_in (spec_quote s) body" "check_figure parse s = Inr ()"
    and i: "ri_id i = spec_id s" "ri_kind i = spec_kind s" "ri_source_id i = spec_source_id s"
    "ri_sha256 i = rs_sha256 src" "ri_quote i = spec_quote s" "ri_value i = spec_value s"
    using assms(2) by (auto simp: check_item_def split: option.splits sum.splits)
  have v: "has_value (spec_kind s) \<longrightarrow> (\<exists>f v. figure s = Some f \<and> spec_value s = Some v \<and> occurs_in f (spec_quote s))"
    "\<not> has_value (spec_kind s) \<longrightarrow> spec_value s = None"
    using assms(1) by (auto simp: mk_RuleItemSpec_def Let_def)
  have "case spec_value s of None \<Rightarrow> \<not> has_value (spec_kind s)
      | Some x \<Rightarrow> has_value (spec_kind s) \<and> (\<exists>f. occurs_in f (spec_quote s) \<and> parse (spec_kind s) f = Some x)"
    using v src(5) by (cases "has_value (spec_kind s)") (auto simp: check_figure_def split: option.splits)
  then have "item_grounded parse srcs i" using src(1-4) unfolding item_grounded_def i by simp
  with i show ?thesis by simp
qed

lemma load_items_sound:
  "load_items parse srcs seen rows = (is, rs) \<Longrightarrow>
     length is + length rs = length rows \<and> (\<forall>i \<in> set is. item_grounded parse srcs i) \<and>
     distinct (map ri_id is) \<and> set (map ri_id is) \<inter> set seen = {}"
proof (induction rows arbitrary: seen "is" rs)
  case (Cons row rows)
  obtain rid x where row: "row = (rid, x)" by (cases row)
  have refuse: "length is + length rs = length (row # rows) \<and> (\<forall>i \<in> set is. item_grounded parse srcs i) \<and>
      distinct (map ri_id is) \<and> set (map ri_id is) \<inter> set seen = {}"
    if "(case load_items parse srcs seen' rows of (is, rs) \<Rightarrow> (is, \<lparr>rej_id = rid, rej_reason = e\<rparr> # rs)) = (is, rs)"
      and "set seen \<subseteq> set seen'" for seen' e
    using that Cons.IH [of seen'] by (cases "load_items parse srcs seen' rows") fastforce
  let ?m = "case x of None \<Rightarrow> Inl Not_A_Row | Some s \<Rightarrow> mk_RuleItemSpec s"
  show ?case
  proof (cases ?m)
    case (Inl e)
    with Cons.prems show ?thesis by (intro refuse [where seen' = seen and e = e]) (simp_all add: row Let_def)
  next
    case (Inr s)
    then have s: "mk_RuleItemSpec s = Inr s"
      by (cases x) (simp_all add: mk_RuleItemSpec_same)
    show ?thesis
    proof (cases "spec_id s \<in> set seen")
      case True
      with Inr Cons.prems show ?thesis by (intro refuse [where seen' = seen and e = Duplicate_Id]) (simp_all add: row Let_def)
    next
      case new: False
      show ?thesis
      proof (cases "check_item parse srcs s")
        case (Inl e)
        with Inr new Cons.prems show ?thesis by (intro refuse [where seen' = "spec_id s # seen" and e = e]) (auto simp: row Let_def)
      next
        case (Inr i)
        obtain is' rs' where r: "load_items parse srcs (spec_id s # seen) rows = (is', rs')" by fastforce
        have "is = i # is'" "rs = rs'" using \<open>?m = Inr s\<close> Inr new Cons.prems r by (simp_all add: row Let_def)
        with Cons.IH [OF r] check_item_grounded [OF s Inr] new show ?thesis by auto
      qed
    qed
  qed
qed simp

text \<open>
  What is loaded is grounded in rule text. Every row of the committed table is either loaded or
  rejected, no identifier is loaded twice, and every loaded item quotes text that occurs in a loaded
  source labelled as a rule, under that source's hash; it has a figure exactly when its kind has
  one, and then some part of its own quote parses to that figure.\<close>

theorem loaded_items_are_grounded:
  "case load_items parse srcs [] rows of (is, rs) \<Rightarrow>
     length is + length rs = length rows \<and> distinct (map ri_id is) \<and>
     {i \<in> set is. \<not> item_grounded parse srcs i} = {}"
  using load_items_sound [of parse srcs "[]" rows] by (auto split: prod.split)

end
