(* ===== verification/CP_Reserve_Props.thy ===== *)
theory CP_Reserve_Props
  imports CP_Reserve CP_Reader
begin

text \<open>
  What the reserve computation promises: PASS means every rule and balance was there and the
  deposit covers the requirement, a rule that is not loaded is never hidden, and the deposit that
  counts never exceeds what is deposited.
\<close>

subsection \<open>Rules with values\<close>

definition VALUE_RULES :: "string list" where
  "VALUE_RULES = [DAILY_THRESHOLD, DAILY_EXIT_NOTICE, VOLUNTARY_NOTICE, NOTE_E3, WEEKLY_REDUCTION,
     DAILY_REDUCTION, PAB_MONTHLY_RECOVERY, MONTHLY_AI_CEILING, MONTHLY_FUNDS_CEILING, MONTHLY_FACTOR,
     BANK_EQUITY_CAP]"

definition valued :: "RuleTable \<Rightarrow> bool" where
  "valued t \<longleftrightarrow> (\<forall>rid \<in> set VALUE_RULES. \<forall>i. rule_get t rid = Some i \<longrightarrow> ri_value i \<noteq> None)"

lemma ensures_value:
  assumes "valued t" and "rid \<in> set VALUE_RULES"
  shows "ensures s (read_value t rid) (\<lambda>v. v \<noteq> None)"
  by (rule ensures_weaken [OF ensures_read_value]) (use assms in \<open>auto simp: valued_def\<close>)

lemma ensures_True: "ensures s m P \<Longrightarrow> ensures s m (\<lambda>_. True)"
  by (erule ensures_weaken) simp

subsection \<open>Lines\<close>

definition line_total :: "ReserveInputs \<Rightarrow> string list \<Rightarrow> rat option" where
  "line_total i rids = sum_opt (map (supplied_amount i) rids)"

definition exhibit_listed :: "RuleTable \<Rightarrow> string list" where
  "exhibit_listed t = map ri_id (rules_of_kind t EXHIBIT_A_CREDIT) @ map ri_id (rules_of_kind t EXHIBIT_A_DEBIT)"

text \<open>The Exhibit A lines agree: those modelled are loaded, those listed and supplied are modelled.\<close>

definition exhibit_agrees :: "RuleTable \<Rightarrow> ReserveInputs \<Rightarrow> bool" where
  "exhibit_agrees t i \<longleftrightarrow>
     (\<forall>rid \<in> modeled_lines. rule_get t rid \<noteq> None) \<and> set (exhibit_listed t) \<subseteq> modeled_lines \<and>
     lb_rule_id ` set (lines i) \<subseteq> modeled_lines"

definition lines_supplied :: "ReserveInputs \<Rightarrow> bool" where
  "lines_supplied i \<longleftrightarrow> (\<forall>rid \<in> modeled_lines. supplied_amount i rid \<noteq> None)"

lemma ensures_balance_line:
  "ensures s (balance_line t i rid)
     (\<lambda>v. rule_get t rid \<noteq> None \<and> (s \<longrightarrow> supplied_amount i rid \<noteq> None) \<and> v = supplied_amount i rid)"
  unfolding balance_line_def
  by (rule ensures_bind [OF ensures_read_present],
      rule ensures_bind [OF ensures_on_cond [OF ensures_findings(3)]]) (auto intro!: ensures_return)

lemma list_all2_values: "list_all2 (\<lambda>x v. A x \<and> v = f x) xs ys \<Longrightarrow> (\<forall>x \<in> set xs. A x) \<and> ys = map f xs"
  by (induction xs ys rule: list_all2_induct) auto

lemma ensures_balance_lines:
  "ensures s (gather (balance_line t i) rids)
     (\<lambda>vs. (\<forall>rid \<in> set rids. rule_get t rid \<noteq> None \<and> (s \<longrightarrow> supplied_amount i rid \<noteq> None)) \<and>
        vs = map (supplied_amount i) rids)"
proof (rule ensures_weaken [OF ensures_gather [OF ensures_balance_line]])
  fix vs
  assume "list_all2 (\<lambda>rid v. rule_get t rid \<noteq> None \<and> (s \<longrightarrow> supplied_amount i rid \<noteq> None) \<and>
      v = supplied_amount i rid) rids vs"
  then show "(\<forall>rid \<in> set rids. rule_get t rid \<noteq> None \<and> (s \<longrightarrow> supplied_amount i rid \<noteq> None)) \<and>
      vs = map (supplied_amount i) rids"
    by (intro list_all2_values) (simp add: conj_assoc)
qed

lemma ensures_lines:
  "ensures s (reserve_lines t i)
     (\<lambda>(c, d, x). exhibit_agrees t i \<and> (s \<longrightarrow> lines_supplied i) \<and> c = line_total i EXHIBIT_A_CREDITS \<and>
        d = line_total i EXHIBIT_A_DEBITS \<and> x = supplied_amount i ITEM_10)"
  unfolding reserve_lines_def exhibit_listed_def [symmetric]
  apply (rule ensures_bind [OF ensures_each [OF ensures_on_cond [OF ensures_findings(1)]]])
  apply (rule ensures_bind [OF ensures_each [OF ensures_on_cond [OF ensures_findings(2)]]])
  apply (rule ensures_bind [OF ensures_balance_lines])
  apply (rule ensures_bind [OF ensures_balance_lines])
  apply (rule ensures_return)
  apply (auto simp: exhibit_agrees_def lines_supplied_def modeled_lines_def line_total_def)
  done

subsection \<open>The other steps\<close>

lemma keeps_daily [keeping]: "keeps s (daily_required t i)"
  by (auto simp: daily_required_def daily_against_def check_daily_def intro!: keeping split: option.split)

lemma ensures_check_daily: "ensures True (check_daily i r) (\<lambda>v. v = Some r \<and> (r \<longrightarrow> mode i = DAILY))"
  unfolding check_daily_def
  by (rule ensures_bind [OF ensures_on_cond [OF ensures_findings(4)]]) (auto intro!: ensures_return)

text \<open>A clean log means that the daily requirement was decided, and is met.\<close>

definition daily_met :: "ReserveInputs \<Rightarrow> bool option \<Rightarrow> bool" where
  "daily_met i required \<longleftrightarrow> given required \<and> (required = Some True \<longrightarrow> mode i = DAILY)"

lemma ensures_daily:
  assumes "valued t"
  shows "ensures True (daily_required t i) (daily_met i)"
proof -
  have val: "ensures True (read_value t rid) given" if "rid \<in> set VALUE_RULES" for rid
    by (rule ensures_weaken [OF ensures_value [OF assms that]]) (simp add: given_def)
  have miss: "ensures True (State_Monad.bind (missing_input n) (\<lambda>_. State_Monad.return None)) P"
    for n and P :: "bool option \<Rightarrow> bool"
    by (rule ensures_bind [OF ensures_findings(3)]) (auto intro: ensures_return)
  have check: "ensures True (check_daily i r) (daily_met i)" for r
    by (rule ensures_weaken [OF ensures_check_daily]) (auto simp: daily_met_def)
  have exit: "ensures True (State_Monad.bind (read_value t DAILY_EXIT_NOTICE)
      (\<lambda>days. case days of None \<Rightarrow> State_Monad.return None | Some n \<Rightarrow> check_daily i (g n))) (daily_met i)" for g
    by (rule ensures_bind [OF val])
       (auto simp: VALUE_RULES_def intro!: ensures_return ensures_weaken [OF check] split: option.split)
  have rest: "ensures True (daily_against t i limit average) (daily_met i)" for limit average
    unfolding daily_against_def
    by (auto intro!: miss check exit ensures_after [OF keeps_on_cond [OF keeps_simple(6)]] split: option.split)
  show ?thesis
    unfolding daily_required_def
  proof (rule ensures_bind [OF val [of DAILY_THRESHOLD]], goal_cases)
    case (2 v)
    then show ?case
      by (cases v; cases "average_total_credits i")
         (auto intro!: ensures_weaken [OF miss] ensures_weaken [OF rest] ensures_return)
  qed (simp add: VALUE_RULES_def)
qed

lemma keeps_voluntary [keeping]: "keeps s (voluntary_daily_noticed t i)"
  by (auto simp: voluntary_daily_noticed_def intro!: keeping split: option.split)

lemma ensures_given_value:
  assumes "valued t" and "rid \<in> set VALUE_RULES"
  shows "ensures s (read_value t rid) given"
  by (rule ensures_weaken [OF ensures_value [OF assms]]) (simp add: given_def)

lemma ensures_reduction_of:
  assumes "valued t" and "rid \<in> set VALUE_RULES" and "given base \<or> \<not> c"
  shows "ensures s (reduction_of t rid base) (\<lambda>r. c \<longrightarrow> given (snd r))"
  unfolding reduction_of_def
  by (rule ensures_bind [OF ensures_given_value [OF assms(1,2)]])
     (use assms(3) in \<open>auto intro!: ensures_return split: option.split\<close>)

lemma ensures_no_pab_reduction: "ensures s (no_pab_reduction t) (\<lambda>r. c \<longrightarrow> given (snd r))"
  unfolding no_pab_reduction_def
  by (rule ensures_bind [OF ensures_read_present]) (auto intro!: ensures_return)

lemma ensures_debit_reduction:
  assumes "valued t"
  shows "ensures s (debit_reduction t i debits item_10 required)
    (\<lambda>r. given debits \<and> given item_10 \<longrightarrow> given (snd r))"
proof -
  let ?c = "given debits \<and> given item_10"
  have note3: "ensures s (reduction_of t NOTE_E3 item_10) (\<lambda>r. ?c \<longrightarrow> given (snd r))"
    by (rule ensures_reduction_of [OF assms]) (auto simp: VALUE_RULES_def)
  have base: "ensures s (reduction_of t (if daily then DAILY_REDUCTION else WEEKLY_REDUCTION) debits)
      (\<lambda>r. ?c \<longrightarrow> given (snd r))" for daily
    by (rule ensures_reduction_of [OF assms]) (auto simp: VALUE_RULES_def)
  show ?thesis
    unfolding debit_reduction_def
    by (intro ensures_if ensures_no_pab_reduction note3 ensures_after base keeping)
qed

lemma ensures_deposit_factor:
  assumes "valued t"
  shows "ensures s (deposit_factor t i) given"
proof -
  have pab: "ensures s (pab_monthly t i) given"
    unfolding pab_monthly_def
    by (rule ensures_bind [OF ensures_read_present])
       (auto intro!: ensures_after keeping ensures_return split: option.split)
  have factor: "ensures s (read_value t MONTHLY_FACTOR) given"
    by (rule ensures_given_value [OF assms]) (simp add: VALUE_RULES_def)
  show ?thesis
    unfolding deposit_factor_def
    by (intro ensures_if pab ensures_return given_simps ensures_after [OF keeps_simple(7)]
        ensures_bind [OF factor] ensures_after [OF keeps_each] ensures_after [OF keeps_on_cond])
       (auto intro!: keeping ensures_return)
qed

lemma ensures_customer_excess:
  "ensures s (customer_excess_applied t i req) (\<lambda>a. given req \<longrightarrow> given a)"
  unfolding customer_excess_applied_def
  by (intro ensures_if ensures_return ensures_after [OF keeps_simple(6)] ensures_bind [OF ensures_read_present])
     (auto simp: given_def split: option.split)

text \<open>What counts of one deposit, and of all of them.\<close>

definition counted :: "rat \<Rightarrow> BankCashDeposit \<Rightarrow> rat" where
  "counted cap d = (if affiliated d then 0 else min (bd_amount d) (rnd28 (cap * the (bank_equity_capital d))))"

lemma ensures_deposit_counted:
  "ensures True (deposit_counted (Some cap) True d) (\<lambda>v. v = Some (counted cap d))"
  by (auto simp: deposit_counted_def counted_def intro!: ensures_return ensures_bind [OF ensures_findings(3)]
      split: option.split)

lemma sum_opt_Some [simp]: "sum_opt (map (\<lambda>x. Some (f x)) xs) = Some (dsum_from 28 0 (map f xs))"
  by (auto simp: sum_opt_def list_ex_iff o_def)

definition cap_of :: "RuleTable \<Rightarrow> rat" where
  "cap_of t = (case rule_get t BANK_EQUITY_CAP of None \<Rightarrow> 0 | Some it \<Rightarrow> the (ri_value it))"

lemma ensures_deposits:
  assumes "valued t"
  shows "ensures True (deposits t i) (\<lambda>r.
    \<exists>q x. r = (Some (rnd28 (dsum_from 28 0 (map (counted (cap_of t)) (cash_deposits i)) + q)), Some x) \<and>
      qualified_securities_deposit i = Some q)"
    (is "ensures True _ ?post")
proof -
  have cap: "ensures True (if cash_deposits i \<noteq> [] then read_value t BANK_EQUITY_CAP else State_Monad.return (Some 0))
      (\<lambda>v. cash_deposits i \<noteq> [] \<longrightarrow> v = Some (cap_of t))"
  proof (cases "cash_deposits i = []")
    case False
    have "BANK_EQUITY_CAP \<in> set VALUE_RULES" by (simp add: VALUE_RULES_def)
    with assms have "rule_get t BANK_EQUITY_CAP = Some it \<Longrightarrow> ri_value it \<noteq> None" for it
      unfolding valued_def by blast
    then have "ensures True (read_value t BANK_EQUITY_CAP) (\<lambda>v. v = Some (cap_of t))"
      by (intro ensures_weaken [OF ensures_read_value]) (auto simp: cap_of_def)
    with False show ?thesis by simp
  qed (auto intro: ensures_return)
  have aff: "ensures True (if list_ex affiliated (cash_deposits i) then read_present t AFFILIATED_EXCLUDED
      else State_Monad.return True) (\<lambda>v. v)"
    by (auto intro: ensures_return ensures_weaken [OF ensures_read_present])
  have all: "ensures True (gather (deposit_counted v a) (cash_deposits i))
      (\<lambda>vs. (cash_deposits i \<noteq> [] \<longrightarrow> v = Some (cap_of t)) \<and> a \<longrightarrow>
         vs = map (\<lambda>d. Some (counted (cap_of t) d)) (cash_deposits i))" for v a
  proof (cases "v = Some (cap_of t) \<and> a")
    case True
    then show ?thesis
      by (auto intro!: ensures_weaken [OF ensures_gather [OF ensures_deposit_counted]]
          simp: list_all2_conv_all_nth intro: nth_equalityI)
  next
    case False
    have "keeps True (deposit_counted v a d)" for d
      by (auto simp: deposit_counted_def intro!: keeping split: option.split)
    then have k: "keeps True (gather (deposit_counted v a) (cash_deposits i))"
      by (intro ensures_weaken [OF ensures_gather]) simp_all
    with False show ?thesis by (cases "cash_deposits i = []") (auto intro: ensures_weaken [OF k] ensures_return)
  qed
  have qual: "ensures True (on_cond (qualified_securities_deposit i = None) (missing_input ''qualified_securities_deposit''))
      (\<lambda>_. given (qualified_securities_deposit i))"
    by (rule ensures_weaken [OF ensures_on_cond [OF ensures_findings(3)]]) (auto simp: given_def)
  show ?thesis
    unfolding deposits_def
    by (rule ensures_bind [OF cap], rule ensures_bind [OF aff], rule ensures_bind [OF all], rule ensures_bind [OF qual],
        rule ensures_return) (auto simp: given_def)
qed

subsection \<open>The whole computation\<close>

definition funded :: "RuleTable \<Rightarrow> ReserveInputs \<Rightarrow> ReserveResult \<Rightarrow> bool" where
  "funded t i r \<longleftrightarrow>
     exhibit_agrees t i \<and> lines_supplied i \<and>
     daily_met i (res_daily_required r) \<and>
     total_credits r = line_total i EXHIBIT_A_CREDITS \<and> total_debits r = line_total i EXHIBIT_A_DEBITS \<and>
     shortfall r = Some 0 \<and>
     (\<exists>need q. requirement_after r = Some need \<and> qualified_securities_deposit i = Some q \<and>
        eligible_deposit r = Some (rnd28 (dsum_from 28 0 (map (counted (cap_of t)) (cash_deposits i)) + q)) \<and>
        need \<le> rnd28 (dsum_from 28 0 (map (counted (cap_of t)) (cash_deposits i)) + q))"

lemma shortfall_zero:
  "\<not> (case shortfall_of (Some a) (Some e) of None \<Rightarrow> False | Some x \<Rightarrow> x > 0) \<Longrightarrow>
   shortfall_of (Some a) (Some e) = Some 0 \<and> a \<le> e"
proof -
  assume "\<not> (case shortfall_of (Some a) (Some e) of None \<Rightarrow> False | Some x \<Rightarrow> x > 0)"
  then have n: "rnd28 (a - e) \<le> 0" by (simp add: shortfall_of_def minus_opt_def not_less)
  have "a \<le> e"
  proof (rule ccontr)
    assume "\<not> a \<le> e"
    then have "0 < rnd28 (a - e)" by (intro dround_pos) simp_all
    with n show False by simp
  qed
  with n show ?thesis by (simp add: shortfall_of_def minus_opt_def max_def)
qed

lemma lines_supplied_totals:
  "lines_supplied i \<Longrightarrow> given (line_total i EXHIBIT_A_CREDITS) \<and> given (line_total i EXHIBIT_A_DEBITS) \<and>
     given (supplied_amount i ITEM_10)"
  by (auto simp: lines_supplied_def line_total_def sum_opt_def modeled_lines_def list_ex_iff given_def
      EXHIBIT_A_DEBITS_def ITEM_10_def)

lemma reserve_needs:
  assumes "given credits" and "given debits" and "given red" and "given factor"
    and "given (requirement_of (minus_opt credits (minus_opt debits red)) factor) \<longrightarrow> given applied"
  shows "given (minus_opt (requirement_of (minus_opt credits (minus_opt debits red)) factor) applied)"
  using assms by (auto elim!: givenE simp: minus_opt_def requirement_of_def)

lemma ensures_reserve:
  assumes "valued t"
  shows "ensures True (reserve_run t i) (\<lambda>finish. \<forall>w. funded t i (finish w))"
  unfolding reserve_run_def Let_def case_prod_beta
  apply (rule ensures_bind [OF ensures_lines])
  apply (rule ensures_bind [OF ensures_daily [OF assms]])
  apply (rule ensures_bind [OF ensures_debit_reduction [OF assms]])
  apply (rule ensures_bind [OF ensures_deposit_factor [OF assms]])
  apply (rule ensures_bind [OF ensures_customer_excess])
  apply (rule ensures_bind [OF ensures_deposits [OF assms]])
  apply (rule ensures_bind [OF ensures_on_cond [OF ensures_findings(4)]])
  apply (rule ensures_return)
  apply (intro impI allI)
  subgoal premises p for ls required red factor applied dep u w
  proof -
    obtain q x where dep: "dep = (Some (rnd28 (dsum_from 28 0 (map (counted (cap_of t)) (cash_deposits i)) + q)), Some x)"
      and q: "qualified_securities_deposit i = Some q" using p(2) by blast
    have daily: "daily_met i required" using p by blast
    have l: "exhibit_agrees t i" "lines_supplied i" "fst ls = line_total i EXHIBIT_A_CREDITS"
      "fst (snd ls) = line_total i EXHIBIT_A_DEBITS" "snd (snd ls) = supplied_amount i ITEM_10"
      using p(7) by (auto simp: case_prod_beta)
    note g = lines_supplied_totals [OF l(2)]
    have "given (snd red)" using p(5) g l by simp
    then have "given (minus_opt (requirement_of (minus_opt (fst ls) (minus_opt (fst (snd ls)) (snd red))) factor) applied)"
      using p(3,4) g l by (intro reserve_needs) simp_all
    then obtain need where need:
      "minus_opt (requirement_of (minus_opt (fst ls) (minus_opt (fst (snd ls)) (snd red))) factor) applied = Some need"
      by (elim givenE)
    from p(1) have "\<not> (case shortfall_of (Some need) (fst dep) of None \<Rightarrow> False | Some x \<Rightarrow> x > 0)"
      unfolding need by simp
    from shortfall_zero [OF this [unfolded dep fst_conv]] show ?thesis
      by (simp add: funded_def l need [unfolded l] dep q daily)
  qed
  done

lemma compute_reserve_runs:
  obtains finish w where "run_state (reserve_run t i) empty_log = (finish, w)" "compute_reserve i t = finish w"
  by (cases "run_state (reserve_run t i) empty_log") (auto simp: compute_reserve_def)

lemma keeps_reserve_rest:
  "keeps s (debit_reduction t i debits item_10 required)" "keeps s (deposit_factor t i)"
  "keeps s (customer_excess_applied t i req)" "keeps s (deposits t i)"
proof -
  have g: "keeps s (gather f xs)" if "\<And>x. keeps s (f x)" for f :: "BankCashDeposit \<Rightarrow> rat option reading" and xs
    by (rule ensures_weaken [OF ensures_gather [OF that]]) simp
  show "keeps s (debit_reduction t i debits item_10 required)"
    by (auto simp: debit_reduction_def no_pab_reduction_def reduction_of_def intro!: keeping)
  show "keeps s (deposit_factor t i)"
    by (auto simp: deposit_factor_def pab_monthly_def intro!: keeping split: option.split prod.split)
  show "keeps s (customer_excess_applied t i req)"
    by (auto simp: customer_excess_applied_def intro!: keeping)
  show "keeps s (deposits t i)"
    by (auto simp: deposits_def deposit_counted_def intro!: keeping g split: option.split)
qed

lemma reserve_run_fields:
  "yields (reserve_run t i) (\<lambda>finish. \<forall>w.
     res_disposition (finish w) = decide (missing_rules w @ unrecognised w) (missing_inputs w) (breaches w))"
  unfolding reserve_run_def Let_def case_prod_beta
  by (rule yields_bind [OF yields_any])+ (auto intro: yields_return)

lemma reserve_disposition:
  assumes "run_state (reserve_run t i) empty_log = (finish, w)"
  shows "res_disposition (finish w) = Disposition.PASS \<longleftrightarrow> clean True w"
    and "res_disposition (finish w) \<noteq> Disposition.INDETERMINATE \<longleftrightarrow> clean False w"
  using yields_run [OF reserve_run_fields assms] by (simp_all add: decide_clean)

subsection \<open>Deposits count at most what they are\<close>

lemma yields_deposit_counted:
  "0 \<le> bd_amount d \<Longrightarrow> yields (deposit_counted cap a d) (\<lambda>v. \<forall>c. v = Some c \<longrightarrow> c \<le> bd_amount d)"
  by (auto simp: deposit_counted_def intro!: yields_return yields_bind [OF yields_any] split: option.split)

lemma sum_opt_le:
  assumes "list_all2 (\<lambda>d v. \<forall>c. v = Some c \<longrightarrow> c \<le> f d) ds vs" and "sum_opt vs = Some cash"
  shows "cash \<le> dsum_from 28 0 (map f ds)"
proof -
  have "cash = dsum_from 28 0 (map the vs)" and n: "\<forall>v \<in> set vs. v \<noteq> None"
    using assms(2) by (auto simp: sum_opt_def list_ex_iff split: if_splits) (metis option.exhaust)+
  moreover have "list_all2 (\<le>) (map the vs) (map f ds)"
    using assms(1) n by (induction ds vs rule: list_all2_induct) auto
  ultimately show ?thesis using dsum_mono [of "map the vs" "map f ds" 0 0] by simp
qed

definition counts_fairly :: "ReserveInputs \<Rightarrow> rat option \<Rightarrow> rat option \<Rightarrow> bool" where
  "counts_fairly i eligible excluded \<longleftrightarrow>
     (\<forall>e x. eligible = Some e \<and> excluded = Some x \<longrightarrow>
        0 \<le> x \<and> (\<exists>q. qualified_securities_deposit i = Some q \<and>
          e \<le> rnd28 (dsum_from 28 0 (map bd_amount (cash_deposits i)) + q)))"

lemma yields_deposits:
  assumes "reserve_inputs_ok i"
  shows "yields (deposits t i) (\<lambda>r. counts_fairly i (fst r) (snd r))"
proof -
  have "yields (gather (deposit_counted cap a) ds) (\<lambda>vs. list_all2 (\<lambda>d v. \<forall>c. v = Some c \<longrightarrow> c \<le> bd_amount d) ds vs)"
    if "\<forall>d \<in> set ds. 0 \<le> bd_amount d" for cap a ds
    using that
  proof (induction ds)
    case (Cons d ds)
    show ?case
      unfolding gather.simps
      by (rule yields_bind [OF yields_deposit_counted], use Cons.prems in simp,
          rule yields_bind [OF Cons.IH]) (use Cons.prems in \<open>auto intro: yields_return\<close>)
  qed (simp add: yields_return)
  then have g: "yields (gather (deposit_counted cap a) (cash_deposits i))
      (\<lambda>vs. list_all2 (\<lambda>d v. \<forall>c. v = Some c \<longrightarrow> c \<le> bd_amount d) (cash_deposits i) vs)" for cap a
    using assms by (simp add: reserve_inputs_ok_def)
  show ?thesis
    unfolding deposits_def
    by (rule yields_bind [OF yields_any], rule yields_bind [OF yields_any], rule yields_bind [OF g],
        rule yields_bind [OF yields_any], rule yields_return)
       (auto simp: counts_fairly_def dest!: sum_opt_le intro!: dround_mono dround_nonneg split: option.splits)
qed

lemma reserve_run_deposits:
  assumes "reserve_inputs_ok i"
  shows "yields (reserve_run t i)
    (\<lambda>finish. \<forall>w. counts_fairly i (eligible_deposit (finish w)) (excluded_deposit (finish w)))"
  unfolding reserve_run_def Let_def case_prod_beta
  by (rule yields_bind [OF yields_any], rule yields_bind [OF yields_any], rule yields_bind [OF yields_any],
      rule yields_bind [OF yields_any], rule yields_bind [OF yields_any],
      rule yields_bind [OF yields_deposits [OF assms]], rule yields_bind [OF yields_any])
     (auto intro: yields_return)

subsection \<open>What the reserve computation promises\<close>

text \<open>
  C27: PASS means funded. When the rules with figures carry them, a computation that passes had every
  Exhibit A line loaded and supplied, decided and met the daily requirement, and found that the
  deposit that counts, cash up to the equity cap and qualified securities, covers the requirement
  left after customer excess debits: the shortfall it states is zero.\<close>

theorem reserve_pass_is_funded:
  assumes "valued t" and "res_disposition (compute_reserve i t) = Disposition.PASS"
  shows "funded t i (compute_reserve i t)"
proof -
  obtain finish w where r: "run_state (reserve_run t i) empty_log = (finish, w)" "compute_reserve i t = finish w"
    by (rule compute_reserve_runs)
  from assms(2) have "clean True w" using reserve_disposition(1) [OF r(1)] r(2) by simp
  from ensures_pass [OF ensures_reserve [OF assms(1)] r(1) this] r(2) show ?thesis by simp
qed

text \<open>
  A missing rule is never hidden. A computation that is not INDETERMINATE found every modelled
  Exhibit A line in the loaded table, no line in the loaded Exhibit A that is not modelled, and no
  supplied line that is not one of them.\<close>

theorem reserve_hides_no_rule:
  assumes "res_disposition (compute_reserve i t) \<noteq> Disposition.INDETERMINATE"
  shows "exhibit_agrees t i"
proof -
  have k: "ensures False (reserve_run t i) (\<lambda>_. exhibit_agrees t i)"
    unfolding reserve_run_def
    by (rule ensures_bind [OF ensures_lines], rule ensures_weaken [where P = "\<lambda>_. True"])
       (auto simp: case_prod_beta Let_def intro!: keeping keeps_reserve_rest)
  obtain finish w where r: "run_state (reserve_run t i) empty_log = (finish, w)" "compute_reserve i t = finish w"
    by (rule compute_reserve_runs)
  from assms have "clean False w" using reserve_disposition(2) [OF r(1)] r(2) by simp
  from ensures_pass [OF k r(1) this] show ?thesis .
qed

text \<open>
  The deposit never counts for more than it is. For inputs whose amounts are not negative,
  whenever an eligible deposit is stated, the excluded amount is not negative and the eligible
  deposit is at most the sum of all cash and the qualified securities, each rounded as Python adds
  them, whatever the table says.\<close>

theorem reserve_deposit_never_overcounts:
  assumes "reserve_inputs_ok i"
    and "eligible_deposit (compute_reserve i t) = Some e" and "excluded_deposit (compute_reserve i t) = Some x"
  shows "0 \<le> x \<and> (\<exists>q. qualified_securities_deposit i = Some q \<and>
    e \<le> rnd28 (dsum_from 28 0 (map bd_amount (cash_deposits i)) + q))"
proof -
  obtain finish w where r: "run_state (reserve_run t i) empty_log = (finish, w)" "compute_reserve i t = finish w"
    by (rule compute_reserve_runs)
  from yields_run [OF reserve_run_deposits [OF assms(1)] r(1)] assms(2,3) r(2)
  show ?thesis by (auto simp: counts_fairly_def)
qed

subsection \<open>Witnesses\<close>

text \<open>A weekly customer computation with 100 of credits and 150 of qualified securities.\<close>

definition w_item :: "string \<Rightarrow> RuleKind \<Rightarrow> rat option \<Rightarrow> RuleItem" where
  "w_item rid k v = \<lparr>ri_id = rid, ri_kind = k, ri_citation = ''c'', ri_source_id = ''s'', source_file = ''f'',
     source_label = RULE, ri_sha256 = ''h'', ri_retrieval_dtg = ''d'', effective_date = None,
     ri_compliance_date = None, ri_quote = ''q'', ri_value = v\<rparr>"

definition w_table :: "rat option \<Rightarrow> RuleTable" where
  "w_table cap = \<lparr>table_version = ''1'', table_digest = ''d'', rule_sources = [],
     items = map (\<lambda>r. w_item r EXHIBIT_A_CREDIT None) EXHIBIT_A_CREDITS @
       map (\<lambda>r. w_item r EXHIBIT_A_DEBIT None) EXHIBIT_A_DEBITS @
       [w_item DAILY_THRESHOLD USD (Some 500), w_item NOTE_E3 PERCENT (Some (1 / 100)),
        w_item BANK_EQUITY_CAP PERCENT cap],
     rejected = []\<rparr>"

definition w_reserve :: "BankCashDeposit list \<Rightarrow> ReserveInputs" where
  "w_reserve cash = \<lparr>accounts_kind = CUSTOMER, as_of = 739797, standard = AGGREGATE_INDEBTEDNESS, mode = WEEKLY,
     lines = map (\<lambda>r. \<lparr>lb_rule_id = r, lb_amount = Some (if r = hd EXHIBIT_A_CREDITS then 100 else 0)\<rparr>)
       (EXHIBIT_A_CREDITS @ EXHIBIT_A_DEBITS),
     average_total_credits = Some 100, daily_requirement_effective_date = None,
     previously_daily_required = Some False, daily_exit_notice_date = None,
     voluntary_daily_notice_date = None, aggregate_indebtedness = None, ri_net_capital = None,
     aggregate_customer_funds = None, carries_customer_accounts = None,
     conducts_proprietary_trading_business = None, pab_last_monthly_required_additional_deposit = None,
     pab_clean_weekly_computations = None, cash_deposits = cash, qualified_securities_deposit = Some 150,
     customer_excess_debits = None, customer_computation_as_of = None\<rparr>"

definition w_cash :: "BankCashDeposit list" where
  "w_cash = [\<lparr>bank = ''B'', bd_amount = 40, affiliated = False, bank_equity_capital = Some 100\<rparr>]"

lemma w_table_get:
  "rid \<in> modeled_lines \<Longrightarrow> \<exists>i. rule_get (w_table cap) rid = Some i"
  "rule_get (w_table cap) DAILY_THRESHOLD = Some (w_item DAILY_THRESHOLD USD (Some 500))"
  "rule_get (w_table cap) NOTE_E3 = Some (w_item NOTE_E3 PERCENT (Some (1 / 100)))"
  "rule_get (w_table cap) BANK_EQUITY_CAP = Some (w_item BANK_EQUITY_CAP PERCENT cap)"
proof -
  assume "rid \<in> modeled_lines"
  then have "rid \<in> ri_id ` set (items (w_table cap))"
    by (simp add: modeled_lines_def w_table_def w_item_def image_Un image_image)
  then have "\<exists>i \<in> set (items (w_table cap)). ri_id i = rid" by blast
  then show "\<exists>i. rule_get (w_table cap) rid = Some i"
    unfolding rule_get_def by (metis (mono_tags, lifting) find_None_iff2 not_None_eq)
qed (simp_all add: rule_get_def w_table_def w_item_def EXHIBIT_A_CREDITS_def EXHIBIT_A_DEBITS_def NOTE_E3_def
    DAILY_THRESHOLD_def BANK_EQUITY_CAP_def)

lemma w_supplied: "rid \<in> modeled_lines \<Longrightarrow> supplied_amount (w_reserve cash) rid = Some (if rid = hd EXHIBIT_A_CREDITS then 100 else 0)"
  by (auto simp: modeled_lines_def supplied_amount_def supplied_def w_reserve_def EXHIBIT_A_CREDITS_def EXHIBIT_A_DEBITS_def)

lemma w_hundred: "rnd28 100 = 100" "rnd28 0 = 0" "rnd28 40 = 40" "rnd28 15 = 15" "rnd28 165 = 165" "rnd28 150 = 150" "rnd28 25 = 25"
  using dround_of_int [of 100 28] dround_of_int [of 40 28] dround_of_int [of 15 28] dround_of_int [of 165 28]
    dround_of_int [of 150 28] dround_of_int [of 25 28] by simp_all

lemma w_lines: "succeeds (reserve_lines (w_table cap) (w_reserve cash)) (Some 100, Some 0, Some 0)"
proof -
  let ?f = "\<lambda>rid. Some (if rid = hd EXHIBIT_A_CREDITS then 100 else 0 :: rat)"
  have ids: "map ri_id (rules_of_kind (w_table cap) EXHIBIT_A_CREDIT) @ map ri_id (rules_of_kind (w_table cap) EXHIBIT_A_DEBIT) =
      EXHIBIT_A_CREDITS @ EXHIBIT_A_DEBITS"
    by (simp add: rules_of_kind_def w_table_def w_item_def o_def)
  have g: "succeeds (gather (balance_line (w_table cap) (w_reserve cash)) rids) (map ?f rids)" if "set rids \<subseteq> modeled_lines" for rids
  proof (rule succeeds_gather)
    fix rid assume "rid \<in> set rids"
    then have m: "rid \<in> modeled_lines" using that by auto
    from w_table_get(1) [OF m] obtain i where "rule_get (w_table cap) rid = Some i" ..
    then show "succeeds (balance_line (w_table cap) (w_reserve cash) rid) (?f rid)"
      unfolding balance_line_def w_supplied [OF m]
      by (intro succeeds_bind [OF succeeds_read_present] succeeds_bind [OF succeeds_on_cond])
         (simp_all add: succeeds_return)
  qed
  have "sum_opt (map ?f EXHIBIT_A_CREDITS) = Some 100" "sum_opt (map ?f EXHIBIT_A_DEBITS) = Some 0"
    by (simp_all add: sum_opt_def EXHIBIT_A_CREDITS_def EXHIBIT_A_DEBITS_def w_hundred)
  moreover have "supplied_amount (w_reserve cash) ITEM_10 = Some 0"
    by (subst w_supplied) (simp_all add: modeled_lines_def ITEM_10_def EXHIBIT_A_CREDITS_def EXHIBIT_A_DEBITS_def)
  ultimately have r: "(Some 100, Some 0, Some 0) = (sum_opt (map ?f EXHIBIT_A_CREDITS), sum_opt (map ?f EXHIBIT_A_DEBITS),
      supplied_amount (w_reserve cash) ITEM_10)" by simp
  show ?thesis
    unfolding reserve_lines_def ids r
    by (intro succeeds_bind [OF succeeds_each] succeeds_bind [OF g] succeeds_return succeeds_on_cond)
       (auto simp: modeled_lines_def w_reserve_def)
qed

definition w_result :: "worklog \<Rightarrow> rat option \<Rightarrow> rat option \<Rightarrow> rat option \<Rightarrow> ReserveResult" where
  "w_result w e x short =
     \<lparr>res_accounts = CUSTOMER, res_as_of = 739797,
      res_disposition = decide (missing_rules w @ unrecognised w) (missing_inputs w) (breaches w),
      total_credits = Some 100, total_debits = Some 0, debit_reduction_rate = Some (1 / 100),
      res_debit_reduction = Some 0, net_debits = Some 0, excess_of_credits = Some 100,
      res_deposit_factor = Some 1, requirement = Some 100, excess_debits = Some 0,
      customer_excess_debits_applied = Some 0, requirement_after = Some 100, eligible_deposit = e,
      excluded_deposit = x, shortfall = short, res_daily_required = Some False,
      res_missing_rules = missing_rules w, res_missing_inputs = sorted_set (missing_inputs w),
      res_unrecognised = unrecognised w, res_breaches = breaches w, res_reasons = reasons w,
      res_rules_used = rules_used w\<rparr>"

lemma w_reserve_run:
  assumes "succeeds (deposits (w_table cap) (w_reserve cash)) (e, x)"
    and "shortfall_of (Some 100) e = short" and "short = None \<or> short = Some 0"
  shows "succeeds (reserve_run (w_table cap) (w_reserve cash)) (\<lambda>w. w_result w e x short)"
proof -
  have d: "succeeds (daily_required (w_table cap) (w_reserve cash)) (Some False)"
    unfolding daily_required_def
    by (rule succeeds_bind [OF succeeds_read_value [OF w_table_get(2)]])
       (auto simp: w_reserve_def w_item_def daily_against_def check_daily_def
         intro!: succeeds_bind [OF succeeds_on_cond] succeeds_return)
  have r: "succeeds (debit_reduction (w_table cap) (w_reserve cash) (Some 0) (Some 0) (Some False)) (Some (1 / 100), Some 0)"
    by (simp add: debit_reduction_def w_reserve_def reduction_of_def)
       (rule succeeds_bind [OF succeeds_read_value [OF w_table_get(3)]], simp add: w_item_def succeeds_return)
  have f: "succeeds (deposit_factor (w_table cap) (w_reserve cash)) (Some 1)"
    by (simp add: deposit_factor_def w_reserve_def succeeds_return)
  have a: "succeeds (customer_excess_applied (w_table cap) (w_reserve cash) req) (Some 0)" for req
    by (simp add: customer_excess_applied_def w_reserve_def succeeds_return)
  have k: "accounts_kind (w_reserve cash) = CUSTOMER" "as_of (w_reserve cash) = 739797" by (simp_all add: w_reserve_def)
  have v: "minus_opt (Some 0) (Some 0) = Some 0" "minus_opt (Some 100) (Some 0) = Some 100"
    "requirement_of (Some 100) (Some 1) = Some 100"
    by (simp_all add: minus_opt_def requirement_of_def w_hundred)
  show ?thesis
    unfolding reserve_run_def
    apply (rule succeeds_bind [OF w_lines])
    apply (simp only: prod.case)
    apply (rule succeeds_bind [OF d])
    apply (rule succeeds_bind [OF r])
    apply (simp only: prod.case)
    apply (rule succeeds_bind [OF f])
    apply (simp only: Let_def v)
    apply (rule succeeds_bind [OF a])
    apply (simp only: v)
    apply (rule succeeds_bind [OF assms(1)])
    apply (simp only: prod.case assms(2))
    apply (rule succeeds_bind [OF succeeds_on_cond])
    using assms(3) apply auto[1]
    apply (simp add: w_result_def [abs_def] k succeeds_return)
    done
qed

lemma w_deposits:
  "succeeds (deposits (w_table (Some (15 / 100))) (w_reserve w_cash)) (Some 165, Some 25)"
  "succeeds (deposits (w_table None) (w_reserve w_cash)) (None, None)"
proof -
  have c: "cash_deposits (w_reserve w_cash) = w_cash" "qualified_securities_deposit (w_reserve w_cash) = Some 150"
    by (simp_all add: w_reserve_def)
  have g: "succeeds (gather (deposit_counted cap True) w_cash) [map_option (\<lambda>c. min 40 (rnd28 (c * 100))) cap]" for cap
    unfolding w_cash_def
    using succeeds_gather [of w_cash "deposit_counted cap True" "\<lambda>_. map_option (\<lambda>c. min 40 (rnd28 (c * 100))) cap"]
    by (simp add: w_cash_def deposit_counted_def succeeds_return split: option.split)
  have n: "\<not> list_ex affiliated w_cash" "w_cash \<noteq> []" by (simp_all add: w_cash_def)
  have step: "succeeds (deposits (w_table cap) (w_reserve w_cash)) r"
    if "r = (case (sum_opt [map_option (\<lambda>c. min 40 (rnd28 (c * 100))) cap], Some 150) of
        (Some cash, Some q) \<Rightarrow> (Some (rnd28 (cash + q)), Some (rnd28 (dsum_from 28 0 (map bd_amount w_cash) - cash)))
      | _ \<Rightarrow> (None, None))" for cap r
    unfolding deposits_def c that
    by (rule succeeds_bind [where v = cap], use n succeeds_read_value [OF w_table_get(4)] in \<open>simp add: w_item_def\<close>,
        rule succeeds_bind [where v = True], use n in \<open>simp add: succeeds_return\<close>,
        rule succeeds_bind [OF g], rule succeeds_bind [OF succeeds_on_cond], simp, rule succeeds_return)
  show "succeeds (deposits (w_table (Some (15 / 100))) (w_reserve w_cash)) (Some 165, Some 25)"
    "succeeds (deposits (w_table None) (w_reserve w_cash)) (None, None)"
    by (rule step, simp add: sum_opt_def w_hundred w_cash_def)+
qed

lemma w_valued: "valued (w_table (Some (15 / 100)))"
  by (auto simp: valued_def VALUE_RULES_def rule_get_def w_table_def w_item_def EXHIBIT_A_CREDITS_def
      EXHIBIT_A_DEBITS_def DAILY_THRESHOLD_def DAILY_EXIT_NOTICE_def VOLUNTARY_NOTICE_def NOTE_E3_def
      WEEKLY_REDUCTION_def DAILY_REDUCTION_def PAB_MONTHLY_RECOVERY_def MONTHLY_AI_CEILING_def
      MONTHLY_FUNDS_CEILING_def MONTHLY_FACTOR_def BANK_EQUITY_CAP_def)
     (rule exI [of _ "1 / 100"], simp, rule exI [of _ "3 / 20"], simp)

lemma w_computed_result:
  "\<exists>w. compute_reserve (w_reserve w_cash) (w_table (Some (15 / 100))) = w_result w (Some 165) (Some 25) (Some 0) \<and> clean True w"
  "\<exists>w. compute_reserve (w_reserve w_cash) (w_table None) = w_result w None None None \<and> clean True w"
proof -
  have s: "shortfall_of (Some 100) (Some 165) = Some 0" "shortfall_of (Some 100) None = None"
    by (simp_all add: shortfall_of_def minus_opt_def max_def)
  note r = w_reserve_run [OF w_deposits(1) s(1)] w_reserve_run [OF w_deposits(2) s(2)]
  show "\<exists>w. compute_reserve (w_reserve w_cash) (w_table (Some (15 / 100))) = w_result w (Some 165) (Some 25) (Some 0) \<and> clean True w"
    by (rule compute_reserve_runs [of "w_table (Some (15 / 100))" "w_reserve w_cash"])
       (use succeeds_clean [OF r(1)] in auto)
  show "\<exists>w. compute_reserve (w_reserve w_cash) (w_table None) = w_result w None None None \<and> clean True w"
    by (rule compute_reserve_runs [of "w_table None" "w_reserve w_cash"]) (use succeeds_clean [OF r(2)] in auto)
qed

lemma w_result_passes: "clean True w \<Longrightarrow> res_disposition (w_result w e x short) = Disposition.PASS"
  using decide_clean(1) [of w] by (simp add: w_result_def)

text \<open>
  A PASS need not state a shortfall. An item that is loaded without a figure is read as no
  figure and is not recorded as missing: with the equity cap loaded that way, a computation with
  cash on deposit passes although it states neither an eligible deposit nor a shortfall. The loader
  pairs figures with kinds; the engine does not check the kind of an item it reads.
\<close>

theorem reserve_can_pass_without_a_figure:
  "\<exists>t i. reserve_inputs_ok i \<and> res_disposition (compute_reserve i t) = Disposition.PASS \<and>
     eligible_deposit (compute_reserve i t) = None \<and> shortfall (compute_reserve i t) = None"
proof -
  obtain w where "compute_reserve (w_reserve w_cash) (w_table None) = w_result w None None None" "clean True w"
    using w_computed_result(2) by blast
  moreover have "reserve_inputs_ok (w_reserve w_cash)"
    by (simp add: reserve_inputs_ok_def nonneg_opt_def w_reserve_def w_cash_def EXHIBIT_A_CREDITS_def EXHIBIT_A_DEBITS_def)
  ultimately show ?thesis
    using w_result_passes [of w] by (intro exI [of _ "w_table None"] exI [of _ "w_reserve w_cash"]) (simp add: w_result_def)
qed

theorem reserve_pass_is_funded_witness:
  "shortfall (compute_reserve (w_reserve w_cash) (w_table (Some (15 / 100)))) = Some 0"
proof -
  obtain w where "compute_reserve (w_reserve w_cash) (w_table (Some (15 / 100))) = w_result w (Some 165) (Some 25) (Some 0)"
    "clean True w" using w_computed_result(1) by blast
  then have "res_disposition (compute_reserve (w_reserve w_cash) (w_table (Some (15 / 100)))) = Disposition.PASS"
    using w_result_passes by simp
  from reserve_pass_is_funded [OF w_valued this] show ?thesis by (simp add: funded_def)
qed

theorem reserve_hides_no_rule_witness: "exhibit_agrees (w_table (Some (15 / 100))) (w_reserve w_cash)"
proof (rule reserve_hides_no_rule)
  obtain w where "compute_reserve (w_reserve w_cash) (w_table (Some (15 / 100))) = w_result w (Some 165) (Some 25) (Some 0)"
    "clean True w" using w_computed_result(1) by blast
  then show "res_disposition (compute_reserve (w_reserve w_cash) (w_table (Some (15 / 100)))) \<noteq> Disposition.INDETERMINATE"
    using w_result_passes [of w] by simp
qed

theorem reserve_deposit_never_overcounts_witness: "(0 :: rat) \<le> 25 \<and> (165 :: rat) \<le> rnd28 (40 + 150)"
proof -
  obtain w where w: "compute_reserve (w_reserve w_cash) (w_table (Some (15 / 100))) = w_result w (Some 165) (Some 25) (Some 0)"
    using w_computed_result(1) by blast
  have "reserve_inputs_ok (w_reserve w_cash)"
    by (simp add: reserve_inputs_ok_def nonneg_opt_def w_reserve_def w_cash_def EXHIBIT_A_CREDITS_def EXHIBIT_A_DEBITS_def)
  from reserve_deposit_never_overcounts [OF this, of "w_table (Some (15 / 100))" 165 25]
  show ?thesis by (simp add: w w_result_def w_reserve_def w_cash_def w_hundred)
qed

end
