(* ===== verification/CP_Control_Props.thy ===== *)
theory CP_Control_Props
  imports CP_Control CP_Reader
begin

text \<open>
  What the possession-or-control check promises: PASS means every issue is where the rule says it
  must be and adds up to the books, and the three location totals partition the holdings.
\<close>

definition control_locations :: "RuleTable \<Rightarrow> string set" where
  "control_locations t = set (map ri_id (rules_of_kind t CONTROL_LOCATION))"

definition noncontrol_locations :: "RuleTable \<Rightarrow> string set" where
  "noncontrol_locations t = set (map ri_id (rules_of_kind t NONCONTROL_LOCATION))"

subsection \<open>The tally\<close>

definition held_at :: "(string \<Rightarrow> bool) \<Rightarrow> Holding list \<Rightarrow> rat list" where
  "held_at P hs = map ho_quantity (filter (\<lambda>h. P (location h)) hs)"

lemma held_at_simps [simp]:
  "held_at P [] = []"
  "held_at P (h # hs) = (if P (location h) then ho_quantity h # held_at P hs else held_at P hs)"
  by (simp_all add: held_at_def)

definition tallied :: "string set \<Rightarrow> string set \<Rightarrow> rat \<times> rat \<times> rat \<Rightarrow> Holding list \<Rightarrow> rat \<times> rat \<times> rat" where
  "tallied C N acc hs =
     (dsum_from 28 (fst acc) (held_at (\<lambda>l. l \<in> C) hs),
      dsum_from 28 (fst (snd acc)) (held_at (\<lambda>l. l \<in> N \<and> l \<notin> C) hs),
      dsum_from 28 (snd (snd acc)) (held_at (\<lambda>l. l \<notin> C \<and> l \<notin> N) hs))"

lemma yields_tally: "yields (tally t C N acc hs) (\<lambda>r. r = tallied C N acc hs)"
proof (induction hs arbitrary: acc)
  case Nil
  then show ?case by (simp add: yields_return tallied_def)
next
  case (Cons h hs)
  obtain c n u where acc: "acc = (c, n, u)" by (cases acc)
  have step: "yields (State_Monad.bind m (\<lambda>_. tally t C N acc' hs)) (\<lambda>r. r = tallied C N acc' hs)" for acc' and m :: "'b reading"
    by (rule yields_bind [OF yields_any]) (rule Cons.IH)
  show ?case
    by (cases "location h \<in> C"; cases "location h \<in> N")
       (auto simp: acc tallied_def intro!: yields_weaken [OF step])
qed

lemma ensures_tally:
  "ensures s (tally t C N acc hs) (\<lambda>_. \<forall>h \<in> set hs. location h \<in> C \<union> N)"
proof (induction hs arbitrary: acc)
  case Nil
  then show ?case by (auto intro: ensures_return)
next
  case (Cons h hs)
  obtain c n u where acc: "acc = (c, n, u)" by (cases acc)
  have keep: "ensures s (State_Monad.bind (read_present t x) (\<lambda>_. tally t C N acc' hs)) (\<lambda>_. \<forall>h \<in> set hs. location h \<in> C \<union> N)" for acc' x
    by (rule ensures_after [OF keeps_simple(8)]) (rule Cons.IH)
  have bad: "ensures s (State_Monad.bind (flag x) (\<lambda>_. tally t C N acc' hs)) (\<lambda>_. False)" for acc' x
    by (rule ensures_bind [OF ensures_findings(1)]) (rule ensures_weaken [OF Cons.IH], simp)
  show ?case
    by (cases "location h \<in> C"; cases "location h \<in> N")
       (auto simp: acc intro!: ensures_weaken [OF keep] ensures_weaken [OF bad])
qed

subsection \<open>An issue that passes\<close>

definition issue_controlled :: "string set \<Rightarrow> string set \<Rightarrow> IssueRequirement \<Rightarrow> bool" where
  "issue_controlled C N q \<longleftrightarrow>
     (\<forall>h \<in> set (holdings q). location h \<in> C \<union> N) \<and>
     (\<exists>fp em b. fully_paid q = Some fp \<and> excess_margin q = Some em \<and> books_total q = Some b \<and>
        (case tallied C N (0, 0, 0) (holdings q) of (c, n, u) \<Rightarrow>
           rnd28 (rnd28 (c + n) + u) = b \<and> rnd28 (fp + em) \<le> c))"

lemma ensures_three:
  "ensures True (each (\<lambda>(name, v). on_cond (v = None) (missing_input (f name))) [(a, x), (b, y), (c, z)])
     (\<lambda>_. given x \<and> given y \<and> given z)"
proof (rule ensures_weaken [OF ensures_each])
  show "ensures True (case p of (name, v) \<Rightarrow> on_cond (v = None) (missing_input (f name))) (\<lambda>_. given (snd p))" for p
    by (cases p) (auto simp: given_def intro!: ensures_weaken [OF ensures_on_cond [OF ensures_findings(3)]])
qed auto

lemma not_short: "\<not> max (rnd28 (r - c)) 0 > 0 \<Longrightarrow> r \<le> c"
proof (rule ccontr)
  assume n: "\<not> max (rnd28 (r - c)) 0 > 0" and "\<not> r \<le> c"
  then have "0 < rnd28 (r - c)" by (intro dround_pos) simp_all
  with n show False by simp
qed

lemma keeps_control_action [keeping]: "keeps s (control_action t iss h)"
  by (auto simp: control_action_def lien_action_def aged_action_def intro!: keeping split: option.split)

lemma ensures_issue_actions:
  "ensures True (issue_actions t N q c)
     (\<lambda>_. \<not> (case issue_shortfall q c of None \<Rightarrow> False | Some s \<Rightarrow> s > 0))"
proof -
  have "keeps True (gather (control_action t (issue q)) hs)" for hs
    by (rule ensures_weaken [OF ensures_gather [OF keeps_control_action]]) simp
  then have "ensures True (State_Monad.bind (breach ''not in possession or control'' (issue q))
      (\<lambda>_. gather (control_action t (issue q)) hs)) (\<lambda>_. False)" for hs
    by (intro ensures_bind [OF ensures_findings(4)]) (auto intro: ensures_weaken)
  then show ?thesis
    unfolding issue_actions_def by (intro ensures_if ensures_return) (auto intro: ensures_weaken)
qed

lemma ensures_judge_issue:
  "ensures True (judge_issue t N q c n u)
     (\<lambda>_. issue_conserved q c n u \<noteq> Some False \<and>
        \<not> (case issue_shortfall q c of None \<Rightarrow> False | Some s \<Rightarrow> s > 0))"
  unfolding judge_issue_def
  by (rule ensures_bind [OF ensures_on_cond [OF ensures_findings(4)]],
      rule ensures_bind [OF ensures_issue_actions], rule ensures_return) auto

lemma ensures_check_issue: "ensures True (check_issue t C N q) (\<lambda>_. issue_controlled C N q)"
  unfolding check_issue_def
proof (rule ensures_bind [OF ensures_three], rule ensures_bind [OF ensures_conj [OF ensures_tally yields_tally]],
    rule ensures_weaken [OF ensures_judge_issue], intro impI, goal_cases)
  case (1 _ r _)
  then show ?case
    by (cases r) (auto simp: issue_controlled_def issue_conserved_def issue_shortfall_def plus_opt_def case_prod_beta
        elim!: givenE dest!: not_short)
qed

subsection \<open>Exact quantities\<close>

definition exact_issue :: "int \<Rightarrow> IssueRequirement \<Rightarrow> bool" where
  "exact_issue k q \<longleftrightarrow>
     (\<forall>h \<in> set (holdings q). on_grid k (ho_quantity h) \<and> 0 \<le> ho_quantity h) \<and>
     (\<Sum>h\<leftarrow>holdings q. ho_quantity h) \<le> 10 powi (k + 28) \<and>
     (\<forall>fp em. fully_paid q = Some fp \<and> excess_margin q = Some em \<longrightarrow>
        on_grid k fp \<and> on_grid k em \<and> 0 \<le> fp \<and> 0 \<le> em \<and> fp + em \<le> 10 powi (k + 28))"

definition held_sum :: "(string \<Rightarrow> bool) \<Rightarrow> IssueRequirement \<Rightarrow> rat" where
  "held_sum P q = (\<Sum>h\<leftarrow>filter (\<lambda>h. P (location h)) (holdings q). ho_quantity h)"

lemma held_sum_all: "held_sum (\<lambda>_. True) q = (\<Sum>h\<leftarrow>holdings q. ho_quantity h)"
  by (simp add: held_sum_def)

lemma held_sum_split:
  "held_sum (\<lambda>l. l \<in> C) q + held_sum (\<lambda>l. l \<in> N \<and> l \<notin> C) q + held_sum (\<lambda>l. l \<notin> C \<and> l \<notin> N) q =
     (\<Sum>h\<leftarrow>holdings q. ho_quantity h)"
proof -
  have "(\<Sum>h\<leftarrow>filter (\<lambda>h. location h \<in> C) hs. ho_quantity h) +
      (\<Sum>h\<leftarrow>filter (\<lambda>h. location h \<in> N \<and> location h \<notin> C) hs. ho_quantity h) +
      (\<Sum>h\<leftarrow>filter (\<lambda>h. location h \<notin> C \<and> location h \<notin> N) hs. ho_quantity h) = (\<Sum>h\<leftarrow>hs. ho_quantity h)" for hs
    by (induction hs) auto
  then show ?thesis by (simp add: held_sum_def)
qed

lemma held_sum_facts:
  assumes "exact_issue k q"
  shows "dsum_from 28 0 (held_at P (holdings q)) = held_sum P q"
    and "0 \<le> held_sum P q" and "held_sum P q \<le> 10 powi (k + 28)" and "on_grid k (held_sum P q)"
proof -
  have h: "\<forall>h \<in> set (holdings q). on_grid k (ho_quantity h) \<and> 0 \<le> ho_quantity h"
    and s: "(\<Sum>h\<leftarrow>holdings q. ho_quantity h) \<le> 10 powi (k + 28)"
    using assms by (auto simp: exact_issue_def)
  have "(\<Sum>x\<leftarrow>hs. \<bar>ho_quantity x\<bar>) = (\<Sum>h\<leftarrow>hs. ho_quantity h)" if "\<forall>h \<in> set hs. 0 \<le> ho_quantity h" for hs
    using that by (induction hs) auto
  from this [of "holdings q"] h s have a: "(\<Sum>x\<leftarrow>holdings q. \<bar>ho_quantity x\<bar>) \<le> 10 powi (k + 28)" by auto
  show "dsum_from 28 0 (held_at P (holdings q)) = held_sum P q"
    unfolding held_at_def held_sum_def by (rule dsum_filter_exact [of _ k]) (use h a in auto)
  have nn: "0 \<le> (\<Sum>h\<leftarrow>filter (\<lambda>h. P (location h)) hs. ho_quantity h) \<and>
      (\<Sum>h\<leftarrow>filter (\<lambda>h. P (location h)) hs. ho_quantity h) \<le> (\<Sum>h\<leftarrow>hs. ho_quantity h)"
    if "\<forall>h \<in> set hs. 0 \<le> ho_quantity h" for hs
    using that by (induction hs) (auto simp: add_increasing)
  from nn [of "holdings q"] h s show "0 \<le> held_sum P q" "held_sum P q \<le> 10 powi (k + 28)"
    by (auto simp: held_sum_def)
  have "on_grid k (\<Sum>h\<leftarrow>filter (\<lambda>h. P (location h)) hs. ho_quantity h)"
    if "\<forall>h \<in> set hs. on_grid k (ho_quantity h)" for hs
    using that by (induction hs) auto
  from this [of "holdings q"] h show "on_grid k (held_sum P q)" by (auto simp: held_sum_def)
qed

lemma exact_rounding: "on_grid k x \<Longrightarrow> 0 \<le> x \<Longrightarrow> x \<le> 10 powi (k + 28) \<Longrightarrow> rnd28 x = x"
  by (rule dround_on_grid [of k]) simp_all

lemma tallied_exact:
  assumes "exact_issue k q"
  shows "tallied C N (0, 0, 0) (holdings q) =
    (held_sum (\<lambda>l. l \<in> C) q, held_sum (\<lambda>l. l \<in> N \<and> l \<notin> C) q, held_sum (\<lambda>l. l \<notin> C \<and> l \<notin> N) q)"
  by (simp add: tallied_def held_sum_facts(1) [OF assms])

lemma tallied_total:
  assumes "exact_issue k q" and "tallied C N (0, 0, 0) (holdings q) = (c, n, u)"
  shows "rnd28 (rnd28 (c + n) + u) = (\<Sum>h\<leftarrow>holdings q. ho_quantity h)"
proof -
  have v: "c = held_sum (\<lambda>l. l \<in> C) q" "n = held_sum (\<lambda>l. l \<in> N \<and> l \<notin> C) q" "u = held_sum (\<lambda>l. l \<notin> C \<and> l \<notin> N) q"
    using assms by (simp_all add: tallied_exact)
  have sum: "c + n + u = (\<Sum>h\<leftarrow>holdings q. ho_quantity h)" using held_sum_split [of C q N] by (simp add: v)
  have le: "(\<Sum>h\<leftarrow>holdings q. ho_quantity h) \<le> 10 powi (k + 28)" using assms(1) by (simp add: exact_issue_def)
  note f = held_sum_facts [OF assms(1)]
  have "rnd28 (c + n) = c + n"
  proof (rule exact_rounding [of k])
    show "on_grid k (c + n)" "0 \<le> c + n" using f by (auto simp: v)
    have "0 \<le> u" using f(2) by (simp add: v)
    then show "c + n \<le> 10 powi (k + 28)" using sum le by linarith
  qed
  moreover have "rnd28 (c + n + u) = c + n + u"
  proof (rule exact_rounding [of k])
    show "on_grid k (c + n + u)" "0 \<le> c + n + u" using f by (auto simp: v intro!: add_nonneg_nonneg on_grid_add)
    show "c + n + u \<le> 10 powi (k + 28)" using sum le by linarith
  qed
  ultimately show ?thesis using sum by simp
qed

definition secured :: "RuleTable \<Rightarrow> IssueRequirement \<Rightarrow> bool" where
  "secured t q \<longleftrightarrow>
     (\<forall>h \<in> set (holdings q). location h \<in> control_locations t \<union> noncontrol_locations t) \<and>
     (\<exists>fp em b. fully_paid q = Some fp \<and> excess_margin q = Some em \<and> books_total q = Some b \<and>
        (\<Sum>h\<leftarrow>holdings q. ho_quantity h) = b \<and> fp + em \<le> held_sum (\<lambda>l. l \<in> control_locations t) q)"

lemma controlled_secured:
  assumes "issue_controlled (control_locations t) (noncontrol_locations t) q" and "exact_issue k q"
  shows "secured t q"
proof -
  obtain fp em b c n u where v: "fully_paid q = Some fp" "excess_margin q = Some em" "books_total q = Some b"
    "tallied (control_locations t) (noncontrol_locations t) (0, 0, 0) (holdings q) = (c, n, u)"
    "rnd28 (rnd28 (c + n) + u) = b" "rnd28 (fp + em) \<le> c"
    and l: "\<forall>h \<in> set (holdings q). location h \<in> control_locations t \<union> noncontrol_locations t"
    using assms(1)
    by (cases "tallied (control_locations t) (noncontrol_locations t) (0, 0, 0) (holdings q)")
       (auto simp: issue_controlled_def)
  have "rnd28 (fp + em) = fp + em"
    by (rule exact_rounding [of k]) (use assms(2) v in \<open>auto simp: exact_issue_def\<close>)
  moreover have "c = held_sum (\<lambda>l. l \<in> control_locations t) q" using v(4) tallied_exact [OF assms(2)] by simp
  ultimately show ?thesis using v l tallied_total [OF assms(2) v(4)] by (auto simp: secured_def)
qed

subsection \<open>The whole check\<close>

lemma ensures_control:
  "ensures True (control_run t i) (\<lambda>_. ci_issues i \<noteq> [] \<and> control_locations t \<noteq> {} \<and>
     (\<forall>q \<in> set (ci_issues i). issue_controlled (control_locations t) (noncontrol_locations t) q))"
proof -
  have none: "ensures True (on_cond (ci_issues i = []) (State_Monad.bind (reason r) (\<lambda>_. missing_input m)))
      (\<lambda>_. ci_issues i \<noteq> [])" for r m
    by (rule ensures_weaken [OF ensures_on_cond [OF ensures_after [OF keeps_simple(6) ensures_findings(3)]]]) auto
  show ?thesis
    unfolding control_run_def Let_def control_locations_def [symmetric] noncontrol_locations_def [symmetric]
    by (rule ensures_bind [OF ensures_on_cond [OF ensures_findings(1)]],
        rule ensures_bind [OF ensures_gather [OF ensures_check_issue]],
        rule ensures_bind [OF none], rule ensures_return)
       (auto simp: list_all2_conv_all_nth in_set_conv_nth)
qed

lemma quiet_control: "quiet (control_run t i)"
proof -
  have "quiet (tally t C N acc hs)" for C N acc hs
    by (induction t C N acc hs rule: tally.induct) (auto intro!: quieting)
  then show ?thesis
    by (auto simp: control_run_def Let_def check_issue_def judge_issue_def issue_actions_def control_action_def
        lien_action_def aged_action_def intro!: quieting split: option.split)
qed

lemma control_disposition:
  assumes "run_state (control_run t i) empty_log = (finish, w)"
  shows "ctl_disposition (finish w) = Disposition.PASS \<longleftrightarrow> clean True w"
proof -
  have "yields (control_run t i) (\<lambda>finish. \<forall>w.
      ctl_disposition (finish w) = decide (missing_rules w) (missing_inputs w) (breaches w))"
    unfolding control_run_def Let_def
    by (rule yields_bind [OF yields_any])+ (auto intro: yields_return)
  from yields_run [OF this assms] show ?thesis
    using decide_clean(1) [of w] quiet_run [OF quiet_control assms] by simp
qed

text \<open>
  C28: PASS means in possession or control. When the check of a stock record passes, at least one
  issue was supplied and a control location is loaded; and for every issue whose quantities are
  exact in the decimal context, every holding sits at a location the loaded rule text names, the
  holdings add up exactly to the firm's books, and the fully paid and excess margin securities are
  covered by what sits in control locations.\<close>

theorem control_pass_is_secured:
  assumes "ctl_disposition (check_possession_or_control i t) = Disposition.PASS"
  shows "ci_issues i \<noteq> [] \<and> control_locations t \<noteq> {} \<and>
    (\<forall>q \<in> set (ci_issues i). exact_issue k q \<longrightarrow> secured t q)"
proof -
  obtain finish w where r: "run_state (control_run t i) empty_log = (finish, w)"
    by (cases "run_state (control_run t i) empty_log") auto
  then have "clean True w" using assms control_disposition [OF r] by (simp add: check_possession_or_control_def)
  from ensures_pass [OF ensures_control r this] show ?thesis using controlled_secured by blast
qed

subsection \<open>Witness\<close>

definition w_location :: "string \<Rightarrow> RuleKind \<Rightarrow> RuleItem" where
  "w_location rid k = \<lparr>ri_id = rid, ri_kind = k, ri_citation = ''c'', ri_source_id = ''s'', source_file = ''f'',
     source_label = RULE, ri_sha256 = ''h'', ri_retrieval_dtg = ''d'', effective_date = None,
     ri_compliance_date = None, ri_quote = ''q'', ri_value = None\<rparr>"

definition w_control_table :: RuleTable where
  "w_control_table = \<lparr>table_version = ''1'', table_digest = ''d'', rule_sources = [],
     items = [w_location ''15c3-3.control.c5'' CONTROL_LOCATION, w_location ''15c3-3.noncontrol.d1'' NONCONTROL_LOCATION],
     rejected = []\<rparr>"

definition w_issue :: IssueRequirement where
  "w_issue = \<lparr>issue = ''X'', fully_paid = Some 800, excess_margin = Some 200, books_total = Some 1500,
     holdings = [\<lparr>location = ''15c3-3.control.c5'', ho_quantity = 1200, age_days = None, loaned = None\<rparr>,
                 \<lparr>location = ''15c3-3.noncontrol.d1'', ho_quantity = 300, age_days = None, loaned = Some False\<rparr>]\<rparr>"

definition w_control :: ControlInputs where
  "w_control = \<lparr>ci_as_of = 739797, ci_issues = [w_issue]\<rparr>"

lemma w_control_quantities: "rnd28 1200 = 1200" "rnd28 300 = 300" "rnd28 1500 = 1500" "rnd28 1000 = 1000" "\<not> 0 < rnd28 (- 200)"
  using dround_of_int [of 1200 28] dround_of_int [of 300 28] dround_of_int [of 1500 28] dround_of_int [of 1000 28]
    dround_of_int [of "- 200" 28] by simp_all

lemma w_control_passes: "ctl_disposition (check_possession_or_control w_control w_control_table) = Disposition.PASS"
  by (simp add: check_possession_or_control_def control_run_def w_control_def w_control_table_def w_location_def
      rules_of_kind_def on_cond_def Let_def check_issue_def judge_issue_def issue_actions_def issue_conserved_def
      issue_shortfall_def w_issue_def plus_opt_def read_present_def read_item_def rule_get_def record_log_def
      w_control_quantities decide_def empty_log_def missing_rules_def)

theorem control_pass_is_secured_witness: "secured w_control_table w_issue"
proof -
  have "exact_issue 0 w_issue"
    using on_grid_of_int [of 0 1200] on_grid_of_int [of 0 300] on_grid_of_int [of 0 800] on_grid_of_int [of 0 200]
    by (simp add: exact_issue_def w_issue_def)
  with control_pass_is_secured [OF w_control_passes, of 0] show ?thesis by (simp add: w_control_def)
qed

end
