(* ===== verification/CP_Challenger.thy ===== *)
theory CP_Challenger
  imports CP_Rules Decimal_Context
begin

text \<open>
  \<open>atreides/customer_protection/challenger.py\<close>: an engine's figures against a vendor's, each variance
  with a candidate explanation. Variances are subtracted at 28 digits. An explanation keeps the
  code's case and what it names; dates are ordinals.
\<close>

datatype VarianceClass = NOT_COMPARED | MATCH | TIMING | ROUNDING | CLASSIFICATION | UNKNOWN

record Figure =
  fig_name :: string
  fig_group :: string
  fig_value :: "rat option"

record VendorFigure =
  vf_name :: string
  vf_value :: "rat option"
  vf_as_of :: "int option"

record ChallengerInputs =
  subject :: string
  engine_as_of :: int
  engine_figures :: "Figure list"
  engine_missing_rules :: "string list"
  engine_result_digest :: string
  vendor :: string
  vendor_as_of :: int
  vendor_figures :: "VendorFigure list"
  rounding_tolerance :: "rat option"

datatype explanation =
    No_Figure string | No_Difference | Dated int int | Within rat | Not_Explained
  | Offset_By string | Not_Computed

record FigureVariance =
  fv_name :: string
  fv_group :: string
  fv_engine :: "rat option"
  fv_vendor :: "rat option"
  variance :: "rat option"
  classification :: VarianceClass
  fv_explanation :: explanation

record ChallengerReport =
  chr_as_of :: int
  chr_vendor :: string
  chr_disposition :: Disposition
  variances :: "FigureVariance list"
  chr_missing_rules :: "string list"
  chr_missing_inputs :: "string list"
  chr_breaches :: "string list"

definition vendor_for :: "ChallengerInputs \<Rightarrow> string \<Rightarrow> VendorFigure option" where
  "vendor_for i name = map_of (rev (map (\<lambda>v. (vf_name v, v)) (vendor_figures i))) name"

definition classify :: "ChallengerInputs \<Rightarrow> VendorFigure option \<Rightarrow> rat \<Rightarrow> VarianceClass \<times> explanation" where
  "classify i v x =
     (let dated = (case v of None \<Rightarrow> vendor_as_of i
                   | Some f \<Rightarrow> (case vf_as_of f of None \<Rightarrow> vendor_as_of i | Some d \<Rightarrow> d)) in
      if x = 0 then (MATCH, No_Difference)
      else if dated \<noteq> engine_as_of i then (TIMING, Dated dated (engine_as_of i))
      else case rounding_tolerance i of
        None \<Rightarrow> (UNKNOWN, Not_Explained)
      | Some tol \<Rightarrow> if \<bar>x\<bar> \<le> tol then (ROUNDING, Within tol) else (UNKNOWN, Not_Explained))"

definition first_pass :: "ChallengerInputs \<Rightarrow> Figure \<Rightarrow> FigureVariance" where
  "first_pass i f =
     (let v = vendor_for i (fig_name f); vv = (case v of None \<Rightarrow> None | Some x \<Rightarrow> vf_value x) in
      case (fig_value f, vv) of
        (Some e, Some x) \<Rightarrow>
          (case classify i v (rnd28 (x - e)) of (c, why) \<Rightarrow>
             \<lparr>fv_name = fig_name f, fv_group = fig_group f, fv_engine = Some e, fv_vendor = Some x,
              variance = Some (rnd28 (x - e)), classification = c, fv_explanation = why\<rparr>)
      | _ \<Rightarrow>
          \<lparr>fv_name = fig_name f, fv_group = fig_group f, fv_engine = fig_value f, fv_vendor = vv,
           variance = None, classification = NOT_COMPARED,
           fv_explanation = No_Figure (if fig_value f = None then ''engine'' else ''vendor'')\<rparr>)"

definition vendor_only :: "VendorFigure \<Rightarrow> FigureVariance" where
  "vendor_only v =
     \<lparr>fv_name = vf_name v, fv_group = ''vendor_only'', fv_engine = None, fv_vendor = vf_value v,
      variance = None, classification = NOT_COMPARED, fv_explanation = Not_Computed\<rparr>"

subsection \<open>Offsetting pairs\<close>

definition offsets :: "rat \<Rightarrow> FigureVariance \<Rightarrow> FigureVariance \<Rightarrow> bool" where
  "offsets allowed x y \<longleftrightarrow>
     classification y = UNKNOWN \<and> fv_group y = fv_group x \<and>
     (case (variance x, variance y) of (Some a, Some b) \<Rightarrow> \<bar>rnd28 (a + b)\<bar> \<le> allowed | _ \<Rightarrow> False)"

definition offset_by :: "FigureVariance \<Rightarrow> FigureVariance \<Rightarrow> FigureVariance" where
  "offset_by x y = x\<lparr>classification := CLASSIFICATION, fv_explanation := Offset_By (fv_name y)\<rparr>"

type_synonym pairing = "FigureVariance list \<times> nat set"

definition pair_step :: "rat \<Rightarrow> pairing \<Rightarrow> nat \<Rightarrow> pairing" where
  "pair_step allowed st i =
     (let out = fst st; paired = snd st; x = out ! i in
      if classification x \<noteq> UNKNOWN \<or> i \<in> paired then st
      else case find (\<lambda>j. j \<notin> paired \<and> offsets allowed x (out ! j)) [Suc i..<length out] of
        None \<Rightarrow> st
      | Some j \<Rightarrow> (out[i := offset_by x (out ! j), j := offset_by (out ! j) x], insert i (insert j paired)))"

definition pair_offsets :: "FigureVariance list \<Rightarrow> rat option \<Rightarrow> FigureVariance list" where
  "pair_offsets vs tol =
     fst (foldl (pair_step (case tol of None \<Rightarrow> 0 | Some x \<Rightarrow> x)) (vs, {}) [0..<length vs])"

definition all_variances :: "ChallengerInputs \<Rightarrow> FigureVariance list" where
  "all_variances i =
     map (first_pass i) (engine_figures i) @
     map vendor_only (filter (\<lambda>v. vf_name v \<notin> set (map fig_name (engine_figures i))) (vendor_figures i))"

definition challenge :: "ChallengerInputs \<Rightarrow> ChallengerReport" where
  "challenge i =
     (let vs = pair_offsets (all_variances i) (rounding_tolerance i);
          absent = map (\<lambda>v. ''figure:'' @ fv_name v) (filter (\<lambda>v. classification v = NOT_COMPARED) vs) @
            (if rounding_tolerance i = None then [''rounding_tolerance''] else []);
          broken = map fv_name (filter (\<lambda>v. classification v \<notin> {MATCH, ROUNDING, NOT_COMPARED}) vs) in
      \<lparr>chr_as_of = engine_as_of i, chr_vendor = vendor i,
       chr_disposition = decide (engine_missing_rules i) absent broken, variances = vs,
       chr_missing_rules = engine_missing_rules i, chr_missing_inputs = absent, chr_breaches = broken\<rparr>)"

end
