(* ===== verification/CP_Challenger_Props.thy ===== *)
theory CP_Challenger_Props
  imports CP_Challenger
begin

text \<open>
  What the challenger promises: PASS means every figure was compared and agrees, and whatever it
  calls a classification difference is one of a disjoint pair that cancels.
\<close>

subsection \<open>Pairs\<close>

text \<open>What pairing keeps: figures it does not touch are as they were, and the rest form a matching.\<close>

definition matching :: "FigureVariance list \<Rightarrow> rat \<Rightarrow> FigureVariance list \<Rightarrow> nat set \<Rightarrow> (nat \<Rightarrow> nat) \<Rightarrow> bool" where
  "matching vs allowed out paired p \<longleftrightarrow>
     length out = length vs \<and> paired \<subseteq> {..<length vs} \<and>
     (\<forall>i < length vs. i \<notin> paired \<longrightarrow> out ! i = vs ! i) \<and>
     (\<forall>i \<in> paired. p i \<in> paired \<and> p i \<noteq> i \<and> p (p i) = i \<and>
        out ! i = offset_by (vs ! i) (vs ! p i) \<and> classification (vs ! i) = UNKNOWN \<and>
        fv_group (vs ! i) = fv_group (vs ! p i) \<and>
        (\<exists>a b. variance (vs ! i) = Some a \<and> variance (vs ! p i) = Some b \<and> \<bar>rnd28 (a + b)\<bar> \<le> allowed))"

lemma pair_step_matching:
  assumes "matching vs allowed out paired p" and "i < length vs"
  shows "\<exists>p'. matching vs allowed (fst (pair_step allowed (out, paired) i)) (snd (pair_step allowed (out, paired) i)) p'"
proof (cases "classification (out ! i) \<noteq> UNKNOWN \<or> i \<in> paired")
  case True
  then show ?thesis using assms(1) by (auto simp: pair_step_def)
next
  case False
  show ?thesis
  proof (cases "find (\<lambda>j. j \<notin> paired \<and> offsets allowed (out ! i) (out ! j)) [Suc i..<length out]")
    case None
    then show ?thesis using assms(1) False by (auto simp: pair_step_def)
  next
    case (Some j)
    from find_SomeD [OF Some] have j: "i < j" "j < length vs" "j \<notin> paired" "offsets allowed (out ! i) (out ! j)"
      using assms(1) by (auto simp: matching_def)
    have o: "out ! i = vs ! i" "out ! j = vs ! j" and l: "length out = length vs"
      using assms False j by (auto simp: matching_def)
    obtain a b where ab: "variance (vs ! i) = Some a" "variance (vs ! j) = Some b" "\<bar>rnd28 (a + b)\<bar> \<le> allowed"
      "fv_group (vs ! j) = fv_group (vs ! i)" "classification (vs ! j) = UNKNOWN"
      using j(4) by (auto simp: offsets_def o split: option.splits)
    have old: "p k \<in> paired" "p k \<noteq> k" "p (p k) = k" "k \<noteq> i" "k \<noteq> j" "p k \<noteq> i" "p k \<noteq> j" if "k \<in> paired" for k
      using assms(1) that False j(3) by (auto simp: matching_def)
    let ?p = "p(i := j, j := i)"
    have "matching vs allowed (out[i := offset_by (vs ! i) (vs ! j), j := offset_by (vs ! j) (vs ! i)])
        (insert i (insert j paired)) ?p"
      unfolding matching_def
    proof (intro conjI ballI allI impI)
      fix k assume k: "k \<in> insert i (insert j paired)"
      consider "k = i" | "k = j" | "k \<in> paired" "k \<noteq> i" "k \<noteq> j" using k by blast
      then have "?p k \<in> insert i (insert j paired) \<and> ?p k \<noteq> k \<and> ?p (?p k) = k \<and>
          out[i := offset_by (vs ! i) (vs ! j), j := offset_by (vs ! j) (vs ! i)] ! k = offset_by (vs ! k) (vs ! ?p k) \<and>
          classification (vs ! k) = UNKNOWN \<and> fv_group (vs ! k) = fv_group (vs ! ?p k) \<and>
          (\<exists>a b. variance (vs ! k) = Some a \<and> variance (vs ! ?p k) = Some b \<and> \<bar>rnd28 (a + b)\<bar> \<le> allowed)"
      proof cases
        case 1
        then show ?thesis using j ab l False o assms(2) by auto
      next
        case 2
        then show ?thesis using j ab l False o assms(2) by (auto simp: add.commute)
      next
        case 3
        note o3 = old [OF 3(1)]
        have "out ! k = offset_by (vs ! k) (vs ! p k)" "classification (vs ! k) = UNKNOWN"
          "fv_group (vs ! k) = fv_group (vs ! p k)"
          "\<exists>a b. variance (vs ! k) = Some a \<and> variance (vs ! p k) = Some b \<and> \<bar>rnd28 (a + b)\<bar> \<le> allowed"
          using assms(1) 3(1) unfolding matching_def by blast+
        with o3 3 show ?thesis by simp
      qed
      then show "?p k \<in> insert i (insert j paired)" "?p k \<noteq> k" "?p (?p k) = k"
        "out[i := offset_by (vs ! i) (vs ! j), j := offset_by (vs ! j) (vs ! i)] ! k = offset_by (vs ! k) (vs ! ?p k)"
        "classification (vs ! k) = UNKNOWN" "fv_group (vs ! k) = fv_group (vs ! ?p k)"
        "\<exists>a b. variance (vs ! k) = Some a \<and> variance (vs ! ?p k) = Some b \<and> \<bar>rnd28 (a + b)\<bar> \<le> allowed"
        by blast+
    qed (use assms j l in \<open>auto simp: matching_def\<close>)
    moreover have "pair_step allowed (out, paired) i =
        (out[i := offset_by (vs ! i) (vs ! j), j := offset_by (vs ! j) (vs ! i)], insert i (insert j paired))"
      using False Some o by (simp add: pair_step_def Let_def)
    ultimately show ?thesis by auto
  qed
qed

lemma pairing_matching:
  "set is \<subseteq> {..<length vs} \<Longrightarrow> matching vs allowed (fst st) (snd st) p \<Longrightarrow>
   \<exists>p'. matching vs allowed (fst (foldl (pair_step allowed) st is)) (snd (foldl (pair_step allowed) st is)) p'"
proof (induction "is" arbitrary: st p)
  case (Cons i "is")
  then obtain p' where "matching vs allowed (fst (pair_step allowed st i)) (snd (pair_step allowed st i)) p'"
    using pair_step_matching [of vs allowed "fst st" "snd st" p i] by auto
  then show ?case using Cons.IH [of "pair_step allowed st i" p'] Cons.prems by simp
qed auto

definition tolerance_of :: "ChallengerInputs \<Rightarrow> rat" where
  "tolerance_of i = (case rounding_tolerance i of None \<Rightarrow> 0 | Some x \<Rightarrow> x)"

lemma challenge_matching:
  "\<exists>paired p. matching (all_variances i) (tolerance_of i) (variances (challenge i)) paired p"
proof -
  have "matching vs allowed vs {} id" for vs allowed by (simp add: matching_def)
  then have "\<exists>p'. matching (all_variances i) (tolerance_of i)
      (fst (foldl (pair_step (tolerance_of i)) (all_variances i, {}) [0..<length (all_variances i)]))
      (snd (foldl (pair_step (tolerance_of i)) (all_variances i, {}) [0..<length (all_variances i)])) p'"
    by (intro pairing_matching) auto
  then show ?thesis by (auto simp: challenge_def Let_def pair_offsets_def tolerance_of_def)
qed

subsection \<open>A figure that agrees\<close>

definition agrees :: "ChallengerInputs \<Rightarrow> Figure \<Rightarrow> bool" where
  "agrees i f \<longleftrightarrow>
     (\<exists>v e x tol. vendor_for i (fig_name f) = Some v \<and> fig_value f = Some e \<and> vf_value v = Some x \<and>
        rounding_tolerance i = Some tol \<and>
        (x = e \<or> (case vf_as_of v of None \<Rightarrow> vendor_as_of i | Some d \<Rightarrow> d) = engine_as_of i \<and> \<bar>rnd28 (x - e)\<bar> \<le> tol))"

lemma rnd28_zero: "rnd28 (x - e) = 0 \<longleftrightarrow> x = e"
proof
  assume z: "rnd28 (x - e) = 0"
  show "x = e"
  proof (rule ccontr)
    assume "x \<noteq> e"
    then consider "0 < x - e" | "0 < e - x" by linarith
    then show False
    proof cases
      case 1
      then have "0 < rnd28 (x - e)" by (intro dround_pos) simp_all
      with z show False by simp
    next
      case 2
      then have "0 < rnd28 (e - x)" by (intro dround_pos) simp_all
      with z dround_minus [of 28 "x - e"] show False by simp
    qed
  qed
qed simp

definition passing :: "FigureVariance \<Rightarrow> bool" where
  "passing v \<longleftrightarrow> classification v \<in> {MATCH, ROUNDING}"

lemma first_pass_passing:
  "rounding_tolerance i = Some tol \<Longrightarrow> passing (first_pass i f) \<longleftrightarrow> agrees i f"
  by (cases "vendor_for i (fig_name f)"; cases "fig_value f")
     (auto simp: passing_def first_pass_def classify_def agrees_def Let_def rnd28_zero split: option.splits)

lemma decide_challenge:
  "chr_disposition (challenge i) = Disposition.PASS \<longleftrightarrow>
     engine_missing_rules i = [] \<and> rounding_tolerance i \<noteq> None \<and> (\<forall>v \<in> set (variances (challenge i)). passing v)"
  by (auto simp: passing_def challenge_def Let_def advisory_simps filter_empty_conv)

lemma matching_at:
  assumes "matching vs allowed out paired p" and "i < length vs"
  shows "i \<notin> paired \<Longrightarrow> out ! i = vs ! i"
    and "i \<in> paired \<Longrightarrow> classification (out ! i) = CLASSIFICATION \<and> classification (vs ! i) = UNKNOWN"
  using assms by (auto simp: matching_def offset_by_def)

lemma passing_unpaired:
  assumes "matching vs allowed out paired p"
  shows "(\<forall>v \<in> set out. passing v) \<longleftrightarrow> (\<forall>v \<in> set vs. passing v)"
proof -
  have "passing (out ! i) \<longleftrightarrow> passing (vs ! i)" if "i < length vs" for i
    using matching_at [OF assms that] by (cases "i \<in> paired") (simp_all add: passing_def)
  moreover have "length out = length vs" using assms by (simp add: matching_def)
  ultimately show ?thesis by (simp add: all_set_conv_all_nth)
qed

lemma all_variances_passing:
  assumes "rounding_tolerance i = Some tol"
  shows "(\<forall>v \<in> set (all_variances i). passing v) \<longleftrightarrow>
    vf_name ` set (vendor_figures i) \<subseteq> fig_name ` set (engine_figures i) \<and> (\<forall>f \<in> set (engine_figures i). agrees i f)"
proof -
  have "\<not> passing (vendor_only v)" for v by (simp add: vendor_only_def passing_def)
  then have "(\<forall>v \<in> set (all_variances i). passing v) \<longleftrightarrow> (\<forall>f \<in> set (engine_figures i). passing (first_pass i f)) \<and>
      filter (\<lambda>v. vf_name v \<notin> set (map fig_name (engine_figures i))) (vendor_figures i) = []"
    by (simp add: all_variances_def ball_Un filter_empty_conv) blast
  then show ?thesis by (simp add: first_pass_passing [OF assms] filter_empty_conv) blast
qed

lemma classify_unpaired: "fst (classify i v x) \<noteq> CLASSIFICATION"
  by (simp add: classify_def Let_def split: option.split)

lemma first_pass_unpaired: "classification (first_pass i f) \<noteq> CLASSIFICATION"
  using classify_unpaired [of i]
  by (cases "fig_value f"; cases "vendor_for i (fig_name f)")
     (simp_all add: first_pass_def Let_def case_prod_beta split: option.split)

lemma all_variances_unpaired: "v \<in> set (all_variances i) \<Longrightarrow> classification v \<noteq> CLASSIFICATION"
  using first_pass_unpaired [of i] by (auto simp: all_variances_def vendor_only_def)

subsection \<open>What the challenger promises\<close>

text \<open>
  PASS means compared and agreed. A challenger report passes exactly when the engine missed no
  rule, the client stated a rounding tolerance, the vendor gave no figure the engine does not
  compute, and for every engine figure both sides have a value and the values are equal, or are of
  the same date and within the tolerance.\<close>

theorem challenger_passes_iff_every_figure_agrees:
  "chr_disposition (challenge i) = Disposition.PASS \<longleftrightarrow>
     engine_missing_rules i = [] \<and> rounding_tolerance i \<noteq> None \<and>
     vf_name ` set (vendor_figures i) \<subseteq> fig_name ` set (engine_figures i) \<and>
     {f \<in> set (engine_figures i). \<not> agrees i f} = {}"
proof (cases "rounding_tolerance i")
  case None
  then show ?thesis by (simp add: decide_challenge)
next
  case (Some tol)
  obtain paired p where m: "matching (all_variances i) (tolerance_of i) (variances (challenge i)) paired p"
    using challenge_matching by blast
  show ?thesis
    unfolding decide_challenge passing_unpaired [OF m] all_variances_passing [OF Some] using Some by auto
qed

definition cancels :: "ChallengerInputs \<Rightarrow> FigureVariance \<Rightarrow> FigureVariance \<Rightarrow> bool" where
  "cancels i x y \<longleftrightarrow> fv_group x = fv_group y \<and>
     (\<exists>a b. variance x = Some a \<and> variance y = Some b \<and> \<bar>rnd28 (a + b)\<bar> \<le> tolerance_of i)"

text \<open>
  Classification differences come in pairs that cancel. There is a pairing \<open>p\<close> of the positions
  classified CLASSIFICATION, without fixed points and inverse to itself, that keeps to one group,
  and whose two variances cancel within the client's tolerance (exactly, when none is stated): no
  figure is used twice to explain another.\<close>

theorem classification_differences_cancel_in_pairs:
  "\<exists>p. \<forall>n \<in> {n. n < length (variances (challenge i)) \<and> classification (variances (challenge i) ! n) = CLASSIFICATION}.
     p n \<in> {n. n < length (variances (challenge i)) \<and> classification (variances (challenge i) ! n) = CLASSIFICATION} \<and>
     p n \<noteq> n \<and> p (p n) = n \<and> cancels i (variances (challenge i) ! n) (variances (challenge i) ! p n)"
proof -
  let ?out = "variances (challenge i)" and ?vs = "all_variances i"
  obtain paired p where m: "matching ?vs (tolerance_of i) ?out paired p" using challenge_matching by blast
  have l: "length ?out = length ?vs" "paired \<subseteq> {..<length ?vs}" using m by (simp_all add: matching_def)
  have iff: "n \<in> paired \<longleftrightarrow> n < length ?out \<and> classification (?out ! n) = CLASSIFICATION" for n
    using matching_at [OF m, of n] all_variances_unpaired [of "?vs ! n" i] l by (cases "n \<in> paired") auto
  have pair: "p n \<in> paired \<and> p n \<noteq> n \<and> p (p n) = n \<and> cancels i (?out ! n) (?out ! p n)" if n: "n \<in> paired" for n
  proof -
    from m n have a: "p n \<in> paired" "p n \<noteq> n" "p (p n) = n" "?out ! n = offset_by (?vs ! n) (?vs ! p n)"
      "fv_group (?vs ! n) = fv_group (?vs ! p n)"
      "\<exists>a b. variance (?vs ! n) = Some a \<and> variance (?vs ! p n) = Some b \<and> \<bar>rnd28 (a + b)\<bar> \<le> tolerance_of i"
      unfolding matching_def by blast+
    moreover have "?out ! p n = offset_by (?vs ! p n) (?vs ! p (p n))" using m a(1) unfolding matching_def by blast
    ultimately show ?thesis by (auto simp: cancels_def offset_by_def)
  qed
  show ?thesis using pair by (intro exI [of _ p]) (simp add: iff [symmetric])
qed

text \<open>An amount of 7 on the wrong line: two lines of one group differ, and the differences cancel.\<close>

definition w_challenge :: ChallengerInputs where
  "w_challenge = \<lparr>subject = ''reserve'', engine_as_of = 1,
     engine_figures = [\<lparr>fig_name = ''a'', fig_group = ''g'', fig_value = Some 10\<rparr>,
       \<lparr>fig_name = ''b'', fig_group = ''g'', fig_value = Some 20\<rparr>],
     engine_missing_rules = [], engine_result_digest = ''d'', vendor = ''v'', vendor_as_of = 1,
     vendor_figures = [\<lparr>vf_name = ''a'', vf_value = Some 17, vf_as_of = None\<rparr>,
       \<lparr>vf_name = ''b'', vf_value = Some 13, vf_as_of = None\<rparr>],
     rounding_tolerance = Some 0\<rparr>"

theorem classification_differences_cancel_in_pairs_witness:
  "\<exists>p :: nat \<Rightarrow> nat. \<forall>n \<in> {n. n < length (variances (challenge w_challenge)) \<and>
     classification (variances (challenge w_challenge) ! n) = CLASSIFICATION}. p n \<noteq> n"
  using classification_differences_cancel_in_pairs [of w_challenge] by blast

end
