(* ===== verification/CP_Net_Capital_Props.thy ===== *)
theory CP_Net_Capital_Props
  imports CP_Net_Capital CP_Reader
begin

text \<open>
  What the net capital computation promises. Each step of the engine is first given its closed form
  over the values the table loads; then PASS means adequate capital and no indicator triggered, the
  subcategory election never raises net capital, an indebtedness warning precedes the breach, and
  the only error is the division by a multiple of zero.
\<close>

subsection \<open>Closed forms\<close>

definition loaded_value :: "RuleTable \<Rightarrow> string \<Rightarrow> rat option" where
  "loaded_value t rid = Option.bind (rule_get t rid) ri_value"

abbreviation computes :: "'a reading \<Rightarrow> 'a \<Rightarrow> bool" where
  "computes m v \<equiv> yields m (\<lambda>r. r = v)"

lemma computes_value: "computes (read_value t rid) (loaded_value t rid)"
  by (auto simp: yields_def read_value_def read_item_def record_log_def loaded_value_def ref_of_def
      split: option.split)

lemma computes_bind: "computes m v \<Longrightarrow> computes (f v) r \<Longrightarrow> computes (State_Monad.bind m f) r"
  by (auto intro: yields_bind)

lemma computes_skip: "computes (f ()) r \<Longrightarrow> computes (State_Monad.bind m f) r"
  by (auto intro: yields_bind [OF yields_any])

lemma computes_return: "computes (State_Monad.return v) v"
  by (simp add: yields_def)

lemma computes_gather: "(\<And>x. computes (f x) (g x)) \<Longrightarrow> computes (gather f xs) (map g xs)"
  by (induction xs) (auto intro!: computes_return computes_bind simp: computes_return)

definition band_stem :: "string \<times> string \<Rightarrow> string" where
  "band_stem k = ''15c3-1.c2viA1.'' @ fst k @ ''.'' @ snd k"

definition band_at :: "RuleTable \<Rightarrow> string \<times> string \<Rightarrow> band" where
  "band_at t k = \<lparr>band_category = fst k, band_sub = snd k, band_rate = loaded_value t (band_stem k @ ''.rate''),
     band_upper = (if k = LAST_BAND then None else loaded_value t (band_stem k @ ''.upper_months''))\<rparr>"

definition bands_at :: "RuleTable \<Rightarrow> band list" where
  "bands_at t = map (band_at t) band_keys"

definition bands_complete :: "band list \<Rightarrow> bool" where
  "bands_complete bs \<longleftrightarrow> \<not> list_ex (\<lambda>b. band_rate b = None) bs \<and> \<not> list_ex (\<lambda>b. band_upper b = None) (butlast bs)"

definition offset_at :: "RuleTable \<Rightarrow> GovernmentElection \<Rightarrow> rat option" where
  "offset_at t e = (if e = CATEGORY then loaded_value t GOV_OFFSET else Some 0)"

definition government_at :: "RuleTable \<Rightarrow> GovernmentElection \<Rightarrow> Position list \<Rightarrow> HaircutLine list option" where
  "government_at t e ps =
     (case offset_at t e of None \<Rightarrow> None
      | Some off \<Rightarrow>
          if bands_complete (bands_at t) \<and> \<not> list_ex (\<lambda>p. months_to_maturity p = None) ps
          then Some (concat (map (category_lines e off (bands_at t) ps) GOVERNMENT_BANDS)) else None)"

definition ruled_out :: "NetCapitalInputs \<Rightarrow> bool" where
  "ruled_out i \<longleftrightarrow> (\<forall>p \<in> set (provisions i). fst p = Some False)"

definition government_lines_at :: "RuleTable \<Rightarrow> NetCapitalInputs \<Rightarrow> HaircutLine list option" where
  "government_lines_at t i =
     (let ps = of_class GOVERNMENT (nc_positions i) in
      if ps = [] then Some [] else if ruled_out i then government_at t (government_election i) ps else None)"

definition equity_lines_at :: "RuleTable \<Rightarrow> NetCapitalInputs \<Rightarrow> HaircutLine list option" where
  "equity_lines_at t i =
     (let ps = of_class EQUITY (nc_positions i) in
      if ps = [] then Some []
      else case (loaded_value t EQUITY_RATE, loaded_value t EQUITY_LESSER_THRESHOLD, loaded_value t EQUITY_EXCESS_RATE) of
        (Some r, Some l, Some e) \<Rightarrow> Some (map (equity_line r l e) ps) | _ \<Rightarrow> None)"

definition haircut_at :: "RuleTable \<Rightarrow> NetCapitalInputs \<Rightarrow> rat option" where
  "haircut_at t i =
     (case (government_lines_at t i, equity_lines_at t i) of
        (Some g, Some e) \<Rightarrow>
          if unknown_classes (nc_positions i) = [] then Some (dsum_from 28 0 (map hl_amount (g @ e))) else None
      | _ \<Rightarrow> None)"

lemma computes_bands: "computes (government_bands t) (bands_at t)"
proof -
  have "computes (read_band t k) (band_at t k)" for k
    unfolding read_band_def Let_def
    by (rule computes_bind [where v = "band_upper (band_at t k)"], simp add: band_at_def band_stem_def computes_value computes_return,
        rule computes_bind [OF computes_value]) (simp add: band_at_def band_stem_def computes_return)
  then show ?thesis unfolding government_bands_def bands_at_def by (rule computes_gather)
qed

lemma computes_government: "computes (government_haircut t e ps) (government_at t e ps)"
proof -
  have off: "computes (if e = CATEGORY then read_value t GOV_OFFSET else State_Monad.return (Some 0)) (offset_at t e)"
    by (simp add: offset_at_def computes_value computes_return)
  show ?thesis
    unfolding government_haircut_def
    by (rule computes_bind [OF computes_bands], rule computes_bind [OF off])
       (cases "offset_at t e"; simp add: government_at_def bands_complete_def computes_return computes_skip)
qed

lemma computes_government_lines: "computes (government_lines t i) (government_lines_at t i)"
proof -
  have r: "computes (government_provisions_ruled_out i) (ruled_out i)"
    unfolding government_provisions_ruled_out_def ruled_out_def by (rule computes_skip, rule computes_return)
  show ?thesis
    unfolding government_lines_def government_lines_at_def Let_def
    by (auto intro!: computes_return computes_bind [OF r] computes_bind [OF computes_government] simp: computes_return)
qed

lemma computes_equity_lines: "computes (equity_lines t i) (equity_lines_at t i)"
  unfolding equity_lines_def equity_lines_at_def equity_haircut_def Let_def
  by (auto intro!: computes_bind [OF computes_value] simp: computes_return)

lemma computes_haircuts: "yields (haircuts_of t i) (\<lambda>r. fst r = haircut_at t i)"
  unfolding haircuts_of_def
  by (rule yields_bind [OF yields_any], rule yields_bind [OF computes_government_lines],
      rule yields_bind [OF computes_equity_lines], rule yields_return)
     (auto simp: haircut_at_def split: option.split)

definition total_at :: "CapitalAdjustment list \<Rightarrow> rat option" where
  "total_at xs = sum_opt (map adj_amount xs)"

lemma computes_total: "computes (total_of name xs) (total_at xs)"
  unfolding total_of_def total_at_def by (rule computes_skip, rule computes_return)

definition tentative_at :: "NetCapitalInputs \<Rightarrow> rat option" where
  "tentative_at i = minus_opt (plus_opt (net_worth i) (total_at (additions i))) (total_at (deductions i))"

definition net_at :: "RuleTable \<Rightarrow> NetCapitalInputs \<Rightarrow> rat option" where
  "net_at t i = minus_opt (tentative_at i) (haircut_at t i)"

definition multiple_at :: "RuleTable \<Rightarrow> NetCapitalInputs \<Rightarrow> rat option" where
  "multiple_at t i =
     (case (months_in_business i, loaded_value t FIRST_YEAR_MONTHS) of
        (Some months, Some f) \<Rightarrow> loaded_value t (if months < f then AI_CEILING_FIRST_YEAR else AI_CEILING)
      | _ \<Rightarrow> None)"

definition ratio_at :: "RuleTable \<Rightarrow> NetCapitalInputs \<Rightarrow> division_error + ratio" where
  "ratio_at t i =
     (if nc_standard i = ALTERNATIVE
      then Inr (case (loaded_value t ALT_FLOOR, loaded_value t ALT_PERCENT, aggregate_debit_items i) of
        (Some f, Some p, Some debits) \<Rightarrow> (Some (max f (rnd28 (p * debits))), Some True, None)
      | _ \<Rightarrow> (None, None, None))
      else (case (multiple_at t i, nc_aggregate_indebtedness i) of
        (Some m, Some ai) \<Rightarrow> divided ai m
      | _ \<Rightarrow> Inr (None, None, multiple_at t i)))"

lemma computes_ratio: "computes (ratio_requirement t i) (ratio_at t i)"
proof -
  have alt: "computes (alternative_requirement t i)
      (case (loaded_value t ALT_FLOOR, loaded_value t ALT_PERCENT, aggregate_debit_items i) of
        (Some f, Some p, Some debits) \<Rightarrow> (Some (max f (rnd28 (p * debits))), Some True, None)
      | _ \<Rightarrow> (None, None, None))" (is "computes _ ?a")
    unfolding alternative_requirement_def
    by (rule computes_bind [OF computes_value], rule computes_bind [OF computes_value], cases "aggregate_debit_items i")
       (auto intro!: computes_skip simp: computes_return split: option.split)
  have ai: "computes (indebtedness_requirement t i)
      (case (multiple_at t i, nc_aggregate_indebtedness i) of
        (Some m, Some ai) \<Rightarrow> divided ai m | _ \<Rightarrow> Inr (None, None, multiple_at t i))"
    unfolding indebtedness_requirement_def
    apply (rule computes_skip, rule computes_skip, rule computes_bind [OF computes_value])
    apply (cases "months_in_business i"; cases "loaded_value t FIRST_YEAR_MONTHS")
       apply (simp_all add: multiple_at_def computes_return)
    apply (intro conjI impI computes_bind [OF computes_value])
     apply (simp_all add: computes_return multiple_at_def split: option.split)
    done
  show ?thesis
    unfolding ratio_requirement_def ratio_at_def
    by (cases "nc_standard i = ALTERNATIVE") (use ai in \<open>simp_all add: computes_bind [OF alt] computes_return\<close>)
qed

subsection \<open>The result\<close>

definition warnings_at :: "RuleTable \<Rightarrow> NetCapitalInputs \<Rightarrow> rat option \<Rightarrow> rat option \<Rightarrow> rat option \<Rightarrow> EarlyWarning list" where
  "warnings_at t i net tentative minimum =
     (if nc_standard i = AGGREGATE_INDEBTEDNESS
      then warning WARN_AI ''17a-11(b)(1)'' (times_opt (loaded_value t WARN_AI) net) (nc_aggregate_indebtedness i)
          False ''aggregate indebtedness against the loaded multiple of net capital''
      else warning WARN_ALT ''17a-11(b)(2)'' (times_opt (loaded_value t WARN_ALT) (aggregate_debit_items i)) net
          True ''net capital against the loaded percentage of aggregate debit items'') #
     warning WARN_MINIMUM ''17a-11(b)(3)'' (times_opt (loaded_value t WARN_MINIMUM) minimum) net True
       ''net capital against the loaded multiple of the minimum requirement'' #
     (if reports_lending_activity_monthly i = Some True then []
      else map (\<lambda>m. warning WARN_LEVERAGE ''17a-11(b)(5)'' (times_opt (loaded_value t WARN_LEVERAGE) tentative) (snd m)
          False (fst m @ '' against the loaded multiple of tentative net capital'')) (leverage_measures i))"

lemma computes_warnings:
  "computes (early_warnings_of t i net tentative minimum) (warnings_at t i net tentative minimum)"
proof -
  have std: "computes (standard_warning t i net) (hd (warnings_at t i net tentative minimum))"
    unfolding standard_warning_def warnings_at_def
    by (auto intro!: computes_bind [OF computes_value] simp: computes_return)
  have lev: "computes (leverage_warnings t i tentative) (tl (tl (warnings_at t i net tentative minimum)))"
    unfolding leverage_warnings_def warnings_at_def list.sel
    by (auto intro!: computes_skip computes_bind [OF computes_value] computes_gather
        simp: computes_return leverage_warning_def)
  show ?thesis
    unfolding early_warnings_of_def
    by (rule computes_bind [OF std], rule computes_bind [OF computes_value], rule computes_bind [OF lev])
       (simp add: computes_return warnings_at_def)
qed

definition minimum_at :: "RuleTable \<Rightarrow> NetCapitalInputs \<Rightarrow> ratio \<Rightarrow> rat option" where
  "minimum_at t i q = max_opt (fst q) (loaded_value t (minimum_rule (category i)))"

text \<open>The figures of a result over the loaded values, given the ratio part.\<close>

definition figures_at :: "RuleTable \<Rightarrow> NetCapitalInputs \<Rightarrow> ratio \<Rightarrow> NetCapitalResult \<Rightarrow> bool" where
  "figures_at t i q r \<longleftrightarrow>
     ncr_standard r = nc_standard i \<and> tentative_net_capital r = tentative_at i \<and> haircuts r = haircut_at t i \<and>
     net_capital r = net_at t i \<and> ncr_ratio_requirement r = fst q \<and>
     activity_minimum r = loaded_value t (minimum_rule (category i)) \<and>
     minimum_requirement r = minimum_at t i q \<and> excess_net_capital r = minus_opt (net_at t i) (minimum_at t i q) \<and>
     early_warnings r = warnings_at t i (net_at t i) (tentative_at i) (minimum_at t i q)"

lemma rest_figures:
  assumes "fst taken = haircut_at t i"
  shows "yields (net_capital_rest t i adds deds (tentative_at i) taken q) (\<lambda>finish. \<forall>w.
    figures_at t i q (finish w) \<and>
    ncr_disposition (finish w) = decide (missing_rules w @ unrecognised w) (missing_inputs w) (breaches w) \<and>
    ncr_breaches (finish w) = breaches w)"
  unfolding net_capital_rest_def Let_def assms net_at_def [symmetric] minimum_at_def [symmetric]
  by (rule yields_bind [OF computes_value], hypsubst, subst minimum_at_def [symmetric], rule yields_bind [OF yields_any],
      rule yields_bind [OF computes_warnings], rule yields_bind [OF yields_any], rule yields_return)
     (simp add: figures_at_def net_at_def minimum_at_def assms)

lemma run_figures:
  "yields (net_capital_run t i) (\<lambda>r. case r of
     Inl e \<Rightarrow> ratio_at t i = Inl e
   | Inr finish \<Rightarrow> \<exists>q. ratio_at t i = Inr q \<and> (\<forall>w. figures_at t i q (finish w) \<and>
       ncr_disposition (finish w) = decide (missing_rules w @ unrecognised w) (missing_inputs w) (breaches w) \<and>
       ncr_breaches (finish w) = breaches w))"
  unfolding net_capital_run_def Let_def
  apply (rule yields_bind [OF yields_any], rule yields_bind [OF computes_total], rule yields_bind [OF computes_total])
  apply (rule yields_bind [OF computes_haircuts], rule yields_bind [OF computes_ratio])
  apply (simp split: sum.split)
  apply (intro conjI allI impI)
   apply (simp add: yields_return)
  apply (simp add: tentative_at_def [symmetric])
  apply (rule yields_bind [OF rest_figures], assumption)
  apply (rule yields_return)
  apply simp
  done

lemma compute_net_capital_cases:
  obtains (raises) e where "compute_net_capital i t = Inl e" "ratio_at t i = Inl e"
  | (ends) q finish w where "compute_net_capital i t = Inr (finish w)" "ratio_at t i = Inr q"
      "run_state (net_capital_run t i) empty_log = (Inr finish, w)" "figures_at t i q (finish w)"
      "ncr_disposition (finish w) = Disposition.PASS \<longleftrightarrow> clean True w" "ncr_breaches (finish w) = breaches w"
proof -
  obtain r w where r: "run_state (net_capital_run t i) empty_log = (r, w)" by fastforce
  show ?thesis
  proof (cases r)
    case (Inl e)
    with yields_run [OF run_figures r] r show ?thesis by (intro raises) (simp_all add: compute_net_capital_def)
  next
    case (Inr finish)
    from yields_run [OF run_figures r] Inr obtain q where "ratio_at t i = Inr q" "figures_at t i q (finish w)"
      "ncr_disposition (finish w) = decide (missing_rules w @ unrecognised w) (missing_inputs w) (breaches w)"
      "ncr_breaches (finish w) = breaches w" by auto
    then show ?thesis
      using r Inr by (intro ends [where finish = finish and w = w and q = q]) (simp_all add: compute_net_capital_def decide_clean)
  qed
qed

subsection \<open>Rules with values\<close>

definition CAPITAL_RULES :: "string list" where
  "CAPITAL_RULES =
     [AI_CEILING, AI_CEILING_FIRST_YEAR, FIRST_YEAR_MONTHS, ALT_FLOOR, ALT_PERCENT, GOV_OFFSET, EQUITY_RATE,
      EQUITY_LESSER_THRESHOLD, EQUITY_EXCESS_RATE, WARN_AI, WARN_ALT, WARN_MINIMUM, WARN_LEVERAGE] @
     map minimum_rule [CARRYING, K2I_EXEMPT, DEALER, INTRODUCING, INVESTMENT_COMPANY_SHARES, OTHER] @
     map (\<lambda>k. band_stem k @ ''.rate'') band_keys @ map (\<lambda>k. band_stem k @ ''.upper_months'') (butlast band_keys)"

definition capital_valued :: "RuleTable \<Rightarrow> bool" where
  "capital_valued t \<longleftrightarrow> (\<forall>rid \<in> set CAPITAL_RULES. \<forall>i. rule_get t rid = Some i \<longrightarrow> ri_value i \<noteq> None)"

lemma capital_rules:
  "{AI_CEILING, AI_CEILING_FIRST_YEAR, FIRST_YEAR_MONTHS, ALT_FLOOR, ALT_PERCENT, GOV_OFFSET, EQUITY_RATE,
    EQUITY_LESSER_THRESHOLD, EQUITY_EXCESS_RATE, WARN_AI, WARN_ALT, WARN_MINIMUM, WARN_LEVERAGE} \<subseteq> set CAPITAL_RULES"
  "minimum_rule c \<in> set CAPITAL_RULES"
  "k \<in> set band_keys \<Longrightarrow> band_stem k @ ''.rate'' \<in> set CAPITAL_RULES"
  "k \<in> set (butlast band_keys) \<Longrightarrow> band_stem k @ ''.upper_months'' \<in> set CAPITAL_RULES"
  unfolding CAPITAL_RULES_def by (auto simp del: minimum_rule.simps) (cases c, simp_all)

lemma ensures_given_rule:
  assumes "capital_valued t" and "rid \<in> set CAPITAL_RULES"
  shows "ensures s (read_value t rid) (\<lambda>_. given (loaded_value t rid))"
  by (rule ensures_weaken [OF ensures_read_value])
     (use assms in \<open>auto simp: capital_valued_def loaded_value_def given_def\<close>)

lemma keeps_gather: "(\<And>x. keeps s (f x)) \<Longrightarrow> keeps s (gather f xs)"
  by (rule ensures_weaken [OF ensures_gather]) simp_all

lemma ensures_gather_all:
  assumes "\<And>x. x \<in> set xs \<Longrightarrow> ensures s (f x) (\<lambda>_. P x)"
  shows "ensures s (gather f xs) (\<lambda>_. \<forall>x \<in> set xs. P x)"
  using assms
proof (induction xs)
  case Nil
  then show ?case by (auto intro: ensures_return)
next
  case (Cons x xs)
  show ?case
    unfolding gather.simps
    by (rule ensures_bind [OF Cons.prems], simp, rule ensures_bind [OF Cons.IH], use Cons.prems in simp)
       (auto intro: ensures_return)
qed

lemma last_band: "k \<in> set band_keys \<Longrightarrow> k \<noteq> LAST_BAND \<Longrightarrow> k \<in> set (butlast band_keys)"
  "k \<in> set (butlast band_keys) \<Longrightarrow> k \<noteq> LAST_BAND"
  by (auto simp: band_keys_def GOVERNMENT_BANDS_def LAST_BAND_def)

lemma ensures_bands:
  assumes "capital_valued t"
  shows "ensures s (government_bands t) (\<lambda>_. bands_complete (bands_at t))"
proof -
  have band: "ensures s (read_band t k) (\<lambda>_. (k \<noteq> LAST_BAND \<longrightarrow> given (loaded_value t (band_stem k @ ''.upper_months''))) \<and>
      given (loaded_value t (band_stem k @ ''.rate'')))" if "k \<in> set band_keys" for k
  proof -
    have up: "ensures s (if k = LAST_BAND then State_Monad.return None else read_value t (band_stem k @ ''.upper_months''))
        (\<lambda>_. k \<noteq> LAST_BAND \<longrightarrow> given (loaded_value t (band_stem k @ ''.upper_months'')))"
      using that by (auto intro: ensures_return ensures_given_rule [OF assms] capital_rules(4) last_band(1))
    note rate = ensures_given_rule [OF assms capital_rules(3) [OF that]]
    show ?thesis
      unfolding read_band_def Let_def
      by (rule ensures_bind [OF up [unfolded band_stem_def]], rule ensures_bind [OF rate [unfolded band_stem_def]])
         (auto intro: ensures_return simp: band_stem_def)
  qed
  show ?thesis
    unfolding government_bands_def
  proof (rule ensures_weaken [OF ensures_gather_all [OF band]], assumption)
    assume all: "\<forall>k \<in> set band_keys. (k \<noteq> LAST_BAND \<longrightarrow> given (loaded_value t (band_stem k @ ''.upper_months''))) \<and>
      given (loaded_value t (band_stem k @ ''.rate''))"
    have "band_upper b \<noteq> None" if "b \<in> set (butlast (bands_at t))" for b
    proof -
      from that obtain k where k: "k \<in> set (butlast band_keys)" "b = band_at t k"
        unfolding bands_at_def map_butlast [symmetric] by auto
      with all last_band(2) [of k] show ?thesis by (auto simp: band_at_def given_def dest: in_set_butlastD)
    qed
    moreover have "band_rate b \<noteq> None" if "b \<in> set (bands_at t)" for b
      using that all by (auto simp: bands_at_def band_at_def given_def)
    ultimately show "bands_complete (bands_at t)" by (auto simp: bands_complete_def list_ex_iff)
  qed
qed

lemma ensures_government:
  assumes "capital_valued t"
  shows "ensures True (government_haircut t e ps) (\<lambda>_. given (government_at t e ps))"
proof -
  have off: "ensures True (if e = CATEGORY then read_value t GOV_OFFSET else State_Monad.return (Some 0))
      (\<lambda>v. v = offset_at t e \<and> given (offset_at t e))"
  proof (cases "e = CATEGORY")
    case True
    have "GOV_OFFSET \<in> set CAPITAL_RULES" using capital_rules(1) by simp
    from ensures_conj [OF ensures_given_rule [OF assms this] computes_value] True show ?thesis
      by (simp add: offset_at_def conj_commute)
  qed (simp add: offset_at_def ensures_return)
  show ?thesis
    unfolding government_haircut_def
  proof (rule ensures_bind [OF ensures_conj [OF ensures_bands [OF assms] computes_bands]], rule ensures_bind [OF off], goal_cases)
    case (1 bs o')
    have last: "ensures True (State_Monad.bind (each (\<lambda>p. on_cond (months_to_maturity p = None)
          (missing_input (''months_to_maturity['' @ pos_issue p @ '']''))) ps) (\<lambda>_. State_Monad.return x))
        (\<lambda>_. \<not> list_ex (\<lambda>p. months_to_maturity p = None) ps)" for x :: "HaircutLine list option"
      by (rule ensures_bind [OF ensures_each [OF ensures_on_cond [OF ensures_findings(3)]]])
         (auto intro!: ensures_return simp: list_ex_iff)
    have guard: "(list_ex (\<lambda>b. band_rate b = None) bs \<or> list_ex (\<lambda>b. band_upper b = None) (butlast bs)) =
        (\<not> bands_complete bs)" by (auto simp: bands_complete_def)
    show ?case
    proof (cases o')
      case (Some off)
      show ?thesis
        unfolding Some option.case guard
        by (intro ensures_if ensures_return ensures_weaken [OF last]) (auto simp: government_at_def given_def)
    qed (auto intro: ensures_return)
  qed
qed

lemma ensures_provisions:
  "ensures True (government_provisions_ruled_out i) (\<lambda>v. v = ruled_out i \<and> ruled_out i)"
proof -
  have each: "ensures True (case p of (stated, name) \<Rightarrow> case stated of None \<Rightarrow> missing_input name
      | Some applies \<Rightarrow> on_cond applies (flag (name @ '' applies and is not modeled''))) (\<lambda>_. fst p = Some False)" for p
    by (cases p; cases "fst p")
       (auto intro!: ensures_weaken [OF ensures_findings(3)] ensures_weaken [OF ensures_on_cond [OF ensures_findings(1)]])
  show ?thesis
    unfolding government_provisions_ruled_out_def
    by (rule ensures_bind [OF ensures_each [OF each]]) (auto intro!: ensures_return simp: ruled_out_def)
qed

lemma ensures_haircuts:
  assumes "capital_valued t"
  shows "ensures True (haircuts_of t i) (\<lambda>r. fst r = haircut_at t i \<and> given (haircut_at t i))"
proof -
  have flags: "ensures True (each (\<lambda>c. flag (''no haircut is loaded for asset class '' @ c)) (unknown_classes (nc_positions i)))
      (\<lambda>_. unknown_classes (nc_positions i) = [])"
    by (rule ensures_weaken [OF ensures_each [OF ensures_findings(1)]]) (simp add: filter_empty_conv)
  have gov: "ensures True (government_lines t i) (\<lambda>_. given (government_lines_at t i))"
    unfolding government_lines_def government_lines_at_def Let_def
    by (auto intro!: ensures_return ensures_bind [OF ensures_provisions] ensures_bind [OF ensures_government [OF assms]])
  have val: "ensures True (read_value t rid) (\<lambda>_. given (loaded_value t rid))"
    if "rid \<in> {EQUITY_RATE, EQUITY_LESSER_THRESHOLD, EQUITY_EXCESS_RATE}" for rid
    using that capital_rules(1) by (intro ensures_given_rule [OF assms]) auto
  have eq: "ensures True (equity_lines t i) (\<lambda>_. given (equity_lines_at t i))"
    unfolding equity_lines_def equity_lines_at_def equity_haircut_def Let_def
    by (auto intro!: ensures_return ensures_bind [OF val] elim!: givenE)
  show ?thesis
    by (rule ensures_weaken [OF ensures_conj [OF _ computes_haircuts]],
        unfold haircuts_of_def, rule ensures_bind [OF flags], rule ensures_bind [OF gov], rule ensures_bind [OF eq],
        rule ensures_return [where P = "\<lambda>r. _ \<longrightarrow> _ \<longrightarrow> _ \<longrightarrow> given (haircut_at t i)"])
       (auto simp: haircut_at_def elim!: givenE)
qed

definition ratio_complete :: "RuleTable \<Rightarrow> NetCapitalInputs \<Rightarrow> bool" where
  "ratio_complete t i \<longleftrightarrow>
     (if nc_standard i = ALTERNATIVE
      then given (loaded_value t ALT_FLOOR) \<and> given (loaded_value t ALT_PERCENT) \<and> given (aggregate_debit_items i)
      else given (multiple_at t i) \<and> given (nc_aggregate_indebtedness i))"

lemma ensures_ratio:
  assumes "capital_valued t"
  shows "ensures True (ratio_requirement t i) (\<lambda>r. r = ratio_at t i \<and> ratio_complete t i)"
proof -
  have val: "ensures True (read_value t rid) (\<lambda>v. v = loaded_value t rid \<and> given (loaded_value t rid))"
    if "rid \<in> {ALT_FLOOR, ALT_PERCENT, FIRST_YEAR_MONTHS, AI_CEILING, AI_CEILING_FIRST_YEAR}" for rid
    using that capital_rules(1)
    by (intro ensures_weaken [OF ensures_conj [OF ensures_given_rule [OF assms] computes_value]]) auto
  have alt: "ensures True (alternative_requirement t i) (\<lambda>_. given (loaded_value t ALT_FLOOR) \<and>
      given (loaded_value t ALT_PERCENT) \<and> given (aggregate_debit_items i))"
    unfolding alternative_requirement_def
    by (rule ensures_bind [OF val], simp, rule ensures_bind [OF val], simp, cases "aggregate_debit_items i")
       (auto intro!: ensures_return ensures_bind [OF ensures_findings(3)])
  have ai: "ensures True (indebtedness_requirement t i) (\<lambda>_. given (multiple_at t i) \<and> given (nc_aggregate_indebtedness i))"
  proof -
    have last: "ensures True (case (months_in_business i, first) of
        (Some months, Some f) \<Rightarrow> do {
          multiple \<leftarrow> read_value t (if months < f then AI_CEILING_FIRST_YEAR else AI_CEILING);
          State_Monad.return (g multiple) }
      | _ \<Rightarrow> State_Monad.return g') (\<lambda>_. months_in_business i \<noteq> None \<longrightarrow> first = loaded_value t FIRST_YEAR_MONTHS \<and>
          given (loaded_value t FIRST_YEAR_MONTHS) \<longrightarrow> given (multiple_at t i))"
      for first g and g' :: "division_error + ratio"
    proof (cases "months_in_business i"; cases first)
      fix months f
      assume m: "months_in_business i = Some months" "first = Some f"
      let ?rid = "if months < f then AI_CEILING_FIRST_YEAR else AI_CEILING"
      have "ensures True (read_value t ?rid) (\<lambda>v. v = loaded_value t ?rid \<and> given (loaded_value t ?rid))" by (rule val) simp
      then show ?thesis
        unfolding m option.case prod.case
        by (rule ensures_bind, intro ensures_return) (auto simp: multiple_at_def m split: option.splits)
    qed (auto intro: ensures_return)
    show ?thesis
      unfolding indebtedness_requirement_def
      by (rule ensures_bind [OF ensures_on_cond [OF ensures_findings(3)]],
          rule ensures_bind [OF ensures_on_cond [OF ensures_findings(3)]], rule ensures_bind [OF val], simp,
          rule ensures_weaken [OF last]) (auto simp: given_def)
  qed
  show ?thesis
  proof (rule ensures_weaken [OF ensures_conj [OF _ computes_ratio]])
    show "ensures True (ratio_requirement t i) (\<lambda>_. ratio_complete t i)"
      unfolding ratio_requirement_def ratio_complete_def by (auto intro!: ai ensures_bind [OF alt] ensures_return)
  qed auto
qed

lemma ratio_complete_figures:
  assumes "ratio_complete t i" and "ratio_at t i = Inr q"
  shows "given (fst q)" and "nc_standard i \<noteq> ALTERNATIVE \<Longrightarrow> snd (snd q) = multiple_at t i"
  using assms by (auto simp: ratio_complete_def ratio_at_def divided_def elim!: givenE split: if_splits)

definition warnings_fed :: "RuleTable \<Rightarrow> NetCapitalInputs \<Rightarrow> bool" where
  "warnings_fed t i \<longleftrightarrow>
     (nc_standard i = AGGREGATE_INDEBTEDNESS \<longrightarrow> given (loaded_value t WARN_AI)) \<and>
     (nc_standard i = ALTERNATIVE \<longrightarrow> given (loaded_value t WARN_ALT)) \<and> given (loaded_value t WARN_MINIMUM) \<and>
     (reports_lending_activity_monthly i \<noteq> Some True \<longrightarrow> given (loaded_value t WARN_LEVERAGE) \<and>
        given (securities_loaned_and_repo_payable i) \<and> given (securities_borrowed_and_reverse_repo_value i))"

lemma ensures_warnings:
  assumes "capital_valued t"
  shows "ensures True (early_warnings_of t i net tentative minimum)
    (\<lambda>ws. ws = warnings_at t i net tentative minimum \<and> warnings_fed t i)"
proof -
  have val: "ensures True (read_value t rid) (\<lambda>_. given (loaded_value t rid))"
    if "rid \<in> {WARN_AI, WARN_ALT, WARN_MINIMUM, WARN_LEVERAGE}" for rid
    using that capital_rules(1) by (intro ensures_given_rule [OF assms]) auto
  have std: "ensures True (standard_warning t i net) (\<lambda>_. (nc_standard i = AGGREGATE_INDEBTEDNESS \<longrightarrow> given (loaded_value t WARN_AI)) \<and>
     (nc_standard i = ALTERNATIVE \<longrightarrow> given (loaded_value t WARN_ALT)))"
    unfolding standard_warning_def
    by (cases "nc_standard i") (auto intro!: ensures_bind [OF val] ensures_return)
  have one: "ensures True (leverage_warning limit m) (\<lambda>_. given (snd m))" for limit m
    unfolding leverage_warning_def
    by (rule ensures_bind [OF ensures_on_cond [OF ensures_findings(3)]]) (auto intro!: ensures_return simp: given_def)
  have lev: "ensures True (leverage_warnings t i tentative) (\<lambda>_. reports_lending_activity_monthly i \<noteq> Some True \<longrightarrow>
      given (loaded_value t WARN_LEVERAGE) \<and> given (securities_loaned_and_repo_payable i) \<and>
      given (securities_borrowed_and_reverse_repo_value i))"
  proof (cases "reports_lending_activity_monthly i = Some True")
    case True
    then show ?thesis by (auto simp: leverage_warnings_def intro!: ensures_return ensures_after keeping)
  next
    case False
    show ?thesis
      unfolding leverage_warnings_def if_not_P [OF False]
      by (rule ensures_after [OF keeps_on_cond [OF keeps_simple(4)]], rule ensures_bind [OF val], simp,
          rule ensures_weaken [OF ensures_gather_all [OF one]]) (auto simp: leverage_measures_def)
  qed
  show ?thesis
  proof (rule ensures_weaken [OF ensures_conj [OF _ computes_warnings]])
    show "ensures True (early_warnings_of t i net tentative minimum) (\<lambda>_. warnings_fed t i)"
      unfolding early_warnings_of_def
      by (rule ensures_bind [OF std], rule ensures_bind [OF val], simp, rule ensures_bind [OF lev], rule ensures_return)
         (auto simp: warnings_fed_def)
  qed auto
qed

definition unbreached :: "RuleTable \<Rightarrow> NetCapitalInputs \<Rightarrow> ratio \<Rightarrow> bool" where
  "unbreached t i q \<longleftrightarrow>
     given (loaded_value t (minimum_rule (category i))) \<and> \<not> below (net_at t i) (loaded_value t (minimum_rule (category i))) \<and>
     \<not> (nc_standard i = AGGREGATE_INDEBTEDNESS \<and> below (times_opt (snd (snd q)) (net_at t i)) (nc_aggregate_indebtedness i)) \<and>
     \<not> (nc_standard i = ALTERNATIVE \<and> below (net_at t i) (fst q)) \<and> warnings_fed t i \<and>
     (\<forall>w \<in> set (warnings_at t i (net_at t i) (tentative_at i) (minimum_at t i q)). triggered w \<noteq> Some True)"

lemma ensures_rest:
  assumes "capital_valued t" and "fst taken = haircut_at t i"
  shows "ensures True (net_capital_rest t i adds deds (tentative_at i) taken q) (\<lambda>_. unbreached t i q)"
proof -
  have breaches: "ensures True (capital_breaches i net activity ratio multiple) (\<lambda>_. \<not> below net activity \<and>
     \<not> (nc_standard i = AGGREGATE_INDEBTEDNESS \<and> below (times_opt multiple net) (nc_aggregate_indebtedness i)) \<and>
     \<not> (nc_standard i = ALTERNATIVE \<and> below net ratio))" for net activity ratio multiple
    unfolding capital_breaches_def
    by (rule ensures_bind [OF ensures_on_cond [OF ensures_findings(4)]],
        rule ensures_bind [OF ensures_on_cond [OF ensures_findings(4)]],
        rule ensures_weaken [OF ensures_on_cond [OF ensures_findings(4)]]) auto
  show ?thesis
    unfolding net_capital_rest_def Let_def assms(2) net_at_def [symmetric]
    by (rule ensures_bind [OF ensures_conj [OF ensures_given_rule [OF assms(1) capital_rules(2)] computes_value]],
        rule ensures_bind [OF breaches], rule ensures_bind [OF ensures_warnings [OF assms(1)]],
        rule ensures_bind [OF ensures_each [OF ensures_on_cond [OF ensures_findings(4)]]], rule ensures_return)
       (auto simp: unbreached_def minimum_at_def)
qed

lemma ensures_run:
  assumes "capital_valued t"
  shows "ensures True (net_capital_run t i) (\<lambda>r. \<forall>q. ratio_at t i = Inr q \<longrightarrow>
    given (tentative_at i) \<and> given (haircut_at t i) \<and> ratio_complete t i \<and> unbreached t i q)"
proof -
  have worth: "ensures True (on_cond (net_worth i = None) (missing_input ''net_worth'')) (\<lambda>_. given (net_worth i))"
    by (rule ensures_weaken [OF ensures_on_cond [OF ensures_findings(3)]]) (auto simp: given_def)
  have total: "ensures True (total_of name xs) (\<lambda>v. v = total_at xs \<and> given (total_at xs))" for name xs
    unfolding total_of_def
    by (rule ensures_bind [OF ensures_each [OF ensures_on_cond [OF ensures_findings(3)]]], rule ensures_return)
       (auto simp: total_at_def sum_opt_def list_ex_iff given_def dest!: sym [of None])
  have rest: "ensures True (case r of Inl e \<Rightarrow> State_Monad.return (Inl e)
      | Inr ratio \<Rightarrow> net_capital_rest t i (total_at (additions i)) (total_at (deductions i)) (tentative_at i) taken ratio
          \<bind> (\<lambda>finish. State_Monad.return (Inr finish))) (\<lambda>_. \<forall>q. r = Inr q \<longrightarrow> unbreached t i q)"
    if "fst taken = haircut_at t i" for r taken
    by (cases r) (auto intro!: ensures_return ensures_bind [OF ensures_rest [OF assms that]])
  show ?thesis
    unfolding net_capital_run_def Let_def
    apply (rule ensures_bind [OF worth], rule ensures_bind [OF total], rule ensures_bind [OF total])
    apply (rule ensures_bind [OF ensures_haircuts [OF assms]], rule ensures_bind [OF ensures_ratio [OF assms]])
    subgoal for u adds deds taken r
    proof (cases "adds = total_at (additions i) \<and> deds = total_at (deductions i) \<and> fst taken = haircut_at t i")
      case True
      show ?thesis
        unfolding conjunct1 [OF True] conjunct1 [OF conjunct2 [OF True]] tentative_at_def [symmetric]
        by (rule ensures_weaken [OF rest], use True in simp)
           (auto simp: tentative_at_def plus_opt_def minus_opt_def elim!: givenE)
    next
      case False
      have "keeps True (net_capital_rest t i adds deds tent taken q)" for tent q
        unfolding net_capital_rest_def Let_def capital_breaches_def early_warnings_of_def standard_warning_def
          leverage_warnings_def leverage_warning_def
        by (intro keeping keeps_gather ensures_if)
      with False show ?thesis
        by (cases r) (auto intro!: ensures_return keeps_bind keeps_simple)
    qed
    done
qed

definition adequate :: "RuleTable \<Rightarrow> NetCapitalInputs \<Rightarrow> NetCapitalResult \<Rightarrow> bool" where
  "adequate t i r \<longleftrightarrow>
     (\<exists>n a q. net_capital r = Some n \<and> net_at t i = Some n \<and>
        loaded_value t (minimum_rule (category i)) = Some a \<and> ncr_ratio_requirement r = Some q \<and>
        minimum_requirement r = Some (max q a) \<and> excess_net_capital r = Some (rnd28 (n - max q a)) \<and> a \<le> n \<and>
        (nc_standard i = ALTERNATIVE \<longrightarrow> q \<le> n) \<and>
        (nc_standard i = AGGREGATE_INDEBTEDNESS \<longrightarrow>
           (\<exists>m ai. multiple_at t i = Some m \<and> nc_aggregate_indebtedness i = Some ai \<and> ai \<le> rnd28 (m * n)))) \<and>
     (\<forall>w \<in> set (early_warnings r). triggered w = Some False)"

lemma warnings_decided:
  assumes "warnings_fed t i" and "ratio_complete t i" and "given net" and "given tentative" and "given minimum"
    and "w \<in> set (warnings_at t i net tentative minimum)"
  shows "triggered w \<noteq> None"
  using assms
  by (cases "nc_standard i")
     (auto simp: warnings_at_def warnings_fed_def ratio_complete_def leverage_measures_def warning_def times_opt_def
       elim!: givenE split: if_splits)

subsection \<open>What the net capital computation promises\<close>

text \<open>
  C32: PASS means adequate capital. When the rules with figures carry them, a net capital computation
  that passes determined net capital, the ratio requirement and the activity minimum; net capital is
  at least the activity minimum, and under the alternative standard at least the ratio requirement,
  while aggregate indebtedness is at most the loaded multiple of it; and every early-warning
  indicator was decided and is not triggered.\<close>

theorem capital_pass_is_adequate:
  assumes "capital_valued t" and "compute_net_capital i t = Inr r" and "ncr_disposition r = Disposition.PASS"
  shows "adequate t i r"
proof (cases rule: compute_net_capital_cases [of i t])
  case (ends q finish w)
  with assms(2,3) have r: "r = finish w" and "clean True w" by auto
  from ensures_pass [OF ensures_run [OF assms(1)] ends(3) this(2)] ends(2)
  have g: "given (tentative_at i)" "given (haircut_at t i)" "ratio_complete t i" "unbreached t i q" by auto
  note q = ratio_complete_figures [OF g(3) ends(2)]
  obtain n a p where v: "net_at t i = Some n" "loaded_value t (minimum_rule (category i)) = Some a" "fst q = Some p"
    using g q(1) by (auto simp: net_at_def minus_opt_def unbreached_def elim!: givenE)
  then have m: "minimum_at t i q = Some (max p a)" by (simp add: minimum_at_def max_opt_def)
  have "nc_standard i = AGGREGATE_INDEBTEDNESS \<Longrightarrow>
      \<exists>m ai. multiple_at t i = Some m \<and> nc_aggregate_indebtedness i = Some ai \<and> ai \<le> rnd28 (m * n)"
    using g(3,4) q(2) v(1)
    by (auto simp: ratio_complete_def unbreached_def below_def times_opt_def not_less elim!: givenE)
  moreover have "\<forall>w \<in> set (early_warnings r). triggered w = Some False"
  proof
    fix x assume x: "x \<in> set (early_warnings r)"
    then have "x \<in> set (warnings_at t i (net_at t i) (tentative_at i) (minimum_at t i q))"
      using ends(4) r by (simp add: figures_at_def)
    with warnings_decided [of t i "net_at t i" "tentative_at i" "minimum_at t i q" x] g v m
    show "triggered x = Some False" by (cases "triggered x") (auto simp: unbreached_def)
  qed
  ultimately show ?thesis
    using ends(4) r v m g(4)
    by (auto simp: adequate_def figures_at_def unbreached_def below_def minus_opt_def not_less)
qed (use assms in simp)

text \<open>
  C34: The computation raises exactly where it divides by a multiple of zero: under the aggregate
  indebtedness standard, with the months in business and aggregate indebtedness stated and the
  multiple that applies loaded as zero. Nothing else raises, whatever is missing.\<close>

theorem net_capital_raises_iff:
  "compute_net_capital i t = Inl e \<longleftrightarrow>
     nc_standard i = AGGREGATE_INDEBTEDNESS \<and> multiple_at t i = Some 0 \<and>
     (\<exists>ai. nc_aggregate_indebtedness i = Some ai \<and> e = (if ai = 0 then Division_Undefined else Division_By_Zero))"
proof -
  have "compute_net_capital i t = Inl e \<longleftrightarrow> ratio_at t i = Inl e"
    by (cases rule: compute_net_capital_cases [of i t]) simp_all
  also have "\<dots> \<longleftrightarrow> nc_standard i = AGGREGATE_INDEBTEDNESS \<and> multiple_at t i = Some 0 \<and>
     (\<exists>ai. nc_aggregate_indebtedness i = Some ai \<and> e = (if ai = 0 then Division_Undefined else Division_By_Zero))"
    by (cases "nc_standard i"; cases "multiple_at t i"; cases "nc_aggregate_indebtedness i")
       (auto simp: ratio_at_def divided_def)
  finally show ?thesis .
qed

subsection \<open>The election of the haircut method\<close>

definition sides_ok :: "rat \<times> rat \<Rightarrow> bool" where
  "sides_ok ls \<longleftrightarrow> 0 \<le> fst ls \<and> 0 \<le> snd ls \<and> rnd28 (fst ls) = fst ls \<and> rnd28 (snd ls) = snd ls"

lemma sides_ok_deductions:
  assumes "\<And>k. 0 \<le> rate_of bands k"
  shows "sides_ok (side_deductions bands ps c subs)"
proof -
  define step where "step = (\<lambda>(l, s) sub.
         let amount = net_of bands ps (c, sub); rate = rate_of bands (c, sub) in
         if amount \<ge> 0 then (rnd28 (l + rnd28 (amount * rate)), s)
         else (l, rnd28 (s + rnd28 (rnd28 (- amount) * rate))))"
  have one: "sides_ok (step ls sub)" if "sides_ok ls" for ls sub
    using that assms [of "(c, sub)"]
    by (cases ls) (auto simp: step_def sides_ok_def Let_def dround_idem not_le
        intro!: dround_nonneg add_nonneg_nonneg mult_nonneg_nonneg)
  have "sides_ok ls \<Longrightarrow> sides_ok (foldl step ls subs)" for ls
    by (induction subs arbitrary: ls) (simp_all only: foldl.simps one)
  moreover have "sides_ok (0, 0)" by (simp add: sides_ok_def)
  ultimately show ?thesis unfolding side_deductions_def step_def by blast
qed

lemma category_cheaper:
  assumes "sides_ok (l, s)" and "0 \<le> off" and "off \<le> 1"
  shows "category_deduction CATEGORY off l s \<le> category_deduction SUBCATEGORY off' l s"
proof -
  have ls: "0 \<le> l" "0 \<le> s" "rnd28 l = l" "rnd28 s = s" using assms(1) by (simp_all add: sides_ok_def)
  have "off * min l s \<le> min l s" using ls assms(2,3) mult_right_mono [of off 1 "min l s"] by simp
  then have "rnd28 (off * min l s) \<le> rnd28 (min l s)" by (rule dround_mono [rotated]) simp
  also have "rnd28 (min l s) = min l s" using ls by (simp add: min_def)
  finally have o: "rnd28 (off * min l s) \<le> min l s" .
  have "rnd28 (l - s) \<le> l" "rnd28 (s - l) \<le> s"
    using ls dround_mono [of 28 "l - s" l] dround_mono [of 28 "s - l" s] by simp_all
  moreover have "rnd28 (s - l) = - rnd28 (l - s)" by (subst dround_minus [symmetric]) simp
  moreover have "0 \<le> rnd28 (l - s)" if "s \<le> l" using that by (simp add: dround_nonneg)
  moreover have "0 \<le> rnd28 (s - l)" if "l \<le> s" using that by (simp add: dround_nonneg)
  ultimately have "\<bar>rnd28 (l - s)\<bar> \<le> max l s" using ls by (cases "s \<le> l") auto
  with o have "\<bar>rnd28 (l - s)\<bar> + rnd28 (off * min l s) \<le> l + s" by (auto simp: min_def max_def split: if_splits)
  then show ?thesis by (simp add: category_deduction_def dround_mono)
qed

definition rates_ok :: "RuleTable \<Rightarrow> bool" where
  "rates_ok t \<longleftrightarrow> (\<forall>k \<in> set band_keys. case loaded_value t (band_stem k @ ''.rate'') of None \<Rightarrow> True | Some v \<Rightarrow> 0 \<le> v)"

lemma rate_of_nonneg:
  assumes "rates_ok t" and "bands_complete (bands_at t)"
  shows "0 \<le> rate_of (bands_at t) k"
proof (cases "find (\<lambda>b. (band_category b, band_sub b) = k) (bands_at t)")
  case (Some b)
  then have "b \<in> set (bands_at t)" by (auto simp: find_Some_iff in_set_conv_nth)
  with assms obtain v where "band_rate b = Some v" "0 \<le> v"
    by (fastforce simp: rates_ok_def bands_at_def band_at_def bands_complete_def list_ex_iff split: option.splits)
  with Some show ?thesis by (simp add: rate_of_def)
qed (simp add: rate_of_def)

lemma list_all2_concat_map:
  "(\<And>x. x \<in> set xs \<Longrightarrow> list_all2 P (f x) (g x)) \<Longrightarrow> list_all2 P (concat (map f xs)) (concat (map g xs))"
  by (induction xs) (auto intro: list_all2_appendI)

lemma category_lines_cheaper:
  assumes "\<And>k. 0 \<le> rate_of bands k" and "0 \<le> off" and "off \<le> 1"
  shows "list_all2 (\<le>) (map hl_amount (concat (map (category_lines CATEGORY off bands ps) cs)))
    (map hl_amount (concat (map (category_lines SUBCATEGORY 0 bands ps) cs)))"
proof -
  have "list_all2 (\<lambda>x y. hl_amount x \<le> hl_amount y) (category_lines CATEGORY off bands ps k)
      (category_lines SUBCATEGORY 0 bands ps k)" for k
  proof (cases "side_deductions bands ps (fst k) (snd k)")
    case (Pair l s)
    with sides_ok_deductions [OF assms(1), of ps "fst k" "snd k"] category_cheaper [OF _ assms(2,3)]
    show ?thesis by (simp add: category_lines_def)
  qed
  then show ?thesis by (simp add: list.rel_map list_all2_concat_map)
qed

lemma election_keeps:
  "ratio_at t (i\<lparr>government_election := e\<rparr>) = ratio_at t i"
  "tentative_at (i\<lparr>government_election := e\<rparr>) = tentative_at i"
proof -
  have "multiple_at t (i\<lparr>government_election := e\<rparr>) = multiple_at t i" by (simp add: multiple_at_def)
  then show "ratio_at t (i\<lparr>government_election := e\<rparr>) = ratio_at t i" by (simp add: ratio_at_def split: option.split)
qed (simp add: tentative_at_def)

lemma haircut_election:
  assumes "rates_ok t" and "loaded_value t GOV_OFFSET = Some off" and "0 \<le> off" and "off \<le> 1"
    and "haircut_at t (i\<lparr>government_election := SUBCATEGORY\<rparr>) = Some h'"
  shows "\<exists>h. haircut_at t (i\<lparr>government_election := CATEGORY\<rparr>) = Some h \<and> h \<le> h'"
proof -
  let ?sub = "i\<lparr>government_election := SUBCATEGORY\<rparr>" and ?cat = "i\<lparr>government_election := CATEGORY\<rparr>"
  from assms(5) obtain g' e' where ge: "government_lines_at t ?sub = Some g'" "equity_lines_at t ?sub = Some e'"
    "unknown_classes (nc_positions i) = []" "h' = dsum_from 28 0 (map hl_amount (g' @ e'))"
    by (auto simp: haircut_at_def split: option.splits if_splits)
  have e: "equity_lines_at t ?cat = Some e'" using ge(2) by (simp add: equity_lines_at_def)
  have "\<exists>g. government_lines_at t ?cat = Some g \<and> list_all2 (\<le>) (map hl_amount g) (map hl_amount g')"
  proof (cases "of_class GOVERNMENT (nc_positions i) = []")
    case True
    with ge(1) show ?thesis by (auto simp: government_lines_at_def list_all2_refl)
  next
    case False
    let ?ps = "of_class GOVERNMENT (nc_positions i)"
    from False ge(1) have c: "ruled_out ?sub" "bands_complete (bands_at t)" "\<not> list_ex (\<lambda>p. months_to_maturity p = None) ?ps"
      "g' = concat (map (category_lines SUBCATEGORY 0 (bands_at t) ?ps) GOVERNMENT_BANDS)"
      by (auto simp: government_lines_at_def government_at_def offset_at_def Let_def split: if_splits)
    have "ruled_out ?cat" using c(1) by (simp add: ruled_out_def provisions_def)
    then have "government_lines_at t ?cat = Some (concat (map (category_lines CATEGORY off (bands_at t) ?ps) GOVERNMENT_BANDS))"
      using False c assms(2) by (simp add: government_lines_at_def government_at_def offset_at_def Let_def)
    moreover note category_lines_cheaper [OF rate_of_nonneg [OF assms(1) c(2)] assms(3,4), of ?ps GOVERNMENT_BANDS]
    ultimately show ?thesis using c(4) by blast
  qed
  then obtain g where g: "government_lines_at t ?cat = Some g" "list_all2 (\<le>) (map hl_amount g) (map hl_amount g')" by blast
  have "haircut_at t ?cat = Some (dsum_from 28 0 (map hl_amount (g @ e')))"
    using g(1) e ge(3) by (simp add: haircut_at_def)
  moreover have "dsum_from 28 0 (map hl_amount (g @ e')) \<le> h'"
    unfolding ge(4) map_append
    by (rule dsum_mono) (auto intro!: list_all2_appendI g(2) simp: list_all2_refl)
  ultimately show ?thesis by blast
qed

text \<open>
  C33: Electing the subcategory method never raises net capital. Where the loaded government rates are
  not negative and the loaded offset share lies between zero and one, if net capital is determined
  under the subcategory election, it is determined under the category method too, and is at least as
  large: through every rounding of the haircuts, their sum and the difference.\<close>

theorem subcategory_never_raises_capital:
  assumes "rates_ok t" and "loaded_value t GOV_OFFSET = Some off" and "0 \<le> off" and "off \<le> 1"
    and "compute_net_capital (i\<lparr>government_election := SUBCATEGORY\<rparr>) t = Inr r'" and "net_capital r' = Some n'"
  shows "\<exists>r n. compute_net_capital (i\<lparr>government_election := CATEGORY\<rparr>) t = Inr r \<and> net_capital r = Some n \<and> n' \<le> n"
proof -
  let ?sub = "i\<lparr>government_election := SUBCATEGORY\<rparr>" and ?cat = "i\<lparr>government_election := CATEGORY\<rparr>"
  have same: "ratio_at t ?sub = ratio_at t ?cat" "tentative_at ?sub = tentative_at ?cat"
    by (simp_all add: election_keeps)
  from assms(5,6) obtain q where sub: "ratio_at t ?sub = Inr q" "net_at t ?sub = Some n'"
    by (cases rule: compute_net_capital_cases [of ?sub t]) (auto simp: figures_at_def)
  then obtain h' x where h': "haircut_at t ?sub = Some h'" "tentative_at ?sub = Some x" "n' = rnd28 (x - h')"
    by (auto simp: net_at_def minus_opt_def split: option.splits)
  from haircut_election [OF assms(1-4) h'(1)] obtain h where h: "haircut_at t ?cat = Some h" "h \<le> h'" by blast
  with h' same have n: "net_at t ?cat = Some (rnd28 (x - h))" "n' \<le> rnd28 (x - h)"
    by (simp_all add: net_at_def minus_opt_def dround_mono)
  then show ?thesis
    using sub(1) same by (cases rule: compute_net_capital_cases [of ?cat t]) (auto simp: figures_at_def)
qed

subsection \<open>The warning comes first\<close>

text \<open>
  The indebtedness warning comes before the breach. Where the warning's loaded multiple is
  positive and at most the multiple that applies, whenever aggregate indebtedness exceeds the
  multiple of net capital, Rule 17a-11(b)(1)'s indicator is triggered.\<close>

theorem indebtedness_warning_comes_first:
  assumes "net_capital_inputs_ok i" and "nc_standard i = AGGREGATE_INDEBTEDNESS"
    and "loaded_value t WARN_AI = Some x" and "0 < x" and "multiple_at t i = Some m" and "x \<le> m"
    and "compute_net_capital i t = Inr r" and "net_capital r = Some n"
    and "nc_aggregate_indebtedness i = Some ai" and "ai > rnd28 (m * n)"
  shows "\<exists>w \<in> set (early_warnings r). ew_rule_id w = WARN_AI \<and> triggered w = Some True"
proof -
  from assms(7,8) obtain q where "net_at t i = Some n"
    "early_warnings r = warnings_at t i (net_at t i) (tentative_at i) (minimum_at t i q)"
    by (cases rule: compute_net_capital_cases [of i t]) (auto simp: figures_at_def)
  moreover have "rnd28 (x * n) < ai"
  proof (cases "0 \<le> n")
    case True
    then have "rnd28 (x * n) \<le> rnd28 (m * n)" using assms(6) by (simp add: dround_mono mult_right_mono)
    with assms(10) show ?thesis by simp
  next
    case False
    then have "0 < x * (- n)" using assms(4) by (intro mult_pos_pos) simp_all
    then have "0 < rnd28 (- (x * n))" by (intro dround_pos) simp_all
    then have "0 < - rnd28 (x * n)" by (simp only: dround_minus)
    moreover have "0 \<le> ai" using assms(1,9) by (simp add: net_capital_inputs_ok_def nonneg_opt_def)
    ultimately show ?thesis by linarith
  qed
  ultimately show ?thesis
    using assms(2,3,9) by (simp add: warnings_at_def warning_def times_opt_def)
qed

subsection \<open>Witnesses\<close>

definition capital_item :: "string \<times> rat \<Rightarrow> RuleItem" where
  "capital_item rv = \<lparr>ri_id = fst rv, ri_kind = USD, ri_citation = ''c'', ri_source_id = ''s'', source_file = ''f'',
     source_label = RULE, ri_sha256 = ''h'', ri_retrieval_dtg = ''d'', effective_date = None,
     ri_compliance_date = None, ri_quote = ''q'', ri_value = Some (snd rv)\<rparr>"

definition capital_table :: "RuleTable" where
  "capital_table = \<lparr>table_version = ''1'', table_digest = ''d'', rule_sources = [],
     items = map capital_item
       ([(FIRST_YEAR_MONTHS, 12), (AI_CEILING, 15), (minimum_rule OTHER, 5000), (WARN_AI, 12), (WARN_MINIMUM, 6 / 5),
         (GOV_OFFSET, 1 / 2)] @ map (\<lambda>k. (band_stem k @ ''.upper_months'', 6)) band_keys @
         map (\<lambda>k. (band_stem k @ ''.rate'', 1)) band_keys),
     rejected = []\<rparr>"

definition capital_inputs :: "rat \<Rightarrow> Position list \<Rightarrow> NetCapitalInputs" where
  "capital_inputs ai ps = \<lparr>nc_as_of = 739797, nc_standard = AGGREGATE_INDEBTEDNESS, category = OTHER,
     net_worth = Some 10000, additions = [], deductions = [], nc_positions = ps, government_election = CATEGORY,
     elects_a3_cross_category_exclusion = Some False, elects_a4_futures_deliverable_inclusion = Some False,
     qualifies_a5_government_dealer_reduction = Some False, nc_aggregate_indebtedness = Some ai,
     months_in_business = Some 24, aggregate_debit_items = None, reports_lending_activity_monthly = Some True,
     securities_loaned_and_repo_payable = None, securities_borrowed_and_reverse_repo_value = None\<rparr>"

lemma find_capital:
  "find (\<lambda>i. ri_id i = rid) (map capital_item rvs) = map_option capital_item (find (\<lambda>rv. fst rv = rid) rvs)"
  by (induction rvs) (auto simp: capital_item_def)

lemma capital_get:
  "rule_get capital_table rid = map_option capital_item (find (\<lambda>rv. fst rv = rid)
     ([(FIRST_YEAR_MONTHS, 12), (AI_CEILING, 15), (minimum_rule OTHER, 5000), (WARN_AI, 12), (WARN_MINIMUM, 6 / 5),
         (GOV_OFFSET, 1 / 2)] @ map (\<lambda>k. (band_stem k @ ''.upper_months'', 6)) band_keys @
         map (\<lambda>k. (band_stem k @ ''.rate'', 1)) band_keys))"
  by (simp add: rule_get_def capital_table_def find_capital del: map_append append.simps list.map)

lemmas rule_names = FIRST_YEAR_MONTHS_def AI_CEILING_def WARN_AI_def WARN_MINIMUM_def GOV_OFFSET_def

lemma capital_values:
  "rule_get capital_table FIRST_YEAR_MONTHS = Some (capital_item (FIRST_YEAR_MONTHS, 12))"
  "rule_get capital_table AI_CEILING = Some (capital_item (AI_CEILING, 15))"
  "rule_get capital_table (minimum_rule OTHER) = Some (capital_item (minimum_rule OTHER, 5000))"
  "rule_get capital_table WARN_AI = Some (capital_item (WARN_AI, 12))"
  "rule_get capital_table WARN_MINIMUM = Some (capital_item (WARN_MINIMUM, 6 / 5))"
  "rule_get capital_table GOV_OFFSET = Some (capital_item (GOV_OFFSET, 1 / 2))"
  by (simp_all add: capital_get rule_names)

lemma capital_item_value [simp]: "ri_value (capital_item rv) = Some (snd rv)"
  by (simp add: capital_item_def)

lemma capital_table_valued: "capital_valued capital_table"
  unfolding capital_valued_def
proof (intro ballI allI impI)
  fix rid i
  assume "rule_get capital_table rid = Some i"
  then obtain rv where "i = capital_item rv" by (auto simp: capital_get simp del: find.simps append.simps list.map)
  then show "ri_value i \<noteq> None" by simp
qed

lemma loaded_capital:
  "loaded_value capital_table FIRST_YEAR_MONTHS = Some 12" "loaded_value capital_table AI_CEILING = Some 15"
  "loaded_value capital_table (minimum_rule OTHER) = Some 5000" "loaded_value capital_table WARN_AI = Some 12"
  "loaded_value capital_table WARN_MINIMUM = Some (6 / 5)" "loaded_value capital_table GOV_OFFSET = Some (1 / 2)"
  by (simp_all add: loaded_value_def capital_values del: minimum_rule.simps)

lemma capital_ratio: "ratio_at capital_table (capital_inputs ai ps) = Inr (Some (rnd28 (ai / 15)), Some (rnd28 (ai / 15) = ai / 15), Some 15)"
  and capital_multiple: "multiple_at capital_table (capital_inputs ai ps) = Some 15"
  and capital_tentative: "tentative_at (capital_inputs ai ps) = Some 10000"
  by (simp_all add: ratio_at_def multiple_at_def capital_inputs_def loaded_capital divided_def tentative_at_def total_at_def
      sum_opt_def plus_opt_def minus_opt_def)

lemma capital_no_positions: "net_at capital_table (capital_inputs ai []) = Some 10000"
proof -
  have "haircut_at capital_table (capital_inputs ai []) = Some 0"
    by (simp add: haircut_at_def government_lines_at_def equity_lines_at_def capital_inputs_def of_class_def
        unknown_classes_def)
  then show ?thesis by (simp add: net_at_def capital_tentative minus_opt_def)
qed

theorem indebtedness_warning_comes_first_witness:
  "\<exists>r. compute_net_capital (capital_inputs 160000 []) capital_table = Inr r \<and>
     (\<exists>w \<in> set (early_warnings r). ew_rule_id w = WARN_AI \<and> triggered w = Some True)"
proof (cases rule: compute_net_capital_cases [of "capital_inputs 160000 []" capital_table])
  case (ends q finish w)
  then have "net_capital (finish w) = Some 10000" by (simp add: figures_at_def capital_no_positions)
  moreover have "net_capital_inputs_ok (capital_inputs 160000 [])" "nc_standard (capital_inputs 160000 []) = AGGREGATE_INDEBTEDNESS"
    "nc_aggregate_indebtedness (capital_inputs 160000 []) = Some 160000"
    by (simp_all add: net_capital_inputs_ok_def capital_inputs_def nonneg_opt_def)
  ultimately show ?thesis
    using indebtedness_warning_comes_first [OF _ _ loaded_capital(4) _ capital_multiple [of 160000 "[]"] _ ends(1)] ends(1)
    by simp
qed (simp add: capital_ratio)

lemma capital_run:
  "\<exists>finish. succeeds (net_capital_run capital_table (capital_inputs 30000 [])) (Inr finish)"
proof -
  let ?i = "capital_inputs 30000 []"
  have f: "additions ?i = []" "deductions ?i = []" "net_worth ?i = Some 10000" "nc_positions ?i = []" "category ?i = OTHER"
    "nc_standard ?i = AGGREGATE_INDEBTEDNESS" "nc_aggregate_indebtedness ?i = Some 30000" "months_in_business ?i = Some 24"
    "reports_lending_activity_monthly ?i = Some True"
    by (simp_all add: capital_inputs_def)
  have total: "succeeds (total_of name []) (Some 0)" for name
    by (simp add: total_of_def sum_opt_def) (auto intro: succeeds_bind succeeds_return)
  have cuts: "succeeds (haircuts_of capital_table ?i) (Some 0, [])"
    unfolding haircuts_of_def government_lines_def equity_lines_def of_class_def unknown_classes_def f
    by (rule succeeds_bind [OF succeeds_each], simp, rule succeeds_bind [where v = "Some []"], simp add: succeeds_return,
        rule succeeds_bind [where v = "Some []"]) (simp_all add: succeeds_return)
  note read = succeeds_read_value [OF capital_values(1), unfolded capital_item_value snd_conv]
    succeeds_read_value [OF capital_values(2), unfolded capital_item_value snd_conv]
    succeeds_read_value [OF capital_values(3), unfolded capital_item_value snd_conv]
    succeeds_read_value [OF capital_values(4), unfolded capital_item_value snd_conv]
    succeeds_read_value [OF capital_values(5), unfolded capital_item_value snd_conv]
  have ratio: "succeeds (ratio_requirement capital_table ?i) (divided 30000 15)"
    unfolding ratio_requirement_def indebtedness_requirement_def f
    by (simp, rule succeeds_bind [OF succeeds_on_cond], simp, rule succeeds_bind [OF succeeds_on_cond], simp,
        rule succeeds_bind [OF read(1)], simp, rule succeeds_bind [OF read(2)], simp add: succeeds_return)
  have none: "succeeds (capital_breaches ?i (Some 10000) (Some 5000) (Some 2000) (Some 15)) ()"
    unfolding capital_breaches_def f
    by (intro succeeds_bind [OF succeeds_on_cond] succeeds_on_cond) (simp_all add: below_def times_opt_def)
  let ?ws = "[warning WARN_AI ''17a-11(b)(1)'' (times_opt (Some 12) (Some 10000)) (Some 30000)
          False ''aggregate indebtedness against the loaded multiple of net capital'',
      warning WARN_MINIMUM ''17a-11(b)(3)'' (times_opt (Some (6 / 5)) (Some 5000)) (Some 10000) True
       ''net capital against the loaded multiple of the minimum requirement'']"
  have six: "rnd28 (6 / 5 * 5000) = 6000" by simp
  have ws: "succeeds (early_warnings_of capital_table ?i (Some 10000) tent (Some 5000)) ?ws" for tent
    unfolding early_warnings_of_def standard_warning_def leverage_warnings_def f if_P [OF refl]
    by (rule succeeds_bind, rule succeeds_bind [OF read(4)], rule succeeds_return, rule succeeds_bind [OF read(5)],
        rule succeeds_bind [where v = "[]"], auto intro!: succeeds_bind [OF succeeds_reason] succeeds_return)
  have quiet: "succeeds (each (\<lambda>w. on_cond (triggered w = Some True) (breach (ew_paragraph w) (ew_note w))) ?ws) ()"
    by (rule succeeds_each, rule succeeds_on_cond) (auto simp: warning_def times_opt_def)
  have nums: "rnd28 (10000 + 0) = 10000" "rnd28 (10000 - 0) = 10000" "max 2000 5000 = (5000 :: rat)" by simp_all
  have v: "divided 30000 15 = Inr (Some 2000, Some True, Some 15)" by (simp add: divided_def)
  show ?thesis
    unfolding net_capital_run_def net_capital_rest_def Let_def
    apply (rule exI, rule succeeds_bind [OF succeeds_on_cond], simp add: f)
    apply (simp only: f)
    apply (rule succeeds_bind [OF total], rule succeeds_bind [OF total], rule succeeds_bind [OF cuts])
    apply (rule succeeds_bind [OF ratio])
    apply (simp only: v sum.case fst_conv snd_conv)
    apply (rule succeeds_bind, rule succeeds_bind [OF read(3)])
     apply (simp only: plus_opt_def minus_opt_def max_opt_def prod.case option.case nums)
     apply (rule succeeds_bind [OF none], rule succeeds_bind [OF ws], rule succeeds_bind [OF quiet], rule succeeds_return)
    apply (rule succeeds_return)
    done
qed

theorem capital_pass_is_adequate_witness:
  "\<exists>r. compute_net_capital (capital_inputs 30000 []) capital_table = Inr r \<and>
     adequate capital_table (capital_inputs 30000 []) r"
proof -
  from capital_run obtain fin where fin: "succeeds (net_capital_run capital_table (capital_inputs 30000 [])) (Inr fin)" ..
  show ?thesis
  proof (cases rule: compute_net_capital_cases [of "capital_inputs 30000 []" capital_table])
    case (ends q finish w)
    from succeeds_clean [OF fin ends(3)] ends(5) have "ncr_disposition (finish w) = Disposition.PASS" by simp
    from capital_pass_is_adequate [OF capital_table_valued ends(1) this] ends(1) show ?thesis by blast
  qed (simp add: capital_ratio)
qed

definition bill :: Position where
  "bill = \<lparr>pos_issue = ''bill'', asset_class = ''government'', pos_long = 1000, pos_short = 0, months_to_maturity = Some 3\<rparr>"

lemma capital_bands:
  "bands_at capital_table = map (\<lambda>k. \<lparr>band_category = fst k, band_sub = snd k, band_rate = Some 1,
     band_upper = (if k = LAST_BAND then None else Some 6)\<rparr>) band_keys"
proof -
  have "loaded_value capital_table (band_stem k @ ''.rate'') = Some 1"
    "loaded_value capital_table (band_stem k @ ''.upper_months'') = Some 6" if "k \<in> set band_keys" for k
    using that
    by (auto simp: band_keys_def GOVERNMENT_BANDS_def loaded_value_def capital_get rule_names band_stem_def)
  then show ?thesis by (simp add: bands_at_def band_at_def)
qed

lemma capital_rates: "rates_ok capital_table"
  unfolding rates_ok_def
proof
  fix k assume "k \<in> set band_keys"
  then have "band_at capital_table k \<in> set (bands_at capital_table)" by (simp add: bands_at_def)
  then have "band_rate (band_at capital_table k) = Some 1" by (auto simp: capital_bands)
  then show "case loaded_value capital_table (band_stem k @ ''.rate'') of None \<Rightarrow> True | Some v \<Rightarrow> 0 \<le> v"
    by (simp add: band_at_def)
qed

lemma bill_haircut: "haircut_at capital_table ((capital_inputs 30000 [bill])\<lparr>government_election := SUBCATEGORY\<rparr>) = Some 1000"
proof -
  let ?i = "(capital_inputs 30000 [bill])\<lparr>government_election := SUBCATEGORY\<rparr>"
  have c: "nc_positions (capital_inputs 30000 [bill]) = [bill]" "of_class GOVERNMENT [bill] = [bill]"
    "of_class EQUITY [bill] = []" "unknown_classes [bill] = []" "ruled_out ?i"
    "months_to_maturity bill = Some 3"
    by (simp_all add: of_class_def capital_inputs_def bill_def unknown_classes_def ruled_out_def provisions_def)
  have complete: "bands_complete (bands_at capital_table)"
    by (simp add: capital_bands bands_complete_def band_keys_def GOVERNMENT_BANDS_def LAST_BAND_def)
  have net: "net_of (bands_at capital_table) [bill] k = (if k = (''cat1'', ''i'') then 1000 else 0)" for k
    by (simp add: net_of_def band_of_def capital_bands bill_def band_keys_def GOVERNMENT_BANDS_def LAST_BAND_def)
  have rate: "rate_of (bands_at capital_table) k = (if k \<in> set band_keys then 1 else 0)" for k
    by (auto simp: rate_of_def capital_bands band_keys_def GOVERNMENT_BANDS_def LAST_BAND_def)
  have "concat (map (category_lines SUBCATEGORY 0 (bands_at capital_table) [bill]) GOVERNMENT_BANDS) =
      [\<lparr>hl_asset_class = GOVERNMENT, hl_description = ''government cat1'', hl_amount = 1000,
        hl_paragraph = ''(c)(2)(vi)(A)(2)''\<rparr>]"
    by (simp add: category_lines_def side_deductions_def net rate GOVERNMENT_BANDS_def category_deduction_def band_keys_def)
  then show ?thesis
    by (simp add: haircut_at_def government_lines_at_def equity_lines_at_def Let_def c government_at_def offset_at_def
        complete del: append.simps)
qed

theorem subcategory_never_raises_capital_witness:
  "\<exists>r n. compute_net_capital ((capital_inputs 30000 [bill])\<lparr>government_election := CATEGORY\<rparr>) capital_table = Inr r \<and>
     net_capital r = Some n \<and> 9000 \<le> n"
proof (cases rule: compute_net_capital_cases [of "(capital_inputs 30000 [bill])\<lparr>government_election := SUBCATEGORY\<rparr>" capital_table])
  case (ends q finish w)
  have "net_capital (finish w) = Some 9000"
    using ends(4) by (simp add: figures_at_def net_at_def bill_haircut minus_opt_def election_keeps capital_tentative)
  from subcategory_never_raises_capital [OF capital_rates loaded_capital(6) _ _ ends(1) this] show ?thesis by simp
next
  case (raises e)
  then show ?thesis by (simp add: election_keeps capital_ratio)
qed

text \<open>
  The engine says that no warning is decided from the rounded ratio quotient, but the indicator of
  Rule 17a-11(b)(3) compares net capital with a multiple of the minimum requirement, which is that
  quotient whenever it exceeds the activity minimum.\<close>

theorem minimum_warning_uses_the_quotient:
  assumes "nc_standard i = AGGREGATE_INDEBTEDNESS" and "multiple_at t i = Some m" and "m \<noteq> 0"
    and "nc_aggregate_indebtedness i = Some ai" and "loaded_value t (minimum_rule (category i)) = Some a"
    and "a < rnd28 (ai / m)" and "compute_net_capital i t = Inr r"
  shows "\<exists>w \<in> set (early_warnings r). ew_rule_id w = WARN_MINIMUM \<and>
    threshold w = times_opt (loaded_value t WARN_MINIMUM) (Some (rnd28 (ai / m)))"
proof (cases rule: compute_net_capital_cases [of i t])
  case (ends q finish w)
  have "minimum_at t i q = Some (rnd28 (ai / m))"
    using ends(2) assms(1-6) by (auto simp: ratio_at_def divided_def minimum_at_def max_opt_def)
  moreover have "early_warnings r = warnings_at t i (net_at t i) (tentative_at i) (minimum_at t i q)"
    using ends(1,4) assms(7) by (simp add: figures_at_def)
  ultimately show ?thesis by (auto simp: warnings_at_def warning_def split: option.split)
qed (use assms in simp)

end
