(* ===== verification/Deadline_Rules.thy ===== *)
theory Deadline_Rules
  imports Deadline_Time Advisory Decimal_Context
begin

text \<open>
  The rule table of the deadline engines: \<open>deadlines/model.py\<close>, the loader
  \<open>deadlines/rules/__init__.py\<close> and the shared derivation of a disposition
  (\<open>deadlines/status.py\<close>). Reading a file and hashing it are outside the program: \<open>files\<close> gives,
  for a file name, the digest of its bytes and their text where they are UTF-8 (\<open>None\<close> where the
  file cannot be read). A row of the JSON document is its raw identifier and, where it has the
  fields with their types, the record they make. The loader keeps the source of a file before it
  decodes the text; a rule of a source without text then escapes the loader as a \<open>KeyError\<close>.
\<close>

datatype RuleUnit = BUSINESS_DAYS | SETTLEMENT_DAYS | CALENDAR_DAYS | MONTHS | CLOCK_TIME

record RuleSource =
  ds_source_id :: string
  ds_citation :: string
  ds_url :: string
  ds_filename :: string
  ds_sha256 :: string
  ds_retrieval_dtg :: string
  ds_effective_date :: "date option"
  expires_at :: "date option"

record DeadlineRule =
  rule_id :: string
  dr_citation :: string
  dr_source_id :: string
  source_sha256 :: string
  dr_quote :: string
  dr_figure :: string
  applicability :: string
  dr_value :: rat
  unit :: RuleUnit
  requires_caller_opening_time :: bool

record DeadlineRuleTable =
  dt_version :: string
  dt_sources :: "RuleSource list"
  dt_rules :: "DeadlineRule list"
  dt_rejected :: "(bool \<times> string) list"

datatype load_error =
    Bad_Field string | Figure_Not_Quoted | Not_A_Record | Unreadable_File | Digest_Mismatch
  | Currency_Date_Required | Source_Expired | Duplicate_Source | Not_Utf8
  | Duplicate_Rule | Missing_Source | Other_Source_Bytes | Quote_Absent

fun occurs :: "string \<Rightarrow> string \<Rightarrow> bool" where
  "occurs p [] = (p = [])"
| "occurs p (c # cs) = (take (length p) (c # cs) = p \<or> occurs p cs)"

definition sha256_pattern :: "string \<Rightarrow> bool" where
  "sha256_pattern s \<longleftrightarrow> length s = 64 \<and> list_all (\<lambda>c. digit_char c \<or> c \<in> set ''abcdef'') s"

definition mk_RuleSource :: "RuleSource \<Rightarrow> (load_error, RuleSource) result" where
  "mk_RuleSource s =
     require (ds_source_id s \<noteq> []) (Bad_Field ''source_id'') (
     require (ds_citation s \<noteq> []) (Bad_Field ''citation'') (
     require (ds_url s \<noteq> []) (Bad_Field ''url'') (
     require (ds_filename s \<noteq> []) (Bad_Field ''filename'') (
     require (sha256_pattern (ds_sha256 s)) (Bad_Field ''sha256'') (
     require (length (ds_retrieval_dtg s) = 12 \<and> list_all digit_char (ds_retrieval_dtg s))
       (Bad_Field ''retrieval_dtg'') (Inr s))))))"

definition mk_DeadlineRule :: "DeadlineRule \<Rightarrow> (load_error, DeadlineRule) result" where
  "mk_DeadlineRule r =
     require (rule_id r \<noteq> []) (Bad_Field ''rule_id'') (
     require (dr_citation r \<noteq> []) (Bad_Field ''citation'') (
     require (dr_source_id r \<noteq> []) (Bad_Field ''source_id'') (
     require (sha256_pattern (source_sha256 r)) (Bad_Field ''source_sha256'') (
     require (dr_quote r \<noteq> []) (Bad_Field ''quote'') (
     require (dr_figure r \<noteq> []) (Bad_Field ''figure'') (
     require (applicability r \<noteq> []) (Bad_Field ''applicability'') (
     require (0 \<le> dr_value r) (Bad_Field ''value'') (
     require (occurs (dr_figure r) (dr_quote r)) Figure_Not_Quoted (Inr r)))))))))"

definition table_get :: "DeadlineRuleTable \<Rightarrow> string \<Rightarrow> DeadlineRule option" where
  "table_get t rid = find (\<lambda>r. rule_id r = rid) (dt_rules t)"

subsection \<open>Loading sources\<close>

type_synonym files = "string \<Rightarrow> (string \<times> string option) option"

definition admit_source ::
  "files \<Rightarrow> date option \<Rightarrow> string list \<Rightarrow> RuleSource \<Rightarrow> (load_error, string option) result" where
  "admit_source files as_of known s =
     (case files (ds_filename s) of None \<Rightarrow> Inl Unreadable_File
      | Some (digest, text) \<Rightarrow>
          require (digest = ds_sha256 s) Digest_Mismatch (
          require (\<not> (expires_at s \<noteq> None \<and> as_of = None)) Currency_Date_Required (
          require (case (expires_at s, as_of) of (Some e, Some d) \<Rightarrow> \<not> d > e | _ \<Rightarrow> True) Source_Expired (
          require (ds_source_id s \<notin> set known) Duplicate_Source (Inr text)))))"

text \<open>
  The state of the loop over the sources: the sources kept, the texts decoded, the rows rejected.
\<close>

record source_state =
  kept :: "RuleSource list"
  texts :: "(string \<times> string) list"
  refused :: "string list"

definition source_step ::
  "files \<Rightarrow> date option \<Rightarrow> source_state \<Rightarrow> string \<times> RuleSource option \<Rightarrow> source_state" where
  "source_step files as_of st row =
     (case (case snd row of None \<Rightarrow> Inl Not_A_Record | Some s \<Rightarrow> mk_RuleSource s) of
        Inl e \<Rightarrow> st\<lparr>refused := refused st @ [fst row]\<rparr>
      | Inr s \<Rightarrow>
          (case admit_source files as_of (map ds_source_id (kept st)) s of
             Inl e \<Rightarrow> st\<lparr>refused := refused st @ [fst row]\<rparr>
           | Inr None \<Rightarrow> st\<lparr>kept := kept st @ [s], refused := refused st @ [fst row]\<rparr>
           | Inr (Some text) \<Rightarrow> st\<lparr>kept := kept st @ [s], texts := texts st @ [(ds_source_id s, text)]\<rparr>))"

definition load_sources ::
  "files \<Rightarrow> date option \<Rightarrow> (string \<times> RuleSource option) list \<Rightarrow> source_state" where
  "load_sources files as_of rows =
     foldl (source_step files as_of) \<lparr>kept = [], texts = [], refused = []\<rparr> rows"

subsection \<open>Loading rules\<close>

datatype loader_failure = Key_Error string | Bad_Table string

definition check_rule ::
  "source_state \<Rightarrow> DeadlineRule \<Rightarrow> (loader_failure, (load_error, DeadlineRule) result) result" where
  "check_rule st r =
     (case find (\<lambda>s. ds_source_id s = dr_source_id r) (kept st) of
        None \<Rightarrow> Inr (Inl Missing_Source)
      | Some s \<Rightarrow>
          if source_sha256 r \<noteq> ds_sha256 s then Inr (Inl Other_Source_Bytes)
          else case map_of (texts st) (dr_source_id r) of
            None \<Rightarrow> Inl (Key_Error (dr_source_id r))
          | Some text \<Rightarrow> Inr (require (occurs (dr_quote r) text) Quote_Absent (Inr r)))"

fun load_rules ::
  "source_state \<Rightarrow> string list \<Rightarrow> (string \<times> DeadlineRule option) list \<Rightarrow>
   (loader_failure, DeadlineRule list \<times> string list) result" where
  "load_rules st seen [] = Inr ([], [])"
| "load_rules st seen ((rid, row) # rows) =
     (let refuse = (\<lambda>seen'. case load_rules st seen' rows of Inl f \<Rightarrow> Inl f
            | Inr (rs, bad) \<Rightarrow> Inr (rs, rid # bad)) in
      case (case row of None \<Rightarrow> Inl Not_A_Record | Some r \<Rightarrow> mk_DeadlineRule r) of
        Inl e \<Rightarrow> refuse seen
      | Inr r \<Rightarrow>
          if rule_id r \<in> set seen then refuse seen
          else case check_rule st r of
            Inl f \<Rightarrow> Inl f
          | Inr (Inl e) \<Rightarrow> refuse (rule_id r # seen)
          | Inr (Inr r') \<Rightarrow>
              (case load_rules st (rule_id r # seen) rows of Inl f \<Rightarrow> Inl f
               | Inr (rs, bad) \<Rightarrow> Inr (r' # rs, bad)))"

text \<open>
  The JSON document: \<open>None\<close> for a key it does not have, and \<open>Some None\<close> for a version that is not of
  its type. The raw document names its keys as the loader looks them up, one after the other.
\<close>

record RuleDocument =
  doc_sources :: "(string \<times> RuleSource option) list option"
  doc_rules :: "(string \<times> DeadlineRule option) list option"
  doc_schema_version :: "int option option"
  doc_table_version :: "string option option"

definition mk_DeadlineRuleTable ::
  "int option \<Rightarrow> string option \<Rightarrow> RuleSource list \<Rightarrow> DeadlineRule list \<Rightarrow> (bool \<times> string) list \<Rightarrow>
   (loader_failure, DeadlineRuleTable) result" where
  "mk_DeadlineRuleTable schema version srcs rs bad =
     require (schema = Some 1) (Bad_Table ''schema_version'') (
     case version of None \<Rightarrow> Inl (Bad_Table ''table_version'')
     | Some v \<Rightarrow> require (v \<noteq> []) (Bad_Table ''table_version'')
         (Inr \<lparr>dt_version = v, dt_sources = srcs, dt_rules = rs, dt_rejected = bad\<rparr>))"

definition load_rule_table ::
  "files \<Rightarrow> RuleDocument \<Rightarrow> date option \<Rightarrow> (loader_failure, DeadlineRuleTable) result" where
  "load_rule_table files doc as_of =
     (case doc_sources doc of None \<Rightarrow> Inl (Key_Error ''sources'') | Some source_rows \<Rightarrow>
      let st = load_sources files as_of source_rows in
      case doc_rules doc of None \<Rightarrow> Inl (Key_Error ''rules'') | Some rule_rows \<Rightarrow>
      case load_rules st [] rule_rows of Inl f \<Rightarrow> Inl f | Inr (rs, bad) \<Rightarrow>
      case doc_schema_version doc of None \<Rightarrow> Inl (Key_Error ''schema_version'') | Some schema \<Rightarrow>
      case doc_table_version doc of None \<Rightarrow> Inl (Key_Error ''table_version'') | Some version \<Rightarrow>
        mk_DeadlineRuleTable schema version (kept st) rs (map (Pair True) (refused st) @ map (Pair False) bad))"

lemma load_rule_table_Inr:
  assumes "load_rule_table files doc as_of = Inr t"
  obtains srows rrows st rs bad where "doc_sources doc = Some srows" "st = load_sources files as_of srows"
    "doc_rules doc = Some rrows" "load_rules st [] rrows = Inr (rs, bad)" "dt_rules t = rs" "dt_sources t = kept st"
  using assms
  by (auto simp: load_rule_table_def mk_DeadlineRuleTable_def Let_def split: option.splits sum.splits)

subsection \<open>Assessments\<close>

record DeadlineAssessment =
  da_disposition :: Disposition
  due_at :: "datetime option"
  da_missing_rules :: "string list"
  da_missing_inputs :: "string list"
  da_breaches :: "string list"
  evaluated_at :: datetime

definition assess ::
  "datetime \<Rightarrow> datetime option \<Rightarrow> string list \<Rightarrow> string list \<Rightarrow> string list \<Rightarrow> DeadlineAssessment" where
  "assess now due rules inputs breaches =
     \<lparr>da_disposition =
        (if rules \<noteq> [] then INDETERMINATE else if inputs \<noteq> [] \<or> breaches \<noteq> [] then HOLD else PASS),
      due_at = due, da_missing_rules = sorted_set rules, da_missing_inputs = sorted_set inputs,
      da_breaches = sorted_set breaches, evaluated_at = now\<rparr>"

text \<open>
  What every engine owes its caller: the disposition is the one \<open>status.assess\<close> derives from the
  findings, whichever branch produced it.
\<close>

definition graded :: "('a DeadlineAssessment_scheme) \<Rightarrow> bool" where
  "graded a \<longleftrightarrow>
     da_disposition a =
       da_disposition (assess (evaluated_at a) (due_at a) (da_missing_rules a) (da_missing_inputs a) (da_breaches a))"

lemma graded_iff:
  "graded a \<longleftrightarrow> da_disposition a = decide (da_missing_rules a) (da_missing_inputs a) (da_breaches a)"
  by (simp add: graded_def assess_def decide_def)

subsection \<open>What a loaded table holds\<close>

definition source_unexpired :: "date option \<Rightarrow> RuleSource \<Rightarrow> bool" where
  "source_unexpired as_of s \<longleftrightarrow>
     (case expires_at s of None \<Rightarrow> True | Some e \<Rightarrow> (\<exists>d. as_of = Some d \<and> d \<le> e))"

definition sources_ok :: "files \<Rightarrow> date option \<Rightarrow> source_state \<Rightarrow> bool" where
  "sources_ok files as_of st \<longleftrightarrow>
     distinct (map ds_source_id (kept st)) \<and>
     (\<forall>s \<in> set (kept st). source_unexpired as_of s \<and> (\<exists>text. files (ds_filename s) = Some (ds_sha256 s, text))) \<and>
     (\<forall>(sid, text) \<in> set (texts st). \<exists>s \<in> set (kept st). ds_source_id s = sid \<and>
        files (ds_filename s) = Some (ds_sha256 s, Some text))"

lemma mk_RuleSource_same: "mk_RuleSource s = Inr s' \<Longrightarrow> s' = s"
  by (auto simp: mk_RuleSource_def)

lemma mk_DeadlineRule_same: "mk_DeadlineRule r = Inr r' \<Longrightarrow> r' = r \<and> occurs (dr_figure r) (dr_quote r) \<and> 0 \<le> dr_value r"
  by (auto simp: mk_DeadlineRule_def)

lemma admit_source_Inr:
  "admit_source files as_of known s = Inr text \<Longrightarrow>
   files (ds_filename s) = Some (ds_sha256 s, text) \<and> source_unexpired as_of s \<and> ds_source_id s \<notin> set known"
  by (auto simp: admit_source_def source_unexpired_def split: option.splits)

lemma sources_ok_refused [simp]: "sources_ok files as_of (st\<lparr>refused := x\<rparr>) = sources_ok files as_of st"
  by (simp add: sources_ok_def)

lemma sources_ok_keep:
  assumes "sources_ok files as_of st" and "admit_source files as_of (map ds_source_id (kept st)) s = Inr text"
  shows "sources_ok files as_of (st\<lparr>kept := kept st @ [s]\<rparr>)"
  using assms(1) admit_source_Inr [OF assms(2)] unfolding sources_ok_def by fastforce

lemma sources_ok_text:
  assumes "sources_ok files as_of (st\<lparr>kept := kept st @ [s]\<rparr>)" and "files (ds_filename s) = Some (ds_sha256 s, Some text)"
  shows "sources_ok files as_of (st\<lparr>kept := kept st @ [s], texts := texts st @ [(ds_source_id s, text)]\<rparr>)"
  using assms unfolding sources_ok_def by auto

lemma source_step_ok:
  assumes ok: "sources_ok files as_of st"
  shows "sources_ok files as_of (source_step files as_of st row)"
proof (cases "case snd row of None \<Rightarrow> Inl Not_A_Record | Some s \<Rightarrow> mk_RuleSource s")
  case (Inl e)
  then show ?thesis using ok by (simp add: source_step_def)
next
  case src: (Inr s)
  show ?thesis
  proof (cases "admit_source files as_of (map ds_source_id (kept st)) s")
    case (Inl e)
    then show ?thesis using ok src by (simp add: source_step_def)
  next
    case adm: (Inr body)
    note keep = sources_ok_keep [OF ok adm]
    show ?thesis
    proof (cases body)
      case None
      have "source_step files as_of st row = st\<lparr>kept := kept st @ [s]\<rparr>\<lparr>refused := refused st @ [fst row]\<rparr>"
        using src adm None by (simp add: source_step_def)
      then show ?thesis using keep by simp
    next
      case (Some t)
      then show ?thesis
        using src adm sources_ok_text [OF keep, of t] admit_source_Inr [OF adm] by (simp add: source_step_def)
    qed
  qed
qed

lemma source_steps_ok:
  "sources_ok files as_of st \<Longrightarrow> sources_ok files as_of (foldl (source_step files as_of) st rows)"
  by (induction rows arbitrary: st) (simp_all add: source_step_ok)

lemma load_sources_ok: "sources_ok files as_of (load_sources files as_of rows)"
  unfolding load_sources_def by (rule source_steps_ok) (simp add: sources_ok_def)

end
