(* ===== verification/Deadline_Engines.thy ===== *)
theory Deadline_Engines
  imports Deadline_Rules Boundary
begin

text \<open>
  The four deadline engines: Regulation SHO close-out (\<open>deadlines/rule_204.py\<close>), account
  transfers (\<open>acats.py\<close>), security counts (\<open>rule_17a_13.py\<close>) and reserve deposits
  (\<open>reserve_deposit.py\<close>). Each \<open>_result\<close> is a function from the findings it is given to the
  assessment, with the defaults of the source; the table is the one the caller passes or the one
  loaded for the evaluation date. A member of a \<open>StrEnum\<close> is its value, so a field that holds a
  member or a plain string is a string here.
\<close>

datatype deadline_error =
    Not_Whole string        \<comment> \<open>a day count that is no integer: ValueError\<close>
  | Opening_Unchecked       \<comment> \<open>the AssertionError of \<open>assess_rule_204\<close>\<close>
  | Naive_Comparison        \<comment> \<open>a due time without a zone against an aware instant: TypeError\<close>
  | Calendar_Failure calendar_error

fun from_calendar :: "(calendar_error, 'a) result \<Rightarrow> (deadline_error, 'a) result" where
  "from_calendar (Inl e) = Inl (Calendar_Failure e)"
| "from_calendar (Inr x) = Inr x"

definition whole :: "string \<Rightarrow> rat \<Rightarrow> (deadline_error, int) result" where
  "whole rid v = require (of_int \<lfloor>v\<rfloor> = v) (Not_Whole rid) (Inr \<lfloor>v\<rfloor>)"

text \<open>The calendar an engine is handed, as its one operation: add \<open>n\<close> days to a date.\<close>

type_synonym calendar = "date \<Rightarrow> int \<Rightarrow> (calendar_error, date) result"

definition base_assessment ::
  "datetime \<Rightarrow> Disposition \<Rightarrow> datetime option \<Rightarrow> string list \<Rightarrow> string list \<Rightarrow> string list \<Rightarrow> DeadlineAssessment" where
  "base_assessment now disp due rules inputs breaches =
     \<lparr>da_disposition = disp, due_at = due, da_missing_rules = rules, da_missing_inputs = inputs,
      da_breaches = breaches, evaluated_at = now\<rparr>"

subsection \<open>Regulation SHO Rule 204\<close>

datatype Rule204Origin = SHORT_OR_GENERAL | LONG | MARKET_MAKING | DEEMED_OWNED

fun origin_value :: "Rule204Origin \<Rightarrow> string" where
  "origin_value SHORT_OR_GENERAL = ''SHORT_OR_GENERAL''"
| "origin_value LONG = ''LONG''"
| "origin_value MARKET_MAKING = ''MARKET_MAKING''"
| "origin_value DEEMED_OWNED = ''DEEMED_OWNED''"

definition origin_members :: "Rule204Origin list" where
  "origin_members = [SHORT_OR_GENERAL, LONG, MARKET_MAKING, DEEMED_OWNED]"

interpretation rule204_origin: str_enum origin_members origin_value
proof
  show "e \<in> set origin_members" for e by (cases e) (simp_all add: origin_members_def)
  show "origin_value a = origin_value b \<Longrightarrow> a = b" for a b by (cases a; cases b) simp_all
qed

fun rule_204_id :: "Rule204Origin \<Rightarrow> string" where
  "rule_204_id SHORT_OR_GENERAL = ''rule_204.short_or_general''"
| "rule_204_id LONG = ''rule_204.long''"
| "rule_204_id MARKET_MAKING = ''rule_204.market_making''"
| "rule_204_id DEEMED_OWNED = ''rule_204.deemed_owned''"

record Rule204Fail =
  f_security :: string
  trade_date :: date
  f_settlement_date :: date
  fail_quantity :: rat
  origin_class :: "string option"
  originating_order_id :: "string option"
  locate_id :: "string option"

datatype input_error = Empty_Field string | Quantity_Not_Positive

definition mk_Rule204Fail :: "Rule204Fail \<Rightarrow> (input_error, Rule204Fail) result" where
  "mk_Rule204Fail f =
     require (f_security f \<noteq> []) (Empty_Field ''security'') (
     require (0 < fail_quantity f) Quantity_Not_Positive (Inr f))"

record Rule204Assessment = DeadlineAssessment +
  a_security :: string
  a_fail_quantity :: rat
  a_origin_class :: "string option"
  a_table_version :: string
  a_rule_id :: "string option"
  a_rule_citation :: "string option"
  a_source_sha256 :: "string option"
  preborrow_condition_applies :: bool
  a_originating_order_id :: "string option"
  a_locate_id :: "string option"

definition rule_204_result ::
  "Rule204Fail \<Rightarrow> DeadlineRuleTable \<Rightarrow> DeadlineAssessment \<Rightarrow> string option \<Rightarrow> DeadlineRule option \<Rightarrow> bool \<Rightarrow>
   Rule204Assessment" where
  "rule_204_result f t base rid provenance preborrow =
     DeadlineAssessment.extend base
       (Rule204Assessment.fields (f_security f) (fail_quantity f) (origin_class f) (dt_version t)
          (case provenance of Some r \<Rightarrow> Some (rule_id r) | None \<Rightarrow> rid)
          (map_option dr_citation provenance) (map_option source_sha256 provenance)
          preborrow (originating_order_id f) (locate_id f))"

definition due_date_204 ::
  "Rule204Fail \<Rightarrow> DeadlineRule \<Rightarrow> int \<Rightarrow> calendar option \<Rightarrow> (deadline_error, (string + string) + date) result" where
  "due_date_204 f r days cal =
     (if unit r = SETTLEMENT_DAYS then
        (case cal of None \<Rightarrow> Inr (Inl (Inl ''settlement_calendar''))
         | Some add \<Rightarrow> map_sum id Inr (from_calendar (add (f_settlement_date f) days)))
      else if unit r = CALENDAR_DAYS then
        map_sum id Inr (from_calendar (add_days (trade_date f) days))
      else Inr (Inl (Inr (rule_id r @ '':unsupported_unit''))))"

text \<open>From the rule on: the day count, the due date, the opening time, the comparison.\<close>

definition assess_by_rule_204 ::
  "zones \<Rightarrow> Rule204Fail \<Rightarrow> DeadlineRuleTable \<Rightarrow> datetime \<Rightarrow> calendar option \<Rightarrow> clock_time option \<Rightarrow> DeadlineRule \<Rightarrow>
   (deadline_error, Rule204Assessment) result" where
  "assess_by_rule_204 zones f t now cal opening r =
     (let answer = (\<lambda>disp due rules inputs breaches preborrow.
            rule_204_result f t (base_assessment now disp due rules inputs breaches) None (Some r) preborrow) in
      case whole (rule_id r) (dr_value r) of Inl e \<Rightarrow> Inl e | Inr days \<Rightarrow>
      case due_date_204 f r days cal of Inl e \<Rightarrow> Inl e
      | Inr (Inl (Inl missing)) \<Rightarrow> Inr (answer HOLD None [] [missing] [] False)
      | Inr (Inl (Inr missing)) \<Rightarrow> Inr (answer INDETERMINATE None [missing] [] [] False)
      | Inr (Inr due_date) \<Rightarrow>
          (case opening of None \<Rightarrow> Inl Opening_Unchecked
           | Some c \<Rightarrow>
               (case clock_tz c of None \<Rightarrow> Inl Naive_Comparison
                | Some z \<Rightarrow>
                    let due = combine due_date (time_of_day c) z;
                        overdue = later zones now due in
                    Inr (answer (if overdue then HOLD else PASS) (Some due) [] []
                      (if overdue then [''rule_204.close_out_overdue''] else []) overdue))))"

definition assess_rule_204 ::
  "zones \<Rightarrow> Rule204Fail \<Rightarrow> DeadlineRuleTable \<Rightarrow> datetime \<Rightarrow> calendar option \<Rightarrow> clock_time option \<Rightarrow>
   (deadline_error, Rule204Assessment) result" where
  "assess_rule_204 zones f t now cal opening =
     (case origin_class f of
        None \<Rightarrow> Inr (rule_204_result f t (base_assessment now HOLD None [] [''origin_class''] []) None None False)
      | Some cls \<Rightarrow>
          (case find (\<lambda>m. origin_value m = cls) origin_members of
             None \<Rightarrow> Inr (rule_204_result f t
               (base_assessment now INDETERMINATE None [''origin_class:'' @ cls] [] []) None None False)
           | Some origin \<Rightarrow>
               (case table_get t (rule_204_id origin) of
                  None \<Rightarrow> Inr (rule_204_result f t
                    (base_assessment now INDETERMINATE None [rule_204_id origin] [] [])
                    (Some (rule_204_id origin)) None False)
                | Some r \<Rightarrow>
                    if requires_caller_opening_time r \<and>
                       (case opening of None \<Rightarrow> True | Some c \<Rightarrow> clock_tz c = None)
                    then Inr (rule_204_result f t
                      (base_assessment now INDETERMINATE None [''regular_trading_hours''] [] []) None (Some r) False)
                    else assess_by_rule_204 zones f t now cal opening r)))"

subsection \<open>Account transfers\<close>

definition VALIDATION_RULE_ID :: string where "VALIDATION_RULE_ID = ''finra_11870.validation''"
definition COMPLETION_RULE_ID :: string where "COMPLETION_RULE_ID = ''finra_11870.completion''"

record AcatsTransfer =
  transfer_id :: string
  instruction_at :: datetime
  validation_at :: "datetime option"

definition mk_AcatsTransfer :: "AcatsTransfer \<Rightarrow> (input_error, AcatsTransfer) result" where
  "mk_AcatsTransfer x = require (transfer_id x \<noteq> []) (Empty_Field ''transfer_id'') (Inr x)"

record AcatsAssessment = DeadlineAssessment +
  ac_transfer_id :: string
  validation_due :: "date option"
  completion_due :: "date option"
  ac_table_version :: string
  ac_rule_citations :: "string list"
  ac_source_sha256 :: "string option"

definition acats_result ::
  "AcatsTransfer \<Rightarrow> DeadlineRuleTable \<Rightarrow> DeadlineAssessment \<Rightarrow> date option \<Rightarrow> date option \<Rightarrow> string list \<Rightarrow>
   string option \<Rightarrow> AcatsAssessment" where
  "acats_result x t base vdue cdue citations sha =
     DeadlineAssessment.extend base
       (AcatsAssessment.fields (transfer_id x) vdue cdue (dt_version t) citations sha)"

definition acats_version_current :: "DeadlineRuleTable \<Rightarrow> date \<Rightarrow> bool" where
  "acats_version_current t today =
     (case find (\<lambda>s. ds_source_id s = ''finra-11870'') (dt_sources t) of None \<Rightarrow> False
      | Some s \<Rightarrow>
          (case (ds_effective_date s, expires_at s) of
             (Some from, Some to) \<Rightarrow> from \<le> today \<and> today \<le> to
           | _ \<Rightarrow> False))"

definition acats_breaches :: "AcatsTransfer \<Rightarrow> date \<Rightarrow> date \<Rightarrow> date option \<Rightarrow> string list" where
  "acats_breaches x today vdue cdue =
     (if validation_at x = None \<and> today > vdue then [''finra_11870.validation_overdue''] else []) @
     (if (case validation_at x of None \<Rightarrow> False | Some v \<Rightarrow> date_of v > vdue)
      then [''finra_11870.validation_late''] else []) @
     (if (case cdue of None \<Rightarrow> False | Some d \<Rightarrow> today > d) then [''finra_11870.completion_overdue''] else [])"

definition missing_of :: "DeadlineRuleTable \<Rightarrow> string list \<Rightarrow> string list" where
  "missing_of t rids = filter (\<lambda>rid. table_get t rid = None) rids"

definition assess_transfer_by ::
  "AcatsTransfer \<Rightarrow> DeadlineRuleTable \<Rightarrow> datetime \<Rightarrow> calendar \<Rightarrow> DeadlineRule \<Rightarrow> DeadlineRule \<Rightarrow>
   (deadline_error, AcatsAssessment) result" where
  "assess_transfer_by x t now add vr cr =
     (case whole VALIDATION_RULE_ID (dr_value vr) of Inl e \<Rightarrow> Inl e | Inr vdays \<Rightarrow>
      case from_calendar (add (date_of (instruction_at x)) vdays) of Inl e \<Rightarrow> Inl e | Inr vdue \<Rightarrow>
      case (case validation_at x of None \<Rightarrow> Inr None
            | Some v \<Rightarrow>
                (case whole COMPLETION_RULE_ID (dr_value cr) of Inl e \<Rightarrow> Inl e
                 | Inr cdays \<Rightarrow> map_sum id Some (from_calendar (add (date_of v) cdays)))) of
        Inl e \<Rightarrow> Inl e
      | Inr cdue \<Rightarrow>
          let breaches = acats_breaches x (date_of now) vdue cdue in
          Inr (acats_result x t (base_assessment now (if breaches \<noteq> [] then HOLD else PASS) None [] [] breaches)
            (Some vdue) cdue [dr_citation vr, dr_citation cr] (Some (source_sha256 vr))))"

definition assess_acats ::
  "AcatsTransfer \<Rightarrow> DeadlineRuleTable \<Rightarrow> datetime \<Rightarrow> calendar option \<Rightarrow> (deadline_error, AcatsAssessment) result" where
  "assess_acats x t now cal =
     (let answer = (\<lambda>disp rules inputs.
            Inr (acats_result x t (base_assessment now disp None rules inputs []) None None [] None)) in
      if \<not> acats_version_current t (date_of now)
      then answer INDETERMINATE [''finra_11870.current_acats_version''] []
      else case (table_get t VALIDATION_RULE_ID, table_get t COMPLETION_RULE_ID) of
        (Some vr, Some cr) \<Rightarrow>
          (case cal of None \<Rightarrow> answer HOLD [] [''business_calendar'']
           | Some add \<Rightarrow>
               if unit vr \<noteq> BUSINESS_DAYS
               then answer INDETERMINATE [VALIDATION_RULE_ID @ '':unsupported_unit''] []
               else if unit cr \<noteq> BUSINESS_DAYS
               then answer INDETERMINATE [COMPLETION_RULE_ID @ '':unsupported_unit''] []
               else assess_transfer_by x t now add vr cr)
      | _ \<Rightarrow> answer INDETERMINATE (missing_of t [VALIDATION_RULE_ID, COMPLETION_RULE_ID]) [])"

subsection \<open>Security counts\<close>

definition MINIMUM_RULE_ID :: string where "MINIMUM_RULE_ID = ''rule_17a_13.minimum_spacing''"
definition MAXIMUM_RULE_ID :: string where "MAXIMUM_RULE_ID = ''rule_17a_13.maximum_spacing''"
definition RECORDING_RULE_ID :: string where "RECORDING_RULE_ID = ''rule_17a_13.difference_recording''"

record SecurityCountInput =
  prior_count_dates :: "date list"
  count_date :: "date option"

record SecurityCountAssessment = DeadlineAssessment +
  prior_count_date :: "date option"
  sc_count_date :: "date option"
  next_count_earliest :: "date option"
  next_count_latest :: "date option"
  difference_recording_due :: "date option"
  spacing_valid :: "bool option"
  sc_table_version :: string
  sc_rule_citations :: "string list"
  sc_source_sha256 :: "string option"

definition count_breaches :: "date option \<Rightarrow> date \<Rightarrow> date \<Rightarrow> date \<Rightarrow> string list" where
  "count_breaches counted today earliest latest =
     (case counted of
        Some d \<Rightarrow> (if d < earliest then [''rule_17a_13.count_too_soon''] else []) @
                  (if d > latest then [''rule_17a_13.count_too_late''] else [])
      | None \<Rightarrow> if today > latest then [''rule_17a_13.count_overdue''] else [])"

definition recording_date ::
  "calendar \<Rightarrow> DeadlineRule \<Rightarrow> date option \<Rightarrow> (deadline_error, date option) result" where
  "recording_date add r counted =
     (case counted of None \<Rightarrow> Inr None
      | Some d \<Rightarrow> (case whole RECORDING_RULE_ID (dr_value r) of Inl e \<Rightarrow> Inl e
                   | Inr n \<Rightarrow> map_sum id Some (from_calendar (add d n))))"

definition count_answer ::
  "SecurityCountInput \<Rightarrow> DeadlineRuleTable \<Rightarrow> datetime \<Rightarrow> Disposition \<Rightarrow> string list \<Rightarrow> string list \<Rightarrow>
   SecurityCountAssessment" where
  "count_answer c t now disp rules inputs =
     DeadlineAssessment.extend (base_assessment now disp None rules inputs [])
       (SecurityCountAssessment.fields None (count_date c) None None None None (dt_version t) [] None)"

definition assess_count_by ::
  "SecurityCountInput \<Rightarrow> DeadlineRuleTable \<Rightarrow> datetime \<Rightarrow> calendar \<Rightarrow> DeadlineRule \<Rightarrow> DeadlineRule \<Rightarrow> DeadlineRule \<Rightarrow>
   (deadline_error, SecurityCountAssessment) result" where
  "assess_count_by c t now add minimum maximum recording =
     (let prior = Max (set (prior_count_dates c)) in
      case whole MINIMUM_RULE_ID (dr_value minimum) of Inl e \<Rightarrow> Inl e | Inr lo \<Rightarrow>
      case from_calendar (add_months prior lo) of Inl e \<Rightarrow> Inl e | Inr earliest \<Rightarrow>
      case whole MAXIMUM_RULE_ID (dr_value maximum) of Inl e \<Rightarrow> Inl e | Inr hi \<Rightarrow>
      case from_calendar (add_months prior hi) of Inl e \<Rightarrow> Inl e | Inr latest \<Rightarrow>
      case recording_date add recording (count_date c) of Inl e \<Rightarrow> Inl e | Inr due \<Rightarrow>
        let breaches = count_breaches (count_date c) (date_of now) earliest latest in
        Inr (DeadlineAssessment.extend
          (base_assessment now (if breaches \<noteq> [] then HOLD else PASS) None [] [] breaches)
          (SecurityCountAssessment.fields (Some prior) (count_date c) (Some earliest) (Some latest) due
            (map_option (\<lambda>d. earliest \<le> d \<and> d \<le> latest) (count_date c)) (dt_version t)
            [dr_citation minimum, dr_citation maximum, dr_citation recording] (Some (source_sha256 minimum)))))"

definition assess_security_count ::
  "SecurityCountInput \<Rightarrow> DeadlineRuleTable \<Rightarrow> datetime \<Rightarrow> calendar option \<Rightarrow>
   (deadline_error, SecurityCountAssessment) result" where
  "assess_security_count c t now cal =
     (case (table_get t MINIMUM_RULE_ID, table_get t MAXIMUM_RULE_ID, table_get t RECORDING_RULE_ID) of
        (Some minimum, Some maximum, Some recording) \<Rightarrow>
          if prior_count_dates c = [] then Inr (count_answer c t now HOLD [] [''prior_count_date''])
          else (case cal of None \<Rightarrow> Inr (count_answer c t now HOLD [] [''business_calendar''])
           | Some add \<Rightarrow>
               if unit minimum \<noteq> MONTHS \<or> unit maximum \<noteq> MONTHS
               then Inr (count_answer c t now INDETERMINATE [''rule_17a_13.spacing_units''] [])
               else if unit recording \<noteq> BUSINESS_DAYS
               then Inr (count_answer c t now INDETERMINATE [RECORDING_RULE_ID @ '':unsupported_unit''] [])
               else assess_count_by c t now add minimum maximum recording)
      | _ \<Rightarrow> Inr (count_answer c t now INDETERMINATE
               (missing_of t [MINIMUM_RULE_ID, MAXIMUM_RULE_ID, RECORDING_RULE_ID]) []))"

subsection \<open>Reserve deposits\<close>

datatype ReserveComputationBasis = WEEKLY | REQUIRED_DAILY | QUALIFYING_MONTHLY | ADDITIONAL | VOLUNTARY_DAILY

fun basis_value :: "ReserveComputationBasis \<Rightarrow> string" where
  "basis_value WEEKLY = ''WEEKLY''"
| "basis_value REQUIRED_DAILY = ''REQUIRED_DAILY''"
| "basis_value QUALIFYING_MONTHLY = ''QUALIFYING_MONTHLY''"
| "basis_value ADDITIONAL = ''ADDITIONAL''"
| "basis_value VOLUNTARY_DAILY = ''VOLUNTARY_DAILY''"

definition basis_members :: "ReserveComputationBasis list" where
  "basis_members = [WEEKLY, REQUIRED_DAILY, QUALIFYING_MONTHLY, ADDITIONAL, VOLUNTARY_DAILY]"

interpretation reserve_basis: str_enum basis_members basis_value
proof
  show "e \<in> set basis_members" for e by (cases e) (simp_all add: basis_members_def)
  show "basis_value a = basis_value b \<Longrightarrow> a = b" for a b by (cases a; cases b) simp_all
qed

fun basis_rule_id :: "ReserveComputationBasis \<Rightarrow> string" where
  "basis_rule_id WEEKLY = ''rule_15c3_3.reserve.weekly''"
| "basis_rule_id REQUIRED_DAILY = ''rule_15c3_3.reserve.required_daily''"
| "basis_rule_id QUALIFYING_MONTHLY = ''rule_15c3_3.reserve.qualifying_monthly''"
| "basis_rule_id ADDITIONAL = ''rule_15c3_3.reserve.additional''"
| "basis_rule_id VOLUNTARY_DAILY = ''rule_15c3_3.reserve.voluntary_daily''"

definition OFFSET_RULE_ID :: string where "OFFSET_RULE_ID = ''rule_15c3_3.reserve.opening_offset''"

record ReserveComputation =
  computation_id :: string
  computed_at :: datetime
  basis :: "string option"

definition mk_ReserveComputation :: "ReserveComputation \<Rightarrow> (input_error, ReserveComputation) result" where
  "mk_ReserveComputation c = require (computation_id c \<noteq> []) (Empty_Field ''computation_id'') (Inr c)"

record ReserveDepositAssessment = DeadlineAssessment +
  rd_computation_id :: string
  computation_basis :: "string option"
  paragraph_reference :: "string option"
  rd_table_version :: string
  rd_rule_ids :: "string list"
  rd_source_sha256 :: "string option"

definition deposit_answer ::
  "ReserveComputation \<Rightarrow> DeadlineRuleTable \<Rightarrow> DeadlineAssessment \<Rightarrow> DeadlineRule option \<Rightarrow> string list \<Rightarrow>
   ReserveDepositAssessment" where
  "deposit_answer c t base r rids =
     DeadlineAssessment.extend base
       (ReserveDepositAssessment.fields (computation_id c) (basis c) (map_option dr_citation r) (dt_version t)
          rids (map_option source_sha256 r))"

definition assess_deposit_by ::
  "zones \<Rightarrow> ReserveComputation \<Rightarrow> DeadlineRuleTable \<Rightarrow> datetime \<Rightarrow> calendar \<Rightarrow> int \<Rightarrow> tzinfo \<Rightarrow>
   DeadlineRule \<Rightarrow> DeadlineRule \<Rightarrow> string \<Rightarrow> (deadline_error, ReserveDepositAssessment) result" where
  "assess_deposit_by zones c t now add tod z br offset brid =
     (case whole brid (dr_value br) of Inl e \<Rightarrow> Inl e | Inr days \<Rightarrow>
      case from_calendar (add (date_of (computed_at c)) days) of Inl e \<Rightarrow> Inl e | Inr due_date \<Rightarrow>
      case whole OFFSET_RULE_ID (dr_value offset) of Inl e \<Rightarrow> Inl e | Inr hours \<Rightarrow>
      case from_calendar (add_hours (combine due_date tod z) hours) of Inl e \<Rightarrow> Inl e | Inr due \<Rightarrow>
        let overdue = later zones now due in
        Inr (deposit_answer c t
          (base_assessment now (if overdue then HOLD else PASS) (Some due) [] []
             (if overdue then [''rule_15c3_3.reserve_deposit_overdue''] else []))
          (Some br) [brid, OFFSET_RULE_ID]))"

definition assess_reserve_deposit ::
  "zones \<Rightarrow> ReserveComputation \<Rightarrow> DeadlineRuleTable \<Rightarrow> datetime \<Rightarrow> calendar option \<Rightarrow> clock_time option \<Rightarrow>
   (deadline_error, ReserveDepositAssessment) result" where
  "assess_reserve_deposit zones c t now cal opening =
     (let answer = (\<lambda>disp rules inputs rids.
            Inr (deposit_answer c t (base_assessment now disp None rules inputs []) None rids)) in
      case basis c of None \<Rightarrow> answer HOLD [] [''computation_basis''] []
      | Some b \<Rightarrow>
          (case find (\<lambda>m. basis_value m = b) basis_members of
             None \<Rightarrow> answer INDETERMINATE [''computation_basis:'' @ b] [] []
           | Some m \<Rightarrow>
               let rids = [basis_rule_id m, OFFSET_RULE_ID] in
               (case (table_get t (basis_rule_id m), table_get t OFFSET_RULE_ID) of
                  (Some br, Some offset) \<Rightarrow>
                    (case (case opening of None \<Rightarrow> None
                           | Some k \<Rightarrow> map_option (Pair (time_of_day k)) (clock_tz k)) of
                       None \<Rightarrow> answer INDETERMINATE [''opening_of_banking_business''] [] rids
                     | Some (tod, z) \<Rightarrow>
                         (case cal of None \<Rightarrow> answer HOLD [] [''business_calendar''] rids
                          | Some add \<Rightarrow>
                              if unit br \<noteq> BUSINESS_DAYS \<or> unit offset \<noteq> CLOCK_TIME
                              then answer INDETERMINATE [''rule_15c3_3.reserve.units''] [] rids
                              else assess_deposit_by zones c t now add tod z br offset (basis_rule_id m)))
                | _ \<Rightarrow> answer INDETERMINATE (missing_of t rids) [] rids)))"

end
