(* ===== verification/Deadline_Props.thy ===== *)
theory Deadline_Props
  imports Deadline_Engines
begin

text \<open>
  What the deadline engines guarantee: the grading every engine shares, when a close-out, a
  transfer, a count or a deposit is in time, when an engine raises, and what a loaded rule table
  rests on.
\<close>

subsection \<open>Grading\<close>

lemma base_simps [simp]:
  "da_disposition (base_assessment now disp due rules inputs breaches) = disp"
  "due_at (base_assessment now disp due rules inputs breaches) = due"
  "da_missing_rules (base_assessment now disp due rules inputs breaches) = rules"
  "da_missing_inputs (base_assessment now disp due rules inputs breaches) = inputs"
  "da_breaches (base_assessment now disp due rules inputs breaches) = breaches"
  "evaluated_at (base_assessment now disp due rules inputs breaches) = now"
  by (simp_all add: base_assessment_def)

lemma extend_simps [simp]:
  "da_disposition (DeadlineAssessment.extend b x) = da_disposition b"
  "due_at (DeadlineAssessment.extend b x) = due_at b"
  "da_missing_rules (DeadlineAssessment.extend b x) = da_missing_rules b"
  "da_missing_inputs (DeadlineAssessment.extend b x) = da_missing_inputs b"
  "da_breaches (DeadlineAssessment.extend b x) = da_breaches b"
  "evaluated_at (DeadlineAssessment.extend b x) = evaluated_at b"
  by (simp_all add: DeadlineAssessment.extend_def)

lemma rule_204_result_simps [simp]:
  "da_disposition (rule_204_result f t b rid p pre) = da_disposition b"
  "due_at (rule_204_result f t b rid p pre) = due_at b"
  "da_missing_rules (rule_204_result f t b rid p pre) = da_missing_rules b"
  "da_missing_inputs (rule_204_result f t b rid p pre) = da_missing_inputs b"
  "da_breaches (rule_204_result f t b rid p pre) = da_breaches b"
  "evaluated_at (rule_204_result f t b rid p pre) = evaluated_at b"
  "preborrow_condition_applies (rule_204_result f t b rid p pre) = pre"
  "a_source_sha256 (rule_204_result f t b rid p pre) = map_option source_sha256 p"
  by (simp_all add: rule_204_result_def DeadlineAssessment.extend_def Rule204Assessment.fields_def)

lemma acats_result_simps [simp]:
  "da_disposition (acats_result x t b v c cs s) = da_disposition b"
  "due_at (acats_result x t b v c cs s) = due_at b"
  "da_missing_rules (acats_result x t b v c cs s) = da_missing_rules b"
  "da_missing_inputs (acats_result x t b v c cs s) = da_missing_inputs b"
  "da_breaches (acats_result x t b v c cs s) = da_breaches b"
  "evaluated_at (acats_result x t b v c cs s) = evaluated_at b"
  "validation_due (acats_result x t b v c cs s) = v"
  "completion_due (acats_result x t b v c cs s) = c"
  by (simp_all add: acats_result_def DeadlineAssessment.extend_def AcatsAssessment.fields_def)

lemma deposit_answer_simps [simp]:
  "da_disposition (deposit_answer c t b r rids) = da_disposition b"
  "due_at (deposit_answer c t b r rids) = due_at b"
  "da_missing_rules (deposit_answer c t b r rids) = da_missing_rules b"
  "da_missing_inputs (deposit_answer c t b r rids) = da_missing_inputs b"
  "da_breaches (deposit_answer c t b r rids) = da_breaches b"
  "evaluated_at (deposit_answer c t b r rids) = evaluated_at b"
  by (simp_all add: deposit_answer_def)

lemma count_answer_simps [simp]:
  "da_disposition (count_answer c t now d rules inputs) = d"
  "da_missing_rules (count_answer c t now d rules inputs) = rules"
  "da_missing_inputs (count_answer c t now d rules inputs) = inputs"
  "da_breaches (count_answer c t now d rules inputs) = []"
  by (simp_all add: count_answer_def)

lemma missing_of_Nil: "missing_of t rids = [] \<longleftrightarrow> (\<forall>rid \<in> set rids. table_get t rid \<noteq> None)"
  by (auto simp: missing_of_def filter_empty_conv)

lemmas grading = graded_iff decide_def

lemma map_sum_simps [simp]:
  "map_sum id f (from_calendar x) = Inl e \<longleftrightarrow> from_calendar x = Inl e"
  "map_sum id f (from_calendar x) = Inr z \<longleftrightarrow> (\<exists>y. from_calendar x = Inr y \<and> z = f y)"
  by (cases "from_calendar x"; auto)+

lemma from_calendar_simps [simp]:
  "from_calendar x = Inr y \<longleftrightarrow> x = Inr y"
  "from_calendar x = Inl e \<longleftrightarrow> (\<exists>e'. x = Inl e' \<and> e = Calendar_Failure e')"
  by (cases x; auto)+

lemma whole_Inr [simp]: "whole rid v = Inr n \<longleftrightarrow> v = of_int n"
  by (auto simp: whole_def)

lemma whole_of_int [simp]: "whole rid (of_int n) = Inr n"
  by simp

lemma assess_by_rule_204_graded:
  "assess_by_rule_204 zones f t now cal open_at r = Inr a \<Longrightarrow> graded a"
  by (auto simp: assess_by_rule_204_def grading Let_def split: sum.splits option.splits if_splits)

lemma assess_rule_204_graded: "assess_rule_204 zones f t now cal open_at = Inr a \<Longrightarrow> graded a"
  by (auto simp: assess_rule_204_def grading split: option.splits if_splits
      dest!: assess_by_rule_204_graded)

lemma assess_transfer_by_graded: "assess_transfer_by x t now add vr cr = Inr a \<Longrightarrow> graded a"
  by (auto simp: assess_transfer_by_def grading Let_def split: sum.splits option.splits if_splits)

lemma assess_acats_graded: "assess_acats x t now cal = Inr a \<Longrightarrow> graded a"
  by (auto simp: assess_acats_def grading missing_of_Nil split: option.splits if_splits
      dest!: assess_transfer_by_graded)

lemma assess_count_by_graded: "assess_count_by c t now add l h r = Inr a \<Longrightarrow> graded a"
  by (auto simp: assess_count_by_def grading Let_def split: sum.splits option.splits if_splits)

lemma assess_security_count_graded: "assess_security_count c t now cal = Inr a \<Longrightarrow> graded a"
  by (auto simp: assess_security_count_def grading missing_of_Nil split: option.splits if_splits
      dest!: assess_count_by_graded)

lemma assess_deposit_by_graded:
  "assess_deposit_by zones c t now add tod z br off brid = Inr a \<Longrightarrow> graded a"
  by (auto simp: assess_deposit_by_def grading Let_def split: sum.splits option.splits if_splits)

lemma assess_reserve_deposit_graded:
  "assess_reserve_deposit zones c t now cal open_at = Inr a \<Longrightarrow> graded a"
  by (auto simp: assess_reserve_deposit_def grading missing_of_Nil Let_def split: option.splits if_splits
      dest!: assess_deposit_by_graded)

text \<open>
  Whatever branch an engine ends in, the disposition it reports is the one \<open>status.assess\<close>
  derives from the missing rules, missing inputs and breaches it reports: no engine passes with a
  finding, and none holds without one.
\<close>

theorem engines_grade_alike:
  "(assess_rule_204 zones f t now cal open_at = Inr a \<longrightarrow> graded a) \<and>
   (assess_acats x t now cal = Inr b \<longrightarrow> graded b) \<and>
   (assess_security_count k t now cal = Inr c \<longrightarrow> graded c) \<and>
   (assess_reserve_deposit zones r t now cal open_at = Inr d \<longrightarrow> graded d)"
  by (intro conjI impI) (erule assess_rule_204_graded assess_acats_graded assess_security_count_graded
      assess_reserve_deposit_graded)+

subsection \<open>In time\<close>

definition close_out_date ::
  "Rule204Fail \<Rightarrow> DeadlineRule \<Rightarrow> calendar option \<Rightarrow> date \<Rightarrow> bool" where
  "close_out_date f r cal due \<longleftrightarrow>
     (\<exists>days. dr_value r = of_int days \<and>
       ((\<exists>add. unit r = SETTLEMENT_DAYS \<and> cal = Some add \<and> add (f_settlement_date f) days = Inr due) \<or>
        (unit r = CALENDAR_DAYS \<and> add_days (trade_date f) days = Inr due)))"

lemma due_date_204_Inr:
  "due_date_204 f r days cal = Inr (Inr due) \<longleftrightarrow>
     (\<exists>add. unit r = SETTLEMENT_DAYS \<and> cal = Some add \<and> add (f_settlement_date f) days = Inr due) \<or>
     (unit r = CALENDAR_DAYS \<and> add_days (trade_date f) days = Inr due)"
  by (auto simp: due_date_204_def split: option.splits if_splits)

lemma close_out_date_iff:
  "close_out_date f r cal due \<longleftrightarrow>
     (\<exists>days. whole (rule_id r) (dr_value r) = Inr days \<and> due_date_204 f r days cal = Inr (Inr due))"
  by (simp add: close_out_date_def due_date_204_Inr)

text \<open>Every assessment that names a due time.\<close>

definition close_out_answer ::
  "zones \<Rightarrow> Rule204Fail \<Rightarrow> DeadlineRuleTable \<Rightarrow> datetime \<Rightarrow> DeadlineRule \<Rightarrow> datetime \<Rightarrow> Rule204Assessment" where
  "close_out_answer zones f t now r due =
     (let late = later zones now due in
      rule_204_result f t (base_assessment now (if late then HOLD else PASS) (Some due) [] []
        (if late then [''rule_204.close_out_overdue''] else [])) None (Some r) late)"

definition close_out_due ::
  "Rule204Fail \<Rightarrow> DeadlineRule \<Rightarrow> calendar option \<Rightarrow> clock_time option \<Rightarrow> datetime \<Rightarrow> bool" where
  "close_out_due f r cal open_at due \<longleftrightarrow>
     (\<exists>d c z. close_out_date f r cal d \<and> open_at = Some c \<and> clock_tz c = Some z \<and>
        due = combine d (time_of_day c) z)"

lemma assess_by_rule_204_dated:
  "assess_by_rule_204 zones f t now cal open_at r = Inr a \<and> due_at a \<noteq> None \<longleftrightarrow>
     (\<exists>due. close_out_due f r cal open_at due \<and> a = close_out_answer zones f t now r due)"
  unfolding close_out_date_iff close_out_due_def
  by (auto simp: assess_by_rule_204_def close_out_answer_def Let_def split: sum.splits option.splits)

lemma assess_by_rule_204_pass:
  "assess_by_rule_204 zones f t now cal open_at r = Inr a \<Longrightarrow> da_disposition a = PASS \<Longrightarrow> due_at a \<noteq> None"
  by (auto simp: assess_by_rule_204_def Let_def split: sum.splits option.splits if_splits)

definition the_rule :: "Rule204Fail \<Rightarrow> DeadlineRuleTable \<Rightarrow> DeadlineRule \<Rightarrow> bool" where
  "the_rule f t r \<longleftrightarrow>
     (\<exists>origin. origin_class f = Some (origin_value origin) \<and> table_get t (rule_204_id origin) = Some r)"

lemma assess_rule_204_by:
  assumes "the_rule f t r" and "clock_tz c = Some z"
  shows "assess_rule_204 zones f t now cal (Some c) = assess_by_rule_204 zones f t now cal (Some c) r"
  using assms by (auto simp: the_rule_def assess_rule_204_def)

lemma assess_rule_204_dated:
  "assess_rule_204 zones f t now cal open_at = Inr a \<and> due_at a \<noteq> None \<longleftrightarrow>
     (\<exists>r due. the_rule f t r \<and> close_out_due f r cal open_at due \<and> a = close_out_answer zones f t now r due)"
  (is "?l \<longleftrightarrow> ?r")
proof
  assume l: ?l
  then obtain r where r: "the_rule f t r" "assess_by_rule_204 zones f t now cal open_at r = Inr a"
    by (auto simp: assess_rule_204_def the_rule_def rule204_origin.find_val_iff split: option.splits if_splits)
  then show ?r using l assess_by_rule_204_dated [of zones f t now cal open_at r a] by blast
next
  assume ?r
  then obtain r due where r: "the_rule f t r" "close_out_due f r cal open_at due"
    "a = close_out_answer zones f t now r due" by blast
  then obtain c z where "open_at = Some c" "clock_tz c = Some z" by (auto simp: close_out_due_def)
  then show ?l
    using r assess_rule_204_by [of f t r c z zones now cal] assess_by_rule_204_dated [of zones f t now cal open_at r a]
    by auto
qed

text \<open>
  A fail is in time (\<open>PASS\<close>) exactly when its origin class is one of the four, the table has
  that class's rule, the rule counts whole settlement days from the settlement date or calendar
  days from the trade date, the open_at time has a zone, and the evaluation is not later than the
  open_at of the day so reached.
\<close>

theorem close_out_in_time_iff:
  "(\<exists>a. assess_rule_204 zones f t now cal open_at = Inr a \<and> da_disposition a = PASS) \<longleftrightarrow>
   (\<exists>r d c z. the_rule f t r \<and> close_out_date f r cal d \<and> open_at = Some c \<and> clock_tz c = Some z \<and>
      \<not> later zones now (combine d (time_of_day c) z))"
  (is "?l \<longleftrightarrow> ?r")
proof
  assume ?l
  then obtain a where a: "assess_rule_204 zones f t now cal open_at = Inr a" "da_disposition a = PASS" by blast
  then have "due_at a \<noteq> None"
    by (auto simp: assess_rule_204_def dest!: assess_by_rule_204_pass split: option.splits if_splits)
  then obtain r due where "the_rule f t r" "close_out_due f r cal open_at due"
    "a = close_out_answer zones f t now r due"
    using a assess_rule_204_dated [of zones f t now cal open_at a] by blast
  then show ?r using a(2) by (auto simp: close_out_due_def close_out_answer_def Let_def split: if_splits)
next
  assume ?r
  then obtain r d c z where "the_rule f t r" "close_out_date f r cal d" "open_at = Some c"
    "clock_tz c = Some z" and l: "\<not> later zones now (combine d (time_of_day c) z)" by blast
  then have "assess_rule_204 zones f t now cal open_at =
      Inr (close_out_answer zones f t now r (combine d (time_of_day c) z))"
    using assess_rule_204_dated [of zones f t now cal open_at
        "close_out_answer zones f t now r (combine d (time_of_day c) z)"]
    by (auto simp: close_out_due_def)
  then show ?l using l by (auto simp: close_out_answer_def Let_def)
qed

text \<open>
  Once overdue, always overdue: a close-out found overdue at one instant (of a fixed offset)
  is found overdue, against the same due time and with the preborrow condition, at every later
  one.
\<close>

theorem overdue_close_out_stays_overdue:
  assumes "assess_rule_204 zones f t now cal open_at = Inr a" and "due_at a = Some due"
    and "da_disposition a = HOLD"
    and "tz now = Fixed_Offset x" and "tz again = Fixed_Offset y" and "instant zones now \<le> instant zones again"
  shows "\<exists>b. assess_rule_204 zones f t again cal open_at = Inr b \<and> due_at b = Some due \<and>
    da_disposition b = HOLD \<and> da_breaches b = [''rule_204.close_out_overdue''] \<and> preborrow_condition_applies b"
proof -
  obtain r d where r: "the_rule f t r" "close_out_due f r cal open_at d" "a = close_out_answer zones f t now r d"
    using assess_rule_204_dated [of zones f t now cal open_at a] assms(1,2) by auto
  then have "d = due" "later zones now due" using assms(2,3) by (auto simp: close_out_answer_def Let_def split: if_splits)
  moreover have "later zones again due" using later_trans_fixed [OF assms(4,5) \<open>later zones now due\<close> assms(6)] .
  moreover have "assess_rule_204 zones f t again cal open_at = Inr (close_out_answer zones f t again r d)"
    using assess_rule_204_dated [of zones f t again cal open_at "close_out_answer zones f t again r d"] r by auto
  ultimately show ?thesis by (auto simp: close_out_answer_def Let_def)
qed

end
