(* ===== verification/Deadline_Timely.thy ===== *)
theory Deadline_Timely
  imports Deadline_Props
begin

text \<open>
  More guarantees of the deadline engines: reserve deposits and account transfers in time, the
  window of the next security count, when an engine raises, and what the loaded table rests on.
\<close>

subsection \<open>Deposits\<close>

definition deposit_due ::
  "ReserveComputation \<Rightarrow> DeadlineRuleTable \<Rightarrow> calendar option \<Rightarrow> clock_time option \<Rightarrow> datetime \<Rightarrow> bool" where
  "deposit_due c t cal open_at due \<longleftrightarrow>
     (\<exists>m br off add k z days hours d.
        basis c = Some (basis_value m) \<and> table_get t (basis_rule_id m) = Some br \<and>
        table_get t OFFSET_RULE_ID = Some off \<and> unit br = BUSINESS_DAYS \<and> unit off = CLOCK_TIME \<and>
        cal = Some add \<and> open_at = Some k \<and> clock_tz k = Some z \<and>
        dr_value br = of_int days \<and> dr_value off = of_int hours \<and>
        add (date_of (computed_at c)) days = Inr d \<and>
        add_hours (combine d (time_of_day k) z) hours = Inr due)"

lemma assess_deposit_by_pass:
  "(\<exists>a. assess_deposit_by zones c t now add tod z br off brid = Inr a \<and> da_disposition a = PASS) \<longleftrightarrow>
   (\<exists>days hours d due. dr_value br = of_int days \<and> dr_value off = of_int hours \<and>
      add (date_of (computed_at c)) days = Inr d \<and> add_hours (combine d tod z) hours = Inr due \<and>
      \<not> later zones now due)"
  by (auto simp: assess_deposit_by_def Let_def split: sum.splits if_splits)

text \<open>
  A reserve deposit is in time exactly when its basis is one of the five, the table has the
  rule of the basis and the opening offset, the banking day's opening time has a zone, and the
  evaluation is not later than that offset after the opening of the business day so many business
  days after the computation.
\<close>

theorem deposit_in_time_iff:
  "(\<exists>a. assess_reserve_deposit zones c t now cal open_at = Inr a \<and> da_disposition a = PASS) \<longleftrightarrow>
   (\<exists>due. deposit_due c t cal open_at due \<and> \<not> later zones now due)"
  (is "?l \<longleftrightarrow> ?r")
proof
  assume ?l
  then obtain a where a: "assess_reserve_deposit zones c t now cal open_at = Inr a" "da_disposition a = PASS"
    by blast
  then obtain m br off add k z where m: "basis c = Some (basis_value m)"
    "table_get t (basis_rule_id m) = Some br" "table_get t OFFSET_RULE_ID = Some off"
    "unit br = BUSINESS_DAYS" "unit off = CLOCK_TIME" "cal = Some add" "open_at = Some k" "clock_tz k = Some z"
    and "assess_deposit_by zones c t now add (time_of_day k) z br off (basis_rule_id m) = Inr a"
    by (auto simp: assess_reserve_deposit_def Let_def reserve_basis.find_val_iff split: option.splits if_splits)
  then have "\<exists>a. assess_deposit_by zones c t now add (time_of_day k) z br off (basis_rule_id m) = Inr a \<and>
      da_disposition a = PASS"
    using a(2) by blast
  then show ?r unfolding assess_deposit_by_pass deposit_due_def using m by blast
next
  assume ?r
  then obtain due m br off add k z days hours d where m: "basis c = Some (basis_value m)"
    "table_get t (basis_rule_id m) = Some br" "table_get t OFFSET_RULE_ID = Some off"
    "unit br = BUSINESS_DAYS" "unit off = CLOCK_TIME" "cal = Some add" "open_at = Some k" "clock_tz k = Some z"
    and v: "dr_value br = of_int days" "dr_value off = of_int hours" "add (date_of (computed_at c)) days = Inr d"
    "add_hours (combine d (time_of_day k) z) hours = Inr due" "\<not> later zones now due"
    unfolding deposit_due_def by blast
  have "assess_reserve_deposit zones c t now cal open_at =
      assess_deposit_by zones c t now add (time_of_day k) z br off (basis_rule_id m)"
    using m by (simp add: assess_reserve_deposit_def Let_def)
  then show ?l using v assess_deposit_by_pass [of zones c t now add "time_of_day k" z br off] by metis
qed

subsection \<open>Transfers\<close>

definition transfer_dates ::
  "AcatsTransfer \<Rightarrow> calendar \<Rightarrow> DeadlineRule \<Rightarrow> DeadlineRule \<Rightarrow> date \<Rightarrow> date option \<Rightarrow> bool" where
  "transfer_dates x add vr cr vdue cdue \<longleftrightarrow>
     (\<exists>n. dr_value vr = of_int n \<and> add (date_of (instruction_at x)) n = Inr vdue) \<and>
     (case validation_at x of None \<Rightarrow> cdue = None
      | Some v \<Rightarrow> (\<exists>n d. dr_value cr = of_int n \<and> add (date_of v) n = Inr d \<and> cdue = Some d))"

lemma assess_transfer_by_Inr:
  "assess_transfer_by x t now add vr cr = Inr a \<longleftrightarrow>
     (\<exists>vdue cdue. transfer_dates x add vr cr vdue cdue \<and>
        a = acats_result x t
          (base_assessment now (if acats_breaches x (date_of now) vdue cdue \<noteq> [] then HOLD else PASS) None [] []
             (acats_breaches x (date_of now) vdue cdue))
          (Some vdue) cdue [dr_citation vr, dr_citation cr] (Some (source_sha256 vr)))"
  by (cases "validation_at x")
    (auto simp: assess_transfer_by_def transfer_dates_def Let_def split: sum.splits)

text \<open>The states of a transfer in time: validated in time and not past completion, or still to be validated.\<close>

definition transfer_in_time :: "AcatsTransfer \<Rightarrow> date \<Rightarrow> date \<Rightarrow> date option \<Rightarrow> bool" where
  "transfer_in_time x today vdue cdue \<longleftrightarrow>
     (case (validation_at x, cdue) of
        (Some v, Some d) \<Rightarrow> date_of v \<le> vdue \<and> today \<le> d
      | (None, None) \<Rightarrow> today \<le> vdue
      | _ \<Rightarrow> False)"

lemma acats_breaches_Nil:
  "transfer_dates x add vr cr vdue cdue \<Longrightarrow>
   acats_breaches x today vdue cdue = [] \<longleftrightarrow> transfer_in_time x today vdue cdue"
  by (auto simp: acats_breaches_def transfer_in_time_def transfer_dates_def split: option.splits)

text \<open>
  A transfer passes exactly when the FINRA source is in force on the evaluation date, both
  rules count whole business days, and it is in time: validated by the validation date and not
  past the completion date counted from its validation, or not yet validated and the validation
  date not past.
\<close>

theorem transfer_in_time_iff:
  "(\<exists>a. assess_acats x t now cal = Inr a \<and> da_disposition a = PASS) \<longleftrightarrow>
   acats_version_current t (date_of now) \<and>
   (\<exists>vr cr add vdue cdue. table_get t VALIDATION_RULE_ID = Some vr \<and> table_get t COMPLETION_RULE_ID = Some cr \<and>
      unit vr = BUSINESS_DAYS \<and> unit cr = BUSINESS_DAYS \<and> cal = Some add \<and>
      transfer_dates x add vr cr vdue cdue \<and> transfer_in_time x (date_of now) vdue cdue)"
  (is "?l \<longleftrightarrow> ?r")
proof
  assume ?l
  then obtain a where a: "assess_acats x t now cal = Inr a" "da_disposition a = PASS" by blast
  then have cur: "acats_version_current t (date_of now)"
    by (auto simp: assess_acats_def split: if_splits)
  from a obtain vr cr add where v: "table_get t VALIDATION_RULE_ID = Some vr"
    "table_get t COMPLETION_RULE_ID = Some cr" "unit vr = BUSINESS_DAYS" "unit cr = BUSINESS_DAYS" "cal = Some add"
    and "assess_transfer_by x t now add vr cr = Inr a"
    by (auto simp: assess_acats_def split: option.splits if_splits)
  then obtain vdue cdue where "transfer_dates x add vr cr vdue cdue" "acats_breaches x (date_of now) vdue cdue = []"
    using a(2) unfolding assess_transfer_by_Inr by (fastforce split: if_splits)
  then have "transfer_dates x add vr cr vdue cdue \<and> transfer_in_time x (date_of now) vdue cdue"
    by (simp add: acats_breaches_Nil)
  with cur v show ?r by blast
next
  assume ?r
  then obtain vr cr add vdue cdue where v: "acats_version_current t (date_of now)"
    "table_get t VALIDATION_RULE_ID = Some vr" "table_get t COMPLETION_RULE_ID = Some cr"
    "unit vr = BUSINESS_DAYS" "unit cr = BUSINESS_DAYS" "cal = Some add"
    and d: "transfer_dates x add vr cr vdue cdue" "transfer_in_time x (date_of now) vdue cdue"
    by blast
  then have "acats_breaches x (date_of now) vdue cdue = []" by (simp add: acats_breaches_Nil)
  moreover have "assess_acats x t now cal = assess_transfer_by x t now add vr cr"
    using v by (simp add: assess_acats_def)
  moreover have "assess_transfer_by x t now add vr cr = Inr (acats_result x t
      (base_assessment now PASS None [] [] []) (Some vdue) cdue [dr_citation vr, dr_citation cr] (Some (source_sha256 vr)))"
    using d(1) calculation(1) unfolding assess_transfer_by_Inr by (intro exI [of _ vdue] exI [of _ cdue]) simp
  ultimately show ?l by simp
qed

subsection \<open>Security counts\<close>

lemma days_before_year_mono: "y \<le> z \<Longrightarrow> days_before_year y \<le> days_before_year z"
proof (induction rule: int_ge_induct)
  case (step z)
  then show ?case using days_before_year_step [of z] by (simp split: if_splits)
qed simp

lemma later_month_later_day:
  assumes "real_day y m d" and "real_day y' m' d'" and "y * 12 + m < y' * 12 + m'"
  shows "ymd_ordinal y m d < ymd_ordinal y' m' d'"
proof (cases "y = y'")
  case True
  then show ?thesis
    using real_day_in_year(2) [OF assms(1)] days_before_month_mono [of "m + 1" m' y] assms
    by (auto simp: ymd_ordinal_def real_day_def)
next
  case False
  then have "y + 1 \<le> y'" using assms by (auto simp: real_day_def)
  then have "days_before_year y + (if leap_year y then 366 else 365) \<le> days_before_year y'"
    using days_before_year_mono [of "y + 1" y'] by (simp add: days_before_year_step)
  then show ?thesis
    using real_day_in_year(3) [OF assms(1)] real_day_in_year(1) [OF assms(2)] by (simp add: ymd_ordinal_def)
qed

lemma add_months_is_date: "1 \<le> s \<Longrightarrow> add_months s k = Inr e \<Longrightarrow> 1 \<le> e"
proof -
  assume s: "1 \<le> s" and e: "add_months s k = Inr e"
  let ?i = "date_month s - 1 + k"
  let ?y = "date_year s + ?i div 12" and ?m = "?i mod 12 + 1"
  have "real_day ?y ?m (min (date_day s) (month_length ?y ?m))"
    using date_day_range [OF s] month_length_pos [of ?y ?m] by (auto simp: real_day_def)
  then have "1 \<le> days_before_month ?y ?m + min (date_day s) (month_length ?y ?m)" by (rule real_day_in_year(1))
  moreover have "1 \<le> ?y" "e = ymd_ordinal ?y ?m (min (date_day s) (month_length ?y ?m))"
    using e by (simp_all add: add_months_def mk_date_def Let_def)
  moreover have "0 \<le> days_before_year ?y"
    using days_before_year_mono [of 1 ?y] \<open>1 \<le> ?y\<close> by (simp add: days_before_year_def)
  ultimately show ?thesis by (simp only: ymd_ordinal_def)
qed

lemma add_months_mono:
  assumes "1 \<le> s" and "add_months s a = Inr d" and "add_months s b = Inr e" and "a \<le> b"
  shows "d \<le> e"
proof (cases "a = b")
  case False
  then have "month_index d < month_index e"
    using add_months_Inr(1) [OF assms(1,2)] add_months_Inr(1) [OF assms(1,3)] assms(4) by simp
  then have "ymd_ordinal (date_year d) (date_month d) (date_day d) <
      ymd_ordinal (date_year e) (date_month e) (date_day e)"
    using add_months_is_date [OF assms(1,2)] add_months_is_date [OF assms(1,3)]
    by (intro later_month_later_day date_day_range) (simp_all add: month_index_def)
  then show ?thesis by (simp add: ymd_ordinal_date)
qed (use assms in simp)

text \<open>The assessments that reach a window.\<close>

lemma assess_security_count_window:
  assumes "assess_security_count c t now cal = Inr a" and "next_count_latest a \<noteq> None"
  shows "\<exists>minimum maximum lo hi d e.
    table_get t MINIMUM_RULE_ID = Some minimum \<and> table_get t MAXIMUM_RULE_ID = Some maximum \<and>
    prior_count_dates c \<noteq> [] \<and> dr_value minimum = of_int lo \<and> dr_value maximum = of_int hi \<and>
    add_months (Max (set (prior_count_dates c))) lo = Inr d \<and>
    add_months (Max (set (prior_count_dates c))) hi = Inr e \<and>
    next_count_earliest a = Some d \<and> next_count_latest a = Some e \<and>
    da_breaches a = count_breaches (count_date c) (date_of now) d e \<and>
    da_disposition a = (if da_breaches a \<noteq> [] then HOLD else PASS) \<and>
    spacing_valid a = map_option (\<lambda>x. d \<le> x \<and> x \<le> e) (count_date c)"
  using assms
  by (auto simp: assess_security_count_def assess_count_by_def count_answer_def Let_def
      DeadlineAssessment.extend_def base_assessment_def SecurityCountAssessment.fields_def
      split: option.splits if_splits sum.splits)

text \<open>
  The window of the next count opens and closes the stated numbers of months after the last
  prior count, on the same day of the month or its last day; it is never empty when the minimum
  is not above the maximum; a count is valid exactly when it falls in the window, and the
  assessment then holds exactly when a count made falls outside it, or when none was made and the
  window has closed.
\<close>

theorem count_window:
  assumes "assess_security_count c t now cal = Inr a" and "next_count_latest a = Some e"
    and "\<forall>d \<in> set (prior_count_dates c). 1 \<le> d"
  shows "\<exists>d lo hi. next_count_earliest a = Some d \<and>
    month_index d = month_index (Max (set (prior_count_dates c))) + lo \<and>
    month_index e = month_index (Max (set (prior_count_dates c))) + hi \<and>
    (lo \<le> hi \<longrightarrow> d \<le> e) \<and>
    (case count_date c of
       Some x \<Rightarrow> spacing_valid a = Some (d \<le> x \<and> x \<le> e) \<and> (da_disposition a = PASS \<longleftrightarrow> d \<le> x \<and> x \<le> e)
     | None \<Rightarrow> spacing_valid a = None \<and> (da_disposition a = PASS \<longleftrightarrow> date_of now \<le> e))"
proof -
  let ?prior = "Max (set (prior_count_dates c))"
  obtain lo hi d where w: "prior_count_dates c \<noteq> []" "add_months ?prior lo = Inr d"
    "add_months ?prior hi = Inr e" "next_count_earliest a = Some d"
    "da_breaches a = count_breaches (count_date c) (date_of now) d e"
    "da_disposition a = (if da_breaches a \<noteq> [] then HOLD else PASS)"
    "spacing_valid a = map_option (\<lambda>x. d \<le> x \<and> x \<le> e) (count_date c)"
    using assess_security_count_window [OF assms(1)] assms(2) by auto
  have p: "1 \<le> ?prior" using assms(3) w(1) by simp
  have "case count_date c of
       Some x \<Rightarrow> spacing_valid a = Some (d \<le> x \<and> x \<le> e) \<and> (da_disposition a = PASS \<longleftrightarrow> d \<le> x \<and> x \<le> e)
     | None \<Rightarrow> spacing_valid a = None \<and> (da_disposition a = PASS \<longleftrightarrow> date_of now \<le> e)"
    using w(5,6,7) by (auto simp: count_breaches_def split: option.splits if_splits)
  then show ?thesis
    using w(4) add_months_Inr(1) [OF p w(2)] add_months_Inr(1) [OF p w(3)] add_months_mono [OF p w(2,3)]
    by blast
qed

end
