(* ===== verification/Deadline_Loaded.thy ===== *)
theory Deadline_Loaded
  imports Deadline_Timely
begin

text \<open>
  What a loaded deadline table rests on, when the engines raise, when the calendar returns, and
  the witnesses of the deadline theories.
\<close>

subsection \<open>The loaded table\<close>

lemma check_rule_Inr:
  "check_rule st r = Inr (Inr r') \<Longrightarrow>
   r' = r \<and> (\<exists>s body. s \<in> set (kept st) \<and> ds_source_id s = dr_source_id r \<and> source_sha256 r = ds_sha256 s \<and>
     (dr_source_id r, body) \<in> set (texts st) \<and> occurs (dr_quote r) body)"
  by (auto simp: check_rule_def dest!: find_SomeD dest: map_of_SomeD split: option.splits if_splits)

definition admitted :: "source_state \<Rightarrow> string list \<Rightarrow> DeadlineRule list \<Rightarrow> bool" where
  "admitted st seen rs \<longleftrightarrow>
     distinct (map rule_id rs) \<and> set (map rule_id rs) \<inter> set seen = {} \<and>
     (\<forall>r \<in> set rs. check_rule st r = Inr (Inr r) \<and> mk_DeadlineRule r = Inr r)"

lemma load_rules_admitted: "load_rules st seen rows = Inr (rs, bad) \<Longrightarrow> admitted st seen rs"
proof (induction st seen rows arbitrary: rs bad rule: load_rules.induct)
  case (1 st seen)
  then show ?case by (simp add: admitted_def)
next
  case (2 st seen rid row rows)
  let ?spec = "case row of None \<Rightarrow> Inl Not_A_Record | Some r \<Rightarrow> mk_DeadlineRule r"
  show ?case
  proof (cases ?spec)
    case (Inl e)
    with 2 show ?thesis by (auto split: sum.splits)
  next
    case spec: (Inr r)
    then have same: "mk_DeadlineRule r = Inr r" by (auto dest: mk_DeadlineRule_same split: option.splits)
    show ?thesis
    proof (cases "rule_id r \<in> set seen")
      case True
      with 2 spec show ?thesis by (auto split: sum.splits)
    next
      case new: False
      show ?thesis
      proof (cases "check_rule st r")
        case (Inl f)
        with 2 spec new show ?thesis by simp
      next
        case check: (Inr res)
        show ?thesis
        proof (cases res)
          case (Inl e)
          with 2 spec new check have "admitted st (rule_id r # seen) rs" by (auto split: sum.splits)
          then show ?thesis by (auto simp: admitted_def)
        next
          case (Inr r')
          then have r': "r' = r" using check check_rule_Inr by simp
          with 2 spec new check Inr obtain rs' where "rs = r # rs'" "admitted st (rule_id r # seen) rs'"
            by (auto split: sum.splits)
          then show ?thesis using new check Inr r' same by (auto simp: admitted_def)
        qed
      qed
    qed
  qed
qed

text \<open>
  Every rule of a loaded table is unique under its identifier, contains its figure in its
  quote and its quote in the text of a source whose bytes hash to the digest the rule is pinned
  to, and that source had not expired at the date the table was loaded for.
\<close>

theorem loaded_rules_are_quoted:
  assumes "load_rule_table files doc as_of = Inr t"
  shows "distinct (map rule_id (dt_rules t)) \<and>
    (\<forall>r \<in> set (dt_rules t). occurs (dr_figure r) (dr_quote r) \<and>
      (\<exists>s \<in> set (dt_sources t). ds_source_id s = dr_source_id r \<and> source_unexpired as_of s \<and>
        (\<exists>body. files (ds_filename s) = Some (source_sha256 r, Some body) \<and> occurs (dr_quote r) body)))"
proof -
  obtain srows rrows st rs bad where st_def: "st = load_sources files as_of srows"
    and l: "load_rules st [] rrows = Inr (rs, bad)" and t: "dt_rules t = rs" "dt_sources t = kept st"
    using assms by (rule load_rule_table_Inr)
  have a: "admitted st [] rs" by (rule load_rules_admitted [OF l])
  have k: "sources_ok files as_of st" by (simp add: st_def load_sources_ok)
  have "occurs (dr_figure r) (dr_quote r) \<and>
      (\<exists>s \<in> set (kept st). ds_source_id s = dr_source_id r \<and> source_unexpired as_of s \<and>
        (\<exists>body. files (ds_filename s) = Some (source_sha256 r, Some body) \<and> occurs (dr_quote r) body))"
    if "r \<in> set rs" for r
  proof -
    have c: "check_rule st r = Inr (Inr r)" "mk_DeadlineRule r = Inr r" using a that by (auto simp: admitted_def)
    then obtain s body where s: "s \<in> set (kept st)" "ds_source_id s = dr_source_id r" "source_sha256 r = ds_sha256 s"
      "(dr_source_id r, body) \<in> set (texts st)" "occurs (dr_quote r) body"
      using check_rule_Inr by blast
    then obtain s' where "s' \<in> set (kept st)" "ds_source_id s' = dr_source_id r"
      "files (ds_filename s') = Some (ds_sha256 s', Some body)"
      using k by (auto simp: sources_ok_def)
    moreover from this s k have "s' = s" by (auto simp: sources_ok_def distinct_map inj_on_def)
    ultimately show ?thesis
      using s k mk_DeadlineRule_same [OF c(2)] by (auto simp: sources_ok_def)
  qed
  then show ?thesis using a t by (simp add: admitted_def)
qed

text \<open>
  C29: From the files to the verdict: a close-out that passes by a table loaded for the evaluation
  date cites, by its digest, a source whose stated expiry has not passed on that date and whose text
  holds the quoted rule. Whether the source is effective yet is not checked by the loader
  (\<open>future_source_supports_a_pass\<close>).
\<close>

theorem passed_close_out_cites_unexpired_text:
  assumes "load_rule_table files doc (Some (date_of now)) = Inr t"
    and "assess_rule_204 zones f t now cal open_at = Inr a" and "da_disposition a = PASS"
  shows "\<exists>r s body. the_rule f t r \<and> a_source_sha256 a = Some (source_sha256 r) \<and>
    s \<in> set (dt_sources t) \<and> (\<forall>e. expires_at s = Some e \<longrightarrow> date_of now \<le> e) \<and>
    files (ds_filename s) = Some (source_sha256 r, Some body) \<and> occurs (dr_quote r) body"
proof -
  have "due_at a \<noteq> None"
    using assms(2,3) by (auto simp: assess_rule_204_def dest!: assess_by_rule_204_pass split: option.splits if_splits)
  then obtain r due where r: "the_rule f t r" "a = close_out_answer zones f t now r due"
    using assms(2) assess_rule_204_dated [of zones f t now cal open_at a] by blast
  then have "r \<in> set (dt_rules t)" by (auto simp: the_rule_def table_get_def dest: find_SomeD)
  then obtain s body where "s \<in> set (dt_sources t)" "source_unexpired (Some (date_of now)) s"
    "files (ds_filename s) = Some (source_sha256 r, Some body)" "occurs (dr_quote r) body"
    using loaded_rules_are_quoted [OF assms(1)] by blast
  moreover from this have "\<forall>e. expires_at s = Some e \<longrightarrow> date_of now \<le> e"
    by (auto simp: source_unexpired_def)
  moreover have "a_source_sha256 a = Some (source_sha256 r)"
    by (simp add: r(2) close_out_answer_def Let_def)
  ultimately show ?thesis using r(1) by blast
qed

subsection \<open>When an engine raises\<close>

definition calendar_failed :: "calendar option \<Rightarrow> deadline_error \<Rightarrow> bool" where
  "calendar_failed cal e \<longleftrightarrow>
     e = Calendar_Failure Date_Overflow \<or>
     (\<exists>add d n e'. cal = Some add \<and> add d n = Inl e' \<and> e = Calendar_Failure e')"

lemma calendar_failedI:
  "add d n = Inl e' \<Longrightarrow> calendar_failed (Some add) (Calendar_Failure e')"
  "calendar_failed cal (Calendar_Failure Date_Overflow)"
  by (auto simp: calendar_failed_def)

definition whole_table :: "DeadlineRuleTable \<Rightarrow> bool" where
  "whole_table t \<longleftrightarrow>
     (\<forall>r \<in> set (dt_rules t). (\<exists>n. dr_value r = of_int n)) \<and>
     (\<forall>origin r. table_get t (rule_204_id origin) = Some r \<longrightarrow> requires_caller_opening_time r)"

lemma whole_table_get: "whole_table t \<Longrightarrow> table_get t rid = Some r \<Longrightarrow> \<exists>n. dr_value r = of_int n"
  by (auto simp: whole_table_def table_get_def dest: find_SomeD)

lemma add_days_Inl: "add_days d n = Inl e \<Longrightarrow> e = Date_Overflow"
  by (auto simp: add_days_def require_def split: if_splits)

lemma add_hours_Inl: "add_hours d n = Inl e \<Longrightarrow> e = Date_Overflow"
  by (auto simp: add_hours_def require_def Let_def split: if_splits)

lemma rule_204_raises:
  assumes "whole_table t" and "assess_rule_204 zones f t now cal open_at = Inl e"
  shows "calendar_failed cal e"
proof -
  obtain origin r where r: "table_get t (rule_204_id origin) = Some r"
    "assess_by_rule_204 zones f t now cal open_at r = Inl e"
    "\<not> (requires_caller_opening_time r \<and> (case open_at of None \<Rightarrow> True | Some c \<Rightarrow> clock_tz c = None))"
    using assms(2) by (auto simp: assess_rule_204_def split: option.splits if_splits)
  moreover from r obtain n where "dr_value r = of_int n" using whole_table_get [OF assms(1)] by blast
  moreover have "requires_caller_opening_time r" using r(1) assms(1) by (auto simp: whole_table_def)
  ultimately have "due_date_204 f r n cal = Inl e"
    by (auto simp: assess_by_rule_204_def Let_def split: sum.splits option.splits)
  then show ?thesis
    by (auto simp: due_date_204_def split: if_splits option.splits dest!: add_days_Inl intro: calendar_failedI)
qed

lemma acats_raises:
  assumes "whole_table t" and "assess_acats x t now cal = Inl e"
  shows "calendar_failed cal e"
proof -
  obtain vr cr add where r: "table_get t VALIDATION_RULE_ID = Some vr" "table_get t COMPLETION_RULE_ID = Some cr"
    "cal = Some add" "assess_transfer_by x t now add vr cr = Inl e"
    using assms(2) by (auto simp: assess_acats_def Let_def split: option.splits if_splits)
  moreover from r obtain n m where "dr_value vr = of_int n" "dr_value cr = of_int m"
    using whole_table_get [OF assms(1)] by metis
  ultimately show ?thesis
    by (auto simp: assess_transfer_by_def Let_def split: sum.splits option.splits intro: calendar_failedI)
qed

lemma security_count_raises:
  assumes "whole_table t" and "assess_security_count c t now cal = Inl e"
  shows "calendar_failed cal e"
proof -
  obtain lo hi rec add where r: "table_get t MINIMUM_RULE_ID = Some lo" "table_get t MAXIMUM_RULE_ID = Some hi"
    "table_get t RECORDING_RULE_ID = Some rec" "cal = Some add" "assess_count_by c t now add lo hi rec = Inl e"
    using assms(2) by (auto simp: assess_security_count_def split: option.splits if_splits)
  moreover from r obtain n m k where "dr_value lo = of_int n" "dr_value hi = of_int m" "dr_value rec = of_int k"
    using whole_table_get [OF assms(1)] by metis
  ultimately show ?thesis
    by (auto simp: assess_count_by_def recording_date_def add_months_fails Let_def
        split: sum.splits option.splits intro: calendar_failedI)
qed

lemma reserve_deposit_raises:
  assumes "whole_table t" and "assess_reserve_deposit zones c t now cal open_at = Inl e"
  shows "calendar_failed cal e"
proof -
  obtain m br off add tod z where r: "table_get t (basis_rule_id m) = Some br" "table_get t OFFSET_RULE_ID = Some off"
    "cal = Some add" "assess_deposit_by zones c t now add tod z br off (basis_rule_id m) = Inl e"
    using assms(2) by (auto simp: assess_reserve_deposit_def Let_def split: option.splits if_splits)
  moreover from r obtain n k where "dr_value br = of_int n" "dr_value off = of_int k"
    using whole_table_get [OF assms(1)] by metis
  ultimately show ?thesis
    by (auto simp: assess_deposit_by_def Let_def split: sum.splits dest!: add_hours_Inl intro: calendar_failedI)
qed

text \<open>
  On a table of whole numbers whose close-out rules ask for the opening time (the committed
  one), no engine raises on its own account: every failure is a failure of the calendar it was
  handed, or a date beyond the years of \<open>datetime\<close>.
\<close>

theorem engines_raise_only_with_calendar:
  assumes "whole_table t"
  shows "(assess_rule_204 zones f t now cal open_at = Inl e \<longrightarrow> calendar_failed cal e) \<and>
    (assess_acats x t now cal = Inl e \<longrightarrow> calendar_failed cal e) \<and>
    (assess_security_count k t now cal = Inl e \<longrightarrow> calendar_failed cal e) \<and>
    (assess_reserve_deposit zones c t now cal open_at = Inl e \<longrightarrow> calendar_failed cal e)"
  by (intro conjI impI) (erule rule_204_raises [OF assms] acats_raises [OF assms]
      security_count_raises [OF assms] reserve_deposit_raises [OF assms])+

subsection \<open>The calendar returns\<close>

text \<open>
  C30: The walk over the calendar ends with a date whenever it can: if every year up to some date
  is loaded and at least \<open>n\<close> business days lie up to it, adding \<open>n\<close> business days returns a date
  not after it.
\<close>

theorem business_day_walk_returns:
  assumes "0 \<le> n" and "s \<le> e" and "\<forall>d \<in> {s<..e}. d \<le> MAX_ORDINAL \<and> date_year d \<in> set (map fst (mc_holidays c))"
    and "n \<le> int (card {d. s < d \<and> d \<le> e \<and> is_business_day c d = Inr True})"
  shows "\<exists>d. add_business_days c s n = Inr d \<and> d \<le> e"
proof -
  have dec: "\<forall>d \<in> {s<..e}. decided c d" using assms(3) by (simp add: decided_def)
  have "n \<le> int (card (days_between c s e))"
    using assms(4) by (simp add: days_between_def business_def)
  then have "\<exists>d \<in> {s..e}. add_loop c s (nat n) = Inr d"
    using dec assms(1,2)
  proof (induction "nat (e - s)" arbitrary: s n)
    case 0
    then show ?case by (simp add: add_loop.simps [of c s 0])
  next
    case (Suc k)
    show ?case
    proof (cases "n = 0")
      case True
      then show ?thesis using Suc by (simp add: add_loop.simps [of c s 0])
    next
      case False
      have lt: "s < e" using Suc.hyps(2) by simp
      have one: "s + 1 \<le> MAX_ORDINAL" "decided c (s + 1)"
        using Suc.prems(2) lt by (auto simp: decided_def)
      let ?m = "if business c (s + 1) then n - 1 else n"
      have "add_loop c s (nat n) = add_loop c (s + 1) (nat ?m)"
        using False Suc.prems(3) one
        by (subst add_loop.simps) (auto simp: next_day_def is_business_day_decided nat_diff_distrib)
      moreover have "\<exists>d \<in> {s + 1..e}. add_loop c (s + 1) (nat ?m) = Inr d"
        using Suc.prems Suc.hyps(2) lt False days_between_step [OF lt, of c]
        by (intro Suc.hyps(1)) (auto split: if_splits)
      ultimately show ?thesis using lt by auto
    qed
  qed
  then show ?thesis using assms(1) by (auto simp: add_business_days_loop)
qed

subsection \<open>Witnesses\<close>

text \<open>
  A table with one Rule 204 rule, loaded from one file; a fail that settled on Thursday 2 July
  2026, so the close-out is due at the opening of Monday 6 July.
\<close>

definition w_digest :: string where
  "w_digest = replicate 64 CHR ''a''"

definition w_source :: RuleSource where
  "w_source = \<lparr>ds_source_id = ''s'', ds_citation = ''c'', ds_url = ''u'', ds_filename = ''f'',
     ds_sha256 = w_digest, ds_retrieval_dtg = ''202610091044'', ds_effective_date = Some 739804, expires_at = Some 739803\<rparr>"

definition w_rule :: DeadlineRule where
  "w_rule = \<lparr>rule_id = ''rule_204.short_or_general'', dr_citation = ''c'', dr_source_id = ''s'',
     source_sha256 = w_digest, dr_quote = ''day'', dr_figure = ''day'', applicability = ''a'',
     dr_value = 1, unit = SETTLEMENT_DAYS, requires_caller_opening_time = True\<rparr>"

definition w_files :: files where
  "w_files name = (if name = ''f'' then Some (w_digest, Some ''a day'') else None)"

definition w_table :: DeadlineRuleTable where
  "w_table = \<lparr>dt_version = ''1'', dt_sources = [w_source], dt_rules = [w_rule], dt_rejected = []\<rparr>"

definition w_fail :: Rule204Fail where
  "w_fail = \<lparr>f_security = ''X'', trade_date = 739798, f_settlement_date = 739799, fail_quantity = 100,
     origin_class = Some ''SHORT_OR_GENERAL'', originating_order_id = None, locate_id = None\<rparr>"

definition w_open :: clock_time where
  "w_open = \<lparr>time_of_day = 34200000000, clock_tz = Some (Fixed_Offset 0)\<rparr>"

definition w_due :: datetime where
  "w_due = combine 739803 34200000000 (Fixed_Offset 0)"

definition w_late :: datetime where
  "w_late = combine 739803 34200000001 (Fixed_Offset 0)"

definition w_zones :: zones where
  "w_zones n w = 0"

lemma w_sha: "sha256_pattern w_digest"
  by (simp add: sha256_pattern_def w_digest_def list_all_iff)

definition w_document :: RuleDocument where
  "w_document = \<lparr>doc_sources = Some [(''s'', Some w_source)], doc_rules = Some [(''r'', Some w_rule)],
     doc_schema_version = Some (Some 1), doc_table_version = Some (Some ''1'')\<rparr>"

lemma w_load: "load_rule_table w_files w_document (Some 739803) = Inr w_table"
  using w_sha
  by (simp add: w_document_def mk_DeadlineRuleTable_def load_rule_table_def load_sources_def source_step_def mk_RuleSource_def w_source_def
      admit_source_def w_files_def Let_def w_rule_def mk_DeadlineRule_def check_rule_def w_table_def
      digit_char_def)

lemma w_the_rule: "the_rule w_fail w_table w_rule"
  unfolding the_rule_def
  by (rule exI [of _ SHORT_OR_GENERAL]) (simp add: w_fail_def table_get_def w_table_def w_rule_def)

lemma w_close_out: "close_out_due w_fail w_rule (Some (add_business_days w_calendar)) (Some w_open) w_due"
  by (auto simp: close_out_due_def close_out_date_def w_rule_def w_fail_def w_open_def w_due_def w_calendar_add
      intro!: exI [of _ 739803] exI [of _ 1])

lemma w_assess:
  "assess_rule_204 w_zones w_fail w_table now (Some (add_business_days w_calendar)) (Some w_open) =
     Inr (close_out_answer w_zones w_fail w_table now w_rule w_due)"
  using assess_rule_204_dated [of w_zones w_fail w_table now "Some (add_business_days w_calendar)" "Some w_open"]
    w_the_rule w_close_out by blast

lemma w_later: "later w_zones w_late w_due" "\<not> later w_zones w_due w_due"
  by (simp_all add: later_def w_late_def w_due_def combine_def)

theorem loaded_rules_are_quoted_witness:
  "\<exists>s \<in> set (dt_sources w_table). ds_source_id s = dr_source_id w_rule"
  using loaded_rules_are_quoted [OF w_load] by (auto simp: w_table_def)

lemma w_due_date: "date_of w_due = 739803"
  by (simp add: date_of_def w_due_def combine_def DAY_def)

theorem passed_close_out_cites_unexpired_text_witness:
  "\<exists>r s body. the_rule w_fail w_table r \<and> s \<in> set (dt_sources w_table) \<and> 739803 \<le> the (expires_at s) \<and>
     w_files (ds_filename s) = Some (source_sha256 r, Some body)"
proof -
  have "da_disposition (close_out_answer w_zones w_fail w_table w_due w_rule w_due) = PASS"
    using w_later by (simp add: close_out_answer_def Let_def)
  then obtain r s body where "the_rule w_fail w_table r" "s \<in> set (dt_sources w_table)"
    "\<forall>e. expires_at s = Some e \<longrightarrow> 739803 \<le> e" "w_files (ds_filename s) = Some (source_sha256 r, Some body)"
    using passed_close_out_cites_unexpired_text [OF w_load [folded w_due_date] w_assess [of w_due]]
    unfolding w_due_date by blast
  moreover from this have "expires_at s = Some 739803" by (simp add: w_table_def w_source_def)
  then have "739803 \<le> the (expires_at s)" by simp
  ultimately show ?thesis by blast
qed

theorem overdue_close_out_stays_overdue_witness:
  "\<exists>b. assess_rule_204 w_zones w_fail w_table (w_late\<lparr>wall := wall w_late + 1\<rparr>)
     (Some (add_business_days w_calendar)) (Some w_open) = Inr b \<and> da_disposition b = HOLD"
  using overdue_close_out_stays_overdue [OF w_assess [of w_late], of w_due 0 "w_late\<lparr>wall := wall w_late + 1\<rparr>" 0]
    w_later(1)
  by (auto simp: close_out_answer_def Let_def instant_def utc_offset_def w_late_def combine_def)

theorem engines_grade_alike_witness:
  "graded (close_out_answer w_zones w_fail w_table w_late w_rule w_due)"
  using engines_grade_alike [of w_zones w_fail w_table w_late "Some (add_business_days w_calendar)" "Some w_open"]
    w_assess [of w_late] by blast

lemma w_whole_table: "whole_table w_table"
proof -
  have "requires_caller_opening_time r" if "table_get w_table rid = Some r" for rid r
    using that by (auto simp: table_get_def w_table_def w_rule_def split: if_splits)
  moreover have "\<exists>n. dr_value w_rule = of_int n" by (auto simp: w_rule_def intro: exI [of _ 1])
  ultimately show ?thesis by (auto simp: whole_table_def w_table_def)
qed

theorem engines_raise_only_with_calendar_witness:
  "calendar_failed (Some (\<lambda>_ _. Inl Negative_Days)) (Calendar_Failure Negative_Days)"
proof -
  let ?cal = "Some (\<lambda>_ _. Inl Negative_Days)"
  have "assess_by_rule_204 w_zones w_fail w_table w_late ?cal (Some w_open) w_rule = Inl (Calendar_Failure Negative_Days)"
    by (simp add: assess_by_rule_204_def w_rule_def due_date_204_def whole_def)
  then have "assess_rule_204 w_zones w_fail w_table w_late ?cal (Some w_open) = Inl (Calendar_Failure Negative_Days)"
    using assess_rule_204_by [OF w_the_rule, of w_open "Fixed_Offset 0"] by (simp add: w_open_def)
  then show ?thesis using engines_raise_only_with_calendar [OF w_whole_table] by blast
qed

theorem business_day_walk_returns_witness:
  "\<exists>d. add_business_days w_calendar 739799 1 = Inr d \<and> d \<le> 739803"
proof (rule business_day_walk_returns)
  show "\<forall>d \<in> {739799<..739803}. d \<le> MAX_ORDINAL \<and> date_year d \<in> set (map fst (mc_holidays w_calendar))"
    and "1 \<le> int (card {d. 739799 < d \<and> d \<le> 739803 \<and> is_business_day w_calendar d = Inr True})"
    using w_calendar_add [unfolded add_business_days_iff] by simp_all
qed simp_all

text \<open>A firm last counted on 2 July 2026; the next count falls between 2 September and 2 November.\<close>

definition w_spacing :: "string \<Rightarrow> rat \<Rightarrow> RuleUnit \<Rightarrow> DeadlineRule" where
  "w_spacing rid v u = w_rule\<lparr>rule_id := rid, dr_value := v, unit := u\<rparr>"

definition w_count_table :: DeadlineRuleTable where
  "w_count_table = w_table\<lparr>dt_rules :=
     [w_spacing MINIMUM_RULE_ID 2 MONTHS, w_spacing MAXIMUM_RULE_ID 4 MONTHS,
      w_spacing RECORDING_RULE_ID 7 BUSINESS_DAYS]\<rparr>"

definition w_count :: SecurityCountInput where
  "w_count = \<lparr>prior_count_dates = [739799], count_date = None\<rparr>"

lemma w_july: "date_year 739799 = 2026" "date_month 739799 = 7" "date_day 739799 = 2"
proof -
  have "ymd_ordinal 2026 7 2 = 739799"
    by (simp add: ymd_ordinal_def days_before_year_def month_length_def leap_year_def)
  moreover have "real_day 2026 7 2" by (simp add: real_day_def month_length_def)
  ultimately show "date_year 739799 = 2026" "date_month 739799 = 7" "date_day 739799 = 2"
    using ymd_roundtrip [of 2026 7 2] by simp_all
qed

lemma w_months:
  "add_months 739799 2 = Inr (ymd_ordinal 2026 9 2)" "add_months 739799 4 = Inr (ymd_ordinal 2026 11 2)"
  by (simp_all add: add_months_def w_july mk_date_def month_length_def)

theorem count_window_witness:
  "\<exists>a. assess_security_count w_count w_count_table w_late (Some (add_business_days w_calendar)) = Inr a \<and>
     (\<exists>d. next_count_earliest a = Some d \<and> d \<le> ymd_ordinal 2026 11 2)"
proof -
  have g: "table_get w_count_table MINIMUM_RULE_ID = Some (w_spacing MINIMUM_RULE_ID 2 MONTHS)"
    "table_get w_count_table MAXIMUM_RULE_ID = Some (w_spacing MAXIMUM_RULE_ID 4 MONTHS)"
    "table_get w_count_table RECORDING_RULE_ID = Some (w_spacing RECORDING_RULE_ID 7 BUSINESS_DAYS)"
    by (simp_all add: table_get_def w_count_table_def w_spacing_def MINIMUM_RULE_ID_def MAXIMUM_RULE_ID_def
        RECORDING_RULE_ID_def)
  have wh: "whole rid 2 = Inr 2" "whole rid 4 = Inr 4" for rid by (simp_all add: whole_def)
  obtain a where a: "assess_security_count w_count w_count_table w_late (Some (add_business_days w_calendar)) = Inr a"
    "next_count_latest a = Some (ymd_ordinal 2026 11 2)" "next_count_earliest a = Some (ymd_ordinal 2026 9 2)"
    using wh by (simp add: assess_security_count_def g w_spacing_def assess_count_by_def w_count_def w_months
        recording_date_def Let_def DeadlineAssessment.extend_def SecurityCountAssessment.fields_def)
  then obtain d lo hi where "next_count_earliest a = Some d"
    "month_index d = month_index 739799 + lo" "month_index (ymd_ordinal 2026 11 2) = month_index 739799 + hi"
    "lo \<le> hi \<longrightarrow> d \<le> ymd_ordinal 2026 11 2"
    using count_window [OF a(1,2)] by (auto simp: w_count_def)
  moreover have "month_index (ymd_ordinal 2026 9 2) \<le> month_index (ymd_ordinal 2026 11 2)"
    by (simp add: month_index_def ymd_roundtrip real_day_def month_length_def)
  ultimately show ?thesis using a by auto
qed

subsection \<open>What the modelling showed\<close>

text \<open>
  The loader keeps a source before it decodes its text. Bytes that match the pinned digest and are
  not UTF-8 are rejected as a source; a rule that cites them then raises out of the loader, which
  promises to reject what it cannot check.
\<close>

theorem undecodable_source_escapes_the_loader:
  "load_rule_table (\<lambda>name. Some (w_digest, None)) w_document (Some 739803) = Inl (Key_Error ''s'')"
  using w_sha
  by (simp add: w_document_def load_rule_table_def load_sources_def source_step_def mk_RuleSource_def w_source_def
      admit_source_def Let_def w_rule_def mk_DeadlineRule_def check_rule_def digit_char_def)

text \<open>
  The loader looks at the date a source expires, never at the date it becomes effective: a source
  effective from 7 July supports a close-out that passes on 6 July.
\<close>

theorem future_source_supports_a_pass:
  "load_rule_table w_files w_document (Some (date_of w_due)) = Inr w_table \<and> dt_sources w_table = [w_source] \<and>
   ds_effective_date w_source = Some (date_of w_due + 1) \<and>
   (\<exists>a. assess_rule_204 w_zones w_fail w_table w_due (Some (add_business_days w_calendar)) (Some w_open) = Inr a \<and>
      da_disposition a = PASS)"
proof -
  have "da_disposition (close_out_answer w_zones w_fail w_table w_due w_rule w_due) = PASS"
    using w_later by (simp add: close_out_answer_def Let_def)
  then have "\<exists>a. assess_rule_204 w_zones w_fail w_table w_due (Some (add_business_days w_calendar)) (Some w_open) = Inr a \<and>
      da_disposition a = PASS"
    using w_assess [of w_due] by blast
  then show ?thesis using w_load by (simp add: w_due_date) (simp add: w_table_def w_source_def)
qed

text \<open>
  The due date of a transfer is counted from the calendar date of the zone the instruction was
  written in: one instant, written in two zones, is due on different business days.
\<close>

definition w_acats_table :: DeadlineRuleTable where
  "w_acats_table = w_table\<lparr>
     dt_sources := [w_source\<lparr>ds_source_id := ''finra-11870'', ds_effective_date := Some 1, expires_at := Some 800000\<rparr>],
     dt_rules := [w_spacing VALIDATION_RULE_ID 1 BUSINESS_DAYS, w_spacing COMPLETION_RULE_ID 3 BUSINESS_DAYS]\<rparr>"

definition w_transfer :: "datetime \<Rightarrow> AcatsTransfer" where
  "w_transfer d = \<lparr>transfer_id = ''t'', instruction_at = d, validation_at = None\<rparr>"

definition w_evening :: datetime where
  "w_evening = \<lparr>wall = 739798 * DAY + 23 * HOUR, tz = Fixed_Offset 0\<rparr>"

definition w_morning :: datetime where
  "w_morning = \<lparr>wall = 739799 * DAY + 1 * HOUR, tz = Fixed_Offset (2 * HOUR)\<rparr>"

lemma w_acats_assess:
  assumes "add_business_days w_calendar (date_of d) 1 = Inr v"
  shows "\<exists>a. assess_acats (w_transfer d) w_acats_table w_late (Some (add_business_days w_calendar)) = Inr a \<and>
    validation_due a = Some v"
proof -
  have g: "table_get w_acats_table VALIDATION_RULE_ID = Some (w_spacing VALIDATION_RULE_ID 1 BUSINESS_DAYS)"
    "table_get w_acats_table COMPLETION_RULE_ID = Some (w_spacing COMPLETION_RULE_ID 3 BUSINESS_DAYS)"
    by (simp_all add: table_get_def w_acats_table_def w_spacing_def VALIDATION_RULE_ID_def COMPLETION_RULE_ID_def)
  have cur: "acats_version_current w_acats_table (date_of w_late)"
    by (simp add: acats_version_current_def w_acats_table_def w_source_def w_late_def combine_def date_of_def DAY_def)
  have dates: "transfer_dates (w_transfer d) (add_business_days w_calendar) (w_spacing VALIDATION_RULE_ID 1 BUSINESS_DAYS)
      (w_spacing COMPLETION_RULE_ID 3 BUSINESS_DAYS) v None"
    using assms by (auto simp: transfer_dates_def w_transfer_def w_spacing_def intro!: exI [of _ 1])
  show ?thesis
    using assess_transfer_by_Inr [of "w_transfer d" w_acats_table w_late "add_business_days w_calendar"] dates
    by (simp add: assess_acats_def g cur w_spacing_def) (metis acats_result_simps(7))
qed

theorem transfer_due_depends_on_the_zone:
  "instant w_zones w_evening = instant w_zones w_morning \<and>
   (\<exists>a b. assess_acats (w_transfer w_evening) w_acats_table w_late (Some (add_business_days w_calendar)) = Inr a \<and>
      assess_acats (w_transfer w_morning) w_acats_table w_late (Some (add_business_days w_calendar)) = Inr b \<and>
      validation_due a = Some 739799 \<and> validation_due b = Some 739803)"
proof -
  have "date_of w_evening = 739798" "date_of w_morning = 739799"
    by (simp_all add: date_of_def w_evening_def w_morning_def DAY_def HOUR_def)
  moreover have "add_business_days w_calendar 739798 1 = Inr 739799"
    by (simp add: add_business_days_def add_loop.simps next_day_def MAX_ORDINAL_def is_business_day_def
        w_calendar_def date_year_def weekday_def Let_def)
  ultimately show ?thesis
    using w_acats_assess [of w_evening 739799] w_acats_assess [of w_morning 739803] w_calendar_add
    by (auto simp: instant_def utc_offset_def w_evening_def w_morning_def DAY_def HOUR_def)
qed

end
