(* ===== verification/Margin_Props.thy ===== *)
theory Margin_Props
  imports Margin
begin

text \<open>
  What the margin engine guarantees: its verdict, the calls it raises, the accounting of equity,
  and the pinned sources it rests on. A \<open>PASS\<close> does not mean no call: an initial-margin call is
  reported beside it.
\<close>

lemma rnd_deficiency [simp]: "0 < rnd28 (x - y) \<longleftrightarrow> y < x"
  by simp

lemma compute_margin_cases:
  assumes "compute_margin files rows a trade_date add rate days = Inr r"
    and "load_margin_rules files rows = (values, traces, missing)"
  obtains (missing) "all_missing values missing \<noteq> []" "r = missing_result a traces (all_missing values missing)"
  | (figures) v c1 c2 where "all_missing values missing = []" "v = (\<lambda>x. the (values x))"
      "reg_t_call (add trade_date) (v ''reg_t.payment_period'') (initial_requirement v (positions a)) (equity_of a) = Inr c1"
      "maintenance_call (add trade_date) days (maintenance_requirement v (positions a)) (equity_of a) = Inr c2"
      "r = margin_result a traces (initial_requirement v (positions a)) (maintenance_requirement v (positions a))
             (house_of rate (positions a))
             (c1 @ c2 @ house_call (maintenance_requirement v (positions a)) (house_of rate (positions a)) (equity_of a))"
  using assms by (auto simp: compute_margin_def Let_def split: if_splits sum.splits)

lemma missing_result_simps [simp]:
  "mr_disposition (missing_result a ts ms) = INDETERMINATE" "calls (missing_result a ts ms) = []"
  "liquidation (missing_result a ts ms) = None" "finra_maintenance_requirement (missing_result a ts ms) = None"
  "house_requirement (missing_result a ts ms) = None" "mr_missing_rules (missing_result a ts ms) = ms"
  "reg_t_initial_requirement (missing_result a ts ms) = None" "mr_rules_used (missing_result a ts ms) = ts"
  by (simp_all add: missing_result_def)

lemma margin_result_simps [simp]:
  "mr_disposition (margin_result a ts i m h cs) = (if equity_of a < max m h then HOLD else PASS)"
  "calls (margin_result a ts i m h cs) = cs" "equity (margin_result a ts i m h cs) = equity_of a"
  "liquidation (margin_result a ts i m h cs) = None \<longleftrightarrow> max m h \<le> equity_of a"
  "finra_maintenance_requirement (margin_result a ts i m h cs) = Some m"
  "house_requirement (margin_result a ts i m h cs) = Some h"
  "reg_t_initial_requirement (margin_result a ts i m h cs) = Some i"
  "mr_missing_rules (margin_result a ts i m h cs) = []" "mr_rules_used (margin_result a ts i m h cs) = ts"
  by (auto simp: margin_result_def Let_def not_less)

lemma liquidation_advisory:
  "liquidation (margin_result a ts i m h cs) = Some x \<Longrightarrow> advisory_only x"
  by (auto simp: margin_result_def Let_def split: if_splits)

lemma liquidation_iff:
  "(\<exists>x. liquidation (margin_result a ts i m h cs) = Some x) \<longleftrightarrow> equity_of a < max m h"
  by (auto simp: margin_result_def Let_def)

text \<open>
  C31: The verdict of the margin engine. With the rules missing from the loaded table named: if
  there are any the account is INDETERMINATE, lists them, and has no requirement, no call and no
  recommendation. Otherwise its maintenance and house requirements are the computed ones, it is
  PASS when its equity covers both and HOLD when it does not, and a liquidation is recommended
  exactly on HOLD, always advisory only.
\<close>

theorem margin_verdict:
  assumes "compute_margin files rows a trade_date add rate days = Inr r"
  shows "let (values, traces, absent) = load_margin_rules files rows;
             m = maintenance_requirement (\<lambda>x. the (values x)) (positions a); h = house_of rate (positions a) in
    mr_missing_rules r = all_missing values absent \<and>
    (if all_missing values absent \<noteq> [] then
       mr_disposition r = INDETERMINATE \<and> calls r = [] \<and> liquidation r = None \<and>
       reg_t_initial_requirement r = None \<and> finra_maintenance_requirement r = None \<and> house_requirement r = None
     else
       finra_maintenance_requirement r = Some m \<and> house_requirement r = Some h \<and>
       mr_disposition r = (if m \<le> equity_of a \<and> h \<le> equity_of a then PASS else HOLD) \<and>
       (liquidation r \<noteq> None \<longleftrightarrow> mr_disposition r = HOLD) \<and>
       (\<forall>x. liquidation r = Some x \<longrightarrow> advisory_only x))"
proof -
  obtain vals traces absent where l: "load_margin_rules files rows = (vals, traces, absent)"
    by (cases "load_margin_rules files rows")
  show ?thesis
    by (rule compute_margin_cases [OF assms l])
      (auto simp: l Let_def not_le not_less liquidation_iff dest: liquidation_advisory)
qed

text \<open>What is missing: the required rules of which no row's source file still has its digest.\<close>

lemma all_missing_iff:
  assumes "load_margin_rules files rows = (values, traces, absent)"
  shows "all_missing values absent \<noteq> [] \<longleftrightarrow>
    (\<exists>r \<in> set rows. \<not> pinned files r) \<or>
    (\<exists>i \<in> set REQUIRED_RULES. \<not> (\<exists>r \<in> set rows. pinned files r \<and> row_rule_id r = i))"
proof -
  have v: "values = map_of (rev (map (\<lambda>r. (row_rule_id r, row_value r)) (filter (pinned files) rows)))"
    and m: "absent = map row_rule_id (filter (\<lambda>r. \<not> pinned files r) rows)"
    using assms by (auto simp: load_margin_rules_def Let_def)
  have "values i = None \<longleftrightarrow> \<not> (\<exists>r \<in> set rows. pinned files r \<and> row_rule_id r = i)" for i
    by (force simp: v map_of_eq_None_iff)
  then show ?thesis
    by (auto simp: all_missing_def m filter_empty_conv)
qed

subsection \<open>Calls\<close>

lemma reg_t_call_Inr:
  "reg_t_call due period i eq = Inr cs \<Longrightarrow>
   if i > max eq 0
   then \<exists>c d. cs = [c] \<and> kind c = REG_T \<and> 0 < call_amount c \<and> call_due c = Some d \<and>
          due (truncate_day_count period) = Inr d
   else cs = []"
  by (auto simp: reg_t_call_def split: sum.splits if_splits)

lemma maintenance_call_Inr:
  "maintenance_call due days m eq = Inr cs \<Longrightarrow>
   if eq < m
   then \<exists>c d. cs = [c] \<and> kind c = MAINTENANCE \<and> 0 < call_amount c \<and> call_due c = Some d \<and> due days = Inr d
   else cs = []"
  by (auto simp: maintenance_call_def split: sum.splits if_splits)

lemma house_call_cases:
  "if h > m \<and> eq < h
   then \<exists>c. house_call m h eq = [c] \<and> kind c = HOUSE \<and> 0 < call_amount c \<and> call_due c = None
   else house_call m h eq = []"
  by (auto simp: house_call_def)

text \<open>
  The calls of a computed account are exactly those its figures require: a Regulation T call
  when the initial requirement exceeds the (non-negative) equity, a maintenance call when equity
  is below maintenance, a house call when the house requirement is the larger and not met; at
  most one of each, each for a positive amount.
\<close>

theorem margin_calls_are_exactly_due:
  assumes "compute_margin files rows a trade_date add rate days = Inr r"
    and "reg_t_initial_requirement r = Some i" and "finra_maintenance_requirement r = Some m"
    and "house_requirement r = Some h"
  shows "distinct (map kind (calls r)) \<and> (\<forall>c \<in> set (calls r). 0 < call_amount c) \<and>
    (REG_T \<in> set (map kind (calls r)) \<longleftrightarrow> i > max (equity r) 0) \<and>
    (MAINTENANCE \<in> set (map kind (calls r)) \<longleftrightarrow> equity r < m) \<and>
    (HOUSE \<in> set (map kind (calls r)) \<longleftrightarrow> m < h \<and> equity r < h)"
proof -
  obtain vals traces missing where l: "load_margin_rules files rows = (vals, traces, missing)"
    by (cases "load_margin_rules files rows")
  show ?thesis
  proof (rule compute_margin_cases [OF assms(1) l])
    fix v c1 c2
    assume c: "reg_t_call (add trade_date) (v ''reg_t.payment_period'') (initial_requirement v (positions a)) (equity_of a) = Inr c1"
      "maintenance_call (add trade_date) days (maintenance_requirement v (positions a)) (equity_of a) = Inr c2"
      and r: "r = margin_result a traces (initial_requirement v (positions a)) (maintenance_requirement v (positions a))
             (house_of rate (positions a))
             (c1 @ c2 @ house_call (maintenance_requirement v (positions a)) (house_of rate (positions a)) (equity_of a))"
    have e: "i = initial_requirement v (positions a)" "m = maintenance_requirement v (positions a)"
      "h = house_of rate (positions a)" "equity r = equity_of a" "calls r = c1 @ c2 @ house_call m h (equity_of a)"
      using assms r by simp_all
    show ?thesis
      unfolding e(4,5)
      using reg_t_call_Inr [OF c(1)] maintenance_call_Inr [OF c(2)] house_call_cases [of m h "equity_of a"]
      unfolding e(1,2,3) [symmetric]
      by (cases "i > max (equity_of a) 0"; cases "equity_of a < m"; cases "h > m \<and> equity_of a < h") auto
  qed (use assms in auto)
qed

subsection \<open>Pinned sources\<close>

text \<open>
  A figure rests on pinned text: a result that is not INDETERMINATE comes from a table every
  row of which still hashes to its pinned digest and which has each of the seven required rules;
  the rules it reports as used are exactly the rows of that table.
\<close>

theorem margin_rests_on_pinned_rules:
  assumes "compute_margin files rows a trade_date add rate days = Inr r" and "mr_disposition r \<noteq> INDETERMINATE"
  shows "(\<forall>row \<in> set rows. pinned files row) \<and> set REQUIRED_RULES \<subseteq> set (map row_rule_id rows) \<and>
    map rt_rule_id (mr_rules_used r) = map row_rule_id rows \<and>
    map rt_source_sha256 (mr_rules_used r) = map row_source_sha256 rows"
proof -
  obtain vals traces missing where l: "load_margin_rules files rows = (vals, traces, missing)"
    by (cases "load_margin_rules files rows")
  have none: "all_missing vals missing = []" and r: "mr_rules_used r = traces"
    by (rule compute_margin_cases [OF assms(1) l]; use assms(2) in simp)+
  from none have m: "missing = []" and req: "\<forall>x \<in> set REQUIRED_RULES. vals x \<noteq> None"
    by (auto simp: all_missing_def filter_empty_conv)
  have p: "\<forall>row \<in> set rows. pinned files row"
    using l m by (auto simp: load_margin_rules_def Let_def filter_empty_conv)
  then have f: "filter (pinned files) rows = rows" by simp
  have "set REQUIRED_RULES \<subseteq> set (map row_rule_id rows)"
  proof
    fix x assume "x \<in> set REQUIRED_RULES"
    with req have "vals x \<noteq> None" by blast
    then obtain y where "vals x = Some y" by blast
    then have "map_of (rev (map (\<lambda>r. (row_rule_id r, row_value r)) rows)) x = Some y"
      using l f by (auto simp: load_margin_rules_def Let_def)
    then show "x \<in> set (map row_rule_id rows)" by (auto dest!: map_of_SomeD)
  qed
  moreover have "mr_rules_used r = map (\<lambda>r. \<lparr>rt_rule_id = row_rule_id r, rt_citation = row_citation r,
      rt_source_sha256 = row_source_sha256 r, rt_value = row_value r\<rparr>) rows"
    using l f r by (auto simp: load_margin_rules_def Let_def)
  ultimately show ?thesis using p by (simp add: comp_def)
qed

subsection \<open>Equity\<close>

lemma long_product_exact:
  "on_grid k (quantity p * price p) \<Longrightarrow> \<bar>quantity p * price p\<bar> \<le> 10 powi (k + 28) \<Longrightarrow>
   long_product p = quantity p * price p"
  by (simp add: long_product_def dround_on_grid [of k])

lemma short_product_exact:
  "rnd28 (quantity p) = quantity p \<Longrightarrow> on_grid k (quantity p * price p) \<Longrightarrow>
   \<bar>quantity p * price p\<bar> \<le> 10 powi (k + 28) \<Longrightarrow> short_product p = - (quantity p * price p)"
  by (simp add: short_product_def dround_minus dround_on_grid [of k])

definition market_value :: "MarginPosition \<Rightarrow> rat" where
  "market_value p = quantity p * price p"

definition amounts_fit :: "int \<Rightarrow> MarginAccount \<Rightarrow> bool" where
  "amounts_fit k a \<longleftrightarrow>
     on_grid k (cash_balance a) \<and>
     (\<forall>p \<in> set (positions a). rnd28 (quantity p) = quantity p \<and> 0 < price p \<and> on_grid k (market_value p)) \<and>
     \<bar>cash_balance a\<bar> + (\<Sum>p\<leftarrow>positions a. \<bar>market_value p\<bar>) \<le> 10 powi (k + 28)"

lemma sum_list_filter_le:
  "(\<Sum>p\<leftarrow>filter P ps. \<bar>f p\<bar>) \<le> (\<Sum>p\<leftarrow>ps. \<bar>f p :: rat\<bar>)"
  by (induction ps) auto

lemma sum_member_le: "p \<in> set ps \<Longrightarrow> \<bar>f p\<bar> \<le> (\<Sum>p\<leftarrow>ps. \<bar>f p :: rat\<bar>)"
proof (induction ps)
  case (Cons q ps)
  have "0 \<le> (\<Sum>p\<leftarrow>ps. \<bar>f p\<bar>)" by (rule sum_list_nonneg) auto
  with Cons show ?case by auto
qed simp

lemma long_value_exact:
  assumes "amounts_fit k a"
  shows "long_value (positions a) = (\<Sum>p\<leftarrow>filter is_long (positions a). market_value p)"
proof -
  let ?ps = "filter is_long (positions a)"
  have m: "map long_product ?ps = map market_value ?ps"
    using assms sum_member_le [of _ "positions a" market_value]
    by (intro map_cong refl) (fastforce simp: amounts_fit_def market_value_def intro: long_product_exact)
  show ?thesis
    unfolding long_value_def m
    by (subst dsum_from_exact [of _ k]) (use assms sum_list_filter_le [of market_value is_long "positions a"]
        in \<open>auto simp: amounts_fit_def comp_def\<close>)
qed

lemma short_value_exact:
  assumes "amounts_fit k a"
  shows "short_value (positions a) = - (\<Sum>p\<leftarrow>filter is_short (positions a). market_value p)"
proof -
  let ?ps = "filter is_short (positions a)"
  have m: "map short_product ?ps = map (\<lambda>p. - market_value p) ?ps"
    using assms sum_member_le [of _ "positions a" market_value]
    by (intro map_cong refl) (fastforce simp: amounts_fit_def market_value_def intro: short_product_exact)
  show ?thesis
    unfolding short_value_def m
    by (subst dsum_from_exact [of _ k]) (use assms sum_list_filter_le [of market_value is_short "positions a"]
        in \<open>auto simp: amounts_fit_def comp_def uminus_sum_list_map\<close>)
qed

lemma on_grid_sum_list: "(\<forall>x \<in> set xs. on_grid k (f x)) \<Longrightarrow> on_grid k (\<Sum>x\<leftarrow>xs. f x)"
  by (induction xs) auto

lemma sum_list_split_sign:
  "(\<forall>p \<in> set ps. 0 < price p) \<Longrightarrow>
   (\<Sum>p\<leftarrow>filter is_long ps. market_value p) + (\<Sum>p\<leftarrow>filter is_short ps. market_value p) = (\<Sum>p\<leftarrow>ps. market_value p) \<and>
   (\<Sum>p\<leftarrow>filter is_long ps. market_value p) - (\<Sum>p\<leftarrow>filter is_short ps. market_value p) = (\<Sum>p\<leftarrow>ps. \<bar>market_value p\<bar>) \<and>
   0 \<le> (\<Sum>p\<leftarrow>filter is_long ps. market_value p) \<and> (\<Sum>p\<leftarrow>filter is_short ps. market_value p) \<le> 0"
proof (induction ps)
  case (Cons p ps)
  moreover have "0 < quantity p \<Longrightarrow> 0 < market_value p" "quantity p < 0 \<Longrightarrow> market_value p < 0"
    using Cons.prems by (simp_all add: market_value_def mult_neg_pos)
  moreover have "quantity p = 0 \<Longrightarrow> market_value p = 0" by (simp add: market_value_def)
  ultimately show ?case
    by (cases "quantity p" "0 :: rat" rule: linorder_cases) (auto simp: is_long_def is_short_def)
qed simp

text \<open>
  Where the amounts fit in 28 digits of one unit, equity is the cash balance plus the signed
  market value of every position, long or short, with nothing lost to rounding.
\<close>

theorem equity_is_the_balance_sheet:
  assumes "amounts_fit k a"
  shows "equity_of a = cash_balance a + (\<Sum>p\<leftarrow>positions a. quantity p * price p)"
proof -
  let ?c = "cash_balance a"
  let ?l = "\<Sum>p\<leftarrow>filter is_long (positions a). market_value p"
  let ?s = "\<Sum>p\<leftarrow>filter is_short (positions a). market_value p"
  have pr: "\<forall>p \<in> set (positions a). 0 < price p" and g: "on_grid k ?c" "on_grid k ?l" "on_grid k ?s"
    using assms by (auto simp: amounts_fit_def intro!: on_grid_sum_list)
  note split = sum_list_split_sign [OF pr]
  have bound: "\<bar>?c\<bar> + (?l - ?s) \<le> 10 powi (k + 28)" using assms split by (simp add: amounts_fit_def)
  have g': "on_grid k (max ?c 0)" using g by (simp add: max_def)
  have "rnd28 (?l + max ?c 0) = ?l + max ?c 0"
    using bound split g g' by (intro dround_on_grid [of k] on_grid_add) auto
  moreover have "rnd28 (?l + max ?c 0 + ?s) = ?l + max ?c 0 + ?s"
    using bound split g g' by (intro dround_on_grid [of k] on_grid_add) auto
  moreover have "rnd28 (- ?c) = - ?c"
    using bound split g by (intro dround_on_grid [of k] on_grid_minus) auto
  moreover have "rnd28 (?l + max ?c 0 + ?s - max (- ?c) 0) = ?l + max ?c 0 + ?s - max (- ?c) 0"
    using bound split g g' by (intro dround_on_grid [of k] on_grid_diff on_grid_add) (auto simp: max_def)
  ultimately have "equity_of a = ?l + max ?c 0 + ?s - max (- ?c) 0"
    by (simp add: equity_of_def long_value_exact [OF assms] short_value_exact [OF assms])
  then show ?thesis using split by (simp add: market_value_def max_def)
qed

subsection \<open>Witnesses\<close>

text \<open>
  Ten thousand dollars of stock bought on 2 July 2026 with three thousand of equity: maintenance
  (25 percent) is covered, the initial requirement (50 percent) is not.
\<close>

definition w_margin_files :: "string \<Rightarrow> string option" where
  "w_margin_files n = Some ''d''"

definition w_row :: "string \<Rightarrow> rat \<Rightarrow> table_row" where
  "w_row rid v = \<lparr>row_rule_id = rid, row_source_file = ''f'', row_source_sha256 = ''d'', row_citation = ''c'',
     row_value = v\<rparr>"

definition w_rows :: "table_row list" where
  "w_rows = [w_row ''reg_t.initial'' (1 / 2), w_row ''reg_t.payment_period'' 4, w_row ''finra.long_maintenance'' (1 / 4),
     w_row ''finra.short_under_5_percent'' 1, w_row ''finra.short_under_5_per_share'' (5 / 2),
     w_row ''finra.short_5_plus_percent'' (3 / 10), w_row ''finra.short_5_plus_per_share'' 5]"

definition w_margin_account :: MarginAccount where
  "w_margin_account = \<lparr>account_id = ''A'', cash_balance = - 7000,
     positions = [\<lparr>issue = ''X'', quantity = 100, price = 100, new_trade = True\<rparr>]\<rparr>"

lemma w_loaded:
  "load_margin_rules w_margin_files w_rows =
     (map_of (rev (map (\<lambda>r. (row_rule_id r, row_value r)) w_rows)),
      map (\<lambda>r. \<lparr>rt_rule_id = row_rule_id r, rt_citation = row_citation r,
                 rt_source_sha256 = row_source_sha256 r, rt_value = row_value r\<rparr>) w_rows, [])"
proof -
  have "\<forall>r \<in> set w_rows. pinned w_margin_files r"
    by (simp add: w_rows_def w_row_def pinned_def w_margin_files_def)
  then show ?thesis by (simp add: load_margin_rules_def Let_def filter_empty_conv)
qed

lemma w_equity: "equity_of w_margin_account = 3000"
  by (simp add: equity_of_def w_margin_account_def long_value_def short_value_def is_long_def is_short_def
      long_product_def)

lemma w_values:
  "map_of (rev (map (\<lambda>r. (row_rule_id r, row_value r)) w_rows)) ''reg_t.initial'' = Some (1 / 2)"
  "map_of (rev (map (\<lambda>r. (row_rule_id r, row_value r)) w_rows)) ''reg_t.payment_period'' = Some 4"
  "map_of (rev (map (\<lambda>r. (row_rule_id r, row_value r)) w_rows)) ''finra.long_maintenance'' = Some (1 / 4)"
  "all_missing (map_of (rev (map (\<lambda>r. (row_rule_id r, row_value r)) w_rows))) [] = []"
  by (simp_all add: w_rows_def w_row_def all_missing_def REQUIRED_RULES_def)

lemma w_compute:
  "\<exists>ts c. compute_margin w_margin_files w_rows w_margin_account 739799 (\<lambda>d n. Inr (d + n)) (1 / 5) 5 =
     Inr (margin_result w_margin_account ts 5000 2500 2000 [c]) \<and> kind c = REG_T"
proof -
  have v: "long_value (positions w_margin_account) = 10000" "short_value (positions w_margin_account) = 0"
    "long_value (filter new_trade (positions w_margin_account)) = 10000"
    "short_value (filter new_trade (positions w_margin_account)) = 0"
    by (simp_all add: w_margin_account_def long_value_def short_value_def is_long_def is_short_def long_product_def)
  have m: "filter is_short (positions w_margin_account) = []"
    by (simp add: w_margin_account_def is_short_def)
  show ?thesis
    unfolding compute_margin_def w_loaded
    by (simp add: w_values Let_def initial_requirement_def maintenance_requirement_def house_of_def v m w_equity
        reg_t_call_def maintenance_call_def house_call_def truncate_day_count_def)
      (intro exI conjI, rule refl, simp)
qed

text \<open>
  A \<open>PASS\<close> can carry an initial-margin call: the disposition compares equity with maintenance and
  the house requirement only.
\<close>

theorem pass_can_carry_a_reg_t_call:
  "\<exists>r. compute_margin w_margin_files w_rows w_margin_account 739799 (\<lambda>d n. Inr (d + n)) (1 / 5) 5 = Inr r \<and>
     mr_disposition r = PASS \<and> map kind (calls r) = [REG_T]"
  using w_compute by (auto simp: w_equity)

theorem margin_verdict_witness:
  "\<exists>r. compute_margin w_margin_files w_rows w_margin_account 739799 (\<lambda>d n. Inr (d + n)) (1 / 5) 5 = Inr r \<and>
     mr_missing_rules r = [] \<and> mr_disposition r \<noteq> INDETERMINATE \<and> (\<forall>x. liquidation r = Some x \<longrightarrow> advisory_only x)"
proof -
  obtain ts c where r: "compute_margin w_margin_files w_rows w_margin_account 739799 (\<lambda>d n. Inr (d + n)) (1 / 5) 5 =
     Inr (margin_result w_margin_account ts 5000 2500 2000 [c])" using w_compute by blast
  show ?thesis
    using margin_verdict [OF r] r unfolding w_loaded by (simp add: w_values Let_def)
qed

theorem margin_calls_are_exactly_due_witness:
  "\<exists>r. compute_margin w_margin_files w_rows w_margin_account 739799 (\<lambda>d n. Inr (d + n)) (1 / 5) 5 = Inr r \<and>
     REG_T \<in> set (map kind (calls r)) \<and> MAINTENANCE \<notin> set (map kind (calls r))"
proof -
  obtain ts c where r: "compute_margin w_margin_files w_rows w_margin_account 739799 (\<lambda>d n. Inr (d + n)) (1 / 5) 5 =
     Inr (margin_result w_margin_account ts 5000 2500 2000 [c])" using w_compute by blast
  show ?thesis
    using margin_calls_are_exactly_due [OF r, of 5000 2500 2000] r by (auto simp: w_equity)
qed

theorem margin_rests_on_pinned_rules_witness:
  "set REQUIRED_RULES \<subseteq> set (map row_rule_id w_rows)"
proof -
  obtain ts c where r: "compute_margin w_margin_files w_rows w_margin_account 739799 (\<lambda>d n. Inr (d + n)) (1 / 5) 5 =
     Inr (margin_result w_margin_account ts 5000 2500 2000 [c])" using w_compute by blast
  show ?thesis using margin_rests_on_pinned_rules [OF r] by (simp add: w_equity)
qed

theorem equity_is_the_balance_sheet_witness:
  "equity_of w_margin_account = - 7000 + (100 * 100 + 0)"
proof -
  have "on_grid 0 (- 7000)" "on_grid 0 10000"
    using on_gridI [of "- 7000" "- 7000" 0] on_gridI [of 10000 10000 0] by simp_all
  then have "amounts_fit 0 w_margin_account"
    by (simp add: amounts_fit_def w_margin_account_def market_value_def)
  then show ?thesis using equity_is_the_balance_sheet [of 0 w_margin_account] by (simp add: w_margin_account_def)
qed

end
