(* ===== verification/Closed_Trade.thy ===== *)
theory Closed_Trade
  imports Advisory Boundary Decimal_Context
begin

text \<open>
  The inbound street loop of one Treasury DVP trade: \<open>atreides/closed_trade.py\<close> and the reference
  data it joins (\<open>atreides/reference_data.py\<close>). Pydantic checks the fields of a record in their
  order and then its validator; the canonical bytes of the economics are the parameter \<open>canon\<close>.
\<close>

subsection \<open>Reference data\<close>

datatype trade_error =
    Trade_Field string | Cusip_Mismatch | Accounts_Do_Not_Join | Not_Effective | Never_Submits
  | Production_Refuses_Synthetic | Negative_Age

record InstrumentRecord =
  in_provenance :: string
  in_effective_date :: int
  in_cusip :: string
  figi :: string
  description :: string

record LegalEntityRecord =
  le_provenance :: string
  le_effective_date :: int
  lei :: string
  entity_id :: string
  parent_lei :: "string option"

record AccountRecord =
  ac_provenance :: string
  ac_effective_date :: int
  ac_account_id :: string
  owner_lei :: string
  account_type :: string

record SettlementInstructionRecord =
  ssi_provenance :: string
  ssi_effective_date :: int
  ssi_id :: string
  ssi_account_id :: string
  settlement_location :: string
  cash_account_id :: string
  securities_account_id :: string

definition lei_pattern :: "string \<Rightarrow> bool" where
  "lei_pattern s \<longleftrightarrow> length s = 20 \<and> list_all alnum_upper s"

definition figi_pattern :: "string \<Rightarrow> bool" where
  "figi_pattern s \<longleftrightarrow> length s = 12 \<and> take 3 s = ''BBG'' \<and> list_all alnum_upper (drop 3 s)"

definition mk_InstrumentRecord :: "InstrumentRecord \<Rightarrow> (trade_error, InstrumentRecord) result" where
  "mk_InstrumentRecord r =
     require (in_provenance r \<noteq> []) (Trade_Field ''provenance'') (
     require (cusip_pattern (in_cusip r)) (Trade_Field ''cusip'') (
     require (figi_pattern (figi r)) (Trade_Field ''figi'') (
     require (description r \<noteq> []) (Trade_Field ''description'') (Inr r))))"

definition mk_LegalEntityRecord :: "LegalEntityRecord \<Rightarrow> (trade_error, LegalEntityRecord) result" where
  "mk_LegalEntityRecord r =
     require (le_provenance r \<noteq> []) (Trade_Field ''provenance'') (
     require (lei_pattern (lei r)) (Trade_Field ''lei'') (
     require (entity_id r \<noteq> []) (Trade_Field ''entity_id'') (
     require (case parent_lei r of None \<Rightarrow> True | Some p \<Rightarrow> lei_pattern p) (Trade_Field ''parent_lei'') (Inr r))))"

definition mk_AccountRecord :: "AccountRecord \<Rightarrow> (trade_error, AccountRecord) result" where
  "mk_AccountRecord r =
     require (ac_provenance r \<noteq> []) (Trade_Field ''provenance'') (
     require (ac_account_id r \<noteq> []) (Trade_Field ''account_id'') (
     require (lei_pattern (owner_lei r)) (Trade_Field ''owner_lei'') (
     require (account_type r \<noteq> []) (Trade_Field ''account_type'') (Inr r))))"

definition mk_SettlementInstructionRecord ::
  "SettlementInstructionRecord \<Rightarrow> (trade_error, SettlementInstructionRecord) result" where
  "mk_SettlementInstructionRecord r =
     require (ssi_provenance r \<noteq> []) (Trade_Field ''provenance'') (
     require (ssi_id r \<noteq> []) (Trade_Field ''ssi_id'') (
     require (ssi_account_id r \<noteq> []) (Trade_Field ''account_id'') (
     require (settlement_location r \<noteq> []) (Trade_Field ''settlement_location'') (
     require (cash_account_id r \<noteq> []) (Trade_Field ''cash_account_id'') (
     require (securities_account_id r \<noteq> []) (Trade_Field ''securities_account_id'') (Inr r))))))"

subsection \<open>The instruction and the inbound fact\<close>

datatype RuntimeProfile = RESEARCH | PRODUCTION

datatype InboundStatus = MATCHED | PARTIAL | UNMATCHED | SETTLED

record TreasuryDvpInstruction =
  trade_id :: string
  obligation_id :: string
  member_id :: string
  cusip :: string
  td_quantity :: rat
  cash_amount :: rat
  td_currency :: string
  td_settlement_date :: int
  instrument :: InstrumentRecord
  member :: LegalEntityRecord
  account :: AccountRecord
  ssi :: SettlementInstructionRecord
  is_submission :: bool

definition mk_TreasuryDvpInstruction ::
  "TreasuryDvpInstruction \<Rightarrow> (trade_error, TreasuryDvpInstruction) result" where
  "mk_TreasuryDvpInstruction t =
     require (cusip_pattern (cusip t)) (Trade_Field ''cusip'') (
     require (0 < td_quantity t) (Trade_Field ''quantity'') (
     require (0 < cash_amount t) (Trade_Field ''cash_amount'') (
     require (currency_pattern (td_currency t)) (Trade_Field ''currency'') (
     require (\<not> cusip t \<noteq> in_cusip (instrument t)) Cusip_Mismatch (
     require (\<not> (owner_lei (account t) \<noteq> lei (member t) \<or> ssi_account_id (ssi t) \<noteq> ac_account_id (account t)))
       Accounts_Do_Not_Join (
     require (\<not> list_ex (\<lambda>d. d > td_settlement_date t)
         [in_effective_date (instrument t), le_effective_date (member t), ac_effective_date (account t),
          ssi_effective_date (ssi t)]) Not_Effective (
     require (\<not> is_submission t) Never_Submits (Inr t))))))))"

record InboundStreetFact =
  if_trade_id :: string
  if_status :: InboundStatus
  ccp_obligation_amount :: rat
  cash_movement_amount :: rat
  securities_movement_quantity :: rat
  observed_at :: int
  if_provenance :: Provenance
  pacs002 :: string
  camt054 :: string
  ficc_status :: string
  late :: bool

datatype problem =
    Status_Unmatched | Settlement_Partial | Arrived_Late | Obligation_Differs | Cash_Differs | Securities_Differ

record OwnedBreak =
  break_code :: string
  break_owner :: string
  age_business_days :: int
  break_problem :: problem

text \<open>The canonicalised dictionary.\<close>

record Economics =
  ec_trade_id :: string
  ec_cusip :: string
  ec_quantity :: rat
  ec_cash_amount :: rat
  ec_currency :: string
  ec_settlement_date :: int
  ec_ccp_obligation_amount :: rat
  ec_cash_movement_amount :: rat
  ec_securities_movement_quantity :: rat

record ClosedTradeResult =
  ct_disposition :: Disposition
  obligation_amount :: rat
  ccp_output_amount :: rat
  ct_cash_movement_amount :: rat
  ct_securities_movement_quantity :: rat
  breaks :: "OwnedBreak list"
  books_posted :: bool
  economics_bytes :: string

definition problems_of :: "TreasuryDvpInstruction \<Rightarrow> InboundStreetFact \<Rightarrow> problem list" where
  "problems_of t f =
     (if if_trade_id f \<noteq> trade_id t then [Status_Unmatched] else []) @
     (if if_status f = PARTIAL then [Settlement_Partial] else []) @
     (if if_status f = UNMATCHED then [Status_Unmatched] else []) @
     (if late f then [Arrived_Late] else []) @
     (if ccp_obligation_amount f \<noteq> cash_amount t then [Obligation_Differs] else []) @
     (if cash_movement_amount f \<noteq> ccp_obligation_amount f then [Cash_Differs] else []) @
     (if securities_movement_quantity f \<noteq> td_quantity t then [Securities_Differ] else [])"

definition mk_OwnedBreak :: "string \<Rightarrow> int \<Rightarrow> problem \<Rightarrow> (trade_error, OwnedBreak) result" where
  "mk_OwnedBreak owner age p =
     require (0 \<le> age) Negative_Age
       (Inr \<lparr>break_code = ''GR1_RECONCILIATION'', break_owner = owner, age_business_days = age, break_problem = p\<rparr>)"

definition economics_of :: "TreasuryDvpInstruction \<Rightarrow> InboundStreetFact \<Rightarrow> Economics" where
  "economics_of t f =
     \<lparr>ec_trade_id = trade_id t, ec_cusip = cusip t, ec_quantity = td_quantity t, ec_cash_amount = cash_amount t,
      ec_currency = td_currency t, ec_settlement_date = td_settlement_date t,
      ec_ccp_obligation_amount = ccp_obligation_amount f, ec_cash_movement_amount = cash_movement_amount f,
      ec_securities_movement_quantity = securities_movement_quantity f\<rparr>"

definition close_treasury_trade ::
  "(Economics \<Rightarrow> string) \<Rightarrow> TreasuryDvpInstruction \<Rightarrow> InboundStreetFact \<Rightarrow> RuntimeProfile \<Rightarrow> string \<Rightarrow> int \<Rightarrow>
   (trade_error, ClosedTradeResult) result" where
  "close_treasury_trade canon t f profile owner age =
     require (\<not> (profile = PRODUCTION \<and> if_provenance f = FACT_SYNTHETIC)) Production_Refuses_Synthetic (
     case collect (map (mk_OwnedBreak owner age) (problems_of t f)) of Inl e \<Rightarrow> Inl e
     | Inr bs \<Rightarrow>
         let settled = (bs = [] \<and> if_status f = SETTLED) in
         Inr \<lparr>ct_disposition = (if settled then PASS else HOLD), obligation_amount = cash_amount t,
              ccp_output_amount = ccp_obligation_amount f, ct_cash_movement_amount = cash_movement_amount f,
              ct_securities_movement_quantity = securities_movement_quantity f, breaks = bs,
              books_posted = settled, economics_bytes = canon (economics_of t f)\<rparr>)"

subsection \<open>Properties\<close>

lemma collect_breaks:
  "collect (map (mk_OwnedBreak owner age) ps) =
     (if ps = [] \<or> 0 \<le> age
      then Inr (map (\<lambda>p. \<lparr>break_code = ''GR1_RECONCILIATION'', break_owner = owner, age_business_days = age,
                            break_problem = p\<rparr>) ps)
      else Inl Negative_Age)"
  by (induction ps) (auto simp: mk_OwnedBreak_def require_def)

lemma problems_of_Nil:
  "problems_of t f = [] \<longleftrightarrow>
     if_trade_id f = trade_id t \<and> if_status f \<noteq> PARTIAL \<and> if_status f \<noteq> UNMATCHED \<and> \<not> late f \<and>
     ccp_obligation_amount f = cash_amount t \<and> cash_movement_amount f = cash_amount t \<and>
     securities_movement_quantity f = td_quantity t"
  by (auto simp: problems_of_def)

text \<open>
  The trade closes, and its books are posted, exactly when obligation, CCP output and cash
  movement are one amount, the securities moved are the quantity traded, and the settled status is
  of this trade and not late; every difference, and nothing else, is an owned break of the stated
  age.
\<close>

theorem trade_closes_iff:
  assumes "close_treasury_trade canon t f profile owner age = Inr r"
  shows "(ct_disposition r = PASS \<longleftrightarrow>
      if_status f = SETTLED \<and> if_trade_id f = trade_id t \<and> \<not> late f \<and>
      ccp_obligation_amount f = cash_amount t \<and> cash_movement_amount f = ccp_obligation_amount f \<and>
      securities_movement_quantity f = td_quantity t) \<and>
    (books_posted r \<longleftrightarrow> ct_disposition r = PASS) \<and>
    map break_problem (breaks r) = problems_of t f \<and>
    (\<forall>b \<in> set (breaks r). break_owner b = owner \<and> age_business_days b = age)"
proof -
  let ?s = "problems_of t f = [] \<and> if_status f = SETTLED"
  have r: "ct_disposition r = (if ?s then PASS else HOLD)" "books_posted r = ?s"
    "breaks r = map (\<lambda>p. \<lparr>break_code = ''GR1_RECONCILIATION'', break_owner = owner, age_business_days = age,
       break_problem = p\<rparr>) (problems_of t f)"
    using assms unfolding close_treasury_trade_def collect_breaks
    by (cases "problems_of t f = [] \<or> 0 \<le> age"; simp add: Let_def; force)+
  have "?s \<longleftrightarrow> if_status f = SETTLED \<and> if_trade_id f = trade_id t \<and> \<not> late f \<and>
      ccp_obligation_amount f = cash_amount t \<and> cash_movement_amount f = ccp_obligation_amount f \<and>
      securities_movement_quantity f = td_quantity t"
    unfolding problems_of_Nil by (cases "if_status f") auto
  then show ?thesis unfolding r by (simp add: comp_def)
qed

text \<open>
  The call raises exactly when the production profile meets a synthetic fact, or when a
  difference would become a break of negative age; it never raises on a fact that reconciles.
\<close>

theorem closing_raises_iff:
  "(\<exists>e. close_treasury_trade canon t f profile owner age = Inl e) \<longleftrightarrow>
   (profile = PRODUCTION \<and> if_provenance f = FACT_SYNTHETIC) \<or> (problems_of t f \<noteq> [] \<and> age < 0)"
  by (auto simp: close_treasury_trade_def collect_breaks Let_def require_def split: if_splits)

text \<open>
  The economics do not depend on where the run takes place: the same instruction and amounts
  give the same bytes, breaks and disposition under either profile, for any provenance it accepts.
\<close>

theorem profile_does_not_change_economics:
  assumes "close_treasury_trade canon t f RESEARCH owner age = Inr r"
    and "close_treasury_trade canon t (f\<lparr>if_provenance := p, observed_at := n\<rparr>) PRODUCTION owner age = Inr s"
  shows "r = s"
proof -
  have "problems_of t (f\<lparr>if_provenance := p, observed_at := n\<rparr>) = problems_of t f"
    "economics_of t (f\<lparr>if_provenance := p, observed_at := n\<rparr>) = economics_of t f"
    by (simp_all add: problems_of_def economics_of_def)
  then have "close_treasury_trade canon t (f\<lparr>if_provenance := p, observed_at := n\<rparr>) PRODUCTION owner age =
      require (\<not> p = FACT_SYNTHETIC) Production_Refuses_Synthetic (close_treasury_trade canon t f RESEARCH owner age)"
    by (cases "collect (map (mk_OwnedBreak owner age) (problems_of t f))")
      (simp_all add: close_treasury_trade_def Let_def)
  with assms show ?thesis by simp
qed

text \<open>A settled trade of 100 for 99.\<close>

definition w_instruction :: TreasuryDvpInstruction where
  "w_instruction = \<lparr>trade_id = ''T'', obligation_id = ''O'', member_id = ''M'', cusip = ''912810AB1'',
     td_quantity = 100, cash_amount = 99, td_currency = ''USD'', td_settlement_date = 5,
     instrument = \<lparr>in_provenance = ''p'', in_effective_date = 1, in_cusip = ''912810AB1'', figi = ''BBG000000001'',
       description = ''bill''\<rparr>,
     member = \<lparr>le_provenance = ''p'', le_effective_date = 1, lei = ''L'', entity_id = ''e'', parent_lei = None\<rparr>,
     account = \<lparr>ac_provenance = ''p'', ac_effective_date = 1, ac_account_id = ''a'', owner_lei = ''L'',
       account_type = ''t''\<rparr>,
     ssi = \<lparr>ssi_provenance = ''p'', ssi_effective_date = 1, ssi_id = ''s'', ssi_account_id = ''a'',
       settlement_location = ''F'', cash_account_id = ''c'', securities_account_id = ''s''\<rparr>,
     is_submission = False\<rparr>"

definition w_fact :: InboundStreetFact where
  "w_fact = \<lparr>if_trade_id = ''T'', if_status = SETTLED, ccp_obligation_amount = 99, cash_movement_amount = 99,
     securities_movement_quantity = 100, observed_at = 6, if_provenance = FACT_SYNTHETIC, pacs002 = [],
     camt054 = [], ficc_status = [], late = False\<rparr>"

lemma w_closes:
  "\<exists>r. close_treasury_trade (\<lambda>_. []) w_instruction w_fact RESEARCH ''desk'' 0 = Inr r"
  "\<exists>r. close_treasury_trade (\<lambda>_. []) w_instruction (w_fact\<lparr>if_provenance := FACT_EXTERNAL, observed_at := 7\<rparr>)
     PRODUCTION ''desk'' 0 = Inr r"
  by (simp_all add: close_treasury_trade_def problems_of_def w_instruction_def w_fact_def Let_def)

theorem trade_closes_iff_witness:
  "\<exists>r. close_treasury_trade (\<lambda>_. []) w_instruction w_fact RESEARCH ''desk'' 0 = Inr r \<and> books_posted r"
  using w_closes(1) trade_closes_iff [of "\<lambda>_. []" w_instruction w_fact RESEARCH "''desk''" 0]
  by (fastforce simp: w_fact_def w_instruction_def)

theorem profile_does_not_change_economics_witness:
  "close_treasury_trade (\<lambda>_. []) w_instruction w_fact RESEARCH ''desk'' 0 =
   close_treasury_trade (\<lambda>_. []) w_instruction (w_fact\<lparr>if_provenance := FACT_EXTERNAL, observed_at := 7\<rparr>)
     PRODUCTION ''desk'' 0"
  using w_closes profile_does_not_change_economics [of "\<lambda>_. []" w_instruction w_fact "''desk''" 0 _ 7 FACT_EXTERNAL]
  by metis

end
