(* ===== verification/Secured_Funding.thy ===== *)
theory Secured_Funding
  imports Funding_State Books_Ledger Advisory
begin

text \<open>
  Evidence that funding was secured: \<open>atreides/rails/secured_funding.py\<close>. A projection is accepted
  and ignored; only an observation passes, with the amount it states. Reading JSON or a mapping
  into the fields of an observation is the parameter \<open>decode\<close>; its field checks and validator are
  modelled.
\<close>

record SecuredFunding =
  authoritative_source :: string
  sf_amount :: rat
  sf_currency :: string
  account_or_facility :: string
  observation_time :: int
  sf_provenance :: Advisory.Provenance

datatype secured_error = Secured_Field string | Source_Whitespace | Account_Whitespace

definition mk_SecuredFunding :: "SecuredFunding \<Rightarrow> (secured_error, SecuredFunding) result" where
  "mk_SecuredFunding s =
     require (authoritative_source s \<noteq> []) (Secured_Field ''authoritative_source'') (
     require (0 \<le> sf_amount s) (Secured_Field ''amount'') (
     require (currency_pattern (sf_currency s)) (Secured_Field ''currency'') (
     require (account_or_facility s \<noteq> []) (Secured_Field ''account_or_facility'') (
     require (sf_provenance s = Advisory.FACT_EXTERNAL \<or> sf_provenance s = Advisory.FACT_SYNTHETIC)
       (Secured_Field ''provenance'') (
     require (\<not> authoritative_source s \<noteq> py_strip (authoritative_source s)) Source_Whitespace (
     require (\<not> account_or_facility s \<noteq> py_strip (account_or_facility s)) Account_Whitespace (Inr s)))))))"

datatype funding_reason = Not_Observed | Observed | Not_Readable

record FundingAssessment =
  fa_disposition :: Advisory.Disposition
  fa_reason :: funding_reason
  fa_amount :: "rat option"

definition assess_secured_funding :: "SecuredFunding option \<Rightarrow> FundingProjection option \<Rightarrow> FundingAssessment" where
  "assess_secured_funding evidence projection =
     (case evidence of
        None \<Rightarrow> \<lparr>fa_disposition = Advisory.INDETERMINATE, fa_reason = Not_Observed, fa_amount = None\<rparr>
      | Some s \<Rightarrow> \<lparr>fa_disposition = Advisory.PASS, fa_reason = Observed, fa_amount = Some (sf_amount s)\<rparr>)"

text \<open>What a payload may be: text or bytes, a mapping, or any other object.\<close>

datatype payload = Json string | Fields string | Other_Payload string

definition not_readable :: FundingAssessment where
  "not_readable = \<lparr>fa_disposition = Advisory.INDETERMINATE, fa_reason = Not_Readable, fa_amount = None\<rparr>"

definition read_secured_funding ::
  "(payload \<Rightarrow> SecuredFunding option) \<Rightarrow> payload \<Rightarrow> SecuredFunding + FundingAssessment" where
  "read_secured_funding decode p =
     (case p of
        Other_Payload _ \<Rightarrow> Inr not_readable
      | _ \<Rightarrow> (case decode p of None \<Rightarrow> Inr not_readable
              | Some s \<Rightarrow> (case mk_SecuredFunding s of Inl _ \<Rightarrow> Inr not_readable | Inr s' \<Rightarrow> Inl s')))"

text \<open>Reading a payload and grading what was read.\<close>

definition grade_payload ::
  "(payload \<Rightarrow> SecuredFunding option) \<Rightarrow> payload \<Rightarrow> FundingProjection option \<Rightarrow> FundingAssessment" where
  "grade_payload decode p projection =
     (case read_secured_funding decode p of Inl s \<Rightarrow> assess_secured_funding (Some s) projection | Inr a \<Rightarrow> a)"

text \<open>
  From payload to grade, funding passes exactly when the payload decodes to an observation
  with a named source, account and currency, a stated non-negative amount and the provenance of a
  fact; the amount is the observed one, is absent otherwise (never zero by default), and no
  projection changes either.
\<close>

theorem funding_passes_only_on_observation:
  "(fa_disposition (grade_payload decode p projection) = Advisory.PASS \<longleftrightarrow>
     (\<exists>s. (\<forall>x. p \<noteq> Other_Payload x) \<and> decode p = Some s \<and> mk_SecuredFunding s = Inr s)) \<and>
   (fa_amount (grade_payload decode p projection) =
     (if fa_disposition (grade_payload decode p projection) = Advisory.PASS
      then map_option sf_amount (decode p) else None)) \<and>
   grade_payload decode p projection = grade_payload decode p None"
proof -
  have same: "mk_SecuredFunding s = Inr s' \<Longrightarrow> s' = s" for s s'
    by (auto simp: mk_SecuredFunding_def)
  show ?thesis
    by (cases p)
      (auto simp: grade_payload_def read_secured_funding_def assess_secured_funding_def not_readable_def
        split: option.splits sum.splits dest: same)
qed

end
