(* ===== verification/Custody_Contracts.thy ===== *)
theory Custody_Contracts
  imports Advisory Quorum
begin

text \<open>
  The custody operation contracts, \<open>atreides/contracts/\<close>: the lineage stub (\<open>dsor_stub.py\<close>), asset
  classes (\<open>asset_class.py\<close>), custody objects (\<open>custody_object.py\<close>), settlement methods
  (\<open>settlement.py\<close>), failure modes (\<open>failure_mode.py\<close>), inherent-safety surfaces
  (\<open>inherent_safety.py\<close>) and the operations themselves (\<open>operations/\<close>). Constructors take strings as
  pydantic leaves them, stripped; fields are checked in their order and validators after them, those
  of the base class first. UUIDs are their canonical strings and timestamps integers, carried only.
\<close>

datatype contract_error =
    Contract_Field string | Bad_Version | Bad_State_Hash string
  | Fiat_Only | Underlying_Forbidden | Tokenized_Representation_Needed | Underlying_Missing
  | Underlying_Incoherent | Native_Representation_Needed | Asset_Class_Mismatch
  | UR_F_Off_Surface | Surface_Without_Quorum | Surface_Tier_Not_Quorum
  | Quorum_Record_Without_Tier | Quorum_Tier_Without_Record
  | Locate_Missing | Repo_Term_Missing | Same_Currency | Value_Date_Missing | Fixing_Date_Missing
  | Novation_Target_Missing | Allocation_Missing | Exchange_Target_Missing | Trigger_Missing
  | Original_Missing | Partial_Quantity_Missing

subsection \<open>The lineage stub\<close>

datatype CAOMTier = T0 | T1 | T2 | T3 | QUORUM

fun caom_value :: "CAOMTier \<Rightarrow> string" where
  "caom_value T0 = ''T0''" | "caom_value T1 = ''T1''" | "caom_value T2 = ''T2''" | "caom_value T3 = ''T3''"
| "caom_value QUORUM = ''QUORUM''"

definition CURRENT_DOCTRINE_VERSION :: string where "CURRENT_DOCTRINE_VERSION = ''1.6''"

record DSORLineageStub =
  ls_operation_id :: string
  ls_doctrine_version :: string
  caom_mode :: string
  authority_tier :: CAOMTier
  authority_id :: string
  initiated_at :: int
  ls_session_id :: "string option"
  c2_handoff_id :: "string option"
  pre_operation_state_hash :: string
  post_operation_state_hash :: "string option"

definition sha256_hex :: "string \<Rightarrow> bool" where
  "sha256_hex s \<longleftrightarrow> length s = 64 \<and> list_all (\<lambda>c. digit_char c \<or> c \<in> set ''abcdef'') s"

fun dot_parts :: "string \<Rightarrow> string list" where
  "dot_parts [] = [[]]"
| "dot_parts (c # cs) = (if c = CHR ''.'' then [] # dot_parts cs
     else case dot_parts cs of [] \<Rightarrow> [[c]] | p # ps \<Rightarrow> (c # p) # ps)"

definition version_pattern :: "string \<Rightarrow> bool" where
  "version_pattern s \<longleftrightarrow>
     length (dot_parts s) \<in> {2, 3} \<and> list_all (\<lambda>p. p \<noteq> [] \<and> list_all digit_char p) (dot_parts s)"

definition mk_DSORLineageStub :: "DSORLineageStub \<Rightarrow> (contract_error, DSORLineageStub) result" where
  "mk_DSORLineageStub l =
     require (caom_mode l \<noteq> []) (Contract_Field ''caom_mode'') (
     require (authority_id l \<noteq> []) (Contract_Field ''authority_id'') (
     require (version_pattern (ls_doctrine_version l)) Bad_Version (
     require (sha256_hex (pre_operation_state_hash l)) (Bad_State_Hash ''pre'') (
     require (case post_operation_state_hash l of None \<Rightarrow> True | Some h \<Rightarrow> sha256_hex h) (Bad_State_Hash ''post'')
       (Inr l)))))"

subsection \<open>Asset classes\<close>

datatype MajorAssetCategory =
    TRADITIONAL_FINANCIAL_SECURITIES | FUNDS_AND_POOLED_VEHICLES | PHYSICAL_AND_FINANCIAL_COMMODITIES
  | REAL_ESTATE_AND_REAL_ASSETS | INSURANCE_AND_REINSURANCE | INTELLECTUAL_PROPERTY_AND_ROYALTIES
  | TRADE_FINANCE_AND_RECEIVABLES | TOKENIZED_REPRESENTATIONS | NATIVE_DIGITAL_ASSETS
  | ALTERNATIVE_AND_SPECIALTY_ASSETS | EMERGING

fun category_value :: "MajorAssetCategory \<Rightarrow> string" where
  "category_value TRADITIONAL_FINANCIAL_SECURITIES = ''traditional_financial_securities''"
| "category_value FUNDS_AND_POOLED_VEHICLES = ''funds_and_pooled_vehicles''"
| "category_value PHYSICAL_AND_FINANCIAL_COMMODITIES = ''physical_and_financial_commodities''"
| "category_value REAL_ESTATE_AND_REAL_ASSETS = ''real_estate_and_real_assets''"
| "category_value INSURANCE_AND_REINSURANCE = ''insurance_and_reinsurance''"
| "category_value INTELLECTUAL_PROPERTY_AND_ROYALTIES = ''intellectual_property_and_royalties''"
| "category_value TRADE_FINANCE_AND_RECEIVABLES = ''trade_finance_and_receivables''"
| "category_value TOKENIZED_REPRESENTATIONS = ''tokenized_representations''"
| "category_value NATIVE_DIGITAL_ASSETS = ''native_digital_assets''"
| "category_value ALTERNATIVE_AND_SPECIALTY_ASSETS = ''alternative_and_specialty_assets''"
| "category_value EMERGING = ''emerging''"

datatype Representation = FIAT_REP | TOKENIZED_REP | NATIVE_DIGITAL_REP

definition fiat_only_categories :: "MajorAssetCategory list" where
  "fiat_only_categories =
     [TRADITIONAL_FINANCIAL_SECURITIES, FUNDS_AND_POOLED_VEHICLES, PHYSICAL_AND_FINANCIAL_COMMODITIES,
      REAL_ESTATE_AND_REAL_ASSETS, INSURANCE_AND_REINSURANCE, INTELLECTUAL_PROPERTY_AND_ROYALTIES,
      TRADE_FINANCE_AND_RECEIVABLES, ALTERNATIVE_AND_SPECIALTY_ASSETS]"

record AssetClass =
  major_category :: MajorAssetCategory
  representation :: Representation
  sub_category :: string
  underlying_category :: "MajorAssetCategory option"
  asset_identifier :: "string option"

definition mk_AssetClass :: "AssetClass \<Rightarrow> (contract_error, AssetClass) result" where
  "mk_AssetClass a =
     require (sub_category a \<noteq> []) (Contract_Field ''sub_category'') (
     if major_category a \<in> set fiat_only_categories then
       require (representation a = FIAT_REP) Fiat_Only (
       require (underlying_category a = None) Underlying_Forbidden (Inr a))
     else if major_category a = TOKENIZED_REPRESENTATIONS then
       require (representation a = TOKENIZED_REP) Tokenized_Representation_Needed (
       require (underlying_category a \<noteq> None) Underlying_Missing (
       require (underlying_category a \<notin> {Some TOKENIZED_REPRESENTATIONS, Some NATIVE_DIGITAL_ASSETS})
         Underlying_Incoherent (Inr a)))
     else if major_category a = NATIVE_DIGITAL_ASSETS then
       require (representation a = NATIVE_DIGITAL_REP) Native_Representation_Needed (
       require (underlying_category a = None) Underlying_Forbidden (Inr a))
     else Inr a)"

subsection \<open>Custody objects\<close>

datatype EncumbranceType =
    REPO | SECURITIES_LENDING | DERIVATIVE_MARGIN | CREDIT_FACILITY | PRIME_BROKERAGE_MARGIN
  | CCP_MARGIN | CENTRAL_BANK_FACILITY | OTHER_SECURED_ARRANGEMENT

record Encumbrance =
  encumbrance_type :: EncumbranceType
  lien_holder_id :: string
  lien_priority :: int
  rehypothecation_permitted :: bool

definition mk_Encumbrance :: "Encumbrance \<Rightarrow> (contract_error, Encumbrance) result" where
  "mk_Encumbrance e =
     require (lien_holder_id e \<noteq> []) (Contract_Field ''lien_holder_id'') (
     require (1 \<le> lien_priority e) (Contract_Field ''lien_priority'') (Inr e))"

text \<open>The five categories, each with its own fields.\<close>

datatype object_category =
    Ordinary_Safekeeping | Pledged_Asset Encumbrance | SMA_Account string
  | Tokenized_Security string string | Native_Digital_Asset string string

record CustodyObject =
  beneficial_owner_id :: string
  object_asset_class :: AssetClass
  object_category :: object_category

definition mk_CustodyObject :: "CustodyObject \<Rightarrow> (contract_error, CustodyObject) result" where
  "mk_CustodyObject c =
     require (beneficial_owner_id c \<noteq> []) (Contract_Field ''beneficial_owner_id'') (
     case object_category c of
       SMA_Account acc \<Rightarrow> require (acc \<noteq> []) (Contract_Field ''account_id'') (Inr c)
     | Tokenized_Security rail address \<Rightarrow>
         require (rail \<noteq> []) (Contract_Field ''rail'') (
         require (address \<noteq> []) (Contract_Field ''contract_address'') (
         require (major_category (object_asset_class c) = TOKENIZED_REPRESENTATIONS) Asset_Class_Mismatch (Inr c)))
     | Native_Digital_Asset chain address \<Rightarrow>
         require (chain \<noteq> []) (Contract_Field ''chain'') (
         require (address \<noteq> []) (Contract_Field ''custody_address'') (
         require (major_category (object_asset_class c) = NATIVE_DIGITAL_ASSETS) Asset_Class_Mismatch (Inr c)))
     | _ \<Rightarrow> Inr c)"

subsection \<open>Settlement methods\<close>

datatype SettlementMethod =
    DvP1 | DvP2 | DvP3 | DvD | PvP bool | FoP | Atomic string | Conditional string | Triparty string
  | Bilateral | CCP_Cleared string

fun settlement_kind :: "SettlementMethod \<Rightarrow> string" where
  "settlement_kind DvP1 = ''DvP-1''" | "settlement_kind DvP2 = ''DvP-2''" | "settlement_kind DvP3 = ''DvP-3''"
| "settlement_kind DvD = ''DvD''" | "settlement_kind (PvP cls) = ''PvP''" | "settlement_kind FoP = ''FoP''"
| "settlement_kind (Atomic rail) = ''atomic''" | "settlement_kind (Conditional cond) = ''conditional''"
| "settlement_kind (Triparty agent) = ''triparty''" | "settlement_kind Bilateral = ''bilateral''"
| "settlement_kind (CCP_Cleared ccp) = ''CCP-cleared''"

fun mk_SettlementMethod :: "SettlementMethod \<Rightarrow> (contract_error, SettlementMethod) result" where
  "mk_SettlementMethod (Atomic rail) = require (rail \<noteq> []) (Contract_Field ''rail'') (Inr (Atomic rail))"
| "mk_SettlementMethod (Conditional cond) = require (cond \<noteq> []) (Contract_Field ''condition'') (Inr (Conditional cond))"
| "mk_SettlementMethod (Triparty agent) = require (agent \<noteq> []) (Contract_Field ''agent'') (Inr (Triparty agent))"
| "mk_SettlementMethod (CCP_Cleared ccp) = require (ccp \<noteq> []) (Contract_Field ''ccp'') (Inr (CCP_Cleared ccp))"
| "mk_SettlementMethod m = Inr m"

subsection \<open>Failure modes and inherent-safety surfaces\<close>

datatype FailureModeClass = RA | RM | UR_R | UR_F

fun failure_value :: "FailureModeClass \<Rightarrow> string" where
  "failure_value RA = ''RA''" | "failure_value RM = ''RM''" | "failure_value UR_R = ''UR-R''"
| "failure_value UR_F = ''UR-F''"

definition is_unrecoverable :: "FailureModeClass \<Rightarrow> bool" where
  "is_unrecoverable f \<longleftrightarrow> f \<in> {UR_R, UR_F}"

definition is_final :: "FailureModeClass \<Rightarrow> bool" where
  "is_final f \<longleftrightarrow> f = UR_F"

datatype InherentSafetySide = FIAT_SIDE | DIGITAL_SIDE | COMMON_SIDE

datatype InherentSafetySurface =
    PLEDGED_ASSET_MATERIAL | NATIVE_DIGITAL_ASSET_MATERIAL | TOKENIZED_ASSET_ISSUER
  | FIAT_SETTLEMENT_MATERIAL | CORRESPONDENT_BANKING_INTEGRITY | DEPOSITORY_MEMBERSHIP
  | LARGE_VALUE_PAYMENT_FINALITY | FX_BUNDLED_SETTLEMENT | KEY_CEREMONY | COLD_STORAGE
  | CUSTODIAN_OF_CUSTODIAN | BENEFICIAL_OWNER_IDENTITY_CHANGE | QUORUM_ENROLLMENT_CHANGE
  | PHYSICAL_COMMODITY_VAULT_MATERIAL | REAL_ESTATE_TITLE | IP_RIGHTS_MATERIAL
  | INSURANCE_CONTRACT_MATERIAL | ILS_TRIGGER_DETERMINATION | CARBON_CREDIT_REGISTRY_MATERIAL
  | PHYSICAL_ASSET_AUTHENTICATION

fun surface_value :: "InherentSafetySurface \<Rightarrow> string" where
  "surface_value PLEDGED_ASSET_MATERIAL = ''pledged_asset_material_magnitude''"
| "surface_value NATIVE_DIGITAL_ASSET_MATERIAL = ''native_digital_asset_material_magnitude''"
| "surface_value TOKENIZED_ASSET_ISSUER = ''tokenized_asset_issuer''"
| "surface_value FIAT_SETTLEMENT_MATERIAL = ''fiat_settlement_material_magnitude''"
| "surface_value CORRESPONDENT_BANKING_INTEGRITY = ''correspondent_banking_integrity''"
| "surface_value DEPOSITORY_MEMBERSHIP = ''depository_membership''"
| "surface_value LARGE_VALUE_PAYMENT_FINALITY = ''large_value_payment_finality''"
| "surface_value FX_BUNDLED_SETTLEMENT = ''fx_bundled_settlement''"
| "surface_value KEY_CEREMONY = ''key_ceremony''"
| "surface_value COLD_STORAGE = ''cold_storage''"
| "surface_value CUSTODIAN_OF_CUSTODIAN = ''custodian_of_custodian''"
| "surface_value BENEFICIAL_OWNER_IDENTITY_CHANGE = ''beneficial_owner_identity_change''"
| "surface_value QUORUM_ENROLLMENT_CHANGE = ''quorum_enrollment_change''"
| "surface_value PHYSICAL_COMMODITY_VAULT_MATERIAL = ''physical_commodity_vault_material''"
| "surface_value REAL_ESTATE_TITLE = ''real_estate_title''"
| "surface_value IP_RIGHTS_MATERIAL = ''ip_rights_material''"
| "surface_value INSURANCE_CONTRACT_MATERIAL = ''insurance_contract_material''"
| "surface_value ILS_TRIGGER_DETERMINATION = ''ils_trigger_determination''"
| "surface_value CARBON_CREDIT_REGISTRY_MATERIAL = ''carbon_credit_registry_material''"
| "surface_value PHYSICAL_ASSET_AUTHENTICATION = ''physical_asset_authentication''"

definition surface_side :: "InherentSafetySurface \<Rightarrow> InherentSafetySide" where
  "surface_side s =
     (if s \<in> {FIAT_SETTLEMENT_MATERIAL, CORRESPONDENT_BANKING_INTEGRITY, DEPOSITORY_MEMBERSHIP,
               LARGE_VALUE_PAYMENT_FINALITY, FX_BUNDLED_SETTLEMENT} then FIAT_SIDE
      else if s \<in> {NATIVE_DIGITAL_ASSET_MATERIAL, KEY_CEREMONY, TOKENIZED_ASSET_ISSUER} then DIGITAL_SIDE
      else COMMON_SIDE)"

end
