(* ===== verification/Custody_Operations.thy ===== *)
theory Custody_Operations
  imports Custody_Contracts Complex_Main
begin

text \<open>
  Custody operations (\<open>contracts/operations/\<close>): the base operation with its four cross-validators and
  the nine kinds with theirs. Pydantic checks every field, then the validators of the base class,
  then those of the kind.
\<close>

subsection \<open>Transaction types\<close>

datatype EquityTransactionType =
    LONG_BUY | LONG_SELL | SHORT_SALE | SHORT_COVER | SECURITIES_LENDING_LENDER
  | SECURITIES_LENDING_BORROWER | RIGHTS_SUBSCRIPTION | CONVERSION | EXCHANGE_OFFER | TENDER_OFFER
  | IN_KIND_TRANSFER | RESTRICTED_STOCK_RELEASE

datatype FixedIncomeTransactionType =
    OUTRIGHT_PURCHASE | OUTRIGHT_SALE | WHEN_ISSUED | REPO_OVERNIGHT | REPO_TERM | REPO_TRIPARTY
  | REPO_BILATERAL | REVERSE_REPO | BUY_SELL_BACK | COUPON_STRIP | COUPON_RECONSTITUTE | MBS_TBA
  | MBS_FACTOR_ADJUSTMENT

datatype FXTransactionType = FX_SPOT | FX_FORWARD | NON_DELIVERABLE_FORWARD | FX_SWAP | FX_OPTION

datatype DerivativeTransactionType =
    LISTED_FUTURE_TRADE | LISTED_FUTURE_VARIATION_MARGIN | LISTED_FUTURE_EXPIRY | LISTED_OPTION_TRADE
  | LISTED_OPTION_EXERCISE | LISTED_OPTION_ASSIGNMENT | LISTED_OPTION_EXPIRY | OTC_GIVE_UP
  | OTC_ALLOCATION | OTC_NOVATION | OTC_COMPRESSION | OTC_TERMINATION | OTC_EXERCISE | OTC_ASSIGNMENT
  | OTC_EXPIRY | INITIAL_MARGIN | VARIATION_MARGIN | MARGIN_CALL | CLOSE_OUT

datatype FundTransactionType =
    FUND_SUBSCRIPTION | FUND_REDEMPTION | FUND_EXCHANGE | IN_KIND_SUBSCRIPTION | IN_KIND_REDEMPTION
  | CAPITAL_CALL | FUND_DISTRIBUTION | SIDE_POCKET | GATE_IMPOSITION | FUND_SUSPENSION
  | MMF_LIQUIDITY_FEE_IMPOSITION | MMF_GATE_IMPOSITION | MMF_SWEEP

datatype StructuredTransactionType =
    STRUCTURED_SUBSCRIPTION | PAYDOWN | STRUCTURED_CALL | CONTINGENT_ACCELERATION | RESTRUCTURING

datatype TokenizedTransactionType =
    TOKEN_MINT | TOKEN_BURN | ON_CHAIN_TRANSFER | ATOMIC_SWAP | SMART_CONTRACT_EXECUTION
  | PROGRAMMABLE_DISTRIBUTION

datatype NativeDigitalTransactionType =
    OUTRIGHT_TRANSFER | STAKING | UNSTAKING | SLASHING_EVENT | VALIDATOR_REWARD | DEFI_INTERACTION
  | NFT_MINT | NFT_TRANSFER | NFT_SALE | NFT_BURN | AIRDROP_RECEIPT | GOVERNANCE_VOTE | KEY_GENERATION
  | KEY_ROTATION | KEY_RECOVERY | COLD_STORAGE_DEPOSIT | COLD_STORAGE_WITHDRAWAL

datatype LifecycleEventType =
    BUY_IN | SELL_OUT | PARTIAL_SETTLEMENT | TRADE_CANCELLATION | TRADE_REBOOKING

subsection \<open>The kinds and their fields\<close>

record FXFields =
  fx_transaction_type :: FXTransactionType
  base_currency :: string
  quote_currency :: string
  value_date :: "int option"
  fixing_date :: "int option"

record DerivativeFields =
  der_transaction_type :: DerivativeTransactionType
  contract_identifier :: string
  novation_target_counterparty_id :: "string option"
  allocation_account_ids :: "string list option"

record NativeDigitalFields =
  nat_transaction_type :: NativeDigitalTransactionType
  on_chain_transaction_hash :: "string option"
  target_address :: "string option"
  protocol_identifier :: "string option"

record LifecycleFields =
  event_type :: LifecycleEventType
  original_operation_id :: "string option"
  partial_quantity :: "rat option"
  lc_fail_reason :: "string option"

datatype operation_kind =
    Equity EquityTransactionType "string option"
  | FixedIncome FixedIncomeTransactionType "int option"
  | FX FXFields
  | Derivative DerivativeFields
  | Fund FundTransactionType string "string option"
  | Structured StructuredTransactionType string "string option"
  | Tokenized TokenizedTransactionType "string option"
  | NativeDigital NativeDigitalFields
  | Lifecycle LifecycleFields

fun kind_value :: "operation_kind \<Rightarrow> string" where
  "kind_value (Equity tx loc) = ''equity''"
| "kind_value (FixedIncome tx days) = ''fixed_income''"
| "kind_value (FX f) = ''fx''"
| "kind_value (Derivative f) = ''derivative''"
| "kind_value (Fund tx i target) = ''fund''"
| "kind_value (Structured tx i trigger) = ''structured''"
| "kind_value (Tokenized tx address) = ''tokenized''"
| "kind_value (NativeDigital f) = ''native_digital''"
| "kind_value (Lifecycle f) = ''lifecycle''"

record CustodyOperation =
  operation_kind :: operation_kind
  lineage :: DSORLineageStub
  custody_object :: CustodyObject
  failure_mode_class :: FailureModeClass
  inherent_safety_surface :: "InherentSafetySurface option"
  quorum_authority :: "QuorumAuthority option"
  settlement_method :: "SettlementMethod option"

subsection \<open>Validators\<close>

definition base_validators :: "CustodyOperation \<Rightarrow> (contract_error, CustodyOperation) result" where
  "base_validators x =
     require (\<not> (is_final (failure_mode_class x) \<and> inherent_safety_surface x = None)) UR_F_Off_Surface (
     require (\<not> (inherent_safety_surface x \<noteq> None \<and> quorum_authority x = None)) Surface_Without_Quorum (
     require (\<not> (inherent_safety_surface x \<noteq> None \<and> authority_tier (lineage x) \<noteq> QUORUM)) Surface_Tier_Not_Quorum (
     require (\<not> (quorum_authority x \<noteq> None \<and> authority_tier (lineage x) \<noteq> QUORUM)) Quorum_Record_Without_Tier (
     require (\<not> (authority_tier (lineage x) = QUORUM \<and> quorum_authority x = None)) Quorum_Tier_Without_Record
       (Inr x)))))"

text \<open>The field constraints of each kind, and its validators.\<close>

type_synonym checked = "(contract_error, unit) result"

definition equity_validators :: "EquityTransactionType \<Rightarrow> string option \<Rightarrow> checked" where
  "equity_validators tx loc = require (\<not> (tx = SHORT_SALE \<and> \<not> truthy loc)) Locate_Missing (Inr ())"

definition fixed_income_fields :: "int option \<Rightarrow> checked" where
  "fixed_income_fields days =
     require (case days of None \<Rightarrow> True | Some d \<Rightarrow> 1 \<le> d) (Contract_Field ''repo_term_days'') (Inr ())"

definition fixed_income_validators :: "FixedIncomeTransactionType \<Rightarrow> int option \<Rightarrow> checked" where
  "fixed_income_validators tx days = require (\<not> (tx = REPO_TERM \<and> days = None)) Repo_Term_Missing (Inr ())"

definition fx_fields :: "FXFields \<Rightarrow> checked" where
  "fx_fields f =
     require (length (base_currency f) = 3) (Contract_Field ''base_currency'') (
     require (length (quote_currency f) = 3) (Contract_Field ''quote_currency'') (Inr ()))"

definition fx_validators :: "FXFields \<Rightarrow> checked" where
  "fx_validators f =
     require (map ascii_upper (base_currency f) \<noteq> map ascii_upper (quote_currency f)) Same_Currency (
     require (\<not> (fx_transaction_type f \<in> {FX_FORWARD, FX_SWAP} \<and> value_date f = None)) Value_Date_Missing (
     require (\<not> (fx_transaction_type f = NON_DELIVERABLE_FORWARD \<and> fixing_date f = None)) Fixing_Date_Missing
       (Inr ())))"

definition derivative_fields :: "DerivativeFields \<Rightarrow> checked" where
  "derivative_fields f = require (contract_identifier f \<noteq> []) (Contract_Field ''contract_identifier'') (Inr ())"

definition derivative_validators :: "DerivativeFields \<Rightarrow> checked" where
  "derivative_validators f =
     require (\<not> (der_transaction_type f = OTC_NOVATION \<and> \<not> truthy (novation_target_counterparty_id f)))
       Novation_Target_Missing (
     require (\<not> (der_transaction_type f = OTC_ALLOCATION \<and> allocation_account_ids f \<in> {None, Some []}))
       Allocation_Missing (Inr ()))"

definition fund_fields :: "string \<Rightarrow> checked" where
  "fund_fields i = require (i \<noteq> []) (Contract_Field ''fund_identifier'') (Inr ())"

definition fund_validators :: "FundTransactionType \<Rightarrow> string option \<Rightarrow> checked" where
  "fund_validators tx target = require (\<not> (tx = FUND_EXCHANGE \<and> \<not> truthy target)) Exchange_Target_Missing (Inr ())"

definition structured_fields :: "string \<Rightarrow> checked" where
  "structured_fields i = require (i \<noteq> []) (Contract_Field ''product_identifier'') (Inr ())"

definition structured_validators :: "StructuredTransactionType \<Rightarrow> string option \<Rightarrow> checked" where
  "structured_validators tx trigger =
     require (\<not> (tx = CONTINGENT_ACCELERATION \<and> \<not> truthy trigger)) Trigger_Missing (Inr ())"

definition lifecycle_validators :: "LifecycleFields \<Rightarrow> checked" where
  "lifecycle_validators f =
     require (\<not> (event_type f \<in> {TRADE_CANCELLATION, TRADE_REBOOKING} \<and> original_operation_id f = None))
       Original_Missing (
     require (\<not> (event_type f = PARTIAL_SETTLEMENT \<and> partial_quantity f = None)) Partial_Quantity_Missing (Inr ()))"

fun kind_fields :: "operation_kind \<Rightarrow> checked" where
  "kind_fields (FixedIncome tx days) = fixed_income_fields days"
| "kind_fields (FX f) = fx_fields f"
| "kind_fields (Derivative f) = derivative_fields f"
| "kind_fields (Fund tx i target) = fund_fields i"
| "kind_fields (Structured tx i trigger) = structured_fields i"
| "kind_fields k = Inr ()"

fun kind_validators :: "operation_kind \<Rightarrow> checked" where
  "kind_validators (Equity tx loc) = equity_validators tx loc"
| "kind_validators (FixedIncome tx days) = fixed_income_validators tx days"
| "kind_validators (FX f) = fx_validators f"
| "kind_validators (Derivative f) = derivative_validators f"
| "kind_validators (Fund tx i target) = fund_validators tx target"
| "kind_validators (Structured tx i trigger) = structured_validators tx trigger"
| "kind_validators (Lifecycle f) = lifecycle_validators f"
| "kind_validators k = Inr ()"

definition mk_CustodyOperation :: "CustodyOperation \<Rightarrow> (contract_error, CustodyOperation) result" where
  "mk_CustodyOperation x =
     (case kind_fields (operation_kind x) of Inl e \<Rightarrow> Inl e | Inr _ \<Rightarrow>
      case base_validators x of Inl e \<Rightarrow> Inl e | Inr _ \<Rightarrow>
      case kind_validators (operation_kind x) of Inl e \<Rightarrow> Inl e | Inr _ \<Rightarrow> Inr x)"

text \<open>
  Quorum is structural. An operation can be constructed only if it carries a quorum record exactly
  when its lineage is at the quorum tier, every operation on an inherent-safety surface does, and an
  operation whose failure is final is on such a surface: no operation of final failure is authorised
  by a single tier, whatever its kind.\<close>

theorem final_failures_need_a_quorum:
  assumes "mk_CustodyOperation x = Inr y"
  shows "y = x \<and> (quorum_authority x \<noteq> None \<longleftrightarrow> authority_tier (lineage x) = QUORUM) \<and>
    (inherent_safety_surface x \<noteq> None \<longrightarrow> quorum_authority x \<noteq> None) \<and>
    (failure_mode_class x = UR_F \<longrightarrow> inherent_safety_surface x \<noteq> None \<and> quorum_authority x \<noteq> None \<and>
       authority_tier (lineage x) = QUORUM)"
  using assms by (auto simp: mk_CustodyOperation_def base_validators_def is_final_def split: sum.splits)

definition w_equity :: CustodyOperation where
  "w_equity =
     \<lparr>operation_kind = Equity SHORT_SALE (Some ''LOC-1''),
      lineage = \<lparr>ls_operation_id = ''op-1'', ls_doctrine_version = ''1.6'', caom_mode = ''CAOM-001'',
        authority_tier = T1, authority_id = ''desk'', initiated_at = 0, ls_session_id = None, c2_handoff_id = None,
        pre_operation_state_hash = [], post_operation_state_hash = None\<rparr>,
      custody_object = \<lparr>beneficial_owner_id = ''BO'', object_asset_class =
        \<lparr>major_category = TRADITIONAL_FINANCIAL_SECURITIES, representation = FIAT_REP, sub_category = ''equity'',
         underlying_category = None, asset_identifier = None\<rparr>, object_category = Ordinary_Safekeeping\<rparr>,
      failure_mode_class = RM, inherent_safety_surface = None, quorum_authority = None, settlement_method = None\<rparr>"

theorem final_failures_need_a_quorum_witness: "mk_CustodyOperation w_equity = Inr w_equity \<and> quorum_authority w_equity = None"
proof -
  have c: "mk_CustodyOperation w_equity = Inr w_equity"
    by (simp add: mk_CustodyOperation_def base_validators_def equity_validators_def is_final_def w_equity_def)
  then show ?thesis using final_failures_need_a_quorum [OF c] by (simp add: w_equity_def)
qed

end
