(* ===== verification/Routing_Tables.thy ===== *)
theory Routing_Tables
  imports Advisory
begin

text \<open>
  The approved-paths registry of the Tier 2 specialist, \<open>agents/tier2/routing_tables.py\<close>: an approved
  path with its validators, the registry and its queries, and the default registry as committed.
  Frozen sets are lists used for membership only; strings are as pydantic leaves them, stripped; the
  dash of a description is written \<open>-\<close>.
\<close>

subsection \<open>Paths\<close>

datatype PathSelectionDimension =
    MULTI_CURRENCY_RAIL_ROUTING | CORRESPONDENT_BANKING_COORDINATION | CROSS_BORDER_FX_LEG
  | DEPOSITORY_VS_SUB_CUSTODIAN | LARGE_VALUE_PAYMENT_SYSTEM | FED_RELATED_OPERATION
  | CASH_SWEEP_AND_SHORT_TERM_INVESTMENT

fun dimension_value :: "PathSelectionDimension \<Rightarrow> string" where
  "dimension_value MULTI_CURRENCY_RAIL_ROUTING = ''multi_currency_rail_routing''"
| "dimension_value CORRESPONDENT_BANKING_COORDINATION = ''correspondent_banking_coordination''"
| "dimension_value CROSS_BORDER_FX_LEG = ''cross_border_fx_leg''"
| "dimension_value DEPOSITORY_VS_SUB_CUSTODIAN = ''depository_vs_sub_custodian''"
| "dimension_value LARGE_VALUE_PAYMENT_SYSTEM = ''large_value_payment_system''"
| "dimension_value FED_RELATED_OPERATION = ''fed_related_operation''"
| "dimension_value CASH_SWEEP_AND_SHORT_TERM_INVESTMENT = ''cash_sweep_and_short_term_investment''"

datatype FinalityModel = RTGS_FINAL | NET_FINAL_EOD | BATCH_FINAL | CORRESPONDENT_DEPENDENT | ATOMIC_PVP

fun finality_model_value :: "FinalityModel \<Rightarrow> string" where
  "finality_model_value RTGS_FINAL = ''rtgs_final''"
| "finality_model_value NET_FINAL_EOD = ''net_final_eod''"
| "finality_model_value BATCH_FINAL = ''batch_final''"
| "finality_model_value CORRESPONDENT_DEPENDENT = ''correspondent_dependent''"
| "finality_model_value ATOMIC_PVP = ''atomic_pvp''"

datatype OperationalHours = BUSINESS_HOURS | EXTENDED_HOURS | CONTINUOUS_24_7

record ApprovedPath =
  path_id :: string
  dimensions :: "PathSelectionDimension list"
  path_description :: string
  eligible_currencies :: "string list"
  eligible_jurisdictions :: "string list"
  finality_model :: "FinalityModel option"
  operational_hours :: OperationalHours
  correspondent_bic :: "string option"
  pvp_eligible_pairs :: "string list"

datatype path_error =
    Path_Field string | No_Dimension | Rail_Without_Finality | Correspondent_Without_Bic | Pairs_Off_FX
  | Duplicate_Path string

definition serves :: "ApprovedPath \<Rightarrow> PathSelectionDimension \<Rightarrow> bool" where
  "serves p d \<longleftrightarrow> d \<in> set (dimensions p)"

definition rail_class :: "ApprovedPath \<Rightarrow> bool" where
  "rail_class p \<longleftrightarrow> serves p MULTI_CURRENCY_RAIL_ROUTING \<or> serves p LARGE_VALUE_PAYMENT_SYSTEM"

definition mk_ApprovedPath :: "ApprovedPath \<Rightarrow> (path_error, ApprovedPath) result" where
  "mk_ApprovedPath p =
     require (path_id p \<noteq> []) (Path_Field ''path_id'') (
     require (path_description p \<noteq> []) (Path_Field ''description'') (
     require (dimensions p \<noteq> []) No_Dimension (
     require (\<not> (rail_class p \<and> finality_model p = None)) Rail_Without_Finality (
     require (\<not> (serves p CORRESPONDENT_BANKING_COORDINATION \<and> \<not> truthy (correspondent_bic p)))
       Correspondent_Without_Bic (
     require (\<not> (pvp_eligible_pairs p \<noteq> [] \<and> \<not> serves p CROSS_BORDER_FX_LEG)) Pairs_Off_FX (Inr p))))))"

subsection \<open>The registry\<close>

type_synonym RoutingTables = "ApprovedPath list"

fun unique_path_ids :: "string list \<Rightarrow> ApprovedPath list \<Rightarrow> (path_error, unit) result" where
  "unique_path_ids seen [] = Inr ()"
| "unique_path_ids seen (p # ps) =
     require (path_id p \<notin> set seen) (Duplicate_Path (path_id p)) (unique_path_ids (path_id p # seen) ps)"

definition mk_RoutingTables :: "ApprovedPath list \<Rightarrow> (path_error, RoutingTables) result" where
  "mk_RoutingTables ps = (case unique_path_ids [] ps of Inl e \<Rightarrow> Inl e | Inr _ \<Rightarrow> Inr ps)"

definition find_path :: "RoutingTables \<Rightarrow> string \<Rightarrow> ApprovedPath option" where
  "find_path t i = find (\<lambda>p. path_id p = i) t"

definition is_approved :: "RoutingTables \<Rightarrow> string \<Rightarrow> PathSelectionDimension \<Rightarrow> bool" where
  "is_approved t i d = (case find_path t i of None \<Rightarrow> False | Some p \<Rightarrow> serves p d)"

definition for_dimension :: "RoutingTables \<Rightarrow> PathSelectionDimension \<Rightarrow> ApprovedPath list" where
  "for_dimension t d = filter (\<lambda>p. serves p d) t"

definition in_jurisdiction :: "string option \<Rightarrow> ApprovedPath \<Rightarrow> bool" where
  "in_jurisdiction j p = (case j of None \<Rightarrow> True | Some x \<Rightarrow> x \<in> set (eligible_jurisdictions p))"

definition find_rail_paths ::
  "RoutingTables \<Rightarrow> string \<Rightarrow> string option \<Rightarrow> FinalityModel option \<Rightarrow> ApprovedPath list" where
  "find_rail_paths t currency j f =
     filter (\<lambda>p. rail_class p \<and> currency \<in> set (eligible_currencies p) \<and> in_jurisdiction j p \<and>
       (f = None \<or> finality_model p = f)) t"

definition find_correspondent_paths :: "RoutingTables \<Rightarrow> string \<Rightarrow> string option \<Rightarrow> ApprovedPath list" where
  "find_correspondent_paths t currency j =
     filter (\<lambda>p. serves p CORRESPONDENT_BANKING_COORDINATION \<and> currency \<in> set (eligible_currencies p) \<and>
       in_jurisdiction j p) t"

definition find_fx_pvp_paths :: "RoutingTables \<Rightarrow> string \<Rightarrow> ApprovedPath list" where
  "find_fx_pvp_paths t pair =
     filter (\<lambda>p. serves p CROSS_BORDER_FX_LEG \<and> map ascii_upper pair \<in> set (pvp_eligible_pairs p)) t"

definition find_depository_paths :: "RoutingTables \<Rightarrow> string \<Rightarrow> ApprovedPath list" where
  "find_depository_paths t j =
     filter (\<lambda>p. serves p DEPOSITORY_VS_SUB_CUSTODIAN \<and> j \<in> set (eligible_jurisdictions p)) t"

definition find_fed_operation_paths :: "RoutingTables \<Rightarrow> ApprovedPath list" where
  "find_fed_operation_paths t = for_dimension t FED_RELATED_OPERATION"

definition find_cash_sweep_paths :: "RoutingTables \<Rightarrow> string \<Rightarrow> ApprovedPath list" where
  "find_cash_sweep_paths t currency =
     filter (\<lambda>p. serves p CASH_SWEEP_AND_SHORT_TERM_INVESTMENT \<and> currency \<in> set (eligible_currencies p)) t"

subsection \<open>The default registry\<close>

definition fedwire :: ApprovedPath where
  "fedwire = \<lparr>path_id = ''fedwire'',
     dimensions = [MULTI_CURRENCY_RAIL_ROUTING, LARGE_VALUE_PAYMENT_SYSTEM],
     path_description = ''US Federal Reserve large-value RTGS - gross real-time finality per AUR-CUSTODY-001 v1.0 Section VI Dimension 5.'',
     eligible_currencies = [''USD''],
     eligible_jurisdictions = [''US''],
     finality_model = Some RTGS_FINAL, operational_hours = EXTENDED_HOURS,
     correspondent_bic = None, pvp_eligible_pairs = []\<rparr>"

definition chips :: ApprovedPath where
  "chips = \<lparr>path_id = ''chips'',
     dimensions = [MULTI_CURRENCY_RAIL_ROUTING, LARGE_VALUE_PAYMENT_SYSTEM],
     path_description = ''US Clearing House Interbank Payments System - bilateral and multilateral net with finality at end of day per AUR-CUSTODY-001 v1.0 Section VI Dimension 5.'',
     eligible_currencies = [''USD''],
     eligible_jurisdictions = [''US''],
     finality_model = Some NET_FINAL_EOD, operational_hours = BUSINESS_HOURS,
     correspondent_bic = None, pvp_eligible_pairs = []\<rparr>"

definition ach :: ApprovedPath where
  "ach = \<lparr>path_id = ''ach'',
     dimensions = [MULTI_CURRENCY_RAIL_ROUTING],
     path_description = ''US Automated Clearing House - batch settlement across multiple windows per day per AUR-CUSTODY-001 v1.0 Section VI Dimension 1.'',
     eligible_currencies = [''USD''],
     eligible_jurisdictions = [''US''],
     finality_model = Some BATCH_FINAL, operational_hours = BUSINESS_HOURS,
     correspondent_bic = None, pvp_eligible_pairs = []\<rparr>"

definition target2 :: ApprovedPath where
  "target2 = \<lparr>path_id = ''target2'',
     dimensions = [MULTI_CURRENCY_RAIL_ROUTING, LARGE_VALUE_PAYMENT_SYSTEM],
     path_description = ''Eurozone large-value RTGS per AUR-CUSTODY-001 v1.0 Section VI Dimension 5.'',
     eligible_currencies = [''EUR''],
     eligible_jurisdictions = [''DE'', ''FR'', ''IT'', ''ES'', ''NL'', ''BE'', ''AT'', ''IE'', ''PT'', ''FI''],
     finality_model = Some RTGS_FINAL, operational_hours = BUSINESS_HOURS,
     correspondent_bic = None, pvp_eligible_pairs = []\<rparr>"

definition chaps :: ApprovedPath where
  "chaps = \<lparr>path_id = ''chaps'',
     dimensions = [MULTI_CURRENCY_RAIL_ROUTING, LARGE_VALUE_PAYMENT_SYSTEM],
     path_description = ''UK Clearing House Automated Payment System - large-value RTGS per AUR-CUSTODY-001 v1.0 Section VI Dimension 5.'',
     eligible_currencies = [''GBP''],
     eligible_jurisdictions = [''GB''],
     finality_model = Some RTGS_FINAL, operational_hours = BUSINESS_HOURS,
     correspondent_bic = None, pvp_eligible_pairs = []\<rparr>"

definition zengin :: ApprovedPath where
  "zengin = \<lparr>path_id = ''zengin'',
     dimensions = [MULTI_CURRENCY_RAIL_ROUTING],
     path_description = ''Japan Zengin domestic retail and business payment system per AUR-CUSTODY-001 v1.0 Section VI Dimension 1.'',
     eligible_currencies = [''JPY''],
     eligible_jurisdictions = [''JP''],
     finality_model = Some NET_FINAL_EOD, operational_hours = BUSINESS_HOURS,
     correspondent_bic = None, pvp_eligible_pairs = []\<rparr>"

definition swift_mt202_global :: ApprovedPath where
  "swift_mt202_global = \<lparr>path_id = ''swift_mt202_global'',
     dimensions = [MULTI_CURRENCY_RAIL_ROUTING, LARGE_VALUE_PAYMENT_SYSTEM],
     path_description = ''SWIFT MT202 general financial institution transfer for international correspondent settlement per AUR-CUSTODY-001 v1.0 Section VI Dimension 1.'',
     eligible_currencies = [''USD'', ''EUR'', ''GBP'', ''JPY'', ''CHF'', ''CAD'', ''AUD''],
     eligible_jurisdictions = [],
     finality_model = Some CORRESPONDENT_DEPENDENT, operational_hours = BUSINESS_HOURS,
     correspondent_bic = None, pvp_eligible_pairs = []\<rparr>"

definition correspondent_usd_new_york :: ApprovedPath where
  "correspondent_usd_new_york = \<lparr>path_id = ''correspondent_usd_new_york'',
     dimensions = [CORRESPONDENT_BANKING_COORDINATION],
     path_description = ''A New York USD correspondent - the shape of a global correspondent for USD international settlement per AUR-CUSTODY-001 v1.0 Section VI Dimension 2.'',
     eligible_currencies = [''USD''],
     eligible_jurisdictions = [],
     finality_model = None, operational_hours = BUSINESS_HOURS,
     correspondent_bic = Some ''AAAAUS33'', pvp_eligible_pairs = []\<rparr>"

definition correspondent_eur_frankfurt :: ApprovedPath where
  "correspondent_eur_frankfurt = \<lparr>path_id = ''correspondent_eur_frankfurt'',
     dimensions = [CORRESPONDENT_BANKING_COORDINATION],
     path_description = ''A Frankfurt EUR correspondent per AUR-CUSTODY-001 v1.0 Section VI Dimension 2.'',
     eligible_currencies = [''EUR''],
     eligible_jurisdictions = [],
     finality_model = None, operational_hours = BUSINESS_HOURS,
     correspondent_bic = Some ''BBBBDEFF'', pvp_eligible_pairs = []\<rparr>"

definition correspondent_gbp_london :: ApprovedPath where
  "correspondent_gbp_london = \<lparr>path_id = ''correspondent_gbp_london'',
     dimensions = [CORRESPONDENT_BANKING_COORDINATION],
     path_description = ''A London GBP correspondent per AUR-CUSTODY-001 v1.0 Section VI Dimension 2.'',
     eligible_currencies = [''GBP''],
     eligible_jurisdictions = [],
     finality_model = None, operational_hours = BUSINESS_HOURS,
     correspondent_bic = Some ''CCCCGB2L'', pvp_eligible_pairs = []\<rparr>"

definition cls_pvp_g10 :: ApprovedPath where
  "cls_pvp_g10 = \<lparr>path_id = ''cls_pvp_g10'',
     dimensions = [CROSS_BORDER_FX_LEG],
     path_description = ''CLS Continuous Linked Settlement PvP for G10 currency pairs per AUR-CUSTODY-001 v1.0 Section VI Dimension 3 (Herstatt-risk elimination).'',
     eligible_currencies = [],
     eligible_jurisdictions = [],
     finality_model = Some ATOMIC_PVP, operational_hours = BUSINESS_HOURS,
     correspondent_bic = None, pvp_eligible_pairs = [''EUR/USD'', ''GBP/USD'', ''USD/JPY'', ''USD/CHF'', ''USD/CAD'', ''AUD/USD'', ''EUR/GBP'', ''EUR/JPY'']\<rparr>"

definition dtcc_us_direct :: ApprovedPath where
  "dtcc_us_direct = \<lparr>path_id = ''dtcc_us_direct'',
     dimensions = [DEPOSITORY_VS_SUB_CUSTODIAN],
     path_description = ''DTCC direct depository membership for US securities per AUR-CUSTODY-001 v1.0 Section VI Dimension 4.'',
     eligible_currencies = [],
     eligible_jurisdictions = [''US''],
     finality_model = None, operational_hours = BUSINESS_HOURS,
     correspondent_bic = None, pvp_eligible_pairs = []\<rparr>"

definition euroclear_be_direct :: ApprovedPath where
  "euroclear_be_direct = \<lparr>path_id = ''euroclear_be_direct'',
     dimensions = [DEPOSITORY_VS_SUB_CUSTODIAN],
     path_description = ''Euroclear Bank Brussels direct depository membership for European securities per AUR-CUSTODY-001 v1.0 Section VI Dimension 4.'',
     eligible_currencies = [],
     eligible_jurisdictions = [''BE'', ''DE'', ''FR'', ''IT'', ''ES'', ''NL'', ''AT'', ''IE'', ''PT'', ''FI''],
     finality_model = None, operational_hours = BUSINESS_HOURS,
     correspondent_bic = None, pvp_eligible_pairs = []\<rparr>"

definition sub_custodian_emerging_markets :: ApprovedPath where
  "sub_custodian_emerging_markets = \<lparr>path_id = ''sub_custodian_emerging_markets'',
     dimensions = [DEPOSITORY_VS_SUB_CUSTODIAN],
     path_description = ''Sub-custodian network for emerging markets where direct depository access is impractical per AUR-CUSTODY-001 v1.0 Section VI Dimension 4.'',
     eligible_currencies = [],
     eligible_jurisdictions = [''BR'', ''MX'', ''ZA'', ''TR'', ''ID'', ''TH'', ''PH'', ''MY'', ''VN''],
     finality_model = None, operational_hours = BUSINESS_HOURS,
     correspondent_bic = None, pvp_eligible_pairs = []\<rparr>"

definition fed_discount_window :: ApprovedPath where
  "fed_discount_window = \<lparr>path_id = ''fed_discount_window'',
     dimensions = [FED_RELATED_OPERATION],
     path_description = ''Federal Reserve Discount Window borrowing - primary credit, secondary credit, seasonal credit per AUR-CUSTODY-001 v1.0 Section VI Dimension 6.'',
     eligible_currencies = [''USD''],
     eligible_jurisdictions = [''US''],
     finality_model = None, operational_hours = BUSINESS_HOURS,
     correspondent_bic = None, pvp_eligible_pairs = []\<rparr>"

definition fed_srf :: ApprovedPath where
  "fed_srf = \<lparr>path_id = ''fed_srf'',
     dimensions = [FED_RELATED_OPERATION],
     path_description = ''Federal Reserve Standing Repo Facility per AUR-CUSTODY-001 v1.0 Section VI Dimension 6.'',
     eligible_currencies = [''USD''],
     eligible_jurisdictions = [''US''],
     finality_model = None, operational_hours = BUSINESS_HOURS,
     correspondent_bic = None, pvp_eligible_pairs = []\<rparr>"

definition fed_rrp :: ApprovedPath where
  "fed_rrp = \<lparr>path_id = ''fed_rrp'',
     dimensions = [FED_RELATED_OPERATION],
     path_description = ''Federal Reserve Reverse Repo Facility per AUR-CUSTODY-001 v1.0 Section VI Dimension 6.'',
     eligible_currencies = [''USD''],
     eligible_jurisdictions = [''US''],
     finality_model = None, operational_hours = BUSINESS_HOURS,
     correspondent_bic = None, pvp_eligible_pairs = []\<rparr>"

definition fed_master_account :: ApprovedPath where
  "fed_master_account = \<lparr>path_id = ''fed_master_account'',
     dimensions = [FED_RELATED_OPERATION],
     path_description = ''Federal Reserve master account operations for entities with direct access per AUR-CUSTODY-001 v1.0 Section VI Dimension 6.'',
     eligible_currencies = [''USD''],
     eligible_jurisdictions = [''US''],
     finality_model = None, operational_hours = BUSINESS_HOURS,
     correspondent_bic = None, pvp_eligible_pairs = []\<rparr>"

definition mmf_government_cnav :: ApprovedPath where
  "mmf_government_cnav = \<lparr>path_id = ''mmf_government_cnav'',
     dimensions = [CASH_SWEEP_AND_SHORT_TERM_INVESTMENT],
     path_description = ''Government MMF - constant NAV per AUR-CUSTODY-001 v1.0 Section VI Dimension 7.'',
     eligible_currencies = [''USD''],
     eligible_jurisdictions = [],
     finality_model = None, operational_hours = BUSINESS_HOURS,
     correspondent_bic = None, pvp_eligible_pairs = []\<rparr>"

definition mmf_prime_fnav :: ApprovedPath where
  "mmf_prime_fnav = \<lparr>path_id = ''mmf_prime_fnav'',
     dimensions = [CASH_SWEEP_AND_SHORT_TERM_INVESTMENT],
     path_description = ''Prime MMF - floating NAV per AUR-CUSTODY-001 v1.0 Section VI Dimension 7.'',
     eligible_currencies = [''USD''],
     eligible_jurisdictions = [],
     finality_model = None, operational_hours = BUSINESS_HOURS,
     correspondent_bic = None, pvp_eligible_pairs = []\<rparr>"

definition bank_deposit_sweep :: ApprovedPath where
  "bank_deposit_sweep = \<lparr>path_id = ''bank_deposit_sweep'',
     dimensions = [CASH_SWEEP_AND_SHORT_TERM_INVESTMENT],
     path_description = ''FDIC-insured bank deposit sweep program per AUR-CUSTODY-001 v1.0 Section VI Dimension 7.'',
     eligible_currencies = [''USD''],
     eligible_jurisdictions = [],
     finality_model = None, operational_hours = BUSINESS_HOURS,
     correspondent_bic = None, pvp_eligible_pairs = []\<rparr>"

definition tri_party_repo_bny :: ApprovedPath where
  "tri_party_repo_bny = \<lparr>path_id = ''tri_party_repo_bny'',
     dimensions = [CASH_SWEEP_AND_SHORT_TERM_INVESTMENT],
     path_description = ''BNY Mellon tri-party repo arrangement per AUR-CUSTODY-001 v1.0 Section VI Dimension 7.'',
     eligible_currencies = [''USD''],
     eligible_jurisdictions = [],
     finality_model = None, operational_hours = BUSINESS_HOURS,
     correspondent_bic = None, pvp_eligible_pairs = []\<rparr>"

definition default_routing_tables :: RoutingTables where
  "default_routing_tables =
     [fedwire, chips, ach, target2,
      chaps, zengin, swift_mt202_global, correspondent_usd_new_york,
      correspondent_eur_frankfurt, correspondent_gbp_london, cls_pvp_g10, dtcc_us_direct,
      euroclear_be_direct, sub_custodian_emerging_markets, fed_discount_window, fed_srf,
      fed_rrp, fed_master_account, mmf_government_cnav, mmf_prime_fnav,
      bank_deposit_sweep, tri_party_repo_bny]"

lemmas default_paths = fedwire_def chips_def ach_def target2_def chaps_def zengin_def swift_mt202_global_def correspondent_usd_new_york_def correspondent_eur_frankfurt_def correspondent_gbp_london_def cls_pvp_g10_def dtcc_us_direct_def euroclear_be_direct_def sub_custodian_emerging_markets_def fed_discount_window_def fed_srf_def fed_rrp_def fed_master_account_def mmf_government_cnav_def mmf_prime_fnav_def bank_deposit_sweep_def tri_party_repo_bny_def

subsection \<open>The registry's contract\<close>

lemma unique_path_ids_iff: "unique_path_ids seen ps = Inr () \<longleftrightarrow> distinct (map path_id ps) \<and> set seen \<inter> path_id ` set ps = {}"
  by (induction ps arbitrary: seen) (auto simp: require_def)

lemma mk_RoutingTables_iff: "mk_RoutingTables ps = Inr t \<longleftrightarrow> t = ps \<and> distinct (map path_id ps)"
  using unique_path_ids_iff [of "[]" ps] by (cases "unique_path_ids [] ps") (auto simp: mk_RoutingTables_def)

text \<open>In a registry with unique identifiers a path is found by its identifier.\<close>

lemma find_path_iff:
  assumes "distinct (map path_id t)"
  shows "find_path t i = Some p \<longleftrightarrow> p \<in> set t \<and> path_id p = i"
  using assms unfolding find_path_def
  by (induction t) (auto simp: image_iff)

lemma approved_member:
  assumes "distinct (map path_id t)" and "p \<in> set t"
  shows "is_approved t (path_id p) d \<longleftrightarrow> serves p d"
  using find_path_iff [OF assms(1), of "path_id p" p] assms(2) by (simp add: is_approved_def)

end
