(* ===== verification/FIAT_Outputs.thy ===== *)
theory FIAT_Outputs
  imports Custody_Operations Routing_Tables Eligibility Cato_Gate
begin

text \<open>
  The typed outputs of the FIAT Operations Specialist, \<open>agents/tier2/outputs.py\<close>: a routing decision,
  an escalation or a quorum package, each with the lineage of its operation, and every validator of
  their constructors. Timestamps are integers, carried only. The wording of a failure is kept as the
  case it words with the values it mentions; an instruction is stripped as pydantic strips it.
\<close>

subsection \<open>Guardrails and attribution\<close>

datatype JClassGuardrail =
    APPROVED_PATHS_ONLY | DOCTRINE_OVER_CODE | NO_SETTLEMENT_WITHOUT_LINEAGE
  | ELIGIBILITY_BEFORE_ROUTING | JURISDICTIONAL_ATTRIBUTION

fun guardrail_value :: "JClassGuardrail \<Rightarrow> string" where
  "guardrail_value APPROVED_PATHS_ONLY = ''approved_paths_only''"
| "guardrail_value DOCTRINE_OVER_CODE = ''doctrine_over_code''"
| "guardrail_value NO_SETTLEMENT_WITHOUT_LINEAGE = ''no_settlement_without_lineage''"
| "guardrail_value ELIGIBILITY_BEFORE_ROUTING = ''eligibility_before_routing''"
| "guardrail_value JURISDICTIONAL_ATTRIBUTION = ''jurisdictional_attribution''"

datatype agent_error =
    Ineligible_Inputs eligibility_error | Lineage_Error contract_error | Output_Field string
  | Telemetry_Not_Hex | Wrong_Lineage | Routing_Ineligible | Routing_UR_F | Escalation_At_Quorum
  | Cascade_Missing | Cascade_Off_Guardrail | Cascade_Is_Doctrine | Instruction_Missing
  | Verification_Missing | Verification_All_Passed | Surface_Not_Owned | Wrong_Package
  | Pre_State_Not_Quorum | Projection_Without_Hash | Threshold_Not_Positive string

record JurisdictionalAttribution =
  originating_jurisdiction :: string
  receiving_jurisdiction :: string
  intermediary_jurisdictions :: "string list"
  verana_session_id :: string
  attributed_at :: int

definition mk_JurisdictionalAttribution ::
  "JurisdictionalAttribution \<Rightarrow> (agent_error, JurisdictionalAttribution) result" where
  "mk_JurisdictionalAttribution j =
     require (length (originating_jurisdiction j) \<in> {2, 3}) (Output_Field ''originating_jurisdiction'') (
     require (length (receiving_jurisdiction j) \<in> {2, 3}) (Output_Field ''receiving_jurisdiction'') (
     require (verana_session_id j \<noteq> []) (Output_Field ''verana_session_id'') (Inr j)))"

definition is_cross_border :: "JurisdictionalAttribution \<Rightarrow> bool" where
  "is_cross_border j \<longleftrightarrow> originating_jurisdiction j \<noteq> receiving_jurisdiction j \<or>
     length (intermediary_jurisdictions j) > 0"

subsection \<open>Recommendation and package\<close>

record RoutingRecommendation =
  path_selection_dimension :: PathSelectionDimension
  chosen_path :: string
  rec_settlement_method :: "SettlementMethod option"
  rec_rationale :: string

definition mk_RoutingRecommendation ::
  "RoutingRecommendation \<Rightarrow> (agent_error, RoutingRecommendation) result" where
  "mk_RoutingRecommendation r =
     require (chosen_path r \<noteq> []) (Output_Field ''chosen_path'') (
     require (rec_rationale r \<noteq> []) (Output_Field ''rationale'') (Inr r))"

record OperationPackage =
  packaged_operation :: CustodyOperation
  beneficial_owner_ids :: "string list"
  asset_ids :: "string list"
  package_doctrine_version :: string
  pre_operation_dsor_state_stub :: DSORLineageStub
  projected_post_operation_dsor_state_stub :: DSORLineageStub
  routing_recommendation :: "RoutingRecommendation option"
  package_eligibility :: EligibilityVerification

definition mk_OperationPackage :: "OperationPackage \<Rightarrow> (agent_error, OperationPackage) result" where
  "mk_OperationPackage p =
     require (beneficial_owner_ids p \<noteq> []) (Output_Field ''beneficial_owner_ids'') (
     require (asset_ids p \<noteq> []) (Output_Field ''asset_ids'') (
     require (authority_tier (pre_operation_dsor_state_stub p) = QUORUM) Pre_State_Not_Quorum (
     require (post_operation_state_hash (projected_post_operation_dsor_state_stub p) \<noteq> None)
       Projection_Without_Hash (Inr p))))"

definition FIAT_SPECIALIST_OWNED_SURFACES :: "InherentSafetySurface list" where
  "FIAT_SPECIALIST_OWNED_SURFACES =
     [FIAT_SETTLEMENT_MATERIAL, CORRESPONDENT_BANKING_INTEGRITY, LARGE_VALUE_PAYMENT_FINALITY,
      FX_BUNDLED_SETTLEMENT, DEPOSITORY_MEMBERSHIP]"

subsection \<open>What every output carries\<close>

definition AGENT_CLASS_FIAT_OPERATIONS_SPECIALIST :: string where
  "AGENT_CLASS_FIAT_OPERATIONS_SPECIALIST = ''FIAT_OPERATIONS_SPECIALIST_v1''"

record OutputBase =
  out_operation_id :: string
  out_doctrine_version :: string
  out_agent_class :: string
  agent_telemetry_hash :: string
  lineage_stub :: DSORLineageStub
  emitted_at :: int

definition base_output_checks :: "('m) OutputBase_scheme \<Rightarrow> (agent_error, unit) result" where
  "base_output_checks x =
     require (sha256_hex (agent_telemetry_hash x)) Telemetry_Not_Hex (
     require (out_operation_id x = ls_operation_id (lineage_stub x)) Wrong_Lineage (Inr ()))"

record RoutingDecision = OutputBase +
  recommendation :: RoutingRecommendation
  rd_eligibility :: EligibilityVerification
  rd_attribution :: JurisdictionalAttribution
  rd_failure_mode_class :: FailureModeClass

definition mk_RoutingDecision :: "RoutingDecision \<Rightarrow> (agent_error, RoutingDecision) result" where
  "mk_RoutingDecision r =
     (case base_output_checks r of Inl e \<Rightarrow> Inl e | Inr _ \<Rightarrow>
      require (all_passed (rd_eligibility r)) Routing_Ineligible (
      require (rd_failure_mode_class r \<noteq> UR_F) Routing_UR_F (Inr r)))"

datatype esc_reason =
    Why_Ineligible "string list" | Why_No_Attribution | Why_No_Path PathSelectionDimension string
  | Why_Halted string int string PathSelectionDimension | Why_Gate_Absent PathSelectionDimension
  | Why_Gate_Unbound PathSelectionDimension
  | Why_Gate_Held "GateDecision enum_arg" PathSelectionDimension "ReasonCode enum_arg" rationale
  | Why_Doctrine JClassGuardrail string

record EscalationRequired = OutputBase +
  failed_guardrail :: JClassGuardrail
  cascade_guardrail :: "JClassGuardrail option"
  esc_failure_reason :: esc_reason
  escalation_tier :: CAOMTier
  attempted_dimension :: "PathSelectionDimension option"
  esc_eligibility :: "EligibilityVerification option"
  esc_attribution :: "JurisdictionalAttribution option"
  conflicting_external_instruction :: "string option"

definition mk_EscalationRequired :: "EscalationRequired \<Rightarrow> (agent_error, EscalationRequired) result" where
  "mk_EscalationRequired x =
     (let code = (failed_guardrail x = DOCTRINE_OVER_CODE);
          elig = (failed_guardrail x = ELIGIBILITY_BEFORE_ROUTING) in
      case base_output_checks x of Inl e \<Rightarrow> Inl e | Inr _ \<Rightarrow>
      require (escalation_tier x \<noteq> QUORUM) Escalation_At_Quorum (
      require (\<not> (code \<and> cascade_guardrail x = None)) Cascade_Missing (
      require (\<not> (\<not> code \<and> cascade_guardrail x \<noteq> None)) Cascade_Off_Guardrail (
      require (\<not> (code \<and> cascade_guardrail x = Some DOCTRINE_OVER_CODE)) Cascade_Is_Doctrine (
      require (\<not> (code \<and> \<not> truthy (conflicting_external_instruction x))) Instruction_Missing (
      require (\<not> (elig \<and> esc_eligibility x = None)) Verification_Missing (
      require (\<not> (elig \<and> (case esc_eligibility x of None \<Rightarrow> False | Some v \<Rightarrow> all_passed v)))
        Verification_All_Passed (Inr x))))))))"

record QuorumAuthorityRequired = OutputBase +
  quorum_surface :: InherentSafetySurface
  operation_package :: OperationPackage

definition mk_QuorumAuthorityRequired ::
  "QuorumAuthorityRequired \<Rightarrow> (agent_error, QuorumAuthorityRequired) result" where
  "mk_QuorumAuthorityRequired x =
     (case base_output_checks x of Inl e \<Rightarrow> Inl e | Inr _ \<Rightarrow>
      require (quorum_surface x \<in> set FIAT_SPECIALIST_OWNED_SURFACES) Surface_Not_Owned (
      require (out_operation_id x =
          ls_operation_id (pre_operation_dsor_state_stub (operation_package x))) Wrong_Package (Inr x)))"

datatype FIATOperationsOutput =
    Routing RoutingDecision | Escalated EscalationRequired | Quorum_Needed QuorumAuthorityRequired

end
