(* ===== verification/FIAT_Specialist.thy ===== *)
theory FIAT_Specialist
  imports FIAT_Outputs
begin

text \<open>
  The FIAT Operations Specialist, \<open>agents/tier2/fiat_operations_specialist.py\<close>: the magnitude policy,
  the guardrails, the output builders, the quorum route and the seven path selections. The seven
  methods of the source repeat one body with their own dimension, threshold currency, candidates and
  criteria; here that body is \<open>select_path\<close>.

  \<open>sha\<close> is \<open>hashlib.sha256(s.encode()).hexdigest()\<close> and \<open>K\<close> the kernel of the cash gate. Strings are
  characters below 256; \<open>py_repr\<close> is \<open>repr\<close> on them. An empty map of thresholds has no entry.
\<close>

subsection \<open>Text\<close>

definition printable :: "char \<Rightarrow> bool" where
  "printable c \<longleftrightarrow> (let n = of_char c :: nat in (32 \<le> n \<and> n \<le> 126) \<or> (161 \<le> n \<and> n \<noteq> 173))"

definition hex_char :: "nat \<Rightarrow> char" where
  "hex_char n = ''0123456789abcdef'' ! n"

definition repr_char :: "char \<Rightarrow> char \<Rightarrow> string" where
  "repr_char q c =
     (if c = q \<or> c = CHR 0x5C then [CHR 0x5C, c]
      else if c = CHR 0x09 then [CHR 0x5C, CHR ''t'']
      else if c = CHR 0x0A then [CHR 0x5C, CHR ''n'']
      else if c = CHR 0x0D then [CHR 0x5C, CHR ''r'']
      else if printable c then [c]
      else [CHR 0x5C, CHR ''x'', hex_char (of_char c div 16), hex_char (of_char c mod 16)])"

definition py_repr :: "string \<Rightarrow> string" where
  "py_repr s =
     (let q = (if CHR 0x27 \<in> set s \<and> CHR 0x22 \<notin> set s then CHR 0x22 else CHR 0x27) in
      [q] @ concat (map (repr_char q) s) @ [q])"

definition repr_opt :: "string option \<Rightarrow> string" where
  "repr_opt x = (case x of None \<Rightarrow> ''None'' | Some s \<Rightarrow> py_repr s)"

fun bar_join :: "string list \<Rightarrow> string" where
  "bar_join [] = []"
| "bar_join [s] = s"
| "bar_join (s # t # ss) = s @ CHR ''|'' # bar_join (t # ss)"

definition ascii_lower :: "char \<Rightarrow> char" where
  "ascii_lower c = (if upper_letter c then char_of (of_char c + 32 :: nat) else c)"

text \<open>The value of a decision field; \<open>__post_init__\<close> leaves only members in it.\<close>

fun member_text :: "('a \<Rightarrow> string) \<Rightarrow> 'a enum_arg \<Rightarrow> string" where
  "member_text f (Member x) = f x"
| "member_text f _ = []"

subsection \<open>The magnitude policy\<close>

record MagnitudeThresholdPolicy =
  fiat_settlement_thresholds :: "(string \<times> rat) list"
  lvps_finality_thresholds :: "(string \<times> rat) list"
  fx_bundled_thresholds :: "(string \<times> rat) list"
  sanctioned_adjacency_jurisdictions :: "string list"

definition mk_MagnitudeThresholdPolicy ::
  "MagnitudeThresholdPolicy \<Rightarrow> (agent_error, MagnitudeThresholdPolicy) result" where
  "mk_MagnitudeThresholdPolicy p =
     (case find (\<lambda>(c, v). v \<le> 0)
        (fiat_settlement_thresholds p @ lvps_finality_thresholds p @ fx_bundled_thresholds p) of
        Some (c, v) \<Rightarrow> Inl (Threshold_Not_Positive c) | None \<Rightarrow> Inr p)"

definition meets :: "(string \<times> rat) list \<Rightarrow> string \<Rightarrow> rat \<Rightarrow> bool" where
  "meets m cur x = (case map_of m cur of None \<Rightarrow> False | Some t \<Rightarrow> x \<ge> t)"

definition is_fiat_settlement_material :: "MagnitudeThresholdPolicy \<Rightarrow> string \<Rightarrow> rat \<Rightarrow> bool" where
  "is_fiat_settlement_material p = meets (fiat_settlement_thresholds p)"

definition is_lvps_finality_material :: "MagnitudeThresholdPolicy \<Rightarrow> string \<Rightarrow> rat \<Rightarrow> bool" where
  "is_lvps_finality_material p = meets (lvps_finality_thresholds p)"

definition is_fx_bundled_material :: "MagnitudeThresholdPolicy \<Rightarrow> string \<Rightarrow> rat \<Rightarrow> bool" where
  "is_fx_bundled_material p = meets (fx_bundled_thresholds p)"

definition is_sanctioned_adjacent :: "MagnitudeThresholdPolicy \<Rightarrow> string \<Rightarrow> bool" where
  "is_sanctioned_adjacent p j \<longleftrightarrow> j \<in> set (sanctioned_adjacency_jurisdictions p)"

subsection \<open>Requests and the agent\<close>

definition GATE_REQUIRED_DIMENSIONS :: "PathSelectionDimension list" where
  "GATE_REQUIRED_DIMENSIONS =
     [MULTI_CURRENCY_RAIL_ROUTING, CROSS_BORDER_FX_LEG, LARGE_VALUE_PAYMENT_SYSTEM]"

record 'h PathSelectionRequest =
  operation :: CustodyOperation
  eligibility_inputs :: EligibilityInputs
  attribution :: "JurisdictionalAttribution option"
  rq_emitted_at :: int
  cato_cash_decision :: "CatoCashDecision option"
  rq_halt :: "'h option"
  rq_amount :: "rat option"

record FIATOperationsSpecialist =
  routing_tables :: RoutingTables
  magnitude_threshold_policy :: MagnitudeThresholdPolicy

definition enforce_approved_paths_only ::
  "FIATOperationsSpecialist \<Rightarrow> string \<Rightarrow> PathSelectionDimension \<Rightarrow> bool" where
  "enforce_approved_paths_only a i d = is_approved (routing_tables a) i d"

definition enforce_eligibility :: "EligibilityInputs \<Rightarrow> (agent_error, EligibilityVerification) result" where
  "enforce_eligibility i =
     (case verify_eligibility i of Inl e \<Rightarrow> Inl (Ineligible_Inputs e) | Inr v \<Rightarrow> Inr v)"

definition enforce_jurisdictional_attribution :: "JurisdictionalAttribution option \<Rightarrow> bool" where
  "enforce_jurisdictional_attribution j \<longleftrightarrow> j \<noteq> None"

definition compute_telemetry_hash ::
  "(string \<Rightarrow> string) \<Rightarrow> string \<Rightarrow> string \<Rightarrow> string list \<Rightarrow> string" where
  "compute_telemetry_hash sha op_id decision_kind signature =
     sha (bar_join ([op_id, CURRENT_DOCTRINE_VERSION, decision_kind,
       AGENT_CLASS_FIAT_OPERATIONS_SPECIALIST] @ signature))"

subsection \<open>Escalations\<close>

text \<open>The fields every escalation of the agent fills in, the others at their defaults.\<close>

definition escalation ::
  "(string \<Rightarrow> string) \<Rightarrow> string \<Rightarrow> DSORLineageStub \<Rightarrow> int \<Rightarrow> string list \<Rightarrow> JClassGuardrail \<Rightarrow> esc_reason \<Rightarrow>
   CAOMTier \<Rightarrow> PathSelectionDimension option \<Rightarrow> EscalationRequired" where
  "escalation sha op_id stub t signature guardrail why tier d =
     \<lparr>out_operation_id = ls_operation_id stub, out_doctrine_version = CURRENT_DOCTRINE_VERSION,
      out_agent_class = AGENT_CLASS_FIAT_OPERATIONS_SPECIALIST,
      agent_telemetry_hash = compute_telemetry_hash sha op_id ''escalation_required'' signature,
      lineage_stub = stub, emitted_at = t, failed_guardrail = guardrail, cascade_guardrail = None,
      esc_failure_reason = why, escalation_tier = tier, attempted_dimension = d,
      esc_eligibility = None, esc_attribution = None, conflicting_external_instruction = None\<rparr>"

definition op_id :: "'h PathSelectionRequest \<Rightarrow> string" where
  "op_id q = ls_operation_id (lineage (operation q))"

definition request_escalation ::
  "(string \<Rightarrow> string) \<Rightarrow> 'h PathSelectionRequest \<Rightarrow> PathSelectionDimension \<Rightarrow> string list \<Rightarrow>
   JClassGuardrail \<Rightarrow> esc_reason \<Rightarrow> CAOMTier \<Rightarrow> EscalationRequired" where
  "request_escalation sha q d signature guardrail why tier =
     escalation sha (op_id q) (lineage (operation q)) (rq_emitted_at q) signature guardrail why tier (Some d)"

definition build_doctrine_over_code_escalation ::
  "(string \<Rightarrow> string) \<Rightarrow> string \<Rightarrow> DSORLineageStub \<Rightarrow> JClassGuardrail \<Rightarrow> string \<Rightarrow> string \<Rightarrow> int \<Rightarrow>
   PathSelectionDimension option \<Rightarrow> (agent_error, EscalationRequired) result" where
  "build_doctrine_over_code_escalation sha opid stub cascade described instruction t d =
     mk_EscalationRequired
       ((escalation sha opid stub t [''doctrine_over_code'', guardrail_value cascade, sha instruction]
           DOCTRINE_OVER_CODE (Why_Doctrine cascade described) T2 d)
        \<lparr>cascade_guardrail := Some cascade,
         conflicting_external_instruction := Some (py_strip instruction)\<rparr>)"

definition build_eligibility_escalation ::
  "(string \<Rightarrow> string) \<Rightarrow> 'h PathSelectionRequest \<Rightarrow> PathSelectionDimension \<Rightarrow> EligibilityVerification \<Rightarrow>
   (agent_error, EscalationRequired) result" where
  "build_eligibility_escalation sha q d v =
     (let failed = sort (map (\<lambda>c. check_kind_value (check_kind c)) (failed_checks v)) in
      mk_EscalationRequired
        ((request_escalation sha q d ([''eligibility_failed'', dimension_value d] @ failed)
            ELIGIBILITY_BEFORE_ROUTING (Why_Ineligible failed) T1)
         \<lparr>esc_eligibility := Some v\<rparr>))"

definition build_attribution_escalation ::
  "(string \<Rightarrow> string) \<Rightarrow> 'h PathSelectionRequest \<Rightarrow> PathSelectionDimension \<Rightarrow>
   (agent_error, EscalationRequired) result" where
  "build_attribution_escalation sha q d =
     mk_EscalationRequired (request_escalation sha q d [''attribution_missing'', dimension_value d]
       JURISDICTIONAL_ATTRIBUTION Why_No_Attribution T2)"

definition build_approved_paths_escalation ::
  "(string \<Rightarrow> string) \<Rightarrow> 'h PathSelectionRequest \<Rightarrow> PathSelectionDimension \<Rightarrow> string \<Rightarrow>
   (agent_error, EscalationRequired) result" where
  "build_approved_paths_escalation sha q d criteria =
     mk_EscalationRequired (request_escalation sha q d [''no_approved_path'', dimension_value d, criteria]
       APPROVED_PATHS_ONLY (Why_No_Path d criteria) T1)"

definition halt_escalation ::
  "(string \<Rightarrow> string) \<Rightarrow> 'h kernel \<Rightarrow> 'h PathSelectionRequest \<Rightarrow> PathSelectionDimension \<Rightarrow>
   (agent_error, EscalationRequired option) result" where
  "halt_escalation sha K q d =
     (case rq_halt q of None \<Rightarrow> Inr None | Some h \<Rightarrow>
        if \<not> blocks_atreides K h then Inr None
        else map_sum id Some (mk_EscalationRequired (request_escalation sha q d
          [''tier_0_halt'', dimension_value d, halt_id K h, int_text (halt_version K h)]
          NO_SETTLEMENT_WITHOUT_LINEAGE (Why_Halted (halt_id K h) (halt_version K h) (halt_reason K h) d) T0)))"

definition consult_cash_leg_gate ::
  "(string \<Rightarrow> string) \<Rightarrow> 'h PathSelectionRequest \<Rightarrow> PathSelectionDimension \<Rightarrow>
   (agent_error, EscalationRequired option) result" where
  "consult_cash_leg_gate sha q d =
     (let held = (\<lambda>signature why. map_sum id Some (mk_EscalationRequired
            (request_escalation sha q d signature NO_SETTLEMENT_WITHOUT_LINEAGE why T1))) in
      if d \<notin> set GATE_REQUIRED_DIMENSIONS then Inr None
      else case cato_cash_decision q of
        None \<Rightarrow> held [''cato_cash_absent'', dimension_value d, ''HOLD''] (Why_Gate_Absent d)
      | Some c \<Rightarrow>
          if proceeds c \<and> \<not> bound c then
            held [''cato_cash_unbound'', dimension_value d, ''HOLD''] (Why_Gate_Unbound d)
          else if decision c \<noteq> Member PROCEED then
            held [''cato_cash_'' @ map ascii_lower (member_text gate_decision_value (decision c)),
                  dimension_value d, member_text reason_value (reason_code c)]
              (Why_Gate_Held (decision c) d (reason_code c) (rationale c))
          else Inr None)"

definition run_pre_path_guardrails ::
  "(string \<Rightarrow> string) \<Rightarrow> 'h PathSelectionRequest \<Rightarrow> PathSelectionDimension \<Rightarrow>
   (agent_error, EscalationRequired + EligibilityVerification \<times> JurisdictionalAttribution) result" where
  "run_pre_path_guardrails sha q d =
     (case enforce_eligibility (eligibility_inputs q) of Inl e \<Rightarrow> Inl e | Inr v \<Rightarrow>
        if \<not> all_passed v then map_sum id Inl (build_eligibility_escalation sha q d v)
        else case attribution q of
          None \<Rightarrow> map_sum id Inl (build_attribution_escalation sha q d)
        | Some j \<Rightarrow> Inr (Inr (v, j)))"

subsection \<open>Routing\<close>

definition recommend :: "CustodyOperation \<Rightarrow> ApprovedPath \<Rightarrow> PathSelectionDimension \<Rightarrow> string option \<Rightarrow>
    (agent_error, RoutingRecommendation) result" where
  "recommend x p d why = mk_RoutingRecommendation
     \<lparr>path_selection_dimension = d, chosen_path = path_id p,
      rec_settlement_method = settlement_method x,
      rec_rationale = (if truthy why then the why else path_description p)\<rparr>"

definition build_routing_decision ::
  "(string \<Rightarrow> string) \<Rightarrow> 'h PathSelectionRequest \<Rightarrow> ApprovedPath \<Rightarrow> PathSelectionDimension \<Rightarrow>
   EligibilityVerification \<Rightarrow> JurisdictionalAttribution \<Rightarrow> string option \<Rightarrow>
   (agent_error, RoutingDecision) result" where
  "build_routing_decision sha q p d v j why =
     (case recommend (operation q) p d why of Inl e \<Rightarrow> Inl e | Inr r \<Rightarrow>
      mk_RoutingDecision
        \<lparr>out_operation_id = op_id q, out_doctrine_version = CURRENT_DOCTRINE_VERSION,
         out_agent_class = AGENT_CLASS_FIAT_OPERATIONS_SPECIALIST,
         agent_telemetry_hash = compute_telemetry_hash sha (op_id q) ''routing_decision''
           [dimension_value d, path_id p, ''eligibility_passed'', verana_session_id j],
         lineage_stub = lineage (operation q), emitted_at = rq_emitted_at q, recommendation = r,
         rd_eligibility = v, rd_attribution = j,
         rd_failure_mode_class = failure_mode_class (operation q)\<rparr>)"

subsection \<open>The quorum route\<close>

definition check_material_magnitude ::
  "FIATOperationsSpecialist \<Rightarrow> 'h PathSelectionRequest \<Rightarrow> PathSelectionDimension \<Rightarrow> string option \<Rightarrow>
   InherentSafetySurface option" where
  "check_material_magnitude a q d cur =
     (let policy = magnitude_threshold_policy a in
      if inherent_safety_surface (operation q) \<noteq> None then inherent_safety_surface (operation q)
      else if (case attribution q of None \<Rightarrow> False | Some j \<Rightarrow>
          list_ex (is_sanctioned_adjacent policy)
            (originating_jurisdiction j # receiving_jurisdiction j # intermediary_jurisdictions j))
      then Some FIAT_SETTLEMENT_MATERIAL
      else case (rq_amount q, cur) of
        (Some x, Some c) \<Rightarrow>
          if d = MULTI_CURRENCY_RAIL_ROUTING then
            (if is_fiat_settlement_material policy c x then Some FIAT_SETTLEMENT_MATERIAL else None)
          else if d = LARGE_VALUE_PAYMENT_SYSTEM then
            (if is_lvps_finality_material policy c x then Some LARGE_VALUE_PAYMENT_FINALITY else None)
          else if d = CROSS_BORDER_FX_LEG then
            (if is_fx_bundled_material policy c x then Some FX_BUNDLED_SETTLEMENT else None)
          else None
      | _ \<Rightarrow> None)"

definition quorum_lineage :: "DSORLineageStub \<Rightarrow> string option \<Rightarrow> (agent_error, DSORLineageStub) result" where
  "quorum_lineage l pst = map_sum Lineage_Error id (mk_DSORLineageStub
     \<lparr>ls_operation_id = ls_operation_id l, ls_doctrine_version = ls_doctrine_version l,
      caom_mode = caom_mode l, authority_tier = QUORUM,
      authority_id = (if authority_tier l = QUORUM then authority_id l else ''pending-ceremony''),
      initiated_at = initiated_at l, ls_session_id = ls_session_id l, c2_handoff_id = c2_handoff_id l,
      pre_operation_state_hash = pre_operation_state_hash l, post_operation_state_hash = pst\<rparr>)"

definition build_quorum_pre_operation_lineage ::
  "CustodyOperation \<Rightarrow> (agent_error, DSORLineageStub) result" where
  "build_quorum_pre_operation_lineage x = quorum_lineage (lineage x) None"

definition project_post_operation_hash ::
  "(string \<Rightarrow> string) \<Rightarrow> CustodyOperation \<Rightarrow> PathSelectionDimension \<Rightarrow> string option \<Rightarrow> string" where
  "project_post_operation_hash sha x d path =
     sha (bar_join [ls_operation_id (lineage x), kind_value (operation_kind x),
       failure_value (failure_mode_class x), dimension_value d,
       if truthy path then the path else ''no_path_recommendation''])"

definition build_quorum_projected_post_lineage ::
  "(string \<Rightarrow> string) \<Rightarrow> CustodyOperation \<Rightarrow> PathSelectionDimension \<Rightarrow> string option \<Rightarrow>
   (agent_error, DSORLineageStub) result" where
  "build_quorum_projected_post_lineage sha x d path =
     quorum_lineage (lineage x) (Some (project_post_operation_hash sha x d path))"

definition asset_name :: "AssetClass \<Rightarrow> string" where
  "asset_name c = (if truthy (asset_identifier c) then the (asset_identifier c)
     else category_value (major_category c) @ ''/'' @ sub_category c)"

definition assemble_operation_package ::
  "(string \<Rightarrow> string) \<Rightarrow> CustodyOperation \<Rightarrow> EligibilityVerification \<Rightarrow> RoutingRecommendation option \<Rightarrow>
   PathSelectionDimension \<Rightarrow> (agent_error, OperationPackage) result" where
  "assemble_operation_package sha x v r d =
     (case build_quorum_pre_operation_lineage x of Inl e \<Rightarrow> Inl e | Inr pre \<Rightarrow>
      case build_quorum_projected_post_lineage sha x d (map_option chosen_path r) of Inl e \<Rightarrow> Inl e | Inr pst \<Rightarrow>
      mk_OperationPackage
        \<lparr>packaged_operation = x, beneficial_owner_ids = [beneficial_owner_id (custody_object x)],
         asset_ids = [asset_name (object_asset_class (custody_object x))],
         package_doctrine_version = CURRENT_DOCTRINE_VERSION,
         pre_operation_dsor_state_stub = pre, projected_post_operation_dsor_state_stub = pst,
         routing_recommendation = r, package_eligibility = v\<rparr>)"

definition build_quorum_authority_required ::
  "(string \<Rightarrow> string) \<Rightarrow> 'h PathSelectionRequest \<Rightarrow> InherentSafetySurface \<Rightarrow> OperationPackage \<Rightarrow>
   (agent_error, QuorumAuthorityRequired) result" where
  "build_quorum_authority_required sha q s p = mk_QuorumAuthorityRequired
     \<lparr>out_operation_id = op_id q, out_doctrine_version = CURRENT_DOCTRINE_VERSION,
      out_agent_class = AGENT_CLASS_FIAT_OPERATIONS_SPECIALIST,
      agent_telemetry_hash = compute_telemetry_hash sha (op_id q) ''quorum_authority_required''
        [surface_value s,
         case routing_recommendation p of Some r \<Rightarrow> chosen_path r | None \<Rightarrow> ''no_path_determined''],
      lineage_stub = pre_operation_dsor_state_stub p, emitted_at = rq_emitted_at q,
      quorum_surface = s, operation_package = p\<rparr>"

definition route_to_quorum ::
  "(string \<Rightarrow> string) \<Rightarrow> 'h PathSelectionRequest \<Rightarrow> InherentSafetySurface \<Rightarrow> PathSelectionDimension \<Rightarrow>
   ApprovedPath list \<Rightarrow> (agent_error, QuorumAuthorityRequired) result" where
  "route_to_quorum sha q s d candidates =
     (case enforce_eligibility (eligibility_inputs q) of Inl e \<Rightarrow> Inl e | Inr v \<Rightarrow>
      case (case candidates of [] \<Rightarrow> Inr None
            | p # _ \<Rightarrow> map_sum id Some (recommend (operation q) p d None)) of Inl e \<Rightarrow> Inl e | Inr r \<Rightarrow>
      case assemble_operation_package sha (operation q) v r d of Inl e \<Rightarrow> Inl e | Inr p \<Rightarrow>
      build_quorum_authority_required sha q s p)"

subsection \<open>The seven selections\<close>

definition select_path ::
  "(string \<Rightarrow> string) \<Rightarrow> 'h kernel \<Rightarrow> FIATOperationsSpecialist \<Rightarrow> 'h PathSelectionRequest \<Rightarrow>
   PathSelectionDimension \<Rightarrow> string option \<Rightarrow> bool \<Rightarrow> ApprovedPath list \<Rightarrow> string \<Rightarrow>
   (agent_error, FIATOperationsOutput) result" where
  "select_path sha K a q d cur consults candidates criteria =
     (case halt_escalation sha K q d of Inl e \<Rightarrow> Inl e | Inr (Some x) \<Rightarrow> Inr (Escalated x) | Inr None \<Rightarrow>
      case check_material_magnitude a q d cur of
        Some s \<Rightarrow> map_sum id Quorum_Needed (route_to_quorum sha q s d candidates)
      | None \<Rightarrow>
      case run_pre_path_guardrails sha q d of Inl e \<Rightarrow> Inl e | Inr (Inl x) \<Rightarrow> Inr (Escalated x)
      | Inr (Inr (v, j)) \<Rightarrow>
      case (if consults then consult_cash_leg_gate sha q d else Inr None) of Inl e \<Rightarrow> Inl e
      | Inr (Some x) \<Rightarrow> Inr (Escalated x)
      | Inr None \<Rightarrow>
      case candidates of
        [] \<Rightarrow> map_sum id Escalated (build_approved_paths_escalation sha q d criteria)
      | p # _ \<Rightarrow> map_sum id Routing (build_routing_decision sha q p d v j None))"

definition rail_criteria :: "string \<Rightarrow> string option \<Rightarrow> FinalityModel option \<Rightarrow> string" where
  "rail_criteria cur j f =
     ''currency='' @ py_repr cur @ '', jurisdiction='' @ repr_opt j @ '', finality='' @
     (case f of None \<Rightarrow> ''None'' | Some m \<Rightarrow> finality_model_value m)"

definition select_multi_currency_rail_routing where
  "select_multi_currency_rail_routing sha K a q cur j f =
     select_path sha K a q MULTI_CURRENCY_RAIL_ROUTING (Some cur) True
       (find_rail_paths (routing_tables a) cur j f) (rail_criteria cur j f)"

definition select_correspondent_banking_coordination where
  "select_correspondent_banking_coordination sha K a q cur j =
     select_path sha K a q CORRESPONDENT_BANKING_COORDINATION (Some cur) False
       (find_correspondent_paths (routing_tables a) cur j)
       (''currency='' @ py_repr cur @ '', jurisdiction='' @ repr_opt j)"

definition base_of_pair :: "string \<Rightarrow> string" where
  "base_of_pair pair =
     (if CHR ''/'' \<in> set pair then takeWhile (\<lambda>c. c \<noteq> CHR ''/'') (map ascii_upper pair) else pair)"

definition select_cross_border_fx_leg where
  "select_cross_border_fx_leg sha K a q pair =
     select_path sha K a q CROSS_BORDER_FX_LEG (Some (base_of_pair pair)) True
       (find_fx_pvp_paths (routing_tables a) pair) (''currency_pair='' @ py_repr pair)"

definition select_depository_vs_sub_custodian where
  "select_depository_vs_sub_custodian sha K a q j =
     select_path sha K a q DEPOSITORY_VS_SUB_CUSTODIAN None False
       (find_depository_paths (routing_tables a) j) (''jurisdiction='' @ py_repr j)"

definition select_large_value_payment_system where
  "select_large_value_payment_system sha K a q cur j f =
     select_path sha K a q LARGE_VALUE_PAYMENT_SYSTEM (Some cur) True
       (filter (\<lambda>p. serves p LARGE_VALUE_PAYMENT_SYSTEM) (find_rail_paths (routing_tables a) cur j f))
       (rail_criteria cur j f)"

text \<open>The facility is looked up by its identifier, and must serve the dimension.\<close>

definition fed_candidates :: "FIATOperationsSpecialist \<Rightarrow> string \<Rightarrow> ApprovedPath list" where
  "fed_candidates a i = (case find_path (routing_tables a) i of None \<Rightarrow> []
     | Some p \<Rightarrow> if serves p FED_RELATED_OPERATION then [p] else [])"

definition select_fed_related_operation where
  "select_fed_related_operation sha K a q i =
     select_path sha K a q FED_RELATED_OPERATION None False (fed_candidates a i)
       (''fed_facility='' @ py_repr i)"

definition select_cash_sweep_and_short_term_investment where
  "select_cash_sweep_and_short_term_investment sha K a q cur =
     select_path sha K a q CASH_SWEEP_AND_SHORT_TERM_INVESTMENT None False
       (find_cash_sweep_paths (routing_tables a) cur) (''currency='' @ py_repr cur)"

end
