(* ===== verification/FIAT_Props.thy ===== *)
theory FIAT_Props
  imports FIAT_Specialist Cato_Props
begin

text \<open>
  What the seven selections of the FIAT Operations Specialist do on every request: the one sequence of
  checks they share, what each outcome carries, when they raise, and that what is routed is approved,
  governed and attributed. \<open>selection\<close> names a call of one of the seven methods with its own arguments.
\<close>

subsection \<open>Well-formed requests\<close>

definition hex_digest :: "(string \<Rightarrow> string) \<Rightarrow> bool" where
  "hex_digest sha \<longleftrightarrow> (\<forall>s. sha256_hex (sha s))"

definition constructed :: "CustodyOperation \<Rightarrow> bool" where
  "constructed x \<longleftrightarrow> mk_DSORLineageStub (lineage x) = Inr (lineage x) \<and> mk_CustodyOperation x = Inr x"

definition constructed_tables :: "RoutingTables \<Rightarrow> bool" where
  "constructed_tables t \<longleftrightarrow> (\<forall>p \<in> set t. mk_ApprovedPath p = Inr p) \<and> mk_RoutingTables t = Inr t"

lemma constructed_path: "constructed_tables t \<Longrightarrow> p \<in> set t \<Longrightarrow> path_id p \<noteq> [] \<and> path_description p \<noteq> []"
  by (auto simp: constructed_tables_def mk_ApprovedPath_def)

lemma constructed_final: "constructed x \<Longrightarrow> inherent_safety_surface x = None \<Longrightarrow> failure_mode_class x \<noteq> UR_F"
  by (auto simp: constructed_def mk_CustodyOperation_def base_validators_def is_final_def split: sum.splits)

subsection \<open>Outputs that are always accepted\<close>

lemma hex_telemetry: "hex_digest sha \<Longrightarrow> sha256_hex (compute_telemetry_hash sha i k s)"
  by (simp add: hex_digest_def compute_telemetry_hash_def)

lemma escalation_fields:
  "failed_guardrail (request_escalation sha q d s g why tier) = g"
  "escalation_tier (request_escalation sha q d s g why tier) = tier"
  "lineage_stub (request_escalation sha q d s g why tier) = lineage (operation q)"
  "attempted_dimension (request_escalation sha q d s g why tier) = Some d"
  "cascade_guardrail (request_escalation sha q d s g why tier) = None"
  "esc_failure_reason (request_escalation sha q d s g why tier) = why"
  "base_output_checks (request_escalation sha q d s g why tier) =
     require (sha256_hex (compute_telemetry_hash sha (op_id q) ''escalation_required'' s)) Telemetry_Not_Hex (Inr ())"
  by (simp_all add: request_escalation_def escalation_def base_output_checks_def op_id_def)

lemma escalation_accepted:
  assumes "hex_digest sha" and "g \<notin> {DOCTRINE_OVER_CODE, ELIGIBILITY_BEFORE_ROUTING}" and "tier \<noteq> QUORUM"
  shows "mk_EscalationRequired (request_escalation sha q d s g why tier) = Inr (request_escalation sha q d s g why tier)"
  using assms by (simp add: mk_EscalationRequired_def escalation_fields hex_telemetry)

definition ineligible_escalation where
  "ineligible_escalation sha q d v =
     (let failed = sort (map (\<lambda>c. check_kind_value (check_kind c)) (failed_checks v)) in
      (request_escalation sha q d ([''eligibility_failed'', dimension_value d] @ failed)
         ELIGIBILITY_BEFORE_ROUTING (Why_Ineligible failed) T1)\<lparr>esc_eligibility := Some v\<rparr>)"

lemma ineligible_accepted:
  assumes "hex_digest sha" and "\<not> all_passed v"
  shows "build_eligibility_escalation sha q d v = Inr (ineligible_escalation sha q d v)"
  using assms
  by (simp add: build_eligibility_escalation_def ineligible_escalation_def Let_def mk_EscalationRequired_def
      base_output_checks_def request_escalation_def escalation_def op_id_def hex_telemetry)

lemma ineligible_fields:
  "failed_guardrail (ineligible_escalation sha q d v) = ELIGIBILITY_BEFORE_ROUTING"
  "escalation_tier (ineligible_escalation sha q d v) = T1"
  "lineage_stub (ineligible_escalation sha q d v) = lineage (operation q)"
  "esc_eligibility (ineligible_escalation sha q d v) = Some v"
  by (simp_all add: ineligible_escalation_def Let_def request_escalation_def escalation_def)

definition routing_of where
  "routing_of sha q p d v j =
     \<lparr>out_operation_id = op_id q, out_doctrine_version = CURRENT_DOCTRINE_VERSION,
      out_agent_class = AGENT_CLASS_FIAT_OPERATIONS_SPECIALIST,
      agent_telemetry_hash = compute_telemetry_hash sha (op_id q) ''routing_decision''
        [dimension_value d, path_id p, ''eligibility_passed'', verana_session_id j],
      lineage_stub = lineage (operation q), emitted_at = rq_emitted_at q,
      recommendation = \<lparr>path_selection_dimension = d, chosen_path = path_id p,
        rec_settlement_method = settlement_method (operation q), rec_rationale = path_description p\<rparr>,
      rd_eligibility = v, rd_attribution = j, rd_failure_mode_class = failure_mode_class (operation q)\<rparr>"

lemma routing_accepted:
  assumes "hex_digest sha" and "path_id p \<noteq> []" and "path_description p \<noteq> []" and "all_passed v"
    and "failure_mode_class (operation q) \<noteq> UR_F"
  shows "build_routing_decision sha q p d v j None = Inr (routing_of sha q p d v j)"
  using assms
  by (simp add: build_routing_decision_def recommend_def mk_RoutingRecommendation_def mk_RoutingDecision_def
      base_output_checks_def routing_of_def op_id_def hex_telemetry)

definition requalified :: "DSORLineageStub \<Rightarrow> string option \<Rightarrow> DSORLineageStub" where
  "requalified l h = l\<lparr>authority_tier := QUORUM,
     authority_id := (if authority_tier l = QUORUM then authority_id l else ''pending-ceremony''),
     post_operation_state_hash := h\<rparr>"

lemma quorum_lineage_accepted:
  assumes "mk_DSORLineageStub l = Inr l" and "case h of None \<Rightarrow> True | Some s \<Rightarrow> sha256_hex s"
  shows "quorum_lineage l h = Inr (requalified l h)"
  using assms by (cases l) (auto simp: quorum_lineage_def requalified_def mk_DSORLineageStub_def)

definition package_of where
  "package_of sha x v r d =
     \<lparr>packaged_operation = x, beneficial_owner_ids = [beneficial_owner_id (custody_object x)],
      asset_ids = [asset_name (object_asset_class (custody_object x))],
      package_doctrine_version = CURRENT_DOCTRINE_VERSION,
      pre_operation_dsor_state_stub = requalified (lineage x) None,
      projected_post_operation_dsor_state_stub = requalified (lineage x)
        (Some (project_post_operation_hash sha x d (map_option chosen_path r))),
      routing_recommendation = r, package_eligibility = v\<rparr>"

lemma package_accepted:
  assumes "hex_digest sha" and "mk_DSORLineageStub (lineage x) = Inr (lineage x)"
  shows "assemble_operation_package sha x v r d = Inr (package_of sha x v r d)"
proof -
  have "sha256_hex (project_post_operation_hash sha x d (map_option chosen_path r))"
    using assms(1) by (simp add: hex_digest_def project_post_operation_hash_def)
  then show ?thesis using assms(2)
    by (simp add: assemble_operation_package_def build_quorum_pre_operation_lineage_def
        build_quorum_projected_post_lineage_def quorum_lineage_accepted mk_OperationPackage_def package_of_def
        requalified_def)
qed

subsection \<open>The shared sequence\<close>

definition halted :: "'h kernel \<Rightarrow> 'h PathSelectionRequest \<Rightarrow> bool" where
  "halted K q \<longleftrightarrow> (\<exists>h. rq_halt q = Some h \<and> blocks_atreides K h)"

definition halted_escalation where
  "halted_escalation sha K q d = (let h = the (rq_halt q) in
     request_escalation sha q d [''tier_0_halt'', dimension_value d, halt_id K h, int_text (halt_version K h)]
       NO_SETTLEMENT_WITHOUT_LINEAGE (Why_Halted (halt_id K h) (halt_version K h) (halt_reason K h) d) T0)"

lemma halt_escalation_eq:
  assumes "hex_digest sha"
  shows "halt_escalation sha K q d =
    (if halted K q then Inr (Some (halted_escalation sha K q d)) else Inr None)"
  using assms
  by (auto simp: halt_escalation_def halted_def halted_escalation_def Let_def escalation_accepted split: option.split)

definition gate_open :: "'h PathSelectionRequest \<Rightarrow> PathSelectionDimension \<Rightarrow> bool" where
  "gate_open q d \<longleftrightarrow> (d \<in> set GATE_REQUIRED_DIMENSIONS \<longrightarrow>
     (\<exists>c. cato_cash_decision q = Some c \<and> proceeds c \<and> bound c))"

definition gate_hold where
  "gate_hold sha q d =
     (case cato_cash_decision q of
        None \<Rightarrow> request_escalation sha q d [''cato_cash_absent'', dimension_value d, ''HOLD'']
          NO_SETTLEMENT_WITHOUT_LINEAGE (Why_Gate_Absent d) T1
      | Some c \<Rightarrow>
          if proceeds c then request_escalation sha q d [''cato_cash_unbound'', dimension_value d, ''HOLD'']
            NO_SETTLEMENT_WITHOUT_LINEAGE (Why_Gate_Unbound d) T1
          else request_escalation sha q d
            [''cato_cash_'' @ map ascii_lower (member_text gate_decision_value (decision c)),
             dimension_value d, member_text reason_value (reason_code c)]
            NO_SETTLEMENT_WITHOUT_LINEAGE (Why_Gate_Held (decision c) d (reason_code c) (rationale c)) T1)"

lemma gate_hold_fields:
  "failed_guardrail (gate_hold sha q d) = NO_SETTLEMENT_WITHOUT_LINEAGE"
  "escalation_tier (gate_hold sha q d) = T1"
  "lineage_stub (gate_hold sha q d) = lineage (operation q)"
  by (simp_all add: gate_hold_def escalation_fields split: option.split)

lemma consult_eq:
  assumes "hex_digest sha"
  shows "consult_cash_leg_gate sha q d =
    (if gate_open q d then Inr None else Inr (Some (gate_hold sha q d)))"
proof (cases "d \<in> set GATE_REQUIRED_DIMENSIONS")
  case True
  then show ?thesis using assms
    by (simp add: consult_cash_leg_gate_def gate_open_def gate_hold_def proceeds_def escalation_accepted
        split: option.split)
qed (simp add: consult_cash_leg_gate_def gate_open_def)

definition quorum_of where
  "quorum_of sha q s p =
     \<lparr>out_operation_id = op_id q, out_doctrine_version = CURRENT_DOCTRINE_VERSION,
      out_agent_class = AGENT_CLASS_FIAT_OPERATIONS_SPECIALIST,
      agent_telemetry_hash = compute_telemetry_hash sha (op_id q) ''quorum_authority_required''
        [surface_value s,
         case routing_recommendation p of Some r \<Rightarrow> chosen_path r | None \<Rightarrow> ''no_path_determined''],
      lineage_stub = pre_operation_dsor_state_stub p, emitted_at = rq_emitted_at q,
      quorum_surface = s, operation_package = p\<rparr>"

definition recommended where
  "recommended q d candidates = (case candidates of [] \<Rightarrow> None | p # _ \<Rightarrow>
     Some \<lparr>path_selection_dimension = d, chosen_path = path_id p,
       rec_settlement_method = settlement_method (operation q), rec_rationale = path_description p\<rparr>)"

lemma route_to_quorum_eq:
  assumes "hex_digest sha" and "constructed (operation q)"
    and "\<forall>p \<in> set candidates. path_id p \<noteq> [] \<and> path_description p \<noteq> []"
  shows "route_to_quorum sha q s d candidates =
    (case verify_eligibility (eligibility_inputs q) of Inl e \<Rightarrow> Inl (Ineligible_Inputs e)
     | Inr v \<Rightarrow> if s \<in> set FIAT_SPECIALIST_OWNED_SURFACES
         then Inr (quorum_of sha q s (package_of sha (operation q) v (recommended q d candidates) d))
         else Inl Surface_Not_Owned)"
proof -
  have "(case candidates of [] \<Rightarrow> Inr None | p # _ \<Rightarrow> map_sum id Some (recommend (operation q) p d None)) =
      (Inr (recommended q d candidates) :: (agent_error, RoutingRecommendation option) result)"
    using assms(3) by (simp add: recommended_def recommend_def mk_RoutingRecommendation_def split: list.split)
  moreover have "assemble_operation_package sha (operation q) v r d = Inr (package_of sha (operation q) v r d)" for v r
    using assms(1,2) by (simp add: package_accepted constructed_def)
  moreover have "build_quorum_authority_required sha q s (package_of sha (operation q) v r d) =
      (if s \<in> set FIAT_SPECIALIST_OWNED_SURFACES
       then Inr (quorum_of sha q s (package_of sha (operation q) v r d)) else Inl Surface_Not_Owned)" for v r
    using assms(1)
    by (simp add: build_quorum_authority_required_def mk_QuorumAuthorityRequired_def base_output_checks_def
        quorum_of_def package_of_def requalified_def op_id_def hex_telemetry)
  ultimately show ?thesis
    by (simp add: route_to_quorum_def enforce_eligibility_def split: sum.split)
qed

lemma select_path_eq:
  assumes "hex_digest sha" and "constructed (operation q)"
    and cand: "\<forall>p \<in> set candidates. path_id p \<noteq> [] \<and> path_description p \<noteq> []"
  shows "select_path sha K a q d cur consults candidates criteria =
    (if halted K q then Inr (Escalated (halted_escalation sha K q d))
     else case check_material_magnitude a q d cur of
       Some s \<Rightarrow> (case verify_eligibility (eligibility_inputs q) of Inl e \<Rightarrow> Inl (Ineligible_Inputs e)
         | Inr v \<Rightarrow> if s \<in> set FIAT_SPECIALIST_OWNED_SURFACES
             then Inr (Quorum_Needed (quorum_of sha q s (package_of sha (operation q) v (recommended q d candidates) d)))
             else Inl Surface_Not_Owned)
     | None \<Rightarrow> (case verify_eligibility (eligibility_inputs q) of Inl e \<Rightarrow> Inl (Ineligible_Inputs e)
         | Inr v \<Rightarrow> if \<not> all_passed v then Inr (Escalated (ineligible_escalation sha q d v))
           else case attribution q of
             None \<Rightarrow> Inr (Escalated (request_escalation sha q d [''attribution_missing'', dimension_value d]
               JURISDICTIONAL_ATTRIBUTION Why_No_Attribution T2))
           | Some j \<Rightarrow> if consults \<and> \<not> gate_open q d then Inr (Escalated (gate_hold sha q d))
             else case candidates of
               [] \<Rightarrow> Inr (Escalated (request_escalation sha q d [''no_approved_path'', dimension_value d, criteria]
                 APPROVED_PATHS_ONLY (Why_No_Path d criteria) T1))
             | p # _ \<Rightarrow> Inr (Routing (routing_of sha q p d v j))))"
proof (cases "halted K q")
  case True
  then show ?thesis by (simp add: select_path_def halt_escalation_eq [OF assms(1)])
next
  case False
  note nohalt = False
  show ?thesis
  proof (cases "check_material_magnitude a q d cur")
    case (Some s)
    with nohalt show ?thesis
      by (simp add: select_path_def halt_escalation_eq [OF assms(1)] route_to_quorum_eq [OF assms] split: sum.split)
  next
    case None
    then have surf: "inherent_safety_surface (operation q) = None"
      by (auto simp: check_material_magnitude_def Let_def split: if_splits)
    have route: "build_routing_decision sha q p d v j None = Inr (routing_of sha q p d v j)"
      if "candidates = p # ps" "all_passed v" for p ps v j
      using assms that by (simp add: routing_accepted constructed_final [OF _ surf])
    show ?thesis
    proof (cases "verify_eligibility (eligibility_inputs q)")
      case (Inl e)
      with None nohalt show ?thesis
        by (simp add: select_path_def halt_escalation_eq [OF assms(1)] run_pre_path_guardrails_def enforce_eligibility_def)
    next
      case (Inr v)
      with None nohalt show ?thesis
        by (cases candidates)
          (simp_all add: select_path_def halt_escalation_eq [OF assms(1)] run_pre_path_guardrails_def
            enforce_eligibility_def ineligible_accepted [OF assms(1)] consult_eq [OF assms(1)] route
            build_attribution_escalation_def build_approved_paths_escalation_def
            escalation_accepted [OF assms(1)] split: option.split)
    qed
  qed
qed

subsection \<open>The calls\<close>

datatype selection =
    Rail_Call string "string option" "FinalityModel option" | Correspondent_Call string "string option"
  | FX_Call string | Depository_Call string | LVPS_Call string "string option" "FinalityModel option"
  | Fed_Call string | Sweep_Call string

fun select where
  "select sha K a q (Rail_Call c j f) = select_multi_currency_rail_routing sha K a q c j f"
| "select sha K a q (Correspondent_Call c j) = select_correspondent_banking_coordination sha K a q c j"
| "select sha K a q (FX_Call pair) = select_cross_border_fx_leg sha K a q pair"
| "select sha K a q (Depository_Call j) = select_depository_vs_sub_custodian sha K a q j"
| "select sha K a q (LVPS_Call c j f) = select_large_value_payment_system sha K a q c j f"
| "select sha K a q (Fed_Call i) = select_fed_related_operation sha K a q i"
| "select sha K a q (Sweep_Call c) = select_cash_sweep_and_short_term_investment sha K a q c"

fun dimension_of :: "selection \<Rightarrow> PathSelectionDimension" where
  "dimension_of (Rail_Call c j f) = MULTI_CURRENCY_RAIL_ROUTING"
| "dimension_of (Correspondent_Call c j) = CORRESPONDENT_BANKING_COORDINATION"
| "dimension_of (FX_Call pair) = CROSS_BORDER_FX_LEG"
| "dimension_of (Depository_Call j) = DEPOSITORY_VS_SUB_CUSTODIAN"
| "dimension_of (LVPS_Call c j f) = LARGE_VALUE_PAYMENT_SYSTEM"
| "dimension_of (Fed_Call i) = FED_RELATED_OPERATION"
| "dimension_of (Sweep_Call c) = CASH_SWEEP_AND_SHORT_TERM_INVESTMENT"

fun tested_currency :: "selection \<Rightarrow> string option" where
  "tested_currency (Rail_Call c j f) = Some c"
| "tested_currency (Correspondent_Call c j) = Some c"
| "tested_currency (FX_Call pair) = Some (base_of_pair pair)"
| "tested_currency (LVPS_Call c j f) = Some c"
| "tested_currency c = None"

fun candidates_of :: "FIATOperationsSpecialist \<Rightarrow> selection \<Rightarrow> ApprovedPath list" where
  "candidates_of a (Rail_Call c j f) = find_rail_paths (routing_tables a) c j f"
| "candidates_of a (Correspondent_Call c j) = find_correspondent_paths (routing_tables a) c j"
| "candidates_of a (FX_Call pair) = find_fx_pvp_paths (routing_tables a) pair"
| "candidates_of a (Depository_Call j) = find_depository_paths (routing_tables a) j"
| "candidates_of a (LVPS_Call c j f) =
     filter (\<lambda>p. serves p LARGE_VALUE_PAYMENT_SYSTEM) (find_rail_paths (routing_tables a) c j f)"
| "candidates_of a (Fed_Call i) = fed_candidates a i"
| "candidates_of a (Sweep_Call c) = find_cash_sweep_paths (routing_tables a) c"

definition trigger where
  "trigger a q c = check_material_magnitude a q (dimension_of c) (tested_currency c)"

lemmas select_defs = select_multi_currency_rail_routing_def select_correspondent_banking_coordination_def
  select_cross_border_fx_leg_def select_depository_vs_sub_custodian_def select_large_value_payment_system_def
  select_fed_related_operation_def select_cash_sweep_and_short_term_investment_def

lemma select_is_select_path:
  "\<exists>criteria. select sha K a q c = select_path sha K a q (dimension_of c) (tested_currency c)
     (dimension_of c \<in> set GATE_REQUIRED_DIMENSIONS) (candidates_of a c) criteria"
  by (cases c) (auto simp: select_defs GATE_REQUIRED_DIMENSIONS_def)

lemma candidates_listed: "p \<in> set (candidates_of a c) \<Longrightarrow> p \<in> set (routing_tables a)"
  by (cases c) (auto simp: find_rail_paths_def find_correspondent_paths_def find_fx_pvp_paths_def
      find_depository_paths_def find_cash_sweep_paths_def fed_candidates_def find_path_def
      split: option.splits if_splits dest: find_SomeD dest!: sym [of "Some _"])

lemma candidates_serve:
  assumes "p \<in> set (candidates_of a c)" and "dimension_of c \<noteq> MULTI_CURRENCY_RAIL_ROUTING"
  shows "serves p (dimension_of c)"
  using assms
  by (cases c) (auto simp: find_rail_paths_def find_correspondent_paths_def find_fx_pvp_paths_def
      find_depository_paths_def find_cash_sweep_paths_def fed_candidates_def split: option.splits if_splits)

text \<open>A selection on well-formed arguments, outcome by outcome.\<close>

definition well_formed where
  "well_formed sha a q \<longleftrightarrow>
     hex_digest sha \<and> constructed (operation q) \<and> constructed_tables (routing_tables a)"

definition agent_outcome where
  "agent_outcome sha K a q c criteria =
    (let d = dimension_of c in
     if halted K q then Inr (Escalated (halted_escalation sha K q d))
     else case verify_eligibility (eligibility_inputs q) of Inl e \<Rightarrow> Inl (Ineligible_Inputs e)
     | Inr v \<Rightarrow>
       (case trigger a q c of
         Some s \<Rightarrow> if s \<in> set FIAT_SPECIALIST_OWNED_SURFACES
           then Inr (Quorum_Needed (quorum_of sha q s
                  (package_of sha (operation q) v (recommended q d (candidates_of a c)) d)))
           else Inl Surface_Not_Owned
       | None \<Rightarrow> if \<not> all_passed v then Inr (Escalated (ineligible_escalation sha q d v))
           else case attribution q of
             None \<Rightarrow> Inr (Escalated (request_escalation sha q d [''attribution_missing'', dimension_value d]
               JURISDICTIONAL_ATTRIBUTION Why_No_Attribution T2))
           | Some j \<Rightarrow> if \<not> gate_open q d then Inr (Escalated (gate_hold sha q d))
             else case candidates_of a c of
               [] \<Rightarrow> Inr (Escalated (request_escalation sha q d [''no_approved_path'', dimension_value d, criteria]
                 APPROVED_PATHS_ONLY (Why_No_Path d criteria) T1))
             | p # _ \<Rightarrow> Inr (Routing (routing_of sha q p d v j))))"

lemma select_eq:
  assumes "well_formed sha a q"
  obtains criteria where "select sha K a q c = agent_outcome sha K a q c criteria"
proof -
  obtain criteria where c: "select sha K a q c = select_path sha K a q (dimension_of c) (tested_currency c)
     (dimension_of c \<in> set GATE_REQUIRED_DIMENSIONS) (candidates_of a c) criteria"
    using select_is_select_path by blast
  have "\<forall>p \<in> set (candidates_of a c). path_id p \<noteq> [] \<and> path_description p \<noteq> []"
    using assms constructed_path by (auto simp: well_formed_def dest!: candidates_listed)
  then have "select sha K a q c = agent_outcome sha K a q c criteria"
    using assms
    by (cases "trigger a q c"; cases "verify_eligibility (eligibility_inputs q)"; cases "attribution q")
      (auto simp: c select_path_eq well_formed_def trigger_def Let_def agent_outcome_def gate_open_def)
  then show thesis by (rule that)
qed

lemma select_routes:
  assumes "well_formed sha a q"
  shows "select sha K a q c = Inr (Routing r) \<longleftrightarrow>
    \<not> halted K q \<and> trigger a q c = None \<and> gate_open q (dimension_of c) \<and>
    (\<exists>v j p ps. verify_eligibility (eligibility_inputs q) = Inr v \<and> all_passed v \<and> attribution q = Some j \<and>
       candidates_of a c = p # ps \<and> r = routing_of sha q p (dimension_of c) v j)"
proof -
  obtain criteria where e: "select sha K a q c = agent_outcome sha K a q c criteria"
    by (rule select_eq [OF assms])
  show ?thesis
    unfolding e agent_outcome_def Let_def
    by (auto split: if_splits sum.splits option.splits list.splits)
qed

lemma select_quorum:
  assumes "well_formed sha a q"
  shows "select sha K a q c = Inr (Quorum_Needed x) \<longleftrightarrow>
    \<not> halted K q \<and> (\<exists>s v. trigger a q c = Some s \<and> s \<in> set FIAT_SPECIALIST_OWNED_SURFACES \<and>
      verify_eligibility (eligibility_inputs q) = Inr v \<and>
      x = quorum_of sha q s (package_of sha (operation q) v
            (recommended q (dimension_of c) (candidates_of a c)) (dimension_of c)))"
proof -
  obtain criteria where e: "select sha K a q c = agent_outcome sha K a q c criteria"
    by (rule select_eq [OF assms])
  show ?thesis
    unfolding e agent_outcome_def Let_def
    by (auto split: if_splits sum.splits option.splits list.splits)
qed

lemma select_raises:
  assumes "well_formed sha a q"
  shows "select sha K a q c = Inl e \<longleftrightarrow> \<not> halted K q \<and>
    (case verify_eligibility (eligibility_inputs q) of
       Inl err \<Rightarrow> e = Ineligible_Inputs err
     | Inr v \<Rightarrow> (\<exists>s. trigger a q c = Some s \<and> s \<notin> set FIAT_SPECIALIST_OWNED_SURFACES) \<and> e = Surface_Not_Owned)"
proof -
  obtain criteria where r: "select sha K a q c = agent_outcome sha K a q c criteria"
    by (rule select_eq [OF assms])
  show ?thesis
    unfolding r agent_outcome_def Let_def
    by (auto split: if_splits sum.splits option.splits list.splits)
qed

lemma unowned_trigger:
  assumes "trigger a q c = Some s" and "s \<notin> set FIAT_SPECIALIST_OWNED_SURFACES"
  shows "inherent_safety_surface (operation q) = Some s"
  using assms
  by (auto simp: trigger_def check_material_magnitude_def Let_def FIAT_SPECIALIST_OWNED_SURFACES_def
      split: if_splits option.splits)

lemma declared_trigger: "inherent_safety_surface (operation q) = Some s \<Longrightarrow> trigger a q c = Some s"
  by (simp add: trigger_def check_material_magnitude_def)

subsection \<open>Concrete arguments\<close>

definition w_sha :: "string \<Rightarrow> string" where
  "w_sha s = replicate 64 (CHR ''0'')"

definition w_stub :: DSORLineageStub where
  "w_stub = \<lparr>ls_operation_id = ''op-1'', ls_doctrine_version = ''1.6'', caom_mode = ''CAOM-001'',
     authority_tier = T1, authority_id = ''desk'', initiated_at = 0, ls_session_id = None, c2_handoff_id = None,
     pre_operation_state_hash = w_sha [], post_operation_state_hash = None\<rparr>"

definition w_custody :: CustodyOperation where
  "w_custody = \<lparr>operation_kind = Equity LONG_BUY None, lineage = w_stub,
     custody_object = \<lparr>beneficial_owner_id = ''BO'', object_asset_class =
       \<lparr>major_category = TRADITIONAL_FINANCIAL_SECURITIES, representation = FIAT_REP, sub_category = ''equity'',
        underlying_category = None, asset_identifier = Some ''US0378331005''\<rparr>,
       object_category = Ordinary_Safekeeping\<rparr>,
     failure_mode_class = RA, inherent_safety_surface = None, quorum_authority = None, settlement_method = Some DvP1\<rparr>"

definition w_specialist :: FIATOperationsSpecialist where
  "w_specialist = \<lparr>routing_tables = [fedwire, mmf_government_cnav],
     magnitude_threshold_policy = \<lparr>fiat_settlement_thresholds = [(''USD'', 1000)], lvps_finality_thresholds = [],
       fx_bundled_thresholds = [], sanctioned_adjacency_jurisdictions = []\<rparr>\<rparr>"

definition w_attribution :: JurisdictionalAttribution where
  "w_attribution = \<lparr>originating_jurisdiction = ''US'', receiving_jurisdiction = ''US'',
     intermediary_jurisdictions = [], verana_session_id = ''V1'', attributed_at = 0\<rparr>"

definition w_request :: "CatoCashDecision option \<Rightarrow> nat option \<Rightarrow> rat option \<Rightarrow> nat PathSelectionRequest" where
  "w_request d h x = \<lparr>operation = w_custody, eligibility_inputs = w_evidence, attribution = Some w_attribution,
     rq_emitted_at = 1, cato_cash_decision = d, rq_halt = h, rq_amount = x\<rparr>"

lemma w_hex: "hex_digest w_sha"
  by (simp add: hex_digest_def w_sha_def sha256_hex_def list_all_iff digit_char_def)

lemma w_well_formed: "well_formed w_sha w_specialist (w_request d h x)"
proof -
  have "sha256_hex (w_sha [])" using w_hex by (simp add: hex_digest_def)
  then have "constructed w_custody"
    by (simp add: constructed_def mk_DSORLineageStub_def w_custody_def w_stub_def version_pattern_def digit_char_def
        mk_CustodyOperation_def base_validators_def equity_validators_def is_final_def)
  moreover have "constructed_tables (routing_tables w_specialist)"
    by (simp add: constructed_tables_def w_specialist_def mk_RoutingTables_iff default_paths mk_ApprovedPath_def
        rail_class_def serves_def)
  ultimately show ?thesis using w_hex by (simp add: well_formed_def w_request_def)
qed

lemma w_eligible: "\<exists>v. verify_eligibility (eligibility_inputs (w_request d h x)) = Inr v \<and> all_passed v"
proof -
  obtain v where v: "verify_eligibility w_evidence = Inr v" using w_evidence_verify by blast
  then have m: "map passed (checks v) = [True, True, True, True, True]"
    using verification_outcome [of w_evidence] by (simp add: w_evidence_def current_at_def before_def)
  have "all_passed v" unfolding all_passed_map m by simp
  then show ?thesis using v by (simp add: w_request_def)
qed

lemma w_trigger:
  "trigger w_specialist (w_request d h None) c = None"
  "trigger w_specialist (w_request d h (Some 1000)) (Rail_Call ''USD'' None None) = Some FIAT_SETTLEMENT_MATERIAL"
  by (simp_all add: trigger_def check_material_magnitude_def w_request_def w_custody_def w_attribution_def
      w_specialist_def is_sanctioned_adjacent_def is_fiat_settlement_material_def meets_def)

lemma w_candidates:
  "candidates_of w_specialist (Rail_Call ''USD'' None None) = [fedwire]"
  "candidates_of w_specialist (Sweep_Call ''USD'') = [mmf_government_cnav]"
  by (simp_all add: w_specialist_def find_rail_paths_def find_cash_sweep_paths_def rail_class_def serves_def
      in_jurisdiction_def default_paths)

lemma w_routed:
  "\<exists>r. select w_sha w_kernel w_specialist (w_request None None None) (Sweep_Call ''USD'') = Inr (Routing r)"
  unfolding select_routes [OF w_well_formed]
  using w_eligible [of None None None] w_trigger(1) w_candidates(2)
  by (simp add: halted_def gate_open_def GATE_REQUIRED_DIMENSIONS_def) (simp add: w_request_def)

text \<open>The same operation with a final failure, declared on a surface of the agent.\<close>

definition w_final :: "QuorumAuthority \<Rightarrow> nat PathSelectionRequest" where
  "w_final qa = (w_request None None None)\<lparr>operation := w_custody
     \<lparr>lineage := w_stub\<lparr>authority_tier := QUORUM\<rparr>, failure_mode_class := UR_F,
      inherent_safety_surface := Some LARGE_VALUE_PAYMENT_FINALITY, quorum_authority := Some qa\<rparr>\<rparr>"

lemma w_final_well_formed: "well_formed w_sha w_specialist (w_final qa)"
proof -
  have "sha256_hex (w_sha [])" using w_hex by (simp add: hex_digest_def)
  then have "constructed (operation (w_final qa))"
    by (simp add: w_final_def constructed_def mk_DSORLineageStub_def w_custody_def w_stub_def version_pattern_def
        digit_char_def mk_CustodyOperation_def base_validators_def equity_validators_def)
  then show ?thesis using w_well_formed [of None None None] by (simp add: well_formed_def)
qed

lemma obligation_of_decisions:
  "obligation_id (halt_decision K g op f uri oid dig) = oid"
  "obligation_id (unrecognised_decision op f uri oid dig) = oid"
  "obligation_id (Cato_Gate.decide cs op f uri oid dig v) = oid"
  by (simp_all add: halt_decision_def unrecognised_decision_def Let_def Cato_Gate.decide_def split: prod.split)

lemma post_init_bound: "decision_post_init K x = Inr d \<Longrightarrow> bound d \<longleftrightarrow> obligation_id x \<noteq> None"
  by (simp add: bound_def decision_post_init_fields(10))

lemma evaluate_bound:
  assumes "evaluate K op f rails ofr uri age policy oid dig h = Inr d"
  shows "bound d \<longleftrightarrow> oid \<noteq> None"
  using assms by (auto simp: evaluate_def obligation_of_decisions dest!: post_init_bound split: if_splits)

subsection \<open>Properties\<close>

text \<open>
  C4: on well-formed arguments a selection routes exactly when no halt covers Atreides, nothing makes the
  operation material, every eligibility check passes, the operation is attributed, the cash gate - where
  the dimension needs one - proceeds for a named obligation, and a path is listed; the routing is then
  the first listed path with the verification, the attribution and the lineage of the request.
\<close>

theorem agent_routes_iff:
  assumes "well_formed sha a q"
  shows "select sha K a q c = Inr (Routing r) \<longleftrightarrow>
    \<not> (\<exists>h. rq_halt q = Some h \<and> blocks_atreides K h) \<and>
    check_material_magnitude a q (dimension_of c) (tested_currency c) = None \<and>
    (dimension_of c \<in> set GATE_REQUIRED_DIMENSIONS \<longrightarrow>
      (\<exists>g. cato_cash_decision q = Some g \<and> proceeds g \<and> bound g)) \<and>
    (\<exists>v j p ps. verify_eligibility (eligibility_inputs q) = Inr v \<and> all_passed v \<and> attribution q = Some j \<and>
       candidates_of a c = p # ps \<and> r = routing_of sha q p (dimension_of c) v j)"
  using select_routes [OF assms] by (simp only: halted_def trigger_def gate_open_def)

theorem agent_routes_iff_witness:
  "\<exists>r. select w_sha w_kernel w_specialist (w_request None None None) (Sweep_Call ''USD'') = Inr (Routing r)"
proof -
  obtain v where v: "verify_eligibility (eligibility_inputs (w_request None None None)) = Inr v" "all_passed v"
    using w_eligible by blast
  have "check_material_magnitude w_specialist (w_request None None None) (dimension_of (Sweep_Call ''USD''))
      (tested_currency (Sweep_Call ''USD'')) = None"
    using w_trigger(1) unfolding trigger_def .
  then show ?thesis
    unfolding agent_routes_iff [OF w_well_formed]
    using v w_candidates(2) by (simp add: w_request_def GATE_REQUIRED_DIMENSIONS_def)
qed

text \<open>
  what is routed is approved. Except in dimension 1, the path of a routing is registered for the
  dimension of the call; in dimension 1 it is a registered rail that carries the currency, in the stated
  jurisdiction and of the preferred finality. The routing carries the lineage, the settlement method and
  the attribution of the request, all its checks passed, and its failure is not final.
\<close>

theorem routed_path_is_approved:
  assumes "well_formed sha a q" and "select sha K a q c = Inr (Routing r)"
  shows "(dimension_of c \<noteq> MULTI_CURRENCY_RAIL_ROUTING \<longrightarrow>
      is_approved (routing_tables a) (chosen_path (recommendation r)) (dimension_of c)) \<and>
    (\<forall>cur j f. c = Rail_Call cur j f \<longrightarrow> (\<exists>p \<in> set (routing_tables a). path_id p = chosen_path (recommendation r) \<and>
      rail_class p \<and> cur \<in> set (eligible_currencies p) \<and> in_jurisdiction j p \<and> (f = None \<or> finality_model p = f))) \<and>
    lineage_stub r = lineage (operation q) \<and> Some (rd_attribution r) = attribution q \<and>
    all_passed (rd_eligibility r) \<and> rd_failure_mode_class r \<noteq> UR_F \<and>
    rec_settlement_method (recommendation r) = settlement_method (operation q)"
proof -
  obtain v j p ps where r: "verify_eligibility (eligibility_inputs q) = Inr v" "all_passed v"
    "attribution q = Some j" "candidates_of a c = p # ps" "r = routing_of sha q p (dimension_of c) v j"
    and t: "trigger a q c = None"
    using assms(2) unfolding select_routes [OF assms(1)] by blast
  from r(4) have p: "p \<in> set (candidates_of a c)" by simp
  have "inherent_safety_surface (operation q) = None"
    using t declared_trigger by (metis option.exhaust option.simps(3))
  then have final: "failure_mode_class (operation q) \<noteq> UR_F"
    using assms(1) by (simp add: well_formed_def constructed_final)
  have "distinct (map path_id (routing_tables a))"
    using assms(1) by (simp add: well_formed_def constructed_tables_def mk_RoutingTables_iff)
  then have "is_approved (routing_tables a) (path_id p) d \<longleftrightarrow> serves p d" for d
    by (rule approved_member) (rule candidates_listed [OF p])
  then have "dimension_of c \<noteq> MULTI_CURRENCY_RAIL_ROUTING \<longrightarrow>
      is_approved (routing_tables a) (path_id p) (dimension_of c)"
    using candidates_serve [OF p] by simp
  moreover have "c = Rail_Call cur jur f \<Longrightarrow> rail_class p \<and> cur \<in> set (eligible_currencies p) \<and>
      in_jurisdiction jur p \<and> (f = None \<or> finality_model p = f)" for cur jur f
    using p by (simp add: find_rail_paths_def)
  ultimately show ?thesis
    using r candidates_listed [OF p] final unfolding r(5) routing_of_def by fastforce
qed

theorem routed_path_is_approved_witness:
  "\<exists>r. select w_sha w_kernel w_specialist (w_request None None None) (Sweep_Call ''USD'') = Inr (Routing r) \<and>
     is_approved (routing_tables w_specialist) (chosen_path (recommendation r)) CASH_SWEEP_AND_SHORT_TERM_INVESTMENT"
proof -
  obtain r where r: "select w_sha w_kernel w_specialist (w_request None None None) (Sweep_Call ''USD'') = Inr (Routing r)"
    using w_routed by blast
  then show ?thesis using routed_path_is_approved [OF w_well_formed r] by auto
qed

text \<open>
  C14: the route to quorum. A selection asks for a quorum exactly when no halt is in force and something
  makes the operation material on a surface of the agent, and then for every such operation, eligible or
  not. The package holds the operation, both lineages at the quorum tier under the operation's identifier,
  a projected end state, and the verification as it came out.
\<close>

theorem quorum_exactly_on_triggers:
  assumes "well_formed sha a q" and "verify_eligibility (eligibility_inputs q) = Inr v"
  shows "((\<exists>x. select sha K a q c = Inr (Quorum_Needed x)) \<longleftrightarrow> \<not> halted K q \<and>
      (\<exists>s \<in> set FIAT_SPECIALIST_OWNED_SURFACES.
        check_material_magnitude a q (dimension_of c) (tested_currency c) = Some s)) \<and>
    (\<forall>x. select sha K a q c = Inr (Quorum_Needed x) \<longrightarrow>
      check_material_magnitude a q (dimension_of c) (tested_currency c) = Some (quorum_surface x) \<and>
      packaged_operation (operation_package x) = operation q \<and>
      package_eligibility (operation_package x) = v \<and>
      (\<forall>l \<in> {lineage_stub x, pre_operation_dsor_state_stub (operation_package x),
               projected_post_operation_dsor_state_stub (operation_package x)}.
         authority_tier l = QUORUM \<and> ls_operation_id l = ls_operation_id (lineage (operation q)) \<and>
         pre_operation_state_hash l = pre_operation_state_hash (lineage (operation q))) \<and>
      post_operation_state_hash (projected_post_operation_dsor_state_stub (operation_package x)) \<noteq> None)"
  unfolding select_quorum [OF assms(1)] trigger_def
  using assms(2) by (auto simp: quorum_of_def package_of_def requalified_def)

theorem quorum_exactly_on_triggers_witness:
  "\<exists>x. select w_sha w_kernel w_specialist (w_request None None (Some 1000)) (Rail_Call ''USD'' None None) =
     Inr (Quorum_Needed x)"
proof -
  obtain v where v: "verify_eligibility (eligibility_inputs (w_request None None (Some 1000))) = Inr v"
    using w_eligible by blast
  show ?thesis
    using quorum_exactly_on_triggers [OF w_well_formed v, of w_kernel "Rail_Call ''USD'' None None"]
      w_trigger(2) [of None None]
    by (simp add: trigger_def FIAT_SPECIALIST_OWNED_SURFACES_def halted_def) (simp add: w_request_def)
qed

text \<open>
  C16: a final failure is never handled by one tier. An operation whose failure is final is never routed,
  and while no halt is in force it is not escalated either: the selection asks for a quorum, or raises
  because the surface is another agent's or the evidence mixes naive and aware times.
\<close>

theorem final_operation_needs_a_quorum:
  assumes "well_formed sha a q" and "failure_mode_class (operation q) = UR_F" and "\<not> halted K q"
  shows "(\<exists>x. select sha K a q c = Inr (Quorum_Needed x)) \<or> select sha K a q c = Inl Surface_Not_Owned \<or>
    select sha K a q c = Inl (Ineligible_Inputs Mixed_Datetimes)"
proof -
  obtain s where s: "inherent_safety_surface (operation q) = Some s"
    using assms(1,2) constructed_final [of "operation q"] by (auto simp: well_formed_def)
  show ?thesis
    using assms(3) verify_eligibility_raises [of "eligibility_inputs q"]
    unfolding select_quorum [OF assms(1)] select_raises [OF assms(1)] declared_trigger [OF s]
    by (cases "verify_eligibility (eligibility_inputs q)") auto
qed

text \<open>
  C15: a halt stops everything. While a halt that covers Atreides is in force every selection, the
  quorum route included, ends in an escalation at tier 0 that carries the operation's lineage; no
  other escalation of the agent is at tier 0.
\<close>

theorem halted_agent_selects_nothing:
  assumes "well_formed sha a q"
  shows "(halted K q \<longleftrightarrow> (\<exists>x. select sha K a q c = Inr (Escalated x) \<and> escalation_tier x = T0)) \<and>
    (\<forall>x. select sha K a q c = Inr (Escalated x) \<longrightarrow> lineage_stub x = lineage (operation q))"
proof -
  obtain criteria where e: "select sha K a q c = agent_outcome sha K a q c criteria"
    by (rule select_eq [OF assms])
  have "lineage_stub (halted_escalation sha K q d) = lineage (operation q)"
    "escalation_tier (halted_escalation sha K q d) = T0" for d
    by (simp_all add: halted_escalation_def Let_def escalation_fields)
  then show ?thesis
    unfolding e agent_outcome_def Let_def
    by (auto simp: escalation_fields ineligible_fields gate_hold_fields
        split: if_splits sum.splits option.splits list.splits)
qed

theorem final_operation_needs_a_quorum_witness:
  "\<exists>qa x. select w_sha w_kernel w_specialist (w_final qa) (Sweep_Call ''USD'') = Inr (Quorum_Needed x)"
proof -
  obtain qa where "mk_QuorumAuthority id \<lparr>thr_n = 2, thr_m = 3\<rparr> {IDENTITY, ORGANIZATIONAL, SYSTEM} w_pool
     [w_signature ''A'', w_signature ''B''] OPERATION_EXECUTION COMPLETED None = Inr qa"
    using w_quorum by blast
  have d: "inherent_safety_surface (operation (w_final qa)) = Some LARGE_VALUE_PAYMENT_FINALITY"
    "failure_mode_class (operation (w_final qa)) = UR_F" "\<not> halted w_kernel (w_final qa)"
    "eligibility_inputs (w_final qa) = w_evidence"
    by (simp_all add: w_final_def w_request_def halted_def)
  obtain v where v: "verify_eligibility w_evidence = Inr v" using w_evidence_verify by blast
  have "select w_sha w_kernel w_specialist (w_final qa) (Sweep_Call ''USD'') \<noteq> Inl e" for e
    unfolding select_raises [OF w_final_well_formed] d(4) v declared_trigger [OF d(1)]
    by (simp add: FIAT_SPECIALIST_OWNED_SURFACES_def)
  then show ?thesis
    using final_operation_needs_a_quorum [OF w_final_well_formed d(2,3)] by blast
qed

theorem halted_agent_selects_nothing_witness:
  "\<exists>x. select w_sha w_kernel w_specialist (w_request None (Some 1) (Some 1000)) (Rail_Call ''USD'' None None) =
     Inr (Escalated x) \<and> escalation_tier x = T0"
proof -
  have "halted w_kernel (w_request None (Some 1) (Some 1000))"
    by (simp add: halted_def w_request_def w_kernel_def)
  then show ?thesis using halted_agent_selects_nothing [OF w_well_formed] by blast
qed

text \<open>
  C7: end to end, a routed cash leg is one the cash gate let through: when the request of a routing in a
  gated dimension carries what \<open>evaluate\<close> returned, the gate saw no blocking halt, a finite stress reading
  of at most one half and fresh evidence, a non-material operation with no counterparty in bad standing,
  a position that covers the obligation within the risk controls, and an obligation it was told to name.
\<close>

theorem routed_cash_leg_was_governed:
  assumes "well_formed sha a q" and "select sha K a q c = Inr (Routing r)"
    and "dimension_of c \<in> set GATE_REQUIRED_DIMENSIONS" and "cato_cash_decision q = Some d"
    and "evaluate K' op f rails ofr uri age policy oid dig h = Inr d"
  shows "(\<forall>x. h = Some x \<longrightarrow> \<not> blocks_atreides K' x) \<and> (\<exists>x. ofr = Finite x \<and> x \<le> 1 / 2) \<and>
    check_freshness op rails age policy = None \<and> \<not> is_material op \<and>
    (\<forall>cp. counterparty op = Some cp \<longrightarrow> standing cp = IN_GOOD_STANDING) \<and>
    net_obligation f \<le> projected_funded_position f \<and> 0 \<le> net_debit_cap_headroom f \<and>
    clearing_fund_sufficient f \<and> oid \<noteq> None"
proof -
  have "gate_open q (dimension_of c)" using assms(2) unfolding select_routes [OF assms(1)] by blast
  then have d: "proceeds d" "bound d" using assms(3,4) by (simp_all add: gate_open_def)
  then have "oid \<noteq> None" using evaluate_bound [OF assms(5)] by simp
  with d(1) show ?thesis
    unfolding evaluate_decision_iff [OF assms(5)] gate_verdict_proceed_iff gate_check_list_silent is_funded_def
    by blast
qed

definition w_digest :: string where
  "w_digest = ''sha256:'' @ w_sha []"

lemma w_governed:
  obtains d where "evaluate w_kernel w_operation w_funding [w_rail FEDWIRE] (Finite 0) None None None
      (Some ''OB-1'') (Some w_digest) None = Inr d" and "proceeds d" and "bound d"
proof -
  have "binding_ok w_kernel (Some ''OB-1'') (Some w_digest)"
    by (simp add: binding_ok_def w_kernel_def digest_match_def w_digest_def w_sha_def list_all_iff lower_hex_def)
  then obtain d where d: "evaluate w_kernel w_operation w_funding [w_rail FEDWIRE] (Finite 0) None None None
      (Some ''OB-1'') (Some w_digest) None = Inr d"
    using evaluate_returns by blast
  have "recommend_rail w_operation [w_rail FEDWIRE] (Finite 0) \<noteq> None"
    by (rule recommend_rail_total [OF _ w_serviceable]) (simp add: w_operation_def)
  then have "proceeds d"
    unfolding evaluate_decision_iff [OF d] gate_verdict_proceed_iff gate_check_list_silent
    using w_serviceable
    by (simp add: op_unrecognised_fields_Nil is_funded_def check_freshness_def)
      (simp add: w_operation_def w_funding_def)
  then show thesis using evaluate_bound [OF d] d that by simp
qed

theorem routed_cash_leg_was_governed_witness:
  "\<exists>d r. select w_sha w_kernel w_specialist (w_request (Some d) None None) (Rail_Call ''USD'' None None) =
     Inr (Routing r) \<and> net_obligation w_funding \<le> projected_funded_position w_funding"
proof -
  obtain d where d: "evaluate w_kernel w_operation w_funding [w_rail FEDWIRE] (Finite 0) None None None
      (Some ''OB-1'') (Some w_digest) None = Inr d" "proceeds d" "bound d"
    by (rule w_governed)
  have g: "cato_cash_decision (w_request (Some d) None None) = Some d"
    "attribution (w_request (Some d) None None) = Some w_attribution"
    "\<not> halted w_kernel (w_request (Some d) None None)"
    by (simp_all add: w_request_def halted_def)
  have "\<exists>r. select w_sha w_kernel w_specialist (w_request (Some d) None None) (Rail_Call ''USD'' None None) =
     Inr (Routing r)"
    unfolding select_routes [OF w_well_formed] w_trigger w_candidates(1)
    using d(2,3) g w_eligible [of "Some d" None None] by (simp add: gate_open_def)
  then obtain r where r: "select w_sha w_kernel w_specialist (w_request (Some d) None None)
      (Rail_Call ''USD'' None None) = Inr (Routing r)" by blast
  have "net_obligation w_funding \<le> projected_funded_position w_funding"
    using routed_cash_leg_was_governed [OF w_well_formed r _ g(1) d(1)] by (simp add: GATE_REQUIRED_DIMENSIONS_def)
  with r show ?thesis by blast
qed

subsection \<open>Where the code and its description part\<close>

text \<open>
  Dimension 1 selects any rail, so a rail registered only as a large-value system is routed under
  dimension 1 although the registry does not approve it there.
\<close>

definition w_lvps_only :: FIATOperationsSpecialist where
  "w_lvps_only = w_specialist\<lparr>routing_tables := [fedwire\<lparr>dimensions := [LARGE_VALUE_PAYMENT_SYSTEM]\<rparr>]\<rparr>"

theorem dimension_one_routes_unapproved_path:
  "\<exists>d r. select w_sha w_kernel w_lvps_only (w_request (Some d) None None) (Rail_Call ''USD'' None None) =
      Inr (Routing r) \<and>
    \<not> enforce_approved_paths_only w_lvps_only (chosen_path (recommendation r)) MULTI_CURRENCY_RAIL_ROUTING"
proof -
  obtain d where d: "proceeds d" "bound d" by (rule w_governed)
  let ?q = "w_request (Some d) None None" and ?p = "fedwire\<lparr>dimensions := [LARGE_VALUE_PAYMENT_SYSTEM]\<rparr>"
  obtain v where v: "verify_eligibility (eligibility_inputs ?q) = Inr v" "all_passed v" using w_eligible by blast
  have "constructed_tables (routing_tables w_lvps_only)"
    by (simp add: constructed_tables_def w_lvps_only_def mk_RoutingTables_iff default_paths mk_ApprovedPath_def
        rail_class_def serves_def)
  then have wf: "well_formed w_sha w_lvps_only ?q"
    using w_well_formed [of "Some d" None None] by (simp add: well_formed_def)
  have c: "candidates_of w_lvps_only (Rail_Call ''USD'' None None) = [?p]"
    by (simp add: w_lvps_only_def find_rail_paths_def rail_class_def serves_def in_jurisdiction_def fedwire_def)
  have t: "trigger w_lvps_only ?q (Rail_Call ''USD'' None None) = None"
    using w_trigger(1) [of "Some d" None "Rail_Call ''USD'' None None"]
    by (simp add: trigger_def check_material_magnitude_def w_lvps_only_def)
  have q: "\<not> halted w_kernel ?q" "attribution ?q = Some w_attribution" "gate_open ?q MULTI_CURRENCY_RAIL_ROUTING"
    using d by (simp_all add: halted_def gate_open_def) (simp_all add: w_request_def)
  have "select w_sha w_kernel w_lvps_only ?q (Rail_Call ''USD'' None None) =
      Inr (Routing (routing_of w_sha ?q ?p MULTI_CURRENCY_RAIL_ROUTING v w_attribution))"
    unfolding select_routes [OF wf] using v c t q by simp
  moreover have "\<not> enforce_approved_paths_only w_lvps_only (path_id ?p) MULTI_CURRENCY_RAIL_ROUTING"
    by (simp add: enforce_approved_paths_only_def is_approved_def find_path_def w_lvps_only_def serves_def)
  moreover have "chosen_path (recommendation (routing_of w_sha ?q ?p MULTI_CURRENCY_RAIL_ROUTING v w_attribution)) = path_id ?p"
    by (simp add: routing_of_def)
  ultimately show ?thesis by metis
qed

text \<open>A path without jurisdictions matches no stated one: the default correspondents never do.\<close>

theorem default_correspondents_match_no_jurisdiction:
  "find_correspondent_paths default_routing_tables cur (Some j) = []"
  by (simp add: find_correspondent_paths_def default_routing_tables_def default_paths serves_def in_jurisdiction_def)

text \<open>The agent does not look at which obligation a proceeding decision governs, nor at its rail.\<close>

theorem gate_decision_is_interchangeable:
  assumes "proceeds g" "bound g" "proceeds g'" "bound g'"
  shows "select sha K a (q\<lparr>cato_cash_decision := Some g\<rparr>) c = select sha K a (q\<lparr>cato_cash_decision := Some g'\<rparr>) c"
proof -
  have consult: "consult_cash_leg_gate sha (q\<lparr>cato_cash_decision := Some x\<rparr>) d = Inr None"
    if "proceeds x" "bound x" for x d
    using that by (simp add: consult_cash_leg_gate_def proceeds_def)
  let ?q = "q\<lparr>cato_cash_decision := Some g\<rparr>" and ?q' = "q\<lparr>cato_cash_decision := Some g'\<rparr>"
  have f: "operation ?q' = operation ?q" "eligibility_inputs ?q' = eligibility_inputs ?q"
    "attribution ?q' = attribution ?q" "rq_emitted_at ?q' = rq_emitted_at ?q" "rq_halt ?q' = rq_halt ?q"
    "rq_amount ?q' = rq_amount ?q" by simp_all
  have e: "op_id ?q' = op_id ?q" "request_escalation sha ?q' d s gr why tier = request_escalation sha ?q d s gr why tier"
    for d s gr why tier
    by (simp_all only: request_escalation_def op_id_def f)
  have x: "build_eligibility_escalation sha ?q' d v = build_eligibility_escalation sha ?q d v"
    "build_attribution_escalation sha ?q' d = build_attribution_escalation sha ?q d" for d v
    by (simp_all only: build_eligibility_escalation_def build_attribution_escalation_def e)
  have k: "consult_cash_leg_gate sha ?q d = Inr None" "consult_cash_leg_gate sha ?q' d = Inr None" for d
    using consult assms by simp_all
  have "halt_escalation sha K ?q' d = halt_escalation sha K ?q d"
    "run_pre_path_guardrails sha ?q' d = run_pre_path_guardrails sha ?q d"
    "build_approved_paths_escalation sha ?q' d cr = build_approved_paths_escalation sha ?q d cr"
    "check_material_magnitude a ?q' d cur = check_material_magnitude a ?q d cur"
    "route_to_quorum sha ?q' s d cs = route_to_quorum sha ?q s d cs"
    "build_routing_decision sha ?q' p d v j w = build_routing_decision sha ?q p d v j w" for d cr cur s cs p v j w
    by (simp_all only: halt_escalation_def run_pre_path_guardrails_def build_approved_paths_escalation_def
        check_material_magnitude_def route_to_quorum_def build_quorum_authority_required_def
        build_routing_decision_def e f x)
  then have "select_path sha K a ?q d cur b cs cr = select_path sha K a ?q' d cur b cs cr" for d cur b cs cr
    by (simp only: select_path_def k if_cancel)
  then show ?thesis by (cases c) (simp_all add: select_defs)
qed

end
