(* ===== verification/Spec2Isabelle.thy ===== *)
theory Spec2Isabelle
  imports Acceptance_Props Margin_Impact Activation_Props Cato_Props Funding_Props CNS_Props Escalation Quorum Books_Projections_Props DSOR_Props
    CA_Lifecycle_Props CA_Entitlement_Props CA_Election_Props CA_Reconciliation_Props Clearing_Props
    CP_Rules_Props CP_Reserve_Props CP_Control_Props CP_Challenger_Props CP_Net_Capital_Props
    Deadline_Loaded Margin_Props Closed_Trade Secured_Funding FIAT_Props
begin

text \<open>
  A model of the settlement core of Project Atreides, in Isabelle/HOL: what the Python under
  \<open>atreides/\<close> decides about money and securities, translated definition by definition, with the
  theorems that make each part correct.

  \<^bold>\<open>The parts, and how they interact.\<close> An operation's cash leg is projected by the funding model
  (\<open>Funding_State\<close>: \<open>rails/funding_state.py\<close>) and handed, through \<open>to_gate_input\<close>, to the cash
  gate (\<open>Cato_Types\<close>, \<open>Cato_Gate\<close>: \<open>rails/cato_cash.py\<close>), which runs its numbered checks in order
  and recommends a rail, holds or escalates. Both read the shared vocabularies of \<open>Boundary\<close>
  (\<open>rails/boundary.py\<close>, \<open>finality.py\<close>, \<open>perimeter.py\<close>) and the classification of contingent
  obligations in \<open>Determination\<close> (\<open>rails/determination.py\<close>). The securities leg is netted and
  classified by \<open>CNS_Rail\<close> (\<open>rails/cns.py\<close>), which ages fails on the calendar of \<open>Market_Calendar\<close>
  (\<open>deadlines/calendar.py\<close>). What the gate escalates is kept by the register of \<open>Escalation\<close>
  (\<open>escalation/register.py\<close>); who may sign is constrained by \<open>Quorum\<close> (\<open>contracts/quorum.py\<close>);
  what settled is posted in \<open>Books_Ledger\<close> (\<open>books/ledger.py\<close>, \<open>dsor/books.py\<close>) and recorded in
  the append-only store of \<open>DSOR_Store\<close> (\<open>dsor/store.py\<close>, \<open>record.py\<close>, \<open>journal.py\<close>).

  \<^bold>\<open>Shared theories.\<close> \<open>Prelude\<close> has the result type of calls that may raise (\<open>Inl\<close> the error) and the
  simplification collections; \<open>Decimal_Context\<close> has Python's decimal arithmetic: a Decimal is a
  rational, \<open>dround n\<close> rounds half even to \<open>n\<close> significant digits, and a sum is the rounded sum, so
  lost digits are part of the model (the exponent range is not: no overflow to infinity). Floats
  are rationals with NaN and the infinities. \<open>Append_Log\<close> is the contract of the append-only
  registers: a call extends the log or raises and changes nothing, and \<open>run_calls\<close> runs any list of
  calls, refused ones included. It is interpreted for the escalation register (twice), the journal
  and the store. \<open>str_enum\<close> (in \<open>Boundary\<close>) is the contract of a \<open>StrEnum\<close>, interpreted by every
  enumeration read at a boundary; \<open>decimal_rounding\<close> is interpreted for both decimal contexts and
  \<open>deadline_calendar\<close> for every loaded calendar.

  \<^bold>\<open>Corporate actions.\<close> \<open>CA_Events\<close> (\<open>corporate_actions/events.py\<close>) has the event and its
  validators; \<open>CA_Lifecycle\<close> (\<open>lifecycle.py\<close>) the milestones of an event as a journal of steps and
  refusals; \<open>CA_Entitlement\<close> (\<open>entitlement.py\<close>) what each holder is owed, exactly; \<open>CA_Election\<close>
  (\<open>election.py\<close>) instructions, protects and covers, as a journal; \<open>CA_Reconciliation\<close>
  (\<open>movement.py\<close>, \<open>reconciliation.py\<close>) what moved against what was owed.

  \<^bold>\<open>Clearing.\<close> \<open>Clearing_Access\<close> (\<open>clearing/access.py\<close>), \<open>Clearing_FICC\<close> (\<open>ficc.py\<close>) and
  \<open>Clearing_Repo\<close> (\<open>repo.py\<close>): the path to the clearing house, the netting of novated obligations,
  and repo trades whose legs become such obligations.

  \<^bold>\<open>Customer protection.\<close> \<open>CP_Rules\<close> has the rule table (\<open>customer_protection/rules/\<close>) and the
  reader every engine reads it with, a state monad over the log of what was used and what was
  missing (\<open>common.py\<close>). \<open>CP_Reserve\<close>, \<open>CP_Control\<close>, \<open>CP_Net_Capital\<close> and \<open>CP_Challenger\<close> are the
  engines (\<open>reserve.py\<close>, \<open>control.py\<close>, \<open>net_capital.py\<close>, \<open>challenger.py\<close>). \<open>CP_Reader\<close> is the
  calculus their properties are proved in: what a clean log ensures, and what a step yields.

  \<^bold>\<open>Projections.\<close> \<open>Books_Projections\<close> (\<open>books/projections.py\<close>) reads the journal into the inputs of the
  reserve, net capital, control and margin engines. \<open>Books_Projections_Props\<close> shows that an account has
  one type or the journal is refused, that margin sees the sums of the journal, that the holdings handed
  to control add up to what is owned, and when the Exhibit A lines can be projected.

  \<^bold>\<open>Deadlines.\<close> \<open>Deadline_Time\<close> has dates, months and zoned instants; \<open>Deadline_Rules\<close>
  (\<open>deadlines/model.py\<close>, \<open>status.py\<close>, \<open>rules/\<close>) the rule table and its loader; \<open>Deadline_Engines\<close>
  the four engines (\<open>rule_204.py\<close>, \<open>acats.py\<close>, \<open>rule_17a_13.py\<close>, \<open>reserve_deposit.py\<close>), which
  count on the calendar of \<open>Market_Calendar\<close>. \<open>Deadline_Props\<close>, \<open>Deadline_Timely\<close> and
  \<open>Deadline_Loaded\<close> show when each is in time, that they grade alike, and that a verdict rests on
  quoted sources that have not expired (whether they are effective yet, the loader does not check).

  \<^bold>\<open>Margin, trades, funding evidence.\<close> \<open>Margin\<close> (\<open>margin/engine.py\<close>), \<open>Closed_Trade\<close>
  (\<open>closed_trade.py\<close>, \<open>reference_data.py\<close>) and \<open>Secured_Funding\<close> (\<open>rails/secured_funding.py\<close>).
  \<open>Advisory\<close> has the dispositions all advisory engines share.

  \<^bold>\<open>Custody and the Tier 2 agent.\<close> \<open>Custody_Contracts\<close> and \<open>Custody_Operations\<close>
  (\<open>contracts/\<close>) have the operation an agent is asked to route, with every validator of its parts.
  \<open>Routing_Tables\<close> and \<open>Eligibility\<close> (\<open>agents/tier2/routing_tables.py\<close>, \<open>eligibility.py\<close>) are the
  approved paths and the checks made before routing; \<open>FIAT_Outputs\<close> (\<open>outputs.py\<close>) the three outputs
  with their validators; \<open>FIAT_Specialist\<close> (\<open>fiat_operations_specialist.py\<close>) the agent: halt, quorum
  route, eligibility, attribution, cash gate, path, in that order. \<open>FIAT_Props\<close> shows the order, what
  each output carries, and that a routed cash leg passed the gate of \<open>Cato_Gate\<close>.

  \<^bold>\<open>Margin contracts and activation.\<close> \<open>Margin_Profile\<close> and \<open>Margin_Impact\<close>
  (\<open>contracts/margin_profile.py\<close>, \<open>margin_impact.py\<close>) have what is known of a venue's margin and the
  assessment of a break's consequence, ranked for a queue. \<open>Activation\<close> (\<open>activation/\<close>) has the refusal
  of a handoff, what an agent may emit and the supervisor that runs every agent once per tick;
  \<open>Activation_Props\<close> the invariant of every supervisor the calls reach, and what a halt leaves of a pass.

  \<^bold>\<open>Acceptance, messages and finality.\<close> \<open>Acceptance\<close> (\<open>acceptance/\<close>) judges an attested payload
  against the cash gate's decision and the possession-or-control result, and guards the preparation
  of its instruction. \<open>Decimal_Text\<close> has decimals as text; \<open>Messaging\<close> (\<open>messaging/canonical.py\<close>,
  \<open>profile.py\<close>, \<open>emit.py\<close>) the instruction and its XML trees; \<open>Readback\<close> (\<open>readback.py\<close>) the venue's
  status report, parsed and reconciled; \<open>Settlement_Join\<close> (\<open>receipt.py\<close>, \<open>finality_evidence.py\<close>,
  \<open>settlement_join.py\<close>) what joins an instruction to a finality assertion. \<open>Readback_Props\<close> and
  \<open>Settlement_Props\<close> show that nothing the venue sent is lost, when the join raises, and exactly when finality is published;
  of \<open>ElementTree\<close> they assume only that trees in one registered namespace read back as they were written
  (\<open>xml_reads_back\<close>). \<open>Acceptance_Props\<close> shows when a candidate is accepted, and that an instruction
  prepared on an obligation not free of payment is for money the gate found funded.

  \<^bold>\<open>What the lemmas show.\<close> \<open>Cato_Props\<close>: exactly when the gate proceeds and when it escalates, and
  what a proceeding decision guarantees of its rail, its evidence and its counterparty.
  \<open>Funding_Props\<close>: exactly when a leg settles, queues or fails, and which flows count.
  \<open>CNS_Props\<close>: conservation and order independence of netting, the classification of a settlement
  day, and the completeness of its breaks. \<open>Escalation\<close>, \<open>Quorum\<close>, \<open>Ledger_Props\<close>, \<open>DSOR_Props\<close>:
  invariants of every reachable state. This theory: the properties that span components. Theorems
  named without a claim number record divergences between the code and its own description; each
  is stated as what the code does on a concrete input.

  \<^bold>\<open>Bounds and fuel.\<close> No definition uses fuel. The loops of the calendar terminate because they
  stop at the last ordinal of \<open>datetime.date\<close>; all other loops are structural.

  \<^bold>\<open>Parameters.\<close> \<open>cannae_kernel\<close> is not part of the repository: halts, obligation identifiers,
  canonical bytes, digests and envelopes are arguments (\<open>kernel\<close>, \<open>codec\<close>, \<open>canon\<close>). So are
  pydantic's stripping of strings, JSON, and the reading of calendar files. Where a property needs
  something of them it is a hypothesis (a reader reads back what the writer wrote; no two of the
  payloads at hand collide), and the witness instantiates it.

  \<^bold>\<open>Not modelled.\<close> Wording of rationales and breaches (kept as constructors or codes with the
  values they mention), file and network access, the bytes of documents and messages (their trees are modelled for the cash leg),
  the Tier 1 agents, the concrete runners, the cockpit, the simulator and the tools.
\<close>

subsection \<open>From the funding projection to the gate\<close>

lemma proceeding_checks:
  assumes "evaluate K op f rails ofr uri age policy oid dig halt = Inr d" and "proceeds d"
  shows "check_assertable f = None \<and> check_funded f = None \<and> check_risk_controls f = None"
  using assms unfolding evaluate_decision_iff [OF assms(1)] gate_verdict_proceed_iff
  by (simp add: gate_check_list_def)

text \<open>
  C5: the gate releases a leg only when the funding projection it was given says that the leg
  settles, and that the committed position covers the obligation at the settlement instant: a
  leg the projection refuses to assert, fails or queues is never released.
\<close>

theorem proceeding_leg_settles:
  assumes "evaluate K op (to_gate_input (project_funding i)) rails ofr uri age policy oid dig halt = Inr d"
    and "proceeds d"
  shows "disposition (project_funding i) \<in> {FUNDED, FUNDED_QUALIFIED} \<and>
    obligation i \<le> settlement_position i"
  using proceeding_checks [OF assms] gate_funding_checks_pass [of i] by (simp add: settles_def)

lemma w_covered_controls: "controls_pass (w_inputs\<lparr>opening_position := 5000\<rparr>)"
  by (simp add: controls_pass_def w_inputs_def inputs_unrecognised_fields_def Boundary.unrecognised_def)

lemma w_covered_position: "settlement_position (w_inputs\<lparr>opening_position := 5000\<rparr>) = 5000"
  by (simp add: settlement_position_def w_inputs_def position_at_def)

theorem proceeding_leg_settles_witness:
  "\<exists>d. evaluate w_kernel w_operation (to_gate_input (project_funding (w_inputs\<lparr>opening_position := 5000\<rparr>)))
         [w_rail FEDWIRE] (Finite 0) None None None None None None = Inr d \<and> proceeds d \<and>
     obligation (w_inputs\<lparr>opening_position := 5000\<rparr>) \<le> settlement_position (w_inputs\<lparr>opening_position := 5000\<rparr>)"
proof -
  let ?i = "w_inputs\<lparr>opening_position := 5000\<rparr>"
  let ?f = "to_gate_input (project_funding ?i)"
  obtain d where d: "evaluate w_kernel w_operation ?f [w_rail FEDWIRE] (Finite 0) None None None None None None = Inr d"
    by (rule w_evaluates)
  have "obligation ?i \<le> settlement_position ?i" by (simp add: w_covered_position) (simp add: w_inputs_def)
  then have "check_assertable ?f = None \<and> check_funded ?f = None \<and> check_risk_controls ?f = None"
    using w_covered_controls by (simp add: gate_funding_checks_pass settles_pass_iff)
  then have c: "\<forall>c \<in> set (gate_check_list w_operation ?f [w_rail FEDWIRE] (Finite 0) None None). c = None"
    unfolding gate_check_list_silent gate_simps
    using w_serviceable by (auto simp: check_freshness_def) (simp_all add: w_operation_def)
  have "recommend_rail w_operation [w_rail FEDWIRE] (Finite 0) \<noteq> None"
    by (rule recommend_rail_total [OF _ w_serviceable]) (simp add: w_operation_def)
  with c have "proceeds d"
    unfolding evaluate_decision_iff [OF d] gate_verdict_proceed_iff
    by (simp add: op_unrecognised_fields_Nil) (simp add: w_operation_def)
  with proceeding_leg_settles [OF d] d show ?thesis by blast
qed

subsection \<open>From the venue registry to the gate\<close>

text \<open>
  a contingent payout at a venue whose revocation authority nobody has read is never
  released: classified from the profile of an unregistered venue, it holds the gate whatever the
  funding, the rails and the elapsed time.
\<close>

theorem unassessed_venue_never_clears:
  assumes "evaluate K op f rails ofr uri age policy oid dig halt = Inr d"
    and "absent_determination_profile venue = Inr p"
    and "determination_outcome op = Member (classify_determination p True determined elapsed)"
  shows "\<not> proceeds d"
proof -
  have "revocation_form p = RevocationForm.NOT_ASSESSED"
    using assms(2) by (auto simp: absent_determination_profile_def mk_DeterminationProfile_def)
  then have "determination_outcome op \<in> {Member AWAITING_DETERMINATION, Member QUALIFICATION_UNKNOWN}"
    using assms(3) by (simp add: classify_determination_def)
  then show ?thesis
    unfolding evaluate_decision_iff [OF assms(1)] gate_verdict_proceed_iff gate_check_list_silent by blast
qed

theorem unassessed_venue_never_clears_witness:
  "\<exists>d. evaluate w_kernel (w_operation\<lparr>determination_outcome := Member QUALIFICATION_UNKNOWN\<rparr>) w_funding
         [w_rail FEDWIRE] (Finite 0) None None None None None None = Inr d \<and> \<not> proceeds d"
proof -
  let ?op = "w_operation\<lparr>determination_outcome := Member QUALIFICATION_UNKNOWN\<rparr>"
  obtain d where d: "evaluate w_kernel ?op w_funding [w_rail FEDWIRE] (Finite 0) None None None None None None = Inr d"
    by (rule w_evaluates)
  obtain p where p: "absent_determination_profile ''V'' = Inr p"
    by (simp add: absent_determination_profile_def mk_DeterminationProfile_def)
  then have "revocation_form p = RevocationForm.NOT_ASSESSED"
    by (auto simp: absent_determination_profile_def mk_DeterminationProfile_def)
  then have "determination_outcome ?op = Member (classify_determination p True True None)"
    by (simp add: classify_determination_def)
  from unassessed_venue_never_clears [OF d p this] d show ?thesis by blast
qed

end
